(* ===== verification/Prelude.thy ===== *)
theory Prelude
imports
  Main
  "HOL-Library.AList"
  "HOL-Library.Char_ord"
  "HOL-Library.List_Lexorder"
  "HOL-Library.Product_Lexorder"
  "HOL-Library.Option_ord"
begin

text \<open>
  Shared vocabulary of the development: the exceptions of the modelled code as values,
  validators as ordered lists of guarded errors, Python text and dictionaries, and the
  lemmas and lemma collections that the component theories use for them.

  A Python string is a list of characters; a character stands for one code point below
  256. A Python dictionary is an association list in insertion order, updated in place as
  Python does, so that loops over its values see the entries in the code's order.
\<close>

named_theorems res_simps \<open>evaluation of results and validators\<close>
named_theorems dict_simps \<open>lookup after update in dictionaries\<close>

section \<open>Exceptions and results\<close>

text \<open>One constructor per exception class; the arguments are the values the code stores
  in the exception or puts in its message, enumerations by their string value.\<close>

datatype py_error =
    ValueError string
  | TypeError string
  | KeyError string
  | AssertionError
  | RuntimeError string
  | InvalidOperation
  | InvalidLifecycleTransition string string
  | InvalidCandidateState string string string
  | ObservedTimeSkewError string
  | InvalidFeedbackTaxonomyCombination string string string
  | UnscopedCandidatePersistenceError string
  | ReviewEntitlementDenied string
  | InvalidReviewAction string string string
  | ReviewAuthorityConflict string
  | InvalidConversionIntent string string
  | InvalidConversionOutcome string string
  | ConversionOutcomePolicyViolation string
  | PresentationReceiptCandidateStateError string
  | InvalidReportEvidencePack string string
  | InvalidAIMetadataEnvelope string
  | InvalidAIExplanationRequest string
  | InvalidAIWorkflowPack
  | InvalidAIWorkflowOutput string

type_synonym 'a res = "py_error + 'a"

definition bind_res :: "'a res \<Rightarrow> ('a \<Rightarrow> 'b res) \<Rightarrow> 'b res" where
  "bind_res r f = (case r of Inl e \<Rightarrow> Inl e | Inr a \<Rightarrow> f a)"

lemma bind_res_simps [simp]:
  "bind_res (Inl e) f = Inl e"
  "bind_res (Inr a) f = f a"
  by (simp_all add: bind_res_def)

lemma bind_res_Inr [res_simps]: "bind_res r f = Inr b \<longleftrightarrow> (\<exists>a. r = Inr a \<and> f a = Inr b)"
  by (cases r) auto

lemma bind_res_Inl [res_simps]:
  "bind_res r f = Inl e \<longleftrightarrow> r = Inl e \<or> (\<exists>a. r = Inr a \<and> f a = Inl e)"
  by (cases r) auto

definition is_ok :: "'a res \<Rightarrow> bool" where
  "is_ok r = (case r of Inl _ \<Rightarrow> False | Inr _ \<Rightarrow> True)"

lemma is_ok_simps [simp]: "is_ok (Inl e) = False" "is_ok (Inr a) = True"
  by (simp_all add: is_ok_def)

lemma is_ok_iff [res_simps]: "is_ok r \<longleftrightarrow> (\<exists>a. r = Inr a)"
  by (cases r) auto

text \<open>A validator (a \<open>__post_init__\<close> or a run of \<open>if ...: raise\<close>) is the list of its
  guards in the code's order, each with the exception it raises; the first guard that
  holds decides.\<close>

type_synonym guards = "(bool \<times> py_error) list"

fun checks :: "guards \<Rightarrow> 'a \<Rightarrow> 'a res" where
  "checks [] a = Inr a"
| "checks ((b, e) # cs) a = (if b then Inl e else checks cs a)"

fun passes :: "guards \<Rightarrow> bool" where
  "passes [] = True"
| "passes ((b, e) # cs) = (\<not> b \<and> passes cs)"

lemma passes_append [simp]: "passes (cs @ ds) \<longleftrightarrow> passes cs \<and> passes ds"
  by (induction cs rule: passes.induct) auto

lemma passes_concat [simp]: "passes (concat css) \<longleftrightarrow> list_all passes css"
  by (induction css) auto

lemma checks_Inr [simp]: "checks cs a = Inr b \<longleftrightarrow> passes cs \<and> b = a"
  by (induction cs rule: passes.induct) auto

declare checks.simps [simp del]

lemma checks_passes: "passes cs \<Longrightarrow> checks cs a = Inr a"
  by simp

lemma checks_fails: "\<not> passes cs \<Longrightarrow> \<exists>e. checks cs a = Inl e"
  by (induction cs rule: passes.induct) (auto simp: checks.simps)

lemma checks_cases: "(passes cs \<and> checks cs a = Inr a) \<or> (\<not> passes cs \<and> (\<exists>e. checks cs a = Inl e))"
  using checks_fails by fastforce

lemma bind_checks_Inr [res_simps]:
  "bind_res (checks cs a) f = Inr b \<longleftrightarrow> passes cs \<and> f a = Inr b"
  by (auto simp: bind_res_Inr)

lemma bind_checks_pass [simp]: "passes cs \<Longrightarrow> bind_res (checks cs a) f = f a"
  by (simp add: checks_passes)

lemma is_ok_checks [simp]: "is_ok (checks cs a) \<longleftrightarrow> passes cs"
  by (auto simp: is_ok_iff)

text \<open>Running a fallible function over a list stops at the first exception.\<close>

fun map_res :: "('a \<Rightarrow> 'b res) \<Rightarrow> 'a list \<Rightarrow> 'b list res" where
  "map_res f [] = Inr []"
| "map_res f (x # xs) =
     bind_res (f x) (\<lambda>y. bind_res (map_res f xs) (\<lambda>ys. Inr (y # ys)))"

lemma map_res_Inr: "map_res f xs = Inr ys \<longleftrightarrow> list_all2 (\<lambda>x y. f x = Inr y) xs ys"
  by (induction xs arbitrary: ys) (auto simp: bind_res_Inr list_all2_Cons1)

lemma map_res_total: "(\<And>x. x \<in> set xs \<Longrightarrow> f x = Inr (g x)) \<Longrightarrow> map_res f xs = Inr (map g xs)"
  by (induction xs) auto

section \<open>Effects\<close>

text \<open>An operation on a mutable object takes the state and returns a result, or an
  exception, together with the state at that moment: what was written before an exception
  stays written.\<close>

type_synonym ('s, 'a) act = "'s \<Rightarrow> 'a res \<times> 's"

definition act_return :: "'a \<Rightarrow> ('s, 'a) act" where
  "act_return a s = (Inr a, s)"

definition act_lift :: "'a res \<Rightarrow> ('s, 'a) act" where
  "act_lift r s = (r, s)"

definition act_bind :: "('s, 'a) act \<Rightarrow> ('a \<Rightarrow> ('s, 'b) act) \<Rightarrow> ('s, 'b) act" where
  "act_bind m f s = (case m s of (Inl e, s') \<Rightarrow> (Inl e, s') | (Inr a, s') \<Rightarrow> f a s')"

definition act_modify :: "('s \<Rightarrow> 's) \<Rightarrow> ('s, unit) act" where
  "act_modify f s = (Inr (), f s)"

definition act_guard :: "guards \<Rightarrow> ('s, unit) act" where
  "act_guard gs s = (checks gs (), s)"

lemma act_simps [simp]:
  "act_return a s = (Inr a, s)"
  "act_lift r s = (r, s)"
  "act_modify f s = (Inr (), f s)"
  by (simp_all add: act_return_def act_lift_def act_modify_def)

lemma act_bind_lift [simp]:
  "act_bind (act_lift (Inl e)) f s = (Inl e, s)"
  "act_bind (act_lift (Inr a)) f s = f a s"
  "act_bind (act_return a) f s = f a s"
  "act_bind (act_modify g) h s = h () (g s)"
  by (simp_all add: act_bind_def)

lemma act_guard_pass [simp]: "passes gs \<Longrightarrow> act_bind (act_guard gs) f s = f () s"
  by (simp add: act_bind_def act_guard_def checks_passes)

lemma act_guard_fail: "\<not> passes gs \<Longrightarrow> \<exists>e. act_bind (act_guard gs) f s = (Inl e, s)"
  using checks_fails[of gs "()"] by (auto simp: act_bind_def act_guard_def)

lemma act_guard_state: "snd (act_bind (act_guard gs) f s) = (if passes gs then snd (f () s) else s)"
proof (cases "passes gs")
  case False
  then show ?thesis using act_guard_fail[of gs f s] by auto
qed simp

lemma act_guard_Inr [res_simps]:
  "act_bind (act_guard gs) f s = (Inr b, s') \<longleftrightarrow> passes gs \<and> f () s = (Inr b, s')"
proof (cases "passes gs")
  case False
  then show ?thesis using act_guard_fail[of gs f s] by auto
qed simp

lemma act_bind_Inr [res_simps]:
  "act_bind m f s = (Inr b, s') \<longleftrightarrow> (\<exists>a t. m s = (Inr a, t) \<and> f a t = (Inr b, s'))"
  by (cases "m s"; cases "fst (m s)") (simp_all add: act_bind_def)

section \<open>Text\<close>

text \<open>The code points below 256 that \<open>str.strip\<close> removes and \<open>str.isspace\<close> accepts.\<close>

definition py_space :: "char \<Rightarrow> bool" where
  "py_space c \<longleftrightarrow> of_char c \<in> ({9, 10, 11, 12, 13, 28, 29, 30, 31, 32, 133, 160} :: nat set)"

definition py_strip :: "string \<Rightarrow> string" where
  "py_strip s = rev (dropWhile py_space (rev (dropWhile py_space s)))"

definition blank :: "string \<Rightarrow> bool" where
  "blank s \<longleftrightarrow> py_strip s = []"

lemma blank_iff: "blank s \<longleftrightarrow> list_all py_space s"
proof -
  have "dropWhile py_space (rev (dropWhile py_space s)) = [] \<longleftrightarrow> list_all py_space s"
  proof
    assume "dropWhile py_space (rev (dropWhile py_space s)) = []"
    then have "\<forall>c \<in> set (dropWhile py_space s). py_space c"
      by (simp add: dropWhile_eq_Nil_conv)
    then have "dropWhile py_space s = []"
      using hd_dropWhile list.set_sel(1) by blast
    then show "list_all py_space s"
      by (simp add: dropWhile_eq_Nil_conv list_all_iff)
  next
    assume "list_all py_space s"
    then have "dropWhile py_space s = []"
      by (simp add: dropWhile_eq_Nil_conv list_all_iff)
    then show "dropWhile py_space (rev (dropWhile py_space s)) = []"
      by (metis dropWhile.simps(1) rev.simps(1))
  qed
  then show ?thesis
    by (simp add: blank_def py_strip_def)
qed

lemma not_blank_Cons: "\<not> py_space c \<Longrightarrow> \<not> blank (c # cs)"
  by (simp add: blank_iff)

lemma blank_Nil [simp]: "blank []"
  by (simp add: blank_iff)

lemma not_blank_append: "\<not> blank s \<Longrightarrow> \<not> blank (s @ t)"
  by (simp add: blank_iff)

lemma py_strip_strip: "py_strip (py_strip s) = py_strip s"
proof -
  have drop: "dropWhile P xs = xs" if "xs \<noteq> [] \<Longrightarrow> \<not> P (hd xs)" for P and xs :: string
    using that by (cases xs) auto
  let ?t = "dropWhile py_space s"
  let ?u = "py_strip s"
  have "?u \<noteq> [] \<Longrightarrow> \<not> py_space (hd ?u)"
  proof -
    assume u: "?u \<noteq> []"
    obtain suffix where "?t = ?u @ suffix"
      unfolding py_strip_def
      by (metis rev_append rev_rev_ident takeWhile_dropWhile_id)
    then have "hd ?u = hd ?t" and "?t \<noteq> []" using u by auto
    then show ?thesis using hd_dropWhile by metis
  qed
  then have 1: "dropWhile py_space ?u = ?u" by (rule drop)
  have "dropWhile py_space (rev ?u) = rev ?u"
    by (rule drop) (metis hd_dropWhile py_strip_def rev_rev_ident)
  then show ?thesis using 1 by (metis py_strip_def rev_rev_ident)
qed

lemma py_strip_id: "list_all (\<lambda>c. \<not> py_space c) s \<Longrightarrow> py_strip s = s"
proof -
  assume "list_all (\<lambda>c. \<not> py_space c) s"
  moreover have drop: "dropWhile py_space t = t" if "list_all (\<lambda>c. \<not> py_space c) t" for t
    using that by (cases t) auto
  ultimately have "dropWhile py_space s = s" "dropWhile py_space (rev s) = rev s"
    by (simp_all add: drop list_all_rev)
  then show ?thesis by (simp add: py_strip_def)
qed

text \<open>\<open>str.lower\<close> on the letters of ASCII.\<close>

definition lower_char :: "char \<Rightarrow> char" where
  "lower_char c = (let n = of_char c :: nat in if 65 \<le> n \<and> n \<le> 90 then char_of (n + 32) else c)"

definition py_lower :: "string \<Rightarrow> string" where
  "py_lower s = map lower_char s"

fun is_prefix :: "string \<Rightarrow> string \<Rightarrow> bool" where
  "is_prefix [] s = True"
| "is_prefix (c # cs) [] = False"
| "is_prefix (c # cs) (d # ds) = (c = d \<and> is_prefix cs ds)"

fun substring :: "string \<Rightarrow> string \<Rightarrow> bool" where
  "substring t [] = (t = [])"
| "substring t (c # cs) = (is_prefix t (c # cs) \<or> substring t cs)"

lemma is_prefix_subset: "is_prefix p s \<Longrightarrow> set p \<subseteq> set s"
  by (induction p s rule: is_prefix.induct) auto

lemma substring_subset: "substring p s \<Longrightarrow> set p \<subseteq> set s"
  by (induction p s rule: substring.induct) (use is_prefix_subset in fastforce)+

lemma is_prefix_append: "is_prefix p (p @ s)"
  by (induction p) auto

fun join :: "string \<Rightarrow> string list \<Rightarrow> string" where
  "join sep [] = []"
| "join sep [s] = s"
| "join sep (s # t # ss) = s @ sep @ join sep (t # ss)"

text \<open>\<open>str(n)\<close> for integers.\<close>

definition digit_char :: "nat \<Rightarrow> char" where
  "digit_char d = char_of (48 + d)"

fun nat_str :: "nat \<Rightarrow> string" where
  "nat_str n = (if n < 10 then [digit_char n] else nat_str (n div 10) @ [digit_char (n mod 10)])"

declare nat_str.simps [simp del]

definition int_str :: "int \<Rightarrow> string" where
  "int_str i = (if i < 0 then ''-'' @ nat_str (nat (- i)) else nat_str (nat i))"

definition is_digit :: "char \<Rightarrow> bool" where
  "is_digit c \<longleftrightarrow> 48 \<le> (of_char c :: nat) \<and> (of_char c :: nat) \<le> 57"

lemma is_digit_digit_char: "d < 10 \<Longrightarrow> is_digit (digit_char d)"
  by (simp add: is_digit_def digit_char_def)

lemma digit_char_inj: "d < 10 \<Longrightarrow> e < 10 \<Longrightarrow> digit_char d = digit_char e \<Longrightarrow> d = e"
proof -
  assume a: "d < 10" "e < 10" "digit_char d = digit_char e"
  then have "(of_char (digit_char d) :: nat) = of_char (digit_char e)" by simp
  with a show "d = e" by (simp add: digit_char_def)
qed

lemma nat_str_digits: "list_all is_digit (nat_str n)"
  by (induction n rule: nat_str.induct)
    (subst nat_str.simps, auto simp: is_digit_digit_char)

lemma nat_str_nonempty [simp]: "nat_str n \<noteq> []" "[] \<noteq> nat_str n"
  by (subst nat_str.simps, simp)+

lemma nat_str_inj: "nat_str m = nat_str n \<Longrightarrow> m = n"
proof (induction m arbitrary: n rule: nat_str.induct)
  case (1 m)
  show ?case
  proof (cases "m < 10")
    case m: True
    show ?thesis
    proof (cases "n < 10")
      case True
      with m 1(2) show ?thesis
        by (subst (asm) (1 2) nat_str.simps) (simp add: digit_char_inj)
    next
      case False
      with m 1(2) show ?thesis
        by (subst (asm) (1 2) nat_str.simps) simp
    qed
  next
    case m: False
    show ?thesis
    proof (cases "n < 10")
      case True
      with m 1(2) show ?thesis
        by (subst (asm) (1 2) nat_str.simps) simp
    next
      case False
      with m 1(2) have eq: "nat_str (m div 10) = nat_str (n div 10)"
        "digit_char (m mod 10) = digit_char (n mod 10)"
        by (subst (asm) (1 2) nat_str.simps, simp)+
      from 1(1)[OF m eq(1)] have "m div 10 = n div 10" .
      moreover from eq(2) have "m mod 10 = n mod 10"
        by (simp add: digit_char_inj)
      ultimately show ?thesis by (metis div_mult_mod_eq)
    qed
  qed
qed

text \<open>A block of digits followed by a non-digit can be read back from a longer text.\<close>

lemma digits_prefix_unique:
  assumes "list_all is_digit ds" "list_all is_digit es" "\<not> is_digit c"
    and "ds @ c # xs = es @ c # ys"
  shows "ds = es \<and> xs = ys"
  using assms
proof (induction ds arbitrary: es)
  case Nil
  then show ?case by (cases es) auto
next
  case (Cons d ds)
  then show ?case by (cases es) auto
qed

section \<open>Dictionaries\<close>

type_synonym ('k, 'v) dict = "('k \<times> 'v) list"

abbreviation d_get :: "('k, 'v) dict \<Rightarrow> 'k \<Rightarrow> 'v option" where
  "d_get d k \<equiv> map_of d k"

abbreviation d_put :: "'k \<Rightarrow> 'v \<Rightarrow> ('k, 'v) dict \<Rightarrow> ('k, 'v) dict" where
  "d_put k v d \<equiv> AList.update k v d"

abbreviation d_values :: "('k, 'v) dict \<Rightarrow> 'v list" where
  "d_values d \<equiv> map snd d"

abbreviation d_keys :: "('k, 'v) dict \<Rightarrow> 'k list" where
  "d_keys d \<equiv> map fst d"

lemma d_get_put [simp, dict_simps]:
  "d_get (d_put k v d) j = (if j = k then Some v else d_get d j)"
  by (simp add: AList.update_conv')

lemma d_put_same: "d_get d k = Some v \<Longrightarrow> distinct (d_keys d) \<Longrightarrow> d_put k v d = d"
  by (induction d) (auto simp: image_iff)

lemma d_put_distinct [simp]: "distinct (d_keys (d_put k v d)) = distinct (d_keys d)"
  by (induction d) (auto simp: AList.dom_update)

lemma d_keys_put: "set (d_keys (d_put k v d)) = insert k (set (d_keys d))"
  by (simp add: AList.dom_update)

lemma d_values_put: "v' \<in> set (d_values (d_put k v d)) \<Longrightarrow> v' = v \<or> v' \<in> set (d_values d)"
  by (induction d) (auto split: if_splits)

lemma d_get_value: "d_get d k = Some v \<Longrightarrow> v \<in> set (d_values d)"
  by (metis map_of_SomeD image_eqI list.set_map snd_conv)

section \<open>Optional values\<close>

definition or_else :: "'a option \<Rightarrow> 'a \<Rightarrow> 'a" where
  "or_else x d = (case x of None \<Rightarrow> d | Some y \<Rightarrow> y)"

lemma or_else_simps [simp]: "or_else None d = d" "or_else (Some x) d = x"
  by (simp_all add: or_else_def)

lemma or_else_cases: "or_else x d = d \<or> x = Some (or_else x d)"
  by (cases x) auto

definition some_satisfies :: "('a \<Rightarrow> bool) \<Rightarrow> 'a option \<Rightarrow> bool" where
  "some_satisfies P x = (case x of None \<Rightarrow> False | Some y \<Rightarrow> P y)"

lemma some_satisfies_simps [simp]:
  "some_satisfies P None = False" "some_satisfies P (Some y) = P y"
  by (simp_all add: some_satisfies_def)

lemma find_Some_iff': "List.find P xs = Some x \<Longrightarrow> x \<in> set xs \<and> P x"
  by (auto simp: find_Some_iff)

section \<open>The guards the modules share\<close>

text \<open>\<open>", ".join(sorted(FORBIDDEN.intersection(mapping)))\<close>: the forbidden keys that leaked
  into a mapping, in order.\<close>

definition leaked_keys :: "string list \<Rightarrow> (string, 'v) dict \<Rightarrow> string list" where
  "leaked_keys forbidden d = sort (filter (\<lambda>k. k \<in> set (d_keys d)) forbidden)"

lemma leaked_keys_Nil [simp]:
  "leaked_keys forbidden d = [] \<longleftrightarrow> set forbidden \<inter> set (d_keys d) = {}"
proof -
  have "sort xs = [] \<longleftrightarrow> xs = []" for xs :: "string list"
    by (metis length_0_conv length_sort)
  then show ?thesis by (auto simp: leaked_keys_def filter_empty_conv)
qed

text \<open>\<open>_require_text\<close>, repeated in most modules with the same body.\<close>

definition require_text :: "string \<Rightarrow> string \<Rightarrow> guards" where
  "require_text value field_name = [(blank value, ValueError (field_name @ '' is required''))]"

definition require_opt_text :: "string option \<Rightarrow> string \<Rightarrow> guards" where
  "require_opt_text value field_name =
     (case value of None \<Rightarrow> [] | Some v \<Rightarrow> require_text v field_name)"

definition require_positive :: "int \<Rightarrow> string \<Rightarrow> guards" where
  "require_positive value field_name =
     [(value \<le> 0, ValueError (field_name @ '' must be positive''))]"

lemma passes_require_text [simp]: "passes (require_text v f) \<longleftrightarrow> \<not> blank v"
  by (simp add: require_text_def)

lemma passes_require_opt_text [simp]:
  "passes (require_opt_text v f) \<longleftrightarrow> (\<forall>x. v = Some x \<longrightarrow> \<not> blank x)"
  by (simp add: require_opt_text_def split: option.splits)

lemma passes_require_positive [simp]: "passes (require_positive v f) \<longleftrightarrow> 0 < v"
  by (auto simp: require_positive_def)

end
