(* ===== verification/Py_Time.thy ===== *)
theory Py_Time
imports Prelude
begin

text \<open>
  Dates and datetimes of Python's standard library as the code uses them: comparison,
  difference, addition of a duration, the awareness tests of the modules'
  \<open>_require_aware_utc\<close> helpers, and \<open>isoformat\<close>. A date is its proleptic Gregorian
  ordinal; a datetime is its wall-clock reading in microseconds since 0001-01-01T00:00:00
  with the offset from UTC, absent for a naive datetime. A duration is a number of
  microseconds. The bound of the year 9999 is not modelled.
\<close>

type_synonym py_date = int
type_synonym duration = int

record py_datetime =
  wall_us :: int
  utc_off :: "int option"

definition utc :: "int \<Rightarrow> py_datetime" where
  "utc us = \<lparr>wall_us = us, utc_off = Some 0\<rparr>"

definition inst :: "py_datetime \<Rightarrow> int" where
  "inst t = wall_us t - or_else (utc_off t) 0"

definition dt_less :: "py_datetime \<Rightarrow> py_datetime \<Rightarrow> bool" where
  "dt_less a b \<longleftrightarrow> inst a < inst b"

definition dt_le :: "py_datetime \<Rightarrow> py_datetime \<Rightarrow> bool" where
  "dt_le a b \<longleftrightarrow> inst a \<le> inst b"

text \<open>\<open>==\<close>: aware datetimes are equal when they are the same instant, and a naive datetime is
  never equal to an aware one.\<close>

definition dt_eq :: "py_datetime \<Rightarrow> py_datetime \<Rightarrow> bool" where
  "dt_eq a b \<longleftrightarrow> (utc_off a = None \<longleftrightarrow> utc_off b = None) \<and> inst a = inst b"

definition opt_dt_eq :: "py_datetime option \<Rightarrow> py_datetime option \<Rightarrow> bool" where
  "opt_dt_eq a b =
     (case (a, b) of (None, None) \<Rightarrow> True | (Some x, Some y) \<Rightarrow> dt_eq x y | _ \<Rightarrow> False)"

definition dt_max :: "py_datetime \<Rightarrow> py_datetime \<Rightarrow> py_datetime" where
  "dt_max a b = (if dt_less a b then b else a)"

definition dt_add :: "py_datetime \<Rightarrow> duration \<Rightarrow> py_datetime" where
  "dt_add t d = t\<lparr>wall_us := wall_us t + d\<rparr>"

definition us_seconds :: "int \<Rightarrow> duration" where
  "us_seconds n = n * 1000000"

definition us_minutes :: "int \<Rightarrow> duration" where
  "us_minutes n = us_seconds (60 * n)"

definition us_hours :: "int \<Rightarrow> duration" where
  "us_hours n = us_seconds (3600 * n)"

definition us_days :: "int \<Rightarrow> duration" where
  "us_days n = us_seconds (86400 * n)"

definition aware :: "py_datetime \<Rightarrow> bool" where
  "aware t \<longleftrightarrow> utc_off t \<noteq> None"

definition is_utc :: "py_datetime \<Rightarrow> bool" where
  "is_utc t \<longleftrightarrow> utc_off t = Some 0"

lemma is_utc_aware [simp]: "is_utc t \<Longrightarrow> aware t"
  by (simp add: is_utc_def aware_def)

lemma is_utc_utc [simp]: "is_utc (utc n)" "aware (utc n)" "inst (utc n) = n"
  by (simp_all add: is_utc_def aware_def utc_def inst_def)

lemma utc_inject [simp]: "utc m = utc n \<longleftrightarrow> m = n"
  by (simp add: utc_def)

lemma is_utc_eq: "is_utc t \<Longrightarrow> t = utc (inst t)"
  by (cases t) (simp add: is_utc_def utc_def inst_def)

lemma dt_eq_refl [simp]: "dt_eq a a" "opt_dt_eq x x"
  by (simp_all add: dt_eq_def opt_dt_eq_def split: option.splits)

lemma dt_eq_utc: "is_utc a \<Longrightarrow> is_utc b \<Longrightarrow> dt_eq a b \<longleftrightarrow> a = b"
  by (auto simp: dt_eq_def is_utc_def inst_def)

lemma inst_dt_add [simp]: "inst (dt_add t d) = inst t + d"
  by (simp add: inst_def dt_add_def)

lemma is_utc_dt_add [simp]: "is_utc (dt_add t d) = is_utc t" "aware (dt_add t d) = aware t"
  by (simp_all add: is_utc_def aware_def dt_add_def)

lemma inst_dt_max [simp]: "inst (dt_max a b) = max (inst a) (inst b)"
  by (simp add: dt_max_def dt_less_def)

lemma dt_max_preds [simp]:
  "is_utc a \<Longrightarrow> is_utc b \<Longrightarrow> is_utc (dt_max a b)"
  "aware a \<Longrightarrow> aware b \<Longrightarrow> aware (dt_max a b)"
  by (simp_all add: dt_max_def)

text \<open>The two helpers the modules define under the one name \<open>_require_aware_utc\<close>: in
  some of them any offset is accepted, in the others only the offset of UTC.\<close>

definition require_aware :: "py_datetime \<Rightarrow> string \<Rightarrow> guards" where
  "require_aware t field_name =
     [(utc_off t = None, ValueError (field_name @ '' must be timezone-aware''))]"

definition require_aware_utc :: "py_datetime \<Rightarrow> string \<Rightarrow> guards" where
  "require_aware_utc t field_name =
     [(utc_off t = None, ValueError (field_name @ '' must be timezone-aware'')),
      (utc_off t \<noteq> Some 0, ValueError (field_name @ '' must be UTC''))]"

definition opt_guards :: "'a option \<Rightarrow> ('a \<Rightarrow> guards) \<Rightarrow> guards" where
  "opt_guards x f = (case x of None \<Rightarrow> [] | Some y \<Rightarrow> f y)"

lemma passes_opt_guards [simp]:
  "passes (opt_guards x f) \<longleftrightarrow> (\<forall>y. x = Some y \<longrightarrow> passes (f y))"
  by (simp add: opt_guards_def split: option.splits)

lemma passes_require_aware [simp]: "passes (require_aware t f) \<longleftrightarrow> aware t"
  by (simp add: require_aware_def aware_def)

lemma passes_require_aware_utc [simp]: "passes (require_aware_utc t f) \<longleftrightarrow> is_utc t"
  by (auto simp: require_aware_utc_def is_utc_def)

section \<open>isoformat\<close>

definition days_before_month :: "int \<Rightarrow> int" where
  "days_before_month m =
     [0, 0, 31, 59, 90, 120, 151, 181, 212, 243, 273, 304, 334] ! nat m"

definition days_in_month :: "int \<Rightarrow> int" where
  "days_in_month m = [0, 31, 28, 31, 30, 31, 30, 31, 31, 30, 31, 30, 31] ! nat m"

definition ord2ymd :: "int \<Rightarrow> int \<times> int \<times> int" where
  "ord2ymd ordinal =
    (let n = ordinal - 1; n400 = n div 146097; n = n mod 146097;
         n100 = n div 36524; n = n mod 36524;
         n4 = n div 1461; n = n mod 1461;
         n1 = n div 365; n = n mod 365;
         year = n400 * 400 + 1 + n100 * 100 + n4 * 4 + n1
     in if n1 = 4 \<or> n100 = 4 then (year - 1, 12, 31)
        else let leap = (n1 = 3 \<and> (n4 \<noteq> 24 \<or> n100 = 3));
                 month = (n + 50) div 32;
                 preceding = days_before_month month + (if month > 2 \<and> leap then 1 else 0);
                 (month, preceding) =
                   (if preceding > n
                    then (month - 1, preceding - (days_in_month (month - 1)
                            + (if month - 1 = 2 \<and> leap then 1 else 0)))
                    else (month, preceding))
             in (year, month, n - preceding + 1))"

definition pad :: "nat \<Rightarrow> int \<Rightarrow> string" where
  "pad w i = (let s = int_str i in replicate (w - length s) (CHR ''0'') @ s)"

definition date_iso :: "py_date \<Rightarrow> string" where
  "date_iso d = (case ord2ymd d of (y, m, dd) \<Rightarrow> pad 4 y @ ''-'' @ pad 2 m @ ''-'' @ pad 2 dd)"

definition offset_iso :: "int \<Rightarrow> string" where
  "offset_iso off =
    (let a = \<bar>off\<bar>; secs = a div 1000000; us = a mod 1000000
     in (if off < 0 then ''-'' else ''+'') @ pad 2 (secs div 3600) @ '':'' @
        pad 2 (secs div 60 mod 60) @
        (if secs mod 60 \<noteq> 0 \<or> us \<noteq> 0
         then '':'' @ pad 2 (secs mod 60) @ (if us \<noteq> 0 then ''.'' @ pad 6 us else [])
         else []))"

definition dt_iso :: "py_datetime \<Rightarrow> string" where
  "dt_iso t =
    (let day = wall_us t div 86400000000; rest = wall_us t mod 86400000000;
         secs = rest div 1000000; us = rest mod 1000000
     in date_iso (day + 1) @ ''T'' @ pad 2 (secs div 3600) @ '':'' @
        pad 2 (secs div 60 mod 60) @ '':'' @ pad 2 (secs mod 60) @
        (if us \<noteq> 0 then ''.'' @ pad 6 us else []) @
        (case utc_off t of None \<Rightarrow> [] | Some off \<Rightarrow> offset_iso off))"

end
