(* ===== verification/Sha256.thy ===== *)
theory Sha256
imports Prelude "HOL-Library.Word"
begin

text \<open>
  \<open>hashlib.sha256(s.encode("utf-8")).hexdigest()\<close>, written out: the UTF-8 bytes of a
  string of code points below 256, the padding, the message schedule and compression of
  FIPS 180-4 over 32-bit words, and the lowercase hexadecimal digest. The identifiers,
  fingerprints and support references of the modelled code are all built from it.
\<close>

unbundle bit_operations_syntax

type_synonym w32 = "32 word"

definition utf8 :: "string \<Rightarrow> int list" where
  "utf8 s = concat (map (\<lambda>c. let n = of_char c :: int in
      if n < 128 then [n] else [192 + n div 64, 128 + n mod 64]) s)"

definition rotr :: "nat \<Rightarrow> w32 \<Rightarrow> w32" where
  "rotr n x = drop_bit n x OR push_bit (32 - n) x"

definition round_constants :: "w32 list" where
  "round_constants =
   [1116352408, 1899447441, 3049323471, 3921009573, 961987163, 1508970993, 2453635748,
    2870763221, 3624381080, 310598401, 607225278, 1426881987, 1925078388, 2162078206,
    2614888103, 3248222580, 3835390401, 4022224774, 264347078, 604807628, 770255983,
    1249150122, 1555081692, 1996064986, 2554220882, 2821834349, 2952996808, 3210313671,
    3336571891, 3584528711, 113926993, 338241895, 666307205, 773529912, 1294757372,
    1396182291, 1695183700, 1986661051, 2177026350, 2456956037, 2730485921, 2820302411,
    3259730800, 3345764771, 3516065817, 3600352804, 4094571909, 275423344, 430227734,
    506948616, 659060556, 883997877, 958139571, 1322822218, 1537002063, 1747873779,
    1955562222, 2024104815, 2227730452, 2361852424, 2428436474, 2756734187, 3204031479,
    3329325298]"

definition initial_hash :: "w32 list" where
  "initial_hash =
   [1779033703, 3144134277, 1013904242, 2773480762, 1359893119, 2600822924, 528734635,
    1541459225]"

definition be_bytes :: "nat \<Rightarrow> int \<Rightarrow> int list" where
  "be_bytes k n = map (\<lambda>i. n div 256 ^ (k - 1 - i) mod 256) [0..<k]"

definition sha_pad :: "int list \<Rightarrow> int list" where
  "sha_pad m = (let l = length m in
     m @ [128] @ replicate ((119 - l mod 64) mod 64) 0 @ be_bytes 8 (8 * int l))"

fun to_words :: "int list \<Rightarrow> w32 list" where
  "to_words (a # b # c # d # bs) =
     word_of_int (((a * 256 + b) * 256 + c) * 256 + d) # to_words bs"
| "to_words _ = []"

definition next_word :: "w32 list \<Rightarrow> w32" where
  \<comment> \<open>the argument holds the last sixteen words, latest first\<close>
  "next_word r =
    (let w2 = r ! 1; w7 = r ! 6; w15 = r ! 14; w16 = r ! 15;
         s0 = rotr 7 w15 XOR rotr 18 w15 XOR drop_bit 3 w15;
         s1 = rotr 17 w2 XOR rotr 19 w2 XOR drop_bit 10 w2
     in w16 + s0 + w7 + s1)"

fun extend_schedule :: "nat \<Rightarrow> w32 list \<Rightarrow> w32 list" where
  "extend_schedule 0 r = rev r"
| "extend_schedule (Suc k) r = extend_schedule k (next_word r # r)"

fun sha_rounds :: "(w32 \<times> w32) list \<Rightarrow> w32 list \<Rightarrow> w32 list" where
  "sha_rounds ((k, w) # kws) [a, b, c, d, e, f, g, h] =
    (let s1 = rotr 6 e XOR rotr 11 e XOR rotr 25 e;
         ch = (e AND f) XOR (NOT e AND g);
         t1 = h + s1 + ch + k + w;
         s0 = rotr 2 a XOR rotr 13 a XOR rotr 22 a;
         maj = (a AND b) XOR (a AND c) XOR (b AND c);
         t2 = s0 + maj
     in sha_rounds kws [t1 + t2, a, b, c, d + t1, e, f, g])"
| "sha_rounds _ s = s"

definition compress :: "w32 list \<Rightarrow> w32 list \<Rightarrow> w32 list" where
  "compress h block =
     map2 (+) h (sha_rounds (zip round_constants (extend_schedule 48 (rev block))) h)"

fun sha_blocks :: "nat \<Rightarrow> w32 list \<Rightarrow> w32 list \<Rightarrow> w32 list" where
  "sha_blocks 0 h ws = h"
| "sha_blocks (Suc n) h ws = sha_blocks n (compress h (take 16 ws)) (drop 16 ws)"

definition sha256_words :: "int list \<Rightarrow> w32 list" where
  "sha256_words m =
     (let ws = to_words (sha_pad m) in sha_blocks (length ws div 16) initial_hash ws)"

definition hex_char :: "int \<Rightarrow> char" where
  "hex_char d = (if d < 10 then char_of (nat (48 + d)) else char_of (nat (87 + d)))"

definition hex_word :: "w32 \<Rightarrow> string" where
  "hex_word w = map (\<lambda>i. hex_char (uint w div 16 ^ (7 - i) mod 16)) [0..<8]"

definition sha256_hex :: "string \<Rightarrow> string" where
  "sha256_hex s = concat (map hex_word (sha256_words (utf8 s)))"

section \<open>Shape of a digest\<close>

lemma sha_rounds_length: "length s = 8 \<Longrightarrow> length (sha_rounds kws s) = 8"
  by (induction kws s rule: sha_rounds.induct) (auto simp: Let_def)

lemma compress_length: "length h = 8 \<Longrightarrow> length (compress h b) = 8"
  by (simp add: compress_def sha_rounds_length)

lemma sha_blocks_length: "length h = 8 \<Longrightarrow> length (sha_blocks n h ws) = 8"
  by (induction n h ws rule: sha_blocks.induct) (auto simp: compress_length)

lemma sha256_words_length: "length (sha256_words m) = 8"
  by (simp add: sha256_words_def Let_def sha_blocks_length initial_hash_def)

definition is_hex :: "char \<Rightarrow> bool" where
  "is_hex c \<longleftrightarrow> (let n = of_char c :: nat in (48 \<le> n \<and> n \<le> 57) \<or> (97 \<le> n \<and> n \<le> 102))"

lemma is_hex_hex_char: "0 \<le> d \<Longrightarrow> d < 16 \<Longrightarrow> is_hex (hex_char d)"
  by (simp add: is_hex_def hex_char_def Let_def) arith

lemma hex_word_shape: "length (hex_word w) = 8 \<and> list_all is_hex (hex_word w)"
  by (simp add: hex_word_def list_all_iff is_hex_hex_char)

lemma concat_hex_shape:
  "length (concat (map hex_word ws)) = 8 * length ws \<and> list_all is_hex (concat (map hex_word ws))"
  by (induction ws) (auto simp: hex_word_shape)

lemma sha256_hex_length [simp]: "length (sha256_hex s) = 64"
  by (simp add: sha256_hex_def concat_hex_shape sha256_words_length)

lemma sha256_hex_hex: "list_all is_hex (sha256_hex s)"
  by (simp add: sha256_hex_def concat_hex_shape)

lemma py_space_not_hex: "is_hex c \<Longrightarrow> \<not> py_space c"
  by (auto simp: is_hex_def py_space_def Let_def)

lemma hex_not_blank: "s \<noteq> [] \<Longrightarrow> list_all is_hex s \<Longrightarrow> \<not> blank s"
  by (cases s) (auto simp: blank_iff py_space_not_hex)

lemma sha256_hex_nonempty [simp]: "sha256_hex s \<noteq> []"
  by (metis sha256_hex_length length_0_conv zero_neq_numeral)

lemma sha256_hex_not_blank [simp]: "\<not> blank (sha256_hex s)"
  by (rule hex_not_blank) (simp_all add: sha256_hex_hex)

end
