(* ===== verification/Json.thy ===== *)
theory Json
imports Sha256 "HOL-Library.Multiset"
begin

text \<open>
  \<open>json.dumps(payload, sort_keys=True, separators=(",", ":"))\<close> with the default
  \<open>ensure_ascii=True\<close>: the canonical text whose SHA-256 the code uses for idempotency
  fingerprints, event identifiers, evidence hashes and identity digests. Objects are
  association lists; \<open>sort_keys\<close> orders them by key.
\<close>

datatype json =
    JNull
  | JBool bool
  | JInt int
  | JStr string
  | JArr "json list"
  | JObj "(string \<times> json) list"

definition hex4 :: "nat \<Rightarrow> string" where
  "hex4 n = ''00'' @ [hex_char (int (n div 16)), hex_char (int (n mod 16))]"

definition backslash :: char where
  "backslash = char_of (92 :: nat)"

definition quote :: char where
  "quote = char_of (34 :: nat)"

definition esc_char :: "char \<Rightarrow> string" where
  "esc_char c =
    (let n = of_char c :: nat in
     if n = 34 then [backslash, quote]
     else if n = 92 then [backslash, backslash]
     else if n = 10 then [backslash, CHR ''n'']
     else if n = 13 then [backslash, CHR ''r'']
     else if n = 9 then [backslash, CHR ''t'']
     else if n = 12 then [backslash, CHR ''f'']
     else if n = 8 then [backslash, CHR ''b'']
     else if 32 \<le> n \<and> n \<le> 126 then [c]
     else [backslash, CHR ''u''] @ hex4 n)"

definition json_str :: "string \<Rightarrow> string" where
  "json_str s = [quote] @ concat (map esc_char s) @ [quote]"

fun json_dumps :: "json \<Rightarrow> string" where
  "json_dumps JNull = ''null''"
| "json_dumps (JBool b) = (if b then ''true'' else ''false'')"
| "json_dumps (JInt i) = int_str i"
| "json_dumps (JStr s) = json_str s"
| "json_dumps (JArr xs) = ''['' @ join '','' (map json_dumps xs) @ '']''"
| "json_dumps (JObj fs) =
     ''{'' @ join '','' (map (\<lambda>(k, t). json_str k @ '':'' @ t)
                         (sort_key fst (map (\<lambda>(k, v). (k, json_dumps v)) fs))) @ ''}''"

definition sha256_json :: "json \<Rightarrow> string" where
  "sha256_json j = sha256_hex (json_dumps j)"

definition opt_json :: "string option \<Rightarrow> json" where
  "opt_json x = (case x of None \<Rightarrow> JNull | Some s \<Rightarrow> JStr s)"

lemma sha256_json_shape [simp]:
  "length (sha256_json j) = 64" "\<not> blank (sha256_json j)" "sha256_json j \<noteq> []"
  by (simp_all add: sha256_json_def)

lemma sha256_json_hex: "list_all is_hex (sha256_json j)"
  by (simp add: sha256_json_def sha256_hex_hex)

text \<open>The canonical text does not depend on the order in which the caller built a
  dictionary.\<close>

lemma sort_key_perm_distinct:
  assumes "mset xs = mset ys" "distinct (map f xs)"
  shows "sort_key f xs = sort_key f ys"
proof -
  have "inj_on f (set xs)" using assms(2) by (simp add: distinct_map)
  moreover have "mset (sort_key f xs) = mset (sort_key f ys)" using assms(1) by simp
  ultimately show ?thesis
    by (intro map_sorted_distinct_set_unique[of f])
      (use assms in \<open>auto simp: distinct_map dest: mset_eq_setD mset_eq_imp_distinct_iff\<close>)
qed

theorem json_dumps_key_order:
  assumes "mset fs = mset gs" "distinct (map fst fs)"
  shows "json_dumps (JObj fs) = json_dumps (JObj gs)"
proof -
  let ?f = "\<lambda>(k :: string, v). (k, json_dumps v)"
  have keys: "map fst (map ?f fs) = map fst fs"
    by (simp add: comp_def split_beta)
  have "distinct (map fst (map ?f fs))"
    by (subst keys) (rule assms(2))
  then have "sort_key fst (map ?f fs) = sort_key fst (map ?f gs)"
    using assms(1) by (intro sort_key_perm_distinct) simp_all
  then show ?thesis by simp
qed

text \<open>The text of an object depends on its values only through their text.\<close>

lemma json_dumps_values:
  "map (\<lambda>(k, v). (k, json_dumps v)) fs = map (\<lambda>(k, v). (k, json_dumps v)) gs \<Longrightarrow>
   json_dumps (JObj fs) = json_dumps (JObj gs)"
  by (simp only: json_dumps.simps(6))

end
