(* ===== verification/Control.thy ===== *)
theory Control
imports Py_Time Json
begin

text \<open>
  The controls every mutation passes through: observed-time policies
  (\<open>control_time.py\<close>), audit events (\<open>audit.py\<close>), product-safe diagnostic identifiers
  (\<open>diagnostic_context.py\<close>) and idempotency identities and decisions
  (\<open>idempotency.py\<close>). The lemmas show that a tenant-scoped identity determines the
  tenant and the key, and that it never meets the system namespace.
\<close>

section \<open>Observed time\<close>

datatype acceptance_time_source = Server_Accepted | Legacy_Observed_Time_Assumed

record observed_time_policy =
  tp_policy_id :: string
  tp_maximum_past_skew :: duration
  tp_maximum_future_skew :: duration

definition REVIEW_DECISION_TIME_POLICY :: observed_time_policy where
  "REVIEW_DECISION_TIME_POLICY =
     \<lparr>tp_policy_id = ''idea-review-decision-observed-time-v1'',
      tp_maximum_past_skew = us_hours 24, tp_maximum_future_skew = us_minutes 5\<rparr>"

definition FEEDBACK_TIME_POLICY :: observed_time_policy where
  "FEEDBACK_TIME_POLICY =
     \<lparr>tp_policy_id = ''idea-feedback-observed-time-v1'',
      tp_maximum_past_skew = us_hours 24, tp_maximum_future_skew = us_minutes 5\<rparr>"

definition CONVERSION_INTENT_TIME_POLICY :: observed_time_policy where
  "CONVERSION_INTENT_TIME_POLICY =
     \<lparr>tp_policy_id = ''idea-conversion-intent-observed-time-v1'',
      tp_maximum_past_skew = us_hours 24, tp_maximum_future_skew = us_minutes 5\<rparr>"

definition DOWNSTREAM_OUTCOME_TIME_POLICY :: observed_time_policy where
  "DOWNSTREAM_OUTCOME_TIME_POLICY =
     \<lparr>tp_policy_id = ''idea-downstream-outcome-observed-time-v1'',
      tp_maximum_past_skew = us_days 30, tp_maximum_future_skew = us_minutes 5\<rparr>"

definition PRESENTATION_TIME_POLICY :: observed_time_policy where
  "PRESENTATION_TIME_POLICY =
     \<lparr>tp_policy_id = ''idea-presentation-observed-time-v1'',
      tp_maximum_past_skew = us_minutes 15, tp_maximum_future_skew = us_minutes 5\<rparr>"

definition LIFECYCLE_TRANSITION_TIME_POLICY :: observed_time_policy where
  "LIFECYCLE_TRANSITION_TIME_POLICY =
     \<lparr>tp_policy_id = ''idea-lifecycle-transition-observed-time-v1'',
      tp_maximum_past_skew = us_hours 24, tp_maximum_future_skew = us_minutes 5\<rparr>"

definition require_utc_offset :: "py_datetime \<Rightarrow> string \<Rightarrow> guards" where
  "require_utc_offset t field_name =
     [(utc_off t = None, ValueError (field_name @ '' must be timezone-aware'')),
      (utc_off t \<noteq> Some 0, ValueError (field_name @ '' must use UTC offset +00:00''))]"

definition require_observed_time_within_policy ::
    "py_datetime \<Rightarrow> py_datetime \<Rightarrow> observed_time_policy \<Rightarrow> guards" where
  "require_observed_time_within_policy observed accepted policy =
     require_utc_offset observed ''observed_at_utc'' @
     require_utc_offset accepted ''accepted_at_utc'' @
     [(dt_less observed (dt_add accepted (- tp_maximum_past_skew policy)),
       ObservedTimeSkewError (tp_policy_id policy)),
      (dt_less (dt_add accepted (tp_maximum_future_skew policy)) observed,
       ObservedTimeSkewError (tp_policy_id policy))]"

lemma passes_observed_time [simp]:
  "passes (require_observed_time_within_policy obs acc p) \<longleftrightarrow>
     is_utc obs \<and> is_utc acc \<and> inst acc - tp_maximum_past_skew p \<le> inst obs \<and>
     inst obs \<le> inst acc + tp_maximum_future_skew p"
  by (auto simp: require_observed_time_within_policy_def require_utc_offset_def is_utc_def dt_less_def)

section \<open>Audit events\<close>

definition FORBIDDEN_ATTRIBUTE_KEYS :: "string list" where
  "FORBIDDEN_ATTRIBUTE_KEYS =
     [''client_id'', ''client_name'', ''portfolio_id'', ''account_id'', ''holding_id'',
      ''request_body'', ''response_body'']"

record audit_event =
  au_event_type :: string
  au_actor_subject :: string
  au_outcome :: string
  au_occurred_at_utc :: py_datetime
  au_attributes :: "(string, string) dict"

definition audit_event_guards :: "audit_event \<Rightarrow> guards" where
  "audit_event_guards e =
     require_text (au_event_type e) ''event_type'' @
     require_text (au_actor_subject e) ''actor_subject'' @
     require_text (au_outcome e) ''outcome'' @
     require_aware (au_occurred_at_utc e) ''occurred_at_utc'' @
     [(leaked_keys FORBIDDEN_ATTRIBUTE_KEYS (au_attributes e) \<noteq> [],
       ValueError (''Audit event attributes contain sensitive keys: '' @
         join '', '' (leaked_keys FORBIDDEN_ATTRIBUTE_KEYS (au_attributes e))))]"

definition mk_audit_event ::
    "string \<Rightarrow> string \<Rightarrow> string \<Rightarrow> py_datetime \<Rightarrow> (string, string) dict \<Rightarrow> audit_event res" where
  "mk_audit_event event_type actor_subject outcome occurred_at_utc attributes =
     (let e = \<lparr>au_event_type = event_type, au_actor_subject = actor_subject, au_outcome = outcome,
               au_occurred_at_utc = occurred_at_utc, au_attributes = attributes\<rparr>
      in checks (audit_event_guards e) e)"

lemma mk_audit_event_Inr:
  "mk_audit_event ty actor out t attrs = Inr e \<Longrightarrow>
     \<not> blank actor \<and> aware t \<and> set FORBIDDEN_ATTRIBUTE_KEYS \<inter> set (d_keys (au_attributes e)) = {} \<and>
     e = \<lparr>au_event_type = ty, au_actor_subject = actor, au_outcome = out,
          au_occurred_at_utc = t, au_attributes = attrs\<rparr>"
  by (auto simp: mk_audit_event_def Let_def audit_event_guards_def)

lemma mk_audit_event_ok:
  "\<not> blank ty \<Longrightarrow> \<not> blank actor \<Longrightarrow> \<not> blank out \<Longrightarrow> aware t \<Longrightarrow>
   set FORBIDDEN_ATTRIBUTE_KEYS \<inter> set (d_keys attrs) = {} \<Longrightarrow>
   mk_audit_event ty actor out t attrs =
     Inr \<lparr>au_event_type = ty, au_actor_subject = actor, au_outcome = out,
          au_occurred_at_utc = t, au_attributes = attrs\<rparr>"
  by (simp add: mk_audit_event_def Let_def audit_event_guards_def)

section \<open>Diagnostic identifiers\<close>

definition is_alnum :: "char \<Rightarrow> bool" where
  "is_alnum c \<longleftrightarrow>
     (let n = of_char c :: nat in
      is_digit c \<or> (65 \<le> n \<and> n \<le> 90) \<or> (97 \<le> n \<and> n \<le> 122))"

definition context_id_char :: "char \<Rightarrow> bool" where
  "context_id_char c \<longleftrightarrow> is_alnum c \<or> c \<in> set ''.:-''"

definition matches_context_id :: "string \<Rightarrow> bool" where
  "matches_context_id s \<longleftrightarrow>
     s \<noteq> [] \<and> is_alnum (hd s) \<and> list_all context_id_char (tl s) \<and> length s \<le> 96"

definition SENSITIVE_CONTEXT_FRAGMENTS :: "string list" where
  "SENSITIVE_CONTEXT_FRAGMENTS =
     [''access_token'', ''api-key'', ''apikey'', ''authorization'', ''bearer'', ''client_secret'',
      ''password'', ''secret'', ''token'']"

definition word_char :: "char \<Rightarrow> bool" where
  "word_char c \<longleftrightarrow> is_alnum c \<or> c = CHR ''_''"

text \<open>The search for \<open>\bPB_[A-Z0-9_]{6,}\b\<close>, ignoring case: a word of at least nine
  characters that starts with \<open>PB_\<close>. The flag says whether the character before is part
  of a word.\<close>

fun portfolio_like :: "bool \<Rightarrow> string \<Rightarrow> bool" where
  "portfolio_like inside [] = False"
| "portfolio_like inside (c # cs) =
     ((\<not> inside \<and> is_prefix ''pb_'' (py_lower (c # cs)) \<and> 9 \<le> length (takeWhile word_char (c # cs)))
      \<or> portfolio_like (word_char c) cs)"

definition is_product_safe_context_id :: "string option \<Rightarrow> bool" where
  "is_product_safe_context_id v =
    (case v of
       None \<Rightarrow> False
     | Some s \<Rightarrow>
         let normalized = py_strip s in
         if normalized = [] \<or> 96 < length normalized then False
         else if \<not> matches_context_id normalized then False
         else if list_ex (\<lambda>f. substring f (py_lower normalized)) SENSITIVE_CONTEXT_FRAGMENTS then False
         else \<not> portfolio_like False normalized)"

definition require_product_safe_context_id :: "string option \<Rightarrow> string \<Rightarrow> string res" where
  "require_product_safe_context_id v field_name =
     (if is_product_safe_context_id v then Inr (py_strip (the v))
      else Inl (ValueError (field_name @ '' must be a product-safe diagnostic identifier'')))"

section \<open>Idempotency\<close>

datatype idempotency_decision = Idem_Accepted | Idem_Replayed | Idem_Conflict

record idempotency_record =
  ir_key :: string
  ir_payload_hash :: string

definition tenant_scoped_idempotency_identity :: "string \<Rightarrow> string \<Rightarrow> string res" where
  "tenant_scoped_idempotency_identity tenant_id idempotency_key =
     checks [(blank tenant_id, ValueError ''tenant_id must be non-empty''),
             (blank idempotency_key, ValueError ''idempotency_key must be non-empty'')]
       (''tenant:'' @ nat_str (length tenant_id) @ '':'' @ tenant_id @ idempotency_key)"

definition system_scoped_idempotency_identity :: "string \<Rightarrow> string res" where
  "system_scoped_idempotency_identity idempotency_key =
     checks [(blank idempotency_key, ValueError ''idempotency_key must be non-empty'')]
       (''system:'' @ idempotency_key)"

definition payload_fingerprint :: "(string, json) dict \<Rightarrow> string" where
  "payload_fingerprint payload = sha256_json (JObj payload)"

definition evaluate_idempotency ::
    "string \<Rightarrow> (string, json) dict \<Rightarrow> idempotency_record option \<Rightarrow>
     idempotency_decision \<times> idempotency_record" where
  "evaluate_idempotency key payload existing =
    (let record = \<lparr>ir_key = key, ir_payload_hash = payload_fingerprint payload\<rparr> in
     case existing of
       None \<Rightarrow> (Idem_Accepted, record)
     | Some e \<Rightarrow>
         if ir_key e = key \<and> ir_payload_hash e = ir_payload_hash record
         then (Idem_Replayed, e) else (Idem_Conflict, e))"

lemma tenant_identity_determines:
  assumes "tenant_scoped_idempotency_identity t k = Inr i"
    and "tenant_scoped_idempotency_identity t' k' = Inr i"
  shows "t = t' \<and> k = k'"
proof -
  have "nat_str (length t) @ CHR '':'' # (t @ k) = nat_str (length t') @ CHR '':'' # (t' @ k')"
    using assms by (auto simp: tenant_scoped_idempotency_identity_def)
  moreover have "\<not> is_digit (CHR '':'')" by (simp add: is_digit_def)
  ultimately have "nat_str (length t) = nat_str (length t') \<and> t @ k = t' @ k'"
    by (intro digits_prefix_unique[of _ _ "CHR '':''"] nat_str_digits)
  then show ?thesis using nat_str_inj append_eq_append_conv by blast
qed

lemma system_identity_determines:
  "system_scoped_idempotency_identity k = Inr i \<Longrightarrow> system_scoped_idempotency_identity k' = Inr i \<Longrightarrow> k = k'"
  by (auto simp: system_scoped_idempotency_identity_def)

lemma tenant_system_disjoint:
  "tenant_scoped_idempotency_identity t k = Inr i \<Longrightarrow> system_scoped_idempotency_identity k' \<noteq> Inr i"
  by (auto simp: tenant_scoped_idempotency_identity_def system_scoped_idempotency_identity_def)

lemma payload_fingerprint_order:
  "mset p = mset q \<Longrightarrow> distinct (d_keys p) \<Longrightarrow> payload_fingerprint p = payload_fingerprint q"
  using json_dumps_key_order by (simp only: payload_fingerprint_def sha256_json_def)

lemma evaluate_idempotency_cases:
  "fst (evaluate_idempotency key payload existing) = Idem_Accepted \<longleftrightarrow> existing = None"
  "fst (evaluate_idempotency key payload existing) = Idem_Replayed \<longleftrightarrow>
     existing = Some \<lparr>ir_key = key, ir_payload_hash = payload_fingerprint payload\<rparr>"
  "existing = Some e \<Longrightarrow> snd (evaluate_idempotency key payload existing) = e"
  by (cases existing; auto simp: evaluate_idempotency_def Let_def)+

text \<open>Every identifier the context accepts is made of the characters of the pattern.\<close>

lemma matches_context_id_chars: "matches_context_id s \<Longrightarrow> list_all context_id_char s"
  by (cases s) (simp_all add: matches_context_id_def context_id_char_def)

lemma product_safe_chars:
  "require_product_safe_context_id v f = Inr s \<Longrightarrow>
     s \<noteq> [] \<and> length s \<le> 96 \<and> list_all context_id_char s"
  using matches_context_id_chars[of s]
  by (auto simp: require_product_safe_context_id_def is_product_safe_context_id_def Let_def
      split: if_splits option.splits)

end
