(* ===== verification/Candidate_State.thy ===== *)
theory Candidate_State
imports Prelude
begin

text \<open>
  \<open>src/app/domain/candidate_state.py\<close> and the transition table of \<open>ideas.py\<close>: the
  lifecycle statuses and review postures of a candidate, which pairs are compatible, the
  posture a transition normalises to, and the graph of allowed lifecycle transitions. The
  lemmas show that the two tables fit together (an allowed transition of a compatible
  pair never raises and yields a compatible pair) and what the graph permits.
\<close>

section \<open>Statuses and postures\<close>

datatype lifecycle_status =
    Detected
  | Generated
  | Enriched
  | Scored
  | Governance_Checked
  | Ready_For_Review
  | Reviewed_By_Advisor
  | Approved
  | Converted_To_Proposal
  | Converted_To_Manage_Review
  | Converted_To_Report
  | Accepted
  | Rejected
  | Expired
  | Executed
  | Closed

fun lifecycle_value :: "lifecycle_status \<Rightarrow> string" where
  "lifecycle_value Detected = ''detected''"
| "lifecycle_value Generated = ''generated''"
| "lifecycle_value Enriched = ''enriched''"
| "lifecycle_value Scored = ''scored''"
| "lifecycle_value Governance_Checked = ''governance_checked''"
| "lifecycle_value Ready_For_Review = ''ready_for_review''"
| "lifecycle_value Reviewed_By_Advisor = ''reviewed_by_advisor''"
| "lifecycle_value Approved = ''approved''"
| "lifecycle_value Converted_To_Proposal = ''converted_to_proposal''"
| "lifecycle_value Converted_To_Manage_Review = ''converted_to_manage_review''"
| "lifecycle_value Converted_To_Report = ''converted_to_report''"
| "lifecycle_value Accepted = ''accepted''"
| "lifecycle_value Rejected = ''rejected''"
| "lifecycle_value Expired = ''expired''"
| "lifecycle_value Executed = ''executed''"
| "lifecycle_value Closed = ''closed''"

datatype review_posture =
    Not_Reviewed
  | Advisor_Review_Required
  | Advisor_Reviewed
  | Approved_For_Conversion
  | Posture_Rejected
  | Suppressed
  | No_Action
  | PM_Review_Required
  | Compliance_Review_Required

fun posture_value :: "review_posture \<Rightarrow> string" where
  "posture_value Not_Reviewed = ''not_reviewed''"
| "posture_value Advisor_Review_Required = ''advisor_review_required''"
| "posture_value Advisor_Reviewed = ''advisor_reviewed''"
| "posture_value Approved_For_Conversion = ''approved_for_conversion''"
| "posture_value Posture_Rejected = ''rejected''"
| "posture_value Suppressed = ''suppressed''"
| "posture_value No_Action = ''no_action''"
| "posture_value PM_Review_Required = ''pm_review_required''"
| "posture_value Compliance_Review_Required = ''compliance_review_required''"

definition CANDIDATE_STATE_POLICY_VERSION :: string where
  "CANDIDATE_STATE_POLICY_VERSION = ''idea-candidate-state-v1''"

definition discovery_postures :: "review_posture set" where
  "discovery_postures =
     {Not_Reviewed, Advisor_Review_Required, PM_Review_Required, Compliance_Review_Required,
      Suppressed}"

definition REVIEWABLE_LIFECYCLE_STATUSES :: "lifecycle_status set" where
  "REVIEWABLE_LIFECYCLE_STATUSES =
     {Generated, Enriched, Scored, Governance_Checked, Ready_For_Review}"

fun allowed_postures :: "lifecycle_status \<Rightarrow> review_posture set" where
  "allowed_postures Detected = discovery_postures"
| "allowed_postures Generated = discovery_postures"
| "allowed_postures Enriched = discovery_postures"
| "allowed_postures Scored = discovery_postures"
| "allowed_postures Governance_Checked = discovery_postures"
| "allowed_postures Ready_For_Review =
     {Advisor_Review_Required, PM_Review_Required, Compliance_Review_Required, Suppressed}"
| "allowed_postures Reviewed_By_Advisor =
     {Advisor_Reviewed, PM_Review_Required, Compliance_Review_Required, Suppressed}"
| "allowed_postures Approved = {Approved_For_Conversion}"
| "allowed_postures Converted_To_Proposal = {Approved_For_Conversion}"
| "allowed_postures Converted_To_Manage_Review = {Approved_For_Conversion}"
| "allowed_postures Converted_To_Report = {Approved_For_Conversion}"
| "allowed_postures Accepted = {Approved_For_Conversion}"
| "allowed_postures Rejected = {Posture_Rejected}"
| "allowed_postures Expired = {No_Action}"
| "allowed_postures Executed = {Approved_For_Conversion}"
| "allowed_postures Closed = {No_Action}"

fun normalized_transition_posture :: "lifecycle_status \<Rightarrow> review_posture option" where
  "normalized_transition_posture Reviewed_By_Advisor = Some Advisor_Reviewed"
| "normalized_transition_posture Approved = Some Approved_For_Conversion"
| "normalized_transition_posture Converted_To_Proposal = Some Approved_For_Conversion"
| "normalized_transition_posture Converted_To_Manage_Review = Some Approved_For_Conversion"
| "normalized_transition_posture Converted_To_Report = Some Approved_For_Conversion"
| "normalized_transition_posture Accepted = Some Approved_For_Conversion"
| "normalized_transition_posture Rejected = Some Posture_Rejected"
| "normalized_transition_posture Expired = Some No_Action"
| "normalized_transition_posture Executed = Some Approved_For_Conversion"
| "normalized_transition_posture Closed = Some No_Action"
| "normalized_transition_posture _ = None"

fun default_transition_posture :: "lifecycle_status \<Rightarrow> review_posture option" where
  "default_transition_posture Ready_For_Review = Some Advisor_Review_Required"
| "default_transition_posture _ = None"

definition candidate_state_is_compatible :: "lifecycle_status \<Rightarrow> review_posture \<Rightarrow> bool" where
  "candidate_state_is_compatible l p \<longleftrightarrow> p \<in> allowed_postures l"

definition validate_candidate_state ::
    "string \<Rightarrow> lifecycle_status \<Rightarrow> review_posture \<Rightarrow> guards" where
  "validate_candidate_state candidate_id l p =
     [(\<not> candidate_state_is_compatible l p,
       InvalidCandidateState candidate_id (lifecycle_value l) (posture_value p))]"

definition review_posture_for_transition ::
    "string \<Rightarrow> review_posture \<Rightarrow> lifecycle_status \<Rightarrow> review_posture res" where
  "review_posture_for_transition candidate_id current target =
    (case normalized_transition_posture target of
       Some p \<Rightarrow> Inr p
     | None \<Rightarrow>
         if current \<in> allowed_postures target then Inr current
         else (case default_transition_posture target of
                 Some p \<Rightarrow> Inr p
               | None \<Rightarrow> Inl (InvalidCandidateState candidate_id (lifecycle_value target)
                                (posture_value current))))"

section \<open>Allowed lifecycle transitions\<close>

fun ALLOWED_LIFECYCLE_TRANSITIONS :: "lifecycle_status \<Rightarrow> lifecycle_status set" where
  "ALLOWED_LIFECYCLE_TRANSITIONS Detected = {Generated, Expired, Closed}"
| "ALLOWED_LIFECYCLE_TRANSITIONS Generated = {Enriched, Expired, Closed}"
| "ALLOWED_LIFECYCLE_TRANSITIONS Enriched = {Scored, Governance_Checked, Expired, Closed}"
| "ALLOWED_LIFECYCLE_TRANSITIONS Scored =
     {Governance_Checked, Ready_For_Review, Expired, Closed}"
| "ALLOWED_LIFECYCLE_TRANSITIONS Governance_Checked =
     {Ready_For_Review, Rejected, Expired, Closed}"
| "ALLOWED_LIFECYCLE_TRANSITIONS Ready_For_Review =
     {Reviewed_By_Advisor, Rejected, Expired, Closed}"
| "ALLOWED_LIFECYCLE_TRANSITIONS Reviewed_By_Advisor = {Approved, Rejected, Expired, Closed}"
| "ALLOWED_LIFECYCLE_TRANSITIONS Approved =
     {Converted_To_Proposal, Converted_To_Manage_Review, Converted_To_Report, Expired, Closed}"
| "ALLOWED_LIFECYCLE_TRANSITIONS Converted_To_Proposal = {Rejected, Closed}"
| "ALLOWED_LIFECYCLE_TRANSITIONS Converted_To_Manage_Review = {Rejected, Closed}"
| "ALLOWED_LIFECYCLE_TRANSITIONS Converted_To_Report = {Rejected, Closed}"
| "ALLOWED_LIFECYCLE_TRANSITIONS Accepted = {Closed}"
| "ALLOWED_LIFECYCLE_TRANSITIONS Rejected = {Closed}"
| "ALLOWED_LIFECYCLE_TRANSITIONS Expired = {Closed}"
| "ALLOWED_LIFECYCLE_TRANSITIONS Executed = {Closed}"
| "ALLOWED_LIFECYCLE_TRANSITIONS Closed = {}"

definition OWNED_WORKFLOW_LIFECYCLE_STATUSES :: "lifecycle_status set" where
  "OWNED_WORKFLOW_LIFECYCLE_STATUSES =
     {Reviewed_By_Advisor, Approved, Converted_To_Proposal, Converted_To_Manage_Review,
      Converted_To_Report, Accepted, Rejected, Expired, Executed, Closed}"

definition DOWNSTREAM_AUTHORITY_LIFECYCLE_STATUSES :: "lifecycle_status set" where
  "DOWNSTREAM_AUTHORITY_LIFECYCLE_STATUSES = {Accepted, Executed}"

definition CALLER_SETTABLE_LIFECYCLE_STATUSES :: "lifecycle_status set" where
  "CALLER_SETTABLE_LIFECYCLE_STATUSES = - OWNED_WORKFLOW_LIFECYCLE_STATUSES"

definition validate_caller_settable_lifecycle_status :: "lifecycle_status \<Rightarrow> guards" where
  "validate_caller_settable_lifecycle_status target =
     [(target \<in> OWNED_WORKFLOW_LIFECYCLE_STATUSES,
       ValueError (lifecycle_value target @
         '' is reserved for its owned review, conversion, expiry, or downstream outcome workflow and cannot be set through generic lifecycle transitions''))]"

section \<open>The tables fit together\<close>

lemmas candidate_state_defs =
  candidate_state_is_compatible_def review_posture_for_transition_def discovery_postures_def

lemma transition_posture_compatible:
  assumes "candidate_state_is_compatible l p" and "t \<in> ALLOWED_LIFECYCLE_TRANSITIONS l"
  obtains p' where "review_posture_for_transition cid p t = Inr p'"
    and "candidate_state_is_compatible t p'"
  using assms by (cases l; cases t) (auto simp: candidate_state_defs)

text \<open>A status and posture pair moves by one transition.\<close>

definition state_step ::
    "lifecycle_status \<times> review_posture \<Rightarrow> lifecycle_status \<Rightarrow> (lifecycle_status \<times> review_posture) option"
where
  "state_step s t =
    (if t \<in> ALLOWED_LIFECYCLE_TRANSITIONS (fst s)
     then (case review_posture_for_transition [] (snd s) t of
             Inl _ \<Rightarrow> None | Inr p \<Rightarrow> Some (t, p))
     else None)"

fun lifecycle_rank :: "lifecycle_status \<Rightarrow> nat" where
  "lifecycle_rank Detected = 0"
| "lifecycle_rank Generated = 1"
| "lifecycle_rank Enriched = 2"
| "lifecycle_rank Scored = 3"
| "lifecycle_rank Governance_Checked = 4"
| "lifecycle_rank Ready_For_Review = 5"
| "lifecycle_rank Reviewed_By_Advisor = 6"
| "lifecycle_rank Approved = 7"
| "lifecycle_rank Closed = 10"
| "lifecycle_rank Converted_To_Proposal = 8"
| "lifecycle_rank Converted_To_Manage_Review = 8"
| "lifecycle_rank Converted_To_Report = 8"
| "lifecycle_rank _ = 9"

lemma transition_rank: "t \<in> ALLOWED_LIFECYCLE_TRANSITIONS s \<Longrightarrow> lifecycle_rank s < lifecycle_rank t"
  by (cases s) auto

text \<open>A run of the lifecycle: each status is an allowed target of the one before.\<close>

fun lifecycle_run :: "lifecycle_status \<Rightarrow> lifecycle_status list \<Rightarrow> bool" where
  "lifecycle_run s [] = True"
| "lifecycle_run s (t # ts) = (t \<in> ALLOWED_LIFECYCLE_TRANSITIONS s \<and> lifecycle_run t ts)"

lemma lifecycle_run_append:
  "lifecycle_run s (ts @ us) \<longleftrightarrow> lifecycle_run s ts \<and> lifecycle_run (last (s # ts)) us"
  by (induction ts arbitrary: s) auto

lemma lifecycle_run_rank:
  "lifecycle_run s ts \<Longrightarrow> lifecycle_rank s + length ts \<le> lifecycle_rank (last (s # ts))"
proof (induction ts arbitrary: s)
  case (Cons t ts)
  then have "lifecycle_rank s < lifecycle_rank t"
    and "lifecycle_rank t + length ts \<le> lifecycle_rank (last (t # ts))"
    by (auto intro: transition_rank)
  then show ?case by simp
qed simp

lemma lifecycle_rank_le: "lifecycle_rank s \<le> 10"
  by (cases s) auto

definition CONVERTED_STATUSES :: "lifecycle_status set" where
  "CONVERTED_STATUSES = {Converted_To_Proposal, Converted_To_Manage_Review, Converted_To_Report}"

lemma into_converted: "t \<in> CONVERTED_STATUSES \<Longrightarrow> t \<in> ALLOWED_LIFECYCLE_TRANSITIONS s \<Longrightarrow> s = Approved"
  by (cases s) (auto simp: CONVERTED_STATUSES_def)

lemma into_approved: "Approved \<in> ALLOWED_LIFECYCLE_TRANSITIONS s \<Longrightarrow> s = Reviewed_By_Advisor"
  by (cases s) auto

lemma into_reviewed: "Reviewed_By_Advisor \<in> ALLOWED_LIFECYCLE_TRANSITIONS s \<Longrightarrow> s = Ready_For_Review"
  by (cases s) auto

text \<open>The predecessor of a position of a run is the status before it.\<close>

lemma lifecycle_run_predecessor:
  "lifecycle_run s ts \<Longrightarrow> t \<in> set ts \<Longrightarrow>
   \<exists>r. (r = s \<or> r \<in> set ts) \<and> t \<in> ALLOWED_LIFECYCLE_TRANSITIONS r"
  by (induction ts arbitrary: s) auto

lemma downstream_not_target:
  "t \<in> ALLOWED_LIFECYCLE_TRANSITIONS s \<Longrightarrow> t \<notin> DOWNSTREAM_AUTHORITY_LIFECYCLE_STATUSES"
  by (cases s) (auto simp: DOWNSTREAM_AUTHORITY_LIFECYCLE_STATUSES_def)

end
