(* ===== verification/Sources.thy ===== *)
theory Sources
imports Py_Time Json
begin

text \<open>
  Source references and what the code derives from a set of them: the digest shape
  (\<open>evidence_digest.py\<close>), revision claims, the revision vector digest and the
  coherence of a source cut (\<open>source_revision.py\<close>), the \<open>SourceRef\<close> of
  \<open>ideas.py\<close>, the evidence hash (\<open>evidence_hashing.py\<close>) and access scopes
  (\<open>access_scope.py\<close>). The lemmas show that the digests and the posture depend on
  the set of the sources and not on the order in which they were read.
\<close>

section \<open>Enumerations\<close>

datatype source_system =
  Lotus_Core | Lotus_Performance | Lotus_Risk | Lotus_Advise | Lotus_Manage | Lotus_Report
| Lotus_Render | Lotus_Archive | Lotus_AI

fun source_system_value :: "source_system \<Rightarrow> string" where
  "source_system_value Lotus_Core = ''lotus-core''"
| "source_system_value Lotus_Performance = ''lotus-performance''"
| "source_system_value Lotus_Risk = ''lotus-risk''"
| "source_system_value Lotus_Advise = ''lotus-advise''"
| "source_system_value Lotus_Manage = ''lotus-manage''"
| "source_system_value Lotus_Report = ''lotus-report''"
| "source_system_value Lotus_Render = ''lotus-render''"
| "source_system_value Lotus_Archive = ''lotus-archive''"
| "source_system_value Lotus_AI = ''lotus-ai''"

datatype evidence_freshness = Fresh_Current | Fresh_Stale | Fresh_Expired | Fresh_Unavailable

fun freshness_value :: "evidence_freshness \<Rightarrow> string" where
  "freshness_value Fresh_Current = ''current''"
| "freshness_value Fresh_Stale = ''stale''"
| "freshness_value Fresh_Expired = ''expired''"
| "freshness_value Fresh_Unavailable = ''unavailable''"

datatype reconciliation_posture = Rec_Complete | Rec_Partial | Rec_Failed | Rec_Not_Applicable | Rec_Unknown

fun reconciliation_value :: "reconciliation_posture \<Rightarrow> string" where
  "reconciliation_value Rec_Complete = ''complete''"
| "reconciliation_value Rec_Partial = ''partial''"
| "reconciliation_value Rec_Failed = ''failed''"
| "reconciliation_value Rec_Not_Applicable = ''not_applicable''"
| "reconciliation_value Rec_Unknown = ''unknown''"

datatype source_cut_posture_t = Cut_Coherent | Cut_Coherent_Tolerance | Cut_Mixed | Cut_Partial | Cut_Unknown

fun cut_value :: "source_cut_posture_t \<Rightarrow> string" where
  "cut_value Cut_Coherent = ''coherent''"
| "cut_value Cut_Coherent_Tolerance = ''coherent_with_declared_tolerance''"
| "cut_value Cut_Mixed = ''mixed''"
| "cut_value Cut_Partial = ''partial''"
| "cut_value Cut_Unknown = ''unknown''"

definition SOURCE_CUT_AUTHORITY_POLICY_VERSION :: string where
  "SOURCE_CUT_AUTHORITY_POLICY_VERSION = ''idea-source-cut-authority-v1''"

definition source_cut_is_authoritative :: "source_cut_posture_t \<Rightarrow> bool" where
  "source_cut_is_authoritative p \<longleftrightarrow> p \<in> {Cut_Coherent, Cut_Coherent_Tolerance}"

lemma source_system_value_inj [simp]:
  "source_system_value a = source_system_value b \<longleftrightarrow> a = b"
  by (cases a; cases b) simp_all

section \<open>Digest shape\<close>

definition is_sha256_digest :: "string \<Rightarrow> bool" where
  "is_sha256_digest v \<longleftrightarrow>
     is_prefix ''sha256:'' v \<and> length v = 71 \<and> list_all is_hex (drop 7 v)"

text \<open>\<open>repr\<close> of a string of characters below 256, which the messages quote.\<close>

definition repr_char :: "char \<Rightarrow> char \<Rightarrow> string" where
  "repr_char q c =
    (let n = of_char c :: nat in
     if c = q \<or> n = 92 then [char_of (92 :: nat), c]
     else if n = 9 then [char_of (92 :: nat), CHR ''t'']
     else if n = 10 then [char_of (92 :: nat), CHR ''n'']
     else if n = 13 then [char_of (92 :: nat), CHR ''r'']
     else if n < 32 \<or> (127 \<le> n \<and> n \<le> 160) \<or> n = 173
     then [char_of (92 :: nat), CHR ''x''] @ drop 2 (hex4 n) else [c])"

definition py_repr :: "string \<Rightarrow> string" where
  "py_repr s =
    (let single = char_of (39 :: nat); double = char_of (34 :: nat);
         q = (if single \<in> set s \<and> double \<notin> set s then double else single)
     in [q] @ concat (map (repr_char q) s) @ [q])"

definition require_sha256_digest :: "string \<Rightarrow> string \<Rightarrow> guards" where
  "require_sha256_digest v field_name =
     [(\<not> is_sha256_digest v,
       ValueError (field_name @ '' must be a sha256:<64 lowercase hex> digest, got '' @ py_repr v))]"

definition LEGACY_REVISION_VECTOR_SENTINEL :: string where
  "LEGACY_REVISION_VECTOR_SENTINEL = ''legacy:unknown''"

definition require_revision_vector_digest :: "string \<Rightarrow> string \<Rightarrow> guards" where
  "require_revision_vector_digest v field_name =
     [(\<not> (is_sha256_digest v \<or> v = LEGACY_REVISION_VECTOR_SENTINEL),
       ValueError (field_name @ '' must be a sha256:<64 lowercase hex> digest or '' @
         py_repr LEGACY_REVISION_VECTOR_SENTINEL @ '', got '' @ py_repr v))]"

lemma sha256_digest_producer [simp]: "is_sha256_digest (''sha256:'' @ sha256_json j)"
  by (simp add: is_sha256_digest_def sha256_json_hex)

lemma sha256_digest_not_blank: "is_sha256_digest v \<Longrightarrow> \<not> blank v"
  by (cases v) (auto simp: is_sha256_digest_def intro!: not_blank_Cons simp: py_space_def)

lemma passes_require_digest [simp]:
  "passes (require_sha256_digest v f) \<longleftrightarrow> is_sha256_digest v"
  "passes (require_revision_vector_digest v f) \<longleftrightarrow>
     is_sha256_digest v \<or> v = LEGACY_REVISION_VECTOR_SENTINEL"
  by (simp_all add: require_sha256_digest_def require_revision_vector_digest_def)

section \<open>Revision claims\<close>

definition require_normalized_text :: "string \<Rightarrow> string \<Rightarrow> guards" where
  "require_normalized_text v field_name =
     [(blank v, ValueError (field_name @ '' is required'')),
      (v \<noteq> py_strip v, ValueError (field_name @ '' must not contain surrounding whitespace''))]"

definition validate_optional_text :: "string option \<Rightarrow> string \<Rightarrow> guards" where
  "validate_optional_text v field_name =
     (case v of None \<Rightarrow> [] | Some s \<Rightarrow> require_normalized_text s field_name)"

lemma passes_require_normalized_text [simp]:
  "passes (require_normalized_text v f) \<longleftrightarrow> \<not> blank v \<and> v = py_strip v"
  by (auto simp: require_normalized_text_def)

lemma passes_validate_optional_text [simp]:
  "passes (validate_optional_text v f) \<longleftrightarrow> (\<forall>s. v = Some s \<longrightarrow> \<not> blank s \<and> s = py_strip s)"
  by (simp add: validate_optional_text_def split: option.splits)

record causal_input_revision =
  ci_product_id :: string
  ci_source_revision :: string
  ci_restatement_version :: "string option"

definition causal_input_guards :: "causal_input_revision \<Rightarrow> guards" where
  "causal_input_guards c =
     require_normalized_text (ci_product_id c) ''product_id'' @
     require_normalized_text (ci_source_revision c) ''source_revision'' @
     validate_optional_text (ci_restatement_version c) ''restatement_version''"

record source_revision_claims =
  rc_snapshot_id :: "string option"
  rc_source_revision :: "string option"
  rc_restatement_version :: "string option"
  rc_source_batch_id :: "string option"
  rc_source_cut_id :: "string option"
  rc_calculation_run_id :: "string option"
  rc_methodology_version :: "string option"
  rc_policy_version :: "string option"
  rc_causal_input_revisions :: "causal_input_revision list"
  rc_reconciliation_posture :: reconciliation_posture

definition truthy_text :: "string option \<Rightarrow> bool" where
  "truthy_text v = some_satisfies (\<lambda>s. s \<noteq> []) v"

definition has_revision_identity :: "source_revision_claims \<Rightarrow> bool" where
  "has_revision_identity c \<longleftrightarrow>
     truthy_text (rc_snapshot_id c) \<or> truthy_text (rc_source_revision c) \<or>
     truthy_text (rc_restatement_version c) \<or> truthy_text (rc_source_batch_id c) \<or>
     truthy_text (rc_source_cut_id c) \<or> truthy_text (rc_calculation_run_id c) \<or>
     truthy_text (rc_methodology_version c) \<or> truthy_text (rc_policy_version c) \<or>
     rc_causal_input_revisions c \<noteq> []"

definition has_primary_revision_identity :: "source_revision_claims \<Rightarrow> bool" where
  "has_primary_revision_identity c \<longleftrightarrow>
     truthy_text (rc_snapshot_id c) \<or> truthy_text (rc_source_revision c) \<or>
     truthy_text (rc_source_batch_id c) \<or> truthy_text (rc_source_cut_id c) \<or>
     truthy_text (rc_calculation_run_id c)"

definition claims_is_authoritative :: "source_revision_claims \<Rightarrow> bool" where
  "claims_is_authoritative c \<longleftrightarrow>
     has_primary_revision_identity c \<and>
     rc_reconciliation_posture c \<in> {Rec_Complete, Rec_Not_Applicable}"

definition source_revision_claims_guards :: "source_revision_claims \<Rightarrow> guards" where
  "source_revision_claims_guards c =
     validate_optional_text (rc_snapshot_id c) ''snapshot_id'' @
     validate_optional_text (rc_source_revision c) ''source_revision'' @
     validate_optional_text (rc_restatement_version c) ''restatement_version'' @
     validate_optional_text (rc_source_batch_id c) ''source_batch_id'' @
     validate_optional_text (rc_source_cut_id c) ''source_cut_id'' @
     validate_optional_text (rc_calculation_run_id c) ''calculation_run_id'' @
     validate_optional_text (rc_methodology_version c) ''methodology_version'' @
     validate_optional_text (rc_policy_version c) ''policy_version'' @
     [(\<not> distinct (map ci_product_id (rc_causal_input_revisions c)),
       ValueError ''causal_input_revisions must have unique product_id values''),
      (\<not> has_revision_identity c,
       ValueError ''source revision claims require an owner-issued revision identity'')]"

record source_cut_tolerance =
  ct_policy_version :: string
  ct_maximum_generated_time_skew_seconds :: int

definition source_cut_tolerance_guards :: "source_cut_tolerance \<Rightarrow> guards" where
  "source_cut_tolerance_guards t =
     require_normalized_text (ct_policy_version t) ''policy_version'' @
     [(ct_maximum_generated_time_skew_seconds t < 0,
       ValueError ''maximum_generated_time_skew_seconds must be non-negative'')]"

section \<open>Source references\<close>

record source_ref =
  sr_product_id :: string
  sr_source_system :: source_system
  sr_product_version :: string
  sr_route :: string
  sr_as_of_date :: py_date
  sr_generated_at_utc :: py_datetime
  sr_content_hash :: string
  sr_data_quality_status :: string
  sr_freshness :: evidence_freshness
  sr_revision_claims :: "source_revision_claims option"

definition source_ref_guards :: "source_ref \<Rightarrow> guards" where
  "source_ref_guards r =
     require_text (sr_product_id r) ''product_id'' @
     require_text (sr_product_version r) ''product_version'' @
     require_text (sr_route r) ''route'' @
     require_sha256_digest (sr_content_hash r) ''content_hash'' @
     require_text (sr_data_quality_status r) ''data_quality_status'' @
     require_aware (sr_generated_at_utc r) ''generated_at_utc''"

definition source_identity :: "source_ref \<Rightarrow> string \<times> string \<times> string" where
  "source_identity r =
     (source_system_value (sr_source_system r), sr_product_id r, sr_product_version r)"

definition require_unique_sources :: "source_ref list \<Rightarrow> guards" where
  "require_unique_sources refs =
     [(refs = [], ValueError ''source_refs is required''),
      (\<not> distinct (map source_identity refs),
       ValueError ''source revision vector contains duplicate source product identity'')]"

definition unique_sources :: "source_ref list \<Rightarrow> bool" where
  "unique_sources refs \<longleftrightarrow> refs \<noteq> [] \<and> distinct (map source_identity refs)"

lemma passes_require_unique_sources [simp]:
  "passes (require_unique_sources refs) \<longleftrightarrow> unique_sources refs"
  by (auto simp: require_unique_sources_def unique_sources_def)

section \<open>Revision vector digest\<close>

definition causal_input_payload :: "causal_input_revision \<Rightarrow> json" where
  "causal_input_payload c =
     JObj [(''product_id'', JStr (ci_product_id c)),
           (''restatement_version'', opt_json (ci_restatement_version c)),
           (''source_revision'', JStr (ci_source_revision c))]"

definition source_revision_claims_payload :: "source_revision_claims option \<Rightarrow> json" where
  "source_revision_claims_payload x =
    (case x of
       None \<Rightarrow> JObj [(''claim_posture'', JStr (cut_value Cut_Unknown))]
     | Some c \<Rightarrow>
         JObj [(''claim_posture'', JStr ''owner_claimed''),
               (''calculation_run_id'', opt_json (rc_calculation_run_id c)),
               (''causal_input_revisions'',
                JArr (map causal_input_payload
                        (sort_key ci_product_id (rc_causal_input_revisions c)))),
               (''methodology_version'', opt_json (rc_methodology_version c)),
               (''policy_version'', opt_json (rc_policy_version c)),
               (''reconciliation_posture'', JStr (reconciliation_value (rc_reconciliation_posture c))),
               (''restatement_version'', opt_json (rc_restatement_version c)),
               (''snapshot_id'', opt_json (rc_snapshot_id c)),
               (''source_batch_id'', opt_json (rc_source_batch_id c)),
               (''source_cut_id'', opt_json (rc_source_cut_id c)),
               (''source_revision'', opt_json (rc_source_revision c))])"

definition source_revision_vector_entry :: "source_ref \<Rightarrow> json" where
  "source_revision_vector_entry r =
     JObj [(''as_of_date'', JStr (date_iso (sr_as_of_date r))),
           (''claims'', source_revision_claims_payload (sr_revision_claims r)),
           (''content_hash'', JStr (sr_content_hash r)),
           (''product_id'', JStr (sr_product_id r)),
           (''product_version'', JStr (sr_product_version r)),
           (''source_system'', JStr (source_system_value (sr_source_system r)))]"

definition revision_vector_digest :: "source_ref list \<Rightarrow> string" where
  \<comment> \<open>the digest of the vector, once its uniqueness guard has passed\<close>
  "revision_vector_digest refs =
     ''sha256:'' @ sha256_json (JArr (map source_revision_vector_entry (sort_key source_identity refs)))"

definition source_revision_vector_digest :: "source_ref list \<Rightarrow> string res" where
  "source_revision_vector_digest refs =
     checks (require_unique_sources refs) (revision_vector_digest refs)"

section \<open>Coherence of a source cut\<close>

datatype causal_verdict = Causal_Match | Causal_Unavailable | Causal_Conflict

text \<open>The body of the loop over the causal claims of \<open>_causal_input_posture\<close>: what one
  claim says against the source of the same product.\<close>

definition causal_claim_verdict :: "source_ref list \<Rightarrow> causal_input_revision \<Rightarrow> causal_verdict" where
  "causal_claim_verdict refs c =
    (let corresponding = filter (\<lambda>r. sr_product_id r = ci_product_id c) refs in
     if length corresponding \<noteq> 1 then Causal_Unavailable
     else case sr_revision_claims (hd corresponding) of
       None \<Rightarrow> Causal_Unavailable
     | Some cl \<Rightarrow>
         (case rc_source_revision cl of
            None \<Rightarrow> Causal_Unavailable
          | Some revision \<Rightarrow>
              if revision \<noteq> ci_source_revision c then Causal_Conflict
              else if rc_restatement_version cl = ci_restatement_version c then Causal_Match
              else if rc_restatement_version cl = None \<or> ci_restatement_version c = None
              then Causal_Unavailable
              else Causal_Conflict))"

fun scan_causal_claims ::
    "source_ref list \<Rightarrow> bool \<Rightarrow> causal_input_revision list \<Rightarrow> source_cut_posture_t option" where
  "scan_causal_claims refs unavailable [] = (if unavailable then Some Cut_Partial else None)"
| "scan_causal_claims refs unavailable (c # cs) =
    (case causal_claim_verdict refs c of
       Causal_Match \<Rightarrow> scan_causal_claims refs unavailable cs
     | Causal_Unavailable \<Rightarrow> scan_causal_claims refs True cs
     | Causal_Conflict \<Rightarrow> Some Cut_Mixed)"

definition causal_claims :: "source_ref list \<Rightarrow> causal_input_revision list" where
  "causal_claims refs =
     concat (map (\<lambda>r. case sr_revision_claims r of
                        None \<Rightarrow> [] | Some c \<Rightarrow> rc_causal_input_revisions c) refs)"

definition causal_input_posture :: "source_ref list \<Rightarrow> source_cut_posture_t option" where
  "causal_input_posture refs = scan_causal_claims refs False (causal_claims refs)"

definition generated_skew :: "source_ref list \<Rightarrow> duration" where
  "generated_skew refs =
     (let ts = map (\<lambda>r. inst (sr_generated_at_utc r)) refs
      in foldr max ts (hd ts) - foldr min ts (hd ts))"

definition cut_posture :: "source_ref list \<Rightarrow> source_cut_tolerance option \<Rightarrow> source_cut_posture_t" where
  \<comment> \<open>the posture, once the uniqueness guard has passed\<close>
  "cut_posture refs tolerance =
    (let present = List.map_filter sr_revision_claims refs;
         cut_ids = map rc_source_cut_id present
     in if present = [] then Cut_Unknown
        else if length present \<noteq> length refs then Cut_Partial
        else if list_ex (\<lambda>c. rc_reconciliation_posture c = Rec_Partial) present then Cut_Partial
        else if list_ex (\<lambda>c. rc_reconciliation_posture c = Rec_Failed) present then Cut_Mixed
        else if list_ex (\<lambda>c. \<not> has_primary_revision_identity c) present then Cut_Partial
        else if list_ex (\<lambda>c. rc_reconciliation_posture c = Rec_Unknown) present then Cut_Partial
        else case causal_input_posture refs of
          Some p \<Rightarrow> p
        | None \<Rightarrow>
            if length refs = 1 then Cut_Coherent
            else if length (remdups (map sr_as_of_date refs)) \<noteq> 1 then Cut_Mixed
            else if list_all truthy_text cut_ids
            then (if length (remdups cut_ids) = 1 then Cut_Coherent else Cut_Mixed)
            else if list_ex truthy_text cut_ids then Cut_Partial
            else case tolerance of
              None \<Rightarrow> Cut_Unknown
            | Some t \<Rightarrow>
                if us_seconds (ct_maximum_generated_time_skew_seconds t) < generated_skew refs
                then Cut_Mixed else Cut_Coherent_Tolerance)"

definition source_cut_posture ::
    "source_ref list \<Rightarrow> source_cut_tolerance option \<Rightarrow> source_cut_posture_t res" where
  "source_cut_posture refs tolerance =
     checks (require_unique_sources refs) (cut_posture refs tolerance)"

section \<open>Evidence hash\<close>

definition source_posture_entry :: "source_ref \<Rightarrow> json" where
  "source_posture_entry r =
     JObj [(''data_quality_status'', JStr (sr_data_quality_status r)),
           (''freshness'', JStr (freshness_value (sr_freshness r))),
           (''product_id'', JStr (sr_product_id r)),
           (''product_version'', JStr (sr_product_version r)),
           (''source_system'', JStr (source_system_value (sr_source_system r)))]"

definition evidence_hash :: "source_ref list \<Rightarrow> string" where
  "evidence_hash refs =
     ''sha256:'' @ sha256_json (JObj
       [(''source_posture'', JArr (map source_posture_entry (sort_key source_identity refs))),
        (''source_revision_vector_digest'', JStr (revision_vector_digest refs))])"

definition evidence_hash_for_source_refs :: "source_ref list \<Rightarrow> string res" where
  "evidence_hash_for_source_refs refs =
     bind_res (source_revision_vector_digest refs) (\<lambda>_. Inr (evidence_hash refs))"

section \<open>Access scopes\<close>

definition UNKNOWN_SCOPE_VALUE :: string where
  "UNKNOWN_SCOPE_VALUE = ''unknown''"

record access_scope =
  as_tenant_id :: string
  as_book_id :: string
  as_portfolio_id :: string
  as_client_id :: string

definition access_scope_guards :: "access_scope \<Rightarrow> guards" where
  "access_scope_guards s =
     require_text (as_tenant_id s) ''tenant_id'' @ require_text (as_book_id s) ''book_id'' @
     require_text (as_portfolio_id s) ''portfolio_id'' @ require_text (as_client_id s) ''client_id''"

definition scope_is_authoritative :: "access_scope \<Rightarrow> bool" where
  "scope_is_authoritative s \<longleftrightarrow>
     list_all (\<lambda>v. py_lower (py_strip v) \<noteq> UNKNOWN_SCOPE_VALUE)
       [as_tenant_id s, as_book_id s, as_portfolio_id s, as_client_id s]"

text \<open>A filter value: absent, one string, or a collection of strings.\<close>

datatype scope_filter_value = No_Filter | One_Value string | Many_Values "string list"

fun filter_values :: "scope_filter_value \<Rightarrow> string list" where
  "filter_values No_Filter = []"
| "filter_values (One_Value s) = [s]"
| "filter_values (Many_Values ss) = ss"

text \<open>\<open>dict.fromkeys\<close> keeps the first occurrence of each value.\<close>

definition dedup :: "'a list \<Rightarrow> 'a list" where
  "dedup xs = rev (remdups (rev xs))"

definition clean_optional_values :: "scope_filter_value \<Rightarrow> string list res" where
  "clean_optional_values v =
     (let cleaned = map py_strip (filter_values v)
      in checks [(list_ex (\<lambda>s. s = []) cleaned, ValueError ''scope fields cannot be blank'')]
           (dedup cleaned))"

record scope_filter =
  qf_tenant_id :: "string list"
  qf_book_id :: "string list"
  qf_portfolio_id :: "string list"
  qf_client_id :: "string list"

definition mk_scope_filter ::
    "scope_filter_value \<Rightarrow> scope_filter_value \<Rightarrow> scope_filter_value \<Rightarrow> scope_filter_value \<Rightarrow> scope_filter res"
where
  "mk_scope_filter t b p c =
     bind_res (clean_optional_values t) (\<lambda>t'.
     bind_res (clean_optional_values b) (\<lambda>b'.
     bind_res (clean_optional_values p) (\<lambda>p'.
     bind_res (clean_optional_values c) (\<lambda>c'.
       Inr \<lparr>qf_tenant_id = t', qf_book_id = b', qf_portfolio_id = p', qf_client_id = c'\<rparr>))))"

definition filter_is_empty :: "scope_filter \<Rightarrow> bool" where
  "filter_is_empty f \<longleftrightarrow>
     qf_tenant_id f = [] \<and> qf_book_id f = [] \<and> qf_portfolio_id f = [] \<and> qf_client_id f = []"

definition filter_is_complete :: "scope_filter \<Rightarrow> bool" where
  "filter_is_complete f \<longleftrightarrow>
     qf_tenant_id f \<noteq> [] \<and> qf_book_id f \<noteq> [] \<and> qf_portfolio_id f \<noteq> [] \<and> qf_client_id f \<noteq> []"

definition matches_field :: "string list \<Rightarrow> string \<Rightarrow> bool" where
  "matches_field expected actual \<longleftrightarrow> expected = [] \<or> actual \<in> set expected"

definition field_is_allowed :: "string list \<Rightarrow> string list \<Rightarrow> bool" where
  "field_is_allowed requested allowed \<longleftrightarrow>
     requested = [] \<or> allowed = [] \<or> set requested \<subseteq> set allowed"

definition filter_is_subset_of :: "scope_filter \<Rightarrow> scope_filter \<Rightarrow> bool" where
  "filter_is_subset_of f e \<longleftrightarrow>
     field_is_allowed (qf_tenant_id f) (qf_tenant_id e) \<and>
     field_is_allowed (qf_book_id f) (qf_book_id e) \<and>
     field_is_allowed (qf_portfolio_id f) (qf_portfolio_id e) \<and>
     field_is_allowed (qf_client_id f) (qf_client_id e)"

definition filter_matches :: "scope_filter \<Rightarrow> access_scope option \<Rightarrow> bool" where
  "filter_matches f scope =
     (if filter_is_empty f then True
      else case scope of
        None \<Rightarrow> False
      | Some s \<Rightarrow>
          matches_field (qf_tenant_id f) (as_tenant_id s) \<and>
          matches_field (qf_book_id f) (as_book_id s) \<and>
          matches_field (qf_portfolio_id f) (as_portfolio_id s) \<and>
          matches_field (qf_client_id f) (as_client_id s))"

section \<open>The order of the sources does not matter\<close>

lemma unique_sources_perm: "mset xs = mset ys \<Longrightarrow> unique_sources xs = unique_sources ys"
  unfolding unique_sources_def
  by (metis mset_eq_imp_distinct_iff mset_map mset_zero_iff)

lemma sort_sources_perm:
  "unique_sources xs \<Longrightarrow> mset xs = mset ys \<Longrightarrow> sort_key source_identity xs = sort_key source_identity ys"
  by (rule sort_key_perm_distinct) (simp_all add: unique_sources_def)

lemma revision_vector_digest_perm:
  "unique_sources xs \<Longrightarrow> mset xs = mset ys \<Longrightarrow> revision_vector_digest xs = revision_vector_digest ys"
  by (simp only: revision_vector_digest_def sort_sources_perm[of xs ys])

lemma evidence_hash_perm:
  "unique_sources xs \<Longrightarrow> mset xs = mset ys \<Longrightarrow> evidence_hash xs = evidence_hash ys"
  by (simp only: evidence_hash_def sort_sources_perm[of xs ys] revision_vector_digest_perm[of xs ys])

lemma causal_claim_verdict_perm:
  assumes "mset xs = mset ys"
  shows "causal_claim_verdict xs c = causal_claim_verdict ys c"
proof -
  let ?P = "\<lambda>r. sr_product_id r = ci_product_id c"
  have m: "mset (filter ?P xs) = mset (filter ?P ys)" using assms by simp
  show ?thesis
  proof (cases "length (filter ?P xs) = 1")
    case True
    then obtain x where x: "filter ?P xs = [x]" by (auto simp: length_Suc_conv)
    with m have "mset (filter ?P ys) = {#x#}" by simp
    then have "filter ?P ys = [x]" by (simp only: mset_single_iff)
    with x show ?thesis by (simp add: causal_claim_verdict_def Let_def)
  next
    case False
    moreover have "length (filter ?P ys) = length (filter ?P xs)" using m by (metis size_mset)
    ultimately show ?thesis by (simp add: causal_claim_verdict_def Let_def)
  qed
qed

text \<open>The scan with its early return is a conflict if any claim conflicts, otherwise
  partial if any claim cannot be compared, otherwise silent.\<close>

lemma scan_causal_claims_eq:
  "scan_causal_claims refs u cs =
    (if \<exists>c \<in> set cs. causal_claim_verdict refs c = Causal_Conflict then Some Cut_Mixed
     else if u \<or> (\<exists>c \<in> set cs. causal_claim_verdict refs c = Causal_Unavailable) then Some Cut_Partial
     else None)"
  by (induction cs arbitrary: u) (auto split: causal_verdict.splits)

lemma set_causal_claims:
  "set (causal_claims refs) =
     {c. \<exists>r cl. r \<in> set refs \<and> sr_revision_claims r = Some cl \<and> c \<in> set (rc_causal_input_revisions cl)}"
proof -
  have "set (case x of None \<Rightarrow> [] | Some c \<Rightarrow> rc_causal_input_revisions c) =
    {c. \<exists>cl. x = Some cl \<and> c \<in> set (rc_causal_input_revisions cl)}" for x :: "source_revision_claims option"
    by (cases x) auto
  then show ?thesis by (auto simp: causal_claims_def)
qed

lemma causal_input_posture_perm:
  assumes "mset xs = mset ys"
  shows "causal_input_posture xs = causal_input_posture ys"
proof -
  have "set xs = set ys" using assms by (rule mset_eq_setD)
  then have "set (causal_claims xs) = set (causal_claims ys)" by (simp add: set_causal_claims)
  then show ?thesis
    using causal_claim_verdict_perm[OF assms]
    by (simp add: causal_input_posture_def scan_causal_claims_eq)
qed

lemma foldr_max_Max: "foldr max (xs :: int list) x = Max (insert x (set xs))"
  by (induction xs) (auto simp: insert_commute[of x])

lemma foldr_min_Min: "foldr min (xs :: int list) x = Min (insert x (set xs))"
  by (induction xs) (auto simp: insert_commute[of x])

lemma generated_skew_set:
  assumes "refs \<noteq> []"
  shows "generated_skew refs =
    Max ((\<lambda>r. inst (sr_generated_at_utc r)) ` set refs) - Min ((\<lambda>r. inst (sr_generated_at_utc r)) ` set refs)"
  using assms
  by (cases refs) (simp_all add: generated_skew_def Let_def foldr_max_Max foldr_min_Min insert_absorb)

lemma set_map_filter_claims:
  "set (List.map_filter sr_revision_claims refs) = {c. \<exists>r \<in> set refs. sr_revision_claims r = Some c}"
  by (induction refs) (auto simp: List.map_filter_simps split: option.splits)

lemma mset_map_filter:
  "mset (List.map_filter f xs) = image_mset (\<lambda>x. the (f x)) (filter_mset (\<lambda>x. f x \<noteq> None) (mset xs))"
  by (induction xs) (auto simp: List.map_filter_simps split: option.splits)

lemma length_remdups_set: "set xs = set ys \<Longrightarrow> length (remdups xs) = length (remdups ys)"
  by (metis length_remdups_card_conv)

lemma cut_posture_perm:
  assumes "mset xs = mset ys"
  shows "cut_posture xs t = cut_posture ys t"
proof (cases "xs = []")
  case True
  with assms show ?thesis by simp
next
  case False
  have s: "set xs = set ys" using assms by (rule mset_eq_setD)
  have l: "length xs = length ys" using assms by (metis size_mset)
  let ?p = "List.map_filter sr_revision_claims"
  have m: "mset (?p xs) = mset (?p ys)" using assms by (simp add: mset_map_filter)
  have ps: "set (?p xs) = set (?p ys)" using m by (rule mset_eq_setD)
  have pl: "length (?p xs) = length (?p ys)" using m by (metis size_mset)
  have pn: "?p xs = [] \<longleftrightarrow> ?p ys = []" using pl by auto
  have ys: "ys \<noteq> []" using False l by auto
  have skew: "generated_skew xs = generated_skew ys"
    using False ys s by (simp add: generated_skew_set)
  have d: "length (remdups (map sr_as_of_date xs)) = length (remdups (map sr_as_of_date ys))"
    by (rule length_remdups_set) (simp add: s)
  have c: "length (remdups (map rc_source_cut_id (?p xs))) = length (remdups (map rc_source_cut_id (?p ys)))"
    by (rule length_remdups_set) (simp add: ps)
  show ?thesis
    unfolding cut_posture_def Let_def list_ex_iff list_all_iff list.set_map
    by (simp only: l pl pn ps d c skew causal_input_posture_perm[OF assms])
qed

lemma revision_vector_digest_shape [simp]: "is_sha256_digest (revision_vector_digest refs)"
  by (simp add: revision_vector_digest_def del: append_Cons)

lemma evidence_hash_shape [simp]: "is_sha256_digest (evidence_hash refs)"
  by (simp add: evidence_hash_def del: append_Cons)

lemma digest_res_Inr [res_simps]:
  "source_revision_vector_digest refs = Inr d \<longleftrightarrow> unique_sources refs \<and> d = revision_vector_digest refs"
  "evidence_hash_for_source_refs refs = Inr d \<longleftrightarrow> unique_sources refs \<and> d = evidence_hash refs"
  "source_cut_posture refs t = Inr p \<longleftrightarrow> unique_sources refs \<and> p = cut_posture refs t"
  by (auto simp: source_revision_vector_digest_def evidence_hash_for_source_refs_def
      source_cut_posture_def bind_res_Inr)

end
