(* ===== verification/Dec.thy ===== *)
theory Dec
imports Complex_Main Prelude
begin

text \<open>
  Finite values of Python's \<open>decimal.Decimal\<close> as rationals, with the arithmetic of the
  default context: every product, quotient, sum and difference is rounded half-even to 28
  significant digits, and \<open>quantize(Decimal("0.01"), ROUND_HALF_UP)\<close> rounds to cents, ties
  away from zero. The bounds on the exponent, NaN and the infinities are not modelled.
\<close>

type_synonym decimal = rat

fun ndigits :: "nat \<Rightarrow> nat" where
  "ndigits n = (if n < 10 then 1 else Suc (ndigits (n div 10)))"

declare ndigits.simps [simp del]

definition pow10 :: "int \<Rightarrow> rat" where
  "pow10 e = (if 0 \<le> e then 10 ^ nat e else 1 / 10 ^ nat (- e))"

definition exp10 :: "rat \<Rightarrow> int" where
  \<comment> \<open>the exponent of the leading digit of a positive value\<close>
  "exp10 x = (case quotient_of x of (n, d) \<Rightarrow>
     let e = int (ndigits (nat n)) - int (ndigits (nat d)) in if pow10 e \<le> x then e else e - 1)"

definition round_half_even :: "rat \<Rightarrow> int" where
  "round_half_even q =
    (let f = \<lfloor>q\<rfloor>; r = q - of_int f
     in if r < 1 / 2 then f else if 1 / 2 < r then f + 1 else if even f then f else f + 1)"

definition ctx28 :: "rat \<Rightarrow> decimal" where
  "ctx28 x =
    (if x = 0 then 0
     else let e = exp10 \<bar>x\<bar> in of_int (round_half_even (x * pow10 (27 - e))) * pow10 (e - 27))"

definition dec_add :: "decimal \<Rightarrow> decimal \<Rightarrow> decimal" where "dec_add a b = ctx28 (a + b)"
definition dec_sub :: "decimal \<Rightarrow> decimal \<Rightarrow> decimal" where "dec_sub a b = ctx28 (a - b)"
definition dec_mul :: "decimal \<Rightarrow> decimal \<Rightarrow> decimal" where "dec_mul a b = ctx28 (a * b)"
definition dec_div :: "decimal \<Rightarrow> decimal \<Rightarrow> decimal" where "dec_div a b = ctx28 (a / b)"

definition dec_sum :: "decimal list \<Rightarrow> decimal" where
  "dec_sum xs = foldl dec_add 0 xs"

definition quantize2 :: "decimal \<Rightarrow> decimal" where
  "quantize2 x =
    (if 0 \<le> x then of_int \<lfloor>x * 100 + 1 / 2\<rfloor> / 100 else - (of_int \<lfloor>- x * 100 + 1 / 2\<rfloor> / 100))"

text \<open>\<open>quantize\<close> raises when the result has more than 28 digits.\<close>

definition quantize_cents :: "decimal \<Rightarrow> decimal res" where
  "quantize_cents x = checks [(10 ^ 26 \<le> \<bar>quantize2 x\<bar>, InvalidOperation)] (quantize2 x)"

section \<open>Powers of ten and the leading digit\<close>

lemma pow10_pos [simp]: "0 < pow10 e" "pow10 e \<noteq> 0" "0 \<le> pow10 e"
  by (simp_all add: pow10_def)

lemma pow10_0 [simp]: "pow10 0 = 1"
  by (simp add: pow10_def)

lemma pow10_Suc: "pow10 (e + 1) = 10 * pow10 e"
proof (cases "0 \<le> e")
  case True
  then have "nat (e + 1) = Suc (nat e)" by simp
  with True show ?thesis by (simp add: pow10_def)
next
  case False
  define k where "k = nat (- e - 1)"
  have k: "e = - int k - 1" using False by (simp add: k_def)
  have "nat (- e) = Suc k" "nat (- (e + 1)) = k" using k by simp_all
  then show ?thesis using False k by (cases k) (simp_all add: pow10_def)
qed

lemma pow10_add_nat: "pow10 (a + int k) = pow10 a * 10 ^ k"
proof (induction k)
  case (Suc k)
  have "pow10 (a + int (Suc k)) = pow10 ((a + int k) + 1)" by (simp add: algebra_simps)
  with Suc show ?case by (simp only: pow10_Suc) simp
qed simp

lemma pow10_add: "pow10 (a + b) = pow10 a * pow10 b"
proof (cases "0 \<le> b")
  case True
  then show ?thesis using pow10_add_nat[of a "nat b"] by (simp add: pow10_def)
next
  case False
  then have "pow10 a = pow10 (a + b) * 10 ^ nat (- b)"
    using pow10_add_nat[of "a + b" "nat (- b)"] by simp
  with False show ?thesis by (simp add: pow10_def)
qed

lemma pow10_less: "a < b \<Longrightarrow> pow10 a < pow10 b"
proof -
  assume ab: "a < b"
  define k where "k = nat (b - a)"
  have k: "b = a + int k" "0 < k" using ab by (simp_all add: k_def)
  have "(1 :: rat) < 10 ^ k" using k(2) by (simp add: one_less_power)
  then show ?thesis using pow10_pos(1)[of a] by (simp add: k(1) pow10_add_nat)
qed

lemma pow10_less_iff [simp]: "pow10 a < pow10 b \<longleftrightarrow> a < b"
  using pow10_less by (metis less_asym less_irrefl linorder_neqE)

lemma pow10_le_iff [simp]: "pow10 a \<le> pow10 b \<longleftrightarrow> a \<le> b"
  using pow10_less_iff by (metis not_le)

lemma pow10_cancel: "pow10 (27 - e) * pow10 (e - 27) = 1"
  by (simp flip: pow10_add)

lemma pow10_of_nat: "pow10 (int k) = of_int (10 ^ k)"
  by (simp add: pow10_def)

lemma ndigits_pos: "1 \<le> ndigits n"
  by (subst ndigits.simps) simp

lemma ndigits_bounds: "n < 10 ^ ndigits n \<and> (0 < n \<longrightarrow> 10 ^ (ndigits n - 1) \<le> n)"
proof (induction n rule: ndigits.induct)
  case (1 n)
  show ?case
  proof (cases "n < 10")
    case True
    then show ?thesis by (subst (1 2) ndigits.simps) simp
  next
    case False
    then have pos: "0 < n div 10" by (simp add: div_greater_zero_iff)
    with 1[OF False] have lo: "10 ^ (ndigits (n div 10) - 1) \<le> n div 10"
      and hi: "n div 10 < 10 ^ ndigits (n div 10)" by auto
    obtain k where k: "ndigits (n div 10) = Suc k"
      using ndigits_pos[of "n div 10"] by (cases "ndigits (n div 10)") auto
    have "n < 10 ^ Suc (ndigits (n div 10))" using hi by simp
    moreover have "10 ^ ndigits (n div 10) \<le> n" using lo k by simp
    ultimately show ?thesis using False by (subst (1 2) ndigits.simps) simp
  qed
qed

lemma ndigits_pow10:
  assumes "0 < n"
  shows "(of_int n :: rat) < pow10 (int (ndigits (nat n)))"
    and "pow10 (int (ndigits (nat n)) - 1) \<le> of_int n"
proof -
  define k where "k = nat n"
  have k: "(of_int n :: rat) = of_nat k" "0 < k" using assms by (simp_all add: k_def)
  have b: "k < 10 ^ ndigits k" "10 ^ (ndigits k - 1) \<le> k" using ndigits_bounds k(2) by blast+
  have "(of_nat k :: rat) < of_nat (10 ^ ndigits k)" using b(1) by (simp only: of_nat_less_iff)
  then show "(of_int n :: rat) < pow10 (int (ndigits (nat n)))"
    by (simp add: k(1) pow10_def flip: k_def)
  have "(of_nat (10 ^ (ndigits k - 1)) :: rat) \<le> of_nat k" using b(2) by (simp only: of_nat_le_iff)
  moreover have "pow10 (int (ndigits k) - 1) = of_nat (10 ^ (ndigits k - 1))"
    using ndigits_pos[of k] by (simp add: pow10_def nat_diff_distrib)
  ultimately show "pow10 (int (ndigits (nat n)) - 1) \<le> of_int n"
    unfolding k(1) k_def[symmetric] by simp
qed

lemma exp10_bounds:
  assumes "0 < x"
  shows "pow10 (exp10 x) \<le> x \<and> x < pow10 (exp10 x + 1)"
proof -
  obtain n d where q: "quotient_of x = (n, d)" by force
  have d: "0 < d" using quotient_of_denom_pos[OF q] .
  have x: "x = of_int n / of_int d" using quotient_of_div[OF q] .
  with assms d have n: "0 < n" by (simp add: zero_less_divide_iff)
  let ?a = "ndigits (nat n)" and ?b = "ndigits (nat d)"
  note nr = ndigits_pow10[OF n] and dr = ndigits_pow10[OF d]
  let ?e = "int ?a - int ?b"
  have dpos: "(0 :: rat) < of_int d" using d by simp
  have up: "x < pow10 (?e + 1)"
  proof -
    have "of_int n < pow10 (?e + 1) * pow10 (int ?b - 1)"
      using nr(1) by (simp flip: pow10_add)
    also have "\<dots> \<le> pow10 (?e + 1) * of_int d"
      using dr(2) by (simp add: mult_left_mono)
    finally show ?thesis using dpos by (simp add: x divide_less_eq)
  qed
  have lo: "pow10 (?e - 1) \<le> x"
  proof -
    have "pow10 (?e - 1) * of_int d \<le> pow10 (?e - 1) * pow10 (int ?b)"
      using dr(1) by (simp add: mult_left_mono)
    also have "\<dots> = pow10 (int ?a - 1)" by (simp flip: pow10_add)
    finally show ?thesis using nr(2) dpos by (simp add: x le_divide_eq)
  qed
  show ?thesis
    using up lo by (auto simp: exp10_def q Let_def)
qed

section \<open>Rounding is monotone\<close>

lemma round_half_even_mono: "p \<le> q \<Longrightarrow> round_half_even p \<le> round_half_even q"
proof -
  assume pq: "p \<le> q"
  then have f: "\<lfloor>p\<rfloor> \<le> \<lfloor>q\<rfloor>" by (rule floor_mono)
  show ?thesis
  proof (cases "\<lfloor>p\<rfloor> = \<lfloor>q\<rfloor>")
    case True
    with pq show ?thesis by (auto simp: round_half_even_def Let_def)
  next
    case False
    with f have "\<lfloor>p\<rfloor> + 1 \<le> \<lfloor>q\<rfloor>" by simp
    then show ?thesis by (auto simp: round_half_even_def Let_def)
  qed
qed

lemma round_half_even_of_int [simp]: "round_half_even (of_int k) = k"
  by (simp add: round_half_even_def)

lemma round_half_even_lower: "of_int k \<le> q \<Longrightarrow> k \<le> round_half_even q"
  using round_half_even_mono by force

lemma round_half_even_upper: "q \<le> of_int k \<Longrightarrow> round_half_even q \<le> k"
  using round_half_even_mono by force

lemma ctx28_0 [simp]: "ctx28 0 = 0"
  by (simp add: ctx28_def)

lemma ctx28_bounds_pos:
  assumes "0 < x"
  shows "pow10 (exp10 x) \<le> ctx28 x \<and> ctx28 x \<le> pow10 (exp10 x + 1)"
proof -
  let ?e = "exp10 x"
  have "pow10 ?e \<le> x" "x \<le> pow10 (?e + 1)" using exp10_bounds[OF assms] by auto
  then have s: "pow10 ?e * pow10 (27 - ?e) \<le> x * pow10 (27 - ?e)"
    "x * pow10 (27 - ?e) \<le> pow10 (?e + 1) * pow10 (27 - ?e)"
    by (simp_all add: mult_right_mono)
  have p27: "pow10 27 = of_int (10 ^ 27)" "pow10 28 = of_int (10 ^ 28)"
    using pow10_of_nat[of 27] pow10_of_nat[of 28] by simp_all
  from s have "of_int (10 ^ 27) \<le> x * pow10 (27 - ?e)" "x * pow10 (27 - ?e) \<le> of_int (10 ^ 28)"
    by (simp_all only: p27[symmetric] flip: pow10_add) (simp_all add: algebra_simps)
  then have "10 ^ 27 \<le> round_half_even (x * pow10 (27 - ?e))"
    "round_half_even (x * pow10 (27 - ?e)) \<le> 10 ^ 28"
    by (blast intro: round_half_even_lower, blast intro: round_half_even_upper)
  then have "pow10 27 \<le> of_int (round_half_even (x * pow10 (27 - ?e)))"
    "of_int (round_half_even (x * pow10 (27 - ?e))) \<le> pow10 28"
    unfolding p27 by (simp_all only: of_int_le_iff)
  then have "pow10 27 * pow10 (?e - 27) \<le> of_int (round_half_even (x * pow10 (27 - ?e))) * pow10 (?e - 27)"
    "of_int (round_half_even (x * pow10 (27 - ?e))) * pow10 (?e - 27) \<le> pow10 28 * pow10 (?e - 27)"
    by (simp_all add: mult_right_mono)
  moreover have "ctx28 x = of_int (round_half_even (x * pow10 (27 - ?e))) * pow10 (?e - 27)"
    using assms by (simp add: ctx28_def Let_def)
  ultimately show ?thesis
    by (simp flip: pow10_add) (simp add: algebra_simps)
qed

lemma ctx28_pos: "0 < x \<Longrightarrow> 0 < ctx28 x"
  using ctx28_bounds_pos pow10_pos(1) by (metis less_le_trans)

lemma ctx28_nonneg: "0 \<le> x \<Longrightarrow> 0 \<le> ctx28 x"
  by (cases "x = 0") (simp, metis ctx28_pos order_le_less)

lemma ctx28_mono_pos:
  assumes "0 < x" "x \<le> y"
  shows "ctx28 x \<le> ctx28 y"
proof -
  have y: "0 < y" using assms by simp
  let ?e = "exp10 x" and ?f = "exp10 y"
  have "pow10 ?e < pow10 (?f + 1)"
    using exp10_bounds[OF assms(1)] exp10_bounds[OF y] assms(2) by linarith
  then have ef: "?e \<le> ?f" by simp
  show ?thesis
  proof (cases "?e = ?f")
    case True
    have "round_half_even (x * pow10 (27 - ?e)) \<le> round_half_even (y * pow10 (27 - ?e))"
      using assms(2) by (intro round_half_even_mono) (simp add: mult_right_mono)
    with True y assms(1) show ?thesis
      by (simp add: ctx28_def Let_def mult_right_mono)
  next
    case False
    with ef have "pow10 (?e + 1) \<le> pow10 ?f" by simp
    with ctx28_bounds_pos[OF assms(1)] ctx28_bounds_pos[OF y] show ?thesis by linarith
  qed
qed

lemma ctx28_mono: "0 \<le> x \<Longrightarrow> x \<le> y \<Longrightarrow> ctx28 x \<le> ctx28 y"
  by (cases "x = 0") (auto intro: ctx28_nonneg ctx28_mono_pos)

text \<open>A value with at most 28 significant digits is not rounded.\<close>

lemma ctx28_exact:
  assumes "x * pow10 (int k) = of_int m" "\<bar>m\<bar> < 10 ^ 28"
  shows "ctx28 x = x"
proof (cases "x = 0")
  case False
  let ?e = "exp10 \<bar>x\<bar>"
  have "\<bar>x\<bar> = of_int \<bar>m\<bar> * pow10 (- int k)"
  proof -
    have "x = of_int m * pow10 (- int k)"
      using assms(1) by (metis add.right_inverse mult.assoc mult.right_neutral pow10_0 pow10_add)
    then show ?thesis by (simp add: abs_mult)
  qed
  moreover have "(of_int \<bar>m\<bar> :: rat) < pow10 28"
    using assms(2) pow10_of_nat[of 28] by (metis of_int_less_iff of_nat_numeral)
  ultimately have "\<bar>x\<bar> < pow10 (28 - int k)"
    by (simp add: diff_conv_add_uminus pow10_add del: add_uminus_conv_diff)
  moreover have "pow10 ?e \<le> \<bar>x\<bar>" using exp10_bounds False by simp
  ultimately have "pow10 ?e < pow10 (28 - int k)" by linarith
  then have "?e < 28 - int k" by (simp only: pow10_less_iff)
  define j where "j = nat (27 - ?e - int k)"
  have j: "27 - ?e = int k + int j" using \<open>?e < 28 - int k\<close> by (simp add: j_def)
  have "x * pow10 (27 - ?e) = of_int (m * 10 ^ j)"
    unfolding j pow10_add_nat using assms(1) by (simp flip: mult.assoc)
  then have "round_half_even (x * pow10 (27 - ?e)) = m * 10 ^ j"
    using round_half_even_of_int by metis
  then have "ctx28 x = x * pow10 (27 - ?e) * pow10 (?e - 27)"
    using False \<open>x * pow10 (27 - ?e) = _\<close> by (simp add: ctx28_def Let_def)
  then show ?thesis using pow10_cancel by (simp add: mult.assoc)
qed simp

lemma ctx28_of_int: "\<bar>m\<bar> < 10 ^ 28 \<Longrightarrow> ctx28 (of_int m) = of_int m"
  by (rule ctx28_exact[of _ 0 m]) simp_all

lemma ctx28_cents: "\<bar>m\<bar> < 10 ^ 28 \<Longrightarrow> ctx28 (of_int m / 100) = of_int m / 100"
  by (rule ctx28_exact[of _ 2 m]) (simp_all add: pow10_def)

lemma quantize2_mono: "x \<le> y \<Longrightarrow> quantize2 x \<le> quantize2 y"
proof -
  assume xy: "x \<le> y"
  have a: "(0::rat) \<le> of_int \<lfloor>z * 100 + 1 / 2\<rfloor>" if "0 \<le> z" for z :: rat
    using that by simp
  show ?thesis
  proof (cases "0 \<le> x")
    case True
    with xy show ?thesis
      by (simp add: quantize2_def divide_right_mono floor_mono)
  next
    case False
    show ?thesis
    proof (cases "0 \<le> y")
      case True
      have "0 \<le> quantize2 y" using True a[of y] by (simp add: quantize2_def)
      moreover have "quantize2 x \<le> 0" using False a[of "- x"] by (simp add: quantize2_def)
      ultimately show ?thesis by linarith
    next
      case F: False
      have "\<lfloor>- y * 100 + 1 / 2\<rfloor> \<le> \<lfloor>- x * 100 + 1 / 2\<rfloor>"
        using xy by (intro floor_mono) simp
      with False F show ?thesis
        by (simp add: quantize2_def divide_right_mono)
    qed
  qed
qed

lemma quantize2_of_int [simp]: "quantize2 (of_int k) = of_int k"
proof -
  have "\<lfloor>of_int j * 100 + 1 / 2 :: rat\<rfloor> = j * 100" for j :: int
    by (rule floor_unique) simp_all
  from this[of k] this[of "- k"] show ?thesis by (simp add: quantize2_def)
qed

lemma quantize2_bounds: "of_int a \<le> x \<Longrightarrow> x \<le> of_int b \<Longrightarrow>
  of_int a \<le> quantize2 x \<and> quantize2 x \<le> of_int b"
  using quantize2_mono quantize2_of_int by metis

lemma quantize2_of_cents [simp]: "quantize2 (of_int m / 100) = of_int m / 100"
proof -
  have "\<lfloor>of_int j + 1 / 2 :: rat\<rfloor> = j" for j :: int
    by (rule floor_unique) simp_all
  from this[of m] this[of "- m"] show ?thesis by (simp add: quantize2_def)
qed

lemma quantize2_cents: "\<exists>m. quantize2 x = of_int m / 100"
  by (auto simp: quantize2_def intro: exI[of _ "- m" for m])

end
