(* ===== verification/Ideas.thy ===== *)
theory Ideas
imports Candidate_State Sources Dec
begin

text \<open>
  The domain records of \<open>src/app/domain/ideas.py\<close> and \<open>feedback_taxonomy.py\<close>: each
  frozen dataclass is a record together with its \<open>__post_init__\<close> as a list of guards,
  which \<open>dataclasses.replace\<close> runs again; and \<open>transition_candidate\<close>. The default
  \<open>datetime.now(UTC)\<close> of a timestamp field is an explicit argument of the operation that
  builds the record.
\<close>

section \<open>Enumerations\<close>

datatype opportunity_family =
  High_Cash | Concentration | Underperformance | Allocation_Drift | Bond_Maturity | Low_Income
| High_Volatility | Missing_Benchmark | Missing_Risk_Profile | Missing_Suitability_Context
| Mandate_Restriction

fun family_value :: "opportunity_family \<Rightarrow> string" where
  "family_value High_Cash = ''high_cash''"
| "family_value Concentration = ''concentration''"
| "family_value Underperformance = ''underperformance''"
| "family_value Allocation_Drift = ''allocation_drift''"
| "family_value Bond_Maturity = ''bond_maturity''"
| "family_value Low_Income = ''low_income''"
| "family_value High_Volatility = ''high_volatility''"
| "family_value Missing_Benchmark = ''missing_benchmark''"
| "family_value Missing_Risk_Profile = ''missing_risk_profile''"
| "family_value Missing_Suitability_Context = ''missing_suitability_context''"
| "family_value Mandate_Restriction = ''mandate_restriction''"

datatype supportability = Support_Ready | Support_Partial | Support_Blocked

fun supportability_value :: "supportability \<Rightarrow> string" where
  "supportability_value Support_Ready = ''ready''"
| "supportability_value Support_Partial = ''partial''"
| "supportability_value Support_Blocked = ''blocked''"

datatype unsupported_reason =
  UR_Missing_Source | UR_Stale_Source | UR_Source_Temporal_Mismatch | UR_Source_Unavailable
| UR_Source_Uncertified | UR_Entitlement_Denied | UR_Incomplete_Lineage
| UR_Unsupported_Source_Product | UR_Hash_Mismatch | UR_AI_Unavailable | UR_Unsupported_AI_Claim

fun unsupported_reason_value :: "unsupported_reason \<Rightarrow> string" where
  "unsupported_reason_value UR_Missing_Source = ''missing_source''"
| "unsupported_reason_value UR_Stale_Source = ''stale_source''"
| "unsupported_reason_value UR_Source_Temporal_Mismatch = ''source_temporal_mismatch''"
| "unsupported_reason_value UR_Source_Unavailable = ''source_unavailable''"
| "unsupported_reason_value UR_Source_Uncertified = ''source_uncertified''"
| "unsupported_reason_value UR_Entitlement_Denied = ''entitlement_denied''"
| "unsupported_reason_value UR_Incomplete_Lineage = ''incomplete_lineage''"
| "unsupported_reason_value UR_Unsupported_Source_Product = ''unsupported_source_product''"
| "unsupported_reason_value UR_Hash_Mismatch = ''hash_mismatch''"
| "unsupported_reason_value UR_AI_Unavailable = ''ai_unavailable''"
| "unsupported_reason_value UR_Unsupported_AI_Claim = ''unsupported_ai_claim''"

datatype reason_code =
  R_High_Cash_Ratio | R_Cash_Source_Ready | R_Concentration_Attention
| R_Underperformance_Attention | R_Allocation_Drift_Attention | R_Maturity_Window
| R_Income_Attention | R_Volatility_Attention | R_Drawdown_Attention | R_Missing_Benchmark
| R_Missing_Risk_Profile | R_Suitability_Context_Missing | R_Mandate_Restriction_Review
| R_Source_Stale | R_Source_Date_Mismatch | R_Source_Generated_After_Evaluation
| R_Source_Partial | R_Below_Materiality | R_Review_Required | R_Materiality_Score
| R_Urgency_Score | R_Confidence_Score | R_Evidence_Quality_Score | R_Freshness_Score
| R_Relevance_Score | R_Downstream_Fit_Score | R_Conflict_Penalty | R_Queue_Priority
| R_Queue_Excluded | R_Review_Approved_For_Conversion | R_Review_Rejected | R_Review_No_Action
| R_Review_Suppressed | R_Review_Snoozed | R_Review_Escalated | R_Opportunity_No_Longer_Eligible
| R_Feedback_Recorded | R_Entitlement_Denied | R_AI_Redaction_Applied | R_AI_Fallback_Used
| R_AI_Verifier_Passed | R_AI_Unsupported_Claim_Blocked | R_AI_Forbidden_Action_Blocked
| R_AI_Action_Content_Blocked

fun reason_value :: "reason_code \<Rightarrow> string" where
  "reason_value R_High_Cash_Ratio = ''high_cash_ratio''"
| "reason_value R_Cash_Source_Ready = ''cash_source_ready''"
| "reason_value R_Concentration_Attention = ''concentration_attention''"
| "reason_value R_Underperformance_Attention = ''underperformance_attention''"
| "reason_value R_Allocation_Drift_Attention = ''allocation_drift_attention''"
| "reason_value R_Maturity_Window = ''maturity_window''"
| "reason_value R_Income_Attention = ''income_attention''"
| "reason_value R_Volatility_Attention = ''volatility_attention''"
| "reason_value R_Drawdown_Attention = ''drawdown_attention''"
| "reason_value R_Missing_Benchmark = ''missing_benchmark''"
| "reason_value R_Missing_Risk_Profile = ''missing_risk_profile''"
| "reason_value R_Suitability_Context_Missing = ''suitability_context_missing''"
| "reason_value R_Mandate_Restriction_Review = ''mandate_restriction_review''"
| "reason_value R_Source_Stale = ''source_stale''"
| "reason_value R_Source_Date_Mismatch = ''source_date_mismatch''"
| "reason_value R_Source_Generated_After_Evaluation = ''source_generated_after_evaluation''"
| "reason_value R_Source_Partial = ''source_partial''"
| "reason_value R_Below_Materiality = ''below_materiality''"
| "reason_value R_Review_Required = ''review_required''"
| "reason_value R_Materiality_Score = ''materiality_score''"
| "reason_value R_Urgency_Score = ''urgency_score''"
| "reason_value R_Confidence_Score = ''confidence_score''"
| "reason_value R_Evidence_Quality_Score = ''evidence_quality_score''"
| "reason_value R_Freshness_Score = ''freshness_score''"
| "reason_value R_Relevance_Score = ''relevance_score''"
| "reason_value R_Downstream_Fit_Score = ''downstream_fit_score''"
| "reason_value R_Conflict_Penalty = ''conflict_penalty''"
| "reason_value R_Queue_Priority = ''queue_priority''"
| "reason_value R_Queue_Excluded = ''queue_excluded''"
| "reason_value R_Review_Approved_For_Conversion = ''review_approved_for_conversion''"
| "reason_value R_Review_Rejected = ''review_rejected''"
| "reason_value R_Review_No_Action = ''review_no_action''"
| "reason_value R_Review_Suppressed = ''review_suppressed''"
| "reason_value R_Review_Snoozed = ''review_snoozed''"
| "reason_value R_Review_Escalated = ''review_escalated''"
| "reason_value R_Opportunity_No_Longer_Eligible = ''opportunity_no_longer_eligible''"
| "reason_value R_Feedback_Recorded = ''feedback_recorded''"
| "reason_value R_Entitlement_Denied = ''entitlement_denied''"
| "reason_value R_AI_Redaction_Applied = ''ai_redaction_applied''"
| "reason_value R_AI_Fallback_Used = ''ai_fallback_used''"
| "reason_value R_AI_Verifier_Passed = ''ai_verifier_passed''"
| "reason_value R_AI_Unsupported_Claim_Blocked = ''ai_unsupported_claim_blocked''"
| "reason_value R_AI_Forbidden_Action_Blocked = ''ai_forbidden_action_blocked''"
| "reason_value R_AI_Action_Content_Blocked = ''ai_action_content_blocked''"

datatype suppression_reason =
  Sup_Duplicate | Sup_Recently_Rejected | Sup_Below_Materiality | Sup_Unsupported_Evidence
| Sup_Manual_Suppression

fun suppression_value :: "suppression_reason \<Rightarrow> string" where
  "suppression_value Sup_Duplicate = ''duplicate''"
| "suppression_value Sup_Recently_Rejected = ''recently_rejected''"
| "suppression_value Sup_Below_Materiality = ''below_materiality''"
| "suppression_value Sup_Unsupported_Evidence = ''unsupported_evidence''"
| "suppression_value Sup_Manual_Suppression = ''manual_suppression''"

datatype candidate_change_reason =
  Initial_Detection | Evidence_Correction | Material_Change | Recurrent_Condition | Migration_Backfill

fun change_reason_value :: "candidate_change_reason \<Rightarrow> string" where
  "change_reason_value Initial_Detection = ''initial_detection''"
| "change_reason_value Evidence_Correction = ''evidence_correction''"
| "change_reason_value Material_Change = ''material_change''"
| "change_reason_value Recurrent_Condition = ''recurrent_condition''"
| "change_reason_value Migration_Backfill = ''migration_backfill''"

datatype conversion_target = Advise_Proposal | Manage_Review | Report_Evidence

fun target_value :: "conversion_target \<Rightarrow> string" where
  "target_value Advise_Proposal = ''advise_proposal''"
| "target_value Manage_Review = ''manage_review''"
| "target_value Report_Evidence = ''report_evidence''"

datatype outcome_status =
  Outcome_Requested | Outcome_Accepted | Outcome_Rejected | Outcome_Failed | Outcome_Completed

fun outcome_status_value :: "outcome_status \<Rightarrow> string" where
  "outcome_status_value Outcome_Requested = ''requested''"
| "outcome_status_value Outcome_Accepted = ''accepted''"
| "outcome_status_value Outcome_Rejected = ''rejected''"
| "outcome_status_value Outcome_Failed = ''failed''"
| "outcome_status_value Outcome_Completed = ''completed''"

section \<open>Scores\<close>

datatype score_component =
  Materiality | Urgency | Confidence | Evidence_Quality | Freshness | Relevance | Downstream_Fit
| Legacy_Fixed_Policy

definition require_bounded_score :: "decimal \<Rightarrow> string \<Rightarrow> guards" where
  "require_bounded_score v field_name =
     [(v < 0 \<or> 100 < v, ValueError (field_name @ '' must be between 0 and 100''))]"

lemma passes_require_bounded_score [simp]:
  "passes (require_bounded_score v f) \<longleftrightarrow> 0 \<le> v \<and> v \<le> 100"
  by (auto simp: require_bounded_score_def)

record score_contribution =
  sc_component :: score_component
  sc_input_score :: decimal
  sc_weight :: decimal
  sc_contribution :: decimal

definition score_contribution_guards :: "score_contribution \<Rightarrow> guards" where
  "score_contribution_guards c =
     require_bounded_score (sc_input_score c) ''input_score'' @
     [(sc_weight c < 0 \<or> 1 < sc_weight c, ValueError ''weight must be between 0 and 1''),
      (sc_contribution c \<noteq> quantize2 (dec_mul (sc_input_score c) (sc_weight c)),
       ValueError ''contribution must equal input_score multiplied by weight'')]"

record idea_score =
  is_policy_version :: string
  is_score :: decimal
  is_reason_codes :: "reason_code list"
  is_contributions :: "score_contribution list"
  is_conflict_penalty_applied :: decimal

definition idea_score_guards :: "idea_score \<Rightarrow> guards" where
  "idea_score_guards s =
     require_text (is_policy_version s) ''policy_version'' @
     require_bounded_score (is_score s) ''score'' @
     require_bounded_score (is_conflict_penalty_applied s) ''conflict_penalty_applied'' @
     [(is_reason_codes s = [], ValueError ''reason_codes is required''),
      (is_contributions s = [], ValueError ''contributions is required''),
      (\<not> distinct (map sc_component (is_contributions s)),
       ValueError ''score contribution components must be unique''),
      (dec_sum (map sc_weight (is_contributions s)) \<noteq> 1,
       ValueError ''score contribution weights must sum to 1''),
      (is_score s \<noteq> min 100 (max 0 (quantize2
          (dec_sub (dec_sum (map sc_contribution (is_contributions s)))
                   (is_conflict_penalty_applied s)))),
       ValueError ''score must equal contributions minus conflict penalty'')]"

section \<open>Evidence\<close>

record lineage_ref =
  ln_lineage_id :: string
  ln_source_refs :: "source_ref list"
  ln_content_hash :: string

definition lineage_ref_guards :: "lineage_ref \<Rightarrow> guards" where
  "lineage_ref_guards l =
     require_text (ln_lineage_id l) ''lineage_id'' @
     require_sha256_digest (ln_content_hash l) ''content_hash'' @
     [(ln_source_refs l = [], ValueError ''source_refs is required'')]"

record opportunity_signal =
  sg_signal_id :: string
  sg_family :: opportunity_family
  sg_source_refs :: "source_ref list"
  sg_reason_codes :: "reason_code list"
  sg_detected_at_utc :: py_datetime
  sg_expires_at_utc :: "py_datetime option"

definition opportunity_signal_guards :: "opportunity_signal \<Rightarrow> guards" where
  "opportunity_signal_guards s =
     require_text (sg_signal_id s) ''signal_id'' @
     require_aware (sg_detected_at_utc s) ''detected_at_utc'' @
     opt_guards (sg_expires_at_utc s) (\<lambda>t.
       require_aware t ''expires_at_utc'' @
       [(dt_le t (sg_detected_at_utc s), ValueError ''expires_at_utc must be after detected_at_utc'')]) @
     [(sg_source_refs s = [], ValueError ''source_refs is required''),
      (sg_reason_codes s = [], ValueError ''reason_codes is required'')]"

record evidence_packet =
  ep_evidence_packet_id :: string
  ep_supportability :: supportability
  ep_source_refs :: "source_ref list"
  ep_lineage_ref :: lineage_ref
  ep_reason_codes :: "reason_code list"
  ep_unsupported_reasons :: "unsupported_reason list"
  ep_created_at_utc :: py_datetime
  ep_applicability_expires_at_utc :: "py_datetime option"
  ep_source_cut_tolerance :: "source_cut_tolerance option"

definition evidence_packet_guards :: "evidence_packet \<Rightarrow> guards" where
  "evidence_packet_guards p =
     require_text (ep_evidence_packet_id p) ''evidence_packet_id'' @
     require_aware (ep_created_at_utc p) ''created_at_utc'' @
     opt_guards (ep_applicability_expires_at_utc p) (\<lambda>t.
       require_aware t ''applicability_expires_at_utc'' @
       [(dt_le t (ep_created_at_utc p),
         ValueError ''applicability_expires_at_utc must be after created_at_utc'')]) @
     [(ep_source_refs p = [], ValueError ''source_refs is required''),
      (ep_reason_codes p = [], ValueError ''reason_codes is required''),
      (ep_supportability p = Support_Blocked \<and> ep_unsupported_reasons p = [],
       ValueError ''blocked evidence requires unsupported_reasons''),
      (ep_supportability p = Support_Ready \<and> ep_unsupported_reasons p \<noteq> [],
       ValueError ''ready evidence cannot carry unsupported_reasons'')] @
     require_unique_sources (ep_source_refs p)"

definition packet_revision_digest :: "evidence_packet \<Rightarrow> string" where
  \<comment> \<open>a constructed packet has unique sources, so the property does not raise\<close>
  "packet_revision_digest p = revision_vector_digest (ep_source_refs p)"

definition packet_cut_posture :: "evidence_packet \<Rightarrow> source_cut_posture_t" where
  "packet_cut_posture p = cut_posture (ep_source_refs p) (ep_source_cut_tolerance p)"

definition valid_packet :: "evidence_packet \<Rightarrow> bool" where
  "valid_packet p \<longleftrightarrow> passes (evidence_packet_guards p)"

lemma valid_packet_unique: "valid_packet p \<Longrightarrow> unique_sources (ep_source_refs p)"
  by (simp add: valid_packet_def evidence_packet_guards_def)

section \<open>Candidates\<close>

record candidate_identity =
  id_business_identity_id :: string
  id_policy_version :: string
  id_material_fingerprint :: string
  id_material_version :: int
  id_evidence_version :: int
  id_change_reason :: candidate_change_reason
  id_supersedes_material_version :: "int option"

definition candidate_identity_guards :: "candidate_identity \<Rightarrow> guards" where
  "candidate_identity_guards i =
     require_text (id_business_identity_id i) ''business_identity_id'' @
     require_text (id_policy_version i) ''policy_version'' @
     require_text (id_material_fingerprint i) ''material_fingerprint'' @
     [(\<not> is_prefix ''sha256:'' (id_material_fingerprint i),
       ValueError ''material_fingerprint must use sha256''),
      (id_material_version i < 1, ValueError ''material_version must be positive''),
      (id_evidence_version i < 1, ValueError ''evidence_version must be positive'')] @
     opt_guards (id_supersedes_material_version i) (\<lambda>v.
       [(v < 1, ValueError ''supersedes_material_version must be positive''),
        (id_material_version i \<le> v,
         ValueError ''supersedes_material_version must precede material_version'')])"

definition valid_identity :: "candidate_identity \<Rightarrow> bool" where
  "valid_identity i \<longleftrightarrow> passes (candidate_identity_guards i)"

record idea_candidate =
  cd_candidate_id :: string
  cd_identity :: candidate_identity
  cd_family :: opportunity_family
  cd_lifecycle_status :: lifecycle_status
  cd_review_posture :: review_posture
  cd_evidence_packet :: evidence_packet
  cd_source_signal_ids :: "string list"
  cd_score :: "idea_score option"
  cd_access_scope :: "access_scope option"
  cd_suppression_reason :: "suppression_reason option"
  cd_created_at_utc :: py_datetime
  cd_updated_at_utc :: py_datetime

definition idea_candidate_guards :: "idea_candidate \<Rightarrow> guards" where
  "idea_candidate_guards c =
     require_text (cd_candidate_id c) ''candidate_id'' @
     require_aware (cd_created_at_utc c) ''created_at_utc'' @
     require_aware (cd_updated_at_utc c) ''updated_at_utc'' @
     [(cd_source_signal_ids c = [], ValueError ''source_signal_ids is required'')] @
     validate_candidate_state (cd_candidate_id c) (cd_lifecycle_status c) (cd_review_posture c)"

definition mk_candidate :: "idea_candidate \<Rightarrow> idea_candidate res" where
  \<comment> \<open>\<open>IdeaCandidate(...)\<close> and \<open>replace(candidate, ...)\<close>\<close>
  "mk_candidate c = checks (idea_candidate_guards c) c"

definition valid_candidate :: "idea_candidate \<Rightarrow> bool" where
  "valid_candidate c \<longleftrightarrow> passes (idea_candidate_guards c)"

lemma valid_candidate_iff:
  "valid_candidate c \<longleftrightarrow>
     \<not> blank (cd_candidate_id c) \<and> aware (cd_created_at_utc c) \<and> aware (cd_updated_at_utc c) \<and>
     cd_source_signal_ids c \<noteq> [] \<and>
     candidate_state_is_compatible (cd_lifecycle_status c) (cd_review_posture c)"
  by (auto simp: valid_candidate_def idea_candidate_guards_def validate_candidate_state_def)

lemma mk_candidate_Inr [res_simps]: "mk_candidate c = Inr d \<longleftrightarrow> valid_candidate c \<and> d = c"
  by (simp add: mk_candidate_def valid_candidate_def)

lemma mk_candidate_valid: "valid_candidate c \<Longrightarrow> mk_candidate c = Inr c"
  by (simp add: mk_candidate_Inr)

definition ready_for_conversion :: "idea_candidate \<Rightarrow> bool" where
  "ready_for_conversion c \<longleftrightarrow>
     cd_lifecycle_status c = Approved \<and> cd_review_posture c = Approved_For_Conversion \<and>
     ep_supportability (cd_evidence_packet c) = Support_Ready"

definition transition_candidate ::
    "py_datetime \<Rightarrow> idea_candidate \<Rightarrow> lifecycle_status \<Rightarrow> py_datetime option \<Rightarrow> idea_candidate res"
where
  "transition_candidate now c target updated_at_utc =
    (if target \<notin> ALLOWED_LIFECYCLE_TRANSITIONS (cd_lifecycle_status c)
     then Inl (InvalidLifecycleTransition (lifecycle_value (cd_lifecycle_status c))
                 (lifecycle_value target))
     else bind_res (review_posture_for_transition (cd_candidate_id c) (cd_review_posture c) target)
       (\<lambda>p. mk_candidate (c\<lparr>cd_lifecycle_status := target, cd_review_posture := p,
                            cd_updated_at_utc := or_else updated_at_utc now\<rparr>)))"

section \<open>Review decisions, feedback and conversion records\<close>

record review_decision =
  rd_review_id :: string
  rd_posture :: review_posture
  rd_reviewer_role :: string
  rd_reason_codes :: "reason_code list"
  rd_decided_at_utc :: py_datetime

definition review_decision_guards :: "review_decision \<Rightarrow> guards" where
  "review_decision_guards d =
     require_text (rd_review_id d) ''review_id'' @
     require_text (rd_reviewer_role d) ''reviewer_role'' @
     require_aware (rd_decided_at_utc d) ''decided_at_utc'' @
     [(rd_reason_codes d = [], ValueError ''reason_codes is required'')]"

definition FEEDBACK_TAXONOMY_VERSION :: string where
  "FEEDBACK_TAXONOMY_VERSION = ''idea-feedback-taxonomy-v1''"

datatype feedback_outcome = Useful | Not_Useful

fun feedback_outcome_value :: "feedback_outcome \<Rightarrow> string" where
  "feedback_outcome_value Useful = ''useful''"
| "feedback_outcome_value Not_Useful = ''not_useful''"

datatype feedback_reason =
  FR_Relevant | FR_Not_Relevant | FR_Already_Known | FR_Wrong_Timing | FR_Insufficient_Evidence
| FR_Wrong_Priority | FR_Duplicate | FR_Client_Specific_Constraint

fun feedback_reason_value :: "feedback_reason \<Rightarrow> string" where
  "feedback_reason_value FR_Relevant = ''relevant''"
| "feedback_reason_value FR_Not_Relevant = ''not_relevant''"
| "feedback_reason_value FR_Already_Known = ''already_known''"
| "feedback_reason_value FR_Wrong_Timing = ''wrong_timing''"
| "feedback_reason_value FR_Insufficient_Evidence = ''insufficient_evidence''"
| "feedback_reason_value FR_Wrong_Priority = ''wrong_priority''"
| "feedback_reason_value FR_Duplicate = ''duplicate''"
| "feedback_reason_value FR_Client_Specific_Constraint = ''client_specific_constraint''"

fun ALLOWED_FEEDBACK_REASONS :: "feedback_outcome \<Rightarrow> feedback_reason set" where
  "ALLOWED_FEEDBACK_REASONS Useful = {FR_Relevant}"
| "ALLOWED_FEEDBACK_REASONS Not_Useful =
     {FR_Not_Relevant, FR_Already_Known, FR_Wrong_Timing, FR_Insufficient_Evidence,
      FR_Wrong_Priority, FR_Duplicate, FR_Client_Specific_Constraint}"

definition validate_feedback_taxonomy ::
    "string \<Rightarrow> feedback_outcome \<Rightarrow> feedback_reason \<Rightarrow> guards" where
  "validate_feedback_taxonomy taxonomy_version outcome reason =
    (let e = InvalidFeedbackTaxonomyCombination taxonomy_version (feedback_outcome_value outcome)
               (feedback_reason_value reason)
     in [(taxonomy_version \<noteq> FEEDBACK_TAXONOMY_VERSION, e),
         (reason \<notin> ALLOWED_FEEDBACK_REASONS outcome, e)])"

lemma passes_validate_feedback_taxonomy [simp]:
  "passes (validate_feedback_taxonomy v out reason) \<longleftrightarrow>
     v = FEEDBACK_TAXONOMY_VERSION \<and> (out = Useful \<longleftrightarrow> reason = FR_Relevant)"
  by (cases out; cases reason) (auto simp: validate_feedback_taxonomy_def Let_def)

record idea_feedback =
  fb_feedback_id :: string
  fb_outcome :: feedback_outcome
  fb_reason :: feedback_reason
  fb_taxonomy_version :: string
  fb_actor_role :: string
  fb_recorded_at_utc :: py_datetime

definition idea_feedback_guards :: "idea_feedback \<Rightarrow> guards" where
  "idea_feedback_guards f =
     require_text (fb_feedback_id f) ''feedback_id'' @
     require_text (fb_actor_role f) ''actor_role'' @
     require_text (fb_taxonomy_version f) ''taxonomy_version'' @
     require_aware (fb_recorded_at_utc f) ''recorded_at_utc'' @
     validate_feedback_taxonomy (fb_taxonomy_version f) (fb_outcome f) (fb_reason f)"

record conversion_intent =
  in_conversion_intent_id :: string
  in_candidate_id :: string
  in_target :: conversion_target
  in_source_status :: lifecycle_status
  in_requested_at_utc :: py_datetime

definition conversion_intent_guards :: "conversion_intent \<Rightarrow> guards" where
  "conversion_intent_guards i =
     require_text (in_conversion_intent_id i) ''conversion_intent_id'' @
     require_text (in_candidate_id i) ''candidate_id'' @
     require_aware (in_requested_at_utc i) ''requested_at_utc'' @
     [(in_source_status i \<noteq> Approved,
       ValueError ''conversion intent requires approved source_status'')]"

record conversion_outcome =
  oc_conversion_outcome_id :: string
  oc_conversion_intent_id :: string
  oc_status :: outcome_status
  oc_downstream_reference :: "string option"
  oc_recorded_at_utc :: py_datetime

definition conversion_outcome_guards :: "conversion_outcome \<Rightarrow> guards" where
  "conversion_outcome_guards out =
     require_text (oc_conversion_outcome_id out) ''conversion_outcome_id'' @
     require_text (oc_conversion_intent_id out) ''conversion_intent_id'' @
     require_aware (oc_recorded_at_utc out) ''recorded_at_utc'' @
     require_opt_text (oc_downstream_reference out) ''downstream_reference''"

section \<open>Transitions of candidates\<close>

text \<open>On a valid candidate a transition fails only when the graph forbids it (or the new
  timestamp is naive), and its result is again valid.\<close>

lemma transition_candidate_ok:
  assumes "valid_candidate c" "t \<in> ALLOWED_LIFECYCLE_TRANSITIONS (cd_lifecycle_status c)"
    and "aware (or_else upd now)"
  obtains p where "candidate_state_is_compatible t p"
    and "review_posture_for_transition (cd_candidate_id c) (cd_review_posture c) t = Inr p"
    and "transition_candidate now c t upd =
      Inr (c\<lparr>cd_lifecycle_status := t, cd_review_posture := p, cd_updated_at_utc := or_else upd now\<rparr>)"
proof -
  from assms(1) have "candidate_state_is_compatible (cd_lifecycle_status c) (cd_review_posture c)"
    by (simp add: valid_candidate_iff)
  then obtain p where p: "review_posture_for_transition (cd_candidate_id c) (cd_review_posture c) t = Inr p"
    "candidate_state_is_compatible t p"
    using transition_posture_compatible[OF _ assms(2)] by blast
  show thesis
  proof (rule that[OF p(2,1)])
    show "transition_candidate now c t upd =
      Inr (c\<lparr>cd_lifecycle_status := t, cd_review_posture := p, cd_updated_at_utc := or_else upd now\<rparr>)"
      using assms p by (simp add: transition_candidate_def mk_candidate_Inr valid_candidate_iff)
  qed
qed

lemma transition_candidate_Inr:
  "transition_candidate now c t upd = Inr d \<Longrightarrow>
     t \<in> ALLOWED_LIFECYCLE_TRANSITIONS (cd_lifecycle_status c) \<and> valid_candidate d \<and>
     (\<exists>p. review_posture_for_transition (cd_candidate_id c) (cd_review_posture c) t = Inr p \<and>
       d = c\<lparr>cd_lifecycle_status := t, cd_review_posture := p, cd_updated_at_utc := or_else upd now\<rparr>)"
  by (auto simp: transition_candidate_def bind_res_Inr mk_candidate_Inr split: if_splits)

lemma review_posture_for_transition_Inr:
  "review_posture_for_transition cid p t = Inr q \<Longrightarrow> candidate_state_is_compatible t q"
  by (cases t) (auto simp: candidate_state_defs split: if_splits)

end
