(* ===== verification/Scoring.thy ===== *)
theory Scoring
imports Ideas
begin

text \<open>
  \<open>src/app/domain/scoring.py\<close>: the scoring inputs, the weighted score with its conflict
  penalty, and the mapping of a threshold breach to a severity. The lemmas show that the
  score \<open>score_inputs\<close> computes always passes the validator of \<open>IdeaScore\<close>, that it lies
  between 0 and 100, and that the severity is monotone between 50 and 100.
\<close>

datatype score_policy_version =
  Allocation_Drift_Legacy_V | Allocation_Drift_V | Bond_Maturity_Legacy_V | Bond_Maturity_V
| Low_Income_Legacy_V | Low_Income_V | Concentration_Legacy_V | Concentration_V
| Drawdown_Review_Legacy_V | Drawdown_Review_V | High_Volatility_Legacy_V | High_Volatility_V
| Weighted_Evidence_V | High_Cash_Legacy_V | High_Cash_V | Mandate_Restriction_Legacy_V
| Mandate_Restriction_V | Missing_Benchmark_Legacy_V | Missing_Benchmark_V
| Missing_Risk_Profile_Legacy_V | Missing_Risk_Profile_V | Missing_Suitability_Legacy_V
| Missing_Suitability_V | Underperformance_Legacy_V | Underperformance_V

fun score_policy_value :: "score_policy_version \<Rightarrow> string" where
  "score_policy_value Allocation_Drift_Legacy_V = ''allocation-drift-mandate-review-v1''"
| "score_policy_value Allocation_Drift_V = ''allocation-drift-mandate-review-v2''"
| "score_policy_value Bond_Maturity_Legacy_V = ''bond-maturity-review-v1''"
| "score_policy_value Bond_Maturity_V = ''bond-maturity-review-v2''"
| "score_policy_value Low_Income_Legacy_V = ''cashflow-liquidity-review-v1''"
| "score_policy_value Low_Income_V = ''cashflow-liquidity-review-v2''"
| "score_policy_value Concentration_Legacy_V = ''concentration-attention-v1''"
| "score_policy_value Concentration_V = ''concentration-attention-v2''"
| "score_policy_value Drawdown_Review_Legacy_V = ''drawdown-review-attention-v1''"
| "score_policy_value Drawdown_Review_V = ''drawdown-review-attention-v2''"
| "score_policy_value High_Volatility_Legacy_V = ''high-volatility-attention-v1''"
| "score_policy_value High_Volatility_V = ''high-volatility-attention-v2''"
| "score_policy_value Weighted_Evidence_V = ''idea-weighted-evidence-score-v1''"
| "score_policy_value High_Cash_Legacy_V = ''idle-liquidity-v1''"
| "score_policy_value High_Cash_V = ''idle-liquidity-v2''"
| "score_policy_value Mandate_Restriction_Legacy_V = ''mandate-restriction-review-v1''"
| "score_policy_value Mandate_Restriction_V = ''mandate-restriction-review-v2''"
| "score_policy_value Missing_Benchmark_Legacy_V = ''missing-benchmark-review-v1''"
| "score_policy_value Missing_Benchmark_V = ''missing-benchmark-review-v2''"
| "score_policy_value Missing_Risk_Profile_Legacy_V = ''missing-risk-profile-review-v1''"
| "score_policy_value Missing_Risk_Profile_V = ''missing-risk-profile-review-v2''"
| "score_policy_value Missing_Suitability_Legacy_V = ''missing-suitability-context-review-v1''"
| "score_policy_value Missing_Suitability_V = ''missing-suitability-context-review-v2''"
| "score_policy_value Underperformance_Legacy_V = ''underperformance-review-v1''"
| "score_policy_value Underperformance_V = ''underperformance-review-v2''"

definition DEFAULT_RANKABLE_SCORE_POLICY_VERSIONS :: "string list" where
  "DEFAULT_RANKABLE_SCORE_POLICY_VERSIONS =
     map score_policy_value
       [Allocation_Drift_Legacy_V, Allocation_Drift_V, Bond_Maturity_Legacy_V, Bond_Maturity_V,
        Low_Income_Legacy_V, Low_Income_V, Concentration_Legacy_V, Concentration_V,
        Drawdown_Review_Legacy_V, Drawdown_Review_V, High_Volatility_Legacy_V, High_Volatility_V,
        Weighted_Evidence_V, High_Cash_Legacy_V, High_Cash_V, Mandate_Restriction_Legacy_V,
        Mandate_Restriction_V, Missing_Benchmark_Legacy_V, Missing_Benchmark_V,
        Missing_Risk_Profile_Legacy_V, Missing_Risk_Profile_V, Missing_Suitability_Legacy_V,
        Missing_Suitability_V, Underperformance_Legacy_V, Underperformance_V]"

record scoring_input =
  si_component :: score_component
  si_input_score :: decimal
  si_weight :: decimal

definition scoring_input_guards :: "scoring_input \<Rightarrow> guards" where
  "scoring_input_guards i =
     require_bounded_score (si_input_score i) ''input_score'' @
     [(si_weight i < 0 \<or> 1 < si_weight i, ValueError ''weight must be between 0 and 1''),
      (si_component i = Legacy_Fixed_Policy,
       ValueError ''legacy_fixed_policy is not a source-evidence scoring input'')]"

record scoring_policy =
  sp_policy_version :: string
  sp_conflict_penalty :: decimal

definition scoring_policy_guards :: "scoring_policy \<Rightarrow> guards" where
  "scoring_policy_guards p =
     require_text (sp_policy_version p) ''policy_version'' @
     require_bounded_score (sp_conflict_penalty p) ''conflict_penalty''"

definition DEFAULT_SCORING_POLICY :: scoring_policy where
  "DEFAULT_SCORING_POLICY =
     \<lparr>sp_policy_version = score_policy_value Weighted_Evidence_V, sp_conflict_penalty = 15\<rparr>"

fun score_reason_code :: "score_component \<Rightarrow> reason_code res" where
  "score_reason_code Materiality = Inr R_Materiality_Score"
| "score_reason_code Urgency = Inr R_Urgency_Score"
| "score_reason_code Confidence = Inr R_Confidence_Score"
| "score_reason_code Evidence_Quality = Inr R_Evidence_Quality_Score"
| "score_reason_code Freshness = Inr R_Freshness_Score"
| "score_reason_code Relevance = Inr R_Relevance_Score"
| "score_reason_code Downstream_Fit = Inr R_Downstream_Fit_Score"
| "score_reason_code Legacy_Fixed_Policy = Inl (KeyError ''legacy_fixed_policy'')"

definition input_contribution :: "scoring_input \<Rightarrow> score_contribution" where
  "input_contribution i =
     \<lparr>sc_component = si_component i, sc_input_score = si_input_score i, sc_weight = si_weight i,
      sc_contribution = quantize2 (dec_mul (si_input_score i) (si_weight i))\<rparr>"

definition score_inputs ::
    "scoring_input list \<Rightarrow> scoring_policy \<Rightarrow> bool \<Rightarrow> reason_code list \<Rightarrow> idea_score res" where
  "score_inputs inputs policy has_conflict_flags reason_codes =
     bind_res (map_res (\<lambda>i. checks (score_contribution_guards (input_contribution i))
                              (input_contribution i)) inputs)
       (\<lambda>contributions.
     let total = dec_sum (map sc_contribution contributions);
         penalty = (if has_conflict_flags then sp_conflict_penalty policy else 0);
         final_score = min 100 (max 0 (quantize2 (dec_sub total penalty)))
     in bind_res (map_res (score_reason_code \<circ> sc_component) contributions) (\<lambda>component_reasons.
     let s = \<lparr>is_policy_version = sp_policy_version policy, is_score = final_score,
              is_reason_codes = reason_codes @ component_reasons @
                (if has_conflict_flags then [R_Conflict_Penalty] else []),
              is_contributions = contributions, is_conflict_penalty_applied = penalty\<rparr>
     in checks (idea_score_guards s) s))"

definition score_candidate ::
    "py_datetime \<Rightarrow> idea_candidate \<Rightarrow> scoring_input list \<Rightarrow> scoring_policy \<Rightarrow> bool \<Rightarrow>
     reason_code list \<Rightarrow> py_datetime option \<Rightarrow> (idea_candidate \<times> idea_score) res" where
  "score_candidate now c inputs policy has_conflict_flags reason_codes scored_at_utc =
    (let scored_at = or_else scored_at_utc now in
     bind_res (checks (require_aware scored_at ''scored_at_utc'') ()) (\<lambda>_.
     bind_res (score_inputs inputs policy has_conflict_flags reason_codes) (\<lambda>s.
     bind_res (mk_candidate (c\<lparr>cd_score := Some s, cd_updated_at_utc := scored_at\<rparr>)) (\<lambda>c'.
       Inr (c', s)))))"

definition relative_threshold_score :: "decimal \<Rightarrow> decimal \<Rightarrow> decimal res" where
  "relative_threshold_score v threshold =
     bind_res (checks [(threshold \<le> 0, ValueError ''threshold must be positive''),
                       (v < threshold, ValueError ''value must meet or exceed threshold'')]
                 (dec_div (dec_sub v threshold) threshold)) (\<lambda>relative_excess.
     bind_res (quantize_cents (dec_add 50 (dec_mul 50 relative_excess))) (\<lambda>q.
       Inr (min 100 q)))"

definition current_complete_materiality_inputs :: "decimal \<Rightarrow> scoring_input list res" where
  "current_complete_materiality_inputs materiality_score =
     map_res (\<lambda>i. checks (scoring_input_guards i) i)
       [\<lparr>si_component = Materiality, si_input_score = materiality_score, si_weight = 70 / 100\<rparr>,
        \<lparr>si_component = Evidence_Quality, si_input_score = 100, si_weight = 15 / 100\<rparr>,
        \<lparr>si_component = Freshness, si_input_score = 100, si_weight = 15 / 100\<rparr>]"

section \<open>The computed score is accepted by its validator\<close>

definition valid_inputs :: "scoring_input list \<Rightarrow> bool" where
  "valid_inputs inputs \<longleftrightarrow>
     inputs \<noteq> [] \<and> (\<forall>i \<in> set inputs. passes (scoring_input_guards i)) \<and>
     distinct (map si_component inputs) \<and> dec_sum (map si_weight inputs) = 1"

lemma passes_scoring_input:
  "passes (scoring_input_guards i) \<longleftrightarrow>
     0 \<le> si_input_score i \<and> si_input_score i \<le> 100 \<and> 0 \<le> si_weight i \<and> si_weight i \<le> 1 \<and>
     si_component i \<noteq> Legacy_Fixed_Policy"
  by (auto simp: scoring_input_guards_def)

lemma input_contribution_passes:
  "passes (scoring_input_guards i) \<Longrightarrow> passes (score_contribution_guards (input_contribution i))"
  by (auto simp: passes_scoring_input score_contribution_guards_def input_contribution_def)

definition component_reason :: "score_component \<Rightarrow> reason_code" where
  "component_reason c = (case score_reason_code c of Inr r \<Rightarrow> r | Inl _ \<Rightarrow> R_Queue_Excluded)"

lemma score_reason_code_ok: "c \<noteq> Legacy_Fixed_Policy \<Longrightarrow> score_reason_code c = Inr (component_reason c)"
  by (cases c) (simp_all add: component_reason_def)

lemma score_inputs_ok:
  fixes flags :: bool
  assumes "valid_inputs inputs" "passes (scoring_policy_guards policy)"
  defines "penalty \<equiv> (if flags then sp_conflict_penalty policy else 0)"
  shows "score_inputs inputs policy flags reasons =
    Inr \<lparr>is_policy_version = sp_policy_version policy,
      is_score = min 100 (max 0 (quantize2 (dec_sub
        (dec_sum (map (\<lambda>i. quantize2 (dec_mul (si_input_score i) (si_weight i))) inputs)) penalty))),
      is_reason_codes = reasons @ map (component_reason \<circ> si_component) inputs @
        (if flags then [R_Conflict_Penalty] else []),
      is_contributions = map input_contribution inputs, is_conflict_penalty_applied = penalty\<rparr>"
proof -
  have ne: "inputs \<noteq> []" and ok: "\<And>i. i \<in> set inputs \<Longrightarrow> passes (scoring_input_guards i)"
    and dist: "distinct (map si_component inputs)" and w: "dec_sum (map si_weight inputs) = 1"
    using assms(1) by (auto simp: valid_inputs_def)
  have 1: "map_res (\<lambda>i. checks (score_contribution_guards (input_contribution i)) (input_contribution i))
      inputs = Inr (map input_contribution inputs)"
    by (rule map_res_total) (simp add: ok input_contribution_passes)
  have 2: "map_res (score_reason_code \<circ> sc_component) (map input_contribution inputs) =
      Inr (map (component_reason \<circ> sc_component) (map input_contribution inputs))"
    by (rule map_res_total) (auto simp: input_contribution_def intro!: score_reason_code_ok
        dest!: ok simp: passes_scoring_input)
  have maps: "map (sc_component \<circ> input_contribution) inputs = map si_component inputs"
    "map (sc_weight \<circ> input_contribution) inputs = map si_weight inputs"
    "map (sc_contribution \<circ> input_contribution) inputs =
      map (\<lambda>i. quantize2 (dec_mul (si_input_score i) (si_weight i))) inputs"
    "map (component_reason \<circ> sc_component \<circ> input_contribution) inputs =
      map (component_reason \<circ> si_component) inputs"
    by (simp_all add: input_contribution_def)
  have p: "0 \<le> penalty" "penalty \<le> 100" "\<not> blank (sp_policy_version policy)"
    using assms(2) by (auto simp: scoring_policy_guards_def penalty_def)
  show ?thesis
    unfolding score_inputs_def 1 bind_res_simps Let_def 2
    by (simp add: checks_passes idea_score_guards_def maps p dist w ne flip: penalty_def)
qed

lemma score_inputs_bounds:
  "score_inputs inputs policy flags reasons = Inr s \<Longrightarrow> 0 \<le> is_score s \<and> is_score s \<le> 100"
  by (auto simp: score_inputs_def bind_res_Inr Let_def)

section \<open>Severity of a threshold breach\<close>

lemma ctx28_small: "ctx28 50 = 50" "ctx28 100 = 100"
  using ctx28_of_int[of 50] ctx28_of_int[of 100] by simp_all

lemma relative_threshold_scoreD:
  assumes "relative_threshold_score v t = Inr s"
  shows "0 < t \<and> t \<le> v \<and> s = min 100 (quantize2 (dec_add 50 (dec_mul 50 (dec_div (dec_sub v t) t))))"
  using assms by (auto simp: relative_threshold_score_def quantize_cents_def res_simps)

lemma severity_mono:
  assumes "0 < t" "t \<le> v" "v \<le> w"
  shows "0 \<le> dec_mul 50 (dec_div (dec_sub v t) t)"
    and "dec_add 50 (dec_mul 50 (dec_div (dec_sub v t) t)) \<le> dec_add 50 (dec_mul 50 (dec_div (dec_sub w t) t))"
proof -
  have 1: "0 \<le> dec_sub v t" "dec_sub v t \<le> dec_sub w t"
    unfolding dec_sub_def using assms by (auto intro: ctx28_nonneg ctx28_mono)
  have 2: "0 \<le> dec_div (dec_sub v t) t" "dec_div (dec_sub v t) t \<le> dec_div (dec_sub w t) t"
    unfolding dec_div_def using assms(1) 1
    by (auto intro!: ctx28_nonneg ctx28_mono simp: divide_right_mono)
  show 3: "0 \<le> dec_mul 50 (dec_div (dec_sub v t) t)"
    unfolding dec_mul_def using 2 by (auto intro: ctx28_nonneg)
  have 4: "dec_mul 50 (dec_div (dec_sub v t) t) \<le> dec_mul 50 (dec_div (dec_sub w t) t)"
    unfolding dec_mul_def using 2 by (auto intro!: ctx28_mono)
  show "dec_add 50 (dec_mul 50 (dec_div (dec_sub v t) t)) \<le> dec_add 50 (dec_mul 50 (dec_div (dec_sub w t) t))"
    unfolding dec_add_def using 3 4 by (auto intro!: ctx28_mono)
qed

lemma severity_bounds:
  assumes "relative_threshold_score v t = Inr s"
  shows "50 \<le> s \<and> s \<le> 100"
proof -
  from relative_threshold_scoreD[OF assms]
  have t: "0 < t" "t \<le> v" and s: "s = min 100 (quantize2 (dec_add 50 (dec_mul 50 (dec_div (dec_sub v t) t))))"
    by auto
  have "ctx28 50 \<le> dec_add 50 (dec_mul 50 (dec_div (dec_sub v t) t))"
    unfolding dec_add_def using severity_mono(1)[OF t order_refl] by (intro ctx28_mono) auto
  then have "of_int 50 \<le> dec_add 50 (dec_mul 50 (dec_div (dec_sub v t) t))"
    by (simp add: ctx28_small)
  then have "quantize2 (of_int 50) \<le> quantize2 (dec_add 50 (dec_mul 50 (dec_div (dec_sub v t) t)))"
    by (rule quantize2_mono)
  then have "50 \<le> quantize2 (dec_add 50 (dec_mul 50 (dec_div (dec_sub v t) t)))"
    unfolding quantize2_of_int by simp
  then show ?thesis by (simp add: s)
qed

lemma severity_monotone:
  assumes "relative_threshold_score v t = Inr s" "relative_threshold_score w t = Inr u" "v \<le> w"
  shows "s \<le> u"
proof -
  from relative_threshold_scoreD[OF assms(1)] relative_threshold_scoreD[OF assms(2)]
  have "0 < t" "t \<le> v"
    and s: "s = min 100 (quantize2 (dec_add 50 (dec_mul 50 (dec_div (dec_sub v t) t))))"
    and u: "u = min 100 (quantize2 (dec_add 50 (dec_mul 50 (dec_div (dec_sub w t) t))))" by auto
  then show ?thesis using quantize2_mono[OF severity_mono(2)[OF _ _ assms(3), of t]] by (simp add: min_le_iff_disj)
qed

lemma severity_at_threshold: "0 < t \<Longrightarrow> relative_threshold_score t t = Inr 50"
  using quantize2_of_int[of 50]
  by (simp add: relative_threshold_score_def quantize_cents_def dec_sub_def dec_div_def dec_mul_def
      dec_add_def ctx28_small checks_passes)

lemma severity_saturates:
  assumes "ctx28 t = t" "2 * t \<le> v" "relative_threshold_score v t = Inr s"
  shows "s = 100"
proof -
  from relative_threshold_scoreD[OF assms(3)]
  have t: "0 < t" and s: "s = min 100 (quantize2 (dec_add 50 (dec_mul 50 (dec_div (dec_sub v t) t))))" by auto
  have "ctx28 t \<le> dec_sub v t" unfolding dec_sub_def using t assms(2) by (intro ctx28_mono) auto
  then have "1 \<le> dec_sub v t / t" using t assms(1) by (simp add: le_divide_eq)
  then have "ctx28 1 \<le> dec_div (dec_sub v t) t" unfolding dec_div_def by (intro ctx28_mono) auto
  then have "1 \<le> dec_div (dec_sub v t) t" using ctx28_of_int[of 1] by simp
  then have "ctx28 50 \<le> dec_mul 50 (dec_div (dec_sub v t) t)" unfolding dec_mul_def
    by (intro ctx28_mono) auto
  then have "ctx28 100 \<le> dec_add 50 (dec_mul 50 (dec_div (dec_sub v t) t))"
    unfolding dec_add_def by (intro ctx28_mono) (auto simp: ctx28_small)
  then have "quantize2 (of_int 100) \<le> quantize2 (dec_add 50 (dec_mul 50 (dec_div (dec_sub v t) t)))"
    by (intro quantize2_mono) (simp add: ctx28_small)
  then show ?thesis unfolding quantize2_of_int by (simp add: s)
qed

end
