(* ===== verification/Identity.thy ===== *)
theory Identity
imports Ideas
begin

text \<open>
  The deterministic identities of an opportunity (\<open>opportunity_identity.py\<close>) and the
  reconciliation of a newly detected candidate against the persisted one
  (\<open>candidate_reconciliation.py\<close>). The lemmas show what each identifier depends on, when
  each reconciliation decision is taken, and that an accepted reconciliation yields a
  valid candidate with a strictly later version.
\<close>

section \<open>Opportunity identities\<close>

definition PREVIOUS_OPPORTUNITY_IDENTITY_POLICY_VERSION :: string where
  "PREVIOUS_OPPORTUNITY_IDENTITY_POLICY_VERSION = ''idea-opportunity-identity-v2''"

definition OPPORTUNITY_IDENTITY_POLICY_VERSION :: string where
  "OPPORTUNITY_IDENTITY_POLICY_VERSION = ''idea-opportunity-identity-v3''"

definition OBSERVATION_ONLY_MATERIAL_FACTS :: "string list" where
  "OBSERVATION_ONLY_MATERIAL_FACTS = [''as_of_date'']"

record opportunity_identity =
  oi_policy_version :: string
  oi_opportunity_kind :: string
  oi_business_identity_id :: string
  oi_material_fingerprint :: string
  oi_evidence_fingerprint :: string
  oi_candidate_id :: string
  oi_signal_id :: string
  oi_evidence_packet_id :: string
  oi_lineage_id :: string

definition initial_candidate_identity :: "opportunity_identity \<Rightarrow> candidate_identity res" where
  "initial_candidate_identity i =
    (let ci = \<lparr>id_business_identity_id = oi_business_identity_id i,
               id_policy_version = oi_policy_version i,
               id_material_fingerprint = oi_material_fingerprint i,
               id_material_version = 1, id_evidence_version = 1,
               id_change_reason = Initial_Detection, id_supersedes_material_version = None\<rparr>
     in checks (candidate_identity_guards ci) ci)"

record business_identity =
  bi_business_identity_id :: string
  bi_candidate_id :: string

definition canonical_digest :: "(string \<times> json) list \<Rightarrow> string" where
  "canonical_digest payload = sha256_json (JObj payload)"

definition business_scope_payload :: "access_scope option \<Rightarrow> py_date \<Rightarrow> json" where
  "business_scope_payload scope as_of_date =
    (case scope of
       None \<Rightarrow> JObj [(''scope_kind'', JStr ''unscoped_evaluation_date''),
                    (''as_of_date'', JStr (date_iso as_of_date))]
     | Some s \<Rightarrow> JObj [(''scope_kind'', JStr ''review_access_scope''),
                      (''tenant_id'', JStr (as_tenant_id s)),
                      (''book_id'', JStr (as_book_id s)),
                      (''portfolio_id'', JStr (as_portfolio_id s)),
                      (''client_id'', JStr (as_client_id s))])"

definition identifier_kind :: "string \<Rightarrow> string" where
  \<comment> \<open>\<open>normalized_kind.replace("-", "_")\<close>\<close>
  "identifier_kind kind = map (\<lambda>c. if c = CHR ''-'' then CHR ''_'' else c) kind"

definition build_business_identity_digest ::
    "opportunity_family \<Rightarrow> string \<Rightarrow> py_date \<Rightarrow> access_scope option \<Rightarrow> (business_identity \<times> string) res"
where
  "build_business_identity_digest family kind as_of_date scope =
    (let normalized = py_strip kind;
         digest = canonical_digest
           [(''family'', JStr (family_value family)), (''opportunity_kind'', JStr normalized),
            (''scope'', business_scope_payload scope as_of_date)]
     in checks [(normalized = [], ValueError ''opportunity_kind is required'')]
          (\<lparr>bi_business_identity_id =
              ''opportunity_'' @ identifier_kind normalized @ ''_'' @ take 24 digest,
            bi_candidate_id = ''idea_'' @ identifier_kind normalized @ ''_'' @ take 16 digest\<rparr>,
           digest))"

definition build_opportunity_business_identity ::
    "opportunity_family \<Rightarrow> string \<Rightarrow> py_date \<Rightarrow> access_scope option \<Rightarrow> business_identity res" where
  "build_opportunity_business_identity family kind as_of_date scope =
     bind_res (build_business_identity_digest family kind as_of_date scope) (\<lambda>p. Inr (fst p))"

fun is_scalar :: "json \<Rightarrow> bool" where
  "is_scalar (JArr _) = False"
| "is_scalar (JObj _) = False"
| "is_scalar _ = True"

definition validate_material_facts :: "(string, json) dict \<Rightarrow> guards" where
  "validate_material_facts facts =
     concat (map (\<lambda>(key, v).
       [(blank key, ValueError ''material fact names must be non-blank strings''),
        (\<not> is_scalar v, TypeError (''material fact '' @ key @ '' must be a canonical scalar''))]) facts) @
     [(leaked_keys OBSERVATION_ONLY_MATERIAL_FACTS facts \<noteq> [],
       ValueError (''observation-only facts cannot define economic materiality: '' @
         join '', '' (leaked_keys OBSERVATION_ONLY_MATERIAL_FACTS facts)))]"

definition ref_order ::
    "source_ref \<Rightarrow> string \<times> string \<times> string \<times> string \<times> int \<times> int \<times> string" where
  "ref_order r =
     (source_system_value (sr_source_system r), sr_product_id r, sr_product_version r, sr_route r,
      sr_as_of_date r, inst (sr_generated_at_utc r), sr_content_hash r)"

definition sorted_refs :: "source_ref list \<Rightarrow> source_ref list" where
  "sorted_refs refs = sort_key ref_order refs"

definition source_ref_identity_payload :: "source_ref \<Rightarrow> json" where
  "source_ref_identity_payload r =
     JObj [(''source_system'', JStr (source_system_value (sr_source_system r))),
           (''product_id'', JStr (sr_product_id r)),
           (''product_version'', JStr (sr_product_version r)),
           (''route'', JStr (sr_route r)),
           (''as_of_date'', JStr (date_iso (sr_as_of_date r))),
           (''generated_at_utc'', JStr (dt_iso (sr_generated_at_utc r))),
           (''content_hash'', JStr (sr_content_hash r)),
           (''data_quality_status'', JStr (sr_data_quality_status r)),
           (''freshness'', JStr (freshness_value (sr_freshness r))),
           (''revision_claims'', source_revision_claims_payload (sr_revision_claims r))]"

definition build_opportunity_identity ::
    "opportunity_family \<Rightarrow> string \<Rightarrow> py_date \<Rightarrow> access_scope option \<Rightarrow> (string, json) dict \<Rightarrow>
     source_ref list \<Rightarrow> opportunity_identity res"
where
  "build_opportunity_identity family kind as_of_date scope facts refs =
    (let normalized = py_strip kind in
     bind_res (checks ([(facts = [], ValueError ''material_facts is required''),
                        (refs = [], ValueError ''source_refs is required'')] @
                       validate_material_facts facts) ()) (\<lambda>_.
     bind_res (build_business_identity_digest family normalized as_of_date scope) (\<lambda>(bi, business_digest).
     let material_digest = canonical_digest
           [(''business_identity_digest'', JStr business_digest),
            (''identity_policy_version'', JStr OPPORTUNITY_IDENTITY_POLICY_VERSION),
            (''material_facts'', JObj facts)];
         evidence_digest = canonical_digest
           [(''business_identity_digest'', JStr business_digest),
            (''material_identity_digest'', JStr material_digest),
            (''source_refs'', JArr (map source_ref_identity_payload (sorted_refs refs)))];
         candidate_token = take 16 business_digest;
         material_token = take 16 material_digest;
         evidence_token = take 16 evidence_digest;
         ik = identifier_kind normalized;
         suffix = candidate_token @ ''_'' @ material_token @ ''_'' @ evidence_token
     in Inr \<lparr>oi_policy_version = OPPORTUNITY_IDENTITY_POLICY_VERSION,
             oi_opportunity_kind = normalized,
             oi_business_identity_id = bi_business_identity_id bi,
             oi_material_fingerprint = ''sha256:'' @ material_digest,
             oi_evidence_fingerprint = ''sha256:'' @ evidence_digest,
             oi_candidate_id = bi_candidate_id bi,
             oi_signal_id = ''signal_'' @ ik @ ''_'' @ suffix,
             oi_evidence_packet_id = ''iep_'' @ ik @ ''_'' @ suffix,
             oi_lineage_id = ''lineage:lotus-idea:'' @ normalized @ '':'' @ candidate_token @ '':'' @
               material_token @ '':'' @ evidence_token\<rparr>)))"

section \<open>Reconciliation\<close>

datatype candidate_decision =
  Cand_Accepted | Cand_Evidence_Refreshed | Cand_Material_Version_Created
| Cand_Recurrent_Condition_Reopened | Cand_Replayed | Cand_Conflict | Cand_Identity_Conflict
| Cand_Duplicate_Candidate

fun candidate_decision_value :: "candidate_decision \<Rightarrow> string" where
  "candidate_decision_value Cand_Accepted = ''accepted''"
| "candidate_decision_value Cand_Evidence_Refreshed = ''evidence_refreshed''"
| "candidate_decision_value Cand_Material_Version_Created = ''material_version_created''"
| "candidate_decision_value Cand_Recurrent_Condition_Reopened = ''recurrent_condition_reopened''"
| "candidate_decision_value Cand_Replayed = ''replayed''"
| "candidate_decision_value Cand_Conflict = ''conflict''"
| "candidate_decision_value Cand_Identity_Conflict = ''identity_conflict''"
| "candidate_decision_value Cand_Duplicate_Candidate = ''duplicate_candidate''"

definition REOPENABLE_TERMINAL_STATUSES :: "lifecycle_status set" where
  "REOPENABLE_TERMINAL_STATUSES = {Accepted, Rejected, Expired, Executed, Closed}"

record candidate_reconciliation =
  rn_decision :: candidate_decision
  rn_candidate :: "idea_candidate option"

definition same_business_scope :: "idea_candidate \<Rightarrow> idea_candidate \<Rightarrow> bool" where
  "same_business_scope existing incoming \<longleftrightarrow>
     cd_candidate_id incoming = cd_candidate_id existing \<and>
     id_business_identity_id (cd_identity incoming) = id_business_identity_id (cd_identity existing) \<and>
     cd_family incoming = cd_family existing \<and>
     cd_access_scope incoming = cd_access_scope existing"

definition is_supported_policy_upgrade :: "idea_candidate \<Rightarrow> idea_candidate \<Rightarrow> bool" where
  "is_supported_policy_upgrade existing incoming \<longleftrightarrow>
     id_policy_version (cd_identity existing) = PREVIOUS_OPPORTUNITY_IDENTITY_POLICY_VERSION \<and>
     id_policy_version (cd_identity incoming) = OPPORTUNITY_IDENTITY_POLICY_VERSION"

definition evidence_refresh_review_state ::
    "idea_candidate \<Rightarrow> lifecycle_status \<times> review_posture \<times> suppression_reason option" where
  "evidence_refresh_review_state existing =
    (if cd_lifecycle_status existing = Approved
     then (Ready_For_Review, Advisor_Review_Required, None)
     else (cd_lifecycle_status existing, cd_review_posture existing, cd_suppression_reason existing))"

definition mk_identity :: "candidate_identity \<Rightarrow> candidate_identity res" where
  "mk_identity i = checks (candidate_identity_guards i) i"

definition refreshed_candidate ::
    "idea_candidate \<Rightarrow> idea_candidate \<Rightarrow> candidate_identity \<Rightarrow> py_datetime \<Rightarrow> idea_candidate res" where
  \<comment> \<open>the \<open>replace(incoming, ...)\<close> shared by the two evidence refreshes\<close>
  "refreshed_candidate existing incoming i occurred_at_utc =
    (case evidence_refresh_review_state existing of (l, p, s) \<Rightarrow>
       mk_candidate (incoming\<lparr>cd_identity := i, cd_lifecycle_status := l, cd_review_posture := p,
         cd_suppression_reason := s, cd_created_at_utc := cd_created_at_utc existing,
         cd_updated_at_utc := dt_max (cd_updated_at_utc existing) occurred_at_utc\<rparr>))"

definition backfill_identity_policy ::
    "idea_candidate \<Rightarrow> idea_candidate \<Rightarrow> py_datetime \<Rightarrow> idea_candidate res" where
  "backfill_identity_policy existing incoming occurred_at_utc =
     bind_res (mk_identity ((cd_identity incoming)\<lparr>
         id_material_version := id_material_version (cd_identity existing),
         id_evidence_version := id_evidence_version (cd_identity existing) + 1,
         id_change_reason := Migration_Backfill,
         id_supersedes_material_version := id_supersedes_material_version (cd_identity existing)\<rparr>))
       (\<lambda>i. refreshed_candidate existing incoming i occurred_at_utc)"

definition new_material_version ::
    "idea_candidate \<Rightarrow> idea_candidate \<Rightarrow> py_datetime \<Rightarrow> candidate_change_reason \<Rightarrow> idea_candidate res"
where
  "new_material_version existing incoming occurred_at_utc reason =
     bind_res (mk_identity
        \<lparr>id_business_identity_id = id_business_identity_id (cd_identity existing),
         id_policy_version = id_policy_version (cd_identity existing),
         id_material_fingerprint = id_material_fingerprint (cd_identity incoming),
         id_material_version = id_material_version (cd_identity existing) + 1,
         id_evidence_version = 1, id_change_reason = reason,
         id_supersedes_material_version = Some (id_material_version (cd_identity existing))\<rparr>)
       (\<lambda>i. mk_candidate (incoming\<lparr>cd_identity := i, cd_suppression_reason := None,
              cd_created_at_utc := cd_created_at_utc existing,
              cd_updated_at_utc := dt_max (cd_updated_at_utc existing) occurred_at_utc\<rparr>))"

definition reconciled :: "candidate_decision \<Rightarrow> idea_candidate res \<Rightarrow> candidate_reconciliation res" where
  "reconciled d r = bind_res r (\<lambda>c. Inr \<lparr>rn_decision = d, rn_candidate = Some c\<rparr>)"

definition not_reconciled :: "candidate_decision \<Rightarrow> candidate_reconciliation res" where
  "not_reconciled d = Inr \<lparr>rn_decision = d, rn_candidate = None\<rparr>"

definition reconcile_candidate ::
    "idea_candidate \<Rightarrow> idea_candidate \<Rightarrow> string \<Rightarrow> string \<Rightarrow> py_datetime \<Rightarrow> candidate_reconciliation res"
where
  "reconcile_candidate existing incoming existing_evidence_hash incoming_evidence_hash occurred_at_utc =
    (let material_changed = id_material_fingerprint (cd_identity incoming) \<noteq>
           id_material_fingerprint (cd_identity existing);
         evidence_changed = incoming_evidence_hash \<noteq> existing_evidence_hash
     in if \<not> same_business_scope existing incoming then not_reconciled Cand_Identity_Conflict
        else if id_policy_version (cd_identity existing) \<noteq> id_policy_version (cd_identity incoming)
        then (if \<not> is_supported_policy_upgrade existing incoming
              then not_reconciled Cand_Identity_Conflict
              else reconciled Cand_Evidence_Refreshed
                     (backfill_identity_policy existing incoming occurred_at_utc))
        else if \<not> material_changed \<and>
            \<not> opt_dt_eq (ep_applicability_expires_at_utc (cd_evidence_packet incoming))
                        (ep_applicability_expires_at_utc (cd_evidence_packet existing))
        then not_reconciled Cand_Identity_Conflict
        else if \<not> material_changed \<and> \<not> evidence_changed
        then not_reconciled Cand_Duplicate_Candidate
        else if material_changed \<and> cd_lifecycle_status existing \<in> REOPENABLE_TERMINAL_STATUSES
        then reconciled Cand_Recurrent_Condition_Reopened
               (new_material_version existing incoming occurred_at_utc Recurrent_Condition)
        else if material_changed
        then reconciled Cand_Material_Version_Created
               (new_material_version existing incoming occurred_at_utc Material_Change)
        else reconciled Cand_Evidence_Refreshed
          (bind_res (mk_identity ((cd_identity existing)\<lparr>
               id_evidence_version := id_evidence_version (cd_identity existing) + 1,
               id_change_reason := Evidence_Correction,
               id_supersedes_material_version := None\<rparr>))
             (\<lambda>i. refreshed_candidate existing incoming i occurred_at_utc)))"

section \<open>What the identifiers depend on\<close>

lemma business_identity_scoped:
  "build_business_identity_digest f k d (Some s) = build_business_identity_digest f k d' (Some s)"
  by (simp add: build_business_identity_digest_def business_scope_payload_def)

lemma build_opportunity_identityD:
  assumes "build_opportunity_identity f k d scope facts refs = Inr i"
  obtains b where "build_opportunity_business_identity f k d scope = Inr b"
    and "oi_candidate_id i = bi_candidate_id b"
    and "oi_business_identity_id i = bi_business_identity_id b"
    and "oi_opportunity_kind i = py_strip k"
    and "oi_policy_version i = OPPORTUNITY_IDENTITY_POLICY_VERSION"
    and "is_sha256_digest (oi_material_fingerprint i)" and "is_sha256_digest (oi_evidence_fingerprint i)"
proof -
  from assms obtain b dg where b: "build_business_identity_digest f (py_strip k) d scope = Inr (b, dg)"
    and i: "oi_candidate_id i = bi_candidate_id b" "oi_business_identity_id i = bi_business_identity_id b"
      "oi_opportunity_kind i = py_strip k" "oi_policy_version i = OPPORTUNITY_IDENTITY_POLICY_VERSION"
      "is_sha256_digest (oi_material_fingerprint i)" "is_sha256_digest (oi_evidence_fingerprint i)"
    by (auto simp: build_opportunity_identity_def bind_res_Inr Let_def canonical_digest_def
        simp del: append_Cons split: prod.splits)
  from b have "build_business_identity_digest f k d scope = Inr (b, dg)"
    by (simp add: build_business_identity_digest_def py_strip_strip)
  then have "build_opportunity_business_identity f k d scope = Inr b"
    by (simp add: build_opportunity_business_identity_def)
  then show thesis using that i by blast
qed

lemma sorted_refs_perm:
  assumes "mset xs = mset ys" "distinct (map ref_order xs)"
  shows "sorted_refs xs = sorted_refs ys"
  unfolding sorted_refs_def using assms by (rule sort_key_perm_distinct)

lemma validate_material_facts_perm:
  assumes "mset fs = mset gs"
  shows "passes (validate_material_facts fs) \<longleftrightarrow> passes (validate_material_facts gs)"
proof -
  have "set fs = set gs" using assms by (rule mset_eq_setD)
  then show ?thesis by (auto simp: validate_material_facts_def list_all_iff)
qed

lemma build_opportunity_identity_perm:
  assumes "mset facts = mset facts'" "distinct (d_keys facts)"
    and "mset refs = mset refs'" "distinct (map ref_order refs)"
    and "build_opportunity_identity f k d scope facts refs = Inr i"
  shows "build_opportunity_identity f k d scope facts' refs' = Inr i"
proof -
  have j: "json_dumps (JObj facts) = json_dumps (JObj facts')"
    by (rule json_dumps_key_order[OF assms(1,2)])
  have cd: "canonical_digest [(a, x), (b, y), (c, JObj facts)] = canonical_digest [(a, x), (b, y), (c, JObj facts')]"
    for a b c x y
    unfolding canonical_digest_def sha256_json_def
    by (rule arg_cong[where f = sha256_hex], rule json_dumps_values) (simp only: list.map prod.case j)
  have e: "facts = [] \<longleftrightarrow> facts' = []" "refs = [] \<longleftrightarrow> refs' = []"
    using assms(1,3) by auto
  from assms(5) have p: "facts \<noteq> []" "refs \<noteq> []" "passes (validate_material_facts facts)"
    by (auto simp: build_opportunity_identity_def bind_res_Inr Let_def)
  then have "facts' \<noteq> []" "refs' \<noteq> []" "passes (validate_material_facts facts')"
    using e validate_material_facts_perm[OF assms(1)] by auto
  then show ?thesis
    using assms(5) p sorted_refs_perm[OF assms(3,4)]
    unfolding build_opportunity_identity_def Let_def by (simp add: checks_passes cd)
qed

section \<open>Reconciliation decisions\<close>

lemma valid_identity_iff:
  "valid_identity i \<longleftrightarrow>
     \<not> blank (id_business_identity_id i) \<and> \<not> blank (id_policy_version i) \<and>
     \<not> blank (id_material_fingerprint i) \<and> is_prefix ''sha256:'' (id_material_fingerprint i) \<and>
     1 \<le> id_material_version i \<and> 1 \<le> id_evidence_version i \<and>
     (\<forall>v. id_supersedes_material_version i = Some v \<longrightarrow> 1 \<le> v \<and> v < id_material_version i)"
  by (auto simp: valid_identity_def candidate_identity_guards_def)

lemma mk_identity_Inr [res_simps]: "mk_identity i = Inr j \<longleftrightarrow> valid_identity i \<and> j = i"
  by (simp add: mk_identity_def valid_identity_def)

definition well_formed_candidate :: "idea_candidate \<Rightarrow> bool" where
  "well_formed_candidate c \<longleftrightarrow>
     valid_candidate c \<and> valid_identity (cd_identity c) \<and> valid_packet (cd_evidence_packet c) \<and>
     passes (lineage_ref_guards (ep_lineage_ref (cd_evidence_packet c)))"

definition version_less :: "idea_candidate \<Rightarrow> idea_candidate \<Rightarrow> bool" where
  "version_less c d \<longleftrightarrow>
     id_material_version (cd_identity c) < id_material_version (cd_identity d) \<or>
     id_material_version (cd_identity c) = id_material_version (cd_identity d) \<and>
     id_evidence_version (cd_identity c) < id_evidence_version (cd_identity d)"

lemma refreshed_candidate_ok:
  assumes "well_formed_candidate existing" "well_formed_candidate incoming" "valid_identity i" "aware t"
  obtains c where "refreshed_candidate existing incoming i t = Inr c" and "well_formed_candidate c"
    and "cd_identity c = i" and "cd_candidate_id c = cd_candidate_id incoming"
    and "cd_created_at_utc c = cd_created_at_utc existing"
    and "cd_evidence_packet c = cd_evidence_packet incoming"
    and "cd_lifecycle_status c \<noteq> Approved"
    and "cd_lifecycle_status c = (if cd_lifecycle_status existing = Approved then Ready_For_Review
           else cd_lifecycle_status existing)"
proof -
  have e: "valid_candidate existing" "valid_candidate incoming" using assms by (simp_all add: well_formed_candidate_def)
  obtain l p s where s: "evidence_refresh_review_state existing = (l, p, s)" by (cases "evidence_refresh_review_state existing") auto
  have lp: "candidate_state_is_compatible l p" "l \<noteq> Approved"
    "l = (if cd_lifecycle_status existing = Approved then Ready_For_Review else cd_lifecycle_status existing)"
    using s e(1) by (auto simp: evidence_refresh_review_state_def valid_candidate_iff candidate_state_is_compatible_def
        split: if_splits)
  let ?c = "incoming\<lparr>cd_identity := i, cd_lifecycle_status := l, cd_review_posture := p,
         cd_suppression_reason := s, cd_created_at_utc := cd_created_at_utc existing,
         cd_updated_at_utc := dt_max (cd_updated_at_utc existing) t\<rparr>"
  have v: "valid_candidate ?c" using e assms(4) lp(1) by (simp add: valid_candidate_iff)
  then have "well_formed_candidate ?c" using assms by (simp add: well_formed_candidate_def)
  moreover have "refreshed_candidate existing incoming i t = Inr ?c"
    using v by (simp add: refreshed_candidate_def s mk_candidate_Inr)
  ultimately show thesis using that[of ?c] lp by simp
qed

lemma new_material_version_ok:
  assumes "well_formed_candidate existing" "well_formed_candidate incoming" "aware t"
  obtains c where "new_material_version existing incoming t reason = Inr c" and "well_formed_candidate c"
    and "id_material_version (cd_identity c) = id_material_version (cd_identity existing) + 1"
    and "id_evidence_version (cd_identity c) = 1"
    and "cd_candidate_id c = cd_candidate_id incoming"
    and "cd_created_at_utc c = cd_created_at_utc existing"
    and "cd_evidence_packet c = cd_evidence_packet incoming"
    and "cd_lifecycle_status c = cd_lifecycle_status incoming"
    and "id_supersedes_material_version (cd_identity c) = Some (id_material_version (cd_identity existing))"
proof -
  let ?i = "\<lparr>id_business_identity_id = id_business_identity_id (cd_identity existing),
         id_policy_version = id_policy_version (cd_identity existing),
         id_material_fingerprint = id_material_fingerprint (cd_identity incoming),
         id_material_version = id_material_version (cd_identity existing) + 1,
         id_evidence_version = 1, id_change_reason = reason,
         id_supersedes_material_version = Some (id_material_version (cd_identity existing))\<rparr>"
  let ?c = "incoming\<lparr>cd_identity := ?i, cd_suppression_reason := None,
              cd_created_at_utc := cd_created_at_utc existing,
              cd_updated_at_utc := dt_max (cd_updated_at_utc existing) t\<rparr>"
  have i: "valid_identity ?i" using assms by (auto simp: well_formed_candidate_def valid_identity_iff)
  have v: "valid_candidate ?c"
    using assms by (auto simp: well_formed_candidate_def valid_candidate_iff)
  then have "well_formed_candidate ?c" using assms(2) i by (simp add: well_formed_candidate_def)
  moreover have "new_material_version existing incoming t reason = Inr ?c"
    using v i by (simp add: new_material_version_def mk_identity_Inr mk_candidate_Inr bind_res_Inr)
  ultimately show thesis using that[of ?c] by simp
qed

lemmas reconcile_defs = reconcile_candidate_def reconciled_def not_reconciled_def Let_def

text \<open>The outcome of a reconciliation that changes the candidate.\<close>

definition reconciliation_ok :: "idea_candidate \<Rightarrow> idea_candidate \<Rightarrow> candidate_reconciliation \<Rightarrow> bool" where
  "reconciliation_ok existing incoming r \<longleftrightarrow>
     (rn_candidate r = None \<longleftrightarrow> rn_decision r \<in> {Cand_Identity_Conflict, Cand_Duplicate_Candidate}) \<and>
     (\<forall>c. rn_candidate r = Some c \<longrightarrow>
        well_formed_candidate c \<and> version_less existing c \<and>
        cd_candidate_id c = cd_candidate_id existing \<and>
        cd_created_at_utc c = cd_created_at_utc existing \<and>
        cd_evidence_packet c = cd_evidence_packet incoming \<and>
        (rn_decision r = Cand_Evidence_Refreshed \<longrightarrow> cd_lifecycle_status c \<noteq> Approved) \<and>
        (cd_lifecycle_status c = Approved \<longrightarrow> cd_lifecycle_status incoming = Approved))"

lemma reconciled_refresh:
  assumes "well_formed_candidate existing" "well_formed_candidate incoming" "aware t"
    and "same_business_scope existing incoming" "valid_identity i"
    and "id_material_version i = id_material_version (cd_identity existing)"
    and "id_evidence_version i = id_evidence_version (cd_identity existing) + 1"
  shows "\<exists>r. reconciled Cand_Evidence_Refreshed (refreshed_candidate existing incoming i t) = Inr r \<and>
    reconciliation_ok existing incoming r \<and> rn_decision r = Cand_Evidence_Refreshed"
  by (rule refreshed_candidate_ok[OF assms(1,2,5,3)])
    (use assms in \<open>auto simp: reconciled_def reconciliation_ok_def version_less_def same_business_scope_def\<close>)

lemma reconciled_material:
  assumes "well_formed_candidate existing" "well_formed_candidate incoming" "aware t"
    and "same_business_scope existing incoming" "dd \<in> {Cand_Material_Version_Created, Cand_Recurrent_Condition_Reopened}"
  shows "\<exists>r. reconciled dd (new_material_version existing incoming t reason) = Inr r \<and>
    reconciliation_ok existing incoming r \<and> rn_decision r = dd"
  by (rule new_material_version_ok[OF assms(1,2,3), of reason])
    (use assms in \<open>auto simp: reconciled_def reconciliation_ok_def version_less_def same_business_scope_def\<close>)

lemma reconcile_candidate_ok:
  assumes "well_formed_candidate existing" "well_formed_candidate incoming" "aware t"
  shows "\<exists>r. reconcile_candidate existing incoming eh ih t = Inr r \<and> reconciliation_ok existing incoming r"
proof -
  have none: "\<exists>r. not_reconciled d = Inr r \<and> reconciliation_ok existing incoming r"
    if "d \<in> {Cand_Identity_Conflict, Cand_Duplicate_Candidate}" for d
    using that by (auto simp: not_reconciled_def reconciliation_ok_def)
  have vi: "valid_identity (cd_identity existing)" "valid_identity (cd_identity incoming)"
    using assms by (simp_all add: well_formed_candidate_def)
  let ?i1 = "(cd_identity incoming)\<lparr>
         id_material_version := id_material_version (cd_identity existing),
         id_evidence_version := id_evidence_version (cd_identity existing) + 1,
         id_change_reason := Migration_Backfill,
         id_supersedes_material_version := id_supersedes_material_version (cd_identity existing)\<rparr>"
  let ?i2 = "(cd_identity existing)\<lparr>
               id_evidence_version := id_evidence_version (cd_identity existing) + 1,
               id_change_reason := Evidence_Correction, id_supersedes_material_version := None\<rparr>"
  have v: "valid_identity ?i1" "valid_identity ?i2" using vi by (auto simp: valid_identity_iff)
  have b: "backfill_identity_policy existing incoming t = refreshed_candidate existing incoming ?i1 t"
    "bind_res (mk_identity ?i2) (\<lambda>i. refreshed_candidate existing incoming i t) =
       refreshed_candidate existing incoming ?i2 t"
    using v by (simp_all add: backfill_identity_policy_def mk_identity_def valid_identity_def checks_passes)
  show ?thesis
    unfolding reconcile_candidate_def Let_def b
    using none reconciled_refresh[OF assms _ v(1)] reconciled_refresh[OF assms _ v(2)]
      reconciled_material[OF assms, of Cand_Recurrent_Condition_Reopened Recurrent_Condition]
      reconciled_material[OF assms, of Cand_Material_Version_Created Material_Change]
    by (auto simp del: fun_upd_apply)
qed

end
