(* ===== verification/Samples.thy ===== *)
theory Samples
imports Control Scoring Identity
begin

text \<open>
  Concrete values on which the properties are applied: a Core holding source, the evidence
  packet it supports, a candidate ready for review and its access scope.
\<close>

definition sample_source :: source_ref where
  "sample_source =
     \<lparr>sr_product_id = ''HoldingsAsOf'', sr_source_system = Lotus_Core, sr_product_version = ''v1'',
      sr_route = ''/core'', sr_as_of_date = 739000, sr_generated_at_utc = utc 0,
      sr_content_hash = ''sha256:'' @ replicate 64 (CHR ''0''), sr_data_quality_status = ''complete'',
      sr_freshness = Fresh_Current,
      sr_revision_claims = Some
        \<lparr>rc_snapshot_id = None, rc_source_revision = Some ''7'', rc_restatement_version = None,
         rc_source_batch_id = None, rc_source_cut_id = Some ''cut-1'', rc_calculation_run_id = None,
         rc_methodology_version = None, rc_policy_version = None, rc_causal_input_revisions = [],
         rc_reconciliation_posture = Rec_Complete\<rparr>\<rparr>"

definition sample_packet :: evidence_packet where
  "sample_packet =
     \<lparr>ep_evidence_packet_id = ''packet-1'', ep_supportability = Support_Ready,
      ep_source_refs = [sample_source],
      ep_lineage_ref = \<lparr>ln_lineage_id = ''lineage-1'', ln_source_refs = [sample_source],
        ln_content_hash = evidence_hash [sample_source]\<rparr>,
      ep_reason_codes = [R_High_Cash_Ratio], ep_unsupported_reasons = [],
      ep_created_at_utc = utc 0, ep_applicability_expires_at_utc = None,
      ep_source_cut_tolerance = None\<rparr>"

definition sample_scope :: access_scope where
  "sample_scope =
     \<lparr>as_tenant_id = ''tenant-1'', as_book_id = ''book-1'', as_portfolio_id = ''portfolio-1'',
      as_client_id = ''client-1''\<rparr>"

definition sample_candidate :: idea_candidate where
  "sample_candidate =
     \<lparr>cd_candidate_id = ''idea-1'',
      cd_identity = \<lparr>id_business_identity_id = ''opp-1'',
        id_policy_version = OPPORTUNITY_IDENTITY_POLICY_VERSION,
        id_material_fingerprint = ''sha256:00'', id_material_version = 1, id_evidence_version = 1,
        id_change_reason = Initial_Detection, id_supersedes_material_version = None\<rparr>,
      cd_family = High_Cash, cd_lifecycle_status = Ready_For_Review,
      cd_review_posture = Advisor_Review_Required, cd_evidence_packet = sample_packet,
      cd_source_signal_ids = [''signal-1''], cd_score = None, cd_access_scope = Some sample_scope,
      cd_suppression_reason = None, cd_created_at_utc = utc 0, cd_updated_at_utc = utc 0\<rparr>"

text \<open>The samples are what the constructors accept.\<close>

lemma sample_unique: "unique_sources [sample_source]"
  by (simp add: unique_sources_def)

lemma sample_packet_valid: "valid_packet sample_packet"
  by (simp add: valid_packet_def evidence_packet_guards_def sample_packet_def sample_unique blank_iff py_space_def)

lemma sample_lineage_ok: "passes (lineage_ref_guards (ep_lineage_ref sample_packet))"
  by (simp add: lineage_ref_guards_def sample_packet_def blank_iff py_space_def)

lemma sample_candidate_well_formed: "well_formed_candidate sample_candidate"
  by (simp add: well_formed_candidate_def valid_candidate_iff valid_identity_iff sample_candidate_def
      sample_packet_valid candidate_state_defs blank_iff py_space_def 
      OPPORTUNITY_IDENTITY_POLICY_VERSION_def sample_lineage_ok)

lemma sample_candidate_valid: "valid_candidate sample_candidate"
  using sample_candidate_well_formed by (simp add: well_formed_candidate_def)

lemma sample_cut_posture: "packet_cut_posture sample_packet = Cut_Coherent"
  by (simp add: packet_cut_posture_def sample_packet_def cut_posture_def sample_source_def
      List.map_filter_def has_primary_revision_identity_def truthy_text_def causal_input_posture_def
      causal_claims_def)

end
