(* ===== verification/Candidate_Properties.thy ===== *)
theory Candidate_Properties
imports Samples
begin

text \<open>
  The properties of the candidate model: its lifecycle, the hashes of its evidence, its
  score, its identity and its reconciliation, and the idempotency identities of mutations.
\<close>

section \<open>Lifecycle\<close>

text \<open>C1: an allowed transition of a valid candidate always succeeds, takes the requested
  status and a posture that is compatible with it, and leaves the rest of the candidate
  unchanged; a transition the graph forbids raises \<open>InvalidLifecycleTransition\<close>.\<close>

theorem transition_candidate_total:
  assumes "valid_candidate c" "aware now"
  shows "if t \<in> ALLOWED_LIFECYCLE_TRANSITIONS (cd_lifecycle_status c)
    then \<exists>p. transition_candidate now c t None =
           Inr (c\<lparr>cd_lifecycle_status := t, cd_review_posture := p, cd_updated_at_utc := now\<rparr>) \<and>
         valid_candidate (c\<lparr>cd_lifecycle_status := t, cd_review_posture := p, cd_updated_at_utc := now\<rparr>)
    else transition_candidate now c t None =
           Inl (InvalidLifecycleTransition (lifecycle_value (cd_lifecycle_status c)) (lifecycle_value t))"
proof (cases "t \<in> ALLOWED_LIFECYCLE_TRANSITIONS (cd_lifecycle_status c)")
  case True
  obtain p where "transition_candidate now c t None =
      Inr (c\<lparr>cd_lifecycle_status := t, cd_review_posture := p, cd_updated_at_utc := or_else None now\<rparr>)"
    using transition_candidate_ok[OF assms(1) True, of None now] assms(2) by auto
  with True transition_candidate_Inr[OF this] show ?thesis by auto
next
  case False
  then show ?thesis by (simp add: transition_candidate_def)
qed

theorem transition_candidate_total_witness:
  "\<exists>p. transition_candidate (utc 5) sample_candidate Reviewed_By_Advisor None =
     Inr (sample_candidate\<lparr>cd_lifecycle_status := Reviewed_By_Advisor, cd_review_posture := p,
       cd_updated_at_utc := utc 5\<rparr>)"
proof -
  have t: "Reviewed_By_Advisor \<in> ALLOWED_LIFECYCLE_TRANSITIONS (cd_lifecycle_status sample_candidate)"
    by (simp add: sample_candidate_def)
  show ?thesis
    using transition_candidate_total[OF sample_candidate_valid is_utc_utc(2), of Reviewed_By_Advisor 5]
    unfolding if_P[OF t] by blast
qed

text \<open>A candidate moves through a list of targets, one transition each.\<close>

fun transition_all :: "py_datetime \<Rightarrow> idea_candidate \<Rightarrow> lifecycle_status list \<Rightarrow> idea_candidate res" where
  "transition_all now c [] = Inr c"
| "transition_all now c (t # ts) =
     bind_res (transition_candidate now c t None) (\<lambda>d. transition_all now d ts)"

lemma transition_all_run:
  "transition_all now c ts = Inr d \<Longrightarrow>
     lifecycle_run (cd_lifecycle_status c) ts \<and>
     cd_lifecycle_status d = last (cd_lifecycle_status c # ts) \<and> cd_identity d = cd_identity c"
proof (induction ts arbitrary: c)
  case (Cons t ts)
  then obtain e where e: "transition_candidate now c t None = Inr e" "transition_all now e ts = Inr d"
    by (auto simp: bind_res_Inr)
  from transition_candidate_Inr[OF e(1)]
  have "t \<in> ALLOWED_LIFECYCLE_TRANSITIONS (cd_lifecycle_status c)" "cd_lifecycle_status e = t"
    "cd_identity e = cd_identity c" by auto
  with Cons.IH[OF e(2)] show ?case by auto
qed auto

lemma transition_all_valid: "transition_all now c ts = Inr d \<Longrightarrow> valid_candidate c \<Longrightarrow> valid_candidate d"
  by (induction ts arbitrary: c) (auto simp: bind_res_Inr dest!: transition_candidate_Inr)

text \<open>C2: no run of transitions cycles: each raises the rank of the status, so a
  candidate makes at most ten, never returns to a status, never reaches the two statuses only
  the downstream owner may grant, and keeps its identity and validity on the way.\<close>

theorem lifecycle_runs_end:
  assumes "transition_all now c ts = Inr d" "valid_candidate c"
  shows "lifecycle_rank (cd_lifecycle_status c) + length ts \<le> lifecycle_rank (cd_lifecycle_status d) \<and>
    lifecycle_rank (cd_lifecycle_status d) \<le> 10 \<and>
    (cd_lifecycle_status d = cd_lifecycle_status c \<longleftrightarrow> ts = []) \<and>
    set ts \<inter> DOWNSTREAM_AUTHORITY_LIFECYCLE_STATUSES = {} \<and>
    valid_candidate d \<and> cd_identity d = cd_identity c"
proof -
  note run = transition_all_run[OF assms(1)]
  then have rank: "lifecycle_rank (cd_lifecycle_status c) + length ts \<le> lifecycle_rank (cd_lifecycle_status d)"
    using lifecycle_run_rank by auto
  have "set ts \<inter> DOWNSTREAM_AUTHORITY_LIFECYCLE_STATUSES = {}"
    using run lifecycle_run_predecessor downstream_not_target by blast
  moreover have "cd_lifecycle_status d = cd_lifecycle_status c \<longleftrightarrow> ts = []"
    using rank run by (cases ts) auto
  ultimately show ?thesis using rank run lifecycle_rank_le transition_all_valid[OF assms] by blast
qed

theorem lifecycle_runs_end_witness:
  "\<exists>d. transition_all (utc 1) sample_candidate [Reviewed_By_Advisor, Approved, Closed] = Inr d \<and>
     set [Reviewed_By_Advisor, Approved, Closed] \<inter> DOWNSTREAM_AUTHORITY_LIFECYCLE_STATUSES = {}"
proof -
  obtain d where d: "transition_all (utc 1) sample_candidate [Reviewed_By_Advisor, Approved, Closed] = Inr d"
    using sample_candidate_valid
    by (simp add: transition_candidate_def sample_candidate_def review_posture_for_transition_def
        mk_candidate_Inr valid_candidate_iff candidate_state_defs mk_candidate_valid)
  with lifecycle_runs_end[OF d sample_candidate_valid] show ?thesis by blast
qed

text \<open>C3: a candidate is converted only after an advisor reviewed it and it was approved:
  the last three targets of a run that converts a candidate not yet reviewed are the review,
  the approval and the conversion, and the review started from \<open>READY_FOR_REVIEW\<close>.\<close>

theorem conversion_only_after_review:
  assumes "transition_all now c ts = Inr d" "cd_lifecycle_status d \<in> CONVERTED_STATUSES"
    and "cd_lifecycle_status c \<notin> {Reviewed_By_Advisor, Approved} \<union> CONVERTED_STATUSES"
  shows "\<exists>us. ts = us @ [Reviewed_By_Advisor, Approved, cd_lifecycle_status d] \<and>
    last (cd_lifecycle_status c # us) = Ready_For_Review"
proof -
  let ?s = "cd_lifecycle_status c"
  have run: "lifecycle_run ?s ts" and l: "cd_lifecycle_status d = last (?s # ts)"
    using transition_all_run[OF assms(1)] by auto
  have step: "\<exists>us. vs = us @ [t] \<and> lifecycle_run ?s us \<and> t \<in> ALLOWED_LIFECYCLE_TRANSITIONS (last (?s # us))"
    if "lifecycle_run ?s vs" "last (?s # vs) = t" "t \<noteq> ?s" for vs t
    using that by (cases vs rule: rev_cases) (auto simp: lifecycle_run_append)
  obtain us where us: "ts = us @ [cd_lifecycle_status d]" "lifecycle_run ?s us" "last (?s # us) = Approved"
    using step[OF run l[symmetric]] assms into_converted by (metis UnCI)
  obtain vs where vs: "us = vs @ [Approved]" "lifecycle_run ?s vs" "last (?s # vs) = Reviewed_By_Advisor"
    using step[OF us(2,3)] assms(3) into_approved by (metis UnCI insertCI)
  obtain ws where ws: "vs = ws @ [Reviewed_By_Advisor]" "last (?s # ws) = Ready_For_Review"
    using step[OF vs(2,3)] assms(3) into_reviewed by (metis UnCI insertCI)
  with us vs show ?thesis by auto
qed

theorem conversion_only_after_review_witness:
  "\<exists>d us. transition_all (utc 1) sample_candidate [Reviewed_By_Advisor, Approved, Converted_To_Report] = Inr d \<and>
     [Reviewed_By_Advisor, Approved, Converted_To_Report] =
       us @ [Reviewed_By_Advisor, Approved, cd_lifecycle_status d]"
proof -
  obtain d where d: "transition_all (utc 1) sample_candidate [Reviewed_By_Advisor, Approved, Converted_To_Report] = Inr d"
    using sample_candidate_valid
    by (simp add: transition_candidate_def sample_candidate_def review_posture_for_transition_def
        mk_candidate_Inr valid_candidate_iff candidate_state_defs mk_candidate_valid)
  have "cd_lifecycle_status d \<in> CONVERTED_STATUSES"
    "cd_lifecycle_status sample_candidate \<notin> {Reviewed_By_Advisor, Approved} \<union> CONVERTED_STATUSES"
    using transition_all_run[OF d] by (auto simp: CONVERTED_STATUSES_def sample_candidate_def)
  from conversion_only_after_review[OF d this] d show ?thesis by blast
qed


section \<open>Evidence\<close>

lemma checks_fail_const: "\<not> passes gs \<Longrightarrow> checks gs a = checks gs b"
  by (induction gs rule: passes.induct) (auto simp: checks.simps)

text \<open>The evidence hash, the revision-vector digest and the posture of a source cut
  do not depend on the order in which the sources are listed, rejections included.\<close>

theorem evidence_order_irrelevant:
  assumes "mset xs = mset ys"
  shows "evidence_hash_for_source_refs xs = evidence_hash_for_source_refs ys \<and>
    source_revision_vector_digest xs = source_revision_vector_digest ys \<and>
    source_cut_posture xs t = source_cut_posture ys t"
proof -
  have e: "xs = [] \<longleftrightarrow> ys = []" "distinct (map source_identity xs) \<longleftrightarrow> distinct (map source_identity ys)"
    using assms by (auto dest: mset_eq_imp_distinct_iff simp flip: mset_map)
      (metis mset_eq_imp_distinct_iff mset_map)+
  then have g: "require_unique_sources xs = require_unique_sources ys"
    by (simp add: require_unique_sources_def)
  show ?thesis
  proof (cases "unique_sources xs")
    case True
    then have "unique_sources ys" using unique_sources_perm[OF assms] by simp
    with True show ?thesis
      using evidence_hash_perm[OF True assms] revision_vector_digest_perm[OF True assms] cut_posture_perm[OF assms]
      by (simp add: evidence_hash_for_source_refs_def source_revision_vector_digest_def source_cut_posture_def g)
  next
    case False
    then have f: "\<not> passes (require_unique_sources xs)" "\<not> passes (require_unique_sources ys)"
      using unique_sources_perm[OF assms] unique_sources_perm[OF assms[symmetric]]
      by (auto simp: unique_sources_def e)
    have v: "checks (require_unique_sources xs) (revision_vector_digest xs) =
        checks (require_unique_sources ys) (revision_vector_digest ys)"
      "checks (require_unique_sources xs) (cut_posture xs t) = checks (require_unique_sources ys) (cut_posture ys t)"
      unfolding g by (rule checks_fail_const[OF f(2)])+
    have "bind_res (checks gs a) h = bind_res (checks gs a) h'" if "\<not> passes gs" for gs and a :: string and h h' :: "string \<Rightarrow> string res"
      using checks_fails[OF that, of a] by auto
    with f v show ?thesis
      unfolding evidence_hash_for_source_refs_def source_revision_vector_digest_def source_cut_posture_def by metis
  qed
qed

theorem evidence_order_irrelevant_witness:
  "evidence_hash_for_source_refs [sample_source, sample_source\<lparr>sr_product_id := ''Cash''\<rparr>] =
   evidence_hash_for_source_refs [sample_source\<lparr>sr_product_id := ''Cash''\<rparr>, sample_source]"
  using evidence_order_irrelevant[of "[sample_source, sample_source\<lparr>sr_product_id := ''Cash''\<rparr>]"
      "[sample_source\<lparr>sr_product_id := ''Cash''\<rparr>, sample_source]"]
  by (simp add: add_mset_commute)

text \<open>A source cut counts as authoritative only when every source carries claims that
  are reconciled (or need no reconciliation), name a revision, and no causal input of any
  source is missing or contradicted; several sources must also share their as-of date.\<close>

theorem authoritative_cut_sound:
  assumes "source_cut_posture refs t = Inr p" "source_cut_is_authoritative p"
  shows "(\<forall>r \<in> set refs. \<exists>c. sr_revision_claims r = Some c \<and>
      rc_reconciliation_posture c \<in> {Rec_Complete, Rec_Not_Applicable} \<and>
      has_primary_revision_identity c \<and>
      (\<forall>i \<in> set (rc_causal_input_revisions c). causal_claim_verdict refs i = Causal_Match)) \<and>
    (\<forall>r \<in> set refs. \<forall>q \<in> set refs. length refs = 1 \<or> sr_as_of_date r = sr_as_of_date q)"
proof -
  have p: "cut_posture refs t \<in> {Cut_Coherent, Cut_Coherent_Tolerance}"
    using assms by (auto simp: source_cut_posture_def source_cut_is_authoritative_def)
  let ?cs = "List.map_filter sr_revision_claims refs"
  have causal: "causal_input_posture refs = None"
    using p scan_causal_claims_eq[of refs False "causal_claims refs"]
    by (auto simp: cut_posture_def Let_def causal_input_posture_def split: if_splits option.splits)
  then have "\<forall>i \<in> set (causal_claims refs). causal_claim_verdict refs i = Causal_Match"
    using scan_causal_claims_eq[of refs False "causal_claims refs"] causal_verdict.exhaust
    by (auto simp: causal_input_posture_def split: if_splits)
  then have verdicts: "causal_claim_verdict refs i = Causal_Match"
    if "r \<in> set refs" "sr_revision_claims r = Some c" "i \<in> set (rc_causal_input_revisions c)" for r c i
    using that by (auto simp: set_causal_claims)
  have "length ?cs = length refs \<and> list_all has_primary_revision_identity ?cs \<and>
      \<not> list_ex (\<lambda>c. rc_reconciliation_posture c = Rec_Partial) ?cs \<and>
      \<not> list_ex (\<lambda>c. rc_reconciliation_posture c = Rec_Failed) ?cs \<and>
      \<not> list_ex (\<lambda>c. rc_reconciliation_posture c = Rec_Unknown) ?cs"
    using p unfolding cut_posture_def Let_def
    by (simp add: list_ex_iff list_all_iff split: if_split_asm)
  then have all: "length ?cs = length refs" "\<forall>c \<in> set ?cs. has_primary_revision_identity c \<and>
      rc_reconciliation_posture c \<in> {Rec_Complete, Rec_Not_Applicable}"
    by (auto simp: list_ex_iff list_all_iff) (metis reconciliation_posture.exhaust)
  have "sr_revision_claims r \<noteq> None" if "r \<in> set refs" for r
    using all(1) that length_filter_less[of r refs "\<lambda>r. sr_revision_claims r \<noteq> None"]
    by (auto simp: map_filter_def)
  moreover have "sr_as_of_date r = sr_as_of_date q" if "r \<in> set refs" "q \<in> set refs" "length refs \<noteq> 1" for r q
  proof -
    have "length (remdups (map sr_as_of_date refs)) = 1"
      using p causal that(3) by (auto simp: cut_posture_def Let_def split: if_splits option.splits)
    then obtain d where "remdups (map sr_as_of_date refs) = [d]" by (auto simp: length_Suc_conv)
    then have "sr_as_of_date ` set refs = {d}" by (metis list.set(1) list.set(2) set_map set_remdups)
    then show ?thesis using that(1,2) by (metis imageI singletonD)
  qed
  ultimately show ?thesis using all(2) verdicts by (auto simp: set_map_filter_claims) (metis not_None_eq)
qed

theorem authoritative_cut_sound_witness:
  "source_cut_posture [sample_source] None = Inr Cut_Coherent \<and>
   (\<exists>c. sr_revision_claims sample_source = Some c \<and> has_primary_revision_identity c)"
proof -
  have "source_cut_posture [sample_source] None = Inr Cut_Coherent"
    using sample_cut_posture sample_unique
    by (simp add: source_cut_posture_def packet_cut_posture_def sample_packet_def)
  with authoritative_cut_sound[OF this] show ?thesis by (auto simp: source_cut_is_authoritative_def)
qed


section \<open>Score\<close>

text \<open>Scoring never rejects its own result: for a valid policy and valid inputs with
  distinct components and weights that sum to one, the score is accepted by its validator,
  lies between 0 and 100, and carries one reason per component and the penalty reason exactly
  when there are conflict flags.\<close>

theorem score_inputs_accepted:
  assumes "valid_inputs inputs" "passes (scoring_policy_guards policy)"
  shows "\<exists>s. score_inputs inputs policy flags reasons = Inr s \<and>
    passes (idea_score_guards s) \<and> 0 \<le> is_score s \<and> is_score s \<le> 100 \<and>
    length (is_reason_codes s) = length reasons + length inputs + (if flags then 1 else 0) \<and>
    is_conflict_penalty_applied s = (if flags then sp_conflict_penalty policy else 0)"
proof -
  obtain s where s: "score_inputs inputs policy flags reasons = Inr s"
    and "is_reason_codes s = reasons @ map (component_reason \<circ> si_component) inputs @
        (if flags then [R_Conflict_Penalty] else [])"
      "is_conflict_penalty_applied s = (if flags then sp_conflict_penalty policy else 0)"
    using score_inputs_ok[OF assms, of flags reasons] by auto
  moreover have "passes (idea_score_guards s)" using s by (auto simp: score_inputs_def bind_res_Inr Let_def)
  ultimately show ?thesis using score_inputs_bounds[OF s] by auto
qed

definition sample_inputs :: "scoring_input list" where
  "sample_inputs =
     [\<lparr>si_component = Materiality, si_input_score = 80, si_weight = 70 / 100\<rparr>,
      \<lparr>si_component = Freshness, si_input_score = 100, si_weight = 30 / 100\<rparr>]"

lemma sample_weights: "dec_sum [7 / 10, 3 / 10] = 1"
  by code_simp

theorem score_inputs_accepted_witness:
  "\<exists>s. score_inputs sample_inputs DEFAULT_SCORING_POLICY True [] = Inr s \<and> 0 \<le> is_score s"
proof -
  have "valid_inputs sample_inputs"
    unfolding valid_inputs_def by (intro conjI) (simp_all add: sample_inputs_def passes_scoring_input sample_weights)
  moreover have "passes (scoring_policy_guards DEFAULT_SCORING_POLICY)"
    by (simp add: scoring_policy_guards_def DEFAULT_SCORING_POLICY_def blank_iff py_space_def)
  ultimately show ?thesis using score_inputs_accepted by blast
qed

text \<open>The severity of a threshold breach lies between 50 and 100, does not decrease
  when the value grows, is 50 at the threshold, and is 100 from twice the threshold on
  (when the threshold has at most 28 digits).\<close>

theorem severity_scale:
  assumes "relative_threshold_score v t = Inr s" "relative_threshold_score w t = Inr u" "v \<le> w"
  shows "50 \<le> s \<and> s \<le> u \<and> u \<le> 100 \<and> relative_threshold_score t t = Inr 50 \<and>
    (ctx28 t = t \<longrightarrow> 2 * t \<le> v \<longrightarrow> s = 100)"
  using severity_bounds[OF assms(1)] severity_bounds[OF assms(2)] severity_monotone[OF assms]
    severity_at_threshold relative_threshold_scoreD[OF assms(1)] severity_saturates[OF _ _ assms(1)]
  by blast

theorem severity_scale_witness:
  "(50 :: decimal) \<le> 50 \<and> relative_threshold_score 10 10 = Inr 50"
  using severity_scale[OF severity_at_threshold severity_at_threshold, of 10] by simp

section \<open>Identity and reconciliation\<close>

text \<open>The candidate id and the business identity of a scoped opportunity depend on its
  family, its kind and its scope only: the same condition seen on another day, with other
  facts and from other sources finds the same candidate.\<close>

theorem candidate_id_stable:
  assumes "build_opportunity_identity f k d (Some scope) facts refs = Inr i"
    and "build_opportunity_identity f k d' (Some scope) facts' refs' = Inr j"
  shows "oi_candidate_id i = oi_candidate_id j \<and>
    oi_business_identity_id i = oi_business_identity_id j \<and>
    oi_opportunity_kind i = oi_opportunity_kind j"
proof -
  have "build_opportunity_business_identity f k d (Some scope) = build_opportunity_business_identity f k d' (Some scope)"
    by (simp add: build_opportunity_business_identity_def business_identity_scoped[of f k d scope d'])
  then show ?thesis
    by (metis Inr_inject assms build_opportunity_identityD)
qed

lemma sample_identity_built:
  "\<exists>i. build_opportunity_identity High_Cash ''high_cash'' d (Some sample_scope)
     [(''ratio'', JStr v)] [sample_source] = Inr i"
  by (simp add: build_opportunity_identity_def build_business_identity_digest_def Let_def
      validate_material_facts_def leaked_keys_def OBSERVATION_ONLY_MATERIAL_FACTS_def
      checks_passes blank_iff py_space_def py_strip_id)

theorem candidate_id_stable_witness:
  "\<exists>i j. build_opportunity_identity High_Cash ''high_cash'' 739000 (Some sample_scope)
       [(''ratio'', JStr ''0.4'')] [sample_source] = Inr i \<and>
     build_opportunity_identity High_Cash ''high_cash'' 739001 (Some sample_scope)
       [(''ratio'', JStr ''0.5'')] [sample_source] = Inr j \<and> oi_candidate_id i = oi_candidate_id j"
  using sample_identity_built[of 739000 "''0.4''"] sample_identity_built[of 739001 "''0.5''"]
    candidate_id_stable by blast

text \<open>The fingerprints of an opportunity do not depend on the order of its material
  facts or of its sources.\<close>

theorem identity_order_irrelevant:
  assumes "mset facts = mset facts'" "distinct (d_keys facts)"
    and "mset refs = mset refs'" "distinct (map ref_order refs)"
  shows "build_opportunity_identity f k d scope facts refs = Inr i \<longleftrightarrow>
    build_opportunity_identity f k d scope facts' refs' = Inr i"
proof -
  have "distinct (d_keys facts')" "distinct (map ref_order refs')"
    using assms mset_eq_imp_distinct_iff mset_map by metis+
  then show ?thesis
    using build_opportunity_identity_perm[OF assms]
      build_opportunity_identity_perm[OF assms(1)[symmetric] _ assms(3)[symmetric]] by blast
qed

theorem identity_order_irrelevant_witness:
  "\<exists>i. build_opportunity_identity High_Cash ''high_cash'' 739000 (Some sample_scope)
       [(''ratio'', JStr ''0.4''), (''currency'', JStr ''CHF'')] [sample_source] = Inr i \<and>
     build_opportunity_identity High_Cash ''high_cash'' 739000 (Some sample_scope)
       [(''currency'', JStr ''CHF''), (''ratio'', JStr ''0.4'')] [sample_source] = Inr i"
proof -
  obtain i where i: "build_opportunity_identity High_Cash ''high_cash'' 739000 (Some sample_scope)
       [(''ratio'', JStr ''0.4''), (''currency'', JStr ''CHF'')] [sample_source] = Inr i"
    by (simp add: build_opportunity_identity_def build_business_identity_digest_def Let_def
      validate_material_facts_def leaked_keys_def OBSERVATION_ONLY_MATERIAL_FACTS_def
      checks_passes blank_iff py_space_def py_strip_id)
  with identity_order_irrelevant[of "[(''ratio'', JStr ''0.4''), (''currency'', JStr ''CHF'')]"
      "[(''currency'', JStr ''CHF''), (''ratio'', JStr ''0.4'')]" "[sample_source]" "[sample_source]"
      High_Cash "''high_cash''" 739000 "Some sample_scope" i]
  show ?thesis by (auto simp: add_mset_commute)
qed

text \<open>Reconciling two well-formed candidates always decides; when it changes the
  persisted candidate, the result is well-formed, keeps its id and creation time, takes the
  incoming evidence, has a strictly later version, and an evidence refresh never leaves it
  approved.\<close>

theorem reconciliation_advances:
  assumes "well_formed_candidate existing" "well_formed_candidate incoming" "aware t"
  shows "\<exists>r. reconcile_candidate existing incoming eh ih t = Inr r \<and>
    (rn_candidate r = None \<longleftrightarrow> rn_decision r \<in> {Cand_Identity_Conflict, Cand_Duplicate_Candidate}) \<and>
    (\<forall>c. rn_candidate r = Some c \<longrightarrow>
       well_formed_candidate c \<and> version_less existing c \<and>
       cd_candidate_id c = cd_candidate_id existing \<and>
       cd_created_at_utc c = cd_created_at_utc existing \<and>
       cd_evidence_packet c = cd_evidence_packet incoming \<and>
       (rn_decision r = Cand_Evidence_Refreshed \<longrightarrow> cd_lifecycle_status c \<noteq> Approved))"
  using reconcile_candidate_ok[OF assms, of eh ih] by (auto simp: reconciliation_ok_def)

theorem reconciliation_advances_witness:
  "\<exists>r c. reconcile_candidate sample_candidate sample_candidate ''old'' ''new'' (utc 9) = Inr r \<and>
     rn_decision r = Cand_Evidence_Refreshed \<and> rn_candidate r = Some c \<and>
     version_less sample_candidate c"
proof -
  obtain r where r: "reconcile_candidate sample_candidate sample_candidate ''old'' ''new'' (utc 9) = Inr r"
    and p: "\<forall>c. rn_candidate r = Some c \<longrightarrow> version_less sample_candidate c"
      "rn_candidate r = None \<longleftrightarrow> rn_decision r \<in> {Cand_Identity_Conflict, Cand_Duplicate_Candidate}"
    using reconciliation_advances[OF sample_candidate_well_formed sample_candidate_well_formed
        is_utc_utc(2)[of 9], of "''old''" "''new''"] by metis
  have "rn_decision r = Cand_Evidence_Refreshed"
    using r by (auto simp: reconcile_candidate_def same_business_scope_def Let_def reconciled_def bind_res_Inr
        split: if_splits)
  with p r show ?thesis by fastforce
qed

section \<open>Idempotency\<close>

text \<open>A tenant-scoped idempotency identity determines the tenant and the key, so two
  tenants never share one, and no tenant identity is a system identity.\<close>

theorem idempotency_namespaces:
  assumes "tenant_scoped_idempotency_identity t k = Inr i"
  shows "(tenant_scoped_idempotency_identity t' k' = Inr i \<longrightarrow> t' = t \<and> k' = k) \<and>
    system_scoped_idempotency_identity k'' \<noteq> Inr i"
  using tenant_identity_determines[OF assms] tenant_system_disjoint[OF assms] by blast

theorem idempotency_namespaces_witness:
  "tenant_scoped_idempotency_identity ''bank-1'' ''key-1'' = Inr ''tenant:6:bank-1key-1'' \<and>
   tenant_scoped_idempotency_identity ''bank-1k'' ''ey-1'' \<noteq> Inr ''tenant:6:bank-1key-1''"
proof -
  have i: "tenant_scoped_idempotency_identity ''bank-1'' ''key-1'' = Inr ''tenant:6:bank-1key-1''"
    by code_simp
  with idempotency_namespaces[OF i, of "''bank-1k''" "''ey-1''" "''x''"] show ?thesis by auto
qed

text \<open>A repeated key is replayed exactly when its payload has the recorded
  fingerprint, which does not depend on the order of the payload's fields, and conflicts
  otherwise; the answer always carries the stored record.\<close>

theorem idempotency_verdict:
  assumes "mset payload = mset payload'" "distinct (d_keys payload)"
  shows "evaluate_idempotency key payload' (Some e) =
    (if ir_key e = key \<and> ir_payload_hash e = payload_fingerprint payload then Idem_Replayed
     else Idem_Conflict, e) \<and>
    evaluate_idempotency key payload' None =
      (Idem_Accepted, \<lparr>ir_key = key, ir_payload_hash = payload_fingerprint payload\<rparr>)"
  using payload_fingerprint_order[OF assms] by (simp add: evaluate_idempotency_def Let_def)

theorem idempotency_verdict_witness:
  "fst (evaluate_idempotency ''k'' [(''b'', JNull), (''a'', JStr ''x'')]
     (Some \<lparr>ir_key = ''k'', ir_payload_hash = payload_fingerprint [(''a'', JStr ''x''), (''b'', JNull)]\<rparr>))
   = Idem_Replayed"
  using idempotency_verdict[of "[(''a'', JStr ''x''), (''b'', JNull)]" "[(''b'', JNull), (''a'', JStr ''x'')]"
      "''k''" "\<lparr>ir_key = ''k'', ir_payload_hash = payload_fingerprint [(''a'', JStr ''x''), (''b'', JNull)]\<rparr>"]
  by (simp add: add_mset_commute)

end
