(* ===== verification/Outbox_Events.thy ===== *)
theory Outbox_Events
imports Control
begin

text \<open>
  \<open>src/app/domain/outbox/events.py\<close>: outbox events, their lineage, and the three
  transformations of an event (lease, published, failed). A constructed event is a fixed
  point of its own validator; the lemmas show that each transformation of a valid event in
  the right status succeeds and yields a valid event.
\<close>

definition FORBIDDEN_OUTBOX_PAYLOAD_KEYS :: "string list" where
  "FORBIDDEN_OUTBOX_PAYLOAD_KEYS =
     [''account_id'', ''client_id'', ''client_name'', ''content_hash'', ''evidence_hash'',
      ''holding_id'', ''idempotency_key'', ''portfolio_id'', ''raw_source_payload'',
      ''request_body'', ''response_body'', ''route'', ''source_route'']"

definition OUTBOX_EVENT_SCHEMA_VERSION :: string where
  "OUTBOX_EVENT_SCHEMA_VERSION = ''v1''"

definition OUTBOX_EVENT_AGGREGATE_TYPE :: string where
  "OUTBOX_EVENT_AGGREGATE_TYPE = ''idea_candidate''"

definition SUPPORTED_OUTBOX_EVENT_TYPES :: "string list" where
  "SUPPORTED_OUTBOX_EVENT_TYPES =
     [''idea.candidate.persisted.v1'', ''idea.candidate.evidence_refreshed.v1'',
      ''idea.candidate.material_version_created.v1'',
      ''idea.candidate.recurrent_condition_reopened.v1'', ''idea.lifecycle.transitioned.v1'',
      ''idea.review.decision_recorded.v1'', ''idea.feedback.recorded.v2'',
      ''idea.conversion.intent_requested.v1'', ''idea.conversion.outcome_recorded.v1'',
      ''idea.report_evidence_pack.requested.v1'']"

lemma outbox_constants_not_blank [simp]:
  "\<not> blank OUTBOX_EVENT_SCHEMA_VERSION" "\<not> blank OUTBOX_EVENT_AGGREGATE_TYPE"
  by (simp_all add: OUTBOX_EVENT_SCHEMA_VERSION_def OUTBOX_EVENT_AGGREGATE_TYPE_def blank_iff py_space_def)

datatype outbox_status = Ob_Pending | Ob_Leased | Ob_Failed | Ob_Dead_Letter | Ob_Published

datatype lineage_origin = Lin_Request | Lin_Parent_Event | Lin_System_Generated | Lin_Legacy_Migrated

record event_lineage =
  lc_correlation_id :: string
  lc_trace_id :: string
  lc_causation_id :: "string option"
  lc_origin :: lineage_origin

definition mk_event_lineage ::
    "string \<Rightarrow> string \<Rightarrow> string option \<Rightarrow> lineage_origin \<Rightarrow> event_lineage res" where
  "mk_event_lineage correlation_id trace_id causation_id origin =
     bind_res (require_product_safe_context_id (Some correlation_id) ''correlation_id'') (\<lambda>corr.
     bind_res (require_product_safe_context_id (Some trace_id) ''trace_id'') (\<lambda>tr.
     bind_res (case causation_id of
                 None \<Rightarrow> Inr None
               | Some c \<Rightarrow> bind_res (require_product_safe_context_id (Some c) ''causation_id'')
                             (\<lambda>c'. Inr (Some c'))) (\<lambda>caus.
       checks [(origin = Lin_Parent_Event \<and> caus = None,
                ValueError ''causation_id is required for parent_event lineage''),
               (caus \<noteq> None \<and> origin \<notin> {Lin_Parent_Event, Lin_Legacy_Migrated},
                ValueError ''causation_id is allowed only for parent_event lineage'')]
         \<lparr>lc_correlation_id = corr, lc_trace_id = tr, lc_causation_id = caus, lc_origin = origin\<rparr>)))"

definition system_event_lineage :: "string \<Rightarrow> event_lineage res" where
  "system_event_lineage event_id =
     (let digest = take 24 (sha256_hex event_id)
      in mk_event_lineage (''corr-system-'' @ digest) (''trace-system-'' @ digest) None
           Lin_System_Generated)"

record outbox_event =
  oe_event_id :: string
  oe_event_type :: string
  oe_aggregate_type :: string
  oe_aggregate_id :: string
  oe_schema_version :: string
  oe_payload :: "(string, json) dict"
  oe_occurred_at_utc :: py_datetime
  oe_status :: outbox_status
  oe_idempotency_fingerprint :: "string option"
  oe_correlation_id :: string
  oe_trace_id :: string
  oe_causation_id :: "string option"
  oe_lineage_origin :: lineage_origin
  oe_published_at_utc :: "py_datetime option"
  oe_failure_reason :: "string option"
  oe_retry_count :: int
  oe_first_failed_at_utc :: "py_datetime option"
  oe_last_failed_at_utc :: "py_datetime option"
  oe_next_attempt_at_utc :: "py_datetime option"
  oe_lease_owner :: "string option"
  oe_lease_attempt_id :: "string option"
  oe_lease_expires_at_utc :: "py_datetime option"

definition event_shape_guards :: "outbox_event \<Rightarrow> guards" where
  "event_shape_guards e =
     require_text (oe_event_id e) ''event_id'' @
     require_text (oe_event_type e) ''event_type'' @
     require_text (oe_aggregate_type e) ''aggregate_type'' @
     require_text (oe_aggregate_id e) ''aggregate_id'' @
     require_text (oe_schema_version e) ''schema_version'' @
     [(oe_event_type e \<notin> set SUPPORTED_OUTBOX_EVENT_TYPES,
       ValueError (''unsupported outbox event_type: '' @ oe_event_type e)),
      (oe_aggregate_type e \<noteq> OUTBOX_EVENT_AGGREGATE_TYPE,
       ValueError (''unsupported outbox aggregate_type: '' @ oe_aggregate_type e)),
      (oe_schema_version e \<noteq> OUTBOX_EVENT_SCHEMA_VERSION,
       ValueError (''unsupported outbox schema_version: '' @ oe_schema_version e))] @
     require_aware_utc (oe_occurred_at_utc e) ''occurred_at_utc''"

definition event_lineage_of :: "outbox_event \<Rightarrow> event_lineage res" where
  "event_lineage_of e =
     (if oe_correlation_id e = [] \<and> oe_trace_id e = [] then system_event_lineage (oe_event_id e)
      else mk_event_lineage (oe_correlation_id e) (oe_trace_id e) (oe_causation_id e)
             (oe_lineage_origin e))"

definition event_status_guards :: "outbox_event \<Rightarrow> guards" where
  "event_status_guards e =
    (let st = oe_status e; first = oe_first_failed_at_utc e; lst = oe_last_failed_at_utc e;
         nxt = oe_next_attempt_at_utc e in
     opt_guards (oe_published_at_utc e) (\<lambda>t. require_aware_utc t ''published_at_utc'') @
     opt_guards first (\<lambda>t. require_aware_utc t ''first_failed_at_utc'') @
     opt_guards lst (\<lambda>t. require_aware_utc t ''last_failed_at_utc'') @
     opt_guards nxt (\<lambda>t. require_aware_utc t ''next_attempt_at_utc'') @
     opt_guards (oe_lease_expires_at_utc e) (\<lambda>t. require_aware_utc t ''lease_expires_at_utc'') @
     [(oe_retry_count e < 0, ValueError ''retry_count cannot be negative'')] @
     (if st = Ob_Leased
      then require_text (or_else (oe_lease_owner e) []) ''lease_owner'' @
           require_text (or_else (oe_lease_attempt_id e) []) ''lease_attempt_id'' @
           [(oe_lease_expires_at_utc e = None,
             ValueError ''lease_expires_at_utc is required for leased outbox events'')]
      else [(oe_lease_owner e \<noteq> None \<or> oe_lease_attempt_id e \<noteq> None \<or> oe_lease_expires_at_utc e \<noteq> None,
             ValueError ''lease metadata is allowed only for leased outbox events'')]) @
     [(st = Ob_Published \<and> oe_published_at_utc e = None,
       ValueError ''published_at_utc is required for published outbox events'')] @
     (if st = Ob_Failed \<or> st = Ob_Dead_Letter
      then require_text (or_else (oe_failure_reason e) []) ''failure_reason'' @
           [(first = None, ValueError ''first_failed_at_utc is required for failed outbox events''),
            (lst = None, ValueError ''last_failed_at_utc is required for failed outbox events'')]
      else if st = Ob_Leased
      then [((first = None) \<noteq> (lst = None),
             ValueError ''leased outbox failure timing must include first and last failure''),
            (nxt \<noteq> None, ValueError ''leased outbox events cannot have next_attempt_at_utc'')]
      else if st = Ob_Published
      then [((first = None) \<noteq> (lst = None),
             ValueError ''published outbox failure timing must include first and last failure''),
            (nxt \<noteq> None, ValueError ''published outbox events cannot have next_attempt_at_utc'')]
      else [(first \<noteq> None \<or> lst \<noteq> None \<or> nxt \<noteq> None,
             ValueError ''failure timing is allowed only for failed or leased outbox events'')]) @
     [(st = Ob_Failed \<and> nxt = None,
       ValueError ''next_attempt_at_utc is required for retryable failed outbox events''),
      (st = Ob_Dead_Letter \<and> nxt \<noteq> None,
       ValueError ''dead-lettered outbox events cannot have next_attempt_at_utc''),
      (leaked_keys FORBIDDEN_OUTBOX_PAYLOAD_KEYS (oe_payload e) \<noteq> [],
       ValueError (''Outbox event payload contains sensitive keys: '' @
         join '', '' (leaked_keys FORBIDDEN_OUTBOX_PAYLOAD_KEYS (oe_payload e))))])"

definition mk_outbox_event :: "outbox_event \<Rightarrow> outbox_event res" where
  \<comment> \<open>\<open>OutboxEventRecord(...)\<close> and \<open>replace(event, ...)\<close>\<close>
  "mk_outbox_event e =
     bind_res (checks (event_shape_guards e) ()) (\<lambda>_.
     bind_res (event_lineage_of e) (\<lambda>l.
     let e' = e\<lparr>oe_correlation_id := lc_correlation_id l, oe_trace_id := lc_trace_id l,
                oe_causation_id := lc_causation_id l, oe_lineage_origin := lc_origin l\<rparr>
     in checks (event_status_guards e') e'))"

definition outbox_fingerprint :: "string \<Rightarrow> string res" where
  "outbox_fingerprint v = checks (require_text v ''idempotency_key'') (''sha256:'' @ sha256_hex v)"

definition outbox_event_id :: "string \<Rightarrow> string \<Rightarrow> py_datetime \<Rightarrow> string option \<Rightarrow> string" where
  "outbox_event_id event_type aggregate_id occurred_at_utc idempotency_fingerprint =
     ''evt_'' @ take 32 (sha256_json (JObj
       [(''aggregate_id'', JStr aggregate_id), (''event_type'', JStr event_type),
        (''idempotency_fingerprint'', opt_json idempotency_fingerprint),
        (''occurred_at_utc'', JStr (dt_iso occurred_at_utc))]))"

definition build_candidate_outbox_event ::
    "string \<Rightarrow> string \<Rightarrow> py_datetime \<Rightarrow> (string, json) dict \<Rightarrow> string option \<Rightarrow> event_lineage option \<Rightarrow>
     outbox_event res"
where
  "build_candidate_outbox_event event_type aggregate_id occurred_at_utc payload idempotency_key lineage =
     bind_res (checks (require_aware_utc occurred_at_utc ''occurred_at_utc'') ()) (\<lambda>_.
     bind_res (case idempotency_key of None \<Rightarrow> Inr None
               | Some k \<Rightarrow> bind_res (outbox_fingerprint k) (\<lambda>f. Inr (Some f))) (\<lambda>fp.
     let event_id = outbox_event_id event_type aggregate_id occurred_at_utc fp in
     bind_res (case lineage of Some l \<Rightarrow> Inr l | None \<Rightarrow> system_event_lineage event_id) (\<lambda>l.
       mk_outbox_event
         \<lparr>oe_event_id = event_id, oe_event_type = event_type,
          oe_aggregate_type = OUTBOX_EVENT_AGGREGATE_TYPE, oe_aggregate_id = aggregate_id,
          oe_schema_version = OUTBOX_EVENT_SCHEMA_VERSION, oe_payload = payload,
          oe_occurred_at_utc = occurred_at_utc, oe_status = Ob_Pending,
          oe_idempotency_fingerprint = fp, oe_correlation_id = lc_correlation_id l,
          oe_trace_id = lc_trace_id l, oe_causation_id = lc_causation_id l,
          oe_lineage_origin = lc_origin l, oe_published_at_utc = None, oe_failure_reason = None,
          oe_retry_count = 0, oe_first_failed_at_utc = None, oe_last_failed_at_utc = None,
          oe_next_attempt_at_utc = None, oe_lease_owner = None, oe_lease_attempt_id = None,
          oe_lease_expires_at_utc = None\<rparr>)))"

definition lease_outbox_event :: "outbox_event \<Rightarrow> string \<Rightarrow> string \<Rightarrow> py_datetime \<Rightarrow> outbox_event res" where
  "lease_outbox_event e lease_owner lease_attempt_id lease_expires_at_utc =
     bind_res (checks (require_text lease_owner ''lease_owner'' @
                       require_text lease_attempt_id ''lease_attempt_id'' @
                       require_aware_utc lease_expires_at_utc ''lease_expires_at_utc'') ()) (\<lambda>_.
       mk_outbox_event (e\<lparr>oe_status := Ob_Leased, oe_published_at_utc := None,
         oe_next_attempt_at_utc := None, oe_lease_owner := Some lease_owner,
         oe_lease_attempt_id := Some lease_attempt_id,
         oe_lease_expires_at_utc := Some lease_expires_at_utc\<rparr>))"

definition mark_outbox_event_published :: "outbox_event \<Rightarrow> py_datetime \<Rightarrow> outbox_event res" where
  "mark_outbox_event_published e published_at_utc =
     bind_res (checks (require_aware_utc published_at_utc ''published_at_utc'') ()) (\<lambda>_.
       mk_outbox_event (e\<lparr>oe_status := Ob_Published, oe_published_at_utc := Some published_at_utc,
         oe_next_attempt_at_utc := None, oe_lease_owner := None, oe_lease_attempt_id := None,
         oe_lease_expires_at_utc := None\<rparr>))"

definition sensitive_reason_keys :: "string \<Rightarrow> string list" where
  "sensitive_reason_keys failure_reason =
     sort (filter (\<lambda>k. substring k (py_lower failure_reason)) FORBIDDEN_OUTBOX_PAYLOAD_KEYS)"

definition validate_outbox_failure_reason :: "string \<Rightarrow> guards" where
  "validate_outbox_failure_reason failure_reason =
     require_text failure_reason ''failure_reason'' @
     [(sensitive_reason_keys failure_reason \<noteq> [],
       ValueError (''Outbox failure reason contains sensitive keys: '' @
         join '', '' (sensitive_reason_keys failure_reason)))]"

definition mark_outbox_event_failed ::
    "outbox_event \<Rightarrow> string \<Rightarrow> py_datetime \<Rightarrow> int \<Rightarrow> py_datetime option \<Rightarrow> outbox_event res" where
  "mark_outbox_event_failed e failure_reason failed_at_utc max_retry_count next_attempt_at_utc =
    (let retry_count = oe_retry_count e + 1;
         status = (if max_retry_count \<le> retry_count then Ob_Dead_Letter else Ob_Failed) in
     bind_res (checks
       (validate_outbox_failure_reason failure_reason @
        require_aware_utc failed_at_utc ''failed_at_utc'' @
        require_positive max_retry_count ''max_retry_count'' @
        (if status = Ob_Failed
         then (case next_attempt_at_utc of
                 None \<Rightarrow> [(True, ValueError ''next_attempt_at_utc is required for retryable failed outbox events'')]
               | Some t \<Rightarrow> require_aware_utc t ''next_attempt_at_utc'' @
                           [(dt_le t failed_at_utc,
                             ValueError ''next_attempt_at_utc must be after failed_at_utc'')])
         else [(next_attempt_at_utc \<noteq> None,
                ValueError ''dead-lettered outbox events cannot have next_attempt_at_utc'')])) ())
     (\<lambda>_. mk_outbox_event (e\<lparr>oe_status := status, oe_published_at_utc := None,
         oe_failure_reason := Some failure_reason, oe_retry_count := retry_count,
         oe_first_failed_at_utc := Some (or_else (oe_first_failed_at_utc e) failed_at_utc),
         oe_last_failed_at_utc := Some failed_at_utc, oe_next_attempt_at_utc := next_attempt_at_utc,
         oe_lease_owner := None, oe_lease_attempt_id := None, oe_lease_expires_at_utc := None\<rparr>)))"

section \<open>Lineage identifiers\<close>

lemma context_id_char_not_space: "context_id_char c \<Longrightarrow> \<not> py_space c"
  by (auto simp: context_id_char_def is_alnum_def is_digit_def py_space_def Let_def)

lemma context_chars_strip: "list_all context_id_char s \<Longrightarrow> py_strip s = s"
  by (rule py_strip_id) (auto simp: list_all_iff dest: context_id_char_not_space)

lemma product_safe_idem:
  "require_product_safe_context_id v f = Inr s \<Longrightarrow> require_product_safe_context_id (Some s) g = Inr s"
proof -
  assume a: "require_product_safe_context_id v f = Inr s"
  then have "py_strip s = s" using product_safe_chars context_chars_strip by blast
  with a show ?thesis
    by (auto simp: require_product_safe_context_id_def is_product_safe_context_id_def
        split: if_splits option.splits)
qed

lemma lower_char_underscore: "lower_char c = CHR ''_'' \<Longrightarrow> c = CHR ''_''"
proof (rule ccontr)
  assume l: "lower_char c = CHR ''_''" and c: "c \<noteq> CHR ''_''"
  then have "65 \<le> (of_char c :: nat)" "(of_char c :: nat) \<le> 90" "lower_char c = char_of ((of_char c :: nat) + 32)"
    by (auto simp: lower_char_def Let_def split: if_splits)
  then have "(of_char (lower_char c) :: nat) = of_char c + 32" by simp
  with l \<open>65 \<le> (of_char c :: nat)\<close> show False by simp
qed

text \<open>The search for portfolio-like text never succeeds on an identifier the pattern
  accepts: the pattern admits no underscore.\<close>

lemma not_portfolio_like: "list_all context_id_char s \<Longrightarrow> \<not> portfolio_like b s"
proof (induction s arbitrary: b)
  case (Cons c cs)
  have "CHR ''_'' \<notin> set (c # cs)"
    using Cons.prems by (auto simp: list_all_iff context_id_char_def is_alnum_def is_digit_def Let_def)
  then have "CHR ''_'' \<notin> set (py_lower (c # cs))"
    using lower_char_underscore unfolding py_lower_def set_map image_iff by metis
  then have "\<not> is_prefix ''pb_'' (py_lower (c # cs))"
    using is_prefix_subset[of "''pb_''" "py_lower (c # cs)"] by auto
  then show ?case using Cons by simp
qed simp

lemma is_hex_lower: "is_hex c \<Longrightarrow> lower_char c = c"
  by (auto simp: is_hex_def lower_char_def Let_def)

lemma is_hex_alnum: "is_hex c \<Longrightarrow> is_alnum c"
  by (auto simp: is_hex_def is_alnum_def is_digit_def Let_def)

lemma substring_hex: "list_all is_hex h \<Longrightarrow> c \<in> set t \<Longrightarrow> \<not> is_hex c \<Longrightarrow> \<not> substring t h"
  using substring_subset by (fastforce simp: list_all_iff)

lemma is_prefix_hex: "list_all is_hex h \<Longrightarrow> c \<in> set t \<Longrightarrow> \<not> is_hex c \<Longrightarrow> \<not> is_prefix t h"
  using is_prefix_subset by (fastforce simp: list_all_iff)

definition sensitive_free :: "string \<Rightarrow> bool" where
  "sensitive_free s \<longleftrightarrow> (\<forall>f \<in> set SENSITIVE_CONTEXT_FRAGMENTS. \<not> substring f s)"

lemma sensitive_free_system:
  assumes "list_all is_hex h"
  shows "sensitive_free (''corr-system-'' @ h)" "sensitive_free (''trace-system-'' @ h)"
proof -
  have n: "\<not> is_hex (CHR ''k'')" "\<not> is_hex (CHR ''p'')" "\<not> is_hex (CHR ''u'')" "\<not> is_hex (CHR ''r'')"
    "\<not> is_hex (CHR ''l'')" "\<not> is_hex (CHR ''s'')"
    by (simp_all add: is_hex_def)
  have h: "\<not> substring ''access_token'' h" "\<not> substring ''api-key'' h" "\<not> substring ''apikey'' h"
    "\<not> substring ''authorization'' h" "\<not> substring ''bearer'' h" "\<not> substring ''client_secret'' h"
    "\<not> substring ''password'' h" "\<not> substring ''secret'' h" "\<not> substring ''token'' h"
    using substring_hex[OF assms _ n(1)] substring_hex[OF assms _ n(2)] substring_hex[OF assms _ n(3)]
      substring_hex[OF assms _ n(4)] by auto
  show "sensitive_free (''corr-system-'' @ h)" "sensitive_free (''trace-system-'' @ h)"
    by (simp_all add: sensitive_free_def SENSITIVE_CONTEXT_FRAGMENTS_def h)
qed

lemma product_safe_intro:
  assumes "matches_context_id s" "sensitive_free (py_lower s)"
  shows "require_product_safe_context_id (Some s) f = Inr s"
proof -
  have c: "list_all context_id_char s" by (rule matches_context_id_chars[OF assms(1)])
  have "s \<noteq> []" "length s \<le> 96" using assms(1) by (auto simp: matches_context_id_def)
  then show ?thesis
    using assms c
    by (auto simp: require_product_safe_context_id_def is_product_safe_context_id_def
        context_chars_strip not_portfolio_like sensitive_free_def list_ex_iff)
qed

lemma system_event_lineage_ok:
  "system_event_lineage i = Inr
     \<lparr>lc_correlation_id = ''corr-system-'' @ take 24 (sha256_hex i),
      lc_trace_id = ''trace-system-'' @ take 24 (sha256_hex i),
      lc_causation_id = None, lc_origin = Lin_System_Generated\<rparr>"
proof -
  let ?h = "take 24 (sha256_hex i)"
  have h: "list_all is_hex ?h" using sha256_hex_hex[of i] by (auto simp: list_all_iff dest: in_set_takeD)
  have low: "py_lower ?h = ?h"
    using h by (auto simp: py_lower_def list_all_iff is_hex_lower intro!: map_idI)
  have cc: "list_all context_id_char ?h"
    using h by (auto simp: list_all_iff context_id_char_def is_hex_alnum)
  have len: "length ?h = 24" by simp
  have m: "matches_context_id (''corr-system-'' @ ?h)" "matches_context_id (''trace-system-'' @ ?h)"
    using cc len by (simp_all add: matches_context_id_def context_id_char_def is_alnum_def)
  have l: "py_lower (''corr-system-'' @ ?h) = ''corr-system-'' @ ?h"
    "py_lower (''trace-system-'' @ ?h) = ''trace-system-'' @ ?h"
    using low by (simp_all add: py_lower_def lower_char_def)
  have r: "require_product_safe_context_id (Some (''corr-system-'' @ ?h)) f = Inr (''corr-system-'' @ ?h)"
    "require_product_safe_context_id (Some (''trace-system-'' @ ?h)) f = Inr (''trace-system-'' @ ?h)" for f
    using product_safe_intro m sensitive_free_system[OF h] l by metis+
  show ?thesis
    unfolding system_event_lineage_def Let_def mk_event_lineage_def r bind_res_simps option.case
    by (simp add: checks_passes)
qed

lemma event_lineage_idem:
  assumes "mk_event_lineage c t u og = Inr l"
  shows "mk_event_lineage (lc_correlation_id l) (lc_trace_id l) (lc_causation_id l) (lc_origin l) = Inr l"
    and "lc_correlation_id l \<noteq> []"
proof -
  obtain cs where cs: "(case u of None \<Rightarrow> Inr None
      | Some c \<Rightarrow> bind_res (require_product_safe_context_id (Some c) ''causation_id'') (\<lambda>c'. Inr (Some c'))) =
      Inr cs"
    and l: "require_product_safe_context_id (Some c) ''correlation_id'' = Inr (lc_correlation_id l)"
      "require_product_safe_context_id (Some t) ''trace_id'' = Inr (lc_trace_id l)"
      "cs = lc_causation_id l"
    and ok: "\<not> (lc_origin l = Lin_Parent_Event \<and> lc_causation_id l = None)"
      "\<not> (lc_causation_id l \<noteq> None \<and> lc_origin l \<notin> {Lin_Parent_Event, Lin_Legacy_Migrated})"
    using assms unfolding mk_event_lineage_def bind_res_Inr checks_Inr by auto
  have l3: "\<forall>x. cs = Some x \<longrightarrow> (\<exists>v. require_product_safe_context_id v ''causation_id'' = Inr x)"
    using cs by (cases u) (auto simp: bind_res_Inr)
  have 1: "require_product_safe_context_id (Some (lc_correlation_id l)) ''correlation_id'' = Inr (lc_correlation_id l)"
    "require_product_safe_context_id (Some (lc_trace_id l)) ''trace_id'' = Inr (lc_trace_id l)"
    using product_safe_idem l(1,2) by blast+
  have 2: "(case lc_causation_id l of None \<Rightarrow> Inr None
      | Some c \<Rightarrow> bind_res (require_product_safe_context_id (Some c) ''causation_id'') (\<lambda>c'. Inr (Some c'))) =
      Inr (lc_causation_id l)"
    using l3 l(3) by (cases "lc_causation_id l") (auto dest: product_safe_idem[where g = "''causation_id''"])
  show "mk_event_lineage (lc_correlation_id l) (lc_trace_id l) (lc_causation_id l) (lc_origin l) = Inr l"
    unfolding mk_event_lineage_def 1 2 bind_res_simps using ok by (cases l) (simp add: checks_passes)
  show "lc_correlation_id l \<noteq> []" using product_safe_chars[OF l(1)] by simp
qed

section \<open>Valid events\<close>

definition lineage_ok :: "outbox_event \<Rightarrow> bool" where
  "lineage_ok e \<longleftrightarrow> oe_correlation_id e \<noteq> [] \<and>
     mk_event_lineage (oe_correlation_id e) (oe_trace_id e) (oe_causation_id e) (oe_lineage_origin e) =
       Inr \<lparr>lc_correlation_id = oe_correlation_id e, lc_trace_id = oe_trace_id e,
            lc_causation_id = oe_causation_id e, lc_origin = oe_lineage_origin e\<rparr>"

definition valid_event :: "outbox_event \<Rightarrow> bool" where
  "valid_event e \<longleftrightarrow> passes (event_shape_guards e) \<and> lineage_ok e \<and> passes (event_status_guards e)"

lemma mk_outbox_event_fixpoint: "valid_event e \<Longrightarrow> mk_outbox_event e = Inr e"
  by (cases e) (simp add: valid_event_def mk_outbox_event_def checks_passes event_lineage_of_def
      lineage_ok_def Let_def)

lemma mk_outbox_event_replace:
  "passes (event_shape_guards e) \<Longrightarrow> lineage_ok e \<Longrightarrow> passes (event_status_guards e) \<Longrightarrow>
   mk_outbox_event e = Inr e"
  by (rule mk_outbox_event_fixpoint) (simp add: valid_event_def)

lemma event_lineage_of_ok:
  assumes "event_lineage_of e = Inr l"
  shows "mk_event_lineage (lc_correlation_id l) (lc_trace_id l) (lc_causation_id l) (lc_origin l) = Inr l"
    and "lc_correlation_id l \<noteq> []"
  using assms event_lineage_idem
  by (auto simp: event_lineage_of_def system_event_lineage_def Let_def split: if_splits)

lemma mk_outbox_event_valid:
  assumes "mk_outbox_event e = Inr e'"
  shows "valid_event e'"
proof -
  from assms obtain l where l: "event_lineage_of e = Inr l" and sh: "passes (event_shape_guards e)"
    and e': "e' = e\<lparr>oe_correlation_id := lc_correlation_id l, oe_trace_id := lc_trace_id l,
                oe_causation_id := lc_causation_id l, oe_lineage_origin := lc_origin l\<rparr>"
    and st: "passes (event_status_guards e')"
    by (auto simp: mk_outbox_event_def bind_res_Inr Let_def)
  have "passes (event_shape_guards e')" using sh by (simp add: e' event_shape_guards_def)
  moreover have "lineage_ok e'"
    using event_lineage_of_ok[OF l] by (simp add: lineage_ok_def e')
  ultimately show ?thesis using st by (simp add: valid_event_def)
qed

text \<open>The identity of an event: what no transformation changes.\<close>

definition same_event :: "outbox_event \<Rightarrow> outbox_event \<Rightarrow> bool" where
  "same_event e e' \<longleftrightarrow>
     oe_event_id e' = oe_event_id e \<and> oe_event_type e' = oe_event_type e \<and>
     oe_aggregate_type e' = oe_aggregate_type e \<and> oe_aggregate_id e' = oe_aggregate_id e \<and>
     oe_schema_version e' = oe_schema_version e \<and> oe_payload e' = oe_payload e \<and>
     oe_occurred_at_utc e' = oe_occurred_at_utc e \<and>
     oe_idempotency_fingerprint e' = oe_idempotency_fingerprint e \<and>
     oe_correlation_id e' = oe_correlation_id e \<and> oe_trace_id e' = oe_trace_id e \<and>
     oe_causation_id e' = oe_causation_id e \<and> oe_lineage_origin e' = oe_lineage_origin e"

lemma same_event_core:
  "same_event e e' \<Longrightarrow> valid_event e \<Longrightarrow> passes (event_shape_guards e') \<and> lineage_ok e'"
  by (simp add: same_event_def valid_event_def event_shape_guards_def lineage_ok_def)

lemma same_event_mk:
  "same_event e e' \<Longrightarrow> valid_event e \<Longrightarrow> passes (event_status_guards e') \<Longrightarrow>
   mk_outbox_event e' = Inr e' \<and> valid_event e'"
  using same_event_core mk_outbox_event_replace by (simp add: valid_event_def)

lemmas event_status_simps = valid_event_def event_status_guards_def Let_def

lemma lease_outbox_event_ok:
  assumes "valid_event e" "oe_status e \<noteq> Ob_Published" "\<not> blank w" "\<not> blank a" "is_utc t"
  obtains e' where "lease_outbox_event e w a t = Inr e'" "valid_event e'" "same_event e e'"
    "oe_status e' = Ob_Leased" "oe_lease_owner e' = Some w" "oe_lease_attempt_id e' = Some a"
    "oe_lease_expires_at_utc e' = Some t" "oe_retry_count e' = oe_retry_count e"
proof -
  let ?e = "e\<lparr>oe_status := Ob_Leased, oe_published_at_utc := None, oe_next_attempt_at_utc := None,
         oe_lease_owner := Some w, oe_lease_attempt_id := Some a, oe_lease_expires_at_utc := Some t\<rparr>"
  have s: "same_event e ?e" by (simp add: same_event_def)
  have "passes (event_status_guards e)" using assms(1) by (simp add: valid_event_def)
  then have "passes (event_status_guards ?e)"
    using assms by (cases "oe_status e") (auto simp: event_status_guards_def Let_def)
  from same_event_mk[OF s assms(1) this] show thesis
    using that[of ?e] s assms by (simp add: lease_outbox_event_def checks_passes)
qed

lemma mark_published_ok:
  assumes "valid_event e" "oe_status e = Ob_Leased" "is_utc t"
  obtains e' where "mark_outbox_event_published e t = Inr e'" "valid_event e'" "same_event e e'"
    "oe_status e' = Ob_Published" "oe_published_at_utc e' = Some t" "oe_lease_owner e' = None"
    "oe_retry_count e' = oe_retry_count e"
proof -
  let ?e = "e\<lparr>oe_status := Ob_Published, oe_published_at_utc := Some t,
         oe_next_attempt_at_utc := None, oe_lease_owner := None, oe_lease_attempt_id := None,
         oe_lease_expires_at_utc := None\<rparr>"
  have s: "same_event e ?e" by (simp add: same_event_def)
  have "passes (event_status_guards e)" using assms(1) by (simp add: valid_event_def)
  then have "passes (event_status_guards ?e)"
    using assms(2,3) by (auto simp: event_status_guards_def Let_def)
  from same_event_mk[OF s assms(1) this] show thesis
    using that[of ?e] s assms by (simp add: mark_outbox_event_published_def checks_passes)
qed

lemma mark_failed_ok:
  assumes "valid_event e" "oe_status e = Ob_Leased" "is_utc t" "0 < n"
    and "passes (validate_outbox_failure_reason reason)"
    and "if n \<le> oe_retry_count e + 1 then nxt = None
         else \<exists>u. nxt = Some u \<and> is_utc u \<and> inst t < inst u"
  obtains e' where "mark_outbox_event_failed e reason t n nxt = Inr e'" "valid_event e'" "same_event e e'"
    "oe_status e' = (if n \<le> oe_retry_count e + 1 then Ob_Dead_Letter else Ob_Failed)"
    "oe_retry_count e' = oe_retry_count e + 1" "oe_next_attempt_at_utc e' = nxt"
    "oe_failure_reason e' = Some reason" "oe_lease_owner e' = None"
proof -
  let ?st = "if n \<le> oe_retry_count e + 1 then Ob_Dead_Letter else Ob_Failed"
  let ?e = "e\<lparr>oe_status := ?st, oe_published_at_utc := None,
         oe_failure_reason := Some reason, oe_retry_count := oe_retry_count e + 1,
         oe_first_failed_at_utc := Some (or_else (oe_first_failed_at_utc e) t),
         oe_last_failed_at_utc := Some t, oe_next_attempt_at_utc := nxt,
         oe_lease_owner := None, oe_lease_attempt_id := None, oe_lease_expires_at_utc := None\<rparr>"
  have s: "same_event e ?e" by (simp add: same_event_def)
  have p: "passes (event_status_guards e)" using assms(1) by (simp add: valid_event_def)
  then have f: "is_utc (or_else (oe_first_failed_at_utc e) t)"
    using assms(3) by (cases "oe_first_failed_at_utc e") (auto simp: event_status_guards_def Let_def)
  have b: "\<not> blank reason" using assms(5) by (simp add: validate_outbox_failure_reason_def)
  have v: "passes (event_status_guards ?e)"
  proof (cases "n \<le> oe_retry_count e + 1")
    case True
    with p f b assms(2,3,6) show ?thesis by (simp add: event_status_guards_def Let_def)
  next
    case False
    with p f b assms(2,3,6) show ?thesis by (auto simp: event_status_guards_def Let_def)
  qed
  have "mark_outbox_event_failed e reason t n nxt = Inr ?e"
    using same_event_mk[OF s assms(1) v] assms(3-6)
    by (auto simp: mark_outbox_event_failed_def Let_def checks_passes dt_le_def split: if_splits)
  then show thesis using that[of ?e] same_event_mk[OF s assms(1) v] s by simp
qed

lemma build_candidate_outbox_event_ok:
  assumes "build_candidate_outbox_event ty agg t payload key lin = Inr e"
  shows "valid_event e \<and> oe_status e = Ob_Pending \<and> oe_retry_count e = 0 \<and> oe_event_type e = ty \<and>
    oe_aggregate_id e = agg \<and> oe_payload e = payload \<and> oe_occurred_at_utc e = t"
proof -
  from assms obtain e0 where m: "mk_outbox_event e0 = Inr e" and e0: "oe_status e0 = Ob_Pending"
      "oe_retry_count e0 = 0" "oe_event_type e0 = ty" "oe_aggregate_id e0 = agg" "oe_payload e0 = payload"
      "oe_occurred_at_utc e0 = t"
    by (auto simp: build_candidate_outbox_event_def bind_res_Inr Let_def)
  from m have "oe_status e = oe_status e0" "oe_retry_count e = oe_retry_count e0"
    "oe_event_type e = oe_event_type e0" "oe_aggregate_id e = oe_aggregate_id e0"
    "oe_payload e = oe_payload e0" "oe_occurred_at_utc e = oe_occurred_at_utc e0"
    by (auto simp: mk_outbox_event_def bind_res_Inr Let_def)
  with e0 mk_outbox_event_valid[OF m] show ?thesis by simp
qed

text \<open>With the lineage of a constructed context, or none, only the arguments can make the
  construction fail.\<close>

lemma build_candidate_outbox_event_total:
  assumes "is_utc t" "\<not> blank agg" "ty \<in> set SUPPORTED_OUTBOX_EVENT_TYPES"
    and "set FORBIDDEN_OUTBOX_PAYLOAD_KEYS \<inter> set (d_keys payload) = {}"
    and "\<forall>k. key = Some k \<longrightarrow> \<not> blank k"
    and "\<forall>l. lin = Some l \<longrightarrow> (\<exists>c u v og. mk_event_lineage c u v og = Inr l)"
  shows "\<exists>e. build_candidate_outbox_event ty agg t payload key lin = Inr e"
proof -
  have ty: "\<not> blank ty" using assms(3) by (auto simp: SUPPORTED_OUTBOX_EVENT_TYPES_def blank_iff py_space_def)
  obtain fp where fp: "(case key of None \<Rightarrow> Inr None
               | Some k \<Rightarrow> bind_res (outbox_fingerprint k) (\<lambda>f. Inr (Some f))) = Inr fp"
    using assms(5) by (cases key) (auto simp: outbox_fingerprint_def checks_passes)
  let ?id = "outbox_event_id ty agg t fp"
  have id: "\<not> blank ?id" by (simp add: outbox_event_id_def not_blank_Cons py_space_def)
  have sys: "\<exists>l. system_event_lineage ?id = Inr l \<and> (\<exists>c u v og. mk_event_lineage c u v og = Inr l)"
    using system_event_lineage_ok[of ?id] unfolding system_event_lineage_def Let_def by blast
  obtain l where l: "(case lin of Some l \<Rightarrow> Inr l | None \<Rightarrow> system_event_lineage ?id) = Inr l"
    and lo: "\<exists>c u v og. mk_event_lineage c u v og = Inr l"
    using assms(6) sys by (cases lin) (simp_all, blast+)
  from lo have li: "mk_event_lineage (lc_correlation_id l) (lc_trace_id l) (lc_causation_id l) (lc_origin l) = Inr l"
    "lc_correlation_id l \<noteq> []" using event_lineage_idem by blast+
  let ?e = "\<lparr>oe_event_id = ?id, oe_event_type = ty,
          oe_aggregate_type = OUTBOX_EVENT_AGGREGATE_TYPE, oe_aggregate_id = agg,
          oe_schema_version = OUTBOX_EVENT_SCHEMA_VERSION, oe_payload = payload,
          oe_occurred_at_utc = t, oe_status = Ob_Pending,
          oe_idempotency_fingerprint = fp, oe_correlation_id = lc_correlation_id l,
          oe_trace_id = lc_trace_id l, oe_causation_id = lc_causation_id l,
          oe_lineage_origin = lc_origin l, oe_published_at_utc = None, oe_failure_reason = None,
          oe_retry_count = 0, oe_first_failed_at_utc = None, oe_last_failed_at_utc = None,
          oe_next_attempt_at_utc = None, oe_lease_owner = None, oe_lease_attempt_id = None,
          oe_lease_expires_at_utc = None\<rparr>"
  have "valid_event ?e"
    unfolding valid_event_def
    using assms ty id li
    by (cases l) (simp add: event_shape_guards_def event_status_guards_def lineage_ok_def Let_def)
  from mk_outbox_event_fixpoint[OF this] show ?thesis
    unfolding build_candidate_outbox_event_def fp bind_res_simps Let_def l
    using assms(1) by (simp add: checks_passes)
qed

end
