(* ===== verification/Interfaces.thy ===== *)
theory Interfaces
imports Prelude
begin

text \<open>
  The contracts several components share, as locales. Each is interpreted on the
  operations of the components that provide it.
\<close>

text \<open>Work items are leased to one attempt at a time; the attempt that holds the lease
  completes the item and thereby gives the lease up.\<close>

locale leased_store =
  fixes owned_by :: "'e \<Rightarrow> 'w \<Rightarrow> bool"
    and complete :: "'k \<Rightarrow> 'w \<Rightarrow> 'c \<Rightarrow> (('k, 'e) dict, 'r) act"
  assumes not_owner_unchanged:
      "(\<And>e. d_get s k = Some e \<Longrightarrow> \<not> owned_by e w) \<Longrightarrow> snd (complete k w c s) = s"
    and complete_frame: "j \<noteq> k \<Longrightarrow> d_get (snd (complete k w c s)) j = d_get s j"
    and complete_releases:
      "snd (complete k w c s) \<noteq> s \<Longrightarrow> d_get (snd (complete k w c s)) k = Some e \<Longrightarrow> \<not> owned_by e v"
begin

lemma effect_needs_lease:
  "snd (complete k w c s) \<noteq> s \<Longrightarrow> \<exists>e. d_get s k = Some e \<and> owned_by e w"
  using not_owner_unchanged by blast

lemma completed_once:
  assumes "snd (complete k w c s) \<noteq> s"
  shows "snd (complete k v d (snd (complete k w c s))) = snd (complete k w c s)"
  using complete_releases[OF assms] by (rule not_owner_unchanged)

text \<open>Whatever attempts follow on the same item, nothing changes after the completion.\<close>

lemma completed_for_good:
  assumes "snd (complete k w c s) \<noteq> s"
  shows "fold (\<lambda>(v, d) t. snd (complete k v d t)) attempts (snd (complete k w c s)) = snd (complete k w c s)"
  using completed_once[OF assms] by (induction attempts) auto

text \<open>Attempts without the lease never have an effect, however many there are.\<close>

lemma strangers_have_no_effect:
  assumes "\<And>e v d. d_get s k = Some e \<Longrightarrow> (v, d) \<in> set attempts \<Longrightarrow> \<not> owned_by e v"
  shows "fold (\<lambda>(v, d) t. snd (complete k v d t)) attempts s = s"
  using assms
proof (induction attempts)
  case (Cons a attempts)
  obtain v d where a: "a = (v, d)" by (cases a)
  have "snd (complete k v d s) = s"
    by (rule not_owner_unchanged) (use Cons.prems a in auto)
  with Cons a show ?case by auto
qed simp

end

text \<open>Requests carry a key. A request under a new key may change the store and files its
  content under the key; a request under a known key is answered from the store. \<open>step\<close> is
  whatever else may happen to the store between requests.\<close>

locale idempotent_handler =
  fixes handle :: "'q \<Rightarrow> ('s, 'a) act"
    and key_of :: "'q \<Rightarrow> 's \<Rightarrow> 'k option"
    and content :: "'q \<Rightarrow> 'v"
    and seen :: "'s \<Rightarrow> 'k \<Rightarrow> 'v option"
    and consistent :: "'s \<Rightarrow> bool"
    and admissible :: "'q \<Rightarrow> 's \<Rightarrow> bool"
    and step :: "'s \<Rightarrow> 's \<Rightarrow> bool"
    and replayed :: "'a \<Rightarrow> bool"
    and conflicting :: "'a \<Rightarrow> bool"
  assumes step_consistent: "step s t \<Longrightarrow> consistent s \<Longrightarrow> consistent t"
    and step_keeps_key: "step s t \<Longrightarrow> consistent s \<Longrightarrow> key_of q s = Some k \<Longrightarrow> key_of q t = Some k"
    and step_keeps_seen: "step s t \<Longrightarrow> consistent s \<Longrightarrow> seen s k = Some v \<Longrightarrow> seen t k = Some v"
    and request_step: "admissible q s \<Longrightarrow> step s (snd (handle q s))"
    and effect_recorded: "consistent s \<Longrightarrow> admissible q s \<Longrightarrow> snd (handle q s) \<noteq> s \<Longrightarrow>
      \<exists>k. key_of q s = Some k \<and> seen (snd (handle q s)) k = Some (content q)"
    and known_key: "consistent s \<Longrightarrow> key_of q s = Some k \<Longrightarrow> seen s k = Some v \<Longrightarrow>
      snd (handle q s) = s \<and>
      (\<forall>a. fst (handle q s) = Inr a \<longrightarrow> (if v = content q then replayed a else conflicting a))"
begin

lemma run_keeps:
  assumes "step\<^sup>*\<^sup>* s t" "consistent s"
  shows "consistent t" and "key_of q s = Some k \<Longrightarrow> key_of q t = Some k"
    and "seen s k = Some v \<Longrightarrow> seen t k = Some v"
proof -
  have "consistent t \<and> (\<forall>q k. key_of q s = Some k \<longrightarrow> key_of q t = Some k) \<and>
    (\<forall>k v. seen s k = Some v \<longrightarrow> seen t k = Some v)"
    using assms(1)
  proof induction
    case base
    then show ?case using assms(2) by simp
  next
    case (step t u)
    then show ?case
      using step_consistent step_keeps_key step_keeps_seen by meson
  qed
  then show "consistent t" "key_of q s = Some k \<Longrightarrow> key_of q t = Some k"
    "seen s k = Some v \<Longrightarrow> seen t k = Some v" by blast+
qed

text \<open>A request that had an effect never has one again, whatever happens in between, and
  every later answer to it says so.\<close>

lemma applied_once:
  assumes "consistent s" "admissible q s" "snd (handle q s) \<noteq> s" "step\<^sup>*\<^sup>* (snd (handle q s)) t"
  shows "snd (handle q t) = t" and "fst (handle q t) = Inr a \<Longrightarrow> replayed a"
proof -
  obtain k where k: "key_of q s = Some k" "seen (snd (handle q s)) k = Some (content q)"
    using effect_recorded[OF assms(1-3)] by blast
  note st = request_step[OF assms(2)]
  have c: "consistent (snd (handle q s))" by (rule step_consistent[OF st assms(1)])
  note r = run_keeps[OF assms(4) c]
  have "key_of q t = Some k" using r(2) step_keeps_key[OF st assms(1) k(1)] by blast
  with known_key[OF r(1) this r(3)[OF k(2)]]
  show "snd (handle q t) = t" "fst (handle q t) = Inr a \<Longrightarrow> replayed a" by simp_all
qed

text \<open>Another request under the same key is refused and has no effect.\<close>

lemma key_taken:
  assumes "consistent s" "admissible q s" "snd (handle q s) \<noteq> s" "step\<^sup>*\<^sup>* (snd (handle q s)) t"
    and "key_of p t = key_of q s" "content p \<noteq> content q"
  shows "snd (handle p t) = t" and "fst (handle p t) = Inr a \<Longrightarrow> conflicting a"
proof -
  obtain k where k: "key_of q s = Some k" "seen (snd (handle q s)) k = Some (content q)"
    using effect_recorded[OF assms(1-3)] by blast
  have c: "consistent (snd (handle q s))"
    by (rule step_consistent[OF request_step[OF assms(2)] assms(1)])
  note r = run_keeps[OF assms(4) c]
  have "key_of p t = Some k" using assms(5) k(1) by simp
  with known_key[OF r(1) this r(3)[OF k(2)]] assms(6)
  show "snd (handle p t) = t" "fst (handle p t) = Inr a \<Longrightarrow> conflicting a" by auto
qed

end

end
