(* ===== verification/Outbox_Delivery.thy ===== *)
theory Outbox_Delivery
imports Outbox_Events Interfaces
begin

text \<open>
  \<open>src/app/domain/outbox/delivery.py\<close>: which events are ready for delivery, the claim
  that leases them, and the two completions a lease holder may report. The lemmas show
  that a claim leases only ready events and at most the limit, that a lease excludes every
  other worker until it expires, and that without the lease nothing changes.
\<close>

type_synonym events = "(string, outbox_event) dict"

definition OUTBOX_RETRY_BACKOFF_BASE_SECONDS :: int where
  "OUTBOX_RETRY_BACKOFF_BASE_SECONDS = 60"

definition OUTBOX_RETRY_BACKOFF_MAX_SECONDS :: int where
  "OUTBOX_RETRY_BACKOFF_MAX_SECONDS = 900"

datatype delivery_decision =
  Del_Accepted | Del_Not_Found | Del_Already_Published | Del_Dead_Lettered | Del_Lease_Lost

record delivery_result =
  dr_decision :: delivery_decision
  dr_event :: "outbox_event option"

definition outbox_event_delivery_ready :: "outbox_event \<Rightarrow> int \<Rightarrow> py_datetime \<Rightarrow> bool" where
  "outbox_event_delivery_ready e max_retry_count evaluated_at_utc \<longleftrightarrow>
     oe_status e = Ob_Pending \<or>
     (oe_status e = Ob_Failed \<and> oe_retry_count e < max_retry_count \<and>
      some_satisfies (\<lambda>t. dt_le t evaluated_at_utc) (oe_next_attempt_at_utc e)) \<or>
     (oe_status e = Ob_Leased \<and>
      some_satisfies (\<lambda>t. dt_le t evaluated_at_utc) (oe_lease_expires_at_utc e))"

definition delivery_order :: "outbox_event \<Rightarrow> int \<times> string" where
  "delivery_order e = (inst (oe_occurred_at_utc e), oe_event_id e)"

definition outbox_events_for_delivery ::
    "py_datetime \<Rightarrow> events \<Rightarrow> int \<Rightarrow> int \<Rightarrow> py_datetime option \<Rightarrow> outbox_event list res" where
  "outbox_events_for_delivery now events limit max_retry_count evaluated_at_utc =
    (let evaluated_at = or_else evaluated_at_utc now;
         delivery_ready = filter (\<lambda>e. outbox_event_delivery_ready e max_retry_count evaluated_at)
                            (d_values events)
     in checks (require_positive limit ''limit'' @ require_positive max_retry_count ''max_retry_count'' @
                require_aware_utc evaluated_at ''evaluated_at_utc'')
          (take (nat limit) (sort_key delivery_order delivery_ready)))"

fun lease_each ::
    "string \<Rightarrow> string \<Rightarrow> py_datetime \<Rightarrow> outbox_event list \<Rightarrow> (events, outbox_event list) act" where
  "lease_each lease_owner lease_attempt_id lease_expires_at_utc [] = act_return []"
| "lease_each lease_owner lease_attempt_id lease_expires_at_utc (e # es) =
     act_bind (act_lift (lease_outbox_event e lease_owner lease_attempt_id lease_expires_at_utc)) (\<lambda>leased.
     act_bind (act_modify (d_put (oe_event_id e) leased)) (\<lambda>_.
     act_bind (lease_each lease_owner lease_attempt_id lease_expires_at_utc es) (\<lambda>claimed.
       act_return (leased # claimed))))"

definition claim_outbox_events_for_delivery ::
    "int \<Rightarrow> int \<Rightarrow> string \<Rightarrow> string \<Rightarrow> py_datetime \<Rightarrow> py_datetime \<Rightarrow> (events, outbox_event list) act" where
  "claim_outbox_events_for_delivery limit max_retry_count lease_owner lease_attempt_id
      claimed_at_utc lease_expires_at_utc =
     act_bind (act_guard
       (require_positive limit ''limit'' @ require_positive max_retry_count ''max_retry_count'' @
        require_text lease_owner ''lease_owner'' @ require_text lease_attempt_id ''lease_attempt_id'' @
        require_aware_utc claimed_at_utc ''claimed_at_utc'' @
        require_aware_utc lease_expires_at_utc ''lease_expires_at_utc'' @
        [(dt_le lease_expires_at_utc claimed_at_utc,
          ValueError ''lease_expires_at_utc must be after claimed_at_utc'')])) (\<lambda>_ events.
       act_bind (act_lift (outbox_events_for_delivery claimed_at_utc events limit max_retry_count
                             (Some claimed_at_utc)))
         (lease_each lease_owner lease_attempt_id lease_expires_at_utc) events)"

definition terminal_outbox_delivery_result :: "outbox_event option \<Rightarrow> delivery_result option" where
  "terminal_outbox_delivery_result event =
    (case event of
       None \<Rightarrow> Some \<lparr>dr_decision = Del_Not_Found, dr_event = None\<rparr>
     | Some e \<Rightarrow>
         if oe_status e = Ob_Published
         then Some \<lparr>dr_decision = Del_Already_Published, dr_event = Some e\<rparr>
         else if oe_status e = Ob_Dead_Letter
         then Some \<lparr>dr_decision = Del_Dead_Lettered, dr_event = Some e\<rparr>
         else None)"

definition event_owned_by_delivery_attempt :: "outbox_event \<Rightarrow> string \<Rightarrow> string \<Rightarrow> bool" where
  "event_owned_by_delivery_attempt e lease_owner lease_attempt_id \<longleftrightarrow>
     oe_status e = Ob_Leased \<and> oe_lease_owner e = Some lease_owner \<and>
     oe_lease_attempt_id e = Some lease_attempt_id"

definition next_outbox_retry_attempt_at_utc ::
    "outbox_event \<Rightarrow> py_datetime \<Rightarrow> int \<Rightarrow> py_datetime option res" where
  "next_outbox_retry_attempt_at_utc e failed_at_utc max_retry_count =
    (let next_retry_count = oe_retry_count e + 1 in
     checks (require_aware_utc failed_at_utc ''failed_at_utc'' @
             require_positive max_retry_count ''max_retry_count'')
       (if max_retry_count \<le> next_retry_count then None
        else Some (dt_add failed_at_utc (us_seconds
               (min (OUTBOX_RETRY_BACKOFF_BASE_SECONDS * 2 ^ nat (next_retry_count - 1))
                    OUTBOX_RETRY_BACKOFF_MAX_SECONDS)))))"

definition mark_owned_outbox_event_published ::
    "string \<Rightarrow> string \<Rightarrow> string \<Rightarrow> py_datetime \<Rightarrow> (events, delivery_result) act" where
  "mark_owned_outbox_event_published event_id lease_owner lease_attempt_id published_at_utc =
     act_bind (act_guard
       (require_text event_id ''event_id'' @ require_text lease_owner ''lease_owner'' @
        require_text lease_attempt_id ''lease_attempt_id'' @
        require_aware_utc published_at_utc ''published_at_utc'')) (\<lambda>_ events.
     case terminal_outbox_delivery_result (d_get events event_id) of
       Some r \<Rightarrow> (Inr r, events)
     | None \<Rightarrow>
         (case d_get events event_id of
            None \<Rightarrow> (Inl AssertionError, events)
          | Some e \<Rightarrow>
              if \<not> event_owned_by_delivery_attempt e lease_owner lease_attempt_id
              then (Inr \<lparr>dr_decision = Del_Lease_Lost, dr_event = Some e\<rparr>, events)
              else act_bind (act_lift (mark_outbox_event_published e published_at_utc)) (\<lambda>updated.
                   act_bind (act_modify (d_put event_id updated)) (\<lambda>_.
                     act_return \<lparr>dr_decision = Del_Accepted, dr_event = Some updated\<rparr>)) events))"

definition mark_owned_outbox_event_failed ::
    "py_datetime \<Rightarrow> string \<Rightarrow> string \<Rightarrow> string \<Rightarrow> string \<Rightarrow> py_datetime option \<Rightarrow> int \<Rightarrow>
     py_datetime option \<Rightarrow> (events, delivery_result) act"
where
  "mark_owned_outbox_event_failed now event_id lease_owner lease_attempt_id failure_reason
      failed_at_utc max_retry_count next_attempt_at_utc =
    (let failed_at = or_else failed_at_utc now in
     act_bind (act_guard
       (require_text event_id ''event_id'' @ require_text lease_owner ''lease_owner'' @
        require_text lease_attempt_id ''lease_attempt_id'' @
        require_aware_utc failed_at ''failed_at_utc'')) (\<lambda>_ events.
     case terminal_outbox_delivery_result (d_get events event_id) of
       Some r \<Rightarrow> (Inr r, events)
     | None \<Rightarrow>
         (case d_get events event_id of
            None \<Rightarrow> (Inl AssertionError, events)
          | Some e \<Rightarrow>
              if \<not> event_owned_by_delivery_attempt e lease_owner lease_attempt_id
              then (Inr \<lparr>dr_decision = Del_Lease_Lost, dr_event = Some e\<rparr>, events)
              else act_bind (act_lift (case next_attempt_at_utc of
                       Some t \<Rightarrow> Inr (Some t)
                     | None \<Rightarrow> next_outbox_retry_attempt_at_utc e failed_at max_retry_count)) (\<lambda>retry_at.
                   act_bind (act_lift (mark_outbox_event_failed e failure_reason failed_at
                       max_retry_count retry_at)) (\<lambda>updated.
                   act_bind (act_modify (d_put event_id updated)) (\<lambda>_.
                     act_return \<lparr>dr_decision = (if oe_status updated = Ob_Dead_Letter
                                    then Del_Dead_Lettered else Del_Accepted),
                                 dr_event = Some updated\<rparr>))) events)))"

section \<open>The store of events\<close>

definition event_store_ok :: "events \<Rightarrow> bool" where
  "event_store_ok events \<longleftrightarrow>
     distinct (d_keys events) \<and>
     (\<forall>k e. d_get events k = Some e \<longrightarrow> oe_event_id e = k \<and> valid_event e)"

lemma event_store_okD: "event_store_ok s \<Longrightarrow> d_get s k = Some e \<Longrightarrow> oe_event_id e = k \<and> valid_event e"
  by (simp add: event_store_ok_def)

lemma event_store_ok_put:
  "event_store_ok s \<Longrightarrow> valid_event e \<Longrightarrow> event_store_ok (d_put (oe_event_id e) e s)"
  by (simp add: event_store_ok_def)

lemma event_store_values:
  "event_store_ok s \<Longrightarrow> e \<in> set (d_values s) \<Longrightarrow> d_get s (oe_event_id e) = Some e \<and> valid_event e"
  by (auto simp: event_store_ok_def)

lemma event_store_ids_distinct:
  assumes "event_store_ok s"
  shows "distinct (map oe_event_id (d_values s))"
proof -
  have "oe_event_id (snd p) = fst p" if "p \<in> set s" for p
    using assms that by (cases p) (auto simp: event_store_ok_def)
  then have m: "map oe_event_id (d_values s) = d_keys s" by simp
  show ?thesis unfolding m using assms by (simp add: event_store_ok_def)
qed

section \<open>Claims\<close>

definition leased_to :: "outbox_event \<Rightarrow> string \<Rightarrow> string \<Rightarrow> py_datetime \<Rightarrow> bool" where
  "leased_to e w a t \<longleftrightarrow> oe_status e = Ob_Leased \<and> oe_lease_owner e = Some w \<and>
     oe_lease_attempt_id e = Some a \<and> oe_lease_expires_at_utc e = Some t"

lemma lease_each_ok:
  assumes "event_store_ok s" "\<And>e. e \<in> set es \<Longrightarrow> d_get s (oe_event_id e) = Some e \<and> oe_status e \<noteq> Ob_Published"
    and "distinct (map oe_event_id es)" "\<not> blank w" "\<not> blank a" "is_utc t"
  shows "\<exists>ls s'. lease_each w a t es s = (Inr ls, s') \<and> event_store_ok s' \<and>
    list_all2 (\<lambda>e l. same_event e l \<and> leased_to l w a t \<and> oe_retry_count l = oe_retry_count e) es ls \<and>
    (\<forall>k. k \<notin> oe_event_id ` set es \<longrightarrow> d_get s' k = d_get s k) \<and>
    (\<forall>l \<in> set ls. d_get s' (oe_event_id l) = Some l)"
  using assms(1-3)
proof (induction es arbitrary: s)
  case Nil
  then show ?case by simp
next
  case (Cons e es)
  have e: "d_get s (oe_event_id e) = Some e" "oe_status e \<noteq> Ob_Published" using Cons.prems by auto
  then have v: "valid_event e" using event_store_okD Cons.prems(1) by blast
  obtain l where l: "lease_outbox_event e w a t = Inr l" "valid_event l" "same_event e l"
    "leased_to l w a t" "oe_retry_count l = oe_retry_count e"
    using lease_outbox_event_ok[OF v e(2) assms(4-6)] by (metis leased_to_def)
  have id: "oe_event_id l = oe_event_id e" using l(3) by (simp add: same_event_def)
  let ?s = "d_put (oe_event_id e) l s"
  have s: "event_store_ok ?s" using event_store_ok_put[OF Cons.prems(1) l(2)] id by simp
  have "d_get ?s (oe_event_id x) = Some x \<and> oe_status x \<noteq> Ob_Published" if "x \<in> set es" for x
  proof -
    have "oe_event_id x \<noteq> oe_event_id e" using that Cons.prems(3) by (metis distinct.simps(2) image_eqI list.map(2) set_map)
    then show ?thesis using Cons.prems(2) that by simp
  qed
  from Cons.IH[OF s this] Cons.prems obtain ls s' where r: "lease_each w a t es ?s = (Inr ls, s')"
    "event_store_ok s'"
    "list_all2 (\<lambda>e l. same_event e l \<and> leased_to l w a t \<and> oe_retry_count l = oe_retry_count e) es ls"
    "\<forall>k. k \<notin> oe_event_id ` set es \<longrightarrow> d_get s' k = d_get ?s k"
    "\<forall>l \<in> set ls. d_get s' (oe_event_id l) = Some l" by auto
  have "d_get s' (oe_event_id l) = Some l" using r(4) Cons.prems(3) id by auto
  moreover have "lease_each w a t (e # es) s = (Inr (l # ls), s')"
    using l(1) r(1) by (simp add: act_bind_def)
  ultimately show ?case using r l by auto
qed

lemma ready_not_published: "outbox_event_delivery_ready e n t \<Longrightarrow> oe_status e \<noteq> Ob_Published"
  by (auto simp: outbox_event_delivery_ready_def)

definition ready_events :: "events \<Rightarrow> int \<Rightarrow> int \<Rightarrow> py_datetime \<Rightarrow> outbox_event list" where
  "ready_events s limit n t =
     take (nat limit) (sort_key delivery_order
       (filter (\<lambda>e. outbox_event_delivery_ready e n t) (d_values s)))"

lemma ready_events_props:
  assumes "event_store_ok s"
  shows "distinct (map oe_event_id (ready_events s limit n t))"
    and "e \<in> set (ready_events s limit n t) \<Longrightarrow>
      d_get s (oe_event_id e) = Some e \<and> outbox_event_delivery_ready e n t"
    and "sorted (map delivery_order (ready_events s limit n t))"
    and "length (ready_events s limit n t) \<le> nat limit"
proof -
  let ?f = "filter (\<lambda>e. outbox_event_delivery_ready e n t) (d_values s)"
  have d: "distinct (map oe_event_id ?f)"
    using event_store_ids_distinct[OF assms] by (rule distinct_map_filter)
  have "mset (map oe_event_id (sort_key delivery_order ?f)) = mset (map oe_event_id ?f)" by simp
  with d have "distinct (map oe_event_id (sort_key delivery_order ?f))"
    by (metis mset_eq_imp_distinct_iff)
  then show "distinct (map oe_event_id (ready_events s limit n t))"
    by (simp add: ready_events_def take_map[symmetric])
  show "e \<in> set (ready_events s limit n t) \<Longrightarrow>
      d_get s (oe_event_id e) = Some e \<and> outbox_event_delivery_ready e n t"
    using event_store_values[OF assms] by (auto simp: ready_events_def dest!: in_set_takeD)
  show "sorted (map delivery_order (ready_events s limit n t))"
    by (simp add: ready_events_def take_map[symmetric] sorted_wrt_take)
  show "length (ready_events s limit n t) \<le> nat limit" by (simp add: ready_events_def)
qed

lemma claim_ok:
  assumes "event_store_ok s" "0 < limit" "0 < n" "\<not> blank w" "\<not> blank a" "is_utc t" "is_utc x"
    and "inst t < inst x"
  shows "\<exists>ls s'. claim_outbox_events_for_delivery limit n w a t x s = (Inr ls, s') \<and>
    event_store_ok s' \<and> length ls \<le> nat limit \<and>
    list_all2 (\<lambda>e l. same_event e l \<and> leased_to l w a x \<and> oe_retry_count l = oe_retry_count e)
      (ready_events s limit n t) ls \<and>
    (\<forall>k. k \<notin> oe_event_id ` set ls \<longrightarrow> d_get s' k = d_get s k) \<and>
    (\<forall>l \<in> set ls. d_get s' (oe_event_id l) = Some l)"
proof -
  note r = ready_events_props[OF assms(1)]
  obtain ls s' where l: "lease_each w a x (ready_events s limit n t) s = (Inr ls, s')" "event_store_ok s'"
    "list_all2 (\<lambda>e l. same_event e l \<and> leased_to l w a x \<and> oe_retry_count l = oe_retry_count e)
      (ready_events s limit n t) ls"
    "\<forall>k. k \<notin> oe_event_id ` set (ready_events s limit n t) \<longrightarrow> d_get s' k = d_get s k"
    "\<forall>l \<in> set ls. d_get s' (oe_event_id l) = Some l"
    using lease_each_ok[OF assms(1) _ r(1) assms(4,5,7)] r(2) ready_not_published by blast
  have ids: "map oe_event_id ls = map oe_event_id (ready_events s limit n t)"
    using l(3) by (induction rule: list_all2_induct) (auto simp: same_event_def)
  then have "set (map oe_event_id ls) = set (map oe_event_id (ready_events s limit n t))" by (simp only:)
  then have im: "oe_event_id ` set ls = oe_event_id ` set (ready_events s limit n t)" by simp
  moreover have "length ls \<le> nat limit" using r(4) ids by (metis length_map)
  moreover have "claim_outbox_events_for_delivery limit n w a t x s = (Inr ls, s')"
    using l(1) assms by (simp add: claim_outbox_events_for_delivery_def outbox_events_for_delivery_def
        checks_passes dt_le_def ready_events_def)
  ultimately show ?thesis using l(2,3,5) l(4)[folded im] by blast
qed

text \<open>A leased event is not ready before its lease expires.\<close>

lemma leased_not_ready: "leased_to e w a x \<Longrightarrow> inst t < inst x \<Longrightarrow> \<not> outbox_event_delivery_ready e n t"
  by (simp add: leased_to_def outbox_event_delivery_ready_def dt_le_def)

section \<open>Completions\<close>

datatype completion = Publish py_datetime | Fail string "py_datetime option" int "py_datetime option"

fun complete_outbox ::
    "py_datetime \<Rightarrow> string \<Rightarrow> string \<times> string \<Rightarrow> completion \<Rightarrow> (events, delivery_result) act" where
  "complete_outbox now k (w, a) (Publish t) = mark_owned_outbox_event_published k w a t"
| "complete_outbox now k (w, a) (Fail r t n u) = mark_owned_outbox_event_failed now k w a r t n u"

definition owned_by_attempt :: "outbox_event \<Rightarrow> string \<times> string \<Rightarrow> bool" where
  "owned_by_attempt e wa = event_owned_by_delivery_attempt e (fst wa) (snd wa)"

lemma mk_outbox_event_status: "mk_outbox_event e = Inr e' \<Longrightarrow> oe_status e' = oe_status e"
  by (auto simp: mk_outbox_event_def bind_res_Inr Let_def)

lemma mk_outbox_event_id: "mk_outbox_event e = Inr e' \<Longrightarrow> oe_event_id e' = oe_event_id e"
  by (auto simp: mk_outbox_event_def bind_res_Inr Let_def)

lemma lease_event_id: "lease_outbox_event e w a t = Inr e' \<Longrightarrow> oe_event_id e' = oe_event_id e"
  by (auto simp: lease_outbox_event_def bind_res_Inr dest: mk_outbox_event_id)

lemma published_status:
  "mark_outbox_event_published e t = Inr e' \<Longrightarrow> oe_status e' = Ob_Published"
  "mark_outbox_event_published e t = Inr e' \<Longrightarrow> oe_event_id e' = oe_event_id e"
  by (auto simp: mark_outbox_event_published_def bind_res_Inr dest: mk_outbox_event_status mk_outbox_event_id)

lemma failed_status:
  "mark_outbox_event_failed e r t n u = Inr e' \<Longrightarrow> oe_status e' \<in> {Ob_Failed, Ob_Dead_Letter}"
  by (auto simp: mark_outbox_event_failed_def bind_res_Inr Let_def dest!: mk_outbox_event_status)

lemma failed_id: "mark_outbox_event_failed e r t n u = Inr e' \<Longrightarrow> oe_event_id e' = oe_event_id e"
  by (auto simp: mark_outbox_event_failed_def bind_res_Inr Let_def dest!: mk_outbox_event_id)

text \<open>Every completion either leaves the store alone or replaces the item its attempt owns
  by one that is no longer leased.\<close>

definition owned_effect :: "events \<Rightarrow> string \<Rightarrow> string \<times> string \<Rightarrow> events \<Rightarrow> bool" where
  "owned_effect s k wa s' \<longleftrightarrow> s' = s \<or>
     (\<exists>e e'. d_get s k = Some e \<and> owned_by_attempt e wa \<and> oe_status e' \<noteq> Ob_Leased \<and>
       oe_event_id e' = oe_event_id e \<and> s' = d_put k e' s)"

lemma owned_effect_same [intro, simp]: "owned_effect s k wa s"
  by (simp add: owned_effect_def)

lemma owned_effect_put [intro]:
  "d_get s k = Some e \<Longrightarrow> owned_by_attempt e wa \<Longrightarrow> oe_status e' \<noteq> Ob_Leased \<Longrightarrow>
   oe_event_id e' = oe_event_id e \<Longrightarrow> owned_effect s k wa (d_put k e' s)"
  by (auto simp: owned_effect_def)

lemma published_effect: "owned_effect s k (w, a) (snd (mark_owned_outbox_event_published k w a t s))"
proof (cases "d_get s k")
  case None
  then show ?thesis
    by (simp add: mark_owned_outbox_event_published_def act_guard_state terminal_outbox_delivery_result_def)
next
  case (Some e)
  show ?thesis
  proof (cases "mark_outbox_event_published e t")
    case (Inr e')
    with Some published_status(1)[OF Inr] published_status(2)[OF Inr] show ?thesis
      by (auto simp: mark_owned_outbox_event_published_def act_guard_state terminal_outbox_delivery_result_def
          owned_by_attempt_def intro!: owned_effect_put[OF Some])
  qed (auto simp: Some mark_owned_outbox_event_published_def act_guard_state
        terminal_outbox_delivery_result_def)
qed

lemma failed_effect: "owned_effect s k (w, a) (snd (mark_owned_outbox_event_failed now k w a r t n u s))"
proof (cases "d_get s k")
  case None
  then show ?thesis
    by (simp add: mark_owned_outbox_event_failed_def act_guard_state terminal_outbox_delivery_result_def
        Let_def)
next
  case (Some e)
  define failed_at where "failed_at = or_else t now"
  define retry where "retry = (case u of Some t \<Rightarrow> Inr (Some t)
      | None \<Rightarrow> next_outbox_retry_attempt_at_utc e failed_at n)"
  note defs = mark_owned_outbox_event_failed_def act_guard_state terminal_outbox_delivery_result_def
        Let_def failed_at_def[symmetric] retry_def[symmetric]
  show ?thesis
  proof (cases retry)
    case Inl
    with Some show ?thesis by (simp add: defs)
  next
    case R: (Inr nxt)
    show ?thesis
    proof (cases "mark_outbox_event_failed e r failed_at n nxt")
      case (Inr e')
      with Some R failed_status[OF Inr] failed_id[OF Inr] show ?thesis by (auto simp: defs owned_by_attempt_def intro!: owned_effect_put[OF Some])
    qed (use Some R in \<open>simp add: defs\<close>)
  qed
qed

lemma complete_outbox_effect: "owned_effect s k wa (snd (complete_outbox now k wa c s))"
  by (cases wa; cases c) (simp_all add: published_effect failed_effect)

interpretation outbox_lease: leased_store owned_by_attempt "complete_outbox now" for now
proof
  fix s and k :: string and w c
  assume "\<And>e. d_get s k = Some e \<Longrightarrow> \<not> owned_by_attempt e w"
  then show "snd (complete_outbox now k w c s) = s"
    using complete_outbox_effect[of s k w now c] by (auto simp: owned_effect_def)
next
  fix j k :: string and w c s assume "j \<noteq> k"
  then show "d_get (snd (complete_outbox now k w c s)) j = d_get s j"
    using complete_outbox_effect[of s k w now c] by (auto simp: owned_effect_def)
next
  fix k :: string and w c s e v assume "snd (complete_outbox now k w c s) \<noteq> s"
    and "d_get (snd (complete_outbox now k w c s)) k = Some e"
  then show "\<not> owned_by_attempt e v"
    using complete_outbox_effect[of s k w now c]
    by (auto simp: owned_effect_def owned_by_attempt_def event_owned_by_delivery_attempt_def)
qed

lemma retry_delay_bounds:
  assumes "next_outbox_retry_attempt_at_utc e t n = Inr (Some u)" "0 \<le> oe_retry_count e"
  shows "us_seconds 60 \<le> inst u - inst t \<and> inst u - inst t \<le> us_seconds 900 \<and> is_utc u \<and>
    oe_retry_count e + 1 < n"
proof -
  have "(1 :: int) \<le> 2 ^ nat (oe_retry_count e)" by simp
  then show ?thesis
    using assms by (auto simp: next_outbox_retry_attempt_at_utc_def Let_def us_seconds_def
        OUTBOX_RETRY_BACKOFF_BASE_SECONDS_def OUTBOX_RETRY_BACKOFF_MAX_SECONDS_def split: if_splits)
qed

lemma retry_count_nonneg: "valid_event e \<Longrightarrow> 0 \<le> oe_retry_count e"
  by (simp add: valid_event_def event_status_guards_def Let_def)

text \<open>The holder of the lease can always report either outcome.\<close>

lemma publish_by_owner:
  assumes "event_store_ok s" "d_get s k = Some e" "event_owned_by_delivery_attempt e w a"
    and "\<not> blank w" "\<not> blank a" "is_utc t"
  shows "\<exists>e'. mark_owned_outbox_event_published k w a t s =
      (Inr \<lparr>dr_decision = Del_Accepted, dr_event = Some e'\<rparr>, d_put k e' s) \<and>
    valid_event e' \<and> same_event e e' \<and> oe_status e' = Ob_Published \<and> event_store_ok (d_put k e' s)"
proof -
  have v: "valid_event e" "oe_event_id e = k" using event_store_okD assms by auto
  have k: "\<not> blank k" using v by (auto simp: valid_event_def event_shape_guards_def)
  have st: "oe_status e = Ob_Leased" using assms(3) by (simp add: event_owned_by_delivery_attempt_def)
  obtain e' where e': "mark_outbox_event_published e t = Inr e'" "valid_event e'" "same_event e e'"
    "oe_status e' = Ob_Published" using mark_published_ok[OF v(1) st assms(6)] by blast
  then have "oe_event_id e' = k" using v by (simp add: same_event_def)
  with e' show ?thesis
    using event_store_ok_put[OF assms(1) e'(2)] assms st k
    by (simp add: mark_owned_outbox_event_published_def terminal_outbox_delivery_result_def)
qed

lemma fail_by_owner:
  assumes "event_store_ok s" "d_get s k = Some e" "event_owned_by_delivery_attempt e w a"
    and "\<not> blank w" "\<not> blank a" "is_utc t" "0 < n" "passes (validate_outbox_failure_reason r)"
  shows "\<exists>e'. mark_owned_outbox_event_failed now k w a r (Some t) n None s =
      (Inr \<lparr>dr_decision = (if n \<le> oe_retry_count e + 1 then Del_Dead_Lettered else Del_Accepted),
            dr_event = Some e'\<rparr>, d_put k e' s) \<and>
    valid_event e' \<and> same_event e e' \<and> oe_retry_count e' = oe_retry_count e + 1 \<and>
    oe_status e' = (if n \<le> oe_retry_count e + 1 then Ob_Dead_Letter else Ob_Failed) \<and>
    (\<forall>u. oe_next_attempt_at_utc e' = Some u \<longrightarrow>
       us_seconds 60 \<le> inst u - inst t \<and> inst u - inst t \<le> us_seconds 900) \<and>
    event_store_ok (d_put k e' s)"
proof -
  have v: "valid_event e" "oe_event_id e = k" using event_store_okD assms by auto
  have k: "\<not> blank k" using v by (auto simp: valid_event_def event_shape_guards_def)
  have st: "oe_status e = Ob_Leased" using assms(3) by (simp add: event_owned_by_delivery_attempt_def)
  obtain nxt where nxt: "next_outbox_retry_attempt_at_utc e t n = Inr nxt"
    using assms by (simp add: next_outbox_retry_attempt_at_utc_def checks_passes Let_def)
  have nb: "\<forall>u. nxt = Some u \<longrightarrow> us_seconds 60 \<le> inst u - inst t \<and> inst u - inst t \<le> us_seconds 900 \<and> is_utc u"
    using retry_delay_bounds nxt retry_count_nonneg[OF v(1)] by blast
  have nn: "if n \<le> oe_retry_count e + 1 then nxt = None
         else \<exists>u. nxt = Some u \<and> is_utc u \<and> inst t < inst u"
  proof (cases "n \<le> oe_retry_count e + 1")
    case False
    then obtain u where u: "nxt = Some u"
      using nxt assms by (auto simp: next_outbox_retry_attempt_at_utc_def Let_def)
    with nb have "us_seconds 60 \<le> inst u - inst t" "is_utc u" by auto
    with False u show ?thesis by (simp add: us_seconds_def)
  qed (use nxt in \<open>simp add: next_outbox_retry_attempt_at_utc_def Let_def\<close>)
  obtain e' where e': "mark_outbox_event_failed e r t n nxt = Inr e'" "valid_event e'" "same_event e e'"
    "oe_status e' = (if n \<le> oe_retry_count e + 1 then Ob_Dead_Letter else Ob_Failed)"
    "oe_retry_count e' = oe_retry_count e + 1" "oe_next_attempt_at_utc e' = nxt"
    using mark_failed_ok[OF v(1) st assms(6,7,8) nn] by blast
  then have "oe_event_id e' = k" using v by (simp add: same_event_def)
  with e' nxt nb show ?thesis
    using event_store_ok_put[OF assms(1) e'(2)] assms st k
    by (simp add: mark_owned_outbox_event_failed_def terminal_outbox_delivery_result_def)
qed

end
