(* ===== verification/Outbox_Recovery.thy ===== *)
theory Outbox_Recovery
imports Outbox_Delivery
begin

text \<open>
  \<open>src/app/domain/outbox/recovery.py\<close>: dead-letter summaries and the controlled recovery of
  a dead-lettered event, with its audit record. The lemmas show that a repeated request is
  replayed without effect, that a reused key with another request is refused, and that no
  event is recovered more often than the limit.
\<close>

definition OUTBOX_DEAD_LETTER_SUPPORT_PREFIX :: string where
  "OUTBOX_DEAD_LETTER_SUPPORT_PREFIX = ''outbox-dlq-''"

definition OUTBOX_RECOVERY_OWNER :: string where
  "OUTBOX_RECOVERY_OWNER = ''lotus-idea-operations''"

definition MAX_OUTBOX_RECOVERY_ATTEMPTS :: int where
  "MAX_OUTBOX_RECOVERY_ATTEMPTS = 1"

datatype recovery_decision =
  Rec_Accepted | Rec_Replayed | Rec_Conflict | Rec_Not_Found | Rec_Not_Dead_Lettered
| Rec_Ineligible | Rec_Limit_Reached | Rec_Lease_Conflict

record dead_letter_summary_t =
  dl_support_reference :: string
  dl_event_family :: string
  dl_schema_version :: string
  dl_retry_count :: int
  dl_first_failed_at_utc :: py_datetime
  dl_last_failed_at_utc :: py_datetime
  dl_failure_reason :: string
  dl_recovery_eligible :: bool
  dl_recovery_blocker :: "string option"
  dl_disposition :: string
  dl_owner :: string

record recovery_record =
  rr_recovery_id :: string
  rr_event_id :: string
  rr_support_reference :: string
  rr_idempotency_fingerprint :: string
  rr_request_fingerprint :: string
  rr_actor_subject :: string
  rr_reason :: string
  rr_change_reference :: string
  rr_requested_at_utc :: py_datetime
  rr_lease_owner :: string
  rr_lease_attempt_id :: string
  rr_lease_expires_at_utc :: py_datetime
  rr_original_retry_count :: int
  rr_original_failure_reason :: string
  rr_original_first_failed_at_utc :: py_datetime
  rr_original_last_failed_at_utc :: py_datetime

record recovery_result =
  rs_decision :: recovery_decision
  rs_event :: "outbox_event option"
  rs_audit_record :: "recovery_record option"
  rs_blocker :: "string option"

type_synonym recovery_records = "(string, recovery_record) dict"

definition outbox_dead_letter_support_reference :: "string \<Rightarrow> string res" where
  "outbox_dead_letter_support_reference event_id =
     checks (require_text event_id ''event_id'')
       (OUTBOX_DEAD_LETTER_SUPPORT_PREFIX @ take 24 (sha256_hex event_id))"

definition outbox_recovery_eligibility_blocker :: "string \<Rightarrow> string \<Rightarrow> string option" where
  "outbox_recovery_eligibility_blocker event_type schema_version =
     (if event_type \<notin> set SUPPORTED_OUTBOX_EVENT_TYPES then Some ''unsupported_event_family''
      else if schema_version \<noteq> OUTBOX_EVENT_SCHEMA_VERSION then Some ''unsupported_schema_version''
      else None)"

definition dead_letter_summary :: "outbox_event \<Rightarrow> dead_letter_summary_t res" where
  "dead_letter_summary e =
     (if oe_status e \<noteq> Ob_Dead_Letter
      then Inl (ValueError ''dead-letter summary requires a dead-lettered event'')
      else case (oe_first_failed_at_utc e, oe_last_failed_at_utc e, oe_failure_reason e) of
        (Some first, Some lst, Some reason) \<Rightarrow>
          let blocker = outbox_recovery_eligibility_blocker (oe_event_type e) (oe_schema_version e) in
          bind_res (outbox_dead_letter_support_reference (oe_event_id e)) (\<lambda>support.
            Inr \<lparr>dl_support_reference = support, dl_event_family = oe_event_type e,
                 dl_schema_version = oe_schema_version e, dl_retry_count = oe_retry_count e,
                 dl_first_failed_at_utc = first, dl_last_failed_at_utc = lst,
                 dl_failure_reason = reason, dl_recovery_eligible = (blocker = None),
                 dl_recovery_blocker = blocker, dl_disposition = ''quarantined'',
                 dl_owner = OUTBOX_RECOVERY_OWNER\<rparr>)
      | _ \<Rightarrow> Inl AssertionError)"

definition outbox_recovery_request_payload ::
    "string \<Rightarrow> string \<Rightarrow> string \<Rightarrow> string \<Rightarrow> (string, json) dict res" where
  "outbox_recovery_request_payload support_reference reason change_reference actor_subject =
     checks (require_text support_reference ''support_reference'' @ require_text reason ''reason'' @
             require_text change_reference ''change_reference'' @
             require_text actor_subject ''actor_subject'')
       [(''supportReference'', JStr support_reference), (''reason'', JStr reason),
        (''changeReference'', JStr change_reference), (''actorSubject'', JStr actor_subject)]"

record recovery_request =
  rq_support_reference :: string
  rq_idempotency_key :: string
  rq_request_payload :: "(string, json) dict"
  rq_actor_subject :: string
  rq_reason :: string
  rq_change_reference :: string
  rq_requested_at_utc :: py_datetime
  rq_lease_owner :: string
  rq_lease_attempt_id :: string
  rq_lease_expires_at_utc :: py_datetime

definition build_outbox_recovery_audit_record ::
    "outbox_event \<Rightarrow> recovery_request \<Rightarrow> recovery_record res" where
  "build_outbox_recovery_audit_record e q =
     bind_res (checks ([(oe_status e \<noteq> Ob_Dead_Letter,
                         ValueError ''outbox recovery requires a dead-lettered event'')] @
        require_text (rq_idempotency_key q) ''idempotency_key'' @
        require_text (rq_actor_subject q) ''actor_subject'' @
        require_text (rq_reason q) ''reason'' @
        require_text (rq_change_reference q) ''change_reference'' @
        require_text (rq_lease_owner q) ''lease_owner'' @
        require_text (rq_lease_attempt_id q) ''lease_attempt_id'' @
        require_aware_utc (rq_requested_at_utc q) ''requested_at_utc'' @
        require_aware_utc (rq_lease_expires_at_utc q) ''lease_expires_at_utc'' @
        [(dt_le (rq_lease_expires_at_utc q) (rq_requested_at_utc q),
          ValueError ''lease_expires_at_utc must be after requested_at_utc'')]) ()) (\<lambda>_.
     case (oe_failure_reason e, oe_first_failed_at_utc e, oe_last_failed_at_utc e) of
       (Some reason, Some first, Some lst) \<Rightarrow>
         let idempotency_fingerprint = sha256_hex (rq_idempotency_key q);
             recovery_id = sha256_hex (oe_event_id e @ '':'' @ idempotency_fingerprint) in
         bind_res (outbox_dead_letter_support_reference (oe_event_id e)) (\<lambda>support.
           Inr \<lparr>rr_recovery_id = ''recovery_'' @ take 32 recovery_id,
                rr_event_id = oe_event_id e, rr_support_reference = support,
                rr_idempotency_fingerprint = idempotency_fingerprint,
                rr_request_fingerprint = payload_fingerprint (rq_request_payload q),
                rr_actor_subject = rq_actor_subject q, rr_reason = rq_reason q,
                rr_change_reference = rq_change_reference q,
                rr_requested_at_utc = rq_requested_at_utc q, rr_lease_owner = rq_lease_owner q,
                rr_lease_attempt_id = rq_lease_attempt_id q,
                rr_lease_expires_at_utc = rq_lease_expires_at_utc q,
                rr_original_retry_count = oe_retry_count e, rr_original_failure_reason = reason,
                rr_original_first_failed_at_utc = first, rr_original_last_failed_at_utc = lst\<rparr>)
     | _ \<Rightarrow> Inl AssertionError)"

definition dead_letter_summaries :: "events \<Rightarrow> int \<Rightarrow> dead_letter_summary_t list res" where
  \<comment> \<open>\<open>sorted(..., reverse=True)\<close> keeps the order of equal elements\<close>
  "dead_letter_summaries events limit =
    (let dead = filter (\<lambda>e. oe_status e = Ob_Dead_Letter) (d_values events);
         key = (\<lambda>e. (inst (or_else (oe_last_failed_at_utc e) (oe_occurred_at_utc e)), oe_event_id e))
     in bind_res (checks [(limit \<le> 0, ValueError ''limit must be positive'')] ()) (\<lambda>_.
          map_res dead_letter_summary (take (nat limit) (rev (sort_key key (rev dead))))))"

definition find_recovery_record_by_idempotency ::
    "recovery_records \<Rightarrow> string \<Rightarrow> recovery_record option" where
  "find_recovery_record_by_idempotency records fp =
     List.find (\<lambda>r. rr_idempotency_fingerprint r = fp) (d_values records)"

text \<open>The generator passed to \<open>next\<close> computes the support reference of each event until one
  matches.\<close>

fun find_support_event :: "string \<Rightarrow> outbox_event list \<Rightarrow> outbox_event option res" where
  "find_support_event support_reference [] = Inr None"
| "find_support_event support_reference (e # es) =
     bind_res (outbox_dead_letter_support_reference (oe_event_id e)) (\<lambda>s.
       if s = support_reference then Inr (Some e) else find_support_event support_reference es)"

definition idempotent_recovery_claim ::
    "events \<Rightarrow> recovery_records \<Rightarrow> string \<Rightarrow> string \<Rightarrow> recovery_result option" where
  "idempotent_recovery_claim events records idempotency_fingerprint request_fingerprint =
    (case find_recovery_record_by_idempotency records idempotency_fingerprint of
       None \<Rightarrow> None
     | Some existing \<Rightarrow>
         let same = rr_request_fingerprint existing = request_fingerprint in
         Some \<lparr>rs_decision = (if same then Rec_Replayed else Rec_Conflict),
               rs_event = d_get events (rr_event_id existing), rs_audit_record = Some existing,
               rs_blocker = (if same then None else Some ''idempotency_conflict'')\<rparr>)"

definition recovery_attempt_count :: "recovery_records \<Rightarrow> string \<Rightarrow> int" where
  "recovery_attempt_count records event_id =
     int (length (filter (\<lambda>r. rr_event_id r = event_id) (d_values records)))"

definition rejected_recovery_claim ::
    "recovery_decision \<Rightarrow> outbox_event option \<Rightarrow> string \<Rightarrow> recovery_result" where
  "rejected_recovery_claim decision event blocker =
     \<lparr>rs_decision = decision, rs_event = event, rs_audit_record = None, rs_blocker = Some blocker\<rparr>"

definition blocked_recovery_claim ::
    "outbox_event \<Rightarrow> recovery_records \<Rightarrow> int \<Rightarrow> recovery_result option" where
  "blocked_recovery_claim e records max_recovery_attempts =
    (if oe_status e = Ob_Leased
     then Some (rejected_recovery_claim Rec_Lease_Conflict (Some e) ''recovery_lease_conflict'')
     else if oe_status e \<noteq> Ob_Dead_Letter
     then Some (rejected_recovery_claim Rec_Not_Dead_Lettered (Some e) ''event_not_dead_lettered'')
     else case outbox_recovery_eligibility_blocker (oe_event_type e) (oe_schema_version e) of
       Some b \<Rightarrow> Some (rejected_recovery_claim Rec_Ineligible (Some e) b)
     | None \<Rightarrow>
         if max_recovery_attempts \<le> recovery_attempt_count records (oe_event_id e)
         then Some (rejected_recovery_claim Rec_Limit_Reached (Some e) ''recovery_attempt_limit_reached'')
         else None)"

definition accept_recovery_claim ::
    "outbox_event \<Rightarrow> recovery_request \<Rightarrow> (events \<times> recovery_records, recovery_result) act" where
  "accept_recovery_claim e q =
     act_bind (act_lift (build_outbox_recovery_audit_record e q)) (\<lambda>audit.
     act_bind (act_lift (lease_outbox_event e (rq_lease_owner q) (rq_lease_attempt_id q)
                           (rq_lease_expires_at_utc q))) (\<lambda>leased.
     act_bind (act_modify (\<lambda>(evs, recs). (d_put (oe_event_id e) leased evs, recs))) (\<lambda>_.
     act_bind (act_modify (\<lambda>(evs, recs). (evs, d_put (rr_recovery_id audit) audit recs))) (\<lambda>_.
       act_return \<lparr>rs_decision = Rec_Accepted, rs_event = Some leased,
                   rs_audit_record = Some audit, rs_blocker = None\<rparr>))))"

definition claim_dead_letter_for_recovery ::
    "recovery_request \<Rightarrow> int \<Rightarrow> (events \<times> recovery_records, recovery_result) act" where
  "claim_dead_letter_for_recovery q max_recovery_attempts =
     act_bind (act_guard
       ([(max_recovery_attempts \<le> 0, ValueError ''max_recovery_attempts must be positive'')] @
        require_text (rq_support_reference q) ''support_reference'')) (\<lambda>_ (evs, recs).
     case idempotent_recovery_claim evs recs (sha256_hex (rq_idempotency_key q))
            (payload_fingerprint (rq_request_payload q)) of
       Some r \<Rightarrow> (Inr r, (evs, recs))
     | None \<Rightarrow>
         act_bind (act_lift (find_support_event (rq_support_reference q) (d_values evs))) (\<lambda>found.
           case found of
             None \<Rightarrow> act_return (rejected_recovery_claim Rec_Not_Found None ''dead_letter_not_found'')
           | Some e \<Rightarrow>
               (case blocked_recovery_claim e recs max_recovery_attempts of
                  Some r \<Rightarrow> act_return r
                | None \<Rightarrow> accept_recovery_claim e q)) (evs, recs))"

section \<open>Replays, conflicts and the limit\<close>

lemma find_support_event_mem:
  "find_support_event s es = Inr (Some e) \<Longrightarrow> e \<in> set es"
  by (induction es) (auto simp: bind_res_Inr split: if_splits)

text \<open>A claim either leaves both stores alone, or it accepts: then the key was new, the event
  was below the limit and dead-lettered, and exactly its lease and one audit record are
  written.\<close>

lemma claim_recovery_cases:
  obtains (unchanged) r where "claim_dead_letter_for_recovery q n (evs, recs) = (r, (evs, recs))"
    and "\<And>x. r = Inr x \<Longrightarrow> rs_decision x \<noteq> Rec_Accepted"
  | (accepted) e audit leased where
      "claim_dead_letter_for_recovery q n (evs, recs) =
        (Inr \<lparr>rs_decision = Rec_Accepted, rs_event = Some leased, rs_audit_record = Some audit,
             rs_blocker = None\<rparr>,
         (d_put (oe_event_id e) leased evs, d_put (rr_recovery_id audit) audit recs))"
    and "e \<in> set (d_values evs)" and "oe_status e = Ob_Dead_Letter"
    and "recovery_attempt_count recs (oe_event_id e) < n"
    and "find_recovery_record_by_idempotency recs (sha256_hex (rq_idempotency_key q)) = None"
    and "build_outbox_recovery_audit_record e q = Inr audit"
    and "lease_outbox_event e (rq_lease_owner q) (rq_lease_attempt_id q) (rq_lease_expires_at_utc q) = Inr leased"
    and "\<not> blank (rq_support_reference q)"
proof (cases "passes ([(n \<le> 0, ValueError ''max_recovery_attempts must be positive'')] @
        require_text (rq_support_reference q) ''support_reference'')")
  case False
  have "\<exists>e. claim_dead_letter_for_recovery q n (evs, recs) = (Inl e, (evs, recs))"
    unfolding claim_dead_letter_for_recovery_def by (rule act_guard_fail[OF False])
  then obtain e where e: "claim_dead_letter_for_recovery q n (evs, recs) = (Inl e, (evs, recs))" ..
  show ?thesis by (rule unchanged[OF e]) simp
next
  case P: True
  let ?c = "idempotent_recovery_claim evs recs (sha256_hex (rq_idempotency_key q))
            (payload_fingerprint (rq_request_payload q))"
  have P': "0 < n" "\<not> blank (rq_support_reference q)" using P by simp_all
  note defs = claim_dead_letter_for_recovery_def
  show ?thesis
  proof (cases ?c)
    case (Some r)
    then have "rs_decision r \<noteq> Rec_Accepted"
      by (auto simp: idempotent_recovery_claim_def Let_def split: option.splits if_splits)
    then show ?thesis by (intro unchanged[of "Inr r"]) (simp_all add: defs P' not_le Some)
  next
    case None
    then have new: "find_recovery_record_by_idempotency recs (sha256_hex (rq_idempotency_key q)) = None"
      by (simp add: idempotent_recovery_claim_def Let_def split: option.splits)
    show ?thesis
    proof (cases "find_support_event (rq_support_reference q) (d_values evs)")
      case (Inl err)
      then show ?thesis by (intro unchanged[of "Inl err"]) (simp_all add: defs P' not_le None)
    next
      case F: (Inr found)
      show ?thesis
      proof (cases found)
        case N: None
        then show ?thesis using F None by (intro unchanged) (auto simp add: defs P' not_le rejected_recovery_claim_def)
      next
        case E: (Some e)
        show ?thesis
        proof (cases "blocked_recovery_claim e recs n")
          case (Some r)
          then have "rs_decision r \<noteq> Rec_Accepted"
            by (auto simp: blocked_recovery_claim_def rejected_recovery_claim_def split: if_splits option.splits)
          then show ?thesis using F None E Some by (intro unchanged[of "Inr r"]) (simp_all add: defs P' not_le)
        next
          case B: None
          then have st: "oe_status e = Ob_Dead_Letter" "recovery_attempt_count recs (oe_event_id e) < n"
            by (auto simp: blocked_recovery_claim_def split: if_splits option.splits)
          have eq: "claim_dead_letter_for_recovery q n (evs, recs) = accept_recovery_claim e q (evs, recs)"
            using F None E B by (simp add: defs P' not_le)
          have mem: "e \<in> set (d_values evs)" using find_support_event_mem[of "rq_support_reference q" "d_values evs" e] F E by simp
          show ?thesis
          proof (cases "build_outbox_recovery_audit_record e q")
            case (Inl err)
            then show ?thesis by (intro unchanged[of "Inl err"]) (simp_all add: eq accept_recovery_claim_def)
          next
            case A: (Inr audit)
            show ?thesis
            proof (cases "lease_outbox_event e (rq_lease_owner q) (rq_lease_attempt_id q) (rq_lease_expires_at_utc q)")
              case (Inl err)
              then show ?thesis
                using A by (intro unchanged[of "Inl err"]) (simp_all add: eq accept_recovery_claim_def)
            next
              case (Inr leased)
              then show ?thesis
                using A P mem st new
                by (intro accepted[of leased audit e]) (simp_all add: eq accept_recovery_claim_def)
            qed
          qed
        qed
      qed
    qed
  qed
qed

lemma audit_record_facts:
  "build_outbox_recovery_audit_record e q = Inr audit \<Longrightarrow>
     rr_event_id audit = oe_event_id e \<and>
     rr_idempotency_fingerprint audit = sha256_hex (rq_idempotency_key q) \<and>
     rr_request_fingerprint audit = payload_fingerprint (rq_request_payload q)"
  by (auto simp: build_outbox_recovery_audit_record_def bind_res_Inr Let_def split: option.splits)

lemma find_put_new:
  "List.find P (d_values d) = None \<Longrightarrow> P v \<Longrightarrow> List.find P (d_values (d_put k v d)) = Some v"
  by (induction d) (auto split: if_splits)

lemma replay_after_accept:
  assumes "claim_dead_letter_for_recovery q n (evs, recs) = (Inr r, (evs', recs'))" "rs_decision r = Rec_Accepted"
    and "rq_idempotency_key p = rq_idempotency_key q" "\<not> blank (rq_support_reference p)" "0 < m"
  shows "\<exists>x. claim_dead_letter_for_recovery p m (evs', recs') = (Inr x, (evs', recs')) \<and>
    rs_audit_record x = rs_audit_record r \<and>
    rs_decision x = (if payload_fingerprint (rq_request_payload p) = payload_fingerprint (rq_request_payload q)
                     then Rec_Replayed else Rec_Conflict)"
proof (cases rule: claim_recovery_cases[of q n evs recs])
  case (unchanged r')
  with assms show ?thesis by auto
next
  case (accepted e audit leased)
  with assms(1) have s: "evs' = d_put (oe_event_id e) leased evs" "recs' = d_put (rr_recovery_id audit) audit recs"
    "rs_audit_record r = Some audit" by auto
  note a = audit_record_facts[OF accepted(6)]
  have "find_recovery_record_by_idempotency recs' (sha256_hex (rq_idempotency_key p)) = Some audit"
    using accepted(5) a find_put_new[of "\<lambda>r. rr_idempotency_fingerprint r = sha256_hex (rq_idempotency_key q)" recs
        audit "rr_recovery_id audit"]
    by (simp add: find_recovery_record_by_idempotency_def s assms(3))
  then show ?thesis
    using assms(4,5) a s(3)
    by (auto simp: claim_dead_letter_for_recovery_def idempotent_recovery_claim_def Let_def)
qed

lemma claim_recovery_store_ok:
  assumes "event_store_ok evs" "claim_dead_letter_for_recovery q n (evs, recs) = (r, (evs', recs'))"
  shows "event_store_ok evs'"
proof (cases rule: claim_recovery_cases[of q n evs recs])
  case (unchanged r)
  with assms show ?thesis by simp
next
  case (accepted e audit leased)
  have "valid_event e" using event_store_values[OF assms(1) accepted(2)] by simp
  from accepted(7) have "valid_event leased" "oe_event_id leased = oe_event_id e"
    by (auto simp: lease_outbox_event_def bind_res_Inr dest: mk_outbox_event_valid)
      (auto simp: mk_outbox_event_def bind_res_Inr Let_def)
  with accepted(1) assms event_store_ok_put show ?thesis by force
qed

text \<open>A valid dead letter can always be summarised.\<close>

lemma dead_letter_summary_ok:
  assumes "valid_event e" "oe_status e = Ob_Dead_Letter"
  shows "\<exists>s. dead_letter_summary e = Inr s \<and> dl_recovery_eligible s \<and> dl_retry_count s = oe_retry_count e"
proof -
  have sh: "\<not> blank (oe_event_id e)" "oe_event_type e \<in> set SUPPORTED_OUTBOX_EVENT_TYPES"
    "oe_schema_version e = OUTBOX_EVENT_SCHEMA_VERSION"
    using assms(1) by (simp_all add: valid_event_def event_shape_guards_def)
  obtain a b c where abc: "oe_first_failed_at_utc e = Some a" "oe_last_failed_at_utc e = Some b"
    "oe_failure_reason e = Some c"
    using assms by (cases "oe_failure_reason e") (auto simp: valid_event_def event_status_guards_def Let_def)
  show ?thesis
    unfolding dead_letter_summary_def abc Let_def outbox_dead_letter_support_reference_def
    using assms(2) sh by (simp add: checks_passes outbox_recovery_eligibility_blocker_def)
qed

section \<open>Runs of the outbox\<close>

text \<open>An operation of the outbox: a recovery request, a delivery claim, or the completion of a
  delivery. It answers with the event whose recovery it accepted, if any.\<close>

datatype outbox_operation =
  Recover recovery_request
| Claim int int string string py_datetime py_datetime
| Complete py_datetime string "string \<times> string" completion

fun run_operation ::
    "int \<Rightarrow> outbox_operation \<Rightarrow> events \<times> recovery_records \<Rightarrow> string option \<times> events \<times> recovery_records" where
  "run_operation n (Recover q) st =
    (case claim_dead_letter_for_recovery q n st of
       (Inr r, st') \<Rightarrow>
         (if rs_decision r = Rec_Accepted then map_option oe_event_id (rs_event r) else None, st')
     | (Inl e, st') \<Rightarrow> (None, st'))"
| "run_operation n (Claim limit retries w a t x) (evs, recs) =
     (None, snd (claim_outbox_events_for_delivery limit retries w a t x evs), recs)"
| "run_operation n (Complete now k wa c) (evs, recs) = (None, snd (complete_outbox now k wa c evs), recs)"

fun recoveries :: "int \<Rightarrow> string \<Rightarrow> outbox_operation list \<Rightarrow> events \<times> recovery_records \<Rightarrow> int" where
  \<comment> \<open>how often a run recovers an event\<close>
  "recoveries n i [] st = 0"
| "recoveries n i (p # ps) st =
    (let (r, st') = run_operation n p st in (if r = Some i then 1 else 0) + recoveries n i ps st')"

lemma recoveries_nonneg: "0 \<le> recoveries n i ps st"
  by (induction n i ps st rule: recoveries.induct) (auto simp: Let_def split: prod.split)

text \<open>The text whose hash names a recovery, and the texts a run can hash.\<close>

definition recovery_name :: "string \<Rightarrow> string \<Rightarrow> string" where
  "recovery_name event_id fp = event_id @ '':'' @ fp"

definition event_ids :: "events \<Rightarrow> string set" where
  "event_ids evs = oe_event_id ` set (d_values evs)"

definition request_prints :: "outbox_operation list \<Rightarrow> string set" where
  "request_prints ps = {sha256_hex (rq_idempotency_key q) | q. Recover q \<in> set ps}"

definition distinct_recovery_ids :: "string set \<Rightarrow> string set \<Rightarrow> bool" where
  \<comment> \<open>no two of these recoveries share the first 128 bits of their SHA-256\<close>
  "distinct_recovery_ids ids prints \<longleftrightarrow>
     inj_on (\<lambda>x. take 32 (sha256_hex x)) ((\<lambda>(i, fp). recovery_name i fp) ` (ids \<times> prints))"

definition records_named :: "string set \<Rightarrow> string set \<Rightarrow> recovery_records \<Rightarrow> bool" where
  "records_named ids prints recs \<longleftrightarrow> list_all (\<lambda>(k, r). rr_event_id r \<in> ids \<and> rr_idempotency_fingerprint r \<in> prints \<and>
     k = ''recovery_'' @ take 32 (sha256_hex (recovery_name (rr_event_id r) (rr_idempotency_fingerprint r)))) recs"

lemma recovery_name_inj:
  "length fp = length fp' \<Longrightarrow> recovery_name i fp = recovery_name j fp' \<Longrightarrow> fp = fp'"
  by (simp add: recovery_name_def append_eq_append_conv)

lemma audit_record_id:
  "build_outbox_recovery_audit_record e q = Inr audit \<Longrightarrow>
     rr_recovery_id audit = ''recovery_'' @
       take 32 (sha256_hex (recovery_name (oe_event_id e) (sha256_hex (rq_idempotency_key q))))"
  by (auto simp: build_outbox_recovery_audit_record_def recovery_name_def bind_res_Inr Let_def split: option.splits)

lemma event_ids_put: "event_ids (d_put k e evs) \<subseteq> insert (oe_event_id e) (event_ids evs)"
  using d_values_put[of _ k e evs] unfolding event_ids_def by blast

lemma lease_each_ids:
  "oe_event_id ` set es \<subseteq> I \<Longrightarrow> event_ids s \<subseteq> I \<Longrightarrow> event_ids (snd (lease_each w a t es s)) \<subseteq> I"
proof (induction es arbitrary: s)
  case (Cons e es)
  show ?case
  proof (cases "lease_outbox_event e w a t")
    case (Inr l)
    have "event_ids (d_put (oe_event_id e) l s) \<subseteq> I"
      using event_ids_put[of "oe_event_id e" l s] lease_event_id[OF Inr] Cons.prems by auto
    with Cons.IH[of "d_put (oe_event_id e) l s"] Cons.prems(1) Inr show ?thesis
      by (cases "lease_each w a t es (d_put (oe_event_id e) l s)") (auto simp: act_bind_def split: sum.splits)
  qed (use Cons.prems in simp)
qed simp

lemma claim_ids: "event_ids (snd (claim_outbox_events_for_delivery limit n w a t x s)) \<subseteq> event_ids s"
proof (cases "outbox_events_for_delivery t s limit n (Some t)")
  case (Inr es)
  then have "set es \<subseteq> set (d_values s)"
    by (auto simp: outbox_events_for_delivery_def Let_def dest!: in_set_takeD)
  then have "oe_event_id ` set es \<subseteq> event_ids s" unfolding event_ids_def by (rule image_mono)
  from lease_each_ids[OF this] Inr show ?thesis
    by (simp add: claim_outbox_events_for_delivery_def act_guard_state)
qed (simp add: claim_outbox_events_for_delivery_def act_guard_state)

lemma complete_ids: "event_ids (snd (complete_outbox now k wa c s)) \<subseteq> event_ids s"
  using complete_outbox_effect[of s k wa now c] unfolding owned_effect_def
proof (elim disjE exE conjE)
  fix e e'
  assume e: "d_get s k = Some e" "oe_event_id e' = oe_event_id e"
    and s': "snd (complete_outbox now k wa c s) = d_put k e' s"
  have "oe_event_id e \<in> event_ids s" using d_get_value[OF e(1)] by (simp add: event_ids_def)
  with event_ids_put[of k e' s] e(2) show ?thesis unfolding s' by auto
qed simp

lemma new_recovery_id:
  assumes "distinct_recovery_ids ids prints" "records_named ids prints recs" "e \<in> ids"
    and "sha256_hex key \<in> prints" "find_recovery_record_by_idempotency recs (sha256_hex key) = None"
    and "\<And>fp. fp \<in> prints \<Longrightarrow> length fp = 64"
  shows "''recovery_'' @ take 32 (sha256_hex (recovery_name e (sha256_hex key))) \<notin> set (d_keys recs)"
proof
  assume "''recovery_'' @ take 32 (sha256_hex (recovery_name e (sha256_hex key))) \<in> set (d_keys recs)"
  then obtain r where r: "(''recovery_'' @ take 32 (sha256_hex (recovery_name e (sha256_hex key))), r) \<in> set recs"
    by auto
  then have p: "rr_event_id r \<in> ids" "rr_idempotency_fingerprint r \<in> prints"
    "take 32 (sha256_hex (recovery_name e (sha256_hex key))) =
       take 32 (sha256_hex (recovery_name (rr_event_id r) (rr_idempotency_fingerprint r)))"
    using assms(2) unfolding records_named_def list_all_iff by auto
  have "recovery_name e (sha256_hex key) = recovery_name (rr_event_id r) (rr_idempotency_fingerprint r)"
    using assms(1) p(3) unfolding distinct_recovery_ids_def
    by (rule inj_onD) (use assms(3,4) p(1,2) in auto)
  then have "sha256_hex key = rr_idempotency_fingerprint r"
    using recovery_name_inj[of "sha256_hex key" "rr_idempotency_fingerprint r"] assms(6)[OF p(2)] by simp
  moreover have "r \<in> set (d_values recs)" using r by force
  ultimately show False
    using assms(5) unfolding find_recovery_record_by_idempotency_def find_None_iff by auto
qed

lemma put_new: "k \<notin> set (d_keys d) \<Longrightarrow> d_put k v d = d @ [(k, v)]"
  by (induction d) auto

text \<open>One operation: it answers with an event only when it files one more audit record of it.\<close>

lemma run_operation_counts:
  assumes "distinct_recovery_ids ids prints" "records_named ids prints recs" "event_ids evs \<subseteq> ids"
    and "\<And>q. p = Recover q \<Longrightarrow> sha256_hex (rq_idempotency_key q) \<in> prints"
    and "\<And>fp. fp \<in> prints \<Longrightarrow> length fp = 64"
    and "run_operation n p (evs, recs) = (r, evs', recs')"
  shows "records_named ids prints recs' \<and> event_ids evs' \<subseteq> ids \<and>
    recovery_attempt_count recs' i = recovery_attempt_count recs i + (if r = Some i then 1 else 0) \<and>
    (r = Some i \<longrightarrow> recovery_attempt_count recs i < n)"
proof (cases p)
  case (Claim limit retries w a t x)
  then show ?thesis using assms(2,3,6) claim_ids[of limit retries w a t x evs] by auto
next
  case (Complete now k wa c)
  then show ?thesis using assms(2,3,6) complete_ids[of now k wa c evs] by auto
next
  case (Recover q)
  show ?thesis
  proof (cases rule: claim_recovery_cases[of q n evs recs])
    case (unchanged x)
    then show ?thesis using assms(2,3,6) Recover by (auto split: sum.splits)
  next
    case (accepted e audit leased)
    note a = audit_record_facts[OF accepted(6)] and id = audit_record_id[OF accepted(6)]
    note l = lease_event_id[OF accepted(7)]
    have e: "oe_event_id e \<in> ids" using accepted(2) assms(3) by (auto simp: event_ids_def)
    note fp = assms(4)[OF Recover]
    have new: "rr_recovery_id audit \<notin> set (d_keys recs)"
      unfolding id by (rule new_recovery_id[OF assms(1,2) e fp accepted(5) assms(5)])
    have r: "r = Some (oe_event_id e)" "evs' = d_put (oe_event_id e) leased evs"
      "recs' = recs @ [(rr_recovery_id audit, audit)]"
      using assms(6) Recover accepted(1) l put_new[OF new] by simp_all
    have "records_named ids prints recs'"
      using assms(2) a e fp id by (simp add: records_named_def r(3))
    moreover have "event_ids evs' \<subseteq> ids"
      using event_ids_put[of "oe_event_id e" leased evs] assms(3) e l unfolding r(2) by auto
    ultimately show ?thesis using a accepted(4) by (cases "oe_event_id e = i") (simp_all add: r recovery_attempt_count_def)
  qed
qed

lemma recoveries_counted:
  assumes "distinct_recovery_ids ids prints" "records_named ids prints recs" "event_ids evs \<subseteq> ids"
    and "request_prints ps \<subseteq> prints" "\<And>fp. fp \<in> prints \<Longrightarrow> length fp = 64"
    and "recovery_attempt_count recs i \<le> n"
  shows "recoveries n i ps (evs, recs) + recovery_attempt_count recs i \<le> n"
  using assms(2,3,4,6)
proof (induction ps arbitrary: evs recs)
  case (Cons p ps)
  obtain r evs' recs' where run: "run_operation n p (evs, recs) = (r, evs', recs')" by (metis surj_pair)
  have "sha256_hex (rq_idempotency_key q) \<in> prints" if "p = Recover q" for q
    using Cons.prems(3) that by (auto simp: request_prints_def)
  from run_operation_counts[OF assms(1) Cons.prems(1,2) this assms(5) run, of i]
  have step: "records_named ids prints recs'" "event_ids evs' \<subseteq> ids"
    "recovery_attempt_count recs' i = recovery_attempt_count recs i + (if r = Some i then 1 else 0)"
    "r = Some i \<longrightarrow> recovery_attempt_count recs i < n" by blast+
  have "request_prints ps \<subseteq> prints" using Cons.prems(3) by (auto simp: request_prints_def)
  from Cons.IH[OF step(1,2) this] step(3,4) Cons.prems(4)
  show ?case by (auto simp: run split: if_splits)
qed simp

end
