(* ===== verification/Outbox_Properties.thy ===== *)
theory Outbox_Properties
imports Outbox_Recovery
begin

text \<open>
  The properties of the outbox: the events it is given, the bounded claim, exclusive leases,
  retry back-off, dead letters and their bounded, idempotent recovery.
\<close>

section \<open>Concrete events\<close>

definition sample_event :: outbox_event where
  "sample_event =
     \<lparr>oe_event_id = ''evt-1'', oe_event_type = ''idea.candidate.persisted.v1'',
      oe_aggregate_type = OUTBOX_EVENT_AGGREGATE_TYPE, oe_aggregate_id = ''idea-1'',
      oe_schema_version = OUTBOX_EVENT_SCHEMA_VERSION, oe_payload = [],
      oe_occurred_at_utc = utc 0, oe_status = Ob_Pending, oe_idempotency_fingerprint = None,
      oe_correlation_id = ''corr-1'', oe_trace_id = ''trace-1'', oe_causation_id = None,
      oe_lineage_origin = Lin_Request, oe_published_at_utc = None, oe_failure_reason = None,
      oe_retry_count = 0, oe_first_failed_at_utc = None, oe_last_failed_at_utc = None,
      oe_next_attempt_at_utc = None, oe_lease_owner = None, oe_lease_attempt_id = None,
      oe_lease_expires_at_utc = None\<rparr>"

definition sample_leased :: outbox_event where
  "sample_leased = sample_event\<lparr>oe_status := Ob_Leased, oe_lease_owner := Some ''worker'',
     oe_lease_attempt_id := Some ''attempt-1'', oe_lease_expires_at_utc := Some (utc 1000)\<rparr>"

definition sample_dead :: outbox_event where
  "sample_dead = sample_event\<lparr>oe_status := Ob_Dead_Letter, oe_retry_count := 3,
     oe_failure_reason := Some ''timeout'', oe_first_failed_at_utc := Some (utc 10),
     oe_last_failed_at_utc := Some (utc 20)\<rparr>"

lemma sample_lineage: "mk_event_lineage ''corr-1'' ''trace-1'' None Lin_Request =
    Inr \<lparr>lc_correlation_id = ''corr-1'', lc_trace_id = ''trace-1'', lc_causation_id = None,
         lc_origin = Lin_Request\<rparr>"
  by code_simp

lemmas sample_event_simps = sample_event_def sample_leased_def sample_dead_def blank_iff py_space_def
  SUPPORTED_OUTBOX_EVENT_TYPES_def event_shape_guards_def event_status_guards_def Let_def leaked_keys_def

lemma sample_events_valid: "valid_event sample_event" "valid_event sample_leased" "valid_event sample_dead"
  by (simp_all add: valid_event_def lineage_ok_def sample_lineage sample_event_simps
      OUTBOX_EVENT_SCHEMA_VERSION_def OUTBOX_EVENT_AGGREGATE_TYPE_def)

lemma sample_stores_ok:
  "event_store_ok [(''evt-1'', sample_event)]" "event_store_ok [(''evt-1'', sample_leased)]"
  "event_store_ok [(''evt-1'', sample_dead)]"
  using sample_events_valid
  by (auto simp: event_store_ok_def sample_event_def sample_leased_def sample_dead_def split: if_splits)


section \<open>Delivery\<close>

text \<open>Every event built for a supported type, a named aggregate, a UTC time and a
  payload without sensitive keys is accepted by its validator: it is pending, was never
  retried, and carries the payload unchanged and a product-safe lineage, generated from the
  event id when the caller gave none.\<close>

theorem outbox_event_built:
  assumes "is_utc t" "\<not> blank agg" "ty \<in> set SUPPORTED_OUTBOX_EVENT_TYPES"
    and "set FORBIDDEN_OUTBOX_PAYLOAD_KEYS \<inter> set (d_keys payload) = {}"
    and "\<forall>k. key = Some k \<longrightarrow> \<not> blank k"
    and "\<forall>l. lin = Some l \<longrightarrow> (\<exists>c u v og. mk_event_lineage c u v og = Inr l)"
  shows "\<exists>e. build_candidate_outbox_event ty agg t payload key lin = Inr e \<and>
    valid_event e \<and> oe_status e = Ob_Pending \<and> oe_retry_count e = 0 \<and> oe_payload e = payload \<and>
    oe_aggregate_id e = agg \<and> oe_event_type e = ty"
  using build_candidate_outbox_event_total[OF assms] build_candidate_outbox_event_ok by blast

theorem outbox_event_built_witness:
  "\<exists>e. build_candidate_outbox_event ''idea.feedback.recorded.v2'' ''idea-1'' (utc 5)
     [(''outcome'', JStr ''useful'')] (Some ''key-1'') None = Inr e \<and> oe_status e = Ob_Pending"
  using outbox_event_built[of "utc 5" "''idea-1''" "''idea.feedback.recorded.v2''"
      "[(''outcome'', JStr ''useful'')]" "Some ''key-1''" None]
  by (fastforce simp: blank_iff py_space_def SUPPORTED_OUTBOX_EVENT_TYPES_def FORBIDDEN_OUTBOX_PAYLOAD_KEYS_def)

text \<open>A claim leases exactly the ready events, oldest first and at most \<open>limit\<close> of
  them, to one attempt; each leased event is the ready one except for its lease, every other
  event is untouched, and until the lease expires none of them is claimed again.\<close>

theorem claim_leases_ready_events:
  assumes "event_store_ok s" "0 < limit" "0 < n" "\<not> blank w" "\<not> blank a" "is_utc t" "is_utc x"
    and "inst t < inst x"
  shows "\<exists>ls s'. claim_outbox_events_for_delivery limit n w a t x s = (Inr ls, s') \<and>
    event_store_ok s' \<and> length ls \<le> nat limit \<and>
    list_all2 (\<lambda>e l. same_event e l \<and> leased_to l w a x) (ready_events s limit n t) ls \<and>
    (\<forall>k. k \<notin> oe_event_id ` set ls \<longrightarrow> d_get s' k = d_get s k) \<and>
    (\<forall>l \<in> set ls. d_get s' (oe_event_id l) = Some l \<and>
       (\<forall>u. inst u < inst x \<longrightarrow> \<not> outbox_event_delivery_ready l n u))"
proof -
  obtain ls s' where r: "claim_outbox_events_for_delivery limit n w a t x s = (Inr ls, s')"
    "event_store_ok s'" "length ls \<le> nat limit"
    "list_all2 (\<lambda>e l. same_event e l \<and> leased_to l w a x \<and> oe_retry_count l = oe_retry_count e)
      (ready_events s limit n t) ls"
    "\<forall>k. k \<notin> oe_event_id ` set ls \<longrightarrow> d_get s' k = d_get s k"
    "\<forall>l \<in> set ls. d_get s' (oe_event_id l) = Some l"
    using claim_ok[OF assms] by blast
  have "\<not> outbox_event_delivery_ready l n u" if "l \<in> set ls" "inst u < inst x" for l u
    using r(4) that leased_not_ready by (auto simp: list_all2_conv_all_nth in_set_conv_nth)
  moreover have "list_all2 (\<lambda>e l. same_event e l \<and> leased_to l w a x) (ready_events s limit n t) ls"
    using r(4) by (rule list_all2_mono) simp
  ultimately show ?thesis using r by blast
qed

theorem claim_leases_ready_events_witness:
  "\<exists>l s'. claim_outbox_events_for_delivery 5 3 ''worker'' ''attempt-1'' (utc 10) (utc 20)
     [(''evt-1'', sample_event)] = (Inr [l], s') \<and> leased_to l ''worker'' ''attempt-1'' (utc 20)"
proof -
  have "ready_events [(''evt-1'', sample_event)] 5 3 (utc 10) = [sample_event]"
    by (simp add: ready_events_def outbox_event_delivery_ready_def sample_event_def)
  then show ?thesis
    using claim_leases_ready_events[OF sample_stores_ok(1), of 5 3 "''worker''" "''attempt-1''" "utc 10" "utc 20"]
    by (fastforce simp: blank_iff py_space_def list_all2_Cons1)
qed

text \<open>C32: only the attempt that holds the lease of an event can complete it, it does so
  once, and after that no completion by any attempt, in any order, changes the event store
  through this event.\<close>

theorem completion_is_exclusive:
  assumes "snd (complete_outbox now k wa c s) \<noteq> s"
  shows "(\<exists>e. d_get s k = Some e \<and> owned_by_attempt e wa) \<and>
    fold (\<lambda>(v, d) t. snd (complete_outbox now k v d t)) attempts (snd (complete_outbox now k wa c s)) =
      snd (complete_outbox now k wa c s)"
  using outbox_lease.effect_needs_lease[OF assms] outbox_lease.completed_for_good[OF assms] by blast

lemma sample_leased_owned: "event_owned_by_delivery_attempt sample_leased ''worker'' ''attempt-1''"
  by (simp add: event_owned_by_delivery_attempt_def sample_leased_def)

lemma sample_key: "d_get [(''evt-1'', sample_leased)] ''evt-1'' = Some sample_leased"
  by simp

theorem completion_is_exclusive_witness:
  "snd (complete_outbox (utc 1) ''evt-1'' (''other'', ''attempt-2'') (Publish (utc 8))
     (snd (complete_outbox (utc 1) ''evt-1'' (''worker'', ''attempt-1'') (Publish (utc 7))
       [(''evt-1'', sample_leased)]))) =
   snd (complete_outbox (utc 1) ''evt-1'' (''worker'', ''attempt-1'') (Publish (utc 7))
       [(''evt-1'', sample_leased)])"
proof -
  obtain e' where e': "mark_owned_outbox_event_published ''evt-1'' ''worker'' ''attempt-1'' (utc 7)
      [(''evt-1'', sample_leased)] =
      (Inr \<lparr>dr_decision = Del_Accepted, dr_event = Some e'\<rparr>, d_put ''evt-1'' e' [(''evt-1'', sample_leased)])"
    "oe_status e' = Ob_Published"
    using publish_by_owner[OF sample_stores_ok(2) sample_key sample_leased_owned, of "utc 7"]
    by (auto simp: blank_iff py_space_def)
  have "e' \<noteq> sample_leased" using e'(2) by (auto simp: sample_leased_def)
  with e' have "snd (complete_outbox (utc 1) ''evt-1'' (''worker'', ''attempt-1'') (Publish (utc 7))
      [(''evt-1'', sample_leased)]) \<noteq> [(''evt-1'', sample_leased)]" by simp
  from completion_is_exclusive[OF this, of "[((''other'', ''attempt-2''), Publish (utc 8))]"]
  show ?thesis by simp
qed

text \<open>C33: when the holder of the lease reports a failure, the retry count grows by one; the
  event is dead-lettered exactly when the count reaches the maximum, and otherwise becomes
  due again between 60 and 900 seconds later.\<close>

theorem failure_backs_off:
  assumes "event_store_ok s" "d_get s k = Some e" "event_owned_by_delivery_attempt e w a"
    and "\<not> blank w" "\<not> blank a" "is_utc t" "0 < n" "passes (validate_outbox_failure_reason r)"
  shows "\<exists>e'. mark_owned_outbox_event_failed now k w a r (Some t) n None s =
      (Inr \<lparr>dr_decision = (if n \<le> oe_retry_count e + 1 then Del_Dead_Lettered else Del_Accepted),
            dr_event = Some e'\<rparr>, d_put k e' s) \<and>
    valid_event e' \<and> same_event e e' \<and> oe_retry_count e' = oe_retry_count e + 1 \<and>
    (oe_status e' = Ob_Dead_Letter \<longleftrightarrow> n \<le> oe_retry_count e + 1) \<and>
    (oe_next_attempt_at_utc e' = None \<longleftrightarrow> n \<le> oe_retry_count e + 1) \<and>
    (\<forall>u. oe_next_attempt_at_utc e' = Some u \<longrightarrow>
       us_seconds 60 \<le> inst u - inst t \<and> inst u - inst t \<le> us_seconds 900)"
proof -
  obtain e' where e': "mark_owned_outbox_event_failed now k w a r (Some t) n None s =
      (Inr \<lparr>dr_decision = (if n \<le> oe_retry_count e + 1 then Del_Dead_Lettered else Del_Accepted),
            dr_event = Some e'\<rparr>, d_put k e' s)"
    "valid_event e'" "same_event e e'" "oe_retry_count e' = oe_retry_count e + 1"
    "oe_status e' = (if n \<le> oe_retry_count e + 1 then Ob_Dead_Letter else Ob_Failed)"
    "\<forall>u. oe_next_attempt_at_utc e' = Some u \<longrightarrow>
       us_seconds 60 \<le> inst u - inst t \<and> inst u - inst t \<le> us_seconds 900"
    using fail_by_owner[OF assms, of now] by blast
  moreover have "oe_next_attempt_at_utc e' = None \<longleftrightarrow> n \<le> oe_retry_count e + 1"
    using e'(2,5) by (auto simp: valid_event_def event_status_guards_def Let_def split: if_splits)
  ultimately show ?thesis by (intro exI[of _ e']) simp
qed

theorem failure_backs_off_witness:
  "\<exists>e'. mark_owned_outbox_event_failed (utc 9) ''evt-1'' ''worker'' ''attempt-1'' ''timeout'' (Some (utc 7)) 3
      None [(''evt-1'', sample_leased)] =
    (Inr \<lparr>dr_decision = Del_Accepted, dr_event = Some e'\<rparr>, [(''evt-1'', e')]) \<and>
    oe_retry_count e' = 1 \<and> oe_status e' \<noteq> Ob_Dead_Letter"
proof -
  have "sensitive_reason_keys ''timeout'' = []" by code_simp
  then have "passes (validate_outbox_failure_reason ''timeout'')"
    by (simp add: validate_outbox_failure_reason_def blank_iff py_space_def)
  moreover have "oe_retry_count sample_leased = 0" by (simp add: sample_leased_def sample_event_def)
  ultimately show ?thesis
    using failure_backs_off[OF sample_stores_ok(2) sample_key sample_leased_owned, of "utc 7" 3 "''timeout''" "utc 9"]
    by (auto simp: blank_iff py_space_def)
qed

section \<open>Recovery\<close>

text \<open>C37: in a run of recovery requests, delivery claims and completions, in whatever order and
  with whatever contents, from a store without earlier recoveries, the recoveries of one event
  that are accepted are at most the limit, also when the event is dead-lettered again in between,
  as long as no two of the recovery ids, 128 bits of a SHA-256, coincide.\<close>

theorem recovery_is_bounded:
  assumes "distinct_recovery_ids (event_ids evs) (request_prints ps)" "0 \<le> n"
  shows "recoveries n i ps (evs, []) \<le> n"
proof -
  have "length fp = 64" if "fp \<in> request_prints ps" for fp using that by (auto simp: request_prints_def)
  from recoveries_counted[OF assms(1) _ order_refl order_refl this, of "[]" i n] assms(2)
  show ?thesis by (simp add: records_named_def recovery_attempt_count_def)
qed

definition sample_recovery :: recovery_request where
  "sample_recovery =
     \<lparr>rq_support_reference = OUTBOX_DEAD_LETTER_SUPPORT_PREFIX @ take 24 (sha256_hex ''evt-1''),
      rq_idempotency_key = ''recover-1'', rq_request_payload = [(''reason'', JStr ''retry'')],
      rq_actor_subject = ''operator-1'', rq_reason = ''retry'', rq_change_reference = ''CHG-1'',
      rq_requested_at_utc = utc 100, rq_lease_owner = ''recovery'', rq_lease_attempt_id = ''r-1'',
      rq_lease_expires_at_utc = utc 200\<rparr>"

lemma sample_dead_id: "oe_event_id sample_dead = ''evt-1''"
  by (simp add: sample_dead_def sample_event_def)

lemma sample_recovery_accepted:
  "\<exists>r st. claim_dead_letter_for_recovery sample_recovery 1 ([(''evt-1'', sample_dead)], []) = (Inr r, st) \<and>
     rs_decision r = Rec_Accepted \<and> map_option oe_event_id (rs_event r) = Some ''evt-1''"
proof -
  have p: "\<not> blank (rq_support_reference sample_recovery)" "\<not> blank ''evt-1''"
    by (simp_all add: sample_recovery_def OUTBOX_DEAD_LETTER_SUPPORT_PREFIX_def blank_iff py_space_def)
  have s: "outbox_dead_letter_support_reference ''evt-1'' = Inr (rq_support_reference sample_recovery)"
    using p by (simp add: outbox_dead_letter_support_reference_def checks_passes sample_recovery_def)
  have f: "find_support_event (rq_support_reference sample_recovery) [sample_dead] = Inr (Some sample_dead)"
    using s by (simp add: sample_dead_def sample_event_def)
  have b: "blocked_recovery_claim sample_dead [] 1 = None"
    by (simp add: blocked_recovery_claim_def sample_dead_def sample_event_def recovery_attempt_count_def
        outbox_recovery_eligibility_blocker_def SUPPORTED_OUTBOX_EVENT_TYPES_def)
  obtain audit where a: "build_outbox_recovery_audit_record sample_dead sample_recovery = Inr audit"
    using s by (auto simp: build_outbox_recovery_audit_record_def sample_dead_def sample_event_def
        sample_recovery_def checks_passes blank_iff py_space_def dt_le_def Let_def)
  obtain l where "lease_outbox_event sample_dead ''recovery'' ''r-1'' (utc 200) = Inr l"
    using lease_outbox_event_ok[OF sample_events_valid(3), of "''recovery''" "''r-1''" "utc 200"]
    by (auto simp: sample_dead_def blank_iff py_space_def)
  then have l: "lease_outbox_event sample_dead (rq_lease_owner sample_recovery)
      (rq_lease_attempt_id sample_recovery) (rq_lease_expires_at_utc sample_recovery) = Inr l"
    by (simp add: sample_recovery_def)
  show ?thesis
    using p(1) f b a l lease_event_id[OF l]
    by (simp add: claim_dead_letter_for_recovery_def idempotent_recovery_claim_def
        find_recovery_record_by_idempotency_def accept_recovery_claim_def sample_dead_id)
qed

text \<open>The event is recovered, fails again into a dead letter, and the request comes again.\<close>

definition sample_outbox_run :: "outbox_operation list" where
  "sample_outbox_run =
    [Recover sample_recovery,
     Complete (utc 150) ''evt-1'' (''recovery'', ''r-1'') (Fail ''timeout'' (Some (utc 150)) 3 None),
     Recover sample_recovery]"

theorem recovery_is_bounded_witness:
  "recoveries 1 ''evt-1'' sample_outbox_run ([(''evt-1'', sample_dead)], []) = 1"
proof -
  have "event_ids [(''evt-1'', sample_dead)] = {''evt-1''}"
    by (simp add: event_ids_def sample_dead_def sample_event_def)
  moreover have "request_prints sample_outbox_run = {sha256_hex (rq_idempotency_key sample_recovery)}"
    by (auto simp: request_prints_def sample_outbox_run_def)
  ultimately have "distinct_recovery_ids (event_ids [(''evt-1'', sample_dead)]) (request_prints sample_outbox_run)"
    by (simp add: distinct_recovery_ids_def)
  from recovery_is_bounded[OF this, of 1 "''evt-1''"]
  have "recoveries 1 ''evt-1'' sample_outbox_run ([(''evt-1'', sample_dead)], []) \<le> 1" by simp
  moreover have "1 \<le> recoveries 1 ''evt-1'' sample_outbox_run ([(''evt-1'', sample_dead)], [])"
    using sample_recovery_accepted recoveries_nonneg
    by (auto simp: sample_outbox_run_def Let_def split: prod.split)
  ultimately show ?thesis by simp
qed

text \<open>A recovery that was accepted and is asked for again with the same key changes
  nothing and answers with the recorded audit entry: as a replay when the request is the same,
  as a conflict when it is not.\<close>

theorem recovery_is_idempotent:
  assumes "claim_dead_letter_for_recovery q n (evs, recs) = (Inr r, (evs', recs'))"
    and "rs_decision r = Rec_Accepted"
    and "rq_idempotency_key p = rq_idempotency_key q" "\<not> blank (rq_support_reference p)" "0 < m"
  shows "\<exists>x. claim_dead_letter_for_recovery p m (evs', recs') = (Inr x, (evs', recs')) \<and>
    rs_audit_record x = rs_audit_record r \<and>
    rs_decision x = (if payload_fingerprint (rq_request_payload p) = payload_fingerprint (rq_request_payload q)
                     then Rec_Replayed else Rec_Conflict)"
  using assms by (rule replay_after_accept)

theorem recovery_is_idempotent_witness:
  "\<exists>x st. claim_dead_letter_for_recovery sample_recovery 1 st = (Inr x, st) \<and> rs_decision x = Rec_Replayed"
proof -
  obtain r st where r: "claim_dead_letter_for_recovery sample_recovery 1 ([(''evt-1'', sample_dead)], []) = (Inr r, st)"
    "rs_decision r = Rec_Accepted" using sample_recovery_accepted by blast
  have nb: "\<not> blank (rq_support_reference sample_recovery)"
    by (simp add: sample_recovery_def OUTBOX_DEAD_LETTER_SUPPORT_PREFIX_def blank_iff py_space_def)
  show ?thesis
    using recovery_is_idempotent[OF _ r(2) refl nb, of 1 "[(''evt-1'', sample_dead)]" "[]" "fst st" "snd st" 1] r(1)
    by fastforce
qed

end
