(* ===== verification/Review_Authority.thy ===== *)
theory Review_Authority
imports Identity Control
begin

text \<open>
  Presentation receipts (\<open>presentation_receipts.py\<close>) and review authority
  (\<open>review_authority.py\<close>): the exact identity of the evidence a decision refers to, the
  grant an approval produces, and when a grant is still active. The lemmas characterise an
  active grant: it is for exactly the current evidence of the candidate, which is ready and
  from an authoritative source cut, and it has not expired.
\<close>

section \<open>Presentation receipts\<close>

definition PRESENTATION_RECEIPT_SCHEMA_VERSION :: string where
  "PRESENTATION_RECEIPT_SCHEMA_VERSION = ''lotus-idea.candidate-presentation-receipt.v2''"

definition LEGACY_PRESENTATION_RECEIPT_SCHEMA_VERSION :: string where
  "LEGACY_PRESENTATION_RECEIPT_SCHEMA_VERSION = ''lotus-idea.candidate-presentation-receipt.v1''"

definition PRESENTATION_SURFACE :: string where
  "PRESENTATION_SURFACE = ''advisor_review_queue''"

definition PRESENTATION_PRODUCER :: string where
  "PRESENTATION_PRODUCER = ''lotus-workbench''"

definition MAX_PRESENTED_CANDIDATE_COUNT :: int where
  "MAX_PRESENTED_CANDIDATE_COUNT = 100"

definition governed_reference :: "string \<Rightarrow> bool" where
  \<comment> \<open>\<open>^[A-Za-z0-9][A-Za-z0-9._:-]{2,255}$\<close>\<close>
  "governed_reference s \<longleftrightarrow>
     3 \<le> length s \<and> length s \<le> 256 \<and> is_alnum (hd s) \<and>
     list_all (\<lambda>c. is_alnum c \<or> c \<in> set ''._:-'') (tl s)"

datatype presentation_decision = Pres_Accepted | Pres_Replayed | Pres_Conflict

record presentation_receipt =
  pr_receipt_id :: string
  pr_candidate_id :: string
  pr_tenant_id :: string
  pr_presented_at_utc :: py_datetime
  pr_rank_at_presentation :: int
  pr_visible_candidate_count :: int
  pr_queue_snapshot_digest :: string
  pr_queue_policy_version :: string
  pr_ranking_policy_version :: string
  pr_candidate_material_version :: int
  pr_candidate_evidence_version :: int
  pr_source_revision_vector_digest :: "string option"
  pr_source_cut_posture :: source_cut_posture_t
  pr_accepted_at_utc :: py_datetime
  pr_acceptance_time_source :: acceptance_time_source
  pr_schema_version :: string
  pr_surface :: string
  pr_producer :: string

definition require_reference :: "string \<Rightarrow> string \<Rightarrow> guards" where
  "require_reference v field_name =
     [(\<not> governed_reference v, ValueError (field_name @ '' must be a governed reference''))]"

definition presentation_receipt_guards :: "presentation_receipt \<Rightarrow> guards" where
  "presentation_receipt_guards r =
     require_reference (pr_receipt_id r) ''receipt_id'' @
     require_reference (pr_candidate_id r) ''candidate_id'' @
     require_reference (pr_tenant_id r) ''tenant_id'' @
     require_reference (pr_queue_policy_version r) ''queue_policy_version'' @
     require_reference (pr_ranking_policy_version r) ''ranking_policy_version'' @
     [(pr_schema_version r \<noteq> PRESENTATION_RECEIPT_SCHEMA_VERSION \<and>
       pr_schema_version r \<noteq> LEGACY_PRESENTATION_RECEIPT_SCHEMA_VERSION,
       ValueError ''unsupported presentation receipt schema_version''),
      (pr_surface r \<noteq> PRESENTATION_SURFACE, ValueError ''unsupported presentation receipt surface''),
      (pr_producer r \<noteq> PRESENTATION_PRODUCER, ValueError ''unsupported presentation receipt producer'')] @
     require_aware_utc (pr_presented_at_utc r) ''presented_at_utc'' @
     require_aware_utc (pr_accepted_at_utc r) ''accepted_at_utc'' @
     [(pr_visible_candidate_count r < 1 \<or> MAX_PRESENTED_CANDIDATE_COUNT < pr_visible_candidate_count r,
       ValueError ''visible_candidate_count must be between 1 and 100''),
      (pr_rank_at_presentation r \<le> 0, ValueError ''rank_at_presentation must be a positive integer''),
      (\<not> is_sha256_digest (pr_queue_snapshot_digest r),
       ValueError ''queue_snapshot_digest must be a sha256 digest''),
      (pr_schema_version r = PRESENTATION_RECEIPT_SCHEMA_VERSION \<and>
       \<not> some_satisfies is_sha256_digest (pr_source_revision_vector_digest r),
       ValueError ''source_revision_vector_digest must be a sha256 digest''),
      (pr_schema_version r \<noteq> PRESENTATION_RECEIPT_SCHEMA_VERSION \<and>
       pr_source_revision_vector_digest r \<noteq> None,
       ValueError ''legacy presentation receipts cannot claim a revision vector''),
      (pr_schema_version r = LEGACY_PRESENTATION_RECEIPT_SCHEMA_VERSION \<and>
       pr_source_cut_posture r \<noteq> Cut_Unknown,
       ValueError ''legacy presentation receipts must retain unknown source cut posture''),
      (pr_candidate_material_version r \<le> 0,
       ValueError ''candidate_material_version must be a positive integer''),
      (pr_candidate_evidence_version r \<le> 0,
       ValueError ''candidate_evidence_version must be a positive integer'')]"

definition has_same_producer_claim :: "presentation_receipt \<Rightarrow> presentation_receipt \<Rightarrow> bool" where
  "has_same_producer_claim a b \<longleftrightarrow>
     pr_receipt_id a = pr_receipt_id b \<and> pr_candidate_id a = pr_candidate_id b \<and>
     pr_tenant_id a = pr_tenant_id b \<and> dt_eq (pr_presented_at_utc a) (pr_presented_at_utc b) \<and>
     pr_rank_at_presentation a = pr_rank_at_presentation b \<and>
     pr_visible_candidate_count a = pr_visible_candidate_count b \<and>
     pr_queue_snapshot_digest a = pr_queue_snapshot_digest b \<and>
     pr_queue_policy_version a = pr_queue_policy_version b \<and>
     pr_ranking_policy_version a = pr_ranking_policy_version b \<and>
     pr_candidate_material_version a = pr_candidate_material_version b \<and>
     pr_candidate_evidence_version a = pr_candidate_evidence_version b \<and>
     pr_source_revision_vector_digest a = pr_source_revision_vector_digest b \<and>
     pr_source_cut_posture a = pr_source_cut_posture b \<and>
     pr_schema_version a = pr_schema_version b \<and> pr_surface a = pr_surface b \<and>
     pr_producer a = pr_producer b"

definition presentation_receipt_identity :: "presentation_receipt \<Rightarrow> string \<times> string" where
  "presentation_receipt_identity r = (pr_tenant_id r, pr_receipt_id r)"

record presentation_result =
  pq_decision :: presentation_decision
  pq_receipt :: "presentation_receipt option"

definition presentation_candidate_guards :: "presentation_receipt \<Rightarrow> idea_candidate \<Rightarrow> guards" where
  \<comment> \<open>\<open>validate_presentation_receipt_candidate\<close>\<close>
  "presentation_candidate_guards r c =
     require_observed_time_within_policy (pr_presented_at_utc r) (pr_accepted_at_utc r)
       PRESENTATION_TIME_POLICY @
     [(pr_candidate_id r \<noteq> cd_candidate_id c,
       PresentationReceiptCandidateStateError ''candidate identity does not match receipt''),
      (\<not> some_satisfies (\<lambda>s. pr_tenant_id r = as_tenant_id s) (cd_access_scope c),
       PresentationReceiptCandidateStateError ''candidate tenant does not match receipt''),
      (pr_candidate_material_version r \<noteq> id_material_version (cd_identity c),
       PresentationReceiptCandidateStateError ''candidate material version does not match''),
      (pr_candidate_evidence_version r \<noteq> id_evidence_version (cd_identity c),
       PresentationReceiptCandidateStateError ''candidate evidence version does not match''),
      (pr_source_revision_vector_digest r \<noteq> Some (packet_revision_digest (cd_evidence_packet c)),
       PresentationReceiptCandidateStateError
         ''candidate source revision vector does not match receipt''),
      (pr_source_cut_posture r \<noteq> packet_cut_posture (cd_evidence_packet c),
       PresentationReceiptCandidateStateError ''candidate source cut posture does not match''),
      (dt_less (pr_accepted_at_utc r) (cd_updated_at_utc c),
       PresentationReceiptCandidateStateError
         ''presentation acceptance predates the referenced candidate version'')]"

section \<open>Review authority\<close>

definition REVIEW_AUTHORITY_POLICY_VERSION :: string where
  "REVIEW_AUTHORITY_POLICY_VERSION = ''idea-review-authority-v1''"

definition WORKBENCH_REVIEW_WINDOW :: duration where
  "WORKBENCH_REVIEW_WINDOW = us_minutes 30"

datatype review_channel = Workbench | Operator_Channel | Legacy_Unverified

fun channel_value :: "review_channel \<Rightarrow> string" where
  "channel_value Workbench = ''workbench''"
| "channel_value Operator_Channel = ''operator''"
| "channel_value Legacy_Unverified = ''legacy_unverified''"

datatype authority_status = Auth_Active | Auth_Superseded | Auth_Revoked | Auth_Expired

fun authority_status_value :: "authority_status \<Rightarrow> string" where
  "authority_status_value Auth_Active = ''active''"
| "authority_status_value Auth_Superseded = ''superseded''"
| "authority_status_value Auth_Revoked = ''revoked''"
| "authority_status_value Auth_Expired = ''expired''"

text \<open>The helper \<open>_require_aware_utc\<close> of this module accepts only the offset of UTC.\<close>

definition require_utc :: "py_datetime \<Rightarrow> string \<Rightarrow> guards" where
  "require_utc t field_name = [(utc_off t \<noteq> Some 0, ValueError (field_name @ '' must be UTC''))]"

lemma passes_require_utc [simp]: "passes (require_utc t f) \<longleftrightarrow> is_utc t"
  by (simp add: require_utc_def is_utc_def)

record evidence_identity =
  ei_candidate_id :: string
  ei_material_version :: int
  ei_evidence_version :: int
  ei_evidence_packet_id :: string
  ei_evidence_content_hash :: string
  ei_source_revision_vector_digest :: string
  ei_source_cut_posture :: source_cut_posture_t
  ei_source_cut_authority_policy_version :: string

definition evidence_identity_guards :: "evidence_identity \<Rightarrow> guards" where
  "evidence_identity_guards i =
     require_text (ei_candidate_id i) ''candidate_id'' @
     require_text (ei_evidence_packet_id i) ''evidence_packet_id'' @
     require_text (ei_evidence_content_hash i) ''evidence_content_hash'' @
     require_text (ei_source_revision_vector_digest i) ''source_revision_vector_digest'' @
     require_text (ei_source_cut_authority_policy_version i) ''source_cut_authority_policy_version'' @
     [(ei_material_version i \<le> 0, ValueError ''material_version must be a positive integer''),
      (ei_evidence_version i \<le> 0, ValueError ''evidence_version must be a positive integer'')]"

definition evidence_identity_of :: "idea_candidate \<Rightarrow> evidence_identity" where
  "evidence_identity_of c =
     \<lparr>ei_candidate_id = cd_candidate_id c,
      ei_material_version = id_material_version (cd_identity c),
      ei_evidence_version = id_evidence_version (cd_identity c),
      ei_evidence_packet_id = ep_evidence_packet_id (cd_evidence_packet c),
      ei_evidence_content_hash = ln_content_hash (ep_lineage_ref (cd_evidence_packet c)),
      ei_source_revision_vector_digest = packet_revision_digest (cd_evidence_packet c),
      ei_source_cut_posture = packet_cut_posture (cd_evidence_packet c),
      ei_source_cut_authority_policy_version = SOURCE_CUT_AUTHORITY_POLICY_VERSION\<rparr>"

definition evidence_identity_from_candidate :: "idea_candidate \<Rightarrow> evidence_identity res" where
  "evidence_identity_from_candidate c =
     checks (evidence_identity_guards (evidence_identity_of c)) (evidence_identity_of c)"

record authority_grant =
  gr_review_id :: string
  gr_candidate_evidence :: evidence_identity
  gr_review_channel :: review_channel
  gr_actor_subject :: string
  gr_actor_role :: string
  gr_review_policy_version :: string
  gr_accepted_at_utc :: py_datetime
  gr_applicability_expires_at_utc :: "py_datetime option"
  gr_authority_policy_version :: string
  gr_presentation_receipt_id :: "string option"
  gr_queue_snapshot_digest :: "string option"
  gr_status :: authority_status

definition authority_grant_guards :: "authority_grant \<Rightarrow> guards" where
  "authority_grant_guards g =
     require_text (gr_review_id g) ''review_id'' @
     require_text (gr_actor_subject g) ''actor_subject'' @
     require_text (gr_actor_role g) ''actor_role'' @
     require_text (gr_review_policy_version g) ''review_policy_version'' @
     require_text (gr_authority_policy_version g) ''authority_policy_version'' @
     require_utc (gr_accepted_at_utc g) ''accepted_at_utc'' @
     opt_guards (gr_applicability_expires_at_utc g) (\<lambda>t.
       require_utc t ''applicability_expires_at_utc'' @
       [(dt_le t (gr_accepted_at_utc g),
         ValueError ''review authority cannot be granted at or after expiry'')]) @
     (if gr_review_channel g = Workbench
      then [(gr_presentation_receipt_id g = None \<or> gr_queue_snapshot_digest g = None,
             ValueError ''Workbench review authority requires presentation context'')] @
           require_opt_text (gr_presentation_receipt_id g) ''presentation_receipt_id'' @
           require_opt_text (gr_queue_snapshot_digest g) ''queue_snapshot_digest''
      else [(gr_presentation_receipt_id g \<noteq> None \<or> gr_queue_snapshot_digest g \<noteq> None,
             ValueError ''non-Workbench review authority cannot carry presentation context'')])"

definition effective_status :: "authority_grant \<Rightarrow> idea_candidate \<Rightarrow> py_datetime \<Rightarrow> authority_status res" where
  "effective_status g c evaluated_at_utc =
     bind_res (checks (require_utc evaluated_at_utc ''evaluated_at_utc'') ()) (\<lambda>_.
     if gr_status g \<noteq> Auth_Active then Inr (gr_status g)
     else if gr_authority_policy_version g \<noteq> REVIEW_AUTHORITY_POLICY_VERSION then Inr Auth_Revoked
     else bind_res (evidence_identity_from_candidate c) (\<lambda>current.
       if gr_candidate_evidence g \<noteq> current then Inr Auth_Superseded
       else if \<not> source_cut_is_authoritative (packet_cut_posture (cd_evidence_packet c))
       then Inr Auth_Revoked
       else if ep_supportability (cd_evidence_packet c) \<noteq> Support_Ready then Inr Auth_Revoked
       else if some_satisfies (\<lambda>t. dt_le t evaluated_at_utc) (gr_applicability_expires_at_utc g)
       then Inr Auth_Expired
       else Inr Auth_Active))"

definition validate_expected_candidate_evidence :: "evidence_identity \<Rightarrow> idea_candidate \<Rightarrow> unit res" where
  "validate_expected_candidate_evidence expected c =
     bind_res (evidence_identity_from_candidate c) (\<lambda>current.
       checks [(expected \<noteq> current, ReviewAuthorityConflict ''candidate evidence identity is stale'')] ())"

definition workbench_presentation_guards ::
    "evidence_identity \<Rightarrow> presentation_receipt \<Rightarrow> py_datetime \<Rightarrow> guards" where
  \<comment> \<open>\<open>validate_workbench_presentation\<close>\<close>
  "workbench_presentation_guards expected receipt review_accepted_at_utc =
     require_utc review_accepted_at_utc ''review_accepted_at_utc'' @
     [(pr_candidate_id receipt \<noteq> ei_candidate_id expected,
       ReviewAuthorityConflict ''presentation candidate does not match''),
      (pr_candidate_material_version receipt \<noteq> ei_material_version expected,
       ReviewAuthorityConflict ''presentation material version does not match''),
      (pr_candidate_evidence_version receipt \<noteq> ei_evidence_version expected,
       ReviewAuthorityConflict ''presentation evidence version does not match''),
      (dt_less review_accepted_at_utc (pr_accepted_at_utc receipt),
       ReviewAuthorityConflict ''presentation was accepted after the review''),
      (dt_less (pr_accepted_at_utc receipt) (dt_add review_accepted_at_utc (- WORKBENCH_REVIEW_WINDOW)),
       ReviewAuthorityConflict ''presentation is outside the governed review window'')]"

section \<open>Active grants\<close>

lemma evidence_identity_ok:
  assumes "well_formed_candidate c"
  shows "evidence_identity_from_candidate c = Inr (evidence_identity_of c)"
proof -
  have "\<not> blank (ln_content_hash (ep_lineage_ref (cd_evidence_packet c)))"
    using assms by (auto simp: well_formed_candidate_def lineage_ref_guards_def dest: sha256_digest_not_blank)
  moreover have "\<not> blank (packet_revision_digest (cd_evidence_packet c))"
    unfolding packet_revision_digest_def by (rule sha256_digest_not_blank) simp
  moreover have "\<not> blank SOURCE_CUT_AUTHORITY_POLICY_VERSION"
    by (simp add: SOURCE_CUT_AUTHORITY_POLICY_VERSION_def blank_iff py_space_def)
  ultimately show ?thesis
    using assms
    by (simp add: evidence_identity_from_candidate_def evidence_identity_guards_def evidence_identity_of_def
        well_formed_candidate_def valid_candidate_iff valid_identity_iff valid_packet_def
        evidence_packet_guards_def)
qed

lemma evidence_identity_from_candidateD:
  "evidence_identity_from_candidate c = Inr i \<Longrightarrow> i = evidence_identity_of c"
  by (simp add: evidence_identity_from_candidate_def)

lemma effective_status_active:
  "effective_status g c t = Inr Auth_Active \<Longrightarrow>
     is_utc t \<and> gr_status g = Auth_Active \<and>
     gr_authority_policy_version g = REVIEW_AUTHORITY_POLICY_VERSION \<and>
     gr_candidate_evidence g = evidence_identity_of c \<and>
     source_cut_is_authoritative (packet_cut_posture (cd_evidence_packet c)) \<and>
     ep_supportability (cd_evidence_packet c) = Support_Ready \<and>
     (\<forall>x. gr_applicability_expires_at_utc g = Some x \<longrightarrow> inst t < inst x)"
  by (cases "gr_applicability_expires_at_utc g")
    (auto simp: effective_status_def bind_res_Inr dt_le_def dest!: evidence_identity_from_candidateD split: if_splits)

lemma effective_status_total:
  "well_formed_candidate c \<Longrightarrow> is_utc t \<Longrightarrow> \<exists>s. effective_status g c t = Inr s"
  by (simp add: effective_status_def evidence_identity_ok)

text \<open>A grant is for one version of the evidence: a candidate with a later version never
  finds it active.\<close>

lemma grant_superseded:
  "gr_candidate_evidence g = evidence_identity_of c \<Longrightarrow> version_less c d \<Longrightarrow>
     effective_status g d t \<noteq> Inr Auth_Active"
  by (auto dest!: effective_status_active simp: evidence_identity_of_def version_less_def)

end
