(* ===== verification/Review_Queue.thy ===== *)
theory Review_Queue
imports Scoring Identity
begin

text \<open>
  \<open>src/app/domain/review_queue/policy.py\<close> and the token checks of \<open>snapshot.py\<close>: which
  candidates an audience sees, in which order, and why the others are left out. The lemmas
  show that a queue lists exactly the eligible candidates, ranked 1, 2, ... by falling
  score, that the input order does not matter, and that a candidate with a suppression
  reason is never listed, whatever its posture.
\<close>

datatype priority_bucket = Bucket_Critical | Bucket_High | Bucket_Standard | Bucket_Watchlist

datatype queue_audience = Aud_Advisor | Aud_Portfolio_Manager | Aud_Compliance

fun required_posture :: "queue_audience \<Rightarrow> review_posture" where
  "required_posture Aud_Advisor = Advisor_Review_Required"
| "required_posture Aud_Portfolio_Manager = PM_Review_Required"
| "required_posture Aud_Compliance = Compliance_Review_Required"

datatype exclusion_reason =
  Ex_Invalid_State | Ex_Suppressed | Ex_Duplicate | Ex_Expired | Ex_Closed | Ex_Rejected
| Ex_Unsupported_Evidence | Ex_Snoozed | Ex_Unscored | Ex_Unrankable_Score_Policy
| Ex_Non_Reviewable_Status | Ex_Access_Scope_Mismatch

record queue_policy =
  qp_policy_version :: string
  qp_rankable_score_policy_versions :: "string list"
  qp_critical_threshold :: decimal
  qp_high_threshold :: decimal
  qp_standard_threshold :: decimal

definition mk_queue_policy :: "queue_policy \<Rightarrow> queue_policy res" where
  "mk_queue_policy p =
    (let versions = sort (map py_strip (qp_rankable_score_policy_versions p)) in
     checks (require_text (qp_policy_version p) ''policy_version'' @
       [(versions = [], ValueError ''rankable_score_policy_versions is required''),
        (list_ex (\<lambda>v. v = []) versions,
         ValueError ''rankable_score_policy_versions cannot contain blank values''),
        (\<not> distinct versions, ValueError ''rankable_score_policy_versions must be unique'')] @
       require_bounded_score (qp_critical_threshold p) ''critical_threshold'' @
       require_bounded_score (qp_high_threshold p) ''high_threshold'' @
       require_bounded_score (qp_standard_threshold p) ''standard_threshold'' @
       [(\<not> (qp_high_threshold p \<le> qp_critical_threshold p \<and>
            qp_standard_threshold p \<le> qp_high_threshold p \<and> 0 \<le> qp_standard_threshold p),
         ValueError ''priority thresholds must be descending'')])
       (p\<lparr>qp_rankable_score_policy_versions := versions\<rparr>))"

definition accepts_score_policy :: "queue_policy \<Rightarrow> string \<Rightarrow> bool" where
  "accepts_score_policy p v \<longleftrightarrow> v \<in> set (qp_rankable_score_policy_versions p)"

record queue_snooze =
  qs_candidate_id :: string
  qs_snoozed_until_utc :: py_datetime
  qs_reason_codes :: "reason_code list"

definition queue_snooze_guards :: "queue_snooze \<Rightarrow> guards" where
  "queue_snooze_guards s =
     require_text (qs_candidate_id s) ''candidate_id'' @
     require_aware (qs_snoozed_until_utc s) ''snoozed_until_utc'' @
     [(qs_reason_codes s = [], ValueError ''reason_codes is required'')]"

record queue_exclusion =
  qe_candidate_id :: string
  qe_reason :: exclusion_reason
  qe_detail :: string

definition mk_exclusion :: "idea_candidate \<Rightarrow> exclusion_reason \<Rightarrow> string \<Rightarrow> queue_exclusion res" where
  "mk_exclusion c reason detail =
     checks (require_text (cd_candidate_id c) ''candidate_id'' @ require_text detail ''detail'')
       \<lparr>qe_candidate_id = cd_candidate_id c, qe_reason = reason, qe_detail = detail\<rparr>"

record queue_item =
  qi_rank :: int
  qi_candidate :: idea_candidate
  qi_score :: decimal
  qi_priority_bucket :: priority_bucket
  qi_policy_version :: string
  qi_reason_codes :: "reason_code list"

definition queue_item_guards :: "queue_item \<Rightarrow> guards" where
  "queue_item_guards i =
     [(qi_rank i < 1, ValueError ''rank must be greater than zero'')] @
     require_text (qi_policy_version i) ''policy_version'' @
     require_bounded_score (qi_score i) ''score'' @
     [(qi_reason_codes i = [], ValueError ''reason_codes is required'')]"

record queue_projection =
  qj_audience :: queue_audience
  qj_policy_version :: string
  qj_evaluated_at_utc :: py_datetime
  qj_items :: "queue_item list"
  qj_exclusions :: "queue_exclusion list"

definition queue_projection_guards :: "queue_projection \<Rightarrow> guards" where
  "queue_projection_guards p =
     require_text (qj_policy_version p) ''policy_version'' @
     require_aware (qj_evaluated_at_utc p) ''evaluated_at_utc''"

definition DEFAULT_REVIEW_QUEUE_POLICY :: queue_policy where
  "DEFAULT_REVIEW_QUEUE_POLICY =
     \<lparr>qp_policy_version = ''idea-deterministic-ranking-v1'',
      qp_rankable_score_policy_versions = sort (map py_strip DEFAULT_RANKABLE_SCORE_POLICY_VERSIONS),
      qp_critical_threshold = 85, qp_high_threshold = 70, qp_standard_threshold = 50\<rparr>"

definition priority_bucket_for_score :: "queue_policy \<Rightarrow> decimal \<Rightarrow> priority_bucket res" where
  "priority_bucket_for_score p score =
     checks (require_bounded_score score ''score'')
       (if qp_critical_threshold p \<le> score then Bucket_Critical
        else if qp_high_threshold p \<le> score then Bucket_High
        else if qp_standard_threshold p \<le> score then Bucket_Standard
        else Bucket_Watchlist)"

definition candidate_score :: "idea_candidate \<Rightarrow> decimal" where
  "candidate_score c = (case cd_score c of None \<Rightarrow> 0 | Some s \<Rightarrow> is_score s)"

definition queue_sort_key :: "idea_candidate \<Rightarrow> rat \<times> int \<times> string" where
  "queue_sort_key c = (- candidate_score c, inst (cd_created_at_utc c), cd_candidate_id c)"

fun terminal_exclusion :: "lifecycle_status \<Rightarrow> exclusion_reason option" where
  "terminal_exclusion Expired = Some Ex_Expired"
| "terminal_exclusion Closed = Some Ex_Closed"
| "terminal_exclusion Rejected = Some Ex_Rejected"
| "terminal_exclusion _ = None"

text \<open>The reason and detail of the exclusion, in the order of the code's tests.\<close>

definition queue_exclusion_reason ::
    "idea_candidate \<Rightarrow> (string, queue_snooze) dict \<Rightarrow> scope_filter option \<Rightarrow> queue_policy \<Rightarrow>
     py_datetime \<Rightarrow> (exclusion_reason \<times> string) option" where
  "queue_exclusion_reason c active_snoozes scope policy evaluated_at_utc =
    (let expiry = ep_applicability_expires_at_utc (cd_evidence_packet c);
         l = cd_lifecycle_status c;
         lifecycle_detail = ''candidate lifecycle is '' @ lifecycle_value l
     in if some_satisfies (\<lambda>f. \<not> filter_matches f (cd_access_scope c)) scope
        then Some (Ex_Access_Scope_Mismatch, ''candidate is outside the requested advisor access scope'')
        else if \<not> candidate_state_is_compatible l (cd_review_posture c)
        then Some (Ex_Invalid_State, ''candidate lifecycle and review posture are incompatible'')
        else if some_satisfies (\<lambda>t. dt_le t evaluated_at_utc) expiry
        then Some (Ex_Expired, ''candidate applicability expired at '' @ dt_iso (the expiry))
        else case d_get active_snoozes (cd_candidate_id c) of
          Some s \<Rightarrow> Some (Ex_Snoozed, ''snoozed until '' @ dt_iso (qs_snoozed_until_utc s))
        | None \<Rightarrow>
            if cd_suppression_reason c = Some Sup_Duplicate
            then Some (Ex_Duplicate, ''candidate is explicitly suppressed as duplicate adviser work'')
            else if cd_suppression_reason c \<noteq> None \<or> cd_review_posture c = Suppressed
            then Some (Ex_Suppressed, ''candidate is suppressed'')
            else case terminal_exclusion l of
              Some r \<Rightarrow> Some (r, lifecycle_detail)
            | None \<Rightarrow>
                if ep_supportability (cd_evidence_packet c) = Support_Blocked
                then Some (Ex_Unsupported_Evidence, ''candidate evidence is blocked'')
                else case cd_score c of
                  None \<Rightarrow> Some (Ex_Unscored, ''candidate has no score'')
                | Some s \<Rightarrow>
                    if \<not> accepts_score_policy policy (is_policy_version s)
                    then Some (Ex_Unrankable_Score_Policy,
                      ''candidate score policy is not rankable under the active queue policy'')
                    else if l \<notin> REVIEWABLE_LIFECYCLE_STATUSES
                    then Some (Ex_Non_Reviewable_Status, lifecycle_detail)
                    else None)"

definition queue_exclusion_for_candidate ::
    "idea_candidate \<Rightarrow> (string, queue_snooze) dict \<Rightarrow> scope_filter option \<Rightarrow> queue_policy \<Rightarrow>
     py_datetime \<Rightarrow> queue_exclusion option res" where
  "queue_exclusion_for_candidate c active_snoozes scope policy evaluated_at_utc =
    (case queue_exclusion_reason c active_snoozes scope policy evaluated_at_utc of
       None \<Rightarrow> Inr None
     | Some (r, d) \<Rightarrow> bind_res (mk_exclusion c r d) (\<lambda>x. Inr (Some x)))"

definition queue_relevant :: "queue_audience \<Rightarrow> idea_candidate \<Rightarrow> bool" where
  \<comment> \<open>the candidates the loop does not skip\<close>
  "queue_relevant audience c \<longleftrightarrow>
     cd_review_posture c = required_posture audience \<or> cd_suppression_reason c \<noteq> None"

fun queue_partition ::
    "queue_audience \<Rightarrow> (idea_candidate \<Rightarrow> queue_exclusion option res) \<Rightarrow> idea_candidate list \<Rightarrow>
     (idea_candidate list \<times> queue_exclusion list) res" where
  "queue_partition audience excl [] = Inr ([], [])"
| "queue_partition audience excl (c # cs) =
    (if \<not> queue_relevant audience c then queue_partition audience excl cs
     else bind_res (excl c) (\<lambda>x. bind_res (queue_partition audience excl cs) (\<lambda>(es, xs).
       Inr (case x of None \<Rightarrow> (c # es, xs) | Some q \<Rightarrow> (es, q # xs)))))"

definition queue_item_for :: "queue_policy \<Rightarrow> nat \<times> idea_candidate \<Rightarrow> queue_item res" where
  "queue_item_for policy ic =
    (case ic of (index, c) \<Rightarrow>
       bind_res (priority_bucket_for_score policy (candidate_score c)) (\<lambda>bucket.
       let i = \<lparr>qi_rank = int index + 1, qi_candidate = c, qi_score = candidate_score c,
                qi_priority_bucket = bucket, qi_policy_version = qp_policy_version policy,
                qi_reason_codes = (case cd_score c of Some s \<Rightarrow> is_reason_codes s
                                   | None \<Rightarrow> [R_Queue_Priority])\<rparr>
       in checks (queue_item_guards i) i))"

definition active_snoozes_at :: "py_datetime \<Rightarrow> queue_snooze list \<Rightarrow> (string, queue_snooze) dict" where
  "active_snoozes_at t snoozes =
     fold (\<lambda>s d. if dt_less t (qs_snoozed_until_utc s) then d_put (qs_candidate_id s) s d else d) snoozes []"

definition build_review_queue ::
    "py_datetime \<Rightarrow> idea_candidate list \<Rightarrow> queue_audience \<Rightarrow> queue_policy \<Rightarrow> py_datetime option \<Rightarrow>
     queue_snooze list \<Rightarrow> scope_filter option \<Rightarrow> queue_projection res"
where
  "build_review_queue now candidates audience policy evaluated_at_utc snoozes scope =
    (let evaluated_at = or_else evaluated_at_utc now;
         active = active_snoozes_at evaluated_at snoozes in
     bind_res (checks (require_aware evaluated_at ''evaluated_at_utc'') ()) (\<lambda>_.
     bind_res (queue_partition audience
         (\<lambda>c. queue_exclusion_for_candidate c active scope policy evaluated_at) candidates)
       (\<lambda>(eligible, exclusions).
     bind_res (map_res (queue_item_for policy) (enumerate 0 (sort_key queue_sort_key eligible)))
       (\<lambda>items.
     let p = \<lparr>qj_audience = audience, qj_policy_version = qp_policy_version policy,
              qj_evaluated_at_utc = evaluated_at, qj_items = items, qj_exclusions = exclusions\<rparr>
     in checks (queue_projection_guards p) p))))"

definition is_snapshot_token :: "string \<Rightarrow> bool" where
  \<comment> \<open>\<open>^rqs1_[0-9a-f]{64}$\<close>\<close>
  "is_snapshot_token t \<longleftrightarrow> is_prefix ''rqs1_'' t \<and> length t = 69 \<and> list_all is_hex (drop 5 t)"

definition validate_review_queue_snapshot_token :: "string \<Rightarrow> string res" where
  "validate_review_queue_snapshot_token token =
     checks [(\<not> is_snapshot_token (py_strip token),
              ValueError ''snapshot_token must be an opaque review queue snapshot token'')]
       (py_strip token)"

definition require_matching_review_queue_snapshot :: "string option \<Rightarrow> string \<Rightarrow> unit res" where
  "require_matching_review_queue_snapshot expected_token actual_token =
    (case expected_token of
       None \<Rightarrow> Inr ()
     | Some e \<Rightarrow> bind_res (validate_review_queue_snapshot_token e) (\<lambda>t.
         checks [(t \<noteq> actual_token,
           RuntimeError ''review queue state changed after the requested snapshot'')] ()))"

section \<open>What a queue lists\<close>

definition listed :: "queue_audience \<Rightarrow> (string, queue_snooze) dict \<Rightarrow> scope_filter option \<Rightarrow>
    queue_policy \<Rightarrow> py_datetime \<Rightarrow> idea_candidate \<Rightarrow> bool" where
  "listed audience active scope policy t c \<longleftrightarrow>
     queue_relevant audience c \<and> queue_exclusion_reason c active scope policy t = None"

lemma queue_partition_Inr:
  "queue_partition audience (\<lambda>c. queue_exclusion_for_candidate c active scope policy t) cs = Inr (es, xs) \<Longrightarrow>
     es = filter (listed audience active scope policy t) cs \<and>
     map qe_candidate_id xs = map cd_candidate_id
       (filter (\<lambda>c. queue_relevant audience c \<and> \<not> listed audience active scope policy t c) cs)"
proof (induction cs arbitrary: es xs)
  case (Cons c cs)
  show ?case
  proof (cases "queue_relevant audience c")
    case False
    with Cons show ?thesis by (simp add: listed_def)
  next
    case True
    with Cons.prems obtain x es' xs' where
        x: "queue_exclusion_for_candidate c active scope policy t = Inr x"
      and r: "queue_partition audience (\<lambda>c. queue_exclusion_for_candidate c active scope policy t) cs = Inr (es', xs')"
      and e: "(es, xs) = (case x of None \<Rightarrow> (c # es', xs') | Some q \<Rightarrow> (es', q # xs'))"
      by (auto simp: bind_res_Inr)
    note ih = Cons.IH[OF r]
    show ?thesis
    proof (cases x)
      case None
      then have "listed audience active scope policy t c"
        using x True by (auto simp: queue_exclusion_for_candidate_def listed_def bind_res_Inr split: option.splits)
      then show ?thesis using ih e None by simp
    next
      case (Some q)
      then have "\<not> listed audience active scope policy t c" "qe_candidate_id q = cd_candidate_id c"
        using x by (auto simp: queue_exclusion_for_candidate_def listed_def bind_res_Inr mk_exclusion_def
            split: option.splits)
      then show ?thesis using ih e Some True by simp
    qed
  qed
qed simp

lemma queue_item_forD:
  "queue_item_for policy (k, c) = Inr i \<Longrightarrow>
     qi_rank i = int k + 1 \<and> qi_candidate i = c \<and> qi_score i = candidate_score c \<and>
     priority_bucket_for_score policy (candidate_score c) = Inr (qi_priority_bucket i)"
  by (auto simp: queue_item_for_def bind_res_Inr Let_def)

lemma queue_items_enumerate:
  "map_res (queue_item_for policy) (enumerate n cs) = Inr items \<Longrightarrow>
     map qi_candidate items = cs \<and> map qi_rank items = map (\<lambda>k. int k + 1) [n..<n + length cs] \<and>
     (\<forall>i \<in> set items. priority_bucket_for_score policy (qi_score i) = Inr (qi_priority_bucket i))"
proof (induction cs arbitrary: n items)
  case (Cons c cs)
  then obtain i is' where i: "queue_item_for policy (n, c) = Inr i"
    and r: "map_res (queue_item_for policy) (enumerate (Suc n) cs) = Inr is'" and items: "items = i # is'"
    by (auto simp: bind_res_Inr)
  from Cons.IH[OF r] queue_item_forD[OF i] show ?case
    by (simp add: items upt_conv_Cons del: upt_Suc)
qed simp

lemma build_review_queueD:
  assumes "build_review_queue now cs audience policy at_utc snoozes scope = Inr q"
  defines "t \<equiv> or_else at_utc now"
  defines "L \<equiv> listed audience (active_snoozes_at t snoozes) scope policy t"
  shows "map qi_candidate (qj_items q) = sort_key queue_sort_key (filter L cs)"
    and "map qi_rank (qj_items q) = map (\<lambda>k. int k + 1) [0..<length (filter L cs)]"
    and "map qe_candidate_id (qj_exclusions q) =
      map cd_candidate_id (filter (\<lambda>c. queue_relevant audience c \<and> \<not> L c) cs)"
    and "\<forall>i \<in> set (qj_items q). priority_bucket_for_score policy (qi_score i) = Inr (qi_priority_bucket i)"
proof -
  from assms(1) obtain es xs items where
      p: "queue_partition audience
         (\<lambda>c. queue_exclusion_for_candidate c (active_snoozes_at t snoozes) scope policy t) cs = Inr (es, xs)"
    and i: "map_res (queue_item_for policy) (enumerate 0 (sort_key queue_sort_key es)) = Inr items"
    and q: "qj_items q = items" "qj_exclusions q = xs"
    by (auto simp: build_review_queue_def bind_res_Inr Let_def t_def)
  note es = queue_partition_Inr[OF p, folded L_def]
  note it = queue_items_enumerate[OF i]
  show "map qi_candidate (qj_items q) = sort_key queue_sort_key (filter L cs)"
    "map qi_rank (qj_items q) = map (\<lambda>k. int k + 1) [0..<length (filter L cs)]"
    "map qe_candidate_id (qj_exclusions q) =
      map cd_candidate_id (filter (\<lambda>c. queue_relevant audience c \<and> \<not> L c) cs)"
    "\<forall>i \<in> set (qj_items q). priority_bucket_for_score policy (qi_score i) = Inr (qi_priority_bucket i)"
    using es it q by simp_all
qed

text \<open>On candidates with valid scores the queue never raises.\<close>

definition queue_ready :: "idea_candidate \<Rightarrow> bool" where
  "queue_ready c \<longleftrightarrow> \<not> blank (cd_candidate_id c) \<and>
     (\<forall>s. cd_score c = Some s \<longrightarrow> passes (idea_score_guards s))"

lemma blank_append: "\<not> blank s \<Longrightarrow> \<not> blank (s @ x)"
  by (rule not_blank_append)

lemma exclusion_detail_not_blank:
  "queue_exclusion_reason c active scope policy t = Some (r, d) \<Longrightarrow> \<not> blank d"
  by (auto simp: queue_exclusion_reason_def Let_def blank_iff py_space_def split: if_splits option.splits)

lemma queue_partition_total:
  "\<forall>c \<in> set cs. \<not> blank (cd_candidate_id c) \<Longrightarrow>
   \<exists>r. queue_partition audience (\<lambda>c. queue_exclusion_for_candidate c active scope policy t) cs = Inr r"
proof (induction cs)
  case (Cons c cs)
  then obtain es xs where r: "queue_partition audience
      (\<lambda>c. queue_exclusion_for_candidate c active scope policy t) cs = Inr (es, xs)" by auto
  have "\<exists>x. queue_exclusion_for_candidate c active scope policy t = Inr x"
    using Cons.prems exclusion_detail_not_blank
    by (cases "queue_exclusion_reason c active scope policy t")
      (auto simp: queue_exclusion_for_candidate_def mk_exclusion_def)
  with r show ?case by auto
qed simp

lemma candidate_score_bounds: "queue_ready c \<Longrightarrow> 0 \<le> candidate_score c \<and> candidate_score c \<le> 100"
  by (cases "cd_score c") (auto simp: queue_ready_def candidate_score_def idea_score_guards_def)

lemma queue_item_for_total:
  "queue_ready c \<Longrightarrow> \<not> blank (qp_policy_version policy) \<Longrightarrow> \<exists>i. queue_item_for policy (k, c) = Inr i"
  using candidate_score_bounds[of c]
  by (auto simp: queue_item_for_def priority_bucket_for_score_def queue_item_guards_def Let_def
      queue_ready_def idea_score_guards_def checks_passes split: option.splits)

lemma map_res_exists: "(\<And>x. x \<in> set xs \<Longrightarrow> \<exists>y. f x = Inr y) \<Longrightarrow> \<exists>ys. map_res f xs = Inr ys"
  by (induction xs) force+

lemma build_review_queue_total:
  assumes "\<forall>c \<in> set cs. queue_ready c" "aware (or_else at_utc now)" "\<not> blank (qp_policy_version policy)"
  shows "\<exists>q. build_review_queue now cs audience policy at_utc snoozes scope = Inr q"
proof -
  let ?t = "or_else at_utc now"
  let ?a = "active_snoozes_at ?t snoozes"
  obtain es xs where p: "queue_partition audience
      (\<lambda>c. queue_exclusion_for_candidate c ?a scope policy ?t) cs = Inr (es, xs)"
    using queue_partition_total[of cs audience ?a scope policy ?t] assms(1) by (auto simp: queue_ready_def)
  have "set es \<subseteq> set cs" using queue_partition_Inr[OF p] by auto
  have "\<exists>i. queue_item_for policy kc = Inr i"
    if kc: "kc \<in> set (enumerate 0 (sort_key queue_sort_key es))" for kc
  proof -
    have "snd kc \<in> set (map snd (enumerate 0 (sort_key queue_sort_key es)))"
      using kc by (simp only: set_map image_eqI)
    then have "snd kc \<in> set es" by (simp only: map_snd_enumerate set_sort)
    then have "queue_ready (snd kc)" using \<open>set es \<subseteq> set cs\<close> assms(1) by blast
    then show ?thesis using queue_item_for_total[OF _ assms(3)] by (cases kc) auto
  qed
  then obtain items where "map_res (queue_item_for policy) (enumerate 0 (sort_key queue_sort_key es)) = Inr items"
    using map_res_exists by blast
  with p assms show ?thesis
    by (simp add: build_review_queue_def Let_def queue_projection_guards_def)
qed

lemma suppression_reason_hides:
  "cd_suppression_reason c \<noteq> None \<Longrightarrow> queue_exclusion_reason c active scope policy t \<noteq> None"
  by (auto simp: queue_exclusion_reason_def Let_def split: if_splits option.splits)

lemma listed_facts:
  assumes "listed audience active scope policy t c"
  shows "cd_review_posture c = required_posture audience"
    and "cd_suppression_reason c = None"
    and "cd_lifecycle_status c \<in> REVIEWABLE_LIFECYCLE_STATUSES"
    and "d_get active (cd_candidate_id c) = None"
    and "\<forall>f. scope = Some f \<longrightarrow> filter_matches f (cd_access_scope c)"
    and "\<forall>x. ep_applicability_expires_at_utc (cd_evidence_packet c) = Some x \<longrightarrow> inst t < inst x"
    and "ep_supportability (cd_evidence_packet c) \<noteq> Support_Blocked"
    and "\<exists>s. cd_score c = Some s \<and> accepts_score_policy policy (is_policy_version s)"
proof -
  have n: "queue_exclusion_reason c active scope policy t = None" and r: "queue_relevant audience c"
    using assms by (simp_all add: listed_def)
  show sup: "cd_suppression_reason c = None" using n suppression_reason_hides by blast
  show "cd_review_posture c = required_posture audience" using r sup by (simp add: queue_relevant_def)
  show "cd_lifecycle_status c \<in> REVIEWABLE_LIFECYCLE_STATUSES" "d_get active (cd_candidate_id c) = None"
    "ep_supportability (cd_evidence_packet c) \<noteq> Support_Blocked"
    "\<exists>s. cd_score c = Some s \<and> accepts_score_policy policy (is_policy_version s)"
    using n by (auto simp: queue_exclusion_reason_def Let_def split: if_splits option.splits)
  show "\<forall>f. scope = Some f \<longrightarrow> filter_matches f (cd_access_scope c)"
    using n by (auto simp: queue_exclusion_reason_def Let_def split: if_splits)
  show "\<forall>x. ep_applicability_expires_at_utc (cd_evidence_packet c) = Some x \<longrightarrow> inst t < inst x"
    using n by (auto simp: queue_exclusion_reason_def Let_def dt_le_def split: if_splits)
qed

lemma queue_order_perm:
  assumes "mset cs = mset ds" "distinct (map cd_candidate_id cs)"
  shows "sort_key queue_sort_key (filter P cs) = sort_key queue_sort_key (filter P ds)"
proof (rule sort_key_perm_distinct)
  show "mset (filter P cs) = mset (filter P ds)" using assms(1) by simp
  have "inj_on cd_candidate_id (set (filter P cs))" "distinct (filter P cs)"
    using assms(2) by (auto simp: distinct_map intro: inj_on_subset)
  then show "distinct (map queue_sort_key (filter P cs))"
    by (auto simp: distinct_map queue_sort_key_def inj_on_def)
qed

lemma bucket_cases:
  "priority_bucket_for_score DEFAULT_REVIEW_QUEUE_POLICY s = Inr b \<longleftrightarrow>
     0 \<le> s \<and> s \<le> 100 \<and>
     b = (if 85 \<le> s then Bucket_Critical else if 70 \<le> s then Bucket_High
          else if 50 \<le> s then Bucket_Standard else Bucket_Watchlist)"
  by (auto simp: priority_bucket_for_score_def DEFAULT_REVIEW_QUEUE_POLICY_def)

end
