(* ===== verification/Review_Governance.thy ===== *)
theory Review_Governance
imports Review_Authority Review_Queue
begin

text \<open>
  \<open>src/app/domain/review_governance.py\<close>: who may review a candidate, what each review
  action does to it, the governed decision with its authority grant and audit event, and
  feedback. The lemmas give the state every action leads to, show that an approval is
  granted only for exactly the evidence the reviewer saw and that its grant is active at
  the moment of acceptance, and that a permitted action on a well-formed candidate
  succeeds.
\<close>

section \<open>Actors, actions and policies\<close>

datatype review_role = Role_Advisor | Role_Portfolio_Manager | Role_Compliance | Role_Operator

fun role_value :: "review_role \<Rightarrow> string" where
  "role_value Role_Advisor = ''advisor''"
| "role_value Role_Portfolio_Manager = ''portfolio_manager''"
| "role_value Role_Compliance = ''compliance''"
| "role_value Role_Operator = ''operator''"

datatype review_action =
  Approve_For_Conversion | Reject | Take_No_Action | Suppress | Snooze | Escalate_To_PM
| Escalate_To_Compliance

fun action_value :: "review_action \<Rightarrow> string" where
  "action_value Approve_For_Conversion = ''approve_for_conversion''"
| "action_value Reject = ''reject''"
| "action_value Take_No_Action = ''no_action''"
| "action_value Suppress = ''suppress''"
| "action_value Snooze = ''snooze''"
| "action_value Escalate_To_PM = ''escalate_to_pm''"
| "action_value Escalate_To_Compliance = ''escalate_to_compliance''"

definition review_actions :: "review_action list" where
  \<comment> \<open>iteration order of the enumeration\<close>
  "review_actions =
     [Approve_For_Conversion, Reject, Take_No_Action, Suppress, Snooze, Escalate_To_PM,
      Escalate_To_Compliance]"

datatype review_mutation_type = Review_Decision_Mutation | Feedback_Event_Mutation

record actor_context =
  ac_actor_subject :: string
  ac_role :: review_role
  ac_tenant_ids :: "string list"
  ac_book_ids :: "string list"
  ac_portfolio_ids :: "string list"
  ac_client_ids :: "string list"

definition scope_id_guards :: "string list \<Rightarrow> string \<Rightarrow> guards" where
  "scope_id_guards vs field_name =
     [(vs = [], ValueError (field_name @ '' is required'')),
      (list_ex blank vs, ValueError (field_name @ '' cannot contain blank values''))]"

definition actor_context_guards :: "actor_context \<Rightarrow> guards" where
  "actor_context_guards a =
     require_text (ac_actor_subject a) ''actor_subject'' @
     scope_id_guards (ac_tenant_ids a) ''tenant_ids'' @
     scope_id_guards (ac_book_ids a) ''book_ids'' @
     scope_id_guards (ac_portfolio_ids a) ''portfolio_ids'' @
     scope_id_guards (ac_client_ids a) ''client_ids''"

definition can_access :: "actor_context \<Rightarrow> access_scope \<Rightarrow> bool" where
  "can_access a s \<longleftrightarrow>
     as_tenant_id s \<in> set (ac_tenant_ids a) \<and> as_book_id s \<in> set (ac_book_ids a) \<and>
     as_portfolio_id s \<in> set (ac_portfolio_ids a) \<and> as_client_id s \<in> set (ac_client_ids a)"

record action_policy =
  ap_policy_version :: string
  ap_allowed_roles_by_action :: "(review_action, review_role list) dict"

definition default_allowed_roles_by_action :: "(review_action, review_role list) dict" where
  "default_allowed_roles_by_action =
     [(Approve_For_Conversion, [Role_Advisor]), (Reject, [Role_Advisor]),
      (Take_No_Action, [Role_Advisor]), (Suppress, [Role_Advisor]), (Snooze, [Role_Advisor]),
      (Escalate_To_PM, [Role_Advisor]), (Escalate_To_Compliance, [Role_Advisor])]"

definition mk_action_policy ::
    "string \<Rightarrow> (review_action, review_role list) dict option \<Rightarrow> action_policy res" where
  "mk_action_policy policy_version allowed =
    (let roles = or_else allowed default_allowed_roles_by_action in
     checks (require_text policy_version ''policy_version'' @
       concat (map (\<lambda>a.
         [(d_get roles a = None, ValueError (''allowed roles missing for action: '' @ action_value a)),
          (d_get roles a = Some [], ValueError (''allowed roles required for action: '' @ action_value a))])
         review_actions))
       \<lparr>ap_policy_version = policy_version, ap_allowed_roles_by_action = roles\<rparr>)"

definition policy_allows :: "action_policy \<Rightarrow> actor_context \<Rightarrow> review_action \<Rightarrow> bool res" where
  "policy_allows p a action =
    (case d_get (ap_allowed_roles_by_action p) action of
       None \<Rightarrow> Inl (KeyError (action_value action))
     | Some roles \<Rightarrow> Inr (ac_role a \<in> set roles))"

definition DEFAULT_REVIEW_ACTION_POLICY :: action_policy where
  "DEFAULT_REVIEW_ACTION_POLICY =
     \<lparr>ap_policy_version = ''idea-human-review-v1'',
      ap_allowed_roles_by_action = default_allowed_roles_by_action\<rparr>"

fun action_reason_code :: "review_action \<Rightarrow> reason_code" where
  "action_reason_code Approve_For_Conversion = R_Review_Approved_For_Conversion"
| "action_reason_code Reject = R_Review_Rejected"
| "action_reason_code Take_No_Action = R_Review_No_Action"
| "action_reason_code Suppress = R_Review_Suppressed"
| "action_reason_code Snooze = R_Review_Snoozed"
| "action_reason_code Escalate_To_PM = R_Review_Escalated"
| "action_reason_code Escalate_To_Compliance = R_Review_Escalated"

fun action_posture :: "review_action \<Rightarrow> review_posture" where
  "action_posture Approve_For_Conversion = Approved_For_Conversion"
| "action_posture Reject = Posture_Rejected"
| "action_posture Take_No_Action = No_Action"
| "action_posture Suppress = Suppressed"
| "action_posture Snooze = Advisor_Review_Required"
| "action_posture Escalate_To_PM = PM_Review_Required"
| "action_posture Escalate_To_Compliance = Compliance_Review_Required"

definition DECISION_LIFECYCLE_STATUSES :: "lifecycle_status set" where
  "DECISION_LIFECYCLE_STATUSES = {Ready_For_Review, Reviewed_By_Advisor}"

fun action_lifecycle_statuses :: "review_action \<Rightarrow> lifecycle_status set" where
  "action_lifecycle_statuses Approve_For_Conversion = DECISION_LIFECYCLE_STATUSES"
| "action_lifecycle_statuses Reject = DECISION_LIFECYCLE_STATUSES"
| "action_lifecycle_statuses Take_No_Action = DECISION_LIFECYCLE_STATUSES"
| "action_lifecycle_statuses Suppress = insert Reviewed_By_Advisor REVIEWABLE_LIFECYCLE_STATUSES"
| "action_lifecycle_statuses Snooze = insert Reviewed_By_Advisor REVIEWABLE_LIFECYCLE_STATUSES"
| "action_lifecycle_statuses Escalate_To_PM = insert Reviewed_By_Advisor REVIEWABLE_LIFECYCLE_STATUSES"
| "action_lifecycle_statuses Escalate_To_Compliance =
     insert Reviewed_By_Advisor REVIEWABLE_LIFECYCLE_STATUSES"

section \<open>Commands\<close>

definition review_field_compatibility ::
    "review_action \<Rightarrow> suppression_reason option \<Rightarrow> py_datetime option \<Rightarrow> guards" where
  "review_field_compatibility action suppression_reason snoozed_until_utc =
     [(action = Suppress \<and> suppression_reason = None,
       ValueError ''suppression_reason is required for suppress action''),
      (action \<noteq> Suppress \<and> suppression_reason \<noteq> None,
       ValueError ''suppression_reason is only valid for suppress action''),
      (action = Snooze \<and> snoozed_until_utc = None,
       ValueError ''snoozed_until_utc is required for snooze action''),
      (action \<noteq> Snooze \<and> snoozed_until_utc \<noteq> None,
       ValueError ''snoozed_until_utc is only valid for snooze action'')]"

record review_command =
  rw_review_id :: string
  rw_action :: review_action
  rw_actor :: actor_context
  rw_reason_codes :: "reason_code list"
  rw_decided_at_utc :: py_datetime
  rw_expected_candidate_evidence :: evidence_identity
  rw_review_channel :: review_channel
  rw_presentation_receipt_id :: "string option"
  rw_suppression_reason :: "suppression_reason option"
  rw_snoozed_until_utc :: "py_datetime option"

definition review_command_guards :: "review_command \<Rightarrow> guards" where
  "review_command_guards c =
     require_text (rw_review_id c) ''review_id'' @
     require_aware (rw_decided_at_utc c) ''decided_at_utc'' @
     [(rw_reason_codes c = [], ValueError ''reason_codes is required'')] @
     (case rw_review_channel c of
        Workbench \<Rightarrow>
          (case rw_presentation_receipt_id c of
             None \<Rightarrow> [(True, ValueError ''presentation_receipt_id is required for Workbench review'')]
           | Some r \<Rightarrow> require_text r ''presentation_receipt_id'')
      | Operator_Channel \<Rightarrow>
          [(rw_presentation_receipt_id c \<noteq> None,
            ValueError ''non-Workbench review cannot carry presentation_receipt_id'')]
      | Legacy_Unverified \<Rightarrow>
          [(True, ValueError ''legacy review channel cannot admit new decisions'')]) @
     review_field_compatibility (rw_action c) (rw_suppression_reason c) (rw_snoozed_until_utc c) @
     (if rw_action c = Snooze
      then opt_guards (rw_snoozed_until_utc c) (\<lambda>t.
             require_aware t ''snoozed_until_utc'' @
             [(dt_le t (rw_decided_at_utc c),
               ValueError ''snoozed_until_utc must be after decided_at_utc'')])
      else [])"

record feedback_command =
  fc_feedback_id :: string
  fc_actor :: actor_context
  fc_outcome :: feedback_outcome
  fc_reason :: feedback_reason
  fc_taxonomy_version :: string
  fc_recorded_at_utc :: py_datetime

definition feedback_command_guards :: "feedback_command \<Rightarrow> guards" where
  "feedback_command_guards c =
     require_text (fc_feedback_id c) ''feedback_id'' @
     require_text (fc_taxonomy_version c) ''taxonomy_version'' @
     require_aware (fc_recorded_at_utc c) ''recorded_at_utc'' @
     validate_feedback_taxonomy (fc_taxonomy_version c) (fc_outcome c) (fc_reason c)"

section \<open>Governed decisions and feedback events\<close>

record governed_decision =
  gd_review_id :: string
  gd_candidate_id :: string
  gd_evidence_packet_id :: string
  gd_evidence_content_hash :: string
  gd_source_revision_vector_digest :: string
  gd_source_cut_posture :: source_cut_posture_t
  gd_candidate_material_version :: int
  gd_candidate_evidence_version :: int
  gd_review_channel :: review_channel
  gd_presentation_receipt_id :: "string option"
  gd_queue_snapshot_digest :: "string option"
  gd_review_policy_version :: string
  gd_action :: review_action
  gd_resulting_posture :: review_posture
  gd_actor_subject :: string
  gd_actor_role :: review_role
  gd_reason_codes :: "reason_code list"
  gd_decided_at_utc :: py_datetime
  gd_accepted_at_utc :: py_datetime
  gd_review_authority_policy_version :: string
  gd_applicability_expires_at_utc :: "py_datetime option"
  gd_acceptance_time_source :: acceptance_time_source
  gd_suppression_reason :: "suppression_reason option"
  gd_snoozed_until_utc :: "py_datetime option"

definition decision_evidence_identity :: "governed_decision \<Rightarrow> evidence_identity" where
  \<comment> \<open>the \<open>CandidateEvidenceIdentity(...)\<close> built from the fields of a decision\<close>
  "decision_evidence_identity d =
     \<lparr>ei_candidate_id = gd_candidate_id d, ei_material_version = gd_candidate_material_version d,
      ei_evidence_version = gd_candidate_evidence_version d,
      ei_evidence_packet_id = gd_evidence_packet_id d,
      ei_evidence_content_hash = gd_evidence_content_hash d,
      ei_source_revision_vector_digest = gd_source_revision_vector_digest d,
      ei_source_cut_posture = gd_source_cut_posture d,
      ei_source_cut_authority_policy_version = SOURCE_CUT_AUTHORITY_POLICY_VERSION\<rparr>"

definition governed_decision_guards :: "governed_decision \<Rightarrow> guards" where
  "governed_decision_guards d =
     require_text (gd_review_id d) ''review_id'' @
     require_text (gd_candidate_id d) ''candidate_id'' @
     require_text (gd_evidence_packet_id d) ''evidence_packet_id'' @
     require_text (gd_evidence_content_hash d) ''evidence_content_hash'' @
     require_text (gd_source_revision_vector_digest d) ''source_revision_vector_digest'' @
     require_text (gd_actor_subject d) ''actor_subject'' @
     require_aware (gd_decided_at_utc d) ''decided_at_utc'' @
     require_aware (gd_accepted_at_utc d) ''accepted_at_utc'' @
     evidence_identity_guards (decision_evidence_identity d) @
     require_text (gd_review_policy_version d) ''review_policy_version'' @
     require_text (gd_review_authority_policy_version d) ''review_authority_policy_version'' @
     opt_guards (gd_applicability_expires_at_utc d) (\<lambda>t. require_aware t ''applicability_expires_at_utc'') @
     (if gd_review_channel d = Workbench
      then [(gd_presentation_receipt_id d = None \<or> gd_queue_snapshot_digest d = None,
             ValueError ''Workbench review decision requires presentation context'')]
      else [(gd_presentation_receipt_id d \<noteq> None \<or> gd_queue_snapshot_digest d \<noteq> None,
             ValueError ''non-Workbench review decision cannot carry presentation context'')]) @
     [(gd_reason_codes d = [], ValueError ''reason_codes is required'')] @
     opt_guards (gd_snoozed_until_utc d) (\<lambda>t. require_aware t ''snoozed_until_utc'')"

definition authority_grant_of :: "governed_decision \<Rightarrow> authority_grant option res" where
  \<comment> \<open>the property \<open>authority_grant\<close>\<close>
  "authority_grant_of d =
    (if gd_action d \<noteq> Approve_For_Conversion \<or> gd_review_channel d = Legacy_Unverified
     then Inr None
     else
       let g = \<lparr>gr_review_id = gd_review_id d, gr_candidate_evidence = decision_evidence_identity d,
             gr_review_channel = gd_review_channel d, gr_actor_subject = gd_actor_subject d,
             gr_actor_role = role_value (gd_actor_role d),
             gr_review_policy_version = gd_review_policy_version d,
             gr_accepted_at_utc = gd_accepted_at_utc d,
             gr_applicability_expires_at_utc = gd_applicability_expires_at_utc d,
             gr_authority_policy_version = gd_review_authority_policy_version d,
             gr_presentation_receipt_id = gd_presentation_receipt_id d,
             gr_queue_snapshot_digest = gd_queue_snapshot_digest d, gr_status = Auth_Active\<rparr>
       in checks (evidence_identity_guards (decision_evidence_identity d) @ authority_grant_guards g)
            (Some g))"

record governed_feedback =
  gf_feedback :: idea_feedback
  gf_candidate_id :: string
  gf_evidence_packet_id :: string
  gf_evidence_content_hash :: string
  gf_source_signal_ids :: "string list"
  gf_actor_subject :: string
  gf_actor_role :: review_role
  gf_candidate_family :: opportunity_family
  gf_candidate_identity_policy_version :: string
  gf_score_policy_version :: "string option"
  gf_score :: "decimal option"
  gf_evidence_supportability :: supportability
  gf_ranking_policy_version :: string
  gf_queue_priority_bucket :: "priority_bucket option"
  gf_accepted_at_utc :: py_datetime
  gf_acceptance_time_source :: acceptance_time_source

definition governed_feedback_guards :: "governed_feedback \<Rightarrow> guards" where
  "governed_feedback_guards e =
     require_text (gf_candidate_id e) ''candidate_id'' @
     require_text (gf_evidence_packet_id e) ''evidence_packet_id'' @
     require_text (gf_evidence_content_hash e) ''evidence_content_hash'' @
     require_text (gf_actor_subject e) ''actor_subject'' @
     require_aware (gf_accepted_at_utc e) ''accepted_at_utc'' @
     require_text (gf_candidate_identity_policy_version e) ''candidate_identity_policy_version'' @
     require_text (gf_ranking_policy_version e) ''ranking_policy_version'' @
     require_opt_text (gf_score_policy_version e) ''score_policy_version'' @
     [((gf_score e = None) \<noteq> (gf_score_policy_version e = None),
       ValueError ''score and score_policy_version must be provided together''),
      (gf_source_signal_ids e = [], ValueError ''source_signal_ids is required'')]"

record review_result =
  ra_source_candidate :: idea_candidate
  ra_candidate :: idea_candidate
  ra_decision :: governed_decision
  ra_audit_event :: audit_event
  ra_authority_grant :: "authority_grant option"
  ra_queue_snooze :: "queue_snooze option"

record feedback_result =
  fr_feedback_event :: governed_feedback
  fr_audit_event :: audit_event

section \<open>Mutation identities\<close>

record review_mutation =
  rm_mutation_type :: review_mutation_type
  rm_resource_id :: string
  rm_candidate_id :: string
  rm_evidence_packet_id :: string
  rm_evidence_content_hash :: string
  rm_actor_subject :: string
  rm_actor_role :: review_role
  rm_event_name :: string
  rm_reason_codes :: "reason_code list"
  rm_occurred_at_utc :: py_datetime
  rm_candidate_material_version :: "int option"
  rm_candidate_evidence_version :: "int option"
  rm_review_channel :: "review_channel option"
  rm_presentation_receipt_id :: "string option"
  rm_review_authority_policy_version :: "string option"
  rm_resulting_posture :: "review_posture option"
  rm_suppression_reason :: "suppression_reason option"
  rm_snoozed_until_utc :: "py_datetime option"
  rm_source_signal_ids :: "string list"
  rm_feedback_taxonomy_version :: "string option"
  rm_feedback_reason :: "feedback_reason option"

definition review_mutation_guards :: "review_mutation \<Rightarrow> guards" where
  "review_mutation_guards m =
     require_text (rm_resource_id m) ''resource_id'' @
     require_text (rm_candidate_id m) ''candidate_id'' @
     require_text (rm_evidence_packet_id m) ''evidence_packet_id'' @
     require_text (rm_evidence_content_hash m) ''evidence_content_hash'' @
     require_text (rm_actor_subject m) ''actor_subject'' @
     require_text (rm_event_name m) ''event_name'' @
     require_aware (rm_occurred_at_utc m) ''occurred_at_utc'' @
     [(rm_reason_codes m = [], ValueError ''reason_codes is required'')] @
     opt_guards (rm_snoozed_until_utc m) (\<lambda>t. require_aware t ''snoozed_until_utc'') @
     (if rm_mutation_type m = Feedback_Event_Mutation
      then [(rm_feedback_taxonomy_version m = None \<or> rm_feedback_reason m = None,
             ValueError ''feedback mutation identity requires taxonomy version and reason''),
            (rm_candidate_material_version m \<noteq> None \<or> rm_candidate_evidence_version m \<noteq> None \<or>
             rm_review_channel m \<noteq> None \<or> rm_presentation_receipt_id m \<noteq> None \<or>
             rm_review_authority_policy_version m \<noteq> None,
             ValueError ''feedback mutation identity cannot carry review authority fields'')]
      else [(rm_feedback_taxonomy_version m \<noteq> None \<or> rm_feedback_reason m \<noteq> None,
             ValueError ''review decision identity cannot carry feedback taxonomy fields''),
            (rm_candidate_material_version m = None \<or> rm_candidate_evidence_version m = None \<or>
             rm_review_channel m = None \<or> rm_review_authority_policy_version m = None,
             ValueError ''review decision identity requires candidate evidence versions, channel, and authority policy''),
            (rm_review_channel m = Some Workbench \<and> rm_presentation_receipt_id m = None,
             ValueError ''Workbench review identity requires presentation receipt''),
            (rm_review_channel m \<noteq> Some Workbench \<and> rm_presentation_receipt_id m \<noteq> None,
             ValueError ''non-Workbench review identity cannot carry presentation receipt'')])"

text \<open>\<open>==\<close> of two mutation identities: the timestamps compare as instants.\<close>

definition same_review_mutation :: "review_mutation \<Rightarrow> review_mutation \<Rightarrow> bool" where
  "same_review_mutation a b \<longleftrightarrow>
     dt_eq (rm_occurred_at_utc a) (rm_occurred_at_utc b) \<and>
     opt_dt_eq (rm_snoozed_until_utc a) (rm_snoozed_until_utc b) \<and>
     a\<lparr>rm_occurred_at_utc := utc 0, rm_snoozed_until_utc := None\<rparr> =
     b\<lparr>rm_occurred_at_utc := utc 0, rm_snoozed_until_utc := None\<rparr>"

definition canonical_owned_reason_codes :: "reason_code \<Rightarrow> reason_code list \<Rightarrow> reason_code list" where
  "canonical_owned_reason_codes owner_reason caller_reason_codes =
     owner_reason # filter (\<lambda>r. r \<noteq> owner_reason) caller_reason_codes"

definition review_mutation_from_command :: "idea_candidate \<Rightarrow> review_command \<Rightarrow> review_mutation res" where
  "review_mutation_from_command c w =
    (let e = rw_expected_candidate_evidence w;
         m = \<lparr>rm_mutation_type = Review_Decision_Mutation, rm_resource_id = rw_review_id w,
           rm_candidate_id = cd_candidate_id c, rm_evidence_packet_id = ei_evidence_packet_id e,
           rm_evidence_content_hash = ei_evidence_content_hash e,
           rm_actor_subject = ac_actor_subject (rw_actor w), rm_actor_role = ac_role (rw_actor w),
           rm_event_name = action_value (rw_action w),
           rm_reason_codes = canonical_owned_reason_codes (action_reason_code (rw_action w)) (rw_reason_codes w),
           rm_occurred_at_utc = rw_decided_at_utc w,
           rm_candidate_material_version = Some (ei_material_version e),
           rm_candidate_evidence_version = Some (ei_evidence_version e),
           rm_review_channel = Some (rw_review_channel w),
           rm_presentation_receipt_id = rw_presentation_receipt_id w,
           rm_review_authority_policy_version = Some REVIEW_AUTHORITY_POLICY_VERSION,
           rm_resulting_posture = Some (action_posture (rw_action w)),
           rm_suppression_reason = rw_suppression_reason w,
           rm_snoozed_until_utc = rw_snoozed_until_utc w, rm_source_signal_ids = [],
           rm_feedback_taxonomy_version = None, rm_feedback_reason = None\<rparr>
     in checks (review_mutation_guards m) m)"

definition review_mutation_from_decision :: "governed_decision \<Rightarrow> review_mutation res" where
  "review_mutation_from_decision d =
    (let m = \<lparr>rm_mutation_type = Review_Decision_Mutation, rm_resource_id = gd_review_id d,
           rm_candidate_id = gd_candidate_id d, rm_evidence_packet_id = gd_evidence_packet_id d,
           rm_evidence_content_hash = gd_evidence_content_hash d,
           rm_actor_subject = gd_actor_subject d, rm_actor_role = gd_actor_role d,
           rm_event_name = action_value (gd_action d), rm_reason_codes = gd_reason_codes d,
           rm_occurred_at_utc = gd_decided_at_utc d,
           rm_candidate_material_version = Some (gd_candidate_material_version d),
           rm_candidate_evidence_version = Some (gd_candidate_evidence_version d),
           rm_review_channel = Some (gd_review_channel d),
           rm_presentation_receipt_id = gd_presentation_receipt_id d,
           rm_review_authority_policy_version = Some (gd_review_authority_policy_version d),
           rm_resulting_posture = Some (gd_resulting_posture d),
           rm_suppression_reason = gd_suppression_reason d,
           rm_snoozed_until_utc = gd_snoozed_until_utc d, rm_source_signal_ids = [],
           rm_feedback_taxonomy_version = None, rm_feedback_reason = None\<rparr>
     in checks (review_mutation_guards m) m)"

definition feedback_mutation ::
    "string \<Rightarrow> string \<Rightarrow> string \<Rightarrow> string \<Rightarrow> string \<Rightarrow> review_role \<Rightarrow> string \<Rightarrow> py_datetime \<Rightarrow>
     string list \<Rightarrow> string \<Rightarrow> feedback_reason \<Rightarrow> review_mutation res" where
  \<comment> \<open>the fields the two feedback constructors share\<close>
  "feedback_mutation resource_id candidate_id packet_id content_hash subject role event_name t signals
     taxonomy reason =
    (let m = \<lparr>rm_mutation_type = Feedback_Event_Mutation, rm_resource_id = resource_id,
           rm_candidate_id = candidate_id, rm_evidence_packet_id = packet_id,
           rm_evidence_content_hash = content_hash, rm_actor_subject = subject, rm_actor_role = role,
           rm_event_name = event_name, rm_reason_codes = [R_Feedback_Recorded],
           rm_occurred_at_utc = t, rm_candidate_material_version = None,
           rm_candidate_evidence_version = None, rm_review_channel = None,
           rm_presentation_receipt_id = None, rm_review_authority_policy_version = None,
           rm_resulting_posture = None, rm_suppression_reason = None, rm_snoozed_until_utc = None,
           rm_source_signal_ids = signals, rm_feedback_taxonomy_version = Some taxonomy,
           rm_feedback_reason = Some reason\<rparr>
     in checks (review_mutation_guards m) m)"

definition feedback_mutation_from_command :: "idea_candidate \<Rightarrow> feedback_command \<Rightarrow> review_mutation res" where
  "feedback_mutation_from_command c w =
     feedback_mutation (fc_feedback_id w) (cd_candidate_id c)
       (ep_evidence_packet_id (cd_evidence_packet c))
       (ln_content_hash (ep_lineage_ref (cd_evidence_packet c)))
       (ac_actor_subject (fc_actor w)) (ac_role (fc_actor w)) (feedback_outcome_value (fc_outcome w))
       (fc_recorded_at_utc w) (cd_source_signal_ids c) (fc_taxonomy_version w) (fc_reason w)"

definition feedback_mutation_from_event :: "governed_feedback \<Rightarrow> review_mutation res" where
  "feedback_mutation_from_event e =
     feedback_mutation (fb_feedback_id (gf_feedback e)) (gf_candidate_id e) (gf_evidence_packet_id e)
       (gf_evidence_content_hash e) (gf_actor_subject e) (gf_actor_role e)
       (feedback_outcome_value (fb_outcome (gf_feedback e))) (fb_recorded_at_utc (gf_feedback e))
       (gf_source_signal_ids e) (fb_taxonomy_version (gf_feedback e)) (fb_reason (gf_feedback e))"

section \<open>Applying a review action\<close>

definition invalid_review_action :: "idea_candidate \<Rightarrow> review_action \<Rightarrow> py_error" where
  "invalid_review_action c action =
     InvalidReviewAction (action_value action) (lifecycle_value (cd_lifecycle_status c))
       (posture_value (cd_review_posture c))"

definition ensure_actor_scope ::
    "string \<Rightarrow> review_action \<Rightarrow> actor_context \<Rightarrow> access_scope option \<Rightarrow> action_policy \<Rightarrow> unit res" where
  "ensure_actor_scope candidate_id action actor scope policy =
    (case scope of
       None \<Rightarrow> Inl (ReviewEntitlementDenied candidate_id)
     | Some s \<Rightarrow>
         if \<not> can_access actor s then Inl (ReviewEntitlementDenied candidate_id)
         else bind_res (policy_allows policy actor action) (\<lambda>allowed.
           checks [(\<not> allowed, ReviewEntitlementDenied candidate_id)] ()))"

definition ensure_review_actor :: "idea_candidate \<Rightarrow> review_command \<Rightarrow> action_policy \<Rightarrow> unit res" where
  "ensure_review_actor c w policy =
     bind_res (ensure_actor_scope (cd_candidate_id c) (rw_action w) (rw_actor w) (cd_access_scope c) policy)
       (\<lambda>_. checks [((rw_review_channel w = Workbench \<and> ac_role (rw_actor w) \<noteq> Role_Advisor) \<or>
                     (rw_review_channel w = Operator_Channel \<and> ac_role (rw_actor w) \<noteq> Role_Operator),
                     ReviewEntitlementDenied (cd_candidate_id c))] ())"

definition authorize_review_action :: "idea_candidate \<Rightarrow> review_command \<Rightarrow> action_policy \<Rightarrow> unit res" where
  "authorize_review_action c w policy = ensure_review_actor c w policy"

definition ensure_allowed :: "idea_candidate \<Rightarrow> review_command \<Rightarrow> action_policy \<Rightarrow> unit res" where
  "ensure_allowed c w policy =
     bind_res (ensure_review_actor c w policy) (\<lambda>_.
       checks [(cd_lifecycle_status c \<notin> action_lifecycle_statuses (rw_action w),
                invalid_review_action c (rw_action w))] ())"

definition validate_review_presentation ::
    "review_command \<Rightarrow> presentation_receipt option \<Rightarrow> py_datetime \<Rightarrow> string option res" where
  "validate_review_presentation w receipt accepted_at_utc =
    (if rw_review_channel w = Operator_Channel
     then checks [(receipt \<noteq> None,
            ValueError ''operator review cannot use a Workbench presentation receipt'')] None
     else case receipt of
         None \<Rightarrow> Inl (ValueError ''Workbench review requires a persisted presentation receipt'')
       | Some r \<Rightarrow>
           checks ([(Some (pr_receipt_id r) \<noteq> rw_presentation_receipt_id w,
                    ValueError ''presentation receipt identity does not match the review command'')] @
                   workbench_presentation_guards (rw_expected_candidate_evidence w) r accepted_at_utc)
             (Some (pr_queue_snapshot_digest r)))"

definition ensure_evidence_ready :: "idea_candidate \<Rightarrow> review_action \<Rightarrow> py_datetime \<Rightarrow> guards" where
  "ensure_evidence_ready c action accepted_at_utc =
     [(ep_supportability (cd_evidence_packet c) \<noteq> Support_Ready, invalid_review_action c action),
      (action = Approve_For_Conversion \<and>
       \<not> source_cut_is_authoritative (packet_cut_posture (cd_evidence_packet c)),
       invalid_review_action c action),
      (some_satisfies (\<lambda>x. dt_le x accepted_at_utc) (ep_applicability_expires_at_utc (cd_evidence_packet c)),
       invalid_review_action c action)]"

definition ensure_terminal_review_allowed :: "idea_candidate \<Rightarrow> review_action \<Rightarrow> guards" where
  "ensure_terminal_review_allowed c action =
     [(cd_lifecycle_status c \<notin> DECISION_LIFECYCLE_STATUSES, invalid_review_action c action)]"

text \<open>The transitions of a review carry the acceptance time, so the default timestamp is
  never used.\<close>

abbreviation review_transition ::
    "idea_candidate \<Rightarrow> lifecycle_status \<Rightarrow> py_datetime \<Rightarrow> idea_candidate res" where
  "review_transition c target t \<equiv> transition_candidate t c target (Some t)"

definition candidate_after_review :: "idea_candidate \<Rightarrow> review_command \<Rightarrow> py_datetime \<Rightarrow> idea_candidate res" where
  "candidate_after_review c w t =
    (case rw_action w of
       Approve_For_Conversion \<Rightarrow>
         bind_res (checks (ensure_evidence_ready c (rw_action w) t) ()) (\<lambda>_.
         bind_res
           (if cd_lifecycle_status c = Ready_For_Review
            then bind_res (review_transition c Reviewed_By_Advisor t)
                   (\<lambda>reviewed. review_transition reviewed Approved t)
            else if cd_lifecycle_status c = Reviewed_By_Advisor
            then review_transition c Approved t
            else Inl (invalid_review_action c (rw_action w)))
           (\<lambda>approved. mk_candidate (approved\<lparr>cd_review_posture := Approved_For_Conversion,
                                              cd_updated_at_utc := t\<rparr>)))
     | Reject \<Rightarrow>
         bind_res (checks (ensure_terminal_review_allowed c (rw_action w)) ()) (\<lambda>_.
         bind_res (review_transition c Rejected t) (\<lambda>d.
         mk_candidate (d\<lparr>cd_review_posture := Posture_Rejected\<rparr>)))
     | Take_No_Action \<Rightarrow>
         bind_res (checks (ensure_terminal_review_allowed c (rw_action w)) ()) (\<lambda>_.
         bind_res (review_transition c Closed t) (\<lambda>d.
         mk_candidate (d\<lparr>cd_review_posture := No_Action\<rparr>)))
     | Suppress \<Rightarrow>
         mk_candidate (c\<lparr>cd_review_posture := Suppressed,
                         cd_suppression_reason := rw_suppression_reason w, cd_updated_at_utc := t\<rparr>)
     | Snooze \<Rightarrow> mk_candidate (c\<lparr>cd_updated_at_utc := t\<rparr>)
     | Escalate_To_PM \<Rightarrow>
         mk_candidate (c\<lparr>cd_review_posture := PM_Review_Required, cd_updated_at_utc := t\<rparr>)
     | Escalate_To_Compliance \<Rightarrow>
         mk_candidate (c\<lparr>cd_review_posture := Compliance_Review_Required, cd_updated_at_utc := t\<rparr>))"

definition review_audit_event :: "governed_decision \<Rightarrow> idea_candidate \<Rightarrow> idea_candidate \<Rightarrow> audit_event res" where
  "review_audit_event d before after =
     mk_audit_event ''idea.review.decision_recorded'' (gd_actor_subject d) ''accepted''
       (gd_accepted_at_utc d)
       [(''actor_role'', role_value (gd_actor_role d)),
        (''candidate_id'', cd_candidate_id before),
        (''candidate_family'', family_value (cd_family before)),
        (''source_revision_vector_digest'', gd_source_revision_vector_digest d),
        (''source_cut_posture'', cut_value (gd_source_cut_posture d)),
        (''evidence_packet_id'', gd_evidence_packet_id d),
        (''candidate_material_version'', int_str (gd_candidate_material_version d)),
        (''candidate_evidence_version'', int_str (gd_candidate_evidence_version d)),
        (''review_channel'', channel_value (gd_review_channel d)),
        (''presentation_receipt_id'',
         (if or_else (gd_presentation_receipt_id d) [] = [] then ''none''
          else the (gd_presentation_receipt_id d))),
        (''review_action_policy_version'', gd_review_policy_version d),
        (''review_authority_policy_version'', gd_review_authority_policy_version d),
        (''policy_version'', CANDIDATE_STATE_POLICY_VERSION),
        (''prior_lifecycle_status'', lifecycle_value (cd_lifecycle_status before)),
        (''prior_review_posture'', posture_value (cd_review_posture before)),
        (''requested_action'', action_value (gd_action d)),
        (''reason_codes'', join '','' (map reason_value (gd_reason_codes d))),
        (''review_action'', action_value (gd_action d)),
        (''review_posture'', posture_value (cd_review_posture after)),
        (''observed_at_utc'', dt_iso (gd_decided_at_utc d))]"

definition governed_decision_for ::
    "idea_candidate \<Rightarrow> review_command \<Rightarrow> py_datetime \<Rightarrow> string option \<Rightarrow> action_policy \<Rightarrow> governed_decision" where
  "governed_decision_for c w accepted_at_utc snapshot_digest policy =
     \<lparr>gd_review_id = rw_review_id w, gd_candidate_id = cd_candidate_id c,
      gd_evidence_packet_id = ep_evidence_packet_id (cd_evidence_packet c),
      gd_evidence_content_hash = ln_content_hash (ep_lineage_ref (cd_evidence_packet c)),
      gd_source_revision_vector_digest = packet_revision_digest (cd_evidence_packet c),
      gd_source_cut_posture = packet_cut_posture (cd_evidence_packet c),
      gd_candidate_material_version = id_material_version (cd_identity c),
      gd_candidate_evidence_version = id_evidence_version (cd_identity c),
      gd_review_channel = rw_review_channel w,
      gd_presentation_receipt_id = rw_presentation_receipt_id w,
      gd_queue_snapshot_digest = snapshot_digest,
      gd_review_policy_version = ap_policy_version policy, gd_action = rw_action w,
      gd_resulting_posture = action_posture (rw_action w),
      gd_actor_subject = ac_actor_subject (rw_actor w), gd_actor_role = ac_role (rw_actor w),
      gd_reason_codes = canonical_owned_reason_codes (action_reason_code (rw_action w)) (rw_reason_codes w),
      gd_decided_at_utc = rw_decided_at_utc w, gd_accepted_at_utc = accepted_at_utc,
      gd_review_authority_policy_version = REVIEW_AUTHORITY_POLICY_VERSION,
      gd_applicability_expires_at_utc = ep_applicability_expires_at_utc (cd_evidence_packet c),
      gd_acceptance_time_source = Server_Accepted,
      gd_suppression_reason = rw_suppression_reason w,
      gd_snoozed_until_utc = rw_snoozed_until_utc w\<rparr>"

definition queue_snooze_for :: "governed_decision \<Rightarrow> queue_snooze option res" where
  "queue_snooze_for d =
    (case gd_snoozed_until_utc d of
       Some t \<Rightarrow>
         if gd_action d = Snooze
         then let s = \<lparr>qs_candidate_id = gd_candidate_id d, qs_snoozed_until_utc = t,
                       qs_reason_codes = gd_reason_codes d\<rparr>
              in checks (queue_snooze_guards s) (Some s)
         else Inr None
     | None \<Rightarrow> Inr None)"

definition apply_review_action ::
    "idea_candidate \<Rightarrow> review_command \<Rightarrow> py_datetime \<Rightarrow> presentation_receipt option \<Rightarrow> action_policy \<Rightarrow>
     review_result res" where
  "apply_review_action c w accepted_at_utc receipt policy =
     bind_res (checks (require_aware accepted_at_utc ''accepted_at_utc'') ()) (\<lambda>_.
     bind_res (ensure_allowed c w policy) (\<lambda>_.
     bind_res (validate_expected_candidate_evidence (rw_expected_candidate_evidence w) c) (\<lambda>_.
     bind_res (validate_review_presentation w receipt accepted_at_utc) (\<lambda>snapshot_digest.
     bind_res (checks (require_observed_time_within_policy (rw_decided_at_utc w) accepted_at_utc
                 REVIEW_DECISION_TIME_POLICY) ()) (\<lambda>_.
     bind_res (checks [(some_satisfies (\<lambda>t. dt_le t accepted_at_utc) (rw_snoozed_until_utc w),
                 ValueError ''snoozed_until_utc must be after accepted_at_utc'')] ()) (\<lambda>_.
     bind_res (candidate_after_review c w accepted_at_utc) (\<lambda>updated.
     let d = governed_decision_for c w accepted_at_utc snapshot_digest policy in
     bind_res (checks (governed_decision_guards d) ()) (\<lambda>_.
     bind_res (authority_grant_of d) (\<lambda>grant.
     bind_res (queue_snooze_for d) (\<lambda>snooze.
     bind_res (review_audit_event d c updated) (\<lambda>audit.
     Inr \<lparr>ra_source_candidate = c, ra_candidate = updated, ra_decision = d, ra_audit_event = audit,
          ra_authority_grant = grant, ra_queue_snooze = snooze\<rparr>)))))))))))"

section \<open>Feedback\<close>

definition governed_feedback_for ::
    "idea_candidate \<Rightarrow> feedback_command \<Rightarrow> py_datetime \<Rightarrow> priority_bucket option \<Rightarrow> governed_feedback" where
  "governed_feedback_for c w accepted_at_utc bucket =
     \<lparr>gf_feedback = \<lparr>fb_feedback_id = fc_feedback_id w, fb_outcome = fc_outcome w,
        fb_reason = fc_reason w, fb_taxonomy_version = fc_taxonomy_version w,
        fb_actor_role = role_value (ac_role (fc_actor w)), fb_recorded_at_utc = fc_recorded_at_utc w\<rparr>,
      gf_candidate_id = cd_candidate_id c,
      gf_evidence_packet_id = ep_evidence_packet_id (cd_evidence_packet c),
      gf_evidence_content_hash = ln_content_hash (ep_lineage_ref (cd_evidence_packet c)),
      gf_source_signal_ids = cd_source_signal_ids c,
      gf_actor_subject = ac_actor_subject (fc_actor w), gf_actor_role = ac_role (fc_actor w),
      gf_candidate_family = cd_family c,
      gf_candidate_identity_policy_version = id_policy_version (cd_identity c),
      gf_score_policy_version = map_option is_policy_version (cd_score c),
      gf_score = map_option is_score (cd_score c),
      gf_evidence_supportability = ep_supportability (cd_evidence_packet c),
      gf_ranking_policy_version = qp_policy_version DEFAULT_REVIEW_QUEUE_POLICY,
      gf_queue_priority_bucket = bucket, gf_accepted_at_utc = accepted_at_utc,
      gf_acceptance_time_source = Server_Accepted\<rparr>"

definition feedback_bucket :: "idea_candidate \<Rightarrow> priority_bucket option res" where
  "feedback_bucket c =
    (case cd_score c of
       None \<Rightarrow> Inr None
     | Some s \<Rightarrow>
         if accepts_score_policy DEFAULT_REVIEW_QUEUE_POLICY (is_policy_version s)
         then bind_res (priority_bucket_for_score DEFAULT_REVIEW_QUEUE_POLICY (is_score s)) (\<lambda>b. Inr (Some b))
         else Inr None)"

definition record_feedback ::
    "idea_candidate \<Rightarrow> feedback_command \<Rightarrow> py_datetime \<Rightarrow> action_policy \<Rightarrow> feedback_result res" where
  "record_feedback c w accepted_at_utc policy =
     bind_res (checks (require_aware accepted_at_utc ''accepted_at_utc'') ()) (\<lambda>_.
     bind_res (ensure_actor_scope (cd_candidate_id c) Take_No_Action (fc_actor w) (cd_access_scope c) policy) (\<lambda>_.
     bind_res (checks (require_observed_time_within_policy (fc_recorded_at_utc w) accepted_at_utc
                 FEEDBACK_TIME_POLICY) ()) (\<lambda>_.
     bind_res (checks (idea_feedback_guards (gf_feedback (governed_feedback_for c w accepted_at_utc None))) ()) (\<lambda>_.
     bind_res (feedback_bucket c) (\<lambda>bucket.
     let e = governed_feedback_for c w accepted_at_utc bucket in
     bind_res (checks (governed_feedback_guards e) ()) (\<lambda>_.
     bind_res (mk_audit_event ''idea.feedback.recorded'' (ac_actor_subject (fc_actor w)) ''accepted''
         accepted_at_utc
         [(''actor_role'', role_value (ac_role (fc_actor w))),
          (''candidate_family'', family_value (cd_family c)),
          (''evidence_packet_id'', ep_evidence_packet_id (cd_evidence_packet c)),
          (''feedback_outcome'', feedback_outcome_value (fc_outcome w)),
          (''feedback_reason'', feedback_reason_value (fc_reason w)),
          (''feedback_taxonomy_version'', fc_taxonomy_version w),
          (''observed_at_utc'', dt_iso (fc_recorded_at_utc w))]) (\<lambda>audit.
     Inr \<lparr>fr_feedback_event = e, fr_audit_event = audit\<rparr>)))))))"

section \<open>What an action does to the candidate\<close>

text \<open>The contract of the seven actions on the status and posture of a candidate.\<close>

fun review_outcome ::
    "review_action \<Rightarrow> lifecycle_status \<times> review_posture \<Rightarrow> lifecycle_status \<times> review_posture" where
  "review_outcome Approve_For_Conversion s = (Approved, Approved_For_Conversion)"
| "review_outcome Reject s = (Rejected, Posture_Rejected)"
| "review_outcome Take_No_Action s = (Closed, No_Action)"
| "review_outcome Suppress s = (fst s, Suppressed)"
| "review_outcome Snooze s = s"
| "review_outcome Escalate_To_PM s = (fst s, PM_Review_Required)"
| "review_outcome Escalate_To_Compliance s = (fst s, Compliance_Review_Required)"

definition reviewed_candidate :: "idea_candidate \<Rightarrow> review_command \<Rightarrow> py_datetime \<Rightarrow> idea_candidate" where
  "reviewed_candidate c w t =
     (let s = review_outcome (rw_action w) (cd_lifecycle_status c, cd_review_posture c) in
      c\<lparr>cd_lifecycle_status := fst s, cd_review_posture := snd s,
        cd_suppression_reason :=
          (if rw_action w = Suppress then rw_suppression_reason w else cd_suppression_reason c),
        cd_updated_at_utc := t\<rparr>)"

lemma reviewed_candidate_simps [simp]:
  "cd_candidate_id (reviewed_candidate c w t) = cd_candidate_id c"
  "cd_identity (reviewed_candidate c w t) = cd_identity c"
  "cd_evidence_packet (reviewed_candidate c w t) = cd_evidence_packet c"
  "cd_access_scope (reviewed_candidate c w t) = cd_access_scope c"
  "cd_updated_at_utc (reviewed_candidate c w t) = t"
  "(cd_lifecycle_status (reviewed_candidate c w t), cd_review_posture (reviewed_candidate c w t)) =
     review_outcome (rw_action w) (cd_lifecycle_status c, cd_review_posture c)"
  "evidence_identity_of (reviewed_candidate c w t) = evidence_identity_of c"
  by (simp_all add: reviewed_candidate_def Let_def evidence_identity_of_def)

lemma candidate_after_review_Inr:
  assumes "candidate_after_review c w t = Inr d"
  shows "d = reviewed_candidate c w t \<and> valid_candidate d"
proof -
  show ?thesis
    using assms
    by (cases "rw_action w")
      (auto simp: candidate_after_review_def reviewed_candidate_def bind_res_Inr mk_candidate_Inr Let_def
        split: if_splits dest!: transition_candidate_Inr)
qed

lemma reviewed_candidate_valid:
  "valid_candidate c \<Longrightarrow> cd_lifecycle_status c \<in> action_lifecycle_statuses (rw_action w) \<Longrightarrow> aware t \<Longrightarrow>
     valid_candidate (reviewed_candidate c w t)"
  by (cases "rw_action w"; cases "cd_lifecycle_status c")
    (simp_all add: valid_candidate_iff reviewed_candidate_def Let_def candidate_state_defs
      DECISION_LIFECYCLE_STATUSES_def REVIEWABLE_LIFECYCLE_STATUSES_def)

lemma review_transition_ok:
  assumes "valid_candidate c" "target \<in> ALLOWED_LIFECYCLE_TRANSITIONS (cd_lifecycle_status c)" "aware t"
    and "normalized_transition_posture target = Some p"
  shows "review_transition c target t =
    Inr (c\<lparr>cd_lifecycle_status := target, cd_review_posture := p, cd_updated_at_utc := t\<rparr>)"
  by (rule transition_candidate_ok[OF assms(1,2), of "Some t" t])
    (use assms in \<open>simp_all add: review_posture_for_transition_def\<close>)

lemma candidate_after_review_ok:
  assumes v: "valid_candidate c" and l: "cd_lifecycle_status c \<in> action_lifecycle_statuses (rw_action w)"
    and a: "aware t"
    and e: "rw_action w = Approve_For_Conversion \<Longrightarrow> passes (ensure_evidence_ready c (rw_action w) t)"
  shows "candidate_after_review c w t = Inr (reviewed_candidate c w t)"
proof -
  note vr = reviewed_candidate_valid[OF v l a]
  show ?thesis
  proof (cases "rw_action w")
    case Approve_For_Conversion
    then have d: "cd_lifecycle_status c = Ready_For_Review \<or> cd_lifecycle_status c = Reviewed_By_Advisor"
      using l by (simp add: DECISION_LIFECYCLE_STATUSES_def)
    let ?r = "c\<lparr>cd_lifecycle_status := Reviewed_By_Advisor, cd_review_posture := Advisor_Reviewed,
                cd_updated_at_utc := t\<rparr>"
    have "valid_candidate ?r" using v a by (simp add: valid_candidate_iff candidate_state_defs)
    then have "review_transition ?r Approved t = Inr (c\<lparr>cd_lifecycle_status := Approved,
        cd_review_posture := Approved_For_Conversion, cd_updated_at_utc := t\<rparr>)"
      using a by (subst review_transition_ok) simp_all
    moreover have "cd_lifecycle_status c = Ready_For_Review \<Longrightarrow>
        review_transition c Reviewed_By_Advisor t = Inr ?r"
      using v a by (intro review_transition_ok) simp_all
    moreover have "cd_lifecycle_status c = Reviewed_By_Advisor \<Longrightarrow>
        review_transition c Approved t = Inr (c\<lparr>cd_lifecycle_status := Approved,
        cd_review_posture := Approved_For_Conversion, cd_updated_at_utc := t\<rparr>)"
      using v a by (intro review_transition_ok) simp_all
    ultimately show ?thesis
      using d e vr Approve_For_Conversion
      by (auto simp: candidate_after_review_def reviewed_candidate_def mk_candidate_Inr Let_def)
  next
    case Reject
    then have d: "Rejected \<in> ALLOWED_LIFECYCLE_TRANSITIONS (cd_lifecycle_status c)"
      "passes (ensure_terminal_review_allowed c Reject)"
      using l by (auto simp: DECISION_LIFECYCLE_STATUSES_def ensure_terminal_review_allowed_def)
    show ?thesis
      using review_transition_ok[OF v d(1) a] d(2) vr Reject
      by (simp add: candidate_after_review_def reviewed_candidate_def mk_candidate_Inr valid_candidate_iff Let_def)
  next
    case Take_No_Action
    then have d: "Closed \<in> ALLOWED_LIFECYCLE_TRANSITIONS (cd_lifecycle_status c)"
      "passes (ensure_terminal_review_allowed c Take_No_Action)"
      using l by (auto simp: DECISION_LIFECYCLE_STATUSES_def ensure_terminal_review_allowed_def)
    show ?thesis
      using review_transition_ok[OF v d(1) a] d(2) vr Take_No_Action
      by (simp add: candidate_after_review_def reviewed_candidate_def mk_candidate_Inr valid_candidate_iff Let_def)
  qed (use vr in \<open>simp_all add: candidate_after_review_def reviewed_candidate_def mk_candidate_Inr Let_def\<close>)
qed
section \<open>Decisions and grants\<close>

lemma ensure_actor_scope_Inr:
  "ensure_actor_scope cid action actor scope policy = Inr () \<longleftrightarrow>
     (\<exists>s. scope = Some s \<and> can_access actor s \<and> policy_allows policy actor action = Inr True)"
  by (auto simp: ensure_actor_scope_def bind_res_Inr split: option.splits)

lemma ensure_allowed_Inr:
  "ensure_allowed c w policy = Inr () \<longleftrightarrow>
     (\<exists>s. cd_access_scope c = Some s \<and> can_access (rw_actor w) s) \<and>
     policy_allows policy (rw_actor w) (rw_action w) = Inr True \<and>
     (rw_review_channel w = Workbench \<longrightarrow> ac_role (rw_actor w) = Role_Advisor) \<and>
     (rw_review_channel w = Operator_Channel \<longrightarrow> ac_role (rw_actor w) = Role_Operator) \<and>
     cd_lifecycle_status c \<in> action_lifecycle_statuses (rw_action w)"
  by (auto simp: ensure_allowed_def ensure_review_actor_def bind_res_Inr ensure_actor_scope_Inr)

lemma validate_expected_Inr:
  "validate_expected_candidate_evidence e c = Inr () \<Longrightarrow> e = evidence_identity_of c"
  by (auto simp: validate_expected_candidate_evidence_def bind_res_Inr dest: evidence_identity_from_candidateD)

text \<open>Everything an accepted review action went through.\<close>

lemma apply_review_actionD:
  assumes "apply_review_action c w t receipt policy = Inr r"
  obtains digest where
      "aware t" and "ensure_allowed c w policy = Inr ()"
    and "rw_expected_candidate_evidence w = evidence_identity_of c"
    and "validate_review_presentation w receipt t = Inr digest"
    and "passes (require_observed_time_within_policy (rw_decided_at_utc w) t REVIEW_DECISION_TIME_POLICY)"
    and "candidate_after_review c w t = Inr (ra_candidate r)"
    and "ra_decision r = governed_decision_for c w t digest policy"
    and "passes (governed_decision_guards (ra_decision r))"
    and "authority_grant_of (ra_decision r) = Inr (ra_authority_grant r)"
    and "queue_snooze_for (ra_decision r) = Inr (ra_queue_snooze r)"
    and "review_audit_event (ra_decision r) c (ra_candidate r) = Inr (ra_audit_event r)"
    and "ra_source_candidate r = c"
proof -
  from assms obtain digest u g q au where
      a: "aware t" "ensure_allowed c w policy = Inr ()"
      "validate_expected_candidate_evidence (rw_expected_candidate_evidence w) c = Inr ()"
      "validate_review_presentation w receipt t = Inr digest"
      "passes (require_observed_time_within_policy (rw_decided_at_utc w) t REVIEW_DECISION_TIME_POLICY)"
      "candidate_after_review c w t = Inr u"
      "passes (governed_decision_guards (governed_decision_for c w t digest policy))"
      "authority_grant_of (governed_decision_for c w t digest policy) = Inr g"
      "queue_snooze_for (governed_decision_for c w t digest policy) = Inr q"
      "review_audit_event (governed_decision_for c w t digest policy) c u = Inr au"
    and r: "r = \<lparr>ra_source_candidate = c, ra_candidate = u,
          ra_decision = governed_decision_for c w t digest policy, ra_audit_event = au,
          ra_authority_grant = g, ra_queue_snooze = q\<rparr>"
    unfolding apply_review_action_def Let_def bind_checks_Inr bind_res_Inr by auto
  show thesis
    by (rule that[OF a(1,2) validate_expected_Inr[OF a(3)] a(4,5)]) (use a r in simp_all)
qed

lemma decision_evidence_identity_for [simp]:
  "decision_evidence_identity (governed_decision_for c w t digest policy) = evidence_identity_of c"
  by (simp add: decision_evidence_identity_def governed_decision_for_def evidence_identity_of_def)

text \<open>An approval: its grant is for the evidence of the approved candidate and is active when
  the review is accepted; no other action carries a grant.\<close>

lemma approval_grant:
  assumes r: "apply_review_action c w t receipt policy = Inr r" and wf: "well_formed_candidate c"
    and a: "rw_action w = Approve_For_Conversion" and ch: "rw_review_channel w \<noteq> Legacy_Unverified"
  obtains g where "ra_authority_grant r = Some g"
    and "gr_candidate_evidence g = evidence_identity_of (ra_candidate r)"
    and "effective_status g (ra_candidate r) t = Inr Auth_Active"
proof -
  obtain digest where d: "ra_decision r = governed_decision_for c w t digest policy"
    and g: "authority_grant_of (ra_decision r) = Inr (ra_authority_grant r)"
    and u: "candidate_after_review c w t = Inr (ra_candidate r)"
    and tm: "is_utc t"
    using apply_review_actionD[OF r] by (metis passes_observed_time)
  have e: "passes (ensure_evidence_ready c Approve_For_Conversion t)"
    using u a by (auto simp: candidate_after_review_def bind_res_Inr)
  have ur: "ra_candidate r = reviewed_candidate c w t" "valid_candidate (ra_candidate r)"
    using candidate_after_review_Inr[OF u] by blast+
  have wfu: "well_formed_candidate (ra_candidate r)"
    using wf ur by (simp add: well_formed_candidate_def)
  obtain gr where gr: "ra_authority_grant r = Some gr"
    "gr_candidate_evidence gr = evidence_identity_of c" "gr_status gr = Auth_Active"
    "gr_authority_policy_version gr = REVIEW_AUTHORITY_POLICY_VERSION"
    "gr_applicability_expires_at_utc gr = ep_applicability_expires_at_utc (cd_evidence_packet c)"
    using g d a ch by (auto simp: authority_grant_of_def governed_decision_for_def Let_def decision_evidence_identity_def evidence_identity_of_def)
  have "effective_status gr (ra_candidate r) t = Inr Auth_Active"
    using gr e tm evidence_identity_ok[OF wfu] ur
    by (simp add: effective_status_def ensure_evidence_ready_def)
  then show thesis using that[OF gr(1)] gr(2) ur by simp
qed

lemma no_grant_otherwise:
  assumes "apply_review_action c w t receipt policy = Inr r" "rw_action w \<noteq> Approve_For_Conversion"
  shows "ra_authority_grant r = None"
proof -
  obtain digest where "ra_decision r = governed_decision_for c w t digest policy"
    and "authority_grant_of (ra_decision r) = Inr (ra_authority_grant r)"
    by (rule apply_review_actionD[OF assms(1)])
  then show ?thesis using assms(2) by (simp add: authority_grant_of_def governed_decision_for_def)
qed

text \<open>A permitted action on a well-formed candidate succeeds. An approval also needs ready,
  authoritative and unexpired evidence whose expiry, if it has one, is written in UTC.\<close>

lemma apply_review_action_ok:
  assumes wf: "well_formed_candidate c" and w: "passes (review_command_guards w)"
    and al: "ensure_allowed c w policy = Inr ()"
    and ev: "rw_expected_candidate_evidence w = evidence_identity_of c"
    and pr: "validate_review_presentation w receipt t = Inr digest"
    and tm: "passes (require_observed_time_within_policy (rw_decided_at_utc w) t REVIEW_DECISION_TIME_POLICY)"
    and sn: "\<forall>x. rw_snoozed_until_utc w = Some x \<longrightarrow> inst t < inst x"
    and ap: "rw_action w = Approve_For_Conversion \<Longrightarrow> passes (ensure_evidence_ready c (rw_action w) t) \<and>
      (\<forall>x. ep_applicability_expires_at_utc (cd_evidence_packet c) = Some x \<longrightarrow> is_utc x)"
    and nb: "\<not> blank (ac_actor_subject (rw_actor w))" "\<not> blank (ap_policy_version policy)"
    and rp: "\<And>p. receipt = Some p \<Longrightarrow> passes (presentation_receipt_guards p)"
  shows "\<exists>r. apply_review_action c w t receipt policy = Inr r"
proof -
  let ?d = "governed_decision_for c w t digest policy"
  have awt: "aware t" "is_utc t" "aware (rw_decided_at_utc w)" using tm by auto
  have u: "candidate_after_review c w t = Inr (reviewed_candidate c w t)"
    using candidate_after_review_ok[of c w t] wf al ap awt
    by (auto simp: well_formed_candidate_def ensure_allowed_Inr)
  have ei: "passes (evidence_identity_guards (evidence_identity_of c))"
    using evidence_identity_ok[OF wf] by (auto simp: evidence_identity_from_candidate_def)
  have ei': "\<not> blank (cd_candidate_id c)" "\<not> blank (ep_evidence_packet_id (cd_evidence_packet c))"
    "\<not> blank (ln_content_hash (ep_lineage_ref (cd_evidence_packet c)))"
    "\<not> blank (packet_revision_digest (cd_evidence_packet c))"
    using ei by (simp_all add: evidence_identity_guards_def evidence_identity_of_def)
  have dg: "if rw_review_channel w = Workbench
     then (\<exists>i d. rw_presentation_receipt_id w = Some i \<and> \<not> blank i \<and> digest = Some d \<and> \<not> blank d)
     else rw_review_channel w = Operator_Channel \<and> rw_presentation_receipt_id w = None \<and> digest = None"
    using pr w rp by (auto simp: validate_review_presentation_def review_command_guards_def
        presentation_receipt_guards_def dest: sha256_digest_not_blank
        split: if_splits option.splits review_channel.splits)
  have ex: "\<forall>x. ep_applicability_expires_at_utc (cd_evidence_packet c) = Some x \<longrightarrow> aware x"
    using wf by (auto simp: well_formed_candidate_def valid_packet_def evidence_packet_guards_def)
  have sz: "\<forall>x. rw_snoozed_until_utc w = Some x \<longrightarrow> rw_action w = Snooze \<and> aware x"
    using w by (auto simp: review_command_guards_def review_field_compatibility_def)
  have pv: "\<not> blank REVIEW_AUTHORITY_POLICY_VERSION"
    by (simp add: REVIEW_AUTHORITY_POLICY_VERSION_def blank_iff py_space_def)
  have rid: "\<not> blank (rw_review_id w)" using w by (simp add: review_command_guards_def)
  have gd: "passes (governed_decision_guards ?d)"
    using ei ei' ex sz pv nb rid awt dg
    by (simp add: governed_decision_guards_def) 
       (auto simp: governed_decision_for_def canonical_owned_reason_codes_def split: if_splits)
  have gr: "\<exists>g. authority_grant_of ?d = Inr g"
  proof (cases "rw_action w = Approve_For_Conversion")
    case True
    then have "passes (ensure_evidence_ready c Approve_For_Conversion t)" using ap by simp
    then have "\<forall>x. ep_applicability_expires_at_utc (cd_evidence_packet c) = Some x \<longrightarrow> inst t < inst x"
      by (auto simp: ensure_evidence_ready_def dt_le_def)
    moreover have "\<not> blank (role_value x)" for x by (cases x) (simp_all add: blank_iff py_space_def)
    ultimately show ?thesis
      using ei nb rid pv awt ap dg True unfolding authority_grant_of_def Let_def
      by (auto simp: authority_grant_guards_def governed_decision_for_def decision_evidence_identity_def
          evidence_identity_of_def dt_le_def split: if_splits intro!: exI checks_passes)
  next
    case False
    then show ?thesis by (simp add: authority_grant_of_def governed_decision_for_def)
  qed
  have qs: "\<exists>g. queue_snooze_for ?d = Inr g"
    using sz ei' by (auto simp: queue_snooze_for_def governed_decision_for_def queue_snooze_guards_def Let_def
        canonical_owned_reason_codes_def checks_passes split: option.splits)
  have au: "\<exists>g. review_audit_event ?d c (reviewed_candidate c w t) = Inr g"
    using nb awt unfolding review_audit_event_def
    by (subst mk_audit_event_ok)
      (simp_all add: governed_decision_for_def blank_iff py_space_def FORBIDDEN_ATTRIBUTE_KEYS_def)
  have "checks [(some_satisfies (\<lambda>x. dt_le x t) (rw_snoozed_until_utc w), e)] () = Inr ()" for e
    using sn by (cases "rw_snoozed_until_utc w") (auto simp: dt_le_def checks_passes)
  moreover have "validate_expected_candidate_evidence (rw_expected_candidate_evidence w) c = Inr ()"
    using ev evidence_identity_ok[OF wf] by (simp add: validate_expected_candidate_evidence_def checks_passes)
  ultimately show ?thesis
    using gr qs au gd u pr al tm awt by (auto simp: apply_review_action_def Let_def)
qed

lemma canonical_reasons:
  "hd (canonical_owned_reason_codes x rs) = x \<and>
   filter ((=) x) (canonical_owned_reason_codes x rs) = [x] \<and>
   filter ((\<noteq>) x) (canonical_owned_reason_codes x rs) = filter ((\<noteq>) x) rs"
  by (induction rs) (auto simp: canonical_owned_reason_codes_def)

text \<open>The identity computed from a command is the one read back from the decision it
  produced, so a repeated command is recognised.\<close>

lemma review_mutation_roundtrip:
  assumes "apply_review_action c w t receipt policy = Inr r"
  shows "review_mutation_from_decision (ra_decision r) = review_mutation_from_command c w"
proof -
  obtain digest where "ra_decision r = governed_decision_for c w t digest policy"
    and "rw_expected_candidate_evidence w = evidence_identity_of c"
    by (rule apply_review_actionD[OF assms])
  then show ?thesis
    by (simp add: review_mutation_from_decision_def review_mutation_from_command_def
        governed_decision_for_def evidence_identity_of_def Let_def)
qed

lemma same_review_mutation_refl: "same_review_mutation m m"
  by (simp add: same_review_mutation_def)

lemma record_feedbackD:
  assumes "record_feedback c w t policy = Inr r"
  shows "ensure_actor_scope (cd_candidate_id c) Take_No_Action (fc_actor w) (cd_access_scope c) policy = Inr ()"
    and "gf_feedback (fr_feedback_event r) = gf_feedback (governed_feedback_for c w t None)"
    and "feedback_mutation_from_event (fr_feedback_event r) = feedback_mutation_from_command c w"
    and "gf_queue_priority_bucket (fr_feedback_event r) = (case cd_score c of None \<Rightarrow> None
      | Some s \<Rightarrow> if accepts_score_policy DEFAULT_REVIEW_QUEUE_POLICY (is_policy_version s)
          then (case priority_bucket_for_score DEFAULT_REVIEW_QUEUE_POLICY (is_score s) of
                  Inr b \<Rightarrow> Some b | Inl _ \<Rightarrow> None) else None)"
proof -
  from assms obtain b where e: "fr_feedback_event r = governed_feedback_for c w t b"
    and b: "feedback_bucket c = Inr b"
    and s: "ensure_actor_scope (cd_candidate_id c) Take_No_Action (fc_actor w) (cd_access_scope c) policy = Inr ()"
    unfolding record_feedback_def Let_def bind_checks_Inr bind_res_Inr by auto
  show "ensure_actor_scope (cd_candidate_id c) Take_No_Action (fc_actor w) (cd_access_scope c) policy = Inr ()"
    by (rule s)
  show "gf_feedback (fr_feedback_event r) = gf_feedback (governed_feedback_for c w t None)"
    by (simp add: e governed_feedback_for_def)
  show "feedback_mutation_from_event (fr_feedback_event r) = feedback_mutation_from_command c w"
    by (simp add: e governed_feedback_for_def feedback_mutation_from_event_def feedback_mutation_from_command_def)
  show "gf_queue_priority_bucket (fr_feedback_event r) = (case cd_score c of None \<Rightarrow> None
      | Some s \<Rightarrow> if accepts_score_policy DEFAULT_REVIEW_QUEUE_POLICY (is_policy_version s)
          then (case priority_bucket_for_score DEFAULT_REVIEW_QUEUE_POLICY (is_score s) of
                  Inr b \<Rightarrow> Some b | Inl _ \<Rightarrow> None) else None)"
    using b by (auto simp: e governed_feedback_for_def feedback_bucket_def bind_res_Inr
        split: option.splits if_splits)
qed

end
