(* ===== verification/Review_Properties.thy ===== *)
theory Review_Properties
imports Samples Review_Governance
begin

text \<open>
  The properties of human review: what a queue lists and in which order, what each review
  action does, which authority an approval grants and when that authority is lost.
\<close>

section \<open>A concrete review\<close>

definition sample_operator :: actor_context where
  "sample_operator =
     \<lparr>ac_actor_subject = ''operator-1'', ac_role = Role_Operator, ac_tenant_ids = [''tenant-1''],
      ac_book_ids = [''book-1''], ac_portfolio_ids = [''portfolio-1''], ac_client_ids = [''client-1'']\<rparr>"

definition sample_policy :: action_policy where
  "sample_policy =
     \<lparr>ap_policy_version = ''operations-v1'',
      ap_allowed_roles_by_action = map (\<lambda>a. (a, [Role_Operator])) review_actions\<rparr>"

definition sample_review :: "review_action \<Rightarrow> review_command" where
  "sample_review action =
     \<lparr>rw_review_id = ''review-1'', rw_action = action, rw_actor = sample_operator,
      rw_reason_codes = [R_High_Cash_Ratio], rw_decided_at_utc = utc 100,
      rw_expected_candidate_evidence = evidence_identity_of sample_candidate,
      rw_review_channel = Operator_Channel, rw_presentation_receipt_id = None,
      rw_suppression_reason = (if action = Suppress then Some Sup_Duplicate else None),
      rw_snoozed_until_utc = None\<rparr>"

lemma sample_review_guards: "action \<noteq> Snooze \<Longrightarrow> passes (review_command_guards (sample_review action))"
  by (simp add: review_command_guards_def sample_review_def review_field_compatibility_def blank_iff py_space_def)

lemma sample_review_allowed:
  "Ready_For_Review \<in> action_lifecycle_statuses action \<Longrightarrow>
     ensure_allowed sample_candidate (sample_review action) sample_policy = Inr ()"
  by (cases action)
    (auto simp: ensure_allowed_Inr sample_candidate_def sample_review_def sample_operator_def sample_scope_def
      can_access_def policy_allows_def sample_policy_def review_actions_def)

lemma sample_evidence_ready: "passes (ensure_evidence_ready sample_candidate action t)"
  using sample_cut_posture
  by (simp add: ensure_evidence_ready_def sample_candidate_def source_cut_is_authoritative_def)
    (simp add: sample_packet_def)

lemma sample_no_expiry: "ep_applicability_expires_at_utc (cd_evidence_packet sample_candidate) = None"
  by (simp add: sample_candidate_def sample_packet_def)

lemma sample_texts: "\<not> blank (ac_actor_subject sample_operator)" "\<not> blank (ap_policy_version sample_policy)"
  by (simp_all add: sample_operator_def sample_policy_def blank_iff py_space_def)

lemma sample_times:
  "passes (require_observed_time_within_policy (utc 100) (utc 200) REVIEW_DECISION_TIME_POLICY)"
  by (simp add: REVIEW_DECISION_TIME_POLICY_def us_hours_def us_minutes_def us_seconds_def)

lemma sample_ready_status: "action \<in> {Approve_For_Conversion, Reject, Suppress} \<Longrightarrow> Ready_For_Review \<in> action_lifecycle_statuses action"
  by (auto simp: DECISION_LIFECYCLE_STATUSES_def REVIEWABLE_LIFECYCLE_STATUSES_def)

section \<open>The queue\<close>

definition sample_score :: idea_score where
  "sample_score =
     \<lparr>is_policy_version = score_policy_value High_Cash_V, is_score = 80, is_reason_codes = [R_High_Cash_Ratio],
      is_contributions = [\<lparr>sc_component = Materiality, sc_input_score = 80, sc_weight = 1, sc_contribution = 80\<rparr>],
      is_conflict_penalty_applied = 0\<rparr>"

definition sample_scored :: idea_candidate where
  "sample_scored = sample_candidate\<lparr>cd_score := Some sample_score\<rparr>"

lemma sample_score_facts:
  "dec_sum [1] = 1" "dec_sum [80] = 80" "dec_sub 80 0 = 80"
  using ctx28_of_int[of 80] ctx28_of_int[of 1] by (simp_all add: dec_sum_def dec_add_def dec_sub_def)

lemma sample_score_rounded: "quantize2 80 = 80"
  using quantize2_of_int[of 80] by simp

lemma sample_score_policy: "\<not> blank ''idle-liquidity-v2''"
  by (simp add: blank_iff py_space_def)

lemma sample_score_valid: "passes (idea_score_guards sample_score)"
  by (simp add: idea_score_guards_def sample_score_def sample_score_facts sample_score_rounded sample_score_policy)

lemma sample_score_rankable: "accepts_score_policy DEFAULT_REVIEW_QUEUE_POLICY (is_policy_version sample_score)"
proof -
  have "score_policy_value High_Cash_V \<in> set DEFAULT_RANKABLE_SCORE_POLICY_VERSIONS"
    unfolding DEFAULT_RANKABLE_SCORE_POLICY_VERSIONS_def set_map by (rule imageI) simp
  moreover have "py_strip (score_policy_value High_Cash_V) = score_policy_value High_Cash_V"
    by (rule py_strip_id) (simp add: py_space_def)
  ultimately have "score_policy_value High_Cash_V \<in> py_strip ` set DEFAULT_RANKABLE_SCORE_POLICY_VERSIONS"
    by (metis imageI)
  then show ?thesis
    by (simp add: accepts_score_policy_def DEFAULT_REVIEW_QUEUE_POLICY_def sample_score_def del: score_policy_value.simps)
qed

lemma default_policy_named: "\<not> blank (qp_policy_version DEFAULT_REVIEW_QUEUE_POLICY)"
  by (simp add: DEFAULT_REVIEW_QUEUE_POLICY_def blank_iff py_space_def)

lemma sample_scored_fields:
  "cd_candidate_id sample_scored = ''idea-1''" "cd_lifecycle_status sample_scored = Ready_For_Review"
  "cd_review_posture sample_scored = Advisor_Review_Required" "cd_suppression_reason sample_scored = None"
  "cd_score sample_scored = Some sample_score" "cd_evidence_packet sample_scored = sample_packet"
  by (simp_all add: sample_scored_def sample_candidate_def)

lemma sample_scored_listed:
  "listed Aud_Advisor [] None DEFAULT_REVIEW_QUEUE_POLICY (utc 1) sample_scored"
  using sample_score_rankable
  by (simp add: listed_def queue_relevant_def queue_exclusion_reason_def sample_scored_fields sample_packet_def
      REVIEWABLE_LIFECYCLE_STATUSES_def Let_def candidate_state_defs)

definition sample_low_score :: idea_score where
  "sample_low_score = sample_score\<lparr>is_score := 40,
     is_contributions := [\<lparr>sc_component = Materiality, sc_input_score = 40, sc_weight = 1, sc_contribution = 40\<rparr>]\<rparr>"

definition sample_low :: idea_candidate where
  "sample_low = sample_candidate\<lparr>cd_candidate_id := ''idea-2'', cd_score := Some sample_low_score\<rparr>"

definition sample_unscored :: idea_candidate where
  "sample_unscored = sample_candidate\<lparr>cd_candidate_id := ''idea-3''\<rparr>"

lemma sample_low_score_valid: "passes (idea_score_guards sample_low_score)"
proof -
  have "dec_sum [1] = 1" "dec_sum [40] = 40" "dec_sub 40 0 = 40" "quantize2 40 = 40"
    using ctx28_of_int[of 40] ctx28_of_int[of 1] quantize2_of_int[of 40]
    by (simp_all add: dec_sum_def dec_add_def dec_sub_def)
  then show ?thesis by (simp add: idea_score_guards_def sample_low_score_def sample_score_def sample_score_policy)
qed

text \<open>Which candidates a queue may list, which of two goes first, and the bucket of a score.\<close>

definition may_be_listed ::
    "queue_audience \<Rightarrow> queue_snooze list \<Rightarrow> scope_filter option \<Rightarrow> queue_policy \<Rightarrow> py_datetime \<Rightarrow>
     idea_candidate \<Rightarrow> bool" where
  "may_be_listed audience snoozes scope policy t c \<longleftrightarrow>
     cd_review_posture c = required_posture audience \<and> cd_lifecycle_status c \<in> REVIEWABLE_LIFECYCLE_STATUSES \<and>
     candidate_state_is_compatible (cd_lifecycle_status c) (cd_review_posture c) \<and>
     cd_suppression_reason c = None \<and>
     list_all (\<lambda>s. qs_candidate_id s \<noteq> cd_candidate_id c \<or> inst (qs_snoozed_until_utc s) \<le> inst t) snoozes \<and>
     (case scope of None \<Rightarrow> True | Some f \<Rightarrow> filter_matches f (cd_access_scope c)) \<and>
     (case ep_applicability_expires_at_utc (cd_evidence_packet c) of None \<Rightarrow> True | Some x \<Rightarrow> inst t < inst x) \<and>
     ep_supportability (cd_evidence_packet c) \<noteq> Support_Blocked \<and>
     (case cd_score c of None \<Rightarrow> False | Some s \<Rightarrow> accepts_score_policy policy (is_policy_version s))"

definition goes_before :: "idea_candidate \<Rightarrow> idea_candidate \<Rightarrow> bool" where
  "goes_before c d \<longleftrightarrow>
     candidate_score d < candidate_score c \<or>
     candidate_score c = candidate_score d \<and>
       (inst (cd_created_at_utc c) < inst (cd_created_at_utc d) \<or>
        inst (cd_created_at_utc c) = inst (cd_created_at_utc d) \<and> cd_candidate_id c \<le> cd_candidate_id d)"

definition score_bucket :: "queue_policy \<Rightarrow> decimal \<Rightarrow> priority_bucket" where
  "score_bucket p score =
     (if score < qp_standard_threshold p \<and> score < qp_high_threshold p \<and> score < qp_critical_threshold p
      then Bucket_Watchlist
      else if score < qp_high_threshold p \<and> score < qp_critical_threshold p then Bucket_Standard
      else if score < qp_critical_threshold p then Bucket_High else Bucket_Critical)"

lemma snoozed_now:
  "d_get (fold (\<lambda>s d. if dt_less t (qs_snoozed_until_utc s) then d_put (qs_candidate_id s) s d else d) ss d) k = None \<longleftrightarrow>
    d_get d k = None \<and> list_all (\<lambda>s. qs_candidate_id s \<noteq> k \<or> inst (qs_snoozed_until_utc s) \<le> inst t) ss"
  by (induction ss arbitrary: d) (auto simp: dt_less_def)

lemma listed_iff:
  "listed audience (active_snoozes_at t snoozes) scope policy t c \<longleftrightarrow> may_be_listed audience snoozes scope policy t c"
proof
  assume l: "listed audience (active_snoozes_at t snoozes) scope policy t c"
  have "candidate_state_is_compatible (cd_lifecycle_status c) (cd_review_posture c)"
    using l by (auto simp: listed_def queue_exclusion_reason_def Let_def split: if_splits)
  then show "may_be_listed audience snoozes scope policy t c"
    using listed_facts[OF l] snoozed_now[of t snoozes "[]" "cd_candidate_id c"]
    by (auto simp: may_be_listed_def active_snoozes_at_def split: option.splits)
next
  assume m: "may_be_listed audience snoozes scope policy t c"
  then have "d_get (active_snoozes_at t snoozes) (cd_candidate_id c) = None"
    using snoozed_now[of t snoozes "[]" "cd_candidate_id c"] by (simp add: may_be_listed_def active_snoozes_at_def)
  moreover have "cd_review_posture c \<noteq> Suppressed" "terminal_exclusion (cd_lifecycle_status c) = None"
    using m by (cases audience, simp_all add: may_be_listed_def)
      (auto simp: may_be_listed_def REVIEWABLE_LIFECYCLE_STATUSES_def)
  moreover obtain s where "cd_score c = Some s" "accepts_score_policy policy (is_policy_version s)"
    using m by (auto simp: may_be_listed_def split: option.splits)
  moreover have "\<not> some_satisfies (\<lambda>f. \<not> filter_matches f (cd_access_scope c)) scope"
    "\<not> some_satisfies (\<lambda>x. dt_le x t) (ep_applicability_expires_at_utc (cd_evidence_packet c))"
    using m by (auto simp: may_be_listed_def dt_le_def split: option.splits)
  moreover have "candidate_state_is_compatible (cd_lifecycle_status c) (cd_review_posture c)"
    "cd_suppression_reason c = None" "ep_supportability (cd_evidence_packet c) \<noteq> Support_Blocked"
    "cd_lifecycle_status c \<in> REVIEWABLE_LIFECYCLE_STATUSES"
    using m unfolding may_be_listed_def by blast+
  ultimately have "queue_exclusion_reason c (active_snoozes_at t snoozes) scope policy t = None"
    by (simp add: queue_exclusion_reason_def Let_def)
  then show "listed audience (active_snoozes_at t snoozes) scope policy t c"
    using m by (simp add: may_be_listed_def listed_def queue_relevant_def)
qed

lemma listed_spec: "listed audience (active_snoozes_at t snoozes) scope policy t = may_be_listed audience snoozes scope policy t"
  by (rule ext) (rule listed_iff)

lemma queue_key_order: "queue_sort_key c \<le> queue_sort_key d \<longleftrightarrow> goes_before c d"
  by (auto simp: queue_sort_key_def goes_before_def less_eq_prod_def)

lemma ranked_in_order: "sorted_wrt goes_before (sort_key queue_sort_key cs)"
proof -
  have "sorted (map queue_sort_key (sort_key queue_sort_key cs))" by simp
  then show ?thesis unfolding sorted_wrt_map queue_key_order .
qed

lemma bucket_of_score:
  assumes "priority_bucket_for_score p s = Inr b"
  shows "b = score_bucket p s"
  using assms
  by (cases "qp_critical_threshold p \<le> s"; cases "qp_high_threshold p \<le> s"; cases "qp_standard_threshold p \<le> s")
    (simp_all add: priority_bucket_for_score_def score_bucket_def)

lemma queue_item_scores:
  assumes "build_review_queue now cs audience policy at_utc snoozes scope = Inr q" "i \<in> set (qj_items q)"
  shows "qi_score i = candidate_score (qi_candidate i)"
proof -
  have "map_res (queue_item_for policy) xs = Inr is \<Longrightarrow> i \<in> set is \<Longrightarrow> qi_score i = candidate_score (qi_candidate i)" for xs "is"
    by (induction xs arbitrary: "is") (auto simp: bind_res_Inr dest: queue_item_forD)
  with assms show ?thesis by (auto simp: build_review_queue_def bind_res_Inr Let_def)
qed

text \<open>C39: a review queue lists exactly the candidates that may be listed for its audience, each
  as often as it was read, a higher score before a lower one, at equal score the older before
  the younger and then by id, with ranks 1, 2, 3 and so on, and each with its own score and the
  bucket of the thresholds the score reaches; the relevant candidates it does not list are
  exactly the reported exclusions.\<close>

theorem queue_is_exact:
  assumes "build_review_queue now cs audience policy at_utc snoozes scope = Inr q"
  shows "let t = or_else at_utc now; V = may_be_listed audience snoozes scope policy t in
    mset (map qi_candidate (qj_items q)) = mset (filter V cs) \<and>
    sorted_wrt goes_before (map qi_candidate (qj_items q)) \<and>
    map qi_rank (qj_items q) = map (\<lambda>k. int k + 1) [0..<length (qj_items q)] \<and>
    list_all (\<lambda>i. qi_score i = candidate_score (qi_candidate i) \<and>
      qi_priority_bucket i = score_bucket policy (qi_score i)) (qj_items q) \<and>
    map qe_candidate_id (qj_exclusions q) = map cd_candidate_id (filter (\<lambda>c.
      (cd_review_posture c = required_posture audience \<or> cd_suppression_reason c \<noteq> None) \<and> \<not> V c) cs)"
proof -
  note d = build_review_queueD[OF assms, unfolded listed_spec queue_relevant_def]
  let ?V = "may_be_listed audience snoozes scope policy (or_else at_utc now)"
  have len: "length (qj_items q) = length (filter ?V cs)" using arg_cong[OF d(1), of length] by simp
  have "mset (map qi_candidate (qj_items q)) = mset (filter ?V cs)" unfolding d(1) by simp
  moreover have "sorted_wrt goes_before (map qi_candidate (qj_items q))" unfolding d(1) by (rule ranked_in_order)
  moreover have "qi_score i = candidate_score (qi_candidate i) \<and> qi_priority_bucket i = score_bucket policy (qi_score i)"
    if "i \<in> set (qj_items q)" for i
    using queue_item_scores[OF assms that] bucket_of_score[OF bspec[OF d(4) that]] by (rule conjI)
  then have "list_all (\<lambda>i. qi_score i = candidate_score (qi_candidate i) \<and>
      qi_priority_bucket i = score_bucket policy (qi_score i)) (qj_items q)" unfolding list_all_iff by blast
  ultimately show ?thesis unfolding Let_def using d(2,3)[folded len] by (intro conjI)
qed

lemma sample_queue_ready: "queue_ready sample_candidate"
  by (simp add: queue_ready_def sample_candidate_def blank_iff py_space_def)

lemma sample_queue_built:
  "\<exists>q. build_review_queue (utc 1) [sample_candidate] Aud_Advisor DEFAULT_REVIEW_QUEUE_POLICY None [] None = Inr q"
  using sample_queue_ready
  by (intro build_review_queue_total) (simp_all add: DEFAULT_REVIEW_QUEUE_POLICY_def blank_iff py_space_def)

lemma two_elements: "mset xs = {#a, b#} \<Longrightarrow> xs \<in> {[a, b], [b, a]}"
proof -
  assume m: "mset xs = {#a, b#}"
  then have "length xs = 2" by (metis size_mset size_add_mset size_empty numeral_2_eq_2)
  then obtain p q where "xs = [p, q]" by (auto simp: numeral_2_eq_2 length_Suc_conv)
  with m show ?thesis by (auto simp: add_eq_conv_ex)
qed

theorem queue_is_exact_witness:
  "\<exists>q. build_review_queue (utc 1) [sample_low, sample_unscored, sample_scored] Aud_Advisor
      DEFAULT_REVIEW_QUEUE_POLICY None [] None = Inr q \<and>
    map qi_candidate (qj_items q) = [sample_scored, sample_low] \<and> map qi_rank (qj_items q) = [1, 2] \<and>
    map qi_priority_bucket (qj_items q) = [Bucket_High, Bucket_Watchlist] \<and>
    map qe_candidate_id (qj_exclusions q) = [''idea-3'']"
proof -
  let ?cs = "[sample_low, sample_unscored, sample_scored]"
  have "queue_ready c" if "c \<in> set ?cs" for c
    using that sample_score_valid sample_low_score_valid
    by (auto simp: queue_ready_def sample_low_def sample_unscored_def sample_scored_def sample_candidate_def blank_iff py_space_def)
  then obtain q where q: "build_review_queue (utc 1) ?cs Aud_Advisor DEFAULT_REVIEW_QUEUE_POLICY None [] None = Inr q"
    using build_review_queue_total[OF _ _ default_policy_named, of ?cs None "utc 1" Aud_Advisor "[]" None] by auto
  let ?V = "may_be_listed Aud_Advisor [] None DEFAULT_REVIEW_QUEUE_POLICY (utc 1)"
  have v: "?V sample_low" "?V sample_scored" "\<not> ?V sample_unscored"
    using sample_score_rankable
    by (simp_all add: may_be_listed_def sample_low_def sample_unscored_def sample_scored_def sample_candidate_def
        sample_packet_def sample_low_score_def REVIEWABLE_LIFECYCLE_STATUSES_def candidate_state_defs)
  have sc: "candidate_score sample_low = 40" "candidate_score sample_scored = 80"
    by (simp_all add: candidate_score_def sample_low_def sample_low_score_def sample_scored_def sample_score_def)
  note x = queue_is_exact[OF q, unfolded Let_def or_else_simps]
  note m = x[THEN conjunct1] and o = x[THEN conjunct2, THEN conjunct1]
    and r = x[THEN conjunct2, THEN conjunct2, THEN conjunct1]
    and p = x[THEN conjunct2, THEN conjunct2, THEN conjunct2, THEN conjunct1]
    and e = x[THEN conjunct2, THEN conjunct2, THEN conjunct2, THEN conjunct2]
  have "mset (map qi_candidate (qj_items q)) = {#sample_low, sample_scored#}" unfolding m using v by simp
  then have "map qi_candidate (qj_items q) \<in> {[sample_low, sample_scored], [sample_scored, sample_low]}"
    by (rule two_elements)
  moreover have "\<not> goes_before sample_low sample_scored" using sc by (simp add: goes_before_def)
  ultimately have c: "map qi_candidate (qj_items q) = [sample_scored, sample_low]" using o by auto
  then obtain a b where ab: "qj_items q = [a, b]" "qi_candidate a = sample_scored" "qi_candidate b = sample_low"
    by (auto simp: map_eq_Cons_conv)
  have "map qi_rank (qj_items q) = [1, 2]" unfolding r unfolding ab(1) by simp
  moreover have "map qi_priority_bucket (qj_items q) = [Bucket_High, Bucket_Watchlist]"
    using p sc unfolding ab(1) by (simp add: ab(2,3) score_bucket_def DEFAULT_REVIEW_QUEUE_POLICY_def)
  moreover have "map qe_candidate_id (qj_exclusions q) = [''idea-3'']"
    unfolding e using v by (simp add: sample_unscored_def sample_candidate_def)
  ultimately show ?thesis using q c by (intro exI[of _ q] conjI)
qed

text \<open>C40: every listed candidate may be shown: it is in the caller's scope, in the posture
  of the audience and in a reviewable status, scored under a rankable policy, and neither
  suppressed, nor snoozed, nor expired, nor blocked for its evidence.\<close>

theorem queue_is_safe:
  assumes "build_review_queue now cs audience policy at_utc snoozes scope = Inr q"
    and "i \<in> set (qj_items q)"
  shows "let c = qi_candidate i; t = or_else at_utc now in
    c \<in> set cs \<and> cd_review_posture c = required_posture audience \<and>
    cd_lifecycle_status c \<in> REVIEWABLE_LIFECYCLE_STATUSES \<and> cd_suppression_reason c = None \<and>
    d_get (active_snoozes_at t snoozes) (cd_candidate_id c) = None \<and>
    (\<forall>f. scope = Some f \<longrightarrow> filter_matches f (cd_access_scope c)) \<and>
    (\<forall>x. ep_applicability_expires_at_utc (cd_evidence_packet c) = Some x \<longrightarrow> inst t < inst x) \<and>
    ep_supportability (cd_evidence_packet c) \<noteq> Support_Blocked \<and>
    (\<exists>s. cd_score c = Some s \<and> accepts_score_policy policy (is_policy_version s))"
proof -
  let ?t = "or_else at_utc now"
  have "qi_candidate i \<in> set (map qi_candidate (qj_items q))" using assms(2) by simp
  then have "qi_candidate i \<in> set cs"
    and l: "listed audience (active_snoozes_at ?t snoozes) scope policy ?t (qi_candidate i)"
    unfolding build_review_queueD(1)[OF assms(1)] by auto
  then show ?thesis using listed_facts[OF l] by (simp add: Let_def)
qed

lemma sample_scored_queue:
  "\<exists>q. build_review_queue (utc 1) [sample_scored] Aud_Advisor DEFAULT_REVIEW_QUEUE_POLICY None [] None = Inr q
     \<and> map qi_candidate (qj_items q) = [sample_scored]"
proof -
  have "queue_ready sample_scored"
    using sample_score_valid by (simp add: queue_ready_def sample_scored_fields blank_iff py_space_def)
  then obtain q where q: "build_review_queue (utc 1) [sample_scored] Aud_Advisor
      DEFAULT_REVIEW_QUEUE_POLICY None [] None = Inr q"
    using build_review_queue_total[OF _ _ default_policy_named, of "[sample_scored]" None "utc 1" Aud_Advisor "[]" None]
      is_utc_utc(2)[of 1] unfolding or_else_simps set_simps by blast
  have "filter (listed Aud_Advisor (active_snoozes_at (or_else None (utc 1)) []) None
      DEFAULT_REVIEW_QUEUE_POLICY (or_else None (utc 1))) [sample_scored] = [sample_scored]"
    unfolding active_snoozes_at_def or_else_simps fold_simps using sample_scored_listed by (simp only: filter.simps if_True)
  with build_review_queueD(1)[OF q] have "map qi_candidate (qj_items q) = sort_key queue_sort_key [sample_scored]"
    by (simp only:)
  also have "\<dots> = [sample_scored]" by simp
  finally show ?thesis using q by (intro exI[of _ q] conjI)
qed

theorem queue_is_safe_witness:
  "\<exists>q i. build_review_queue (utc 1) [sample_scored] Aud_Advisor DEFAULT_REVIEW_QUEUE_POLICY None [] None = Inr q
     \<and> i \<in> set (qj_items q) \<and> cd_suppression_reason (qi_candidate i) = None"
proof -
  obtain q where q: "build_review_queue (utc 1) [sample_scored] Aud_Advisor
      DEFAULT_REVIEW_QUEUE_POLICY None [] None = Inr q" "map qi_candidate (qj_items q) = [sample_scored]"
    using sample_scored_queue by (elim exE conjE)
  obtain i where "i \<in> set (qj_items q)" using q(2) by (cases "qj_items q") simp_all
  moreover from queue_is_safe[OF q(1) this, unfolded Let_def]
  have "cd_suppression_reason (qi_candidate i) = None" by (elim conjE)
  ultimately show ?thesis using q(1) by (intro exI[of _ q] exI[of _ i] conjI)
qed


text \<open>The ranking does not depend on the order in which the candidates are read: two
  queues over the same candidates with distinct ids list the same candidates in the same
  order with the same ranks.\<close>

theorem queue_order_irrelevant:
  assumes "build_review_queue now cs audience policy at_utc snoozes scope = Inr q"
    and "build_review_queue now ds audience policy at_utc snoozes scope = Inr r"
    and "mset cs = mset ds" "distinct (map cd_candidate_id cs)"
  shows "map qi_candidate (qj_items q) = map qi_candidate (qj_items r) \<and>
    map qi_rank (qj_items q) = map qi_rank (qj_items r)"
proof -
  note a = build_review_queueD(1,2)[OF assms(1)] and b = build_review_queueD(1,2)[OF assms(2)]
  have c: "map qi_candidate (qj_items q) = map qi_candidate (qj_items r)"
    unfolding a(1) b(1) by (rule queue_order_perm[OF assms(3,4)])
  then have "length (qj_items q) = length (qj_items r)" by (metis length_map)
  with a(2) b(2) c show ?thesis by (metis diff_zero length_map length_upt)
qed

definition sample_other :: idea_candidate where
  "sample_other = sample_candidate\<lparr>cd_candidate_id := ''idea-2'', cd_score := Some sample_score\<rparr>"

lemma sample_pair_queue:
  "\<forall>c \<in> set cs. c \<in> {sample_candidate, sample_other} \<Longrightarrow>
   \<exists>q. build_review_queue (utc 1) cs Aud_Advisor DEFAULT_REVIEW_QUEUE_POLICY None [] None = Inr q"
proof (rule build_review_queue_total[OF _ _ default_policy_named])
  assume cs: "\<forall>c \<in> set cs. c \<in> {sample_candidate, sample_other}"
  have "queue_ready sample_other"
    using sample_score_valid by (simp add: queue_ready_def sample_other_def blank_iff py_space_def)
  with cs sample_queue_ready show "\<forall>c \<in> set cs. queue_ready c" by auto
qed simp

theorem queue_order_irrelevant_witness:
  "\<exists>q r. build_review_queue (utc 1) [sample_candidate, sample_other] Aud_Advisor
       DEFAULT_REVIEW_QUEUE_POLICY None [] None = Inr q \<and>
     build_review_queue (utc 1) [sample_other, sample_candidate] Aud_Advisor
       DEFAULT_REVIEW_QUEUE_POLICY None [] None = Inr r \<and>
     map qi_candidate (qj_items q) = map qi_candidate (qj_items r)"
proof -
  obtain q r where q: "build_review_queue (utc 1) [sample_candidate, sample_other] Aud_Advisor
       DEFAULT_REVIEW_QUEUE_POLICY None [] None = Inr q"
    and r: "build_review_queue (utc 1) [sample_other, sample_candidate] Aud_Advisor
       DEFAULT_REVIEW_QUEUE_POLICY None [] None = Inr r"
    using sample_pair_queue[of "[sample_candidate, sample_other]"]
      sample_pair_queue[of "[sample_other, sample_candidate]"] by auto
  have "mset [sample_candidate, sample_other] = mset [sample_other, sample_candidate]"
    by (simp add: add_mset_commute)
  moreover have "distinct (map cd_candidate_id [sample_candidate, sample_other])"
    by (simp add: sample_candidate_def sample_other_def)
  ultimately show ?thesis using queue_order_irrelevant[OF q r] q r by (intro exI[of _ q] exI[of _ r] conjI) simp_all
qed

section \<open>Review actions\<close>

text \<open>C4: an accepted review action refines its contract: status and posture move as
  \<open>review_outcome\<close> says, the rest of the candidate keeps its identity, evidence and scope, the
  result is a valid candidate, and the actor was entitled to the scope and the action, acted
  on the current evidence and within the time policy.\<close>

theorem review_refines_contract:
  assumes "apply_review_action c w t receipt policy = Inr r"
  shows "(cd_lifecycle_status (ra_candidate r), cd_review_posture (ra_candidate r)) =
      review_outcome (rw_action w) (cd_lifecycle_status c, cd_review_posture c) \<and>
    valid_candidate (ra_candidate r) \<and>
    cd_identity (ra_candidate r) = cd_identity c \<and>
    cd_evidence_packet (ra_candidate r) = cd_evidence_packet c \<and>
    cd_access_scope (ra_candidate r) = cd_access_scope c \<and>
    (\<exists>s. cd_access_scope c = Some s \<and> can_access (rw_actor w) s) \<and>
    policy_allows policy (rw_actor w) (rw_action w) = Inr True \<and>
    rw_expected_candidate_evidence w = evidence_identity_of c \<and>
    inst t - us_hours 24 \<le> inst (rw_decided_at_utc w) \<and> inst (rw_decided_at_utc w) \<le> inst t + us_minutes 5"
  using assms
proof (rule apply_review_actionD)
  fix digest
  assume al: "ensure_allowed c w policy = Inr ()" and ev: "rw_expected_candidate_evidence w = evidence_identity_of c"
    and tm: "passes (require_observed_time_within_policy (rw_decided_at_utc w) t REVIEW_DECISION_TIME_POLICY)"
    and ca: "candidate_after_review c w t = Inr (ra_candidate r)"
  have e: "ra_candidate r = reviewed_candidate c w t" and v: "valid_candidate (reviewed_candidate c w t)"
    using candidate_after_review_Inr[OF ca] by (simp, metis)
  show ?thesis
    unfolding e using v al ev tm by (simp add: ensure_allowed_Inr REVIEW_DECISION_TIME_POLICY_def)
qed

lemma sample_review_accepted:
  assumes "action \<in> {Approve_For_Conversion, Reject, Suppress}"
  shows "\<exists>r. apply_review_action sample_candidate (sample_review action) (utc 200) None sample_policy = Inr r"
proof (rule apply_review_action_ok[OF sample_candidate_well_formed])
  show "passes (review_command_guards (sample_review action))"
    using assms by (intro sample_review_guards) auto
  show "ensure_allowed sample_candidate (sample_review action) sample_policy = Inr ()"
    using assms by (intro sample_review_allowed sample_ready_status)
  show "validate_review_presentation (sample_review action) None (utc 200) = Inr None"
    by (simp add: validate_review_presentation_def sample_review_def)
  show "passes (require_observed_time_within_policy (rw_decided_at_utc (sample_review action)) (utc 200)
      REVIEW_DECISION_TIME_POLICY)" using sample_times by (simp add: sample_review_def)
qed (use sample_evidence_ready sample_no_expiry sample_texts in \<open>simp_all add: sample_review_def\<close>)

theorem review_refines_contract_witness:
  "\<exists>r. apply_review_action sample_candidate (sample_review Reject) (utc 200) None sample_policy = Inr r \<and>
     cd_lifecycle_status (ra_candidate r) = Rejected"
proof -
  obtain r where r: "apply_review_action sample_candidate (sample_review Reject) (utc 200) None sample_policy = Inr r"
    using sample_review_accepted[of Reject] by blast
  from review_refines_contract[OF r] have "cd_lifecycle_status (ra_candidate r) = Rejected"
    by (simp add: sample_review_def)
  with r show ?thesis by blast
qed

text \<open>A review is never refused without a reason: on a well-formed candidate a valid
  command of an entitled actor, on the current evidence, in a status where the action is
  allowed, within the time policy, with the presentation its channel needs and, for an
  approval, evidence that is ready, is accepted.\<close>

theorem permitted_review_succeeds:
  assumes "well_formed_candidate c" "passes (review_command_guards w)"
    and "ensure_allowed c w policy = Inr ()" "rw_expected_candidate_evidence w = evidence_identity_of c"
    and "validate_review_presentation w receipt t = Inr digest"
    and "passes (require_observed_time_within_policy (rw_decided_at_utc w) t REVIEW_DECISION_TIME_POLICY)"
    and "\<forall>x. rw_snoozed_until_utc w = Some x \<longrightarrow> inst t < inst x"
    and "rw_action w = Approve_For_Conversion \<longrightarrow> passes (ensure_evidence_ready c (rw_action w) t) \<and>
      (\<forall>x. ep_applicability_expires_at_utc (cd_evidence_packet c) = Some x \<longrightarrow> is_utc x)"
    and "\<not> blank (ac_actor_subject (rw_actor w))" "\<not> blank (ap_policy_version policy)"
    and "\<forall>p. receipt = Some p \<longrightarrow> passes (presentation_receipt_guards p)"
  shows "\<exists>r. apply_review_action c w t receipt policy = Inr r"
  by (rule apply_review_action_ok[OF assms(1-7)]) (use assms(8-) in auto)

theorem permitted_review_succeeds_witness:
  "\<exists>r. apply_review_action sample_candidate (sample_review Suppress) (utc 200) None sample_policy = Inr r"
proof (rule permitted_review_succeeds[OF sample_candidate_well_formed])
  show "passes (review_command_guards (sample_review Suppress))" by (intro sample_review_guards) simp
  show "ensure_allowed sample_candidate (sample_review Suppress) sample_policy = Inr ()"
    by (intro sample_review_allowed sample_ready_status) simp
  show "validate_review_presentation (sample_review Suppress) None (utc 200) = Inr None"
    by (simp add: validate_review_presentation_def sample_review_def)
  show "passes (require_observed_time_within_policy (rw_decided_at_utc (sample_review Suppress)) (utc 200)
      REVIEW_DECISION_TIME_POLICY)" using sample_times by (simp add: sample_review_def)
qed (use sample_evidence_ready sample_no_expiry sample_texts in \<open>simp_all add: sample_review_def\<close>)

text \<open>C5: an approval issues a grant for exactly the evidence of the approved candidate,
  and the grant is active for it at the moment of acceptance; no other action issues one.\<close>

theorem approval_issues_active_grant:
  assumes "apply_review_action c w t receipt policy = Inr r" "well_formed_candidate c"
    and "rw_review_channel w \<noteq> Legacy_Unverified"
  shows "if rw_action w = Approve_For_Conversion
    then \<exists>g. ra_authority_grant r = Some g \<and> gr_candidate_evidence g = evidence_identity_of (ra_candidate r) \<and>
           effective_status g (ra_candidate r) t = Inr Auth_Active
    else ra_authority_grant r = None"
  using approval_grant[OF assms(1,2) _ assms(3)] no_grant_otherwise[OF assms(1)] by metis

theorem approval_issues_active_grant_witness:
  "\<exists>r g. apply_review_action sample_candidate (sample_review Approve_For_Conversion) (utc 200) None sample_policy = Inr r
     \<and> ra_authority_grant r = Some g \<and> effective_status g (ra_candidate r) (utc 200) = Inr Auth_Active"
proof -
  obtain r where r: "apply_review_action sample_candidate (sample_review Approve_For_Conversion) (utc 200) None
      sample_policy = Inr r" using sample_review_accepted[of Approve_For_Conversion] by blast
  with approval_issues_active_grant[OF r sample_candidate_well_formed] show ?thesis
    by (auto simp: sample_review_def)
qed

text \<open>C6: authority does not survive a change of the evidence: whatever grant was given for
  a candidate, once reconciliation has changed the candidate the grant is not active for the
  result, at any time.\<close>

theorem reconciliation_supersedes_grant:
  assumes "well_formed_candidate c" "well_formed_candidate incoming" "aware t"
    and "reconcile_candidate c incoming eh ih t = Inr r" "rn_candidate r = Some d"
    and "effective_status g c u = Inr Auth_Active"
  shows "effective_status g d v \<noteq> Inr Auth_Active"
proof -
  have "version_less c d"
    using reconcile_candidate_ok[OF assms(1-3), of eh ih] assms(4,5) by (auto simp: reconciliation_ok_def)
  moreover have "gr_candidate_evidence g = evidence_identity_of c"
    using effective_status_active[OF assms(6)] by simp
  ultimately show ?thesis using grant_superseded by blast
qed

lemma sample_refresh:
  "\<exists>r d. reconcile_candidate sample_candidate sample_candidate ''old'' ''new'' (utc 9) = Inr r \<and>
     rn_candidate r = Some d"
proof -
  obtain r where r: "reconcile_candidate sample_candidate sample_candidate ''old'' ''new'' (utc 9) = Inr r"
    "reconciliation_ok sample_candidate sample_candidate r"
    using reconcile_candidate_ok[OF sample_candidate_well_formed sample_candidate_well_formed is_utc_utc(2)[of 9]]
    by blast
  have "rn_candidate r \<noteq> None"
    using r(1) by (auto simp: reconcile_candidate_def same_business_scope_def Let_def reconciled_def bind_res_Inr
        split: if_splits)
  with r show ?thesis by blast
qed

definition sample_grant :: authority_grant where
  "sample_grant =
     \<lparr>gr_review_id = ''review-1'', gr_candidate_evidence = evidence_identity_of sample_candidate,
      gr_review_channel = Operator_Channel, gr_actor_subject = ''operator-1'', gr_actor_role = ''operator'',
      gr_review_policy_version = ''operations-v1'', gr_accepted_at_utc = utc 200,
      gr_applicability_expires_at_utc = None,
      gr_authority_policy_version = REVIEW_AUTHORITY_POLICY_VERSION, gr_presentation_receipt_id = None,
      gr_queue_snapshot_digest = None, gr_status = Auth_Active\<rparr>"

lemma sample_grant_active: "effective_status sample_grant sample_candidate (utc 300) = Inr Auth_Active"
  using evidence_identity_ok[OF sample_candidate_well_formed] sample_cut_posture
  by (simp add: effective_status_def sample_grant_def checks_passes)
    (simp add: sample_candidate_def source_cut_is_authoritative_def sample_packet_def)

theorem reconciliation_supersedes_grant_witness:
  "\<exists>r d. reconcile_candidate sample_candidate sample_candidate ''old'' ''new'' (utc 9) = Inr r \<and>
     rn_candidate r = Some d \<and> effective_status sample_grant d (utc 300) \<noteq> Inr Auth_Active"
  using sample_refresh reconciliation_supersedes_grant[OF sample_candidate_well_formed
      sample_candidate_well_formed is_utc_utc(2) _ _ sample_grant_active] by blast

text \<open>The mutation identity a caller's command announces is the one the stored decision
  has, so a retry of an accepted command is recognised by comparing the two; in it the
  reason of the action comes first and only once, followed by the other reasons in order.\<close>

theorem review_retry_recognised:
  assumes "apply_review_action c w t receipt policy = Inr r"
  shows "review_mutation_from_decision (ra_decision r) = review_mutation_from_command c w \<and>
    (let x = action_reason_code (rw_action w); rs = gd_reason_codes (ra_decision r) in
      hd rs = x \<and> filter ((=) x) rs = [x] \<and> filter ((\<noteq>) x) rs = filter ((\<noteq>) x) (rw_reason_codes w))"
proof -
  have "gd_reason_codes (ra_decision r) = canonical_owned_reason_codes (action_reason_code (rw_action w)) (rw_reason_codes w)"
    by (rule apply_review_actionD[OF assms]) (simp add: governed_decision_for_def)
  then show ?thesis
    using review_mutation_roundtrip[OF assms] canonical_reasons[of "action_reason_code (rw_action w)" "rw_reason_codes w"]
    by (simp add: Let_def)
qed

theorem review_retry_recognised_witness:
  "\<exists>r. apply_review_action sample_candidate (sample_review Reject) (utc 200) None sample_policy = Inr r \<and>
     review_mutation_from_decision (ra_decision r) = review_mutation_from_command sample_candidate (sample_review Reject)"
  using sample_review_accepted[of Reject] review_retry_recognised by blast

text \<open>An escalation does not lift a suppression: a suppressed candidate that is escalated
  takes the posture of the audience it is escalated to, but every queue still excludes it, for
  every audience, scope, policy and time.\<close>

theorem escalation_stays_hidden:
  assumes "apply_review_action c w t receipt policy = Inr r"
    and "rw_action w = (if aud = Aud_Compliance then Escalate_To_Compliance else Escalate_To_PM)"
    and "aud \<noteq> Aud_Advisor" "cd_suppression_reason c \<noteq> None"
  shows "cd_review_posture (ra_candidate r) = required_posture aud \<and>
    \<not> listed aud active scope queue_policy u (ra_candidate r)"
proof -
  have d: "ra_candidate r = reviewed_candidate c w t"
    by (rule apply_review_actionD[OF assms(1)]) (auto dest: candidate_after_review_Inr)
  have "rw_action w \<noteq> Suppress" "cd_review_posture (ra_candidate r) = required_posture aud"
    using assms(2,3) by (cases aud; simp add: d reviewed_candidate_def Let_def)+
  moreover have "cd_suppression_reason (ra_candidate r) \<noteq> None"
    using assms(4) \<open>rw_action w \<noteq> Suppress\<close> by (simp add: d reviewed_candidate_def Let_def)
  ultimately show ?thesis
    using suppression_reason_hides[of "ra_candidate r"] by (simp add: listed_def)
qed

definition sample_suppressed :: idea_candidate where
  "sample_suppressed = sample_candidate\<lparr>cd_review_posture := Suppressed, cd_suppression_reason := Some Sup_Duplicate\<rparr>"

lemma sample_suppressed_fields:
  "cd_identity sample_suppressed = cd_identity sample_candidate"
  "cd_evidence_packet sample_suppressed = cd_evidence_packet sample_candidate"
  "cd_candidate_id sample_suppressed = cd_candidate_id sample_candidate"
  "cd_access_scope sample_suppressed = cd_access_scope sample_candidate"
  "cd_lifecycle_status sample_suppressed = Ready_For_Review"
  "evidence_identity_of sample_suppressed = evidence_identity_of sample_candidate"
  by (simp_all add: sample_suppressed_def evidence_identity_of_def) (simp add: sample_candidate_def)

lemma sample_suppressed_well_formed: "well_formed_candidate sample_suppressed"
  using sample_candidate_well_formed
  by (simp add: well_formed_candidate_def valid_candidate_iff sample_suppressed_def sample_candidate_def
      candidate_state_defs)

lemma sample_escalation:
  "\<exists>r. apply_review_action sample_suppressed (sample_review Escalate_To_PM) (utc 200) None sample_policy = Inr r"
proof (rule apply_review_action_ok[OF sample_suppressed_well_formed])
  show "passes (review_command_guards (sample_review Escalate_To_PM))" by (intro sample_review_guards) simp
  have "ensure_allowed sample_candidate (sample_review Escalate_To_PM) sample_policy = Inr ()"
    by (intro sample_review_allowed) (simp add: REVIEWABLE_LIFECYCLE_STATUSES_def)
  then show "ensure_allowed sample_suppressed (sample_review Escalate_To_PM) sample_policy = Inr ()"
    by (simp add: ensure_allowed_Inr sample_suppressed_fields sample_review_def REVIEWABLE_LIFECYCLE_STATUSES_def)
  show "validate_review_presentation (sample_review Escalate_To_PM) None (utc 200) = Inr None"
    by (simp add: validate_review_presentation_def sample_review_def)
  show "passes (require_observed_time_within_policy (rw_decided_at_utc (sample_review Escalate_To_PM)) (utc 200)
      REVIEW_DECISION_TIME_POLICY)" using sample_times by (simp add: sample_review_def)
qed (use sample_texts in \<open>simp_all add: sample_review_def sample_suppressed_fields\<close>)

theorem escalation_stays_hidden_witness:
  "\<exists>r. apply_review_action sample_suppressed (sample_review Escalate_To_PM) (utc 200) None sample_policy = Inr r \<and>
     \<not> listed Aud_Portfolio_Manager [] None DEFAULT_REVIEW_QUEUE_POLICY (utc 300) (ra_candidate r)"
proof -
  obtain r where r: "apply_review_action sample_suppressed (sample_review Escalate_To_PM) (utc 200) None
      sample_policy = Inr r" using sample_escalation by blast
  have "rw_action (sample_review Escalate_To_PM) =
      (if Aud_Portfolio_Manager = Aud_Compliance then Escalate_To_Compliance else Escalate_To_PM)"
    "cd_suppression_reason sample_suppressed \<noteq> None"
    by (simp_all add: sample_review_def sample_suppressed_def)
  with escalation_stays_hidden[OF r] r show ?thesis by blast
qed

end
