(* ===== verification/Conversion_Policy.thy ===== *)
theory Conversion_Policy
imports Ideas
begin

text \<open>
  \<open>src/app/domain/conversion_outcome_policy.py\<close>: which outcome may follow which in the
  stream of outcomes a downstream system reports for one conversion intent. The lemmas show
  that the histories the policy accepts are exactly well-formed streams: versions 1, 2, 3,
  ..., strictly increasing times, one stream, and every step either allowed by the status
  graph or a correction of its predecessor.
\<close>

definition CONVERSION_OUTCOME_POLICY_VERSION :: string where
  "CONVERSION_OUTCOME_POLICY_VERSION = ''idea-conversion-outcome-v1''"

datatype outcome_policy_reason =
  Duplicate_Identity | Outcome_Identity_Conflict | Version_Conflict | Out_Of_Order_Event
| Invalid_Transition | Invalid_Correction

fun outcome_policy_reason_value :: "outcome_policy_reason \<Rightarrow> string" where
  "outcome_policy_reason_value Duplicate_Identity = ''duplicate_identity''"
| "outcome_policy_reason_value Outcome_Identity_Conflict = ''identity_conflict''"
| "outcome_policy_reason_value Version_Conflict = ''version_conflict''"
| "outcome_policy_reason_value Out_Of_Order_Event = ''out_of_order_event''"
| "outcome_policy_reason_value Invalid_Transition = ''invalid_transition''"
| "outcome_policy_reason_value Invalid_Correction = ''invalid_correction''"

definition outcome_violation :: "outcome_policy_reason \<Rightarrow> py_error" where
  "outcome_violation r = ConversionOutcomePolicyViolation (outcome_policy_reason_value r)"

record outcome_identity =
  ox_conversion_outcome_id :: string
  ox_conversion_intent_id :: string
  ox_target :: conversion_target
  ox_source_system :: source_system
  ox_source_event_version :: int
  ox_status :: outcome_status
  ox_downstream_reference :: "string option"
  ox_recorded_at_utc :: py_datetime
  ox_actor_subject :: string
  ox_supersedes :: "string option"
  ox_correction_reason :: "string option"

text \<open>\<open>==\<close> of two identities compares the timestamps as instants.\<close>

definition same_outcome_identity :: "outcome_identity \<Rightarrow> outcome_identity \<Rightarrow> bool" where
  "same_outcome_identity a b \<longleftrightarrow>
     a\<lparr>ox_recorded_at_utc := ox_recorded_at_utc b\<rparr> = b \<and>
     dt_eq (ox_recorded_at_utc a) (ox_recorded_at_utc b)"

definition TERMINAL_CONVERSION_OUTCOME_STATUSES :: "outcome_status set" where
  "TERMINAL_CONVERSION_OUTCOME_STATUSES = {Outcome_Rejected, Outcome_Failed, Outcome_Completed}"

definition INITIAL_OUTCOME_STATUSES :: "outcome_status set" where
  "INITIAL_OUTCOME_STATUSES = {Outcome_Requested, Outcome_Accepted, Outcome_Rejected, Outcome_Failed}"

fun ALLOWED_NEXT_STATUSES :: "outcome_status \<Rightarrow> outcome_status set" where
  "ALLOWED_NEXT_STATUSES Outcome_Requested = {Outcome_Accepted, Outcome_Rejected, Outcome_Failed}"
| "ALLOWED_NEXT_STATUSES Outcome_Accepted = {Outcome_Completed}"
| "ALLOWED_NEXT_STATUSES Outcome_Rejected = {}"
| "ALLOWED_NEXT_STATUSES Outcome_Failed = {}"
| "ALLOWED_NEXT_STATUSES Outcome_Completed = {}"

definition outcome_order :: "outcome_identity \<Rightarrow> int \<times> int \<times> string" where
  "outcome_order x =
     (ox_source_event_version x, inst (ox_recorded_at_utc x), ox_conversion_outcome_id x)"

text \<open>\<open>max(items, key=...)\<close> returns the first of the maximal elements.\<close>

fun first_max :: "('a \<Rightarrow> 'k::linorder) \<Rightarrow> 'a list \<Rightarrow> 'a option" where
  "first_max key [] = None"
| "first_max key (x # xs) = Some (foldl (\<lambda>m y. if key m < key y then y else m) x xs)"

definition latest_conversion_outcome_identity :: "outcome_identity list \<Rightarrow> outcome_identity option" where
  "latest_conversion_outcome_identity outcomes = first_max outcome_order outcomes"

definition validate_initial_outcome :: "outcome_identity \<Rightarrow> guards" where
  "validate_initial_outcome p =
     [(ox_source_event_version p \<noteq> 1, outcome_violation Version_Conflict),
      (ox_supersedes p \<noteq> None \<or> ox_correction_reason p \<noteq> None, outcome_violation Invalid_Correction),
      (ox_status p \<notin> INITIAL_OUTCOME_STATUSES, outcome_violation Invalid_Transition)]"

definition require_same_stream :: "outcome_identity \<Rightarrow> outcome_identity \<Rightarrow> guards" where
  "require_same_stream current p =
     [(ox_conversion_intent_id p \<noteq> ox_conversion_intent_id current \<or> ox_target p \<noteq> ox_target current \<or>
       ox_source_system p \<noteq> ox_source_system current, outcome_violation Outcome_Identity_Conflict)]"

definition validate_correction :: "outcome_identity \<Rightarrow> outcome_identity \<Rightarrow> guards" where
  "validate_correction current p =
     [(ox_supersedes p \<noteq> Some (ox_conversion_outcome_id current), outcome_violation Invalid_Correction),
      (\<not> some_satisfies (\<lambda>s. \<not> blank s) (ox_correction_reason p), outcome_violation Invalid_Correction),
      (ox_status p = Outcome_Requested, outcome_violation Invalid_Correction)]"

definition following_outcome_guards :: "outcome_identity \<Rightarrow> outcome_identity \<Rightarrow> guards" where
  \<comment> \<open>the checks of \<open>_validate_next_conversion_outcome\<close> against the current outcome\<close>
  "following_outcome_guards current p =
     require_same_stream current p @
     [(ox_source_event_version p \<noteq> ox_source_event_version current + 1, outcome_violation Version_Conflict),
      (dt_le (ox_recorded_at_utc p) (ox_recorded_at_utc current), outcome_violation Out_Of_Order_Event)] @
     (if ox_supersedes p \<noteq> None then validate_correction current p
      else [(ox_correction_reason p \<noteq> None, outcome_violation Invalid_Correction),
            (ox_status p \<notin> ALLOWED_NEXT_STATUSES (ox_status current), outcome_violation Invalid_Transition)])"

definition next_outcome_guards :: "outcome_identity list \<Rightarrow> outcome_identity \<Rightarrow> guards" where
  "next_outcome_guards existing p =
    (case List.find (\<lambda>x. ox_conversion_outcome_id x = ox_conversion_outcome_id p) existing of
       Some m \<Rightarrow> [(True, outcome_violation (if same_outcome_identity m p then Duplicate_Identity
                                           else Outcome_Identity_Conflict))]
     | None \<Rightarrow>
         (case latest_conversion_outcome_identity existing of
            None \<Rightarrow> validate_initial_outcome p
          | Some current \<Rightarrow> following_outcome_guards current p))"

definition validate_next_conversion_outcome :: "outcome_identity list \<Rightarrow> outcome_identity \<Rightarrow> unit res" where
  "validate_next_conversion_outcome existing p = checks (next_outcome_guards existing p) ()"

fun validate_history_from :: "outcome_identity list \<Rightarrow> outcome_identity list \<Rightarrow> unit res" where
  "validate_history_from accepted [] = Inr ()"
| "validate_history_from accepted (x # xs) =
     bind_res (validate_next_conversion_outcome accepted x)
       (\<lambda>_. validate_history_from (accepted @ [x]) xs)"

definition validate_conversion_outcome_history :: "outcome_identity list \<Rightarrow> unit res" where
  "validate_conversion_outcome_history outcomes =
     validate_history_from [] (sort_key outcome_order outcomes)"

definition validate_conversion_outcome_progression ::
    "outcome_identity list \<Rightarrow> outcome_identity \<Rightarrow> unit res" where
  "validate_conversion_outcome_progression existing p =
     bind_res (validate_conversion_outcome_history existing)
       (\<lambda>_. validate_next_conversion_outcome existing p)"

definition current_conversion_outcome_identity :: "outcome_identity list \<Rightarrow> outcome_identity option" where
  \<comment> \<open>the history can only raise a policy violation, which is caught\<close>
  "current_conversion_outcome_identity outcomes =
     (if outcomes = [] then None
      else case validate_conversion_outcome_history outcomes of
        Inl _ \<Rightarrow> None
      | Inr _ \<Rightarrow> latest_conversion_outcome_identity outcomes)"

section \<open>Well-formed streams\<close>

definition initial_outcome :: "outcome_identity \<Rightarrow> bool" where
  "initial_outcome x \<longleftrightarrow> ox_source_event_version x = 1 \<and> ox_supersedes x = None \<and>
     ox_correction_reason x = None \<and> ox_status x \<in> INITIAL_OUTCOME_STATUSES"

definition follows :: "outcome_identity \<Rightarrow> outcome_identity \<Rightarrow> bool" where
  "follows x y \<longleftrightarrow>
     ox_conversion_intent_id y = ox_conversion_intent_id x \<and> ox_target y = ox_target x \<and>
     ox_source_system y = ox_source_system x \<and>
     ox_source_event_version y = ox_source_event_version x + 1 \<and>
     inst (ox_recorded_at_utc x) < inst (ox_recorded_at_utc y) \<and>
     (if ox_supersedes y = None
      then ox_correction_reason y = None \<and> ox_status y \<in> ALLOWED_NEXT_STATUSES (ox_status x)
      else ox_supersedes y = Some (ox_conversion_outcome_id x) \<and>
           (\<exists>r. ox_correction_reason y = Some r \<and> \<not> blank r) \<and> ox_status y \<noteq> Outcome_Requested)"

fun stream_from :: "outcome_identity \<Rightarrow> outcome_identity list \<Rightarrow> bool" where
  "stream_from x [] = True"
| "stream_from x (y # ys) = (follows x y \<and> stream_from y ys)"

fun outcome_stream :: "outcome_identity list \<Rightarrow> bool" where
  "outcome_stream [] = True"
| "outcome_stream (x # xs) =
     (initial_outcome x \<and> stream_from x xs \<and> distinct (map ox_conversion_outcome_id (x # xs)))"

lemma passes_initial [simp]: "passes (validate_initial_outcome x) \<longleftrightarrow> initial_outcome x"
  by (auto simp: validate_initial_outcome_def initial_outcome_def)

lemma passes_following [simp]: "passes (following_outcome_guards x y) \<longleftrightarrow> follows x y"
  by (cases "ox_correction_reason y")
    (auto simp: following_outcome_guards_def require_same_stream_def validate_correction_def
      follows_def dt_le_def)

lemma stream_from_append:
  "stream_from x (ys @ [z]) \<longleftrightarrow> stream_from x ys \<and> follows (last (x # ys)) z"
  by (induction ys arbitrary: x) auto

lemma stream_from_versions:
  "stream_from x ys \<Longrightarrow> i \<le> length ys \<Longrightarrow>
     ox_source_event_version ((x # ys) ! i) = ox_source_event_version x + int i"
proof (induction ys arbitrary: x i)
  case (Cons y ys)
  then show ?case by (cases i) (auto simp: follows_def)
qed simp

lemma follows_order: "follows x y \<Longrightarrow> outcome_order x < outcome_order y"
  by (simp add: follows_def outcome_order_def)

lemma stream_from_max:
  "stream_from x ys \<Longrightarrow>
     foldl (\<lambda>m y. if outcome_order m < outcome_order y then y else m) x ys = last (x # ys)"
  by (induction ys arbitrary: x) (auto simp: follows_order)

lemma latest_of_stream:
  "outcome_stream xs \<Longrightarrow>
     latest_conversion_outcome_identity xs = (if xs = [] then None else Some (last xs))"
  by (cases xs) (auto simp: latest_conversion_outcome_identity_def stream_from_max)

text \<open>The policy accepts an outcome after a well-formed stream exactly when the stream
  stays well-formed.\<close>

lemma next_outcome_stream:
  assumes "outcome_stream xs"
  shows "passes (next_outcome_guards xs y) \<longleftrightarrow> outcome_stream (xs @ [y])"
proof (cases "List.find (\<lambda>x. ox_conversion_outcome_id x = ox_conversion_outcome_id y) xs")
  case (Some m)
  have "ox_conversion_outcome_id y \<in> ox_conversion_outcome_id ` set xs"
    using find_Some_iff'[OF Some] by (auto intro: rev_image_eqI)
  then have "\<not> outcome_stream (xs @ [y])" by (cases xs) auto
  then show ?thesis using Some by (simp add: next_outcome_guards_def)
next
  case None
  then have new: "ox_conversion_outcome_id y \<notin> ox_conversion_outcome_id ` set xs"
    by (auto simp: find_None_iff)
  show ?thesis
    using assms new None latest_of_stream[OF assms]
    by (cases xs) (auto simp: next_outcome_guards_def stream_from_append)
qed

lemma validate_history_from_stream:
  "outcome_stream acc \<Longrightarrow> validate_history_from acc xs = Inr () \<longleftrightarrow> outcome_stream (acc @ xs)"
proof (induction xs arbitrary: acc)
  case (Cons x xs)
  have "outcome_stream (acc @ x # xs) \<Longrightarrow> outcome_stream (acc @ [x])"
  proof -
    have pre: "stream_from a (bs @ cs) \<Longrightarrow> stream_from a bs" for a bs cs
      by (induction bs arbitrary: a) auto
    show "outcome_stream (acc @ x # xs) \<Longrightarrow> outcome_stream (acc @ [x])"
      using pre[of _ "tl acc @ [x]" xs] by (cases acc) auto
  qed
  then show ?case
    using Cons by (auto simp: bind_res_Inr validate_next_conversion_outcome_def next_outcome_stream)
qed simp

lemma history_accepted_iff:
  "validate_conversion_outcome_history xs = Inr () \<longleftrightarrow> outcome_stream (sort_key outcome_order xs)"
  by (simp add: validate_conversion_outcome_history_def validate_history_from_stream)

text \<open>A stream is already in the order in which the policy sorts it.\<close>

lemma stream_from_sorted: "stream_from x ys \<Longrightarrow> sorted (map outcome_order (x # ys))"
proof (induction ys arbitrary: x)
  case (Cons y ys)
  then have "outcome_order x < outcome_order y" "sorted (map outcome_order (y # ys))"
    by (auto simp: follows_order)
  then show ?case by (auto intro: order.trans less_imp_le)
qed simp

lemma outcome_stream_sorted: "outcome_stream xs \<Longrightarrow> sort_key outcome_order xs = xs"
  using stream_from_sorted[of "hd xs" "tl xs"] by (intro sort_key_id_if_sorted, cases xs) simp_all

lemma progression_accepted_iff:
  "outcome_stream xs \<Longrightarrow>
     validate_conversion_outcome_progression xs y = Inr () \<longleftrightarrow> outcome_stream (xs @ [y])"
  by (auto simp: validate_conversion_outcome_progression_def bind_res_Inr history_accepted_iff
      outcome_stream_sorted validate_next_conversion_outcome_def next_outcome_stream)

lemma outcome_stream_versions:
  "outcome_stream xs \<Longrightarrow> i < length xs \<Longrightarrow> ox_source_event_version (xs ! i) = int i + 1"
  by (cases xs) (auto simp: initial_outcome_def dest: stream_from_versions[of _ _ i])

text \<open>Without a correction nothing follows a terminal outcome.\<close>

lemma follows_terminal:
  "follows x y \<Longrightarrow> ox_status x \<in> TERMINAL_CONVERSION_OUTCOME_STATUSES \<Longrightarrow>
     ox_supersedes y = Some (ox_conversion_outcome_id x)"
  by (cases "ox_status x")
    (auto simp: follows_def TERMINAL_CONVERSION_OUTCOME_STATUSES_def split: if_splits)

lemma current_of_stream:
  "outcome_stream xs \<Longrightarrow>
     current_conversion_outcome_identity xs = (if xs = [] then None else Some (last xs))"
  using history_accepted_iff[of xs] outcome_stream_sorted[of xs]
  by (simp add: current_conversion_outcome_identity_def latest_of_stream)

end
