(* ===== verification/Conversion_Governance.thy ===== *)
theory Conversion_Governance
imports Review_Authority Conversion_Policy
begin

text \<open>
  \<open>src/app/domain/conversion_governance.py\<close>: requesting the conversion of an approved
  candidate, recording what the downstream system reports about it, and the check before an
  intent is realised. The lemmas show that a conversion needs an active grant for exactly
  the current evidence, what a permitted request does to the candidate, that a recorded
  outcome extends a well-formed stream, and when realisation is allowed.
\<close>

section \<open>Intents\<close>

datatype conversion_boundary = Intent_Only | Downstream_Realization_Required

fun boundary_value :: "conversion_boundary \<Rightarrow> string" where
  "boundary_value Intent_Only = ''intent_only''"
| "boundary_value Downstream_Realization_Required = ''downstream_realization_required''"

fun TARGET_SOURCE_AUTHORITIES :: "conversion_target \<Rightarrow> source_system" where
  "TARGET_SOURCE_AUTHORITIES Advise_Proposal = Lotus_Advise"
| "TARGET_SOURCE_AUTHORITIES Manage_Review = Lotus_Manage"
| "TARGET_SOURCE_AUTHORITIES Report_Evidence = Lotus_Report"

fun TARGET_LIFECYCLE_STATUS :: "conversion_target \<Rightarrow> lifecycle_status" where
  "TARGET_LIFECYCLE_STATUS Advise_Proposal = Converted_To_Proposal"
| "TARGET_LIFECYCLE_STATUS Manage_Review = Converted_To_Manage_Review"
| "TARGET_LIFECYCLE_STATUS Report_Evidence = Converted_To_Report"

record intent_command =
  iw_conversion_intent_id :: string
  iw_target :: conversion_target
  iw_actor_subject :: string
  iw_idempotency_key :: string
  iw_reason_codes :: "reason_code list"
  iw_requested_at_utc :: py_datetime
  iw_expected_review_id :: string
  iw_expected_candidate_evidence :: evidence_identity

definition intent_command_guards :: "intent_command \<Rightarrow> guards" where
  "intent_command_guards w =
     require_text (iw_conversion_intent_id w) ''conversion_intent_id'' @
     [(160 < length (iw_conversion_intent_id w),
       ValueError ''conversion_intent_id must be at most 160 characters'')] @
     require_text (iw_actor_subject w) ''actor_subject'' @
     require_text (iw_idempotency_key w) ''idempotency_key'' @
     require_text (iw_expected_review_id w) ''expected_review_id'' @
     require_aware (iw_requested_at_utc w) ''requested_at_utc'' @
     [(iw_reason_codes w = [], ValueError ''reason_codes is required'')]"

record governed_intent =
  gi_intent :: conversion_intent
  gi_evidence_packet_id :: string
  gi_evidence_content_hash :: string
  gi_source_revision_vector_digest :: string
  gi_source_cut_posture :: source_cut_posture_t
  gi_source_signal_ids :: "string list"
  gi_actor_subject :: string
  gi_idempotency_key :: string
  gi_reason_codes :: "reason_code list"
  gi_target_source_authority :: source_system
  gi_accepted_at_utc :: py_datetime
  gi_review_authority_grant :: "authority_grant option"
  gi_acceptance_time_source :: acceptance_time_source
  gi_boundary :: conversion_boundary

definition governed_intent_guards :: "governed_intent \<Rightarrow> guards" where
  "governed_intent_guards i =
     require_text (gi_evidence_packet_id i) ''evidence_packet_id'' @
     require_text (gi_evidence_content_hash i) ''evidence_content_hash'' @
     require_text (gi_source_revision_vector_digest i) ''source_revision_vector_digest'' @
     require_text (gi_actor_subject i) ''actor_subject'' @
     require_text (gi_idempotency_key i) ''idempotency_key'' @
     require_aware (gi_accepted_at_utc i) ''accepted_at_utc'' @
     [(gi_source_signal_ids i = [], ValueError ''source_signal_ids is required''),
      (gi_reason_codes i = [], ValueError ''reason_codes is required'')] @
     opt_guards (gi_review_authority_grant i) (\<lambda>g.
       [(ei_candidate_id (gr_candidate_evidence g) \<noteq> in_candidate_id (gi_intent i),
         ValueError ''review authority candidate must match conversion intent''),
        (ei_evidence_packet_id (gr_candidate_evidence g) \<noteq> gi_evidence_packet_id i,
         ValueError ''review authority evidence packet must match conversion intent''),
        (ei_evidence_content_hash (gr_candidate_evidence g) \<noteq> gi_evidence_content_hash i,
         ValueError ''review authority evidence hash must match conversion intent''),
        (ei_source_revision_vector_digest (gr_candidate_evidence g) \<noteq> gi_source_revision_vector_digest i \<or>
         ei_source_cut_posture (gr_candidate_evidence g) \<noteq> gi_source_cut_posture i,
         ValueError ''review authority source revision must match conversion intent''),
        (dt_less (gi_accepted_at_utc i) (gr_accepted_at_utc g),
         ValueError ''review authority cannot postdate conversion acceptance'')])"

record intent_result =
  ia_source_candidate :: idea_candidate
  ia_candidate :: idea_candidate
  ia_conversion_intent :: governed_intent
  ia_audit_event :: audit_event

definition ensure_candidate_ready_for_conversion :: "idea_candidate \<Rightarrow> py_datetime \<Rightarrow> guards" where
  "ensure_candidate_ready_for_conversion c accepted_at_utc =
     [(cd_lifecycle_status c \<noteq> Approved,
       InvalidConversionIntent (cd_candidate_id c) ''candidate lifecycle is not approved''),
      (cd_review_posture c \<noteq> Approved_For_Conversion,
       InvalidConversionIntent (cd_candidate_id c) ''review posture is not approved''),
      (ep_supportability (cd_evidence_packet c) \<noteq> Support_Ready,
       InvalidConversionIntent (cd_candidate_id c) ''evidence is not ready''),
      (\<not> source_cut_is_authoritative (packet_cut_posture (cd_evidence_packet c)),
       InvalidConversionIntent (cd_candidate_id c)
         (''source cut is '' @ cut_value (packet_cut_posture (cd_evidence_packet c)))),
      (some_satisfies (\<lambda>x. dt_le x accepted_at_utc) (ep_applicability_expires_at_utc (cd_evidence_packet c)),
       InvalidConversionIntent (cd_candidate_id c) ''candidate applicability has expired'')]"

definition ensure_exact_review_authority ::
    "idea_candidate \<Rightarrow> intent_command \<Rightarrow> authority_grant \<Rightarrow> py_datetime \<Rightarrow> unit res" where
  "ensure_exact_review_authority c w g accepted_at_utc =
     bind_res (evidence_identity_from_candidate c) (\<lambda>current.
     bind_res (checks
       [(iw_expected_candidate_evidence w \<noteq> current,
         InvalidConversionIntent (cd_candidate_id c) ''expected candidate evidence identity is stale''),
        (gr_review_id g \<noteq> iw_expected_review_id w,
         InvalidConversionIntent (cd_candidate_id c) ''review authority identity differs''),
        (gr_candidate_evidence g \<noteq> iw_expected_candidate_evidence w,
         InvalidConversionIntent (cd_candidate_id c) ''review authority evidence differs'')] ()) (\<lambda>_.
     bind_res (effective_status g c accepted_at_utc) (\<lambda>s.
     checks [(s \<noteq> Auth_Active,
              InvalidConversionIntent (cd_candidate_id c)
                (''review authority is '' @ authority_status_value s))] ())))"

definition governed_intent_for ::
    "idea_candidate \<Rightarrow> intent_command \<Rightarrow> py_datetime \<Rightarrow> authority_grant \<Rightarrow> governed_intent" where
  "governed_intent_for c w accepted_at_utc g =
     \<lparr>gi_intent = \<lparr>in_conversion_intent_id = iw_conversion_intent_id w,
        in_candidate_id = cd_candidate_id c, in_target = iw_target w,
        in_source_status = cd_lifecycle_status c, in_requested_at_utc = iw_requested_at_utc w\<rparr>,
      gi_evidence_packet_id = ep_evidence_packet_id (cd_evidence_packet c),
      gi_evidence_content_hash = ln_content_hash (ep_lineage_ref (cd_evidence_packet c)),
      gi_source_revision_vector_digest = packet_revision_digest (cd_evidence_packet c),
      gi_source_cut_posture = packet_cut_posture (cd_evidence_packet c),
      gi_source_signal_ids = cd_source_signal_ids c, gi_actor_subject = iw_actor_subject w,
      gi_idempotency_key = iw_idempotency_key w, gi_reason_codes = iw_reason_codes w,
      gi_target_source_authority = TARGET_SOURCE_AUTHORITIES (iw_target w),
      gi_accepted_at_utc = accepted_at_utc, gi_review_authority_grant = Some g,
      gi_acceptance_time_source = Server_Accepted, gi_boundary = Intent_Only\<rparr>"

definition intent_audit_event ::
    "idea_candidate \<Rightarrow> intent_command \<Rightarrow> governed_intent \<Rightarrow> authority_grant \<Rightarrow> audit_event res" where
  "intent_audit_event c w i g =
     mk_audit_event ''idea.conversion.intent_requested'' (iw_actor_subject w) ''accepted''
       (gi_accepted_at_utc i)
       [(''boundary'', boundary_value (gi_boundary i)),
        (''candidate_family'', family_value (cd_family c)),
        (''source_revision_vector_digest'', gi_source_revision_vector_digest i),
        (''source_cut_posture'', cut_value (gi_source_cut_posture i)),
        (''conversion_target'', target_value (iw_target w)),
        (''evidence_packet_id'', ep_evidence_packet_id (cd_evidence_packet c)),
        (''target_source_authority'', source_system_value (gi_target_source_authority i)),
        (''review_id'', gr_review_id g),
        (''review_policy_version'', gr_review_policy_version g),
        (''review_authority_policy_version'', gr_authority_policy_version g),
        (''observed_at_utc'', dt_iso (iw_requested_at_utc w))]"

definition request_conversion_intent ::
    "idea_candidate \<Rightarrow> intent_command \<Rightarrow> py_datetime \<Rightarrow> authority_grant \<Rightarrow> intent_result res" where
  "request_conversion_intent c w accepted_at_utc g =
     bind_res (checks (require_aware accepted_at_utc ''accepted_at_utc'') ()) (\<lambda>_.
     bind_res (checks (require_observed_time_within_policy (iw_requested_at_utc w) accepted_at_utc
                 CONVERSION_INTENT_TIME_POLICY) ()) (\<lambda>_.
     bind_res (checks (ensure_candidate_ready_for_conversion c accepted_at_utc) ()) (\<lambda>_.
     bind_res (ensure_exact_review_authority c w g accepted_at_utc) (\<lambda>_.
     let i = governed_intent_for c w accepted_at_utc g in
     bind_res (checks (conversion_intent_guards (gi_intent i)) ()) (\<lambda>_.
     bind_res (checks (governed_intent_guards i) ()) (\<lambda>_.
     bind_res (transition_candidate accepted_at_utc c (TARGET_LIFECYCLE_STATUS (iw_target w))
                 (Some accepted_at_utc)) (\<lambda>d.
     bind_res (intent_audit_event c w i g) (\<lambda>audit.
     Inr \<lparr>ia_source_candidate = c, ia_candidate = d, ia_conversion_intent = i,
          ia_audit_event = audit\<rparr>))))))))"

section \<open>Outcomes\<close>

record outcome_command =
  ow_conversion_outcome_id :: string
  ow_status :: outcome_status
  ow_source_system :: source_system
  ow_source_event_version :: int
  ow_recorded_at_utc :: py_datetime
  ow_downstream_reference :: "string option"
  ow_actor_subject :: string
  ow_supersedes_conversion_outcome_id :: "string option"
  ow_correction_reason :: "string option"

definition outcome_command_guards :: "outcome_command \<Rightarrow> guards" where
  "outcome_command_guards w =
     require_text (ow_conversion_outcome_id w) ''conversion_outcome_id'' @
     require_text (ow_actor_subject w) ''actor_subject'' @
     require_positive (ow_source_event_version w) ''source_event_version'' @
     require_aware (ow_recorded_at_utc w) ''recorded_at_utc'' @
     require_opt_text (ow_downstream_reference w) ''downstream_reference'' @
     require_opt_text (ow_supersedes_conversion_outcome_id w) ''supersedes_conversion_outcome_id'' @
     require_opt_text (ow_correction_reason w) ''correction_reason''"

record governed_outcome =
  go_outcome :: conversion_outcome
  go_conversion_intent_id :: string
  go_target :: conversion_target
  go_source_system :: source_system
  go_boundary :: conversion_boundary
  go_source_event_version :: int
  go_actor_subject :: string
  go_accepted_at_utc :: py_datetime
  go_acceptance_time_source :: acceptance_time_source
  go_supersedes_conversion_outcome_id :: "string option"
  go_correction_reason :: "string option"

definition outcome_identity_of :: "governed_outcome \<Rightarrow> outcome_identity" where
  \<comment> \<open>the property \<open>identity\<close>\<close>
  "outcome_identity_of g =
     \<lparr>ox_conversion_outcome_id = oc_conversion_outcome_id (go_outcome g),
      ox_conversion_intent_id = go_conversion_intent_id g, ox_target = go_target g,
      ox_source_system = go_source_system g, ox_source_event_version = go_source_event_version g,
      ox_status = oc_status (go_outcome g),
      ox_downstream_reference = oc_downstream_reference (go_outcome g),
      ox_recorded_at_utc = oc_recorded_at_utc (go_outcome g),
      ox_actor_subject = go_actor_subject g,
      ox_supersedes = go_supersedes_conversion_outcome_id g,
      ox_correction_reason = go_correction_reason g\<rparr>"

record outcome_result =
  oa_conversion_outcome :: governed_outcome
  oa_audit_event :: audit_event

definition governed_outcome_for :: "governed_intent \<Rightarrow> outcome_command \<Rightarrow> py_datetime \<Rightarrow> governed_outcome" where
  "governed_outcome_for i w accepted_at_utc =
     \<lparr>go_outcome = \<lparr>oc_conversion_outcome_id = ow_conversion_outcome_id w,
        oc_conversion_intent_id = in_conversion_intent_id (gi_intent i), oc_status = ow_status w,
        oc_downstream_reference = ow_downstream_reference w,
        oc_recorded_at_utc = ow_recorded_at_utc w\<rparr>,
      go_conversion_intent_id = in_conversion_intent_id (gi_intent i),
      go_target = in_target (gi_intent i), go_source_system = ow_source_system w,
      go_boundary = Downstream_Realization_Required,
      go_source_event_version = ow_source_event_version w, go_actor_subject = ow_actor_subject w,
      go_accepted_at_utc = accepted_at_utc, go_acceptance_time_source = Server_Accepted,
      go_supersedes_conversion_outcome_id = ow_supersedes_conversion_outcome_id w,
      go_correction_reason = ow_correction_reason w\<rparr>"

text \<open>\<open>except ConversionOutcomePolicyViolation\<close>: the policy raises nothing else.\<close>

definition rewrap_policy_violation :: "string \<Rightarrow> unit res \<Rightarrow> unit res" where
  "rewrap_policy_violation intent_id r =
    (case r of Inl (ConversionOutcomePolicyViolation reason) \<Rightarrow> Inl (InvalidConversionOutcome intent_id reason)
     | _ \<Rightarrow> r)"

definition record_conversion_outcome ::
    "governed_intent \<Rightarrow> outcome_command \<Rightarrow> py_datetime \<Rightarrow> governed_outcome list \<Rightarrow> outcome_result res" where
  "record_conversion_outcome i w accepted_at_utc existing =
    (let intent_id = in_conversion_intent_id (gi_intent i);
         expected_source = TARGET_SOURCE_AUTHORITIES (in_target (gi_intent i));
         out = governed_outcome_for i w accepted_at_utc in
     bind_res (checks (require_aware accepted_at_utc ''accepted_at_utc'' @
       require_observed_time_within_policy (ow_recorded_at_utc w) accepted_at_utc
         DOWNSTREAM_OUTCOME_TIME_POLICY @
       [(ow_source_system w \<noteq> expected_source,
         InvalidConversionOutcome intent_id
           (''outcome source must be '' @ source_system_value expected_source)),
        (ow_status w \<in> {Outcome_Accepted, Outcome_Completed} \<and> ow_downstream_reference w = None,
         InvalidConversionOutcome intent_id
           ''accepted or completed outcome requires downstream reference'')] @
       conversion_outcome_guards (go_outcome out) @
       require_aware (go_accepted_at_utc out) ''accepted_at_utc'') ()) (\<lambda>_.
     bind_res (rewrap_policy_violation intent_id
       (validate_conversion_outcome_progression (map outcome_identity_of existing)
         (outcome_identity_of out))) (\<lambda>_.
     bind_res (mk_audit_event ''idea.conversion.outcome_recorded'' (ow_actor_subject w) ''accepted''
         accepted_at_utc
         [(''boundary'', boundary_value (go_boundary out)),
          (''conversion_status'', outcome_status_value (ow_status w)),
          (''conversion_target'', target_value (in_target (gi_intent i))),
          (''source_system'', source_system_value (ow_source_system w)),
          (''source_event_version'', int_str (ow_source_event_version w)),
          (''observed_at_utc'', dt_iso (ow_recorded_at_utc w)),
          (''policy_version'', CONVERSION_OUTCOME_POLICY_VERSION),
          (''supersedes_outcome'',
           (if ow_supersedes_conversion_outcome_id w \<noteq> None then ''true'' else ''false''))]) (\<lambda>audit.
     Inr \<lparr>oa_conversion_outcome = out, oa_audit_event = audit\<rparr>))))"

definition outcome_identity_from_command :: "governed_intent \<Rightarrow> outcome_command \<Rightarrow> outcome_identity" where
  "outcome_identity_from_command i w =
     \<lparr>ox_conversion_outcome_id = ow_conversion_outcome_id w,
      ox_conversion_intent_id = in_conversion_intent_id (gi_intent i),
      ox_target = in_target (gi_intent i), ox_source_system = ow_source_system w,
      ox_source_event_version = ow_source_event_version w, ox_status = ow_status w,
      ox_downstream_reference = ow_downstream_reference w,
      ox_recorded_at_utc = ow_recorded_at_utc w, ox_actor_subject = ow_actor_subject w,
      ox_supersedes = ow_supersedes_conversion_outcome_id w,
      ox_correction_reason = ow_correction_reason w\<rparr>"

definition current_conversion_outcome :: "governed_outcome list \<Rightarrow> governed_outcome option" where
  "current_conversion_outcome outs =
    (case current_conversion_outcome_identity (map outcome_identity_of outs) of
       None \<Rightarrow> None
     | Some x \<Rightarrow> List.find (\<lambda>g. same_outcome_identity (outcome_identity_of g) x) outs)"

section \<open>Realisation\<close>

definition retained_evidence_identity :: "governed_intent \<Rightarrow> authority_grant \<Rightarrow> evidence_identity" where
  "retained_evidence_identity i g =
     \<lparr>ei_candidate_id = in_candidate_id (gi_intent i),
      ei_material_version = ei_material_version (gr_candidate_evidence g),
      ei_evidence_version = ei_evidence_version (gr_candidate_evidence g),
      ei_evidence_packet_id = gi_evidence_packet_id i,
      ei_evidence_content_hash = gi_evidence_content_hash i,
      ei_source_revision_vector_digest = gi_source_revision_vector_digest i,
      ei_source_cut_posture = gi_source_cut_posture i,
      ei_source_cut_authority_policy_version = SOURCE_CUT_AUTHORITY_POLICY_VERSION\<rparr>"

definition validate_conversion_intent_for_realization ::
    "idea_candidate \<Rightarrow> governed_intent \<Rightarrow> py_datetime \<Rightarrow> unit res" where
  "validate_conversion_intent_for_realization c i evaluated_at_utc =
     bind_res (checks (require_aware evaluated_at_utc ''evaluated_at_utc'') ()) (\<lambda>_.
     bind_res (evidence_identity_from_candidate c) (\<lambda>current.
     case gi_review_authority_grant i of
       None \<Rightarrow> Inl (InvalidConversionIntent (cd_candidate_id c) ''review authority is missing'')
     | Some g \<Rightarrow>
         bind_res (checks (evidence_identity_guards (retained_evidence_identity i g) @
           [(in_source_status (gi_intent i) \<noteq> Approved,
             InvalidConversionIntent (cd_candidate_id c) ''source lifecycle is not approved''),
            (cd_lifecycle_status c \<noteq> TARGET_LIFECYCLE_STATUS (in_target (gi_intent i)),
             InvalidConversionIntent (cd_candidate_id c) ''candidate conversion target changed''),
            (gi_target_source_authority i \<noteq> TARGET_SOURCE_AUTHORITIES (in_target (gi_intent i)),
             InvalidConversionIntent (cd_candidate_id c) ''target source authority changed''),
            (retained_evidence_identity i g \<noteq> current,
             InvalidConversionIntent (cd_candidate_id c) ''candidate evidence changed''),
            (\<not> source_cut_is_authoritative (gi_source_cut_posture i),
             InvalidConversionIntent (cd_candidate_id c) ''source cut is not authoritative'')]) ()) (\<lambda>_.
         bind_res (effective_status g c evaluated_at_utc) (\<lambda>s.
         checks [(s \<noteq> Auth_Active,
                  InvalidConversionIntent (cd_candidate_id c) ''review authority is not active'')] ()))))"

section \<open>Requests\<close>

definition converted_candidate :: "idea_candidate \<Rightarrow> conversion_target \<Rightarrow> py_datetime \<Rightarrow> idea_candidate" where
  "converted_candidate c target t =
     c\<lparr>cd_lifecycle_status := TARGET_LIFECYCLE_STATUS target,
       cd_review_posture := Approved_For_Conversion, cd_updated_at_utc := t\<rparr>"

lemma converted_candidate_simps [simp]:
  "cd_candidate_id (converted_candidate c g t) = cd_candidate_id c"
  "cd_identity (converted_candidate c g t) = cd_identity c"
  "cd_evidence_packet (converted_candidate c g t) = cd_evidence_packet c"
  "cd_lifecycle_status (converted_candidate c g t) = TARGET_LIFECYCLE_STATUS g"
  "cd_review_posture (converted_candidate c g t) = Approved_For_Conversion"
  "cd_updated_at_utc (converted_candidate c g t) = t"
  "evidence_identity_of (converted_candidate c g t) = evidence_identity_of c"
  by (simp_all add: converted_candidate_def evidence_identity_of_def)

lemma conversion_target_allowed:
  "TARGET_LIFECYCLE_STATUS g \<in> ALLOWED_LIFECYCLE_TRANSITIONS Approved"
  "normalized_transition_posture (TARGET_LIFECYCLE_STATUS g) = Some Approved_For_Conversion"
  by (cases g; simp)+

lemma conversion_transition:
  assumes "transition_candidate t c (TARGET_LIFECYCLE_STATUS g) (Some t) = Inr d"
  shows "d = converted_candidate c g t" and "valid_candidate d"
  using transition_candidate_Inr[OF assms] conversion_target_allowed[of g]
  by (auto simp: review_posture_for_transition_def converted_candidate_def)

lemma conversion_transition_ok:
  assumes "valid_candidate c" "cd_lifecycle_status c = Approved" "aware t"
  shows "transition_candidate t c (TARGET_LIFECYCLE_STATUS g) (Some t) = Inr (converted_candidate c g t)"
  by (rule transition_candidate_ok[OF assms(1), of "TARGET_LIFECYCLE_STATUS g" "Some t" t])
    (use assms conversion_target_allowed[of g] in
      \<open>simp_all add: review_posture_for_transition_def converted_candidate_def\<close>)

lemma ensure_exact_review_authority_Inr:
  assumes "ensure_exact_review_authority c w g t = Inr ()"
  shows "iw_expected_candidate_evidence w = evidence_identity_of c \<and>
    gr_review_id g = iw_expected_review_id w \<and> gr_candidate_evidence g = evidence_identity_of c \<and>
    effective_status g c t = Inr Auth_Active"
  using assms
  by (auto simp: ensure_exact_review_authority_def bind_res_Inr dest: evidence_identity_from_candidateD)

text \<open>Everything an accepted request went through, and what it produced.\<close>

lemma request_conversion_intentD:
  assumes "request_conversion_intent c w t g = Inr r"
  shows "ia_candidate r = converted_candidate c (iw_target w) t" and "valid_candidate (ia_candidate r)"
    and "ia_conversion_intent r = governed_intent_for c w t g"
    and "passes (governed_intent_guards (ia_conversion_intent r))"
    and "ready_for_conversion c" and "source_cut_is_authoritative (packet_cut_posture (cd_evidence_packet c))"
    and "iw_expected_candidate_evidence w = evidence_identity_of c"
    and "gr_review_id g = iw_expected_review_id w" and "effective_status g c t = Inr Auth_Active"
    and "inst (gr_accepted_at_utc g) \<le> inst t"
    and "ia_source_candidate r = c"
proof -
  from assms obtain d au where
      p: "passes (ensure_candidate_ready_for_conversion c t)"
    and e: "ensure_exact_review_authority c w g t = Inr ()"
    and i: "passes (governed_intent_guards (governed_intent_for c w t g))"
    and d: "transition_candidate t c (TARGET_LIFECYCLE_STATUS (iw_target w)) (Some t) = Inr d"
    and r: "r = \<lparr>ia_source_candidate = c, ia_candidate = d,
      ia_conversion_intent = governed_intent_for c w t g, ia_audit_event = au\<rparr>"
    unfolding request_conversion_intent_def Let_def bind_checks_Inr bind_res_Inr by auto
  show "ia_candidate r = converted_candidate c (iw_target w) t" "valid_candidate (ia_candidate r)"
    "ia_conversion_intent r = governed_intent_for c w t g" "ia_source_candidate r = c"
    "passes (governed_intent_guards (ia_conversion_intent r))"
    using conversion_transition[OF d] r i by simp_all
  show "ready_for_conversion c" "source_cut_is_authoritative (packet_cut_posture (cd_evidence_packet c))"
    using p by (simp_all add: ensure_candidate_ready_for_conversion_def ready_for_conversion_def)
  show "iw_expected_candidate_evidence w = evidence_identity_of c"
    "gr_review_id g = iw_expected_review_id w" "effective_status g c t = Inr Auth_Active"
    using ensure_exact_review_authority_Inr[OF e] by simp_all
  show "inst (gr_accepted_at_utc g) \<le> inst t"
    using i by (auto simp: governed_intent_guards_def governed_intent_for_def dt_less_def)
qed

text \<open>With an active grant for the candidate the request succeeds.\<close>

lemma request_conversion_intent_ok:
  assumes wf: "well_formed_candidate c" and w: "passes (intent_command_guards w)"
    and tm: "passes (require_observed_time_within_policy (iw_requested_at_utc w) t CONVERSION_INTENT_TIME_POLICY)"
    and rd: "passes (ensure_candidate_ready_for_conversion c t)"
    and ev: "iw_expected_candidate_evidence w = evidence_identity_of c"
      "gr_review_id g = iw_expected_review_id w" "effective_status g c t = Inr Auth_Active"
      "inst (gr_accepted_at_utc g) \<le> inst t"
  shows "\<exists>r. request_conversion_intent c w t g = Inr r"
proof -
  have a: "aware t" "aware (iw_requested_at_utc w)" using tm by auto
  have l: "cd_lifecycle_status c = Approved"
    using rd by (simp add: ensure_candidate_ready_for_conversion_def)
  note act = effective_status_active[OF ev(3)] evidence_identity_ok[OF wf]
  have ex: "ensure_exact_review_authority c w g t = Inr ()"
    using act ev by (simp add: ensure_exact_review_authority_def checks_passes)
  have ei: "passes (evidence_identity_guards (evidence_identity_of c))"
    using act by (auto simp: evidence_identity_from_candidate_def)
  have gi: "passes (conversion_intent_guards (gi_intent (governed_intent_for c w t g)))"
    "passes (governed_intent_guards (governed_intent_for c w t g))"
    using w ei act a l ev wf
    by (auto simp: conversion_intent_guards_def governed_intent_guards_def governed_intent_for_def
        intent_command_guards_def evidence_identity_guards_def evidence_identity_of_def
        well_formed_candidate_def valid_candidate_iff dt_less_def)
  have au: "\<exists>x. intent_audit_event c w (governed_intent_for c w t g) g = Inr x"
    using w a unfolding intent_audit_event_def
    by (subst mk_audit_event_ok)
      (simp_all add: governed_intent_for_def intent_command_guards_def blank_iff py_space_def
        FORBIDDEN_ATTRIBUTE_KEYS_def)
  show ?thesis
    using conversion_transition_ok[of c t "iw_target w"] wf l a tm rd ex gi au
    by (auto simp: request_conversion_intent_def Let_def well_formed_candidate_def)
qed

section \<open>Recorded outcomes\<close>

lemma outcome_identity_roundtrip:
  "outcome_identity_of (governed_outcome_for i w t) = outcome_identity_from_command i w"
  by (simp add: outcome_identity_of_def governed_outcome_for_def outcome_identity_from_command_def)

lemma rewrap_Inr [simp]: "rewrap_policy_violation i r = Inr () \<longleftrightarrow> r = Inr ()"
  by (auto simp: rewrap_policy_violation_def split: sum.splits py_error.splits)

text \<open>On a well-formed stream an outcome is recorded exactly when it comes from the system
  that owns the target, carries a reference where one is needed, and extends the stream.\<close>

lemma record_conversion_outcome_iff:
  assumes st: "outcome_stream (map outcome_identity_of existing)" and w: "passes (outcome_command_guards w)"
    and nb: "\<not> blank (in_conversion_intent_id (gi_intent i))"
  shows "(\<exists>r. record_conversion_outcome i w t existing = Inr r) \<longleftrightarrow>
     passes (require_observed_time_within_policy (ow_recorded_at_utc w) t DOWNSTREAM_OUTCOME_TIME_POLICY) \<and>
     ow_source_system w = TARGET_SOURCE_AUTHORITIES (in_target (gi_intent i)) \<and>
     (ow_status w \<in> {Outcome_Accepted, Outcome_Completed} \<longrightarrow> ow_downstream_reference w \<noteq> None) \<and>
     outcome_stream (map outcome_identity_of (existing @ [governed_outcome_for i w t]))"
    (is "?L \<longleftrightarrow> ?R")
proof -
  have au: "aware t \<Longrightarrow> \<exists>x. mk_audit_event ''idea.conversion.outcome_recorded'' (ow_actor_subject w)
      ''accepted'' t [(''boundary'', b1), (''conversion_status'', b2), (''conversion_target'', b3),
          (''source_system'', b4), (''source_event_version'', b5), (''observed_at_utc'', b6),
          (''policy_version'', b7), (''supersedes_outcome'', b8)] = Inr x" for b1 b2 b3 b4 b5 b6 b7 b8
    using w by (subst mk_audit_event_ok)
      (simp_all add: outcome_command_guards_def blank_iff py_space_def FORBIDDEN_ATTRIBUTE_KEYS_def)
  have p: "validate_conversion_outcome_progression (map outcome_identity_of existing)
      (outcome_identity_of (governed_outcome_for i w t)) = Inr () \<longleftrightarrow>
      outcome_stream (map outcome_identity_of (existing @ [governed_outcome_for i w t]))"
    using progression_accepted_iff[OF st] by simp
  have g: "passes (conversion_outcome_guards (go_outcome (governed_outcome_for i w t)))"
    using w nb by (auto simp: conversion_outcome_guards_def governed_outcome_for_def outcome_command_guards_def)
  show ?thesis
  proof
    assume ?L
    then show ?R
      using p by (auto simp: record_conversion_outcome_def Let_def bind_res_Inr)
  next
    assume r: ?R
    then have "aware t" by auto
    then show ?L
      using r p g au[OF \<open>aware t\<close>]
      by (auto simp: record_conversion_outcome_def Let_def bind_res_Inr governed_outcome_for_def)
  qed
qed

lemma record_conversion_outcomeD:
  assumes "record_conversion_outcome i w t existing = Inr r"
  shows "oa_conversion_outcome r = governed_outcome_for i w t"
    and "validate_conversion_outcome_progression (map outcome_identity_of existing)
      (outcome_identity_from_command i w) = Inr ()"
    and "ow_source_system w = TARGET_SOURCE_AUTHORITIES (in_target (gi_intent i))"
  using assms
  by (auto simp: record_conversion_outcome_def Let_def bind_res_Inr outcome_identity_roundtrip)

lemma current_conversion_outcome_stream:
  assumes "outcome_stream (map outcome_identity_of outs)" "outs \<noteq> []"
  shows "\<exists>g. current_conversion_outcome outs = Some g \<and> g \<in> set outs \<and>
    same_outcome_identity (outcome_identity_of g) (outcome_identity_of (last outs))"
proof -
  have c: "current_conversion_outcome_identity (map outcome_identity_of outs) = Some (outcome_identity_of (last outs))"
    using current_of_stream[OF assms(1)] assms(2) by (simp add: last_map)
  have "\<exists>x \<in> set outs. same_outcome_identity (outcome_identity_of x) (outcome_identity_of (last outs))"
    using assms(2) by (intro bexI[of _ "last outs"]) (simp_all add: same_outcome_identity_def)
  then obtain g where "List.find (\<lambda>g. same_outcome_identity (outcome_identity_of g) (outcome_identity_of (last outs))) outs = Some g"
    by (metis (no_types, lifting) find_None_iff2 not_Some_eq)
  with c find_Some_iff'[OF this] show ?thesis by (simp add: current_conversion_outcome_def)
qed

section \<open>Realisation after a request\<close>

lemma realization_Inr:
  "validate_conversion_intent_for_realization c i t = Inr () \<Longrightarrow>
     \<exists>g. gi_review_authority_grant i = Some g \<and> effective_status g c t = Inr Auth_Active \<and>
       retained_evidence_identity i g = evidence_identity_of c \<and>
       cd_lifecycle_status c = TARGET_LIFECYCLE_STATUS (in_target (gi_intent i)) \<and>
       in_source_status (gi_intent i) = Approved"
  by (auto simp: validate_conversion_intent_for_realization_def bind_res_Inr
      dest!: evidence_identity_from_candidateD split: option.splits)

lemma effective_status_converted:
  assumes "well_formed_candidate c" "well_formed_candidate (converted_candidate c g' t')"
  shows "effective_status g (converted_candidate c g' t') t = effective_status g c t"
  using assms by (simp add: effective_status_def evidence_identity_ok)

lemma realization_after_request:
  assumes r: "request_conversion_intent c w t g = Inr r" and wf: "well_formed_candidate c"
    and later: "is_utc t'" "\<forall>x. gr_applicability_expires_at_utc g = Some x \<longrightarrow> inst t' < inst x"
  shows "validate_conversion_intent_for_realization (ia_candidate r) (ia_conversion_intent r) t' = Inr ()"
proof -
  note D = request_conversion_intentD[OF r]
  have wfd: "well_formed_candidate (converted_candidate c (iw_target w) t)"
    using wf D(1,2) by (simp add: well_formed_candidate_def)
  note act = effective_status_active[OF D(9)]
  have s: "effective_status g (converted_candidate c (iw_target w) t) t' = Inr Auth_Active"
    unfolding effective_status_converted[OF wf wfd]
    using act later evidence_identity_ok[OF wf]
    by (cases "gr_applicability_expires_at_utc g") (auto simp: effective_status_def dt_le_def)
  have ei: "passes (evidence_identity_guards (evidence_identity_of c))"
    using evidence_identity_ok[OF wf] by (auto simp: evidence_identity_from_candidate_def)
  have ret: "retained_evidence_identity (ia_conversion_intent r) g = evidence_identity_of c"
    using act D(3) by (simp add: retained_evidence_identity_def governed_intent_for_def evidence_identity_of_def)
  have i: "gi_review_authority_grant (ia_conversion_intent r) = Some g"
    "in_source_status (gi_intent (ia_conversion_intent r)) = Approved"
    "in_target (gi_intent (ia_conversion_intent r)) = iw_target w"
    "gi_target_source_authority (ia_conversion_intent r) = TARGET_SOURCE_AUTHORITIES (iw_target w)"
    "gi_source_cut_posture (ia_conversion_intent r) = packet_cut_posture (cd_evidence_packet c)"
    using D(3,5) by (simp_all add: governed_intent_for_def ready_for_conversion_def)
  show ?thesis
    using evidence_identity_ok[OF wfd] i ret ei D(6) s later(1)
    by (simp add: validate_conversion_intent_for_realization_def D(1) checks_passes)
qed

text \<open>Once the evidence has moved on, the intent can no longer be realised.\<close>

lemma realization_needs_same_version:
  assumes "validate_conversion_intent_for_realization c i t = Inr ()" "version_less c d"
  shows "validate_conversion_intent_for_realization d i t' \<noteq> Inr ()"
proof
  assume "validate_conversion_intent_for_realization d i t' = Inr ()"
  with realization_Inr[OF this] realization_Inr[OF assms(1)] assms(2) show False
    by (auto simp: evidence_identity_of_def version_less_def)
qed

end
