(* ===== verification/Downstream.thy ===== *)
theory Downstream
imports Interfaces Ideas Sha256
begin

text \<open>
  Submissions to downstream systems: \<open>src/app/domain/downstream_submission.py\<close> and the
  store operations of \<open>persistence_downstream_submission.py\<close>. A submission is claimed once
  under a lease, finalised by the holder of the lease and, where the answer of the
  downstream system is unknown, reconciled by an operator. The lemmas show that the records
  stay well-formed with one audit entry per change, which changes of posture exist, that
  only the lease holder finalises and only once, and that repeated claims and
  reconciliations have no effect.
\<close>

section \<open>Postures and receipts\<close>

definition DOWNSTREAM_SUBMISSION_SUPPORT_PREFIX :: string where
  "DOWNSTREAM_SUBMISSION_SUPPORT_PREFIX = ''downstream-submission-''"

datatype submission_resource = Conversion_Intent_Resource | Report_Evidence_Pack_Resource

fun submission_resource_value :: "submission_resource \<Rightarrow> string" where
  "submission_resource_value Conversion_Intent_Resource = ''conversion_intent''"
| "submission_resource_value Report_Evidence_Pack_Resource = ''report_evidence_pack''"

datatype submission_identity_version = Legacy_Unscoped_V1 | Tenant_Scoped_V2

datatype submission_posture =
  In_Flight | Accepted_By_Downstream | Rejected_By_Downstream | Not_Configured
| Reconciliation_Required | Quarantined

fun submission_posture_value :: "submission_posture \<Rightarrow> string" where
  "submission_posture_value In_Flight = ''in_flight''"
| "submission_posture_value Accepted_By_Downstream = ''accepted_by_downstream''"
| "submission_posture_value Rejected_By_Downstream = ''rejected_by_downstream''"
| "submission_posture_value Not_Configured = ''not_configured''"
| "submission_posture_value Reconciliation_Required = ''reconciliation_required''"
| "submission_posture_value Quarantined = ''quarantined''"

datatype submission_action =
  Act_Claimed | Act_Finalized | Act_Reconciliation_Required | Act_Reconciled | Act_Quarantined

fun submission_action_value :: "submission_action \<Rightarrow> string" where
  "submission_action_value Act_Claimed = ''claimed''"
| "submission_action_value Act_Finalized = ''finalized''"
| "submission_action_value Act_Reconciliation_Required = ''reconciliation_required''"
| "submission_action_value Act_Reconciled = ''reconciled''"
| "submission_action_value Act_Quarantined = ''quarantined''"

datatype submission_claim_decision =
  Claim_Accepted | Claim_Replayed | Claim_Conflict | Claim_Resource_Conflict
| Claim_Reconciliation_Required

datatype submission_mutation_decision =
  Mut_Accepted | Mut_Replayed | Mut_Not_Found | Mut_Lease_Conflict | Mut_Invalid_State

datatype submission_resolution = Resolve_Accepted | Resolve_Rejected | Resolve_Quarantined

fun resolution_posture :: "submission_resolution \<Rightarrow> submission_posture" where
  \<comment> \<open>\<open>DownstreamSubmissionPosture(resolution.value)\<close>\<close>
  "resolution_posture Resolve_Accepted = Accepted_By_Downstream"
| "resolution_posture Resolve_Rejected = Rejected_By_Downstream"
| "resolution_posture Resolve_Quarantined = Quarantined"

datatype receipt_progress = Exact_Replay | Advanced | Progress_Conflict

record materialization_receipt =
  mt_status :: string
  mt_materialization_status :: string
  mt_status_url :: string
  mt_report_evidence_pack_id :: string
  mt_conversion_intent_id :: string
  mt_candidate_id :: string
  mt_evidence_packet_id :: string
  mt_creates_report_job :: bool
  mt_creates_rendered_output :: bool
  mt_creates_archive_record :: bool
  mt_render_job_id :: "string option"
  mt_archive_document_id :: "string option"
  mt_supportability_status :: string
  mt_remaining_blockers :: "string list"

definition materialization_receipt_guards :: "materialization_receipt \<Rightarrow> guards" where
  "materialization_receipt_guards m =
     require_text (mt_status m) ''status'' @
     require_text (mt_materialization_status m) ''materialization_status'' @
     require_text (mt_status_url m) ''status_url'' @
     require_text (mt_report_evidence_pack_id m) ''report_evidence_pack_id'' @
     require_text (mt_conversion_intent_id m) ''conversion_intent_id'' @
     require_text (mt_candidate_id m) ''candidate_id'' @
     require_text (mt_evidence_packet_id m) ''evidence_packet_id'' @
     require_text (mt_supportability_status m) ''supportability_status'' @
     [(\<not> mt_creates_report_job m, ValueError ''report materialization receipt must create a report job''),
      (mt_creates_rendered_output m \<noteq> (mt_render_job_id m \<noteq> None),
       ValueError ''render creation posture must match render_job_id''),
      (mt_creates_archive_record m \<noteq> (mt_archive_document_id m \<noteq> None),
       ValueError ''archive creation posture must match archive_document_id''),
      (mt_creates_archive_record m \<and> \<not> mt_creates_rendered_output m,
       ValueError ''an archive record requires rendered output''),
      (mt_remaining_blockers m = [], ValueError ''remaining_blockers is required'')] @
     concat (map (\<lambda>b. require_text b ''remaining_blocker'') (mt_remaining_blockers m)) @
     [(mt_status m \<noteq> mt_materialization_status m,
       ValueError ''Report materialization status fields must agree''),
      (mt_supportability_status m \<noteq> ''not_certified'',
       ValueError ''Report materialization must remain not_certified''),
      (\<not> {''client_publication_authority_blocked'', ''supported_feature_promotion_missing''} \<subseteq>
         set (mt_remaining_blockers m),
       ValueError ''Report materialization omits required supportability blockers'')]"

record owner_receipt =
  wn_owner_authority :: source_system
  wn_owner_request_id :: string
  wn_owner_realization_id :: string
  wn_owner_work_id :: "string option"
  wn_source_event_version :: "int option"
  wn_source_evidence_fingerprint :: string
  wn_report_materialization :: "materialization_receipt option"

definition owner_receipt_guards :: "owner_receipt \<Rightarrow> guards" where
  "owner_receipt_guards r =
     require_text (wn_owner_request_id r) ''owner_request_id'' @
     require_text (wn_owner_realization_id r) ''owner_realization_id'' @
     require_opt_text (wn_owner_work_id r) ''owner_work_id'' @
     [(some_satisfies (\<lambda>v. v \<le> 0) (wn_source_event_version r),
       ValueError ''source_event_version must be positive when present'')] @
     require_text (wn_source_evidence_fingerprint r) ''source_evidence_fingerprint'' @
     [(\<not> is_prefix ''sha256:'' (wn_source_evidence_fingerprint r),
       ValueError ''source_evidence_fingerprint must use sha256'')] @
     (if wn_owner_authority r = Lotus_Report
      then
        (case wn_report_materialization r of
           None \<Rightarrow> [(True, ValueError ''Report owner receipt requires materialization evidence'')]
         | Some m \<Rightarrow>
             [(wn_owner_work_id r \<noteq> None,
               ValueError ''Report materialization uses owner_realization_id for the job''),
              (mt_status_url m \<noteq> ''/reports/jobs/'' @ wn_owner_realization_id r,
               ValueError ''Report materialization status_url must match owner_realization_id'')])
      else [(wn_source_event_version r = None,
             ValueError ''evented owner receipt requires source_event_version''),
            (wn_report_materialization r \<noteq> None,
             ValueError ''report materialization evidence requires lotus-report authority'')])"

definition report_receipt_identity ::
    "owner_receipt \<Rightarrow> materialization_receipt \<Rightarrow>
     source_system \<times> string option \<times> string list" where
  \<comment> \<open>the tuples \<open>current_identity\<close> and \<open>proposed_identity\<close>\<close>
  "report_receipt_identity r m =
     (wn_owner_authority r, wn_owner_work_id r,
      [wn_owner_request_id r, wn_owner_realization_id r, wn_source_evidence_fingerprint r,
       mt_status_url m, mt_report_evidence_pack_id m, mt_conversion_intent_id m, mt_candidate_id m,
       mt_evidence_packet_id m])"

definition classify_report_owner_receipt_progress ::
    "owner_receipt \<Rightarrow> owner_receipt \<Rightarrow> receipt_progress" where
  "classify_report_owner_receipt_progress current proposed =
    (if wn_owner_authority current \<noteq> Lotus_Report \<or> wn_owner_authority proposed \<noteq> Lotus_Report
     then Progress_Conflict
     else case (wn_report_materialization current, wn_report_materialization proposed,
                wn_source_event_version proposed) of
       (Some mc, Some mp, Some vp) \<Rightarrow>
         if report_receipt_identity current mc \<noteq> report_receipt_identity proposed mp
         then Progress_Conflict
         else (case wn_source_event_version current of
             None \<Rightarrow> Advanced
           | Some vc \<Rightarrow>
               if vp < vc then Progress_Conflict
               else if vp = vc then (if proposed = current then Exact_Replay else Progress_Conflict)
               else Advanced)
     | _ \<Rightarrow> Progress_Conflict)"

section \<open>Records\<close>

record submission_audit =
  sa_audit_id :: string
  sa_action :: submission_action
  sa_actor_subject :: string
  sa_current_posture :: submission_posture
  sa_occurred_at_utc :: py_datetime
  sa_previous_posture :: "submission_posture option"
  sa_reason :: "string option"
  sa_change_reference :: "string option"

definition submission_audit_guards :: "submission_audit \<Rightarrow> guards" where
  "submission_audit_guards a =
     require_text (sa_audit_id a) ''audit_id'' @
     require_text (sa_actor_subject a) ''actor_subject'' @
     require_aware_utc (sa_occurred_at_utc a) ''occurred_at_utc'' @
     require_opt_text (sa_reason a) ''reason'' @
     require_opt_text (sa_change_reference a) ''change_reference''"

record submission =
  sb_tenant_id :: string
  sb_identity_version :: submission_identity_version
  sb_idempotency_key :: string
  sb_request_fingerprint :: string
  sb_resource_type :: submission_resource
  sb_resource_id :: string
  sb_target :: conversion_target
  sb_source_authority :: source_system
  sb_status :: submission_posture
  sb_submitted_at_utc :: py_datetime
  sb_support_reference :: string
  sb_attempt_count :: int
  sb_updated_at_utc :: py_datetime
  sb_audit_history :: "submission_audit list"
  sb_downstream_failure_reason :: "string option"
  sb_correlation_id :: "string option"
  sb_trace_id :: "string option"
  sb_lease_owner :: "string option"
  sb_lease_attempt_id :: "string option"
  sb_lease_expires_at_utc :: "py_datetime option"
  sb_owner_receipt :: "owner_receipt option"

definition downstream_submission_identity :: "string \<Rightarrow> string \<Rightarrow> string res" where
  "downstream_submission_identity tenant_id idempotency_key =
     checks (require_text tenant_id ''tenant_id'' @ require_text idempotency_key ''idempotency_key'')
       (tenant_id @ [char_of (0 :: nat)] @ idempotency_key)"

definition downstream_submission_support_reference :: "string \<Rightarrow> string \<Rightarrow> string res" where
  "downstream_submission_support_reference tenant_id idempotency_key =
     bind_res (downstream_submission_identity tenant_id idempotency_key)
       (\<lambda>i. Inr (DOWNSTREAM_SUBMISSION_SUPPORT_PREFIX @ take 24 (sha256_hex i)))"

definition downstream_submission_lease_attempt_id :: "string \<Rightarrow> string \<Rightarrow> string res" where
  "downstream_submission_lease_attempt_id tenant_id idempotency_key =
     bind_res (downstream_submission_identity tenant_id idempotency_key)
       (\<lambda>i. Inr (''downstream-attempt-'' @ take 24 (sha256_hex i)))"

definition legacy_downstream_submission_support_reference :: "string \<Rightarrow> string res" where
  "legacy_downstream_submission_support_reference idempotency_key =
     checks (require_text idempotency_key ''idempotency_key'')
       (DOWNSTREAM_SUBMISSION_SUPPORT_PREFIX @ take 24 (sha256_hex idempotency_key))"

definition expected_support_reference :: "submission \<Rightarrow> string res" where
  "expected_support_reference r =
    (if sb_identity_version r = Legacy_Unscoped_V1
     then legacy_downstream_submission_support_reference (sb_idempotency_key r)
     else downstream_submission_support_reference (sb_tenant_id r) (sb_idempotency_key r))"

definition validate_submission_lease :: "submission \<Rightarrow> guards" where
  "validate_submission_lease r =
     [(sb_status r = In_Flight \<and>
       (sb_lease_owner r = None \<or> sb_lease_attempt_id r = None \<or> sb_lease_expires_at_utc r = None),
       ValueError ''in-flight downstream submission requires a complete lease'')] @
     require_opt_text (sb_lease_owner r) ''lease_owner'' @
     require_opt_text (sb_lease_attempt_id r) ''lease_attempt_id'' @
     opt_guards (sb_lease_expires_at_utc r) (\<lambda>t.
       require_aware_utc t ''lease_expires_at_utc'' @
       [(dt_le t (sb_submitted_at_utc r),
         ValueError ''lease_expires_at_utc must be after submitted_at_utc'')])"

definition posture_requires_failure :: "submission_posture \<Rightarrow> bool" where
  "posture_requires_failure p \<longleftrightarrow>
     p \<in> {Rejected_By_Downstream, Not_Configured, Reconciliation_Required, Quarantined}"

definition validate_submission_posture :: "submission \<Rightarrow> guards" where
  "validate_submission_posture r =
     [(posture_requires_failure (sb_status r) \<and> sb_downstream_failure_reason r = None,
       ValueError (submission_posture_value (sb_status r) @
         '' downstream submission requires a failure reason'')),
      (sb_status r \<in> {In_Flight, Accepted_By_Downstream} \<and> sb_downstream_failure_reason r \<noteq> None,
       ValueError (submission_posture_value (sb_status r) @
         '' downstream submission forbids a failure reason''))] @
     opt_guards (sb_owner_receipt r) (\<lambda>ow.
       [(sb_status r \<notin> {Accepted_By_Downstream, Rejected_By_Downstream},
         ValueError ''owner_receipt requires a terminal downstream posture''),
        (wn_owner_authority ow \<noteq> sb_source_authority r,
         ValueError ''owner_receipt authority must match source_authority'')])"

definition mk_submission :: "submission \<Rightarrow> submission res" where
  "mk_submission r =
     bind_res (checks
       (require_text (sb_tenant_id r) ''tenant_id'' @
        require_text (sb_idempotency_key r) ''idempotency_key'' @
        require_text (sb_request_fingerprint r) ''request_fingerprint'' @
        require_text (sb_resource_id r) ''resource_id'' @
        require_text (sb_support_reference r) ''support_reference'') ()) (\<lambda>_.
     bind_res (expected_support_reference r) (\<lambda>expected.
     checks
       ([(sb_support_reference r \<noteq> expected,
          ValueError ''support_reference must match the declared submission identity'')] @
        require_aware_utc (sb_submitted_at_utc r) ''submitted_at_utc'' @
        require_aware_utc (sb_updated_at_utc r) ''updated_at_utc'' @
        require_positive (sb_attempt_count r) ''attempt_count'' @
        [(sb_audit_history r = [], ValueError ''audit_history is required'')] @
        require_opt_text (sb_downstream_failure_reason r) ''downstream_failure_reason'' @
        validate_submission_lease r @ validate_submission_posture r) r))"

record submission_claim_result =
  sz_decision :: submission_claim_decision
  sz_record :: "submission option"

record submission_mutation_result =
  sm_decision :: submission_mutation_decision
  sm_record :: "submission option"
  sm_blocker :: "string option"

definition submission_sort_key :: "submission \<Rightarrow> int \<times> string \<times> string \<times> string \<times> int" where
  "submission_sort_key r =
     (inst (sb_submitted_at_utc r), submission_resource_value (sb_resource_type r), sb_resource_id r,
      target_value (sb_target r), inst (sb_updated_at_utc r))"

definition submission_audit_entry ::
    "string \<Rightarrow> string \<Rightarrow> nat \<Rightarrow> submission_action \<Rightarrow> string \<Rightarrow> submission_posture \<Rightarrow> py_datetime \<Rightarrow>
     submission_posture option \<Rightarrow> string option \<Rightarrow> string option \<Rightarrow> submission_audit res" where
  "submission_audit_entry tenant_id idempotency_key sequence action actor current t previous reason
     change_reference =
     bind_res (downstream_submission_identity tenant_id idempotency_key) (\<lambda>i.
     let a = \<lparr>sa_audit_id = ''downstream-audit-'' @ take 24 (sha256_hex
               (i @ '':'' @ nat_str sequence @ '':'' @ submission_action_value action)),
             sa_action = action, sa_actor_subject = actor, sa_current_posture = current,
             sa_occurred_at_utc = t, sa_previous_posture = previous, sa_reason = reason,
             sa_change_reference = change_reference\<rparr>
     in checks (submission_audit_guards a) a)"

section \<open>Claim, finalisation and reconciliation\<close>

record submission_request =
  sq_tenant_id :: string
  sq_idempotency_key :: string
  sq_request_fingerprint :: string
  sq_resource_type :: submission_resource
  sq_resource_id :: string
  sq_target :: conversion_target
  sq_source_authority :: source_system
  sq_actor_subject :: string
  sq_claimed_at_utc :: py_datetime
  sq_lease_owner :: string
  sq_lease_attempt_id :: string
  sq_lease_expires_at_utc :: py_datetime
  sq_correlation_id :: "string option"
  sq_trace_id :: "string option"

definition create_downstream_submission_claim :: "submission_request \<Rightarrow> submission res" where
  "create_downstream_submission_claim q =
     bind_res (submission_audit_entry (sq_tenant_id q) (sq_idempotency_key q) 1 Act_Claimed
         (sq_actor_subject q) In_Flight (sq_claimed_at_utc q) None None None) (\<lambda>audit.
     bind_res (downstream_submission_support_reference (sq_tenant_id q) (sq_idempotency_key q)) (\<lambda>support.
     mk_submission
       \<lparr>sb_tenant_id = sq_tenant_id q, sb_identity_version = Tenant_Scoped_V2,
        sb_idempotency_key = sq_idempotency_key q,
        sb_request_fingerprint = sq_request_fingerprint q, sb_resource_type = sq_resource_type q,
        sb_resource_id = sq_resource_id q, sb_target = sq_target q,
        sb_source_authority = sq_source_authority q, sb_status = In_Flight,
        sb_submitted_at_utc = sq_claimed_at_utc q, sb_support_reference = support,
        sb_attempt_count = 1, sb_updated_at_utc = sq_claimed_at_utc q, sb_audit_history = [audit],
        sb_downstream_failure_reason = None, sb_correlation_id = sq_correlation_id q,
        sb_trace_id = sq_trace_id q, sb_lease_owner = Some (sq_lease_owner q),
        sb_lease_attempt_id = Some (sq_lease_attempt_id q),
        sb_lease_expires_at_utc = Some (sq_lease_expires_at_utc q), sb_owner_receipt = None\<rparr>))"

definition evaluate_downstream_submission_claim ::
    "submission option \<Rightarrow> string \<Rightarrow> submission_claim_decision" where
  "evaluate_downstream_submission_claim existing request_fingerprint =
    (case existing of
       None \<Rightarrow> Claim_Accepted
     | Some r \<Rightarrow>
         if sb_request_fingerprint r \<noteq> request_fingerprint then Claim_Conflict
         else if sb_status r \<in> {In_Flight, Reconciliation_Required, Quarantined}
         then Claim_Reconciliation_Required
         else Claim_Replayed)"

definition transition_submission ::
    "submission \<Rightarrow> submission_posture \<Rightarrow> submission_action \<Rightarrow> string \<Rightarrow> py_datetime \<Rightarrow> string option \<Rightarrow>
     string option \<Rightarrow> string option \<Rightarrow> owner_receipt option \<Rightarrow> submission res" where
  "transition_submission r posture action actor t reason failure_reason change_reference receipt =
     bind_res (submission_audit_entry (sb_tenant_id r) (sb_idempotency_key r)
         (length (sb_audit_history r) + 1) action actor posture t (Some (sb_status r)) reason
         change_reference) (\<lambda>audit.
     mk_submission (r\<lparr>sb_status := posture, sb_updated_at_utc := t,
       sb_downstream_failure_reason := failure_reason,
       sb_audit_history := sb_audit_history r @ [audit],
       sb_owner_receipt := (if receipt \<noteq> None then receipt else sb_owner_receipt r)\<rparr>))"

definition submission_lease_blocker :: "submission \<Rightarrow> string \<Rightarrow> string \<Rightarrow> string option res" where
  "submission_lease_blocker r lease_owner lease_attempt_id =
     checks (require_text lease_owner ''lease_owner'' @ require_text lease_attempt_id ''lease_attempt_id'')
       (if sb_lease_owner r \<noteq> Some lease_owner \<or> sb_lease_attempt_id r \<noteq> Some lease_attempt_id
        then Some ''downstream_submission_lease_conflict'' else None)"

definition submission_refused ::
    "submission_mutation_decision \<Rightarrow> submission \<Rightarrow> string \<Rightarrow> submission_mutation_result" where
  "submission_refused d r blocker = \<lparr>sm_decision = d, sm_record = Some r, sm_blocker = Some blocker\<rparr>"

definition submission_replayed :: "submission \<Rightarrow> submission_mutation_result" where
  "submission_replayed r = \<lparr>sm_decision = Mut_Replayed, sm_record = Some r, sm_blocker = None\<rparr>"

definition submission_accepted :: "submission \<Rightarrow> submission_mutation_result" where
  "submission_accepted r = \<lparr>sm_decision = Mut_Accepted, sm_record = Some r, sm_blocker = None\<rparr>"

definition FINAL_POSTURES :: "submission_posture set" where
  "FINAL_POSTURES =
     {Accepted_By_Downstream, Rejected_By_Downstream, Not_Configured, Reconciliation_Required}"

definition finalize_downstream_submission ::
    "submission \<Rightarrow> string \<Rightarrow> string \<Rightarrow> submission_posture \<Rightarrow> py_datetime \<Rightarrow> string option \<Rightarrow>
     owner_receipt option \<Rightarrow> submission_mutation_result res" where
  "finalize_downstream_submission r lease_owner lease_attempt_id posture t failure_reason receipt =
     bind_res (submission_lease_blocker r lease_owner lease_attempt_id) (\<lambda>blocker.
     case blocker of
       Some b \<Rightarrow> Inr (submission_refused Mut_Lease_Conflict r b)
     | None \<Rightarrow>
         if sb_status r \<noteq> In_Flight
         then Inr (submission_refused Mut_Invalid_State r ''downstream_submission_not_in_flight'')
         else bind_res (checks
             ([(posture \<notin> FINAL_POSTURES, ValueError ''unsupported downstream submission final posture'')] @
              opt_guards receipt (\<lambda>ow.
                [(posture \<notin> {Accepted_By_Downstream, Rejected_By_Downstream},
                  ValueError ''owner_receipt requires a terminal downstream posture''),
                 (wn_owner_authority ow \<noteq> sb_source_authority r,
                  ValueError ''owner_receipt authority must match source_authority'')])) ()) (\<lambda>_.
           bind_res (transition_submission r posture
               (if posture = Reconciliation_Required then Act_Reconciliation_Required else Act_Finalized)
               lease_owner t failure_reason failure_reason None receipt)
             (\<lambda>u. Inr (submission_accepted u))))"

record reconciliation_request =
  sn_resolution :: submission_resolution
  sn_actor_subject :: string
  sn_reason :: string
  sn_change_reference :: string
  sn_reconciled_at_utc :: py_datetime
  sn_owner_receipt :: "owner_receipt option"

definition report_progress :: "submission \<Rightarrow> owner_receipt option \<Rightarrow> receipt_progress option" where
  "report_progress r proposed =
    (case (sb_owner_receipt r, proposed) of
       (Some current, Some p) \<Rightarrow>
         if sb_source_authority r = Lotus_Report
         then Some (classify_report_owner_receipt_progress current p) else None
     | _ \<Rightarrow> None)"

definition reconciliation_guards :: "submission \<Rightarrow> reconciliation_request \<Rightarrow> guards" where
  "reconciliation_guards r q =
     require_text (sn_actor_subject q) ''actor_subject'' @
     require_text (sn_reason q) ''reason'' @
     require_text (sn_change_reference q) ''change_reference'' @
     require_aware_utc (sn_reconciled_at_utc q) ''reconciled_at_utc'' @
     opt_guards (sn_owner_receipt q) (\<lambda>ow.
       [(sn_resolution q = Resolve_Quarantined,
         ValueError ''quarantined reconciliation forbids an owner receipt''),
        (wn_owner_authority ow \<noteq> sb_source_authority r,
         ValueError ''owner_receipt authority must match source_authority'')])"

definition same_reconciliation :: "submission \<Rightarrow> reconciliation_request \<Rightarrow> submission_audit \<Rightarrow> bool" where
  "same_reconciliation r q last_audit \<longleftrightarrow>
     sa_current_posture last_audit = resolution_posture (sn_resolution q) \<and>
     sa_actor_subject last_audit = sn_actor_subject q \<and> sa_reason last_audit = Some (sn_reason q) \<and>
     sb_owner_receipt r = sn_owner_receipt q"

definition reconcilable :: "submission \<Rightarrow> reconciliation_request \<Rightarrow> bool" where
  "reconcilable r q \<longleftrightarrow>
     sb_status r \<in> {In_Flight, Reconciliation_Required} \<or>
     (sb_status r = Accepted_By_Downstream \<and>
      resolution_posture (sn_resolution q) = Accepted_By_Downstream \<and>
      report_progress r (sn_owner_receipt q) = Some Advanced)"

definition apply_reconciliation ::
    "submission \<Rightarrow> reconciliation_request \<Rightarrow> submission_mutation_result res" where
  \<comment> \<open>the transition at the end of \<open>reconcile_downstream_submission\<close>\<close>
  "apply_reconciliation r q =
     bind_res (transition_submission r (resolution_posture (sn_resolution q))
         (if sn_resolution q = Resolve_Quarantined then Act_Quarantined else Act_Reconciled)
         (sn_actor_subject q) (sn_reconciled_at_utc q) (Some (sn_reason q))
         (if sn_resolution q = Resolve_Accepted then None else Some (sn_reason q))
         (Some (sn_change_reference q)) (sn_owner_receipt q))
       (\<lambda>u. Inr (submission_accepted u))"

definition reconcile_downstream_submission ::
    "submission \<Rightarrow> reconciliation_request \<Rightarrow> submission_mutation_result res" where
  "reconcile_downstream_submission r q =
     bind_res (checks (reconciliation_guards r q) ()) (\<lambda>_.
     case report_progress r (sn_owner_receipt q) of
       Some Exact_Replay \<Rightarrow> Inr (submission_replayed r)
     | Some Progress_Conflict \<Rightarrow>
         Inr (submission_refused Mut_Invalid_State r ''downstream_submission_owner_version_conflict'')
     | _ \<Rightarrow>
         (let last_audit = last (sb_audit_history r) in
          if sa_change_reference last_audit = Some (sn_change_reference q)
          then Inr (if same_reconciliation r q last_audit then submission_replayed r
                    else submission_refused Mut_Invalid_State r
                      ''downstream_submission_change_reference_conflict'')
          else if \<not> reconcilable r q
          then Inr (submission_refused Mut_Invalid_State r ''downstream_submission_not_reconcilable'')
          else apply_reconciliation r q))"

section \<open>The store\<close>

type_synonym submission_store = "(string, submission) dict"

definition candidate_id_for_submission ::
    "(string, string) dict \<Rightarrow> (string, string) dict \<Rightarrow> submission \<Rightarrow> string option" where
  "candidate_id_for_submission intent_candidates pack_candidates r =
    (if sb_resource_type r = Conversion_Intent_Resource
     then d_get intent_candidates (sb_resource_id r) else d_get pack_candidates (sb_resource_id r))"

definition downstream_submissions_for_candidate ::
    "(string, string) dict \<Rightarrow> (string, string) dict \<Rightarrow> string \<Rightarrow> submission_store \<Rightarrow> submission list res" where
  "downstream_submissions_for_candidate intent_candidates pack_candidates candidate_id s =
     checks (require_text candidate_id ''candidate_id'')
       (sort_key submission_sort_key
         (filter (\<lambda>r. candidate_id_for_submission intent_candidates pack_candidates r = Some candidate_id)
           (d_values s)))"

definition downstream_submission_by_idempotency_key ::
    "string \<Rightarrow> string \<Rightarrow> submission_store \<Rightarrow> submission option res" where
  "downstream_submission_by_idempotency_key tenant_id idempotency_key s =
     bind_res (downstream_submission_identity tenant_id idempotency_key) (\<lambda>k. Inr (d_get s k))"

definition same_submission_resource :: "submission \<Rightarrow> submission \<Rightarrow> bool" where
  "same_submission_resource a b \<longleftrightarrow>
     sb_tenant_id a = sb_tenant_id b \<and> sb_resource_type a = sb_resource_type b \<and>
     sb_resource_id a = sb_resource_id b \<and> sb_target a = sb_target b"

definition claim_downstream_submission ::
    "submission \<Rightarrow> (submission_store, submission_claim_result) act" where
  "claim_downstream_submission r =
     act_bind (act_lift (downstream_submission_identity (sb_tenant_id r) (sb_idempotency_key r))) (\<lambda>k s.
       let existing = d_get s k;
           resource_existing = List.find (\<lambda>x. same_submission_resource x r) (d_values s) in
       if existing = None \<and> resource_existing \<noteq> None
       then act_return \<lparr>sz_decision = Claim_Resource_Conflict, sz_record = resource_existing\<rparr> s
       else
         let d = evaluate_downstream_submission_claim existing (sb_request_fingerprint r) in
         case existing of
           None \<Rightarrow> (Inr \<lparr>sz_decision = d, sz_record = Some r\<rparr>, d_put k r s)
         | Some e \<Rightarrow> (Inr \<lparr>sz_decision = d, sz_record = Some e\<rparr>, s))"

record submission_finalization =
  sf_posture :: submission_posture
  sf_finalized_at_utc :: py_datetime
  sf_failure_reason :: "string option"
  sf_owner_receipt :: "owner_receipt option"

definition submission_not_found :: submission_mutation_result where
  "submission_not_found =
     \<lparr>sm_decision = Mut_Not_Found, sm_record = None, sm_blocker = Some ''downstream_submission_not_found''\<rparr>"

definition store_submission_result ::
    "string \<Rightarrow> submission_mutation_result res \<Rightarrow> (submission_store, submission_mutation_result) act" where
  \<comment> \<open>the end of both mutating methods: an accepted result replaces the stored record\<close>
  "store_submission_result k r s =
    (case r of
       Inl e \<Rightarrow> (Inl e, s)
     | Inr m \<Rightarrow>
         if sm_decision m = Mut_Accepted
         then (case sm_record m of None \<Rightarrow> (Inl AssertionError, s) | Some u \<Rightarrow> (Inr m, d_put k u s))
         else (Inr m, s))"

definition finalize_stored_submission ::
    "string \<Rightarrow> string \<times> string \<Rightarrow> submission_finalization \<Rightarrow>
     (submission_store, submission_mutation_result) act" where
  \<comment> \<open>the body of the method once \<open>storage_key\<close> is known\<close>
  "finalize_stored_submission k wa c s =
    (case d_get s k of
       None \<Rightarrow> (Inr submission_not_found, s)
     | Some r \<Rightarrow> store_submission_result k
         (finalize_downstream_submission r (fst wa) (snd wa) (sf_posture c) (sf_finalized_at_utc c)
            (sf_failure_reason c) (sf_owner_receipt c)) s)"

definition finalize_submission_in_store ::
    "string \<Rightarrow> string \<Rightarrow> string \<times> string \<Rightarrow> submission_finalization \<Rightarrow>
     (submission_store, submission_mutation_result) act" where
  "finalize_submission_in_store tenant_id idempotency_key wa c =
     act_bind (act_lift (downstream_submission_identity tenant_id idempotency_key))
       (\<lambda>k. finalize_stored_submission k wa c)"

definition downstream_submissions_requiring_reconciliation ::
    "int \<Rightarrow> submission_store \<Rightarrow> submission list res" where
  "downstream_submissions_requiring_reconciliation limit s =
     checks (require_positive limit ''limit'')
       (take (nat limit) (sort_key (\<lambda>r. (inst (sb_updated_at_utc r), sb_support_reference r))
         (filter (\<lambda>r. sb_status r \<in> {In_Flight, Reconciliation_Required}) (d_values s))))"

definition downstream_submission_by_support_reference ::
    "string \<Rightarrow> submission_store \<Rightarrow> submission option res" where
  "downstream_submission_by_support_reference support_reference s =
     checks (require_text support_reference ''support_reference'')
       (List.find (\<lambda>r. sb_support_reference r = support_reference) (d_values s))"

definition reconcile_submission_in_store ::
    "string \<Rightarrow> reconciliation_request \<Rightarrow> (submission_store, submission_mutation_result) act" where
  "reconcile_submission_in_store support_reference q s =
     act_bind (act_lift (downstream_submission_by_support_reference support_reference s)) (\<lambda>existing.
       case existing of
         None \<Rightarrow> act_return submission_not_found
       | Some r \<Rightarrow>
           (case reconcile_downstream_submission r q of
              Inl e \<Rightarrow> act_lift (Inl e)
            | Inr m \<Rightarrow>
                if sm_decision m = Mut_Accepted
                then act_bind (act_lift (downstream_submission_identity (sb_tenant_id r) (sb_idempotency_key r)))
                       (\<lambda>k. store_submission_result k (Inr m))
                else act_return m)) s"

section \<open>Well-formed records\<close>

definition valid_submission :: "submission \<Rightarrow> bool" where
  "valid_submission r \<longleftrightarrow> mk_submission r = Inr r"

lemma mk_submission_Inr: "mk_submission r = Inr u \<longleftrightarrow> valid_submission r \<and> u = r"
  by (auto simp: valid_submission_def mk_submission_def bind_res_Inr)

lemma valid_submission_facts:
  assumes "valid_submission r"
  shows "downstream_submission_identity (sb_tenant_id r) (sb_idempotency_key r) =
      Inr (sb_tenant_id r @ [char_of (0 :: nat)] @ sb_idempotency_key r)"
    and "sb_audit_history r \<noteq> []"
    and "sb_status r = In_Flight \<Longrightarrow> sb_lease_owner r \<noteq> None \<and> sb_lease_attempt_id r \<noteq> None"
    and "sb_owner_receipt r \<noteq> None \<Longrightarrow> sb_status r \<in> {Accepted_By_Downstream, Rejected_By_Downstream}"
    and "sb_owner_receipt r = Some x \<Longrightarrow> wn_owner_authority x = sb_source_authority r"
    and "expected_support_reference r = Inr (sb_support_reference r)"
  using assms
  by (auto simp: valid_submission_def mk_submission_def bind_res_Inr validate_submission_lease_def
      validate_submission_posture_def downstream_submission_identity_def checks_passes)

text \<open>The audit history of a record tells its postures without a gap: it starts with the
  claim, each entry takes up the posture the one before left, and the last one leaves the
  posture the record has.\<close>

fun audit_chain :: "submission_posture \<Rightarrow> submission_audit list \<Rightarrow> submission_posture \<Rightarrow> bool" where
  "audit_chain p [] q = (p = q)"
| "audit_chain p (a # as) q = (sa_previous_posture a = Some p \<and> audit_chain (sa_current_posture a) as q)"

definition audited :: "submission \<Rightarrow> bool" where
  "audited r \<longleftrightarrow>
     (\<exists>a as. sb_audit_history r = a # as \<and> sa_action a = Act_Claimed \<and> sa_previous_posture a = None \<and>
        sa_current_posture a = In_Flight \<and> audit_chain In_Flight as (sb_status r))"

definition submission_ok :: "submission \<Rightarrow> bool" where
  "submission_ok r \<longleftrightarrow> valid_submission r \<and> audited r"

lemma audit_chain_append:
  "audit_chain p (as @ [a]) q \<longleftrightarrow>
     (\<exists>m. audit_chain p as m \<and> sa_previous_posture a = Some m \<and> sa_current_posture a = q)"
  by (induction as arbitrary: p) auto

definition same_submission :: "submission \<Rightarrow> submission \<Rightarrow> bool" where
  \<comment> \<open>the fields no operation ever changes\<close>
  "same_submission r u \<longleftrightarrow>
     sb_tenant_id u = sb_tenant_id r \<and> sb_identity_version u = sb_identity_version r \<and>
     sb_idempotency_key u = sb_idempotency_key r \<and>
     sb_request_fingerprint u = sb_request_fingerprint r \<and> sb_resource_type u = sb_resource_type r \<and>
     sb_resource_id u = sb_resource_id r \<and> sb_target u = sb_target r \<and>
     sb_source_authority u = sb_source_authority r \<and>
     sb_submitted_at_utc u = sb_submitted_at_utc r \<and>
     sb_support_reference u = sb_support_reference r \<and> sb_attempt_count u = sb_attempt_count r \<and>
     sb_lease_owner u = sb_lease_owner r \<and> sb_lease_attempt_id u = sb_lease_attempt_id r"

lemma transition_submission_Inr:
  assumes "transition_submission r posture action actor t reason failure change receipt = Inr u"
  shows "valid_submission u \<and> same_submission r u \<and> sb_status u = posture \<and>
    (\<exists>a. sb_audit_history u = sb_audit_history r @ [a] \<and> sa_action a = action \<and>
       sa_actor_subject a = actor \<and> sa_previous_posture a = Some (sb_status r) \<and>
       sa_current_posture a = posture \<and> sa_reason a = reason \<and> sa_change_reference a = change) \<and>
    sb_owner_receipt u = (if receipt \<noteq> None then receipt else sb_owner_receipt r)"
  using assms
  by (auto simp: transition_submission_def bind_res_Inr submission_audit_entry_def Let_def
      mk_submission_Inr same_submission_def)

lemma transition_submission_ok:
  assumes "submission_ok r" "transition_submission r posture action actor t reason failure change receipt = Inr u"
  shows "submission_ok u"
proof -
  from transition_submission_Inr[OF assms(2)] obtain a where v: "valid_submission u"
    and a: "sb_audit_history u = sb_audit_history r @ [a]" "sa_previous_posture a = Some (sb_status r)"
      "sa_current_posture a = sb_status u" by blast
  from assms(1) obtain b bs where "sb_audit_history r = b # bs" "sa_action b = Act_Claimed"
    "sa_previous_posture b = None" "sa_current_posture b = In_Flight" "audit_chain In_Flight bs (sb_status r)"
    by (auto simp: submission_ok_def audited_def)
  then have "audited u" using a by (auto simp: audited_def audit_chain_append)
  with v show ?thesis by (simp add: submission_ok_def)
qed

lemma create_submission_ok:
  "create_downstream_submission_claim q = Inr r \<Longrightarrow>
     submission_ok r \<and> sb_status r = In_Flight \<and> sb_lease_owner r = Some (sq_lease_owner q) \<and>
     sb_lease_attempt_id r = Some (sq_lease_attempt_id q) \<and> sb_owner_receipt r = None"
  by (auto simp: create_downstream_submission_claim_def bind_res_Inr submission_audit_entry_def Let_def
      mk_submission_Inr submission_ok_def audited_def)

section \<open>What the operations do\<close>

text \<open>The changes of posture that exist.\<close>

fun posture_successors :: "submission_posture \<Rightarrow> submission_posture set" where
  "posture_successors In_Flight = FINAL_POSTURES \<union> {Quarantined}"
| "posture_successors Reconciliation_Required = {Accepted_By_Downstream, Rejected_By_Downstream, Quarantined}"
| "posture_successors Accepted_By_Downstream = {Accepted_By_Downstream}"
| "posture_successors _ = {}"

definition submission_advances :: "submission \<Rightarrow> submission \<Rightarrow> bool" where
  "submission_advances r u \<longleftrightarrow>
     submission_ok u \<and> same_submission r u \<and> sb_status u \<in> posture_successors (sb_status r) \<and>
     (\<exists>a. sb_audit_history u = sb_audit_history r @ [a])"

definition mutation_result_ok :: "submission \<Rightarrow> submission_mutation_result \<Rightarrow> bool" where
  "mutation_result_ok r m \<longleftrightarrow>
     (if sm_decision m = Mut_Accepted
      then (\<exists>u. sm_record m = Some u \<and> submission_advances r u) else sm_record m = Some r)"

lemma finalize_submission_cases:
  assumes r: "submission_ok r" and f: "finalize_downstream_submission r w a p t fr rc = Inr m"
  shows "mutation_result_ok r m"
    and "sm_decision m = Mut_Accepted \<longleftrightarrow>
      sb_lease_owner r = Some w \<and> sb_lease_attempt_id r = Some a \<and> sb_status r = In_Flight"
    and "sm_decision m = Mut_Accepted \<Longrightarrow> \<exists>u. sm_record m = Some u \<and> sb_status u = p \<and> p \<in> FINAL_POSTURES"
proof -
  from f obtain b where b: "submission_lease_blocker r w a = Inr b"
    and rest: "(case b of
       Some x \<Rightarrow> Inr (submission_refused Mut_Lease_Conflict r x)
     | None \<Rightarrow>
         if sb_status r \<noteq> In_Flight
         then Inr (submission_refused Mut_Invalid_State r ''downstream_submission_not_in_flight'')
         else bind_res (checks
             ([(p \<notin> FINAL_POSTURES, ValueError ''unsupported downstream submission final posture'')] @
              opt_guards rc (\<lambda>ow.
                [(p \<notin> {Accepted_By_Downstream, Rejected_By_Downstream},
                  ValueError ''owner_receipt requires a terminal downstream posture''),
                 (wn_owner_authority ow \<noteq> sb_source_authority r,
                  ValueError ''owner_receipt authority must match source_authority'')])) ()) (\<lambda>_.
           bind_res (transition_submission r p
               (if p = Reconciliation_Required then Act_Reconciliation_Required else Act_Finalized)
               w t fr fr None rc)
             (\<lambda>u. Inr (submission_accepted u)))) = Inr m"
    by (auto simp: finalize_downstream_submission_def bind_res_Inr)
  have bl: "b = None \<longleftrightarrow> sb_lease_owner r = Some w \<and> sb_lease_attempt_id r = Some a"
    using b by (auto simp: submission_lease_blocker_def split: if_splits)
  have "mutation_result_ok r m \<and>
    (sm_decision m = Mut_Accepted \<longleftrightarrow> b = None \<and> sb_status r = In_Flight) \<and>
    (sm_decision m = Mut_Accepted \<longrightarrow> (\<exists>u. sm_record m = Some u \<and> sb_status u = p \<and> p \<in> FINAL_POSTURES))"
  proof (cases "b = None \<and> sb_status r = In_Flight")
    case True
    with rest obtain u where p: "p \<in> FINAL_POSTURES"
      and u: "transition_submission r p (if p = Reconciliation_Required then Act_Reconciliation_Required
        else Act_Finalized) w t fr fr None rc = Inr u" and m: "m = submission_accepted u"
      by (auto simp: bind_res_Inr)
    have "submission_advances r u"
      using transition_submission_Inr[OF u] transition_submission_ok[OF r u] p True
      by (auto simp: submission_advances_def)
    then show ?thesis
      using True m p transition_submission_Inr[OF u]
      by (simp add: mutation_result_ok_def submission_accepted_def)
  next
    case False
    then show ?thesis
      using rest by (auto simp: mutation_result_ok_def submission_refused_def split: option.splits if_splits)
  qed
  then show "mutation_result_ok r m"
    and "sm_decision m = Mut_Accepted \<longleftrightarrow>
      sb_lease_owner r = Some w \<and> sb_lease_attempt_id r = Some a \<and> sb_status r = In_Flight"
    and "sm_decision m = Mut_Accepted \<Longrightarrow> \<exists>u. sm_record m = Some u \<and> sb_status u = p \<and> p \<in> FINAL_POSTURES"
    using bl by blast+
qed

lemma apply_reconciliation_Inr:
  assumes "apply_reconciliation r q = Inr m"
  obtains u where "m = submission_accepted u"
    and "transition_submission r (resolution_posture (sn_resolution q))
         (if sn_resolution q = Resolve_Quarantined then Act_Quarantined else Act_Reconciled)
         (sn_actor_subject q) (sn_reconciled_at_utc q) (Some (sn_reason q))
         (if sn_resolution q = Resolve_Accepted then None else Some (sn_reason q))
         (Some (sn_change_reference q)) (sn_owner_receipt q) = Inr u"
  using assms by (auto simp: apply_reconciliation_def bind_res_Inr)

lemma reconcilable_successor:
  "reconcilable r q \<Longrightarrow> resolution_posture (sn_resolution q) \<in> posture_successors (sb_status r)"
  by (cases "sn_resolution q") (auto simp: reconcilable_def FINAL_POSTURES_def)

lemma reconcile_accepted:
  assumes "reconcile_downstream_submission r q = Inr m" "sm_decision m = Mut_Accepted"
  shows "passes (reconciliation_guards r q)" "reconcilable r q" "apply_reconciliation r q = Inr m"
proof -
  from assms have g: "passes (reconciliation_guards r q)"
    by (auto simp: reconcile_downstream_submission_def bind_res_Inr)
  with assms have "reconcilable r q \<and> apply_reconciliation r q = Inr m"
    by (auto simp: reconcile_downstream_submission_def Let_def submission_replayed_def submission_refused_def
        split: option.splits receipt_progress.splits if_splits)
  with g show "passes (reconciliation_guards r q)" "reconcilable r q" "apply_reconciliation r q = Inr m"
    by simp_all
qed

lemma reconcile_submission_ok:
  assumes r: "submission_ok r" and q: "reconcile_downstream_submission r q = Inr m"
  shows "mutation_result_ok r m"
proof (cases "sm_decision m = Mut_Accepted")
  case True
  note a = reconcile_accepted[OF q True]
  from apply_reconciliation_Inr[OF a(3)] obtain u where m: "m = submission_accepted u"
    and u: "transition_submission r (resolution_posture (sn_resolution q))
         (if sn_resolution q = Resolve_Quarantined then Act_Quarantined else Act_Reconciled)
         (sn_actor_subject q) (sn_reconciled_at_utc q) (Some (sn_reason q))
         (if sn_resolution q = Resolve_Accepted then None else Some (sn_reason q))
         (Some (sn_change_reference q)) (sn_owner_receipt q) = Inr u" by blast
  have "submission_advances r u"
    using transition_submission_Inr[OF u] transition_submission_ok[OF r u] reconcilable_successor[OF a(2)]
    by (auto simp: submission_advances_def)
  then show ?thesis using m by (simp add: mutation_result_ok_def submission_accepted_def)
next
  case False
  have "sm_record m = Some r"
    using q False
    by (auto simp: reconcile_downstream_submission_def bind_res_Inr Let_def submission_replayed_def
        submission_refused_def apply_reconciliation_def submission_accepted_def
        split: option.splits receipt_progress.splits if_splits)
  then show ?thesis using False by (simp add: mutation_result_ok_def)
qed

text \<open>Repeating an accepted reconciliation is a replay, unless its receipt is a report
  receipt without a version, which never compares equal to itself.\<close>

lemma reconcile_replay:
  assumes r: "submission_ok r" and q: "reconcile_downstream_submission r q = Inr m"
    and acc: "sm_decision m = Mut_Accepted" and u: "sm_record m = Some u"
    and ver: "\<And>x. sn_owner_receipt q = Some x \<Longrightarrow> sb_source_authority r = Lotus_Report \<Longrightarrow>
      wn_source_event_version x \<noteq> None \<and> wn_report_materialization x \<noteq> None"
  shows "reconcile_downstream_submission u q = Inr (submission_replayed u)"
proof -
  note a = reconcile_accepted[OF q acc]
  obtain u' where m: "m = submission_accepted u'"
    and t': "transition_submission r (resolution_posture (sn_resolution q))
         (if sn_resolution q = Resolve_Quarantined then Act_Quarantined else Act_Reconciled)
         (sn_actor_subject q) (sn_reconciled_at_utc q) (Some (sn_reason q))
         (if sn_resolution q = Resolve_Accepted then None else Some (sn_reason q))
         (Some (sn_change_reference q)) (sn_owner_receipt q) = Inr u'"
    by (rule apply_reconciliation_Inr[OF a(3)])
  have "u' = u" using u m by (simp add: submission_accepted_def)
  note t = t'[unfolded this]
  from transition_submission_Inr[OF t] obtain b where su: "same_submission r u"
    and b: "sb_audit_history u = sb_audit_history r @ [b]" "sa_actor_subject b = sn_actor_subject q"
      "sa_current_posture b = resolution_posture (sn_resolution q)" "sa_reason b = Some (sn_reason q)"
      "sa_change_reference b = Some (sn_change_reference q)"
    and rc: "sb_owner_receipt u = (if sn_owner_receipt q \<noteq> None then sn_owner_receipt q else sb_owner_receipt r)"
    by blast
  have vr: "valid_submission r" using r by (simp add: submission_ok_def)
  have rc': "sb_owner_receipt u = sn_owner_receipt q"
  proof (cases "sn_owner_receipt q")
    case None
    then have "sb_status r \<in> {In_Flight, Reconciliation_Required}"
      using a(2) by (auto simp: reconcilable_def report_progress_def split: option.splits)
    then have "sb_owner_receipt r = None" using valid_submission_facts(4)[OF vr] by fastforce
    then show ?thesis using None rc by simp
  qed (use rc in simp)
  have auth: "sb_source_authority u = sb_source_authority r" using su by (simp add: same_submission_def)
  have g: "passes (reconciliation_guards u q)" using a(1) auth by (simp add: reconciliation_guards_def)
  have same: "same_reconciliation u q b" using b rc' by (simp add: same_reconciliation_def)
  have pr: "report_progress u (sn_owner_receipt q) = None \<or>
     report_progress u (sn_owner_receipt q) = Some Exact_Replay"
  proof (cases "sn_owner_receipt q")
    case (Some x)
    have "wn_owner_authority x = sb_source_authority r"
      using a(1) Some by (simp add: reconciliation_guards_def)
    then show ?thesis
      using Some rc' auth ver[OF Some]
      by (auto simp: report_progress_def classify_report_owner_receipt_progress_def)
  qed (simp add: report_progress_def split: option.splits)
  then show ?thesis
    using g b same by (auto simp: reconcile_downstream_submission_def Let_def)
qed

section \<open>The lease\<close>

definition owned_submission :: "submission \<Rightarrow> string \<times> string \<Rightarrow> bool" where
  "owned_submission r wa \<longleftrightarrow>
     sb_status r = In_Flight \<and> sb_lease_owner r = Some (fst wa) \<and> sb_lease_attempt_id r = Some (snd wa)"

lemma finalize_accepted_shape:
  assumes "finalize_downstream_submission r w a p t fr rc = Inr m" "sm_decision m = Mut_Accepted"
  shows "owned_submission r (w, a) \<and> (\<exists>u. sm_record m = Some u \<and> sb_status u \<noteq> In_Flight)"
  using assms
  by (auto simp: finalize_downstream_submission_def bind_res_Inr submission_lease_blocker_def
      submission_refused_def submission_accepted_def owned_submission_def FINAL_POSTURES_def
      dest!: transition_submission_Inr split: option.splits if_splits)

lemma finalize_stored_cases:
  "snd (finalize_stored_submission k wa c s) = s \<or>
   (\<exists>r u. d_get s k = Some r \<and> owned_submission r wa \<and> sb_status u \<noteq> In_Flight \<and>
      snd (finalize_stored_submission k wa c s) = d_put k u s)"
proof (cases "d_get s k")
  case (Some r)
  let ?f = "finalize_downstream_submission r (fst wa) (snd wa) (sf_posture c) (sf_finalized_at_utc c)
            (sf_failure_reason c) (sf_owner_receipt c)"
  show ?thesis
  proof (cases ?f)
    case (Inr m)
    show ?thesis
    proof (cases "sm_decision m = Mut_Accepted")
      case True
      from finalize_accepted_shape[OF Inr this] obtain u where "owned_submission r wa"
        "sm_record m = Some u" "sb_status u \<noteq> In_Flight" by auto
      then show ?thesis
        using Some Inr True by (intro disjI2) (auto simp: finalize_stored_submission_def store_submission_result_def)
    qed (simp add: Inr Some finalize_stored_submission_def store_submission_result_def)
  qed (simp add: Some finalize_stored_submission_def store_submission_result_def)
qed (simp add: finalize_stored_submission_def)

interpretation submission_lease: leased_store owned_submission finalize_stored_submission
proof
  fix s and k :: string and w c
  assume "\<And>e. d_get s k = Some e \<Longrightarrow> \<not> owned_submission e w"
  then show "snd (finalize_stored_submission k w c s) = s"
    using finalize_stored_cases[of k w c s] by auto
next
  fix j k :: string and w c s assume "j \<noteq> k"
  then show "d_get (snd (finalize_stored_submission k w c s)) j = d_get s j"
    using finalize_stored_cases[of k w c s] by auto
next
  fix k :: string and w c s e v
  assume "snd (finalize_stored_submission k w c s) \<noteq> s"
    and "d_get (snd (finalize_stored_submission k w c s)) k = Some e"
  then show "\<not> owned_submission e v"
    using finalize_stored_cases[of k w c s] by (auto simp: owned_submission_def)
qed

section \<open>The store stays well-formed\<close>

definition submission_store_ok :: "submission_store \<Rightarrow> bool" where
  "submission_store_ok s \<longleftrightarrow>
     (\<forall>k r. d_get s k = Some r \<longrightarrow> submission_ok r \<and>
        downstream_submission_identity (sb_tenant_id r) (sb_idempotency_key r) = Inr k) \<and>
     (\<forall>j k q r. d_get s j = Some q \<and> d_get s k = Some r \<and> same_submission_resource q r \<longrightarrow> j = k) \<and>
     distinct (d_keys s)"

text \<open>A step of the store is a claim with a freshly created record, a finalisation or a
  reconciliation.\<close>

inductive submission_step :: "submission_store \<Rightarrow> submission_store \<Rightarrow> bool" where
  claim: "create_downstream_submission_claim q = Inr r \<Longrightarrow>
    submission_step s (snd (claim_downstream_submission r s))"
| finalize: "submission_step s (snd (finalize_submission_in_store tenant_id idempotency_key wa c s))"
| reconcile: "submission_step s (snd (reconcile_submission_in_store support_reference q s))"

definition submission_updated :: "submission_store \<Rightarrow> submission_store \<Rightarrow> bool" where
  \<comment> \<open>the three shapes of a step\<close>
  "submission_updated s s' \<longleftrightarrow> s' = s \<or>
     (\<exists>k r. d_get s k = None \<and> submission_ok r \<and> s' = d_put k r s \<and>
        downstream_submission_identity (sb_tenant_id r) (sb_idempotency_key r) = Inr k \<and>
        (\<forall>j q. d_get s j = Some q \<longrightarrow> \<not> same_submission_resource q r)) \<or>
     (\<exists>k r u. d_get s k = Some r \<and> submission_advances r u \<and> s' = d_put k u s)"

lemma claim_updates:
  assumes "submission_ok r"
  shows "submission_updated s (snd (claim_downstream_submission r s))"
proof -
  have i: "downstream_submission_identity (sb_tenant_id r) (sb_idempotency_key r) =
      Inr (sb_tenant_id r @ [char_of (0 :: nat)] @ sb_idempotency_key r)" (is "_ = Inr ?k")
    using assms valid_submission_facts(1) by (simp add: submission_ok_def)
  show ?thesis
  proof (cases "d_get s ?k = None \<and> List.find (\<lambda>x. same_submission_resource x r) (d_values s) = None")
    case True
    then have "\<forall>j q. d_get s j = Some q \<longrightarrow> \<not> same_submission_resource q r"
      by (metis d_get_value find_None_iff)
    then show ?thesis
      using True i assms
      by (auto simp: claim_downstream_submission_def Let_def submission_updated_def)
  next
    case False
    then show ?thesis
      using i by (auto simp: claim_downstream_submission_def Let_def submission_updated_def split: option.splits)
  qed
qed

lemma store_result_updates:
  assumes "d_get s k = Some r" "\<And>m. x = Inr m \<Longrightarrow> mutation_result_ok r m"
  shows "submission_updated s (snd (store_submission_result k x s))"
proof (cases x)
  case (Inr m)
  show ?thesis
  proof (cases "sm_decision m = Mut_Accepted")
    case True
    then obtain u where "sm_record m = Some u" "submission_advances r u"
      using assms(2)[OF Inr] by (auto simp: mutation_result_ok_def)
    then have "snd (store_submission_result k x s) = d_put k u s"
      using Inr True by (simp add: store_submission_result_def)
    then show ?thesis
      using assms(1) \<open>submission_advances r u\<close> unfolding submission_updated_def by blast
  qed (simp add: Inr store_submission_result_def submission_updated_def)
qed (simp add: store_submission_result_def submission_updated_def)

lemma finalize_updates:
  assumes ok: "submission_store_ok s"
  shows "submission_updated s (snd (finalize_submission_in_store t i wa c s))"
proof (cases "downstream_submission_identity t i")
  case (Inr k)
  show ?thesis
  proof (cases "d_get s k")
    case (Some r)
    have "submission_ok r" using ok Some by (simp add: submission_store_ok_def)
    then show ?thesis
      using store_result_updates[OF Some, of "finalize_downstream_submission r (fst wa) (snd wa)
          (sf_posture c) (sf_finalized_at_utc c) (sf_failure_reason c) (sf_owner_receipt c)"]
        finalize_submission_cases(1)
      by (simp add: finalize_submission_in_store_def Inr finalize_stored_submission_def Some)
  qed (simp add: finalize_submission_in_store_def Inr finalize_stored_submission_def submission_updated_def)
qed (simp add: finalize_submission_in_store_def submission_updated_def)

lemma reconcile_updates:
  assumes ok: "submission_store_ok s"
  shows "submission_updated s (snd (reconcile_submission_in_store ref q s))"
proof (cases "downstream_submission_by_support_reference ref s")
  case (Inl e)
  then show ?thesis by (simp add: reconcile_submission_in_store_def submission_updated_def)
next
  case (Inr x)
  show ?thesis
  proof (cases x)
    case (Some r)
    then have "r \<in> set (d_values s)"
      using Inr by (auto simp: downstream_submission_by_support_reference_def simp del: set_map
          dest: find_Some_iff' dest!: sym[of "Some r"])
    then obtain k where k: "d_get s k = Some r"
      using ok by (auto simp: submission_store_ok_def intro: map_of_is_SomeI)
    have r: "submission_ok r" and i: "downstream_submission_identity (sb_tenant_id r) (sb_idempotency_key r) = Inr k"
      using ok k by (simp_all add: submission_store_ok_def)
    show ?thesis
    proof (cases "reconcile_downstream_submission r q")
      case (Inr m)
      then show ?thesis
        using store_result_updates[OF k, of "Inr m"] reconcile_submission_ok[OF r Inr] i Some
          \<open>downstream_submission_by_support_reference ref s = Inr x\<close>
        by (auto simp: reconcile_submission_in_store_def submission_updated_def)
    qed (simp add: reconcile_submission_in_store_def submission_updated_def Inr Some)
  qed (simp add: reconcile_submission_in_store_def submission_updated_def Inr)
qed

lemma step_updates: "submission_step s s' \<Longrightarrow> submission_store_ok s \<Longrightarrow> submission_updated s s'"
  by (induction rule: submission_step.induct)
    (simp_all add: claim_updates create_submission_ok finalize_updates reconcile_updates)

lemma same_submission_resource_cong:
  "same_submission r u \<Longrightarrow> same_submission_resource u q = same_submission_resource r q \<and>
     same_submission_resource q u = same_submission_resource q r"
  by (auto simp: same_submission_def same_submission_resource_def)

lemma updated_store_ok:
  assumes "submission_updated s s'" "submission_store_ok s"
  shows "submission_store_ok s'"
  using assms(1) unfolding submission_updated_def
proof (elim disjE exE conjE)
  assume "s' = s" then show ?thesis using assms(2) by simp
next
  fix k r
  assume "submission_ok r" "s' = d_put k r s" "d_get s k = None"
    and "downstream_submission_identity (sb_tenant_id r) (sb_idempotency_key r) = Inr k"
    and new: "\<forall>j q. d_get s j = Some q \<longrightarrow> \<not> same_submission_resource q r"
  moreover have "same_submission_resource r q \<Longrightarrow> same_submission_resource q r" for q
    by (auto simp: same_submission_resource_def)
  ultimately show ?thesis
    using assms(2) unfolding submission_store_ok_def by (fastforce split: if_splits)
next
  fix k r u
  assume k: "d_get s k = Some r" "submission_advances r u" "s' = d_put k u s"
  then have u: "submission_ok u" "same_submission r u" by (simp_all add: submission_advances_def)
  then have "sb_tenant_id u = sb_tenant_id r" "sb_idempotency_key u = sb_idempotency_key r"
    by (simp_all add: same_submission_def)
  then show ?thesis
    using assms(2) k u same_submission_resource_cong[OF u(2)]
    unfolding submission_store_ok_def by (fastforce split: if_splits)
qed

text \<open>A record never disappears, keeps its identity, only ever adds to its audit history,
  and a rejected, unconfigured or quarantined submission never changes again.\<close>

definition submission_later :: "submission \<Rightarrow> submission \<Rightarrow> bool" where
  "submission_later r u \<longleftrightarrow> same_submission r u \<and>
     (\<exists>as. sb_audit_history u = sb_audit_history r @ as) \<and>
     (posture_successors (sb_status r) = {} \<longrightarrow> u = r) \<and>
     (sb_status r = Accepted_By_Downstream \<longrightarrow> sb_status u = Accepted_By_Downstream)"

lemma submission_later_refl [simp]: "submission_later r r"
  by (simp add: submission_later_def same_submission_def)

lemma submission_later_trans: "submission_later r u \<Longrightarrow> submission_later u v \<Longrightarrow> submission_later r v"
  by (auto simp: submission_later_def same_submission_def)

lemma submission_advances_later: "submission_advances r u \<Longrightarrow> submission_later r u"
  by (auto simp: submission_advances_def submission_later_def)

lemma updated_later:
  "submission_updated s s' \<Longrightarrow> d_get s k = Some r \<Longrightarrow> \<exists>u. d_get s' k = Some u \<and> submission_later r u"
  by (auto simp: submission_updated_def submission_advances_later)

lemma submission_run:
  assumes "submission_step\<^sup>*\<^sup>* s s'" "submission_store_ok s"
  shows "submission_store_ok s' \<and>
    (\<forall>k r. d_get s k = Some r \<longrightarrow> (\<exists>u. d_get s' k = Some u \<and> submission_later r u))"
  using assms(1)
proof induction
  case base
  then show ?case using assms(2) by auto
next
  case (step y z)
  then have u: "submission_updated y z" using step_updates by blast
  show ?case
  proof (intro conjI allI impI)
    show "submission_store_ok z" using updated_store_ok[OF u] step.IH by blast
    fix k r assume "d_get s k = Some r"
    then obtain v where v: "d_get y k = Some v" "submission_later r v" using step.IH by blast
    from updated_later[OF u v(1)] v(2) show "\<exists>u. d_get z k = Some u \<and> submission_later r u"
      using submission_later_trans by blast
  qed
qed

lemma submission_store_empty: "submission_store_ok []"
  by (simp add: submission_store_ok_def)

section \<open>Storage keys\<close>

lemma nul_separated_unique:
  "c \<notin> set xs \<Longrightarrow> c \<notin> set xs' \<Longrightarrow> xs @ [c] @ ys = xs' @ [c] @ ys' \<Longrightarrow> xs = xs' \<and> ys = ys'"
proof (induction xs arbitrary: xs')
  case Nil
  then show ?case by (cases xs') auto
next
  case (Cons x xs)
  then show ?case by (cases xs') auto
qed

text \<open>The storage key determines the tenant and the key only for tenants without NUL.\<close>

lemma submission_identity_determines:
  assumes "downstream_submission_identity t k = Inr i" "downstream_submission_identity t' k' = Inr i"
    and "char_of (0 :: nat) \<notin> set t" "char_of (0 :: nat) \<notin> set t'"
  shows "t = t' \<and> k = k'"
  using assms nul_separated_unique[OF assms(3,4), of k k']
  by (auto simp: downstream_submission_identity_def)

end
