(* ===== verification/Conversion_Properties.thy ===== *)
theory Conversion_Properties
imports Review_Properties Conversion_Governance Downstream
begin

text \<open>
  The properties of conversion: the authority a conversion intent needs, the outcomes the
  downstream owner may report for it, the guard before realisation, and the submission of
  the work to the owner with its leases, reconciliation and history.
\<close>

section \<open>Outcomes\<close>

definition sample_outcome :: "string \<Rightarrow> int \<Rightarrow> outcome_status \<Rightarrow> outcome_identity" where
  "sample_outcome i v st =
     \<lparr>ox_conversion_outcome_id = i, ox_conversion_intent_id = ''intent-1'', ox_target = Report_Evidence,
      ox_source_system = Lotus_Report, ox_source_event_version = v, ox_status = st,
      ox_downstream_reference = None, ox_recorded_at_utc = utc v, ox_actor_subject = ''report'',
      ox_supersedes = None, ox_correction_reason = None\<rparr>"

text \<open>C31: the histories of outcomes the policy accepts are exactly the well-formed streams,
  however the outcomes are listed: one stream, versions 1, 2, 3 and so on, strictly later
  times, distinct ids, and each outcome either allowed by the status graph or a reasoned
  correction of the one before.\<close>

theorem outcome_histories_are_streams:
  "validate_conversion_outcome_history xs = Inr () \<longleftrightarrow> outcome_stream (sort_key outcome_order xs)"
  by (rule history_accepted_iff)

text \<open>After a history the policy accepted, the next outcome carries the next version, and
  nothing follows a rejected, failed or completed outcome except a correction that names it
  and gives a reason.\<close>

theorem terminal_outcomes_need_correction:
  assumes "validate_conversion_outcome_history xs = Inr ()"
    and "validate_conversion_outcome_progression xs y = Inr ()"
    and "latest_conversion_outcome_identity xs = Some x"
  shows "ox_source_event_version y = ox_source_event_version x + 1 \<and>
    inst (ox_recorded_at_utc x) < inst (ox_recorded_at_utc y) \<and>
    (ox_status x \<in> TERMINAL_CONVERSION_OUTCOME_STATUSES \<longrightarrow>
       ox_supersedes y = Some (ox_conversion_outcome_id x) \<and>
       (\<exists>r. ox_correction_reason y = Some r \<and> \<not> blank r))"
proof -
  have "passes (next_outcome_guards xs y)"
    using assms(2) by (auto simp: validate_conversion_outcome_progression_def bind_res_Inr
        validate_next_conversion_outcome_def)
  then have f: "follows x y"
    unfolding next_outcome_guards_def assms(3)
    by (cases "List.find (\<lambda>x. ox_conversion_outcome_id x = ox_conversion_outcome_id y) xs") simp_all
  have "ox_supersedes y = Some (ox_conversion_outcome_id x) \<and> (\<exists>r. ox_correction_reason y = Some r \<and> \<not> blank r)"
    if "ox_status x \<in> TERMINAL_CONVERSION_OUTCOME_STATUSES"
    using follows_terminal[OF f that] f by (simp add: follows_def)
  moreover have "ox_source_event_version y = ox_source_event_version x + 1"
    "inst (ox_recorded_at_utc x) < inst (ox_recorded_at_utc y)"
    using f by (simp_all add: follows_def)
  ultimately show ?thesis by blast
qed

theorem terminal_outcomes_need_correction_witness:
  "validate_conversion_outcome_progression [sample_outcome ''o-1'' 1 Outcome_Failed]
     ((sample_outcome ''o-2'' 2 Outcome_Accepted)\<lparr>ox_supersedes := Some ''o-1'',
        ox_correction_reason := Some ''late acceptance''\<rparr>) = Inr () \<and>
   ox_supersedes ((sample_outcome ''o-2'' 2 Outcome_Accepted)\<lparr>ox_supersedes := Some ''o-1'',
        ox_correction_reason := Some ''late acceptance''\<rparr>) = Some ''o-1''"
proof -
  let ?x = "sample_outcome ''o-1'' 1 Outcome_Failed"
  let ?y = "(sample_outcome ''o-2'' 2 Outcome_Accepted)\<lparr>ox_supersedes := Some ''o-1'',
        ox_correction_reason := Some ''late acceptance''\<rparr>"
  have s: "outcome_stream [?x]" "outcome_stream ([?x] @ [?y])"
    by (simp_all add: initial_outcome_def sample_outcome_def INITIAL_OUTCOME_STATUSES_def follows_def
        blank_iff py_space_def)
  have h: "validate_conversion_outcome_history [?x] = Inr ()"
    using s(1) by (simp add: history_accepted_iff del: outcome_stream.simps)
  have p: "validate_conversion_outcome_progression [?x] ?y = Inr ()"
    using progression_accepted_iff[OF s(1)] s(2) by blast
  have l: "latest_conversion_outcome_identity [?x] = Some ?x"
    by (simp add: latest_conversion_outcome_identity_def)
  have "ox_status ?x \<in> TERMINAL_CONVERSION_OUTCOME_STATUSES" "ox_conversion_outcome_id ?x = ''o-1''"
    by (simp_all add: sample_outcome_def TERMINAL_CONVERSION_OUTCOME_STATUSES_def)
  with terminal_outcomes_need_correction[OF h p l] p show ?thesis by metis
qed

section \<open>Intents\<close>

text \<open>C8: a conversion intent is accepted only for an approved candidate with ready and
  authoritative evidence, on the evidence the caller expected, under the active grant of
  exactly that review and that evidence; then the candidate moves to the status of its
  target and the intent records the grant.\<close>

theorem intent_needs_authority:
  assumes "request_conversion_intent c w t g = Inr r"
  shows "ready_for_conversion c \<and> source_cut_is_authoritative (packet_cut_posture (cd_evidence_packet c)) \<and>
    iw_expected_candidate_evidence w = evidence_identity_of c \<and> gr_review_id g = iw_expected_review_id w \<and>
    effective_status g c t = Inr Auth_Active \<and> inst (gr_accepted_at_utc g) \<le> inst t \<and>
    ia_candidate r = converted_candidate c (iw_target w) t \<and> valid_candidate (ia_candidate r) \<and>
    gi_review_authority_grant (ia_conversion_intent r) = Some g"
  using request_conversion_intentD[OF assms] by (simp add: governed_intent_for_def)

definition sample_approved :: idea_candidate where
  "sample_approved = sample_candidate\<lparr>cd_lifecycle_status := Approved,
     cd_review_posture := Approved_For_Conversion\<rparr>"

lemma sample_approved_evidence: "evidence_identity_of sample_approved = evidence_identity_of sample_candidate"
  by (simp add: sample_approved_def evidence_identity_of_def)

lemma sample_approved_well_formed: "well_formed_candidate sample_approved"
  using sample_candidate_well_formed
  by (simp add: well_formed_candidate_def valid_candidate_iff sample_approved_def candidate_state_defs)

definition sample_intent :: intent_command where
  "sample_intent =
     \<lparr>iw_conversion_intent_id = ''intent-1'', iw_target = Report_Evidence, iw_actor_subject = ''advisor-1'',
      iw_idempotency_key = ''key-1'', iw_reason_codes = [R_High_Cash_Ratio], iw_requested_at_utc = utc 300,
      iw_expected_review_id = ''review-1'',
      iw_expected_candidate_evidence = evidence_identity_of sample_candidate\<rparr>"

lemma sample_grant_for_approved: "effective_status sample_grant sample_approved (utc n) = Inr Auth_Active"
  using evidence_identity_ok[OF sample_approved_well_formed] sample_cut_posture
  by (simp add: effective_status_def sample_grant_def sample_approved_evidence checks_passes)
    (simp add: sample_approved_def sample_candidate_def source_cut_is_authoritative_def sample_packet_def)

lemma sample_intent_guards: "passes (intent_command_guards sample_intent)"
  by (simp add: intent_command_guards_def sample_intent_def blank_iff py_space_def)

lemma sample_intent_time:
  "300 \<le> n \<Longrightarrow> n \<le> 1000 \<Longrightarrow> passes (require_observed_time_within_policy (iw_requested_at_utc sample_intent) (utc n)
     CONVERSION_INTENT_TIME_POLICY)"
  by (simp add: sample_intent_def CONVERSION_INTENT_TIME_POLICY_def us_hours_def us_minutes_def us_seconds_def)

lemma sample_intent_ready: "passes (ensure_candidate_ready_for_conversion sample_approved t)"
proof -
  have "cd_evidence_packet sample_approved = sample_packet" "cd_lifecycle_status sample_approved = Approved"
    "cd_review_posture sample_approved = Approved_For_Conversion"
    by (simp_all add: sample_approved_def) (simp add: sample_candidate_def)
  then show ?thesis
    using sample_cut_posture
    by (simp add: ensure_candidate_ready_for_conversion_def source_cut_is_authoritative_def)
      (simp add: sample_packet_def)
qed

lemma sample_intent_names:
  "iw_expected_candidate_evidence sample_intent = evidence_identity_of sample_approved"
  "gr_review_id sample_grant = iw_expected_review_id sample_intent" "inst (gr_accepted_at_utc sample_grant) = 200"
  by (simp_all add: sample_intent_def sample_grant_def sample_approved_evidence)

lemma sample_intent_accepted:
  "\<exists>r. request_conversion_intent sample_approved sample_intent (utc 400) sample_grant = Inr r"
  by (rule request_conversion_intent_ok[OF sample_approved_well_formed sample_intent_guards sample_intent_time
      sample_intent_ready sample_intent_names(1,2) sample_grant_for_approved]) (simp_all add: sample_intent_names)

theorem intent_needs_authority_witness:
  "\<exists>r. request_conversion_intent sample_approved sample_intent (utc 400) sample_grant = Inr r \<and>
     cd_lifecycle_status (ia_candidate r) = Converted_To_Report"
proof -
  obtain r where r: "request_conversion_intent sample_approved sample_intent (utc 400) sample_grant = Inr r"
    using sample_intent_accepted by blast
  have "cd_lifecycle_status (ia_candidate r) = Converted_To_Report"
    using intent_needs_authority[OF r] by (simp add: sample_intent_def)
  with r show ?thesis by blast
qed

text \<open>A permitted intent is accepted: on a well-formed candidate a valid command within
  the time policy, on the current evidence and under an active grant of the expected review,
  always succeeds.\<close>

theorem permitted_intent_succeeds:
  assumes "well_formed_candidate c" "passes (intent_command_guards w)"
    and "passes (require_observed_time_within_policy (iw_requested_at_utc w) t CONVERSION_INTENT_TIME_POLICY)"
    and "passes (ensure_candidate_ready_for_conversion c t)"
    and "iw_expected_candidate_evidence w = evidence_identity_of c" "gr_review_id g = iw_expected_review_id w"
    and "effective_status g c t = Inr Auth_Active" "inst (gr_accepted_at_utc g) \<le> inst t"
  shows "\<exists>r. request_conversion_intent c w t g = Inr r"
  by (rule request_conversion_intent_ok[OF assms])

theorem permitted_intent_succeeds_witness:
  "\<exists>r. request_conversion_intent sample_approved sample_intent (utc 500) sample_grant = Inr r"
  by (rule permitted_intent_succeeds[OF sample_approved_well_formed sample_intent_guards sample_intent_time
      sample_intent_ready sample_intent_names(1,2) sample_grant_for_approved]) (simp_all add: sample_intent_names)

text \<open>After a well-formed history, an outcome is accepted exactly when it is within the
  time policy, comes from the owner of the target, carries the downstream reference an
  accepted or completed outcome needs, and extends the history to a well-formed stream.\<close>

theorem outcome_accepted_iff:
  assumes "outcome_stream (map outcome_identity_of existing)" "passes (outcome_command_guards w)"
    and "\<not> blank (in_conversion_intent_id (gi_intent i))"
  shows "(\<exists>r. record_conversion_outcome i w t existing = Inr r) \<longleftrightarrow>
     passes (require_observed_time_within_policy (ow_recorded_at_utc w) t DOWNSTREAM_OUTCOME_TIME_POLICY) \<and>
     ow_source_system w = TARGET_SOURCE_AUTHORITIES (in_target (gi_intent i)) \<and>
     (ow_status w \<in> {Outcome_Accepted, Outcome_Completed} \<longrightarrow> ow_downstream_reference w \<noteq> None) \<and>
     outcome_stream (map outcome_identity_of (existing @ [governed_outcome_for i w t]))"
  by (rule record_conversion_outcome_iff[OF assms])

definition sample_report :: outcome_command where
  "sample_report =
     \<lparr>ow_conversion_outcome_id = ''o-1'', ow_status = Outcome_Accepted, ow_source_system = Lotus_Report,
      ow_source_event_version = 1, ow_recorded_at_utc = utc 500, ow_downstream_reference = Some ''ref-1'',
      ow_actor_subject = ''report'', ow_supersedes_conversion_outcome_id = None, ow_correction_reason = None\<rparr>"

theorem outcome_accepted_iff_witness:
  "\<exists>r. record_conversion_outcome (governed_intent_for sample_approved sample_intent (utc 400) sample_grant)
     sample_report (utc 600) [] = Inr r"
proof -
  let ?i = "governed_intent_for sample_approved sample_intent (utc 400) sample_grant"
  have 1: "outcome_stream (map outcome_identity_of [])" "passes (outcome_command_guards sample_report)"
    "\<not> blank (in_conversion_intent_id (gi_intent ?i))"
    by (simp_all add: outcome_command_guards_def sample_report_def governed_intent_for_def sample_intent_def
        blank_iff py_space_def)
  show ?thesis
    unfolding outcome_accepted_iff[OF 1]
    by (simp add: sample_report_def governed_intent_for_def sample_intent_def governed_outcome_for_def
        outcome_identity_of_def initial_outcome_def INITIAL_OUTCOME_STATUSES_def
        DOWNSTREAM_OUTCOME_TIME_POLICY_def us_days_def us_hours_def us_minutes_def us_seconds_def)
qed

text \<open>Work is handed to the owner only on unchanged authority: an accepted intent may be
  realised as long as its grant has not expired, and no longer once the candidate has moved
  to another version.\<close>

theorem realization_guard:
  assumes "request_conversion_intent c w t g = Inr r" "well_formed_candidate c"
    and "is_utc u" "\<forall>x. gr_applicability_expires_at_utc g = Some x \<longrightarrow> inst u < inst x"
    and "version_less (ia_candidate r) d"
  shows "validate_conversion_intent_for_realization (ia_candidate r) (ia_conversion_intent r) u = Inr () \<and>
    validate_conversion_intent_for_realization d (ia_conversion_intent r) v \<noteq> Inr ()"
proof -
  have ok: "validate_conversion_intent_for_realization (ia_candidate r) (ia_conversion_intent r) u = Inr ()"
    by (rule realization_after_request[OF assms(1-4)])
  then show ?thesis using realization_needs_same_version[OF ok assms(5)] by blast
qed

theorem realization_guard_witness:
  "\<exists>r. request_conversion_intent sample_approved sample_intent (utc 400) sample_grant = Inr r \<and>
     validate_conversion_intent_for_realization (ia_candidate r) (ia_conversion_intent r) (utc 700) = Inr ()"
proof -
  obtain r where r: "request_conversion_intent sample_approved sample_intent (utc 400) sample_grant = Inr r"
    using sample_intent_accepted by blast
  have "version_less (ia_candidate r) ((ia_candidate r)\<lparr>cd_identity := (cd_identity (ia_candidate r))
      \<lparr>id_material_version := id_material_version (cd_identity (ia_candidate r)) + 1\<rparr>\<rparr>)"
    by (simp add: version_less_def)
  from realization_guard[OF r sample_approved_well_formed is_utc_utc(1)[of 700] _ this] r
  show ?thesis by (auto simp: sample_grant_def)
qed


section \<open>Submission to the owner\<close>

text \<open>C29: however claims, finalisations and reconciliations are interleaved, the store of
  submissions stays consistent, no submission disappears or changes what it is for, its audit
  history only grows, a terminal one is never changed again and an accepted one stays
  accepted.\<close>

theorem submissions_never_regress:
  assumes "submission_step\<^sup>*\<^sup>* [] s" "submission_step\<^sup>*\<^sup>* s s'" "d_get s k = Some r"
  shows "submission_store_ok s' \<and> (\<exists>u. d_get s' k = Some u \<and> same_submission r u \<and>
    (\<exists>as. sb_audit_history u = sb_audit_history r @ as) \<and>
    (posture_successors (sb_status r) = {} \<longrightarrow> u = r) \<and>
    (sb_status r = Accepted_By_Downstream \<longrightarrow> sb_status u = Accepted_By_Downstream))"
proof -
  have "submission_store_ok s" using submission_run[OF assms(1) submission_store_empty] by blast
  from submission_run[OF assms(2) this] assms(3) show ?thesis
    unfolding submission_later_def by blast
qed

definition sample_claim :: submission_request where
  "sample_claim =
     \<lparr>sq_tenant_id = ''tenant-1'', sq_idempotency_key = ''key-1'', sq_request_fingerprint = ''sha256:1'',
      sq_resource_type = Conversion_Intent_Resource, sq_resource_id = ''intent-1'',
      sq_target = Report_Evidence, sq_source_authority = Lotus_Report, sq_actor_subject = ''advisor-1'',
      sq_claimed_at_utc = utc 10, sq_lease_owner = ''worker'', sq_lease_attempt_id = ''attempt-1'',
      sq_lease_expires_at_utc = utc 100, sq_correlation_id = None, sq_trace_id = None\<rparr>"

lemma sample_prefix_named: "\<not> blank (DOWNSTREAM_SUBMISSION_SUPPORT_PREFIX @ x)"
  by (rule not_blank_append) (simp add: DOWNSTREAM_SUBMISSION_SUPPORT_PREFIX_def blank_iff py_space_def)

lemma sample_claim_identity:
  "downstream_submission_identity ''tenant-1'' ''key-1'' = Inr (''tenant-1'' @ [char_of (0 :: nat)] @ ''key-1'')"
  by (simp add: downstream_submission_identity_def checks_passes blank_iff py_space_def)

lemma sample_claim_created: "\<exists>r. create_downstream_submission_claim sample_claim = Inr r"
proof -
  have "\<not> blank (''downstream-audit-'' @ x)" for x
    by (rule not_blank_append) (simp add: blank_iff py_space_def)
  then obtain a where a: "submission_audit_entry ''tenant-1'' ''key-1'' 1 Act_Claimed ''advisor-1'' In_Flight (utc 10)
      None None None = Inr a"
    unfolding submission_audit_entry_def sample_claim_identity bind_res_simps Let_def
    by (simp add: submission_audit_guards_def checks_passes blank_iff py_space_def del: append.simps)
  obtain x where x: "downstream_submission_support_reference ''tenant-1'' ''key-1'' =
      Inr (DOWNSTREAM_SUBMISSION_SUPPORT_PREFIX @ x)"
    unfolding downstream_submission_support_reference_def sample_claim_identity by simp
  show ?thesis
    unfolding create_downstream_submission_claim_def
    by (simp add: sample_claim_def a[simplified] x mk_submission_def expected_support_reference_def sample_prefix_named
      validate_submission_lease_def validate_submission_posture_def posture_requires_failure_def checks_passes
      blank_iff[of "_ # _"] py_space_def dt_le_def)
qed

definition sample_submission :: submission where
  "sample_submission = (case create_downstream_submission_claim sample_claim of Inr r \<Rightarrow> r)"

lemma sample_submission_created: "create_downstream_submission_claim sample_claim = Inr sample_submission"
  using sample_claim_created by (auto simp: sample_submission_def)

lemma sample_submission_ok: "submission_ok sample_submission" "sb_status sample_submission = In_Flight"
  "sb_lease_owner sample_submission = Some ''worker''"
  "sb_lease_attempt_id sample_submission = Some ''attempt-1''"
  using create_submission_ok[OF sample_submission_created] by (simp_all add: sample_claim_def)

lemma created_submission_names:
  "create_downstream_submission_claim q = Inr r \<Longrightarrow>
     sb_tenant_id r = sq_tenant_id q \<and> sb_idempotency_key r = sq_idempotency_key q \<and>
     sa_change_reference (last (sb_audit_history r)) = None"
  by (auto simp: create_downstream_submission_claim_def bind_res_Inr mk_submission_Inr
      submission_audit_entry_def Let_def)

lemma sample_submission_names:
  "downstream_submission_identity (sb_tenant_id sample_submission) (sb_idempotency_key sample_submission) =
     Inr (''tenant-1'' @ [char_of (0 :: nat)] @ ''key-1'')"
  using created_submission_names[OF sample_submission_created]
  by (simp add: sample_claim_def downstream_submission_identity_def checks_passes blank_iff py_space_def)

definition sample_submissions :: submission_store where
  "sample_submissions = [(''tenant-1'' @ [char_of (0 :: nat)] @ ''key-1'', sample_submission)]"

lemma sample_submissions_reached: "submission_step\<^sup>*\<^sup>* [] sample_submissions"
proof -
  have "snd (claim_downstream_submission sample_submission []) = sample_submissions"
    by (simp add: claim_downstream_submission_def sample_submission_names sample_submissions_def Let_def
        evaluate_downstream_submission_claim_def del: append.simps)
  then show ?thesis using submission_step.claim[OF sample_submission_created, of "[]"] by auto
qed

theorem submissions_never_regress_witness:
  "\<exists>u. d_get sample_submissions (''tenant-1'' @ [char_of (0 :: nat)] @ ''key-1'') = Some u \<and>
     same_submission sample_submission u"
  using submissions_never_regress[OF sample_submissions_reached rtranclp.rtrancl_refl]
  by (simp add: sample_submissions_def del: append.simps)

text \<open>C30: only the attempt that holds the lease of a submission can finalise it, and once
  it has, no finalisation by any attempt changes the store through this submission.\<close>

theorem finalisation_is_exclusive:
  assumes "snd (finalize_stored_submission k wa c s) \<noteq> s"
  shows "(\<exists>r. d_get s k = Some r \<and> owned_submission r wa) \<and>
    fold (\<lambda>(v, d) t. snd (finalize_stored_submission k v d t)) attempts (snd (finalize_stored_submission k wa c s)) =
      snd (finalize_stored_submission k wa c s)"
  using submission_lease.effect_needs_lease[OF assms] submission_lease.completed_for_good[OF assms] by blast

definition sample_finalization :: submission_finalization where
  "sample_finalization = \<lparr>sf_posture = Accepted_By_Downstream, sf_finalized_at_utc = utc 20,
     sf_failure_reason = None, sf_owner_receipt = None\<rparr>"

lemma sample_finalized:
  "\<exists>u. finalize_downstream_submission sample_submission ''worker'' ''attempt-1'' Accepted_By_Downstream (utc 20) None None =
     Inr (submission_accepted u) \<and> sb_status u = Accepted_By_Downstream"
proof -
  obtain a where a: "submission_audit_entry (sb_tenant_id sample_submission) (sb_idempotency_key sample_submission)
      (length (sb_audit_history sample_submission) + 1) Act_Finalized ''worker'' Accepted_By_Downstream (utc 20)
      (Some (sb_status sample_submission)) None None = Inr a"
    by (simp add: submission_audit_entry_def sample_submission_names submission_audit_guards_def checks_passes
        blank_iff py_space_def Let_def)
  let ?u = "sample_submission\<lparr>sb_status := Accepted_By_Downstream, sb_updated_at_utc := utc 20,
      sb_downstream_failure_reason := None, sb_audit_history := sb_audit_history sample_submission @ [a],
      sb_owner_receipt := sb_owner_receipt sample_submission\<rparr>"
  have "sb_owner_receipt sample_submission = None"
    using create_submission_ok[OF sample_submission_created] by simp
  then have "mk_submission ?u = Inr ?u"
    using sample_submission_ok(1)
    by (auto simp: submission_ok_def valid_submission_def mk_submission_def bind_res_Inr
        expected_support_reference_def validate_submission_lease_def validate_submission_posture_def
        posture_requires_failure_def)
  with a have "transition_submission sample_submission Accepted_By_Downstream Act_Finalized ''worker'' (utc 20)
      None None None None = Inr ?u"
    by (simp add: transition_submission_def)
  moreover have "submission_lease_blocker sample_submission ''worker'' ''attempt-1'' = Inr None"
    by (simp add: submission_lease_blocker_def sample_submission_ok checks_passes blank_iff py_space_def)
  ultimately show ?thesis
    using sample_submission_ok(2)
    by (intro exI[of _ ?u]) (simp add: finalize_downstream_submission_def FINAL_POSTURES_def checks_passes)
qed

theorem finalisation_is_exclusive_witness:
  "\<exists>k. owned_submission sample_submission (''worker'', ''attempt-1'') \<and>
     snd (finalize_stored_submission k (''other'', ''attempt-2'') sample_finalization
       (snd (finalize_stored_submission k (''worker'', ''attempt-1'') sample_finalization sample_submissions))) =
     snd (finalize_stored_submission k (''worker'', ''attempt-1'') sample_finalization sample_submissions)"
proof -
  let ?k = "''tenant-1'' @ [char_of (0 :: nat)] @ ''key-1''"
  obtain u where u: "finalize_downstream_submission sample_submission ''worker'' ''attempt-1''
      Accepted_By_Downstream (utc 20) None None = Inr (submission_accepted u)" "sb_status u = Accepted_By_Downstream"
    using sample_finalized by blast
  have "u \<noteq> sample_submission" using u(2) sample_submission_ok(2) by auto
  then have "snd (finalize_stored_submission ?k (''worker'', ''attempt-1'') sample_finalization sample_submissions)
      \<noteq> sample_submissions"
    using u(1) by (simp add: finalize_stored_submission_def sample_submissions_def sample_finalization_def
        store_submission_result_def submission_accepted_def del: append.simps)
  from finalisation_is_exclusive[OF this, of "[((''other'', ''attempt-2''), sample_finalization)]"]
  show ?thesis by (intro exI[of _ ?k]) (auto simp: sample_submissions_def simp del: append.simps)
qed

text \<open>An accepted reconciliation that is sent again is answered as a replay and changes
  nothing, provided that a receipt of the Report owner carries its materialisation and its
  event version.\<close>

theorem reconciliation_is_idempotent:
  assumes "submission_ok r" "reconcile_downstream_submission r q = Inr m"
    and "sm_decision m = Mut_Accepted" "sm_record m = Some u"
    and "\<forall>x. sn_owner_receipt q = Some x \<and> sb_source_authority r = Lotus_Report \<longrightarrow>
      wn_source_event_version x \<noteq> None \<and> wn_report_materialization x \<noteq> None"
  shows "reconcile_downstream_submission u q = Inr (submission_replayed u)"
  by (rule reconcile_replay[OF assms(1-4)]) (use assms(5) in blast)

definition sample_reconciliation :: reconciliation_request where
  "sample_reconciliation =
     \<lparr>sn_resolution = Resolve_Quarantined, sn_actor_subject = ''operator-1'', sn_reason = ''owner unreachable'',
      sn_change_reference = ''CHG-1'', sn_reconciled_at_utc = utc 50, sn_owner_receipt = None\<rparr>"

lemma sample_reconciled:
  "\<exists>u. reconcile_downstream_submission sample_submission sample_reconciliation = Inr (submission_accepted u)"
proof -
  obtain a where a: "submission_audit_entry (sb_tenant_id sample_submission) (sb_idempotency_key sample_submission)
      (length (sb_audit_history sample_submission) + 1) Act_Quarantined ''operator-1'' Quarantined (utc 50)
      (Some (sb_status sample_submission)) (Some ''owner unreachable'') (Some ''CHG-1'') = Inr a"
    by (simp add: submission_audit_entry_def sample_submission_names submission_audit_guards_def checks_passes
        blank_iff py_space_def Let_def)
  let ?u = "sample_submission\<lparr>sb_status := Quarantined, sb_updated_at_utc := utc 50,
      sb_downstream_failure_reason := Some ''owner unreachable'',
      sb_audit_history := sb_audit_history sample_submission @ [a],
      sb_owner_receipt := sb_owner_receipt sample_submission\<rparr>"
  have n: "sb_owner_receipt sample_submission = None"
    using create_submission_ok[OF sample_submission_created] by simp
  then have "mk_submission ?u = Inr ?u"
    using sample_submission_ok(1)
    by (auto simp: submission_ok_def valid_submission_def mk_submission_def bind_res_Inr
        expected_support_reference_def validate_submission_lease_def validate_submission_posture_def
        posture_requires_failure_def blank_iff py_space_def)
  with a have "apply_reconciliation sample_submission sample_reconciliation = Inr (submission_accepted ?u)"
    by (simp add: apply_reconciliation_def sample_reconciliation_def transition_submission_def)
  moreover have "sa_change_reference (last (sb_audit_history sample_submission)) = None"
    using created_submission_names[OF sample_submission_created] by blast
  ultimately show ?thesis
    using n sample_submission_ok(2)
    by (intro exI[of _ ?u], simp add: reconcile_downstream_submission_def reconciliation_guards_def report_progress_def
        reconcilable_def Let_def checks_passes)
      (simp add: sample_reconciliation_def blank_iff py_space_def)
qed

theorem reconciliation_is_idempotent_witness:
  "\<exists>u. reconcile_downstream_submission sample_submission sample_reconciliation = Inr (submission_accepted u) \<and>
     reconcile_downstream_submission u sample_reconciliation = Inr (submission_replayed u)"
proof -
  obtain u where u: "reconcile_downstream_submission sample_submission sample_reconciliation = Inr (submission_accepted u)"
    using sample_reconciled by blast
  from reconciliation_is_idempotent[OF sample_submission_ok(1) u, of u] u show ?thesis
    by (auto simp: submission_accepted_def sample_reconciliation_def)
qed

section \<open>From an approval to a conversion\<close>

text \<open>The grant of an approval names the review and the time it was accepted.\<close>

lemma approval_grant_names:
  assumes "apply_review_action c w t receipt policy = Inr r" "ra_authority_grant r = Some g"
  shows "gr_review_id g = rw_review_id w \<and> gr_accepted_at_utc g = t \<and>
    gr_applicability_expires_at_utc g = ep_applicability_expires_at_utc (cd_evidence_packet c)"
proof (rule apply_review_actionD[OF assms(1)])
  fix digest
  assume "ra_decision r = governed_decision_for c w t digest policy"
    and "authority_grant_of (ra_decision r) = Inr (ra_authority_grant r)"
  then show ?thesis
    using assms(2) by (auto simp: authority_grant_of_def governed_decision_for_def Let_def split: if_splits)
qed

lemma effective_status_later:
  assumes "effective_status g c t = Inr Auth_Active" "is_utc u"
    and "\<forall>x. gr_applicability_expires_at_utc g = Some x \<longrightarrow> inst u < inst x"
  shows "effective_status g c u = Inr Auth_Active"
  using assms
  by (cases "gr_applicability_expires_at_utc g")
    (auto simp: effective_status_def bind_res_Inr dt_le_def checks_passes split: if_splits)

lemma reviewed_well_formed:
  assumes "apply_review_action c w t receipt policy = Inr r" "well_formed_candidate c"
  shows "well_formed_candidate (ra_candidate r)"
proof (rule apply_review_actionD[OF assms(1)])
  fix digest
  assume "candidate_after_review c w t = Inr (ra_candidate r)"
  then have "ra_candidate r = reviewed_candidate c w t" "valid_candidate (ra_candidate r)"
    using candidate_after_review_Inr by blast+
  then show ?thesis using assms(2) by (simp add: well_formed_candidate_def)
qed

lemma approval_converts:
  assumes "apply_review_action c w t receipt policy = Inr r" "well_formed_candidate c"
    and "rw_action w = Approve_For_Conversion" "rw_review_channel w \<noteq> Legacy_Unverified"
    and "passes (intent_command_guards v)"
    and "iw_expected_review_id v = rw_review_id w" "iw_expected_candidate_evidence v = evidence_identity_of c"
    and "passes (require_observed_time_within_policy (iw_requested_at_utc v) u CONVERSION_INTENT_TIME_POLICY)"
    and "inst t \<le> inst u"
    and "\<forall>x. ep_applicability_expires_at_utc (cd_evidence_packet c) = Some x \<longrightarrow> inst u < inst x"
  shows "\<exists>g i. ra_authority_grant r = Some g \<and>
    request_conversion_intent (ra_candidate r) v u g = Inr i \<and>
    validate_conversion_intent_for_realization (ia_candidate i) (ia_conversion_intent i) u = Inr ()"
proof -
  have e: "evidence_identity_of (ra_candidate r) = evidence_identity_of c"
    "cd_evidence_packet (ra_candidate r) = cd_evidence_packet c"
    "cd_lifecycle_status (ra_candidate r) = Approved"
    "cd_review_posture (ra_candidate r) = Approved_For_Conversion"
    by (rule apply_review_actionD[OF assms(1)],
        insert assms(3), auto dest!: candidate_after_review_Inr simp: reviewed_candidate_def Let_def evidence_identity_of_def)+
  obtain g where g: "ra_authority_grant r = Some g" "effective_status g (ra_candidate r) t = Inr Auth_Active"
    using approval_grant[OF assms(1-4)] by blast
  note names = approval_grant_names[OF assms(1) g(1)]
  have u: "is_utc u" using assms(8) by simp
  have x: "\<forall>x. gr_applicability_expires_at_utc g = Some x \<longrightarrow> inst u < inst x"
    using names assms(10) by simp
  note active = effective_status_later[OF g(2) u x]
  note wf = reviewed_well_formed[OF assms(1,2)]
  have "passes (ensure_candidate_ready_for_conversion (ra_candidate r) u)"
    using effective_status_active[OF active] e assms(10)
    by (cases "ep_applicability_expires_at_utc (cd_evidence_packet c)")
      (auto simp: ensure_candidate_ready_for_conversion_def dt_le_def)
  then obtain i where i: "request_conversion_intent (ra_candidate r) v u g = Inr i"
    using request_conversion_intent_ok[OF wf assms(5,8) _ _ _ active] names e assms(6,7,9) by metis
  with realization_after_request[OF i wf u x] g(1) show ?thesis by blast
qed

end
