(* ===== verification/Lifecycle_Properties.thy ===== *)
theory Lifecycle_Properties
imports Data_Lifecycle
begin

text \<open>
  The properties of the retention state machine: what a legal hold protects, what a purge
  needs, that a control never moves back, that a hold leaves no trace after its release, and
  that the scheduled review finds exactly the controls a purge would accept.
\<close>

section \<open>Sample commands\<close>

definition sample_control :: "lifecycle_state \<Rightarrow> lifecycle_control" where
  "sample_control s =
     \<lparr>lf_candidate_id = ''idea-1'', lf_tenant_id = ''tenant-1'',
      lf_policy_ref = REGULATED_ADVISORY_POLICY_REF, lf_state = s,
      lf_retention_expires_at_utc = utc 50, lf_version = 1, lf_updated_at_utc = utc 0,
      lf_held_from_state = None, lf_hold_authority_ref = None, lf_hold_change_reference = None,
      lf_held_at_utc = None, lf_erased_at_utc = (if s = Data_Erased then Some (utc 0) else None),
      lf_purged_at_utc = None, lf_tombstone_sha256 = None\<rparr>"

definition sample_held_control :: lifecycle_control where
  "sample_held_control = (sample_control Data_Active)
     \<lparr>lf_state := Data_Held, lf_version := 2, lf_updated_at_utc := utc 60,
      lf_held_from_state := Some Data_Active,
      lf_hold_authority_ref := Some ''bank-legal-and-records-governance:decision-1'',
      lf_hold_change_reference := Some ''change-1'', lf_held_at_utc := Some (utc 60)\<rparr>"

definition sample_context :: "lifecycle_control \<Rightarrow> lifecycle_context" where
  "sample_context c =
     \<lparr>lx_candidate_exists = True, lx_candidate_tenant_id = Some ''tenant-1'', lx_control = Some c,
      lx_active_outbox_count = 0, lx_active_downstream_count = 0,
      lx_linked_report_evidence_pack_ids = []\<rparr>"

definition sample_lifecycle_command :: "lifecycle_action \<Rightarrow> lifecycle_command" where
  "sample_lifecycle_command a =
     \<lparr>lw_candidate_id = ''idea-1'', lw_tenant_id = ''tenant-1'', lw_action = a,
      lw_actor_subject = ''officer-1'',
      lw_authority_ref = (if hold_action a then ''bank-legal-and-records-governance:decision-1''
                          else ''bank-privacy-governance:decision-1''),
      lw_reason = ''request'', lw_change_reference = ''change-1'', lw_idempotency_key = ''key-1'',
      lw_request_fingerprint = ''fingerprint'', lw_correlation_id = ''correlation-1'',
      lw_trace_id = ''trace-1'', lw_requested_at_utc = utc 55, lw_dry_run = False,
      lw_approver_subject = Some ''officer-2'', lw_authority_verification_required = False,
      lw_authority_receipt = None, lw_archive_lifecycle_receipt = None\<rparr>"

lemmas sample_lifecycle_defs =
  sample_control_def sample_held_control_def sample_context_def sample_lifecycle_command_def
  REGULATED_ADVISORY_POLICY_REF_def

lemma sample_control_valid:
  "valid_control (sample_control Data_Active)" "valid_control (sample_control Data_Erased)"
  "valid_control sample_held_control"
  by (simp_all add: valid_control_def lifecycle_control_guards_def validate_hold_state_def
      validate_terminal_state_def effective_state_def sample_lifecycle_defs source_safe_reference_def
      is_alnum_def is_digit_def)

lemma sample_no_blockers:
  "lf_policy_ref c = REGULATED_ADVISORY_POLICY_REF \<Longrightarrow>
   common_blockers (sample_lifecycle_command a) (sample_context c) t = []"
  by (simp add: common_blockers_def sample_lifecycle_defs KNOWN_LOCAL_POLICY_REFS_def
      authority_matches_def archive_posture_blockers_def hold_action_def)

lemma sample_context_simps:
  "lx_candidate_exists (sample_context c)" "lx_control (sample_context c) = Some c"
  "\<not> has_active_delivery (sample_context c)"
  "lw_action (sample_lifecycle_command a) = a" "\<not> lw_dry_run (sample_lifecycle_command a)"
  "lw_requested_at_utc (sample_lifecycle_command a) = utc 55"
  by (simp_all add: sample_context_def sample_lifecycle_command_def has_active_delivery_def)

lemma sample_evaluation:
  assumes "lf_policy_ref c = REGULATED_ADVISORY_POLICY_REF" "55 \<le> n"
  shows "evaluate_data_lifecycle (sample_lifecycle_command a) (sample_context c) (utc n) =
    (case a of Apply_Hold \<Rightarrow> evaluate_hold (sample_lifecycle_command a) c (utc n)
     | Release_Hold \<Rightarrow> evaluate_release (sample_lifecycle_command a) c (utc n)
     | Erase \<Rightarrow> evaluate_erase (sample_lifecycle_command a) (sample_context c) c (utc n)
     | Purge \<Rightarrow> evaluate_purge (sample_lifecycle_command a) (sample_context c) c (utc n))"
  using assms(2)
  by (simp add: evaluate_data_lifecycle_def checks_passes dt_less_def sample_context_simps
      sample_no_blockers[OF assms(1)])

lemma sample_applied_hold:
  "sample_control Data_Active\<lparr>lf_state := Data_Held, lf_version := lf_version (sample_control Data_Active) + 1,
     lf_updated_at_utc := utc 60, lf_held_from_state := Some (lf_state (sample_control Data_Active)),
     lf_hold_authority_ref := Some (lw_authority_ref (sample_lifecycle_command Apply_Hold)),
     lf_hold_change_reference := Some (lw_change_reference (sample_lifecycle_command Apply_Hold)),
     lf_held_at_utc := Some (utc 60)\<rparr> = sample_held_control"
  by (simp add: sample_lifecycle_defs hold_action_def)

definition sample_purged_control :: lifecycle_control where
  "sample_purged_control = (sample_control Data_Erased)
     \<lparr>lf_state := Data_Purged, lf_version := lf_version (sample_control Data_Erased) + 1,
      lf_updated_at_utc := utc 60, lf_purged_at_utc := Some (utc 60)\<rparr>"

lemma sample_purged_valid: "valid_control sample_purged_control"
  using sample_control_valid(2)
  by (simp add: valid_control_def lifecycle_control_guards_def validate_hold_state_def sample_purged_control_def
      validate_terminal_state_def effective_state_def sample_control_def)

lemma sample_hold_applied:
  "evaluate_hold (sample_lifecycle_command Apply_Hold) (sample_control Data_Active) (utc 60) =
     Inr (lifecycle_approved (sample_lifecycle_command Apply_Hold) (sample_control Data_Active)
       sample_held_control False False)"
proof -
  have "lf_state (sample_control Data_Active) \<noteq> Data_Held" by (simp add: sample_control_def)
  then show ?thesis
    unfolding evaluate_hold_def sample_applied_hold using sample_control_valid(3)
    by (simp add: mk_control_def valid_control_def checks_passes)
qed

lemma sample_evaluations:
  "evaluate_data_lifecycle (sample_lifecycle_command Erase) (sample_context sample_held_control) (utc 70) =
     Inr (lifecycle_blocked (Some sample_held_control) [Legal_Hold_Active])"
  "evaluate_data_lifecycle (sample_lifecycle_command Purge) (sample_context (sample_control Data_Erased)) (utc 60) =
     Inr (lifecycle_approved (sample_lifecycle_command Purge) (sample_control Data_Erased)
       sample_purged_control False True)"
proof -
  have "lf_policy_ref sample_held_control = REGULATED_ADVISORY_POLICY_REF" "lf_state sample_held_control = Data_Held"
    by (simp_all add: sample_lifecycle_defs)
  then show "evaluate_data_lifecycle (sample_lifecycle_command Erase) (sample_context sample_held_control) (utc 70) =
     Inr (lifecycle_blocked (Some sample_held_control) [Legal_Hold_Active])"
    by (simp add: sample_evaluation evaluate_erase_def)
  let ?c = "sample_control Data_Erased"
  have c: "lf_policy_ref ?c = REGULATED_ADVISORY_POLICY_REF" "lf_state ?c = Data_Erased"
    "\<not> dt_less (utc 60) (lf_retention_expires_at_utc ?c)"
    by (simp_all add: sample_control_def dt_less_def)
  have p: "purge_blockers (sample_context ?c) ?c (utc 60) = []"
    using c by (simp add: purge_blockers_def sample_context_simps)
  have m: "mk_control sample_purged_control = Inr sample_purged_control"
    using sample_purged_valid by (simp add: mk_control_def valid_control_def checks_passes)
  show "evaluate_data_lifecycle (sample_lifecycle_command Purge) (sample_context (sample_control Data_Erased)) (utc 60) =
     Inr (lifecycle_approved (sample_lifecycle_command Purge) (sample_control Data_Erased)
       sample_purged_control False True)"
    using c p by (simp add: sample_evaluation evaluate_purge_def m flip: sample_purged_control_def)
qed

section \<open>Properties\<close>

text \<open>C34: a legal hold protects the data: while a candidate's data is held, no action but the
  release of the hold is applied, and nothing is to be redacted or purged.\<close>

theorem hold_protects:
  assumes "evaluate_data_lifecycle w x t = Inr e" "lx_control x = Some c"
    and "lf_state c = Data_Held" "lw_action w \<noteq> Release_Hold"
  shows "le_decision e \<in> {DL_Blocked, DL_Not_Found} \<and> le_projected_control e = Some c \<and>
    \<not> le_redaction_required e \<and> \<not> le_purge_required e"
  using assms
  by (cases "lw_action w") (auto simp: evaluate_data_lifecycle_def bind_res_Inr Let_def lifecycle_blocked_def
      evaluate_hold_def evaluate_erase_def evaluate_purge_def split: if_splits)

theorem hold_protects_witness:
  "\<exists>e. evaluate_data_lifecycle (sample_lifecycle_command Erase) (sample_context sample_held_control) (utc 70) = Inr e \<and>
     le_projected_control e = Some sample_held_control"
proof -
  have "lx_control (sample_context sample_held_control) = Some sample_held_control"
    "lf_state sample_held_control = Data_Held" "lw_action (sample_lifecycle_command Erase) \<noteq> Release_Hold"
    by (simp_all add: sample_context_def sample_held_control_def sample_lifecycle_command_def)
  from hold_protects[OF sample_evaluations(1) this] sample_evaluations(1) show ?thesis by blast
qed

text \<open>C35: a purge is only ever ordered for data that was erased before and whose retention
  period has ended, with no delivery in flight, on a purge command of the same tenant under a
  known policy, and when it is not a rehearsal, with the consent of a second person.\<close>

theorem purge_needs_erasure:
  assumes "evaluate_data_lifecycle w x t = Inr e" "le_purge_required e"
  shows "\<exists>c. lx_control x = Some c \<and> lf_state c = Data_Erased \<and> \<not> dt_less t (lf_retention_expires_at_utc c) \<and>
    lx_active_outbox_count x \<le> 0 \<and> lx_active_downstream_count x \<le> 0 \<and> lw_action w = Purge \<and>
    lx_candidate_tenant_id x = Some (lw_tenant_id w) \<and> lf_policy_ref c \<in> set KNOWN_LOCAL_POLICY_REFS \<and>
    authority_matches w \<and>
    (lw_dry_run w \<or> (\<exists>a. lw_approver_subject w = Some a \<and> a \<noteq> lw_actor_subject w))"
proof -
  from assms obtain c where c: "lx_control x = Some c" and n: "common_blockers w x t = []"
    and p: "lw_action w = Purge" "evaluate_purge w x c t = Inr e"
    by (auto simp: evaluate_data_lifecycle_def bind_res_Inr Let_def lifecycle_blocked_def lifecycle_approved_def
        lifecycle_replayed_def evaluate_hold_def evaluate_release_def evaluate_erase_def
        split: if_splits option.splits lifecycle_action.splits)
  have "lf_state c = Data_Erased \<and> purge_blockers x c t = []"
    using p(2) assms(2)
    by (auto simp: evaluate_purge_def lifecycle_blocked_def lifecycle_replayed_def purge_blockers_def split: if_splits)
  then show ?thesis
    using c n p(1)
    by (auto simp: purge_blockers_def has_active_delivery_def common_blockers_def requires_dual_authorization_def
        split: if_splits option.splits)
qed

theorem purge_needs_erasure_witness:
  "\<exists>e c. evaluate_data_lifecycle (sample_lifecycle_command Purge) (sample_context (sample_control Data_Erased)) (utc 60) = Inr e \<and>
     le_purge_required e \<and> lx_control (sample_context (sample_control Data_Erased)) = Some c \<and> lf_state c = Data_Erased"
proof -
  have "le_purge_required (lifecycle_approved w c p False True)" for w c p by (simp add: lifecycle_approved_def)
  note this[of "sample_lifecycle_command Purge" "sample_control Data_Erased"]
  from purge_needs_erasure[OF sample_evaluations(2) this] sample_evaluations(2) this show ?thesis by blast
qed

text \<open>C36: along every sequence of applied actions the control of a candidate stays
  well-formed, keeps its candidate, tenant, policy and retention date, counts its version up
  by one with every applied action, and the data never returns to an earlier stage, neither
  from erased to active nor from purged, whatever holds are applied and released in between.\<close>

theorem control_never_moves_back:
  assumes "(control_step ^^ k) c p" "valid_control c"
  shows "valid_control p \<and> same_control c p \<and> lf_version p = lf_version c + int k \<and>
    (effective_state c = Data_Erased \<longrightarrow> effective_state p \<in> {Data_Erased, Data_Purged}) \<and>
    (effective_state c = Data_Purged \<longrightarrow> effective_state p = Data_Purged)"
proof -
  note r = control_run[OF assms]
  then show ?thesis by (cases "effective_state p") auto
qed

theorem control_never_moves_back_witness:
  "\<exists>p. (control_step ^^ 1) (sample_control Data_Erased) p \<and> lf_state p = Data_Purged \<and> valid_control p \<and>
    lf_version p = lf_version (sample_control Data_Erased) + 1"
proof -
  have p: "(control_step ^^ 1) (sample_control Data_Erased) sample_purged_control"
    unfolding relpowp_1 by (rule control_step.applied[OF sample_evaluations(2)])
      (simp_all add: sample_context_simps lifecycle_approved_def)
  have "lf_state sample_purged_control = Data_Purged" by (simp add: sample_purged_control_def)
  with control_never_moves_back[OF p sample_control_valid(2)] p show ?thesis
    by (intro exI[of _ sample_purged_control]) simp
qed

text \<open>A hold leaves no trace: releasing a hold that was applied before restores the
  control as it was, but for its version, which has moved by two, and the time of the update.\<close>

theorem hold_release_roundtrip:
  assumes "evaluate_hold w c t = Inr e" "le_decision e = DL_Applied" "le_projected_control e = Some h"
    and "evaluate_release v h u = Inr f" "valid_control c"
  shows "le_projected_control f = Some (c\<lparr>lf_version := lf_version c + 2, lf_updated_at_utc := u\<rparr>)"
proof -
  have h: "h = c\<lparr>lf_state := Data_Held, lf_version := lf_version c + 1, lf_updated_at_utc := t,
      lf_held_from_state := Some (lf_state c), lf_hold_authority_ref := Some (lw_authority_ref w),
      lf_hold_change_reference := Some (lw_change_reference w), lf_held_at_utc := Some t\<rparr>"
    and s: "lf_state c \<noteq> Data_Held"
    using assms(1-3)
    by (auto simp: evaluate_hold_def bind_res_Inr mk_control_Inr lifecycle_approved_def lifecycle_blocked_def
        split: if_splits)
  have c: "lf_held_from_state c = None" "lf_hold_authority_ref c = None" "lf_hold_change_reference c = None"
    "lf_held_at_utc c = None"
    using assms(5) s by (simp_all add: valid_control_def lifecycle_control_guards_def validate_hold_state_def)
  show ?thesis
    using assms(4) c by (auto simp: h evaluate_release_def bind_res_Inr mk_control_Inr lifecycle_approved_def)
qed

theorem hold_release_roundtrip_witness:
  "\<exists>e f h. evaluate_hold (sample_lifecycle_command Apply_Hold) (sample_control Data_Active) (utc 60) = Inr e \<and>
     le_projected_control e = Some h \<and>
     evaluate_release (sample_lifecycle_command Release_Hold) h (utc 80) = Inr f \<and>
     le_projected_control f = Some (sample_control Data_Active\<lparr>lf_version := 3, lf_updated_at_utc := utc 80\<rparr>)"
proof -
  let ?v = "sample_lifecycle_command Apply_Hold" and ?r = "sample_lifecycle_command Release_Hold"
  let ?c = "sample_control Data_Active"
  note e = sample_hold_applied
  have "\<exists>f. evaluate_release ?r sample_held_control (utc 80) = Inr f"
    by (simp add: evaluate_release_def mk_control_def lifecycle_control_guards_def validate_hold_state_def
        validate_terminal_state_def effective_state_def sample_lifecycle_defs source_safe_reference_def
        is_alnum_def is_digit_def)
  then obtain f where f: "evaluate_release ?r sample_held_control (utc 80) = Inr f" by blast
  have p: "le_decision (lifecycle_approved ?v ?c sample_held_control False False) = DL_Applied"
    "le_projected_control (lifecycle_approved ?v ?c sample_held_control False False) = Some sample_held_control"
    by (simp_all add: lifecycle_approved_def sample_lifecycle_command_def)
  have "lf_version ?c + 2 = 3" by (simp add: sample_control_def)
  with hold_release_roundtrip[OF e p f sample_control_valid(1)] e p f show ?thesis by metis
qed

text \<open>The scheduled review agrees with the machine: a control is reported ready exactly
  when a purge command that nothing else blocks would be carried out on it at that time.\<close>

definition snapshot_of :: "lifecycle_context \<Rightarrow> lifecycle_control \<Rightarrow> control_snapshot" where
  "snapshot_of x c =
     \<lparr>ck_candidate_id = lf_candidate_id c, ck_tenant_id = lf_tenant_id c, ck_policy_ref = lf_policy_ref c,
      ck_state = lf_state c, ck_retention_expires_at_utc = lf_retention_expires_at_utc c,
      ck_control_version = lf_version c, ck_active_outbox_count = lx_active_outbox_count x,
      ck_active_downstream_count = lx_active_downstream_count x,
      ck_held_from_state = lf_held_from_state c\<rparr>"

theorem scheduled_review_agrees:
  assumes "passes (lifecycle_context_guards x)" "valid_control c" "is_utc t"
    and "lx_control x = Some c" "lx_candidate_exists x" "lw_action w = Purge"
    and "common_blockers w x t = []" "\<not> dt_less t (lw_requested_at_utc w)"
  shows "\<exists>i e. evaluate_scheduled_lifecycle_control (snapshot_of x c) t = Inr i \<and>
    evaluate_data_lifecycle w x t = Inr e \<and>
    (cv_decision i = Ready_For_Authorized_Purge \<longleftrightarrow> le_purge_required e)"
proof -
  have n: "0 \<le> lx_active_outbox_count x" "0 \<le> lx_active_downstream_count x"
    using assms(1) by (simp_all add: lifecycle_context_guards_def)
  have p: "valid_control (c\<lparr>lf_state := Data_Purged, lf_version := lf_version c + 1,
      lf_updated_at_utc := t, lf_purged_at_utc := Some t\<rparr>)" if "lf_state c = Data_Erased"
    using assms(2,3) that
    by (auto simp: valid_control_def lifecycle_control_guards_def validate_hold_state_def
        validate_terminal_state_def effective_state_def)
  have e: "evaluate_data_lifecycle w x t = evaluate_purge w x c t"
    using assms(3-8) by (simp add: evaluate_data_lifecycle_def checks_passes)
  show ?thesis
    unfolding e using assms(3) n p
    by (auto simp: evaluate_scheduled_lifecycle_control_def checks_passes scheduled_blockers_def snapshot_of_def
        evaluate_purge_def purge_blockers_def has_active_delivery_def lifecycle_blocked_def lifecycle_replayed_def
        lifecycle_approved_def mk_control_def valid_control_def)
qed

theorem scheduled_review_agrees_witness:
  "\<exists>i. evaluate_scheduled_lifecycle_control
     (snapshot_of (sample_context (sample_control Data_Erased)) (sample_control Data_Erased)) (utc 60) = Inr i \<and>
     cv_decision i = Ready_For_Authorized_Purge"
proof -
  let ?x = "sample_context (sample_control Data_Erased)" and ?w = "sample_lifecycle_command Purge"
  have x: "passes (lifecycle_context_guards ?x)" "lx_control ?x = Some (sample_control Data_Erased)"
    "lx_candidate_exists ?x" "lw_action ?w = Purge" "\<not> dt_less (utc 60) (lw_requested_at_utc ?w)"
    by (simp_all add: lifecycle_context_guards_def sample_context_def sample_lifecycle_command_def dt_less_def
        source_safe_reference_def is_alnum_def is_digit_def)
  have b: "common_blockers ?w ?x (utc 60) = []"
    by (rule sample_no_blockers) (simp add: sample_control_def)
  from scheduled_review_agrees[OF x(1) sample_control_valid(2) is_utc_utc(1) x(2-4) b x(5)] sample_evaluations(2)
  show ?thesis by (auto simp: lifecycle_approved_def)
qed

end
