(* ===== verification/Report_Evidence.thy ===== *)
theory Report_Evidence
imports Conversion_Governance Data_Lifecycle
begin

text \<open>
  \<open>src/app/domain/report_evidence.py\<close>: the evidence pack that a report is requested with. A
  pack repeats the evidence of the candidate and of the conversion intent it realises; it is
  a request only, and grants no authority to publish, render or archive. The lemmas show
  when a pack is granted and that its evidence is the evidence the intent was approved on.
\<close>

datatype pack_boundary = Request_Only | Downstream_Materialization_Required

fun pack_boundary_value :: "pack_boundary \<Rightarrow> string" where
  "pack_boundary_value Request_Only = ''request_only''"
| "pack_boundary_value Downstream_Materialization_Required = ''downstream_materialization_required''"

datatype pack_purpose = Client_Review_Report_Section | Advisor_Review_Evidence | Audit_Evidence

fun purpose_value :: "pack_purpose \<Rightarrow> string" where
  "purpose_value Client_Review_Report_Section = ''client_review_report_section''"
| "purpose_value Advisor_Review_Evidence = ''advisor_review_evidence''"
| "purpose_value Audit_Evidence = ''audit_evidence''"

definition governed_retention_policy :: "string \<Rightarrow> guards" where
  \<comment> \<open>\<open>resolve_external_retention_policy_ref\<close>, called for its exception\<close>
  "governed_retention_policy p =
    (case resolve_external_retention_policy_ref p of Inl e \<Rightarrow> [(True, e)] | Inr _ \<Rightarrow> [])"

record pack_command =
  pc_report_evidence_pack_id :: string
  pc_purpose :: pack_purpose
  pc_actor_subject :: string
  pc_idempotency_key :: string
  pc_reason_codes :: "reason_code list"
  pc_requested_at_utc :: py_datetime
  pc_retention_policy_ref :: string
  pc_client_ready_publication_requested :: bool

definition pack_command_guards :: "pack_command \<Rightarrow> guards" where
  "pack_command_guards w =
     require_text (pc_report_evidence_pack_id w) ''report_evidence_pack_id'' @
     require_text (pc_actor_subject w) ''actor_subject'' @
     require_text (pc_idempotency_key w) ''idempotency_key'' @
     require_text (pc_retention_policy_ref w) ''retention_policy_ref'' @
     governed_retention_policy (pc_retention_policy_ref w) @
     require_aware (pc_requested_at_utc w) ''requested_at_utc'' @
     [(pc_reason_codes w = [], ValueError ''reason_codes is required'')]"

record source_summary =
  ss_product_id :: string
  ss_source_system :: source_system
  ss_product_version :: string
  ss_as_of_date :: string
  ss_generated_at_utc :: py_datetime
  ss_content_hash :: string
  ss_data_quality_status :: string
  ss_freshness :: string

definition summary_from_source_ref :: "source_ref \<Rightarrow> source_summary" where
  "summary_from_source_ref r =
     \<lparr>ss_product_id = sr_product_id r, ss_source_system = sr_source_system r,
      ss_product_version = sr_product_version r, ss_as_of_date = date_iso (sr_as_of_date r),
      ss_generated_at_utc = sr_generated_at_utc r, ss_content_hash = sr_content_hash r,
      ss_data_quality_status = sr_data_quality_status r,
      ss_freshness = freshness_value (sr_freshness r)\<rparr>"

record evidence_pack =
  pk_report_evidence_pack_id :: string
  pk_conversion_intent_id :: string
  pk_candidate_id :: string
  pk_evidence_packet_id :: string
  pk_evidence_content_hash :: string
  pk_source_signal_ids :: "string list"
  pk_source_summaries :: "source_summary list"
  pk_purpose :: pack_purpose
  pk_actor_subject :: string
  pk_idempotency_key :: string
  pk_reason_codes :: "reason_code list"
  pk_requested_at_utc :: py_datetime
  pk_retention_policy_ref :: string
  pk_report_source_authority :: source_system
  pk_render_source_authority :: source_system
  pk_archive_source_authority :: source_system
  pk_boundary :: pack_boundary

definition evidence_pack_guards :: "evidence_pack \<Rightarrow> guards" where
  "evidence_pack_guards k =
     require_text (pk_report_evidence_pack_id k) ''report_evidence_pack_id'' @
     require_text (pk_conversion_intent_id k) ''conversion_intent_id'' @
     require_text (pk_candidate_id k) ''candidate_id'' @
     require_text (pk_evidence_packet_id k) ''evidence_packet_id'' @
     require_text (pk_evidence_content_hash k) ''evidence_content_hash'' @
     require_text (pk_actor_subject k) ''actor_subject'' @
     require_text (pk_idempotency_key k) ''idempotency_key'' @
     require_text (pk_retention_policy_ref k) ''retention_policy_ref'' @
     governed_retention_policy (pk_retention_policy_ref k) @
     require_aware (pk_requested_at_utc k) ''requested_at_utc'' @
     [(pk_source_signal_ids k = [], ValueError ''source_signal_ids is required''),
      (pk_source_summaries k = [], ValueError ''source_summaries is required''),
      (pk_reason_codes k = [], ValueError ''reason_codes is required'')]"

record pack_result =
  kr_evidence_pack :: evidence_pack
  kr_audit_event :: audit_event

definition ensure_report_evidence_pack_allowed ::
    "idea_candidate \<Rightarrow> governed_intent \<Rightarrow> pack_command \<Rightarrow> guards" where
  "ensure_report_evidence_pack_allowed c i w =
    (let invalid = InvalidReportEvidencePack (in_conversion_intent_id (gi_intent i)) in
     [(pc_client_ready_publication_requested w, invalid ''client-ready publication is not authorized''),
      (in_target (gi_intent i) \<noteq> Report_Evidence, invalid ''conversion target is not report evidence''),
      (in_candidate_id (gi_intent i) \<noteq> cd_candidate_id c, invalid ''conversion intent candidate mismatch''),
      (gi_target_source_authority i \<noteq> Lotus_Report, invalid ''target source authority is not lotus-report''),
      (cd_lifecycle_status c \<noteq> Converted_To_Report,
       invalid ''candidate lifecycle is not converted to report''),
      (cd_review_posture c \<noteq> Approved_For_Conversion, invalid ''review posture is not approved''),
      (ep_supportability (cd_evidence_packet c) \<noteq> Support_Ready, invalid ''evidence is not ready''),
      (ln_content_hash (ep_lineage_ref (cd_evidence_packet c)) \<noteq> gi_evidence_content_hash i,
       invalid ''evidence hash does not match conversion intent'')])"

definition evidence_pack_for :: "idea_candidate \<Rightarrow> governed_intent \<Rightarrow> pack_command \<Rightarrow> evidence_pack" where
  "evidence_pack_for c i w =
     \<lparr>pk_report_evidence_pack_id = pc_report_evidence_pack_id w,
      pk_conversion_intent_id = in_conversion_intent_id (gi_intent i),
      pk_candidate_id = cd_candidate_id c,
      pk_evidence_packet_id = ep_evidence_packet_id (cd_evidence_packet c),
      pk_evidence_content_hash = ln_content_hash (ep_lineage_ref (cd_evidence_packet c)),
      pk_source_signal_ids = cd_source_signal_ids c,
      pk_source_summaries = map summary_from_source_ref (ep_source_refs (cd_evidence_packet c)),
      pk_purpose = pc_purpose w, pk_actor_subject = pc_actor_subject w,
      pk_idempotency_key = pc_idempotency_key w, pk_reason_codes = pc_reason_codes w,
      pk_requested_at_utc = pc_requested_at_utc w,
      pk_retention_policy_ref = pc_retention_policy_ref w,
      pk_report_source_authority = Lotus_Report, pk_render_source_authority = Lotus_Render,
      pk_archive_source_authority = Lotus_Archive, pk_boundary = Request_Only\<rparr>"

definition request_report_evidence_pack ::
    "idea_candidate \<Rightarrow> governed_intent \<Rightarrow> pack_command \<Rightarrow> pack_result res" where
  "request_report_evidence_pack c i w =
     bind_res (checks (ensure_report_evidence_pack_allowed c i w) ()) (\<lambda>_.
     let k = evidence_pack_for c i w in
     bind_res (checks (evidence_pack_guards k) ()) (\<lambda>_.
     bind_res (mk_audit_event ''idea.report_evidence_pack.requested'' (pc_actor_subject w) ''accepted''
         (pc_requested_at_utc w)
         [(''boundary'', pack_boundary_value (pk_boundary k)),
          (''candidate_family'', family_value (cd_family c)),
          (''conversion_intent_id'', in_conversion_intent_id (gi_intent i)),
          (''evidence_packet_id'', pk_evidence_packet_id k),
          (''purpose'', purpose_value (pc_purpose w)),
          (''report_source_authority'', source_system_value (pk_report_source_authority k))]) (\<lambda>audit.
     Inr \<lparr>kr_evidence_pack = k, kr_audit_event = audit\<rparr>)))"

section \<open>When a pack is granted\<close>

lemma governed_retention_policy_passes [simp]:
  "passes (governed_retention_policy p) \<longleftrightarrow> is_ok (resolve_external_retention_policy_ref p)"
  by (simp add: governed_retention_policy_def split: sum.splits)

lemma passes_pack_allowed:
  "passes (ensure_report_evidence_pack_allowed c i w) \<longleftrightarrow>
     \<not> pc_client_ready_publication_requested w \<and> in_target (gi_intent i) = Report_Evidence \<and>
     in_candidate_id (gi_intent i) = cd_candidate_id c \<and> gi_target_source_authority i = Lotus_Report \<and>
     cd_lifecycle_status c = Converted_To_Report \<and> cd_review_posture c = Approved_For_Conversion \<and>
     ep_supportability (cd_evidence_packet c) = Support_Ready \<and>
     ln_content_hash (ep_lineage_ref (cd_evidence_packet c)) = gi_evidence_content_hash i"
  by (auto simp: ensure_report_evidence_pack_allowed_def Let_def)

lemma request_report_evidence_pack_Inr:
  assumes "request_report_evidence_pack c i w = Inr r"
  shows "passes (ensure_report_evidence_pack_allowed c i w) \<and> kr_evidence_pack r = evidence_pack_for c i w \<and>
    passes (evidence_pack_guards (evidence_pack_for c i w)) \<and>
    au_occurred_at_utc (kr_audit_event r) = pc_requested_at_utc w"
  using assms
  by (auto simp: request_report_evidence_pack_def Let_def bind_res_Inr dest!: mk_audit_event_Inr)

text \<open>A granted pack carries the evidence its intent was accepted with.\<close>

lemma granted_pack_evidence:
  assumes "request_report_evidence_pack c i w = Inr r"
  shows "pk_evidence_content_hash (kr_evidence_pack r) = gi_evidence_content_hash i"
    and "pk_candidate_id (kr_evidence_pack r) = in_candidate_id (gi_intent i)"
    and "pk_conversion_intent_id (kr_evidence_pack r) = in_conversion_intent_id (gi_intent i)"
    and "pk_boundary (kr_evidence_pack r) = Request_Only"
  using request_report_evidence_pack_Inr[OF assms]
  by (simp_all add: passes_pack_allowed) (simp_all add: evidence_pack_for_def)

lemma request_report_evidence_pack_ok:
  assumes "passes (ensure_report_evidence_pack_allowed c i w)" "passes (pack_command_guards w)"
    and "well_formed_candidate c" "\<not> blank (in_conversion_intent_id (gi_intent i))"
  shows "\<exists>r. request_report_evidence_pack c i w = Inr r"
proof -
  from assms(3) have c: "valid_candidate c" "valid_packet (cd_evidence_packet c)"
    "passes (lineage_ref_guards (ep_lineage_ref (cd_evidence_packet c)))"
    by (simp_all add: well_formed_candidate_def)
  then have d: "\<not> blank (ln_content_hash (ep_lineage_ref (cd_evidence_packet c)))"
    by (simp add: lineage_ref_guards_def sha256_digest_not_blank)
  have k: "passes (evidence_pack_guards (evidence_pack_for c i w))"
    using assms(2,4) c d
    by (auto simp: evidence_pack_guards_def evidence_pack_for_def pack_command_guards_def valid_candidate_iff
        valid_packet_def evidence_packet_guards_def lineage_ref_guards_def)
  show ?thesis
    using assms(1,2) k
    by (simp add: request_report_evidence_pack_def Let_def mk_audit_event_ok pack_command_guards_def
        blank_iff py_space_def FORBIDDEN_ATTRIBUTE_KEYS_def)
qed

end
