(* ===== verification/Repository.thy ===== *)
theory Repository
imports Report_Evidence Review_Governance Downstream Outbox_Recovery
begin

text \<open>
  The in-memory repository, the code's behavioural reference for persistence:
  \<open>src/app/domain/persistence.py\<close> with its mixins \<open>persistence_review_workflow.py\<close>,
  \<open>persistence_conversion_outcomes.py\<close>, \<open>persistence_lookups.py\<close>,
  \<open>persistence_presentation_receipts.py\<close> and \<open>outbox/persistence.py\<close>, and the records of
  \<open>persistence_models.py\<close>. The AI lineage and the realisation histories of the owners are not
  part of the state. An operation writes in the order of the code, so that what it wrote
  before an exception stays written.
\<close>

section \<open>Records\<close>

datatype persistence_decision =
  P_Accepted | P_Replayed | P_Conflict | P_Identity_Conflict | P_Outcome_Conflict | P_Not_Found

datatype evidence_replay_status =
  Replay_Matched | Replay_Stale_Source | Replay_Hash_Mismatch | Replay_Expired | Replay_Not_Found

record lifecycle_entry =
  lh_candidate_id :: string
  lh_source_status :: lifecycle_status
  lh_target_status :: lifecycle_status
  lh_actor_subject :: string
  lh_changed_at_utc :: py_datetime

definition lifecycle_entry_guards :: "lifecycle_entry \<Rightarrow> guards" where
  "lifecycle_entry_guards h =
     require_text (lh_candidate_id h) ''candidate_id'' @
     require_text (lh_actor_subject h) ''actor_subject'' @
     require_aware_utc (lh_changed_at_utc h) ''changed_at_utc''"

record version_entry =
  vh_candidate_id :: string
  vh_business_identity_id :: string
  vh_material_fingerprint :: string
  vh_material_version :: int
  vh_evidence_version :: int
  vh_change_reason :: candidate_change_reason
  vh_source_lifecycle_status :: "lifecycle_status option"
  vh_resulting_lifecycle_status :: lifecycle_status
  vh_supersedes_material_version :: "int option"
  vh_evidence_hash :: string
  vh_recorded_at_utc :: py_datetime

definition version_entry_guards :: "version_entry \<Rightarrow> guards" where
  "version_entry_guards v =
     require_text (vh_candidate_id v) ''candidate_id'' @
     require_text (vh_business_identity_id v) ''business_identity_id'' @
     require_text (vh_material_fingerprint v) ''material_fingerprint'' @
     require_text (vh_evidence_hash v) ''evidence_hash'' @
     [(\<not> is_prefix ''sha256:'' (vh_material_fingerprint v),
       ValueError ''material_fingerprint must use sha256''),
      (\<not> is_prefix ''sha256:'' (vh_evidence_hash v), ValueError ''evidence_hash must use sha256''),
      (vh_material_version v < 1, ValueError ''material_version must be positive''),
      (vh_evidence_version v < 1, ValueError ''evidence_version must be positive'')] @
     opt_guards (vh_supersedes_material_version v) (\<lambda>n.
       [(n < 1, ValueError ''supersedes_material_version must be positive''),
        (vh_material_version v \<le> n,
         ValueError ''supersedes_material_version must precede material_version'')]) @
     require_aware_utc (vh_recorded_at_utc v) ''recorded_at_utc''"

record persistence_record =
  pn_candidate :: idea_candidate
  pn_evidence_hash :: string
  pn_persisted_at_utc :: py_datetime
  pn_version_history :: "version_entry list"
  pn_lifecycle_history :: "lifecycle_entry list"
  pn_audit_events :: "audit_event list"
  pn_review_decisions :: "governed_decision list"
  pn_feedback_events :: "governed_feedback list"
  pn_conversion_intents :: "governed_intent list"
  pn_conversion_outcomes :: "governed_outcome list"
  pn_report_evidence_packs :: "evidence_pack list"

definition persistence_record_guards :: "persistence_record \<Rightarrow> guards" where
  "persistence_record_guards r =
     require_text (pn_evidence_hash r) ''evidence_hash'' @
     require_aware_utc (pn_persisted_at_utc r) ''persisted_at_utc''"

definition mk_persistence_record :: "persistence_record \<Rightarrow> persistence_record res" where
  "mk_persistence_record r = checks (persistence_record_guards r) r"

definition record_is_expired_at :: "persistence_record \<Rightarrow> py_datetime \<Rightarrow> bool res" where
  "record_is_expired_at r evaluated_at_utc =
     checks (require_aware_utc evaluated_at_utc ''evaluated_at_utc'')
       (cd_lifecycle_status (pn_candidate r) = Expired \<or>
        some_satisfies (\<lambda>x. dt_le x evaluated_at_utc)
          (ep_applicability_expires_at_utc (cd_evidence_packet (pn_candidate r))))"

record candidate_result =
  cs_decision :: candidate_decision
  cs_record :: "persistence_record option"
  cs_audit_event :: "audit_event option"

record persistence_result =
  ps_decision :: persistence_decision
  ps_record :: "persistence_record option"
  ps_audit_event :: "audit_event option"

record evidence_replay_result =
  er_status :: evidence_replay_status
  er_record :: "persistence_record option"
  er_current_evidence_hash :: "string option"

section \<open>The state\<close>

record repository =
  rp_candidate_records :: "(string, persistence_record) dict"
  rp_idempotency_records :: "(string, idempotency_record) dict"
  rp_idempotency_candidates :: "(string, string) dict"
  rp_conversion_intent_candidates :: "(string, string) dict"
  rp_report_evidence_pack_candidates :: "(string, string) dict"
  rp_outbox_events :: events
  rp_outbox_recovery_records :: recovery_records
  rp_downstream_submissions :: submission_store
  rp_presentation_receipts :: "(string \<times> string, presentation_receipt) dict"

definition empty_repository :: repository where
  "empty_repository =
     \<lparr>rp_candidate_records = [], rp_idempotency_records = [], rp_idempotency_candidates = [],
      rp_conversion_intent_candidates = [], rp_report_evidence_pack_candidates = [],
      rp_outbox_events = [], rp_outbox_recovery_records = [], rp_downstream_submissions = [],
      rp_presentation_receipts = []\<rparr>"

text \<open>The copy that \<open>snapshot\<close> takes and the constructor reads back: it does not contain the
  recovery audit, and the submissions are filed anew under their identity.\<close>

record repository_snapshot =
  sp_candidate_records :: "(string, persistence_record) dict"
  sp_idempotency_records :: "(string, idempotency_record) dict"
  sp_idempotency_candidates :: "(string, string) dict"
  sp_conversion_intent_candidates :: "(string, string) dict"
  sp_report_evidence_pack_candidates :: "(string, string) dict"
  sp_outbox_events :: events
  sp_downstream_submissions :: submission_store
  sp_presentation_receipts :: "(string \<times> string, presentation_receipt) dict"

definition repository_snapshot_of :: "repository \<Rightarrow> repository_snapshot" where
  "repository_snapshot_of s =
     \<lparr>sp_candidate_records = rp_candidate_records s,
      sp_idempotency_records = rp_idempotency_records s,
      sp_idempotency_candidates = rp_idempotency_candidates s,
      sp_conversion_intent_candidates = rp_conversion_intent_candidates s,
      sp_report_evidence_pack_candidates = rp_report_evidence_pack_candidates s,
      sp_outbox_events = rp_outbox_events s,
      sp_downstream_submissions = rp_downstream_submissions s,
      sp_presentation_receipts = rp_presentation_receipts s\<rparr>"

fun refile_submissions :: "submission list \<Rightarrow> submission_store \<Rightarrow> submission_store res" where
  "refile_submissions [] d = Inr d"
| "refile_submissions (r # rs) d =
     bind_res (downstream_submission_identity (sb_tenant_id r) (sb_idempotency_key r))
       (\<lambda>k. refile_submissions rs (d_put k r d))"

definition repository_from_snapshot :: "repository_snapshot \<Rightarrow> repository res" where
  "repository_from_snapshot p =
     bind_res (refile_submissions (d_values (sp_downstream_submissions p)) []) (\<lambda>subs.
     Inr \<lparr>rp_candidate_records = sp_candidate_records p,
          rp_idempotency_records = sp_idempotency_records p,
          rp_idempotency_candidates = sp_idempotency_candidates p,
          rp_conversion_intent_candidates = sp_conversion_intent_candidates p,
          rp_report_evidence_pack_candidates = sp_report_evidence_pack_candidates p,
          rp_outbox_events = sp_outbox_events p, rp_outbox_recovery_records = [],
          rp_downstream_submissions = subs,
          rp_presentation_receipts = sp_presentation_receipts p\<rparr>)"

section \<open>Shared steps\<close>

definition candidate_tenant_id :: "idea_candidate \<Rightarrow> string res" where
  "candidate_tenant_id c =
    (case cd_access_scope c of
       None \<Rightarrow> Inl (UnscopedCandidatePersistenceError ''persisted candidate tenant scope is unavailable'')
     | Some a \<Rightarrow> Inr (as_tenant_id a))"

definition record_tenant_id :: "persistence_record \<Rightarrow> string res" where
  \<comment> \<open>the review workflow's own \<open>_candidate_tenant_id\<close> raises a plain \<open>ValueError\<close>\<close>
  "record_tenant_id r =
    (case cd_access_scope (pn_candidate r) of
       None \<Rightarrow> Inl (ValueError ''persisted candidate tenant scope is unavailable'')
     | Some a \<Rightarrow> Inr (as_tenant_id a))"

definition record_for_idempotency_key ::
    "string \<Rightarrow> string \<Rightarrow> repository \<Rightarrow> persistence_record option res" where
  "record_for_idempotency_key tenant_id idempotency_key s =
     bind_res (tenant_scoped_idempotency_identity tenant_id idempotency_key) (\<lambda>k.
     Inr (case d_get (rp_idempotency_candidates s) k of
            None \<Rightarrow> None
          | Some c \<Rightarrow> d_get (rp_candidate_records s) c))"

definition append_outbox_event ::
    "string \<Rightarrow> string \<Rightarrow> py_datetime \<Rightarrow> (string, json) dict \<Rightarrow> string \<Rightarrow> event_lineage option \<Rightarrow>
     (repository, unit) act" where
  "append_outbox_event event_type aggregate_id occurred_at_utc payload idempotency_key lineage =
     act_bind (act_lift (build_candidate_outbox_event event_type aggregate_id occurred_at_utc payload
         (Some idempotency_key) lineage)) (\<lambda>e.
     act_modify (\<lambda>s. s\<lparr>rp_outbox_events := d_put (oe_event_id e) e (rp_outbox_events s)\<rparr>))"

definition put_record :: "string \<Rightarrow> persistence_record \<Rightarrow> repository \<Rightarrow> repository" where
  "put_record candidate_id r s =
     s\<lparr>rp_candidate_records := d_put candidate_id r (rp_candidate_records s)\<rparr>"

definition put_idempotency :: "string \<Rightarrow> idempotency_record \<Rightarrow> string \<Rightarrow> repository \<Rightarrow> repository" where
  "put_idempotency storage_key ir candidate_id s =
     s\<lparr>rp_idempotency_records := d_put storage_key ir (rp_idempotency_records s),
       rp_idempotency_candidates := d_put storage_key candidate_id (rp_idempotency_candidates s)\<rparr>"

definition answer :: "persistence_decision \<Rightarrow> persistence_record option \<Rightarrow> persistence_result" where
  "answer d r = \<lparr>ps_decision = d, ps_record = r, ps_audit_event = None\<rparr>"

text \<open>The test of the idempotency key with which every mutation starts: a repeated key answers
  from the store, a new one runs the rest of the mutation.\<close>

definition idempotent_mutation ::
    "string \<Rightarrow> string \<Rightarrow> (string, json) dict \<Rightarrow>
     (string \<Rightarrow> idempotency_record \<Rightarrow> (repository, persistence_result) act) \<Rightarrow>
     (repository, persistence_result) act" where
  "idempotent_mutation tenant_id idempotency_key payload rest =
     act_bind (act_lift (tenant_scoped_idempotency_identity tenant_id idempotency_key)) (\<lambda>storage_key s.
     case evaluate_idempotency idempotency_key payload (d_get (rp_idempotency_records s) storage_key) of
       (Idem_Conflict, _) \<Rightarrow>
         (bind_res (record_for_idempotency_key tenant_id idempotency_key s) (\<lambda>r. Inr (answer P_Conflict r)), s)
     | (Idem_Replayed, _) \<Rightarrow>
         (bind_res (record_for_idempotency_key tenant_id idempotency_key s) (\<lambda>r. Inr (answer P_Replayed r)), s)
     | (Idem_Accepted, ir) \<Rightarrow> rest storage_key ir s)"

text \<open>The frame of every keyed mutation: validate the arguments, find the record, take its
  tenant, test the key, and only then go on with the mutation itself.\<close>

definition keyed_mutation ::
    "guards \<Rightarrow> (repository \<Rightarrow> (string \<times> persistence_record) option) \<Rightarrow> (persistence_record \<Rightarrow> string res) \<Rightarrow>
     string \<Rightarrow> (string, json) dict \<Rightarrow>
     (string \<Rightarrow> persistence_record \<Rightarrow> string \<Rightarrow> string \<Rightarrow> idempotency_record \<Rightarrow> (repository, persistence_result) act) \<Rightarrow>
     (repository, persistence_result) act" where
  "keyed_mutation guards locate tenant_of idempotency_key payload rest =
     act_bind (act_guard guards) (\<lambda>_ s.
     case locate s of
       None \<Rightarrow> (Inr (answer P_Not_Found None), s)
     | Some (candidate_id, r) \<Rightarrow>
         act_bind (act_lift (tenant_of r)) (\<lambda>tenant_id.
           idempotent_mutation tenant_id idempotency_key payload (rest candidate_id r tenant_id)) s)"

definition stored_record :: "string \<Rightarrow> repository \<Rightarrow> (string \<times> persistence_record) option" where
  "stored_record candidate_id s = map_option (Pair candidate_id) (d_get (rp_candidate_records s) candidate_id)"

definition precheck_mutation ::
    "string \<Rightarrow> string \<Rightarrow> (string, json) dict \<Rightarrow> repository \<Rightarrow> persistence_result option res" where
  \<comment> \<open>\<open>precheck_conversion_mutation\<close> and \<open>precheck_evidence_pack_mutation\<close>\<close>
  "precheck_mutation tenant_id idempotency_key payload s =
     bind_res (checks (require_text idempotency_key ''idempotency_key'') ()) (\<lambda>_.
     bind_res (tenant_scoped_idempotency_identity tenant_id idempotency_key) (\<lambda>storage_key.
     case d_get (rp_idempotency_records s) storage_key of
       None \<Rightarrow> Inr None
     | Some existing \<Rightarrow>
         bind_res (record_for_idempotency_key tenant_id idempotency_key s) (\<lambda>r.
         Inr (Some (answer
           (if fst (evaluate_idempotency idempotency_key payload (Some existing)) = Idem_Conflict
            then P_Conflict else P_Replayed) r)))))"

section \<open>Candidates\<close>

definition evidence_hash_for_candidate :: "idea_candidate \<Rightarrow> string res" where
  "evidence_hash_for_candidate c = evidence_hash_for_source_refs (ep_source_refs (cd_evidence_packet c))"

definition version_entry_for ::
    "idea_candidate \<Rightarrow> string \<Rightarrow> lifecycle_status option \<Rightarrow> py_datetime \<Rightarrow> version_entry res" where
  "version_entry_for c content_hash source_status recorded_at_utc =
    (let i = cd_identity c;
         v = \<lparr>vh_candidate_id = cd_candidate_id c, vh_business_identity_id = id_business_identity_id i,
              vh_material_fingerprint = id_material_fingerprint i,
              vh_material_version = id_material_version i, vh_evidence_version = id_evidence_version i,
              vh_change_reason = id_change_reason i, vh_source_lifecycle_status = source_status,
              vh_resulting_lifecycle_status = cd_lifecycle_status c,
              vh_supersedes_material_version = id_supersedes_material_version i,
              vh_evidence_hash = content_hash, vh_recorded_at_utc = recorded_at_utc\<rparr>
     in checks (version_entry_guards v) v)"

definition candidate_payload :: "idea_candidate \<Rightarrow> (string, json) dict" where
  "candidate_payload c =
     [(''candidate_family'', JStr (family_value (cd_family c))),
      (''lifecycle_status'', JStr (lifecycle_value (cd_lifecycle_status c))),
      (''review_posture'', JStr (posture_value (cd_review_posture c)))]"

definition reconciliation_payload :: "idea_candidate \<Rightarrow> (string, json) dict" where
  "reconciliation_payload c = candidate_payload c @
     [(''change_reason'', JStr (change_reason_value (id_change_reason (cd_identity c)))),
      (''material_version'', JStr (int_str (id_material_version (cd_identity c)))),
      (''evidence_version'', JStr (int_str (id_evidence_version (cd_identity c))))]"

definition accept_new_candidate ::
    "idea_candidate \<Rightarrow> string \<Rightarrow> string \<Rightarrow> idempotency_record \<Rightarrow> string \<Rightarrow> py_datetime \<Rightarrow>
     event_lineage option \<Rightarrow> (repository, candidate_result) act" where
  \<comment> \<open>the part of \<open>persist_candidate\<close> for a candidate that is not stored yet\<close>
  "accept_new_candidate c idempotency_key storage_key ir actor_subject event_time lineage =
     act_bind (act_lift (mk_audit_event ''idea.candidate.persisted'' actor_subject ''accepted'' event_time
         [(''candidate_family'', family_value (cd_family c)),
          (''lifecycle_status'', lifecycle_value (cd_lifecycle_status c)),
          (''idempotency_decision'', ''accepted'')])) (\<lambda>audit.
     act_bind (act_lift (evidence_hash_for_candidate c)) (\<lambda>h.
     act_bind (act_lift (version_entry_for c h None event_time)) (\<lambda>v.
     act_bind (act_lift (mk_persistence_record
         \<lparr>pn_candidate = c, pn_evidence_hash = h, pn_persisted_at_utc = event_time,
          pn_version_history = [v], pn_lifecycle_history = [], pn_audit_events = [audit],
          pn_review_decisions = [], pn_feedback_events = [], pn_conversion_intents = [],
          pn_conversion_outcomes = [], pn_report_evidence_packs = []\<rparr>)) (\<lambda>record.
     act_bind (act_modify (\<lambda>s. put_idempotency storage_key ir (cd_candidate_id c)
         (put_record (cd_candidate_id c) record s))) (\<lambda>_.
     act_bind (append_outbox_event ''idea.candidate.persisted.v1'' (cd_candidate_id c) event_time
         (candidate_payload c) idempotency_key lineage) (\<lambda>_.
     act_return \<lparr>cs_decision = Cand_Accepted, cs_record = Some record, cs_audit_event = Some audit\<rparr>))))))"

fun reconciliation_audit_type :: "candidate_decision \<Rightarrow> string res" where
  "reconciliation_audit_type Cand_Evidence_Refreshed = Inr ''idea.candidate.evidence_refreshed''"
| "reconciliation_audit_type Cand_Material_Version_Created = Inr ''idea.candidate.material_version_created''"
| "reconciliation_audit_type Cand_Recurrent_Condition_Reopened =
     Inr ''idea.candidate.recurrent_condition_reopened''"
| "reconciliation_audit_type d = Inl (KeyError (candidate_decision_value d))"

fun reconciliation_event_type :: "candidate_decision \<Rightarrow> string res" where
  "reconciliation_event_type Cand_Evidence_Refreshed = Inr ''idea.candidate.evidence_refreshed.v1''"
| "reconciliation_event_type Cand_Material_Version_Created = Inr ''idea.candidate.material_version_created.v1''"
| "reconciliation_event_type Cand_Recurrent_Condition_Reopened =
     Inr ''idea.candidate.recurrent_condition_reopened.v1''"
| "reconciliation_event_type d =
     Inl (ValueError (''unsupported candidate reconciliation decision: '' @ candidate_decision_value d))"

definition reconciliation_audit_event ::
    "candidate_decision \<Rightarrow> idea_candidate \<Rightarrow> lifecycle_status \<Rightarrow> string \<Rightarrow> py_datetime \<Rightarrow> audit_event res" where
  "reconciliation_audit_event d c source_status actor_subject occurred_at_utc =
     bind_res (reconciliation_audit_type d) (\<lambda>event_type.
     mk_audit_event event_type actor_subject ''accepted'' occurred_at_utc
       [(''candidate_family'', family_value (cd_family c)),
        (''source_lifecycle_status'', lifecycle_value source_status),
        (''resulting_lifecycle_status'', lifecycle_value (cd_lifecycle_status c)),
        (''change_reason'', change_reason_value (id_change_reason (cd_identity c))),
        (''material_version'', int_str (id_material_version (cd_identity c))),
        (''evidence_version'', int_str (id_evidence_version (cd_identity c)))])"

definition append_candidate_reconciliation_event ::
    "candidate_decision \<Rightarrow> idea_candidate \<Rightarrow> py_datetime \<Rightarrow> string \<Rightarrow> event_lineage option \<Rightarrow>
     (repository, unit) act" where
  "append_candidate_reconciliation_event d c occurred_at_utc idempotency_key lineage =
     act_bind (act_lift (reconciliation_event_type d)) (\<lambda>event_type.
     append_outbox_event event_type (cd_candidate_id c) occurred_at_utc (reconciliation_payload c)
       idempotency_key lineage)"

definition reconcile_existing_candidate ::
    "persistence_record \<Rightarrow> idea_candidate \<Rightarrow> string \<Rightarrow> idempotency_record \<Rightarrow> string \<Rightarrow> py_datetime \<Rightarrow>
     event_lineage option \<Rightarrow> (repository, candidate_result) act" where
  "reconcile_existing_candidate existing incoming idempotency_key ir actor_subject occurred_at_utc lineage =
     act_bind (act_lift (evidence_hash_for_candidate incoming)) (\<lambda>incoming_hash.
     act_bind (act_lift (reconcile_candidate (pn_candidate existing) incoming (pn_evidence_hash existing)
         incoming_hash occurred_at_utc)) (\<lambda>n.
     let candidate_id = cd_candidate_id incoming;
         remember = act_bind (act_lift (bind_res (candidate_tenant_id incoming)
             (\<lambda>t. tenant_scoped_idempotency_identity t idempotency_key)))
           (\<lambda>k. act_modify (put_idempotency k ir candidate_id));
         unchanged = \<lparr>cs_decision = rn_decision n, cs_record = Some existing, cs_audit_event = None\<rparr>
     in if rn_decision n = Cand_Identity_Conflict then act_return unchanged
     else if rn_decision n = Cand_Duplicate_Candidate
     then act_bind remember (\<lambda>_. act_return unchanged)
     else case rn_candidate n of
       None \<Rightarrow> act_lift (Inl (RuntimeError ''candidate reconciliation returned no governed mutation''))
     | Some c \<Rightarrow>
         act_bind (act_lift (reconciliation_audit_event (rn_decision n) c
             (cd_lifecycle_status (pn_candidate existing)) actor_subject occurred_at_utc)) (\<lambda>audit.
         act_bind (act_lift (version_entry_for c incoming_hash
             (Some (cd_lifecycle_status (pn_candidate existing))) occurred_at_utc)) (\<lambda>v.
         act_bind (act_lift (mk_persistence_record (existing\<lparr>pn_candidate := c,
             pn_evidence_hash := incoming_hash,
             pn_version_history := pn_version_history existing @ [v],
             pn_audit_events := pn_audit_events existing @ [audit]\<rparr>))) (\<lambda>updated.
         act_bind (act_modify (put_record candidate_id updated)) (\<lambda>_.
         act_bind remember (\<lambda>_.
         act_bind (append_candidate_reconciliation_event (rn_decision n) c occurred_at_utc
             idempotency_key lineage) (\<lambda>_.
         act_return \<lparr>cs_decision = rn_decision n, cs_record = Some updated,
                     cs_audit_event = Some audit\<rparr>))))))))"

definition persist_candidate ::
    "py_datetime \<Rightarrow> idea_candidate \<Rightarrow> string \<Rightarrow> (string, json) dict \<Rightarrow> string \<Rightarrow> py_datetime option \<Rightarrow>
     event_lineage option \<Rightarrow> (repository, candidate_result) act" where
  "persist_candidate now c idempotency_key payload actor_subject occurred_at_utc lineage =
    (case cd_access_scope c of
       None \<Rightarrow> act_lift (checks
         (require_text idempotency_key ''idempotency_key'' @ require_text actor_subject ''actor_subject'' @
          [(True, UnscopedCandidatePersistenceError ''candidate access scope is required for persistence'')])
         \<lparr>cs_decision = Cand_Accepted, cs_record = None, cs_audit_event = None\<rparr>)
     | Some scope \<Rightarrow>
         let event_time = or_else occurred_at_utc now; tenant_id = as_tenant_id scope in
         act_bind (act_guard
           (require_text idempotency_key ''idempotency_key'' @ require_text actor_subject ''actor_subject'' @
            [(\<not> scope_is_authoritative scope, UnscopedCandidatePersistenceError
                ''candidate access scope must be authoritative for persistence'')] @
            require_aware_utc event_time ''occurred_at_utc'')) (\<lambda>_.
         act_bind (act_lift (tenant_scoped_idempotency_identity tenant_id idempotency_key)) (\<lambda>storage_key s.
         let reply = (\<lambda>d. (bind_res (record_for_idempotency_key tenant_id idempotency_key s)
               (\<lambda>r. Inr \<lparr>cs_decision = d, cs_record = r, cs_audit_event = None\<rparr>), s))
         in case evaluate_idempotency idempotency_key payload (d_get (rp_idempotency_records s) storage_key) of
           (Idem_Conflict, _) \<Rightarrow> reply Cand_Conflict
         | (Idem_Replayed, _) \<Rightarrow> reply Cand_Replayed
         | (Idem_Accepted, ir) \<Rightarrow>
             (case d_get (rp_candidate_records s) (cd_candidate_id c) of
                Some existing \<Rightarrow> reconcile_existing_candidate existing c idempotency_key ir actor_subject
                  event_time lineage s
              | None \<Rightarrow> accept_new_candidate c idempotency_key storage_key ir actor_subject event_time
                  lineage s))))"

section \<open>Lifecycle transitions\<close>

definition transition_record ::
    "persistence_record \<Rightarrow> lifecycle_status \<Rightarrow> string \<Rightarrow> py_datetime \<Rightarrow> (string, string) dict \<Rightarrow>
     (repository, persistence_record \<times> audit_event) act" where
  "transition_record r target actor_subject occurred_at_utc attributes =
     act_bind (act_lift (transition_candidate occurred_at_utc (pn_candidate r) target (Some occurred_at_utc)))
       (\<lambda>c.
     let h = \<lparr>lh_candidate_id = cd_candidate_id (pn_candidate r),
              lh_source_status = cd_lifecycle_status (pn_candidate r), lh_target_status = target,
              lh_actor_subject = actor_subject, lh_changed_at_utc = occurred_at_utc\<rparr> in
     act_bind (act_guard (lifecycle_entry_guards h)) (\<lambda>_.
     act_bind (act_lift (mk_audit_event ''idea.lifecycle.transitioned'' actor_subject ''accepted''
         occurred_at_utc
         ([(''source_status'', lifecycle_value (cd_lifecycle_status (pn_candidate r))),
           (''target_status'', lifecycle_value target)] @ attributes))) (\<lambda>audit.
     act_bind (act_lift (mk_persistence_record (r\<lparr>pn_candidate := c,
         pn_lifecycle_history := pn_lifecycle_history r @ [h],
         pn_audit_events := pn_audit_events r @ [audit]\<rparr>))) (\<lambda>updated.
     act_bind (act_modify (put_record (cd_candidate_id (pn_candidate r)) updated)) (\<lambda>_.
     act_return (updated, audit))))))"

definition repository_transition_candidate ::
    "py_datetime \<Rightarrow> string \<Rightarrow> lifecycle_status \<Rightarrow> string \<Rightarrow> py_datetime option \<Rightarrow>
     (repository, persistence_record) act" where
  "repository_transition_candidate now candidate_id target actor_subject occurred_at_utc =
    (let event_time = or_else occurred_at_utc now in
     act_bind (act_guard (require_text candidate_id ''candidate_id'' @
       require_text actor_subject ''actor_subject'' @ require_aware_utc event_time ''occurred_at_utc''))
     (\<lambda>_ s. case d_get (rp_candidate_records s) candidate_id of
        None \<Rightarrow> (Inl (KeyError candidate_id), s)
      | Some r \<Rightarrow> act_bind (transition_record r target actor_subject event_time [])
          (\<lambda>(updated, _). act_return updated) s))"

definition accept_lifecycle_transition ::
    "lifecycle_status \<Rightarrow> string \<Rightarrow> string \<Rightarrow> py_datetime \<Rightarrow> py_datetime \<Rightarrow> string option \<Rightarrow> string list \<Rightarrow>
     event_lineage option \<Rightarrow> string \<Rightarrow> persistence_record \<Rightarrow> string \<Rightarrow> string \<Rightarrow> idempotency_record \<Rightarrow>
     (repository, persistence_result) act" where
  "accept_lifecycle_transition target idempotency_key actor_subject event_time observed_time transition_id
      reason_codes lineage candidate_id r tenant_id storage_key ir =
     act_bind (transition_record r target actor_subject event_time
         ([(''idempotency_decision'', ''accepted''), (''observed_at_utc'', dt_iso observed_time),
           (''reason_codes'', join '','' reason_codes)] @
          (case transition_id of None \<Rightarrow> [] | Some i \<Rightarrow> [(''transition_id'', i)]))) (\<lambda>(updated, audit).
     act_bind (act_modify (put_idempotency storage_key ir candidate_id)) (\<lambda>_.
     act_bind (append_outbox_event ''idea.lifecycle.transitioned.v1'' candidate_id event_time
         [(''observed_at_utc'', JStr (dt_iso observed_time)),
          (''source_status'', JStr (lifecycle_value (cd_lifecycle_status (pn_candidate r)))),
          (''target_status'', JStr (lifecycle_value target))] idempotency_key lineage) (\<lambda>_.
     act_return \<lparr>ps_decision = P_Accepted, ps_record = Some updated, ps_audit_event = Some audit\<rparr>)))"

definition record_lifecycle_transition ::
    "py_datetime \<Rightarrow> string \<Rightarrow> lifecycle_status \<Rightarrow> string \<Rightarrow> (string, json) dict \<Rightarrow> string \<Rightarrow>
     py_datetime option \<Rightarrow> py_datetime option \<Rightarrow> string option \<Rightarrow> string list \<Rightarrow> event_lineage option \<Rightarrow>
     (repository, persistence_result) act" where
  "record_lifecycle_transition now candidate_id target idempotency_key payload actor_subject
      occurred_at_utc observed_at_utc transition_id reason_codes lineage =
    (let event_time = or_else occurred_at_utc now; observed_time = or_else observed_at_utc event_time in
     keyed_mutation
       (require_text candidate_id ''candidate_id'' @ require_text idempotency_key ''idempotency_key'' @
        require_text actor_subject ''actor_subject'' @
        opt_guards transition_id (\<lambda>i. require_text i ''transition_id'') @
        require_aware_utc event_time ''occurred_at_utc'' @ require_aware_utc observed_time ''observed_at_utc'')
       (stored_record candidate_id) (\<lambda>r. candidate_tenant_id (pn_candidate r)) idempotency_key payload
       (accept_lifecycle_transition target idempotency_key actor_subject event_time observed_time
         transition_id reason_codes lineage))"

definition replay_evidence ::
    "py_datetime \<Rightarrow> string \<Rightarrow> source_ref list \<Rightarrow> py_datetime option \<Rightarrow> repository \<Rightarrow>
     evidence_replay_result res" where
  "replay_evidence now candidate_id current_source_refs evaluated_at_utc s =
    (let event_time = or_else evaluated_at_utc now in
     bind_res (checks (require_text candidate_id ''candidate_id'' @
       require_aware_utc event_time ''evaluated_at_utc'') ()) (\<lambda>_.
     case d_get (rp_candidate_records s) candidate_id of
       None \<Rightarrow> Inr \<lparr>er_status = Replay_Not_Found, er_record = None, er_current_evidence_hash = None\<rparr>
     | Some r \<Rightarrow>
         bind_res (record_is_expired_at r event_time) (\<lambda>expired.
         if expired
         then Inr \<lparr>er_status = Replay_Expired, er_record = Some r, er_current_evidence_hash = None\<rparr>
         else if list_ex (\<lambda>x. sr_freshness x \<noteq> Fresh_Current) current_source_refs
         then Inr \<lparr>er_status = Replay_Stale_Source, er_record = Some r, er_current_evidence_hash = None\<rparr>
         else bind_res (evidence_hash_for_source_refs current_source_refs) (\<lambda>current_hash.
              bind_res (evidence_hash_for_source_refs (ep_source_refs (cd_evidence_packet (pn_candidate r))))
                (\<lambda>stored_hash.
              if current_hash = stored_hash
              then Inr \<lparr>er_status = Replay_Matched, er_record = Some r,
                        er_current_evidence_hash = Some (pn_evidence_hash r)\<rparr>
              else Inr \<lparr>er_status = Replay_Hash_Mismatch, er_record = Some r,
                        er_current_evidence_hash = Some current_hash\<rparr>)))))"

definition record_outbox_delivery_run_request ::
    "string \<Rightarrow> (string, json) dict \<Rightarrow> (repository, idempotency_decision) act" where
  "record_outbox_delivery_run_request idempotency_key payload =
     act_bind (act_guard (require_text idempotency_key ''idempotency_key'')) (\<lambda>_.
     act_bind (act_lift (system_scoped_idempotency_identity idempotency_key)) (\<lambda>k s.
     case evaluate_idempotency idempotency_key payload (d_get (rp_idempotency_records s) k) of (d, ir) \<Rightarrow>
       (Inr d, if d = Idem_Accepted
               then s\<lparr>rp_idempotency_records := d_put k ir (rp_idempotency_records s)\<rparr> else s)))"

section \<open>Review workflow\<close>

text \<open>\<open>==\<close> of two candidates compares their timestamps as instants.\<close>

definition norm_dt :: "py_datetime \<Rightarrow> py_datetime" where
  "norm_dt t = \<lparr>wall_us = inst t, utc_off = (if utc_off t = None then None else Some 0)\<rparr>"

definition norm_source :: "source_ref \<Rightarrow> source_ref" where
  "norm_source r = r\<lparr>sr_generated_at_utc := norm_dt (sr_generated_at_utc r)\<rparr>"

definition norm_packet :: "evidence_packet \<Rightarrow> evidence_packet" where
  "norm_packet p =
     p\<lparr>ep_source_refs := map norm_source (ep_source_refs p),
       ep_lineage_ref := (ep_lineage_ref p)\<lparr>ln_source_refs := map norm_source (ln_source_refs (ep_lineage_ref p))\<rparr>,
       ep_created_at_utc := norm_dt (ep_created_at_utc p),
       ep_applicability_expires_at_utc := map_option norm_dt (ep_applicability_expires_at_utc p)\<rparr>"

definition same_candidate :: "idea_candidate \<Rightarrow> idea_candidate \<Rightarrow> bool" where
  "same_candidate a b \<longleftrightarrow>
     dt_eq (cd_created_at_utc a) (cd_created_at_utc b) \<and> dt_eq (cd_updated_at_utc a) (cd_updated_at_utc b) \<and>
     norm_packet (cd_evidence_packet a) = norm_packet (cd_evidence_packet b) \<and>
     a\<lparr>cd_created_at_utc := utc 0, cd_updated_at_utc := utc 0, cd_evidence_packet := cd_evidence_packet b\<rparr> =
     b\<lparr>cd_created_at_utc := utc 0, cd_updated_at_utc := utc 0\<rparr>"

fun find_review_mutation ::
    "('a \<Rightarrow> review_mutation res) \<Rightarrow> 'a list \<Rightarrow> review_mutation \<Rightarrow> review_mutation option res" where
  "find_review_mutation f [] m = Inr None"
| "find_review_mutation f (x # xs) m =
     bind_res (f x) (\<lambda>e.
     if rm_mutation_type e = rm_mutation_type m \<and> rm_resource_id e = rm_resource_id m
     then Inr (Some e) else find_review_mutation f xs m)"

fun review_identity_record ::
    "persistence_record list \<Rightarrow> review_mutation \<Rightarrow> (review_mutation \<times> persistence_record) option res" where
  "review_identity_record [] m = Inr None"
| "review_identity_record (r # rs) m =
     bind_res (find_review_mutation review_mutation_from_decision (pn_review_decisions r) m) (\<lambda>d.
     case d of Some e \<Rightarrow> Inr (Some (e, r))
     | None \<Rightarrow>
         bind_res (find_review_mutation feedback_mutation_from_event (pn_feedback_events r) m) (\<lambda>f.
         case f of Some e \<Rightarrow> Inr (Some (e, r)) | None \<Rightarrow> review_identity_record rs m))"

definition review_identity_result ::
    "review_mutation \<Rightarrow> string \<Rightarrow> idempotency_record \<Rightarrow> string \<Rightarrow>
     (repository, persistence_result option) act" where
  "review_identity_result m idempotency_key ir tenant_id s =
    (case review_identity_record (d_values (rp_candidate_records s)) m of
       Inl e \<Rightarrow> (Inl e, s)
     | Inr None \<Rightarrow> (Inr None, s)
     | Inr (Some (e, r)) \<Rightarrow>
         if \<not> same_review_mutation e m then (Inr (Some (answer P_Identity_Conflict (Some r))), s)
         else act_bind (act_lift (tenant_scoped_idempotency_identity tenant_id idempotency_key)) (\<lambda>k.
              act_bind (act_modify (put_idempotency k ir (cd_candidate_id (pn_candidate r)))) (\<lambda>_.
              act_return (Some (answer P_Replayed (Some r))))) s)"

definition history_after_mutation ::
    "persistence_record \<Rightarrow> idea_candidate \<Rightarrow> string \<Rightarrow> string \<Rightarrow> py_datetime \<Rightarrow> lifecycle_entry list res" where
  \<comment> \<open>the history grows when the mutation changes the lifecycle status\<close>
  "history_after_mutation r c candidate_id actor_subject accepted_at_utc =
    (if cd_lifecycle_status (pn_candidate r) = cd_lifecycle_status c then Inr (pn_lifecycle_history r)
     else let h = \<lparr>lh_candidate_id = candidate_id,
                   lh_source_status = cd_lifecycle_status (pn_candidate r),
                   lh_target_status = cd_lifecycle_status c, lh_actor_subject = actor_subject,
                   lh_changed_at_utc = accepted_at_utc\<rparr>
          in checks (lifecycle_entry_guards h) (pn_lifecycle_history r @ [h]))"

definition review_payload :: "review_result \<Rightarrow> (string, json) dict" where
  "review_payload q =
     [(''action'', JStr (action_value (gd_action (ra_decision q)))),
      (''reason_codes'', JStr (join '','' (map reason_value (gd_reason_codes (ra_decision q))))),
      (''resulting_posture'', JStr (posture_value (gd_resulting_posture (ra_decision q)))),
      (''candidate_material_version'', JInt (gd_candidate_material_version (ra_decision q))),
      (''candidate_evidence_version'', JInt (gd_candidate_evidence_version (ra_decision q))),
      (''presentation_receipt_id'', opt_json (gd_presentation_receipt_id (ra_decision q))),
      (''review_authority_policy_version'', JStr (gd_review_authority_policy_version (ra_decision q))),
      (''review_authority_granted'', JBool (ra_authority_grant q \<noteq> None)),
      (''observed_at_utc'', JStr (dt_iso (gd_decided_at_utc (ra_decision q))))]"

definition accept_review_action ::
    "review_result \<Rightarrow> string \<Rightarrow> event_lineage option \<Rightarrow> string \<Rightarrow> persistence_record \<Rightarrow> string \<Rightarrow> string \<Rightarrow>
     idempotency_record \<Rightarrow> (repository, persistence_result) act" where
  "accept_review_action q idempotency_key lineage candidate_id r tenant_id storage_key ir =
     act_bind (act_lift (review_mutation_from_decision (ra_decision q))) (\<lambda>m.
     act_bind (review_identity_result m idempotency_key ir tenant_id) (\<lambda>known.
     case known of Some a \<Rightarrow> act_return a
     | None \<Rightarrow>
         act_bind (act_guard [(\<not> same_candidate (pn_candidate r) (ra_source_candidate q),
           invalid_review_action (pn_candidate r) (gd_action (ra_decision q)))]) (\<lambda>_.
         act_bind (act_lift (history_after_mutation r (ra_candidate q) candidate_id
             (gd_actor_subject (ra_decision q)) (gd_accepted_at_utc (ra_decision q)))) (\<lambda>history.
         act_bind (act_lift (mk_persistence_record (r\<lparr>pn_candidate := ra_candidate q,
             pn_lifecycle_history := history,
             pn_audit_events := pn_audit_events r @ [ra_audit_event q],
             pn_review_decisions := pn_review_decisions r @ [ra_decision q]\<rparr>))) (\<lambda>updated.
         act_bind (act_modify (\<lambda>s. put_idempotency storage_key ir candidate_id
             (put_record candidate_id updated s))) (\<lambda>_.
         act_bind (append_outbox_event ''idea.review.decision_recorded.v1'' candidate_id
             (gd_accepted_at_utc (ra_decision q)) (review_payload q) idempotency_key lineage) (\<lambda>_.
         act_return \<lparr>ps_decision = P_Accepted, ps_record = Some updated,
                     ps_audit_event = Some (ra_audit_event q)\<rparr>)))))))"

definition record_review_action ::
    "review_result \<Rightarrow> string \<Rightarrow> (string, json) dict \<Rightarrow> event_lineage option \<Rightarrow>
     (repository, persistence_result) act" where
  "record_review_action q idempotency_key payload lineage =
    (let candidate_id = gd_candidate_id (ra_decision q) in
     keyed_mutation
       (require_text idempotency_key ''idempotency_key'' @ require_text candidate_id ''candidate_id'')
       (stored_record candidate_id) record_tenant_id idempotency_key payload
       (accept_review_action q idempotency_key lineage))"

definition precheck_review_mutation ::
    "string \<Rightarrow> string \<Rightarrow> (string, json) dict \<Rightarrow> review_mutation \<Rightarrow>
     (repository, persistence_result option) act" where
  "precheck_review_mutation tenant_id idempotency_key payload m =
     act_bind (act_guard (require_text idempotency_key ''idempotency_key'')) (\<lambda>_.
     act_bind (act_lift (tenant_scoped_idempotency_identity tenant_id idempotency_key)) (\<lambda>storage_key s.
     case evaluate_idempotency idempotency_key payload (d_get (rp_idempotency_records s) storage_key) of
       (Idem_Accepted, ir) \<Rightarrow> review_identity_result m idempotency_key ir tenant_id s
     | (d, _) \<Rightarrow> (bind_res (record_for_idempotency_key tenant_id idempotency_key s)
         (\<lambda>r. Inr (Some (answer (if d = Idem_Conflict then P_Conflict else P_Replayed) r))), s)))"

definition feedback_payload :: "governed_feedback \<Rightarrow> (string, json) dict" where
  "feedback_payload f =
     [(''feedback_outcome'', JStr (feedback_outcome_value (fb_outcome (gf_feedback f)))),
      (''feedback_reason'', JStr (feedback_reason_value (fb_reason (gf_feedback f)))),
      (''feedback_taxonomy_version'', JStr (fb_taxonomy_version (gf_feedback f))),
      (''actor_role'', JStr (role_value (gf_actor_role f))),
      (''observed_at_utc'', JStr (dt_iso (fb_recorded_at_utc (gf_feedback f))))]"

definition accept_feedback_event ::
    "feedback_result \<Rightarrow> string \<Rightarrow> event_lineage option \<Rightarrow> string \<Rightarrow> persistence_record \<Rightarrow> string \<Rightarrow> string \<Rightarrow>
     idempotency_record \<Rightarrow> (repository, persistence_result) act" where
  "accept_feedback_event q idempotency_key lineage candidate_id r tenant_id storage_key ir =
    (let f = fr_feedback_event q in
     act_bind (act_lift (feedback_mutation_from_event f)) (\<lambda>m.
     act_bind (review_identity_result m idempotency_key ir tenant_id) (\<lambda>known.
     case known of Some a \<Rightarrow> act_return a
     | None \<Rightarrow>
         act_bind (act_lift (mk_persistence_record (r\<lparr>
             pn_audit_events := pn_audit_events r @ [fr_audit_event q],
             pn_feedback_events := pn_feedback_events r @ [f]\<rparr>))) (\<lambda>updated.
         act_bind (act_modify (\<lambda>s. put_idempotency storage_key ir candidate_id
             (put_record candidate_id updated s))) (\<lambda>_.
         act_bind (append_outbox_event ''idea.feedback.recorded.v2'' candidate_id
             (gf_accepted_at_utc f) (feedback_payload f) idempotency_key lineage) (\<lambda>_.
         act_return \<lparr>ps_decision = P_Accepted, ps_record = Some updated,
                     ps_audit_event = Some (fr_audit_event q)\<rparr>))))))"

definition record_feedback_event ::
    "feedback_result \<Rightarrow> string \<Rightarrow> (string, json) dict \<Rightarrow> event_lineage option \<Rightarrow>
     (repository, persistence_result) act" where
  "record_feedback_event q idempotency_key payload lineage =
    (let candidate_id = gf_candidate_id (fr_feedback_event q) in
     keyed_mutation
       (require_text idempotency_key ''idempotency_key'' @ require_text candidate_id ''candidate_id'')
       (stored_record candidate_id) record_tenant_id idempotency_key payload
       (accept_feedback_event q idempotency_key lineage))"

section \<open>Conversions\<close>

text \<open>\<open>any(decision.authority_grant == grant ...)\<close>: the property is computed for one decision
  after the other, and grants carry only timestamps in UTC.\<close>

fun holds_grant :: "governed_decision list \<Rightarrow> authority_grant \<Rightarrow> bool res" where
  "holds_grant [] g = Inr False"
| "holds_grant (d # ds) g =
     bind_res (authority_grant_of d) (\<lambda>x. if x = Some g then Inr True else holds_grant ds g)"

definition approved_authority_held :: "persistence_record \<Rightarrow> governed_intent \<Rightarrow> bool res" where
  "approved_authority_held r i =
    (case gi_review_authority_grant i of None \<Rightarrow> Inr False | Some g \<Rightarrow> holds_grant (pn_review_decisions r) g)"

definition intent_payload :: "governed_intent \<Rightarrow> (string, json) dict" where
  "intent_payload i =
     [(''target'', JStr (target_value (in_target (gi_intent i)))),
      (''target_source_authority'', JStr (source_system_value (gi_target_source_authority i))),
      (''review_id'', opt_json (map_option gr_review_id (gi_review_authority_grant i))),
      (''observed_at_utc'', JStr (dt_iso (in_requested_at_utc (gi_intent i))))]"

definition accept_conversion_intent ::
    "intent_result \<Rightarrow> string \<Rightarrow> event_lineage option \<Rightarrow> string \<Rightarrow> persistence_record \<Rightarrow> string \<Rightarrow> string \<Rightarrow>
     idempotency_record \<Rightarrow> (repository, persistence_result) act" where
  "accept_conversion_intent q idempotency_key lineage candidate_id r tenant_id storage_key ir =
    (let i = ia_conversion_intent q in
     act_bind (act_guard [(\<not> same_candidate (pn_candidate r) (ia_source_candidate q),
       InvalidConversionIntent candidate_id
         ''candidate state changed after conversion readiness evaluation'')]) (\<lambda>_.
     act_bind (act_lift (approved_authority_held r i)) (\<lambda>held.
     act_bind (act_guard [(\<not> held, InvalidConversionIntent candidate_id
         ''approved review authority changed before conversion persistence'')]) (\<lambda>_.
     act_bind (act_lift (history_after_mutation r (ia_candidate q) candidate_id
         (gi_actor_subject i) (gi_accepted_at_utc i))) (\<lambda>history.
     act_bind (act_lift (mk_persistence_record (r\<lparr>pn_candidate := ia_candidate q,
         pn_lifecycle_history := history,
         pn_audit_events := pn_audit_events r @ [ia_audit_event q],
         pn_conversion_intents := pn_conversion_intents r @ [i]\<rparr>))) (\<lambda>updated.
     act_bind (act_modify (\<lambda>s. (put_idempotency storage_key ir candidate_id
         (put_record candidate_id updated s))\<lparr>rp_conversion_intent_candidates :=
           d_put (in_conversion_intent_id (gi_intent i)) candidate_id
             (rp_conversion_intent_candidates s)\<rparr>)) (\<lambda>_.
     act_bind (append_outbox_event ''idea.conversion.intent_requested.v1'' candidate_id
         (gi_accepted_at_utc i) (intent_payload i) idempotency_key lineage) (\<lambda>_.
     act_return \<lparr>ps_decision = P_Accepted, ps_record = Some updated,
                 ps_audit_event = Some (ia_audit_event q)\<rparr>))))))))"

definition record_conversion_intent ::
    "intent_result \<Rightarrow> string \<Rightarrow> (string, json) dict \<Rightarrow> event_lineage option \<Rightarrow>
     (repository, persistence_result) act" where
  "record_conversion_intent q idempotency_key payload lineage =
    (let candidate_id = in_candidate_id (gi_intent (ia_conversion_intent q)) in
     keyed_mutation
       (require_text idempotency_key ''idempotency_key'' @
        [(gi_idempotency_key (ia_conversion_intent q) \<noteq> idempotency_key, ValueError
           ''conversion intent idempotency key must match repository idempotency key'')] @
        require_text candidate_id ''candidate_id'')
       (stored_record candidate_id) (\<lambda>r. candidate_tenant_id (pn_candidate r)) idempotency_key payload
       (accept_conversion_intent q idempotency_key lineage))"

fun find_outcome :: "persistence_record list \<Rightarrow> string \<Rightarrow> (outcome_identity \<times> persistence_record) option" where
  "find_outcome [] outcome_id = None"
| "find_outcome (r # rs) outcome_id =
    (case List.find (\<lambda>g. oc_conversion_outcome_id (go_outcome g) = outcome_id) (pn_conversion_outcomes r) of
       Some g \<Rightarrow> Some (outcome_identity_of g, r)
     | None \<Rightarrow> find_outcome rs outcome_id)"

definition conversion_outcome_identity_result ::
    "outcome_identity \<Rightarrow> string \<Rightarrow> idempotency_record \<Rightarrow> string \<Rightarrow>
     (repository, persistence_result option) act" where
  "conversion_outcome_identity_result x idempotency_key ir tenant_id s =
    (case find_outcome (d_values (rp_candidate_records s)) (ox_conversion_outcome_id x) of
       None \<Rightarrow> (Inr None, s)
     | Some (e, r) \<Rightarrow>
         if \<not> same_outcome_identity e x then (Inr (Some (answer P_Outcome_Conflict (Some r))), s)
         else act_bind (act_lift (tenant_scoped_idempotency_identity tenant_id idempotency_key)) (\<lambda>k.
              act_bind (act_modify (put_idempotency k ir (cd_candidate_id (pn_candidate r)))) (\<lambda>_.
              act_return (Some (answer P_Replayed (Some r))))) s)"

definition conversion_record_for_intent :: "string \<Rightarrow> repository \<Rightarrow> (string \<times> persistence_record) option" where
  "conversion_record_for_intent intent_id s =
    (case d_get (rp_conversion_intent_candidates s) intent_id of
       None \<Rightarrow> None
     | Some c \<Rightarrow> stored_record c s)"

definition outcome_identities_for_intent :: "persistence_record \<Rightarrow> string \<Rightarrow> outcome_identity list" where
  "outcome_identities_for_intent r intent_id =
     map outcome_identity_of
       (filter (\<lambda>g. go_conversion_intent_id g = intent_id) (pn_conversion_outcomes r))"

definition outcome_progression_conflicts :: "persistence_record \<Rightarrow> governed_outcome \<Rightarrow> bool" where
  \<comment> \<open>the policy raises nothing but the violation that is caught\<close>
  "outcome_progression_conflicts r g \<longleftrightarrow>
     \<not> is_ok (validate_conversion_outcome_progression
       (outcome_identities_for_intent r (go_conversion_intent_id g)) (outcome_identity_of g))"

definition outcome_payload :: "governed_outcome \<Rightarrow> (string, json) dict" where
  "outcome_payload g =
     [(''source_system'', JStr (source_system_value (go_source_system g))),
      (''source_event_version'', JStr (int_str (go_source_event_version g))),
      (''status'', JStr (outcome_status_value (oc_status (go_outcome g)))),
      (''observed_at_utc'', JStr (dt_iso (oc_recorded_at_utc (go_outcome g)))),
      (''supersedes_outcome'',
       JStr (if go_supersedes_conversion_outcome_id g \<noteq> None then ''true'' else ''false'')),
      (''target'', JStr (target_value (go_target g)))]"

definition accept_conversion_outcome ::
    "string \<Rightarrow> persistence_record \<Rightarrow> outcome_result \<Rightarrow> string \<Rightarrow> idempotency_record \<Rightarrow> string \<Rightarrow>
     event_lineage option \<Rightarrow> (repository, persistence_record) act" where
  "accept_conversion_outcome candidate_id r q idempotency_key ir tenant_id lineage =
     act_bind (act_lift (mk_persistence_record (r\<lparr>
         pn_audit_events := pn_audit_events r @ [oa_audit_event q],
         pn_conversion_outcomes := pn_conversion_outcomes r @ [oa_conversion_outcome q]\<rparr>))) (\<lambda>updated.
     act_bind (act_modify (put_record candidate_id updated)) (\<lambda>_.
     act_bind (act_lift (tenant_scoped_idempotency_identity tenant_id idempotency_key)) (\<lambda>k.
     act_bind (act_modify (put_idempotency k ir candidate_id)) (\<lambda>_.
     act_bind (append_outbox_event ''idea.conversion.outcome_recorded.v1'' candidate_id
         (go_accepted_at_utc (oa_conversion_outcome q)) (outcome_payload (oa_conversion_outcome q))
         idempotency_key lineage) (\<lambda>_.
     act_return updated)))))"

definition accept_or_replay_outcome ::
    "outcome_result \<Rightarrow> string \<Rightarrow> event_lineage option \<Rightarrow> string \<Rightarrow> persistence_record \<Rightarrow> string \<Rightarrow> string \<Rightarrow>
     idempotency_record \<Rightarrow> (repository, persistence_result) act" where
  "accept_or_replay_outcome q idempotency_key lineage candidate_id r tenant_id storage_key ir =
    (let g = oa_conversion_outcome q in
     act_bind (conversion_outcome_identity_result (outcome_identity_of g) idempotency_key ir tenant_id)
     (\<lambda>known. case known of Some a \<Rightarrow> act_return a
     | None \<Rightarrow>
         if outcome_progression_conflicts r g then act_return (answer P_Outcome_Conflict (Some r))
         else act_bind (accept_conversion_outcome candidate_id r q idempotency_key ir tenant_id lineage)
           (\<lambda>updated. act_return \<lparr>ps_decision = P_Accepted, ps_record = Some updated,
                                  ps_audit_event = Some (oa_audit_event q)\<rparr>)))"

definition repository_record_conversion_outcome ::
    "outcome_result \<Rightarrow> string \<Rightarrow> (string, json) dict \<Rightarrow> event_lineage option \<Rightarrow>
     (repository, persistence_result) act" where
  "repository_record_conversion_outcome q idempotency_key payload lineage =
    (let intent_id = go_conversion_intent_id (oa_conversion_outcome q) in
     keyed_mutation
       (require_text idempotency_key ''idempotency_key'' @ require_text intent_id ''conversion_intent_id'')
       (conversion_record_for_intent intent_id) (\<lambda>r. candidate_tenant_id (pn_candidate r))
       idempotency_key payload (accept_or_replay_outcome q idempotency_key lineage))"

definition precheck_conversion_outcome_mutation ::
    "string \<Rightarrow> string \<Rightarrow> (string, json) dict \<Rightarrow> outcome_identity \<Rightarrow>
     (repository, persistence_result option) act" where
  "precheck_conversion_outcome_mutation tenant_id idempotency_key payload x =
     act_bind (act_guard (require_text idempotency_key ''idempotency_key'')) (\<lambda>_.
     act_bind (act_lift (tenant_scoped_idempotency_identity tenant_id idempotency_key)) (\<lambda>storage_key s.
     case evaluate_idempotency idempotency_key payload (d_get (rp_idempotency_records s) storage_key) of
       (Idem_Accepted, ir) \<Rightarrow> conversion_outcome_identity_result x idempotency_key ir tenant_id s
     | (d, _) \<Rightarrow> (bind_res (record_for_idempotency_key tenant_id idempotency_key s)
         (\<lambda>r. Inr (Some (answer (if d = Idem_Conflict then P_Conflict else P_Replayed) r))), s)))"

section \<open>Report evidence packs\<close>

definition pack_payload :: "evidence_pack \<Rightarrow> (string, json) dict" where
  "pack_payload k =
     [(''purpose'', JStr (purpose_value (pk_purpose k))),
      (''report_source_authority'', JStr (source_system_value (pk_report_source_authority k))),
      (''render_source_authority'', JStr (source_system_value (pk_render_source_authority k))),
      (''archive_source_authority'', JStr (source_system_value (pk_archive_source_authority k)))]"

definition accept_report_evidence_pack ::
    "pack_result \<Rightarrow> string \<Rightarrow> event_lineage option \<Rightarrow> string \<Rightarrow> persistence_record \<Rightarrow> string \<Rightarrow> string \<Rightarrow>
     idempotency_record \<Rightarrow> (repository, persistence_result) act" where
  "accept_report_evidence_pack q idempotency_key lineage candidate_id r tenant_id storage_key ir =
    (let k = kr_evidence_pack q in
     act_bind (act_lift (mk_persistence_record (r\<lparr>
         pn_audit_events := pn_audit_events r @ [kr_audit_event q],
         pn_report_evidence_packs := pn_report_evidence_packs r @ [k]\<rparr>))) (\<lambda>updated.
     act_bind (act_modify (\<lambda>s. (put_idempotency storage_key ir candidate_id
         (put_record candidate_id updated s))\<lparr>rp_report_evidence_pack_candidates :=
           d_put (pk_report_evidence_pack_id k) candidate_id (rp_report_evidence_pack_candidates s)\<rparr>)) (\<lambda>_.
     act_bind (append_outbox_event ''idea.report_evidence_pack.requested.v1'' candidate_id
         (pk_requested_at_utc k) (pack_payload k) idempotency_key lineage) (\<lambda>_.
     act_return \<lparr>ps_decision = P_Accepted, ps_record = Some updated,
                 ps_audit_event = Some (kr_audit_event q)\<rparr>))))"

definition record_report_evidence_pack ::
    "pack_result \<Rightarrow> string \<Rightarrow> (string, json) dict \<Rightarrow> event_lineage option \<Rightarrow>
     (repository, persistence_result) act" where
  "record_report_evidence_pack q idempotency_key payload lineage =
    (let candidate_id = pk_candidate_id (kr_evidence_pack q) in
     keyed_mutation
       (require_text idempotency_key ''idempotency_key'' @ require_text candidate_id ''candidate_id'')
       (stored_record candidate_id) (\<lambda>r. candidate_tenant_id (pn_candidate r)) idempotency_key payload
       (accept_report_evidence_pack q idempotency_key lineage))"

section \<open>Lookups\<close>

definition candidate_record_by_id :: "string \<Rightarrow> repository \<Rightarrow> persistence_record option res" where
  "candidate_record_by_id candidate_id s =
     checks (require_text candidate_id ''candidate_id'') (d_get (rp_candidate_records s) candidate_id)"

definition record_of :: "(string, string) dict \<Rightarrow> string \<Rightarrow> repository \<Rightarrow> persistence_record option" where
  "record_of candidates k s =
    (case d_get candidates k of None \<Rightarrow> None | Some c \<Rightarrow> d_get (rp_candidate_records s) c)"

definition conversion_intent_by_id :: "string \<Rightarrow> repository \<Rightarrow> governed_intent option res" where
  "conversion_intent_by_id intent_id s =
     checks (require_text intent_id ''conversion_intent_id'')
       (case record_of (rp_conversion_intent_candidates s) intent_id s of
          None \<Rightarrow> None
        | Some r \<Rightarrow> List.find (\<lambda>i. in_conversion_intent_id (gi_intent i) = intent_id) (pn_conversion_intents r))"

definition candidate_record_for_conversion_intent :: "string \<Rightarrow> repository \<Rightarrow> persistence_record option res" where
  "candidate_record_for_conversion_intent intent_id s =
     checks (require_text intent_id ''conversion_intent_id'')
       (record_of (rp_conversion_intent_candidates s) intent_id s)"

definition conversion_outcomes_for_intent :: "string \<Rightarrow> repository \<Rightarrow> governed_outcome list res" where
  "conversion_outcomes_for_intent intent_id s =
     bind_res (candidate_record_for_conversion_intent intent_id s) (\<lambda>r.
     Inr (case r of None \<Rightarrow> []
          | Some r \<Rightarrow> filter (\<lambda>g. go_conversion_intent_id g = intent_id) (pn_conversion_outcomes r)))"

definition report_evidence_pack_by_id :: "string \<Rightarrow> repository \<Rightarrow> evidence_pack option res" where
  "report_evidence_pack_by_id pack_id s =
     checks (require_text pack_id ''report_evidence_pack_id'')
       (case record_of (rp_report_evidence_pack_candidates s) pack_id s of
          None \<Rightarrow> None
        | Some r \<Rightarrow> List.find (\<lambda>k. pk_report_evidence_pack_id k = pack_id) (pn_report_evidence_packs r))"

definition candidate_record_for_report_evidence_pack ::
    "string \<Rightarrow> repository \<Rightarrow> persistence_record option res" where
  "candidate_record_for_report_evidence_pack pack_id s =
     checks (require_text pack_id ''report_evidence_pack_id'')
       (record_of (rp_report_evidence_pack_candidates s) pack_id s)"

section \<open>Presentation receipts\<close>

definition presentation_receipt_by_id ::
    "string \<Rightarrow> string \<Rightarrow> string \<Rightarrow> repository \<Rightarrow> presentation_receipt option" where
  "presentation_receipt_by_id receipt_id candidate_id tenant_id s =
    (case d_get (rp_presentation_receipts s) (tenant_id, receipt_id) of
       None \<Rightarrow> None
     | Some r \<Rightarrow> if pr_candidate_id r \<noteq> candidate_id \<or> pr_tenant_id r \<noteq> tenant_id then None else Some r)"

definition record_presentation_receipt ::
    "presentation_receipt \<Rightarrow> (repository, presentation_result) act" where
  "record_presentation_receipt r s =
    (case d_get (rp_presentation_receipts s) (presentation_receipt_identity r) of
       Some e \<Rightarrow>
         (checks [(pr_tenant_id e \<noteq> pr_tenant_id r \<or> pr_candidate_id e \<noteq> pr_candidate_id r,
             PresentationReceiptCandidateStateError ''receipt identity is unavailable in the candidate scope'')]
           \<lparr>pq_decision = (if has_same_producer_claim e r then Pres_Replayed else Pres_Conflict),
            pq_receipt = Some e\<rparr>, s)
     | None \<Rightarrow>
         (case d_get (rp_candidate_records s) (pr_candidate_id r) of
            None \<Rightarrow> (Inl (PresentationReceiptCandidateStateError ''candidate is unavailable''), s)
          | Some n \<Rightarrow>
              act_bind (act_guard (presentation_candidate_guards r (pn_candidate n))) (\<lambda>_.
              act_bind (act_modify (\<lambda>s. s\<lparr>rp_presentation_receipts :=
                  d_put (presentation_receipt_identity r) r (rp_presentation_receipts s)\<rparr>)) (\<lambda>_.
              act_return \<lparr>pq_decision = Pres_Accepted, pq_receipt = Some r\<rparr>)) s))"

section \<open>Delivery, recovery and submissions on the repository\<close>

text \<open>The mixins run the operations of the components on the parts of the state they own.\<close>

definition on_outbox :: "(events, 'a) act \<Rightarrow> (repository, 'a) act" where
  "on_outbox m s = (case m (rp_outbox_events s) of (r, evs) \<Rightarrow> (r, s\<lparr>rp_outbox_events := evs\<rparr>))"

definition on_recovery :: "(events \<times> recovery_records, 'a) act \<Rightarrow> (repository, 'a) act" where
  "on_recovery m s =
    (case m (rp_outbox_events s, rp_outbox_recovery_records s) of
       (r, evs, recs) \<Rightarrow> (r, s\<lparr>rp_outbox_events := evs, rp_outbox_recovery_records := recs\<rparr>))"

definition on_submissions :: "(submission_store, 'a) act \<Rightarrow> (repository, 'a) act" where
  "on_submissions m s =
    (case m (rp_downstream_submissions s) of (r, subs) \<Rightarrow> (r, s\<lparr>rp_downstream_submissions := subs\<rparr>))"

definition repository_outbox_events_for_delivery ::
    "py_datetime \<Rightarrow> int \<Rightarrow> int \<Rightarrow> py_datetime option \<Rightarrow> repository \<Rightarrow> outbox_event list res" where
  "repository_outbox_events_for_delivery now limit max_retry_count evaluated_at_utc s =
     outbox_events_for_delivery now (rp_outbox_events s) limit max_retry_count evaluated_at_utc"

definition repository_claim_outbox_events ::
    "int \<Rightarrow> int \<Rightarrow> string \<Rightarrow> string \<Rightarrow> py_datetime \<Rightarrow> py_datetime \<Rightarrow> (repository, outbox_event list) act" where
  "repository_claim_outbox_events limit max_retry_count lease_owner lease_attempt_id claimed_at_utc
      lease_expires_at_utc =
     on_outbox (claim_outbox_events_for_delivery limit max_retry_count lease_owner lease_attempt_id
       claimed_at_utc lease_expires_at_utc)"

definition repository_mark_outbox_event_published ::
    "string \<Rightarrow> string \<Rightarrow> string \<Rightarrow> py_datetime \<Rightarrow> (repository, delivery_result) act" where
  "repository_mark_outbox_event_published event_id lease_owner lease_attempt_id published_at_utc =
     on_outbox (mark_owned_outbox_event_published event_id lease_owner lease_attempt_id published_at_utc)"

definition repository_mark_outbox_event_failed ::
    "py_datetime \<Rightarrow> string \<Rightarrow> string \<Rightarrow> string \<Rightarrow> string \<Rightarrow> py_datetime option \<Rightarrow> int \<Rightarrow> py_datetime option \<Rightarrow>
     (repository, delivery_result) act" where
  "repository_mark_outbox_event_failed now event_id lease_owner lease_attempt_id failure_reason
      failed_at_utc max_retry_count next_attempt_at_utc =
     on_outbox (mark_owned_outbox_event_failed now event_id lease_owner lease_attempt_id failure_reason
       (Some (or_else failed_at_utc now)) max_retry_count next_attempt_at_utc)"

definition repository_claim_dead_letter_for_recovery ::
    "recovery_request \<Rightarrow> int \<Rightarrow> (repository, recovery_result) act" where
  "repository_claim_dead_letter_for_recovery q max_recovery_attempts =
     on_recovery (claim_dead_letter_for_recovery q max_recovery_attempts)"

definition outbox_recovery_audit_records :: "repository \<Rightarrow> recovery_record list" where
  "outbox_recovery_audit_records s = d_values (rp_outbox_recovery_records s)"

definition repository_claim_submission :: "submission \<Rightarrow> (repository, submission_claim_result) act" where
  "repository_claim_submission r = on_submissions (claim_downstream_submission r)"

definition repository_finalize_submission ::
    "string \<Rightarrow> string \<Rightarrow> string \<times> string \<Rightarrow> submission_finalization \<Rightarrow>
     (repository, submission_mutation_result) act" where
  "repository_finalize_submission tenant_id idempotency_key wa c =
     on_submissions (finalize_submission_in_store tenant_id idempotency_key wa c)"

definition repository_reconcile_submission ::
    "string \<Rightarrow> reconciliation_request \<Rightarrow> (repository, submission_mutation_result) act" where
  "repository_reconcile_submission support_reference q =
     on_submissions (reconcile_submission_in_store support_reference q)"

end
