(* ===== verification/Repository_Laws.thy ===== *)
theory Repository_Laws
imports Repository Review_Queue "HOL-Library.Sublist"
begin

text \<open>
  What the repository keeps: every stored record belongs to its key, carries well-formed
  outcome streams and is reached under keys of its own tenant only; histories and recorded
  keys only ever grow. The mutations are shown to satisfy the contract \<open>idempotent_handler\<close>
  together, however they are interleaved.
\<close>

section \<open>Shapes of the effects\<close>

definition with_events :: "repository \<Rightarrow> repository \<Rightarrow> bool" where
  \<comment> \<open>the states agree but for the outbox\<close>
  "with_events s s' \<longleftrightarrow> s' = s\<lparr>rp_outbox_events := rp_outbox_events s'\<rparr>"

lemma with_events_refl [simp]: "with_events s s"
  by (simp add: with_events_def)

lemma with_events_put [simp]: "with_events s (s\<lparr>rp_outbox_events := e\<rparr>)"
  by (simp add: with_events_def)

lemma with_events_parts:
  assumes "with_events s s'"
  shows "rp_candidate_records s' = rp_candidate_records s"
    and "rp_idempotency_records s' = rp_idempotency_records s"
    and "rp_idempotency_candidates s' = rp_idempotency_candidates s"
    and "rp_conversion_intent_candidates s' = rp_conversion_intent_candidates s"
    and "rp_report_evidence_pack_candidates s' = rp_report_evidence_pack_candidates s"
  using assms unfolding with_events_def by (metis repository.ext_inject repository.surjective repository.update_convs)+

lemma append_outbox_event_state: "with_events s (snd (append_outbox_event ty i t p k l s))"
  by (cases "build_candidate_outbox_event ty i t p (Some k) l") (simp_all add: append_outbox_event_def)

lemma append_then_return: "snd (act_bind (append_outbox_event ty i t p k l) (\<lambda>_. act_return a) s) =
    snd (append_outbox_event ty i t p k l s)"
  by (cases "build_candidate_outbox_event ty i t p (Some k) l") (simp_all add: append_outbox_event_def act_bind_def)

lemma append_then_pair: "snd (act_bind (append_outbox_event ty i t p k l) (\<lambda>_. Pair (Inr a)) s) =
    snd (append_outbox_event ty i t p k l s)"
  by (cases "build_candidate_outbox_event ty i t p (Some k) l") (simp_all add: append_outbox_event_def act_bind_def)

lemma act_bind_result:
  "m s = (Inr a, s') \<Longrightarrow> act_bind m f s = f a s'"
  "m s = (Inl e, s') \<Longrightarrow> act_bind m f s = (Inl e, s')"
  by (simp_all add: act_bind_def)

lemma act_bind_assoc: "act_bind (act_bind m f) g s = act_bind m (\<lambda>x. act_bind (f x) g) s"
  by (cases "m s"; cases "fst (m s)") (simp_all add: act_bind_def)

lemma act_bind_return: "act_bind (act_return a) f = f a" "act_bind (act_lift (Inr a)) f = f a"
  by (rule ext, simp)+

text \<open>A mutation either leaves the state alone, or files a key only (a known identity is
  recognised under a new key), or files a key together with the changed record.\<close>

definition commit :: "string \<Rightarrow> idempotency_record \<Rightarrow> string \<Rightarrow> persistence_record \<Rightarrow> repository \<Rightarrow> repository" where
  "commit k ir candidate_id u s = put_idempotency k ir candidate_id (put_record candidate_id u s)"

lemma commit_parts [simp]:
  "rp_candidate_records (commit k ir c u s) = d_put c u (rp_candidate_records s)"
  "rp_idempotency_records (commit k ir c u s) = d_put k ir (rp_idempotency_records s)"
  "rp_idempotency_candidates (commit k ir c u s) = d_put k c (rp_idempotency_candidates s)"
  "rp_conversion_intent_candidates (commit k ir c u s) = rp_conversion_intent_candidates s"
  "rp_report_evidence_pack_candidates (commit k ir c u s) = rp_report_evidence_pack_candidates s"
  by (simp_all add: commit_def put_idempotency_def put_record_def)

lemma put_idempotency_parts [simp]:
  "rp_candidate_records (put_idempotency k ir c s) = rp_candidate_records s"
  "rp_idempotency_records (put_idempotency k ir c s) = d_put k ir (rp_idempotency_records s)"
  "rp_idempotency_candidates (put_idempotency k ir c s) = d_put k c (rp_idempotency_candidates s)"
  "rp_conversion_intent_candidates (put_idempotency k ir c s) = rp_conversion_intent_candidates s"
  "rp_report_evidence_pack_candidates (put_idempotency k ir c s) = rp_report_evidence_pack_candidates s"
  by (simp_all add: put_idempotency_def)

lemma idempotent_mutation_state:
  assumes "tenant_scoped_idempotency_identity t key = Inr k"
  shows "snd (idempotent_mutation t key p rest s) =
    (if d_get (rp_idempotency_records s) k = None
     then snd (rest k \<lparr>ir_key = key, ir_payload_hash = payload_fingerprint p\<rparr> s) else s)"
  using assms
  by (cases "d_get (rp_idempotency_records s) k")
    (simp_all add: idempotent_mutation_def evaluate_idempotency_def Let_def)

lemma idempotent_mutation_fails:
  "tenant_scoped_idempotency_identity t key = Inl e \<Longrightarrow> idempotent_mutation t key p rest s = (Inl e, s)"
  by (simp add: idempotent_mutation_def)

lemma idempotent_mutation_known:
  assumes "tenant_scoped_idempotency_identity t key = Inr k" "d_get (rp_idempotency_records s) k = Some e"
  shows "idempotent_mutation t key p rest s =
    (Inr (answer (if e = \<lparr>ir_key = key, ir_payload_hash = payload_fingerprint p\<rparr> then P_Replayed else P_Conflict)
       (case d_get (rp_idempotency_candidates s) k of None \<Rightarrow> None | Some c \<Rightarrow> d_get (rp_candidate_records s) c)), s)"
  using assms
  by (cases e) (auto simp: idempotent_mutation_def evaluate_idempotency_def Let_def record_for_idempotency_key_def)

text \<open>The key under which a keyed mutation files its answer.\<close>

definition mutation_key ::
    "(repository \<Rightarrow> (string \<times> persistence_record) option) \<Rightarrow> (persistence_record \<Rightarrow> string res) \<Rightarrow> string \<Rightarrow>
     repository \<Rightarrow> string option" where
  "mutation_key locate tenant_of key s =
    (case locate s of
       None \<Rightarrow> None
     | Some (c, r) \<Rightarrow> (case bind_res (tenant_of r) (\<lambda>t. tenant_scoped_idempotency_identity t key) of
         Inl _ \<Rightarrow> None | Inr k \<Rightarrow> Some k))"

lemma keyed_mutation_state:
  "snd (keyed_mutation gs locate tenant_of key p rest s) = s \<or>
   (\<exists>c r t k. passes gs \<and> locate s = Some (c, r) \<and> tenant_of r = Inr t \<and>
      tenant_scoped_idempotency_identity t key = Inr k \<and> mutation_key locate tenant_of key s = Some k \<and>
      d_get (rp_idempotency_records s) k = None \<and>
      snd (keyed_mutation gs locate tenant_of key p rest s) =
        snd (rest c r t k \<lparr>ir_key = key, ir_payload_hash = payload_fingerprint p\<rparr> s))"
proof (cases "passes gs \<and> locate s \<noteq> None")
  case False
  then show ?thesis by (cases "locate s") (auto simp: keyed_mutation_def act_guard_state)
next
  case True
  then obtain c r where l: "locate s = Some (c, r)" by auto
  show ?thesis
  proof (cases "tenant_of r")
    case Inl
    then show ?thesis using True l by (simp add: keyed_mutation_def)
  next
    case t: (Inr t)
    show ?thesis
    proof (cases "tenant_scoped_idempotency_identity t key")
      case Inl
      then show ?thesis using True l t by (simp add: keyed_mutation_def idempotent_mutation_fails)
    next
      case (Inr k)
      then show ?thesis
        using True l t idempotent_mutation_state[OF Inr, of p "rest c r t" s]
        by (auto simp: keyed_mutation_def mutation_key_def)
    qed
  qed
qed

lemma keyed_mutation_known:
  assumes "passes gs" "mutation_key locate tenant_of key s = Some k" "d_get (rp_idempotency_records s) k = Some e"
  shows "\<exists>r. keyed_mutation gs locate tenant_of key p rest s =
    (Inr (answer (if e = \<lparr>ir_key = key, ir_payload_hash = payload_fingerprint p\<rparr> then P_Replayed else P_Conflict) r), s)"
  using assms
  by (auto simp: keyed_mutation_def mutation_key_def bind_res_def idempotent_mutation_known split: option.splits sum.splits)

section \<open>What a stored record satisfies and how it grows\<close>

definition intent_ids :: "persistence_record \<Rightarrow> string set" where
  "intent_ids r = (\<lambda>i. in_conversion_intent_id (gi_intent i)) ` set (pn_conversion_intents r)"

definition conversion_ids :: "persistence_record \<Rightarrow> string set" where
  "conversion_ids r = intent_ids r \<union> go_conversion_intent_id ` set (pn_conversion_outcomes r)"

text \<open>An intent rests on a stored decision that granted its authority.\<close>

definition intent_backed :: "persistence_record \<Rightarrow> governed_intent \<Rightarrow> bool" where
  "intent_backed r i \<longleftrightarrow>
     (\<exists>d \<in> set (pn_review_decisions r). \<exists>g. gi_review_authority_grant i = Some g \<and> authority_grant_of d = Inr (Some g))"

text \<open>The version history advances, and its last entry is about the stored candidate.\<close>

definition version_entry_less :: "version_entry \<Rightarrow> version_entry \<Rightarrow> bool" where
  "version_entry_less v w \<longleftrightarrow> vh_material_version v < vh_material_version w \<or>
     vh_material_version v = vh_material_version w \<and> vh_evidence_version v < vh_evidence_version w"

definition entry_of_version :: "version_entry \<Rightarrow> candidate_identity \<Rightarrow> string \<Rightarrow> bool" where
  "entry_of_version v i h \<longleftrightarrow> vh_material_version v = id_material_version i \<and>
     vh_evidence_version v = id_evidence_version i \<and> vh_evidence_hash v = h"

definition versions_current :: "persistence_record \<Rightarrow> bool" where
  "versions_current r \<longleftrightarrow> pn_version_history r \<noteq> [] \<and> successively version_entry_less (pn_version_history r) \<and>
     entry_of_version (last (pn_version_history r)) (cd_identity (pn_candidate r)) (pn_evidence_hash r)"

lemma versions_extended:
  assumes "versions_current r" "version_less (pn_candidate r) c" "entry_of_version v (cd_identity c) h"
    and "pn_version_history u = pn_version_history r @ [v]" "pn_candidate u = c" "pn_evidence_hash u = h"
  shows "versions_current u"
  using assms
  by (auto simp: versions_current_def successively_append_iff entry_of_version_def version_entry_less_def version_less_def)

definition record_ok :: "string \<Rightarrow> persistence_record \<Rightarrow> bool" where
  "record_ok candidate_id r \<longleftrightarrow>
     cd_candidate_id (pn_candidate r) = candidate_id \<and> well_formed_candidate (pn_candidate r) \<and>
     (\<exists>a. cd_access_scope (pn_candidate r) = Some a \<and> scope_is_authoritative a) \<and>
     passes (persistence_record_guards r) \<and>
     (\<forall>d \<in> set (pn_review_decisions r). gd_candidate_id d = candidate_id \<and> is_ok (authority_grant_of d)) \<and>
     (\<forall>f \<in> set (pn_feedback_events r). gf_candidate_id f = candidate_id) \<and>
     (\<forall>i. outcome_stream (outcome_identities_for_intent r i)) \<and>
     (\<forall>i \<in> set (pn_conversion_intents r). intent_backed r i) \<and> versions_current r"

lemma record_guards_cong:
  "pn_evidence_hash u = pn_evidence_hash r \<Longrightarrow> pn_persisted_at_utc u = pn_persisted_at_utc r \<Longrightarrow>
   passes (persistence_record_guards u) = passes (persistence_record_guards r)"
  by (simp add: persistence_record_guards_def)

lemma intent_backed_mono:
  "intent_backed r i \<Longrightarrow> set (pn_review_decisions r) \<subseteq> set (pn_review_decisions u) \<Longrightarrow> intent_backed u i"
  unfolding intent_backed_def by blast

text \<open>What a change of the other fields has to keep.\<close>

lemma record_ok_update:
  assumes "record_ok c r" "well_formed_candidate (pn_candidate u)"
    and "cd_candidate_id (pn_candidate u) = cd_candidate_id (pn_candidate r)"
    and "cd_access_scope (pn_candidate u) = cd_access_scope (pn_candidate r)"
    and "cd_identity (pn_candidate u) = cd_identity (pn_candidate r)"
    and "pn_evidence_hash u = pn_evidence_hash r" "pn_persisted_at_utc u = pn_persisted_at_utc r"
    and "pn_version_history u = pn_version_history r"
    and "set (pn_review_decisions r) \<subseteq> set (pn_review_decisions u)"
    and "\<forall>d \<in> set (pn_review_decisions u) - set (pn_review_decisions r).
      gd_candidate_id d = c \<and> is_ok (authority_grant_of d)"
    and "\<forall>f \<in> set (pn_feedback_events u) - set (pn_feedback_events r). gf_candidate_id f = c"
    and "\<forall>i. outcome_stream (outcome_identities_for_intent u i)"
    and "\<forall>i \<in> set (pn_conversion_intents u) - set (pn_conversion_intents r). intent_backed u i"
  shows "record_ok c u"
proof -
  have "intent_backed u i" if "i \<in> set (pn_conversion_intents u)" for i
    using that assms(1,9,13) intent_backed_mono[of r i u]
    by (cases "i \<in> set (pn_conversion_intents r)") (simp_all add: record_ok_def)
  moreover have "gd_candidate_id d = c \<and> is_ok (authority_grant_of d)" if "d \<in> set (pn_review_decisions u)" for d
    using that assms(1,10) by (cases "d \<in> set (pn_review_decisions r)") (simp_all add: record_ok_def)
  moreover have "gf_candidate_id f = c" if "f \<in> set (pn_feedback_events u)" for f
    using that assms(1,11) by (cases "f \<in> set (pn_feedback_events r)") (simp_all add: record_ok_def)
  ultimately show ?thesis
    using assms(1-8,12) record_guards_cong[of u r] by (simp add: record_ok_def versions_current_def)
qed

lemma holds_grant_True: "holds_grant ds g = Inr True \<Longrightarrow> \<exists>d \<in> set ds. authority_grant_of d = Inr (Some g)"
  by (induction ds) (auto simp: bind_res_Inr split: if_splits)

lemma approved_authority_backed:
  assumes "approved_authority_held r i = Inr True"
  shows "intent_backed r i"
proof -
  from assms obtain g where "gi_review_authority_grant i = Some g" "holds_grant (pn_review_decisions r) g = Inr True"
    by (auto simp: approved_authority_held_def split: option.splits)
  then show ?thesis using holds_grant_True unfolding intent_backed_def by blast
qed

definition record_grows :: "persistence_record \<Rightarrow> persistence_record \<Rightarrow> bool" where
  "record_grows r u \<longleftrightarrow>
     cd_candidate_id (pn_candidate u) = cd_candidate_id (pn_candidate r) \<and>
     cd_access_scope (pn_candidate u) = cd_access_scope (pn_candidate r) \<and>
     prefix (pn_version_history r) (pn_version_history u) \<and>
     prefix (pn_lifecycle_history r) (pn_lifecycle_history u) \<and>
     prefix (pn_audit_events r) (pn_audit_events u) \<and>
     prefix (pn_review_decisions r) (pn_review_decisions u) \<and>
     prefix (pn_feedback_events r) (pn_feedback_events u) \<and>
     prefix (pn_conversion_intents r) (pn_conversion_intents u) \<and>
     prefix (pn_conversion_outcomes r) (pn_conversion_outcomes u) \<and>
     prefix (pn_report_evidence_packs r) (pn_report_evidence_packs u)"

lemma record_grows_refl [simp]: "record_grows r r"
  by (simp add: record_grows_def)

lemma record_grows_trans: "record_grows r u \<Longrightarrow> record_grows u v \<Longrightarrow> record_grows r v"
  by (simp add: record_grows_def) (blast intro: prefix_order.trans)

definition d_grows :: "('k, 'v) dict \<Rightarrow> ('k, 'v) dict \<Rightarrow> bool" where
  "d_grows d e \<longleftrightarrow> (\<forall>k v. d_get d k = Some v \<longrightarrow> d_get e k = Some v)"

lemma d_grows_refl [simp]: "d_grows d d"
  by (simp add: d_grows_def)

lemma d_grows_put: "d_get d k \<in> {None, Some v} \<Longrightarrow> d_grows d (d_put k v d)"
  by (auto simp: d_grows_def)

definition repository_ok :: "repository \<Rightarrow> bool" where
  "repository_ok s \<longleftrightarrow>
     (\<forall>c r. d_get (rp_candidate_records s) c = Some r \<longrightarrow> record_ok c r \<and>
        (\<forall>i \<in> conversion_ids r. d_get (rp_conversion_intent_candidates s) i = Some c)) \<and>
     (\<forall>k c. d_get (rp_idempotency_candidates s) k = Some c \<longrightarrow>
        (\<exists>r ir a. d_get (rp_candidate_records s) c = Some r \<and> d_get (rp_idempotency_records s) k = Some ir \<and>
           cd_access_scope (pn_candidate r) = Some a \<and>
           tenant_scoped_idempotency_identity (as_tenant_id a) (ir_key ir) = Inr k)) \<and>
     distinct (d_keys (rp_candidate_records s)) \<and>
     (\<forall>i c. d_get (rp_conversion_intent_candidates s) i = Some c \<longrightarrow>
        (\<exists>r. d_get (rp_candidate_records s) c = Some r \<and> i \<in> intent_ids r))"

lemma intent_ids_grow: "record_grows r u \<Longrightarrow> intent_ids r \<subseteq> intent_ids u"
  by (auto simp: record_grows_def intent_ids_def dest!: set_mono_prefix)

definition repository_grows :: "repository \<Rightarrow> repository \<Rightarrow> bool" where
  "repository_grows s s' \<longleftrightarrow>
     (\<forall>c r. d_get (rp_candidate_records s) c = Some r \<longrightarrow>
        (\<exists>u. d_get (rp_candidate_records s') c = Some u \<and> record_grows r u)) \<and>
     d_grows (rp_idempotency_records s) (rp_idempotency_records s') \<and>
     d_grows (rp_idempotency_candidates s) (rp_idempotency_candidates s') \<and>
     d_grows (rp_conversion_intent_candidates s) (rp_conversion_intent_candidates s')"

lemma repository_grows_refl [simp]: "repository_grows s s"
  by (auto simp: repository_grows_def)

lemma repository_grows_trans:
  assumes "repository_grows s t" "repository_grows t u"
  shows "repository_grows s u"
  using assms unfolding repository_grows_def d_grows_def by (meson record_grows_trans)

lemma empty_repository_ok: "repository_ok empty_repository"
  by (simp add: repository_ok_def empty_repository_def)

text \<open>The part of the state the invariant speaks about.\<close>

lemma repository_ok_cong:
  assumes "rp_candidate_records s' = rp_candidate_records s"
    and "rp_idempotency_records s' = rp_idempotency_records s"
    and "rp_idempotency_candidates s' = rp_idempotency_candidates s"
    and "rp_conversion_intent_candidates s' = rp_conversion_intent_candidates s"
  shows "repository_ok s' = repository_ok s" "repository_grows s s'"
  using assms by (simp_all add: repository_ok_def repository_grows_def)

lemma ok_record: "repository_ok s \<Longrightarrow> d_get (rp_candidate_records s) c = Some r \<Longrightarrow> record_ok c r"
  by (simp add: repository_ok_def)

section \<open>Mutations of one record\<close>

definition mutation_effect ::
    "string \<Rightarrow> idempotency_record \<Rightarrow> string \<Rightarrow> persistence_record \<Rightarrow> repository \<Rightarrow> repository \<Rightarrow> bool" where
  "mutation_effect k ir c r s s' \<longleftrightarrow> s' = s \<or> s' = put_idempotency k ir c s \<or>
     (\<exists>u ic pc. with_events ((commit k ir c u s)\<lparr>rp_conversion_intent_candidates := ic,
          rp_report_evidence_pack_candidates := pc\<rparr>) s' \<and>
        record_ok c u \<and> record_grows r u \<and> d_grows (rp_conversion_intent_candidates s) ic \<and>
        (\<forall>i \<in> conversion_ids u. d_get ic i = Some c) \<and>
        (\<forall>i d. d_get ic i = Some d \<longrightarrow> d_get (rp_conversion_intent_candidates s) i = Some d \<or> d = c \<and> i \<in> intent_ids u))"

lemma mutation_effect_ok:
  assumes "mutation_effect k ir c r s s'" "repository_ok s" "d_get (rp_candidate_records s) c = Some r"
    and "cd_access_scope (pn_candidate r) = Some a"
    and "tenant_scoped_idempotency_identity (as_tenant_id a) (ir_key ir) = Inr k"
    and "d_get (rp_idempotency_records s) k = None"
  shows "repository_ok s' \<and> repository_grows s s'"
proof -
  have new: "d_get (rp_idempotency_candidates s) k = None"
  proof (rule ccontr)
    assume "d_get (rp_idempotency_candidates s) k \<noteq> None"
    then obtain d where "d_get (rp_idempotency_candidates s) k = Some d" by blast
    with assms(2,6) show False by (fastforce simp: repository_ok_def)
  qed
  consider "s' = s" | "s' = put_idempotency k ir c s" | u ic pc where
      "with_events ((commit k ir c u s)\<lparr>rp_conversion_intent_candidates := ic,
          rp_report_evidence_pack_candidates := pc\<rparr>) s'"
      "record_ok c u" "record_grows r u" "d_grows (rp_conversion_intent_candidates s) ic"
      "\<forall>i \<in> conversion_ids u. d_get ic i = Some c"
      "\<And>i d. d_get ic i = Some d \<Longrightarrow> d_get (rp_conversion_intent_candidates s) i = Some d \<or> d = c \<and> i \<in> intent_ids u"
    using assms(1) unfolding mutation_effect_def by blast
  then show ?thesis
  proof cases
    case 2
    then show ?thesis
      using assms(2-6) new by (auto simp: repository_ok_def repository_grows_def d_grows_put)
  next
    case 3
    note p = with_events_parts[OF 3(1), simplified]
    have scope: "cd_access_scope (pn_candidate u) = Some a" using 3(3) assms(4) by (simp add: record_grows_def)
    have recs: "record_ok d q \<and> (\<forall>i \<in> conversion_ids q. d_get ic i = Some d)"
      if "d_get (rp_candidate_records s') d = Some q" for d q
    proof (cases "d = c")
      case True
      then show ?thesis using that 3 by (simp add: p)
    next
      case False
      then have "d_get (rp_candidate_records s) d = Some q" using that by (simp add: p)
      with assms(2) 3(4) show ?thesis by (auto simp: repository_ok_def d_grows_def)
    qed
    have keys: "\<exists>q j b. d_get (rp_candidate_records s') d = Some q \<and> d_get (rp_idempotency_records s') l = Some j \<and>
        cd_access_scope (pn_candidate q) = Some b \<and> tenant_scoped_idempotency_identity (as_tenant_id b) (ir_key j) = Inr l"
      if "d_get (rp_idempotency_candidates s') l = Some d" for l d
    proof (cases "l = k")
      case True
      then show ?thesis using that scope assms(5) by (simp add: p)
    next
      case False
      then have "d_get (rp_idempotency_candidates s) l = Some d" using that by (simp add: p)
      with assms(2) obtain q j b where q: "d_get (rp_candidate_records s) d = Some q"
          "d_get (rp_idempotency_records s) l = Some j" "cd_access_scope (pn_candidate q) = Some b"
          "tenant_scoped_idempotency_identity (as_tenant_id b) (ir_key j) = Inr l"
        unfolding repository_ok_def by blast
      then show ?thesis
        using False assms(3,4) scope by (cases "d = c") (simp_all add: p)
    qed
    have ids: "\<exists>q. d_get (rp_candidate_records s') d = Some q \<and> i \<in> intent_ids q" if "d_get ic i = Some d" for i d
    proof (cases "d = c")
      case True
      have "i \<in> intent_ids u"
      proof (cases "d_get (rp_conversion_intent_candidates s) i = Some d")
        case True
        with assms(2) obtain q where "d_get (rp_candidate_records s) d = Some q" "i \<in> intent_ids q"
          unfolding repository_ok_def by blast
        then show ?thesis using assms(3) \<open>d = c\<close> intent_ids_grow[OF 3(3)] by auto
      qed (use 3(6)[OF that] in blast)
      with True show ?thesis by (simp add: p)
    next
      case False
      then show ?thesis using 3(6)[OF that] assms(2) by (auto simp: p repository_ok_def)
    qed
    have "repository_ok s'"
      unfolding repository_ok_def p(4)
      using recs keys ids assms(2) by (simp add: p repository_ok_def distinct_update)
    moreover have "repository_grows s s'"
      using 3 assms(3,6) new by (auto simp: repository_grows_def p intro: d_grows_put)
    ultimately show ?thesis ..
  qed (simp add: assms(2))
qed

section \<open>Results of the domain operations\<close>

lemma same_candidate_fields:
  assumes "same_candidate a b"
  shows "cd_candidate_id a = cd_candidate_id b" and "cd_access_scope a = cd_access_scope b"
    and "cd_lifecycle_status a = cd_lifecycle_status b" and "cd_identity a = cd_identity b"
proof -
  have e: "a\<lparr>cd_created_at_utc := utc 0, cd_updated_at_utc := utc 0, cd_evidence_packet := cd_evidence_packet b\<rparr> =
      b\<lparr>cd_created_at_utc := utc 0, cd_updated_at_utc := utc 0\<rparr>"
    using assms by (simp add: same_candidate_def)
  show "cd_candidate_id a = cd_candidate_id b" using arg_cong[OF e, of cd_candidate_id] by simp
  show "cd_access_scope a = cd_access_scope b" using arg_cong[OF e, of cd_access_scope] by simp
  show "cd_lifecycle_status a = cd_lifecycle_status b" using arg_cong[OF e, of cd_lifecycle_status] by simp
  show "cd_identity a = cd_identity b" using arg_cong[OF e, of cd_identity] by simp
qed

lemma same_candidate_refl [simp]: "same_candidate c c"
  by (simp add: same_candidate_def dt_eq_def)

lemma well_formed_cong:
  assumes "well_formed_candidate c" "valid_candidate d" "cd_identity d = cd_identity c"
    "cd_evidence_packet d = cd_evidence_packet c"
  shows "well_formed_candidate d"
  using assms by (simp add: well_formed_candidate_def)

text \<open>Which results the repository is given: those of the domain operations.\<close>

definition reviewed :: "review_result \<Rightarrow> bool" where
  "reviewed q \<longleftrightarrow> (\<exists>c w t receipt policy. well_formed_candidate c \<and> apply_review_action c w t receipt policy = Inr q)"

lemma reviewedD:
  assumes "reviewed q"
  shows "gd_candidate_id (ra_decision q) = cd_candidate_id (ra_source_candidate q)"
    and "cd_candidate_id (ra_candidate q) = cd_candidate_id (ra_source_candidate q)"
    and "cd_access_scope (ra_candidate q) = cd_access_scope (ra_source_candidate q)"
    and "well_formed_candidate (ra_candidate q)"
    and "cd_identity (ra_candidate q) = cd_identity (ra_source_candidate q)"
    and "authority_grant_of (ra_decision q) = Inr (ra_authority_grant q)"
proof -
  from assms obtain c w t receipt policy where
    a: "well_formed_candidate c" "apply_review_action c w t receipt policy = Inr q"
    unfolding reviewed_def by blast
  obtain d where d: "candidate_after_review c w t = Inr (ra_candidate q)"
      "ra_decision q = governed_decision_for c w t d policy" "ra_source_candidate q = c"
      "authority_grant_of (ra_decision q) = Inr (ra_authority_grant q)"
    by (rule apply_review_actionD[OF a(2)]) blast
  have r: "ra_candidate q = reviewed_candidate c w t" "valid_candidate (ra_candidate q)"
    using candidate_after_review_Inr[OF d(1)] by blast+
  show "gd_candidate_id (ra_decision q) = cd_candidate_id (ra_source_candidate q)"
    using d by (simp add: governed_decision_for_def Let_def)
  show "cd_candidate_id (ra_candidate q) = cd_candidate_id (ra_source_candidate q)"
    "cd_access_scope (ra_candidate q) = cd_access_scope (ra_source_candidate q)"
    "cd_identity (ra_candidate q) = cd_identity (ra_source_candidate q)"
    "authority_grant_of (ra_decision q) = Inr (ra_authority_grant q)"
    using r d by simp_all
  show "well_formed_candidate (ra_candidate q)"
    using well_formed_cong[OF a(1) r(2)] r(1) by simp
qed

definition converted :: "intent_result \<Rightarrow> bool" where
  "converted q \<longleftrightarrow> (\<exists>c w t g. well_formed_candidate c \<and> request_conversion_intent c w t g = Inr q)"

lemma convertedD:
  assumes "converted q"
  shows "in_candidate_id (gi_intent (ia_conversion_intent q)) = cd_candidate_id (ia_source_candidate q)"
    and "cd_candidate_id (ia_candidate q) = cd_candidate_id (ia_source_candidate q)"
    and "cd_access_scope (ia_candidate q) = cd_access_scope (ia_source_candidate q)"
    and "well_formed_candidate (ia_candidate q)"
    and "cd_identity (ia_candidate q) = cd_identity (ia_source_candidate q)"
proof -
  from assms obtain c w t g where
    a: "well_formed_candidate c" "request_conversion_intent c w t g = Inr q"
    unfolding converted_def by blast
  note d = request_conversion_intentD[OF a(2)]
  show "in_candidate_id (gi_intent (ia_conversion_intent q)) = cd_candidate_id (ia_source_candidate q)"
    "cd_candidate_id (ia_candidate q) = cd_candidate_id (ia_source_candidate q)"
    "cd_access_scope (ia_candidate q) = cd_access_scope (ia_source_candidate q)"
    "cd_identity (ia_candidate q) = cd_identity (ia_source_candidate q)"
    using d(1,3,11) by (simp_all add: governed_intent_for_def converted_candidate_def)
  show "well_formed_candidate (ia_candidate q)"
    by (rule well_formed_cong[OF a(1) d(2)]) (simp_all add: d(1))
qed

lemma refreshed_scope: "refreshed_candidate e i j t = Inr c \<Longrightarrow> cd_access_scope c = cd_access_scope i"
  by (cases "evidence_refresh_review_state e") (auto simp: refreshed_candidate_def mk_candidate_Inr)

lemma reconcile_scope:
  assumes "reconcile_candidate existing incoming eh ih t = Inr n" "rn_candidate n = Some c"
  shows "cd_access_scope c = cd_access_scope existing \<and> cd_candidate_id incoming = cd_candidate_id existing"
  using assms
  by (auto simp: reconcile_defs bind_res_Inr backfill_identity_policy_def new_material_version_def
      mk_candidate_Inr same_business_scope_def dest!: refreshed_scope split: if_splits)

section \<open>The effect of each mutation\<close>

lemma mk_persistence_record_Inr: "mk_persistence_record r = Inr u \<longleftrightarrow> passes (persistence_record_guards r) \<and> u = r"
  by (simp add: mk_persistence_record_def)

lemma mk_record_state:
  "snd (act_bind (act_lift (mk_persistence_record u)) f s) =
     (if passes (persistence_record_guards u) then snd (f u s) else s)"
  using checks_fails[of "persistence_record_guards u" u]
  by (auto simp: mk_persistence_record_def checks_passes)

lemma mutation_effect_refl [simp]: "mutation_effect k ir c r s s"
  by (simp add: mutation_effect_def)

lemma mutation_effect_commit:
  assumes "record_ok c u" "record_grows r u" "conversion_ids u \<subseteq> conversion_ids r" "repository_ok s"
    and "d_get (rp_candidate_records s) c = Some r"
  shows "mutation_effect k ir c r s (snd (append_outbox_event ty i t p key l (commit k ir c u s)))"
proof -
  have "\<forall>i \<in> conversion_ids u. d_get (rp_conversion_intent_candidates s) i = Some c"
    using assms(3-5) by (auto simp: repository_ok_def)
  then show ?thesis
    unfolding mutation_effect_def
    using assms(1,2) append_outbox_event_state[of "commit k ir c u s" ty i t p key l]
    by (intro disjI2 exI[of _ u] exI[of _ "rp_conversion_intent_candidates s"]
        exI[of _ "rp_report_evidence_pack_candidates s"] conjI) (simp_all add: commit_def put_idempotency_def put_record_def)
qed

lemma transition_record_cases:
  assumes "record_ok c r"
  shows "(\<exists>e. transition_record r target actor t attrs s = (Inl e, s)) \<or>
    (\<exists>u audit. transition_record r target actor t attrs s = (Inr (u, audit), put_record c u s) \<and>
       record_ok c u \<and> record_grows r u \<and> conversion_ids u = conversion_ids r \<and>
       transition_candidate t (pn_candidate r) target (Some t) = Inr (pn_candidate u))"
proof (cases "transition_candidate t (pn_candidate r) target (Some t)")
  case Inl
  then show ?thesis by (simp add: transition_record_def)
next
  case (Inr d)
  define h where "h = \<lparr>lh_candidate_id = cd_candidate_id (pn_candidate r),
              lh_source_status = cd_lifecycle_status (pn_candidate r), lh_target_status = target,
              lh_actor_subject = actor, lh_changed_at_utc = t\<rparr>"
  define aud where "aud = mk_audit_event ''idea.lifecycle.transitioned'' actor ''accepted'' t
         ((''source_status'', lifecycle_value (cd_lifecycle_status (pn_candidate r))) #
          (''target_status'', lifecycle_value target) # attrs)"
  note unfolded = transition_record_def Let_def h_def[symmetric] aud_def[symmetric]
  from transition_candidate_Inr[OF Inr] assms have d: "valid_candidate d" "cd_candidate_id d = c"
      "cd_access_scope d = cd_access_scope (pn_candidate r)" "cd_identity d = cd_identity (pn_candidate r)"
      "cd_evidence_packet d = cd_evidence_packet (pn_candidate r)"
    by (auto simp: record_ok_def)
  show ?thesis
  proof (cases "passes (lifecycle_entry_guards h) \<and> is_ok aud")
    case False
    then show ?thesis
      using act_guard_fail[of "lifecycle_entry_guards h"] Inr
      by (cases "passes (lifecycle_entry_guards h)"; cases aud) (auto simp: unfolded)
  next
    case True
    then obtain a where a: "aud = Inr a" by (auto simp: is_ok_iff)
    let ?u = "r\<lparr>pn_candidate := d, pn_lifecycle_history := pn_lifecycle_history r @ [h],
         pn_audit_events := pn_audit_events r @ [a]\<rparr>"
    have "well_formed_candidate d"
      using assms d well_formed_cong[of "pn_candidate r" d] by (simp add: record_ok_def)
    then have "record_ok c ?u"
      by (intro record_ok_update[OF assms]) (use assms d in \<open>auto simp: record_ok_def outcome_identities_for_intent_def\<close>)
    moreover have "record_grows r ?u" "conversion_ids ?u = conversion_ids r"
      using assms d by (auto simp: record_ok_def record_grows_def conversion_ids_def intent_ids_def)
    moreover have "cd_candidate_id (pn_candidate r) = c" using assms by (simp add: record_ok_def)
    ultimately show ?thesis
      using True a Inr by (cases "passes (persistence_record_guards ?u)")
        (auto simp: unfolded mk_persistence_record_def checks_passes dest: checks_fails[of _ ?u])
  qed
qed

lemma accept_lifecycle_transition_effect:
  assumes "repository_ok s" "d_get (rp_candidate_records s) c = Some r"
  shows "mutation_effect k ir c r s
    (snd (accept_lifecycle_transition target key actor t obs tid rcs lin c r tenant k ir s))"
proof -
  let ?attrs = "(''idempotency_decision'', ''accepted'') # (''observed_at_utc'', dt_iso obs) #
           (''reason_codes'', join '','' rcs) # (case tid of None \<Rightarrow> [] | Some i \<Rightarrow> [(''transition_id'', i)])"
  from transition_record_cases[OF ok_record[OF assms], of target actor t ?attrs s]
  consider e where "transition_record r target actor t ?attrs s = (Inl e, s)"
    | u audit where "transition_record r target actor t ?attrs s = (Inr (u, audit), put_record c u s)"
      "record_ok c u" "record_grows r u" "conversion_ids u = conversion_ids r"
    by blast
  then show ?thesis
  proof cases
    case 1
    then show ?thesis
      by (simp add: accept_lifecycle_transition_def
          act_bind_result(2)[where m = "transition_record r target actor t ?attrs", OF 1])
  next
    case 2
    show ?thesis
      using mutation_effect_commit[OF 2(2,3) _ assms] 2(4)
      by (simp add: accept_lifecycle_transition_def append_then_return commit_def
          act_bind_result(1)[where m = "transition_record r target actor t ?attrs", OF 2(1)])
  qed
qed

lemma find_review_mutation_Some:
  "find_review_mutation f xs m = Inr (Some e) \<Longrightarrow> \<exists>x \<in> set xs. f x = Inr e"
  by (induction xs) (auto simp: bind_res_Inr split: if_splits)

lemma review_identity_record_Some:
  "review_identity_record rs m = Inr (Some (e, r)) \<Longrightarrow> r \<in> set rs \<and>
     ((\<exists>d \<in> set (pn_review_decisions r). review_mutation_from_decision d = Inr e) \<or>
      (\<exists>f \<in> set (pn_feedback_events r). feedback_mutation_from_event f = Inr e))"
  by (induction rs) (auto simp: bind_res_Inr dest!: find_review_mutation_Some split: option.splits)

lemma mutation_candidate:
  "review_mutation_from_decision d = Inr m \<Longrightarrow> rm_candidate_id m = gd_candidate_id d"
  "feedback_mutation_from_event f = Inr m \<Longrightarrow> rm_candidate_id m = gf_candidate_id f"
  by (auto simp: review_mutation_from_decision_def feedback_mutation_from_event_def feedback_mutation_def Let_def)

lemma same_review_mutation_candidate: "same_review_mutation a b \<Longrightarrow> rm_candidate_id a = rm_candidate_id b"
  unfolding same_review_mutation_def by (metis (no_types, lifting) review_mutation.select_convs review_mutation.surjective review_mutation.update_convs)

lemma value_get:
  "distinct (d_keys d) \<Longrightarrow> v \<in> set (d_values d) \<Longrightarrow> \<exists>k. d_get d k = Some v"
  by (auto simp: map_of_eq_Some_iff)

text \<open>An identity that is already stored belongs to the same candidate.\<close>

lemma review_identity_result_effect:
  assumes "repository_ok s" "rm_candidate_id m = c" "tenant_scoped_idempotency_identity t key = Inr k"
  shows "\<exists>a. review_identity_result m key ir t s = (a, s) \<or>
    (\<exists>x r. review_identity_result m key ir t s = (Inr (Some x), put_idempotency k ir c s) \<and>
       d_get (rp_candidate_records s) c = Some r)"
proof (cases "review_identity_record (d_values (rp_candidate_records s)) m")
  case Inl
  then show ?thesis by (simp add: review_identity_result_def)
next
  case (Inr known)
  show ?thesis
  proof (cases known)
    case None
    with Inr show ?thesis by (simp add: review_identity_result_def)
  next
    case (Some p)
    obtain e r where p: "p = (e, r)" by (cases p)
    with Inr Some have i: "review_identity_record (d_values (rp_candidate_records s)) m = Inr (Some (e, r))" by simp
    note f = review_identity_record_Some[OF i]
    obtain d where d: "d_get (rp_candidate_records s) d = Some r"
      using value_get[of "rp_candidate_records s" r] f assms(1) by (auto simp: repository_ok_def)
    have "rm_candidate_id e = d \<and> cd_candidate_id (pn_candidate r) = d"
      using f ok_record[OF assms(1) d] mutation_candidate by (auto simp: record_ok_def)
    then show ?thesis
      using i d assms(2,3) same_review_mutation_candidate[of e m]
      by (auto simp: review_identity_result_def)
  qed
qed

lemma history_after_mutation_prefix:
  "history_after_mutation r c i a t = Inr h \<Longrightarrow> prefix (pn_lifecycle_history r) h"
  by (auto simp: history_after_mutation_def Let_def split: if_splits)

lemma accept_review_action_effect:
  assumes "repository_ok s" "d_get (rp_candidate_records s) c = Some r" "reviewed q"
    and "gd_candidate_id (ra_decision q) = c" "tenant_scoped_idempotency_identity t key = Inr k"
  shows "mutation_effect k ir c r s (snd (accept_review_action q key lin c r t k ir s))"
proof (cases "review_mutation_from_decision (ra_decision q)")
  case Inl
  then show ?thesis by (simp add: accept_review_action_def)
next
  case (Inr m)
  then have m: "rm_candidate_id m = c" using mutation_candidate assms(4) by simp
  note d = reviewedD[OF assms(3)]
  from review_identity_result_effect[OF assms(1) m assms(5), of ir]
  consider e where "review_identity_result m key ir t s = (Inl e, s)"
    | "review_identity_result m key ir t s = (Inr None, s)"
    | a where "review_identity_result m key ir t s = (Inr (Some a), s)"
    | a where "review_identity_result m key ir t s = (Inr (Some a), put_idempotency k ir c s)"
    by (metis old.sum.exhaust option.exhaust)
  then show ?thesis
  proof cases
    case 2
    note b = act_bind_result(1)[where m = "review_identity_result m key ir t", OF 2]
    show ?thesis
    proof (cases "same_candidate (pn_candidate r) (ra_source_candidate q)")
      case False
      then show ?thesis using Inr by (simp add: accept_review_action_def b act_guard_state)
    next
      case same: True
      note same' = same_candidate_fields[OF same]
      show ?thesis
      proof (cases "history_after_mutation r (ra_candidate q) c (gd_actor_subject (ra_decision q))
          (gd_accepted_at_utc (ra_decision q))")
        case Inl
        then show ?thesis using Inr same by (simp add: accept_review_action_def b)
      next
        case h: (Inr h)
        let ?u = "r\<lparr>pn_candidate := ra_candidate q, pn_lifecycle_history := h,
             pn_audit_events := pn_audit_events r @ [ra_audit_event q],
             pn_review_decisions := pn_review_decisions r @ [ra_decision q]\<rparr>"
        note ok = ok_record[OF assms(1,2)]
        have u: "record_ok c ?u"
          by (rule record_ok_update[OF ok])
            (use ok d assms(4) same' in \<open>auto simp: record_ok_def outcome_identities_for_intent_def is_ok_iff\<close>)
        have g: "record_grows r ?u" "conversion_ids ?u \<subseteq> conversion_ids r"
          using ok d assms(4) same' history_after_mutation_prefix[OF h]
          by (auto simp: record_grows_def conversion_ids_def intent_ids_def)
        show ?thesis
          using Inr same h mutation_effect_commit[OF u g assms(1,2)]
          by (simp add: accept_review_action_def b append_then_return commit_def mk_record_state)
      qed
    qed
  qed (use Inr in \<open>simp_all add: accept_review_action_def act_bind_result[where m = "review_identity_result m key ir t"]
        mutation_effect_def\<close>)
qed

lemma accept_feedback_event_effect:
  assumes "repository_ok s" "d_get (rp_candidate_records s) c = Some r"
    and "gf_candidate_id (fr_feedback_event q) = c" "tenant_scoped_idempotency_identity t key = Inr k"
  shows "mutation_effect k ir c r s (snd (accept_feedback_event q key lin c r t k ir s))"
proof (cases "feedback_mutation_from_event (fr_feedback_event q)")
  case Inl
  then show ?thesis by (simp add: accept_feedback_event_def Let_def)
next
  case (Inr m)
  then have m: "rm_candidate_id m = c" using mutation_candidate assms(3) by simp
  from review_identity_result_effect[OF assms(1) m assms(4), of ir]
  consider e where "review_identity_result m key ir t s = (Inl e, s)"
    | "review_identity_result m key ir t s = (Inr None, s)"
    | a where "review_identity_result m key ir t s = (Inr (Some a), s)"
    | a where "review_identity_result m key ir t s = (Inr (Some a), put_idempotency k ir c s)"
    by (metis old.sum.exhaust option.exhaust)
  then show ?thesis
  proof cases
    case 2
    note b = act_bind_result(1)[where m = "review_identity_result m key ir t", OF 2]
    let ?u = "r\<lparr>pn_audit_events := pn_audit_events r @ [fr_audit_event q],
             pn_feedback_events := pn_feedback_events r @ [fr_feedback_event q]\<rparr>"
    note ok = ok_record[OF assms(1,2)]
    have u: "record_ok c ?u"
      by (rule record_ok_update[OF ok])
        (use ok assms(3) in \<open>auto simp: record_ok_def outcome_identities_for_intent_def\<close>)
    have g: "record_grows r ?u" "conversion_ids ?u \<subseteq> conversion_ids r"
      by (simp_all add: record_grows_def conversion_ids_def intent_ids_def)
    show ?thesis
      using Inr mutation_effect_commit[OF u g assms(1,2)]
      by (simp add: accept_feedback_event_def Let_def b append_then_return commit_def mk_record_state)
  qed (use Inr in \<open>simp_all add: accept_feedback_event_def Let_def
        act_bind_result[where m = "review_identity_result m key ir t"] mutation_effect_def\<close>)
qed

lemma accept_conversion_intent_effect:
  assumes "repository_ok s" "d_get (rp_candidate_records s) c = Some r" "converted q"
    and "in_candidate_id (gi_intent (ia_conversion_intent q)) = c"
    and "d_get (rp_conversion_intent_candidates s) (in_conversion_intent_id (gi_intent (ia_conversion_intent q)))
      \<in> {None, Some c}"
  shows "mutation_effect k ir c r s (snd (accept_conversion_intent q key lin c r t k ir s))"
proof -
  let ?i = "ia_conversion_intent q"
  let ?ic = "d_put (in_conversion_intent_id (gi_intent ?i)) c (rp_conversion_intent_candidates s)"
  note d = convertedD[OF assms(3)]
  show ?thesis
  proof (cases "same_candidate (pn_candidate r) (ia_source_candidate q) \<and> approved_authority_held r ?i = Inr True")
    case False
    then show ?thesis
      by (cases "approved_authority_held r ?i")
        (auto simp: accept_conversion_intent_def Let_def act_guard_state)
  next
    case True
    note same = same_candidate_fields[OF conjunct1[OF True]]
    show ?thesis
    proof (cases "history_after_mutation r (ia_candidate q) c (gi_actor_subject ?i) (gi_accepted_at_utc ?i)")
      case Inl
      then show ?thesis using True by (simp add: accept_conversion_intent_def Let_def)
    next
      case h: (Inr h)
      let ?u = "r\<lparr>pn_candidate := ia_candidate q, pn_lifecycle_history := h,
             pn_audit_events := pn_audit_events r @ [ia_audit_event q],
             pn_conversion_intents := pn_conversion_intents r @ [?i]\<rparr>"
      let ?s = "(commit k ir c ?u s)\<lparr>rp_conversion_intent_candidates := ?ic\<rparr>"
      note ok = ok_record[OF assms(1,2)]
      have backed: "intent_backed ?u ?i"
        using intent_backed_mono[OF approved_authority_backed[OF conjunct2[OF True]], of ?u] by simp
      have u: "record_ok c ?u"
        by (rule record_ok_update[OF ok])
          (use ok d assms(4) same backed in \<open>auto simp: record_ok_def outcome_identities_for_intent_def\<close>)
      have g: "record_grows r ?u"
        using ok d assms(4) same history_after_mutation_prefix[OF h] by (simp add: record_grows_def)
      have ids: "\<forall>i \<in> conversion_ids ?u. d_get ?ic i = Some c"
        "\<forall>i d. d_get ?ic i = Some d \<longrightarrow> d_get (rp_conversion_intent_candidates s) i = Some d \<or> d = c \<and> i \<in> intent_ids ?u"
        using assms(1,2) by (auto simp: repository_ok_def conversion_ids_def intent_ids_def)
      have grow: "d_grows (rp_conversion_intent_candidates s) ?ic" using assms(5) by (rule d_grows_put)
      have "mutation_effect k ir c r s (snd (append_outbox_event ty a tm p key' l ?s))" for ty a tm p key' l
        unfolding mutation_effect_def
        using u g ids grow append_outbox_event_state[of ?s ty a tm p key' l]
        by (intro disjI2 exI[of _ ?u] exI[of _ ?ic] exI[of _ "rp_report_evidence_pack_candidates s"] conjI)
          (simp_all add: commit_def put_idempotency_def put_record_def)
      then show ?thesis
        using True h
        by (simp add: accept_conversion_intent_def Let_def append_then_return commit_def mk_record_state)
    qed
  qed
qed

lemma accept_report_evidence_pack_effect:
  assumes "repository_ok s" "d_get (rp_candidate_records s) c = Some r"
  shows "mutation_effect k ir c r s (snd (accept_report_evidence_pack q key lin c r t k ir s))"
proof -
  let ?u = "r\<lparr>pn_audit_events := pn_audit_events r @ [kr_audit_event q],
                pn_report_evidence_packs := pn_report_evidence_packs r @ [kr_evidence_pack q]\<rparr>"
  let ?pc = "d_put (pk_report_evidence_pack_id (kr_evidence_pack q)) c (rp_report_evidence_pack_candidates s)"
  let ?s = "(commit k ir c ?u s)\<lparr>rp_report_evidence_pack_candidates := ?pc\<rparr>"
  note ok = ok_record[OF assms]
  have u: "record_ok c ?u"
    by (rule record_ok_update[OF ok]) (use ok in \<open>auto simp: record_ok_def outcome_identities_for_intent_def\<close>)
  have g: "record_grows r ?u" "\<forall>i \<in> conversion_ids ?u. d_get (rp_conversion_intent_candidates s) i = Some c"
    using assms by (simp_all add: record_grows_def repository_ok_def conversion_ids_def intent_ids_def)
  have "mutation_effect k ir c r s (snd (append_outbox_event ty a tm p key' l ?s))" for ty a tm p key' l
    unfolding mutation_effect_def
    using u g append_outbox_event_state[of ?s ty a tm p key' l]
    by (intro disjI2 exI[of _ ?u] exI[of _ "rp_conversion_intent_candidates s"] exI[of _ ?pc] conjI)
      (simp_all add: commit_def put_idempotency_def put_record_def)
  then show ?thesis
    by (simp add: accept_report_evidence_pack_def Let_def append_then_return commit_def mk_record_state)
qed

lemma find_outcome_Some:
  "find_outcome rs x = Some (e, r) \<Longrightarrow>
     r \<in> set rs \<and> (\<exists>g \<in> set (pn_conversion_outcomes r). outcome_identity_of g = e)"
proof (induction rs)
  case (Cons q rs)
  then show ?case by (auto split: option.splits dest: find_Some_iff')
qed simp

text \<open>A known outcome belongs to the candidate of its intent.\<close>

lemma outcome_identity_result_effect:
  assumes "repository_ok s" "d_get (rp_conversion_intent_candidates s) (ox_conversion_intent_id x) = Some c"
    and "tenant_scoped_idempotency_identity t key = Inr k"
  shows "\<exists>a. conversion_outcome_identity_result x key ir t s = (a, s) \<or>
    (\<exists>y r. conversion_outcome_identity_result x key ir t s = (Inr (Some y), put_idempotency k ir c s) \<and>
       d_get (rp_candidate_records s) c = Some r)"
proof (cases "find_outcome (d_values (rp_candidate_records s)) (ox_conversion_outcome_id x)")
  case None
  then show ?thesis by (simp add: conversion_outcome_identity_result_def)
next
  case (Some p)
  obtain e r where p: "p = (e, r)" by (cases p)
  with Some obtain g where g: "r \<in> set (d_values (rp_candidate_records s))"
      "g \<in> set (pn_conversion_outcomes r)" "outcome_identity_of g = e"
    using find_outcome_Some by blast
  obtain d where d: "d_get (rp_candidate_records s) d = Some r"
    using value_get[of "rp_candidate_records s" r] g(1) assms(1) by (auto simp: repository_ok_def)
  have m: "d_get (rp_conversion_intent_candidates s) (go_conversion_intent_id g) = Some d"
    using assms(1) d g(2) unfolding repository_ok_def conversion_ids_def by blast
  have i: "go_conversion_intent_id g = ox_conversion_intent_id e" using g(3) by (auto simp: outcome_identity_of_def)
  have "same_outcome_identity e x \<Longrightarrow> d = c"
    using m i assms(2)
    by (simp add: same_outcome_identity_def)
      (metis (no_types, lifting) option.inject outcome_identity.select_convs outcome_identity.surjective outcome_identity.update_convs)
  moreover have "cd_candidate_id (pn_candidate r) = d" using ok_record[OF assms(1) d] by (simp add: record_ok_def)
  ultimately show ?thesis
    using Some p d assms(3) by (auto simp: conversion_outcome_identity_result_def)
qed

lemma outcomes_extended:
  "outcome_identities_for_intent (r\<lparr>pn_audit_events := a, pn_conversion_outcomes := pn_conversion_outcomes r @ [g]\<rparr>) i =
     outcome_identities_for_intent r i @ (if go_conversion_intent_id g = i then [outcome_identity_of g] else [])"
  by (simp add: outcome_identities_for_intent_def)

lemma accept_or_replay_outcome_effect:
  assumes "repository_ok s" "d_get (rp_candidate_records s) c = Some r"
    and "d_get (rp_conversion_intent_candidates s) (go_conversion_intent_id (oa_conversion_outcome q)) = Some c"
    and "tenant_scoped_idempotency_identity t key = Inr k"
  shows "mutation_effect k ir c r s (snd (accept_or_replay_outcome q key lin c r t k ir s))"
proof -
  let ?g = "oa_conversion_outcome q"
  let ?m = "conversion_outcome_identity_result (outcome_identity_of ?g) key ir t"
  have x: "d_get (rp_conversion_intent_candidates s) (ox_conversion_intent_id (outcome_identity_of ?g)) = Some c"
    using assms(3) by (simp add: outcome_identity_of_def)
  from outcome_identity_result_effect[OF assms(1) x assms(4), of ir]
  consider e where "?m s = (Inl e, s)" | "?m s = (Inr None, s)" | a where "?m s = (Inr (Some a), s)"
    | a where "?m s = (Inr (Some a), put_idempotency k ir c s)"
    by (metis old.sum.exhaust option.exhaust)
  then show ?thesis
  proof cases
    case 2
    note b = act_bind_result(1)[where m = ?m, OF 2]
    show ?thesis
    proof (cases "outcome_progression_conflicts r ?g")
      case True
      then show ?thesis by (simp add: accept_or_replay_outcome_def Let_def b)
    next
      case False
      let ?u = "r\<lparr>pn_audit_events := pn_audit_events r @ [oa_audit_event q],
          pn_conversion_outcomes := pn_conversion_outcomes r @ [?g]\<rparr>"
      have ok: "record_ok c r" using ok_record[OF assms(1,2)] .
      have "outcome_stream (outcome_identities_for_intent r (go_conversion_intent_id ?g) @ [outcome_identity_of ?g])"
        using False ok progression_accepted_iff
        by (auto simp: outcome_progression_conflicts_def record_ok_def is_ok_iff)
      then have u: "record_ok c ?u"
        by (intro record_ok_update[OF ok]) (use ok in \<open>auto simp: record_ok_def outcomes_extended\<close>)
      have g: "record_grows r ?u" by (simp add: record_grows_def)
      have ids: "\<forall>i \<in> conversion_ids ?u. d_get (rp_conversion_intent_candidates s) i = Some c"
        using assms(1-3) by (auto simp: repository_ok_def conversion_ids_def intent_ids_def)
      have "mutation_effect k ir c r s (snd (append_outbox_event ty a tm p key' l (commit k ir c ?u s)))" for ty a tm p key' l
        unfolding mutation_effect_def
        using u g ids append_outbox_event_state[of "commit k ir c ?u s" ty a tm p key' l]
        by (intro disjI2 exI[of _ ?u] exI[of _ "rp_conversion_intent_candidates s"]
            exI[of _ "rp_report_evidence_pack_candidates s"] conjI)
          (simp_all add: commit_def put_idempotency_def put_record_def)
      then show ?thesis
        using False assms(4)
        by (simp add: accept_or_replay_outcome_def Let_def b accept_conversion_outcome_def append_then_return
            append_then_pair act_bind_assoc act_bind_return(1) commit_def mk_record_state)
    qed
  qed (simp_all add: accept_or_replay_outcome_def Let_def act_bind_result[where m = ?m] mutation_effect_def)
qed

end
