(* ===== verification/Repository_Runs.thy ===== *)
theory Repository_Runs
imports Repository_Laws Interfaces
begin

text \<open>
  The operations of the repository together: candidates are persisted and reconciled, keyed
  mutations, receipts, deliveries and submissions are interleaved in any order. Every step
  keeps the repository consistent and only lets it grow, and the keyed mutations satisfy the
  contract \<open>idempotent_handler\<close>.
\<close>

section \<open>Persisting a candidate\<close>

lemma version_entry_for_entry:
  "version_entry_for c h status t = Inr v \<Longrightarrow> entry_of_version v (cd_identity c) h"
  by (auto simp: version_entry_for_def Let_def entry_of_version_def)

lemma new_record_ok:
  assumes "repository_ok s" "with_events (commit k ir c u s) s'" "record_ok c u" "conversion_ids u = {}"
    and "d_get (rp_candidate_records s) c = None"
    and "cd_access_scope (pn_candidate u) = Some a"
    and "tenant_scoped_idempotency_identity (as_tenant_id a) (ir_key ir) = Inr k"
    and "d_get (rp_idempotency_records s) k = None"
  shows "repository_ok s' \<and> repository_grows s s'"
proof -
  note p = with_events_parts[OF assms(2), simplified]
  have new: "d_get (rp_idempotency_candidates s) k = None"
  proof (rule ccontr)
    assume "d_get (rp_idempotency_candidates s) k \<noteq> None"
    then obtain d where "d_get (rp_idempotency_candidates s) k = Some d" by blast
    with assms(1,8) show False by (fastforce simp: repository_ok_def)
  qed
  have keys: "\<exists>q j b. d_get (rp_candidate_records s') d = Some q \<and> d_get (rp_idempotency_records s') l = Some j \<and>
      cd_access_scope (pn_candidate q) = Some b \<and> tenant_scoped_idempotency_identity (as_tenant_id b) (ir_key j) = Inr l"
    if "d_get (rp_idempotency_candidates s') l = Some d" for l d
  proof (cases "l = k")
    case True
    then show ?thesis using that assms(6,7) by (simp add: p)
  next
    case False
    then have "d_get (rp_idempotency_candidates s) l = Some d" using that by (simp add: p)
    with assms(1) obtain q j b where q: "d_get (rp_candidate_records s) d = Some q"
        "d_get (rp_idempotency_records s) l = Some j" "cd_access_scope (pn_candidate q) = Some b"
        "tenant_scoped_idempotency_identity (as_tenant_id b) (ir_key j) = Inr l"
      unfolding repository_ok_def by blast
    moreover have "d \<noteq> c" using q(1) assms(5) by auto
    ultimately show ?thesis using False by (simp add: p)
  qed
  have "record_ok d q \<and> (\<forall>i \<in> conversion_ids q. d_get (rp_conversion_intent_candidates s) i = Some d)"
    if "d_get (rp_candidate_records s') d = Some q" for d q
    using that assms(1,3,4) by (cases "d = c") (auto simp: p repository_ok_def)
  moreover have "\<exists>q. d_get (rp_candidate_records s') d = Some q \<and> i \<in> intent_ids q"
    if "d_get (rp_conversion_intent_candidates s) i = Some d" for i d
  proof -
    from that assms(1) obtain q where "d_get (rp_candidate_records s) d = Some q" "i \<in> intent_ids q"
      unfolding repository_ok_def by blast
    moreover from this have "d \<noteq> c" using assms(5) by auto
    ultimately show ?thesis by (simp add: p)
  qed
  ultimately have "repository_ok s'"
    unfolding repository_ok_def p(4) using keys assms(1) by (simp add: p repository_ok_def distinct_update)
  moreover have "repository_grows s s'"
    using assms(5,8) new by (auto simp: repository_grows_def p d_grows_put)
  ultimately show ?thesis ..
qed

lemma accept_new_candidate_ok:
  assumes "repository_ok s" "well_formed_candidate c" "cd_access_scope c = Some a" "scope_is_authoritative a"
    and "d_get (rp_candidate_records s) (cd_candidate_id c) = None"
    and "tenant_scoped_idempotency_identity (as_tenant_id a) (ir_key ir) = Inr k"
    and "d_get (rp_idempotency_records s) k = None"
  shows "repository_ok (snd (accept_new_candidate c key k ir actor t lin s)) \<and>
    repository_grows s (snd (accept_new_candidate c key k ir actor t lin s))"
proof -
  let ?i = "cd_candidate_id c"
  define aud where "aud = mk_audit_event ''idea.candidate.persisted'' actor ''accepted'' t
         [(''candidate_family'', family_value (cd_family c)),
          (''lifecycle_status'', lifecycle_value (cd_lifecycle_status c)),
          (''idempotency_decision'', ''accepted'')]"
  define h where "h = evidence_hash_for_candidate c"
  note unfolded = accept_new_candidate_def aud_def[symmetric] h_def[symmetric]
  show ?thesis
  proof (cases "is_ok aud \<and> is_ok h")
    case False
    then show ?thesis using assms(1) by (cases aud; cases h) (simp_all add: unfolded)
  next
    case True
    then obtain au hh where ah: "aud = Inr au" "h = Inr hh" by (auto simp: is_ok_iff)
    show ?thesis
    proof (cases "version_entry_for c hh None t")
      case Inl
      then show ?thesis using assms(1) ah by (simp add: unfolded)
    next
      case (Inr v)
      let ?u = "\<lparr>pn_candidate = c, pn_evidence_hash = hh, pn_persisted_at_utc = t,
          pn_version_history = [v], pn_lifecycle_history = [], pn_audit_events = [au],
          pn_review_decisions = [], pn_feedback_events = [], pn_conversion_intents = [],
          pn_conversion_outcomes = [], pn_report_evidence_packs = []\<rparr>"
      have ids: "conversion_ids ?u = {}" "cd_access_scope (pn_candidate ?u) = Some a"
        using assms(3) by (simp_all add: conversion_ids_def intent_ids_def)
      have u: "record_ok ?i ?u" if "passes (persistence_record_guards ?u)"
        using assms(2-4) that version_entry_for_entry[OF Inr]
        by (simp add: record_ok_def outcome_identities_for_intent_def versions_current_def)
      have "repository_ok s' \<and> repository_grows s s'"
        if "passes (persistence_record_guards ?u)"
          "s' = snd (append_outbox_event ty i tm p key' l (commit k ir ?i ?u s))" for s' ty i tm p key' l
        using new_record_ok[OF assms(1) _ u[OF that(1)] ids(1) assms(5) ids(2) assms(6,7)] append_outbox_event_state
          that(2) by metis
      then show ?thesis
        using Inr ah assms(1) by (simp add: unfolded append_then_return commit_def mk_record_state)
    qed
  qed
qed

lemma act_bind_modified: "act_bind (\<lambda>a. (Inr x, g a)) h s = h x (g s)"
  by (simp add: act_bind_def)

lemma not_identity_conflict_scope:
  assumes "reconcile_candidate existing incoming eh ih t = Inr n" "rn_decision n \<noteq> Cand_Identity_Conflict"
  shows "cd_access_scope incoming = cd_access_scope existing" "cd_candidate_id incoming = cd_candidate_id existing"
proof -
  have "same_business_scope existing incoming"
    using assms by (auto simp: reconcile_candidate_def not_reconciled_def Let_def split: if_splits)
  then show "cd_access_scope incoming = cd_access_scope existing" "cd_candidate_id incoming = cd_candidate_id existing"
    by (simp_all add: same_business_scope_def)
qed

lemma reconcile_existing_candidate_effect:
  assumes "repository_ok s" "d_get (rp_candidate_records s) c = Some r" "well_formed_candidate inc"
    and "cd_candidate_id inc = c" "cd_access_scope inc = Some a" "aware t"
    and "tenant_scoped_idempotency_identity (as_tenant_id a) key = Inr k"
  shows "let s' = snd (reconcile_existing_candidate r inc key ir actor t lin s) in
    s' = s \<or> (mutation_effect k ir c r s s' \<and> cd_access_scope (pn_candidate r) = Some a)"
proof -
  have r: "record_ok c r" using ok_record[OF assms(1,2)] .
  then have wf: "well_formed_candidate (pn_candidate r)" by (simp add: record_ok_def)
  have tenant: "candidate_tenant_id inc = Inr (as_tenant_id a)" using assms(5) by (simp add: candidate_tenant_id_def)
  show ?thesis
  proof (cases "evidence_hash_for_candidate inc")
    case Inl
    then show ?thesis by (simp add: reconcile_existing_candidate_def)
  next
    case h: (Inr h)
    obtain n where n: "reconcile_candidate (pn_candidate r) inc (pn_evidence_hash r) h t = Inr n"
        "reconciliation_ok (pn_candidate r) inc n"
      using reconcile_candidate_ok[OF wf assms(3,6)] by blast
    note unfolded = reconcile_existing_candidate_def Let_def h n(1) tenant assms(4,7)
    consider "rn_decision n = Cand_Identity_Conflict" | "rn_decision n = Cand_Duplicate_Candidate"
      | d where "rn_candidate n = Some d" "rn_decision n \<notin> {Cand_Identity_Conflict, Cand_Duplicate_Candidate}"
      using n(2) by (cases "rn_candidate n") (auto simp: reconciliation_ok_def)
    then show ?thesis
    proof cases
      case 1
      then show ?thesis by (simp add: unfolded)
    next
      case 2
      then have "cd_access_scope (pn_candidate r) = Some a"
        using not_identity_conflict_scope[OF n(1)] assms(5) by simp
      then show ?thesis using 2 by (simp add: unfolded act_bind_def mutation_effect_def)
    next
      case 3
      note scope = reconcile_scope[OF n(1) 3(1)] not_identity_conflict_scope[OF n(1)]
      have sc: "cd_access_scope (pn_candidate r) = Some a" "cd_access_scope d = cd_access_scope (pn_candidate r)"
        using scope 3(2) assms(5) by simp_all
      have d: "well_formed_candidate d" "cd_candidate_id d = cd_candidate_id (pn_candidate r)"
        using n(2) 3(1) by (auto simp: reconciliation_ok_def)
      define aud where "aud = reconciliation_audit_event (rn_decision n) d (cd_lifecycle_status (pn_candidate r)) actor t"
      define ver where "ver = version_entry_for d h (Some (cd_lifecycle_status (pn_candidate r))) t"
      note unfolded' = unfolded aud_def[symmetric] ver_def[symmetric]
      show ?thesis
      proof (cases "is_ok aud \<and> is_ok ver")
        case False
        then show ?thesis using 3 by (cases aud; cases ver) (simp_all add: unfolded')
      next
        case True
        then obtain au v where av: "aud = Inr au" "ver = Inr v" by (auto simp: is_ok_iff)
        let ?u = "r\<lparr>pn_candidate := d, pn_evidence_hash := h, pn_version_history := pn_version_history r @ [v],
             pn_audit_events := pn_audit_events r @ [au]\<rparr>"
        have versions: "versions_current ?u"
        proof (rule versions_extended)
          show "versions_current r" using r unfolding record_ok_def by blast
          show "version_less (pn_candidate r) d" using n(2) 3(1) unfolding reconciliation_ok_def by blast
          show "entry_of_version v (cd_identity d) h" using version_entry_for_entry av(2) unfolding ver_def by blast
        qed simp_all
        have u: "record_ok c ?u" if "passes (persistence_record_guards ?u)"
        proof -
          have "intent_backed ?u i = intent_backed r i" "outcome_identities_for_intent ?u j = outcome_identities_for_intent r j" for i j
            by (simp_all add: intent_backed_def outcome_identities_for_intent_def)
          with r d sc that versions show ?thesis by (simp add: record_ok_def)
        qed
        have g: "record_grows r ?u" "conversion_ids ?u \<subseteq> conversion_ids r"
          using r d sc by (auto simp: record_ok_def record_grows_def conversion_ids_def intent_ids_def)
        note eff = mutation_effect_commit[OF u g assms(1,2)]
        have plain: "mutation_effect k ir c r s (commit k ir c ?u s)" if "passes (persistence_record_guards ?u)"
          using u[OF that] g assms(1,2)
          unfolding mutation_effect_def
          by (intro disjI2 exI[of _ ?u] exI[of _ "rp_conversion_intent_candidates s"]
              exI[of _ "rp_report_evidence_pack_candidates s"] conjI)
            (auto simp: commit_def put_idempotency_def put_record_def repository_ok_def)
        show ?thesis
          using 3 av sc eff plain
          by (cases "reconciliation_event_type (rn_decision n)")
            (simp_all add: unfolded' append_candidate_reconciliation_event_def act_bind_assoc act_bind_return
              act_bind_modified append_then_pair append_then_return commit_def mk_record_state)
      qed
    qed
  qed
qed

lemma persist_candidate_ok:
  assumes "repository_ok s" "well_formed_candidate c"
  shows "repository_ok (snd (persist_candidate now c key payload actor t lin s)) \<and>
    repository_grows s (snd (persist_candidate now c key payload actor t lin s))"
proof (cases "cd_access_scope c")
  case None
  then show ?thesis using assms(1) by (simp add: persist_candidate_def)
next
  case (Some a)
  let ?t = "or_else t now"
  let ?gs = "require_text key ''idempotency_key'' @ require_text actor ''actor_subject'' @
            [(\<not> scope_is_authoritative a, UnscopedCandidatePersistenceError
                ''candidate access scope must be authoritative for persistence'')] @
            require_aware_utc ?t ''occurred_at_utc''"
  show ?thesis
  proof (cases "passes ?gs \<and> is_ok (tenant_scoped_idempotency_identity (as_tenant_id a) key)")
    case False
    then show ?thesis
      using assms(1) Some
      by (cases "tenant_scoped_idempotency_identity (as_tenant_id a) key")
        (auto simp: persist_candidate_def act_guard_state Let_def)
  next
    case True
    then obtain k where k: "tenant_scoped_idempotency_identity (as_tenant_id a) key = Inr k" by (auto simp: is_ok_iff)
    show ?thesis
    proof (cases "d_get (rp_idempotency_records s) k")
      case known: (Some e)
      then show ?thesis
        using assms(1) Some k True
        by (simp add: persist_candidate_def act_guard_state Let_def evaluate_idempotency_def)
    next
      case new: None
      let ?ir = "\<lparr>ir_key = key, ir_payload_hash = payload_fingerprint payload\<rparr>"
      have k': "tenant_scoped_idempotency_identity (as_tenant_id a) (ir_key ?ir) = Inr k" using k by simp
      show ?thesis
      proof (cases "d_get (rp_candidate_records s) (cd_candidate_id c)")
        case none: None
        have "persist_candidate now c key payload actor t lin s =
            accept_new_candidate c key k ?ir actor ?t lin s"
          using Some True k new none
          by (simp add: persist_candidate_def Let_def evaluate_idempotency_def)
        then show ?thesis
          using accept_new_candidate_ok[OF assms Some _ none k' new] True by simp
      next
        case (Some r)
        have p: "persist_candidate now c key payload actor t lin s =
            reconcile_existing_candidate r c key ?ir actor ?t lin s"
          using \<open>cd_access_scope c = Some a\<close> True k new Some
          by (simp add: persist_candidate_def Let_def evaluate_idempotency_def)
        have "aware ?t" using True by simp
        from reconcile_existing_candidate_effect[OF assms(1) Some assms(2) refl \<open>cd_access_scope c = Some a\<close> this k,
            of ?ir actor lin]
        show ?thesis
          unfolding p Let_def using mutation_effect_ok[OF _ assms(1) Some _ k' new] assms(1) by auto
      qed
    qed
  qed
qed

section \<open>Keyed mutations\<close>

datatype repository_request =
    Transition_Request py_datetime string lifecycle_status string "(string, json) dict" string
      "py_datetime option" "py_datetime option" "string option" "string list" "event_lineage option"
  | Review_Request review_result string "(string, json) dict" "event_lineage option"
  | Feedback_Request feedback_result string "(string, json) dict" "event_lineage option"
  | Intent_Request intent_result string "(string, json) dict" "event_lineage option"
  | Outcome_Request outcome_result string "(string, json) dict" "event_lineage option"
  | Pack_Request pack_result string "(string, json) dict" "event_lineage option"

fun handle_request :: "repository_request \<Rightarrow> (repository, persistence_result) act" where
  "handle_request (Transition_Request now c target key p actor t obs tid rcs lin) =
     record_lifecycle_transition now c target key p actor t obs tid rcs lin"
| "handle_request (Review_Request q key p lin) = record_review_action q key p lin"
| "handle_request (Feedback_Request q key p lin) = record_feedback_event q key p lin"
| "handle_request (Intent_Request q key p lin) = record_conversion_intent q key p lin"
| "handle_request (Outcome_Request q key p lin) = repository_record_conversion_outcome q key p lin"
| "handle_request (Pack_Request q key p lin) = record_report_evidence_pack q key p lin"

text \<open>The idempotency key and the payload of a request, the record it is about, and the key
  under which it is filed.\<close>

fun request_content :: "repository_request \<Rightarrow> idempotency_record" where
  "request_content (Transition_Request now c target key p actor t obs tid rcs lin) =
     \<lparr>ir_key = key, ir_payload_hash = payload_fingerprint p\<rparr>"
| "request_content (Review_Request q key p lin) = \<lparr>ir_key = key, ir_payload_hash = payload_fingerprint p\<rparr>"
| "request_content (Feedback_Request q key p lin) = \<lparr>ir_key = key, ir_payload_hash = payload_fingerprint p\<rparr>"
| "request_content (Intent_Request q key p lin) = \<lparr>ir_key = key, ir_payload_hash = payload_fingerprint p\<rparr>"
| "request_content (Outcome_Request q key p lin) = \<lparr>ir_key = key, ir_payload_hash = payload_fingerprint p\<rparr>"
| "request_content (Pack_Request q key p lin) = \<lparr>ir_key = key, ir_payload_hash = payload_fingerprint p\<rparr>"

fun request_record :: "repository_request \<Rightarrow> repository \<Rightarrow> (string \<times> persistence_record) option" where
  "request_record (Transition_Request now c target key p actor t obs tid rcs lin) s = stored_record c s"
| "request_record (Review_Request q key p lin) s = stored_record (gd_candidate_id (ra_decision q)) s"
| "request_record (Feedback_Request q key p lin) s = stored_record (gf_candidate_id (fr_feedback_event q)) s"
| "request_record (Intent_Request q key p lin) s =
     stored_record (in_candidate_id (gi_intent (ia_conversion_intent q))) s"
| "request_record (Outcome_Request q key p lin) s =
     conversion_record_for_intent (go_conversion_intent_id (oa_conversion_outcome q)) s"
| "request_record (Pack_Request q key p lin) s = stored_record (pk_candidate_id (kr_evidence_pack q)) s"

definition request_key :: "repository_request \<Rightarrow> repository \<Rightarrow> string option" where
  "request_key q s = mutation_key (request_record q) record_tenant_id (ir_key (request_content q)) s"

lemma mutation_key_tenant:
  "mutation_key locate (\<lambda>r. candidate_tenant_id (pn_candidate r)) key s = mutation_key locate record_tenant_id key s"
  by (simp add: mutation_key_def candidate_tenant_id_def record_tenant_id_def split: option.splits prod.splits)

text \<open>The results come from the domain operations, and an intent does not take the identifier
  of an intent of another candidate.\<close>

fun admissible :: "repository_request \<Rightarrow> repository \<Rightarrow> bool" where
  "admissible (Review_Request q key p lin) s \<longleftrightarrow> reviewed q"
| "admissible (Intent_Request q key p lin) s \<longleftrightarrow> converted q \<and>
     d_get (rp_conversion_intent_candidates s) (in_conversion_intent_id (gi_intent (ia_conversion_intent q)))
       \<in> {None, Some (in_candidate_id (gi_intent (ia_conversion_intent q)))}"
| "admissible _ s \<longleftrightarrow> True"

lemma stored_record_Some [simp]:
  "stored_record c s = Some (d, r) \<longleftrightarrow> d = c \<and> d_get (rp_candidate_records s) c = Some r"
  by (auto simp: stored_record_def)

lemma conversion_record_Some [simp]:
  "conversion_record_for_intent i s = Some (c, r) \<longleftrightarrow>
     d_get (rp_conversion_intent_candidates s) i = Some c \<and> d_get (rp_candidate_records s) c = Some r"
  by (auto simp: conversion_record_for_intent_def split: option.splits)

text \<open>Either nothing happens, or the request had a new key and changed its record.\<close>

lemma keyed_effect:
  assumes "repository_ok s" "\<And>c r. locate s = Some (c, r) \<Longrightarrow> d_get (rp_candidate_records s) c = Some r"
    and "tenant_of = record_tenant_id \<or> tenant_of = (\<lambda>r. candidate_tenant_id (pn_candidate r))"
    and "\<And>c r t k ir. locate s = Some (c, r) \<Longrightarrow> tenant_scoped_idempotency_identity t key = Inr k \<Longrightarrow>
      mutation_effect k ir c r s (snd (rest c r t k ir s))"
  shows "let s' = snd (keyed_mutation gs locate tenant_of key p rest s) in s' = s \<or>
    (\<exists>c r k a. mutation_effect k \<lparr>ir_key = key, ir_payload_hash = payload_fingerprint p\<rparr> c r s s' \<and>
       d_get (rp_candidate_records s) c = Some r \<and> cd_access_scope (pn_candidate r) = Some a \<and>
       tenant_scoped_idempotency_identity (as_tenant_id a) key = Inr k \<and>
       mutation_key locate record_tenant_id key s = Some k \<and> d_get (rp_idempotency_records s) k = None)"
proof -
  from keyed_mutation_state[of gs locate tenant_of key p rest s]
  consider "snd (keyed_mutation gs locate tenant_of key p rest s) = s" | c r t k where
      "locate s = Some (c, r)" "tenant_of r = Inr t" "tenant_scoped_idempotency_identity t key = Inr k"
      "mutation_key locate tenant_of key s = Some k" "d_get (rp_idempotency_records s) k = None"
      "snd (keyed_mutation gs locate tenant_of key p rest s) =
        snd (rest c r t k \<lparr>ir_key = key, ir_payload_hash = payload_fingerprint p\<rparr> s)"
    by blast
  then show ?thesis
  proof cases
    case 2
    obtain a where a: "cd_access_scope (pn_candidate r) = Some a" "t = as_tenant_id a"
      using 2(2) assms(3) by (auto simp: record_tenant_id_def candidate_tenant_id_def split: option.splits)
    have "mutation_key locate record_tenant_id key s = Some k"
      using 2(4) assms(3) mutation_key_tenant by auto
    then show ?thesis
      unfolding Let_def 2(6)
      using assms(4)[OF 2(1,3)] assms(2)[OF 2(1)] a 2(3,5) by blast
  qed simp
qed

lemma request_record_simps:
  "request_record (Transition_Request now c target key p actor t obs tid rcs lin) = stored_record c"
  "request_record (Review_Request q key p lin) = stored_record (gd_candidate_id (ra_decision q))"
  "request_record (Feedback_Request f key p lin) = stored_record (gf_candidate_id (fr_feedback_event f))"
  "request_record (Intent_Request i key p lin) = stored_record (in_candidate_id (gi_intent (ia_conversion_intent i)))"
  "request_record (Outcome_Request g key p lin) =
     conversion_record_for_intent (go_conversion_intent_id (oa_conversion_outcome g))"
  "request_record (Pack_Request k key p lin) = stored_record (pk_candidate_id (kr_evidence_pack k))"
  by (rule ext, simp)+

definition request_effect :: "repository_request \<Rightarrow> repository \<Rightarrow> repository \<Rightarrow> bool" where
  "request_effect q s s' \<longleftrightarrow> s' = s \<or>
    (\<exists>c r k a. mutation_effect k (request_content q) c r s s' \<and>
       d_get (rp_candidate_records s) c = Some r \<and> cd_access_scope (pn_candidate r) = Some a \<and>
       tenant_scoped_idempotency_identity (as_tenant_id a) (ir_key (request_content q)) = Inr k \<and>
       request_key q s = Some k \<and> d_get (rp_idempotency_records s) k = None)"

lemma keyed_request:
  assumes "repository_ok s" "handle_request q = keyed_mutation gs (request_record q) tenant_of key p rest"
    and "request_content q = \<lparr>ir_key = key, ir_payload_hash = payload_fingerprint p\<rparr>"
    and "tenant_of = record_tenant_id \<or> tenant_of = (\<lambda>r. candidate_tenant_id (pn_candidate r))"
    and "\<And>c r. request_record q s = Some (c, r) \<Longrightarrow> d_get (rp_candidate_records s) c = Some r"
    and "\<And>c r t k ir. request_record q s = Some (c, r) \<Longrightarrow> tenant_scoped_idempotency_identity t key = Inr k \<Longrightarrow>
      mutation_effect k ir c r s (snd (rest c r t k ir s))"
  shows "request_effect q s (snd (handle_request q s))"
  using keyed_effect[where s = s and locate = "request_record q" and tenant_of = tenant_of and key = key and
      rest = rest and gs = gs and p = p, OF assms(1,5,4,6)] assms(2,3)
  by (simp add: request_effect_def request_key_def Let_def)

lemma handle_request_effect:
  assumes ok: "repository_ok s" and adm: "admissible q s"
  shows "request_effect q s (snd (handle_request q s))"
proof (cases q)
  case (Transition_Request now c target key p actor t obs tid rcs lin)
  show ?thesis
    unfolding Transition_Request
    by (rule keyed_request[OF ok, where key = key and p = p and tenant_of = "\<lambda>r. candidate_tenant_id (pn_candidate r)"
          and rest = "accept_lifecycle_transition target key actor (or_else t now) (or_else obs (or_else t now))
            tid rcs lin"])
      (auto simp: record_lifecycle_transition_def request_record_simps Let_def
        intro: accept_lifecycle_transition_effect[OF ok])
next
  case (Review_Request r key p lin)
  have r: "reviewed r" using adm Review_Request by simp
  show ?thesis
    unfolding Review_Request
    by (rule keyed_request[OF ok, where key = key and p = p and tenant_of = record_tenant_id
          and rest = "accept_review_action r key lin"])
      (auto simp: record_review_action_def request_record_simps Let_def intro: accept_review_action_effect[OF ok _ r])
next
  case (Feedback_Request f key p lin)
  show ?thesis
    unfolding Feedback_Request
    by (rule keyed_request[OF ok, where key = key and p = p and tenant_of = record_tenant_id
          and rest = "accept_feedback_event f key lin"])
      (auto simp: record_feedback_event_def request_record_simps Let_def intro: accept_feedback_event_effect[OF ok])
next
  case (Intent_Request i key p lin)
  have i: "converted i" "d_get (rp_conversion_intent_candidates s) (in_conversion_intent_id (gi_intent (ia_conversion_intent i)))
       \<in> {None, Some (in_candidate_id (gi_intent (ia_conversion_intent i)))}" using adm Intent_Request by simp_all
  show ?thesis
    unfolding Intent_Request
    by (rule keyed_request[OF ok, where key = key and p = p and tenant_of = "\<lambda>r. candidate_tenant_id (pn_candidate r)"
          and rest = "accept_conversion_intent i key lin"])
      (auto simp: record_conversion_intent_def request_record_simps Let_def
        intro: accept_conversion_intent_effect[OF ok _ i(1) refl i(2)])
next
  case (Outcome_Request g key p lin)
  show ?thesis
    unfolding Outcome_Request
    by (rule keyed_request[OF ok, where key = key and p = p and tenant_of = "\<lambda>r. candidate_tenant_id (pn_candidate r)"
          and rest = "accept_or_replay_outcome g key lin"])
      (auto simp: repository_record_conversion_outcome_def request_record_simps Let_def
        intro: accept_or_replay_outcome_effect[OF ok])
next
  case (Pack_Request k key p lin)
  show ?thesis
    unfolding Pack_Request
    by (rule keyed_request[OF ok, where key = key and p = p and tenant_of = "\<lambda>r. candidate_tenant_id (pn_candidate r)"
          and rest = "accept_report_evidence_pack k key lin"])
      (auto simp: record_report_evidence_pack_def request_record_simps Let_def intro: accept_report_evidence_pack_effect[OF ok])
qed

section \<open>Interleavings\<close>

text \<open>A step is any operation on the repository. The tenant of a precheck is the one of the
  candidate, as the callers establish.\<close>

inductive repository_step :: "repository \<Rightarrow> repository \<Rightarrow> bool" where
  persist: "well_formed_candidate c \<Longrightarrow> repository_step s (snd (persist_candidate now c key p actor t lin s))"
| request: "admissible q s \<Longrightarrow> repository_step s (snd (handle_request q s))"
| transition: "repository_step s (snd (repository_transition_candidate now c target actor t s))"
| precheck_review: "(\<And>r. d_get (rp_candidate_records s) (rm_candidate_id m) = Some r \<Longrightarrow> record_tenant_id r = Inr tenant) \<Longrightarrow>
    repository_step s (snd (precheck_review_mutation tenant key p m s))"
| precheck_outcome: "d_get (rp_conversion_intent_candidates s) (ox_conversion_intent_id x) = Some c \<Longrightarrow>
    (\<And>r. d_get (rp_candidate_records s) c = Some r \<Longrightarrow> record_tenant_id r = Inr tenant) \<Longrightarrow>
    repository_step s (snd (precheck_conversion_outcome_mutation tenant key p x s))"
| receipt: "repository_step s (snd (record_presentation_receipt r s))"
| delivery_run: "repository_step s (snd (record_outbox_delivery_run_request key p s))"
| claim_events: "repository_step s (snd (repository_claim_outbox_events limit n w a t u s))"
| published: "repository_step s (snd (repository_mark_outbox_event_published e w a t s))"
| failed: "repository_step s (snd (repository_mark_outbox_event_failed now e w a reason t n u s))"
| recovery: "repository_step s (snd (repository_claim_dead_letter_for_recovery rq n s))"
| claim_submission: "repository_step s (snd (repository_claim_submission sb s))"
| finalize_submission: "repository_step s (snd (repository_finalize_submission tenant key wa fin s))"
| reconcile_submission: "repository_step s (snd (repository_reconcile_submission ref rec s))"

lemma request_effect_ok:
  "request_effect q s s' \<Longrightarrow> repository_ok s \<Longrightarrow> repository_ok s' \<and> repository_grows s s'"
  unfolding request_effect_def using mutation_effect_ok by (metis repository_grows_refl)

lemma conversion_ids_of:
  "repository_ok s \<Longrightarrow> d_get (rp_candidate_records s) c = Some r \<Longrightarrow> i \<in> conversion_ids r \<Longrightarrow>
     d_get (rp_conversion_intent_candidates s) i = Some c"
  by (simp add: repository_ok_def)

lemma put_record_ok:
  assumes "repository_ok s" "d_get (rp_candidate_records s) c = Some r" "record_ok c u" "record_grows r u"
    and "conversion_ids u = conversion_ids r"
  shows "repository_ok (put_record c u s) \<and> repository_grows s (put_record c u s)"
proof -
  have "\<exists>q j b. d_get (d_put c u (rp_candidate_records s)) d = Some q \<and> d_get (rp_idempotency_records s) l = Some j \<and>
      cd_access_scope (pn_candidate q) = Some b \<and> tenant_scoped_idempotency_identity (as_tenant_id b) (ir_key j) = Inr l"
    if "d_get (rp_idempotency_candidates s) l = Some d" for l d
  proof -
    from that assms(1) obtain q j b where q: "d_get (rp_candidate_records s) d = Some q"
        "d_get (rp_idempotency_records s) l = Some j" "cd_access_scope (pn_candidate q) = Some b"
        "tenant_scoped_idempotency_identity (as_tenant_id b) (ir_key j) = Inr l"
      unfolding repository_ok_def by blast
    then show ?thesis using assms(2,4) by (cases "d = c") (simp_all add: record_grows_def)
  qed
  moreover have "\<exists>q. d_get (d_put c u (rp_candidate_records s)) d = Some q \<and> i \<in> intent_ids q"
    if "d_get (rp_conversion_intent_candidates s) i = Some d" for i d
  proof -
    from that assms(1) obtain q where "d_get (rp_candidate_records s) d = Some q" "i \<in> intent_ids q"
      unfolding repository_ok_def by blast
    then show ?thesis using assms(2) intent_ids_grow[OF assms(4)] by (cases "d = c") auto
  qed
  ultimately have "repository_ok (put_record c u s)"
    using assms(1,3) unfolding repository_ok_def
    by (auto simp: put_record_def distinct_update assms(5) conversion_ids_of[OF assms(1,2)])
  moreover have "repository_grows s (put_record c u s)"
    using assms(2,4) by (auto simp: put_record_def repository_grows_def)
  ultimately show ?thesis ..
qed

lemma transition_ok:
  assumes "repository_ok s"
  shows "repository_ok (snd (repository_transition_candidate now c target actor t s)) \<and>
    repository_grows s (snd (repository_transition_candidate now c target actor t s))"
proof (cases "d_get (rp_candidate_records s) c")
  case None
  then show ?thesis using assms by (simp add: repository_transition_candidate_def act_guard_state Let_def)
next
  case (Some r)
  let ?m = "transition_record r target actor (or_else t now) []"
  note ok = ok_record[OF assms Some]
  from transition_record_cases[OF ok, of target actor "or_else t now" "[]" s]
  consider e where "?m s = (Inl e, s)"
    | u audit where "?m s = (Inr (u, audit), put_record c u s)" "record_ok c u" "record_grows r u"
      "conversion_ids u = conversion_ids r"
    by blast
  then show ?thesis
  proof cases
    case 1
    then show ?thesis
      using assms Some by (simp add: repository_transition_candidate_def act_guard_state Let_def
          act_bind_result(2)[where m = ?m, OF 1])
  next
    case 2
    then show ?thesis
      using assms Some put_record_ok[OF assms Some 2(2-4)]
      by (simp add: repository_transition_candidate_def act_guard_state Let_def
          act_bind_result(1)[where m = ?m, OF 2(1)])
  qed
qed

text \<open>Filing a further key for a stored record of the tenant.\<close>

lemma file_key_ok:
  assumes "repository_ok s" "d_get (rp_candidate_records s) c = Some r" "record_tenant_id r = Inr t"
    and "tenant_scoped_idempotency_identity t key = Inr k" "d_get (rp_idempotency_records s) k = None"
  shows "repository_ok (put_idempotency k \<lparr>ir_key = key, ir_payload_hash = h\<rparr> c s) \<and>
    repository_grows s (put_idempotency k \<lparr>ir_key = key, ir_payload_hash = h\<rparr> c s)"
proof -
  obtain a where "cd_access_scope (pn_candidate r) = Some a" "t = as_tenant_id a"
    using assms(3) by (auto simp: record_tenant_id_def split: option.splits)
  then show ?thesis
    using mutation_effect_ok[of k "\<lparr>ir_key = key, ir_payload_hash = h\<rparr>" c r s _ a] assms
    by (simp add: mutation_effect_def)
qed

lemma precheck_review_ok:
  assumes "repository_ok s"
    and "\<And>r. d_get (rp_candidate_records s) (rm_candidate_id m) = Some r \<Longrightarrow> record_tenant_id r = Inr t"
  shows "repository_ok (snd (precheck_review_mutation t key p m s)) \<and>
    repository_grows s (snd (precheck_review_mutation t key p m s))"
proof (cases "tenant_scoped_idempotency_identity t key")
  case Inl
  then show ?thesis using assms(1) by (simp add: precheck_review_mutation_def act_guard_state)
next
  case (Inr k)
  show ?thesis
  proof (cases "d_get (rp_idempotency_records s) k")
    case None
    let ?ir = "\<lparr>ir_key = key, ir_payload_hash = payload_fingerprint p\<rparr>"
    from review_identity_result_effect[OF assms(1) refl Inr, of m ?ir]
    have "repository_ok (snd (review_identity_result m key ?ir t s)) \<and>
      repository_grows s (snd (review_identity_result m key ?ir t s))"
      using assms(1) file_key_ok[OF assms(1) _ assms(2) Inr None] by auto
    then show ?thesis
      using Inr None assms(1) by (simp add: precheck_review_mutation_def act_guard_state evaluate_idempotency_def)
  next
    case (Some e)
    then show ?thesis
      using Inr assms(1)
      by (auto simp: precheck_review_mutation_def act_guard_state evaluate_idempotency_def Let_def)
  qed
qed

lemma precheck_outcome_ok:
  assumes "repository_ok s" "d_get (rp_conversion_intent_candidates s) (ox_conversion_intent_id x) = Some c"
    and "\<And>r. d_get (rp_candidate_records s) c = Some r \<Longrightarrow> record_tenant_id r = Inr t"
  shows "repository_ok (snd (precheck_conversion_outcome_mutation t key p x s)) \<and>
    repository_grows s (snd (precheck_conversion_outcome_mutation t key p x s))"
proof (cases "tenant_scoped_idempotency_identity t key")
  case Inl
  then show ?thesis using assms(1) by (simp add: precheck_conversion_outcome_mutation_def act_guard_state)
next
  case (Inr k)
  show ?thesis
  proof (cases "d_get (rp_idempotency_records s) k")
    case None
    let ?ir = "\<lparr>ir_key = key, ir_payload_hash = payload_fingerprint p\<rparr>"
    from outcome_identity_result_effect[OF assms(1,2) Inr, of ?ir]
    have "repository_ok (snd (conversion_outcome_identity_result x key ?ir t s)) \<and>
      repository_grows s (snd (conversion_outcome_identity_result x key ?ir t s))"
      using assms(1) file_key_ok[OF assms(1) _ assms(3) Inr None] by auto
    then show ?thesis
      using Inr None assms(1)
      by (simp add: precheck_conversion_outcome_mutation_def act_guard_state evaluate_idempotency_def)
  next
    case (Some e)
    then show ?thesis
      using Inr assms(1)
      by (auto simp: precheck_conversion_outcome_mutation_def act_guard_state evaluate_idempotency_def Let_def)
  qed
qed

lemma delivery_run_ok:
  assumes "repository_ok s"
  shows "repository_ok (snd (record_outbox_delivery_run_request key p s)) \<and>
    repository_grows s (snd (record_outbox_delivery_run_request key p s))"
proof (cases "system_scoped_idempotency_identity key")
  case Inl
  then show ?thesis using assms by (simp add: record_outbox_delivery_run_request_def act_guard_state)
next
  case (Inr k)
  show ?thesis
  proof (cases "d_get (rp_idempotency_records s) k")
    case None
    let ?s = "s\<lparr>rp_idempotency_records := d_put k \<lparr>ir_key = key, ir_payload_hash = payload_fingerprint p\<rparr>
        (rp_idempotency_records s)\<rparr>"
    have "d_get (rp_idempotency_candidates s) k = None"
    proof (rule ccontr)
      assume "d_get (rp_idempotency_candidates s) k \<noteq> None"
      then obtain d where "d_get (rp_idempotency_candidates s) k = Some d" by blast
      with assms None show False by (fastforce simp: repository_ok_def)
    qed
    then have "repository_ok ?s \<and> repository_grows s ?s"
      using assms None by (auto simp: repository_ok_def repository_grows_def d_grows_put)
    then show ?thesis
      using Inr None assms
      by (simp add: record_outbox_delivery_run_request_def act_guard_state evaluate_idempotency_def)
  next
    case (Some e)
    then show ?thesis
      using Inr assms
      by (auto simp: record_outbox_delivery_run_request_def act_guard_state evaluate_idempotency_def Let_def)
  qed
qed

text \<open>The operations on the other parts of the state.\<close>

definition same_records :: "repository \<Rightarrow> repository \<Rightarrow> bool" where
  "same_records s s' \<longleftrightarrow>
     rp_candidate_records s' = rp_candidate_records s \<and>
     rp_idempotency_records s' = rp_idempotency_records s \<and>
     rp_idempotency_candidates s' = rp_idempotency_candidates s \<and>
     rp_conversion_intent_candidates s' = rp_conversion_intent_candidates s"

lemma same_records_ok: "same_records s s' \<Longrightarrow> repository_ok s \<Longrightarrow> repository_ok s' \<and> repository_grows s s'"
  unfolding same_records_def using repository_ok_cong by blast

lemma same_records_ops:
  "same_records s (snd (on_outbox m s))" "same_records s (snd (on_recovery n s))"
  "same_records s (snd (on_submissions l s))" "same_records s (snd (record_presentation_receipt r s))"
  by (simp_all add: same_records_def on_outbox_def on_recovery_def on_submissions_def
      record_presentation_receipt_def act_guard_state split: prod.splits option.splits)

lemmas repository_wrapper_defs =
  repository_claim_outbox_events_def repository_mark_outbox_event_published_def
  repository_mark_outbox_event_failed_def repository_claim_dead_letter_for_recovery_def
  repository_claim_submission_def repository_finalize_submission_def repository_reconcile_submission_def

lemma repository_step_ok:
  assumes "repository_step s s'" "repository_ok s"
  shows "repository_ok s' \<and> repository_grows s s'"
proof -
  note outside = same_records_ops[THEN same_records_ok, OF assms(2)]
  show ?thesis
    using assms(1)
proof cases
  case persist
  then show ?thesis using persist_candidate_ok[OF assms(2)] by blast
next
  case request
  then show ?thesis using handle_request_effect request_effect_ok assms(2) by blast
next
  case transition
  then show ?thesis using transition_ok[OF assms(2)] by blast
next
  case precheck_review
  then show ?thesis using precheck_review_ok[OF assms(2)] by blast
next
  case precheck_outcome
  then show ?thesis using precheck_outcome_ok[OF assms(2)] by blast
next
  case delivery_run
  then show ?thesis using delivery_run_ok[OF assms(2)] by blast
qed (simp_all add: repository_wrapper_defs outside)
qed

lemma repository_run_ok:
  assumes "repository_step\<^sup>*\<^sup>* s t" "repository_ok s"
  shows "repository_ok t \<and> repository_grows s t"
  using assms(1)
proof induction
  case (step t u)
  then show ?case using repository_step_ok repository_grows_trans by blast
qed (simp add: assms(2))

section \<open>The contract of the keyed mutations\<close>

lemma request_key_grows:
  assumes "repository_grows s s'" "request_key q s = Some k"
  shows "request_key q s' = Some k"
proof -
  have rec: "\<exists>u. d_get (rp_candidate_records s') c = Some u \<and> record_tenant_id u = record_tenant_id r"
    if r: "d_get (rp_candidate_records s) c = Some r" for c r
  proof -
    from assms(1) r obtain u where "d_get (rp_candidate_records s') c = Some u" "record_grows r u"
      unfolding repository_grows_def by blast
    then show ?thesis by (auto simp: record_grows_def record_tenant_id_def)
  qed
  obtain c r where l: "request_record q s = Some (c, r)"
      "bind_res (record_tenant_id r) (\<lambda>t. tenant_scoped_idempotency_identity t (ir_key (request_content q))) = Inr k"
    using assms(2) by (auto simp: request_key_def mutation_key_def split: option.splits sum.splits)
  have "\<exists>u. request_record q s' = Some (c, u) \<and> record_tenant_id u = record_tenant_id r"
    using l(1) rec assms(1) by (cases q) (auto simp: repository_grows_def d_grows_def)
  then show ?thesis using l(2) by (auto simp: request_key_def mutation_key_def)
qed

lemma keyed_mutation_known':
  assumes "mutation_key locate record_tenant_id key s = Some k" "d_get (rp_idempotency_records s) k = Some e"
    and "tenant_of = record_tenant_id \<or> tenant_of = (\<lambda>r. candidate_tenant_id (pn_candidate r))"
  shows "snd (keyed_mutation gs locate tenant_of key p rest s) = s \<and>
    (\<forall>a. fst (keyed_mutation gs locate tenant_of key p rest s) = Inr a \<longrightarrow>
      ps_decision a = (if e = \<lparr>ir_key = key, ir_payload_hash = payload_fingerprint p\<rparr> then P_Replayed else P_Conflict))"
proof (cases "passes gs")
  case True
  have "mutation_key locate tenant_of key s = Some k" using assms(1,3) mutation_key_tenant by auto
  from keyed_mutation_known[OF True this assms(2), of p rest] show ?thesis by (auto simp: answer_def)
next
  case False
  have "\<exists>e. keyed_mutation gs locate tenant_of key p rest s = (Inl e, s)"
    unfolding keyed_mutation_def by (rule act_guard_fail[OF False])
  then show ?thesis by auto
qed

lemma handle_request_keyed:
  "\<exists>gs tenant_of rest p. handle_request q =
      keyed_mutation gs (request_record q) tenant_of (ir_key (request_content q)) p rest \<and>
     request_content q = \<lparr>ir_key = ir_key (request_content q), ir_payload_hash = payload_fingerprint p\<rparr> \<and>
     (tenant_of = record_tenant_id \<or> tenant_of = (\<lambda>r. candidate_tenant_id (pn_candidate r)))"
  by (cases q; simp add: request_record_simps record_lifecycle_transition_def Let_def
      record_review_action_def record_feedback_event_def record_conversion_intent_def
      repository_record_conversion_outcome_def record_report_evidence_pack_def; blast)

lemma handle_request_known:
  assumes "request_key q s = Some k" "d_get (rp_idempotency_records s) k = Some e"
  shows "snd (handle_request q s) = s \<and> (\<forall>a. fst (handle_request q s) = Inr a \<longrightarrow>
    ps_decision a = (if e = request_content q then P_Replayed else P_Conflict))"
proof -
  obtain gs tenant_of rest p where h: "handle_request q =
      keyed_mutation gs (request_record q) tenant_of (ir_key (request_content q)) p rest"
    "request_content q = \<lparr>ir_key = ir_key (request_content q), ir_payload_hash = payload_fingerprint p\<rparr>"
    "tenant_of = record_tenant_id \<or> tenant_of = (\<lambda>r. candidate_tenant_id (pn_candidate r))"
    using handle_request_keyed[of q] by blast
  from keyed_mutation_known'[OF assms(1)[unfolded request_key_def] assms(2) h(3), of gs p rest] h(1,2)
  show ?thesis by simp
qed

lemma mutation_effect_files:
  "mutation_effect k ir c r s s' \<Longrightarrow> s' \<noteq> s \<Longrightarrow> d_get (rp_idempotency_records s') k = Some ir"
  unfolding mutation_effect_def
  by (auto dest!: with_events_parts(2))

interpretation keyed: idempotent_handler handle_request request_key request_content
    "\<lambda>s. d_get (rp_idempotency_records s)" repository_ok admissible repository_step
    "\<lambda>a. ps_decision a = P_Replayed" "\<lambda>a. ps_decision a = P_Conflict"
proof
  show "repository_step s t \<Longrightarrow> repository_ok s \<Longrightarrow> repository_ok t" for s t
    using repository_step_ok by blast
  show "repository_step s t \<Longrightarrow> repository_ok s \<Longrightarrow> request_key q s = Some k \<Longrightarrow> request_key q t = Some k" for s t q k
    using repository_step_ok request_key_grows by blast
  show "repository_step s t \<Longrightarrow> repository_ok s \<Longrightarrow> d_get (rp_idempotency_records s) k = Some v \<Longrightarrow>
      d_get (rp_idempotency_records t) k = Some v" for s t k v
    using repository_step_ok unfolding repository_grows_def d_grows_def by blast
  show "admissible q s \<Longrightarrow> repository_step s (snd (handle_request q s))" for q s
    by (rule repository_step.request)
  show "\<exists>k. request_key q s = Some k \<and> d_get (rp_idempotency_records (snd (handle_request q s))) k = Some (request_content q)"
    if "repository_ok s" "admissible q s" "snd (handle_request q s) \<noteq> s" for q s
    using handle_request_effect[OF that(1,2)] that(3) mutation_effect_files
    unfolding request_effect_def by blast
  show "snd (handle_request q s) = s \<and> (\<forall>a. fst (handle_request q s) = Inr a \<longrightarrow>
      (if v = request_content q then ps_decision a = P_Replayed else ps_decision a = P_Conflict))"
    if "request_key q s = Some k" "d_get (rp_idempotency_records s) k = Some v" for q s k v
    using handle_request_known[OF that] by auto
qed

end
