(* ===== verification/Repository_Properties.thy ===== *)
theory Repository_Properties
imports Repository_Runs Review_Properties Conversion_Properties
begin

text \<open>
  The properties of the repository: what every sequence of its operations keeps, that keys are
  applied once and stay with their tenant, and that an approved candidate can be converted
  through the repository.
\<close>

section \<open>Events of accepted mutations\<close>

definition lineage_built :: "event_lineage option \<Rightarrow> bool" where
  "lineage_built lin \<longleftrightarrow> (\<forall>l. lin = Some l \<longrightarrow> (\<exists>c u v og. mk_event_lineage c u v og = Inr l))"

definition event_waiting :: "string \<Rightarrow> string \<Rightarrow> repository \<Rightarrow> bool" where
  \<comment> \<open>an undelivered event of the type about the candidate is in the outbox\<close>
  "event_waiting ty candidate_id s \<longleftrightarrow>
     (\<exists>e. d_get (rp_outbox_events s) (oe_event_id e) = Some e \<and> oe_status e = Ob_Pending \<and>
        oe_event_type e = ty \<and> oe_aggregate_id e = candidate_id)"

lemma append_outbox_event_ok:
  assumes "is_utc t" "\<not> blank agg" "ty \<in> set SUPPORTED_OUTBOX_EVENT_TYPES"
    and "set FORBIDDEN_OUTBOX_PAYLOAD_KEYS \<inter> set (d_keys p) = {}" "\<not> blank key" "lineage_built lin"
  shows "\<exists>s'. append_outbox_event ty agg t p key lin s = (Inr (), s') \<and> with_events s s' \<and> event_waiting ty agg s'"
proof -
  obtain e where e: "build_candidate_outbox_event ty agg t p (Some key) lin = Inr e"
    using build_candidate_outbox_event_total[of t agg ty p "Some key" lin] assms
    by (auto simp: lineage_built_def)
  have "event_waiting ty agg (s\<lparr>rp_outbox_events := d_put (oe_event_id e) e (rp_outbox_events s)\<rparr>)"
    using build_candidate_outbox_event_ok[OF e] by (auto simp: event_waiting_def intro!: exI[of _ e])
  then show ?thesis by (simp add: append_outbox_event_def e)
qed

text \<open>The end of a mutation: the event is appended and the answer given.\<close>

lemma append_then_answer:
  assumes "is_utc t" "\<not> blank agg" "ty \<in> set SUPPORTED_OUTBOX_EVENT_TYPES"
    and "set FORBIDDEN_OUTBOX_PAYLOAD_KEYS \<inter> set (d_keys p) = {}" "\<not> blank key" "lineage_built lin"
  shows "\<exists>s'. act_bind (append_outbox_event ty agg t p key lin) (\<lambda>_. act_return a) s = (Inr a, s') \<and>
    with_events s s' \<and> event_waiting ty agg s'"
proof -
  obtain s' where s': "append_outbox_event ty agg t p key lin s = (Inr (), s')" "with_events s s'"
      "event_waiting ty agg s'"
    using append_outbox_event_ok[OF assms] by blast
  then show ?thesis by (simp add: act_bind_result(1)[where m = "append_outbox_event ty agg t p key lin", OF s'(1)])
qed

section \<open>Storing a candidate\<close>

lemma evidence_hash_for_well_formed:
  assumes "well_formed_candidate c"
  shows "evidence_hash_for_candidate c = Inr (evidence_hash (ep_source_refs (cd_evidence_packet c)))"
proof -
  have "unique_sources (ep_source_refs (cd_evidence_packet c))"
    using assms by (auto simp: well_formed_candidate_def valid_packet_def evidence_packet_guards_def)
  then show ?thesis by (simp add: evidence_hash_for_candidate_def digest_res_Inr)
qed

lemma version_entry_for_ok:
  assumes "well_formed_candidate c" "is_sha256_digest h" "is_utc t"
  shows "\<exists>v. version_entry_for c h status t = Inr v"
proof -
  have "is_prefix ''sha256:'' h" "\<not> blank h"
    using assms(2) sha256_digest_not_blank by (auto simp: is_sha256_digest_def)
  then show ?thesis
    using assms(1,3)
    by (auto simp: version_entry_for_def Let_def version_entry_guards_def checks_passes well_formed_candidate_def
        valid_identity_iff valid_candidate_iff)
qed

lemma persist_new_stores:
  assumes "well_formed_candidate c" "cd_access_scope c = Some a" "scope_is_authoritative a"
    and "\<not> blank key" "\<not> blank actor" "is_utc (or_else t now)" "lineage_built lin"
    and "tenant_scoped_idempotency_identity (as_tenant_id a) key = Inr k"
    and "d_get (rp_idempotency_records s) k = None" "d_get (rp_candidate_records s) (cd_candidate_id c) = None"
  shows "\<exists>r au s'. persist_candidate now c key p actor t lin s =
      (Inr \<lparr>cs_decision = Cand_Accepted, cs_record = Some r, cs_audit_event = Some au\<rparr>, s') \<and>
    pn_candidate r = c \<and> pn_evidence_hash r = evidence_hash (ep_source_refs (cd_evidence_packet c)) \<and>
    length (pn_version_history r) = 1 \<and> pn_audit_events r = [au] \<and> pn_lifecycle_history r = [] \<and>
    pn_review_decisions r = [] \<and> pn_feedback_events r = [] \<and> pn_conversion_intents r = [] \<and> pn_conversion_outcomes r = [] \<and>
    rp_candidate_records s' = d_put (cd_candidate_id c) r (rp_candidate_records s) \<and>
    rp_idempotency_records s' =
      d_put k \<lparr>ir_key = key, ir_payload_hash = payload_fingerprint p\<rparr> (rp_idempotency_records s) \<and>
    rp_idempotency_candidates s' = d_put k (cd_candidate_id c) (rp_idempotency_candidates s) \<and>
    rp_conversion_intent_candidates s' = rp_conversion_intent_candidates s \<and>
    event_waiting ''idea.candidate.persisted.v1'' (cd_candidate_id c) s'"
proof -
  let ?t = "or_else t now"
  let ?h = "evidence_hash (ep_source_refs (cd_evidence_packet c))"
  let ?ir = "\<lparr>ir_key = key, ir_payload_hash = payload_fingerprint p\<rparr>"
  have t: "aware ?t" using assms(6) by (simp add: is_utc_def aware_def)
  have id: "\<not> blank (cd_candidate_id c)" using assms(1) by (simp add: well_formed_candidate_def valid_candidate_iff)
  have h: "\<not> blank ?h" by (rule sha256_digest_not_blank) simp
  define aud where "aud = mk_audit_event ''idea.candidate.persisted'' actor ''accepted'' ?t
         [(''candidate_family'', family_value (cd_family c)),
          (''lifecycle_status'', lifecycle_value (cd_lifecycle_status c)),
          (''idempotency_decision'', ''accepted'')]"
  obtain au where au: "aud = Inr au"
    using assms(5) t unfolding aud_def
    by (simp add: mk_audit_event_ok blank_iff py_space_def FORBIDDEN_ATTRIBUTE_KEYS_def)
  obtain v where v: "version_entry_for c ?h None ?t = Inr v"
    using version_entry_for_ok[OF assms(1) evidence_hash_shape assms(6)] by blast
  define r where "r = \<lparr>pn_candidate = c, pn_evidence_hash = ?h, pn_persisted_at_utc = ?t,
      pn_version_history = [v], pn_lifecycle_history = [], pn_audit_events = [au],
      pn_review_decisions = [], pn_feedback_events = [], pn_conversion_intents = [],
      pn_conversion_outcomes = [], pn_report_evidence_packs = []\<rparr>"
  have r: "mk_persistence_record r = Inr r"
    using h assms(6) by (simp add: mk_persistence_record_Inr persistence_record_guards_def r_def)
  have ev: "''idea.candidate.persisted.v1'' \<in> set SUPPORTED_OUTBOX_EVENT_TYPES"
    "set FORBIDDEN_OUTBOX_PAYLOAD_KEYS \<inter> set (d_keys (candidate_payload c)) = {}"
    by (simp_all add: SUPPORTED_OUTBOX_EVENT_TYPES_def FORBIDDEN_OUTBOX_PAYLOAD_KEYS_def candidate_payload_def)
  obtain s' where s': "act_bind (append_outbox_event ''idea.candidate.persisted.v1'' (cd_candidate_id c) ?t
      (candidate_payload c) key lin) (\<lambda>_. act_return \<lparr>cs_decision = Cand_Accepted, cs_record = Some r, cs_audit_event = Some au\<rparr>)
      (commit k ?ir (cd_candidate_id c) r s) =
      (Inr \<lparr>cs_decision = Cand_Accepted, cs_record = Some r, cs_audit_event = Some au\<rparr>, s')"
      "with_events (commit k ?ir (cd_candidate_id c) r s) s'"
      "event_waiting ''idea.candidate.persisted.v1'' (cd_candidate_id c) s'"
    using append_then_answer[OF assms(6) id ev assms(4,7), where s = "commit k ?ir (cd_candidate_id c) r s" and
        a = "\<lparr>cs_decision = Cand_Accepted, cs_record = Some r, cs_audit_event = Some au\<rparr>"] by (elim exE conjE)
  have "persist_candidate now c key p actor t lin s = accept_new_candidate c key k ?ir actor ?t lin s"
    using assms(2-6,8-10) by (simp add: persist_candidate_def Let_def evaluate_idempotency_def)
  also have "\<dots> = (Inr \<lparr>cs_decision = Cand_Accepted, cs_record = Some r, cs_audit_event = Some au\<rparr>, s')"
    using s'(1) r
    by (simp add: accept_new_candidate_def aud_def[symmetric] au evidence_hash_for_well_formed[OF assms(1)] v
        r_def[symmetric] act_bind_modified[unfolded act_modify_def] commit_def)
  finally show ?thesis
    using with_events_parts[OF s'(2)] s'(3)
    by (intro exI[of _ r] exI[of _ au] exI[of _ s'] conjI) (simp_all add: r_def)
qed


section \<open>A concrete repository\<close>

definition sample_persisted :: repository where
  "sample_persisted =
     snd (persist_candidate (utc 0) sample_candidate ''key-0'' [] ''service'' None None empty_repository)"

lemma sample_persisted_reached: "repository_step\<^sup>*\<^sup>* empty_repository sample_persisted"
  unfolding sample_persisted_def
  by (rule r_into_rtranclp) (rule repository_step.persist[OF sample_candidate_well_formed])

lemma sample_scope_known: "cd_access_scope sample_candidate = Some sample_scope" "scope_is_authoritative sample_scope"
  by (simp add: sample_candidate_def) code_simp

lemma sample_tenant_key:
  "k \<in> {''key-0'', ''key-1'', ''key-2''} \<Longrightarrow>
     tenant_scoped_idempotency_identity (as_tenant_id sample_scope) k = Inr (''tenant:8:tenant-1'' @ k)"
  by (auto simp: sample_scope_def tenant_scoped_idempotency_identity_def checks_passes blank_iff py_space_def)
    (code_simp)+

lemma sample_persisted_record:
  "\<exists>r. d_get (rp_candidate_records sample_persisted) ''idea-1'' = Some r \<and> pn_candidate r = sample_candidate \<and>
     pn_lifecycle_history r = [] \<and> pn_review_decisions r = [] \<and> pn_feedback_events r = [] \<and>
     d_values (rp_candidate_records sample_persisted) = [r] \<and>
     (\<forall>k. k \<noteq> ''tenant:8:tenant-1key-0'' \<longrightarrow> d_get (rp_idempotency_records sample_persisted) k = None) \<and>
     d_get (rp_idempotency_candidates sample_persisted) ''tenant:8:tenant-1key-0'' = Some ''idea-1''"
proof -
  have e: "rp_candidate_records empty_repository = []" "rp_idempotency_records empty_repository = []"
    "rp_idempotency_candidates empty_repository = []" "cd_candidate_id sample_candidate = ''idea-1''"
    by (simp_all add: empty_repository_def sample_candidate_def)
  have t: "\<not> blank ''key-0''" "\<not> blank ''service''" "is_utc (or_else None (utc 0))" "lineage_built None"
    by (simp_all add: blank_iff py_space_def lineage_built_def)
  have k: "tenant_scoped_idempotency_identity (as_tenant_id sample_scope) ''key-0'' = Inr ''tenant:8:tenant-1key-0''"
    using sample_tenant_key[of "''key-0''"] by simp
  from persist_new_stores[OF sample_candidate_well_formed sample_scope_known t k, of empty_repository "[]"]
  show ?thesis by (auto simp: e sample_persisted_def)
qed


section \<open>What every sequence of operations keeps\<close>

lemma reached_ok: "repository_step\<^sup>*\<^sup>* empty_repository s \<Longrightarrow> repository_ok s"
  using repository_run_ok empty_repository_ok by blast

lemma authority_grant_names:
  "authority_grant_of d = Inr (Some g) \<Longrightarrow>
     gd_action d = Approve_For_Conversion \<and> gr_review_id g = gd_review_id d \<and>
     gr_candidate_evidence g = decision_evidence_identity d"
  by (auto simp: authority_grant_of_def Let_def split: if_splits)

lemma outcome_intent_stored:
  assumes "repository_ok s" "d_get (rp_candidate_records s) c = Some r" "g \<in> set (pn_conversion_outcomes r)"
  shows "\<exists>i \<in> set (pn_conversion_intents r). in_conversion_intent_id (gi_intent i) = go_conversion_intent_id g"
proof -
  have "d_get (rp_conversion_intent_candidates s) (go_conversion_intent_id g) = Some c"
    using assms unfolding repository_ok_def conversion_ids_def by blast
  with assms(1) obtain q where "d_get (rp_candidate_records s) c = Some q" "go_conversion_intent_id g \<in> intent_ids q"
    unfolding repository_ok_def by blast
  with assms(2) show ?thesis by (auto simp: intent_ids_def)
qed

text \<open>C14: whatever sequence of operations led to a repository (results of the domain operations,
  no intent under the id of an intent of another candidate), every stored record is a
  well-formed candidate under its own id; each of its outcomes belongs to one of its intents,
  each intent rests on one of its approvals, the outcomes of an intent are a well-formed
  stream, and the version history advances up to the stored version.\<close>

theorem stored_records_sound:
  assumes "repository_step\<^sup>*\<^sup>* empty_repository s" "d_get (rp_candidate_records s) c = Some r"
  shows "cd_candidate_id (pn_candidate r) = c \<and> well_formed_candidate (pn_candidate r) \<and>
    (\<forall>g \<in> set (pn_conversion_outcomes r). \<exists>i \<in> set (pn_conversion_intents r).
       in_conversion_intent_id (gi_intent i) = go_conversion_intent_id g) \<and>
    (\<forall>i \<in> set (pn_conversion_intents r). \<exists>d \<in> set (pn_review_decisions r). \<exists>g.
       gi_review_authority_grant i = Some g \<and> gd_action d = Approve_For_Conversion \<and>
       gr_review_id g = gd_review_id d \<and> gr_candidate_evidence g = decision_evidence_identity d) \<and>
    (\<forall>i. outcome_stream (outcome_identities_for_intent r i)) \<and> versions_current r"
proof -
  note ok = reached_ok[OF assms(1)]
  note r = ok_record[OF ok assms(2)]
  have "\<exists>d \<in> set (pn_review_decisions r). \<exists>g. gi_review_authority_grant i = Some g \<and>
      gd_action d = Approve_For_Conversion \<and> gr_review_id g = gd_review_id d \<and>
      gr_candidate_evidence g = decision_evidence_identity d" if "i \<in> set (pn_conversion_intents r)" for i
  proof -
    have "intent_backed r i" using r that by (simp add: record_ok_def)
    then show ?thesis unfolding intent_backed_def using authority_grant_names by blast
  qed
  then show ?thesis
    using r outcome_intent_stored[OF ok assms(2)] unfolding record_ok_def by blast
qed

theorem stored_records_sound_witness:
  "\<exists>r. d_get (rp_candidate_records sample_persisted) ''idea-1'' = Some r \<and> versions_current r"
  using sample_persisted_record stored_records_sound[OF sample_persisted_reached] by blast

text \<open>C15: nothing that was recorded is lost: after any further operations (no intent among them
  under the id of an intent of another candidate) a stored record is
  still there, of the same tenant, with every history extended at its end, and every applied
  key is still known with its payload.\<close>

theorem histories_only_grow:
  assumes "repository_step\<^sup>*\<^sup>* empty_repository s" "repository_step\<^sup>*\<^sup>* s t"
    and "d_get (rp_candidate_records s) c = Some r"
  shows "(\<exists>u. d_get (rp_candidate_records t) c = Some u \<and>
      cd_access_scope (pn_candidate u) = cd_access_scope (pn_candidate r) \<and>
      prefix (pn_version_history r) (pn_version_history u) \<and>
      prefix (pn_lifecycle_history r) (pn_lifecycle_history u) \<and>
      prefix (pn_audit_events r) (pn_audit_events u) \<and>
      prefix (pn_review_decisions r) (pn_review_decisions u) \<and>
      prefix (pn_feedback_events r) (pn_feedback_events u) \<and>
      prefix (pn_conversion_intents r) (pn_conversion_intents u) \<and>
      prefix (pn_conversion_outcomes r) (pn_conversion_outcomes u) \<and>
      prefix (pn_report_evidence_packs r) (pn_report_evidence_packs u)) \<and>
    (\<forall>k v. d_get (rp_idempotency_records s) k = Some v \<longrightarrow> d_get (rp_idempotency_records t) k = Some v)"
proof -
  have g: "repository_grows s t" using repository_run_ok[OF assms(2) reached_ok[OF assms(1)]] by blast
  then obtain u where "d_get (rp_candidate_records t) c = Some u" "record_grows r u"
    using assms(3) unfolding repository_grows_def by blast
  then have "d_get (rp_candidate_records t) c = Some u \<and>
      cd_access_scope (pn_candidate u) = cd_access_scope (pn_candidate r) \<and>
      prefix (pn_version_history r) (pn_version_history u) \<and>
      prefix (pn_lifecycle_history r) (pn_lifecycle_history u) \<and>
      prefix (pn_audit_events r) (pn_audit_events u) \<and>
      prefix (pn_review_decisions r) (pn_review_decisions u) \<and>
      prefix (pn_feedback_events r) (pn_feedback_events u) \<and>
      prefix (pn_conversion_intents r) (pn_conversion_intents u) \<and>
      prefix (pn_conversion_outcomes r) (pn_conversion_outcomes u) \<and>
      prefix (pn_report_evidence_packs r) (pn_report_evidence_packs u)"
    by (simp add: record_grows_def)
  moreover have "d_grows (rp_idempotency_records s) (rp_idempotency_records t)"
    using g unfolding repository_grows_def by blast
  ultimately show ?thesis unfolding d_grows_def by blast
qed

theorem histories_only_grow_witness:
  "\<exists>u. d_get (rp_candidate_records (snd (repository_transition_candidate (utc 9) ''idea-1'' Expired ''advisor'' None
     sample_persisted))) ''idea-1'' = Some u"
proof -
  have "repository_step\<^sup>*\<^sup>* sample_persisted
      (snd (repository_transition_candidate (utc 9) ''idea-1'' Expired ''advisor'' None sample_persisted))"
    by (rule r_into_rtranclp) (rule repository_step.transition)
  moreover obtain r where "d_get (rp_candidate_records sample_persisted) ''idea-1'' = Some r"
    using sample_persisted_record by blast
  ultimately show ?thesis using histories_only_grow[OF sample_persisted_reached] by blast
qed

text \<open>An idempotency key of a tenant never answers with a record of another tenant.\<close>

theorem keys_stay_with_tenant:
  assumes "repository_step\<^sup>*\<^sup>* empty_repository s" "record_for_idempotency_key tenant key s = Inr (Some r)"
  shows "\<exists>a. cd_access_scope (pn_candidate r) = Some a \<and> as_tenant_id a = tenant"
proof -
  from assms(2) obtain k c where k: "tenant_scoped_idempotency_identity tenant key = Inr k"
      "d_get (rp_idempotency_candidates s) k = Some c" "d_get (rp_candidate_records s) c = Some r"
    by (auto simp: record_for_idempotency_key_def bind_res_Inr split: option.splits)
  from reached_ok[OF assms(1)] k(2) obtain q a and ir :: idempotency_record where q: "d_get (rp_candidate_records s) c = Some q"
      "cd_access_scope (pn_candidate q) = Some a" "tenant_scoped_idempotency_identity (as_tenant_id a) (ir_key ir) = Inr k"
    unfolding repository_ok_def by blast
  with k(3) have "cd_access_scope (pn_candidate r) = Some a"
      "tenant_scoped_idempotency_identity (as_tenant_id a) (ir_key ir) = Inr k" by simp_all
  then show ?thesis using tenant_identity_determines[OF k(1)] by blast
qed

theorem keys_stay_with_tenant_witness:
  "\<exists>r a. record_for_idempotency_key ''tenant-1'' ''key-0'' sample_persisted = Inr (Some r) \<and>
     cd_access_scope (pn_candidate r) = Some a \<and> as_tenant_id a = ''tenant-1''"
proof -
  obtain r where "record_for_idempotency_key ''tenant-1'' ''key-0'' sample_persisted = Inr (Some r)"
    using sample_persisted_record sample_tenant_key[of "''key-0''"]
    by (auto simp: record_for_idempotency_key_def sample_scope_def)
  with keys_stay_with_tenant[OF sample_persisted_reached this] show ?thesis by blast
qed


section \<open>Recording a transition\<close>

lemma transition_accepted:
  assumes "repository_ok s" "d_get (rp_candidate_records s) c = Some r"
    and "target \<in> ALLOWED_LIFECYCLE_TRANSITIONS (cd_lifecycle_status (pn_candidate r))"
    and "cd_access_scope (pn_candidate r) = Some a" "tenant_scoped_idempotency_identity (as_tenant_id a) key = Inr k"
    and "d_get (rp_idempotency_records s) k = None"
    and "\<not> blank key" "\<not> blank actor" "is_utc t" "lineage_built lin"
  shows "\<exists>u h au s'. record_lifecycle_transition now c target key p actor (Some t) None None rcs lin s =
      (Inr \<lparr>ps_decision = P_Accepted, ps_record = Some u, ps_audit_event = Some au\<rparr>, s') \<and>
    cd_lifecycle_status (pn_candidate u) = target \<and> pn_lifecycle_history u = pn_lifecycle_history r @ [h] \<and>
    lh_source_status h = cd_lifecycle_status (pn_candidate r) \<and> lh_target_status h = target \<and>
    pn_audit_events u = pn_audit_events r @ [au] \<and>
    d_get (rp_candidate_records s') c = Some u \<and>
    d_get (rp_idempotency_records s') k = Some \<lparr>ir_key = key, ir_payload_hash = payload_fingerprint p\<rparr> \<and>
    event_waiting ''idea.lifecycle.transitioned.v1'' c s'"
proof -
  note ok = ok_record[OF assms(1) assms(2)]
  then have r: "cd_candidate_id (pn_candidate r) = c" "valid_candidate (pn_candidate r)"
    "passes (persistence_record_guards r)"
    by (simp_all add: record_ok_def well_formed_candidate_def)
  have c: "\<not> blank c" using r by (simp add: valid_candidate_iff)
  have t: "aware t" using assms(9) by (simp add: is_utc_def aware_def)
  have "aware (or_else (Some t) t)" using t by simp
  from transition_candidate_ok[OF r(2) assms(3) this]
  obtain d where d: "transition_candidate t (pn_candidate r) target (Some t) = Inr d" "cd_lifecycle_status d = target"
    by (metis (no_types, lifting) idea_candidate.simps(4) idea_candidate.select_convs(4) idea_candidate.surjective
        idea_candidate.update_convs(4,5,12))
  let ?ir = "\<lparr>ir_key = key, ir_payload_hash = payload_fingerprint p\<rparr>"
  let ?h = "\<lparr>lh_candidate_id = c, lh_source_status = cd_lifecycle_status (pn_candidate r), lh_target_status = target,
      lh_actor_subject = actor, lh_changed_at_utc = t\<rparr>"
  let ?attrs = "[(''idempotency_decision'', ''accepted''), (''observed_at_utc'', dt_iso t), (''reason_codes'', join '','' rcs)]"
  define aud where "aud = mk_audit_event ''idea.lifecycle.transitioned'' actor ''accepted'' t
      ((''source_status'', lifecycle_value (cd_lifecycle_status (pn_candidate r))) #
       (''target_status'', lifecycle_value target) # ?attrs)"
  obtain au where au: "aud = Inr au"
    using assms(8) t unfolding aud_def
    by (simp add: mk_audit_event_ok blank_iff py_space_def FORBIDDEN_ATTRIBUTE_KEYS_def)
  define u where "u = r\<lparr>pn_candidate := d, pn_lifecycle_history := pn_lifecycle_history r @ [?h],
      pn_audit_events := pn_audit_events r @ [au]\<rparr>"
  have u: "mk_persistence_record u = Inr u"
    using r(3) record_guards_cong[of u r] by (simp add: mk_persistence_record_Inr u_def)
  have tr: "transition_record r target actor t ?attrs s = (Inr (u, au), put_record c u s)"
    using d(1) u c assms(8,9) by (simp add: transition_record_def Let_def r(1) lifecycle_entry_guards_def
        aud_def[symmetric] au u_def[symmetric])
  define pay where "pay = [(''observed_at_utc'', JStr (dt_iso t)),
          (''source_status'', JStr (lifecycle_value (cd_lifecycle_status (pn_candidate r)))),
          (''target_status'', JStr (lifecycle_value target))]"
  define ans where "ans = \<lparr>ps_decision = P_Accepted, ps_record = Some u, ps_audit_event = Some au\<rparr>"
  have ev: "''idea.lifecycle.transitioned.v1'' \<in> set SUPPORTED_OUTBOX_EVENT_TYPES"
    "set FORBIDDEN_OUTBOX_PAYLOAD_KEYS \<inter> set (d_keys pay) = {}"
    by (simp_all add: SUPPORTED_OUTBOX_EVENT_TYPES_def FORBIDDEN_OUTBOX_PAYLOAD_KEYS_def pay_def)
  from append_then_answer[OF assms(9) c ev assms(7,10), of ans "commit k ?ir c u s"]
  obtain s' where s': "act_bind (append_outbox_event ''idea.lifecycle.transitioned.v1'' c t pay key lin)
      (\<lambda>_. act_return ans) (commit k ?ir c u s) = (Inr ans, s')" "with_events (commit k ?ir c u s) s'"
      "event_waiting ''idea.lifecycle.transitioned.v1'' c s'"
    by (elim exE conjE)
  have "accept_lifecycle_transition target key actor t t None rcs lin c r (as_tenant_id a) k ?ir s = (Inr ans, s')"
    using s'(1) by (simp add: accept_lifecycle_transition_def pay_def[symmetric] ans_def[symmetric] commit_def
        act_bind_result(1)[where m = "transition_record r target actor t ?attrs", OF tr])
  then have "record_lifecycle_transition now c target key p actor (Some t) None None rcs lin s = (Inr ans, s')"
    using assms(2,4-9) c
    by (simp add: record_lifecycle_transition_def Let_def keyed_mutation_def stored_record_def candidate_tenant_id_def
        idempotent_mutation_def evaluate_idempotency_def opt_guards_def)
  then show ?thesis
    using with_events_parts[OF s'(2)] s'(3) d(2)
    by (intro exI[of _ u] exI[of _ ?h] exI[of _ au] exI[of _ s'] conjI) (simp_all add: u_def ans_def)
qed

text \<open>An allowed transition of a stored candidate under a new key is accepted: the
  candidate gets the status, one history entry and one audit event, the key is filed and the
  event waits in the outbox.\<close>

theorem transition_recorded:
  assumes "repository_step\<^sup>*\<^sup>* empty_repository s" "d_get (rp_candidate_records s) c = Some r"
    and "target \<in> ALLOWED_LIFECYCLE_TRANSITIONS (cd_lifecycle_status (pn_candidate r))"
    and "cd_access_scope (pn_candidate r) = Some a" "tenant_scoped_idempotency_identity (as_tenant_id a) key = Inr k"
    and "d_get (rp_idempotency_records s) k = None"
    and "\<not> blank key" "\<not> blank actor" "is_utc t" "lineage_built lin"
  shows "\<exists>u h au s'. record_lifecycle_transition now c target key p actor (Some t) None None rcs lin s =
      (Inr \<lparr>ps_decision = P_Accepted, ps_record = Some u, ps_audit_event = Some au\<rparr>, s') \<and>
    cd_lifecycle_status (pn_candidate u) = target \<and> pn_lifecycle_history u = pn_lifecycle_history r @ [h] \<and>
    lh_source_status h = cd_lifecycle_status (pn_candidate r) \<and> lh_target_status h = target \<and>
    pn_audit_events u = pn_audit_events r @ [au] \<and>
    d_get (rp_candidate_records s') c = Some u \<and>
    d_get (rp_idempotency_records s') k = Some \<lparr>ir_key = key, ir_payload_hash = payload_fingerprint p\<rparr> \<and>
    event_waiting ''idea.lifecycle.transitioned.v1'' c s'"
  by (rule transition_accepted[OF reached_ok[OF assms(1)] assms(2-10)])


text \<open>The guards of the concrete transition, as facts to be used by both witnesses.\<close>

lemma sample_transition_facts:
  "Expired \<in> ALLOWED_LIFECYCLE_TRANSITIONS (cd_lifecycle_status sample_candidate)"
  "tenant_scoped_idempotency_identity (as_tenant_id sample_scope) ''key-1'' = Inr ''tenant:8:tenant-1key-1''"
  "\<not> blank ''key-1''" "\<not> blank ''advisor''" "is_utc (utc 9)" "lineage_built None"
  using sample_tenant_key[of "''key-1''"]
  by (simp_all add: sample_candidate_def blank_iff py_space_def lineage_built_def)

theorem transition_recorded_witness:
  "\<exists>u au s'. record_lifecycle_transition (utc 9) ''idea-1'' Expired ''key-1'' [] ''advisor'' (Some (utc 9)) None None [] None
      sample_persisted = (Inr \<lparr>ps_decision = P_Accepted, ps_record = Some u, ps_audit_event = Some au\<rparr>, s') \<and>
     cd_lifecycle_status (pn_candidate u) = Expired \<and> event_waiting ''idea.lifecycle.transitioned.v1'' ''idea-1'' s'"
proof -
  obtain r where r: "d_get (rp_candidate_records sample_persisted) ''idea-1'' = Some r" "pn_candidate r = sample_candidate"
      "d_get (rp_idempotency_records sample_persisted) ''tenant:8:tenant-1key-1'' = None"
    using sample_persisted_record by auto
  from transition_recorded[OF sample_persisted_reached r(1) _ _ sample_transition_facts(2) r(3) sample_transition_facts(3-6),
      of Expired "utc 9" "[]" "[]"] sample_transition_facts(1) sample_scope_known(1) r(2)
  show ?thesis by metis
qed

section \<open>Keys are applied once\<close>

lemma handle_request_returns:
  assumes "snd (handle_request q s) \<noteq> s" "request_key q t = Some k" "d_get (rp_idempotency_records t) k = Some e"
  shows "\<exists>a. fst (handle_request q t) = Inr a"
proof -
  obtain gs tenant_of rest p where h: "handle_request q =
      keyed_mutation gs (request_record q) tenant_of (ir_key (request_content q)) p rest"
    "tenant_of = record_tenant_id \<or> tenant_of = (\<lambda>r. candidate_tenant_id (pn_candidate r))"
    using handle_request_keyed[of q] by blast
  have "passes gs"
    using keyed_mutation_state[of gs "request_record q" tenant_of "ir_key (request_content q)" p rest s] assms(1) h(1)
    by auto
  moreover have "mutation_key (request_record q) tenant_of (ir_key (request_content q)) t = Some k"
    using assms(2) h(2) mutation_key_tenant by (auto simp: request_key_def)
  ultimately show ?thesis using keyed_mutation_known[OF _ _ assms(3)] h(1) by (metis fst_conv)
qed

lemma applied_key_known:
  assumes "repository_ok s" "admissible q s" "snd (handle_request q s) \<noteq> s" "repository_step\<^sup>*\<^sup>* (snd (handle_request q s)) t"
  shows "\<exists>k. request_key q t = Some k \<and> d_get (rp_idempotency_records t) k = Some (request_content q)"
proof -
  have e: "request_effect q s (snd (handle_request q s))" using handle_request_effect[OF assms(1,2)] .
  then obtain k where k: "request_key q s = Some k" "d_get (rp_idempotency_records (snd (handle_request q s))) k = Some (request_content q)"
    using assms(3) mutation_effect_files unfolding request_effect_def by blast
  have "repository_ok (snd (handle_request q s))" "repository_grows s (snd (handle_request q s))"
    using repository_step_ok[OF repository_step.request[OF assms(2)] assms(1)] by blast+
  with repository_run_ok[OF assms(4)] have g: "repository_grows (snd (handle_request q s)) t" "repository_grows s t"
    using repository_grows_trans by blast+
  show ?thesis using request_key_grows[OF g(2) k(1)] g(1) k(2) unfolding repository_grows_def d_grows_def by blast
qed

text \<open>C16: a mutation that had an effect is answered as replayed when it is repeated later with
  the same key and payload, and changes nothing, whatever other operations of the repository run
  in between on results of the domain operations, provided that no conversion intent among all of them carries the id of an intent
  already filed for another candidate: that is what \<open>admissible\<close> asks of the runs, since
  \<open>persistence.py:652\<close> files such an id for the new candidate without checking that it is free,
  and a repeated outcome would then reach another record.\<close>

theorem mutation_applied_once:
  assumes "repository_step\<^sup>*\<^sup>* empty_repository s" "admissible q s" "snd (handle_request q s) \<noteq> s"
    and "repository_step\<^sup>*\<^sup>* (snd (handle_request q s)) t"
  shows "\<exists>a. handle_request q t = (Inr a, t) \<and> ps_decision a = P_Replayed"
proof -
  note ok = reached_ok[OF assms(1)]
  obtain k where "request_key q t = Some k" "d_get (rp_idempotency_records t) k = Some (request_content q)"
    using applied_key_known[OF ok assms(2-4)] by blast
  from handle_request_returns[OF assms(3) this] obtain a where "fst (handle_request q t) = Inr a" by blast
  with keyed.applied_once[OF ok assms(2-4)] show ?thesis by (metis prod.collapse)
qed

text \<open>A key that was used for one mutation answers every later one: another mutation
  filed under the same key changes nothing and, if its arguments are valid, is answered as
  replayed when its payload has the same fingerprint and as a conflict otherwise.\<close>

theorem used_key_answers:
  assumes "repository_step\<^sup>*\<^sup>* empty_repository s" "admissible q s" "snd (handle_request q s) \<noteq> s"
    and "repository_step\<^sup>*\<^sup>* (snd (handle_request q s)) t" "request_key w t = request_key q s"
  shows "snd (handle_request w t) = t \<and> (\<forall>a. fst (handle_request w t) = Inr a \<longrightarrow>
    ps_decision a = (if request_content w = request_content q then P_Replayed else P_Conflict))"
proof (cases "request_content w = request_content q")
  case False
  then show ?thesis using keyed.key_taken[OF reached_ok[OF assms(1)] assms(2-5)] by auto
next
  case True
  obtain k where "request_key q t = Some k" "d_get (rp_idempotency_records t) k = Some (request_content q)"
    using applied_key_known[OF reached_ok[OF assms(1)] assms(2-4)] by blast
  moreover have "request_key q t = request_key q s"
  proof -
    note st = repository_step_ok[OF repository_step.request[OF assms(2)] reached_ok[OF assms(1)]]
    have "repository_grows s t" using st repository_run_ok[OF assms(4)] repository_grows_trans by blast
    moreover obtain k' where "request_key q s = Some k'"
      using handle_request_effect[OF reached_ok[OF assms(1)] assms(2)] assms(3) unfolding request_effect_def by blast
    ultimately show ?thesis using request_key_grows by simp
  qed
  ultimately show ?thesis using handle_request_known[of w t k "request_content q"] assms(5) True by auto
qed

text \<open>A transition that has an effect on the concrete repository.\<close>

definition sample_transition :: "(string, json) dict \<Rightarrow> repository_request" where
  "sample_transition p =
     Transition_Request (utc 9) ''idea-1'' Expired ''key-1'' p ''advisor'' (Some (utc 9)) None None [] None"


lemma sample_transition_effect:
  "snd (handle_request (sample_transition p) sample_persisted) \<noteq> sample_persisted"
proof -
  obtain r where r: "d_get (rp_candidate_records sample_persisted) ''idea-1'' = Some r" "pn_candidate r = sample_candidate"
      "d_get (rp_idempotency_records sample_persisted) ''tenant:8:tenant-1key-1'' = None"
    using sample_persisted_record by auto
  have c: "Expired \<in> ALLOWED_LIFECYCLE_TRANSITIONS (cd_lifecycle_status (pn_candidate r))"
    "cd_access_scope (pn_candidate r) = Some sample_scope"
    using r(2) sample_transition_facts(1) sample_scope_known(1) by simp_all
  from transition_accepted[OF reached_ok[OF sample_persisted_reached] r(1) c sample_transition_facts(2) r(3)
      sample_transition_facts(3-6), of "utc 9" p "[]"]
  obtain x s' where s': "handle_request (sample_transition p) sample_persisted = (x, s')"
      "d_get (rp_idempotency_records s') ''tenant:8:tenant-1key-1'' \<noteq> None"
    by (auto simp: sample_transition_def)
  with r(3) show ?thesis by auto
qed

theorem mutation_applied_once_witness:
  "\<exists>a. handle_request (sample_transition []) (snd (handle_request (sample_transition []) sample_persisted)) =
     (Inr a, snd (handle_request (sample_transition []) sample_persisted)) \<and> ps_decision a = P_Replayed"
  by (rule mutation_applied_once[OF sample_persisted_reached _ sample_transition_effect rtranclp.rtrancl_refl])
    (simp add: sample_transition_def)

theorem used_key_answers_witness:
  "snd (handle_request (Transition_Request (utc 9) ''idea-1'' Rejected ''key-1'' [] ''advisor'' None None None [] None)
      (snd (handle_request (sample_transition []) sample_persisted))) =
     snd (handle_request (sample_transition []) sample_persisted)"
proof -
  let ?w = "Transition_Request (utc 9) ''idea-1'' Rejected ''key-1'' [] ''advisor'' None None None [] None"
  let ?t = "snd (handle_request (sample_transition []) sample_persisted)"
  have adm: "admissible (sample_transition []) sample_persisted" by (simp add: sample_transition_def)
  obtain k where "request_key (sample_transition []) sample_persisted = Some k"
    using handle_request_effect[OF reached_ok[OF sample_persisted_reached] adm] sample_transition_effect
    unfolding request_effect_def by blast
  then have "request_key ?w ?t = request_key (sample_transition []) sample_persisted"
    using request_key_grows[of sample_persisted ?t "sample_transition []" k]
      repository_step_ok[OF repository_step.request[OF adm] reached_ok[OF sample_persisted_reached]]
    by (simp add: request_key_def sample_transition_def request_record_simps)
  with used_key_answers[OF sample_persisted_reached adm sample_transition_effect rtranclp.rtrancl_refl] show ?thesis by blast
qed


section \<open>A pack without its event\<close>

lemma event_needs_utc:
  assumes "\<not> is_utc t"
  shows "\<exists>e. append_outbox_event ty agg t p key lin s = (Inl e, s)"
  using checks_fails[of "require_aware_utc t ''occurred_at_utc''" "()"] assms
  by (auto simp: append_outbox_event_def build_candidate_outbox_event_def)

text \<open>C23: the domain accepts a report evidence pack whose request time is given in another
  offset than UTC, and the repository stores the pack and the key before it builds the event,
  which refuses such a time. So the caller sees an exception although the pack is stored, no
  event is recorded, and the retry is answered as replayed: the event is lost.\<close>

theorem pack_event_lost:
  assumes "repository_step\<^sup>*\<^sup>* empty_repository s" "d_get (rp_candidate_records s) c = Some r"
    and "pk_candidate_id (kr_evidence_pack q) = c" "\<not> is_utc (pk_requested_at_utc (kr_evidence_pack q))"
    and "cd_access_scope (pn_candidate r) = Some a" "tenant_scoped_idempotency_identity (as_tenant_id a) key = Inr k"
    and "d_get (rp_idempotency_records s) k = None" "\<not> blank key"
  shows "\<exists>e s' u. record_report_evidence_pack q key p lin s = (Inl e, s') \<and>
    d_get (rp_candidate_records s') c = Some u \<and>
    pn_report_evidence_packs u = pn_report_evidence_packs r @ [kr_evidence_pack q] \<and>
    rp_outbox_events s' = rp_outbox_events s \<and>
    (\<exists>b. record_report_evidence_pack q key p lin s' = (Inr b, s') \<and> ps_decision b = P_Replayed)"
proof -
  note ok = ok_record[OF reached_ok[OF assms(1)] assms(2)]
  then have c: "\<not> blank c" by (auto simp: record_ok_def well_formed_candidate_def valid_candidate_iff)
  let ?ir = "\<lparr>ir_key = key, ir_payload_hash = payload_fingerprint p\<rparr>"
  define u where "u = r\<lparr>pn_audit_events := pn_audit_events r @ [kr_audit_event q],
      pn_report_evidence_packs := pn_report_evidence_packs r @ [kr_evidence_pack q]\<rparr>"
  have u: "mk_persistence_record u = Inr u"
    using ok record_guards_cong[of u r] by (simp add: mk_persistence_record_Inr u_def record_ok_def)
  define s' where "s' = (commit k ?ir c u s)\<lparr>rp_report_evidence_pack_candidates :=
      d_put (pk_report_evidence_pack_id (kr_evidence_pack q)) c (rp_report_evidence_pack_candidates s)\<rparr>"
  obtain e where e: "append_outbox_event ''idea.report_evidence_pack.requested.v1'' c
      (pk_requested_at_utc (kr_evidence_pack q)) (pack_payload (kr_evidence_pack q)) key lin s' = (Inl e, s')"
    using event_needs_utc[OF assms(4)] by blast
  have s'_parts: "d_get (rp_candidate_records s') c = Some u" "d_get (rp_idempotency_records s') k = Some ?ir"
    "rp_outbox_events s' = rp_outbox_events s"
    by (simp_all add: s'_def) (simp add: commit_def put_idempotency_def put_record_def)
  have "accept_report_evidence_pack q key lin c r (as_tenant_id a) k ?ir s = (Inl e, s')"
    using e by (simp add: accept_report_evidence_pack_def Let_def u_def[symmetric] u s'_def commit_def
        put_idempotency_def put_record_def act_bind_def)
  then have first: "record_report_evidence_pack q key p lin s = (Inl e, s')"
    using assms(2,3,5-8) c
    by (simp add: record_report_evidence_pack_def Let_def keyed_mutation_def stored_record_def candidate_tenant_id_def
        idempotent_mutation_def evaluate_idempotency_def)
  have "mutation_key (stored_record c) (\<lambda>r. candidate_tenant_id (pn_candidate r)) key s' = Some k"
    using s'_parts(1) assms(5,6) by (simp add: mutation_key_def stored_record_def candidate_tenant_id_def u_def)
  from keyed_mutation_known[OF _ this s'_parts(2),
      of "require_text key ''idempotency_key'' @ require_text c ''candidate_id''" p "accept_report_evidence_pack q key lin"]
  obtain b where "record_report_evidence_pack q key p lin s' = (Inr b, s')" "ps_decision b = P_Replayed"
    using assms(3,8) c by (auto simp: record_report_evidence_pack_def Let_def answer_def)
  with first s'_parts show ?thesis by (auto simp: u_def)
qed


definition sample_pack_command :: pack_command where
  "sample_pack_command =
     \<lparr>pc_report_evidence_pack_id = ''pack-1'', pc_purpose = Audit_Evidence, pc_actor_subject = ''advisor-1'',
      pc_idempotency_key = ''key-2'', pc_reason_codes = [R_High_Cash_Ratio],
      pc_requested_at_utc = \<lparr>wall_us = 3600000500, utc_off = Some 3600000000\<rparr>,
      pc_retention_policy_ref = fst (hd EXTERNAL_POLICY_MAPPINGS), pc_client_ready_publication_requested = False\<rparr>"

lemma sample_pack_guards: "passes (pack_command_guards sample_pack_command)"
  by (simp add: pack_command_guards_def sample_pack_command_def EXTERNAL_POLICY_MAPPINGS_def
      resolve_external_retention_policy_ref_def blank_iff py_space_def aware_def)

lemma sample_converted:
  "\<exists>i. request_conversion_intent sample_approved sample_intent (utc 400) sample_grant = Inr i \<and>
     well_formed_candidate (ia_candidate i) \<and> \<not> blank (in_conversion_intent_id (gi_intent (ia_conversion_intent i))) \<and>
     cd_candidate_id (ia_candidate i) = ''idea-1'' \<and>
     passes (ensure_report_evidence_pack_allowed (ia_candidate i) (ia_conversion_intent i) sample_pack_command)"
proof -
  obtain i where i: "request_conversion_intent sample_approved sample_intent (utc 400) sample_grant = Inr i"
    using sample_intent_accepted by blast
  note d = request_conversion_intentD[OF i]
  have "well_formed_candidate (ia_candidate i)"
    using convertedD(4) sample_approved_well_formed i unfolding converted_def by blast
  moreover have "passes (ensure_report_evidence_pack_allowed (ia_candidate i) (ia_conversion_intent i) sample_pack_command)"
    unfolding passes_pack_allowed d(1,3)
    by (simp add: governed_intent_for_def converted_candidate_def sample_pack_command_def sample_intent_def
        TARGET_SOURCE_AUTHORITIES.simps sample_approved_def)
      (simp add: sample_candidate_def sample_packet_def)
  ultimately show ?thesis
    using i d(1,3)
    by (auto simp: governed_intent_for_def sample_intent_def converted_candidate_def blank_iff py_space_def
        sample_approved_def sample_candidate_def)
qed


theorem pack_event_lost_witness:
  "\<exists>(i :: intent_result) q e s'. request_report_evidence_pack (ia_candidate i) (ia_conversion_intent i) sample_pack_command = Inr q \<and>
     record_report_evidence_pack q ''key-2'' [] None sample_persisted = (Inl e, s') \<and>
     rp_outbox_events s' = rp_outbox_events sample_persisted \<and>
     (\<exists>b. record_report_evidence_pack q ''key-2'' [] None s' = (Inr b, s') \<and> ps_decision b = P_Replayed)"
proof -
  obtain i :: intent_result where i: "well_formed_candidate (ia_candidate i)"
      "\<not> blank (in_conversion_intent_id (gi_intent (ia_conversion_intent i)))" "cd_candidate_id (ia_candidate i) = ''idea-1''"
      "passes (ensure_report_evidence_pack_allowed (ia_candidate i) (ia_conversion_intent i) sample_pack_command)"
    using sample_converted by blast
  obtain q where q: "request_report_evidence_pack (ia_candidate i) (ia_conversion_intent i) sample_pack_command = Inr q"
    using request_report_evidence_pack_ok[OF i(4) sample_pack_guards i(1,2)] by blast
  have k: "kr_evidence_pack q = evidence_pack_for (ia_candidate i) (ia_conversion_intent i) sample_pack_command"
    using request_report_evidence_pack_Inr[OF q] by blast
  have f: "pk_candidate_id (kr_evidence_pack q) = ''idea-1''" "\<not> is_utc (pk_requested_at_utc (kr_evidence_pack q))"
    using i(3) by (simp_all add: k evidence_pack_for_def sample_pack_command_def is_utc_def)
  obtain r where r: "d_get (rp_candidate_records sample_persisted) ''idea-1'' = Some r"
      "cd_access_scope (pn_candidate r) = Some sample_scope"
      "d_get (rp_idempotency_records sample_persisted) ''tenant:8:tenant-1key-2'' = None"
    using sample_persisted_record sample_scope_known(1) by auto
  have t: "tenant_scoped_idempotency_identity (as_tenant_id sample_scope) ''key-2'' = Inr ''tenant:8:tenant-1key-2''"
    "\<not> blank ''key-2''"
    using sample_tenant_key[of "''key-2''"] by (simp_all add: blank_iff py_space_def)
  from pack_event_lost[OF sample_persisted_reached r(1) f r(2) t(1) r(3) t(2), of "[]" None] q
  show ?thesis by blast
qed

section \<open>Granted packs\<close>

text \<open>C24: a valid pack command on a well-formed candidate is granted exactly when it asks for
  no publication, the intent is one for a report on this candidate, the candidate was converted
  to a report and is still approved, and its evidence is ready and the one of the intent; the
  pack then carries the evidence of the intent and is a request only.\<close>

theorem pack_granted_iff:
  assumes "well_formed_candidate c" "passes (pack_command_guards w)" "\<not> blank (in_conversion_intent_id (gi_intent i))"
  shows "((\<exists>q. request_report_evidence_pack c i w = Inr q) \<longleftrightarrow>
      \<not> pc_client_ready_publication_requested w \<and> in_target (gi_intent i) = Report_Evidence \<and>
      in_candidate_id (gi_intent i) = cd_candidate_id c \<and> gi_target_source_authority i = Lotus_Report \<and>
      cd_lifecycle_status c = Converted_To_Report \<and> cd_review_posture c = Approved_For_Conversion \<and>
      ep_supportability (cd_evidence_packet c) = Support_Ready \<and>
      ln_content_hash (ep_lineage_ref (cd_evidence_packet c)) = gi_evidence_content_hash i) \<and>
    (\<forall>q. request_report_evidence_pack c i w = Inr q \<longrightarrow>
      pk_evidence_content_hash (kr_evidence_pack q) = gi_evidence_content_hash i \<and>
      pk_candidate_id (kr_evidence_pack q) = cd_candidate_id c \<and> pk_boundary (kr_evidence_pack q) = Request_Only)"
proof -
  have "(\<exists>q. request_report_evidence_pack c i w = Inr q) \<longleftrightarrow> passes (ensure_report_evidence_pack_allowed c i w)"
    using request_report_evidence_pack_ok[OF _ assms(2,1,3)] request_report_evidence_pack_Inr by blast
  moreover have "pk_candidate_id (kr_evidence_pack q) = cd_candidate_id c" if "request_report_evidence_pack c i w = Inr q" for q
    using request_report_evidence_pack_Inr[OF that] by (simp add: evidence_pack_for_def)
  ultimately show ?thesis using granted_pack_evidence(1,4)[of c i w] unfolding passes_pack_allowed by blast
qed

theorem pack_granted_iff_witness:
  "\<exists>(i :: intent_result) q. request_report_evidence_pack (ia_candidate i) (ia_conversion_intent i) sample_pack_command = Inr q \<and>
     pk_boundary (kr_evidence_pack q) = Request_Only"
proof -
  obtain i :: intent_result where i: "well_formed_candidate (ia_candidate i)"
      "\<not> blank (in_conversion_intent_id (gi_intent (ia_conversion_intent i)))"
      "passes (ensure_report_evidence_pack_allowed (ia_candidate i) (ia_conversion_intent i) sample_pack_command)"
    using sample_converted by blast
  from pack_granted_iff[OF i(1) sample_pack_guards i(2)] i(3)[unfolded passes_pack_allowed] show ?thesis by blast
qed


section \<open>From approval to a stored conversion\<close>

lemma keyed_mutation_new:
  assumes "passes gs" "locate s = Some (c, r)" "tenant_of r = Inr t" "tenant_scoped_idempotency_identity t key = Inr k"
    and "d_get (rp_idempotency_records s) k = None"
  shows "keyed_mutation gs locate tenant_of key p rest s =
    rest c r t k \<lparr>ir_key = key, ir_payload_hash = payload_fingerprint p\<rparr> s"
  using assms by (simp add: keyed_mutation_def idempotent_mutation_def evaluate_idempotency_def)

lemma history_after_mutation_ok:
  assumes "\<not> blank c" "\<not> blank actor" "is_utc t"
  shows "\<exists>h. history_after_mutation r d c actor t = Inr h"
  using assms by (auto simp: history_after_mutation_def Let_def lifecycle_entry_guards_def checks_passes)

lemma holds_grant_member:
  "\<forall>d \<in> set ds. is_ok (authority_grant_of d) \<Longrightarrow> d \<in> set ds \<Longrightarrow> authority_grant_of d = Inr (Some g) \<Longrightarrow>
     holds_grant ds g = Inr True"
proof (induction ds)
  case (Cons x xs)
  then obtain y where "authority_grant_of x = Inr y" by (auto simp: is_ok_iff)
  then show ?case using Cons by (cases "d = x") auto
qed simp

lemma review_accepted:
  assumes "repository_ok s" "d_get (rp_candidate_records s) c = Some r" "ra_source_candidate q = pn_candidate r"
    and "apply_review_action (pn_candidate r) w t receipt policy = Inr q"
    and "cd_access_scope (pn_candidate r) = Some a" "tenant_scoped_idempotency_identity (as_tenant_id a) key = Inr k"
    and "d_get (rp_idempotency_records s) k = None" "\<not> blank key" "lineage_built lin"
    and "review_mutation_from_decision (ra_decision q) = Inr m"
    and "review_identity_record (d_values (rp_candidate_records s)) m = Inr None"
  shows "\<exists>u s'. record_review_action q key p lin s =
      (Inr \<lparr>ps_decision = P_Accepted, ps_record = Some u, ps_audit_event = Some (ra_audit_event q)\<rparr>, s') \<and>
    pn_candidate u = ra_candidate q \<and> pn_review_decisions u = pn_review_decisions r @ [ra_decision q] \<and>
    rp_candidate_records s' = d_put c u (rp_candidate_records s) \<and>
    rp_idempotency_records s' = d_put k \<lparr>ir_key = key, ir_payload_hash = payload_fingerprint p\<rparr> (rp_idempotency_records s) \<and>
    rp_conversion_intent_candidates s' = rp_conversion_intent_candidates s \<and>
    event_waiting ''idea.review.decision_recorded.v1'' c s'"
proof -
  note ok = ok_record[OF assms(1,2)]
  then have r: "cd_candidate_id (pn_candidate r) = c" "\<not> blank c" "passes (persistence_record_guards r)"
    by (auto simp: record_ok_def well_formed_candidate_def valid_candidate_iff)
  let ?ir = "\<lparr>ir_key = key, ir_payload_hash = payload_fingerprint p\<rparr>"
  obtain digest where g: "passes (governed_decision_guards (ra_decision q))" "is_utc t"
    "ra_decision q = governed_decision_for (pn_candidate r) w t digest policy"
    by (rule apply_review_actionD[OF assms(4)]) simp
  have d: "gd_candidate_id (ra_decision q) = c" "gd_accepted_at_utc (ra_decision q) = t"
    "\<not> blank (gd_actor_subject (ra_decision q))"
    using g r(1) by (simp_all add: governed_decision_for_def governed_decision_guards_def)
  obtain h where h: "history_after_mutation r (ra_candidate q) c (gd_actor_subject (ra_decision q)) t = Inr h"
    using history_after_mutation_ok[OF r(2) d(3) g(2)] by blast
  define u where "u = r\<lparr>pn_candidate := ra_candidate q, pn_lifecycle_history := h,
      pn_audit_events := pn_audit_events r @ [ra_audit_event q],
      pn_review_decisions := pn_review_decisions r @ [ra_decision q]\<rparr>"
  have u: "mk_persistence_record u = Inr u"
    using r(3) record_guards_cong[of u r] by (simp add: mk_persistence_record_Inr u_def)
  define ans where "ans = \<lparr>ps_decision = P_Accepted, ps_record = Some u, ps_audit_event = Some (ra_audit_event q)\<rparr>"
  have ev: "''idea.review.decision_recorded.v1'' \<in> set SUPPORTED_OUTBOX_EVENT_TYPES"
    "set FORBIDDEN_OUTBOX_PAYLOAD_KEYS \<inter> set (d_keys (review_payload q)) = {}"
    by (simp_all add: SUPPORTED_OUTBOX_EVENT_TYPES_def FORBIDDEN_OUTBOX_PAYLOAD_KEYS_def review_payload_def)
  from append_then_answer[OF g(2) r(2) ev assms(8,9), of ans "commit k ?ir c u s"]
  obtain s' where s': "act_bind (append_outbox_event ''idea.review.decision_recorded.v1'' c t (review_payload q) key lin)
      (\<lambda>_. act_return ans) (commit k ?ir c u s) = (Inr ans, s')" "with_events (commit k ?ir c u s) s'"
      "event_waiting ''idea.review.decision_recorded.v1'' c s'"
    by (elim exE conjE)
  have none: "review_identity_result m key ir tn s = (Inr None, s)" for ir tn
    using assms(11) by (simp add: review_identity_result_def)
  have "accept_review_action q key lin c r (as_tenant_id a) k ?ir s = (Inr ans, s')"
    using s'(1) by (simp add: accept_review_action_def assms(3,10) d h u u_def[symmetric] ans_def[symmetric] commit_def
        act_bind_result(1)[where m = "review_identity_result m key ?ir (as_tenant_id a)", OF none])
  then have "record_review_action q key p lin s = (Inr ans, s')"
    using assms(2,5-8) d r(2)
    by (simp add: record_review_action_def Let_def keyed_mutation_new[where c = c and r = r and t = "as_tenant_id a" and k = k]
        record_tenant_id_def)
  then show ?thesis
    using with_events_parts[OF s'(2)] s'(3)
    by (intro exI[of _ u] exI[of _ s'] conjI) (simp_all add: u_def ans_def)
qed


lemma find_append_new: "\<forall>y \<in> set xs. \<not> P y \<Longrightarrow> P x \<Longrightarrow> List.find P (xs @ [x]) = Some x"
  by (induction xs) auto

lemma intent_accepted:
  assumes "repository_ok s" "d_get (rp_candidate_records s) c = Some r"
    and "request_conversion_intent (pn_candidate r) v t g = Inr i"
    and "d \<in> set (pn_review_decisions r)" "authority_grant_of d = Inr (Some g)"
    and "cd_access_scope (pn_candidate r) = Some a"
    and "tenant_scoped_idempotency_identity (as_tenant_id a) (iw_idempotency_key v) = Inr k"
    and "d_get (rp_idempotency_records s) k = None" "lineage_built lin"
    and "d_get (rp_conversion_intent_candidates s) (iw_conversion_intent_id v) = None"
  shows "\<exists>u s'. record_conversion_intent i (iw_idempotency_key v) p lin s =
      (Inr \<lparr>ps_decision = P_Accepted, ps_record = Some u, ps_audit_event = Some (ia_audit_event i)\<rparr>, s') \<and>
    pn_candidate u = ia_candidate i \<and> d_get (rp_candidate_records s') c = Some u \<and>
    conversion_intent_by_id (iw_conversion_intent_id v) s' = checks (require_text (iw_conversion_intent_id v) ''conversion_intent_id'')
      (Some (ia_conversion_intent i)) \<and>
    event_waiting ''idea.conversion.intent_requested.v1'' c s'"
proof -
  note ok = ok_record[OF assms(1,2)]
  then have r: "cd_candidate_id (pn_candidate r) = c" "\<not> blank c" "passes (persistence_record_guards r)"
    by (auto simp: record_ok_def well_formed_candidate_def valid_candidate_iff)
  let ?i = "ia_conversion_intent i"
  let ?key = "iw_idempotency_key v"
  let ?ir = "\<lparr>ir_key = ?key, ir_payload_hash = payload_fingerprint p\<rparr>"
  note D = request_conversion_intentD[OF assms(3)]
  have key: "\<not> blank ?key" using assms(7) by (simp add: tenant_scoped_idempotency_identity_def split: if_splits)
  have t: "is_utc t"
    using assms(3) unfolding request_conversion_intent_def Let_def bind_checks_Inr bind_res_Inr by auto
  have i: "in_candidate_id (gi_intent ?i) = c" "gi_idempotency_key ?i = ?key" "gi_accepted_at_utc ?i = t"
    "in_conversion_intent_id (gi_intent ?i) = iw_conversion_intent_id v" "gi_review_authority_grant ?i = Some g"
    using D(3) r(1) by (simp_all add: governed_intent_for_def)
  have actor: "\<not> blank (gi_actor_subject ?i)" using D(4) by (simp add: governed_intent_guards_def)
  obtain h where h: "history_after_mutation r (ia_candidate i) c (gi_actor_subject ?i) t = Inr h"
    using history_after_mutation_ok[OF r(2) actor t] by blast
  have held: "approved_authority_held r ?i = Inr True"
    using holds_grant_member[OF _ assms(4,5)] ok i(5) by (simp add: approved_authority_held_def record_ok_def)
  have unknown: "iw_conversion_intent_id v \<notin> intent_ids r"
    using assms(1,2,10) unfolding repository_ok_def conversion_ids_def by fastforce
  define u where "u = r\<lparr>pn_candidate := ia_candidate i, pn_lifecycle_history := h,
      pn_audit_events := pn_audit_events r @ [ia_audit_event i],
      pn_conversion_intents := pn_conversion_intents r @ [?i]\<rparr>"
  have u: "mk_persistence_record u = Inr u"
    using r(3) record_guards_cong[of u r] by (simp add: mk_persistence_record_Inr u_def)
  define ans where "ans = \<lparr>ps_decision = P_Accepted, ps_record = Some u, ps_audit_event = Some (ia_audit_event i)\<rparr>"
  define s1 where "s1 = (commit k ?ir c u s)\<lparr>rp_conversion_intent_candidates :=
      d_put (iw_conversion_intent_id v) c (rp_conversion_intent_candidates s)\<rparr>"
  have ev: "''idea.conversion.intent_requested.v1'' \<in> set SUPPORTED_OUTBOX_EVENT_TYPES"
    "set FORBIDDEN_OUTBOX_PAYLOAD_KEYS \<inter> set (d_keys (intent_payload ?i)) = {}"
    by (simp_all add: SUPPORTED_OUTBOX_EVENT_TYPES_def FORBIDDEN_OUTBOX_PAYLOAD_KEYS_def intent_payload_def)
  from append_then_answer[OF t r(2) ev key assms(9), of ans s1]
  obtain s' where s': "act_bind (append_outbox_event ''idea.conversion.intent_requested.v1'' c t (intent_payload ?i) ?key lin)
      (\<lambda>_. act_return ans) s1 = (Inr ans, s')" "with_events s1 s'"
      "event_waiting ''idea.conversion.intent_requested.v1'' c s'"
    by (elim exE conjE)
  have same: "same_candidate (pn_candidate r) (ia_source_candidate i)" using D(11) by simp
  have "accept_conversion_intent i ?key lin c r (as_tenant_id a) k ?ir s = (Inr ans, s')"
    using s'(1) by (simp add: accept_conversion_intent_def Let_def same held i h u u_def[symmetric] ans_def[symmetric]
        s1_def commit_def put_idempotency_def put_record_def)
  then have "record_conversion_intent i ?key p lin s = (Inr ans, s')"
    using assms(2,6-8) i r(2) key
    by (simp add: record_conversion_intent_def Let_def candidate_tenant_id_def
        keyed_mutation_new[where c = c and r = r and t = "as_tenant_id a" and k = k])
  moreover have parts: "d_get (rp_candidate_records s') c = Some u"
    "d_get (rp_conversion_intent_candidates s') (iw_conversion_intent_id v) = Some c"
    using with_events_parts[OF s'(2)] by (simp_all add: s1_def)
  moreover have "List.find (\<lambda>x. in_conversion_intent_id (gi_intent x) = iw_conversion_intent_id v) (pn_conversion_intents u) = Some ?i"
  proof -
    have "\<forall>y \<in> set (pn_conversion_intents r). in_conversion_intent_id (gi_intent y) \<noteq> iw_conversion_intent_id v"
      using unknown unfolding intent_ids_def by (metis imageI)
    then show ?thesis by (simp add: u_def find_append_new i(4))
  qed
  ultimately show ?thesis
    using s'(3)
    by (intro exI[of _ u] exI[of _ s'] conjI)
      (simp_all add: u_def ans_def conversion_intent_by_id_def record_of_def)
qed


text \<open>C13: an approval leads to a stored conversion: when a review approved the stored
  candidate and a conversion was granted under its authority, recording first the one and then
  the other, under unused keys and identifiers, is accepted both times; afterwards the
  candidate is the converted one, the intent is found under its id, and both events wait.\<close>

theorem approval_leads_to_conversion:
  assumes "repository_step\<^sup>*\<^sup>* empty_repository s" "d_get (rp_candidate_records s) c = Some r"
    and "apply_review_action (pn_candidate r) w t receipt policy = Inr q" "ra_authority_grant q = Some g"
    and "request_conversion_intent (ra_candidate q) v u g = Inr i"
    and "cd_access_scope (pn_candidate r) = Some a"
    and "tenant_scoped_idempotency_identity (as_tenant_id a) key = Inr k" "d_get (rp_idempotency_records s) k = None"
    and "tenant_scoped_idempotency_identity (as_tenant_id a) (iw_idempotency_key v) = Inr l"
    and "d_get (rp_idempotency_records s) l = None" "key \<noteq> iw_idempotency_key v"
    and "d_get (rp_conversion_intent_candidates s) (iw_conversion_intent_id v) = None"
    and "\<not> blank (iw_conversion_intent_id v)" "lineage_built lin" "lineage_built lin'"
    and "review_mutation_from_decision (ra_decision q) = Inr m"
    and "review_identity_record (d_values (rp_candidate_records s)) m = Inr None"
  shows "\<exists>x s1 y s2 z. record_review_action q key p lin s = (Inr x, s1) \<and> ps_decision x = P_Accepted \<and>
    event_waiting ''idea.review.decision_recorded.v1'' c s1 \<and>
    record_conversion_intent i (iw_idempotency_key v) p' lin' s1 = (Inr y, s2) \<and> ps_decision y = P_Accepted \<and>
    d_get (rp_candidate_records s2) c = Some z \<and> pn_candidate z = ia_candidate i \<and>
    conversion_intent_by_id (iw_conversion_intent_id v) s2 = Inr (Some (ia_conversion_intent i)) \<and>
    event_waiting ''idea.conversion.intent_requested.v1'' c s2"
proof -
  note ok = reached_ok[OF assms(1)]
  have c: "cd_candidate_id (pn_candidate r) = c" "well_formed_candidate (pn_candidate r)"
    using ok_record[OF ok assms(2)] by (simp_all add: record_ok_def)
  have rev: "reviewed q" using assms(3) c(2) unfolding reviewed_def by blast
  have src: "ra_source_candidate q = pn_candidate r" by (rule apply_review_actionD[OF assms(3)]) simp
  note D = reviewedD[OF rev]
  have key: "\<not> blank key" using assms(7) by (simp add: tenant_scoped_idempotency_identity_def split: if_splits)
  from review_accepted[OF ok assms(2) src assms(3,6,7,8) key assms(14,16,17), of p]
  obtain n s1 where n: "record_review_action q key p lin s =
        (Inr \<lparr>ps_decision = P_Accepted, ps_record = Some n, ps_audit_event = Some (ra_audit_event q)\<rparr>, s1)"
      "pn_candidate n = ra_candidate q" "pn_review_decisions n = pn_review_decisions r @ [ra_decision q]"
      "rp_candidate_records s1 = d_put c n (rp_candidate_records s)"
      "rp_idempotency_records s1 = d_put k \<lparr>ir_key = key, ir_payload_hash = payload_fingerprint p\<rparr> (rp_idempotency_records s)"
      "rp_conversion_intent_candidates s1 = rp_conversion_intent_candidates s"
      "event_waiting ''idea.review.decision_recorded.v1'' c s1"
    by (elim exE conjE)
  have "admissible (Review_Request q key p lin) s" using rev by simp
  from repository_step_ok[OF repository_step.request[OF this] ok] n(1) have ok1: "repository_ok s1" by simp
  have "k \<noteq> l" using tenant_identity_determines[OF assms(7)] assms(9,11) by blast
  then have fresh: "d_get (rp_idempotency_records s1) l = None" "d_get (rp_candidate_records s1) c = Some n"
      "d_get (rp_conversion_intent_candidates s1) (iw_conversion_intent_id v) = None"
    using n(4-6) assms(10,12) by simp_all
  have "cd_access_scope (pn_candidate n) = Some a" using n(2) D(3) src assms(6) by simp
  from intent_accepted[OF ok1 fresh(2) assms(5)[folded n(2)] _ _ this assms(9) fresh(1) assms(15) fresh(3), of "ra_decision q" p']
    n(1,3,7) D(6) assms(4,13) show ?thesis by (fastforce simp: checks_passes)
qed

lemma sample_review_mutation:
  assumes "apply_review_action sample_candidate (sample_review a) t receipt policy = Inr q"
  shows "\<exists>m. review_mutation_from_decision (ra_decision q) = Inr m"
proof -
  obtain digest where "ra_decision q = governed_decision_for sample_candidate (sample_review a) t digest policy"
      "passes (governed_decision_guards (ra_decision q))"
    by (rule apply_review_actionD[OF assms]) simp
  moreover have "rw_review_channel (sample_review a) = Operator_Channel" "rw_presentation_receipt_id (sample_review a) = None"
    by (simp_all add: sample_review_def)
  moreover have "\<not> blank (action_value (rw_action (sample_review a)))"
    by (cases "rw_action (sample_review a)") (simp_all add: blank_iff py_space_def)
  ultimately show ?thesis
    by (simp add: review_mutation_from_decision_def Let_def review_mutation_guards_def governed_decision_guards_def
        governed_decision_for_def checks_passes)
qed

lemma sample_no_intents: "d_get (rp_conversion_intent_candidates sample_persisted) i = None"
proof -
  have t: "\<not> blank ''key-0''" "\<not> blank ''service''" "is_utc (or_else None (utc 0))" "lineage_built None"
    by (simp_all add: blank_iff py_space_def lineage_built_def)
  have k: "tenant_scoped_idempotency_identity (as_tenant_id sample_scope) ''key-0'' = Inr ''tenant:8:tenant-1key-0''"
    using sample_tenant_key[of "''key-0''"] by simp
  have e: "rp_candidate_records empty_repository = []" "rp_idempotency_records empty_repository = []"
    "rp_conversion_intent_candidates empty_repository = []" by (simp_all add: empty_repository_def)
  from persist_new_stores[OF sample_candidate_well_formed sample_scope_known t k, of empty_repository "[]"]
  show ?thesis by (auto simp: e sample_persisted_def)
qed

theorem approval_leads_to_conversion_witness:
  "\<exists>q g i y s2. apply_review_action sample_candidate (sample_review Approve_For_Conversion) (utc 200) None sample_policy = Inr q \<and>
     ra_authority_grant q = Some g \<and> request_conversion_intent (ra_candidate q) sample_intent (utc 400) g = Inr i \<and>
     record_conversion_intent i ''key-1'' [] None (snd (record_review_action q ''key-2'' [] None sample_persisted)) = (Inr y, s2) \<and>
     ps_decision y = P_Accepted \<and> event_waiting ''idea.conversion.intent_requested.v1'' ''idea-1'' s2"
proof -
  obtain q where q: "apply_review_action sample_candidate (sample_review Approve_For_Conversion) (utc 200) None
      sample_policy = Inr q" using sample_review_accepted[of Approve_For_Conversion] by blast
  then have src: "ra_source_candidate q = sample_candidate" by (rule apply_review_actionD) simp
  obtain r where r: "d_get (rp_candidate_records sample_persisted) ''idea-1'' = Some r" "pn_candidate r = sample_candidate"
      "pn_review_decisions r = []" "pn_feedback_events r = []" "d_values (rp_candidate_records sample_persisted) = [r]"
      "d_get (rp_idempotency_records sample_persisted) ''tenant:8:tenant-1key-1'' = None"
      "d_get (rp_idempotency_records sample_persisted) ''tenant:8:tenant-1key-2'' = None"
    using sample_persisted_record by auto
  obtain m where m: "review_mutation_from_decision (ra_decision q) = Inr m" using sample_review_mutation[OF q] by blast
  have none: "review_identity_record (d_values (rp_candidate_records sample_persisted)) m = Inr None"
    by (simp add: r(3-5))
  have w: "rw_action (sample_review Approve_For_Conversion) = Approve_For_Conversion"
    "rw_review_channel (sample_review Approve_For_Conversion) \<noteq> Legacy_Unverified"
    "iw_expected_review_id sample_intent = rw_review_id (sample_review Approve_For_Conversion)"
    "iw_expected_candidate_evidence sample_intent = evidence_identity_of sample_candidate"
    by (simp_all add: sample_review_def sample_intent_def)
  obtain g i where gi: "ra_authority_grant q = Some g" "request_conversion_intent (ra_candidate q) sample_intent (utc 400) g = Inr i"
    using approval_converts[OF q sample_candidate_well_formed w(1,2) sample_intent_guards w(3,4) sample_intent_time[of 400]]
      sample_no_expiry by auto
  have v: "iw_idempotency_key sample_intent = ''key-1''" "iw_conversion_intent_id sample_intent = ''intent-1''"
    "\<not> blank ''intent-1''" by (simp_all add: sample_intent_def blank_iff py_space_def)
  have k: "tenant_scoped_idempotency_identity (as_tenant_id sample_scope) ''key-2'' = Inr ''tenant:8:tenant-1key-2''"
    "tenant_scoped_idempotency_identity (as_tenant_id sample_scope) (iw_idempotency_key sample_intent) = Inr ''tenant:8:tenant-1key-1''"
    using sample_tenant_key[of "''key-2''"] sample_tenant_key[of "''key-1''"] v(1) by simp_all
  have ne: "''key-2'' \<noteq> iw_idempotency_key sample_intent" by (simp add: v)
  have bl: "\<not> blank (iw_conversion_intent_id sample_intent)" using v(2,3) by simp
  have ln: "lineage_built None" by (simp add: lineage_built_def)
  from approval_leads_to_conversion[OF sample_persisted_reached r(1) q[folded r(2)] gi sample_scope_known(1)[folded r(2)]
      k(1) r(7) k(2) r(6) ne sample_no_intents bl ln ln m none, of "[]" "[]"]
  obtain x s1 y s2 where "record_review_action q ''key-2'' [] None sample_persisted = (Inr x, s1)"
      "record_conversion_intent i ''key-1'' [] None s1 = (Inr y, s2)" "ps_decision y = P_Accepted"
      "event_waiting ''idea.conversion.intent_requested.v1'' ''idea-1'' s2"
    unfolding v by blast
  with q gi show ?thesis by (intro exI[of _ q] exI[of _ g] exI[of _ i] exI[of _ y] exI[of _ s2] conjI) simp_all
qed

end
