(* ===== verification/Signal_Models.thy ===== *)
theory Signal_Models
imports Identity Scoring
begin

text \<open>
  What the evaluators of the opportunity families share: decimal values with their text
  (\<open>str(Decimal)\<close> enters the material facts), the temporal contract of the sources
  (\<open>source_temporal.py\<close>), the input fields common to all families and the result of an
  evaluation (\<open>signal_evaluation_models.py\<close>, \<open>signal_evaluation_common.py\<close>), and the
  construction of a signal with its lineage, evidence packet and candidate, which every
  family repeats with its own reason codes, posture, identity and score. The locale
  \<open>signal_evaluator\<close> states what every evaluator promises.
\<close>

section \<open>Decimal values and their text\<close>

text \<open>A finite \<open>Decimal\<close> is a sign, a coefficient and an exponent: \<open>0.3\<close> and \<open>0.30\<close> are
  equal numbers with different text.\<close>

record dec_value =
  dv_negative :: bool
  dv_coefficient :: nat
  dv_exponent :: int

definition dec_rat :: "dec_value \<Rightarrow> decimal" where
  "dec_rat v = (if dv_negative v then - 1 else 1) * of_nat (dv_coefficient v) * pow10 (dv_exponent v)"

definition signed_int_str :: "int \<Rightarrow> string" where
  \<comment> \<open>\<open>"%+d"\<close>\<close>
  "signed_int_str n = (if n < 0 then int_str n else ''+'' @ int_str n)"

definition dec_str :: "dec_value \<Rightarrow> string" where
  "dec_str v =
    (let digits = nat_str (dv_coefficient v); len = int (length digits);
         leftdigits = dv_exponent v + len;
         dotplace = (if dv_exponent v \<le> 0 \<and> - 6 < leftdigits then leftdigits else 1);
         (intpart, fracpart) =
           (if dotplace \<le> 0
            then (''0'', ''.'' @ replicate (nat (- dotplace)) (CHR ''0'') @ digits)
            else if len \<le> dotplace
            then (digits @ replicate (nat (dotplace - len)) (CHR ''0''), [])
            else (take (nat dotplace) digits, ''.'' @ drop (nat dotplace) digits))
     in (if dv_negative v then ''-'' else []) @ intpart @ fracpart @
        (if leftdigits = dotplace then [] else ''E'' @ signed_int_str (leftdigits - dotplace)))"

definition py_str_dec :: "dec_value option \<Rightarrow> string" where
  \<comment> \<open>\<open>str\<close> of an optional decimal\<close>
  "py_str_dec v = (case v of None \<Rightarrow> ''None'' | Some d \<Rightarrow> dec_str d)"

text \<open>Optional values among the material facts.\<close>

definition opt_dec_json :: "dec_value option \<Rightarrow> json" where
  "opt_dec_json v = opt_json (map_option dec_str v)"

definition opt_int_json :: "int option \<Rightarrow> json" where
  "opt_int_json x = (case x of None \<Rightarrow> JNull | Some n \<Rightarrow> JInt n)"

definition opt_bool_json :: "bool option \<Rightarrow> json" where
  "opt_bool_json x = (case x of None \<Rightarrow> JNull | Some b \<Rightarrow> JBool b)"

definition dec_abs :: "decimal \<Rightarrow> decimal" where
  \<comment> \<open>\<open>abs\<close> rounds to the precision of the context\<close>
  "dec_abs x = ctx28 \<bar>x\<bar>"

lemma dec_abs_mono: "\<bar>x\<bar> \<le> \<bar>y\<bar> \<Longrightarrow> dec_abs x \<le> dec_abs y"
  by (simp add: dec_abs_def ctx28_mono)

lemma dec_abs_pos: "x \<noteq> 0 \<Longrightarrow> 0 < dec_abs x"
  by (simp add: dec_abs_def ctx28_pos)

text \<open>\<open>str.upper\<close> on the letters of ASCII.\<close>

definition upper_char :: "char \<Rightarrow> char" where
  "upper_char c = (let n = of_char c :: nat in if 97 \<le> n \<and> n \<le> 122 then char_of (n - 32) else c)"

definition py_upper :: "string \<Rightarrow> string" where
  "py_upper s = map upper_char s"

definition or_empty :: "string option \<Rightarrow> string" where
  \<comment> \<open>\<open>value or ""\<close>\<close>
  "or_empty v = or_else v []"

section \<open>The temporal contract of the sources\<close>

definition SOURCE_TEMPORAL_CONTRACT_VERSION :: string where
  "SOURCE_TEMPORAL_CONTRACT_VERSION = ''idea-source-temporal-v2''"

datatype source_business_date_rule = Exact_Request_Date
datatype source_generated_time_rule = Not_After_Evaluation
datatype source_correction_rule = Content_Hash_Versions_Evidence

record source_temporal_contract =
  tc_contract_version :: string
  tc_family :: opportunity_family
  tc_business_date_rule :: source_business_date_rule
  tc_generated_time_rule :: source_generated_time_rule
  tc_correction_identity_rule :: source_correction_rule

definition source_temporal_contract_for :: "opportunity_family \<Rightarrow> source_temporal_contract" where
  "source_temporal_contract_for f =
     \<lparr>tc_contract_version = SOURCE_TEMPORAL_CONTRACT_VERSION, tc_family = f,
      tc_business_date_rule = Exact_Request_Date, tc_generated_time_rule = Not_After_Evaluation,
      tc_correction_identity_rule = Content_Hash_Versions_Evidence\<rparr>"

fun source_temporal_violation ::
    "opportunity_family \<Rightarrow> py_date \<Rightarrow> py_datetime \<Rightarrow> source_ref list \<Rightarrow>
     (reason_code \<times> unsupported_reason) option"
where
  "source_temporal_violation f as_of evaluated_at [] = None"
| "source_temporal_violation f as_of evaluated_at (r # rs) =
    (let contract = source_temporal_contract_for f in
     if tc_business_date_rule contract = Exact_Request_Date \<and> sr_as_of_date r \<noteq> as_of
     then Some (R_Source_Date_Mismatch, UR_Source_Temporal_Mismatch)
     else if tc_generated_time_rule contract = Not_After_Evaluation \<and>
        dt_less evaluated_at (sr_generated_at_utc r)
     then Some (R_Source_Generated_After_Evaluation, UR_Source_Temporal_Mismatch)
     else source_temporal_violation f as_of evaluated_at rs)"

definition source_in_time :: "py_date \<Rightarrow> py_datetime \<Rightarrow> source_ref \<Rightarrow> bool" where
  "source_in_time as_of evaluated_at r \<longleftrightarrow>
     sr_as_of_date r = as_of \<and> dt_le (sr_generated_at_utc r) evaluated_at"

lemma source_temporal_violation_None:
  "source_temporal_violation f as_of t refs = None \<longleftrightarrow> (\<forall>r \<in> set refs. source_in_time as_of t r)"
  by (induction refs) (auto simp: source_in_time_def Let_def source_temporal_contract_for_def
      source_business_date_rule.nchotomy source_generated_time_rule.nchotomy dt_less_def dt_le_def
      intro: source_business_date_rule.exhaust)

section \<open>Inputs, policies and results\<close>

text \<open>The fields every family's input has; a family's input record extends this one.\<close>

record signal_input =
  ev_as_of_date :: py_date
  ev_evaluated_at_utc :: py_datetime
  ev_entitlement_allowed :: bool
  ev_access_scope :: "access_scope option"

datatype signal_outcome = Signal_Candidate_Created | Signal_Not_Eligible | Signal_Blocked

fun signal_outcome_value :: "signal_outcome \<Rightarrow> string" where
  "signal_outcome_value Signal_Candidate_Created = ''candidate_created''"
| "signal_outcome_value Signal_Not_Eligible = ''not_eligible''"
| "signal_outcome_value Signal_Blocked = ''blocked''"

record signal_result =
  se_outcome :: signal_outcome
  se_family :: opportunity_family
  se_reason_codes :: "reason_code list"
  se_unsupported_reasons :: "unsupported_reason list"
  se_signal :: "opportunity_signal option"
  se_candidate :: "idea_candidate option"

definition blocked_signal_result ::
    "opportunity_family \<Rightarrow> reason_code list \<Rightarrow> unsupported_reason list \<Rightarrow> signal_result" where
  "blocked_signal_result f reasons unsupported =
     \<lparr>se_outcome = Signal_Blocked, se_family = f, se_reason_codes = reasons,
      se_unsupported_reasons = unsupported, se_signal = None, se_candidate = None\<rparr>"

definition not_eligible_signal_result :: "opportunity_family \<Rightarrow> reason_code \<Rightarrow> signal_result" where
  "not_eligible_signal_result f reason =
     \<lparr>se_outcome = Signal_Not_Eligible, se_family = f, se_reason_codes = [reason],
      se_unsupported_reasons = [], se_signal = None, se_candidate = None\<rparr>"

definition temporal_blocked_signal_result ::
    "opportunity_family \<Rightarrow> py_date \<Rightarrow> py_datetime \<Rightarrow> source_ref list \<Rightarrow> signal_result option" where
  "temporal_blocked_signal_result f as_of evaluated_at refs =
    (case source_temporal_violation f as_of evaluated_at refs of
       None \<Rightarrow> None
     | Some (reason, unsupported) \<Rightarrow> Some (blocked_signal_result f [reason] [unsupported]))"

definition validate_timezone_aware_evaluation_time :: "py_datetime \<Rightarrow> guards" where
  "validate_timezone_aware_evaluation_time t = require_aware t ''evaluated_at_utc''"

text \<open>A run of \<open>if ...: return ...\<close> is a list of optional results of which the first
  present one is returned.\<close>

definition result_if :: "bool \<Rightarrow> signal_result \<Rightarrow> signal_result option" where
  "result_if b r = (if b then Some r else None)"

fun first_result :: "signal_result option list \<Rightarrow> signal_result option" where
  "first_result [] = None"
| "first_result (x # xs) = (case x of None \<Rightarrow> first_result xs | Some r \<Rightarrow> Some r)"

definition or_continue :: "signal_result option \<Rightarrow> signal_result res \<Rightarrow> signal_result res" where
  "or_continue x k = (case x of None \<Rightarrow> k | Some r \<Rightarrow> Inr r)"

definition present_refs :: "source_ref option list \<Rightarrow> source_ref list" where
  \<comment> \<open>\<open>tuple(ref for ref in (...) if ref is not None)\<close>\<close>
  "present_refs xs = concat (map (\<lambda>x. case x of None \<Rightarrow> [] | Some r \<Rightarrow> [r]) xs)"

definition any_not_current :: "source_ref list \<Rightarrow> bool" where
  "any_not_current refs \<longleftrightarrow> list_ex (\<lambda>r. sr_freshness r \<noteq> Fresh_Current) refs"

definition denied_result :: "opportunity_family \<Rightarrow> signal_result" where
  "denied_result f = blocked_signal_result f [R_Review_Required] [UR_Entitlement_Denied]"

definition missing_result :: "opportunity_family \<Rightarrow> signal_result" where
  "missing_result f = blocked_signal_result f [R_Source_Partial] [UR_Missing_Source]"

definition stale_result :: "opportunity_family \<Rightarrow> signal_result" where
  "stale_result f = blocked_signal_result f [R_Source_Stale] [UR_Stale_Source]"

definition uncertified_result :: "opportunity_family \<Rightarrow> signal_result" where
  "uncertified_result f = blocked_signal_result f [R_Source_Partial] [UR_Source_Uncertified]"

definition below_materiality_result :: "opportunity_family \<Rightarrow> signal_result" where
  "below_materiality_result f = not_eligible_signal_result f R_Below_Materiality"

section \<open>Scores and candidates of a signal\<close>

definition mk_scoring_input :: "score_component \<Rightarrow> decimal \<Rightarrow> decimal \<Rightarrow> scoring_input res" where
  "mk_scoring_input c v w =
    (let i = \<lparr>si_component = c, si_input_score = v, si_weight = w\<rparr> in checks (scoring_input_guards i) i)"

definition signal_score ::
    "string \<Rightarrow> reason_code list \<Rightarrow> scoring_input list res \<Rightarrow> idea_score res" where
  \<comment> \<open>\<open>score_inputs(inputs, policy=IdeaScoringPolicy(policy_version=...), reason_codes=...)\<close>\<close>
  "signal_score version reasons inputs =
     bind_res inputs (\<lambda>is.
     let p = DEFAULT_SCORING_POLICY\<lparr>sp_policy_version := version\<rparr>
     in bind_res (checks (scoring_policy_guards p) ()) (\<lambda>_. score_inputs is p False reasons))"

definition signal_candidate_result ::
    "opportunity_family \<Rightarrow> review_posture \<Rightarrow> reason_code list \<Rightarrow> 'a signal_input_scheme \<Rightarrow>
     source_ref list \<Rightarrow> py_datetime option \<Rightarrow> opportunity_identity res \<Rightarrow> idea_score res \<Rightarrow>
     signal_result res"
where
  \<comment> \<open>the packet repeats the reason codes of the signal and adds \<open>REVIEW_REQUIRED\<close>\<close>
  "signal_candidate_result f posture reasons i refs expires identity score =
     bind_res identity (\<lambda>idn.
     let s = \<lparr>sg_signal_id = oi_signal_id idn, sg_family = f, sg_source_refs = refs,
              sg_reason_codes = reasons, sg_detected_at_utc = ev_evaluated_at_utc i,
              sg_expires_at_utc = expires\<rparr>;
         l = \<lparr>ln_lineage_id = oi_lineage_id idn, ln_source_refs = refs,
              ln_content_hash = oi_evidence_fingerprint idn\<rparr>;
         p = \<lparr>ep_evidence_packet_id = oi_evidence_packet_id idn, ep_supportability = Support_Ready,
              ep_source_refs = refs, ep_lineage_ref = l,
              ep_reason_codes = reasons @ [R_Review_Required], ep_unsupported_reasons = [],
              ep_created_at_utc = ev_evaluated_at_utc i, ep_applicability_expires_at_utc = expires,
              ep_source_cut_tolerance = None\<rparr>
     in bind_res (checks (opportunity_signal_guards s) ()) (\<lambda>_.
        bind_res (checks (lineage_ref_guards l) ()) (\<lambda>_.
        bind_res (checks (evidence_packet_guards p) ()) (\<lambda>_.
        bind_res (initial_candidate_identity idn) (\<lambda>ci.
        bind_res score (\<lambda>sc.
        bind_res (mk_candidate
          \<lparr>cd_candidate_id = oi_candidate_id idn, cd_identity = ci, cd_family = f,
           cd_lifecycle_status = Generated, cd_review_posture = posture, cd_evidence_packet = p,
           cd_source_signal_ids = [oi_signal_id idn], cd_score = Some sc,
           cd_access_scope = ev_access_scope i, cd_suppression_reason = None,
           cd_created_at_utc = ev_evaluated_at_utc i, cd_updated_at_utc = ev_evaluated_at_utc i\<rparr>)
          (\<lambda>c. Inr \<lparr>se_outcome = Signal_Candidate_Created, se_family = f,
             se_reason_codes = ep_reason_codes p, se_unsupported_reasons = [],
             se_signal = Some s, se_candidate = Some c\<rparr>)))))))"

end
