(* ===== verification/Signal_Interface.thy ===== *)
theory Signal_Interface
imports Signal_Models
begin

text \<open>
  What every evaluator of an opportunity family promises, as the locale
  \<open>signal_evaluator\<close>: an answer carries a candidate exactly when the family's condition
  holds on entitled, present, current and timely sources, the candidate is the one the shared
  construction builds, and a well-posed input always has an answer. The lemmas before it are
  those the families' interpretations share.
\<close>

section \<open>Steps of an evaluation\<close>

definition no_candidate :: "opportunity_family \<Rightarrow> signal_result \<Rightarrow> bool" where
  "no_candidate f r \<longleftrightarrow>
     se_outcome r \<noteq> Signal_Candidate_Created \<and> se_family r = f \<and> se_signal r = None \<and>
     se_candidate r = None"

definition stops_only :: "opportunity_family \<Rightarrow> signal_result option \<Rightarrow> bool" where
  "stops_only f x \<longleftrightarrow> (\<forall>r. x = Some r \<longrightarrow> no_candidate f r)"

lemma no_candidate_results [simp]:
  "no_candidate f (blocked_signal_result f a b)" "no_candidate f (not_eligible_signal_result f c)"
  "no_candidate f (denied_result f)" "no_candidate f (missing_result f)"
  "no_candidate f (stale_result f)" "no_candidate f (uncertified_result f)"
  "no_candidate f (below_materiality_result f)"
  by (simp_all add: no_candidate_def blocked_signal_result_def not_eligible_signal_result_def
      denied_result_def missing_result_def stale_result_def uncertified_result_def
      below_materiality_result_def)

lemma stops_only_simps [simp]:
  "stops_only f None"
  "stops_only f (Some r) \<longleftrightarrow> no_candidate f r"
  "stops_only f (result_if b r) \<longleftrightarrow> (b \<longrightarrow> no_candidate f r)"
  "stops_only f (temporal_blocked_signal_result f d t refs)"
  by (auto simp: stops_only_def result_if_def temporal_blocked_signal_result_def split: option.splits)

lemma stops_only_first_result: "list_all (stops_only f) xs \<Longrightarrow> stops_only f (first_result xs)"
  by (induction xs) (auto simp: stops_only_def split: option.splits)

lemma first_result_None [simp]: "first_result xs = None \<longleftrightarrow> list_all (\<lambda>x. x = None) xs"
  by (induction xs) (auto split: option.splits)

lemma result_if_None [simp]: "result_if b r = None \<longleftrightarrow> \<not> b"
  by (simp add: result_if_def)

lemma or_continue_simps [simp]: "or_continue None k = k" "or_continue (Some r) k = Inr r"
  by (simp_all add: or_continue_def)

lemma or_continue_first:
  "or_continue (first_result xs) (or_continue (first_result ys) k) = or_continue (first_result (xs @ ys)) k"
  by (induction xs) (auto split: option.splits)

declare first_result.simps [simp del]

lemma first_result_step:
  "first_result [] = None"
  "first_result (result_if b x # xs) = (if b then Some x else first_result xs)"
  "first_result (None # xs) = first_result xs"
  "first_result (Some x # xs) = Some x"
  by (simp_all add: first_result.simps result_if_def)

lemma temporal_block_None [simp]:
  "temporal_blocked_signal_result f d t refs = None \<longleftrightarrow> (\<forall>r \<in> set refs. source_in_time d t r)"
  using source_temporal_violation_None[of f d t refs]
  by (auto simp: temporal_blocked_signal_result_def split: option.splits)

section \<open>Sources that can be used\<close>

definition usable_sources :: "'a signal_input_scheme \<Rightarrow> source_ref list \<Rightarrow> bool" where
  "usable_sources i refs \<longleftrightarrow>
     ev_entitlement_allowed i \<and> refs \<noteq> [] \<and>
     (\<forall>r \<in> set refs. source_in_time (ev_as_of_date i) (ev_evaluated_at_utc i) r \<and>
                      sr_freshness r = Fresh_Current)"

lemma any_not_current_iff [simp]:
  "any_not_current refs \<longleftrightarrow> (\<exists>r \<in> set refs. sr_freshness r \<noteq> Fresh_Current)"
  by (simp add: any_not_current_def list_ex_iff)

lemma present_refs_simps [simp]:
  "present_refs [] = []"
  "present_refs (None # xs) = present_refs xs"
  "present_refs (Some r # xs) = r # present_refs xs"
  by (simp_all add: present_refs_def)

lemma present_refs_set: "set (present_refs xs) = {r. Some r \<in> set xs}"
  by (induction xs) (auto simp: present_refs_def split: option.splits)

lemma present_refs_Nil [simp]: "present_refs xs = [] \<longleftrightarrow> (\<forall>r. Some r \<notin> set xs)"
  using present_refs_set[of xs] by auto

lemma present_refs_length: "length (present_refs xs) \<le> length xs"
  by (induction xs) (auto simp: present_refs_def split: option.splits)

lemma present_refs_full: "length (present_refs xs) = length xs \<longleftrightarrow> None \<notin> set xs"
proof (induction xs)
  case (Cons x xs)
  then show ?case using present_refs_length[of xs] by (cases x) auto
qed simp

section \<open>The candidate of a signal\<close>

lemma identity_total:
  assumes "facts \<noteq> []" "refs \<noteq> []" "passes (validate_material_facts facts)" "py_strip kind \<noteq> []"
  shows "\<exists>i. build_opportunity_identity f kind d s facts refs = Inr i"
  using assms by (simp add: build_opportunity_identity_def Let_def build_business_identity_digest_def
      checks_passes py_strip_strip)

lemma identity_texts:
  assumes "build_opportunity_identity f kind d s facts refs = Inr i"
  shows "\<not> blank (oi_candidate_id i)" "\<not> blank (oi_signal_id i)" "\<not> blank (oi_evidence_packet_id i)"
    "\<not> blank (oi_lineage_id i)" "\<not> blank (oi_business_identity_id i)" "refs \<noteq> []"
  using assms
  by (auto simp: build_opportunity_identity_def bind_res_Inr Let_def canonical_digest_def
      build_business_identity_digest_def blank_iff py_space_def split: prod.splits)

lemma identity_digests:
  assumes "build_opportunity_identity f kind d s facts refs = Inr i"
  shows "is_sha256_digest (oi_evidence_fingerprint i)" "is_sha256_digest (oi_material_fingerprint i)"
    "oi_policy_version i = OPPORTUNITY_IDENTITY_POLICY_VERSION"
  using build_opportunity_identityD[OF assms] by metis+

lemma initial_identity_ok:
  assumes "build_opportunity_identity f kind d s facts refs = Inr i"
  shows "\<exists>ci. initial_candidate_identity i = Inr ci"
proof -
  note t = identity_texts[OF assms] identity_digests[OF assms]
  have "is_prefix ''sha256:'' (oi_material_fingerprint i)" "\<not> blank (oi_material_fingerprint i)"
    using t(8) sha256_digest_not_blank by (auto simp: is_sha256_digest_def)
  then show ?thesis using t
    by (simp add: initial_candidate_identity_def candidate_identity_guards_def Let_def checks_passes
        OPPORTUNITY_IDENTITY_POLICY_VERSION_def blank_iff py_space_def)
qed

definition expiry_after :: "py_datetime \<Rightarrow> py_datetime option \<Rightarrow> bool" where
  "expiry_after t x \<longleftrightarrow> (\<forall>e. x = Some e \<longrightarrow> aware e \<and> \<not> dt_le e t)"

lemma signal_candidate_total:
  assumes idn: "build_opportunity_identity f kind d s facts refs = Inr idn"
    and "aware (ev_evaluated_at_utc i)" "unique_sources refs" "reasons \<noteq> []"
    and "expiry_after (ev_evaluated_at_utc i) expires"
    and "candidate_state_is_compatible Generated posture"
  shows "\<exists>r. signal_candidate_result f posture reasons i refs expires (Inr idn) (Inr sc) = Inr r"
proof -
  note t = identity_texts[OF idn] identity_digests[OF idn]
  obtain ci where ci: "initial_candidate_identity idn = Inr ci" using initial_identity_ok[OF idn] by blast
  show ?thesis
    using assms(2-6) t ci
    by (simp add: signal_candidate_result_def Let_def opportunity_signal_guards_def lineage_ref_guards_def
        evidence_packet_guards_def checks_passes expiry_after_def mk_candidate_valid valid_candidate_iff)
qed

definition from_builder ::
    "opportunity_family \<Rightarrow> string \<Rightarrow> review_posture \<Rightarrow> py_datetime option \<Rightarrow>
     'a signal_input_scheme \<Rightarrow> source_ref list \<Rightarrow> signal_result \<Rightarrow> bool" where
  "from_builder f kind posture expires i refs r \<longleftrightarrow>
     (\<exists>reasons facts idn sc.
        build_opportunity_identity f kind (ev_as_of_date i) (ev_access_scope i) facts refs = Inr idn \<and>
        signal_candidate_result f posture reasons i refs expires (Inr idn) (Inr sc) = Inr r)"

lemma from_builderI:
  assumes "signal_candidate_result f posture reasons i refs expires
      (build_opportunity_identity f kind (ev_as_of_date i) (ev_access_scope i) facts refs) score = Inr r"
  shows "from_builder f kind posture expires i refs r"
proof -
  obtain idn where "build_opportunity_identity f kind (ev_as_of_date i) (ev_access_scope i) facts refs = Inr idn"
    using assms by (auto simp: signal_candidate_result_def bind_res_Inr)
  moreover obtain sc where "score = Inr sc"
    using assms by (auto simp: signal_candidate_result_def bind_res_Inr Let_def)
  ultimately show ?thesis using assms unfolding from_builder_def
    by (intro exI[of _ reasons] exI[of _ facts] exI[of _ idn] exI[of _ sc]) simp
qed

text \<open>What a created candidate is, whichever family created it.\<close>

definition detected_candidate ::
    "opportunity_family \<Rightarrow> review_posture \<Rightarrow> py_datetime option \<Rightarrow> 'a signal_input_scheme \<Rightarrow>
     source_ref list \<Rightarrow> opportunity_signal \<Rightarrow> idea_candidate \<Rightarrow> bool"
where
  "detected_candidate f posture expires i refs s c \<longleftrightarrow>
     well_formed_candidate c \<and> cd_family c = f \<and> cd_lifecycle_status c = Generated \<and>
     cd_review_posture c = posture \<and> cd_suppression_reason c = None \<and>
     cd_access_scope c = ev_access_scope i \<and> cd_score c \<noteq> None \<and>
     cd_created_at_utc c = ev_evaluated_at_utc i \<and> cd_updated_at_utc c = ev_evaluated_at_utc i \<and>
     ep_supportability (cd_evidence_packet c) = Support_Ready \<and>
     ep_source_refs (cd_evidence_packet c) = refs \<and>
     ln_source_refs (ep_lineage_ref (cd_evidence_packet c)) = refs \<and>
     ep_applicability_expires_at_utc (cd_evidence_packet c) = expires \<and> sg_expires_at_utc s = expires \<and>
     id_policy_version (cd_identity c) = OPPORTUNITY_IDENTITY_POLICY_VERSION \<and>
     id_material_version (cd_identity c) = 1 \<and> id_evidence_version (cd_identity c) = 1 \<and>
     cd_source_signal_ids c = [sg_signal_id s] \<and> sg_family s = f \<and> sg_source_refs s = refs \<and>
     sg_detected_at_utc s = ev_evaluated_at_utc i"

lemma from_builder_candidate:
  assumes "from_builder f kind posture expires i refs r"
  obtains s c where "se_signal r = Some s" "se_candidate r = Some c" "se_outcome r = Signal_Candidate_Created"
    and "se_family r = f" "se_reason_codes r = ep_reason_codes (cd_evidence_packet c)"
    and "detected_candidate f posture expires i refs s c"
proof -
  obtain reasons facts idn sc where
    idn: "build_opportunity_identity f kind (ev_as_of_date i) (ev_access_scope i) facts refs = Inr idn"
    and r: "signal_candidate_result f posture reasons i refs expires (Inr idn) (Inr sc) = Inr r"
    using assms by (auto simp: from_builder_def)
  show thesis
    by (rule that[of "the (se_signal r)" "the (se_candidate r)"])
      (use r in \<open>auto simp: signal_candidate_result_def bind_res_Inr Let_def mk_candidate_Inr
        initial_candidate_identity_def detected_candidate_def well_formed_candidate_def valid_identity_def
        valid_packet_def identity_digests(3)[OF idn]\<close>)
qed

lemma from_builder_identity:
  assumes "from_builder f kind posture expires i refs r" "se_candidate r = Some c"
  shows "\<exists>b. build_opportunity_business_identity f kind (ev_as_of_date i) (ev_access_scope i) = Inr b \<and>
    cd_candidate_id c = bi_candidate_id b \<and>
    id_business_identity_id (cd_identity c) = bi_business_identity_id b"
proof -
  obtain reasons facts idn sc where
    idn: "build_opportunity_identity f kind (ev_as_of_date i) (ev_access_scope i) facts refs = Inr idn"
    and r: "signal_candidate_result f posture reasons i refs expires (Inr idn) (Inr sc) = Inr r"
    using assms(1) by (auto simp: from_builder_def)
  obtain b where b: "build_opportunity_business_identity f kind (ev_as_of_date i) (ev_access_scope i) = Inr b"
    "oi_candidate_id idn = bi_candidate_id b" "oi_business_identity_id idn = bi_business_identity_id b"
    using build_opportunity_identityD[OF idn] by metis
  have "cd_candidate_id c = oi_candidate_id idn"
    "id_business_identity_id (cd_identity c) = oi_business_identity_id idn"
    using r assms(2) by (auto simp: signal_candidate_result_def bind_res_Inr Let_def mk_candidate_Inr
        initial_candidate_identity_def)
  with b show ?thesis by auto
qed

section \<open>The interface\<close>

definition evaluation_sound ::
    "opportunity_family \<Rightarrow> string \<Rightarrow> review_posture \<Rightarrow> py_datetime option \<Rightarrow>
     'a signal_input_scheme \<Rightarrow> source_ref list \<Rightarrow> bool \<Rightarrow> signal_result \<Rightarrow> bool"
where
  "evaluation_sound f kind posture expires i refs detected r \<longleftrightarrow>
     (if detected then from_builder f kind posture expires i refs r else no_candidate f r)"

text \<open>An evaluation is a time check, the blocks of its sources, the materiality of its value
  and the construction of the candidate, in this order.\<close>

definition staged ::
    "py_datetime \<Rightarrow> signal_result option list \<Rightarrow> signal_result option res \<Rightarrow> signal_result res \<Rightarrow>
     signal_result res"
where
  "staged t blocks materiality create =
     bind_res (checks (validate_timezone_aware_evaluation_time t) ()) (\<lambda>_.
     or_continue (first_result blocks) (bind_res materiality (\<lambda>m. or_continue m create)))"

lemma staged_sound:
  assumes "staged t blocks materiality
      (signal_candidate_result f posture reasons i refs expires
        (build_opportunity_identity f kind (ev_as_of_date i) (ev_access_scope i) facts refs) score) = Inr r"
    and "list_all (stops_only f) blocks" "\<And>x. materiality = Inr x \<Longrightarrow> stops_only f x"
    and "detected \<Longrightarrow> list_all (\<lambda>x. x = None) blocks"
    and "\<And>m. list_all (\<lambda>x. x = None) blocks \<Longrightarrow> materiality = Inr m \<Longrightarrow> detected \<longleftrightarrow> m = None"
  shows "evaluation_sound f kind posture expires i refs detected r"
proof (cases "first_result blocks")
  case (Some b)
  then have "\<not> list_all (\<lambda>x. x = None) blocks" using first_result_None[of blocks] by (metis option.distinct(1))
  moreover have "stops_only f (first_result blocks)" using assms(2) by (rule stops_only_first_result)
  ultimately show ?thesis using Some assms(1,4)
    by (auto simp: staged_def evaluation_sound_def bind_res_Inr stops_only_def)
next
  case None
  then have n: "list_all (\<lambda>x. x = None) blocks" by simp
  from assms(1) None obtain m where m: "materiality = Inr m"
    and k: "or_continue m (signal_candidate_result f posture reasons i refs expires
        (build_opportunity_identity f kind (ev_as_of_date i) (ev_access_scope i) facts refs) score) = Inr r"
    by (auto simp: staged_def bind_res_Inr)
  show ?thesis
  proof (cases m)
    case None
    then show ?thesis using k assms(5)[OF n m] from_builderI by (simp add: evaluation_sound_def)
  next
    case (Some x)
    then show ?thesis using k assms(3)[OF m] assms(5)[OF n m] by (auto simp: evaluation_sound_def stops_only_def)
  qed
qed

lemma staged_answers:
  assumes "aware t" "list_all (\<lambda>x. x = None) blocks \<Longrightarrow> is_ok materiality"
    and "list_all (\<lambda>x. x = None) blocks \<Longrightarrow> materiality = Inr None \<Longrightarrow> is_ok create"
  shows "is_ok (staged t blocks materiality create)"
proof (cases "first_result blocks")
  case None
  then have n: "list_all (\<lambda>x. x = None) blocks" by simp
  then obtain m where m: "materiality = Inr m" using assms(2) by (auto simp: is_ok_iff)
  then show ?thesis
    using assms(1) assms(3)[OF n] None
    by (cases m) (auto simp: staged_def validate_timezone_aware_evaluation_time_def simp del: first_result_None)
next
  case (Some r)
  then show ?thesis
    using assms(1) by (simp add: staged_def validate_timezone_aware_evaluation_time_def)
qed

locale signal_evaluator =
  fixes evaluate :: "'x signal_input_scheme \<Rightarrow> 'p \<Rightarrow> signal_result res"
    and family :: opportunity_family
    and kind :: string
    and posture :: review_posture
    and expires :: "'x signal_input_scheme \<Rightarrow> py_datetime option"
    and source_refs :: "'x signal_input_scheme \<Rightarrow> source_ref list"
    and detects :: "'x signal_input_scheme \<Rightarrow> 'p \<Rightarrow> bool"
    and well_posed :: "'x signal_input_scheme \<Rightarrow> 'p \<Rightarrow> bool"
  assumes sound: "evaluate i p = Inr r \<Longrightarrow>
      evaluation_sound family kind posture (expires i) i (source_refs i) (detects i p) r"
    and answers: "well_posed i p \<Longrightarrow> is_ok (evaluate i p)"
    and usable: "detects i p \<Longrightarrow> usable_sources i (source_refs i)"
begin

lemma created_iff:
  assumes "evaluate i p = Inr r"
  shows "se_outcome r = Signal_Candidate_Created \<longleftrightarrow> detects i p"
    and "se_candidate r \<noteq> None \<longleftrightarrow> detects i p"
  using sound[OF assms] by (auto simp: evaluation_sound_def no_candidate_def elim: from_builder_candidate
      split: if_splits)

lemma candidate_sound:
  assumes "evaluate i p = Inr r" "se_candidate r = Some c"
  shows "\<exists>s. se_signal r = Some s \<and> detected_candidate family posture (expires i) i (source_refs i) s c \<and>
    usable_sources i (source_refs i)"
proof -
  have d: "detects i p" using created_iff(2)[OF assms(1)] assms(2) by simp
  then have "from_builder family kind posture (expires i) i (source_refs i) r"
    using sound[OF assms(1)] by (simp add: evaluation_sound_def)
  then show ?thesis using assms(2) usable[OF d] by (elim from_builder_candidate) auto
qed

lemma stopped:
  assumes "evaluate i p = Inr r" "\<not> detects i p"
  shows "no_candidate family r"
  using sound[OF assms(1)] assms(2) by (simp add: evaluation_sound_def)

lemma family_kept: "evaluate i p = Inr r \<Longrightarrow> se_family r = family"
  using sound[of i p r] by (auto simp: evaluation_sound_def no_candidate_def elim: from_builder_candidate
      split: if_splits)

text \<open>The candidate of a scoped portfolio keeps its identifier from one day to the next.\<close>

lemma same_opportunity:
  assumes "evaluate i p = Inr r" "se_candidate r = Some c"
    and "evaluate j q = Inr r'" "se_candidate r' = Some d"
    and "ev_access_scope i = Some s" "ev_access_scope j = Some s"
  shows "cd_candidate_id c = cd_candidate_id d \<and>
    id_business_identity_id (cd_identity c) = id_business_identity_id (cd_identity d)"
proof -
  have b: "from_builder family kind posture (expires i) i (source_refs i) r"
    "from_builder family kind posture (expires j) j (source_refs j) r'"
    using sound[OF assms(1)] sound[OF assms(3)] created_iff(2)[OF assms(1)] created_iff(2)[OF assms(3)]
      assms(2,4) by (auto simp: evaluation_sound_def)
  show ?thesis
    using from_builder_identity[OF b(1) assms(2)] from_builder_identity[OF b(2) assms(4)] assms(5,6)
      business_identity_scoped[of family kind "ev_as_of_date i" s "ev_as_of_date j"]
    by (auto simp: build_opportunity_business_identity_def)
qed

end

end
