(* ===== verification/Signal_Scores.thy ===== *)
theory Signal_Scores
imports Signal_Interface
begin

text \<open>
  When the score of a signal can be computed. \<open>relative_threshold_score\<close> quantizes before it
  caps, so a value more than some twenty orders of magnitude above its threshold makes the
  decimal context raise; within the scale the score exists, and the weighted inputs of every
  family pass the validators.
\<close>

lemma ctx28_upper: "0 \<le> x \<Longrightarrow> ctx28 x \<le> 10 * x"
proof (cases "x = 0")
  case False
  assume "0 \<le> x"
  with False have x: "0 < x" by simp
  have "ctx28 x \<le> pow10 (exp10 x + 1)" using ctx28_bounds_pos[OF x] by simp
  also have "\<dots> = 10 * pow10 (exp10 x)" by (rule pow10_Suc)
  also have "\<dots> \<le> 10 * x" using exp10_bounds[OF x] by simp
  finally show ?thesis .
qed simp

lemma ctx28_lower: "0 \<le> x \<Longrightarrow> x \<le> 10 * ctx28 x"
proof (cases "x = 0")
  case False
  assume "0 \<le> x"
  with False have x: "0 < x" by simp
  have "x \<le> pow10 (exp10 x + 1)" using exp10_bounds[OF x] by simp
  also have "\<dots> = 10 * pow10 (exp10 x)" by (rule pow10_Suc)
  also have "\<dots> \<le> 10 * ctx28 x" using ctx28_bounds_pos[OF x] by simp
  finally show ?thesis .
qed simp

lemma quantize2_upper: "0 \<le> x \<Longrightarrow> quantize2 x \<le> x + 1"
proof -
  assume x: "0 \<le> x"
  have f: "of_int \<lfloor>x * 100 + 1 / 2\<rfloor> \<le> x * 100 + 1 / 2" by (rule of_int_floor_le)
  have "quantize2 x = of_int \<lfloor>x * 100 + 1 / 2\<rfloor> / 100" using x by (simp add: quantize2_def)
  with f show ?thesis by linarith
qed

text \<open>A value is on the scale of a threshold when it is at most twenty orders of magnitude
  above it.\<close>

definition on_scale :: "decimal \<Rightarrow> decimal \<Rightarrow> bool" where
  "on_scale v t \<longleftrightarrow> v \<le> 10 ^ 20 * t"

lemma relative_threshold_score_ok:
  assumes "0 < t" "t \<le> v" "on_scale v t"
  obtains s where "relative_threshold_score v t = Inr s" "50 \<le> s" "s \<le> 100"
proof -
  define a where "a = dec_sub v t"
  define b where "b = dec_div a t"
  define c where "c = dec_mul 50 b"
  define d where "d = dec_add 50 c"
  have a0: "0 \<le> a" unfolding a_def dec_sub_def using assms by (intro ctx28_nonneg) simp
  have a1: "a \<le> 10 * (v - t)" unfolding a_def dec_sub_def using assms by (intro ctx28_upper) simp
  have "v - t \<le> 10 ^ 20 * t" using assms by (simp add: on_scale_def)
  with a1 have "a \<le> 10 ^ 21 * t" by simp
  then have at: "a / t \<le> 10 ^ 21" using assms(1) by (simp add: divide_le_eq)
  have at0: "0 \<le> a / t" using a0 assms(1) by simp
  have b0: "0 \<le> b" unfolding b_def dec_div_def using at0 by (rule ctx28_nonneg)
  have b1: "b \<le> 10 * (a / t)" unfolding b_def dec_div_def using at0 by (rule ctx28_upper)
  have c0: "0 \<le> c" unfolding c_def dec_mul_def using b0 by (intro ctx28_nonneg) simp
  have c1: "c \<le> 10 * (50 * b)" unfolding c_def dec_mul_def using b0 by (intro ctx28_upper) simp
  have d0: "0 \<le> d" unfolding d_def dec_add_def using c0 by (intro ctx28_nonneg) simp
  have d1: "d \<le> 10 * (50 + c)" unfolding d_def dec_add_def using c0 by (intro ctx28_upper) simp
  have "d \<le> 51 * 10 ^ 24" using at b1 c1 d1 by simp
  then have q: "quantize2 d < 10 ^ 26" using quantize2_upper[OF d0] by simp
  have q0: "0 \<le> quantize2 d" using quantize2_mono[of 0 d] d0 quantize2_of_int[of 0] by simp
  have "relative_threshold_score v t = Inr (min 100 (quantize2 d))"
    using assms q q0
    by (simp add: relative_threshold_score_def quantize_cents_def checks_passes flip: a_def b_def c_def d_def)
  then show thesis using that severity_bounds by blast
qed

lemma dec_abs_on_scale:
  assumes "\<bar>v\<bar> \<le> 10 ^ 18 * \<bar>t\<bar>"
  shows "on_scale (dec_abs v) (dec_abs t)"
proof -
  have "dec_abs v \<le> 10 * \<bar>v\<bar>" unfolding dec_abs_def by (rule ctx28_upper) simp
  moreover have "\<bar>t\<bar> \<le> 10 * dec_abs t" unfolding dec_abs_def by (rule ctx28_lower) simp
  ultimately show ?thesis using assms by (simp add: on_scale_def)
qed

section \<open>Weighted inputs\<close>

lemma mk_scoring_input_ok [simp]:
  "0 \<le> v \<Longrightarrow> v \<le> 100 \<Longrightarrow> 0 \<le> w \<Longrightarrow> w \<le> 1 \<Longrightarrow> c \<noteq> Legacy_Fixed_Policy \<Longrightarrow>
     mk_scoring_input c v w = Inr \<lparr>si_component = c, si_input_score = v, si_weight = w\<rparr>"
  by (simp add: mk_scoring_input_def Let_def passes_scoring_input checks_passes)

lemma signal_score_ok:
  assumes "inputs = Inr ws" "valid_inputs ws" "\<not> blank version"
  obtains s where "signal_score version reasons inputs = Inr s"
    and "is_score s = min 100 (max 0 (quantize2 (dec_sub
        (dec_sum (map (\<lambda>i. quantize2 (dec_mul (si_input_score i) (si_weight i))) ws)) 0)))"
proof -
  let ?p = "DEFAULT_SCORING_POLICY\<lparr>sp_policy_version := version\<rparr>"
  have "passes (scoring_policy_guards ?p)"
    using assms(3) by (simp add: scoring_policy_guards_def DEFAULT_SCORING_POLICY_def)
  then show thesis
    using that score_inputs_ok[OF assms(2), of ?p False reasons] assms(1)
    by (simp add: signal_score_def Let_def checks_passes)
qed

lemma dec_sum_weights:
  "dec_sum [55 / 100, 30 / 100, 15 / 100] = 1"
  "dec_sum [70 / 100, 15 / 100, 15 / 100] = 1"
  "dec_sum [55 / 100, 25 / 100, 10 / 100, 10 / 100] = 1"
  "dec_sum [50 / 100, 30 / 100, 10 / 100, 10 / 100] = 1"
  by code_simp+

lemma current_complete_inputs:
  assumes "0 \<le> m" "m \<le> 100"
  obtains ws where "current_complete_materiality_inputs m = Inr ws" "valid_inputs ws"
    and "map (\<lambda>i. (si_input_score i, si_weight i)) ws =
      [(m, 70 / 100), (100, 15 / 100), (100, 15 / 100)]"
proof -
  let ?ws = "[\<lparr>si_component = Materiality, si_input_score = m, si_weight = 70 / 100\<rparr>,
        \<lparr>si_component = Evidence_Quality, si_input_score = 100, si_weight = 15 / 100\<rparr>,
        \<lparr>si_component = Freshness, si_input_score = 100, si_weight = 15 / 100\<rparr>]"
  have "current_complete_materiality_inputs m = Inr ?ws"
    using assms by (simp add: current_complete_materiality_inputs_def passes_scoring_input checks_passes)
  moreover have "valid_inputs ?ws"
    using assms dec_sum_weights(2) by (simp add: valid_inputs_def passes_scoring_input)
  ultimately show thesis using that by simp
qed

lemma fold_max_in: "xs \<noteq> [] \<Longrightarrow> fold max (tl xs) (hd xs) \<in> set xs" for xs :: "'a::linorder list"
proof -
  have "fold max ys x \<in> set (x # ys)" for x and ys :: "'a list"
  proof (induction ys arbitrary: x)
    case (Cons y ys)
    then show ?case using Cons[of "max y x"] by (auto simp: max_def split: if_splits)
  qed simp
  then show "xs \<noteq> [] \<Longrightarrow> fold max (tl xs) (hd xs) \<in> set xs" by (metis list.collapse)
qed

section \<open>The candidate exists\<close>

lemmas candidate_simps = validate_material_facts_def leaked_keys_def OBSERVATION_ONLY_MATERIAL_FACTS_def
  expiry_after_def candidate_state_defs blank_iff py_space_def py_strip_id

text \<open>What an evaluation relies on besides its policy and its value: an aware evaluation time
  and sources of different products.\<close>

definition posed :: "'a signal_input_scheme \<Rightarrow> source_ref list \<Rightarrow> bool" where
  "posed i refs \<longleftrightarrow> aware (ev_evaluated_at_utc i) \<and> distinct (map source_identity refs)"

lemma candidate_ok:
  assumes "posed i refs" "refs \<noteq> []" "reasons \<noteq> []" "expiry_after (ev_evaluated_at_utc i) expires"
    and "candidate_state_is_compatible Generated posture"
    and "facts \<noteq> []" "passes (validate_material_facts facts)" "py_strip kind \<noteq> []"
    and "is_ok score"
  shows "is_ok (signal_candidate_result f posture reasons i refs expires
      (build_opportunity_identity f kind d s facts refs) score)"
proof -
  obtain idn where idn: "build_opportunity_identity f kind d s facts refs = Inr idn"
    using identity_total[OF assms(6,2,7,8)] by blast
  obtain sc where "score = Inr sc" using assms(9) by (auto simp: is_ok_iff)
  then show ?thesis
    using signal_candidate_total[OF idn, of i reasons expires posture sc] assms(1-5)
    by (simp add: idn is_ok_iff posed_def unique_sources_def)
qed

lemma threshold_score_ok:
  assumes "0 < t" "t \<le> v" "on_scale v t" "\<not> blank version"
  shows "is_ok (signal_score version reasons
      (bind_res (relative_threshold_score v t) current_complete_materiality_inputs))"
proof -
  obtain m where m: "relative_threshold_score v t = Inr m" "50 \<le> m" "m \<le> 100"
    using relative_threshold_score_ok[OF assms(1-3)] by blast
  obtain ws where "current_complete_materiality_inputs m = Inr ws" "valid_inputs ws"
    using current_complete_inputs[of m] m by force
  then show ?thesis
    using signal_score_ok[of "current_complete_materiality_inputs m" ws version reasons] m(1) assms(4)
    by (auto simp: is_ok_iff)
qed

end
