(* ===== verification/Signal_Thresholds.thy ===== *)
theory Signal_Thresholds
imports Signal_Scores
begin

text \<open>
  The evaluators of \<open>signal_evaluation.py\<close>: high cash, concentration, underperformance and
  mandate health. Each family has its policy with its guards, its input, the evaluator with
  its steps in the code's order, the score and the identity of its candidate; then the
  condition under which it detects an opportunity and the interpretation of the interface
  \<open>signal_evaluator\<close> that proves it.
\<close>

section \<open>High cash\<close>

record high_cash_policy =
  hcp_policy_version :: string
  hcp_cash_weight_threshold :: decimal

definition high_cash_policy_guards :: "high_cash_policy \<Rightarrow> guards" where
  "high_cash_policy_guards p =
     require_text (hcp_policy_version p) ''policy_version'' @
     [(hcp_cash_weight_threshold p \<le> 0 \<or> 1 < hcp_cash_weight_threshold p,
       ValueError ''cash_weight_threshold must be greater than 0 and at most 1'')]"

record high_cash_input = signal_input +
  hc_source_reported_cash_weight :: "dec_value option"
  hc_portfolio_state_ref :: "source_ref option"
  hc_holdings_ref :: "source_ref option"
  hc_cash_movement_ref :: "source_ref option"
  hc_cashflow_projection_ref :: "source_ref option"

definition high_cash_source_refs :: "high_cash_input \<Rightarrow> source_ref list" where
  "high_cash_source_refs i =
     present_refs [hc_portfolio_state_ref i, hc_holdings_ref i, hc_cash_movement_ref i,
                   hc_cashflow_projection_ref i]"

definition missing_required_sources :: "high_cash_input \<Rightarrow> unsupported_reason list" where
  "missing_required_sources i = replicate (4 - length (high_cash_source_refs i)) UR_Missing_Source"

definition bounded_optional_weight :: "dec_value option \<Rightarrow> string \<Rightarrow> dec_value option res" where
  "bounded_optional_weight v field_name =
    (case v of
       None \<Rightarrow> Inr None
     | Some w \<Rightarrow> checks [(dec_rat w < 0 \<or> 1 < dec_rat w,
                          ValueError (field_name @ '' must be between 0 and 1''))] (Some w))"

definition high_cash_source_block :: "high_cash_input \<Rightarrow> source_ref list \<Rightarrow> signal_result option" where
  "high_cash_source_block i refs = first_result
     [result_if (\<not> ev_entitlement_allowed i) (denied_result High_Cash),
      result_if (missing_required_sources i \<noteq> [])
        (blocked_signal_result High_Cash [R_Source_Partial] (missing_required_sources i)),
      temporal_blocked_signal_result High_Cash (ev_as_of_date i) (ev_evaluated_at_utc i) refs,
      result_if (any_not_current refs) (stale_result High_Cash)]"

definition high_cash_materiality_result ::
    "high_cash_input \<Rightarrow> high_cash_policy \<Rightarrow> signal_result option res" where
  "high_cash_materiality_result i p =
    (case hc_source_reported_cash_weight i of
       None \<Rightarrow> Inr (Some (missing_result High_Cash))
     | Some _ \<Rightarrow>
         bind_res (bounded_optional_weight (hc_source_reported_cash_weight i) ''source_reported_cash_weight'')
           (\<lambda>v. case v of
              None \<Rightarrow> Inr (Some (missing_result High_Cash))
            | Some w \<Rightarrow> Inr (result_if (dec_rat w < hcp_cash_weight_threshold p)
                               (below_materiality_result High_Cash))))"

definition high_cash_score :: "high_cash_input \<Rightarrow> high_cash_policy \<Rightarrow> idea_score res" where
  "high_cash_score i p =
     bind_res (bounded_optional_weight (hc_source_reported_cash_weight i) ''source_reported_cash_weight'')
       (\<lambda>v. case v of
          None \<Rightarrow> Inl (ValueError ''eligible high-cash scoring requires source_reported_cash_weight'')
        | Some w \<Rightarrow>
            signal_score (hcp_policy_version p) [R_High_Cash_Ratio, R_Review_Required]
              (bind_res (relative_threshold_score (dec_rat w) (hcp_cash_weight_threshold p))
                 current_complete_materiality_inputs))"

definition high_cash_identity ::
    "high_cash_input \<Rightarrow> high_cash_policy \<Rightarrow> source_ref list \<Rightarrow> opportunity_identity res" where
  "high_cash_identity i p refs =
     build_opportunity_identity High_Cash ''high_cash'' (ev_as_of_date i) (ev_access_scope i)
       [(''cash_weight'', JStr (py_str_dec (hc_source_reported_cash_weight i))),
        (''policy_version'', JStr (hcp_policy_version p))] refs"

definition high_cash_candidate_created_result ::
    "high_cash_input \<Rightarrow> high_cash_policy \<Rightarrow> source_ref list \<Rightarrow> signal_result res" where
  "high_cash_candidate_created_result i p refs =
     signal_candidate_result High_Cash Advisor_Review_Required
       [R_High_Cash_Ratio, R_Cash_Source_Ready] i refs None
       (high_cash_identity i p refs) (high_cash_score i p)"

definition evaluate_high_cash_signal :: "high_cash_input \<Rightarrow> high_cash_policy \<Rightarrow> signal_result res" where
  "evaluate_high_cash_signal i p =
     bind_res (checks (validate_timezone_aware_evaluation_time (ev_evaluated_at_utc i)) ()) (\<lambda>_.
     let refs = high_cash_source_refs i
     in or_continue (high_cash_source_block i refs)
          (bind_res (high_cash_materiality_result i p) (\<lambda>m.
             or_continue m (high_cash_candidate_created_result i p refs))))"

definition high_cash_detects :: "high_cash_input \<Rightarrow> high_cash_policy \<Rightarrow> bool" where
  "high_cash_detects i p \<longleftrightarrow>
     usable_sources i (high_cash_source_refs i) \<and>
     None \<notin> {hc_portfolio_state_ref i, hc_holdings_ref i, hc_cash_movement_ref i,
              hc_cashflow_projection_ref i} \<and>
     (\<exists>w. hc_source_reported_cash_weight i = Some w \<and> hcp_cash_weight_threshold p \<le> dec_rat w)"

definition high_cash_well_posed :: "high_cash_input \<Rightarrow> high_cash_policy \<Rightarrow> bool" where
  "high_cash_well_posed i p \<longleftrightarrow>
     posed i (high_cash_source_refs i) \<and> passes (high_cash_policy_guards p) \<and>
     (\<forall>w. hc_source_reported_cash_weight i = Some w \<longrightarrow>
        0 \<le> dec_rat w \<and> dec_rat w \<le> 1 \<and> on_scale (dec_rat w) (hcp_cash_weight_threshold p))"

lemma high_cash_staged:
  "evaluate_high_cash_signal i p = staged (ev_evaluated_at_utc i)
     [result_if (\<not> ev_entitlement_allowed i) (denied_result High_Cash),
      result_if (missing_required_sources i \<noteq> [])
        (blocked_signal_result High_Cash [R_Source_Partial] (missing_required_sources i)),
      temporal_blocked_signal_result High_Cash (ev_as_of_date i) (ev_evaluated_at_utc i)
        (high_cash_source_refs i),
      result_if (any_not_current (high_cash_source_refs i)) (stale_result High_Cash)]
     (high_cash_materiality_result i p)
     (high_cash_candidate_created_result i p (high_cash_source_refs i))"
  by (simp add: evaluate_high_cash_signal_def staged_def Let_def high_cash_source_block_def
     )

lemma bounded_optional_weight_Inr [simp]:
  "bounded_optional_weight v n = Inr w \<longleftrightarrow> w = v \<and> (\<forall>x. v = Some x \<longrightarrow> 0 \<le> dec_rat x \<and> dec_rat x \<le> 1)"
  by (auto simp: bounded_optional_weight_def split: option.splits)

lemma missing_required_sources_Nil [simp]:
  "missing_required_sources i = [] \<longleftrightarrow>
     None \<notin> {hc_portfolio_state_ref i, hc_holdings_ref i, hc_cash_movement_ref i,
              hc_cashflow_projection_ref i}"
  using present_refs_full[of "[hc_portfolio_state_ref i, hc_holdings_ref i, hc_cash_movement_ref i,
              hc_cashflow_projection_ref i]"]
    present_refs_length[of "[hc_portfolio_state_ref i, hc_holdings_ref i, hc_cash_movement_ref i,
              hc_cashflow_projection_ref i]"]
  by (auto simp: missing_required_sources_def high_cash_source_refs_def)

lemma high_cash_source_refs_Nil:
  "high_cash_source_refs i = [] \<longleftrightarrow>
     {hc_portfolio_state_ref i, hc_holdings_ref i, hc_cash_movement_ref i, hc_cashflow_projection_ref i} = {None}"
  by (cases "hc_portfolio_state_ref i"; cases "hc_holdings_ref i"; cases "hc_cash_movement_ref i";
      cases "hc_cashflow_projection_ref i") (simp_all add: high_cash_source_refs_def)

lemma high_cash_score_ok:
  assumes "high_cash_well_posed i p" "high_cash_materiality_result i p = Inr None"
  shows "is_ok (high_cash_score i p)"
  using assms
  by (auto simp: high_cash_well_posed_def high_cash_policy_guards_def high_cash_materiality_result_def
      bind_res_Inr high_cash_score_def bounded_optional_weight_def checks_passes
      intro!: threshold_score_ok split: option.splits if_splits)

interpretation high_cash: signal_evaluator evaluate_high_cash_signal High_Cash "''high_cash''"
  Advisor_Review_Required "\<lambda>_. None" high_cash_source_refs high_cash_detects high_cash_well_posed
proof
  fix i p r
  assume "evaluate_high_cash_signal i p = Inr r"
  then show "evaluation_sound High_Cash ''high_cash'' Advisor_Review_Required None i
      (high_cash_source_refs i)
      (high_cash_detects i p) r"
    unfolding high_cash_staged high_cash_candidate_created_result_def high_cash_identity_def
    by (rule staged_sound)
      (auto simp: high_cash_detects_def usable_sources_def high_cash_materiality_result_def bind_res_Inr
        high_cash_source_refs_Nil split: option.splits if_splits)
next
  fix i p
  assume "high_cash_well_posed i p"
  then show "is_ok (evaluate_high_cash_signal i p)"
    unfolding high_cash_staged high_cash_candidate_created_result_def high_cash_identity_def
    by (intro staged_answers candidate_ok high_cash_score_ok)
      (auto simp: high_cash_well_posed_def posed_def high_cash_materiality_result_def candidate_simps
        high_cash_source_refs_Nil bounded_optional_weight_def checks_passes split: option.splits)
qed (simp add: high_cash_detects_def)

section \<open>Concentration\<close>

record concentration_policy =
  cnp_policy_version :: string
  cnp_top_position_weight_threshold :: decimal
  cnp_top_issuer_weight_threshold :: decimal

definition concentration_policy_guards :: "concentration_policy \<Rightarrow> guards" where
  "concentration_policy_guards p =
     require_text (cnp_policy_version p) ''policy_version'' @
     map (\<lambda>(field_name, t). (t \<le> 0 \<or> 1 < t,
            ValueError (field_name @ '' must be greater than 0 and at most 1'')))
       [(''top_position_weight_threshold'', cnp_top_position_weight_threshold p),
        (''top_issuer_weight_threshold'', cnp_top_issuer_weight_threshold p)]"

record concentration_input = signal_input +
  cn_top_position_weight_current :: "dec_value option"
  cn_top_issuer_weight_current :: "dec_value option"
  cn_issuer_coverage_status :: "string option"
  cn_concentration_ref :: "source_ref option"

definition concentration_source_refs :: "concentration_input \<Rightarrow> source_ref list" where
  "concentration_source_refs i = present_refs [cn_concentration_ref i]"

definition concentration_pre_source_block :: "concentration_input \<Rightarrow> signal_result option" where
  "concentration_pre_source_block i = first_result
     [result_if (\<not> ev_entitlement_allowed i) (denied_result Concentration),
      result_if (cn_concentration_ref i = None) (missing_result Concentration)]"

definition concentration_source_block ::
    "concentration_input \<Rightarrow> source_ref list \<Rightarrow> signal_result option" where
  "concentration_source_block i refs = first_result
     [temporal_blocked_signal_result Concentration (ev_as_of_date i) (ev_evaluated_at_utc i) refs,
      result_if (any_not_current refs) (stale_result Concentration),
      result_if (cn_issuer_coverage_status i = None) (missing_result Concentration),
      result_if (map_option py_lower (cn_issuer_coverage_status i) \<noteq> Some ''complete'')
        (uncertified_result Concentration)]"

definition weight_below :: "dec_value option \<Rightarrow> decimal \<Rightarrow> bool" where
  "weight_below v t = (case v of None \<Rightarrow> True | Some w \<Rightarrow> dec_rat w < t)"

definition concentration_below_materiality ::
    "dec_value option \<Rightarrow> dec_value option \<Rightarrow> concentration_policy \<Rightarrow> bool" where
  "concentration_below_materiality position issuer p \<longleftrightarrow>
     weight_below position (cnp_top_position_weight_threshold p) \<and>
     weight_below issuer (cnp_top_issuer_weight_threshold p)"

definition concentration_materiality_result ::
    "concentration_input \<Rightarrow> concentration_policy \<Rightarrow> signal_result option res" where
  "concentration_materiality_result i p =
     bind_res (bounded_optional_weight (cn_top_position_weight_current i) ''top_position_weight_current'')
       (\<lambda>position.
     bind_res (bounded_optional_weight (cn_top_issuer_weight_current i) ''top_issuer_weight_current'')
       (\<lambda>issuer. Inr (first_result
          [result_if (position = None \<and> issuer = None) (missing_result Concentration),
           result_if (concentration_below_materiality position issuer p)
             (below_materiality_result Concentration)])))"

definition concentration_breaches ::
    "concentration_input \<Rightarrow> concentration_policy \<Rightarrow> (decimal \<times> decimal) list" where
  "concentration_breaches i p =
     concat (map (\<lambda>(observed, t). case observed of
          None \<Rightarrow> [] | Some w \<Rightarrow> if t \<le> dec_rat w then [(dec_rat w, t)] else [])
       [(cn_top_position_weight_current i, cnp_top_position_weight_threshold p),
        (cn_top_issuer_weight_current i, cnp_top_issuer_weight_threshold p)])"

definition concentration_score :: "concentration_input \<Rightarrow> concentration_policy \<Rightarrow> idea_score res" where
  "concentration_score i p =
     bind_res (map_res (\<lambda>(w, t). relative_threshold_score w t) (concentration_breaches i p)) (\<lambda>scores.
     if scores = [] then Inl (ValueError ''eligible concentration scoring requires a threshold breach'')
     else signal_score (cnp_policy_version p) [R_Concentration_Attention, R_Review_Required]
            (current_complete_materiality_inputs (fold max (tl scores) (hd scores))))"

definition concentration_identity ::
    "concentration_input \<Rightarrow> concentration_policy \<Rightarrow> source_ref list \<Rightarrow> opportunity_identity res" where
  "concentration_identity i p refs =
     build_opportunity_identity Concentration ''concentration'' (ev_as_of_date i) (ev_access_scope i)
       [(''issuer_coverage_status'', opt_json (cn_issuer_coverage_status i)),
        (''policy_version'', JStr (cnp_policy_version p)),
        (''top_issuer_weight_current'', opt_dec_json (cn_top_issuer_weight_current i)),
        (''top_position_weight_current'', opt_dec_json (cn_top_position_weight_current i))] refs"

definition concentration_candidate_created_result ::
    "concentration_input \<Rightarrow> concentration_policy \<Rightarrow> source_ref list \<Rightarrow> signal_result res" where
  "concentration_candidate_created_result i p refs =
     signal_candidate_result Concentration Advisor_Review_Required [R_Concentration_Attention] i refs None
       (concentration_identity i p refs) (concentration_score i p)"

definition evaluate_concentration_risk_signal ::
    "concentration_input \<Rightarrow> concentration_policy \<Rightarrow> signal_result res" where
  "evaluate_concentration_risk_signal i p =
     bind_res (checks (validate_timezone_aware_evaluation_time (ev_evaluated_at_utc i)) ()) (\<lambda>_.
     or_continue (concentration_pre_source_block i)
       (let refs = concentration_source_refs i
        in or_continue (concentration_source_block i refs)
             (bind_res (concentration_materiality_result i p) (\<lambda>m.
                or_continue m (concentration_candidate_created_result i p refs)))))"

definition concentration_detects :: "concentration_input \<Rightarrow> concentration_policy \<Rightarrow> bool" where
  "concentration_detects i p \<longleftrightarrow>
     usable_sources i (concentration_source_refs i) \<and>
     (\<exists>s. cn_issuer_coverage_status i = Some s \<and> py_lower s = ''complete'') \<and>
     concentration_breaches i p \<noteq> []"

definition concentration_well_posed :: "concentration_input \<Rightarrow> concentration_policy \<Rightarrow> bool" where
  "concentration_well_posed i p \<longleftrightarrow>
     posed i (concentration_source_refs i) \<and> passes (concentration_policy_guards p) \<and>
     (\<forall>w. cn_top_position_weight_current i = Some w \<longrightarrow> 0 \<le> dec_rat w \<and> dec_rat w \<le> 1 \<and>
        on_scale (dec_rat w) (cnp_top_position_weight_threshold p)) \<and>
     (\<forall>w. cn_top_issuer_weight_current i = Some w \<longrightarrow> 0 \<le> dec_rat w \<and> dec_rat w \<le> 1 \<and>
        on_scale (dec_rat w) (cnp_top_issuer_weight_threshold p))"

lemma concentration_staged:
  "evaluate_concentration_risk_signal i p = staged (ev_evaluated_at_utc i)
     [result_if (\<not> ev_entitlement_allowed i) (denied_result Concentration),
      result_if (cn_concentration_ref i = None) (missing_result Concentration),
      temporal_blocked_signal_result Concentration (ev_as_of_date i) (ev_evaluated_at_utc i)
        (concentration_source_refs i),
      result_if (any_not_current (concentration_source_refs i)) (stale_result Concentration),
      result_if (cn_issuer_coverage_status i = None) (missing_result Concentration),
      result_if (map_option py_lower (cn_issuer_coverage_status i) \<noteq> Some ''complete'')
        (uncertified_result Concentration)]
     (concentration_materiality_result i p)
     (concentration_candidate_created_result i p (concentration_source_refs i))"
  by (simp add: evaluate_concentration_risk_signal_def staged_def Let_def or_continue_first
      concentration_pre_source_block_def concentration_source_block_def)

lemma concentration_source_refs_Nil [simp]:
  "concentration_source_refs i = [] \<longleftrightarrow> cn_concentration_ref i = None"
  by (cases "cn_concentration_ref i") (simp_all add: concentration_source_refs_def)

lemma concentration_breaches_Nil:
  "concentration_breaches i p = [] \<longleftrightarrow>
     concentration_below_materiality (cn_top_position_weight_current i) (cn_top_issuer_weight_current i) p"
  by (auto simp: concentration_breaches_def concentration_below_materiality_def weight_below_def
      split: option.splits)

lemma concentration_materiality:
  assumes "concentration_materiality_result i p = Inr m"
  shows "m = None \<longleftrightarrow> concentration_breaches i p \<noteq> []" "stops_only Concentration m"
proof -
  have m: "m = first_result
    [result_if (cn_top_position_weight_current i = None \<and> cn_top_issuer_weight_current i = None)
       (missing_result Concentration),
     result_if (concentration_below_materiality (cn_top_position_weight_current i)
       (cn_top_issuer_weight_current i) p) (below_materiality_result Concentration)]"
    using assms by (auto simp: concentration_materiality_result_def bind_res_Inr)
  then show "stops_only Concentration m" by (auto intro: stops_only_first_result)
  show "m = None \<longleftrightarrow> concentration_breaches i p \<noteq> []"
    unfolding concentration_breaches_Nil
    by (auto simp: m concentration_below_materiality_def weight_below_def split: option.splits)
qed

lemma concentration_score_ok:
  assumes "concentration_well_posed i p" "concentration_materiality_result i p = Inr None"
  shows "is_ok (concentration_score i p)"
proof -
  have ne: "concentration_breaches i p \<noteq> []"
    using concentration_materiality(1)[OF assms(2)] by simp
  have b: "0 < t \<and> t \<le> w \<and> on_scale w t" if "(w, t) \<in> set (concentration_breaches i p)" for w t
    using that assms(1)
    by (auto simp: concentration_breaches_def concentration_well_posed_def concentration_policy_guards_def
        split: option.splits if_splits)
  define g where "g = (\<lambda>(w, t). THE s. relative_threshold_score w t = Inr s)"
  have g: "relative_threshold_score w t = Inr (g (w, t)) \<and> 50 \<le> g (w, t) \<and> g (w, t) \<le> 100"
    if "(w, t) \<in> set (concentration_breaches i p)" for w t
    using relative_threshold_score_ok[of t w] b[OF that] by (fastforce simp: g_def)
  let ?ss = "map g (concentration_breaches i p)"
  have "map_res (\<lambda>(w, t). relative_threshold_score w t) (concentration_breaches i p) = Inr ?ss"
    by (rule map_res_total) (use g in auto)
  moreover have "fold max (tl ?ss) (hd ?ss) \<in> set ?ss"
    by (rule fold_max_in) (simp add: ne)
  then have m: "0 \<le> fold max (tl ?ss) (hd ?ss) \<and> fold max (tl ?ss) (hd ?ss) \<le> 100"
    using g by fastforce
  obtain ws where ws: "current_complete_materiality_inputs (fold max (tl ?ss) (hd ?ss)) = Inr ws"
    "valid_inputs ws" using current_complete_inputs m by metis
  moreover have "\<not> blank (cnp_policy_version p)"
    using assms(1) by (simp add: concentration_well_posed_def concentration_policy_guards_def)
  ultimately show ?thesis
    using ne signal_score_ok[OF ws, of "cnp_policy_version p" "[R_Concentration_Attention, R_Review_Required]"]
    by (auto simp: concentration_score_def is_ok_iff)
qed

interpretation concentration: signal_evaluator evaluate_concentration_risk_signal Concentration
  "''concentration''" Advisor_Review_Required "\<lambda>_. None" concentration_source_refs concentration_detects
  concentration_well_posed
proof
  fix i p r
  assume "evaluate_concentration_risk_signal i p = Inr r"
  then show "evaluation_sound Concentration ''concentration'' Advisor_Review_Required None i
      (concentration_source_refs i) (concentration_detects i p) r"
    unfolding concentration_staged concentration_candidate_created_result_def concentration_identity_def
    by (rule staged_sound)
      (auto simp: concentration_detects_def usable_sources_def dest: concentration_materiality)
next
  fix i p
  assume "concentration_well_posed i p"
  then show "is_ok (evaluate_concentration_risk_signal i p)"
    unfolding concentration_staged concentration_candidate_created_result_def concentration_identity_def
    by (intro staged_answers candidate_ok concentration_score_ok)
      (auto simp: concentration_well_posed_def posed_def concentration_materiality_result_def
        candidate_simps bounded_optional_weight_def checks_passes opt_json_def opt_dec_json_def
        split: option.splits)
qed (simp add: concentration_detects_def)

section \<open>Underperformance\<close>

record underperformance_policy =
  upp_policy_version :: string
  upp_active_return_threshold :: decimal

definition underperformance_policy_guards :: "underperformance_policy \<Rightarrow> guards" where
  "underperformance_policy_guards p =
     require_text (upp_policy_version p) ''policy_version'' @
     [(upp_active_return_threshold p < - 1 \<or> 0 \<le> upp_active_return_threshold p,
       ValueError ''active_return_threshold must be between -1 and 0, excluding 0'')]"

record underperformance_input = signal_input +
  up_source_reported_active_return :: "dec_value option"
  up_benchmark_context_available :: bool
  up_performance_ref :: "source_ref option"

definition underperformance_source_refs :: "underperformance_input \<Rightarrow> source_ref list" where
  "underperformance_source_refs i = present_refs [up_performance_ref i]"

definition underperformance_pre_source_block :: "underperformance_input \<Rightarrow> signal_result option" where
  "underperformance_pre_source_block i = first_result
     [result_if (\<not> ev_entitlement_allowed i) (denied_result Underperformance),
      result_if (up_performance_ref i = None) (missing_result Underperformance)]"

definition underperformance_source_block ::
    "underperformance_input \<Rightarrow> source_ref list \<Rightarrow> signal_result option" where
  "underperformance_source_block i refs = first_result
     [result_if (refs = []) (missing_result Underperformance),
      temporal_blocked_signal_result Underperformance (ev_as_of_date i) (ev_evaluated_at_utc i) refs,
      result_if (any_not_current refs) (stale_result Underperformance),
      result_if (\<not> up_benchmark_context_available i)
        (blocked_signal_result Underperformance [R_Missing_Benchmark] [UR_Missing_Source])]"

definition bounded_underperformance_active_return :: "dec_value \<Rightarrow> dec_value res" where
  "bounded_underperformance_active_return v =
     checks [(dec_rat v < - 1 \<or> 1 < dec_rat v,
              ValueError ''source_reported_active_return must be between -1 and 1'')] v"

definition underperformance_materiality_result ::
    "underperformance_input \<Rightarrow> underperformance_policy \<Rightarrow> signal_result option res" where
  "underperformance_materiality_result i p =
    (case up_source_reported_active_return i of
       None \<Rightarrow> Inr (Some (missing_result Underperformance))
     | Some v \<Rightarrow>
         bind_res (bounded_underperformance_active_return v) (\<lambda>a.
           Inr (result_if (upp_active_return_threshold p < dec_rat a)
             (below_materiality_result Underperformance))))"

definition underperformance_score ::
    "underperformance_input \<Rightarrow> underperformance_policy \<Rightarrow> idea_score res" where
  "underperformance_score i p =
    (case up_source_reported_active_return i of
       None \<Rightarrow> Inl (ValueError ''eligible underperformance scoring requires source_reported_active_return'')
     | Some v \<Rightarrow>
         signal_score (upp_policy_version p) [R_Underperformance_Attention, R_Review_Required]
           (bind_res (relative_threshold_score (dec_abs (dec_rat v)) (dec_abs (upp_active_return_threshold p)))
              current_complete_materiality_inputs))"

definition underperformance_identity ::
    "underperformance_input \<Rightarrow> underperformance_policy \<Rightarrow> source_ref list \<Rightarrow> opportunity_identity res" where
  "underperformance_identity i p refs =
     build_opportunity_identity Underperformance ''underperformance'' (ev_as_of_date i) (ev_access_scope i)
       [(''active_return'', JStr (py_str_dec (up_source_reported_active_return i))),
        (''benchmark_context_available'', JBool (up_benchmark_context_available i)),
        (''policy_version'', JStr (upp_policy_version p))] refs"

definition underperformance_candidate_created_result ::
    "underperformance_input \<Rightarrow> underperformance_policy \<Rightarrow> source_ref list \<Rightarrow> signal_result res" where
  "underperformance_candidate_created_result i p refs =
     signal_candidate_result Underperformance Advisor_Review_Required [R_Underperformance_Attention]
       i refs None (underperformance_identity i p refs) (underperformance_score i p)"

definition evaluate_underperformance_signal ::
    "underperformance_input \<Rightarrow> underperformance_policy \<Rightarrow> signal_result res" where
  "evaluate_underperformance_signal i p =
     bind_res (checks (validate_timezone_aware_evaluation_time (ev_evaluated_at_utc i)) ()) (\<lambda>_.
     or_continue (underperformance_pre_source_block i)
       (let refs = underperformance_source_refs i
        in or_continue (underperformance_source_block i refs)
             (bind_res (underperformance_materiality_result i p) (\<lambda>m.
                or_continue m (underperformance_candidate_created_result i p refs)))))"

definition underperformance_detects :: "underperformance_input \<Rightarrow> underperformance_policy \<Rightarrow> bool" where
  "underperformance_detects i p \<longleftrightarrow>
     usable_sources i (underperformance_source_refs i) \<and> up_benchmark_context_available i \<and>
     (\<exists>v. up_source_reported_active_return i = Some v \<and> dec_rat v \<le> upp_active_return_threshold p)"

definition underperformance_well_posed :: "underperformance_input \<Rightarrow> underperformance_policy \<Rightarrow> bool" where
  "underperformance_well_posed i p \<longleftrightarrow>
     posed i (underperformance_source_refs i) \<and> passes (underperformance_policy_guards p) \<and>
     (\<forall>v. up_source_reported_active_return i = Some v \<longrightarrow> - 1 \<le> dec_rat v \<and> dec_rat v \<le> 1 \<and>
        \<bar>dec_rat v\<bar> \<le> 10 ^ 18 * \<bar>upp_active_return_threshold p\<bar>)"

lemma underperformance_staged:
  "evaluate_underperformance_signal i p = staged (ev_evaluated_at_utc i)
     [result_if (\<not> ev_entitlement_allowed i) (denied_result Underperformance),
      result_if (up_performance_ref i = None) (missing_result Underperformance),
      result_if (underperformance_source_refs i = []) (missing_result Underperformance),
      temporal_blocked_signal_result Underperformance (ev_as_of_date i) (ev_evaluated_at_utc i)
        (underperformance_source_refs i),
      result_if (any_not_current (underperformance_source_refs i)) (stale_result Underperformance),
      result_if (\<not> up_benchmark_context_available i)
        (blocked_signal_result Underperformance [R_Missing_Benchmark] [UR_Missing_Source])]
     (underperformance_materiality_result i p)
     (underperformance_candidate_created_result i p (underperformance_source_refs i))"
  by (simp add: evaluate_underperformance_signal_def staged_def Let_def or_continue_first
      underperformance_pre_source_block_def underperformance_source_block_def)

lemma underperformance_source_refs_Nil [simp]:
  "underperformance_source_refs i = [] \<longleftrightarrow> up_performance_ref i = None"
  by (cases "up_performance_ref i") (simp_all add: underperformance_source_refs_def)

lemma underperformance_score_ok:
  assumes "underperformance_well_posed i p" "underperformance_materiality_result i p = Inr None"
  shows "is_ok (underperformance_score i p)"
  using assms
  by (auto simp: underperformance_well_posed_def underperformance_policy_guards_def
      underperformance_materiality_result_def bounded_underperformance_active_return_def bind_res_Inr
      underperformance_score_def intro!: threshold_score_ok dec_abs_on_scale dec_abs_pos dec_abs_mono
      split: option.splits)

interpretation underperformance: signal_evaluator evaluate_underperformance_signal Underperformance
  "''underperformance''" Advisor_Review_Required "\<lambda>_. None" underperformance_source_refs underperformance_detects
  underperformance_well_posed
proof
  fix i p r
  assume "evaluate_underperformance_signal i p = Inr r"
  then show "evaluation_sound Underperformance ''underperformance'' Advisor_Review_Required None i
      (underperformance_source_refs i) (underperformance_detects i p) r"
    unfolding underperformance_staged underperformance_candidate_created_result_def
      underperformance_identity_def
    by (rule staged_sound)
      (auto simp: underperformance_detects_def usable_sources_def underperformance_materiality_result_def
        bounded_underperformance_active_return_def bind_res_Inr split: option.splits)
next
  fix i p
  assume "underperformance_well_posed i p"
  then show "is_ok (evaluate_underperformance_signal i p)"
    unfolding underperformance_staged underperformance_candidate_created_result_def
      underperformance_identity_def
    by (intro staged_answers candidate_ok underperformance_score_ok)
      (auto simp: underperformance_well_posed_def posed_def underperformance_materiality_result_def
        bounded_underperformance_active_return_def candidate_simps checks_passes split: option.splits)
qed (simp add: underperformance_detects_def)

section \<open>Mandate health\<close>

record mandate_health_policy =
  mhp_policy_version :: string
  mhp_minimum_workflow_decision_count :: int
  mhp_minimum_lineage_edge_count :: int

definition mandate_health_policy_guards :: "mandate_health_policy \<Rightarrow> guards" where
  "mandate_health_policy_guards p =
     require_text (mhp_policy_version p) ''policy_version'' @
     [(mhp_minimum_workflow_decision_count p < 0,
       ValueError ''minimum_workflow_decision_count must be non-negative''),
      (mhp_minimum_lineage_edge_count p < 0,
       ValueError ''minimum_lineage_edge_count must be non-negative'')]"

record mandate_health_input = signal_input +
  mh_workflow_decision_count :: "int option"
  mh_lineage_edge_count :: "int option"
  mh_manage_supportability_state :: "string option"
  mh_portfolio_scope_confirmed :: bool
  mh_action_register_ref :: "source_ref option"
  mh_mandate_performance_health_ref :: "source_ref option"
  mh_mandate_risk_health_ref :: "source_ref option"

definition mandate_health_source_refs :: "mandate_health_input \<Rightarrow> source_ref list" where
  "mandate_health_source_refs i =
     present_refs [mh_action_register_ref i, mh_mandate_performance_health_ref i,
                   mh_mandate_risk_health_ref i]"

definition mandate_health_pre_source_block :: "mandate_health_input \<Rightarrow> signal_result option" where
  "mandate_health_pre_source_block i = first_result
     [result_if (\<not> ev_entitlement_allowed i) (denied_result Allocation_Drift),
      result_if (mh_action_register_ref i = None) (missing_result Allocation_Drift)]"

definition mandate_health_source_block ::
    "mandate_health_input \<Rightarrow> source_ref list \<Rightarrow> signal_result option" where
  "mandate_health_source_block i refs = first_result
     [temporal_blocked_signal_result Allocation_Drift (ev_as_of_date i) (ev_evaluated_at_utc i) refs,
      result_if (any_not_current refs) (stale_result Allocation_Drift),
      result_if (\<not> mh_portfolio_scope_confirmed i) (missing_result Allocation_Drift),
      result_if (mh_manage_supportability_state i = None) (missing_result Allocation_Drift),
      result_if (map_option py_lower (mh_manage_supportability_state i) \<noteq> Some ''ready'')
        (uncertified_result Allocation_Drift)]"

definition mandate_health_materiality_result ::
    "mandate_health_input \<Rightarrow> mandate_health_policy \<Rightarrow> signal_result option res" where
  "mandate_health_materiality_result i p =
    (case (mh_workflow_decision_count i, mh_lineage_edge_count i) of
       (Some workflow, Some lineage) \<Rightarrow>
         checks [(workflow < 0, ValueError ''workflow_decision_count must be non-negative''),
                 (lineage < 0, ValueError ''lineage_edge_count must be non-negative'')]
           (result_if (workflow < mhp_minimum_workflow_decision_count p \<or>
                       lineage < mhp_minimum_lineage_edge_count p)
              (below_materiality_result Allocation_Drift))
     | _ \<Rightarrow> Inr (Some (missing_result Allocation_Drift)))"

definition count_threshold_score :: "int \<Rightarrow> int \<Rightarrow> decimal res" where
  "count_threshold_score n threshold =
     bind_res (checks [(n < 0 \<or> threshold < 0, ValueError ''count and threshold must be non-negative'')] ())
       (\<lambda>_. if threshold = 0 then Inr (if 0 < n then 100 else 50)
            else relative_threshold_score (of_int n) (of_int threshold))"

definition mandate_health_score ::
    "mandate_health_input \<Rightarrow> mandate_health_policy \<Rightarrow> idea_score res" where
  "mandate_health_score i p =
    (case (mh_workflow_decision_count i, mh_lineage_edge_count i) of
       (Some workflow, Some lineage) \<Rightarrow>
         signal_score (mhp_policy_version p) [R_Allocation_Drift_Attention, R_Review_Required]
           (bind_res (count_threshold_score workflow (mhp_minimum_workflow_decision_count p)) (\<lambda>w.
            bind_res (mk_scoring_input Relevance w (55 / 100)) (\<lambda>relevance.
            bind_res (count_threshold_score lineage (mhp_minimum_lineage_edge_count p)) (\<lambda>l.
            bind_res (mk_scoring_input Evidence_Quality l (30 / 100)) (\<lambda>quality.
            bind_res (mk_scoring_input Freshness 100 (15 / 100)) (\<lambda>fresh.
              Inr [relevance, quality, fresh]))))))
     | _ \<Rightarrow> Inl (ValueError ''eligible mandate-health scoring requires workflow and lineage counts''))"

definition mandate_health_identity ::
    "mandate_health_input \<Rightarrow> mandate_health_policy \<Rightarrow> source_ref list \<Rightarrow> opportunity_identity res" where
  "mandate_health_identity i p refs =
     build_opportunity_identity Allocation_Drift ''allocation_drift'' (ev_as_of_date i) (ev_access_scope i)
       [(''lineage_edge_count'', opt_int_json (mh_lineage_edge_count i)),
        (''manage_supportability_state'',
         JStr (py_lower (py_strip (or_empty (mh_manage_supportability_state i))))),
        (''policy_version'', JStr (mhp_policy_version p)),
        (''portfolio_scope_confirmed'', JBool (mh_portfolio_scope_confirmed i)),
        (''workflow_decision_count'', opt_int_json (mh_workflow_decision_count i))] refs"

definition mandate_health_candidate_created_result ::
    "mandate_health_input \<Rightarrow> mandate_health_policy \<Rightarrow> source_ref list \<Rightarrow> signal_result res" where
  "mandate_health_candidate_created_result i p refs =
     signal_candidate_result Allocation_Drift PM_Review_Required [R_Allocation_Drift_Attention]
       i refs None (mandate_health_identity i p refs) (mandate_health_score i p)"

definition evaluate_mandate_health_signal ::
    "mandate_health_input \<Rightarrow> mandate_health_policy \<Rightarrow> signal_result res" where
  "evaluate_mandate_health_signal i p =
     bind_res (checks (validate_timezone_aware_evaluation_time (ev_evaluated_at_utc i)) ()) (\<lambda>_.
     or_continue (mandate_health_pre_source_block i)
       (let refs = mandate_health_source_refs i
        in or_continue (mandate_health_source_block i refs)
             (bind_res (mandate_health_materiality_result i p) (\<lambda>m.
                or_continue m (mandate_health_candidate_created_result i p refs)))))"

definition mandate_health_detects :: "mandate_health_input \<Rightarrow> mandate_health_policy \<Rightarrow> bool" where
  "mandate_health_detects i p \<longleftrightarrow>
     usable_sources i (mandate_health_source_refs i) \<and> mh_action_register_ref i \<noteq> None \<and>
     mh_portfolio_scope_confirmed i \<and>
     (\<exists>s. mh_manage_supportability_state i = Some s \<and> py_lower s = ''ready'') \<and>
     (\<exists>w l. mh_workflow_decision_count i = Some w \<and> mh_lineage_edge_count i = Some l \<and>
        mhp_minimum_workflow_decision_count p \<le> w \<and> mhp_minimum_lineage_edge_count p \<le> l)"

definition mandate_health_well_posed :: "mandate_health_input \<Rightarrow> mandate_health_policy \<Rightarrow> bool" where
  "mandate_health_well_posed i p \<longleftrightarrow>
     posed i (mandate_health_source_refs i) \<and> passes (mandate_health_policy_guards p) \<and>
     (\<forall>w. mh_workflow_decision_count i = Some w \<longrightarrow> 0 \<le> w \<and> w \<le> 10 ^ 20) \<and>
     (\<forall>l. mh_lineage_edge_count i = Some l \<longrightarrow> 0 \<le> l \<and> l \<le> 10 ^ 20)"

lemma mandate_health_staged:
  "evaluate_mandate_health_signal i p = staged (ev_evaluated_at_utc i)
     [result_if (\<not> ev_entitlement_allowed i) (denied_result Allocation_Drift),
      result_if (mh_action_register_ref i = None) (missing_result Allocation_Drift),
      temporal_blocked_signal_result Allocation_Drift (ev_as_of_date i) (ev_evaluated_at_utc i)
        (mandate_health_source_refs i),
      result_if (any_not_current (mandate_health_source_refs i)) (stale_result Allocation_Drift),
      result_if (\<not> mh_portfolio_scope_confirmed i) (missing_result Allocation_Drift),
      result_if (mh_manage_supportability_state i = None) (missing_result Allocation_Drift),
      result_if (map_option py_lower (mh_manage_supportability_state i) \<noteq> Some ''ready'')
        (uncertified_result Allocation_Drift)]
     (mandate_health_materiality_result i p)
     (mandate_health_candidate_created_result i p (mandate_health_source_refs i))"
  by (simp add: evaluate_mandate_health_signal_def staged_def Let_def or_continue_first
      mandate_health_pre_source_block_def mandate_health_source_block_def)

lemma mandate_health_source_refs_Cons:
  "mh_action_register_ref i = Some r \<Longrightarrow> mandate_health_source_refs i \<noteq> []"
  by (simp add: mandate_health_source_refs_def)

lemma mandate_health_materiality:
  assumes "mandate_health_materiality_result i p = Inr m"
  shows "m = None \<longleftrightarrow> (\<exists>w l. mh_workflow_decision_count i = Some w \<and> mh_lineage_edge_count i = Some l \<and>
        mhp_minimum_workflow_decision_count p \<le> w \<and> mhp_minimum_lineage_edge_count p \<le> l)"
    and "stops_only Allocation_Drift m"
  using assms by (auto simp: mandate_health_materiality_result_def split: option.splits)

lemma count_threshold_score_ok:
  assumes "0 \<le> n" "n \<le> 10 ^ 20" "0 \<le> threshold" "threshold \<le> n"
  obtains s where "count_threshold_score n threshold = Inr s" "50 \<le> s" "s \<le> 100"
proof (cases "threshold = 0")
  case True
  then show thesis using that assms by (simp add: count_threshold_score_def checks_passes)
next
  case False
  then have t: "1 \<le> threshold" using assms by simp
  have "n \<le> 10 ^ 20 * threshold" using assms(2) t by simp
  then have "of_int n \<le> (of_int (10 ^ 20 * threshold) :: rat)" by (simp only: of_int_le_iff)
  then have "on_scale (of_int n) (of_int threshold)" by (simp add: on_scale_def)
  then show thesis
    using that relative_threshold_score_ok[of "of_int threshold" "of_int n"] assms t False
    by (auto simp: count_threshold_score_def checks_passes)
qed

lemma mandate_health_score_ok:
  assumes "mandate_health_well_posed i p" "mandate_health_materiality_result i p = Inr None"
  shows "is_ok (mandate_health_score i p)"
proof -
  obtain w l where wl: "mh_workflow_decision_count i = Some w" "mh_lineage_edge_count i = Some l"
    "mhp_minimum_workflow_decision_count p \<le> w" "mhp_minimum_lineage_edge_count p \<le> l"
    using mandate_health_materiality(1)[OF assms(2)] by auto
  with assms(1) have b: "0 \<le> w" "w \<le> 10 ^ 20" "0 \<le> l" "l \<le> 10 ^ 20"
    "0 \<le> mhp_minimum_workflow_decision_count p" "0 \<le> mhp_minimum_lineage_edge_count p"
    "\<not> blank (mhp_policy_version p)"
    by (auto simp: mandate_health_well_posed_def mandate_health_policy_guards_def)
  obtain a where a: "count_threshold_score w (mhp_minimum_workflow_decision_count p) = Inr a"
    "50 \<le> a" "a \<le> 100" using count_threshold_score_ok[OF b(1,2,5) wl(3)] by blast
  obtain c where c: "count_threshold_score l (mhp_minimum_lineage_edge_count p) = Inr c"
    "50 \<le> c" "c \<le> 100" using count_threshold_score_ok[OF b(3,4,6) wl(4)] by blast
  have v: "valid_inputs [\<lparr>si_component = Relevance, si_input_score = a, si_weight = 55 / 100\<rparr>,
      \<lparr>si_component = Evidence_Quality, si_input_score = c, si_weight = 30 / 100\<rparr>,
      \<lparr>si_component = Freshness, si_input_score = 100, si_weight = 15 / 100\<rparr>]"
    using a c dec_sum_weights(1) by (simp add: valid_inputs_def passes_scoring_input)
  show ?thesis
    using signal_score_ok[OF refl v b(7), of "[R_Allocation_Drift_Attention, R_Review_Required]"] a c
    by (auto simp: mandate_health_score_def wl is_ok_iff)
qed

interpretation mandate_health: signal_evaluator evaluate_mandate_health_signal Allocation_Drift
  "''allocation_drift''" PM_Review_Required "\<lambda>_. None" mandate_health_source_refs mandate_health_detects
  mandate_health_well_posed
proof
  fix i p r
  assume "evaluate_mandate_health_signal i p = Inr r"
  then show "evaluation_sound Allocation_Drift ''allocation_drift'' PM_Review_Required None i
      (mandate_health_source_refs i) (mandate_health_detects i p) r"
    unfolding mandate_health_staged mandate_health_candidate_created_result_def mandate_health_identity_def
    by (rule staged_sound)
      (auto simp: mandate_health_detects_def usable_sources_def dest: mandate_health_materiality
        mandate_health_source_refs_Cons)
next
  fix i p
  assume "mandate_health_well_posed i p"
  then show "is_ok (evaluate_mandate_health_signal i p)"
    unfolding mandate_health_staged mandate_health_candidate_created_result_def mandate_health_identity_def
    by (intro staged_answers candidate_ok mandate_health_score_ok)
      (auto simp: mandate_health_well_posed_def posed_def mandate_health_materiality_result_def
        candidate_simps checks_passes opt_int_json_def dest: mandate_health_source_refs_Cons
        split: option.splits)
qed (simp add: mandate_health_detects_def)

end
