(* ===== verification/Signal_Exposure.thy ===== *)
theory Signal_Exposure
imports Signal_Thresholds
begin

text \<open>
  The evaluators of \<open>high_volatility_evaluation.py\<close> and \<open>drawdown_review_evaluation.py\<close>, with
  the compatibility of the two opportunities that share the family \<open>high_volatility\<close>
  (\<open>opportunity_family_compatibility.py\<close>). A Python result that is either a value or an
  early \<open>SignalEvaluationResult\<close> is a sum with the early result on the left.
\<close>

section \<open>Family compatibility\<close>

datatype opportunity_archetype = High_Volatility_Drawdown_Review

fun archetype_value :: "opportunity_archetype \<Rightarrow> string" where
  "archetype_value High_Volatility_Drawdown_Review = ''high_volatility_drawdown_review''"

datatype opportunity_evidence_lane = Lotus_Risk_Volatility | Lotus_Risk_Drawdown_Review

fun evidence_lane_value :: "opportunity_evidence_lane \<Rightarrow> string" where
  "evidence_lane_value Lotus_Risk_Volatility = ''lotus_risk_volatility''"
| "evidence_lane_value Lotus_Risk_Drawdown_Review = ''lotus_risk_drawdown_review''"

record opportunity_family_compatibility =
  fc_family :: opportunity_family
  fc_archetype :: opportunity_archetype
  fc_evidence_lane :: opportunity_evidence_lane
  fc_source_system :: source_system
  fc_source_product_id :: string
  fc_source_route :: string
  fc_reason_code :: reason_code

definition HIGH_VOLATILITY_FAMILY_COMPATIBILITY :: opportunity_family_compatibility where
  "HIGH_VOLATILITY_FAMILY_COMPATIBILITY =
     \<lparr>fc_family = High_Volatility, fc_archetype = High_Volatility_Drawdown_Review,
      fc_evidence_lane = Lotus_Risk_Volatility, fc_source_system = Lotus_Risk,
      fc_source_product_id = ''lotus-risk:RiskMetricsReport:v1'',
      fc_source_route = ''/analytics/risk/metrics'', fc_reason_code = R_Volatility_Attention\<rparr>"

definition DRAWDOWN_REVIEW_FAMILY_COMPATIBILITY :: opportunity_family_compatibility where
  "DRAWDOWN_REVIEW_FAMILY_COMPATIBILITY =
     \<lparr>fc_family = High_Volatility, fc_archetype = High_Volatility_Drawdown_Review,
      fc_evidence_lane = Lotus_Risk_Drawdown_Review, fc_source_system = Lotus_Risk,
      fc_source_product_id = ''lotus-risk:DrawdownAnalyticsReport:v1'',
      fc_source_route = ''/analytics/risk/drawdown'', fc_reason_code = R_Drawdown_Attention\<rparr>"

section \<open>High volatility\<close>

record high_volatility_policy =
  hvp_policy_version :: string
  hvp_volatility_threshold :: decimal

definition high_volatility_policy_guards :: "high_volatility_policy \<Rightarrow> guards" where
  "high_volatility_policy_guards p =
     require_text (hvp_policy_version p) ''policy_version'' @
     [(hvp_volatility_threshold p \<le> 0, ValueError ''volatility_threshold must be positive'')]"

record high_volatility_input = signal_input +
  hv_source_reported_volatility :: "dec_value option"
  hv_risk_supportability_state :: "string option"
  hv_risk_ref :: "source_ref option"

definition high_volatility_blocking_posture :: "high_volatility_input \<Rightarrow> signal_result option" where
  "high_volatility_blocking_posture i = first_result
     [result_if (\<not> ev_entitlement_allowed i) (denied_result High_Volatility),
      result_if (hv_risk_ref i = None) (missing_result High_Volatility),
      temporal_blocked_signal_result High_Volatility (ev_as_of_date i) (ev_evaluated_at_utc i)
        (present_refs [hv_risk_ref i]),
      result_if (any_not_current (present_refs [hv_risk_ref i])) (stale_result High_Volatility),
      result_if (hv_risk_supportability_state i = None) (missing_result High_Volatility),
      result_if (map_option py_lower (hv_risk_supportability_state i) \<noteq> Some ''ready'')
        (uncertified_result High_Volatility)]"

definition source_volatility :: "high_volatility_input \<Rightarrow> (signal_result + dec_value) res" where
  "source_volatility i =
    (case hv_source_reported_volatility i of
       None \<Rightarrow> Inr (Inl (missing_result High_Volatility))
     | Some v \<Rightarrow> checks [(dec_rat v < 0, ValueError ''source_reported_volatility must be non-negative'')]
                   (Inr v))"

definition high_volatility_score :: "high_volatility_input \<Rightarrow> high_volatility_policy \<Rightarrow> idea_score res" where
  "high_volatility_score i p =
    (case hv_source_reported_volatility i of
       None \<Rightarrow> Inl (ValueError ''eligible high-volatility scoring requires source_reported_volatility'')
     | Some v \<Rightarrow>
         signal_score (hvp_policy_version p) [R_Volatility_Attention, R_Review_Required]
           (bind_res (relative_threshold_score (dec_rat v) (hvp_volatility_threshold p))
              current_complete_materiality_inputs))"

definition high_volatility_identity ::
    "high_volatility_input \<Rightarrow> high_volatility_policy \<Rightarrow> source_ref list \<Rightarrow> opportunity_identity res" where
  "high_volatility_identity i p refs =
     build_opportunity_identity High_Volatility ''high_volatility'' (ev_as_of_date i) (ev_access_scope i)
       [(''policy_version'', JStr (hvp_policy_version p)),
        (''risk_supportability_state'', opt_json (hv_risk_supportability_state i)),
        (''source_reported_volatility'', JStr (py_str_dec (hv_source_reported_volatility i)))] refs"

definition high_volatility_candidate_result ::
    "high_volatility_input \<Rightarrow> high_volatility_policy \<Rightarrow> source_ref list \<Rightarrow> signal_result res" where
  "high_volatility_candidate_result i p refs =
     signal_candidate_result High_Volatility Advisor_Review_Required [R_Volatility_Attention] i refs None
       (high_volatility_identity i p refs) (high_volatility_score i p)"

definition evaluate_high_volatility_signal ::
    "high_volatility_input \<Rightarrow> high_volatility_policy \<Rightarrow> signal_result res" where
  "evaluate_high_volatility_signal i p =
     bind_res (checks (validate_timezone_aware_evaluation_time (ev_evaluated_at_utc i)) ()) (\<lambda>_.
     or_continue (high_volatility_blocking_posture i)
       (bind_res (source_volatility i) (\<lambda>v. case v of
          Inl r \<Rightarrow> Inr r
        | Inr volatility \<Rightarrow>
            if dec_rat volatility < hvp_volatility_threshold p
            then Inr (below_materiality_result High_Volatility)
            else case hv_risk_ref i of
                None \<Rightarrow> Inr (missing_result High_Volatility)
              | Some r \<Rightarrow> high_volatility_candidate_result i p [r])))"

definition high_volatility_refs :: "high_volatility_input \<Rightarrow> source_ref list" where
  "high_volatility_refs i = present_refs [hv_risk_ref i]"

definition high_volatility_detects :: "high_volatility_input \<Rightarrow> high_volatility_policy \<Rightarrow> bool" where
  "high_volatility_detects i p \<longleftrightarrow>
     usable_sources i (high_volatility_refs i) \<and>
     (\<exists>s. hv_risk_supportability_state i = Some s \<and> py_lower s = ''ready'') \<and>
     (\<exists>v. hv_source_reported_volatility i = Some v \<and> hvp_volatility_threshold p \<le> dec_rat v)"

definition high_volatility_well_posed :: "high_volatility_input \<Rightarrow> high_volatility_policy \<Rightarrow> bool" where
  "high_volatility_well_posed i p \<longleftrightarrow>
     posed i (high_volatility_refs i) \<and> passes (high_volatility_policy_guards p) \<and>
     (\<forall>v. hv_source_reported_volatility i = Some v \<longrightarrow>
        0 \<le> dec_rat v \<and> on_scale (dec_rat v) (hvp_volatility_threshold p))"

definition high_volatility_materiality ::
    "high_volatility_input \<Rightarrow> high_volatility_policy \<Rightarrow> signal_result option res" where
  "high_volatility_materiality i p =
     bind_res (source_volatility i) (\<lambda>v. case v of
       Inl r \<Rightarrow> Inr (Some r)
     | Inr volatility \<Rightarrow> Inr (result_if (dec_rat volatility < hvp_volatility_threshold p)
                              (below_materiality_result High_Volatility)))"

lemma present_one: "present_refs [x] = (case x of None \<Rightarrow> [] | Some r \<Rightarrow> [r])"
  by (simp split: option.splits)

lemma high_volatility_staged:
  "evaluate_high_volatility_signal i p = staged (ev_evaluated_at_utc i)
     [result_if (\<not> ev_entitlement_allowed i) (denied_result High_Volatility),
      result_if (hv_risk_ref i = None) (missing_result High_Volatility),
      temporal_blocked_signal_result High_Volatility (ev_as_of_date i) (ev_evaluated_at_utc i)
        (high_volatility_refs i),
      result_if (any_not_current (high_volatility_refs i)) (stale_result High_Volatility),
      result_if (hv_risk_supportability_state i = None) (missing_result High_Volatility),
      result_if (map_option py_lower (hv_risk_supportability_state i) \<noteq> Some ''ready'')
        (uncertified_result High_Volatility)]
     (high_volatility_materiality i p)
     (high_volatility_candidate_result i p (high_volatility_refs i))"
proof (cases "hv_risk_ref i")
  case None
  then show ?thesis
    by (simp add: evaluate_high_volatility_signal_def staged_def high_volatility_blocking_posture_def
        first_result_step)
next
  case (Some r)
  have k: "bind_res (source_volatility i) (\<lambda>v. case v of
          Inl r \<Rightarrow> Inr r
        | Inr volatility \<Rightarrow>
            if dec_rat volatility < hvp_volatility_threshold p
            then Inr (below_materiality_result High_Volatility)
            else case hv_risk_ref i of
                None \<Rightarrow> Inr (missing_result High_Volatility)
              | Some r \<Rightarrow> high_volatility_candidate_result i p [r]) =
    bind_res (high_volatility_materiality i p) (\<lambda>m.
      or_continue m (high_volatility_candidate_result i p (high_volatility_refs i)))"
  proof (cases "source_volatility i")
    case (Inr v)
    then show ?thesis using Some
      by (cases v) (simp_all add: high_volatility_materiality_def high_volatility_refs_def result_if_def)
  qed (simp add: high_volatility_materiality_def)
  show ?thesis
    unfolding evaluate_high_volatility_signal_def staged_def high_volatility_blocking_posture_def k
      high_volatility_refs_def ..
qed

lemma high_volatility_refs_Nil [simp]: "high_volatility_refs i = [] \<longleftrightarrow> hv_risk_ref i = None"
  by (cases "hv_risk_ref i") (simp_all add: high_volatility_refs_def)

lemma high_volatility_materiality_Inr:
  assumes "high_volatility_materiality i p = Inr m"
  shows "m = None \<longleftrightarrow> (\<exists>v. hv_source_reported_volatility i = Some v \<and> hvp_volatility_threshold p \<le> dec_rat v)"
    and "stops_only High_Volatility m"
  using assms by (auto simp: high_volatility_materiality_def source_volatility_def bind_res_Inr
      split: option.splits)

lemma high_volatility_score_ok:
  assumes "high_volatility_well_posed i p" "high_volatility_materiality i p = Inr None"
  shows "is_ok (high_volatility_score i p)"
  using assms(1) high_volatility_materiality_Inr(1)[OF assms(2)]
  by (auto simp: high_volatility_well_posed_def high_volatility_policy_guards_def high_volatility_score_def
      intro!: threshold_score_ok)

interpretation high_volatility: signal_evaluator evaluate_high_volatility_signal High_Volatility
  "''high_volatility''" Advisor_Review_Required "\<lambda>_. None" high_volatility_refs high_volatility_detects
  high_volatility_well_posed
proof
  fix i p r
  assume "evaluate_high_volatility_signal i p = Inr r"
  then show "evaluation_sound High_Volatility ''high_volatility'' Advisor_Review_Required None i
      (high_volatility_refs i) (high_volatility_detects i p) r"
    unfolding high_volatility_staged high_volatility_candidate_result_def high_volatility_identity_def
    by (rule staged_sound)
      (auto simp: high_volatility_detects_def usable_sources_def dest: high_volatility_materiality_Inr)
next
  fix i p
  assume "high_volatility_well_posed i p"
  then show "is_ok (evaluate_high_volatility_signal i p)"
    unfolding high_volatility_staged high_volatility_candidate_result_def high_volatility_identity_def
    by (intro staged_answers candidate_ok high_volatility_score_ok)
      (auto simp: high_volatility_well_posed_def posed_def high_volatility_materiality_def
        source_volatility_def candidate_simps checks_passes opt_json_def split: option.splits)
qed (simp add: high_volatility_detects_def)

section \<open>Drawdown review\<close>

record drawdown_policy =
  ddp_policy_version :: string
  ddp_max_drawdown_threshold :: decimal

definition drawdown_policy_guards :: "drawdown_policy \<Rightarrow> guards" where
  "drawdown_policy_guards p =
     require_text (ddp_policy_version p) ''policy_version'' @
     [(0 \<le> ddp_max_drawdown_threshold p, ValueError ''max_drawdown_threshold must be negative'')]"

record drawdown_input = signal_input +
  dd_source_reported_max_drawdown :: "dec_value option"
  dd_risk_supportability_state :: "string option"
  dd_risk_ref :: "source_ref option"

definition drawdown_ready_source_refs_or_block ::
    "drawdown_input \<Rightarrow> opportunity_family \<Rightarrow> source_ref list \<Rightarrow> signal_result + source_ref list" where
  "drawdown_ready_source_refs_or_block i f refs =
    (case first_result
       [result_if (sr_freshness (hd refs) \<noteq> Fresh_Current) (stale_result f),
        result_if (dd_risk_supportability_state i = None) (missing_result f),
        result_if (map_option py_lower (dd_risk_supportability_state i) \<noteq> Some ''ready'')
          (uncertified_result f)] of
       Some r \<Rightarrow> Inl r | None \<Rightarrow> Inr refs)"

definition drawdown_source_refs_or_block ::
    "drawdown_input \<Rightarrow> opportunity_family \<Rightarrow> signal_result + source_ref list" where
  "drawdown_source_refs_or_block i f =
    (if \<not> ev_entitlement_allowed i then Inl (denied_result f)
     else case dd_risk_ref i of
         None \<Rightarrow> Inl (missing_result f)
       | Some risk_ref \<Rightarrow>
           (case temporal_blocked_signal_result f (ev_as_of_date i) (ev_evaluated_at_utc i) [risk_ref] of
              Some r \<Rightarrow> Inl r
            | None \<Rightarrow> drawdown_ready_source_refs_or_block i f [risk_ref]))"

definition drawdown_materiality_or_block ::
    "drawdown_input \<Rightarrow> drawdown_policy \<Rightarrow> opportunity_family \<Rightarrow> (signal_result + dec_value) res" where
  "drawdown_materiality_or_block i p f =
    (case dd_source_reported_max_drawdown i of
       None \<Rightarrow> Inr (Inl (missing_result f))
     | Some v \<Rightarrow>
         checks [(0 < dec_rat v, ValueError ''source_reported_max_drawdown must be zero or negative'')]
           (if ddp_max_drawdown_threshold p < dec_rat v then Inl (below_materiality_result f) else Inr v))"

definition drawdown_candidate_inputs ::
    "drawdown_input \<Rightarrow> drawdown_policy \<Rightarrow> opportunity_family \<Rightarrow>
     (signal_result + source_ref list \<times> dec_value) res" where
  "drawdown_candidate_inputs i p f =
    (case drawdown_source_refs_or_block i f of
       Inl r \<Rightarrow> Inr (Inl r)
     | Inr refs \<Rightarrow>
         bind_res (drawdown_materiality_or_block i p f) (\<lambda>m. Inr (case m of
            Inl r \<Rightarrow> Inl r | Inr v \<Rightarrow> Inr (refs, v))))"

definition drawdown_score :: "dec_value \<Rightarrow> drawdown_policy \<Rightarrow> idea_score res" where
  "drawdown_score v p =
     signal_score (ddp_policy_version p) [R_Drawdown_Attention, R_Review_Required]
       (bind_res (relative_threshold_score (dec_abs (dec_rat v)) (dec_abs (ddp_max_drawdown_threshold p)))
          current_complete_materiality_inputs)"

definition drawdown_identity ::
    "drawdown_input \<Rightarrow> drawdown_policy \<Rightarrow> source_ref list \<Rightarrow> dec_value \<Rightarrow> opportunity_identity res" where
  "drawdown_identity i p refs v =
     build_opportunity_identity (fc_family DRAWDOWN_REVIEW_FAMILY_COMPATIBILITY) ''drawdown_review''
       (ev_as_of_date i) (ev_access_scope i)
       [(''policy_version'', JStr (ddp_policy_version p)),
        (''risk_supportability_state'', opt_json (dd_risk_supportability_state i)),
        (''source_reported_max_drawdown'', JStr (dec_str v))] refs"

definition drawdown_candidate_result ::
    "drawdown_input \<Rightarrow> drawdown_policy \<Rightarrow> opportunity_family \<Rightarrow> source_ref list \<Rightarrow> dec_value \<Rightarrow>
     signal_result res" where
  "drawdown_candidate_result i p f refs v =
     signal_candidate_result f Advisor_Review_Required [R_Drawdown_Attention] i refs None
       (drawdown_identity i p refs v) (drawdown_score v p)"

definition evaluate_drawdown_review_signal :: "drawdown_input \<Rightarrow> drawdown_policy \<Rightarrow> signal_result res" where
  "evaluate_drawdown_review_signal i p =
    (let f = fc_family DRAWDOWN_REVIEW_FAMILY_COMPATIBILITY in
     bind_res (checks (validate_timezone_aware_evaluation_time (ev_evaluated_at_utc i)) ()) (\<lambda>_.
     bind_res (drawdown_candidate_inputs i p f) (\<lambda>x. case x of
       Inl r \<Rightarrow> Inr r
     | Inr (refs, v) \<Rightarrow> drawdown_candidate_result i p f refs v)))"

definition drawdown_refs :: "drawdown_input \<Rightarrow> source_ref list" where
  "drawdown_refs i = present_refs [dd_risk_ref i]"

definition drawdown_detects :: "drawdown_input \<Rightarrow> drawdown_policy \<Rightarrow> bool" where
  "drawdown_detects i p \<longleftrightarrow>
     usable_sources i (drawdown_refs i) \<and>
     (\<exists>s. dd_risk_supportability_state i = Some s \<and> py_lower s = ''ready'') \<and>
     (\<exists>v. dd_source_reported_max_drawdown i = Some v \<and> dec_rat v \<le> ddp_max_drawdown_threshold p)"

definition drawdown_well_posed :: "drawdown_input \<Rightarrow> drawdown_policy \<Rightarrow> bool" where
  "drawdown_well_posed i p \<longleftrightarrow>
     posed i (drawdown_refs i) \<and> passes (drawdown_policy_guards p) \<and>
     (\<forall>v. dd_source_reported_max_drawdown i = Some v \<longrightarrow> dec_rat v \<le> 0 \<and>
        \<bar>dec_rat v\<bar> \<le> 10 ^ 18 * \<bar>ddp_max_drawdown_threshold p\<bar>)"

definition drawdown_materiality :: "drawdown_input \<Rightarrow> drawdown_policy \<Rightarrow> signal_result option res" where
  "drawdown_materiality i p =
     bind_res (drawdown_materiality_or_block i p High_Volatility) (\<lambda>m. Inr (case m of
       Inl r \<Rightarrow> Some r | Inr v \<Rightarrow> None))"

lemma drawdown_staged:
  "evaluate_drawdown_review_signal i p = staged (ev_evaluated_at_utc i)
     [result_if (\<not> ev_entitlement_allowed i) (denied_result High_Volatility),
      result_if (dd_risk_ref i = None) (missing_result High_Volatility),
      temporal_blocked_signal_result High_Volatility (ev_as_of_date i) (ev_evaluated_at_utc i)
        (drawdown_refs i),
      result_if (any_not_current (drawdown_refs i)) (stale_result High_Volatility),
      result_if (dd_risk_supportability_state i = None) (missing_result High_Volatility),
      result_if (map_option py_lower (dd_risk_supportability_state i) \<noteq> Some ''ready'')
        (uncertified_result High_Volatility)]
     (drawdown_materiality i p)
     (drawdown_candidate_result i p High_Volatility (drawdown_refs i) (the (dd_source_reported_max_drawdown i)))"
proof (cases "dd_risk_ref i")
  case None
  then show ?thesis
    by (simp add: evaluate_drawdown_review_signal_def staged_def DRAWDOWN_REVIEW_FAMILY_COMPATIBILITY_def
        drawdown_candidate_inputs_def drawdown_source_refs_or_block_def first_result_step)
next
  case (Some r)
  let ?blocks = "[result_if (\<not> ev_entitlement_allowed i) (denied_result High_Volatility),
      result_if (dd_risk_ref i = None) (missing_result High_Volatility),
      temporal_blocked_signal_result High_Volatility (ev_as_of_date i) (ev_evaluated_at_utc i)
        (drawdown_refs i),
      result_if (any_not_current (drawdown_refs i)) (stale_result High_Volatility),
      result_if (dd_risk_supportability_state i = None) (missing_result High_Volatility),
      result_if (map_option py_lower (dd_risk_supportability_state i) \<noteq> Some ''ready'')
        (uncertified_result High_Volatility)]"
  have refs: "drawdown_refs i = [r]" using Some by (simp add: drawdown_refs_def)
  have src: "drawdown_source_refs_or_block i High_Volatility =
      (case first_result ?blocks of Some x \<Rightarrow> Inl x | None \<Rightarrow> Inr (drawdown_refs i))"
    unfolding drawdown_source_refs_or_block_def Some refs first_result_step
    by (cases "temporal_blocked_signal_result High_Volatility (ev_as_of_date i) (ev_evaluated_at_utc i) [r]")
      (simp_all add: first_result_step drawdown_ready_source_refs_or_block_def del: temporal_block_None)
  show ?thesis
  proof (cases "first_result ?blocks")
    case None
    have "bind_res (drawdown_candidate_inputs i p High_Volatility) (\<lambda>x. case x of
       Inl r \<Rightarrow> Inr r | Inr (refs, v) \<Rightarrow> drawdown_candidate_result i p High_Volatility refs v) =
      bind_res (drawdown_materiality i p) (\<lambda>m. or_continue m
        (drawdown_candidate_result i p High_Volatility (drawdown_refs i)
          (the (dd_source_reported_max_drawdown i))))"
      unfolding drawdown_candidate_inputs_def drawdown_materiality_def src None
      by (cases "dd_source_reported_max_drawdown i") 
        (simp_all add: drawdown_materiality_or_block_def checks.simps)
    with None show ?thesis
      unfolding evaluate_drawdown_review_signal_def staged_def Let_def
      by (simp add: DRAWDOWN_REVIEW_FAMILY_COMPATIBILITY_def del: first_result_None)
  next
    case (Some x)
    then show ?thesis
      unfolding evaluate_drawdown_review_signal_def staged_def Let_def
      by (simp add: DRAWDOWN_REVIEW_FAMILY_COMPATIBILITY_def drawdown_candidate_inputs_def src)
  qed
qed

lemma drawdown_family: "fc_family DRAWDOWN_REVIEW_FAMILY_COMPATIBILITY = High_Volatility"
  by (simp add: DRAWDOWN_REVIEW_FAMILY_COMPATIBILITY_def)

lemma drawdown_refs_Nil [simp]: "drawdown_refs i = [] \<longleftrightarrow> dd_risk_ref i = None"
  by (cases "dd_risk_ref i") (simp_all add: drawdown_refs_def)

lemma drawdown_materiality_Inr:
  assumes "drawdown_materiality i p = Inr m"
  shows "m = None \<longleftrightarrow> (\<exists>v. dd_source_reported_max_drawdown i = Some v \<and> dec_rat v \<le> ddp_max_drawdown_threshold p)"
    and "stops_only High_Volatility m"
  using assms by (auto simp: drawdown_materiality_def drawdown_materiality_or_block_def bind_res_Inr
      split: option.splits if_splits)

lemma drawdown_score_ok:
  assumes "drawdown_well_posed i p" "drawdown_materiality i p = Inr None"
  shows "is_ok (drawdown_score (the (dd_source_reported_max_drawdown i)) p)"
  using assms(1) drawdown_materiality_Inr(1)[OF assms(2)]
  by (auto simp: drawdown_well_posed_def drawdown_policy_guards_def drawdown_score_def
      intro!: threshold_score_ok dec_abs_on_scale dec_abs_pos dec_abs_mono)

interpretation drawdown: signal_evaluator evaluate_drawdown_review_signal High_Volatility
  "''drawdown_review''" Advisor_Review_Required "\<lambda>_. None" drawdown_refs drawdown_detects drawdown_well_posed
proof
  fix i p r
  assume "evaluate_drawdown_review_signal i p = Inr r"
  then show "evaluation_sound High_Volatility ''drawdown_review'' Advisor_Review_Required None i
      (drawdown_refs i) (drawdown_detects i p) r"
    unfolding drawdown_staged drawdown_candidate_result_def drawdown_identity_def drawdown_family
    by (rule staged_sound)
      (auto simp: drawdown_detects_def usable_sources_def dest: drawdown_materiality_Inr)
next
  fix i p
  assume "drawdown_well_posed i p"
  then show "is_ok (evaluate_drawdown_review_signal i p)"
    unfolding drawdown_staged drawdown_candidate_result_def drawdown_identity_def drawdown_family
    by (intro staged_answers candidate_ok drawdown_score_ok)
      (auto simp: drawdown_well_posed_def posed_def drawdown_materiality_def
        drawdown_materiality_or_block_def candidate_simps checks_passes opt_json_def split: option.splits)
qed (simp add: drawdown_detects_def)

end
