(* ===== verification/Signal_Cashflow.thy ===== *)
theory Signal_Cashflow
imports Signal_Exposure
begin

text \<open>
  The evaluators of \<open>low_income_signal.py\<close> and \<open>bond_maturity_signal.py\<close>. Both check the
  dates of the sources before the entitlement; a bond maturity candidate stops being
  applicable at the end of the maturity date.
\<close>

section \<open>Low income\<close>

record low_income_policy =
  lip_policy_version :: string
  lip_projected_cumulative_cashflow_threshold :: decimal

definition low_income_policy_guards :: "low_income_policy \<Rightarrow> guards" where
  "low_income_policy_guards p =
     require_text (lip_policy_version p) ''policy_version'' @
     [(0 \<le> lip_projected_cumulative_cashflow_threshold p,
       ValueError ''projected_cumulative_cashflow_threshold must be negative'')]"

record low_income_input = signal_input +
  li_source_reported_min_projected_cumulative_cashflow :: "dec_value option"
  li_cash_movement_count :: "int option"
  li_cash_movement_ref :: "source_ref option"
  li_cashflow_projection_ref :: "source_ref option"

definition low_income_source_refs :: "low_income_input \<Rightarrow> source_ref list" where
  "low_income_source_refs i = present_refs [li_cash_movement_ref i, li_cashflow_projection_ref i]"

definition low_income_blocking_posture ::
    "low_income_input \<Rightarrow> source_ref list \<Rightarrow> signal_result option" where
  "low_income_blocking_posture i refs = first_result
     [temporal_blocked_signal_result Low_Income (ev_as_of_date i) (ev_evaluated_at_utc i) refs,
      result_if (\<not> ev_entitlement_allowed i) (denied_result Low_Income),
      result_if (2 - length refs \<noteq> 0)
        (blocked_signal_result Low_Income [R_Source_Partial] (replicate (2 - length refs) UR_Missing_Source)),
      result_if (any_not_current refs) (stale_result Low_Income)]"

definition low_income_materiality_result ::
    "low_income_input \<Rightarrow> low_income_policy \<Rightarrow> signal_result option res" where
  "low_income_materiality_result i p =
    (case li_cash_movement_count i of
       None \<Rightarrow> Inr (Some (missing_result Low_Income))
     | Some n \<Rightarrow>
         checks [(n < 0, ValueError ''cash_movement_count must be non-negative'')]
           (case li_source_reported_min_projected_cumulative_cashflow i of
              None \<Rightarrow> Some (missing_result Low_Income)
            | Some v \<Rightarrow> result_if (lip_projected_cumulative_cashflow_threshold p < dec_rat v)
                          (below_materiality_result Low_Income)))"

definition low_income_score :: "low_income_input \<Rightarrow> low_income_policy \<Rightarrow> idea_score res" where
  "low_income_score i p =
    (case li_source_reported_min_projected_cumulative_cashflow i of
       None \<Rightarrow> Inl (ValueError ''eligible low-income scoring requires projected cumulative cashflow'')
     | Some v \<Rightarrow>
         let magnitude = dec_abs (lip_projected_cumulative_cashflow_threshold p)
         in bind_res (checks [(magnitude = 0, ValueError
                 ''evidence-derived low-income scoring requires a negative threshold'')] ()) (\<lambda>_.
              signal_score (lip_policy_version p) [R_Income_Attention, R_Review_Required]
                (bind_res (relative_threshold_score (dec_abs (dec_rat v)) magnitude)
                   current_complete_materiality_inputs)))"

definition low_income_identity ::
    "low_income_input \<Rightarrow> low_income_policy \<Rightarrow> source_ref list \<Rightarrow> opportunity_identity res" where
  "low_income_identity i p refs =
     build_opportunity_identity Low_Income ''low_income'' (ev_as_of_date i) (ev_access_scope i)
       [(''cash_movement_count'', opt_int_json (li_cash_movement_count i)),
        (''policy_version'', JStr (lip_policy_version p)),
        (''source_reported_min_projected_cumulative_cashflow'',
         JStr (py_str_dec (li_source_reported_min_projected_cumulative_cashflow i)))] refs"

definition low_income_candidate_result ::
    "low_income_input \<Rightarrow> low_income_policy \<Rightarrow> source_ref list \<Rightarrow> signal_result res" where
  "low_income_candidate_result i p refs =
     signal_candidate_result Low_Income Advisor_Review_Required [R_Income_Attention] i refs None
       (low_income_identity i p refs) (low_income_score i p)"

definition evaluate_low_income_signal :: "low_income_input \<Rightarrow> low_income_policy \<Rightarrow> signal_result res" where
  "evaluate_low_income_signal i p =
     bind_res (checks (validate_timezone_aware_evaluation_time (ev_evaluated_at_utc i)) ()) (\<lambda>_.
     let refs = low_income_source_refs i
     in or_continue (low_income_blocking_posture i refs)
          (bind_res (low_income_materiality_result i p) (\<lambda>m.
             or_continue m (low_income_candidate_result i p refs))))"

definition low_income_detects :: "low_income_input \<Rightarrow> low_income_policy \<Rightarrow> bool" where
  "low_income_detects i p \<longleftrightarrow>
     usable_sources i (low_income_source_refs i) \<and>
     li_cash_movement_ref i \<noteq> None \<and> li_cashflow_projection_ref i \<noteq> None \<and>
     li_cash_movement_count i \<noteq> None \<and>
     (\<exists>v. li_source_reported_min_projected_cumulative_cashflow i = Some v \<and>
        dec_rat v \<le> lip_projected_cumulative_cashflow_threshold p)"

definition low_income_well_posed :: "low_income_input \<Rightarrow> low_income_policy \<Rightarrow> bool" where
  "low_income_well_posed i p \<longleftrightarrow>
     posed i (low_income_source_refs i) \<and> passes (low_income_policy_guards p) \<and>
     (\<forall>n. li_cash_movement_count i = Some n \<longrightarrow> 0 \<le> n) \<and>
     (\<forall>v. li_source_reported_min_projected_cumulative_cashflow i = Some v \<longrightarrow>
        \<bar>dec_rat v\<bar> \<le> 10 ^ 18 * \<bar>lip_projected_cumulative_cashflow_threshold p\<bar>)"

lemma low_income_staged:
  "evaluate_low_income_signal i p = staged (ev_evaluated_at_utc i)
     [temporal_blocked_signal_result Low_Income (ev_as_of_date i) (ev_evaluated_at_utc i)
        (low_income_source_refs i),
      result_if (\<not> ev_entitlement_allowed i) (denied_result Low_Income),
      result_if (2 - length (low_income_source_refs i) \<noteq> 0)
        (blocked_signal_result Low_Income [R_Source_Partial]
           (replicate (2 - length (low_income_source_refs i)) UR_Missing_Source)),
      result_if (any_not_current (low_income_source_refs i)) (stale_result Low_Income)]
     (low_income_materiality_result i p)
     (low_income_candidate_result i p (low_income_source_refs i))"
  by (simp add: evaluate_low_income_signal_def staged_def Let_def low_income_blocking_posture_def)

lemma low_income_refs_two:
  "2 \<le> length (low_income_source_refs i) \<longleftrightarrow>
     li_cash_movement_ref i \<noteq> None \<and> li_cashflow_projection_ref i \<noteq> None"
  by (cases "li_cash_movement_ref i"; cases "li_cashflow_projection_ref i")
    (simp_all add: low_income_source_refs_def)

lemma low_income_refs_Nil [simp]:
  "low_income_source_refs i = [] \<longleftrightarrow> li_cash_movement_ref i = None \<and> li_cashflow_projection_ref i = None"
  by (cases "li_cash_movement_ref i"; cases "li_cashflow_projection_ref i")
    (simp_all add: low_income_source_refs_def)

lemma low_income_materiality:
  assumes "low_income_materiality_result i p = Inr m"
  shows "m = None \<longleftrightarrow> li_cash_movement_count i \<noteq> None \<and>
      (\<exists>v. li_source_reported_min_projected_cumulative_cashflow i = Some v \<and>
        dec_rat v \<le> lip_projected_cumulative_cashflow_threshold p)"
    and "stops_only Low_Income m"
  using assms by (auto simp: low_income_materiality_result_def split: option.splits)

lemma low_income_score_ok:
  assumes "low_income_well_posed i p" "low_income_materiality_result i p = Inr None"
  shows "is_ok (low_income_score i p)"
proof -
  obtain v where v: "li_source_reported_min_projected_cumulative_cashflow i = Some v"
    "dec_rat v \<le> lip_projected_cumulative_cashflow_threshold p"
    using low_income_materiality(1)[OF assms(2)] by auto
  have t: "lip_projected_cumulative_cashflow_threshold p < 0" "\<not> blank (lip_policy_version p)"
    and s: "\<bar>dec_rat v\<bar> \<le> 10 ^ 18 * \<bar>lip_projected_cumulative_cashflow_threshold p\<bar>"
    using assms(1) v(1) by (auto simp: low_income_well_posed_def low_income_policy_guards_def)
  have "0 < dec_abs (lip_projected_cumulative_cashflow_threshold p)" using t by (intro dec_abs_pos) simp
  then show ?thesis
    using v t s by (auto simp: low_income_score_def Let_def checks_passes
        intro!: threshold_score_ok dec_abs_on_scale dec_abs_mono)
qed

interpretation low_income: signal_evaluator evaluate_low_income_signal Low_Income "''low_income''"
  Advisor_Review_Required "\<lambda>_. None" low_income_source_refs low_income_detects low_income_well_posed
proof
  fix i p r
  assume "evaluate_low_income_signal i p = Inr r"
  then show "evaluation_sound Low_Income ''low_income'' Advisor_Review_Required None i
      (low_income_source_refs i) (low_income_detects i p) r"
    unfolding low_income_staged low_income_candidate_result_def low_income_identity_def
    by (rule staged_sound)
      (auto simp: low_income_detects_def usable_sources_def low_income_refs_two dest: low_income_materiality)
next
  fix i p
  assume "low_income_well_posed i p"
  then show "is_ok (evaluate_low_income_signal i p)"
    unfolding low_income_staged low_income_candidate_result_def low_income_identity_def
    by (intro staged_answers candidate_ok low_income_score_ok)
      (auto simp: low_income_well_posed_def posed_def low_income_materiality_result_def low_income_refs_two
        candidate_simps checks_passes opt_int_json_def split: option.splits)
qed (simp add: low_income_detects_def)

section \<open>Bond maturity\<close>

record bond_maturity_policy =
  bmp_policy_version :: string
  bmp_maturity_window_days :: int

definition bond_maturity_policy_guards :: "bond_maturity_policy \<Rightarrow> guards" where
  "bond_maturity_policy_guards p =
     require_text (bmp_policy_version p) ''policy_version'' @
     [(bmp_maturity_window_days p < 1 \<or> 366 < bmp_maturity_window_days p,
       ValueError ''maturity_window_days must be between 1 and 366'')]"

record bond_maturity_input = signal_input +
  bm_source_reported_next_maturity_date :: "py_date option"
  bm_source_reported_maturing_position_count :: "int option"
  bm_holdings_ref :: "source_ref option"
  bm_maturity_fact_ref :: "source_ref option"

definition bond_maturity_source_refs :: "bond_maturity_input \<Rightarrow> source_ref list" where
  "bond_maturity_source_refs i = present_refs [bm_holdings_ref i, bm_maturity_fact_ref i]"

definition bond_source_ref_supportability_result ::
    "bond_maturity_input \<Rightarrow> source_ref list \<Rightarrow> signal_result option" where
  "bond_source_ref_supportability_result i refs = first_result
     [temporal_blocked_signal_result Bond_Maturity (ev_as_of_date i) (ev_evaluated_at_utc i) refs,
      result_if (\<not> ev_entitlement_allowed i) (denied_result Bond_Maturity),
      result_if (2 - length refs \<noteq> 0)
        (blocked_signal_result Bond_Maturity [R_Source_Partial] (replicate (2 - length refs) UR_Missing_Source)),
      result_if (any_not_current refs) (stale_result Bond_Maturity)]"

definition bond_source_value_supportability_result :: "bond_maturity_input \<Rightarrow> signal_result option res" where
  "bond_source_value_supportability_result i =
    (case bm_source_reported_maturing_position_count i of
       None \<Rightarrow> Inr (Some (missing_result Bond_Maturity))
     | Some n \<Rightarrow>
         checks [(n < 0, ValueError ''source_reported_maturing_position_count must be non-negative'')]
           (result_if (n = 0) (below_materiality_result Bond_Maturity)))"

definition within_maturity_window :: "py_date \<Rightarrow> py_date \<Rightarrow> int \<Rightarrow> bool" where
  "within_maturity_window as_of maturity window \<longleftrightarrow> as_of \<le> maturity \<and> maturity \<le> as_of + window"

definition bond_maturity_applicability_expiry :: "py_date \<Rightarrow> py_datetime" where
  \<comment> \<open>midnight UTC of the day after: an ordinal counts from the day 1\<close>
  "bond_maturity_applicability_expiry maturity = utc (us_days ((maturity + 1) - 1))"

definition bond_maturity_urgency :: "py_date \<Rightarrow> py_date \<Rightarrow> int \<Rightarrow> decimal res" where
  "bond_maturity_urgency as_of maturity window =
     quantize_cents (dec_add 50 (dec_div (dec_mul 50 (of_int (window - (maturity - as_of)))) (of_int window)))"

definition bond_maturity_score :: "bond_maturity_input \<Rightarrow> bond_maturity_policy \<Rightarrow> idea_score res" where
  "bond_maturity_score i p =
    (let e = Inl (ValueError ''eligible bond-maturity scoring requires maturity date and position count'')
     in case (bm_source_reported_next_maturity_date i, bm_source_reported_maturing_position_count i) of
       (Some maturity, Some n) \<Rightarrow>
         if n < 1 then e
         else bind_res (bond_maturity_urgency (ev_as_of_date i) maturity (bmp_maturity_window_days p)) (\<lambda>urgency.
           signal_score (bmp_policy_version p) [R_Maturity_Window, R_Review_Required]
             (bind_res (mk_scoring_input Urgency urgency (55 / 100)) (\<lambda>a.
              bind_res (relative_threshold_score (of_int n) 1) (\<lambda>m.
              bind_res (mk_scoring_input Materiality m (25 / 100)) (\<lambda>b.
              bind_res (mk_scoring_input Evidence_Quality 100 (10 / 100)) (\<lambda>c.
              bind_res (mk_scoring_input Freshness 100 (10 / 100)) (\<lambda>d.
                Inr [a, b, c, d])))))))
     | _ \<Rightarrow> e)"

definition opt_date_json :: "py_date option \<Rightarrow> json" where
  "opt_date_json d = opt_json (map_option date_iso d)"

definition bond_maturity_identity ::
    "bond_maturity_input \<Rightarrow> bond_maturity_policy \<Rightarrow> source_ref list \<Rightarrow> opportunity_identity res" where
  "bond_maturity_identity i p refs =
     build_opportunity_identity Bond_Maturity ''bond_maturity'' (ev_as_of_date i) (ev_access_scope i)
       [(''maturity_window_days'', JInt (bmp_maturity_window_days p)),
        (''policy_version'', JStr (bmp_policy_version p)),
        (''source_reported_maturing_position_count'',
         opt_int_json (bm_source_reported_maturing_position_count i)),
        (''source_reported_next_maturity_date'', opt_date_json (bm_source_reported_next_maturity_date i))]
       refs"

definition bond_maturity_candidate_created_result ::
    "bond_maturity_input \<Rightarrow> bond_maturity_policy \<Rightarrow> source_ref list \<Rightarrow> py_datetime \<Rightarrow> signal_result res" where
  "bond_maturity_candidate_created_result i p refs expires =
     signal_candidate_result Bond_Maturity Advisor_Review_Required [R_Maturity_Window] i refs (Some expires)
       (bond_maturity_identity i p refs) (bond_maturity_score i p)"

definition evaluate_bond_maturity_signal ::
    "bond_maturity_input \<Rightarrow> bond_maturity_policy \<Rightarrow> signal_result res" where
  "evaluate_bond_maturity_signal i p =
     bind_res (checks (validate_timezone_aware_evaluation_time (ev_evaluated_at_utc i)) ()) (\<lambda>_.
     let refs = bond_maturity_source_refs i
     in or_continue (bond_source_ref_supportability_result i refs)
          (bind_res (bond_source_value_supportability_result i) (\<lambda>v. or_continue v
            (case bm_source_reported_next_maturity_date i of
               None \<Rightarrow> Inr (missing_result Bond_Maturity)
             | Some maturity \<Rightarrow>
                 if \<not> within_maturity_window (ev_as_of_date i) maturity (bmp_maturity_window_days p)
                 then Inr (below_materiality_result Bond_Maturity)
                 else let expires = bond_maturity_applicability_expiry maturity in
                   if dt_le expires (ev_evaluated_at_utc i)
                   then Inr (not_eligible_signal_result Bond_Maturity R_Opportunity_No_Longer_Eligible)
                   else bond_maturity_candidate_created_result i p refs expires))))"

definition bond_maturity_detects :: "bond_maturity_input \<Rightarrow> bond_maturity_policy \<Rightarrow> bool" where
  "bond_maturity_detects i p \<longleftrightarrow>
     usable_sources i (bond_maturity_source_refs i) \<and>
     bm_holdings_ref i \<noteq> None \<and> bm_maturity_fact_ref i \<noteq> None \<and>
     (\<exists>n. bm_source_reported_maturing_position_count i = Some n \<and> n \<noteq> 0) \<and>
     (\<exists>d. bm_source_reported_next_maturity_date i = Some d \<and>
        within_maturity_window (ev_as_of_date i) d (bmp_maturity_window_days p) \<and>
        \<not> dt_le (bond_maturity_applicability_expiry d) (ev_evaluated_at_utc i))"

definition bond_maturity_well_posed :: "bond_maturity_input \<Rightarrow> bond_maturity_policy \<Rightarrow> bool" where
  "bond_maturity_well_posed i p \<longleftrightarrow>
     posed i (bond_maturity_source_refs i) \<and> passes (bond_maturity_policy_guards p) \<and>
     (\<forall>n. bm_source_reported_maturing_position_count i = Some n \<longrightarrow> 0 \<le> n \<and> n \<le> 10 ^ 20)"

definition bond_maturity_materiality ::
    "bond_maturity_input \<Rightarrow> bond_maturity_policy \<Rightarrow> signal_result option res" where
  \<comment> \<open>the early returns after the checks of the sources\<close>
  "bond_maturity_materiality i p =
     bind_res (bond_source_value_supportability_result i) (\<lambda>v. Inr (first_result
       [v, case bm_source_reported_next_maturity_date i of
             None \<Rightarrow> Some (missing_result Bond_Maturity)
           | Some maturity \<Rightarrow> first_result
               [result_if (\<not> within_maturity_window (ev_as_of_date i) maturity (bmp_maturity_window_days p))
                  (below_materiality_result Bond_Maturity),
                result_if (dt_le (bond_maturity_applicability_expiry maturity) (ev_evaluated_at_utc i))
                  (not_eligible_signal_result Bond_Maturity R_Opportunity_No_Longer_Eligible)]]))"

lemma bond_maturity_staged:
  "evaluate_bond_maturity_signal i p = staged (ev_evaluated_at_utc i)
     [temporal_blocked_signal_result Bond_Maturity (ev_as_of_date i) (ev_evaluated_at_utc i)
        (bond_maturity_source_refs i),
      result_if (\<not> ev_entitlement_allowed i) (denied_result Bond_Maturity),
      result_if (2 - length (bond_maturity_source_refs i) \<noteq> 0)
        (blocked_signal_result Bond_Maturity [R_Source_Partial]
           (replicate (2 - length (bond_maturity_source_refs i)) UR_Missing_Source)),
      result_if (any_not_current (bond_maturity_source_refs i)) (stale_result Bond_Maturity)]
     (bond_maturity_materiality i p)
     (bond_maturity_candidate_created_result i p (bond_maturity_source_refs i)
        (bond_maturity_applicability_expiry (the (bm_source_reported_next_maturity_date i))))"
proof -
  have k: "or_continue v
      (case bm_source_reported_next_maturity_date i of
               None \<Rightarrow> Inr (missing_result Bond_Maturity)
             | Some maturity \<Rightarrow>
                 if \<not> within_maturity_window (ev_as_of_date i) maturity (bmp_maturity_window_days p)
                 then Inr (below_materiality_result Bond_Maturity)
                 else let expires = bond_maturity_applicability_expiry maturity in
                   if dt_le expires (ev_evaluated_at_utc i)
                   then Inr (not_eligible_signal_result Bond_Maturity R_Opportunity_No_Longer_Eligible)
                   else bond_maturity_candidate_created_result i p refs expires) =
     or_continue (first_result
       [v, case bm_source_reported_next_maturity_date i of
             None \<Rightarrow> Some (missing_result Bond_Maturity)
           | Some maturity \<Rightarrow> first_result
               [result_if (\<not> within_maturity_window (ev_as_of_date i) maturity (bmp_maturity_window_days p))
                  (below_materiality_result Bond_Maturity),
                result_if (dt_le (bond_maturity_applicability_expiry maturity) (ev_evaluated_at_utc i))
                  (not_eligible_signal_result Bond_Maturity R_Opportunity_No_Longer_Eligible)]])
       (bond_maturity_candidate_created_result i p refs
          (bond_maturity_applicability_expiry (the (bm_source_reported_next_maturity_date i))))" for v refs
    by (cases v; cases "bm_source_reported_next_maturity_date i")
      (simp_all add: first_result_step Let_def)
  show ?thesis
    unfolding evaluate_bond_maturity_signal_def staged_def Let_def[of "bond_maturity_source_refs i"]
      bond_source_ref_supportability_result_def bond_maturity_materiality_def k
    by (cases "bond_source_value_supportability_result i") simp_all
qed

lemma bond_maturity_refs_two:
  "2 \<le> length (bond_maturity_source_refs i) \<longleftrightarrow> bm_holdings_ref i \<noteq> None \<and> bm_maturity_fact_ref i \<noteq> None"
  by (cases "bm_holdings_ref i"; cases "bm_maturity_fact_ref i") (simp_all add: bond_maturity_source_refs_def)

lemma bond_maturity_refs_Nil [simp]:
  "bond_maturity_source_refs i = [] \<longleftrightarrow> bm_holdings_ref i = None \<and> bm_maturity_fact_ref i = None"
  by (cases "bm_holdings_ref i"; cases "bm_maturity_fact_ref i") (simp_all add: bond_maturity_source_refs_def)

lemma bond_maturity_materiality_Inr:
  assumes "bond_maturity_materiality i p = Inr m"
  shows "m = None \<longleftrightarrow> (\<exists>n. bm_source_reported_maturing_position_count i = Some n \<and> n \<noteq> 0) \<and>
      (\<exists>d. bm_source_reported_next_maturity_date i = Some d \<and>
        within_maturity_window (ev_as_of_date i) d (bmp_maturity_window_days p) \<and>
        \<not> dt_le (bond_maturity_applicability_expiry d) (ev_evaluated_at_utc i))"
    and "stops_only Bond_Maturity m"
proof -
  obtain v where v: "bond_source_value_supportability_result i = Inr v"
    and m: "m = first_result
       [v, case bm_source_reported_next_maturity_date i of
             None \<Rightarrow> Some (missing_result Bond_Maturity)
           | Some maturity \<Rightarrow> first_result
               [result_if (\<not> within_maturity_window (ev_as_of_date i) maturity (bmp_maturity_window_days p))
                  (below_materiality_result Bond_Maturity),
                result_if (dt_le (bond_maturity_applicability_expiry maturity) (ev_evaluated_at_utc i))
                  (not_eligible_signal_result Bond_Maturity R_Opportunity_No_Longer_Eligible)]]"
    using assms by (auto simp: bond_maturity_materiality_def bind_res_Inr)
  have "v = None \<longleftrightarrow> (\<exists>n. bm_source_reported_maturing_position_count i = Some n \<and> n \<noteq> 0)"
    and "stops_only Bond_Maturity v"
    using v by (auto simp: bond_source_value_supportability_result_def split: option.splits)
  then show "m = None \<longleftrightarrow> (\<exists>n. bm_source_reported_maturing_position_count i = Some n \<and> n \<noteq> 0) \<and>
      (\<exists>d. bm_source_reported_next_maturity_date i = Some d \<and>
        within_maturity_window (ev_as_of_date i) d (bmp_maturity_window_days p) \<and>
        \<not> dt_le (bond_maturity_applicability_expiry d) (ev_evaluated_at_utc i))"
    "stops_only Bond_Maturity m"
    unfolding m by (auto split: option.splits intro!: stops_only_first_result)
qed

lemma bond_maturity_urgency_ok:
  fixes as_of maturity window :: int
  assumes "0 < window" "window \<le> 366" "as_of \<le> maturity" "maturity \<le> as_of + window"
  obtains u where "bond_maturity_urgency as_of maturity window = Inr u" "50 \<le> u" "u \<le> 100"
proof -
  let ?left = "window - (maturity - as_of)"
  define q where "q = dec_div (dec_mul 50 (of_int ?left)) (of_int window)"
  define d where "d = dec_add 50 q"
  have left: "0 \<le> ?left" "?left \<le> window" using assms by simp_all
  have "dec_mul 50 (of_int ?left) = of_int (50 * ?left)"
    using ctx28_of_int[of "50 * ?left"] left assms(2) by (simp add: dec_mul_def)
  then have q: "q = ctx28 (of_int (50 * ?left) / of_int window)" by (simp add: q_def dec_div_def)
  have r: "0 \<le> (of_int (50 * ?left) / of_int window :: rat)" using left assms(1) by simp
  have "50 * ?left \<le> 50 * window" by (rule mult_left_mono[OF left(2)]) simp
  then have "(of_int (50 * ?left) :: rat) \<le> of_int (50 * window)" by (simp only: of_int_le_iff)
  then have "(of_int (50 * ?left) / of_int window :: rat) \<le> 50" using assms(1) by (simp add: divide_le_eq)
  then have "q \<le> ctx28 50" unfolding q by (intro ctx28_mono[OF r])
  then have q2: "0 \<le> q" "q \<le> 50" using ctx28_nonneg[OF r] q by (simp_all add: ctx28_small)
  have "ctx28 50 \<le> d" "d \<le> ctx28 100" unfolding d_def dec_add_def using q2 by (intro ctx28_mono; simp)+
  then have d: "of_int 50 \<le> d" "d \<le> of_int 100" by (simp_all add: ctx28_small)
  have "of_int 50 \<le> quantize2 d \<and> quantize2 d \<le> of_int 100" by (rule quantize2_bounds[OF d])
  then have b: "50 \<le> quantize2 d" "quantize2 d \<le> 100" by simp_all
  then have "bond_maturity_urgency as_of maturity window = Inr (quantize2 d)"
    unfolding bond_maturity_urgency_def q_def[symmetric] d_def[symmetric] quantize_cents_def
    by (intro checks_passes) simp
  then show thesis using that b by blast
qed

lemma bond_maturity_score_ok:
  assumes "bond_maturity_well_posed i p" "bond_maturity_materiality i p = Inr None"
  shows "is_ok (bond_maturity_score i p)"
proof -
  obtain n d where nd: "bm_source_reported_maturing_position_count i = Some n" "n \<noteq> 0"
    "bm_source_reported_next_maturity_date i = Some d"
    "within_maturity_window (ev_as_of_date i) d (bmp_maturity_window_days p)"
    using bond_maturity_materiality_Inr(1)[OF assms(2)] by auto
  have b: "1 \<le> n" "n \<le> 10 ^ 20" "0 < bmp_maturity_window_days p" "bmp_maturity_window_days p \<le> 366"
    "\<not> blank (bmp_policy_version p)"
    using assms(1) nd by (auto simp: bond_maturity_well_posed_def bond_maturity_policy_guards_def)
  obtain u where u: "bond_maturity_urgency (ev_as_of_date i) d (bmp_maturity_window_days p) = Inr u"
    "50 \<le> u" "u \<le> 100"
    using bond_maturity_urgency_ok[OF b(3,4)] nd(4) by (auto simp: within_maturity_window_def)
  have "of_int n \<le> (of_int (10 ^ 20) :: rat)" using b(2) by (simp only: of_int_le_iff)
  then obtain m where m: "relative_threshold_score (of_int n) 1 = Inr m" "50 \<le> m" "m \<le> 100"
    using relative_threshold_score_ok[of 1 "of_int n"] b(1) by (auto simp: on_scale_def)
  have v: "valid_inputs [\<lparr>si_component = Urgency, si_input_score = u, si_weight = 55 / 100\<rparr>,
      \<lparr>si_component = Materiality, si_input_score = m, si_weight = 25 / 100\<rparr>,
      \<lparr>si_component = Evidence_Quality, si_input_score = 100, si_weight = 10 / 100\<rparr>,
      \<lparr>si_component = Freshness, si_input_score = 100, si_weight = 10 / 100\<rparr>]"
    using u m dec_sum_weights(3) by (simp add: valid_inputs_def passes_scoring_input)
  show ?thesis
    using signal_score_ok[OF refl v b(5), of "[R_Maturity_Window, R_Review_Required]"] u m b(1)
    by (auto simp: bond_maturity_score_def nd is_ok_iff)
qed

interpretation bond_maturity: signal_evaluator evaluate_bond_maturity_signal Bond_Maturity
  "''bond_maturity''" Advisor_Review_Required
  "\<lambda>i. Some (bond_maturity_applicability_expiry (the (bm_source_reported_next_maturity_date i)))"
  bond_maturity_source_refs bond_maturity_detects bond_maturity_well_posed
proof
  fix i p r
  assume "evaluate_bond_maturity_signal i p = Inr r"
  then show "evaluation_sound Bond_Maturity ''bond_maturity'' Advisor_Review_Required
      (Some (bond_maturity_applicability_expiry (the (bm_source_reported_next_maturity_date i)))) i
      (bond_maturity_source_refs i) (bond_maturity_detects i p) r"
    unfolding bond_maturity_staged bond_maturity_candidate_created_result_def bond_maturity_identity_def
    by (rule staged_sound)
      (auto simp: bond_maturity_detects_def usable_sources_def bond_maturity_refs_two
        dest: bond_maturity_materiality_Inr)
next
  fix i p
  assume w: "bond_maturity_well_posed i p"
  have "is_ok (bond_maturity_materiality i p)"
    using w by (auto simp: bond_maturity_materiality_def bond_source_value_supportability_result_def
        bond_maturity_well_posed_def checks_passes split: option.splits)
  moreover have "expiry_after (ev_evaluated_at_utc i)
      (Some (bond_maturity_applicability_expiry (the (bm_source_reported_next_maturity_date i))))"
    if "bond_maturity_materiality i p = Inr None"
    using bond_maturity_materiality_Inr(1)[OF that]
    by (auto simp: expiry_after_def bond_maturity_applicability_expiry_def)
  ultimately show "is_ok (evaluate_bond_maturity_signal i p)"
    using w
    unfolding bond_maturity_staged bond_maturity_candidate_created_result_def bond_maturity_identity_def
    by (intro staged_answers candidate_ok bond_maturity_score_ok)
      (auto simp: bond_maturity_well_posed_def posed_def bond_maturity_refs_two validate_material_facts_def
        leaked_keys_def OBSERVATION_ONLY_MATERIAL_FACTS_def candidate_state_defs blank_iff py_space_def
        py_strip_id opt_int_json_def opt_date_json_def opt_json_def split: option.splits)
qed (simp add: bond_maturity_detects_def)

end
