(* ===== verification/Signal_Reviews.thy ===== *)
theory Signal_Reviews
imports Signal_Cashflow
begin

text \<open>
  The evaluators whose signal is a missing or restricting control rather than a threshold:
  \<open>mandate_restriction_signal.py\<close>, \<open>missing_benchmark_signal.py\<close>,
  \<open>missing_risk_profile_signal.py\<close> and \<open>missing_suitability_signal.py\<close>. An \<open>assert\<close> of the code
  is the exception \<open>AssertionError\<close>, which the interpretations show unreachable.
\<close>

section \<open>Mandate restriction\<close>

definition ACTIONABLE_RESTRICTION_STATUSES :: "string set" where
  "ACTIONABLE_RESTRICTION_STATUSES =
     {''BLOCKED'', ''BREACHED'', ''REVIEW_REQUIRED'', ''RESTRICTION_CHANGED'', ''POLICY_CHANGED'',
      ''PENDING_REVIEW''}"

definition NON_ACTIONABLE_RESTRICTION_STATUSES :: "string set" where
  "NON_ACTIONABLE_RESTRICTION_STATUSES = {''CLEAR'', ''CURRENT'', ''NO_RESTRICTION'', ''WITHIN_MANDATE''}"

record version_policy =
  \<comment> \<open>the policies of the families that have a version and no parameter\<close>
  vp_policy_version :: string

definition version_policy_guards :: "version_policy \<Rightarrow> guards" where
  "version_policy_guards p = require_text (vp_policy_version p) ''policy_version''"

record mandate_restriction_input = signal_input +
  mr_restriction_ref :: "source_ref option"
  mr_restriction_status :: "string option"
  mr_changed_since_last_review :: "bool option"
  mr_actionability_blocked :: "bool option"

definition mandate_restriction_blocking_result :: "mandate_restriction_input \<Rightarrow> signal_result option" where
  "mandate_restriction_blocking_result i = first_result
     [result_if (\<not> ev_entitlement_allowed i) (denied_result Mandate_Restriction),
      result_if (mr_restriction_ref i = None) (missing_result Mandate_Restriction),
      result_if (any_not_current (present_refs [mr_restriction_ref i])) (stale_result Mandate_Restriction),
      result_if (mr_restriction_status i = None \<or> mr_changed_since_last_review i = None \<or>
                 mr_actionability_blocked i = None)
        (missing_result Mandate_Restriction)]"

definition restriction_review_required :: "mandate_restriction_input \<Rightarrow> bool res" where
  "restriction_review_required i =
    (case (mr_restriction_status i, mr_changed_since_last_review i, mr_actionability_blocked i) of
       (Some status, Some changed, Some blocked) \<Rightarrow>
         Inr (let normalized = py_upper status in
              if normalized \<in> NON_ACTIONABLE_RESTRICTION_STATUSES then changed \<or> blocked
              else normalized \<in> ACTIONABLE_RESTRICTION_STATUSES \<or> changed \<or> blocked)
     | _ \<Rightarrow> Inl AssertionError)"

definition restriction_relevance :: "string \<Rightarrow> decimal" where
  "restriction_relevance status = or_else (map_of
     [(''BREACHED'', 100), (''BLOCKED'', 95), (''POLICY_CHANGED'', 85), (''RESTRICTION_CHANGED'', 85),
      (''REVIEW_REQUIRED'', 75), (''PENDING_REVIEW'', 70)] status) 65"

definition mandate_restriction_score ::
    "mandate_restriction_input \<Rightarrow> version_policy \<Rightarrow> idea_score res" where
  "mandate_restriction_score i p =
    (let status = py_upper (py_strip (or_empty (mr_restriction_status i)));
         relevance = restriction_relevance status;
         urgency = (if mr_actionability_blocked i = Some True then 100
                    else if status \<in> {''BREACHED'', ''BLOCKED''} then 95
                    else if mr_changed_since_last_review i = Some True then 85 else 70)
     in signal_score (vp_policy_version p) [R_Mandate_Restriction_Review, R_Review_Required]
          (bind_res (mk_scoring_input Relevance relevance (55 / 100)) (\<lambda>a.
           bind_res (mk_scoring_input Urgency urgency (25 / 100)) (\<lambda>b.
           bind_res (mk_scoring_input Evidence_Quality 100 (10 / 100)) (\<lambda>c.
           bind_res (mk_scoring_input Freshness 100 (10 / 100)) (\<lambda>d. Inr [a, b, c, d]))))))"

definition mandate_restriction_identity ::
    "mandate_restriction_input \<Rightarrow> version_policy \<Rightarrow> source_ref list \<Rightarrow> opportunity_identity res" where
  "mandate_restriction_identity i p refs =
     build_opportunity_identity Mandate_Restriction ''mandate_restriction'' (ev_as_of_date i)
       (ev_access_scope i)
       [(''actionability_blocked'', opt_bool_json (mr_actionability_blocked i)),
        (''changed_since_last_review'', opt_bool_json (mr_changed_since_last_review i)),
        (''policy_version'', JStr (vp_policy_version p)),
        (''restriction_status'', JStr (py_upper (py_strip (or_empty (mr_restriction_status i)))))] refs"

definition mandate_restriction_candidate_result ::
    "mandate_restriction_input \<Rightarrow> version_policy \<Rightarrow> signal_result res" where
  "mandate_restriction_candidate_result i p =
    (case mr_restriction_ref i of
       None \<Rightarrow> Inl AssertionError
     | Some r \<Rightarrow>
         signal_candidate_result Mandate_Restriction Compliance_Review_Required
           [R_Mandate_Restriction_Review] i [r] None
           (mandate_restriction_identity i p [r]) (mandate_restriction_score i p))"

definition evaluate_mandate_restriction_signal ::
    "mandate_restriction_input \<Rightarrow> version_policy \<Rightarrow> signal_result res" where
  "evaluate_mandate_restriction_signal i p =
     bind_res (checks (validate_timezone_aware_evaluation_time (ev_evaluated_at_utc i)) ()) (\<lambda>_.
     or_continue (temporal_blocked_signal_result Mandate_Restriction (ev_as_of_date i)
         (ev_evaluated_at_utc i) (present_refs [mr_restriction_ref i]))
       (or_continue (mandate_restriction_blocking_result i)
         (bind_res (restriction_review_required i) (\<lambda>required.
            if \<not> required then Inr (below_materiality_result Mandate_Restriction)
            else mandate_restriction_candidate_result i p))))"

definition mandate_restriction_refs :: "mandate_restriction_input \<Rightarrow> source_ref list" where
  "mandate_restriction_refs i = present_refs [mr_restriction_ref i]"

definition mandate_restriction_detects :: "mandate_restriction_input \<Rightarrow> version_policy \<Rightarrow> bool" where
  "mandate_restriction_detects i p \<longleftrightarrow>
     usable_sources i (mandate_restriction_refs i) \<and>
     (\<exists>s c b. mr_restriction_status i = Some s \<and> mr_changed_since_last_review i = Some c \<and>
        mr_actionability_blocked i = Some b \<and>
        (c \<or> b \<or> py_upper s \<in> ACTIONABLE_RESTRICTION_STATUSES))"

definition mandate_restriction_well_posed :: "mandate_restriction_input \<Rightarrow> version_policy \<Rightarrow> bool" where
  "mandate_restriction_well_posed i p \<longleftrightarrow>
     posed i (mandate_restriction_refs i) \<and> passes (version_policy_guards p)"

definition review_step :: "bool res \<Rightarrow> opportunity_family \<Rightarrow> signal_result option res" where
  \<comment> \<open>\<open>if not required: return\<close> the result below materiality\<close>
  "review_step required f =
     bind_res required (\<lambda>b. Inr (result_if (\<not> b) (below_materiality_result f)))"

lemma review_step_Inr [simp]:
  "review_step required f = Inr m \<longleftrightarrow>
     (\<exists>b. required = Inr b \<and> m = result_if (\<not> b) (below_materiality_result f))"
  by (auto simp: review_step_def bind_res_Inr)

lemma is_ok_review_step [simp]: "is_ok (review_step required f) \<longleftrightarrow> is_ok required"
  by (cases required) (simp_all add: review_step_def)

lemma review_step_bind:
  "bind_res required (\<lambda>b. if \<not> b then Inr (below_materiality_result f) else k) =
     bind_res (review_step required f) (\<lambda>m. or_continue m k)"
  by (cases required) (simp_all add: review_step_def result_if_def)

lemma or_continue_single: "or_continue x k = or_continue (first_result [x]) k"
  by (cases x) (simp_all add: first_result_step)

text \<open>After the blocks the references are present, so the candidate may be taken with all of
  them.\<close>

lemma or_continue_present:
  assumes "x = None \<Longrightarrow> k = k'"
  shows "or_continue x k = or_continue x k'"
  using assms by (cases x) auto

lemma mandate_restriction_staged:
  "evaluate_mandate_restriction_signal i p = staged (ev_evaluated_at_utc i)
     [temporal_blocked_signal_result Mandate_Restriction (ev_as_of_date i) (ev_evaluated_at_utc i)
        (mandate_restriction_refs i),
      result_if (\<not> ev_entitlement_allowed i) (denied_result Mandate_Restriction),
      result_if (mr_restriction_ref i = None) (missing_result Mandate_Restriction),
      result_if (any_not_current (mandate_restriction_refs i)) (stale_result Mandate_Restriction),
      result_if (mr_restriction_status i = None \<or> mr_changed_since_last_review i = None \<or>
                 mr_actionability_blocked i = None)
        (missing_result Mandate_Restriction)]
     (review_step (restriction_review_required i) Mandate_Restriction)
     (signal_candidate_result Mandate_Restriction Compliance_Review_Required
           [R_Mandate_Restriction_Review] i (mandate_restriction_refs i) None
           (mandate_restriction_identity i p (mandate_restriction_refs i)) (mandate_restriction_score i p))"
  unfolding evaluate_mandate_restriction_signal_def staged_def mandate_restriction_blocking_result_def
    or_continue_single[of "temporal_blocked_signal_result _ _ _ _"] or_continue_first review_step_bind
    mandate_restriction_refs_def append.simps
  by (intro arg_cong[where f = "bind_res _"] ext or_continue_present)
    (auto simp: mandate_restriction_candidate_result_def)

lemma mandate_restriction_refs_Nil [simp]:
  "mandate_restriction_refs i = [] \<longleftrightarrow> mr_restriction_ref i = None"
  by (cases "mr_restriction_ref i") (simp_all add: mandate_restriction_refs_def)

lemma restriction_review_required_iff:
  "restriction_review_required i = Inr b \<longleftrightarrow>
     (\<exists>s c k. mr_restriction_status i = Some s \<and> mr_changed_since_last_review i = Some c \<and>
        mr_actionability_blocked i = Some k \<and>
        b = (c \<or> k \<or> py_upper s \<in> ACTIONABLE_RESTRICTION_STATUSES))"
  by (auto simp: restriction_review_required_def Let_def NON_ACTIONABLE_RESTRICTION_STATUSES_def
      ACTIONABLE_RESTRICTION_STATUSES_def split: option.splits)

lemma restriction_relevance_bounds: "65 \<le> restriction_relevance s" "restriction_relevance s \<le> 100"
  by (simp_all add: restriction_relevance_def)

lemma four_inputs_score_ok:
  assumes "0 \<le> r" "r \<le> 100" "0 \<le> u" "u \<le> 100" "\<not> blank version"
    and "dec_sum [x, y, 10 / 100, 10 / 100] = 1" "0 \<le> x" "x \<le> 1" "0 \<le> y" "y \<le> 1"
  shows "is_ok (signal_score version reasons
          (bind_res (mk_scoring_input Relevance r x) (\<lambda>a.
           bind_res (mk_scoring_input Urgency u y) (\<lambda>b.
           bind_res (mk_scoring_input Evidence_Quality 100 (10 / 100)) (\<lambda>c.
           bind_res (mk_scoring_input Freshness 100 (10 / 100)) (\<lambda>d. Inr [a, b, c, d]))))))"
proof -
  have v: "valid_inputs [\<lparr>si_component = Relevance, si_input_score = r, si_weight = x\<rparr>,
      \<lparr>si_component = Urgency, si_input_score = u, si_weight = y\<rparr>,
      \<lparr>si_component = Evidence_Quality, si_input_score = 100, si_weight = 10 / 100\<rparr>,
      \<lparr>si_component = Freshness, si_input_score = 100, si_weight = 10 / 100\<rparr>]"
    using assms by (auto simp: valid_inputs_def passes_scoring_input)
  show ?thesis
    using signal_score_ok[OF refl v assms(5), of reasons] assms by (auto simp: is_ok_iff)
qed

lemma three_inputs_score_ok:
  assumes "0 \<le> r" "r \<le> 100" "\<not> blank version"
  shows "is_ok (signal_score version reasons
          (bind_res (mk_scoring_input Relevance r (70 / 100)) (\<lambda>a.
           bind_res (mk_scoring_input Evidence_Quality 100 (15 / 100)) (\<lambda>b.
           bind_res (mk_scoring_input Freshness 100 (15 / 100)) (\<lambda>c. Inr [a, b, c])))))"
proof -
  have v: "valid_inputs [\<lparr>si_component = Relevance, si_input_score = r, si_weight = 70 / 100\<rparr>,
      \<lparr>si_component = Evidence_Quality, si_input_score = 100, si_weight = 15 / 100\<rparr>,
      \<lparr>si_component = Freshness, si_input_score = 100, si_weight = 15 / 100\<rparr>]"
    using assms dec_sum_weights(2) by (auto simp: valid_inputs_def passes_scoring_input)
  show ?thesis
    using signal_score_ok[OF refl v assms(3), of reasons] assms by (auto simp: is_ok_iff)
qed

lemma mandate_restriction_score_ok:
  assumes "mandate_restriction_well_posed i p"
  shows "is_ok (mandate_restriction_score i p)"
  unfolding mandate_restriction_score_def Let_def
  by (rule four_inputs_score_ok)
    (use assms dec_sum_weights(3) restriction_relevance_bounds order_trans[OF _ restriction_relevance_bounds(1)] in
      \<open>auto simp: mandate_restriction_well_posed_def version_policy_guards_def\<close>)

interpretation mandate_restriction: signal_evaluator evaluate_mandate_restriction_signal
  Mandate_Restriction "''mandate_restriction''" Compliance_Review_Required "\<lambda>_. None" mandate_restriction_refs
  mandate_restriction_detects mandate_restriction_well_posed
proof
  fix i p r
  assume "evaluate_mandate_restriction_signal i p = Inr r"
  then show "evaluation_sound Mandate_Restriction ''mandate_restriction'' Compliance_Review_Required None i
      (mandate_restriction_refs i) (mandate_restriction_detects i p) r"
    unfolding mandate_restriction_staged mandate_restriction_identity_def
    by (rule staged_sound)
      (auto simp: mandate_restriction_detects_def usable_sources_def restriction_review_required_iff)
next
  fix i p
  assume "mandate_restriction_well_posed i p"
  then show "is_ok (evaluate_mandate_restriction_signal i p)"
    unfolding mandate_restriction_staged mandate_restriction_identity_def
    by (intro staged_answers candidate_ok mandate_restriction_score_ok)
      (auto simp: mandate_restriction_well_posed_def posed_def candidate_simps opt_bool_json_def
        restriction_review_required_def is_ok_iff split: option.splits)
qed (simp add: mandate_restriction_detects_def)

section \<open>Missing benchmark\<close>

record missing_benchmark_input = signal_input +
  mb_benchmark_assignment_ref :: "source_ref option"
  mb_benchmark_identity_resolved :: bool
  mb_assignment_effective_for_as_of_date :: bool
  mb_assignment_status :: "string option"
  mb_assignment_version_present :: bool

definition benchmark_assignment_diagnostic :: "bool \<Rightarrow> bool \<Rightarrow> string option \<Rightarrow> bool \<Rightarrow> string" where
  "benchmark_assignment_diagnostic identity_resolved effective status version_present =
    (if \<not> identity_resolved then ''core_benchmark_assignment_benchmark_identity_missing''
     else if \<not> effective then ''core_benchmark_assignment_not_effective_for_as_of_date''
     else let normalized = py_lower (py_strip (or_empty status)) in
       if normalized = [] then ''core_benchmark_assignment_status_missing''
       else if normalized \<noteq> ''active'' then ''core_benchmark_assignment_'' @ normalized
       else if \<not> version_present then ''core_benchmark_assignment_version_missing''
       else ''core_benchmark_assignment_ready'')"

definition benchmark_diagnostic_of :: "missing_benchmark_input \<Rightarrow> string" where
  "benchmark_diagnostic_of i =
     benchmark_assignment_diagnostic (mb_benchmark_identity_resolved i)
       (mb_assignment_effective_for_as_of_date i) (mb_assignment_status i) (mb_assignment_version_present i)"

definition benchmark_assignment_is_ready :: "missing_benchmark_input \<Rightarrow> bool" where
  "benchmark_assignment_is_ready i \<longleftrightarrow> benchmark_diagnostic_of i = ''core_benchmark_assignment_ready''"

definition missing_benchmark_non_candidate_result :: "missing_benchmark_input \<Rightarrow> signal_result option" where
  "missing_benchmark_non_candidate_result i = first_result
     [result_if (\<not> ev_entitlement_allowed i) (denied_result Missing_Benchmark),
      result_if (mb_benchmark_assignment_ref i = None) (missing_result Missing_Benchmark),
      temporal_blocked_signal_result Missing_Benchmark (ev_as_of_date i) (ev_evaluated_at_utc i)
        (present_refs [mb_benchmark_assignment_ref i]),
      result_if (any_not_current (present_refs [mb_benchmark_assignment_ref i]))
        (stale_result Missing_Benchmark),
      result_if (benchmark_assignment_is_ready i) (below_materiality_result Missing_Benchmark)]"

definition current_benchmark_assignment_refs :: "missing_benchmark_input \<Rightarrow> source_ref list res" where
  "current_benchmark_assignment_refs i =
    (case mb_benchmark_assignment_ref i of
       None \<Rightarrow> Inl (ValueError ''benchmark_assignment_ref is required after blocker classification'')
     | Some r \<Rightarrow> Inr [r])"

definition benchmark_relevance :: "string \<Rightarrow> decimal" where
  "benchmark_relevance diagnostic = or_else (map_of
     [(''core_benchmark_assignment_benchmark_identity_missing'', 100),
      (''core_benchmark_assignment_not_effective_for_as_of_date'', 95),
      (''core_benchmark_assignment_status_missing'', 90),
      (''core_benchmark_assignment_version_missing'', 75)] diagnostic) 80"

definition missing_benchmark_score :: "missing_benchmark_input \<Rightarrow> version_policy \<Rightarrow> idea_score res" where
  "missing_benchmark_score i p =
     signal_score (vp_policy_version p) [R_Missing_Benchmark, R_Review_Required]
       (bind_res (mk_scoring_input Relevance (benchmark_relevance (benchmark_diagnostic_of i)) (70 / 100)) (\<lambda>a.
        bind_res (mk_scoring_input Evidence_Quality 100 (15 / 100)) (\<lambda>b.
        bind_res (mk_scoring_input Freshness 100 (15 / 100)) (\<lambda>c. Inr [a, b, c]))))"

definition missing_benchmark_identity ::
    "missing_benchmark_input \<Rightarrow> version_policy \<Rightarrow> source_ref list \<Rightarrow> opportunity_identity res" where
  "missing_benchmark_identity i p refs =
     build_opportunity_identity Missing_Benchmark ''missing_benchmark'' (ev_as_of_date i) (ev_access_scope i)
       [(''benchmark_identity_resolved'', JBool (mb_benchmark_identity_resolved i)),
        (''assignment_effective_for_as_of_date'', JBool (mb_assignment_effective_for_as_of_date i)),
        (''assignment_status'', opt_json (mb_assignment_status i)),
        (''assignment_version_present'', JBool (mb_assignment_version_present i)),
        (''policy_version'', JStr (vp_policy_version p))] refs"

definition missing_benchmark_candidate ::
    "missing_benchmark_input \<Rightarrow> version_policy \<Rightarrow> source_ref list \<Rightarrow> signal_result res" where
  "missing_benchmark_candidate i p refs =
     signal_candidate_result Missing_Benchmark Advisor_Review_Required [R_Missing_Benchmark] i refs None
       (missing_benchmark_identity i p refs) (missing_benchmark_score i p)"

definition evaluate_missing_benchmark_signal ::
    "missing_benchmark_input \<Rightarrow> version_policy \<Rightarrow> signal_result res" where
  "evaluate_missing_benchmark_signal i p =
     bind_res (checks (validate_timezone_aware_evaluation_time (ev_evaluated_at_utc i)) ()) (\<lambda>_.
     or_continue (missing_benchmark_non_candidate_result i)
       (bind_res (current_benchmark_assignment_refs i) (\<lambda>refs. missing_benchmark_candidate i p refs)))"

definition missing_benchmark_refs :: "missing_benchmark_input \<Rightarrow> source_ref list" where
  "missing_benchmark_refs i = present_refs [mb_benchmark_assignment_ref i]"

definition missing_benchmark_detects :: "missing_benchmark_input \<Rightarrow> version_policy \<Rightarrow> bool" where
  "missing_benchmark_detects i p \<longleftrightarrow>
     usable_sources i (missing_benchmark_refs i) \<and>
     \<not> (mb_benchmark_identity_resolved i \<and> mb_assignment_effective_for_as_of_date i \<and>
        (\<exists>s. mb_assignment_status i = Some s \<and> py_lower (py_strip s) \<in> {''active'', ''ready''}) \<and>
        (mb_assignment_version_present i \<or>
         (\<exists>s. mb_assignment_status i = Some s \<and> py_lower (py_strip s) = ''ready'')))"

definition missing_benchmark_well_posed :: "missing_benchmark_input \<Rightarrow> version_policy \<Rightarrow> bool" where
  "missing_benchmark_well_posed i p \<longleftrightarrow>
     posed i (missing_benchmark_refs i) \<and> passes (version_policy_guards p)"

lemma missing_benchmark_staged:
  "evaluate_missing_benchmark_signal i p = staged (ev_evaluated_at_utc i)
     [result_if (\<not> ev_entitlement_allowed i) (denied_result Missing_Benchmark),
      result_if (mb_benchmark_assignment_ref i = None) (missing_result Missing_Benchmark),
      temporal_blocked_signal_result Missing_Benchmark (ev_as_of_date i) (ev_evaluated_at_utc i)
        (missing_benchmark_refs i),
      result_if (any_not_current (missing_benchmark_refs i)) (stale_result Missing_Benchmark),
      result_if (benchmark_assignment_is_ready i) (below_materiality_result Missing_Benchmark)]
     (Inr None) (missing_benchmark_candidate i p (missing_benchmark_refs i))"
  unfolding evaluate_missing_benchmark_signal_def staged_def missing_benchmark_non_candidate_result_def
    missing_benchmark_refs_def
  by (intro arg_cong[where f = "bind_res _"] ext or_continue_present)
    (auto simp: current_benchmark_assignment_refs_def)

lemma missing_benchmark_refs_Nil [simp]:
  "missing_benchmark_refs i = [] \<longleftrightarrow> mb_benchmark_assignment_ref i = None"
  by (cases "mb_benchmark_assignment_ref i") (simp_all add: missing_benchmark_refs_def)

lemma py_strip_Nil [simp]: "py_strip [] = []"
  by (simp add: py_strip_def)

text \<open>A status that reads \<open>ready\<close> gives the diagnostic of a ready assignment although it is
  not \<open>active\<close>, and then the version is not looked at.\<close>

lemma benchmark_assignment_is_ready_iff:
  "benchmark_assignment_is_ready i \<longleftrightarrow>
     mb_benchmark_identity_resolved i \<and> mb_assignment_effective_for_as_of_date i \<and>
     (\<exists>s. mb_assignment_status i = Some s \<and> py_lower (py_strip s) \<in> {''active'', ''ready''}) \<and>
     (mb_assignment_version_present i \<or>
      (\<exists>s. mb_assignment_status i = Some s \<and> py_lower (py_strip s) = ''ready''))"
  by (cases "mb_assignment_status i")
    (auto simp: benchmark_assignment_is_ready_def benchmark_diagnostic_of_def
      benchmark_assignment_diagnostic_def Let_def or_empty_def py_lower_def)

lemma benchmark_relevance_bounds: "75 \<le> benchmark_relevance s" "benchmark_relevance s \<le> 100"
  by (simp_all add: benchmark_relevance_def)

lemma missing_benchmark_score_ok:
  assumes "missing_benchmark_well_posed i p"
  shows "is_ok (missing_benchmark_score i p)"
  unfolding missing_benchmark_score_def
  by (rule three_inputs_score_ok)
    (use assms benchmark_relevance_bounds order_trans[OF _ benchmark_relevance_bounds(1)] in
      \<open>auto simp: missing_benchmark_well_posed_def version_policy_guards_def\<close>)

interpretation missing_benchmark: signal_evaluator evaluate_missing_benchmark_signal
  Missing_Benchmark "''missing_benchmark''" Advisor_Review_Required "\<lambda>_. None" missing_benchmark_refs
  missing_benchmark_detects missing_benchmark_well_posed
proof
  fix i p r
  assume "evaluate_missing_benchmark_signal i p = Inr r"
  then show "evaluation_sound Missing_Benchmark ''missing_benchmark'' Advisor_Review_Required None i
      (missing_benchmark_refs i) (missing_benchmark_detects i p) r"
    unfolding missing_benchmark_staged missing_benchmark_candidate_def missing_benchmark_identity_def
    by (rule staged_sound)
      (auto simp: missing_benchmark_detects_def usable_sources_def benchmark_assignment_is_ready_iff)
next
  fix i p
  assume "missing_benchmark_well_posed i p"
  then show "is_ok (evaluate_missing_benchmark_signal i p)"
    unfolding missing_benchmark_staged missing_benchmark_candidate_def missing_benchmark_identity_def
    by (intro staged_answers candidate_ok missing_benchmark_score_ok)
      (auto simp: missing_benchmark_well_posed_def posed_def candidate_simps opt_json_def
        split: option.splits)
qed (simp add: missing_benchmark_detects_def)

section \<open>Missing risk profile\<close>

definition CURRENT_RISK_PROFILE_STATUSES :: "string set" where
  "CURRENT_RISK_PROFILE_STATUSES = {''CURRENT'', ''COMPLETE'', ''ACTIVE''}"

definition MISSING_RISK_PROFILE_STATUSES :: "string set" where
  "MISSING_RISK_PROFILE_STATUSES = {''MISSING'', ''STALE'', ''EXPIRED'', ''BLOCKED'', ''PENDING_REVIEW''}"

datatype risk_profile_posture =
  Profile_Missing | Profile_Stale | Profile_Expired | Profile_Review_Due | Profile_Current

fun risk_profile_posture_value :: "risk_profile_posture \<Rightarrow> string" where
  "risk_profile_posture_value Profile_Missing = ''MISSING''"
| "risk_profile_posture_value Profile_Stale = ''STALE''"
| "risk_profile_posture_value Profile_Expired = ''EXPIRED''"
| "risk_profile_posture_value Profile_Review_Due = ''REVIEW_DUE''"
| "risk_profile_posture_value Profile_Current = ''CURRENT''"

text \<open>\<open>str.split\<close>: at every character that satisfies the predicate, empty pieces kept.\<close>

fun split_when :: "(char \<Rightarrow> bool) \<Rightarrow> string \<Rightarrow> string list" where
  "split_when P [] = [[]]"
| "split_when P (c # cs) =
    (if P c then [] # split_when P cs
     else case split_when P cs of [] \<Rightarrow> [[c]] | w # ws \<Rightarrow> (c # w) # ws)"

definition py_split :: "string \<Rightarrow> string list" where
  \<comment> \<open>\<open>split()\<close> at runs of whitespace\<close>
  "py_split s = filter (\<lambda>w. w \<noteq> []) (split_when py_space s)"

definition replace_char :: "char \<Rightarrow> char \<Rightarrow> string \<Rightarrow> string" where
  "replace_char a b s = map (\<lambda>c. if c = a then b else c) s"

definition normalized_codes :: "string \<Rightarrow> string list" where
  "normalized_codes diagnostic =
     concat (map (\<lambda>token. map (\<lambda>code. py_lower (py_strip code)) (filter (\<lambda>code. py_strip code \<noteq> []) (py_split token)))
       (split_when (\<lambda>c. c = CHR '','')
          (replace_char (CHR ''|'') (CHR '','') (replace_char (CHR '';'') (CHR '','') diagnostic))))"

definition posture_by_code :: "string \<Rightarrow> risk_profile_posture option" where
  "posture_by_code = map_of
     [(''risk_profile_missing'', Profile_Missing),
      (''client_risk_profile_missing'', Profile_Missing),
      (''advise_risk_profile_missing'', Profile_Missing),
      (''risk_profile_stale'', Profile_Stale),
      (''client_risk_profile_stale'', Profile_Stale),
      (''risk_profile_expired'', Profile_Expired),
      (''client_risk_profile_expired'', Profile_Expired),
      (''risk_profile_review_due'', Profile_Review_Due),
      (''client_risk_profile_review_due'', Profile_Review_Due),
      (''risk_profile_current'', Profile_Current),
      (''client_risk_profile_current'', Profile_Current)]"

definition risk_profile_posture_from_advise_diagnostic ::
    "string option \<Rightarrow> risk_profile_posture option" where
  "risk_profile_posture_from_advise_diagnostic diagnostic =
    (case diagnostic of
       None \<Rightarrow> None
     | Some d \<Rightarrow>
         (case remdups (List.map_filter posture_by_code (normalized_codes d)) of
            [posture] \<Rightarrow> Some posture | _ \<Rightarrow> None))"

definition missing_risk_profile_review_required_from_diagnostic :: "string option \<Rightarrow> bool option" where
  "missing_risk_profile_review_required_from_diagnostic diagnostic =
     map_option (\<lambda>posture. posture \<noteq> Profile_Current)
       (risk_profile_posture_from_advise_diagnostic diagnostic)"

record missing_risk_profile_input = signal_input +
  rk_risk_profile_ref :: "source_ref option"
  rk_risk_profile_status :: "string option"
  rk_effective_for_as_of_date :: "bool option"
  rk_review_due :: "bool option"

definition missing_risk_profile_blocking_result :: "missing_risk_profile_input \<Rightarrow> signal_result option" where
  "missing_risk_profile_blocking_result i = first_result
     [result_if (\<not> ev_entitlement_allowed i) (denied_result Missing_Risk_Profile),
      result_if (rk_risk_profile_ref i = None) (missing_result Missing_Risk_Profile),
      result_if (any_not_current (present_refs [rk_risk_profile_ref i])) (stale_result Missing_Risk_Profile),
      result_if (rk_risk_profile_status i = None \<or> rk_effective_for_as_of_date i = None \<or>
                 rk_review_due i = None)
        (missing_result Missing_Risk_Profile)]"

definition risk_profile_is_current :: "missing_risk_profile_input \<Rightarrow> bool res" where
  "risk_profile_is_current i =
    (case (rk_risk_profile_status i, rk_effective_for_as_of_date i, rk_review_due i) of
       (Some status, Some effective, Some due) \<Rightarrow>
         Inr (py_upper status \<in> CURRENT_RISK_PROFILE_STATUSES \<and> effective \<and> \<not> due)
     | _ \<Rightarrow> Inl AssertionError)"

definition risk_profile_gap_is_reviewable :: "missing_risk_profile_input \<Rightarrow> bool res" where
  "risk_profile_gap_is_reviewable i =
    (case (rk_risk_profile_status i, rk_effective_for_as_of_date i, rk_review_due i) of
       (Some status, Some effective, Some due) \<Rightarrow>
         Inr (py_upper status \<in> MISSING_RISK_PROFILE_STATUSES \<or> \<not> effective \<or> due)
     | _ \<Rightarrow> Inl AssertionError)"

definition risk_profile_relevance :: "missing_risk_profile_input \<Rightarrow> decimal" where
  "risk_profile_relevance i =
    (let status = py_upper (py_strip (or_empty (rk_risk_profile_status i)));
         relevance = or_else (map_of
           [(''MISSING'', 100), (''EXPIRED'', 100), (''BLOCKED'', 95), (''STALE'', 90),
            (''PENDING_REVIEW'', 75)] status) 70;
         relevance = (if rk_effective_for_as_of_date i = Some False then max relevance 90 else relevance)
     in if rk_review_due i = Some True then max relevance 70 else relevance)"

definition missing_risk_profile_score ::
    "missing_risk_profile_input \<Rightarrow> version_policy \<Rightarrow> idea_score res" where
  "missing_risk_profile_score i p =
     signal_score (vp_policy_version p) [R_Missing_Risk_Profile, R_Review_Required]
       (bind_res (mk_scoring_input Relevance (risk_profile_relevance i) (70 / 100)) (\<lambda>a.
        bind_res (mk_scoring_input Evidence_Quality 100 (15 / 100)) (\<lambda>b.
        bind_res (mk_scoring_input Freshness 100 (15 / 100)) (\<lambda>c. Inr [a, b, c]))))"

definition missing_risk_profile_identity ::
    "missing_risk_profile_input \<Rightarrow> version_policy \<Rightarrow> source_ref list \<Rightarrow> opportunity_identity res" where
  "missing_risk_profile_identity i p refs =
     build_opportunity_identity Missing_Risk_Profile ''missing_risk_profile'' (ev_as_of_date i)
       (ev_access_scope i)
       [(''policy_version'', JStr (vp_policy_version p)),
        (''risk_profile_effective_for_as_of_date'', opt_bool_json (rk_effective_for_as_of_date i)),
        (''risk_profile_review_due'', opt_bool_json (rk_review_due i)),
        (''risk_profile_status'', JStr (py_upper (py_strip (or_empty (rk_risk_profile_status i)))))] refs"

definition missing_risk_profile_candidate_result ::
    "missing_risk_profile_input \<Rightarrow> version_policy \<Rightarrow> signal_result res" where
  "missing_risk_profile_candidate_result i p =
    (case rk_risk_profile_ref i of
       None \<Rightarrow> Inl AssertionError
     | Some r \<Rightarrow>
         signal_candidate_result Missing_Risk_Profile Advisor_Review_Required [R_Missing_Risk_Profile]
           i [r] None (missing_risk_profile_identity i p [r]) (missing_risk_profile_score i p))"

definition evaluate_missing_risk_profile_signal ::
    "missing_risk_profile_input \<Rightarrow> version_policy \<Rightarrow> signal_result res" where
  "evaluate_missing_risk_profile_signal i p =
     bind_res (checks (validate_timezone_aware_evaluation_time (ev_evaluated_at_utc i)) ()) (\<lambda>_.
     or_continue (temporal_blocked_signal_result Missing_Risk_Profile (ev_as_of_date i)
         (ev_evaluated_at_utc i) (present_refs [rk_risk_profile_ref i]))
       (or_continue (missing_risk_profile_blocking_result i)
         (bind_res (risk_profile_is_current i) (\<lambda>current.
            if current then Inr (below_materiality_result Missing_Risk_Profile)
            else bind_res (risk_profile_gap_is_reviewable i) (\<lambda>reviewable.
              if \<not> reviewable then Inr (missing_result Missing_Risk_Profile)
              else missing_risk_profile_candidate_result i p)))))"

definition missing_risk_profile_refs :: "missing_risk_profile_input \<Rightarrow> source_ref list" where
  "missing_risk_profile_refs i = present_refs [rk_risk_profile_ref i]"

definition missing_risk_profile_detects :: "missing_risk_profile_input \<Rightarrow> version_policy \<Rightarrow> bool" where
  "missing_risk_profile_detects i p \<longleftrightarrow>
     usable_sources i (missing_risk_profile_refs i) \<and>
     (\<exists>s e d. rk_risk_profile_status i = Some s \<and> rk_effective_for_as_of_date i = Some e \<and>
        rk_review_due i = Some d \<and> (py_upper s \<in> MISSING_RISK_PROFILE_STATUSES \<or> \<not> e \<or> d))"

definition missing_risk_profile_well_posed :: "missing_risk_profile_input \<Rightarrow> version_policy \<Rightarrow> bool" where
  "missing_risk_profile_well_posed i p \<longleftrightarrow>
     posed i (missing_risk_profile_refs i) \<and> passes (version_policy_guards p)"

definition risk_profile_step :: "missing_risk_profile_input \<Rightarrow> signal_result option res" where
  "risk_profile_step i =
     bind_res (risk_profile_is_current i) (\<lambda>current.
     bind_res (risk_profile_gap_is_reviewable i) (\<lambda>reviewable. Inr (first_result
       [result_if current (below_materiality_result Missing_Risk_Profile),
        result_if (\<not> reviewable) (missing_result Missing_Risk_Profile)])))"

lemma missing_risk_profile_staged:
  "evaluate_missing_risk_profile_signal i p = staged (ev_evaluated_at_utc i)
     [temporal_blocked_signal_result Missing_Risk_Profile (ev_as_of_date i) (ev_evaluated_at_utc i)
        (missing_risk_profile_refs i),
      result_if (\<not> ev_entitlement_allowed i) (denied_result Missing_Risk_Profile),
      result_if (rk_risk_profile_ref i = None) (missing_result Missing_Risk_Profile),
      result_if (any_not_current (missing_risk_profile_refs i)) (stale_result Missing_Risk_Profile),
      result_if (rk_risk_profile_status i = None \<or> rk_effective_for_as_of_date i = None \<or>
                 rk_review_due i = None)
        (missing_result Missing_Risk_Profile)]
     (risk_profile_step i)
     (signal_candidate_result Missing_Risk_Profile Advisor_Review_Required [R_Missing_Risk_Profile]
        i (missing_risk_profile_refs i) None
        (missing_risk_profile_identity i p (missing_risk_profile_refs i)) (missing_risk_profile_score i p))"
proof -
  have k: "bind_res (risk_profile_is_current i) (\<lambda>current.
            if current then Inr (below_materiality_result Missing_Risk_Profile)
            else bind_res (risk_profile_gap_is_reviewable i) (\<lambda>reviewable.
              if \<not> reviewable then Inr (missing_result Missing_Risk_Profile) else x)) =
      bind_res (risk_profile_step i) (\<lambda>m. or_continue m x)" for x
    by (auto simp: risk_profile_step_def risk_profile_is_current_def risk_profile_gap_is_reviewable_def
        first_result_step split: option.splits)
  show ?thesis
    unfolding evaluate_missing_risk_profile_signal_def staged_def missing_risk_profile_blocking_result_def
      or_continue_single[of "temporal_blocked_signal_result _ _ _ _"] or_continue_first k
      missing_risk_profile_refs_def append.simps
    by (intro arg_cong[where f = "bind_res _"] ext or_continue_present)
      (auto simp: missing_risk_profile_candidate_result_def)
qed

lemma missing_risk_profile_refs_Nil [simp]:
  "missing_risk_profile_refs i = [] \<longleftrightarrow> rk_risk_profile_ref i = None"
  by (cases "rk_risk_profile_ref i") (simp_all add: missing_risk_profile_refs_def)

lemma risk_profile_step_Inr:
  assumes "risk_profile_step i = Inr m"
  shows "m = None \<longleftrightarrow> (\<exists>s e d. rk_risk_profile_status i = Some s \<and> rk_effective_for_as_of_date i = Some e \<and>
        rk_review_due i = Some d \<and> (py_upper s \<in> MISSING_RISK_PROFILE_STATUSES \<or> \<not> e \<or> d))"
    and "stops_only Missing_Risk_Profile m"
  using assms
  by (auto simp: risk_profile_step_def risk_profile_is_current_def risk_profile_gap_is_reviewable_def
      CURRENT_RISK_PROFILE_STATUSES_def MISSING_RISK_PROFILE_STATUSES_def
      split: option.splits intro!: stops_only_first_result)

lemma risk_profile_relevance_bounds: "70 \<le> risk_profile_relevance i" "risk_profile_relevance i \<le> 100"
  by (simp_all add: risk_profile_relevance_def Let_def)

lemma missing_risk_profile_score_ok:
  assumes "missing_risk_profile_well_posed i p"
  shows "is_ok (missing_risk_profile_score i p)"
  unfolding missing_risk_profile_score_def
  by (rule three_inputs_score_ok)
    (use assms risk_profile_relevance_bounds order_trans[OF _ risk_profile_relevance_bounds(1)] in
      \<open>auto simp: missing_risk_profile_well_posed_def version_policy_guards_def\<close>)

interpretation missing_risk_profile: signal_evaluator evaluate_missing_risk_profile_signal
  Missing_Risk_Profile "''missing_risk_profile''" Advisor_Review_Required "\<lambda>_. None" missing_risk_profile_refs
  missing_risk_profile_detects missing_risk_profile_well_posed
proof
  fix i p r
  assume "evaluate_missing_risk_profile_signal i p = Inr r"
  then show "evaluation_sound Missing_Risk_Profile ''missing_risk_profile'' Advisor_Review_Required None i
      (missing_risk_profile_refs i) (missing_risk_profile_detects i p) r"
    unfolding missing_risk_profile_staged missing_risk_profile_identity_def
  proof (rule staged_sound)
    fix m
    assume blocks: "list_all (\<lambda>x. x = None)
     [temporal_blocked_signal_result Missing_Risk_Profile (ev_as_of_date i) (ev_evaluated_at_utc i)
        (missing_risk_profile_refs i),
      result_if (\<not> ev_entitlement_allowed i) (denied_result Missing_Risk_Profile),
      result_if (rk_risk_profile_ref i = None) (missing_result Missing_Risk_Profile),
      result_if (any_not_current (missing_risk_profile_refs i)) (stale_result Missing_Risk_Profile),
      result_if (rk_risk_profile_status i = None \<or> rk_effective_for_as_of_date i = None \<or>
                 rk_review_due i = None)
        (missing_result Missing_Risk_Profile)]"
      and m: "risk_profile_step i = Inr m"
    have "usable_sources i (missing_risk_profile_refs i)"
      using blocks by (auto simp: usable_sources_def)
    then show "missing_risk_profile_detects i p \<longleftrightarrow> m = None"
      by (simp add: missing_risk_profile_detects_def risk_profile_step_Inr(1)[OF m])
  qed (auto simp: missing_risk_profile_detects_def usable_sources_def dest: risk_profile_step_Inr)
next
  fix i p
  assume "missing_risk_profile_well_posed i p"
  then show "is_ok (evaluate_missing_risk_profile_signal i p)"
    unfolding missing_risk_profile_staged missing_risk_profile_identity_def
    by (intro staged_answers candidate_ok missing_risk_profile_score_ok)
      (auto simp: missing_risk_profile_well_posed_def posed_def candidate_simps opt_bool_json_def
        risk_profile_step_def risk_profile_is_current_def risk_profile_gap_is_reviewable_def
        split: option.splits)
qed (simp add: missing_risk_profile_detects_def)

section \<open>Missing suitability context\<close>

record missing_suitability_policy =
  msp_policy_version :: string
  msp_minimum_open_requirement_count :: int

definition missing_suitability_policy_guards :: "missing_suitability_policy \<Rightarrow> guards" where
  "missing_suitability_policy_guards p =
     require_text (msp_policy_version p) ''policy_version'' @
     [(msp_minimum_open_requirement_count p < 0,
       ValueError ''minimum_open_requirement_count must be non-negative'')]"

record missing_suitability_input = signal_input +
  ms_evaluation_status :: "string option"
  ms_open_requirement_count :: "int option"
  ms_blocked_requirement_count :: "int option"
  ms_sign_off_status :: "string option"
  ms_sign_off_blocker_count :: "int option"
  ms_client_ready_publication :: "string option"
  ms_policy_ref :: "source_ref option"

definition missing_suitability_blocking_result :: "missing_suitability_input \<Rightarrow> signal_result option" where
  "missing_suitability_blocking_result i =
    (let f = Missing_Suitability_Context in first_result
     [result_if (\<not> ev_entitlement_allowed i) (denied_result f),
      result_if (ms_policy_ref i = None) (missing_result f),
      result_if (any_not_current (present_refs [ms_policy_ref i])) (stale_result f),
      result_if (ms_client_ready_publication i = None) (missing_result f),
      result_if (map_option py_upper (ms_client_ready_publication i) \<noteq> Some ''BLOCKED'')
        (blocked_signal_result f [R_Review_Required] [UR_Source_Uncertified]),
      result_if (ms_evaluation_status i = None \<or> ms_sign_off_status i = None) (missing_result f),
      result_if (ms_open_requirement_count i = None \<or> ms_blocked_requirement_count i = None \<or>
                 ms_sign_off_blocker_count i = None) (missing_result f)])"

definition validate_missing_suitability_counts :: "missing_suitability_input \<Rightarrow> guards" where
  "validate_missing_suitability_counts i = concat (map (\<lambda>(field_name, v).
      [(v = None, ValueError (field_name @ '' must be available after blocking validation'')),
       (some_satisfies (\<lambda>n. n < 0) v, ValueError (field_name @ '' must be non-negative''))])
     [(''open_requirement_count'', ms_open_requirement_count i),
      (''blocked_requirement_count'', ms_blocked_requirement_count i),
      (''sign_off_blocker_count'', ms_sign_off_blocker_count i)])"

definition missing_suitability_review_required_from_workflow ::
    "string \<Rightarrow> int \<Rightarrow> int \<Rightarrow> string \<Rightarrow> int \<Rightarrow> int \<Rightarrow> bool" where
  "missing_suitability_review_required_from_workflow evaluation_status open_count blocked_count
     sign_off_status sign_off_blockers minimum_open \<longleftrightarrow>
     py_upper evaluation_status \<in> {''PENDING_REVIEW'', ''BLOCKED''} \<or>
     py_upper sign_off_status \<in> {''PENDING_REVIEW'', ''BLOCKED''} \<or>
     minimum_open \<le> open_count \<or> 0 < blocked_count \<or> 0 < sign_off_blockers"

definition missing_suitability_review_required ::
    "missing_suitability_input \<Rightarrow> missing_suitability_policy \<Rightarrow> bool res" where
  "missing_suitability_review_required i p =
    (case (ms_evaluation_status i, ms_sign_off_status i, ms_open_requirement_count i,
           ms_blocked_requirement_count i, ms_sign_off_blocker_count i) of
       (Some evaluation, Some sign_off, Some open_count, Some blocked, Some blockers) \<Rightarrow>
         Inr (missing_suitability_review_required_from_workflow evaluation open_count blocked
                sign_off blockers (msp_minimum_open_requirement_count p))
     | _ \<Rightarrow> Inl AssertionError)"

definition suitability_relevance :: "int \<Rightarrow> int \<Rightarrow> decimal res" where
  "suitability_relevance open_count minimum =
    (if minimum = 0 then Inr (if 0 < open_count then 100 else 50)
     else if minimum \<le> open_count then relative_threshold_score (of_int open_count) (of_int minimum)
     else Inr 50)"

definition missing_suitability_score ::
    "missing_suitability_input \<Rightarrow> missing_suitability_policy \<Rightarrow> idea_score res" where
  "missing_suitability_score i p =
    (case (ms_open_requirement_count i, ms_blocked_requirement_count i, ms_sign_off_blocker_count i) of
       (Some open_count, Some blocked, Some blockers) \<Rightarrow>
         bind_res (suitability_relevance open_count (msp_minimum_open_requirement_count p)) (\<lambda>relevance.
         let evaluation = py_upper (py_strip (or_empty (ms_evaluation_status i)));
             sign_off = py_upper (py_strip (or_empty (ms_sign_off_status i)));
             urgency = (if 0 < blocked \<or> 0 < blockers \<or> ''BLOCKED'' \<in> {evaluation, sign_off}
                        then 100 else 75)
         in signal_score (msp_policy_version p) [R_Suitability_Context_Missing, R_Review_Required]
              (bind_res (mk_scoring_input Relevance relevance (50 / 100)) (\<lambda>a.
               bind_res (mk_scoring_input Urgency urgency (30 / 100)) (\<lambda>b.
               bind_res (mk_scoring_input Evidence_Quality 100 (10 / 100)) (\<lambda>c.
               bind_res (mk_scoring_input Freshness 100 (10 / 100)) (\<lambda>d. Inr [a, b, c, d]))))))
     | _ \<Rightarrow> Inl (ValueError ''eligible missing-suitability scoring requires requirement counts''))"

definition missing_suitability_identity ::
    "missing_suitability_input \<Rightarrow> missing_suitability_policy \<Rightarrow> source_ref list \<Rightarrow>
     opportunity_identity res" where
  "missing_suitability_identity i p refs =
     build_opportunity_identity Missing_Suitability_Context ''missing_suitability_context''
       (ev_as_of_date i) (ev_access_scope i)
       [(''blocked_requirement_count'', opt_int_json (ms_blocked_requirement_count i)),
        (''client_ready_publication'',
         JStr (py_upper (py_strip (or_empty (ms_client_ready_publication i))))),
        (''evaluation_status'', JStr (py_upper (py_strip (or_empty (ms_evaluation_status i))))),
        (''open_requirement_count'', opt_int_json (ms_open_requirement_count i)),
        (''policy_version'', JStr (msp_policy_version p)),
        (''sign_off_blocker_count'', opt_int_json (ms_sign_off_blocker_count i)),
        (''sign_off_status'', JStr (py_upper (py_strip (or_empty (ms_sign_off_status i)))))] refs"

definition missing_suitability_candidate_result ::
    "missing_suitability_input \<Rightarrow> missing_suitability_policy \<Rightarrow> signal_result res" where
  "missing_suitability_candidate_result i p =
    (case ms_policy_ref i of
       None \<Rightarrow> Inl AssertionError
     | Some r \<Rightarrow>
         signal_candidate_result Missing_Suitability_Context Compliance_Review_Required
           [R_Suitability_Context_Missing] i [r] None
           (missing_suitability_identity i p [r]) (missing_suitability_score i p))"

definition evaluate_missing_suitability_context_signal ::
    "missing_suitability_input \<Rightarrow> missing_suitability_policy \<Rightarrow> signal_result res" where
  "evaluate_missing_suitability_context_signal i p =
     bind_res (checks (validate_timezone_aware_evaluation_time (ev_evaluated_at_utc i)) ()) (\<lambda>_.
     or_continue (temporal_blocked_signal_result Missing_Suitability_Context (ev_as_of_date i)
         (ev_evaluated_at_utc i) (present_refs [ms_policy_ref i]))
       (or_continue (missing_suitability_blocking_result i)
         (bind_res (checks (validate_missing_suitability_counts i) ()) (\<lambda>_.
          bind_res (missing_suitability_review_required i p) (\<lambda>required.
            if \<not> required then Inr (below_materiality_result Missing_Suitability_Context)
            else missing_suitability_candidate_result i p)))))"

definition missing_suitability_refs :: "missing_suitability_input \<Rightarrow> source_ref list" where
  "missing_suitability_refs i = present_refs [ms_policy_ref i]"

definition missing_suitability_detects ::
    "missing_suitability_input \<Rightarrow> missing_suitability_policy \<Rightarrow> bool" where
  "missing_suitability_detects i p \<longleftrightarrow>
     usable_sources i (missing_suitability_refs i) \<and>
     (\<exists>s. ms_client_ready_publication i = Some s \<and> py_upper s = ''BLOCKED'') \<and>
     (\<exists>e s a b c. ms_evaluation_status i = Some e \<and> ms_sign_off_status i = Some s \<and>
        ms_open_requirement_count i = Some a \<and> ms_blocked_requirement_count i = Some b \<and>
        ms_sign_off_blocker_count i = Some c \<and>
        missing_suitability_review_required_from_workflow e a b s c (msp_minimum_open_requirement_count p))"

definition missing_suitability_well_posed ::
    "missing_suitability_input \<Rightarrow> missing_suitability_policy \<Rightarrow> bool" where
  "missing_suitability_well_posed i p \<longleftrightarrow>
     posed i (missing_suitability_refs i) \<and> passes (missing_suitability_policy_guards p) \<and>
     (\<forall>n. ms_open_requirement_count i = Some n \<longrightarrow> 0 \<le> n \<and> n \<le> 10 ^ 20) \<and>
     (\<forall>n. ms_blocked_requirement_count i = Some n \<longrightarrow> 0 \<le> n) \<and>
     (\<forall>n. ms_sign_off_blocker_count i = Some n \<longrightarrow> 0 \<le> n)"

definition suitability_step ::
    "missing_suitability_input \<Rightarrow> missing_suitability_policy \<Rightarrow> bool res" where
  "suitability_step i p =
     bind_res (checks (validate_missing_suitability_counts i) ()) (\<lambda>_. missing_suitability_review_required i p)"

lemma missing_suitability_staged:
  "evaluate_missing_suitability_context_signal i p = staged (ev_evaluated_at_utc i)
     [temporal_blocked_signal_result Missing_Suitability_Context (ev_as_of_date i) (ev_evaluated_at_utc i)
        (missing_suitability_refs i),
      result_if (\<not> ev_entitlement_allowed i) (denied_result Missing_Suitability_Context),
      result_if (ms_policy_ref i = None) (missing_result Missing_Suitability_Context),
      result_if (any_not_current (missing_suitability_refs i)) (stale_result Missing_Suitability_Context),
      result_if (ms_client_ready_publication i = None) (missing_result Missing_Suitability_Context),
      result_if (map_option py_upper (ms_client_ready_publication i) \<noteq> Some ''BLOCKED'')
        (blocked_signal_result Missing_Suitability_Context [R_Review_Required] [UR_Source_Uncertified]),
      result_if (ms_evaluation_status i = None \<or> ms_sign_off_status i = None)
        (missing_result Missing_Suitability_Context),
      result_if (ms_open_requirement_count i = None \<or> ms_blocked_requirement_count i = None \<or>
                 ms_sign_off_blocker_count i = None) (missing_result Missing_Suitability_Context)]
     (review_step (suitability_step i p) Missing_Suitability_Context)
     (signal_candidate_result Missing_Suitability_Context Compliance_Review_Required
           [R_Suitability_Context_Missing] i (missing_suitability_refs i) None
           (missing_suitability_identity i p (missing_suitability_refs i)) (missing_suitability_score i p))"
proof -
  have k: "bind_res (checks (validate_missing_suitability_counts i) ()) (\<lambda>_.
          bind_res (missing_suitability_review_required i p) (\<lambda>required.
            if \<not> required then Inr (below_materiality_result Missing_Suitability_Context) else x)) =
      bind_res (review_step (suitability_step i p) Missing_Suitability_Context) (\<lambda>m. or_continue m x)" for x
    unfolding review_step_bind[symmetric] suitability_step_def
    by (cases "checks (validate_missing_suitability_counts i) ()") simp_all
  show ?thesis
    unfolding evaluate_missing_suitability_context_signal_def staged_def
      missing_suitability_blocking_result_def Let_def
      or_continue_single[of "temporal_blocked_signal_result _ _ _ _"] or_continue_first k
      missing_suitability_refs_def append.simps
    by (intro arg_cong[where f = "bind_res _"] ext or_continue_present)
      (auto simp: missing_suitability_candidate_result_def)
qed

lemma missing_suitability_refs_Nil [simp]:
  "missing_suitability_refs i = [] \<longleftrightarrow> ms_policy_ref i = None"
  by (cases "ms_policy_ref i") (simp_all add: missing_suitability_refs_def)

lemma passes_suitability_counts:
  "passes (validate_missing_suitability_counts i) \<longleftrightarrow>
     (\<exists>a b c. ms_open_requirement_count i = Some a \<and> ms_blocked_requirement_count i = Some b \<and>
        ms_sign_off_blocker_count i = Some c \<and> 0 \<le> a \<and> 0 \<le> b \<and> 0 \<le> c)"
  by (cases "ms_open_requirement_count i"; cases "ms_blocked_requirement_count i";
      cases "ms_sign_off_blocker_count i")
    (auto simp: validate_missing_suitability_counts_def)

lemma suitability_step_Inr:
  assumes "suitability_step i p = Inr required"
  shows "required \<longleftrightarrow> (\<exists>e s a b c. ms_evaluation_status i = Some e \<and> ms_sign_off_status i = Some s \<and>
        ms_open_requirement_count i = Some a \<and> ms_blocked_requirement_count i = Some b \<and>
        ms_sign_off_blocker_count i = Some c \<and>
        missing_suitability_review_required_from_workflow e a b s c (msp_minimum_open_requirement_count p))"
  using assms by (auto simp: suitability_step_def bind_checks_Inr missing_suitability_review_required_def
      split: option.splits)

lemma missing_suitability_score_ok:
  assumes "missing_suitability_well_posed i p"
    and "ms_open_requirement_count i = Some a" "ms_blocked_requirement_count i = Some b"
    and "ms_sign_off_blocker_count i = Some c"
  shows "is_ok (missing_suitability_score i p)"
proof -
  let ?m = "msp_minimum_open_requirement_count p"
  have w: "0 \<le> a" "a \<le> 10 ^ 20" "0 \<le> ?m" "\<not> blank (msp_policy_version p)"
    using assms by (auto simp: missing_suitability_well_posed_def missing_suitability_policy_guards_def)
  have "\<exists>r. suitability_relevance a ?m = Inr r \<and> 50 \<le> r \<and> r \<le> 100"
  proof (cases "?m = 0 \<or> a < ?m")
    case True
    then show ?thesis by (auto simp: suitability_relevance_def)
  next
    case False
    then have "count_threshold_score a ?m = suitability_relevance a ?m"
      using w by (simp add: count_threshold_score_def suitability_relevance_def checks_passes)
    then show ?thesis using count_threshold_score_ok[of a ?m] w False by (metis linorder_not_less)
  qed
  then obtain r where r: "suitability_relevance a ?m = Inr r" "50 \<le> r" "r \<le> 100" by blast
  show ?thesis
    unfolding missing_suitability_score_def assms(2-4) option.case prod.case r(1) bind_res_simps Let_def
    by (rule four_inputs_score_ok) (use r w dec_sum_weights(4) in auto)
qed

interpretation missing_suitability: signal_evaluator evaluate_missing_suitability_context_signal
  Missing_Suitability_Context "''missing_suitability_context''" Compliance_Review_Required "\<lambda>_. None"
  missing_suitability_refs missing_suitability_detects missing_suitability_well_posed
proof
  fix i p r
  assume "evaluate_missing_suitability_context_signal i p = Inr r"
  then show "evaluation_sound Missing_Suitability_Context ''missing_suitability_context''
      Compliance_Review_Required None i
      (missing_suitability_refs i) (missing_suitability_detects i p) r"
    unfolding missing_suitability_staged missing_suitability_identity_def
    by (rule staged_sound)
      (auto simp: missing_suitability_detects_def usable_sources_def dest: suitability_step_Inr)
next
  fix i p
  assume "missing_suitability_well_posed i p"
  then show "is_ok (evaluate_missing_suitability_context_signal i p)"
    unfolding missing_suitability_staged missing_suitability_identity_def
    by (intro staged_answers candidate_ok)
      (auto simp: missing_suitability_well_posed_def posed_def candidate_simps opt_int_json_def
        suitability_step_def passes_suitability_counts missing_suitability_review_required_def is_ok_iff
        intro!: missing_suitability_score_ok[unfolded is_ok_iff] split: option.splits)
qed (simp add: missing_suitability_detects_def)

end
