(* ===== verification/Signal_Properties.thy ===== *)
theory Signal_Properties
imports Signal_Reviews Repository_Properties
begin

text \<open>
  The properties of detection. A request is the input of one of the twelve evaluators with its
  policy; what holds for every evaluator is stated once over requests, by the interpretations
  of \<open>signal_evaluator\<close>, then what a detected candidate becomes in the repository, and what
  single families compute.
\<close>

section \<open>Requests\<close>

datatype signal_request =
  High_Cash_Request high_cash_input high_cash_policy
| Concentration_Request concentration_input concentration_policy
| Underperformance_Request underperformance_input underperformance_policy
| Mandate_Health_Request mandate_health_input mandate_health_policy
| High_Volatility_Request high_volatility_input high_volatility_policy
| Drawdown_Request drawdown_input drawdown_policy
| Low_Income_Request low_income_input low_income_policy
| Bond_Maturity_Request bond_maturity_input bond_maturity_policy
| Mandate_Restriction_Request mandate_restriction_input version_policy
| Missing_Benchmark_Request missing_benchmark_input version_policy
| Missing_Risk_Profile_Request missing_risk_profile_input version_policy
| Missing_Suitability_Request missing_suitability_input missing_suitability_policy

fun evaluate_request :: "signal_request \<Rightarrow> signal_result res" where
  "evaluate_request (High_Cash_Request i p) = evaluate_high_cash_signal i p"
| "evaluate_request (Concentration_Request i p) = evaluate_concentration_risk_signal i p"
| "evaluate_request (Underperformance_Request i p) = evaluate_underperformance_signal i p"
| "evaluate_request (Mandate_Health_Request i p) = evaluate_mandate_health_signal i p"
| "evaluate_request (High_Volatility_Request i p) = evaluate_high_volatility_signal i p"
| "evaluate_request (Drawdown_Request i p) = evaluate_drawdown_review_signal i p"
| "evaluate_request (Low_Income_Request i p) = evaluate_low_income_signal i p"
| "evaluate_request (Bond_Maturity_Request i p) = evaluate_bond_maturity_signal i p"
| "evaluate_request (Mandate_Restriction_Request i p) = evaluate_mandate_restriction_signal i p"
| "evaluate_request (Missing_Benchmark_Request i p) = evaluate_missing_benchmark_signal i p"
| "evaluate_request (Missing_Risk_Profile_Request i p) = evaluate_missing_risk_profile_signal i p"
| "evaluate_request (Missing_Suitability_Request i p) = evaluate_missing_suitability_context_signal i p"

text \<open>The family of the request, the kind its identity is derived from and the queue of its
  review.\<close>

fun request_family :: "signal_request \<Rightarrow> opportunity_family" where
  "request_family (High_Cash_Request i p) = High_Cash"
| "request_family (Concentration_Request i p) = Concentration"
| "request_family (Underperformance_Request i p) = Underperformance"
| "request_family (Mandate_Health_Request i p) = Allocation_Drift"
| "request_family (High_Volatility_Request i p) = High_Volatility"
| "request_family (Drawdown_Request i p) = High_Volatility"
| "request_family (Low_Income_Request i p) = Low_Income"
| "request_family (Bond_Maturity_Request i p) = Bond_Maturity"
| "request_family (Mandate_Restriction_Request i p) = Mandate_Restriction"
| "request_family (Missing_Benchmark_Request i p) = Missing_Benchmark"
| "request_family (Missing_Risk_Profile_Request i p) = Missing_Risk_Profile"
| "request_family (Missing_Suitability_Request i p) = Missing_Suitability_Context"

fun request_kind :: "signal_request \<Rightarrow> string" where
  "request_kind (Drawdown_Request i p) = ''drawdown_review''"
| "request_kind q = family_value (request_family q)"

fun request_posture :: "signal_request \<Rightarrow> review_posture" where
  "request_posture (Mandate_Health_Request i p) = PM_Review_Required"
| "request_posture (Mandate_Restriction_Request i p) = Compliance_Review_Required"
| "request_posture (Missing_Suitability_Request i p) = Compliance_Review_Required"
| "request_posture q = Advisor_Review_Required"

fun request_base :: "signal_request \<Rightarrow> signal_input" where
  "request_base (High_Cash_Request i p) = signal_input.truncate i"
| "request_base (Concentration_Request i p) = signal_input.truncate i"
| "request_base (Underperformance_Request i p) = signal_input.truncate i"
| "request_base (Mandate_Health_Request i p) = signal_input.truncate i"
| "request_base (High_Volatility_Request i p) = signal_input.truncate i"
| "request_base (Drawdown_Request i p) = signal_input.truncate i"
| "request_base (Low_Income_Request i p) = signal_input.truncate i"
| "request_base (Bond_Maturity_Request i p) = signal_input.truncate i"
| "request_base (Mandate_Restriction_Request i p) = signal_input.truncate i"
| "request_base (Missing_Benchmark_Request i p) = signal_input.truncate i"
| "request_base (Missing_Risk_Profile_Request i p) = signal_input.truncate i"
| "request_base (Missing_Suitability_Request i p) = signal_input.truncate i"

fun request_expiry :: "signal_request \<Rightarrow> py_datetime option" where
  "request_expiry (Bond_Maturity_Request i p) =
     Some (bond_maturity_applicability_expiry (the (bm_source_reported_next_maturity_date i)))"
| "request_expiry q = None"

fun request_refs :: "signal_request \<Rightarrow> source_ref list" where
  "request_refs (High_Cash_Request i p) = high_cash_source_refs i"
| "request_refs (Concentration_Request i p) = concentration_source_refs i"
| "request_refs (Underperformance_Request i p) = underperformance_source_refs i"
| "request_refs (Mandate_Health_Request i p) = mandate_health_source_refs i"
| "request_refs (High_Volatility_Request i p) = high_volatility_refs i"
| "request_refs (Drawdown_Request i p) = drawdown_refs i"
| "request_refs (Low_Income_Request i p) = low_income_source_refs i"
| "request_refs (Bond_Maturity_Request i p) = bond_maturity_source_refs i"
| "request_refs (Mandate_Restriction_Request i p) = mandate_restriction_refs i"
| "request_refs (Missing_Benchmark_Request i p) = missing_benchmark_refs i"
| "request_refs (Missing_Risk_Profile_Request i p) = missing_risk_profile_refs i"
| "request_refs (Missing_Suitability_Request i p) = missing_suitability_refs i"

text \<open>The condition of each family, and the inputs its evaluator answers without raising.\<close>

fun request_detects :: "signal_request \<Rightarrow> bool" where
  "request_detects (High_Cash_Request i p) = high_cash_detects i p"
| "request_detects (Concentration_Request i p) = concentration_detects i p"
| "request_detects (Underperformance_Request i p) = underperformance_detects i p"
| "request_detects (Mandate_Health_Request i p) = mandate_health_detects i p"
| "request_detects (High_Volatility_Request i p) = high_volatility_detects i p"
| "request_detects (Drawdown_Request i p) = drawdown_detects i p"
| "request_detects (Low_Income_Request i p) = low_income_detects i p"
| "request_detects (Bond_Maturity_Request i p) = bond_maturity_detects i p"
| "request_detects (Mandate_Restriction_Request i p) = mandate_restriction_detects i p"
| "request_detects (Missing_Benchmark_Request i p) = missing_benchmark_detects i p"
| "request_detects (Missing_Risk_Profile_Request i p) = missing_risk_profile_detects i p"
| "request_detects (Missing_Suitability_Request i p) = missing_suitability_detects i p"

fun request_well_posed :: "signal_request \<Rightarrow> bool" where
  "request_well_posed (High_Cash_Request i p) = high_cash_well_posed i p"
| "request_well_posed (Concentration_Request i p) = concentration_well_posed i p"
| "request_well_posed (Underperformance_Request i p) = underperformance_well_posed i p"
| "request_well_posed (Mandate_Health_Request i p) = mandate_health_well_posed i p"
| "request_well_posed (High_Volatility_Request i p) = high_volatility_well_posed i p"
| "request_well_posed (Drawdown_Request i p) = drawdown_well_posed i p"
| "request_well_posed (Low_Income_Request i p) = low_income_well_posed i p"
| "request_well_posed (Bond_Maturity_Request i p) = bond_maturity_well_posed i p"
| "request_well_posed (Mandate_Restriction_Request i p) = mandate_restriction_well_posed i p"
| "request_well_posed (Missing_Benchmark_Request i p) = missing_benchmark_well_posed i p"
| "request_well_posed (Missing_Risk_Profile_Request i p) = missing_risk_profile_well_posed i p"
| "request_well_posed (Missing_Suitability_Request i p) = missing_suitability_well_posed i p"

section \<open>The interpretations over requests\<close>

lemma truncate_fields [simp]:
  "ev_as_of_date (signal_input.truncate i) = ev_as_of_date i"
  "ev_evaluated_at_utc (signal_input.truncate i) = ev_evaluated_at_utc i"
  "ev_entitlement_allowed (signal_input.truncate i) = ev_entitlement_allowed i"
  "ev_access_scope (signal_input.truncate i) = ev_access_scope i"
  by (simp_all add: signal_input.truncate_def)

lemma truncate_same [simp]:
  "evaluation_sound f kind posture expires (signal_input.truncate i) refs d r =
     evaluation_sound f kind posture expires i refs d r"
  "usable_sources (signal_input.truncate i) refs = usable_sources i refs"
  by (simp_all add: evaluation_sound_def from_builder_def signal_candidate_result_def usable_sources_def)

lemma request_sound:
  "evaluate_request q = Inr r \<Longrightarrow>
     evaluation_sound (request_family q) (request_kind q) (request_posture q) (request_expiry q)
       (request_base q) (request_refs q) (request_detects q) r"
  by (cases q)
    (simp_all add: high_cash.sound concentration.sound underperformance.sound mandate_health.sound
      high_volatility.sound drawdown.sound low_income.sound bond_maturity.sound
      mandate_restriction.sound missing_benchmark.sound missing_risk_profile.sound
      missing_suitability.sound)

lemma request_answers: "request_well_posed q \<Longrightarrow> is_ok (evaluate_request q)"
  by (cases q)
    (simp_all add: high_cash.answers concentration.answers underperformance.answers mandate_health.answers
      high_volatility.answers drawdown.answers low_income.answers bond_maturity.answers
      mandate_restriction.answers missing_benchmark.answers missing_risk_profile.answers
      missing_suitability.answers del: is_ok_iff)

lemma request_usable: "request_detects q \<Longrightarrow> usable_sources (request_base q) (request_refs q)"
  by (cases q)
    (simp_all add: high_cash.usable concentration.usable underperformance.usable mandate_health.usable
      high_volatility.usable drawdown.usable low_income.usable bond_maturity.usable
      mandate_restriction.usable missing_benchmark.usable missing_risk_profile.usable
      missing_suitability.usable)

lemma request_candidate:
  assumes "evaluate_request q = Inr r" "se_candidate r = Some c"
  obtains s where "se_signal r = Some s" "se_outcome r = Signal_Candidate_Created" "request_detects q"
    and "detected_candidate (request_family q) (request_posture q) (request_expiry q) (request_base q)
      (request_refs q) s c"
    and "from_builder (request_family q) (request_kind q) (request_posture q) (request_expiry q)
      (request_base q) (request_refs q) r"
  using request_sound[OF assms(1)] assms(2)
  by (auto simp: evaluation_sound_def no_candidate_def split: if_splits elim: from_builder_candidate)

text \<open>Every request of one kind has one family.\<close>

lemma request_kind_family: "request_kind q = request_kind q' \<Longrightarrow> request_family q = request_family q'"
  by (cases q; cases q'; simp)

section \<open>Detection\<close>

lemma request_outcome:
  assumes "evaluate_request q = Inr r"
  shows "se_outcome r = Signal_Candidate_Created \<longleftrightarrow> request_detects q"
    and "se_candidate r \<noteq> None \<longleftrightarrow> request_detects q" and "se_family r = request_family q"
  using request_sound[OF assms]
  by (auto simp: evaluation_sound_def no_candidate_def split: if_splits elim: from_builder_candidate)

text \<open>A concrete request: a source-reported active return of -0.08 against a threshold of -0.05.\<close>

definition sample_signal_source :: source_ref where
  "sample_signal_source = sample_source\<lparr>sr_source_system := Lotus_Performance, sr_product_id := ''Returns''\<rparr>"

definition sample_return_input :: "dec_value \<Rightarrow> py_date \<Rightarrow> py_datetime \<Rightarrow> underperformance_input" where
  "sample_return_input v d t =
     \<lparr>ev_as_of_date = d, ev_evaluated_at_utc = t, ev_entitlement_allowed = True,
      ev_access_scope = Some sample_scope, up_source_reported_active_return = Some v,
      up_benchmark_context_available = True,
      up_performance_ref = Some (sample_signal_source\<lparr>sr_as_of_date := d\<rparr>)\<rparr>"

definition sample_return_policy :: underperformance_policy where
  "sample_return_policy = \<lparr>upp_policy_version = ''underperformance-v1'', upp_active_return_threshold = - 5 / 100\<rparr>"

definition sample_request :: "py_date \<Rightarrow> py_datetime \<Rightarrow> signal_request" where
  "sample_request d t = Underperformance_Request
     (sample_return_input \<lparr>dv_negative = True, dv_coefficient = 8, dv_exponent = - 2\<rparr> d t) sample_return_policy"

lemma sample_request_facts:
  assumes "is_utc t" "0 \<le> inst t"
  shows "request_well_posed (sample_request d t)" "request_detects (sample_request d t)"
proof -
  have r: "dec_rat \<lparr>dv_negative = True, dv_coefficient = 8, dv_exponent = - 2\<rparr> = - 8 / 100"
    by (simp add: dec_rat_def pow10_def)
  show "request_well_posed (sample_request d t)" "request_detects (sample_request d t)"
    using assms
    by (simp_all add: sample_request_def underperformance_well_posed_def posed_def
        underperformance_source_refs_def sample_return_input_def sample_return_policy_def
        underperformance_policy_guards_def r blank_iff py_space_def underperformance_detects_def
        usable_sources_def source_in_time_def sample_signal_source_def sample_source_def dt_le_def)
qed

lemma sample_detected:
  assumes "is_utc t" "0 \<le> inst t"
  obtains r c where "evaluate_request (sample_request d t) = Inr r" "se_candidate r = Some c"
  using request_answers[OF sample_request_facts(1)[OF assms]]
    request_outcome(2)[of "sample_request d t"] sample_request_facts(2)[OF assms]
  by (fastforce simp: is_ok_iff)

text \<open>C9: Whatever evaluator answers, it creates a candidate exactly when the condition of its
  family holds on entitled, present, current sources of the requested date that were not
  generated after the evaluation; the candidate is then well-formed, GENERATED, in the review
  queue of its family, scored, in the requested scope, at its first version and on exactly these
  sources, and the signal names it; otherwise there is neither signal nor candidate.\<close>

theorem detection_sound:
  assumes "evaluate_request q = Inr r"
  shows "se_family r = request_family q \<and>
    (if request_detects q
     then usable_sources (request_base q) (request_refs q) \<and> se_outcome r = Signal_Candidate_Created \<and>
       (\<exists>s c. se_signal r = Some s \<and> se_candidate r = Some c \<and>
          detected_candidate (request_family q) (request_posture q) (request_expiry q)
            (request_base q) (request_refs q) s c)
     else se_outcome r \<noteq> Signal_Candidate_Created \<and> se_signal r = None \<and> se_candidate r = None)"
proof (cases "request_detects q")
  case True
  then show ?thesis
    using request_sound[OF assms] request_usable[OF True]
    by (auto simp: evaluation_sound_def elim!: from_builder_candidate)
next
  case False
  then show ?thesis
    using request_sound[OF assms] by (simp add: evaluation_sound_def no_candidate_def)
qed

theorem detection_sound_witness:
  "\<exists>r c. evaluate_request (sample_request 739000 (utc 5)) = Inr r \<and> se_candidate r = Some c \<and>
     cd_lifecycle_status c = Generated \<and> cd_review_posture c = Advisor_Review_Required"
proof -
  obtain r c where r: "evaluate_request (sample_request 739000 (utc 5)) = Inr r" "se_candidate r = Some c"
    using sample_detected[of "utc 5" 739000] by auto
  show ?thesis
    using detection_sound[OF r(1)] sample_request_facts(2)[of "utc 5" 739000] r
    by (auto simp: detected_candidate_def sample_request_def)
qed

text \<open>C10: An evaluator never raises on a well-posed request (an aware time, sources of different
  products, a policy its constructor accepts, values in their ranges), and it detects exactly
  when the condition of its family holds.\<close>

theorem detection_answers:
  assumes "request_well_posed q"
  shows "\<exists>r. evaluate_request q = Inr r \<and> (se_outcome r = Signal_Candidate_Created \<longleftrightarrow> request_detects q)"
  using request_answers[OF assms] request_outcome(1) by (auto simp: is_ok_iff)

theorem detection_answers_witness:
  "\<exists>r. evaluate_request (sample_request 739000 (utc 5)) = Inr r \<and> se_outcome r = Signal_Candidate_Created"
  using detection_answers[OF sample_request_facts(1)[of "utc 5" 739000]]
    sample_request_facts(2)[of "utc 5" 739000] by auto

section \<open>Detecting the same opportunity again\<close>

lemma same_request_identity:
  assumes "evaluate_request q = Inr r" "se_candidate r = Some c"
    and "evaluate_request q' = Inr r'" "se_candidate r' = Some d"
    and "request_kind q = request_kind q'"
    and "ev_access_scope (request_base q) = Some s" "ev_access_scope (request_base q') = Some s"
  shows "cd_candidate_id c = cd_candidate_id d"
    and "id_business_identity_id (cd_identity c) = id_business_identity_id (cd_identity d)"
proof -
  note k = request_kind_family[OF assms(5)] assms(5)
  have b: "from_builder (request_family q) (request_kind q) (request_posture q) (request_expiry q)
      (request_base q) (request_refs q) r"
    "from_builder (request_family q') (request_kind q') (request_posture q') (request_expiry q')
      (request_base q') (request_refs q') r'"
    using request_candidate[OF assms(1,2)] request_candidate[OF assms(3,4)] by metis+
  show "cd_candidate_id c = cd_candidate_id d"
    "id_business_identity_id (cd_identity c) = id_business_identity_id (cd_identity d)"
    using from_builder_identity[OF b(1) assms(2)] from_builder_identity[OF b(2) assms(4)] assms(6,7) k
      business_identity_scoped[of "request_family q" "request_kind q" "ev_as_of_date (request_base q)" s
        "ev_as_of_date (request_base q')"]
    by (auto simp: build_opportunity_business_identity_def)
qed

definition redetection_decision :: "bool \<Rightarrow> bool \<Rightarrow> lifecycle_status \<Rightarrow> candidate_decision" where
  "redetection_decision material_changed evidence_changed l =
    (if material_changed
     then if l \<in> REOPENABLE_TERMINAL_STATUSES then Cand_Recurrent_Condition_Reopened
          else Cand_Material_Version_Created
     else if evidence_changed then Cand_Evidence_Refreshed else Cand_Duplicate_Candidate)"

lemma reconciled_decision: "reconciled d x = Inr rn \<Longrightarrow> rn_decision rn = d"
  by (cases x) (auto simp: reconciled_def)

lemma reconciliation_keeps_id:
  "reconciliation_ok e i rn \<Longrightarrow> rn_candidate rn = Some x \<Longrightarrow> cd_candidate_id x = cd_candidate_id e"
  unfolding reconciliation_ok_def by blast

lemma detected_well_formed: "detected_candidate f posture x i refs s c \<Longrightarrow> well_formed_candidate c"
  by (simp add: detected_candidate_def)

lemma reconcile_decision:
  assumes "same_business_scope e d" "id_policy_version (cd_identity e) = id_policy_version (cd_identity d)"
    and "reconcile_candidate e d eh ih t = Inr rn"
  shows "rn_decision rn =
    (if id_material_fingerprint (cd_identity d) = id_material_fingerprint (cd_identity e) \<and>
        \<not> opt_dt_eq (ep_applicability_expires_at_utc (cd_evidence_packet d))
              (ep_applicability_expires_at_utc (cd_evidence_packet e))
     then Cand_Identity_Conflict
     else redetection_decision
       (id_material_fingerprint (cd_identity d) \<noteq> id_material_fingerprint (cd_identity e)) (ih \<noteq> eh)
       (cd_lifecycle_status e))"
proof -
  note r = assms(3)[unfolded reconcile_candidate_def Let_def]
  show ?thesis
  proof (cases "id_material_fingerprint (cd_identity d) = id_material_fingerprint (cd_identity e)")
    case same: True
    show ?thesis
    proof (cases "opt_dt_eq (ep_applicability_expires_at_utc (cd_evidence_packet d))
        (ep_applicability_expires_at_utc (cd_evidence_packet e))")
      case False
      then show ?thesis using r assms(1,2) same by (auto simp: not_reconciled_def)
    next
      case expiry: True
      show ?thesis
      proof (cases "ih = eh")
        case True
        then show ?thesis using r assms(1,2) expiry same
          by (simp add: redetection_decision_def not_reconciled_def) (metis candidate_reconciliation.select_convs(1))
      next
        case False
        then have "reconciled Cand_Evidence_Refreshed
            (bind_res (mk_identity ((cd_identity e)\<lparr>
                 id_evidence_version := id_evidence_version (cd_identity e) + 1,
                 id_change_reason := Evidence_Correction,
                 id_supersedes_material_version := None\<rparr>))
               (\<lambda>i. refreshed_candidate e d i t)) = Inr rn" using r assms(1,2) expiry same by simp
        then show ?thesis using False same expiry reconciled_decision by (simp add: redetection_decision_def)
      qed
    qed
  next
    case False
    then show ?thesis
      using r assms(1,2) reconciled_decision[of _ _ rn]
      by (cases "cd_lifecycle_status e \<in> REOPENABLE_TERMINAL_STATUSES") (simp_all add: redetection_decision_def)
  qed
qed

text \<open>What happens to a candidate between two detections: lifecycle transitions, a conversion
  among them, and accepted review actions.\<close>

inductive worked_on :: "idea_candidate \<Rightarrow> idea_candidate \<Rightarrow> bool" where
  transition: "transition_candidate now c target u = Inr d \<Longrightarrow> worked_on c d"
| review: "apply_review_action c w t receipt policy = Inr r \<Longrightarrow> worked_on c (ra_candidate r)"

definition same_opportunity :: "idea_candidate \<Rightarrow> idea_candidate \<Rightarrow> bool" where
  \<comment> \<open>what no work on a candidate changes\<close>
  "same_opportunity c e \<longleftrightarrow>
     cd_candidate_id e = cd_candidate_id c \<and> cd_identity e = cd_identity c \<and> cd_family e = cd_family c \<and>
     cd_evidence_packet e = cd_evidence_packet c \<and> cd_access_scope e = cd_access_scope c"

lemma worked_on_step:
  assumes "worked_on c e"
  shows "same_opportunity c e \<and> valid_candidate e"
  using assms
proof cases
  case (transition now target u)
  then show ?thesis using transition_candidate_Inr by (fastforce simp: same_opportunity_def)
next
  case (review w t receipt policy r)
  from review(2) obtain a where "candidate_after_review c w a = Inr (ra_candidate r)"
    by (rule apply_review_actionD)
  note d = candidate_after_review_Inr[OF this]
  have "same_opportunity c (reviewed_candidate c w a)"
    by (simp add: same_opportunity_def reviewed_candidate_def Let_def)
  with d show ?thesis unfolding review(1) by (metis (no_types))
qed

lemma worked_on_run:
  assumes "worked_on\<^sup>*\<^sup>* c e" "well_formed_candidate c"
  shows "same_opportunity c e \<and> well_formed_candidate e"
  using assms(1)
proof induction
  case base
  then show ?case using assms(2) by (simp add: same_opportunity_def)
next
  case (step e f)
  note f = worked_on_step[OF step.hyps(2)]
  have "well_formed_candidate e" using step.IH by blast
  with f have "well_formed_candidate f" by (simp add: same_opportunity_def well_formed_candidate_def)
  moreover have "same_opportunity c f" using f step.IH by (simp add: same_opportunity_def)
  ultimately show ?case by blast
qed

text \<open>C11: A candidate detected again for the same scope, by any evaluation of the same kind on
  any later day, has the same identifier and reconciles with the candidate of the first
  detection after any lifecycle transitions and accepted review actions, suppressions among
  them: it is a new material version, a reopening, a refresh or a duplicate as the material
  facts, the evidence and the status call for, and an identity conflict exactly when the facts
  are the same but the applicability expiry has moved.\<close>

theorem redetection_reconciles:
  assumes "evaluate_request q = Inr r" "se_candidate r = Some c"
    and "evaluate_request q' = Inr r'" "se_candidate r' = Some d"
    and "request_kind q = request_kind q'"
    and "ev_access_scope (request_base q) = Some s" "ev_access_scope (request_base q') = Some s"
    and "worked_on\<^sup>*\<^sup>* c e" "aware t"
  shows "\<exists>rn. reconcile_candidate e d (evidence_hash (request_refs q)) (evidence_hash (request_refs q')) t = Inr rn \<and>
      rn_decision rn =
        (if id_material_fingerprint (cd_identity d) = id_material_fingerprint (cd_identity c) \<and>
            \<not> opt_dt_eq (request_expiry q') (request_expiry q)
         then Cand_Identity_Conflict
         else redetection_decision
           (id_material_fingerprint (cd_identity d) \<noteq> id_material_fingerprint (cd_identity c))
           (evidence_hash (request_refs q') \<noteq> evidence_hash (request_refs q)) (cd_lifecycle_status e)) \<and>
      cd_candidate_id d = cd_candidate_id c \<and>
      (\<forall>f. rn_candidate rn = Some f \<longrightarrow> cd_candidate_id f = cd_candidate_id c)"
proof -
  obtain g where c: "detected_candidate (request_family q) (request_posture q) (request_expiry q)
      (request_base q) (request_refs q) g c" using request_candidate[OF assms(1,2)] by metis
  obtain h where d: "detected_candidate (request_family q') (request_posture q') (request_expiry q')
      (request_base q') (request_refs q') h d" using request_candidate[OF assms(3,4)] by metis
  have e: "same_opportunity c e" "well_formed_candidate e"
    using worked_on_run[OF assms(8) detected_well_formed[OF c]] by blast+
  note same = e(1)[unfolded same_opportunity_def]
  obtain rn where rn: "reconcile_candidate e d (evidence_hash (request_refs q))
      (evidence_hash (request_refs q')) t = Inr rn" "reconciliation_ok e d rn"
    using reconcile_candidate_ok[OF e(2) detected_well_formed[OF d] assms(9)] by blast
  note id = same_request_identity[OF assms(1-5,6,7)]
  have scope: "same_business_scope e d"
    using c d id request_kind_family[OF assms(5)] assms(6,7) same
    by (simp add: same_business_scope_def detected_candidate_def)
  have policy: "id_policy_version (cd_identity e) = id_policy_version (cd_identity d)"
    and expiry: "ep_applicability_expires_at_utc (cd_evidence_packet e) = request_expiry q"
      "ep_applicability_expires_at_utc (cd_evidence_packet d) = request_expiry q'"
    using c d same by (simp_all add: detected_candidate_def)
  have "\<forall>f. rn_candidate rn = Some f \<longrightarrow> cd_candidate_id f = cd_candidate_id c"
  proof (intro allI impI)
    fix f
    assume "rn_candidate rn = Some f"
    from reconciliation_keeps_id[OF rn(2) this] same show "cd_candidate_id f = cd_candidate_id c" by (elim conjE) simp
  qed
  note keeps = this
  have ident: "cd_identity e = cd_identity c" using same by blast
  show ?thesis
    by (rule exI[of _ rn], intro conjI rn(1) id(1)[symmetric] keeps
        reconcile_decision[OF scope policy rn(1), unfolded expiry ident])
qed

text \<open>A detected candidate is suppressed in review and then detected again.\<close>

lemma sample_suppression:
  assumes "well_formed_candidate c" "cd_lifecycle_status c = Generated" "cd_access_scope c = Some sample_scope"
  shows "\<exists>e. worked_on c e \<and> cd_suppression_reason e = Some Sup_Duplicate"
proof -
  define w where "w = (sample_review Suppress)\<lparr>rw_expected_candidate_evidence := evidence_identity_of c\<rparr>"
  have "\<exists>r. apply_review_action c w (utc 200) None sample_policy = Inr r"
  proof (rule apply_review_action_ok[OF assms(1)])
    show "passes (review_command_guards w)"
      by (simp add: w_def review_command_guards_def sample_review_def review_field_compatibility_def blank_iff py_space_def)
    show "ensure_allowed c w sample_policy = Inr ()"
      using assms(2,3) by (simp add: w_def ensure_allowed_Inr sample_review_def sample_operator_def sample_scope_def
          can_access_def policy_allows_def sample_policy_def review_actions_def REVIEWABLE_LIFECYCLE_STATUSES_def)
    show "validate_review_presentation w None (utc 200) = Inr None"
      by (simp add: validate_review_presentation_def w_def sample_review_def)
    show "passes (require_observed_time_within_policy (rw_decided_at_utc w) (utc 200) REVIEW_DECISION_TIME_POLICY)"
      using sample_times by (simp add: w_def sample_review_def)
  qed (use sample_texts in \<open>simp_all add: w_def sample_review_def\<close>)
  then obtain r where r: "apply_review_action c w (utc 200) None sample_policy = Inr r" by blast
  then have "candidate_after_review c w (utc 200) = Inr (ra_candidate r)" by (rule apply_review_actionD)
  then have "cd_suppression_reason (ra_candidate r) = Some Sup_Duplicate"
    using candidate_after_review_Inr by (fastforce simp: reviewed_candidate_def w_def sample_review_def Let_def)
  with worked_on.review[OF r] show ?thesis by blast
qed

theorem redetection_reconciles_witness:
  "\<exists>r c e r' d rn. evaluate_request (sample_request 739000 (utc 5)) = Inr r \<and> se_candidate r = Some c \<and>
     worked_on c e \<and> cd_suppression_reason e = Some Sup_Duplicate \<and>
     evaluate_request (sample_request 739001 (utc 9)) = Inr r' \<and> se_candidate r' = Some d \<and>
     reconcile_candidate e d (evidence_hash (request_refs (sample_request 739000 (utc 5))))
       (evidence_hash (request_refs (sample_request 739001 (utc 9)))) (utc 300) = Inr rn \<and>
     rn_decision rn \<noteq> Cand_Identity_Conflict"
proof -
  obtain r c where r: "evaluate_request (sample_request 739000 (utc 5)) = Inr r" "se_candidate r = Some c"
    using sample_detected[of "utc 5" 739000] by auto
  obtain r' d where r': "evaluate_request (sample_request 739001 (utc 9)) = Inr r'" "se_candidate r' = Some d"
    using sample_detected[of "utc 9" 739001] by auto
  have k: "request_kind (sample_request 739000 (utc 5)) = request_kind (sample_request 739001 (utc 9))"
    "ev_access_scope (request_base (sample_request 739000 (utc 5))) = Some sample_scope"
    "ev_access_scope (request_base (sample_request 739001 (utc 9))) = Some sample_scope"
    and x: "request_expiry (sample_request 739000 (utc 5)) = None" "request_expiry (sample_request 739001 (utc 9)) = None"
    by (simp_all add: sample_request_def sample_return_input_def)
  obtain g where "detected_candidate (request_family (sample_request 739000 (utc 5)))
      (request_posture (sample_request 739000 (utc 5))) (request_expiry (sample_request 739000 (utc 5)))
      (request_base (sample_request 739000 (utc 5))) (request_refs (sample_request 739000 (utc 5))) g c"
    using request_candidate[OF r] by metis
  then have "well_formed_candidate c" "cd_lifecycle_status c = Generated" "cd_access_scope c = Some sample_scope"
    using k(2) by (simp_all add: detected_candidate_def)
  from sample_suppression[OF this] obtain e where e: "worked_on c e" "cd_suppression_reason e = Some Sup_Duplicate"
    by blast
  obtain rn where rn: "reconcile_candidate e d (evidence_hash (request_refs (sample_request 739000 (utc 5))))
       (evidence_hash (request_refs (sample_request 739001 (utc 9)))) (utc 300) = Inr rn"
    and dn: "rn_decision rn =
        (if id_material_fingerprint (cd_identity d) = id_material_fingerprint (cd_identity c) \<and> \<not> opt_dt_eq None None
         then Cand_Identity_Conflict
         else redetection_decision
           (id_material_fingerprint (cd_identity d) \<noteq> id_material_fingerprint (cd_identity c))
           (evidence_hash (request_refs (sample_request 739001 (utc 9))) \<noteq>
            evidence_hash (request_refs (sample_request 739000 (utc 5)))) (cd_lifecycle_status e))"
    using redetection_reconciles[OF r r' k r_into_rtranclp[of worked_on, OF e(1)], of "utc 300", unfolded x] by auto
  have "rn_decision rn \<noteq> Cand_Identity_Conflict"
    unfolding dn by (simp add: redetection_decision_def opt_dt_eq_def)
  with r e r' rn show ?thesis
    by (intro exI[of _ r] exI[of _ c] exI[of _ e] exI[of _ r'] exI[of _ d] exI[of _ rn] conjI)
qed

section \<open>A detected candidate in the repository\<close>

text \<open>C12: A detected candidate whose scope is authoritative is accepted by the repository under
  a fresh key: it is stored as detected, GENERATED, with the hash of exactly the sources it was
  detected on, and its event waits in the outbox.\<close>

theorem detected_candidate_is_stored:
  assumes "evaluate_request q = Inr r" "se_candidate r = Some c"
    and "ev_access_scope (request_base q) = Some a" "scope_is_authoritative a"
    and "\<not> blank key" "\<not> blank actor" "is_utc (or_else t now)" "lineage_built lin"
    and "tenant_scoped_idempotency_identity (as_tenant_id a) key = Inr k"
    and "d_get (rp_idempotency_records s) k = None" "d_get (rp_candidate_records s) (cd_candidate_id c) = None"
  shows "\<exists>p au s'. persist_candidate now c key payload actor t lin s =
      (Inr \<lparr>cs_decision = Cand_Accepted, cs_record = Some p, cs_audit_event = Some au\<rparr>, s') \<and>
    d_get (rp_candidate_records s') (cd_candidate_id c) = Some p \<and> pn_candidate p = c \<and>
    cd_lifecycle_status (pn_candidate p) = Generated \<and>
    pn_evidence_hash p = evidence_hash (request_refs q) \<and>
    event_waiting ''idea.candidate.persisted.v1'' (cd_candidate_id c) s'"
proof -
  obtain g where c: "detected_candidate (request_family q) (request_posture q) (request_expiry q)
      (request_base q) (request_refs q) g c" using request_candidate[OF assms(1,2)] by metis
  then have w: "well_formed_candidate c" "cd_access_scope c = Some a" "cd_lifecycle_status c = Generated"
    "ep_source_refs (cd_evidence_packet c) = request_refs q"
    using assms(3) by (simp_all add: detected_candidate_def)
  obtain p au s' where "persist_candidate now c key payload actor t lin s =
      (Inr \<lparr>cs_decision = Cand_Accepted, cs_record = Some p, cs_audit_event = Some au\<rparr>, s')"
    and "pn_candidate p = c" "pn_evidence_hash p = evidence_hash (ep_source_refs (cd_evidence_packet c))"
    and "rp_candidate_records s' = d_put (cd_candidate_id c) p (rp_candidate_records s)"
    and "event_waiting ''idea.candidate.persisted.v1'' (cd_candidate_id c) s'"
    using persist_new_stores[OF w(1,2) assms(4-11), of payload] by (elim exE conjE)
  then show ?thesis using w by (intro exI[of _ p] exI[of _ au] exI[of _ s']) simp
qed

theorem detected_candidate_is_stored_witness:
  "\<exists>r c p au s'. evaluate_request (sample_request 739000 (utc 5)) = Inr r \<and> se_candidate r = Some c \<and>
     persist_candidate (utc 9) c ''key-0'' [] ''service'' None None empty_repository =
       (Inr \<lparr>cs_decision = Cand_Accepted, cs_record = Some p, cs_audit_event = Some au\<rparr>, s') \<and>
     pn_candidate p = c"
proof -
  obtain r c where r: "evaluate_request (sample_request 739000 (utc 5)) = Inr r" "se_candidate r = Some c"
    using sample_detected[of "utc 5" 739000] by auto
  have a: "ev_access_scope (request_base (sample_request 739000 (utc 5))) = Some sample_scope"
    by (simp add: sample_request_def sample_return_input_def)
  have t: "\<not> blank ''key-0''" "\<not> blank ''service''" "is_utc (or_else None (utc 9))" "lineage_built None"
    by (simp_all add: blank_iff py_space_def lineage_built_def)
  have k: "tenant_scoped_idempotency_identity (as_tenant_id sample_scope) ''key-0'' = Inr ''tenant:8:tenant-1key-0''"
    using sample_tenant_key[of "''key-0''"] by simp
  have e: "d_get (rp_idempotency_records empty_repository) ''tenant:8:tenant-1key-0'' = None"
    "d_get (rp_candidate_records empty_repository) (cd_candidate_id c) = None"
    by (simp_all add: empty_repository_def)
  obtain p au s' where "persist_candidate (utc 9) c ''key-0'' [] ''service'' None None empty_repository =
       (Inr \<lparr>cs_decision = Cand_Accepted, cs_record = Some p, cs_audit_event = Some au\<rparr>, s')"
    "pn_candidate p = c"
    using detected_candidate_is_stored[OF r a sample_scope_known(2) t k e, of "[]"] by (elim exE conjE)
  then show ?thesis using r
    by (intro exI[of _ r] exI[of _ c] exI[of _ p] exI[of _ au] exI[of _ s'] conjI)
qed

section \<open>How large a breach scores\<close>

definition attention_score :: "decimal \<Rightarrow> decimal" where
  \<comment> \<open>the score of current and complete evidence of a given materiality\<close>
  "attention_score m = min 100 (max 0 (quantize2 (dec_sub
     (dec_sum [quantize2 (dec_mul m (70 / 100)), quantize2 (dec_mul 100 (15 / 100)),
               quantize2 (dec_mul 100 (15 / 100))]) 0)))"

lemma attention_score_mono:
  assumes "0 \<le> m" "m \<le> n"
  shows "attention_score m \<le> attention_score n"
proof -
  have q: "0 \<le> quantize2 (dec_mul x (70 / 100))" if "0 \<le> x" for x
    using quantize2_mono[of 0 "dec_mul x (70 / 100)"] quantize2_of_int[of 0] that
    by (simp add: dec_mul_def ctx28_nonneg)
  have c: "0 \<le> quantize2 (dec_mul 100 (15 / 100))"
    using quantize2_mono[of 0 "dec_mul 100 (15 / 100)"] quantize2_of_int[of 0]
    by (simp add: dec_mul_def ctx28_nonneg)
  have "quantize2 (dec_mul m (70 / 100)) \<le> quantize2 (dec_mul n (70 / 100))"
    unfolding dec_mul_def using assms by (intro quantize2_mono ctx28_mono) simp_all
  then have s: "dec_sum [quantize2 (dec_mul m (70 / 100)), quantize2 (dec_mul 100 (15 / 100)),
       quantize2 (dec_mul 100 (15 / 100))] \<le>
     dec_sum [quantize2 (dec_mul n (70 / 100)), quantize2 (dec_mul 100 (15 / 100)),
       quantize2 (dec_mul 100 (15 / 100))]"
    using q[OF assms(1)] c
    by (simp add: dec_sum_def dec_add_def) (intro ctx28_mono add_mono; simp add: ctx28_nonneg)
  have n: "0 \<le> dec_sum [quantize2 (dec_mul m (70 / 100)), quantize2 (dec_mul 100 (15 / 100)),
       quantize2 (dec_mul 100 (15 / 100))]"
    using q[OF assms(1)] c by (simp add: dec_sum_def dec_add_def ctx28_nonneg)
  show ?thesis
    unfolding attention_score_def dec_sub_def
    using s n by (intro min.mono max.mono quantize2_mono ctx28_mono order_refl) simp_all
qed

lemma attention_score_bounds: "50 \<le> m \<Longrightarrow> m \<le> 100 \<Longrightarrow> 65 \<le> attention_score m \<and> attention_score m \<le> 100"
proof -
  assume m: "50 \<le> m" "m \<le> 100"
  have "attention_score 50 = 65" by code_simp
  with attention_score_mono[of 50 m] m show ?thesis by (simp add: attention_score_def)
qed

lemma signal_score_attention:
  assumes "signal_score version reasons
      (bind_res (relative_threshold_score v t) current_complete_materiality_inputs) = Inr sc"
  obtains m where "relative_threshold_score v t = Inr m" "is_score sc = attention_score m"
proof -
  obtain m where m: "relative_threshold_score v t = Inr m"
    using assms by (auto simp: signal_score_def bind_res_Inr)
  then have b: "0 \<le> m" "m \<le> 100" using severity_bounds by force+
  obtain ws where ws: "current_complete_materiality_inputs m = Inr ws" "valid_inputs ws"
    and w: "map (\<lambda>i. (si_input_score i, si_weight i)) ws = [(m, 70 / 100), (100, 15 / 100), (100, 15 / 100)]"
    using current_complete_inputs[OF b] by blast
  have v: "\<not> blank version"
    using assms by (auto simp: signal_score_def bind_res_Inr Let_def scoring_policy_guards_def)
  have "map (\<lambda>i. quantize2 (dec_mul (si_input_score i) (si_weight i))) ws =
      map (\<lambda>(s, w). quantize2 (dec_mul s w)) (map (\<lambda>i. (si_input_score i, si_weight i)) ws)" by simp
  then have q: "map (\<lambda>i. quantize2 (dec_mul (si_input_score i) (si_weight i))) ws =
      [quantize2 (dec_mul m (70 / 100)), quantize2 (dec_mul 100 (15 / 100)), quantize2 (dec_mul 100 (15 / 100))]"
    unfolding w by simp
  obtain sc' where "signal_score version reasons (current_complete_materiality_inputs m) = Inr sc'"
    and "is_score sc' = attention_score m"
    using signal_score_ok[OF ws v, of reasons] unfolding attention_score_def q[symmetric] by blast
  with assms m that show thesis by simp
qed

text \<open>The score of a created candidate is the one the family computes.\<close>

lemma staged_score:
  assumes "staged t blocks materiality (signal_candidate_result f posture reasons i refs x idn score) = Inr r"
    and "list_all (stops_only f) blocks" "\<And>m. materiality = Inr m \<Longrightarrow> stops_only f m"
    and "se_candidate r = Some c"
  obtains sc where "score = Inr sc" "cd_score c = Some sc" "materiality = Inr None"
proof -
  have "first_result blocks = None"
    using assms(1,4) stops_only_first_result[OF assms(2)]
    by (cases "first_result blocks") (auto simp: staged_def bind_res_Inr stops_only_def no_candidate_def simp del: first_result_None)
  then obtain m where m: "materiality = Inr m"
    and k: "or_continue m (signal_candidate_result f posture reasons i refs x idn score) = Inr r"
    using assms(1) by (auto simp: staged_def bind_res_Inr simp del: first_result_None)
  then have n: "m = None" using assms(3)[OF m] assms(4) by (cases m) (auto simp: no_candidate_def)
  with k have "signal_candidate_result f posture reasons i refs x idn score = Inr r" by simp
  then show thesis using that m n assms(4)
    by (auto simp: signal_candidate_result_def bind_res_Inr Let_def mk_candidate_Inr)
qed

text \<open>What the families with one threshold measure: the magnitude of the value and of the
  threshold.\<close>

fun request_breach :: "signal_request \<Rightarrow> (decimal \<times> decimal) option" where
  "request_breach (High_Cash_Request i p) =
     map_option (\<lambda>w. (dec_rat w, hcp_cash_weight_threshold p)) (hc_source_reported_cash_weight i)"
| "request_breach (Underperformance_Request i p) =
     map_option (\<lambda>v. (dec_abs (dec_rat v), dec_abs (upp_active_return_threshold p)))
       (up_source_reported_active_return i)"
| "request_breach (High_Volatility_Request i p) =
     map_option (\<lambda>v. (dec_rat v, hvp_volatility_threshold p)) (hv_source_reported_volatility i)"
| "request_breach (Drawdown_Request i p) =
     map_option (\<lambda>v. (dec_abs (dec_rat v), dec_abs (ddp_max_drawdown_threshold p)))
       (dd_source_reported_max_drawdown i)"
| "request_breach (Low_Income_Request i p) =
     map_option (\<lambda>v. (dec_abs (dec_rat v), dec_abs (lip_projected_cumulative_cashflow_threshold p)))
       (li_source_reported_min_projected_cumulative_cashflow i)"
| "request_breach q = None"

definition scored_for :: "idea_candidate \<Rightarrow> decimal \<Rightarrow> decimal \<Rightarrow> bool" where
  "scored_for c v t \<longleftrightarrow> (\<exists>sc m. cd_score c = Some sc \<and> relative_threshold_score v t = Inr m \<and>
     is_score sc = attention_score m)"

lemma scored_forI:
  assumes "signal_score version reasons
      (bind_res (relative_threshold_score v t) current_complete_materiality_inputs) = Inr sc"
    and "cd_score c = Some sc"
  shows "scored_for c v t"
  using signal_score_attention[OF assms(1)] assms(2) unfolding scored_for_def by metis

lemma high_cash_scored:
  assumes "evaluate_high_cash_signal i p = Inr r" "se_candidate r = Some c"
    and "hc_source_reported_cash_weight i = Some w"
  shows "scored_for c (dec_rat w) (hcp_cash_weight_threshold p)"
  using assms(1)[unfolded high_cash_staged high_cash_candidate_created_result_def] assms(2,3)
  by (elim staged_score)
    (auto simp: high_cash_materiality_result_def bind_res_Inr high_cash_score_def bounded_optional_weight_def
      intro!: scored_forI split: option.splits)

lemma underperformance_scored:
  assumes "evaluate_underperformance_signal i p = Inr r" "se_candidate r = Some c"
    and "up_source_reported_active_return i = Some v"
  shows "scored_for c (dec_abs (dec_rat v)) (dec_abs (upp_active_return_threshold p))"
  using assms(1)[unfolded underperformance_staged underperformance_candidate_created_result_def] assms(2,3)
  by (elim staged_score)
    (auto simp: underperformance_materiality_result_def bind_res_Inr underperformance_score_def
      bounded_underperformance_active_return_def intro!: scored_forI split: option.splits)

lemma high_volatility_scored:
  assumes "evaluate_high_volatility_signal i p = Inr r" "se_candidate r = Some c"
    and "hv_source_reported_volatility i = Some v"
  shows "scored_for c (dec_rat v) (hvp_volatility_threshold p)"
  using assms(1)[unfolded high_volatility_staged high_volatility_candidate_result_def] assms(2,3)
  by (elim staged_score)
    (auto simp: high_volatility_score_def intro!: scored_forI dest: high_volatility_materiality_Inr)

lemma drawdown_scored:
  assumes "evaluate_drawdown_review_signal i p = Inr r" "se_candidate r = Some c"
    and "dd_source_reported_max_drawdown i = Some v"
  shows "scored_for c (dec_abs (dec_rat v)) (dec_abs (ddp_max_drawdown_threshold p))"
  using assms(1)[unfolded drawdown_staged drawdown_candidate_result_def] assms(2,3)
  by (elim staged_score)
    (auto simp: drawdown_score_def intro!: scored_forI dest: drawdown_materiality_Inr)

lemma low_income_scored:
  assumes "evaluate_low_income_signal i p = Inr r" "se_candidate r = Some c"
    and "li_source_reported_min_projected_cumulative_cashflow i = Some v"
  shows "scored_for c (dec_abs (dec_rat v)) (dec_abs (lip_projected_cumulative_cashflow_threshold p))"
  using assms(1)[unfolded low_income_staged low_income_candidate_result_def] assms(2,3)
  by (elim staged_score)
    (auto simp: low_income_score_def Let_def bind_checks_Inr intro!: scored_forI dest: low_income_materiality)

lemma request_scored:
  assumes "evaluate_request q = Inr r" "se_candidate r = Some c" "request_breach q = Some (v, t)"
  shows "scored_for c v t"
  using assms
  by (cases q) (auto intro: high_cash_scored underperformance_scored high_volatility_scored drawdown_scored
      low_income_scored)

text \<open>C38: In the families with one threshold the score of a candidate lies between 65 and 100
  and does not decrease with the size of the breach: of two detections against the same
  threshold, the one further beyond it never scores lower.\<close>

theorem larger_breach_scores_higher:
  assumes "evaluate_request q = Inr r" "se_candidate r = Some c"
    and "evaluate_request q' = Inr r'" "se_candidate r' = Some d"
    and "request_breach q = Some (v, t)" "request_breach q' = Some (v', t)" "v \<le> v'"
  shows "\<exists>x y. cd_score c = Some x \<and> cd_score d = Some y \<and>
    65 \<le> is_score x \<and> is_score x \<le> is_score y \<and> is_score y \<le> 100"
proof -
  obtain x m where x: "cd_score c = Some x" "relative_threshold_score v t = Inr m" "is_score x = attention_score m"
    using request_scored[OF assms(1,2,5)] by (auto simp: scored_for_def)
  obtain y n where y: "cd_score d = Some y" "relative_threshold_score v' t = Inr n" "is_score y = attention_score n"
    using request_scored[OF assms(3,4,6)] by (auto simp: scored_for_def)
  have "50 \<le> m" "m \<le> n" "n \<le> 100" "m \<le> 100" "50 \<le> n"
    using severity_bounds[OF x(2)] severity_bounds[OF y(2)] severity_monotone[OF x(2) y(2) assms(7)] by auto
  then show ?thesis
    using x y attention_score_mono[of m n] attention_score_bounds by auto
qed

theorem larger_breach_scores_higher_witness:
  "\<exists>r c r' d x y. evaluate_request (sample_request 739000 (utc 5)) = Inr r \<and> se_candidate r = Some c \<and>
     evaluate_request (sample_request 739001 (utc 9)) = Inr r' \<and> se_candidate r' = Some d \<and>
     cd_score c = Some x \<and> cd_score d = Some y \<and> 65 \<le> is_score x \<and> is_score x \<le> is_score y"
proof -
  obtain r c where r: "evaluate_request (sample_request 739000 (utc 5)) = Inr r" "se_candidate r = Some c"
    using sample_detected[of "utc 5" 739000] by auto
  obtain r' d where r': "evaluate_request (sample_request 739001 (utc 9)) = Inr r'" "se_candidate r' = Some d"
    using sample_detected[of "utc 9" 739001] by auto
  have "\<exists>v t. request_breach (sample_request 739000 (utc 5)) = Some (v, t) \<and>
      request_breach (sample_request 739001 (utc 9)) = Some (v, t)"
    by (simp add: sample_request_def sample_return_input_def)
  then show ?thesis
    using larger_breach_scores_higher[OF r r' _ _ order_refl] r r' by blast
qed

section \<open>Text that is read in two ways\<close>

text \<open>The mandate restriction evaluator compares the status without trimming it but derives
  the material facts and the score from the trimmed text: a breach reported with surrounding
  blanks, otherwise unchanged, is answered as below materiality, although its identity and its
  score are those of the breach that would create a candidate.\<close>

definition padded_breach :: "mandate_restriction_input \<Rightarrow> mandate_restriction_input" where
  "padded_breach i = i\<lparr>mr_restriction_status := Some '' BREACHED ''\<rparr>"

lemma padded_status: "py_upper (py_strip '' BREACHED '') = py_upper (py_strip ''BREACHED'')"
  "py_upper '' BREACHED '' = '' BREACHED ''" "py_upper ''BREACHED'' = ''BREACHED''"
  by code_simp+

theorem padded_breach_dropped:
  assumes "usable_sources i (mandate_restriction_refs i)" "mandate_restriction_well_posed i p"
    and "mr_restriction_status i = Some ''BREACHED''"
    and "mr_changed_since_last_review i = Some False" "mr_actionability_blocked i = Some False"
  shows "(\<exists>r c. evaluate_mandate_restriction_signal i p = Inr r \<and> se_candidate r = Some c) \<and>
    (\<exists>r. evaluate_mandate_restriction_signal (padded_breach i) p = Inr r \<and> se_candidate r = None) \<and>
    mandate_restriction_identity (padded_breach i) p (mandate_restriction_refs i) =
      mandate_restriction_identity i p (mandate_restriction_refs i) \<and>
    mandate_restriction_score (padded_breach i) p = mandate_restriction_score i p"
proof -
  have refs: "mandate_restriction_refs (padded_breach i) = mandate_restriction_refs i"
    by (simp add: padded_breach_def mandate_restriction_refs_def)
  have d: "mandate_restriction_detects i p"
    using assms padded_status by (auto simp: mandate_restriction_detects_def ACTIONABLE_RESTRICTION_STATUSES_def)
  have n: "\<not> mandate_restriction_detects (padded_breach i) p"
    using assms padded_status
    by (auto simp: mandate_restriction_detects_def ACTIONABLE_RESTRICTION_STATUSES_def padded_breach_def)
  have w: "mandate_restriction_well_posed (padded_breach i) p"
    using assms(2) by (simp add: mandate_restriction_well_posed_def posed_def refs) (simp add: padded_breach_def)
  have "\<exists>r c. evaluate_mandate_restriction_signal i p = Inr r \<and> se_candidate r = Some c"
    using mandate_restriction.answers[OF assms(2)] mandate_restriction.created_iff(2)[of i p] d
    by (fastforce simp: is_ok_iff)
  moreover have "\<exists>r. evaluate_mandate_restriction_signal (padded_breach i) p = Inr r \<and> se_candidate r = None"
    using mandate_restriction.answers[OF w] mandate_restriction.created_iff(2)[of "padded_breach i" p] n
    by (fastforce simp: is_ok_iff)
  ultimately show ?thesis
    using assms(3) padded_status(1)
    by (simp add: mandate_restriction_identity_def mandate_restriction_score_def padded_breach_def or_empty_def)
qed

definition sample_version_policy :: version_policy where
  "sample_version_policy = \<lparr>vp_policy_version = ''policy-v1''\<rparr>"

definition sample_restriction_input :: mandate_restriction_input where
  "sample_restriction_input =
     \<lparr>ev_as_of_date = 739000, ev_evaluated_at_utc = utc 5, ev_entitlement_allowed = True,
      ev_access_scope = Some sample_scope, mr_restriction_ref = Some sample_source,
      mr_restriction_status = Some ''BREACHED'', mr_changed_since_last_review = Some False,
      mr_actionability_blocked = Some False\<rparr>"

theorem padded_breach_dropped_witness:
  "\<exists>r. evaluate_mandate_restriction_signal (padded_breach sample_restriction_input) sample_version_policy = Inr r \<and>
     se_candidate r = None"
proof -
  have "usable_sources sample_restriction_input (mandate_restriction_refs sample_restriction_input)"
    "mandate_restriction_well_posed sample_restriction_input sample_version_policy"
    "mr_restriction_status sample_restriction_input = Some ''BREACHED''"
    "mr_changed_since_last_review sample_restriction_input = Some False"
    "mr_actionability_blocked sample_restriction_input = Some False"
    by (simp_all add: sample_restriction_input_def sample_version_policy_def usable_sources_def
        mandate_restriction_refs_def mandate_restriction_well_posed_def posed_def version_policy_guards_def
        source_in_time_def sample_source_def dt_le_def blank_iff py_space_def)
  from padded_breach_dropped[OF this] show ?thesis by blast
qed

text \<open>The missing benchmark evaluator recognises a ready assignment by the text of its
  diagnostic, which it builds from the status: an assignment whose status reads \<open>ready\<close> counts
  as ready although it is not active and has no version, while the same assignment with any
  other inactive status creates a candidate.\<close>

definition with_assignment_status :: "string \<Rightarrow> missing_benchmark_input \<Rightarrow> missing_benchmark_input" where
  "with_assignment_status status i = i\<lparr>mb_assignment_status := Some status\<rparr>"

theorem ready_status_counts_as_ready:
  assumes "usable_sources i (missing_benchmark_refs i)" "missing_benchmark_well_posed i p"
    and "mb_benchmark_identity_resolved i" "mb_assignment_effective_for_as_of_date i"
    and "\<not> mb_assignment_version_present i" "py_lower (py_strip status) \<noteq> ''ready''"
  shows "evaluate_missing_benchmark_signal (with_assignment_status ''READY'' i) p =
      Inr (below_materiality_result Missing_Benchmark) \<and>
    (\<exists>r c. evaluate_missing_benchmark_signal (with_assignment_status status i) p = Inr r \<and>
       se_candidate r = Some c)"
proof -
  have refs: "missing_benchmark_refs (with_assignment_status x i) = missing_benchmark_refs i" for x
    by (simp add: with_assignment_status_def missing_benchmark_refs_def)
  have fields: "ev_as_of_date (with_assignment_status x i) = ev_as_of_date i"
    "ev_evaluated_at_utc (with_assignment_status x i) = ev_evaluated_at_utc i"
    "ev_entitlement_allowed (with_assignment_status x i) = ev_entitlement_allowed i"
    "mb_benchmark_assignment_ref (with_assignment_status x i) = mb_benchmark_assignment_ref i" for x
    by (simp_all add: with_assignment_status_def)
  have "py_lower (py_strip ''READY'') = ''ready''" by code_simp
  then have "benchmark_assignment_is_ready (with_assignment_status ''READY'' i)"
    using assms by (simp add: benchmark_assignment_is_ready_iff with_assignment_status_def)
  moreover have "missing_benchmark_refs i \<noteq> []" "aware (ev_evaluated_at_utc i)"
    using assms by (auto simp: usable_sources_def missing_benchmark_well_posed_def posed_def)
  moreover have tb: "temporal_blocked_signal_result Missing_Benchmark (ev_as_of_date i) (ev_evaluated_at_utc i)
      (missing_benchmark_refs i) = None"
    using assms(1) by (simp add: usable_sources_def)
  ultimately have 1: "evaluate_missing_benchmark_signal (with_assignment_status ''READY'' i) p =
      Inr (below_materiality_result Missing_Benchmark)"
    using assms(1)
    by (auto simp: missing_benchmark_staged staged_def refs fields first_result.simps result_if_def tb
        usable_sources_def validate_timezone_aware_evaluation_time_def del: temporal_block_None)
  have w: "missing_benchmark_well_posed (with_assignment_status status i) p"
    using assms(2) by (simp add: missing_benchmark_well_posed_def posed_def refs) (simp add: with_assignment_status_def)
  have "missing_benchmark_detects (with_assignment_status status i) p"
    using assms by (simp add: missing_benchmark_detects_def refs)
      (simp add: with_assignment_status_def usable_sources_def)
  then show ?thesis
    using 1 missing_benchmark.answers[OF w] missing_benchmark.created_iff(2)[of "with_assignment_status status i" p]
    by (fastforce simp: is_ok_iff)
qed

definition sample_benchmark_input :: missing_benchmark_input where
  "sample_benchmark_input =
     \<lparr>ev_as_of_date = 739000, ev_evaluated_at_utc = utc 5, ev_entitlement_allowed = True,
      ev_access_scope = Some sample_scope, mb_benchmark_assignment_ref = Some sample_source,
      mb_benchmark_identity_resolved = True, mb_assignment_effective_for_as_of_date = True,
      mb_assignment_status = None, mb_assignment_version_present = False\<rparr>"

theorem ready_status_counts_as_ready_witness:
  "evaluate_missing_benchmark_signal (with_assignment_status ''READY'' sample_benchmark_input)
     sample_version_policy = Inr (below_materiality_result Missing_Benchmark)"
proof -
  have "usable_sources sample_benchmark_input (missing_benchmark_refs sample_benchmark_input)"
    "missing_benchmark_well_posed sample_benchmark_input sample_version_policy"
    "mb_benchmark_identity_resolved sample_benchmark_input"
    "mb_assignment_effective_for_as_of_date sample_benchmark_input"
    "\<not> mb_assignment_version_present sample_benchmark_input"
    "py_lower (py_strip ''PENDING'') \<noteq> ''ready''"
    by (simp_all add: sample_benchmark_input_def sample_version_policy_def usable_sources_def
        missing_benchmark_refs_def missing_benchmark_well_posed_def posed_def version_policy_guards_def
        source_in_time_def sample_source_def dt_le_def blank_iff py_space_def) code_simp
  from ready_status_counts_as_ready[OF this] show ?thesis by blast
qed

end
