(* ===== verification/Realization.thy ===== *)
theory Realization
imports Downstream
begin

text \<open>
  The histories the owners of a conversion report back: the proposal realisation of Lotus
  Advise (\<open>advise_realization.py\<close>) and the action review of Lotus Manage
  (\<open>manage_realization.py\<close>), and the repository methods that store them under the support
  reference of a submission (\<open>persistence_advise_realization.py\<close>,
  \<open>persistence_manage_realization.py\<close>). A history that is constructed has only UTC times, so
  that the equality of its record is the equality of the Python objects.
\<close>

section \<open>The realisation history of Advise\<close>

datatype advise_status =
  Advise_Accepted_For_Review | Advise_Rejected_Before_Work | Advise_Proposal_Linked
| Advise_Advisory_Rejected | Advise_Advisory_Cancelled | Advise_Advisory_Expired
| Advise_Advisory_Completed

datatype advise_work_status = Pending_Adviser_Review | Work_Proposal_Linked | Work_Closed

datatype history_decision = History_Accepted | History_Replayed | History_Conflict | History_Not_Found

definition TERMINAL_ADVISE_REALIZATION_STATUSES :: "advise_status set" where
  "TERMINAL_ADVISE_REALIZATION_STATUSES =
     {Advise_Rejected_Before_Work, Advise_Advisory_Rejected, Advise_Advisory_Cancelled,
      Advise_Advisory_Expired, Advise_Advisory_Completed}"

fun ALLOWED_ADVISE_REALIZATION_TRANSITIONS :: "advise_status \<Rightarrow> advise_status set" where
  "ALLOWED_ADVISE_REALIZATION_TRANSITIONS Advise_Accepted_For_Review = {Advise_Proposal_Linked}"
| "ALLOWED_ADVISE_REALIZATION_TRANSITIONS Advise_Proposal_Linked =
     {Advise_Advisory_Rejected, Advise_Advisory_Cancelled, Advise_Advisory_Expired,
      Advise_Advisory_Completed}"
| "ALLOWED_ADVISE_REALIZATION_TRANSITIONS Advise_Rejected_Before_Work = {}"
| "ALLOWED_ADVISE_REALIZATION_TRANSITIONS Advise_Advisory_Rejected = {}"
| "ALLOWED_ADVISE_REALIZATION_TRANSITIONS Advise_Advisory_Cancelled = {}"
| "ALLOWED_ADVISE_REALIZATION_TRANSITIONS Advise_Advisory_Expired = {}"
| "ALLOWED_ADVISE_REALIZATION_TRANSITIONS Advise_Advisory_Completed = {}"

record advise_outcome =
  ao_outcome_id :: string
  ao_source_event_version :: int
  ao_status :: advise_status
  ao_reason_code :: string
  ao_occurred_at_utc :: py_datetime
  ao_review_work_id :: "string option"
  ao_proposal_id :: "string option"
  ao_terminal :: bool

definition advise_outcome_guards :: "advise_outcome \<Rightarrow> guards" where
  "advise_outcome_guards x =
     require_text (ao_outcome_id x) ''outcome_id'' @
     require_text (ao_reason_code x) ''reason_code'' @
     require_positive (ao_source_event_version x) ''source_event_version'' @
     require_aware_utc (ao_occurred_at_utc x) ''occurred_at_utc'' @
     require_opt_text (ao_review_work_id x) ''review_work_id'' @
     require_opt_text (ao_proposal_id x) ''proposal_id'' @
     [(ao_terminal x \<noteq> (ao_status x \<in> TERMINAL_ADVISE_REALIZATION_STATUSES),
       ValueError ''terminal must match Advise realization status'')]"

record advise_history =
  ah_realization_id :: string
  ah_intake_id :: string
  ah_review_work_id :: "string option"
  ah_review_work_status :: "advise_work_status option"
  ah_source_authority :: string
  ah_realization_authority :: string
  ah_tenant_id :: string
  ah_legal_entity_code :: string
  ah_portfolio_id :: string
  ah_idea_candidate_id :: string
  ah_conversion_intent_id :: string
  ah_source_evidence_fingerprint :: string
  ah_current_status :: advise_status
  ah_current_source_event_version :: int
  ah_proposal_id :: "string option"
  ah_proposal_record_created :: bool
  ah_suitability_authority_granted :: bool
  ah_order_created :: bool
  ah_client_publication_authorized :: bool
  ah_created_at_utc :: py_datetime
  ah_updated_at_utc :: py_datetime
  ah_outcomes :: "advise_outcome list"

definition proposal_ids :: "advise_outcome list \<Rightarrow> string list" where
  \<comment> \<open>the identifiers that are neither \<open>None\<close> nor empty\<close>
  "proposal_ids xs = filter (\<lambda>p. p \<noteq> []) (List.map_filter ao_proposal_id xs)"

definition linked_proposal_id :: "advise_outcome list \<Rightarrow> string option" where
  "linked_proposal_id xs = (case proposal_ids xs of [] \<Rightarrow> None | p # _ \<Rightarrow> Some p)"

definition validate_work_and_proposal :: "advise_history \<Rightarrow> advise_outcome \<Rightarrow> advise_outcome \<Rightarrow> guards" where
  "validate_work_and_proposal h first last' =
    (let xs = ah_outcomes h; linked = linked_proposal_id xs in
     (if ao_status first = Advise_Rejected_Before_Work
      then [(length xs \<noteq> 1, ValueError ''rejected-before-work realization cannot progress''),
            (ah_review_work_id h \<noteq> None \<or> ah_review_work_status h \<noteq> None,
             ValueError ''rejected-before-work realization forbids review work'')]
      else [(ah_review_work_id h = None \<or> ah_review_work_status h = None,
             ValueError ''accepted Advise realization requires review work''),
            (list_ex (\<lambda>x. ao_review_work_id x \<noteq> ah_review_work_id h) xs,
             ValueError ''Advise realization review work identity changed'')]) @
     [(length (remdups (proposal_ids xs)) > 1, ValueError ''Advise realization proposal identity changed''),
      (ah_proposal_id h \<noteq> linked \<or> ao_proposal_id last' \<noteq> linked,
       ValueError ''proposal_id must match the final owner outcome''),
      (ah_proposal_record_created h \<noteq> (linked \<noteq> None),
       ValueError ''proposal_record_created must match proposal_id'')])"

definition advise_step_guards :: "advise_outcome \<times> advise_outcome \<Rightarrow> guards" where
  "advise_step_guards = (\<lambda>(previous, current).
     [(ao_status current \<notin> ALLOWED_ADVISE_REALIZATION_TRANSITIONS (ao_status previous),
       ValueError ''Advise realization history has an invalid status transition''),
      (dt_less (ao_occurred_at_utc current) (ao_occurred_at_utc previous),
       ValueError ''Advise realization outcomes must be chronological'')])"

definition validate_advise_history :: "advise_history \<Rightarrow> guards" where
  "validate_advise_history h =
    (case ah_outcomes h of
       [] \<Rightarrow> [(True, ValueError ''Advise realization outcomes are required'')]
     | first # rest \<Rightarrow>
         let xs = first # rest; last' = last xs in
         [(\<not> distinct (map ao_outcome_id xs),
           ValueError ''Advise realization outcome identities must be unique''),
          (map ao_source_event_version xs \<noteq> map int [1..<length xs + 1],
           ValueError ''Advise realization event versions must be contiguous from one''),
          (ao_status first \<notin> {Advise_Accepted_For_Review, Advise_Rejected_Before_Work},
           ValueError ''Advise realization history has an invalid initial status'')] @
         concat (map advise_step_guards (zip xs rest)) @
         [(ah_current_source_event_version h \<noteq> ao_source_event_version last',
           ValueError ''current_source_event_version must match the final outcome''),
          (ah_current_status h \<noteq> ao_status last',
           ValueError ''current_status must match the final outcome''),
          (\<not> dt_eq (ah_updated_at_utc h) (ao_occurred_at_utc last'),
           ValueError ''updated_at_utc must match the final outcome''),
          (\<not> dt_eq (ah_created_at_utc h) (ao_occurred_at_utc first),
           ValueError ''created_at_utc must match the initial outcome''),
          (ah_review_work_id h \<noteq> ao_review_work_id last',
           ValueError ''review_work_id must match the final outcome'')] @
         validate_work_and_proposal h first last')"

definition advise_history_guards :: "advise_history \<Rightarrow> guards" where
  "advise_history_guards h =
     require_text (ah_realization_id h) ''realization_id'' @
     require_text (ah_intake_id h) ''intake_id'' @
     require_text (ah_tenant_id h) ''tenant_id'' @
     require_text (ah_legal_entity_code h) ''legal_entity_code'' @
     require_text (ah_portfolio_id h) ''portfolio_id'' @
     require_text (ah_idea_candidate_id h) ''idea_candidate_id'' @
     require_text (ah_conversion_intent_id h) ''conversion_intent_id'' @
     require_text (ah_source_evidence_fingerprint h) ''source_evidence_fingerprint'' @
     [(ah_source_authority h \<noteq> ''lotus-idea'', ValueError ''source_authority must be lotus-idea''),
      (ah_realization_authority h \<noteq> ''lotus-advise'',
       ValueError ''realization_authority must be lotus-advise''),
      (\<not> is_prefix ''sha256:'' (ah_source_evidence_fingerprint h),
       ValueError ''source_evidence_fingerprint must use sha256'')] @
     require_opt_text (ah_review_work_id h) ''review_work_id'' @
     require_opt_text (ah_proposal_id h) ''proposal_id'' @
     require_positive (ah_current_source_event_version h) ''current_source_event_version'' @
     require_aware_utc (ah_created_at_utc h) ''created_at_utc'' @
     require_aware_utc (ah_updated_at_utc h) ''updated_at_utc'' @
     [(dt_less (ah_updated_at_utc h) (ah_created_at_utc h),
       ValueError ''updated_at_utc must not precede created_at_utc''),
      (ah_suitability_authority_granted h \<or> ah_order_created h \<or> ah_client_publication_authorized h,
       ValueError ''Advise realization response asserted unsupported authority'')] @
     validate_advise_history h"

definition mk_advise_history :: "advise_history \<Rightarrow> advise_history res" where
  \<comment> \<open>the construction of the outcomes comes before that of the history\<close>
  "mk_advise_history h =
     checks (concat (map advise_outcome_guards (ah_outcomes h)) @ advise_history_guards h) h"

definition advise_history_identity :: "advise_history \<Rightarrow> string list" where
  "advise_history_identity h =
     [ah_realization_id h, ah_intake_id h, ah_source_authority h, ah_realization_authority h,
      ah_tenant_id h, ah_legal_entity_code h, ah_portfolio_id h, ah_idea_candidate_id h,
      ah_conversion_intent_id h, ah_source_evidence_fingerprint h]"

definition evaluate_advise_realization_history_mutation ::
    "advise_history option \<Rightarrow> advise_history \<Rightarrow> history_decision" where
  "evaluate_advise_realization_history_mutation existing h =
    (case existing of
       None \<Rightarrow> History_Accepted
     | Some e \<Rightarrow>
         if e = h then History_Replayed
         else if advise_history_identity e \<noteq> advise_history_identity h then History_Conflict
         else if ah_current_source_event_version h \<le> ah_current_source_event_version e
         then History_Conflict
         else if take (length (ah_outcomes e)) (ah_outcomes h) \<noteq> ah_outcomes e then History_Conflict
         else History_Accepted)"

record 'h history_result =
  hr_decision :: history_decision
  hr_history :: "'h option"
  hr_blocker :: "string option"
  hr_appended_count :: int

definition history_result_guards :: "string \<Rightarrow> string \<Rightarrow> 'h history_result \<Rightarrow> guards" where
  \<comment> \<open>the two result classes differ in the name of the count and in what is appended\<close>
  "history_result_guards count_name what r =
     [(hr_appended_count r < 0, ValueError (count_name @ '' must not be negative'')),
      (hr_decision r \<noteq> History_Accepted \<and> hr_appended_count r \<noteq> 0,
       ValueError (''only an accepted history mutation may append '' @ what))]"

section \<open>The review history of Manage\<close>

datatype manage_status = Manage_Not_Required | Manage_Pending_Review | Manage_Approved | Manage_Rejected

datatype manage_event_type = Intake_Accepted | Manage_Approve | Manage_Reject | Manage_Request_Changes

definition MANAGE_ACTION_OUTCOME_HISTORY_CONTRACT_VERSION :: string where
  "MANAGE_ACTION_OUTCOME_HISTORY_CONTRACT_VERSION = ''lotus-manage.idea-action-outcome-history.v1''"

fun VALID_MANAGE_REVIEW_TRANSITIONS :: "manage_status \<Rightarrow> manage_event_type \<Rightarrow> manage_status option" where
  "VALID_MANAGE_REVIEW_TRANSITIONS Manage_Pending_Review Manage_Approve = Some Manage_Approved"
| "VALID_MANAGE_REVIEW_TRANSITIONS Manage_Pending_Review Manage_Reject = Some Manage_Rejected"
| "VALID_MANAGE_REVIEW_TRANSITIONS Manage_Pending_Review Manage_Request_Changes = Some Manage_Pending_Review"
| "VALID_MANAGE_REVIEW_TRANSITIONS Manage_Approved Manage_Request_Changes = Some Manage_Pending_Review"
| "VALID_MANAGE_REVIEW_TRANSITIONS Manage_Approved Manage_Reject = Some Manage_Rejected"
| "VALID_MANAGE_REVIEW_TRANSITIONS Manage_Rejected Manage_Request_Changes = Some Manage_Pending_Review"
| "VALID_MANAGE_REVIEW_TRANSITIONS _ _ = None"

record manage_event =
  me_event_id :: string
  me_action_id :: string
  me_source_event_version :: int
  me_event_type :: manage_event_type
  me_previous_status :: "manage_status option"
  me_status :: manage_status
  me_occurred_at_utc :: py_datetime
  me_actor_id :: string
  me_actor_role :: string
  me_reason_code :: string
  me_correlation_id :: string
  me_causation_id :: string

definition manage_event_guards :: "manage_event \<Rightarrow> guards" where
  "manage_event_guards x =
     require_text (me_event_id x) ''event_id'' @ require_text (me_action_id x) ''action_id'' @
     require_text (me_actor_id x) ''actor_id'' @ require_text (me_actor_role x) ''actor_role'' @
     require_text (me_reason_code x) ''reason_code'' @
     require_text (me_correlation_id x) ''correlation_id'' @
     require_text (me_causation_id x) ''causation_id'' @
     require_positive (me_source_event_version x) ''source_event_version'' @
     require_aware_utc (me_occurred_at_utc x) ''occurred_at_utc''"

record manage_history =
  mh_contract_version :: string
  mh_intake_id :: string
  mh_management_action_id :: string
  mh_source_authority :: string
  mh_portfolio_id :: string
  mh_idea_candidate_id :: string
  mh_conversion_intent_id :: string
  mh_request_fingerprint :: string
  mh_status :: manage_status
  mh_source_event_version :: int
  mh_rebalance_execution_proven :: bool
  mh_order_execution_proven :: bool
  mh_client_publication_proven :: bool
  mh_events :: "manage_event list"

definition manage_step_guards :: "manage_event \<times> manage_event \<Rightarrow> guards" where
  "manage_step_guards = (\<lambda>(previous, current).
     let expected = (case me_previous_status current of
           None \<Rightarrow> None | Some s \<Rightarrow> VALID_MANAGE_REVIEW_TRANSITIONS s (me_event_type current)) in
     [(me_event_type current = Intake_Accepted,
       ValueError ''Manage realization intake event must be first''),
      (me_previous_status current \<noteq> Some (me_status previous),
       ValueError ''Manage realization event chain is not contiguous''),
      (expected \<noteq> Some (me_status current),
       ValueError ''Manage realization history has an invalid status transition''),
      (dt_less (me_occurred_at_utc current) (me_occurred_at_utc previous),
       ValueError ''Manage realization events must be chronological'')])"

definition validate_manage_history :: "manage_history \<Rightarrow> guards" where
  "validate_manage_history h =
    (case mh_events h of
       [] \<Rightarrow> [(True, ValueError ''Manage realization events are required'')]
     | first # rest \<Rightarrow>
         let xs = first # rest; last' = last xs in
         [(\<not> distinct (map me_event_id xs),
           ValueError ''Manage realization event identities must be unique''),
          (map me_source_event_version xs \<noteq> map int [1..<length xs + 1],
           ValueError ''Manage realization event versions must be contiguous from one''),
          (me_event_type first \<noteq> Intake_Accepted \<or> me_previous_status first \<noteq> None \<or>
             me_status first \<noteq> Manage_Pending_Review,
           ValueError ''Manage realization history has an invalid intake event'')] @
         concat (map manage_step_guards (zip xs rest)) @
         [(list_ex (\<lambda>x. me_action_id x \<noteq> mh_management_action_id h) xs,
           ValueError ''Manage realization action identity changed''),
          (list_ex (\<lambda>x. me_causation_id x \<noteq> mh_conversion_intent_id h) xs,
           ValueError ''Manage realization conversion causation identity changed''),
          (mh_source_event_version h \<noteq> me_source_event_version last',
           ValueError ''source_event_version must match the final event''),
          (mh_status h \<noteq> me_status last', ValueError ''status must match the final event'')])"

definition removeprefix :: "string \<Rightarrow> string \<Rightarrow> string" where
  "removeprefix p s = (if is_prefix p s then drop (length p) s else s)"

definition manage_history_guards :: "manage_history \<Rightarrow> guards" where
  "manage_history_guards h =
     require_text (mh_intake_id h) ''intake_id'' @
     require_text (mh_management_action_id h) ''management_action_id'' @
     require_text (mh_portfolio_id h) ''portfolio_id'' @
     require_text (mh_idea_candidate_id h) ''idea_candidate_id'' @
     require_text (mh_conversion_intent_id h) ''conversion_intent_id'' @
     require_text (mh_request_fingerprint h) ''request_fingerprint'' @
     [(mh_contract_version h \<noteq> MANAGE_ACTION_OUTCOME_HISTORY_CONTRACT_VERSION,
       ValueError ''contract_version is not the certified owner contract''),
      (mh_source_authority h \<noteq> ''lotus-manage'', ValueError ''source_authority must be lotus-manage'')] @
     require_positive (mh_source_event_version h) ''source_event_version'' @
     [(let v = removeprefix ''sha256:'' (mh_request_fingerprint h) in
         length v \<noteq> 12 \<or> \<not> list_all (\<lambda>c. c \<in> set ''0123456789abcdef'') v,
       ValueError ''request_fingerprint must be sha256 followed by 12 lowercase hex''),
      (mh_rebalance_execution_proven h \<or> mh_order_execution_proven h \<or> mh_client_publication_proven h,
       ValueError ''Manage realization response asserted unsupported authority'')] @
     validate_manage_history h"

definition mk_manage_history :: "manage_history \<Rightarrow> manage_history res" where
  "mk_manage_history h =
     checks (concat (map manage_event_guards (mh_events h)) @ manage_history_guards h) h"

definition manage_history_identity :: "manage_history \<Rightarrow> string list" where
  "manage_history_identity h =
     [mh_contract_version h, mh_intake_id h, mh_management_action_id h, mh_source_authority h,
      mh_portfolio_id h, mh_idea_candidate_id h, mh_conversion_intent_id h, mh_request_fingerprint h]"

definition evaluate_manage_realization_history_mutation ::
    "manage_history option \<Rightarrow> manage_history \<Rightarrow> history_decision" where
  "evaluate_manage_realization_history_mutation existing h =
    (case existing of
       None \<Rightarrow> History_Accepted
     | Some e \<Rightarrow>
         if e = h then History_Replayed
         else if manage_history_identity e \<noteq> manage_history_identity h then History_Conflict
         else if mh_source_event_version h \<le> mh_source_event_version e then History_Conflict
         else if take (length (mh_events e)) (mh_events h) \<noteq> mh_events e then History_Conflict
         else History_Accepted)"

section \<open>The stored histories\<close>

text \<open>The part of the repository the two mixins use.\<close>

record realization_state =
  rz_submissions :: submission_store
  rz_advise_histories :: "(string, advise_history) dict"
  rz_manage_histories :: "(string, manage_history) dict"

definition advise_realization_submission_blocker :: "submission \<Rightarrow> advise_history \<Rightarrow> string option" where
  "advise_realization_submission_blocker r h =
    (if sb_resource_type r \<noteq> Conversion_Intent_Resource
     then Some ''advise_realization_requires_conversion_intent_submission''
     else if sb_target r \<noteq> Advise_Proposal then Some ''advise_realization_requires_advise_target''
     else if sb_source_authority r \<noteq> Lotus_Advise then Some ''advise_realization_requires_advise_authority''
     else if sb_status r \<notin> {Accepted_By_Downstream, Rejected_By_Downstream}
     then Some ''advise_realization_requires_terminal_owner_submission''
     else case sb_owner_receipt r of
       None \<Rightarrow> Some ''advise_realization_owner_receipt_missing''
     | Some w \<Rightarrow>
         (case wn_source_event_version w of
            None \<Rightarrow> Some ''advise_realization_owner_receipt_conflict''
          | Some v \<Rightarrow>
              if wn_owner_authority w \<noteq> Lotus_Advise \<or> wn_owner_request_id w \<noteq> ah_intake_id h \<or>
                 wn_owner_realization_id w \<noteq> ah_realization_id h \<or>
                 wn_owner_work_id w \<noteq> ah_review_work_id h \<or>
                 wn_source_evidence_fingerprint w \<noteq> ah_source_evidence_fingerprint h \<or>
                 sb_resource_id r \<noteq> ah_conversion_intent_id h
              then Some ''advise_realization_owner_receipt_conflict''
              else if v > ah_current_source_event_version h
              then Some ''advise_realization_history_regressed_below_receipt'' else None))"

definition advise_realization_history_by_support_reference ::
    "string \<Rightarrow> realization_state \<Rightarrow> advise_history option res" where
  "advise_realization_history_by_support_reference ref s =
     checks (require_text ref ''support_reference'') (d_get (rz_advise_histories s) ref)"

definition mk_history_result ::
    "string \<Rightarrow> string \<Rightarrow> 'h history_result \<Rightarrow> 'h history_result res" where
  "mk_history_result count_name what r = checks (history_result_guards count_name what r) r"

definition mk_advise_result :: "advise_history history_result \<Rightarrow> advise_history history_result res" where
  "mk_advise_result = mk_history_result ''appended_outcome_count'' ''outcomes''"

definition persist_advise_realization_history ::
    "string \<Rightarrow> advise_history \<Rightarrow> (realization_state, advise_history history_result) act" where
  "persist_advise_realization_history ref h s =
     act_bind (act_lift (downstream_submission_by_support_reference ref (rz_submissions s))) (\<lambda>submission.
       case submission of
         None \<Rightarrow> act_lift (mk_advise_result
           \<lparr>hr_decision = History_Not_Found, hr_history = None,
            hr_blocker = Some ''downstream_submission_not_found'', hr_appended_count = 0\<rparr>)
       | Some r \<Rightarrow>
           (case advise_realization_submission_blocker r h of
              Some blocker \<Rightarrow> act_lift (mk_advise_result
                \<lparr>hr_decision = History_Conflict, hr_history = d_get (rz_advise_histories s) ref,
                 hr_blocker = Some blocker, hr_appended_count = 0\<rparr>)
            | None \<Rightarrow>
                let existing = d_get (rz_advise_histories s) ref;
                    d = evaluate_advise_realization_history_mutation existing h;
                    appended = (if d = History_Accepted
                      then int (length (ah_outcomes h)) -
                        (case existing of Some e \<Rightarrow> int (length (ah_outcomes e)) | None \<Rightarrow> 0) else 0)
                in act_bind (act_modify (\<lambda>s. if d = History_Accepted
                       then s\<lparr>rz_advise_histories := d_put ref h (rz_advise_histories s)\<rparr> else s)) (\<lambda>_.
                   act_lift (mk_advise_result
                     \<lparr>hr_decision = d,
                      hr_history = (if d \<noteq> History_Conflict then Some h else existing),
                      hr_blocker = (if d = History_Conflict
                        then Some ''advise_realization_history_conflict'' else None),
                      hr_appended_count = appended\<rparr>)))) s"

definition manage_realization_submission_blocker :: "submission \<Rightarrow> manage_history \<Rightarrow> string option" where
  "manage_realization_submission_blocker r h =
    (if sb_resource_type r \<noteq> Conversion_Intent_Resource
     then Some ''manage_realization_requires_conversion_intent_submission''
     else if sb_target r \<noteq> Manage_Review then Some ''manage_realization_requires_manage_target''
     else if sb_source_authority r \<noteq> Lotus_Manage then Some ''manage_realization_requires_manage_authority''
     else if sb_status r \<notin> {Accepted_By_Downstream, Rejected_By_Downstream}
     then Some ''manage_realization_requires_terminal_owner_submission''
     else case sb_owner_receipt r of
       None \<Rightarrow> Some ''manage_realization_owner_receipt_missing''
     | Some w \<Rightarrow>
         (case wn_source_event_version w of
            None \<Rightarrow> Some ''manage_realization_owner_receipt_conflict''
          | Some v \<Rightarrow>
              if wn_owner_authority w \<noteq> Lotus_Manage \<or> wn_owner_request_id w \<noteq> mh_intake_id h \<or>
                 wn_owner_realization_id w \<noteq> mh_management_action_id h \<or>
                 wn_owner_work_id w \<noteq> Some (mh_management_action_id h) \<or>
                 wn_source_evidence_fingerprint w \<noteq> mh_request_fingerprint h \<or>
                 sb_resource_id r \<noteq> mh_conversion_intent_id h
              then Some ''manage_realization_owner_receipt_conflict''
              else if v > mh_source_event_version h
              then Some ''manage_realization_history_regressed_below_receipt'' else None))"

definition manage_realization_history_by_support_reference ::
    "string \<Rightarrow> realization_state \<Rightarrow> manage_history option res" where
  "manage_realization_history_by_support_reference ref s =
     checks (require_text ref ''support_reference'') (d_get (rz_manage_histories s) ref)"

definition mk_manage_result :: "manage_history history_result \<Rightarrow> manage_history history_result res" where
  "mk_manage_result = mk_history_result ''appended_event_count'' ''events''"

definition persist_manage_realization_history ::
    "string \<Rightarrow> manage_history \<Rightarrow> (realization_state, manage_history history_result) act" where
  "persist_manage_realization_history ref h s =
     act_bind (act_lift (downstream_submission_by_support_reference ref (rz_submissions s))) (\<lambda>submission.
       case submission of
         None \<Rightarrow> act_lift (mk_manage_result
           \<lparr>hr_decision = History_Not_Found, hr_history = None,
            hr_blocker = Some ''downstream_submission_not_found'', hr_appended_count = 0\<rparr>)
       | Some r \<Rightarrow>
           (case manage_realization_submission_blocker r h of
              Some blocker \<Rightarrow> act_lift (mk_manage_result
                \<lparr>hr_decision = History_Conflict, hr_history = d_get (rz_manage_histories s) ref,
                 hr_blocker = Some blocker, hr_appended_count = 0\<rparr>)
            | None \<Rightarrow>
                let existing = d_get (rz_manage_histories s) ref;
                    d = evaluate_manage_realization_history_mutation existing h;
                    appended = (if d = History_Accepted
                      then int (length (mh_events h)) -
                        (case existing of Some e \<Rightarrow> int (length (mh_events e)) | None \<Rightarrow> 0) else 0)
                in act_bind (act_modify (\<lambda>s. if d = History_Accepted
                       then s\<lparr>rz_manage_histories := d_put ref h (rz_manage_histories s)\<rparr> else s)) (\<lambda>_.
                   act_lift (mk_manage_result
                     \<lparr>hr_decision = d,
                      hr_history = (if d \<noteq> History_Conflict then Some h else existing),
                      hr_blocker = (if d = History_Conflict
                        then Some ''manage_realization_history_conflict'' else None),
                      hr_appended_count = appended\<rparr>)))) s"

section \<open>The evidence fingerprint sent to Advise\<close>

definition advise_candidate_source_ref :: "string \<Rightarrow> string \<Rightarrow> json" where
  "advise_candidate_source_ref candidate_id evidence_content_hash =
     JObj [(''source_system'', JStr ''lotus-idea''), (''source_type'', JStr ''IdeaCandidate''),
           (''source_id'', JStr candidate_id), (''content_hash'', JStr evidence_content_hash)]"

definition advise_source_evidence_fingerprint :: "string \<Rightarrow> string \<Rightarrow> string" where
  "advise_source_evidence_fingerprint candidate_id evidence_content_hash =
     ''sha256:'' @ sha256_json (JArr [advise_candidate_source_ref candidate_id evidence_content_hash])"

end
