(* ===== verification/Realization_Laws.thy ===== *)
theory Realization_Laws
imports Realization
begin

text \<open>
  What storing an owner's history guarantees, as the locale \<open>history_store\<close>, interpreted on
  the methods for Advise and for Manage; the shapes of the histories the constructors accept;
  and the link of a stored history to the receipt of its submission.
\<close>

section \<open>Stores of growing histories\<close>

text \<open>A history is stored under a key when the gate of its key lets it pass and it extends
  the one stored there; nothing else ever changes the histories.\<close>

locale history_store =
  fixes persist :: "string \<Rightarrow> 'h \<Rightarrow> ('s, 'r) act"
    and stored :: "'s \<Rightarrow> string \<Rightarrow> 'h option"
    and gate :: "'s \<Rightarrow> string \<Rightarrow> 'h \<Rightarrow> bool"
    and extends :: "'h \<Rightarrow> 'h \<Rightarrow> bool"
    and valid :: "'h \<Rightarrow> bool"
    and replayed :: "'r \<Rightarrow> bool"
    and step :: "'s \<Rightarrow> 's \<Rightarrow> bool"
  assumes frame: "j \<noteq> k \<Longrightarrow> stored (snd (persist k h s)) j = stored s j"
    and effect: "snd (persist k h s) \<noteq> s \<Longrightarrow>
      gate s k h \<and> stored (snd (persist k h s)) k = Some h \<and>
      (\<forall>e. stored s k = Some e \<longrightarrow> extends e h)"
    and again: "gate s k h \<Longrightarrow> stored s k = Some h \<Longrightarrow> \<exists>r. fst (persist k h s) = Inr r \<and> replayed r"
    and gate_kept: "gate (snd (persist k h s)) k h = gate s k h"
    and extends_trans: "extends e f \<Longrightarrow> extends f h \<Longrightarrow> extends e h"
    and extends_irrefl: "\<not> extends h h"
    and step_stored: "step s t \<Longrightarrow>
      (\<forall>k. stored t k = stored s k) \<or> (\<exists>k h. valid h \<and> t = snd (persist k h s))"
begin

lemma step_cases:
  assumes "step s t"
  shows "stored t k = stored s k \<or>
    (\<exists>h. valid h \<and> stored t k = Some h \<and> (\<forall>e. stored s k = Some e \<longrightarrow> extends e h))"
proof -
  consider "\<forall>k. stored t k = stored s k" | j h where "valid h" "t = snd (persist j h s)"
    using step_stored[OF assms] by blast
  then show ?thesis
  proof cases
    case 2
    then show ?thesis
      using effect[of j h s] frame[of k j h s] by (cases "t = s"; cases "k = j") auto
  qed blast
qed

lemma run_extends:
  assumes "step\<^sup>*\<^sup>* s t" "stored s k = Some h"
  shows "\<exists>h'. stored t k = Some h' \<and> (h' = h \<or> extends h h')"
  using assms(1)
proof induction
  case base
  then show ?case using assms(2) by simp
next
  case (step t u)
  then obtain h' where h': "stored t k = Some h'" "h' = h \<or> extends h h'" by blast
  from step_cases[OF step.hyps(2), of k] h' show ?case
    using extends_trans by fastforce
qed

lemma run_valid:
  assumes "step\<^sup>*\<^sup>* s t" "\<forall>k h. stored s k = Some h \<longrightarrow> valid h" "stored t k = Some h"
  shows "valid h"
  using assms(1,3)
proof (induction arbitrary: k h)
  case base
  then show ?case using assms(2) by blast
next
  case (step t u)
  then show ?case using step_cases[OF step.hyps(2), of k] by auto
qed

text \<open>A history that was stored is answered as replayed when it is sent again, and an earlier
  one than the stored has no effect.\<close>

lemma stored_once:
  assumes "snd (persist k h s) \<noteq> s"
  shows "snd (persist k h (snd (persist k h s))) = snd (persist k h s)"
    and "\<exists>r. fst (persist k h (snd (persist k h s))) = Inr r \<and> replayed r"
proof -
  have e: "gate s k h" "stored (snd (persist k h s)) k = Some h" using effect[OF assms] by blast+
  then show "\<exists>r. fst (persist k h (snd (persist k h s))) = Inr r \<and> replayed r"
    using again[of "snd (persist k h s)" k h] gate_kept by simp
  show "snd (persist k h (snd (persist k h s))) = snd (persist k h s)"
    using effect[of k h "snd (persist k h s)"] e(2) extends_irrefl by blast
qed

lemma earlier_has_no_effect:
  "stored s k = Some h \<Longrightarrow> extends e h \<Longrightarrow> snd (persist k e s) = s"
  using effect[of k e s] extends_trans extends_irrefl by blast

text \<open>A history nothing extends stays as it is.\<close>

lemma run_keeps_final:
  assumes "step\<^sup>*\<^sup>* s t" "stored s k = Some h" "\<forall>k h. stored s k = Some h \<longrightarrow> valid h"
    and "\<And>h'. valid h' \<Longrightarrow> \<not> extends h h'"
  shows "stored t k = Some h"
proof -
  obtain h' where h': "stored t k = Some h'" "h' = h \<or> extends h h'"
    using run_extends[OF assms(1,2)] by blast
  with run_valid[OF assms(1,3) h'(1)] assms(4) show ?thesis by blast
qed

end

section \<open>Histories that extend each other\<close>

definition advise_extends :: "advise_history \<Rightarrow> advise_history \<Rightarrow> bool" where
  "advise_extends e h \<longleftrightarrow>
     advise_history_identity e = advise_history_identity h \<and>
     ah_current_source_event_version e < ah_current_source_event_version h \<and>
     (\<exists>xs. ah_outcomes h = ah_outcomes e @ xs)"

definition manage_extends :: "manage_history \<Rightarrow> manage_history \<Rightarrow> bool" where
  "manage_extends e h \<longleftrightarrow>
     manage_history_identity e = manage_history_identity h \<and>
     mh_source_event_version e < mh_source_event_version h \<and>
     (\<exists>xs. mh_events h = mh_events e @ xs)"

lemma take_prefix_iff: "take (length xs) ys = xs \<longleftrightarrow> (\<exists>zs. ys = xs @ zs)"
  by (metis append_eq_conv_conj)

lemma advise_accepted_iff:
  "evaluate_advise_realization_history_mutation existing h = History_Accepted \<longleftrightarrow>
     (case existing of None \<Rightarrow> True | Some e \<Rightarrow> advise_extends e h)"
  by (auto simp: evaluate_advise_realization_history_mutation_def advise_extends_def take_prefix_iff
      split: option.splits)

lemma manage_accepted_iff:
  "evaluate_manage_realization_history_mutation existing h = History_Accepted \<longleftrightarrow>
     (case existing of None \<Rightarrow> True | Some e \<Rightarrow> manage_extends e h)"
  by (auto simp: evaluate_manage_realization_history_mutation_def manage_extends_def take_prefix_iff
      split: option.splits)

lemma extends_order:
  "advise_extends e f \<Longrightarrow> advise_extends f h \<Longrightarrow> advise_extends e h" "\<not> advise_extends h h"
  "manage_extends e' f' \<Longrightarrow> manage_extends f' h' \<Longrightarrow> manage_extends e' h'" "\<not> manage_extends h' h'"
  by (auto simp: advise_extends_def manage_extends_def)

text \<open>Whether the submission found under the reference admits the history.\<close>

definition advise_gate :: "realization_state \<Rightarrow> string \<Rightarrow> advise_history \<Rightarrow> bool" where
  "advise_gate s ref h \<longleftrightarrow>
     (\<exists>r. downstream_submission_by_support_reference ref (rz_submissions s) = Inr (Some r) \<and>
       advise_realization_submission_blocker r h = None)"

definition manage_gate :: "realization_state \<Rightarrow> string \<Rightarrow> manage_history \<Rightarrow> bool" where
  "manage_gate s ref h \<longleftrightarrow>
     (\<exists>r. downstream_submission_by_support_reference ref (rz_submissions s) = Inr (Some r) \<and>
       manage_realization_submission_blocker r h = None)"

lemma advise_persist_state:
  "snd (persist_advise_realization_history ref h s) =
     (if advise_gate s ref h \<and>
         (case d_get (rz_advise_histories s) ref of None \<Rightarrow> True | Some e \<Rightarrow> advise_extends e h)
      then s\<lparr>rz_advise_histories := d_put ref h (rz_advise_histories s)\<rparr> else s)"
  by (cases "downstream_submission_by_support_reference ref (rz_submissions s)")
    (auto simp: persist_advise_realization_history_def advise_gate_def Let_def advise_accepted_iff
      act_bind_def split: option.splits)

lemma manage_persist_state:
  "snd (persist_manage_realization_history ref h s) =
     (if manage_gate s ref h \<and>
         (case d_get (rz_manage_histories s) ref of None \<Rightarrow> True | Some e \<Rightarrow> manage_extends e h)
      then s\<lparr>rz_manage_histories := d_put ref h (rz_manage_histories s)\<rparr> else s)"
  by (cases "downstream_submission_by_support_reference ref (rz_submissions s)")
    (auto simp: persist_manage_realization_history_def manage_gate_def Let_def manage_accepted_iff
      act_bind_def split: option.splits)

lemma advise_persist_again:
  assumes "advise_gate s ref h" "d_get (rz_advise_histories s) ref = Some h"
  shows "fst (persist_advise_realization_history ref h s) =
    Inr \<lparr>hr_decision = History_Replayed, hr_history = Some h, hr_blocker = None, hr_appended_count = 0\<rparr>"
  using assms
  by (auto simp: persist_advise_realization_history_def advise_gate_def Let_def mk_advise_result_def
      mk_history_result_def history_result_guards_def evaluate_advise_realization_history_mutation_def
      act_bind_def)

lemma manage_persist_again:
  assumes "manage_gate s ref h" "d_get (rz_manage_histories s) ref = Some h"
  shows "fst (persist_manage_realization_history ref h s) =
    Inr \<lparr>hr_decision = History_Replayed, hr_history = Some h, hr_blocker = None, hr_appended_count = 0\<rparr>"
  using assms
  by (auto simp: persist_manage_realization_history_def manage_gate_def Let_def mk_manage_result_def
      mk_history_result_def history_result_guards_def evaluate_manage_realization_history_mutation_def
      act_bind_def)

section \<open>Runs\<close>

definition valid_advise_history :: "advise_history \<Rightarrow> bool" where
  "valid_advise_history h \<longleftrightarrow> mk_advise_history h = Inr h"

definition valid_manage_history :: "manage_history \<Rightarrow> bool" where
  "valid_manage_history h \<longleftrightarrow> mk_manage_history h = Inr h"

text \<open>A step stores a history that could be constructed, or is a step of the submissions.\<close>

inductive realization_step :: "realization_state \<Rightarrow> realization_state \<Rightarrow> bool" where
  persist_advise: "valid_advise_history h \<Longrightarrow>
    realization_step s (snd (persist_advise_realization_history ref h s))"
| persist_manage: "valid_manage_history g \<Longrightarrow>
    realization_step s (snd (persist_manage_realization_history ref g s))"
| submissions: "submission_step (rz_submissions s) x \<Longrightarrow> realization_step s (s\<lparr>rz_submissions := x\<rparr>)"

definition answer_replayed :: "'h history_result \<Rightarrow> bool" where
  "answer_replayed r \<longleftrightarrow> hr_decision r = History_Replayed \<and> hr_appended_count r = 0"

interpretation advise_store: history_store persist_advise_realization_history
  "\<lambda>s. d_get (rz_advise_histories s)" advise_gate advise_extends valid_advise_history
  answer_replayed realization_step
proof
  show "\<exists>r. fst (persist_advise_realization_history k h s) = Inr r \<and> answer_replayed r"
    if "advise_gate s k h" "d_get (rz_advise_histories s) k = Some h" for s k h
    using advise_persist_again[OF that] by (simp add: answer_replayed_def)
  show "(\<forall>k. d_get (rz_advise_histories t) k = d_get (rz_advise_histories s) k) \<or>
      (\<exists>k h. valid_advise_history h \<and> t = snd (persist_advise_realization_history k h s))"
    if "realization_step s t" for s t
    using that by cases (auto simp: manage_persist_state)
qed (auto simp: advise_persist_state advise_gate_def extends_order split: if_splits
    dest: extends_order(1))

interpretation manage_store: history_store persist_manage_realization_history
  "\<lambda>s. d_get (rz_manage_histories s)" manage_gate manage_extends valid_manage_history
  answer_replayed realization_step
proof
  show "\<exists>r. fst (persist_manage_realization_history k h s) = Inr r \<and> answer_replayed r"
    if "manage_gate s k h" "d_get (rz_manage_histories s) k = Some h" for s k h
    using manage_persist_again[OF that] by (simp add: answer_replayed_def)
  show "(\<forall>k. d_get (rz_manage_histories t) k = d_get (rz_manage_histories s) k) \<or>
      (\<exists>k h. valid_manage_history h \<and> t = snd (persist_manage_realization_history k h s))"
    if "realization_step s t" for s t
    using that by cases (auto simp: advise_persist_state)
qed (auto simp: manage_persist_state manage_gate_def extends_order split: if_splits
    dest: extends_order(3))

section \<open>The shapes of the histories\<close>

lemma valid_adviseD:
  assumes "valid_advise_history h"
  obtains first rest where "ah_outcomes h = first # rest"
    and "ao_status first \<in> {Advise_Accepted_For_Review, Advise_Rejected_Before_Work}"
    and "\<forall>(p, c) \<in> set (zip (first # rest) rest).
      ao_status c \<in> ALLOWED_ADVISE_REALIZATION_TRANSITIONS (ao_status p)"
    and "map ao_source_event_version (first # rest) = map int [1..<length (first # rest) + 1]"
    and "ah_current_source_event_version h = ao_source_event_version (last (first # rest))"
    and "ah_current_status h = ao_status (last (first # rest))"
    and "\<forall>x \<in> set (first # rest). ao_terminal x \<longleftrightarrow> ao_status x \<in> TERMINAL_ADVISE_REALIZATION_STATUSES"
proof -
  have p: "passes (validate_advise_history h)"
    "\<forall>x \<in> set (ah_outcomes h). passes (advise_outcome_guards x)"
    using assms by (simp_all add: valid_advise_history_def mk_advise_history_def advise_history_guards_def
        list_all_iff)
  then obtain first rest where x: "ah_outcomes h = first # rest"
    by (cases "ah_outcomes h") (auto simp: validate_advise_history_def)
  have steps: "\<forall>y \<in> set (zip (first # rest) rest). passes (advise_step_guards y)"
    using p(1) by (simp add: validate_advise_history_def x Let_def list_all_iff del: upt_Suc)
  show thesis
  proof (rule that[OF x])
    show "\<forall>(p, c) \<in> set (zip (first # rest) rest).
        ao_status c \<in> ALLOWED_ADVISE_REALIZATION_TRANSITIONS (ao_status p)"
      using steps by (auto simp: advise_step_guards_def)
    show "\<forall>x \<in> set (first # rest). ao_terminal x \<longleftrightarrow> ao_status x \<in> TERMINAL_ADVISE_REALIZATION_STATUSES"
      using p(2) x by (auto simp: advise_outcome_guards_def)
  qed (use p(1) in \<open>auto simp: validate_advise_history_def x Let_def simp del: upt_Suc\<close>)
qed

definition ADVISORY_ENDS :: "advise_status list" where
  "ADVISORY_ENDS = [Advise_Advisory_Rejected, Advise_Advisory_Cancelled, Advise_Advisory_Expired,
     Advise_Advisory_Completed]"

definition advise_paths :: "advise_status list list" where
  "advise_paths =
     [[Advise_Rejected_Before_Work], [Advise_Accepted_For_Review],
      [Advise_Accepted_For_Review, Advise_Proposal_Linked]] @
     map (\<lambda>e. [Advise_Accepted_For_Review, Advise_Proposal_Linked, e]) ADVISORY_ENDS"

lemma advise_chain_path:
  assumes "s \<in> {Advise_Accepted_For_Review, Advise_Rejected_Before_Work}"
    and "\<forall>(p, c) \<in> set (zip (s # ss) ss). c \<in> ALLOWED_ADVISE_REALIZATION_TRANSITIONS p"
  shows "s # ss \<in> set advise_paths"
proof (cases ss)
  case (Cons a as)
  then have a: "s = Advise_Accepted_For_Review" "a = Advise_Proposal_Linked" using assms by auto
  show ?thesis
  proof (cases as)
    case (Cons b bs)
    then have b: "b \<in> set ADVISORY_ENDS" using assms(2) a \<open>ss = a # as\<close> by (auto simp: ADVISORY_ENDS_def)
    moreover have "bs = []"
      using assms(2) Cons \<open>ss = a # as\<close> b by (cases bs) (auto simp: ADVISORY_ENDS_def)
    ultimately show ?thesis using a Cons \<open>ss = a # as\<close> by (simp add: advise_paths_def)
  qed (use a Cons in \<open>simp add: advise_paths_def\<close>)
qed (use assms(1) in \<open>auto simp: advise_paths_def\<close>)

lemma zip_map_both: "zip (map f xs) (map f ys) = map (map_prod f f) (zip xs ys)"
  by (simp add: zip_map_map map_prod_def case_prod_beta')

lemma valid_advise_path:
  assumes "valid_advise_history h"
  shows "map ao_status (ah_outcomes h) \<in> set advise_paths"
proof -
  obtain first rest where x: "ah_outcomes h = first # rest"
    "ao_status first \<in> {Advise_Accepted_For_Review, Advise_Rejected_Before_Work}"
    "\<forall>(p, c) \<in> set (zip (first # rest) rest).
      ao_status c \<in> ALLOWED_ADVISE_REALIZATION_TRANSITIONS (ao_status p)"
    by (rule valid_adviseD[OF assms])
  have "\<forall>(p, c) \<in> set (zip (ao_status first # map ao_status rest) (map ao_status rest)).
      c \<in> ALLOWED_ADVISE_REALIZATION_TRANSITIONS p"
    using x(3) zip_map_both[of ao_status "first # rest" rest] by auto
  from advise_chain_path[OF x(2) this] show ?thesis by (simp add: x(1))
qed

lemma last_versions: "map v xs = map int [1..<length xs + 1] \<Longrightarrow> xs \<noteq> [] \<Longrightarrow> v (last xs) = int (length xs)"
proof -
  assume a: "map v xs = map int [1..<length xs + 1]" "xs \<noteq> []"
  then have "v (last xs) = last (map int [1..<length xs + 1])" by (metis last_map)
  with a(2) show ?thesis by (cases xs rule: rev_cases) (auto simp: last_map)
qed

lemma valid_advise_length:
  assumes "valid_advise_history h"
  shows "ah_current_source_event_version h = int (length (ah_outcomes h))"
    and "ah_current_status h = last (map ao_status (ah_outcomes h))"
proof -
  obtain first rest where x: "ah_outcomes h = first # rest"
    "map ao_source_event_version (first # rest) = map int [1..<length (first # rest) + 1]"
    "ah_current_source_event_version h = ao_source_event_version (last (first # rest))"
    "ah_current_status h = ao_status (last (first # rest))"
    by (rule valid_adviseD[OF assms])
  show "ah_current_source_event_version h = int (length (ah_outcomes h))"
    using last_versions[OF x(2)] x(1,3) by simp
  show "ah_current_status h = last (map ao_status (ah_outcomes h))" using x(1,4) by (simp add: last_map)
qed

text \<open>Nothing valid extends a history that has reached its end.\<close>

lemma terminal_not_extended:
  assumes "valid_advise_history h" "valid_advise_history h'"
    and "ah_current_status h \<in> TERMINAL_ADVISE_REALIZATION_STATUSES"
  shows "\<not> advise_extends h h'"
proof
  assume "advise_extends h h'"
  then obtain xs where x: "ah_outcomes h' = ah_outcomes h @ xs"
    "ah_current_source_event_version h < ah_current_source_event_version h'"
    by (auto simp: advise_extends_def)
  then have "xs \<noteq> []" using assms(1,2) by (auto simp: valid_advise_length)
  moreover have "map ao_status (ah_outcomes h) @ map ao_status xs \<in> set advise_paths"
    using valid_advise_path[OF assms(2)] x(1) by simp
  moreover have "last (map ao_status (ah_outcomes h)) \<in> TERMINAL_ADVISE_REALIZATION_STATUSES"
    using assms(1,3) by (simp add: valid_advise_length)
  ultimately show False
    using valid_advise_path[OF assms(1)]
    by (auto simp: advise_paths_def ADVISORY_ENDS_def TERMINAL_ADVISE_REALIZATION_STATUSES_def)
qed

text \<open>The review workflow of Manage as a machine that is run on event types.\<close>

fun manage_run :: "manage_status \<Rightarrow> manage_event_type list \<Rightarrow> manage_status option" where
  "manage_run s [] = Some s"
| "manage_run s (t # ts) =
     (case VALID_MANAGE_REVIEW_TRANSITIONS s t of None \<Rightarrow> None | Some u \<Rightarrow> manage_run u ts)"

lemma passes_manage_step:
  "passes (manage_step_guards (p, c)) \<longleftrightarrow>
     me_event_type c \<noteq> Intake_Accepted \<and> me_previous_status c = Some (me_status p) \<and>
     VALID_MANAGE_REVIEW_TRANSITIONS (me_status p) (me_event_type c) = Some (me_status c) \<and>
     dt_le (me_occurred_at_utc p) (me_occurred_at_utc c)"
  by (auto simp: manage_step_guards_def Let_def dt_less_def dt_le_def)

lemma manage_chain_run:
  "\<forall>y \<in> set (zip (x # xs) xs). passes (manage_step_guards y) \<Longrightarrow>
     manage_run (me_status x) (map me_event_type xs) = Some (me_status (last (x # xs))) \<and>
     Intake_Accepted \<notin> set (map me_event_type xs)"
  by (induction xs arbitrary: x) (auto simp: passes_manage_step)

lemma valid_manage_iff:
  "valid_manage_history h \<longleftrightarrow>
     (\<forall>x \<in> set (mh_events h). passes (manage_event_guards x)) \<and> passes (manage_history_guards h)"
  by (simp add: valid_manage_history_def mk_manage_history_def list_all_iff)

lemma passes_manage_history:
  "passes (validate_manage_history h) \<longleftrightarrow>
     (\<exists>first rest. mh_events h = first # rest \<and> distinct (map me_event_id (first # rest)) \<and>
        map me_source_event_version (first # rest) = map int [1..<length (first # rest) + 1] \<and>
        me_event_type first = Intake_Accepted \<and> me_previous_status first = None \<and>
        me_status first = Manage_Pending_Review \<and>
        (\<forall>y \<in> set (zip (first # rest) rest). passes (manage_step_guards y)) \<and>
        (\<forall>x \<in> set (first # rest). me_action_id x = mh_management_action_id h \<and>
           me_causation_id x = mh_conversion_intent_id h) \<and>
        mh_source_event_version h = me_source_event_version (last (first # rest)) \<and>
        mh_status h = me_status (last (first # rest)))"
proof (cases "mh_events h")
  case (Cons first rest)
  then show ?thesis
    by (auto simp: validate_manage_history_def Let_def list_all_iff list_ex_iff simp del: upt_Suc)
qed (simp add: validate_manage_history_def)

section \<open>The next event of a review\<close>

lemma zip_next_snoc:
  "set (zip (x # xs @ [e]) (xs @ [e])) = insert (last (x # xs), e) (set (zip (x # xs) xs))"
  by (induction xs arbitrary: x) auto

lemma fresh_text: "\<exists>i. \<not> blank i \<and> i \<notin> set (ids :: string list)"
proof -
  let ?i = "concat ids @ ''e''"
  have "i \<in> set ids \<Longrightarrow> length i \<le> length (concat ids)" for i
    by (induction ids) auto
  then have "?i \<notin> set ids" by fastforce
  moreover have "\<not> blank ?i" by (simp add: blank_iff py_space_def)
  ultimately show ?thesis by blast
qed

text \<open>Whatever the workflow allows next can be recorded: a valid history has a valid extension
  by one event of that type.\<close>

lemma manage_history_extensible:
  assumes v: "valid_manage_history h" and t: "VALID_MANAGE_REVIEW_TRANSITIONS (mh_status h) ty = Some st"
  shows "\<exists>e. let h' = h\<lparr>mh_status := st, mh_source_event_version := mh_source_event_version h + 1,
      mh_events := mh_events h @ [e]\<rparr> in
    me_event_type e = ty \<and> valid_manage_history h' \<and> manage_extends h h'"
proof -
  have g: "passes (manage_history_guards h)" "\<forall>x \<in> set (mh_events h). passes (manage_event_guards x)"
    using v by (simp_all add: valid_manage_iff)
  then have "passes (validate_manage_history h)" by (simp add: manage_history_guards_def)
  then obtain first rest where x: "mh_events h = first # rest"
    "distinct (map me_event_id (first # rest))"
    "map me_source_event_version (first # rest) = map int [1..<length (first # rest) + 1]"
    "me_event_type first = Intake_Accepted" "me_previous_status first = None"
    "me_status first = Manage_Pending_Review"
    "\<forall>y \<in> set (zip (first # rest) rest). passes (manage_step_guards y)"
    "\<forall>x \<in> set (first # rest). me_action_id x = mh_management_action_id h \<and>
       me_causation_id x = mh_conversion_intent_id h"
    "mh_source_event_version h = me_source_event_version (last (first # rest))"
    "mh_status h = me_status (last (first # rest))"
    unfolding passes_manage_history by (elim exE conjE)
  have n: "mh_source_event_version h = int (length (first # rest))"
    using last_versions[OF x(3)] x(9) by simp
  obtain i where i: "\<not> blank i" "i \<notin> set (map me_event_id (first # rest))" using fresh_text by blast
  define e where "e = \<lparr>me_event_id = i, me_action_id = mh_management_action_id h,
    me_source_event_version = mh_source_event_version h + 1, me_event_type = ty,
    me_previous_status = Some (mh_status h), me_status = st,
    me_occurred_at_utc = me_occurred_at_utc (last (first # rest)), me_actor_id = ''actor'',
    me_actor_role = ''role'', me_reason_code = ''reason'', me_correlation_id = ''correlation'',
    me_causation_id = mh_conversion_intent_id h\<rparr>"
  define h' where "h' = h\<lparr>mh_status := st, mh_source_event_version := mh_source_event_version h + 1,
      mh_events := mh_events h @ [e]\<rparr>"
  have "last (first # rest) \<in> set (mh_events h)" by (simp add: x(1))
  then have "is_utc (me_occurred_at_utc (last (first # rest)))" using g(2) by (auto simp: manage_event_guards_def)
  then have e: "passes (manage_event_guards e)"
    using i(1) g(1) n by (simp add: e_def manage_event_guards_def manage_history_guards_def not_blank_Cons py_space_def)
  have ty: "ty \<noteq> Intake_Accepted" using t by (cases "mh_status h") auto
  have step: "passes (manage_step_guards (last (first # rest), e))"
    using ty t x(10) by (simp add: passes_manage_step e_def dt_le_def)
  have chain: "\<forall>y \<in> set (zip (first # rest @ [e]) (rest @ [e])). passes (manage_step_guards y)"
    unfolding zip_next_snoc using step x(7) by simp
  have "passes (validate_manage_history h')"
    unfolding passes_manage_history
  proof (intro exI[of _ first] exI[of _ "rest @ [e]"] conjI)
    show "map me_source_event_version (first # rest @ [e]) = map int [1..<length (first # rest @ [e]) + 1]"
      using x(3) n by (simp add: e_def del: upt_Suc) (simp add: upt_Suc_append)
    show "distinct (map me_event_id (first # rest @ [e]))" using x(2) i(2) by (auto simp: e_def)
  qed (use x chain in \<open>auto simp: h'_def e_def simp del: upt_Suc\<close>)
  then have "passes (manage_history_guards h')"
    using g(1) n by (simp add: manage_history_guards_def h'_def)
  then have "valid_manage_history h'" using g(2) e by (auto simp: valid_manage_iff h'_def)
  moreover have "manage_extends h h'"
    by (simp add: manage_extends_def h'_def manage_history_identity_def)
  moreover have "me_event_type e = ty" by (simp add: e_def)
  ultimately show ?thesis unfolding h'_def Let_def by blast
qed

section \<open>Stored histories stay with their receipt\<close>

definition settled :: "submission \<Rightarrow> bool" where
  "settled r \<longleftrightarrow>
     sb_status r \<in> {Accepted_By_Downstream, Rejected_By_Downstream} \<and> sb_source_authority r \<noteq> Lotus_Report"

lemma settled_not_finalized:
  "settled r \<Longrightarrow> finalize_downstream_submission r w a p t f o' = Inr m \<Longrightarrow> sm_decision m \<noteq> Mut_Accepted"
  by (auto simp: finalize_downstream_submission_def settled_def bind_res_Inr submission_refused_def
      split: option.splits)

lemma settled_not_reconciled:
  "settled r \<Longrightarrow> reconcile_downstream_submission r q = Inr m \<Longrightarrow> sm_decision m \<noteq> Mut_Accepted"
  by (auto simp: reconcile_downstream_submission_def settled_def res_simps report_progress_def
      submission_refused_def submission_replayed_def reconcilable_def Let_def split: option.splits if_splits)

lemma store_result_refused:
  "(\<And>m. x = Inr m \<Longrightarrow> sm_decision m \<noteq> Mut_Accepted) \<Longrightarrow> snd (store_submission_result k x s) = s"
  by (cases x) (auto simp: store_submission_result_def)

lemma store_result_frame: "j \<noteq> k \<Longrightarrow> d_get (snd (store_submission_result k x s)) j = d_get s j"
  by (cases x) (auto simp: store_submission_result_def split: option.splits)

lemma finalized_settled:
  "d_get s j = Some r \<Longrightarrow> settled r \<Longrightarrow> d_get (snd (finalize_submission_in_store t i wa c s)) j = Some r"
proof (cases "downstream_submission_identity t i")
  case (Inr k)
  assume r: "d_get s j = Some r" "settled r"
  show ?thesis
  proof (cases "d_get s k")
    case (Some e)
    show ?thesis
    proof (cases "j = k")
      case True
      then have "snd (finalize_submission_in_store t i wa c s) = s"
        using r Some store_result_refused settled_not_finalized
        by (simp add: finalize_submission_in_store_def Inr finalize_stored_submission_def)
      then show ?thesis using r(1) by simp
    qed (use r in \<open>simp add: finalize_submission_in_store_def Inr finalize_stored_submission_def
        Some store_result_frame\<close>)
  qed (use r in \<open>simp add: finalize_submission_in_store_def Inr finalize_stored_submission_def\<close>)
qed (simp add: finalize_submission_in_store_def)

lemma reconciled_settled:
  assumes ok: "submission_store_ok s" and r: "d_get s j = Some r" "settled r"
  shows "d_get (snd (reconcile_submission_in_store ref q s)) j = Some r"
proof (cases "downstream_submission_by_support_reference ref s")
  case (Inr x)
  show ?thesis
  proof (cases x)
    case (Some e)
    then have "e \<in> set (d_values s)"
      using Inr by (auto simp: downstream_submission_by_support_reference_def simp del: set_map
          dest: find_Some_iff' dest!: sym[of "Some e"])
    then obtain k where k: "d_get s k = Some e"
      using ok by (auto simp: submission_store_ok_def intro: map_of_is_SomeI)
    have i: "downstream_submission_identity (sb_tenant_id e) (sb_idempotency_key e) = Inr k"
      using ok k by (simp add: submission_store_ok_def)
    show ?thesis
    proof (cases "reconcile_downstream_submission e q")
      case (Inr m)
      show ?thesis
      proof (cases "sm_decision m = Mut_Accepted")
        case True
        then have "j \<noteq> k" using settled_not_reconciled[OF _ Inr] r k by auto
        then show ?thesis
          using True Inr i r(1) store_result_frame[of j k "Inr m" s]
          by (simp add: reconcile_submission_in_store_def Some
              \<open>downstream_submission_by_support_reference ref s = Inr x\<close>)
      qed (use Inr r(1) \<open>downstream_submission_by_support_reference ref s = Inr x\<close> in
          \<open>simp add: reconcile_submission_in_store_def Some\<close>)
    qed (use r(1) Inr in \<open>simp add: reconcile_submission_in_store_def Some\<close>)
  qed (use r(1) Inr in \<open>simp add: reconcile_submission_in_store_def\<close>)
qed (use r(1) in \<open>simp add: reconcile_submission_in_store_def\<close>)

lemma claimed_settled:
  "d_get s j = Some r \<Longrightarrow> d_get (snd (claim_downstream_submission q s)) j = Some r"
  by (cases "downstream_submission_identity (sb_tenant_id q) (sb_idempotency_key q)")
    (auto simp: claim_downstream_submission_def Let_def split: option.splits)

lemma settled_stays:
  "submission_step s s' \<Longrightarrow> submission_store_ok s \<Longrightarrow> d_get s j = Some r \<Longrightarrow> settled r \<Longrightarrow> d_get s' j = Some r"
  by (induction rule: submission_step.induct)
    (simp_all add: claimed_settled finalized_settled reconciled_settled)

lemma find_d_put:
  "List.find P (d_values s) = Some x \<Longrightarrow>
     (\<And>r. d_get s k = Some r \<Longrightarrow> P u = P r \<and> (r = x \<longrightarrow> u = x)) \<Longrightarrow>
     List.find P (d_values (d_put k u s)) = Some x"
  by (induction s) (auto split: if_splits)

lemma settled_found_again:
  assumes st: "submission_step s s'" and ok: "submission_store_ok s" and r: "settled r"
    and f: "downstream_submission_by_support_reference ref s = Inr (Some r)"
  shows "downstream_submission_by_support_reference ref s' = Inr (Some r)"
proof -
  let ?P = "\<lambda>r. sb_support_reference r = ref"
  have p: "\<not> blank ref" "List.find ?P (d_values s) = Some r"
    using f by (auto simp: downstream_submission_by_support_reference_def)
  have u: "submission_updated s s'" using step_updates[OF st ok] .
  have "List.find ?P (d_values s') = Some r"
    using u unfolding submission_updated_def
  proof (elim disjE exE conjE)
    fix k q assume "d_get s k = None" "s' = d_put k q s"
    then show ?thesis using find_d_put[OF p(2), of k q] by simp
  next
    fix k q v assume q: "d_get s k = Some q" "submission_advances q v" "s' = d_put k v s"
    have "q = r \<longrightarrow> v = r" using settled_stays[OF st ok q(1)] r q(3) by auto
    moreover have "sb_support_reference v = sb_support_reference q"
      using q(2) by (simp add: submission_advances_def same_submission_def)
    ultimately show ?thesis using find_d_put[OF p(2), of k v] q(1,3) by simp
  qed (use p(2) in simp)
  then show ?thesis using p(1) by (simp add: downstream_submission_by_support_reference_def checks_passes)
qed

lemma blocker_settled:
  "advise_realization_submission_blocker r h = None \<Longrightarrow> settled r"
  "manage_realization_submission_blocker r g = None \<Longrightarrow> settled r"
  by (auto simp: advise_realization_submission_blocker_def manage_realization_submission_blocker_def
      settled_def split: if_splits)

definition histories_backed :: "realization_state \<Rightarrow> bool" where
  "histories_backed s \<longleftrightarrow>
     submission_store_ok (rz_submissions s) \<and>
     (\<forall>ref h. d_get (rz_advise_histories s) ref = Some h \<longrightarrow> valid_advise_history h \<and> advise_gate s ref h) \<and>
     (\<forall>ref h. d_get (rz_manage_histories s) ref = Some h \<longrightarrow> valid_manage_history h \<and> manage_gate s ref h)"

lemma realization_step_backed:
  assumes "realization_step s t" "histories_backed s"
  shows "histories_backed t"
  using assms(1)
proof cases
  case (persist_advise h ref)
  then show ?thesis
    using assms(2) by (auto simp: histories_backed_def advise_persist_state advise_gate_def manage_gate_def)
next
  case (persist_manage h ref)
  then show ?thesis
    using assms(2) by (auto simp: histories_backed_def manage_persist_state advise_gate_def manage_gate_def)
next
  case (submissions x)
  have ok: "submission_store_ok (rz_submissions s)" using assms(2) by (simp add: histories_backed_def)
  have "submission_store_ok x" using updated_store_ok[OF step_updates[OF submissions(2) ok] ok] .
  moreover have "advise_gate s ref h \<Longrightarrow> advise_gate t ref h" for ref h
    using settled_found_again[OF submissions(2) ok] blocker_settled(1) submissions(1)
    by (fastforce simp: advise_gate_def)
  moreover have "manage_gate s ref h \<Longrightarrow> manage_gate t ref h" for ref h
    using settled_found_again[OF submissions(2) ok] blocker_settled(2) submissions(1)
    by (fastforce simp: manage_gate_def)
  ultimately show ?thesis using assms(2) submissions(1) by (simp add: histories_backed_def)
qed

lemma realization_run_backed: "realization_step\<^sup>*\<^sup>* s t \<Longrightarrow> histories_backed s \<Longrightarrow> histories_backed t"
  by (induction rule: rtranclp_induct) (auto intro: realization_step_backed)

end
