(* ===== verification/Realization_Properties.thy ===== *)
theory Realization_Properties
imports Realization_Laws Conversion_Properties
begin

text \<open>
  The properties of the owners' realisation histories: which histories exist, that stored ones
  only grow, end where the owner's machine ends, and always belong to the receipt of the
  submission they are filed under.
\<close>

section \<open>Concrete histories\<close>

definition sample_advise_outcome :: "advise_status \<Rightarrow> int \<Rightarrow> advise_outcome" where
  "sample_advise_outcome st v =
     \<lparr>ao_outcome_id = ''outcome-'' @ int_str v, ao_source_event_version = v, ao_status = st,
      ao_reason_code = ''reason'', ao_occurred_at_utc = utc v,
      ao_review_work_id = (if st = Advise_Rejected_Before_Work then None else Some ''work-1''),
      ao_proposal_id = None, ao_terminal = st \<in> TERMINAL_ADVISE_REALIZATION_STATUSES\<rparr>"

definition sample_outcomes :: "advise_status list \<Rightarrow> advise_outcome list" where
  "sample_outcomes p = map (\<lambda>(i, st). sample_advise_outcome st (int i + 1)) (enumerate 0 p)"

definition sample_advise_history :: "advise_status list \<Rightarrow> advise_history" where
  "sample_advise_history p =
    (let refused = p = [Advise_Rejected_Before_Work]; n = int (length p) in
     \<lparr>ah_realization_id = ''realization-1'', ah_intake_id = ''intake-1'',
      ah_review_work_id = (if refused then None else Some ''work-1''),
      ah_review_work_status = (if refused then None else Some Pending_Adviser_Review),
      ah_source_authority = ''lotus-idea'', ah_realization_authority = ''lotus-advise'',
      ah_tenant_id = ''tenant-1'', ah_legal_entity_code = ''SG'', ah_portfolio_id = ''portfolio-1'',
      ah_idea_candidate_id = ''candidate-1'', ah_conversion_intent_id = ''intent-1'',
      ah_source_evidence_fingerprint = ''sha256:evidence'',
      ah_current_status = last p, ah_current_source_event_version = n, ah_proposal_id = None,
      ah_proposal_record_created = False, ah_suitability_authority_granted = False,
      ah_order_created = False, ah_client_publication_authorized = False,
      ah_created_at_utc = utc 1, ah_updated_at_utc = utc n, ah_outcomes = sample_outcomes p\<rparr>)"

lemma sample_advise_history_checked:
  "list_all (\<lambda>p. passes (concat (map advise_outcome_guards (ah_outcomes (sample_advise_history p))) @
     advise_history_guards (sample_advise_history p)) \<and>
     map ao_status (ah_outcomes (sample_advise_history p)) = p) advise_paths"
  by code_simp

lemma sample_advise_history_valid:
  "p \<in> set advise_paths \<Longrightarrow> valid_advise_history (sample_advise_history p)"
  "p \<in> set advise_paths \<Longrightarrow> map ao_status (ah_outcomes (sample_advise_history p)) = p"
  using sample_advise_history_checked
  by (auto simp: list_all_iff valid_advise_history_def mk_advise_history_def simp del: passes_append)

lemma sample_advise_history_ends:
  "ah_current_source_event_version (sample_advise_history p) = int (length p)"
  "ah_current_status (sample_advise_history p) = last p"
  by (simp_all add: sample_advise_history_def Let_def)

definition sample_intake_event :: manage_event where
  "sample_intake_event =
     \<lparr>me_event_id = ''event-1'', me_action_id = ''action-1'', me_source_event_version = 1,
      me_event_type = Intake_Accepted, me_previous_status = None, me_status = Manage_Pending_Review,
      me_occurred_at_utc = utc 1, me_actor_id = ''lotus-idea'', me_actor_role = ''service'',
      me_reason_code = ''intake'', me_correlation_id = ''correlation-1'',
      me_causation_id = ''intent-1''\<rparr>"

definition sample_manage_history :: manage_history where
  "sample_manage_history =
     \<lparr>mh_contract_version = MANAGE_ACTION_OUTCOME_HISTORY_CONTRACT_VERSION,
      mh_intake_id = ''intake-1'', mh_management_action_id = ''action-1'',
      mh_source_authority = ''lotus-manage'', mh_portfolio_id = ''portfolio-1'',
      mh_idea_candidate_id = ''candidate-1'', mh_conversion_intent_id = ''intent-1'',
      mh_request_fingerprint = ''sha256:0123456789ab'', mh_status = Manage_Pending_Review,
      mh_source_event_version = 1, mh_rebalance_execution_proven = False,
      mh_order_execution_proven = False, mh_client_publication_proven = False,
      mh_events = [sample_intake_event]\<rparr>"

lemma sample_manage_history_valid: "valid_manage_history sample_manage_history"
  by (simp add: valid_manage_iff manage_event_guards_def manage_history_guards_def passes_manage_history
      sample_manage_history_def sample_intake_event_def not_blank_Cons py_space_def utc_def is_utc_def
      removeprefix_def MANAGE_ACTION_OUTCOME_HISTORY_CONTRACT_VERSION_def)

text \<open>A store with one submission that each owner has accepted.\<close>

definition sample_receipt_of :: "source_system \<Rightarrow> string \<Rightarrow> string \<Rightarrow> string \<Rightarrow> owner_receipt" where
  "sample_receipt_of owner realization work fingerprint =
     \<lparr>wn_owner_authority = owner, wn_owner_request_id = ''intake-1'',
      wn_owner_realization_id = realization, wn_owner_work_id = Some work,
      wn_source_event_version = Some 1, wn_source_evidence_fingerprint = fingerprint,
      wn_report_materialization = None\<rparr>"

definition sample_settled ::
    "string \<Rightarrow> conversion_target \<Rightarrow> source_system \<Rightarrow> owner_receipt \<Rightarrow> submission" where
  "sample_settled ref target owner receipt =
     \<lparr>sb_tenant_id = ''tenant-1'', sb_identity_version = Tenant_Scoped_V2, sb_idempotency_key = ref,
      sb_request_fingerprint = ''fingerprint'', sb_resource_type = Conversion_Intent_Resource,
      sb_resource_id = ''intent-1'', sb_target = target, sb_source_authority = owner,
      sb_status = Accepted_By_Downstream, sb_submitted_at_utc = utc 0, sb_support_reference = ref,
      sb_attempt_count = 1, sb_updated_at_utc = utc 1, sb_audit_history = [],
      sb_downstream_failure_reason = None, sb_correlation_id = None, sb_trace_id = None,
      sb_lease_owner = Some ''worker'', sb_lease_attempt_id = Some ''attempt'',
      sb_lease_expires_at_utc = None, sb_owner_receipt = Some receipt\<rparr>"

definition sample_realization_state :: "(string, advise_history) dict \<Rightarrow> realization_state" where
  "sample_realization_state d =
     \<lparr>rz_submissions =
        [(''key-1'', sample_settled ''advise-1'' Advise_Proposal Lotus_Advise
           (sample_receipt_of Lotus_Advise ''realization-1'' ''work-1'' ''sha256:evidence'')),
         (''key-2'', sample_settled ''manage-1'' Manage_Review Lotus_Manage
           (sample_receipt_of Lotus_Manage ''action-1'' ''action-1'' ''sha256:0123456789ab''))],
      rz_advise_histories = d, rz_manage_histories = [(''manage-1'', sample_manage_history)]\<rparr>"

lemma sample_gates:
  "p \<in> set advise_paths \<Longrightarrow> hd p = Advise_Accepted_For_Review \<Longrightarrow>
     advise_gate (sample_realization_state d) ''advise-1'' (sample_advise_history p)"
  "manage_gate (sample_realization_state d) ''manage-1'' sample_manage_history"
  by (auto simp: advise_gate_def manage_gate_def downstream_submission_by_support_reference_def
      sample_realization_state_def sample_settled_def sample_receipt_of_def
      advise_realization_submission_blocker_def manage_realization_submission_blocker_def
      sample_manage_history_def sample_advise_history_def advise_paths_def ADVISORY_ENDS_def
      not_blank_Cons py_space_def checks_passes)

section \<open>Which histories exist\<close>

text \<open>C25: the histories of Advise that can be constructed run through exactly seven status
  sequences: refused before any work, or accepted, linked to a proposal and then ended in one
  of four ways; so at most three outcomes are ever recorded.\<close>

theorem advise_histories_are_paths:
  "p \<in> set advise_paths \<longleftrightarrow>
     (\<exists>h. mk_advise_history h = Inr h \<and> map ao_status (ah_outcomes h) = p \<and>
        ah_current_source_event_version h = int (length p) \<and> ah_current_status h = last p)"
proof
  assume p: "p \<in> set advise_paths"
  show "\<exists>h. mk_advise_history h = Inr h \<and> map ao_status (ah_outcomes h) = p \<and>
      ah_current_source_event_version h = int (length p) \<and> ah_current_status h = last p"
    using sample_advise_history_valid(1)[OF p, unfolded valid_advise_history_def]
      sample_advise_history_valid(2)[OF p]
    by (intro exI[of _ "sample_advise_history p"] conjI sample_advise_history_ends)
next
  assume "\<exists>h. mk_advise_history h = Inr h \<and> map ao_status (ah_outcomes h) = p \<and>
    ah_current_source_event_version h = int (length p) \<and> ah_current_status h = last p"
  then show "p \<in> set advise_paths" using valid_advise_path by (auto simp: valid_advise_history_def)
qed

lemma manage_run_snoc:
  "manage_run s (ts @ [t]) = Some u \<longleftrightarrow>
     (\<exists>m. manage_run s ts = Some m \<and> VALID_MANAGE_REVIEW_TRANSITIONS m t = Some u)"
  by (induction s ts rule: manage_run.induct) (auto split: option.splits)

lemma manage_runs_exist:
  "manage_run Manage_Pending_Review ts = Some st \<Longrightarrow>
     \<exists>h. valid_manage_history h \<and> map me_event_type (mh_events h) = Intake_Accepted # ts \<and> mh_status h = st"
proof (induction ts arbitrary: st rule: rev_induct)
  case Nil
  then show ?case
    by (intro exI[of _ sample_manage_history])
      (simp add: sample_manage_history_valid, simp add: sample_manage_history_def sample_intake_event_def)
next
  case (snoc t ts)
  then obtain m where m: "manage_run Manage_Pending_Review ts = Some m"
    "VALID_MANAGE_REVIEW_TRANSITIONS m t = Some st" by (auto simp: manage_run_snoc)
  obtain h where h: "valid_manage_history h" "map me_event_type (mh_events h) = Intake_Accepted # ts"
    "mh_status h = m" using snoc.IH[OF m(1)] by (elim exE conjE)
  with manage_history_extensible[OF h(1), of t st] m(2) obtain e where
    "me_event_type e = t"
    "valid_manage_history (h\<lparr>mh_status := st, mh_source_event_version := mh_source_event_version h + 1,
      mh_events := mh_events h @ [e]\<rparr>)" by (auto simp: Let_def)
  with h(2) show ?case by (intro exI conjI) (assumption, simp_all)
qed

text \<open>C26: the histories of Manage are exactly the runs of its review workflow from the intake: a
  history carries the events of a run and the status in which the run ends.\<close>

theorem manage_histories_are_runs:
  "(\<exists>h. mk_manage_history h = Inr h \<and> map me_event_type (mh_events h) = tys \<and> mh_status h = st) \<longleftrightarrow>
   (\<exists>ts. tys = Intake_Accepted # ts \<and> manage_run Manage_Pending_Review ts = Some st)"
proof
  assume "\<exists>h. mk_manage_history h = Inr h \<and> map me_event_type (mh_events h) = tys \<and> mh_status h = st"
  then obtain h where h: "valid_manage_history h" "map me_event_type (mh_events h) = tys" "mh_status h = st"
    by (auto simp: valid_manage_history_def)
  then have "passes (validate_manage_history h)" by (simp add: valid_manage_iff manage_history_guards_def)
  then obtain first rest where x: "mh_events h = first # rest" "me_event_type first = Intake_Accepted"
    "me_status first = Manage_Pending_Review"
    "\<forall>y \<in> set (zip (first # rest) rest). passes (manage_step_guards y)"
    "mh_status h = me_status (last (first # rest))"
    unfolding passes_manage_history by (elim exE conjE)
  with manage_chain_run[OF x(4)] h(2,3)
  show "\<exists>ts. tys = Intake_Accepted # ts \<and> manage_run Manage_Pending_Review ts = Some st" by auto
next
  assume "\<exists>ts. tys = Intake_Accepted # ts \<and> manage_run Manage_Pending_Review ts = Some st"
  then show "\<exists>h. mk_manage_history h = Inr h \<and> map me_event_type (mh_events h) = tys \<and> mh_status h = st"
    using manage_runs_exist by (auto simp: valid_manage_history_def)
qed

section \<open>Stored histories\<close>

definition sample_linked :: advise_history where
  "sample_linked = sample_advise_history [Advise_Accepted_For_Review, Advise_Proposal_Linked]"

definition sample_accepted :: advise_history where
  "sample_accepted = sample_advise_history [Advise_Accepted_For_Review]"

definition sample_rejected :: advise_history where
  "sample_rejected =
     sample_advise_history [Advise_Accepted_For_Review, Advise_Proposal_Linked, Advise_Advisory_Rejected]"

lemma sample_extended:
  "ah_outcomes sample_linked = ah_outcomes sample_accepted @ drop 1 (ah_outcomes sample_linked)"
  "ah_outcomes sample_rejected = ah_outcomes sample_linked @ drop 2 (ah_outcomes sample_rejected)"
  by code_simp+

lemma sample_extensions:
  "advise_extends sample_accepted sample_linked" "advise_extends sample_linked sample_rejected"
  "valid_advise_history sample_linked" "valid_advise_history sample_rejected"
  "valid_advise_history sample_accepted"
  "advise_gate (sample_realization_state d) ''advise-1'' sample_linked"
proof -
  show "advise_extends sample_accepted sample_linked" "advise_extends sample_linked sample_rejected"
    unfolding advise_extends_def using sample_extended
    by (auto simp: sample_linked_def sample_accepted_def sample_rejected_def sample_advise_history_def
        Let_def advise_history_identity_def)
qed (auto simp: sample_linked_def sample_accepted_def sample_rejected_def advise_paths_def ADVISORY_ENDS_def
    intro!: sample_advise_history_valid sample_gates(1))

lemma sample_linked_stored:
  "snd (persist_advise_realization_history ''advise-1'' sample_linked
      (sample_realization_state [(''advise-1'', sample_accepted)])) =
     sample_realization_state [(''advise-1'', sample_linked)]"
  using sample_extensions(1,6) by (simp add: advise_persist_state sample_realization_state_def)

text \<open>C28: whatever histories are sent and whatever happens to the submissions: a stored history is
  never lost or rewritten; it keeps the identity of its realisation and its outcomes or events,
  and only gains later ones.\<close>

theorem realization_histories_only_grow:
  assumes "realization_step\<^sup>*\<^sup>* s t"
  shows "\<forall>ref. (\<forall>h. d_get (rz_advise_histories s) ref = Some h \<longrightarrow>
      (\<exists>h' xs. d_get (rz_advise_histories t) ref = Some h' \<and> ah_outcomes h' = ah_outcomes h @ xs \<and>
         advise_history_identity h' = advise_history_identity h)) \<and>
    (\<forall>g. d_get (rz_manage_histories s) ref = Some g \<longrightarrow>
      (\<exists>g' xs. d_get (rz_manage_histories t) ref = Some g' \<and> mh_events g' = mh_events g @ xs \<and>
         manage_history_identity g' = manage_history_identity g))"
proof (intro allI conjI impI)
  fix ref h assume "d_get (rz_advise_histories s) ref = Some h"
  from advise_store.run_extends[OF assms this]
  show "\<exists>h' xs. d_get (rz_advise_histories t) ref = Some h' \<and> ah_outcomes h' = ah_outcomes h @ xs \<and>
      advise_history_identity h' = advise_history_identity h"
    by (auto simp: advise_extends_def)
next
  fix ref g assume "d_get (rz_manage_histories s) ref = Some g"
  from manage_store.run_extends[OF assms this]
  show "\<exists>g' xs. d_get (rz_manage_histories t) ref = Some g' \<and> mh_events g' = mh_events g @ xs \<and>
      manage_history_identity g' = manage_history_identity g"
    by (auto simp: manage_extends_def)
qed

theorem realization_histories_only_grow_witness:
  "\<exists>h' xs. d_get (rz_advise_histories (sample_realization_state [(''advise-1'', sample_linked)])) ''advise-1'' =
       Some h' \<and> ah_outcomes h' = ah_outcomes sample_accepted @ xs"
proof -
  have "realization_step (sample_realization_state [(''advise-1'', sample_accepted)])
      (sample_realization_state [(''advise-1'', sample_linked)])"
    using realization_step.persist_advise[OF sample_extensions(3)] sample_linked_stored by metis
  from realization_histories_only_grow[OF r_into_rtranclp[where r = realization_step, OF this],
      THEN spec[of _ "''advise-1''"], THEN conjunct1, THEN spec[of _ sample_accepted]]
  have "d_get (rz_advise_histories (sample_realization_state [(''advise-1'', sample_accepted)])) ''advise-1'' =
      Some sample_accepted \<Longrightarrow> ?thesis" by blast
  then show ?thesis by (simp add: sample_realization_state_def)
qed

text \<open>A history of Advise that has reached its end stays as it is for ever, whatever is sent
  afterwards.\<close>

theorem terminal_advise_history_is_final:
  assumes "realization_step\<^sup>*\<^sup>* s t" "\<forall>k g. d_get (rz_advise_histories s) k = Some g \<longrightarrow> mk_advise_history g = Inr g"
    and "d_get (rz_advise_histories s) ref = Some h"
    and "ah_current_status h \<in> TERMINAL_ADVISE_REALIZATION_STATUSES"
  shows "d_get (rz_advise_histories t) ref = Some h"
  using advise_store.run_keeps_final[OF assms(1,3)] terminal_not_extended assms(2-4)
  unfolding valid_advise_history_def by blast

theorem terminal_advise_history_is_final_witness:
  "d_get (rz_advise_histories (snd (persist_advise_realization_history ''advise-1'' sample_linked
      (sample_realization_state [(''advise-1'', sample_rejected)])))) ''advise-1'' = Some sample_rejected"
proof (rule terminal_advise_history_is_final)
  show "realization_step\<^sup>*\<^sup>* (sample_realization_state [(''advise-1'', sample_rejected)])
      (snd (persist_advise_realization_history ''advise-1'' sample_linked
        (sample_realization_state [(''advise-1'', sample_rejected)])))"
    using realization_step.persist_advise[OF sample_extensions(3)] by blast
  show "\<forall>k g. d_get (rz_advise_histories (sample_realization_state [(''advise-1'', sample_rejected)])) k = Some g \<longrightarrow>
      mk_advise_history g = Inr g"
    using sample_extensions(4) by (simp add: sample_realization_state_def valid_advise_history_def)
qed (simp_all add: sample_realization_state_def sample_rejected_def sample_advise_history_def Let_def
    TERMINAL_ADVISE_REALIZATION_STATUSES_def)

text \<open>A review of Manage can always go on: whatever its workflow allows in the status of the
  stored history is accepted as the next event; from every status but the unused NOT_REQUIRED
  there is one.\<close>

theorem manage_review_goes_on:
  assumes "mk_manage_history h = Inr h" "d_get (rz_manage_histories s) ref = Some h"
    and "downstream_submission_by_support_reference ref (rz_submissions s) = Inr (Some r)"
    and "manage_realization_submission_blocker r h = None"
    and "VALID_MANAGE_REVIEW_TRANSITIONS (mh_status h) ty = Some st"
  shows "\<exists>g. mk_manage_history g = Inr g \<and> mh_status g = st \<and>
    map me_event_type (mh_events g) = map me_event_type (mh_events h) @ [ty] \<and>
    persist_manage_realization_history ref g s =
      (Inr \<lparr>hr_decision = History_Accepted, hr_history = Some g, hr_blocker = None, hr_appended_count = 1\<rparr>,
       s\<lparr>rz_manage_histories := d_put ref g (rz_manage_histories s)\<rparr>)"
proof -
  obtain e g where e: "me_event_type e = ty"
    and def_g: "g = h\<lparr>mh_status := st, mh_source_event_version := mh_source_event_version h + 1,
      mh_events := mh_events h @ [e]\<rparr>"
    and g: "valid_manage_history g" and x: "manage_extends h g"
    using manage_history_extensible[of h ty st] assms(1,5) by (auto simp: valid_manage_history_def Let_def)
  have b: "manage_realization_submission_blocker r g = None"
    using assms(4) by (auto simp: def_g manage_realization_submission_blocker_def split: if_splits option.splits)
  have d: "evaluate_manage_realization_history_mutation (Some h) g = History_Accepted"
    using x by (simp add: manage_accepted_iff)
  have "persist_manage_realization_history ref g s =
      (Inr \<lparr>hr_decision = History_Accepted, hr_history = Some g, hr_blocker = None, hr_appended_count = 1\<rparr>,
       s\<lparr>rz_manage_histories := d_put ref g (rz_manage_histories s)\<rparr>)"
    using assms(2,3) b d
    by (simp add: persist_manage_realization_history_def mk_manage_result_def mk_history_result_def
        history_result_guards_def checks_passes def_g)
  then show ?thesis
    using g e by (intro exI[of _ g] conjI) (simp_all add: def_g valid_manage_history_def)
qed

theorem manage_review_goes_on_witness:
  "\<exists>g :: manage_history. mh_status g = Manage_Approved \<and> snd (persist_manage_realization_history ''manage-1'' g
      (sample_realization_state [])) \<noteq> sample_realization_state []"
proof -
  obtain r where r: "downstream_submission_by_support_reference ''manage-1''
      (rz_submissions (sample_realization_state [])) = Inr (Some r)"
    "manage_realization_submission_blocker r sample_manage_history = None"
    using sample_gates(2) unfolding manage_gate_def by blast
  have v: "mk_manage_history sample_manage_history = Inr sample_manage_history"
    using sample_manage_history_valid by (simp add: valid_manage_history_def)
  have s: "d_get (rz_manage_histories (sample_realization_state [])) ''manage-1'' = Some sample_manage_history"
    "VALID_MANAGE_REVIEW_TRANSITIONS (mh_status sample_manage_history) Manage_Approve = Some Manage_Approved"
    by (simp_all add: sample_realization_state_def sample_manage_history_def)
  obtain g where g: "mh_status g = Manage_Approved"
    "persist_manage_realization_history ''manage-1'' g (sample_realization_state []) =
      (Inr \<lparr>hr_decision = History_Accepted, hr_history = Some g, hr_blocker = None, hr_appended_count = 1\<rparr>,
       (sample_realization_state [])\<lparr>rz_manage_histories := d_put ''manage-1'' g
          (rz_manage_histories (sample_realization_state []))\<rparr>)"
    using manage_review_goes_on[OF v s(1) r s(2)] by blast
  moreover from g(1) have "g \<noteq> sample_manage_history" by (auto simp: sample_manage_history_def)
  ultimately show ?thesis
    by (intro exI[of _ g]) (simp add: sample_realization_state_def)
qed

text \<open>C27: every stored history belongs to a submission its owner has answered: in a repository that
  started without histories, a history is filed under the reference of an accepted or rejected
  submission of a conversion intent to that owner, is the realisation its receipt names, of the
  evidence the receipt names, and is not behind the receipt.\<close>

theorem stored_histories_match_receipts:
  assumes "realization_step\<^sup>*\<^sup>* s t" "submission_store_ok (rz_submissions s)"
    and "rz_advise_histories s = []" "rz_manage_histories s = []"
    and "d_get (rz_advise_histories t) ref = Some h"
  shows "\<exists>r w v. downstream_submission_by_support_reference ref (rz_submissions t) = Inr (Some r) \<and>
    sb_target r = Advise_Proposal \<and> sb_status r \<in> {Accepted_By_Downstream, Rejected_By_Downstream} \<and>
    sb_resource_id r = ah_conversion_intent_id h \<and> sb_owner_receipt r = Some w \<and>
    wn_owner_realization_id w = ah_realization_id h \<and> wn_owner_work_id w = ah_review_work_id h \<and>
    wn_source_evidence_fingerprint w = ah_source_evidence_fingerprint h \<and>
    wn_source_event_version w = Some v \<and> v \<le> ah_current_source_event_version h"
proof -
  have "histories_backed s" using assms(2-4) by (simp add: histories_backed_def)
  then have "advise_gate t ref h"
    using realization_run_backed[OF assms(1)] assms(5) by (simp add: histories_backed_def)
  then obtain r where r: "downstream_submission_by_support_reference ref (rz_submissions t) = Inr (Some r)"
    "advise_realization_submission_blocker r h = None" by (auto simp: advise_gate_def)
  from r(2) obtain w v where "sb_owner_receipt r = Some w" "wn_source_event_version w = Some v"
    by (auto simp: advise_realization_submission_blocker_def split: if_splits option.splits)
  with r show ?thesis
    by (auto simp: advise_realization_submission_blocker_def split: if_splits)
qed

text \<open>A submission to Advise as the store holds it after the owner has accepted.\<close>

definition sample_settlement :: submission_audit where
  "sample_settlement =
     \<lparr>sa_audit_id = ''audit-2'', sa_action = Act_Finalized, sa_actor_subject = ''worker'',
      sa_current_posture = Accepted_By_Downstream, sa_occurred_at_utc = utc 20,
      sa_previous_posture = Some In_Flight, sa_reason = None, sa_change_reference = None\<rparr>"

definition sample_advise_submission :: submission where
  "sample_advise_submission = sample_submission\<lparr>sb_target := Advise_Proposal,
     sb_source_authority := Lotus_Advise, sb_status := Accepted_By_Downstream,
     sb_audit_history := sb_audit_history sample_submission @ [sample_settlement],
     sb_owner_receipt := Some (sample_receipt_of Lotus_Advise ''realization-1'' ''work-1'' ''sha256:evidence'')\<rparr>"

lemma created_submission_resource:
  "create_downstream_submission_claim q = Inr r \<Longrightarrow>
     sb_resource_type r = sq_resource_type q \<and> sb_resource_id r = sq_resource_id q \<and>
     \<not> blank (sb_support_reference r)"
  by (auto simp: create_downstream_submission_claim_def bind_res_Inr mk_submission_def
      submission_audit_entry_def Let_def)

lemma sample_advise_submission_ok: "submission_ok sample_advise_submission"
proof -
  have v: "mk_submission sample_advise_submission = Inr sample_advise_submission"
    using sample_submission_ok(1,2)
    by (auto simp: submission_ok_def valid_submission_def mk_submission_def bind_res_Inr
        sample_advise_submission_def expected_support_reference_def validate_submission_lease_def
        validate_submission_posture_def posture_requires_failure_def sample_receipt_of_def)
  from sample_submission_ok(1,2) obtain b bs where "sb_audit_history sample_submission = b # bs"
    "sa_action b = Act_Claimed" "sa_previous_posture b = None" "sa_current_posture b = In_Flight"
    "audit_chain In_Flight bs In_Flight"
    by (auto simp: submission_ok_def audited_def)
  then have "audited sample_advise_submission"
    by (auto simp: audited_def sample_advise_submission_def audit_chain_append sample_settlement_def)
  with v show ?thesis by (simp add: submission_ok_def valid_submission_def)
qed

definition sample_start :: realization_state where
  "sample_start = \<lparr>rz_submissions = [(''tenant-1'' @ [char_of (0 :: nat)] @ ''key-1'', sample_advise_submission)],
     rz_advise_histories = [], rz_manage_histories = []\<rparr>"

lemma sample_start_found:
  "downstream_submission_by_support_reference (sb_support_reference sample_advise_submission)
     (rz_submissions sample_start) = Inr (Some sample_advise_submission)"
  using created_submission_resource[OF sample_submission_created]
  by (simp add: downstream_submission_by_support_reference_def sample_start_def checks_passes
      sample_advise_submission_def)

theorem stored_histories_match_receipts_witness:
  "\<exists>(t :: realization_state) r. d_get (rz_advise_histories t) (sb_support_reference sample_advise_submission) = Some sample_accepted \<and>
     downstream_submission_by_support_reference (sb_support_reference sample_advise_submission) (rz_submissions t) =
       Inr (Some r) \<and> sb_target r = Advise_Proposal"
proof -
  let ?ref = "sb_support_reference sample_advise_submission"
  let ?t = "snd (persist_advise_realization_history ?ref sample_accepted sample_start)"
  have "advise_realization_submission_blocker sample_advise_submission sample_accepted = None"
    using created_submission_resource[OF sample_submission_created]
    by (simp add: advise_realization_submission_blocker_def sample_advise_submission_def sample_claim_def
        sample_receipt_of_def sample_accepted_def sample_advise_history_def)
  then have "advise_gate sample_start ?ref sample_accepted"
    using sample_start_found by (auto simp: advise_gate_def)
  then have h: "d_get (rz_advise_histories ?t) ?ref = Some sample_accepted"
    by (simp add: advise_persist_state sample_start_def)
  have "realization_step sample_start ?t"
    using realization_step.persist_advise[OF sample_extensions(5)] .
  then have r: "realization_step\<^sup>*\<^sup>* sample_start ?t" by blast
  have "submission_store_ok (rz_submissions sample_start)"
    using sample_advise_submission_ok sample_submission_names
    by (auto simp: submission_store_ok_def sample_start_def sample_advise_submission_def
        simp del: append.simps split: if_splits)
  moreover have "rz_advise_histories sample_start = []" "rz_manage_histories sample_start = []"
    by (simp_all add: sample_start_def)
  ultimately obtain u where "downstream_submission_by_support_reference ?ref (rz_submissions ?t) = Inr (Some u)"
    "sb_target u = Advise_Proposal"
    using stored_histories_match_receipts[OF r _ _ _ h] by (elim meta_impE exE conjE) assumption
  with h show ?thesis by (intro exI[of _ ?t] exI[of _ u] conjI)
qed

end
