(* ===== verification/AI_Action_Policy.thy ===== *)
theory AI_Action_Policy
imports Control
begin

text \<open>
  The content policy for actions an AI workflow proposes (\<open>ai_action_policy.py\<close>) and the
  metadata envelope of its requests (\<open>ai_metadata_policy.py\<close>), with the part of Python's
  \<open>re\<close> the policy uses. A label that reaches the patterns is ASCII text, on which the
  normalisation \<open>NFKC\<close> is the identity and \<open>casefold\<close> lowers the letters.
\<close>

section \<open>Regular expressions\<close>

text \<open>Literal text, \<open>\s+\<close>, \<open>\b\<close>, sequence, alternative and the optional group. A run
  returns every way to match a prefix: the character before the rest and the rest, in
  the order in which Python's backtracking tries them.\<close>

datatype rx = Lit string | Spaces | Boundary | Seq rx rx | Alt rx rx | Opt rx

definition at_boundary :: "char option \<Rightarrow> string \<Rightarrow> bool" where
  "at_boundary previous s \<longleftrightarrow>
     some_satisfies word_char previous \<noteq> (case s of [] \<Rightarrow> False | c # _ \<Rightarrow> word_char c)"

fun spaces_run :: "string \<Rightarrow> (char option \<times> string) list" where
  "spaces_run [] = []"
| "spaces_run (c # s) = (if py_space c then spaces_run s @ [(Some c, s)] else [])"

primrec rx_run :: "rx \<Rightarrow> char option \<times> string \<Rightarrow> (char option \<times> string) list" where
  "rx_run (Lit t) p =
     (if is_prefix t (snd p)
      then [(if t = [] then fst p else Some (last t), drop (length t) (snd p))] else [])"
| "rx_run Spaces p = spaces_run (snd p)"
| "rx_run Boundary p = (if at_boundary (fst p) (snd p) then [p] else [])"
| "rx_run (Seq r q) p = concat (map (rx_run q) (rx_run r p))"
| "rx_run (Alt r q) p = rx_run r p @ rx_run q p"
| "rx_run (Opt r) p = rx_run r p @ [p]"

definition rx_fullmatch :: "rx \<Rightarrow> string \<Rightarrow> bool" where
  "rx_fullmatch r s \<longleftrightarrow> list_ex (\<lambda>p. snd p = []) (rx_run r (None, s))"

fun rx_search_from :: "rx \<Rightarrow> char option \<Rightarrow> string \<Rightarrow> bool" where
  "rx_search_from r previous [] = (rx_run r (previous, []) \<noteq> [])"
| "rx_search_from r previous (c # s) =
     (rx_run r (previous, c # s) \<noteq> [] \<or> rx_search_from r (Some c) s)"

definition rx_search :: "rx \<Rightarrow> string \<Rightarrow> bool" where
  "rx_search r s = rx_search_from r None s"

fun rx_seq :: "rx list \<Rightarrow> rx" where
  "rx_seq [] = Lit []"
| "rx_seq [r] = r"
| "rx_seq (r # q # rs) = Seq r (rx_seq (q # rs))"

fun rx_alt :: "rx list \<Rightarrow> rx" where
  "rx_alt [] = Lit []"
| "rx_alt [r] = r"
| "rx_alt (r # q # rs) = Alt r (rx_alt (q # rs))"

section \<open>The patterns\<close>

datatype ai_action_type =
  Action_Advisor_Review | Action_Request_Missing_Evidence | Action_Final_Investment_Recommendation
| Action_Suitability_Approval | Action_Compliance_Approval | Action_Mandate_Approval
| Action_Trade_Or_Order | Action_Client_Communication

fun ai_action_type_value :: "ai_action_type \<Rightarrow> string" where
  "ai_action_type_value Action_Advisor_Review = ''advisor_review''"
| "ai_action_type_value Action_Request_Missing_Evidence = ''request_missing_evidence''"
| "ai_action_type_value Action_Final_Investment_Recommendation = ''final_investment_recommendation''"
| "ai_action_type_value Action_Suitability_Approval = ''suitability_approval''"
| "ai_action_type_value Action_Compliance_Approval = ''compliance_approval''"
| "ai_action_type_value Action_Mandate_Approval = ''mandate_approval''"
| "ai_action_type_value Action_Trade_Or_Order = ''trade_or_order''"
| "ai_action_type_value Action_Client_Communication = ''client_communication''"

datatype ai_action_reason =
  Action_Allowed | Forbidden_Action_Type | Forbidden_Action_Content | Ambiguous_Action_Content

fun ai_action_reason_value :: "ai_action_reason \<Rightarrow> string" where
  "ai_action_reason_value Action_Allowed = ''allowed''"
| "ai_action_reason_value Forbidden_Action_Type = ''forbidden_action_type''"
| "ai_action_reason_value Forbidden_Action_Content = ''forbidden_action_content''"
| "ai_action_reason_value Ambiguous_Action_Content = ''ambiguous_action_content''"

definition AI_ACTION_POLICY_VERSION :: string where
  "AI_ACTION_POLICY_VERSION = ''lotus-idea.ai-action-content-policy.v1''"

definition MAX_ACTION_LABEL_LENGTH :: nat where
  "MAX_ACTION_LABEL_LENGTH = 160"

record action_decision =
  ac_allowed :: bool
  ac_canonical_label :: string
  ac_reason :: ai_action_reason
  ac_policy_version :: string

fun CANONICAL_LABELS :: "ai_action_type \<Rightarrow> string option" where
  "CANONICAL_LABELS Action_Advisor_Review = Some ''Review the evidence as an advisor''"
| "CANONICAL_LABELS Action_Request_Missing_Evidence = Some ''Request the missing governed evidence''"
| "CANONICAL_LABELS _ = None"

definition BLOCKED_LABEL :: string where
  "BLOCKED_LABEL = ''Action blocked by Lotus Idea policy''"

definition ADVISOR_REVIEW_PATTERN :: rx where
  "ADVISOR_REVIEW_PATTERN = Alt
     (rx_seq [Opt (rx_seq [Lit ''route'', Spaces, Lit ''to'', Spaces]),
              Lit ''advisor'', Spaces, Lit ''review''])
     (rx_seq [Lit ''review'', Spaces, Opt (Seq (Lit ''the'') Spaces), Lit ''evidence'',
              Opt (Seq Spaces (Lit ''internally''))])"

definition REQUEST_MISSING_EVIDENCE_PATTERN :: rx where
  "REQUEST_MISSING_EVIDENCE_PATTERN =
     rx_seq [Lit ''request'', Spaces, Opt (Seq (Lit ''the'') Spaces), Lit ''missing'', Spaces,
             Opt (Seq (Lit ''governed'') Spaces), Lit ''evidence'']"

fun SAFE_LABEL_PATTERNS :: "ai_action_type \<Rightarrow> rx option" where
  "SAFE_LABEL_PATTERNS Action_Advisor_Review = Some ADVISOR_REVIEW_PATTERN"
| "SAFE_LABEL_PATTERNS Action_Request_Missing_Evidence = Some REQUEST_MISSING_EVIDENCE_PATTERN"
| "SAFE_LABEL_PATTERNS _ = None"

definition FORBIDDEN_PATTERNS :: "rx list" where
  "FORBIDDEN_PATTERNS =
    [rx_seq [Boundary, rx_alt [Lit ''execute'', Lit ''place'', Lit ''submit'', Lit ''create'', Lit ''send''],
             Spaces, Opt (Alt (Seq (Lit ''a'') Spaces) (Seq (Lit ''the'') Spaces)),
             Alt (Lit ''trade'') (Lit ''order''), Boundary],
     rx_seq [Boundary, rx_alt [Lit ''buy'', Lit ''sell'', Lit ''trade'', Lit ''rebalance''], Spaces,
             rx_alt [Lit ''now'', Lit ''immediately'', rx_seq [Lit ''the'', Spaces, Lit ''portfolio'']],
             Boundary],
     rx_seq [Boundary, Lit ''approve'', Spaces, Opt (Seq (Lit ''the'') Spaces),
             rx_alt [Lit ''suitability'', Lit ''compliance'', Lit ''mandate''], Boundary],
     rx_seq [Boundary, rx_alt [Lit ''email'', Lit ''message'', Lit ''contact'', Lit ''notify'',
                               rx_seq [Lit ''communicate'', Spaces, Lit ''with'']],
             Spaces, Opt (Seq (Lit ''the'') Spaces), Lit ''client'', Boundary],
     rx_seq [Boundary, Lit ''publish'', Spaces,
             Opt (Alt (Seq (Lit ''this'') Spaces) (Seq (Lit ''the'') Spaces)),
             Alt (Lit ''recommendation'') (Lit ''communication''), Boundary],
     rx_seq [Boundary, Lit ''final'', Spaces, Opt (Seq (Lit ''investment'') Spaces),
             Lit ''recommendation'', Boundary]]"

section \<open>Normalisation and decision\<close>

definition is_ascii :: "string \<Rightarrow> bool" where
  "is_ascii s \<longleftrightarrow> list_all (\<lambda>c. (of_char c :: nat) < 128) s"

definition LEET_TRANSLATION :: "char \<Rightarrow> char" where
  "LEET_TRANSLATION c =
     (case map_of (zip ''013457@$'' ''oieastas'') c of None \<Rightarrow> c | Some d \<Rightarrow> d)"

definition label_char :: "char \<Rightarrow> bool" where
  \<comment> \<open>\<open>[a-z0-9]\<close>\<close>
  "label_char c \<longleftrightarrow> is_digit c \<or> (97 \<le> (of_char c :: nat) \<and> (of_char c :: nat) \<le> 122)"

lemma dropWhile_shorter [termination_simp]: "length (dropWhile P xs) < Suc (length xs)"
  by (simp add: length_dropWhile_le less_Suc_eq_le)

text \<open>\<open>re.sub(r"[^a-z0-9]+", " ", s)\<close>\<close>

fun sub_runs :: "(char \<Rightarrow> bool) \<Rightarrow> string \<Rightarrow> string" where
  "sub_runs keep [] = []"
| "sub_runs keep (c # s) =
     (if keep c then c # sub_runs keep s else CHR '' '' # sub_runs keep (dropWhile (Not \<circ> keep) s))"

text \<open>\<open>s.split()\<close>\<close>

fun split_words :: "string \<Rightarrow> string list" where
  "split_words [] = []"
| "split_words (c # s) =
     (if py_space c then split_words s
      else (c # takeWhile (Not \<circ> py_space) s) # split_words (dropWhile (Not \<circ> py_space) s))"

definition normalize_action_label :: "string \<Rightarrow> string" where
  "normalize_action_label v =
     join '' '' (split_words (sub_runs label_char (map LEET_TRANSLATION (py_lower v))))"

definition action_decision_of :: "bool \<Rightarrow> string \<Rightarrow> ai_action_reason \<Rightarrow> action_decision" where
  "action_decision_of ok label why =
     \<lparr>ac_allowed = ok, ac_canonical_label = label, ac_reason = why,
      ac_policy_version = AI_ACTION_POLICY_VERSION\<rparr>"

definition evaluate_ai_action_policy :: "ai_action_type \<Rightarrow> string \<Rightarrow> action_decision" where
  "evaluate_ai_action_policy ty label =
    (let canonical = or_else (CANONICAL_LABELS ty) BLOCKED_LABEL in
     case SAFE_LABEL_PATTERNS ty of
       None \<Rightarrow> action_decision_of False canonical Forbidden_Action_Type
     | Some safe \<Rightarrow>
         if length label > MAX_ACTION_LABEL_LENGTH \<or> \<not> is_ascii label
         then action_decision_of False canonical Ambiguous_Action_Content
         else let normalized = normalize_action_label label in
           if list_ex (\<lambda>r. rx_search r normalized) FORBIDDEN_PATTERNS
           then action_decision_of False canonical Forbidden_Action_Content
           else if \<not> rx_fullmatch safe normalized
           then action_decision_of False canonical Ambiguous_Action_Content
           else action_decision_of True canonical Action_Allowed)"

section \<open>The metadata envelope\<close>

definition AI_METADATA_MAX_FIELDS :: nat where
  "AI_METADATA_MAX_FIELDS = 2"

definition AI_METADATA_MAX_KEY_LENGTH :: nat where
  "AI_METADATA_MAX_KEY_LENGTH = 32"

definition AI_METADATA_MAX_VALUE_LENGTH :: nat where
  "AI_METADATA_MAX_VALUE_LENGTH = 64"

definition ALL_PURPOSES :: "string list" where
  "ALL_PURPOSES = [''missing_evidence_check'', ''unsupported_claim_verification'',
     ''advisor_rationale_draft'', ''meeting_preparation_draft'']"

definition DRAFTING_PURPOSES :: "string list" where
  "DRAFTING_PURPOSES = [''advisor_rationale_draft'', ''meeting_preparation_draft'']"

definition FIELD_POLICY :: "(string, string list \<times> string list) dict" where
  "FIELD_POLICY =
     [(''channel'', (ALL_PURPOSES, [''advisor-workbench''])),
      (''audience'', (DRAFTING_PURPOSES, [''internal_advisor_review'']))]"

definition control_char :: "char \<Rightarrow> bool" where
  \<comment> \<open>the code points below 256 whose general category starts with C\<close>
  "control_char c \<longleftrightarrow>
     (let n = of_char c :: nat in n < 32 \<or> (127 \<le> n \<and> n < 160) \<or> n = 173)"

definition validate_text_shape :: "string \<Rightarrow> string \<Rightarrow> nat \<Rightarrow> guards" where
  "validate_text_shape v field max_length =
     [(v = [] \<or> v \<noteq> py_strip v,
       InvalidAIMetadataEnvelope (''AI metadata '' @ field @ '' must be non-blank and trimmed'')),
      (length v > max_length,
       InvalidAIMetadataEnvelope (''AI metadata '' @ field @ '' exceeds the length budget'')),
      (list_ex control_char v,
       InvalidAIMetadataEnvelope (''AI metadata '' @ field @ '' contains control characters''))]"

definition metadata_field_guards :: "string \<Rightarrow> string \<times> string \<Rightarrow> guards" where
  "metadata_field_guards purpose = (\<lambda>(key, v).
     validate_text_shape key ''key'' AI_METADATA_MAX_KEY_LENGTH @
     validate_text_shape v ''value'' AI_METADATA_MAX_VALUE_LENGTH @
     (case d_get FIELD_POLICY key of
        None \<Rightarrow> [(True, InvalidAIMetadataEnvelope ''AI metadata envelope contains unsupported fields'')]
      | Some (allowed_purposes, allowed_values) \<Rightarrow>
          [(purpose \<notin> set allowed_purposes,
            InvalidAIMetadataEnvelope ''AI metadata field is not allowed for this purpose''),
           (v \<notin> set allowed_values, InvalidAIMetadataEnvelope ''AI metadata value is not approved'')]))"

definition validate_ai_metadata_envelope ::
    "(string, string) dict \<Rightarrow> string \<Rightarrow> (string, string) dict res" where
  "validate_ai_metadata_envelope metadata purpose =
     checks ([(length metadata > AI_METADATA_MAX_FIELDS,
               InvalidAIMetadataEnvelope ''AI metadata envelope contains too many fields'')] @
             concat (map (metadata_field_guards purpose) metadata)) metadata"

section \<open>What a pattern matches in single-spaced text\<close>

primrec rx_plain :: "rx \<Rightarrow> bool" where
  "rx_plain (Lit t) = True"
| "rx_plain Spaces = True"
| "rx_plain Boundary = False"
| "rx_plain (Seq r q) = (rx_plain r \<and> rx_plain q)"
| "rx_plain (Alt r q) = (rx_plain r \<and> rx_plain q)"
| "rx_plain (Opt r) = rx_plain r"

text \<open>The texts a pattern without boundaries matches when every \<open>\s+\<close> is one space.\<close>

primrec rx_phrases :: "rx \<Rightarrow> string list" where
  "rx_phrases (Lit t) = [t]"
| "rx_phrases Spaces = ['' '']"
| "rx_phrases Boundary = []"
| "rx_phrases (Seq r q) = concat (map (\<lambda>s. map (\<lambda>t. s @ t) (rx_phrases q)) (rx_phrases r))"
| "rx_phrases (Alt r q) = rx_phrases r @ rx_phrases q"
| "rx_phrases (Opt r) = rx_phrases r @ [[]]"

fun single_spaced :: "string \<Rightarrow> bool" where
  "single_spaced (c # d # s) = ((py_space c \<longrightarrow> c = CHR '' '' \<and> \<not> py_space d) \<and> single_spaced (d # s))"
| "single_spaced [c] = (py_space c \<longrightarrow> c = CHR '' '')"
| "single_spaced [] = True"

lemma single_spaced_append: "single_spaced (s @ t) \<Longrightarrow> single_spaced s \<and> single_spaced t"
proof (induction s rule: single_spaced.induct)
  case (2 c)
  then show ?case by (cases t) auto
qed auto

lemma is_prefix_split: "is_prefix t s \<longleftrightarrow> s = t @ drop (length t) s"
  by (induction t s rule: is_prefix.induct) auto

lemma spaces_run_splits: "(b, t) \<in> set (spaces_run s) \<Longrightarrow> \<exists>p. s = p @ t \<and> p \<noteq> [] \<and> list_all py_space p"
proof (induction s)
  case (Cons c s)
  then show ?case
  proof (cases "(b, t) \<in> set (spaces_run s)")
    case True
    then obtain p where "s = p @ t" "list_all py_space p" using Cons by auto
    moreover have "py_space c" using Cons.prems by (simp split: if_splits)
    ultimately show ?thesis by (intro exI[of _ "c # p"]) simp
  qed (auto split: if_splits)
qed simp

lemma all_spaces_single: "p \<noteq> [] \<Longrightarrow> list_all py_space p \<Longrightarrow> single_spaced p \<Longrightarrow> p = '' ''"
  by (induction p rule: single_spaced.induct) auto

lemma rx_run_phrases:
  "rx_plain r \<Longrightarrow> (b, t) \<in> set (rx_run r (a, s)) \<Longrightarrow> single_spaced s \<Longrightarrow> \<exists>p \<in> set (rx_phrases r). s = p @ t"
proof (induction r arbitrary: a b s t)
  case (Lit u)
  then show ?case by (auto split: if_splits simp: is_prefix_split)
next
  case Spaces
  then obtain p where p: "s = p @ t" "p \<noteq> []" "list_all py_space p" using spaces_run_splits by fastforce
  then have "p = '' ''" using Spaces.prems(3) single_spaced_append all_spaces_single by blast
  with p(1) show ?case by simp
next
  case (Seq r q)
  then obtain c u where u: "(c, u) \<in> set (rx_run r (a, s))" "(b, t) \<in> set (rx_run q (c, u))" by auto
  then obtain p where p: "p \<in> set (rx_phrases r)" "s = p @ u" using Seq by fastforce
  then have "single_spaced u" using Seq.prems(3) single_spaced_append by blast
  then obtain p' where "p' \<in> set (rx_phrases q)" "u = p' @ t" using Seq.IH(2) Seq.prems(1) u(2) by fastforce
  with p show ?case by force
next
  case (Alt r q)
  then show ?case by fastforce
next
  case (Opt r)
  then show ?case by fastforce
qed simp

lemma rx_phrases_run:
  "rx_plain r \<Longrightarrow> p \<in> set (rx_phrases r) \<Longrightarrow> \<exists>b. (b, t) \<in> set (rx_run r (a, p @ t))"
proof (induction r arbitrary: a p t)
  case (Lit u)
  then show ?case by (auto simp: is_prefix_append)
next
  case Spaces
  then show ?case by (auto simp: py_space_def)
next
  case (Seq r q)
  then obtain u v where uv: "u \<in> set (rx_phrases r)" "v \<in> set (rx_phrases q)" "p = u @ v" by auto
  obtain b where b: "(b, v @ t) \<in> set (rx_run r (a, p @ t))"
    using Seq.IH(1) Seq.prems(1) uv(1,3) by fastforce
  obtain d where "(d, t) \<in> set (rx_run q (b, v @ t))" using Seq.IH(2) Seq.prems(1) uv(2) by fastforce
  with b show ?case by force
next
  case (Alt r q)
  then show ?case by fastforce
next
  case (Opt r)
  then show ?case by fastforce
qed simp

lemma rx_fullmatch_phrases:
  assumes "rx_plain r" "single_spaced s"
  shows "rx_fullmatch r s \<longleftrightarrow> s \<in> set (rx_phrases r)"
proof
  assume "rx_fullmatch r s"
  then obtain b where "(b, []) \<in> set (rx_run r (None, s))"
    by (auto simp: rx_fullmatch_def list_ex_iff)
  with rx_run_phrases[OF assms(1) this assms(2)] show "s \<in> set (rx_phrases r)" by auto
next
  assume "s \<in> set (rx_phrases r)"
  from rx_phrases_run[OF assms(1) this, of "[]" None] show "rx_fullmatch r s"
    by (force simp: rx_fullmatch_def list_ex_iff)
qed

section \<open>Normalised labels are single-spaced\<close>

lemma split_words_nonblank: "w \<in> set (split_words s) \<Longrightarrow> w \<noteq> [] \<and> list_all (\<lambda>c. \<not> py_space c) w"
proof (induction s rule: split_words.induct)
  case (2 c s)
  have "list_all (\<lambda>c. \<not> py_space c) (takeWhile (Not \<circ> py_space) s)"
    by (auto simp: list_all_iff dest: set_takeWhileD)
  then show ?case using 2 by (auto split: if_splits)
qed simp

lemma single_spaced_word: "list_all (\<lambda>c. \<not> py_space c) w \<Longrightarrow> single_spaced w"
  by (induction w rule: single_spaced.induct) auto

lemma single_spaced_join_word:
  "list_all (\<lambda>c. \<not> py_space c) w \<Longrightarrow> t \<noteq> [] \<Longrightarrow> \<not> py_space (hd t) \<Longrightarrow> single_spaced t \<Longrightarrow>
     single_spaced (w @ CHR '' '' # t)"
proof (induction w rule: single_spaced.induct)
  case (2 c)
  then show ?case by (cases t) auto
next
  case 3
  then show ?case by (cases t) (auto simp: py_space_def)
qed auto

lemma single_spaced_join:
  "(\<And>w. w \<in> set ws \<Longrightarrow> w \<noteq> [] \<and> list_all (\<lambda>c. \<not> py_space c) w) \<Longrightarrow>
     single_spaced (join '' '' ws) \<and> (ws \<noteq> [] \<longrightarrow> join '' '' ws \<noteq> [] \<and> \<not> py_space (hd (join '' '' ws)))"
proof (induction "'' ''" ws rule: join.induct)
  case (2 w)
  then have "w \<noteq> []" "list_all (\<lambda>c. \<not> py_space c) w" by auto
  then show ?case by (cases w) (auto simp: single_spaced_word)
next
  case (3 w v ws)
  let ?t = "join '' '' (v # ws)"
  have t: "single_spaced ?t" "?t \<noteq> []" "\<not> py_space (hd ?t)" using 3 by auto
  have w: "w \<noteq> []" "list_all (\<lambda>c. \<not> py_space c) w" using "3.prems"[of w] by auto
  then have "\<not> py_space (hd w)" by (cases w) auto
  with w single_spaced_join_word[OF w(2) t(2,3,1)] show ?case by simp
qed simp

lemma normalized_single_spaced: "single_spaced (normalize_action_label v)"
  unfolding normalize_action_label_def using single_spaced_join split_words_nonblank by blast

section \<open>The labels the policy allows\<close>

fun permitted_phrases :: "ai_action_type \<Rightarrow> string list" where
  "permitted_phrases Action_Advisor_Review =
     [''route to advisor review'', ''advisor review'', ''review the evidence internally'',
      ''review the evidence'', ''review evidence internally'', ''review evidence'']"
| "permitted_phrases Action_Request_Missing_Evidence =
     [''request the missing governed evidence'', ''request the missing evidence'',
      ''request missing governed evidence'', ''request missing evidence'']"
| "permitted_phrases _ = []"

lemma safe_phrases:
  "SAFE_LABEL_PATTERNS ty = Some r \<Longrightarrow> rx_plain r \<and> rx_phrases r = permitted_phrases ty"
  by (cases ty) (auto simp: ADVISOR_REVIEW_PATTERN_def REQUEST_MISSING_EVIDENCE_PATTERN_def)

text \<open>A text a pattern is found in contains one of the words the pattern may start with; none
  of these is part of a permitted phrase.\<close>

primrec rx_starts :: "rx \<Rightarrow> string list" where
  "rx_starts (Lit t) = [t]"
| "rx_starts Spaces = [[]]"
| "rx_starts Boundary = [[]]"
| "rx_starts (Seq r q) = (if r = Boundary then rx_starts q else rx_starts r)"
| "rx_starts (Alt r q) = rx_starts r @ rx_starts q"
| "rx_starts (Opt r) = [[]]"

lemma rx_run_starts: "rx_run r (a, s) \<noteq> [] \<Longrightarrow> \<exists>u \<in> set (rx_starts r). is_prefix u s"
proof (induction r arbitrary: a)
  case (Seq r q)
  show ?case
  proof (cases "r = Boundary")
    case True
    then show ?thesis using Seq.IH(2)[of a] Seq.prems by (auto split: if_splits)
  next
    case False
    have "rx_run r (a, s) \<noteq> []" using Seq.prems by auto
    then show ?thesis using Seq.IH(1) False by simp
  qed
qed (auto split: if_splits)

lemma substring_prefix: "is_prefix u s \<Longrightarrow> substring u s"
  by (cases s; cases u) auto

lemma rx_search_starts: "rx_search_from r a s \<Longrightarrow> \<exists>u \<in> set (rx_starts r). substring u s"
proof (induction r a s rule: rx_search_from.induct)
  case (1 r a)
  then show ?case using rx_run_starts substring_prefix by fastforce
next
  case (2 r a c s)
  then show ?case using rx_run_starts[of r a "c # s"] substring_prefix by (cases "rx_search_from r (Some c) s") auto
qed

lemma forbidden_starts:
  "concat (map rx_starts FORBIDDEN_PATTERNS) =
     [''execute'', ''place'', ''submit'', ''create'', ''send'', ''buy'', ''sell'', ''trade'', ''rebalance'',
      ''approve'', ''email'', ''message'', ''contact'', ''notify'', ''communicate'', ''publish'', ''final'']"
  by (simp add: FORBIDDEN_PATTERNS_def)

lemma permitted_checked:
  "\<not> list_ex (\<lambda>u. list_ex (substring u) (permitted_phrases ty)) (concat (map rx_starts FORBIDDEN_PATTERNS))"
  unfolding forbidden_starts by (cases ty) simp_all

lemma permitted_not_forbidden:
  assumes "p \<in> set (permitted_phrases ty)" "r \<in> set FORBIDDEN_PATTERNS"
  shows "\<not> rx_search r p"
proof
  assume "rx_search r p"
  then obtain u where "u \<in> set (rx_starts r)" "substring u p"
    using rx_search_starts unfolding rx_search_def by blast
  with permitted_checked[of ty] assms show False unfolding list_ex_iff by auto
qed

lemma action_allowed_cases:
  "ac_allowed (evaluate_ai_action_policy ty label) \<longleftrightarrow>
     length label \<le> MAX_ACTION_LABEL_LENGTH \<and> is_ascii label \<and>
     normalize_action_label label \<in> set (permitted_phrases ty)"
proof (cases "SAFE_LABEL_PATTERNS ty")
  case None
  then have "permitted_phrases ty = []" by (cases ty) simp_all
  then show ?thesis using None by (simp add: evaluate_ai_action_policy_def action_decision_of_def)
next
  case (Some r)
  have "rx_fullmatch r (normalize_action_label label) \<longleftrightarrow> normalize_action_label label \<in> set (permitted_phrases ty)"
    using rx_fullmatch_phrases normalized_single_spaced safe_phrases[OF Some] by metis
  then show ?thesis
    using Some permitted_not_forbidden
    by (auto simp: evaluate_ai_action_policy_def action_decision_of_def Let_def list_ex_iff)
qed

lemma action_decision_label:
  "ac_canonical_label (evaluate_ai_action_policy ty label) = or_else (CANONICAL_LABELS ty) BLOCKED_LABEL"
  by (simp add: evaluate_ai_action_policy_def action_decision_of_def Let_def split: option.splits)

lemma action_decision_reason:
  "ac_allowed (evaluate_ai_action_policy ty label) \<longleftrightarrow> ac_reason (evaluate_ai_action_policy ty label) = Action_Allowed"
  by (simp add: evaluate_ai_action_policy_def action_decision_of_def Let_def split: option.splits)

text \<open>The metadata that may be sent: a channel for every purpose and an audience for drafts.\<close>

definition text_in_shape :: "string \<Rightarrow> nat \<Rightarrow> bool" where
  "text_in_shape v n \<longleftrightarrow> v \<noteq> [] \<and> v = py_strip v \<and> length v \<le> n \<and> \<not> list_ex control_char v"

lemma passes_text_shape: "passes (validate_text_shape v f n) = text_in_shape v n"
  by (auto simp: validate_text_shape_def text_in_shape_def)

lemma approved_shapes:
  "text_in_shape ''channel'' 32" "text_in_shape ''audience'' 32"
  "text_in_shape ''advisor-workbench'' 64" "text_in_shape ''internal_advisor_review'' 64"
  by code_simp+

lemma metadata_field_passes:
  "passes (metadata_field_guards purpose (k, v)) \<longleftrightarrow>
     (k = ''channel'' \<and> v = ''advisor-workbench'' \<and> purpose \<in> set ALL_PURPOSES) \<or>
     (k = ''audience'' \<and> v = ''internal_advisor_review'' \<and> purpose \<in> set DRAFTING_PURPOSES)"
proof -
  note unfolded = metadata_field_guards_def FIELD_POLICY_def AI_METADATA_MAX_KEY_LENGTH_def
    AI_METADATA_MAX_VALUE_LENGTH_def prod.case passes_text_shape passes_append
  consider "k = ''channel''" | "k = ''audience''" | "k \<noteq> ''channel''" "k \<noteq> ''audience''" by blast
  then show ?thesis
  proof cases
    case 1
    have "passes (metadata_field_guards purpose (k, v)) \<longleftrightarrow>
        text_in_shape v 64 \<and> purpose \<in> set ALL_PURPOSES \<and> v = ''advisor-workbench''"
      using approved_shapes(1) by (simp add: unfolded 1)
    then show ?thesis using approved_shapes(3) 1 by auto
  next
    case 2
    have "passes (metadata_field_guards purpose (k, v)) \<longleftrightarrow>
        text_in_shape v 64 \<and> purpose \<in> set DRAFTING_PURPOSES \<and> v = ''internal_advisor_review''"
      using approved_shapes(2) by (simp add: unfolded 2)
    then show ?thesis using approved_shapes(4) 2 by auto
  next
    case 3
    then have "\<not> passes (metadata_field_guards purpose (k, v))" by (simp add: unfolded)
    then show ?thesis using 3 by simp
  qed
qed

end
