(* ===== verification/AI_Governance.thy ===== *)
theory AI_Governance
imports AI_Action_Policy Ideas Json
begin

text \<open>
  Explanations by an AI workflow (\<open>ai_governance.py\<close>): the governed workflow pack, the
  redacted evidence of a candidate, requests and outputs, the verification of an output
  against the action policy and the evidence, and the deterministic fallback; with the
  rendering of grounded claims (\<open>ai_explanation/grounding.py\<close>), the integrity digest of an
  output (\<open>ai_output_integrity.py\<close>) and the provenance postures
  (\<open>ai_execution_provenance.py\<close>).
\<close>

section \<open>Output integrity\<close>

definition AI_OUTPUT_INTEGRITY_VERSION :: string where
  "AI_OUTPUT_INTEGRITY_VERSION = ''lotus-idea.ai-output-integrity.v1''"

record output_integrity =
  oy_version :: string
  oy_digest :: string

definition output_integrity_guards :: "output_integrity \<Rightarrow> guards" where
  "output_integrity_guards y =
     [(blank (oy_version y), ValueError ''output integrity version is required''),
      (\<not> is_prefix ''sha256:'' (oy_digest y) \<or> length (oy_digest y) \<noteq> 71,
       ValueError ''output integrity digest must be a sha256 digest'')]"

text \<open>\<open>json.dumps\<close> with \<open>ensure_ascii=False\<close>: only the quote, the backslash and the control
  characters below 32 are escaped.\<close>

definition raw_esc_char :: "char \<Rightarrow> string" where
  "raw_esc_char c = (if (of_char c :: nat) \<ge> 127 then [c] else esc_char c)"

definition raw_json_str :: "string \<Rightarrow> string" where
  "raw_json_str s = [quote] @ concat (map raw_esc_char s) @ [quote]"

fun raw_json_dumps :: "json \<Rightarrow> string" where
  "raw_json_dumps JNull = ''null''"
| "raw_json_dumps (JBool b) = (if b then ''true'' else ''false'')"
| "raw_json_dumps (JInt i) = int_str i"
| "raw_json_dumps (JStr s) = raw_json_str s"
| "raw_json_dumps (JArr xs) = ''['' @ join '','' (map raw_json_dumps xs) @ '']''"
| "raw_json_dumps (JObj fs) =
     ''{'' @ join '','' (map (\<lambda>(k, t). raw_json_str k @ '':'' @ t)
                         (sort_key fst (map (\<lambda>(k, v). (k, raw_json_dumps v)) fs))) @ ''}''"

text \<open>Line ends are unified; on code points below 256 the normal form \<open>NFC\<close> is the identity.\<close>

fun canonical_text :: "string \<Rightarrow> string" where
  "canonical_text [] = []"
| "canonical_text (c # s) =
     (if of_char c = (13 :: nat)
      then char_of (10 :: nat) #
        (case s of [] \<Rightarrow> [] | d # t \<Rightarrow> if of_char d = (10 :: nat) then canonical_text t else canonical_text s)
      else c # canonical_text s)"

fun canonical_value :: "json \<Rightarrow> json" where
  "canonical_value (JStr s) = JStr (canonical_text s)"
| "canonical_value (JArr xs) = JArr (map canonical_value xs)"
| "canonical_value v = v"

definition canonical_mapping :: "(string, json) dict \<Rightarrow> json" where
  "canonical_mapping m = JObj (sort_key fst (map (\<lambda>(k, v). (k, canonical_value v)) m))"

record integrity_input =
  yi_explanation_text :: string
  yi_claims :: "(string, json) dict list"
  yi_proposed_actions :: "(string, json) dict list"
  yi_workflow_pack_id :: string
  yi_workflow_pack_version :: string
  yi_evaluation_ref :: string
  yi_action_policy_version :: string
  yi_output_kind :: string
  yi_policy_metadata :: "(string, json) dict"

definition integrity_payload :: "integrity_input \<Rightarrow> json" where
  "integrity_payload i = JObj
     [(''action_policy_version'', JStr (yi_action_policy_version i)),
      (''claims'', JArr (map canonical_mapping (yi_claims i))),
      (''evaluation_ref'', JStr (canonical_text (yi_evaluation_ref i))),
      (''explanation_text'', JStr (canonical_text (yi_explanation_text i))),
      (''integrity_version'', JStr AI_OUTPUT_INTEGRITY_VERSION),
      (''output_kind'', JStr (canonical_text (yi_output_kind i))),
      (''policy_metadata'', canonical_mapping (yi_policy_metadata i)),
      (''proposed_actions'', JArr (map canonical_mapping (yi_proposed_actions i))),
      (''workflow_pack_id'', JStr (canonical_text (yi_workflow_pack_id i))),
      (''workflow_pack_version'', JStr (canonical_text (yi_workflow_pack_version i)))]"

definition build_ai_output_integrity :: "integrity_input \<Rightarrow> output_integrity res" where
  "build_ai_output_integrity i =
    (let y = \<lparr>oy_version = AI_OUTPUT_INTEGRITY_VERSION,
              oy_digest = ''sha256:'' @ sha256_hex (raw_json_dumps (integrity_payload i))\<rparr>
     in checks (output_integrity_guards y) y)"

lemma build_integrity_total:
  "build_ai_output_integrity i = Inr \<lparr>oy_version = AI_OUTPUT_INTEGRITY_VERSION,
     oy_digest = ''sha256:'' @ sha256_hex (raw_json_dumps (integrity_payload i))\<rparr>"
  by (simp add: build_ai_output_integrity_def Let_def output_integrity_guards_def checks_passes
      AI_OUTPUT_INTEGRITY_VERSION_def blank_iff py_space_def)

section \<open>Provenance and vocabularies\<close>

datatype provenance_posture =
  Not_Applicable_Fallback | Unattested_Local_Test_Fixture | Pre_Attestation_Unverifiable
| Lotus_AI_Attestation_Verified

fun provenance_value :: "provenance_posture \<Rightarrow> string" where
  "provenance_value Not_Applicable_Fallback = ''not_applicable_fallback''"
| "provenance_value Unattested_Local_Test_Fixture = ''unattested_local_test_fixture''"
| "provenance_value Pre_Attestation_Unverifiable = ''pre_attestation_unverifiable''"
| "provenance_value Lotus_AI_Attestation_Verified = ''lotus_ai_attestation_verified''"

datatype ai_purpose =
  Missing_Evidence_Check | Unsupported_Claim_Verification | Advisor_Rationale_Draft
| Meeting_Preparation_Draft

fun ai_purpose_value :: "ai_purpose \<Rightarrow> string" where
  "ai_purpose_value Missing_Evidence_Check = ''missing_evidence_check''"
| "ai_purpose_value Unsupported_Claim_Verification = ''unsupported_claim_verification''"
| "ai_purpose_value Advisor_Rationale_Draft = ''advisor_rationale_draft''"
| "ai_purpose_value Meeting_Preparation_Draft = ''meeting_preparation_draft''"

datatype ai_posture = Ready_For_Advisor_Review | Fallback_Used | Blocked_Unsupported_Claim | Blocked_Forbidden_Action

fun ai_posture_value :: "ai_posture \<Rightarrow> string" where
  "ai_posture_value Ready_For_Advisor_Review = ''ready_for_advisor_review''"
| "ai_posture_value Fallback_Used = ''fallback_used''"
| "ai_posture_value Blocked_Unsupported_Claim = ''blocked_unsupported_claim''"
| "ai_posture_value Blocked_Forbidden_Action = ''blocked_forbidden_action''"

datatype verifier_outcome =
  Verifier_Not_Run | Verifier_Passed | Failed_Unsupported_Claim | Failed_Forbidden_Action | Failed_Action_Content

fun verifier_value :: "verifier_outcome \<Rightarrow> string" where
  "verifier_value Verifier_Not_Run = ''not_run''"
| "verifier_value Verifier_Passed = ''passed''"
| "verifier_value Failed_Unsupported_Claim = ''failed_unsupported_claim''"
| "verifier_value Failed_Forbidden_Action = ''failed_forbidden_action''"
| "verifier_value Failed_Action_Content = ''failed_action_content''"

datatype fallback_reason = AI_Unavailable | Unsupported_Evidence | Redaction_Required | Workflow_Not_Approved

fun fallback_value :: "fallback_reason \<Rightarrow> string" where
  "fallback_value AI_Unavailable = ''ai_unavailable''"
| "fallback_value Unsupported_Evidence = ''unsupported_evidence''"
| "fallback_value Redaction_Required = ''redaction_required''"
| "fallback_value Workflow_Not_Approved = ''workflow_not_approved''"

section \<open>The workflow pack and the redacted evidence\<close>

record workflow_pack =
  wk_workflow_pack_id :: string
  wk_workflow_pack_version :: string
  wk_purpose :: ai_purpose
  wk_evaluation_ref :: string

definition workflow_pack_guards :: "workflow_pack \<Rightarrow> guards" where
  "workflow_pack_guards k =
     require_text (wk_workflow_pack_id k) ''workflow_pack_id'' @
     require_text (wk_workflow_pack_version k) ''workflow_pack_version'' @
     require_text (wk_evaluation_ref k) ''evaluation_ref''"

record pack_contract =
  kc_request_workflow_pack_id :: string
  kc_proof_workflow_pack_id :: string
  kc_workflow_pack_version :: string
  kc_evaluation_ref :: string
  kc_allowed_purposes :: "ai_purpose set"
  kc_workflow_authority_owner :: string
  kc_ai_capability_owner :: string

definition GOVERNED_IDEA_EXPLANATION_WORKFLOW_PACK :: pack_contract where
  "GOVERNED_IDEA_EXPLANATION_WORKFLOW_PACK =
     \<lparr>kc_request_workflow_pack_id = ''lotus-ai:idea-explanation:v1'',
      kc_proof_workflow_pack_id = ''idea_explanation.pack@v1'',
      kc_workflow_pack_version = ''v1'', kc_evaluation_ref = ''lotus-ai:governed-verifier:v1'',
      kc_allowed_purposes = {Missing_Evidence_Check, Unsupported_Claim_Verification,
        Advisor_Rationale_Draft, Meeting_Preparation_Draft},
      kc_workflow_authority_owner = ''lotus-idea'', kc_ai_capability_owner = ''lotus-ai''\<rparr>"

definition ai_workflow_pack_is_governed :: "workflow_pack \<Rightarrow> bool" where
  "ai_workflow_pack_is_governed k \<longleftrightarrow>
    (let contract = GOVERNED_IDEA_EXPLANATION_WORKFLOW_PACK in
     wk_workflow_pack_id k = kc_request_workflow_pack_id contract \<and>
     wk_workflow_pack_version k = kc_workflow_pack_version contract \<and>
     wk_evaluation_ref k = kc_evaluation_ref contract \<and>
     wk_purpose k \<in> kc_allowed_purposes contract)"

definition require_governed_ai_workflow_pack :: "workflow_pack \<Rightarrow> guards" where
  "require_governed_ai_workflow_pack k = [(\<not> ai_workflow_pack_is_governed k, InvalidAIWorkflowPack)]"

record redacted_source =
  xs_product_id :: string
  xs_source_system :: source_system
  xs_product_version :: string
  xs_as_of_date :: py_date
  xs_freshness :: evidence_freshness
  xs_data_quality_status :: string

definition redacted_source_guards :: "redacted_source \<Rightarrow> guards" where
  "redacted_source_guards x =
     require_text (xs_product_id x) ''product_id'' @ require_text (xs_product_version x) ''product_version'' @
     require_text (xs_data_quality_status x) ''data_quality_status''"

record redacted_evidence =
  xe_candidate_id :: string
  xe_family :: opportunity_family
  xe_lifecycle_status :: lifecycle_status
  xe_review_posture :: review_posture
  xe_evidence_packet_id :: string
  xe_evidence_content_hash :: string
  xe_source_revision_vector_digest :: string
  xe_source_cut_posture :: source_cut_posture_t
  xe_supportability :: supportability
  xe_source_refs :: "redacted_source list"
  xe_reason_codes :: "reason_code list"
  xe_unsupported_reasons :: "unsupported_reason list"
  xe_score_policy_version :: "string option"
  xe_score :: "decimal option"
  xe_source_signal_count :: int
  xe_score_contributions :: "score_contribution list"
  xe_score_conflict_penalty_applied :: "decimal option"

definition source_product_ids :: "redacted_evidence \<Rightarrow> string set" where
  "source_product_ids e = set (map xs_product_id (xe_source_refs e))"

definition redacted_evidence_guards :: "redacted_evidence \<Rightarrow> guards" where
  "redacted_evidence_guards e =
    (let present = [xe_score_policy_version e \<noteq> None, xe_score e \<noteq> None, xe_score_contributions e \<noteq> [],
                    xe_score_conflict_penalty_applied e \<noteq> None] in
     require_text (xe_candidate_id e) ''candidate_id'' @
     require_text (xe_evidence_packet_id e) ''evidence_packet_id'' @
     require_sha256_digest (xe_evidence_content_hash e) ''evidence_content_hash'' @
     require_revision_vector_digest (xe_source_revision_vector_digest e) ''source_revision_vector_digest'' @
     [(xe_source_refs e = [], ValueError ''source_refs is required''),
      (xe_reason_codes e = [], ValueError ''reason_codes is required''),
      (xe_source_signal_count e \<le> 0, ValueError ''source_signal_count must be positive''),
      (list_ex id present \<and> \<not> list_all id present,
       ValueError ''score policy, scalar, contributions, and conflict penalty must be provided together'')] @
     require_opt_text (xe_score_policy_version e) ''score_policy_version'')"

definition redacted_source_of :: "source_ref \<Rightarrow> redacted_source" where
  "redacted_source_of r =
     \<lparr>xs_product_id = sr_product_id r, xs_source_system = sr_source_system r,
      xs_product_version = sr_product_version r, xs_as_of_date = sr_as_of_date r,
      xs_freshness = sr_freshness r, xs_data_quality_status = sr_data_quality_status r\<rparr>"

definition redacted_evidence_fields :: "idea_candidate \<Rightarrow> redacted_evidence" where
  "redacted_evidence_fields c =
    (let p = cd_evidence_packet c in
     \<lparr>xe_candidate_id = cd_candidate_id c, xe_family = cd_family c,
      xe_lifecycle_status = cd_lifecycle_status c, xe_review_posture = cd_review_posture c,
      xe_evidence_packet_id = ep_evidence_packet_id p,
      xe_evidence_content_hash = ln_content_hash (ep_lineage_ref p),
      xe_source_revision_vector_digest = packet_revision_digest p,
      xe_source_cut_posture = packet_cut_posture p, xe_supportability = ep_supportability p,
      xe_source_refs = map redacted_source_of (ep_source_refs p), xe_reason_codes = ep_reason_codes p,
      xe_unsupported_reasons = ep_unsupported_reasons p,
      xe_score_policy_version = map_option is_policy_version (cd_score c),
      xe_score = map_option is_score (cd_score c),
      xe_source_signal_count = int (length (cd_source_signal_ids c)),
      xe_score_contributions = (case cd_score c of None \<Rightarrow> [] | Some s \<Rightarrow> is_contributions s),
      xe_score_conflict_penalty_applied = map_option is_conflict_penalty_applied (cd_score c)\<rparr>)"

definition redacted_evidence_from_candidate :: "idea_candidate \<Rightarrow> redacted_evidence res" where
  "redacted_evidence_from_candidate c =
    (let e = redacted_evidence_fields c in
     checks (concat (map redacted_source_guards (xe_source_refs e)) @ redacted_evidence_guards e) e)"

section \<open>Requests\<close>

record ai_command =
  xc_request_id :: string
  xc_actor_subject :: string
  xc_workflow_pack :: workflow_pack
  xc_approved_metadata :: "(string, string) dict"
  xc_requested_at_utc :: py_datetime

definition mk_ai_command :: "ai_command \<Rightarrow> ai_command res" where
  "mk_ai_command x =
     bind_res (checks (workflow_pack_guards (xc_workflow_pack x) @
        require_text (xc_request_id x) ''request_id'' @ require_text (xc_actor_subject x) ''actor_subject'' @
        require_aware (xc_requested_at_utc x) ''requested_at_utc'' @
        require_governed_ai_workflow_pack (xc_workflow_pack x)) ()) (\<lambda>_.
     bind_res (validate_ai_metadata_envelope (xc_approved_metadata x)
        (ai_purpose_value (wk_purpose (xc_workflow_pack x)))) (\<lambda>m.
     Inr (x\<lparr>xc_approved_metadata := m\<rparr>)))"

record ai_request =
  xq_request_id :: string
  xq_actor_subject :: string
  xq_workflow_pack :: workflow_pack
  xq_redacted_evidence :: redacted_evidence
  xq_approved_metadata :: "(string, string) dict"
  xq_requested_at_utc :: py_datetime
  xq_reason_codes :: "reason_code list"

definition mk_ai_request :: "ai_request \<Rightarrow> ai_request res" where
  "mk_ai_request x =
     bind_res (checks (require_text (xq_request_id x) ''request_id'' @
        require_text (xq_actor_subject x) ''actor_subject'' @
        require_aware (xq_requested_at_utc x) ''requested_at_utc'' @
        [(xq_reason_codes x = [], ValueError ''reason_codes is required'')]) ()) (\<lambda>_.
     bind_res (validate_ai_metadata_envelope (xq_approved_metadata x)
        (ai_purpose_value (wk_purpose (xq_workflow_pack x)))) (\<lambda>m.
     Inr (x\<lparr>xq_approved_metadata := m\<rparr>)))"

definition ensure_purpose_allowed_for_candidate :: "idea_candidate \<Rightarrow> ai_purpose \<Rightarrow> guards" where
  "ensure_purpose_allowed_for_candidate c purpose =
    (if purpose \<in> {Advisor_Rationale_Draft, Meeting_Preparation_Draft}
     then [(ep_supportability (cd_evidence_packet c) \<noteq> Support_Ready,
            InvalidAIExplanationRequest ''rationale drafting requires ready evidence supportability''),
           (cd_lifecycle_status c \<notin> {Ready_For_Review, Reviewed_By_Advisor, Approved},
            InvalidAIExplanationRequest ''rationale drafting requires review-ready candidate lifecycle'')]
     else [])"

definition build_ai_explanation_request :: "idea_candidate \<Rightarrow> ai_command \<Rightarrow> ai_request res" where
  "build_ai_explanation_request c x =
     bind_res (checks (require_governed_ai_workflow_pack (xc_workflow_pack x) @
        ensure_purpose_allowed_for_candidate c (wk_purpose (xc_workflow_pack x))) ()) (\<lambda>_.
     bind_res (redacted_evidence_from_candidate c) (\<lambda>e.
     mk_ai_request
       \<lparr>xq_request_id = xc_request_id x, xq_actor_subject = xc_actor_subject x,
        xq_workflow_pack = xc_workflow_pack x, xq_redacted_evidence = e,
        xq_approved_metadata = xc_approved_metadata x, xq_requested_at_utc = xc_requested_at_utc x,
        xq_reason_codes = [R_AI_Redaction_Applied]\<rparr>))"

section \<open>Outputs\<close>

record ai_claim =
  cl_claim_id :: string
  cl_claim_text :: string
  cl_source_product_ids :: "string list"

definition ai_claim_guards :: "ai_claim \<Rightarrow> guards" where
  "ai_claim_guards c =
     require_text (cl_claim_id c) ''claim_id'' @ require_text (cl_claim_text c) ''claim_text'' @
     [(cl_source_product_ids c = [], ValueError ''source_product_ids is required''),
      (list_ex blank (cl_source_product_ids c), ValueError ''source_product_ids cannot contain blank values''),
      (\<not> distinct (cl_source_product_ids c), ValueError ''source_product_ids must be unique'')]"

record ai_action =
  xa_action_type :: ai_action_type
  xa_action_label :: string

definition ai_action_guards :: "ai_action \<Rightarrow> guards" where
  "ai_action_guards a = require_text (xa_action_label a) ''action_label''"

record ai_output =
  xo_output_id :: string
  xo_request_id :: string
  xo_workflow_pack_id :: string
  xo_workflow_pack_version :: string
  xo_explanation_text :: string
  xo_claims :: "ai_claim list"
  xo_proposed_actions :: "ai_action list"
  xo_verifier_ran_at_utc :: py_datetime

definition ai_output_guards :: "ai_output \<Rightarrow> guards" where
  "ai_output_guards x =
     require_text (xo_output_id x) ''output_id'' @ require_text (xo_request_id x) ''request_id'' @
     require_text (xo_workflow_pack_id x) ''workflow_pack_id'' @
     require_text (xo_workflow_pack_version x) ''workflow_pack_version'' @
     require_text (xo_explanation_text x) ''explanation_text'' @
     require_aware (xo_verifier_ran_at_utc x) ''verifier_ran_at_utc'' @
     [(xo_claims x = [], ValueError ''claims is required''),
      (\<not> distinct (map cl_claim_id (xo_claims x)), ValueError ''claim_ids must be unique''),
      (xo_proposed_actions x = [], ValueError ''proposed_actions is required'')]"

definition mk_ai_output :: "ai_output \<Rightarrow> ai_output res" where
  "mk_ai_output x = checks (ai_output_guards x) x"

text \<open>The advisor-visible text is made of the claims, one sentence each.\<close>

definition claim_sentence :: "string \<Rightarrow> string res" where
  "claim_sentence v =
    (let t = py_strip v in
     checks [(t = [], ValueError ''claim_text is required'')]
       (if last t \<in> set ''.?!'' then t else t @ ''.''))"

definition render_grounded_claim_narrative :: "ai_claim list \<Rightarrow> string res" where
  "render_grounded_claim_narrative claims =
     bind_res (checks [(claims = [], ValueError ''grounded claims are required''),
        (\<not> distinct (map cl_claim_id claims), ValueError ''claim_ids must be unique'')] ()) (\<lambda>_.
     bind_res (map_res (\<lambda>c. claim_sentence (cl_claim_text c)) claims) (\<lambda>ts. Inr (join '' '' ts)))"

definition claim_mapping :: "ai_claim \<Rightarrow> (string, json) dict" where
  "claim_mapping c =
     [(''claim_id'', JStr (cl_claim_id c)), (''claim_text'', JStr (cl_claim_text c)),
      (''source_product_ids'', JArr (map JStr (cl_source_product_ids c)))]"

definition action_mapping :: "ai_action \<Rightarrow> (string, json) dict" where
  "action_mapping a =
     [(''action_type'', JStr (ai_action_type_value (xa_action_type a))),
      (''submitted_action_label'', JStr (xa_action_label a))]"

definition AI_CLAIM_GROUNDING_POLICY_VERSION :: string where
  "AI_CLAIM_GROUNDING_POLICY_VERSION = ''lotus-idea.ai-claim-grounding-policy.v1''"

definition workflow_output_integrity :: "ai_request \<Rightarrow> ai_output \<Rightarrow> string option \<Rightarrow> output_integrity res" where
  "workflow_output_integrity q x provider_output_digest =
     build_ai_output_integrity
       \<lparr>yi_explanation_text = xo_explanation_text x, yi_claims = map claim_mapping (xo_claims x),
        yi_proposed_actions = map action_mapping (xo_proposed_actions x),
        yi_workflow_pack_id = xo_workflow_pack_id x,
        yi_workflow_pack_version = xo_workflow_pack_version x,
        yi_evaluation_ref = wk_evaluation_ref (xq_workflow_pack q),
        yi_action_policy_version = AI_ACTION_POLICY_VERSION, yi_output_kind = ''workflow_output'',
        yi_policy_metadata =
          [(''claim_grounding_policy'', JStr AI_CLAIM_GROUNDING_POLICY_VERSION),
           (''verifier_policy'', JStr ''deterministic_source_and_action_verifier.v1'')] @
          (case provider_output_digest of None \<Rightarrow> [] | Some d \<Rightarrow> [(''provider_output_digest'', JStr d)])\<rparr>"

section \<open>Results\<close>

record ai_result =
  xr_request :: ai_request
  xr_posture :: ai_posture
  xr_verifier_outcome :: verifier_outcome
  xr_explanation_text :: string
  xr_reason_codes :: "reason_code list"
  xr_audit_event :: audit_event
  xr_output_integrity :: output_integrity
  xr_provenance_posture :: provenance_posture
  xr_output :: "ai_output option"
  xr_fallback_reason :: "fallback_reason option"

definition ai_result_guards :: "ai_result \<Rightarrow> guards" where
  "ai_result_guards r =
     require_text (xr_explanation_text r) ''explanation_text'' @
     [(xr_reason_codes r = [], ValueError ''reason_codes is required''),
      (xr_posture r = Fallback_Used \<and> xr_fallback_reason r = None,
       ValueError ''fallback_reason is required for fallback posture''),
      (xr_posture r \<noteq> Fallback_Used \<and> xr_fallback_reason r \<noteq> None,
       ValueError ''fallback_reason requires fallback posture''),
      (xr_posture r = Fallback_Used \<and> xr_provenance_posture r \<noteq> Not_Applicable_Fallback,
       ValueError ''fallback result requires not-applicable execution provenance''),
      (xr_posture r \<noteq> Fallback_Used \<and> xr_provenance_posture r = Not_Applicable_Fallback,
       ValueError ''evaluated workflow output requires execution provenance posture'')]"

definition mk_ai_result :: "ai_result \<Rightarrow> ai_result res" where
  "mk_ai_result r = checks (ai_result_guards r) r"

definition fallback_used :: "ai_result \<Rightarrow> bool" where
  "fallback_used r \<longleftrightarrow> xr_fallback_reason r \<noteq> None"

definition grants_downstream_authority :: "ai_result \<Rightarrow> bool" where
  "grants_downstream_authority r = False"

definition ai_audit_event ::
    "ai_request \<Rightarrow> ai_posture \<Rightarrow> verifier_outcome \<Rightarrow> string \<Rightarrow> py_datetime \<Rightarrow>
     ai_action_reason option \<Rightarrow> output_integrity \<Rightarrow> audit_event res" where
  "ai_audit_event q posture verifier outcome occurred_at_utc reason y =
     mk_audit_event ''idea.ai_explanation.evaluated'' (xq_actor_subject q) outcome occurred_at_utc
       [(''evidence_packet_id'', xe_evidence_packet_id (xq_redacted_evidence q)),
        (''source_revision_vector_digest'', xe_source_revision_vector_digest (xq_redacted_evidence q)),
        (''source_cut_posture'', cut_value (xe_source_cut_posture (xq_redacted_evidence q))),
        (''fallback_used'', if posture = Fallback_Used then ''true'' else ''false''),
        (''posture'', ai_posture_value posture),
        (''purpose'', ai_purpose_value (wk_purpose (xq_workflow_pack q))),
        (''verifier_outcome'', verifier_value verifier),
        (''workflow_pack_id'', wk_workflow_pack_id (xq_workflow_pack q)),
        (''workflow_pack_version'', wk_workflow_pack_version (xq_workflow_pack q)),
        (''action_policy_version'', AI_ACTION_POLICY_VERSION),
        (''action_policy_reason'', case reason of None \<Rightarrow> ''not_run'' | Some x \<Rightarrow> ai_action_reason_value x),
        (''output_integrity_version'', oy_version y), (''output_content_digest'', oy_digest y),
        (''execution_provenance_posture'',
         provenance_value (if posture = Fallback_Used then Not_Applicable_Fallback
                           else Unattested_Local_Test_Fixture))]"

definition fallback_text :: "redacted_evidence \<Rightarrow> string" where
  "fallback_text e =
     ''AI explanation is unavailable. Use deterministic evidence: '' @ family_value (xe_family e) @
     '', supportability '' @ supportability_value (xe_supportability e) @ '', reason codes '' @
     join '', '' (map reason_value (xe_reason_codes e)) @ ''.''"

definition deterministic_ai_fallback :: "ai_request \<Rightarrow> fallback_reason \<Rightarrow> py_datetime \<Rightarrow> ai_result res" where
  "deterministic_ai_fallback q reason occurred_at_utc =
     bind_res (checks (require_aware occurred_at_utc ''occurred_at_utc'') ()) (\<lambda>_.
     let text = fallback_text (xq_redacted_evidence q) in
     bind_res (build_ai_output_integrity
       \<lparr>yi_explanation_text = text, yi_claims = [], yi_proposed_actions = [],
        yi_workflow_pack_id = wk_workflow_pack_id (xq_workflow_pack q),
        yi_workflow_pack_version = wk_workflow_pack_version (xq_workflow_pack q),
        yi_evaluation_ref = wk_evaluation_ref (xq_workflow_pack q),
        yi_action_policy_version = AI_ACTION_POLICY_VERSION, yi_output_kind = ''fallback'',
        yi_policy_metadata = [(''fallback_reason'', JStr (fallback_value reason))]\<rparr>) (\<lambda>y.
     bind_res (ai_audit_event q Fallback_Used Verifier_Not_Run ''fallback'' occurred_at_utc None y) (\<lambda>a.
     mk_ai_result
       \<lparr>xr_request = q, xr_posture = Fallback_Used, xr_verifier_outcome = Verifier_Not_Run,
        xr_explanation_text = text, xr_reason_codes = [R_AI_Fallback_Used], xr_audit_event = a,
        xr_output_integrity = y, xr_provenance_posture = Not_Applicable_Fallback, xr_output = None,
        xr_fallback_reason = Some reason\<rparr>)))"

section \<open>Evaluating an output\<close>

definition ensure_output_matches_request :: "ai_request \<Rightarrow> ai_output \<Rightarrow> guards" where
  "ensure_output_matches_request q x =
     [(xo_request_id x \<noteq> xq_request_id q,
       InvalidAIWorkflowOutput ''output request_id does not match request''),
      (xo_workflow_pack_id x \<noteq> wk_workflow_pack_id (xq_workflow_pack q),
       InvalidAIWorkflowOutput ''output workflow_pack_id does not match request''),
      (xo_workflow_pack_version x \<noteq> wk_workflow_pack_version (xq_workflow_pack q),
       InvalidAIWorkflowOutput ''output workflow_pack_version does not match request'')]"

definition action_decisions :: "ai_output \<Rightarrow> action_decision list" where
  "action_decisions x =
     map (\<lambda>a. evaluate_ai_action_policy (xa_action_type a) (xa_action_label a)) (xo_proposed_actions x)"

definition sanitized_actions :: "ai_output \<Rightarrow> ai_action list" where
  "sanitized_actions x =
     map (\<lambda>(a, d). \<lparr>xa_action_type = xa_action_type a, xa_action_label = ac_canonical_label d\<rparr>)
       (zip (xo_proposed_actions x) (action_decisions x))"

definition sanitized_output_of :: "ai_output \<Rightarrow> ai_output res" where
  \<comment> \<open>the second half of \<open>_evaluate_ai_workflow_action_policy\<close>\<close>
  "sanitized_output_of x =
     bind_res (map_res (\<lambda>a. checks (ai_action_guards a) a) (sanitized_actions x)) (\<lambda>as.
     mk_ai_output (x\<lparr>xo_proposed_actions := as\<rparr>))"

definition blocked_ai_explanation :: "reason_code \<Rightarrow> string res" where
  "blocked_ai_explanation r =
    (if r = R_AI_Unsupported_Claim_Blocked
     then Inr ''AI explanation was blocked because one or more claims lacked approved evidence bindings.''
     else if r = R_AI_Forbidden_Action_Blocked
     then Inr ''AI explanation was blocked because it proposed an action outside the Idea authority boundary.''
     else if r = R_AI_Action_Content_Blocked
     then Inr ''AI explanation was blocked because proposed action content violated the governed action policy.''
     else Inl (ValueError ''unsupported blocked AI reason code''))"

definition blocked_ai_result ::
    "ai_request \<Rightarrow> ai_output \<Rightarrow> ai_posture \<Rightarrow> verifier_outcome \<Rightarrow> reason_code \<Rightarrow> ai_action_reason \<Rightarrow>
     output_integrity \<Rightarrow> ai_result res" where
  "blocked_ai_result q x posture verifier reason_code action_reason y =
     bind_res (blocked_ai_explanation reason_code) (\<lambda>text.
     bind_res (mk_ai_output (x\<lparr>xo_explanation_text := text\<rparr>)) (\<lambda>sanitized.
     bind_res (ai_audit_event q posture verifier ''blocked'' (xo_verifier_ran_at_utc x) (Some action_reason) y) (\<lambda>a.
     mk_ai_result
       \<lparr>xr_request = q, xr_posture = posture, xr_verifier_outcome = verifier,
        xr_explanation_text = text, xr_reason_codes = [reason_code], xr_audit_event = a,
        xr_output_integrity = y, xr_provenance_posture = Unattested_Local_Test_Fixture,
        xr_output = Some sanitized, xr_fallback_reason = None\<rparr>)))"

definition action_policy_blocker_result ::
    "ai_request \<Rightarrow> ai_output \<Rightarrow> action_decision list \<Rightarrow> output_integrity \<Rightarrow> ai_result option res" where
  "action_policy_blocker_result q sanitized decisions y =
    (if list_ex (\<lambda>d. ac_reason d = Forbidden_Action_Type) decisions
     then bind_res (blocked_ai_result q sanitized Blocked_Forbidden_Action Failed_Forbidden_Action
            R_AI_Forbidden_Action_Blocked Forbidden_Action_Type y) (\<lambda>r. Inr (Some r))
     else case List.find (\<lambda>d. \<not> ac_allowed d) decisions of
       Some d \<Rightarrow> bind_res (blocked_ai_result q sanitized Blocked_Forbidden_Action Failed_Action_Content
            R_AI_Action_Content_Blocked (ac_reason d) y) (\<lambda>r. Inr (Some r))
     | None \<Rightarrow> Inr None)"

definition unsupported_claims :: "ai_request \<Rightarrow> ai_output \<Rightarrow> ai_claim list" where
  "unsupported_claims q x =
     filter (\<lambda>c. \<not> set (cl_source_product_ids c) \<subseteq> source_product_ids (xq_redacted_evidence q)) (xo_claims x)"

definition unsupported_claim_blocker_result :: "ai_request \<Rightarrow> ai_output \<Rightarrow> output_integrity \<Rightarrow> ai_result res" where
  "unsupported_claim_blocker_result q x y =
     blocked_ai_result q x Blocked_Unsupported_Claim Failed_Unsupported_Claim
       R_AI_Unsupported_Claim_Blocked Action_Allowed y"

definition accepted_ai_workflow_result :: "ai_request \<Rightarrow> ai_output \<Rightarrow> output_integrity \<Rightarrow> ai_result res" where
  "accepted_ai_workflow_result q x provider =
     bind_res (render_grounded_claim_narrative (xo_claims x)) (\<lambda>text.
     bind_res (mk_ai_output (x\<lparr>xo_explanation_text := text\<rparr>)) (\<lambda>grounded.
     bind_res (workflow_output_integrity q grounded (Some (oy_digest provider))) (\<lambda>y.
     bind_res (ai_audit_event q Ready_For_Advisor_Review Verifier_Passed ''accepted''
        (xo_verifier_ran_at_utc grounded) (Some Action_Allowed) y) (\<lambda>a.
     mk_ai_result
       \<lparr>xr_request = q, xr_posture = Ready_For_Advisor_Review, xr_verifier_outcome = Verifier_Passed,
        xr_explanation_text = xo_explanation_text grounded, xr_reason_codes = [R_AI_Verifier_Passed],
        xr_audit_event = a, xr_output_integrity = y,
        xr_provenance_posture = Unattested_Local_Test_Fixture, xr_output = Some grounded,
        xr_fallback_reason = None\<rparr>))))"

definition evaluate_ai_workflow_output :: "ai_request \<Rightarrow> ai_output \<Rightarrow> ai_result res" where
  "evaluate_ai_workflow_output q x =
     bind_res (checks (ensure_output_matches_request q x) ()) (\<lambda>_.
     bind_res (workflow_output_integrity q x None) (\<lambda>y.
     bind_res (sanitized_output_of x) (\<lambda>sanitized.
     bind_res (action_policy_blocker_result q sanitized (action_decisions x) y) (\<lambda>blocker.
     case blocker of
       Some r \<Rightarrow> Inr r
     | None \<Rightarrow>
         if unsupported_claims q sanitized \<noteq> []
         then unsupported_claim_blocker_result q sanitized y
         else accepted_ai_workflow_result q sanitized y))))"

end
