(* ===== verification/AI_Lineage.thy ===== *)
theory AI_Lineage
imports AI_Governance Repository
begin

text \<open>
  The lineage of AI explanations: verified receipts of workflow runs and of provider retention
  (\<open>lotus_ai_run_attestation.py\<close>, \<open>ai_provider_retention.py\<close>), the indexes that keep a
  receipt from serving two requests (\<open>lotus_ai_attestation_replay.py\<close>,
  \<open>ai_provider_retention_replay.py\<close>), the lineage record with its hash
  (\<open>ai_lineage_persistence.py\<close>) and the repository methods that file it under an idempotency
  key (\<open>persistence_ai_lineage.py\<close>, \<open>ai_lineage_idempotency.py\<close>).
\<close>

section \<open>Receipts\<close>

definition is_sha256_hex :: "string \<Rightarrow> bool" where
  \<comment> \<open>\<open>_SHA256.fullmatch\<close>\<close>
  "is_sha256_hex v \<longleftrightarrow> length v = 64 \<and> list_all is_hex v"

record attestation_receipt =
  at_run_id :: string
  at_consumer_request_id :: string
  at_replay_nonce :: string
  at_key_id :: string
  at_rotation_epoch :: int
  at_provider_id :: string
  at_provider_mode :: string
  at_model_id :: string
  at_model_version :: string
  at_model_risk_approval_ref :: string
  at_evaluator_id :: string
  at_evaluator_policy_version :: string
  at_input_evidence_sha256 :: string
  at_output_content_sha256 :: string
  at_issued_at_utc :: py_datetime
  at_expires_at_utc :: py_datetime
  at_verified_at_utc :: py_datetime

definition require_sha256_hex :: "string \<Rightarrow> string \<Rightarrow> guards" where
  "require_sha256_hex v field_name =
     [(\<not> is_sha256_hex v, ValueError (field_name @ '' must be a lowercase SHA-256 digest''))]"

definition attestation_receipt_guards :: "attestation_receipt \<Rightarrow> guards" where
  "attestation_receipt_guards r =
     require_text (at_run_id r) ''run_id'' @
     require_text (at_consumer_request_id r) ''consumer_request_id'' @
     require_text (at_key_id r) ''key_id'' @ require_text (at_provider_id r) ''provider_id'' @
     require_text (at_provider_mode r) ''provider_mode'' @ require_text (at_model_id r) ''model_id'' @
     require_text (at_model_version r) ''model_version'' @
     require_text (at_model_risk_approval_ref r) ''model_risk_approval_ref'' @
     require_text (at_evaluator_id r) ''evaluator_id'' @
     require_text (at_evaluator_policy_version r) ''evaluator_policy_version'' @
     [(at_rotation_epoch r < 1, ValueError ''rotation_epoch must be positive'')] @
     require_sha256_hex (at_replay_nonce r) ''replay_nonce'' @
     require_sha256_hex (at_input_evidence_sha256 r) ''input_evidence_sha256'' @
     require_sha256_hex (at_output_content_sha256 r) ''output_content_sha256'' @
     require_aware (at_issued_at_utc r) ''issued_at_utc'' @
     require_aware (at_expires_at_utc r) ''expires_at_utc'' @
     require_aware (at_verified_at_utc r) ''verified_at_utc'' @
     [(\<not> (dt_le (at_issued_at_utc r) (at_verified_at_utc r) \<and>
          dt_less (at_verified_at_utc r) (at_expires_at_utc r)),
       ValueError ''verified receipt must be inside the attestation validity window'')]"

datatype retention_outcome = No_Provider_Storage | Retention_Confirmed | Deletion_Confirmed | Provider_Failure

fun retention_value :: "retention_outcome \<Rightarrow> string" where
  "retention_value No_Provider_Storage = ''NO_PROVIDER_STORAGE''"
| "retention_value Retention_Confirmed = ''RETENTION_CONFIRMED''"
| "retention_value Deletion_Confirmed = ''DELETION_CONFIRMED''"
| "retention_value Provider_Failure = ''PROVIDER_FAILURE''"

record retention_receipt =
  nr_confirmation_id :: string
  nr_workflow_run_id :: string
  nr_tenant_id :: string
  nr_provider_confirmation_ref :: string
  nr_retention_policy_id :: string
  nr_outcome :: retention_outcome
  nr_evidence_sha256 :: string
  nr_provider_failure_code :: "string option"
  nr_deletion_confirmed :: bool
  nr_supportability_status :: string
  nr_replay_nonce :: string
  nr_key_id :: string
  nr_rotation_epoch :: int
  nr_provider_decision_at_utc :: py_datetime
  nr_issued_at_utc :: py_datetime
  nr_expires_at_utc :: py_datetime
  nr_verified_at_utc :: py_datetime

definition is_retention_reference :: "string \<Rightarrow> bool" where
  \<comment> \<open>\<open>^[A-Za-z0-9][A-Za-z0-9._:/-]{2,255}$\<close> as a full match\<close>
  "is_retention_reference v \<longleftrightarrow>
     3 \<le> length v \<and> length v \<le> 256 \<and> is_alnum (hd v) \<and>
     list_all (\<lambda>c. is_alnum c \<or> c \<in> set ''._:/-'') (tl v)"

definition require_retention_reference :: "string \<Rightarrow> string \<Rightarrow> guards" where
  "require_retention_reference v field_name =
     [(\<not> is_retention_reference v, ValueError (field_name @ '' must be a source-safe reference''))]"

definition require_retention_utc :: "py_datetime \<Rightarrow> string \<Rightarrow> guards" where
  "require_retention_utc t field_name =
     [(utc_off t \<noteq> Some 0, ValueError (field_name @ '' must be timezone-aware UTC''))]"

definition retention_receipt_guards :: "retention_receipt \<Rightarrow> guards" where
  "retention_receipt_guards r =
     require_retention_reference (nr_confirmation_id r) ''confirmation_id'' @
     require_retention_reference (nr_workflow_run_id r) ''workflow_run_id'' @
     require_retention_reference (nr_tenant_id r) ''tenant_id'' @
     require_retention_reference (nr_provider_confirmation_ref r) ''provider_confirmation_ref'' @
     require_retention_reference (nr_retention_policy_id r) ''retention_policy_id'' @
     require_retention_reference (nr_supportability_status r) ''supportability_status'' @
     require_retention_reference (nr_key_id r) ''key_id'' @
     require_sha256_hex (nr_evidence_sha256 r) ''evidence_sha256'' @
     require_sha256_hex (nr_replay_nonce r) ''replay_nonce'' @
     [(nr_rotation_epoch r < 1, ValueError ''rotation_epoch must be positive'')] @
     require_retention_utc (nr_provider_decision_at_utc r) ''provider_decision_at_utc'' @
     require_retention_utc (nr_issued_at_utc r) ''issued_at_utc'' @
     require_retention_utc (nr_expires_at_utc r) ''expires_at_utc'' @
     require_retention_utc (nr_verified_at_utc r) ''verified_at_utc'' @
     [(\<not> (dt_le (nr_issued_at_utc r) (nr_verified_at_utc r) \<and>
          dt_less (nr_verified_at_utc r) (nr_expires_at_utc r)),
       ValueError ''verified provider retention receipt is outside its validity window'')]"

section \<open>The replay indexes\<close>

record attestation_index =
  aj_request_by_run_id :: "(string, string) dict"
  aj_request_by_nonce :: "(string, string) dict"

definition empty_attestation_index :: attestation_index where
  "empty_attestation_index = \<lparr>aj_request_by_run_id = [], aj_request_by_nonce = []\<rparr>"

definition other_request :: "string \<Rightarrow> string option \<Rightarrow> bool" where
  \<comment> \<open>\<open>existing_request_id not in {None, request_id}\<close>\<close>
  "other_request request_id existing \<longleftrightarrow> existing \<notin> {None, Some request_id}"

definition attestation_conflicts :: "string \<Rightarrow> attestation_receipt \<Rightarrow> attestation_index \<Rightarrow> bool" where
  "attestation_conflicts request_id r i \<longleftrightarrow>
     list_ex (other_request request_id)
       [d_get (aj_request_by_run_id i) (at_run_id r), d_get (aj_request_by_nonce i) (at_replay_nonce r)]"

definition attestation_record :: "string \<Rightarrow> attestation_receipt \<Rightarrow> attestation_index \<Rightarrow> attestation_index" where
  "attestation_record request_id r i =
     \<lparr>aj_request_by_run_id = d_put (at_run_id r) request_id (aj_request_by_run_id i),
      aj_request_by_nonce = d_put (at_replay_nonce r) request_id (aj_request_by_nonce i)\<rparr>"

fun attestation_restore ::
    "(string \<times> attestation_receipt) list \<Rightarrow> attestation_index \<Rightarrow> attestation_index res" where
  "attestation_restore [] i = Inr i"
| "attestation_restore ((request_id, r) # es) i =
     (if attestation_conflicts request_id r i
      then Inl (ValueError ''snapshot contains duplicate lotus-ai attestation identity'')
      else attestation_restore es (attestation_record request_id r i))"

record retention_index =
  nj_request_by_confirmation_id :: "(string, string) dict"
  nj_request_by_provider_ref :: "(string, string) dict"
  nj_request_by_nonce :: "(string, string) dict"

definition empty_retention_index :: retention_index where
  "empty_retention_index =
     \<lparr>nj_request_by_confirmation_id = [], nj_request_by_provider_ref = [], nj_request_by_nonce = []\<rparr>"

definition retention_conflicts :: "string \<Rightarrow> retention_receipt \<Rightarrow> retention_index \<Rightarrow> bool" where
  "retention_conflicts request_id r i \<longleftrightarrow>
     list_ex (other_request request_id)
       [d_get (nj_request_by_confirmation_id i) (nr_confirmation_id r),
        d_get (nj_request_by_provider_ref i) (nr_provider_confirmation_ref r),
        d_get (nj_request_by_nonce i) (nr_replay_nonce r)]"

definition retention_record :: "string \<Rightarrow> retention_receipt \<Rightarrow> retention_index \<Rightarrow> retention_index" where
  "retention_record request_id r i =
     \<lparr>nj_request_by_confirmation_id =
        d_put (nr_confirmation_id r) request_id (nj_request_by_confirmation_id i),
      nj_request_by_provider_ref =
        d_put (nr_provider_confirmation_ref r) request_id (nj_request_by_provider_ref i),
      nj_request_by_nonce = d_put (nr_replay_nonce r) request_id (nj_request_by_nonce i)\<rparr>"

fun retention_restore :: "(string \<times> retention_receipt) list \<Rightarrow> retention_index \<Rightarrow> retention_index res" where
  "retention_restore [] i = Inr i"
| "retention_restore ((request_id, r) # es) i =
     (if retention_conflicts request_id r i
      then Inl (ValueError ''snapshot contains duplicate AI provider retention identity'')
      else retention_restore es (retention_record request_id r i))"

section \<open>The lineage record\<close>

record ai_lineage =
  al_request_id :: string
  al_candidate_id :: string
  al_evidence_packet_id :: string
  al_evidence_content_hash :: string
  al_source_revision_vector_digest :: string
  al_source_cut_posture :: string
  al_workflow_pack_id :: string
  al_workflow_pack_version :: string
  al_purpose :: string
  al_posture :: string
  al_verifier_outcome :: string
  al_fallback_used :: bool
  al_fallback_reason :: "string option"
  al_reason_codes :: "string list"
  al_output_id :: "string option"
  al_claim_ids :: "string list"
  al_proposed_action_types :: "string list"
  al_action_policy_version :: string
  al_output_integrity_version :: string
  al_output_content_digest :: string
  al_execution_provenance_posture :: string
  al_actor_subject :: string
  al_requested_at_utc :: py_datetime
  al_evaluated_at_utc :: py_datetime
  al_grants_downstream_authority :: bool
  al_lineage_hash :: string
  al_attestation_receipt :: "attestation_receipt option"
  al_provider_retention_receipt :: "retention_receipt option"

definition provenance_values :: "string list" where
  "provenance_values = map provenance_value
     [Not_Applicable_Fallback, Unattested_Local_Test_Fixture, Pre_Attestation_Unverifiable,
      Lotus_AI_Attestation_Verified]"

definition cut_values :: "string list" where
  "cut_values = map cut_value [Cut_Coherent, Cut_Coherent_Tolerance, Cut_Mixed, Cut_Partial, Cut_Unknown]"

definition ai_lineage_guards :: "ai_lineage \<Rightarrow> guards" where
  "ai_lineage_guards l =
     require_text (al_request_id l) ''request_id'' @ require_text (al_candidate_id l) ''candidate_id'' @
     require_text (al_evidence_packet_id l) ''evidence_packet_id'' @
     require_text (al_evidence_content_hash l) ''evidence_content_hash'' @
     require_text (al_source_revision_vector_digest l) ''source_revision_vector_digest'' @
     require_text (al_source_cut_posture l) ''source_cut_posture'' @
     require_text (al_workflow_pack_id l) ''workflow_pack_id'' @
     require_text (al_workflow_pack_version l) ''workflow_pack_version'' @
     require_text (al_purpose l) ''purpose'' @ require_text (al_posture l) ''posture'' @
     require_text (al_verifier_outcome l) ''verifier_outcome'' @
     require_text (al_actor_subject l) ''actor_subject'' @
     require_text (al_action_policy_version l) ''action_policy_version'' @
     require_text (al_output_integrity_version l) ''output_integrity_version'' @
     require_text (al_output_content_digest l) ''output_content_digest'' @
     require_text (al_execution_provenance_posture l) ''execution_provenance_posture'' @
     require_text (al_lineage_hash l) ''lineage_hash'' @
     require_opt_text (al_fallback_reason l) ''fallback_reason'' @
     [(al_reason_codes l = [], ValueError ''reason_codes is required'')] @
     require_aware (al_requested_at_utc l) ''requested_at_utc'' @
     require_aware (al_evaluated_at_utc l) ''evaluated_at_utc'' @
     output_integrity_guards
       \<lparr>oy_version = al_output_integrity_version l, oy_digest = al_output_content_digest l\<rparr> @
     [(al_execution_provenance_posture l \<notin> set provenance_values,
       ValueError (py_repr (al_execution_provenance_posture l) @
         '' is not a valid AIExecutionProvenancePosture'')),
      (al_source_cut_posture l \<notin> set cut_values,
       ValueError (py_repr (al_source_cut_posture l) @ '' is not a valid SourceCutPosture'')),
      ((al_execution_provenance_posture l = provenance_value Lotus_AI_Attestation_Verified) \<noteq>
         (al_attestation_receipt l \<noteq> None),
       ValueError ''verified execution provenance and attestation receipt must be present together'')]"

definition iso_json :: "py_datetime \<Rightarrow> json" where
  "iso_json t = JStr (dt_iso t)"

definition attestation_receipt_payload :: "attestation_receipt \<Rightarrow> json" where
  "attestation_receipt_payload r = JObj
     [(''run_id'', JStr (at_run_id r)), (''consumer_request_id'', JStr (at_consumer_request_id r)),
      (''replay_nonce'', JStr (at_replay_nonce r)), (''key_id'', JStr (at_key_id r)),
      (''rotation_epoch'', JInt (at_rotation_epoch r)), (''provider_id'', JStr (at_provider_id r)),
      (''provider_mode'', JStr (at_provider_mode r)), (''model_id'', JStr (at_model_id r)),
      (''model_version'', JStr (at_model_version r)),
      (''model_risk_approval_ref'', JStr (at_model_risk_approval_ref r)),
      (''evaluator_id'', JStr (at_evaluator_id r)),
      (''evaluator_policy_version'', JStr (at_evaluator_policy_version r)),
      (''input_evidence_sha256'', JStr (at_input_evidence_sha256 r)),
      (''output_content_sha256'', JStr (at_output_content_sha256 r)),
      (''issued_at_utc'', iso_json (at_issued_at_utc r)),
      (''expires_at_utc'', iso_json (at_expires_at_utc r)),
      (''verified_at_utc'', iso_json (at_verified_at_utc r))]"

definition ai_provider_retention_receipt_to_mapping :: "retention_receipt \<Rightarrow> json" where
  "ai_provider_retention_receipt_to_mapping r = JObj
     [(''confirmation_id'', JStr (nr_confirmation_id r)),
      (''workflow_run_id'', JStr (nr_workflow_run_id r)), (''tenant_id'', JStr (nr_tenant_id r)),
      (''provider_confirmation_ref'', JStr (nr_provider_confirmation_ref r)),
      (''retention_policy_id'', JStr (nr_retention_policy_id r)),
      (''outcome'', JStr (retention_value (nr_outcome r))),
      (''evidence_sha256'', JStr (nr_evidence_sha256 r)),
      (''provider_failure_code'', opt_json (nr_provider_failure_code r)),
      (''deletion_confirmed'', JBool (nr_deletion_confirmed r)),
      (''supportability_status'', JStr (nr_supportability_status r)),
      (''replay_nonce'', JStr (nr_replay_nonce r)), (''key_id'', JStr (nr_key_id r)),
      (''rotation_epoch'', JInt (nr_rotation_epoch r)),
      (''provider_decision_at_utc'', iso_json (nr_provider_decision_at_utc r)),
      (''issued_at_utc'', iso_json (nr_issued_at_utc r)),
      (''expires_at_utc'', iso_json (nr_expires_at_utc r)),
      (''verified_at_utc'', iso_json (nr_verified_at_utc r))]"

definition receipts_payload ::
    "attestation_receipt option \<Rightarrow> retention_receipt option \<Rightarrow> (string, json) dict" where
  \<comment> \<open>the entries both payload functions add last\<close>
  "receipts_payload attestation retention =
     (case attestation of None \<Rightarrow> [] | Some r \<Rightarrow> [(''attestation_receipt'', attestation_receipt_payload r)]) @
     (case retention of None \<Rightarrow> [] | Some r \<Rightarrow>
        [(''provider_retention_receipt'', ai_provider_retention_receipt_to_mapping r)])"

definition lineage_hash_payload :: "(string, json) dict \<Rightarrow> string" where
  \<comment> \<open>\<open>_hash_payload\<close>\<close>
  "lineage_hash_payload p = ''sha256:'' @ sha256_json (JObj p)"

definition output_claim_ids :: "ai_output option \<Rightarrow> string list" where
  "output_claim_ids x = (case x of None \<Rightarrow> [] | Some y \<Rightarrow> map cl_claim_id (xo_claims y))"

definition output_action_types :: "ai_output option \<Rightarrow> string list" where
  "output_action_types x =
     (case x of None \<Rightarrow> []
      | Some y \<Rightarrow> map (\<lambda>a. ai_action_type_value (xa_action_type a)) (xo_proposed_actions y))"

definition lineage_payload_from_result ::
    "ai_result \<Rightarrow> py_datetime \<Rightarrow> attestation_receipt option \<Rightarrow> retention_receipt option \<Rightarrow>
     (string, json) dict" where
  "lineage_payload_from_result r evaluated_at_utc attestation retention =
    (let q = xr_request r; e = xq_redacted_evidence q; k = xq_workflow_pack q in
     [(''actor_subject'', JStr (xq_actor_subject q)), (''candidate_id'', JStr (xe_candidate_id e)),
      (''claim_ids'', JArr (map JStr (output_claim_ids (xr_output r)))),
      (''evidence_content_hash'', JStr (xe_evidence_content_hash e)),
      (''source_revision_vector_digest'', JStr (xe_source_revision_vector_digest e)),
      (''source_cut_posture'', JStr (cut_value (xe_source_cut_posture e))),
      (''evidence_packet_id'', JStr (xe_evidence_packet_id e)),
      (''fallback_reason'', opt_json (map_option fallback_value (xr_fallback_reason r))),
      (''fallback_used'', JBool (fallback_used r)),
      (''grants_downstream_authority'', JBool (grants_downstream_authority r)),
      (''output_id'', opt_json (map_option xo_output_id (xr_output r))),
      (''posture'', JStr (ai_posture_value (xr_posture r))),
      (''proposed_action_types'', JArr (map JStr (output_action_types (xr_output r)))),
      (''action_policy_version'', JStr AI_ACTION_POLICY_VERSION),
      (''output_integrity_version'', JStr (oy_version (xr_output_integrity r))),
      (''output_content_digest'', JStr (oy_digest (xr_output_integrity r))),
      (''execution_provenance_posture'', JStr (provenance_value (xr_provenance_posture r))),
      (''purpose'', JStr (ai_purpose_value (wk_purpose k))),
      (''reason_codes'', JArr (map (\<lambda>x. JStr (reason_value x)) (xr_reason_codes r))),
      (''request_id'', JStr (xq_request_id q)), (''requested_at_utc'', iso_json (xq_requested_at_utc q)),
      (''evaluated_at_utc'', iso_json evaluated_at_utc),
      (''verifier_outcome'', JStr (verifier_value (xr_verifier_outcome r))),
      (''workflow_pack_id'', JStr (wk_workflow_pack_id k)),
      (''workflow_pack_version'', JStr (wk_workflow_pack_version k))] @
     receipts_payload attestation retention)"

definition lineage_payload_from_record :: "ai_lineage \<Rightarrow> (string, json) dict" where
  "lineage_payload_from_record l =
     [(''actor_subject'', JStr (al_actor_subject l)), (''candidate_id'', JStr (al_candidate_id l)),
      (''claim_ids'', JArr (map JStr (al_claim_ids l))),
      (''evidence_content_hash'', JStr (al_evidence_content_hash l)),
      (''source_revision_vector_digest'', JStr (al_source_revision_vector_digest l)),
      (''source_cut_posture'', JStr (al_source_cut_posture l)),
      (''evidence_packet_id'', JStr (al_evidence_packet_id l)),
      (''fallback_reason'', opt_json (al_fallback_reason l)),
      (''fallback_used'', JBool (al_fallback_used l)),
      (''grants_downstream_authority'', JBool (al_grants_downstream_authority l)),
      (''output_id'', opt_json (al_output_id l)), (''posture'', JStr (al_posture l)),
      (''proposed_action_types'', JArr (map JStr (al_proposed_action_types l))),
      (''action_policy_version'', JStr (al_action_policy_version l)),
      (''output_integrity_version'', JStr (al_output_integrity_version l)),
      (''output_content_digest'', JStr (al_output_content_digest l)),
      (''execution_provenance_posture'', JStr (al_execution_provenance_posture l)),
      (''purpose'', JStr (al_purpose l)), (''reason_codes'', JArr (map JStr (al_reason_codes l))),
      (''request_id'', JStr (al_request_id l)), (''requested_at_utc'', iso_json (al_requested_at_utc l)),
      (''evaluated_at_utc'', iso_json (al_evaluated_at_utc l)),
      (''verifier_outcome'', JStr (al_verifier_outcome l)),
      (''workflow_pack_id'', JStr (al_workflow_pack_id l)),
      (''workflow_pack_version'', JStr (al_workflow_pack_version l))] @
     receipts_payload (al_attestation_receipt l) (al_provider_retention_receipt l)"

definition verify_ai_explanation_lineage_record_integrity :: "ai_lineage \<Rightarrow> unit res" where
  "verify_ai_explanation_lineage_record_integrity l =
    (if al_output_integrity_version l \<noteq> ''lotus-idea.ai-output-integrity.v1'' then Inr ()
     else if al_execution_provenance_posture l = provenance_value Pre_Attestation_Unverifiable then Inr ()
     else checks [(al_lineage_hash l \<noteq> lineage_hash_payload (lineage_payload_from_record l),
        ValueError ''AI explanation lineage hash does not match persisted content'')] ())"

definition validate_ai_lineage_receipts ::
    "ai_result \<Rightarrow> attestation_receipt option \<Rightarrow> retention_receipt option \<Rightarrow> guards" where
  "validate_ai_lineage_receipts r attestation retention =
     opt_guards attestation (\<lambda>a.
       [(at_consumer_request_id a \<noteq> xq_request_id (xr_request r),
         ValueError ''attestation receipt request does not match AI explanation request'')]) @
     opt_guards retention (\<lambda>n.
       (case attestation of
          None \<Rightarrow> [(True, ValueError ''provider retention receipt requires a verified run attestation'')]
        | Some a \<Rightarrow>
            [(nr_workflow_run_id n \<noteq> at_run_id a,
              ValueError ''provider retention receipt run does not match run attestation'')]))"

definition ai_lineage_evaluated_at_utc :: "ai_result \<Rightarrow> py_datetime" where
  "ai_lineage_evaluated_at_utc r =
     (case xr_output r of Some x \<Rightarrow> xo_verifier_ran_at_utc x
      | None \<Rightarrow> au_occurred_at_utc (xr_audit_event r))"

definition ai_lineage_of_result ::
    "ai_result \<Rightarrow> py_datetime \<Rightarrow> string \<Rightarrow> attestation_receipt option \<Rightarrow> retention_receipt option \<Rightarrow>
     ai_lineage res" where
  \<comment> \<open>\<open>_ai_lineage_record_from_result\<close>\<close>
  "ai_lineage_of_result r evaluated_at_utc h attestation retention =
    (let q = xr_request r; e = xq_redacted_evidence q; k = xq_workflow_pack q;
         l = \<lparr>al_request_id = xq_request_id q, al_candidate_id = xe_candidate_id e,
              al_evidence_packet_id = xe_evidence_packet_id e,
              al_evidence_content_hash = xe_evidence_content_hash e,
              al_source_revision_vector_digest = xe_source_revision_vector_digest e,
              al_source_cut_posture = cut_value (xe_source_cut_posture e),
              al_workflow_pack_id = wk_workflow_pack_id k,
              al_workflow_pack_version = wk_workflow_pack_version k,
              al_purpose = ai_purpose_value (wk_purpose k),
              al_posture = ai_posture_value (xr_posture r),
              al_verifier_outcome = verifier_value (xr_verifier_outcome r),
              al_fallback_used = fallback_used r,
              al_fallback_reason = map_option fallback_value (xr_fallback_reason r),
              al_reason_codes = map reason_value (xr_reason_codes r),
              al_output_id = map_option xo_output_id (xr_output r),
              al_claim_ids = output_claim_ids (xr_output r),
              al_proposed_action_types = output_action_types (xr_output r),
              al_action_policy_version = AI_ACTION_POLICY_VERSION,
              al_output_integrity_version = oy_version (xr_output_integrity r),
              al_output_content_digest = oy_digest (xr_output_integrity r),
              al_execution_provenance_posture = provenance_value (xr_provenance_posture r),
              al_actor_subject = xq_actor_subject q, al_requested_at_utc = xq_requested_at_utc q,
              al_evaluated_at_utc = evaluated_at_utc,
              al_grants_downstream_authority = grants_downstream_authority r,
              al_lineage_hash = h, al_attestation_receipt = attestation,
              al_provider_retention_receipt = retention\<rparr>
     in checks (ai_lineage_guards l) l)"

definition ai_explanation_lineage_record_from_result ::
    "ai_result \<Rightarrow> attestation_receipt option \<Rightarrow> retention_receipt option \<Rightarrow> ai_lineage res" where
  "ai_explanation_lineage_record_from_result r attestation retention =
     bind_res (checks (validate_ai_lineage_receipts r attestation retention) ()) (\<lambda>_.
     let t = ai_lineage_evaluated_at_utc r in
     ai_lineage_of_result r t
       (lineage_hash_payload (lineage_payload_from_result r t attestation retention)) attestation retention)"

end
