(* ===== verification/AI_Repository.thy ===== *)
theory AI_Repository
imports AI_Lineage Repository_Runs
begin

text \<open>
  The repository with its AI lineage (\<open>persistence_ai_lineage.py\<close>,
  \<open>ai_lineage_idempotency.py\<close>): the lineage records of each candidate, the candidate of each
  request and the two replay indexes. The indexes share the contract \<open>replay_index\<close>; every
  step keeps them in agreement with the stored lineage.
\<close>

section \<open>State and operations\<close>

record ai_repository =
  ax_repository :: repository
  ax_lineage_records :: "(string, ai_lineage list) dict"
  ax_lineage_candidates :: "(string, string) dict"
  ax_attestation_index :: attestation_index
  ax_retention_index :: retention_index

definition candidate_lineage :: "ai_repository \<Rightarrow> string \<Rightarrow> ai_lineage list" where
  \<comment> \<open>the field \<open>ai_explanation_lineage_records\<close> of the candidate's record\<close>
  "candidate_lineage s c = (case d_get (ax_lineage_records s) c of None \<Rightarrow> [] | Some ls \<Rightarrow> ls)"

datatype lineage_decision = Lineage_Accepted | Lineage_Replayed | Lineage_Conflict | Lineage_Not_Found

record lineage_result =
  ay_decision :: lineage_decision
  ay_record :: "persistence_record option"
  ay_lineage :: "ai_lineage option"
  ay_audit_event :: "audit_event option"

definition lineage_answer ::
    "lineage_decision \<Rightarrow> persistence_record option \<Rightarrow> ai_lineage option \<Rightarrow> lineage_result" where
  "lineage_answer d r l = \<lparr>ay_decision = d, ay_record = r, ay_lineage = l, ay_audit_event = None\<rparr>"

definition ai_explanation_lineage_by_request_id :: "ai_lineage list \<Rightarrow> string \<Rightarrow> ai_lineage option" where
  "ai_explanation_lineage_by_request_id ls request_id = List.find (\<lambda>l. al_request_id l = request_id) ls"

definition known_lineage ::
    "ai_repository \<Rightarrow> string \<Rightarrow> ai_lineage \<Rightarrow> lineage_result" where
  \<comment> \<open>the answer to a request that has a lineage already\<close>
  "known_lineage s existing_candidate l =
    (let r = d_get (rp_candidate_records (ax_repository s)) existing_candidate;
         existing = (case r of None \<Rightarrow> None | Some _ \<Rightarrow>
           ai_explanation_lineage_by_request_id (candidate_lineage s existing_candidate) (al_request_id l))
     in lineage_answer
          (if some_satisfies (\<lambda>x. al_lineage_hash x = al_lineage_hash l) existing
           then Lineage_Replayed else Lineage_Conflict) r existing)"

definition file_lineage ::
    "persistence_record \<Rightarrow> ai_lineage \<Rightarrow> attestation_receipt option \<Rightarrow> retention_receipt option \<Rightarrow>
     ai_repository \<Rightarrow> ai_repository" where
  \<comment> \<open>the writes at the end of \<open>record_ai_explanation_lineage\<close>\<close>
  "file_lineage u l attestation retention s =
     s\<lparr>ax_repository := put_record (al_candidate_id l) u (ax_repository s),
       ax_lineage_records := d_put (al_candidate_id l) (candidate_lineage s (al_candidate_id l) @ [l])
         (ax_lineage_records s),
       ax_lineage_candidates := d_put (al_request_id l) (al_candidate_id l) (ax_lineage_candidates s),
       ax_attestation_index := (case attestation of None \<Rightarrow> ax_attestation_index s
         | Some a \<Rightarrow> attestation_record (al_request_id l) a (ax_attestation_index s)),
       ax_retention_index := (case retention of None \<Rightarrow> ax_retention_index s
         | Some n \<Rightarrow> retention_record (al_request_id l) n (ax_retention_index s))\<rparr>"

definition record_ai_explanation_lineage ::
    "ai_result \<Rightarrow> attestation_receipt option \<Rightarrow> retention_receipt option \<Rightarrow>
     (ai_repository, lineage_result) act" where
  "record_ai_explanation_lineage r attestation retention =
     act_bind (act_lift (ai_explanation_lineage_record_from_result r attestation retention)) (\<lambda>l s.
     case d_get (rp_candidate_records (ax_repository s)) (al_candidate_id l) of
       None \<Rightarrow> (Inr (lineage_answer Lineage_Not_Found None None), s)
     | Some record \<Rightarrow>
         if some_satisfies (\<lambda>a. attestation_conflicts (al_request_id l) a (ax_attestation_index s)) attestation
         then (Inr (lineage_answer Lineage_Conflict (Some record) None), s)
         else if some_satisfies (\<lambda>n. retention_conflicts (al_request_id l) n (ax_retention_index s)) retention
         then (Inr (lineage_answer Lineage_Conflict (Some record) None), s)
         else (case d_get (ax_lineage_candidates s) (al_request_id l) of
           Some c \<Rightarrow> (Inr (known_lineage s c l), s)
         | None \<Rightarrow>
             act_bind (act_lift (mk_persistence_record
               (record\<lparr>pn_audit_events := pn_audit_events record @ [xr_audit_event r]\<rparr>))) (\<lambda>u.
             act_bind (act_modify (file_lineage u l attestation retention)) (\<lambda>_.
             act_return \<lparr>ay_decision = Lineage_Accepted, ay_record = Some u, ay_lineage = Some l,
               ay_audit_event = Some (xr_audit_event r)\<rparr>)) s))"

definition record_ai_explanation_lineage_request_with_idempotency ::
    "ai_result \<Rightarrow> string \<Rightarrow> (string, json) dict \<Rightarrow> string \<Rightarrow> attestation_receipt option \<Rightarrow>
     retention_receipt option \<Rightarrow> (ai_repository, lineage_result) act" where
  "record_ai_explanation_lineage_request_with_idempotency r key payload tenant_id attestation retention =
     act_bind (act_guard (require_text key ''idempotency_key'')) (\<lambda>_.
     act_bind (act_lift (tenant_scoped_idempotency_identity tenant_id key)) (\<lambda>storage_key s.
     case evaluate_idempotency key payload (d_get (rp_idempotency_records (ax_repository s)) storage_key) of
       (Idem_Conflict, _) \<Rightarrow>
         (bind_res (record_for_idempotency_key tenant_id key (ax_repository s))
            (\<lambda>x. Inr (lineage_answer Lineage_Conflict x None)), s)
     | (Idem_Replayed, _) \<Rightarrow>
         (bind_res (record_for_idempotency_key tenant_id key (ax_repository s))
            (\<lambda>x. Inr (lineage_answer Lineage_Replayed x
               (case x of None \<Rightarrow> None | Some y \<Rightarrow>
                  ai_explanation_lineage_by_request_id (candidate_lineage s (cd_candidate_id (pn_candidate y)))
                    (xq_request_id (xr_request r))))), s)
     | (Idem_Accepted, ir) \<Rightarrow>
         act_bind (record_ai_explanation_lineage r attestation retention) (\<lambda>a.
         act_bind (act_modify (\<lambda>s. if ay_decision a = Lineage_Accepted
             then s\<lparr>ax_repository := put_idempotency storage_key ir
                (case ay_lineage a of Some l \<Rightarrow> al_candidate_id l
                 | None \<Rightarrow> xe_candidate_id (xq_redacted_evidence (xr_request r))) (ax_repository s)\<rparr>
             else s)) (\<lambda>_.
         act_return a)) s))"

definition record_ai_explanation_lineage_request ::
    "ai_result \<Rightarrow> string \<Rightarrow> (string, json) dict \<Rightarrow> attestation_receipt option \<Rightarrow>
     retention_receipt option \<Rightarrow> (ai_repository, lineage_result) act" where
  "record_ai_explanation_lineage_request r key payload attestation retention s =
    (case d_get (rp_candidate_records (ax_repository s)) (xe_candidate_id (xq_redacted_evidence (xr_request r))) of
       None \<Rightarrow> (Inr (lineage_answer Lineage_Not_Found None None), s)
     | Some record \<Rightarrow>
         act_bind (act_lift (record_tenant_id record)) (\<lambda>tenant_id.
           record_ai_explanation_lineage_request_with_idempotency r key payload tenant_id attestation retention) s)"

text \<open>What the constructor restores from the records of a snapshot.\<close>

definition attestation_entries :: "ai_repository \<Rightarrow> (string \<times> attestation_receipt) list" where
  "attestation_entries s = List.map_filter
     (\<lambda>l. map_option (Pair (al_request_id l)) (al_attestation_receipt l))
     (concat (map (candidate_lineage s) (d_keys (rp_candidate_records (ax_repository s)))))"

definition retention_entries :: "ai_repository \<Rightarrow> (string \<times> retention_receipt) list" where
  "retention_entries s = List.map_filter
     (\<lambda>l. map_option (Pair (al_request_id l)) (al_provider_retention_receipt l))
     (concat (map (candidate_lineage s) (d_keys (rp_candidate_records (ax_repository s)))))"

definition restore_ai_indexes :: "ai_repository \<Rightarrow> ai_repository res" where
  "restore_ai_indexes s =
     bind_res (attestation_restore (attestation_entries s) empty_attestation_index) (\<lambda>a.
     bind_res (retention_restore (retention_entries s) empty_retention_index) (\<lambda>n.
     Inr (s\<lparr>ax_attestation_index := a, ax_retention_index := n\<rparr>)))"

section \<open>Indexes that tie identities to one request\<close>

text \<open>A receipt has several identities; the index knows the request each identity was used
  for, and a receipt conflicts when one of its identities was used for another request.\<close>

locale replay_index =
  fixes identities :: "'r \<Rightarrow> 'k set"
    and lookup :: "'i \<Rightarrow> 'k \<Rightarrow> string option"
    and conflicts :: "string \<Rightarrow> 'r \<Rightarrow> 'i \<Rightarrow> bool"
    and record_receipt :: "string \<Rightarrow> 'r \<Rightarrow> 'i \<Rightarrow> 'i"
    and restore :: "(string \<times> 'r) list \<Rightarrow> 'i \<Rightarrow> 'i res"
    and empty :: 'i
  assumes conflicts_iff: "conflicts q r i \<longleftrightarrow> (\<exists>k \<in> identities r. \<exists>p. lookup i k = Some p \<and> p \<noteq> q)"
    and lookup_record: "lookup (record_receipt q r i) k = (if k \<in> identities r then Some q else lookup i k)"
    and restore_Nil: "restore [] i = Inr i"
    and restore_conflict: "conflicts q r i \<Longrightarrow> \<not> is_ok (restore ((q, r) # es) i)"
    and restore_Cons: "\<not> conflicts q r i \<Longrightarrow>
      restore ((q, r) # es) i = restore es (record_receipt q r i)"
    and lookup_empty: "lookup empty k = None"
begin

definition agrees :: "(string \<times> 'r) set \<Rightarrow> 'i \<Rightarrow> bool" where
  "agrees es i \<longleftrightarrow> (\<forall>k q. lookup i k = Some q \<longleftrightarrow> (\<exists>r. (q, r) \<in> es \<and> k \<in> identities r))"

lemma agrees_empty: "agrees {} empty"
  by (simp add: agrees_def lookup_empty)

lemma agrees_record:
  assumes "agrees es i" "\<not> conflicts q r i"
  shows "agrees (insert (q, r) es) (record_receipt q r i)"
proof -
  have known: "lookup i k = Some p \<longleftrightarrow> (\<exists>u. (p, u) \<in> es \<and> k \<in> identities u)" for k p
    using assms(1) unfolding agrees_def by blast
  have same: "p = q" if "k \<in> identities r" "lookup i k = Some p" for k p
    using assms(2) that unfolding conflicts_iff by blast
  show ?thesis
    unfolding agrees_def lookup_record
  proof (intro allI)
    fix k p
    show "((if k \<in> identities r then Some q else lookup i k) = Some p) =
        (\<exists>u. (p, u) \<in> insert (q, r) es \<and> k \<in> identities u)"
    proof (cases "k \<in> identities r")
      case True
      then show ?thesis using known[of k p] same[of k p] by auto
    qed (use known in auto)
  qed
qed

lemma one_request:
  assumes "agrees es i" "(q, r) \<in> es" "(p, u) \<in> es" "k \<in> identities r" "k \<in> identities u"
  shows "q = p"
proof -
  have "lookup i k = Some q" "lookup i k = Some p" using assms unfolding agrees_def by blast+
  then show ?thesis by simp
qed

lemma own_receipt:
  assumes "agrees es i" "(q, r) \<in> es"
  shows "\<not> conflicts q r i"
proof
  assume "conflicts q r i"
  then obtain k p where k: "k \<in> identities r" "lookup i k = Some p" "p \<noteq> q" unfolding conflicts_iff by blast
  then obtain u where "(p, u) \<in> es" "k \<in> identities u" using assms(1) unfolding agrees_def by blast
  with one_request[OF assms] k show False by blast
qed

lemma agrees_same_lookup: "agrees es i \<Longrightarrow> agrees es j \<Longrightarrow> lookup i = lookup j"
  unfolding agrees_def by (metis option.exhaust ext)

text \<open>Restoring the entries of an index that agrees with them succeeds and yields the same
  lookups, whatever the order of the entries.\<close>

lemma restore_from:
  assumes "agrees (set ds \<union> set es) j" "agrees (set ds) i"
  shows "\<exists>i'. restore es i = Inr i' \<and> agrees (set ds \<union> set es) i'"
  using assms
proof (induction es arbitrary: ds i)
  case Nil
  then show ?case by (auto simp: restore_Nil)
next
  case (Cons e es)
  obtain q r where e: "e = (q, r)" by (cases e)
  have n: "\<not> conflicts q r i"
  proof
    assume "conflicts q r i"
    then obtain k p where k: "k \<in> identities r" "lookup i k = Some p" "p \<noteq> q" unfolding conflicts_iff by blast
    then obtain u where "(p, u) \<in> set ds" "k \<in> identities u" using Cons.prems(2) unfolding agrees_def by blast
    with one_request[OF Cons.prems(1), of q r p u k] k e show False by auto
  qed
  have "agrees (set ((q, r) # ds)) (record_receipt q r i)"
    using agrees_record[OF Cons.prems(2) n] by simp
  moreover have "agrees (set ((q, r) # ds) \<union> set es) j" using Cons.prems(1) e by simp
  ultimately show ?case
    using Cons.IH[of "(q, r) # ds" "record_receipt q r i"] n e by (simp add: restore_Cons)
qed

lemma restored:
  assumes "agrees (set es) j"
  shows "\<exists>i. restore es empty = Inr i \<and> lookup i = lookup j"
proof -
  obtain i where i: "restore es empty = Inr i" "agrees (set es) i"
    using restore_from[of "[]" es j empty] assms agrees_empty by auto
  with agrees_same_lookup[OF i(2) assms] show ?thesis by blast
qed

end

datatype receipt_identity = Run_Id string | Nonce string | Confirmation_Id string | Provider_Ref string

fun attestation_lookup :: "attestation_index \<Rightarrow> receipt_identity \<Rightarrow> string option" where
  "attestation_lookup i (Run_Id x) = d_get (aj_request_by_run_id i) x"
| "attestation_lookup i (Nonce x) = d_get (aj_request_by_nonce i) x"
| "attestation_lookup i _ = None"

fun retention_lookup :: "retention_index \<Rightarrow> receipt_identity \<Rightarrow> string option" where
  "retention_lookup i (Confirmation_Id x) = d_get (nj_request_by_confirmation_id i) x"
| "retention_lookup i (Provider_Ref x) = d_get (nj_request_by_provider_ref i) x"
| "retention_lookup i (Nonce x) = d_get (nj_request_by_nonce i) x"
| "retention_lookup i _ = None"

definition attestation_identities :: "attestation_receipt \<Rightarrow> receipt_identity set" where
  "attestation_identities r = {Run_Id (at_run_id r), Nonce (at_replay_nonce r)}"

definition retention_identities :: "retention_receipt \<Rightarrow> receipt_identity set" where
  "retention_identities r =
     {Confirmation_Id (nr_confirmation_id r), Provider_Ref (nr_provider_confirmation_ref r),
      Nonce (nr_replay_nonce r)}"

interpretation attestation_replay: replay_index attestation_identities attestation_lookup
  attestation_conflicts attestation_record attestation_restore empty_attestation_index
proof
  show "attestation_lookup (attestation_record q r i) k =
      (if k \<in> attestation_identities r then Some q else attestation_lookup i k)" for q r i k
    by (cases k) (auto simp: attestation_record_def attestation_identities_def)
  show "attestation_lookup empty_attestation_index k = None" for k
    by (cases k) (auto simp: empty_attestation_index_def)
qed (auto simp: attestation_conflicts_def other_request_def attestation_identities_def)

interpretation retention_replay: replay_index retention_identities retention_lookup
  retention_conflicts retention_record retention_restore empty_retention_index
proof
  show "retention_lookup (retention_record q r i) k =
      (if k \<in> retention_identities r then Some q else retention_lookup i k)" for q r i k
    by (cases k) (auto simp: retention_record_def retention_identities_def)
  show "retention_lookup empty_retention_index k = None" for k
    by (cases k) (auto simp: empty_retention_index_def)
qed (auto simp: retention_conflicts_def other_request_def retention_identities_def)

end
