(* ===== verification/AI_Laws.thy ===== *)
theory AI_Laws
imports AI_Repository
begin

text \<open>
  The AI lineage over runs of the repository: every step keeps one verified lineage per
  request, appends at the end, and keeps the replay indexes in agreement with the lineage.
\<close>

section \<open>A lineage verifies against its own hash\<close>

lemma lineage_from_result:
  assumes "ai_explanation_lineage_record_from_result r a n = Inr l"
  shows "verify_ai_explanation_lineage_record_integrity l = Inr ()"
    and "al_attestation_receipt l = a" "al_provider_retention_receipt l = n"
    and "al_request_id l = xq_request_id (xr_request r)"
    and "al_candidate_id l = xe_candidate_id (xq_redacted_evidence (xr_request r))"
    and "al_lineage_hash l = lineage_hash_payload (lineage_payload_from_record l)"
proof -
  from assms have l: "ai_lineage_of_result r (ai_lineage_evaluated_at_utc r)
      (lineage_hash_payload (lineage_payload_from_result r (ai_lineage_evaluated_at_utc r) a n)) a n = Inr l"
    by (simp add: ai_explanation_lineage_record_from_result_def res_simps Let_def)
  show "al_attestation_receipt l = a" "al_provider_retention_receipt l = n"
    "al_request_id l = xq_request_id (xr_request r)"
    "al_candidate_id l = xe_candidate_id (xq_redacted_evidence (xr_request r))"
    using l by (auto simp: ai_lineage_of_result_def Let_def)
  have "lineage_payload_from_record l =
      lineage_payload_from_result r (ai_lineage_evaluated_at_utc r) a n"
    using l by (auto simp: ai_lineage_of_result_def Let_def lineage_payload_from_record_def
        lineage_payload_from_result_def)
  moreover have "al_lineage_hash l =
      lineage_hash_payload (lineage_payload_from_result r (ai_lineage_evaluated_at_utc r) a n)"
    using l by (auto simp: ai_lineage_of_result_def Let_def)
  ultimately show h: "al_lineage_hash l = lineage_hash_payload (lineage_payload_from_record l)" by simp
  then show "verify_ai_explanation_lineage_record_integrity l = Inr ()"
    by (simp add: verify_ai_explanation_lineage_record_integrity_def checks_passes)
qed

section \<open>What the operations do\<close>

definition filed_lineage ::
    "ai_result \<Rightarrow> attestation_receipt option \<Rightarrow> retention_receipt option \<Rightarrow> ai_repository \<Rightarrow> ai_repository \<Rightarrow> bool" where
  "filed_lineage r a n s s' \<longleftrightarrow>
     (\<exists>l rc u. ai_explanation_lineage_record_from_result r a n = Inr l \<and>
        d_get (rp_candidate_records (ax_repository s)) (al_candidate_id l) = Some rc \<and>
        (\<forall>x. a = Some x \<longrightarrow> \<not> attestation_conflicts (al_request_id l) x (ax_attestation_index s)) \<and>
        (\<forall>x. n = Some x \<longrightarrow> \<not> retention_conflicts (al_request_id l) x (ax_retention_index s)) \<and>
        d_get (ax_lineage_candidates s) (al_request_id l) = None \<and>
        u = rc\<lparr>pn_audit_events := pn_audit_events rc @ [xr_audit_event r]\<rparr> \<and>
        passes (persistence_record_guards u) \<and> s' = file_lineage u l a n s)"

lemma some_satisfies_not: "\<not> some_satisfies P x \<longleftrightarrow> (\<forall>y. x = Some y \<longrightarrow> \<not> P y)"
  by (cases x) auto

lemma record_lineage_cases:
  shows "(snd (record_ai_explanation_lineage r a n s) = s \<and>
      (\<forall>x. fst (record_ai_explanation_lineage r a n s) = Inr x \<longrightarrow> ay_decision x \<noteq> Lineage_Accepted)) \<or>
    (filed_lineage r a n s (snd (record_ai_explanation_lineage r a n s)) \<and>
      (\<exists>x l. fst (record_ai_explanation_lineage r a n s) = Inr x \<and> ay_decision x = Lineage_Accepted \<and>
         ay_lineage x = Some l \<and> al_candidate_id l = xe_candidate_id (xq_redacted_evidence (xr_request r))))"
proof (cases "ai_explanation_lineage_record_from_result r a n")
  case (Inr l)
  note d = record_ai_explanation_lineage_def Inr
  show ?thesis
  proof (cases "d_get (rp_candidate_records (ax_repository s)) (al_candidate_id l)")
    case (Some rc)
    let ?u = "rc\<lparr>pn_audit_events := pn_audit_events rc @ [xr_audit_event r]\<rparr>"
    show ?thesis
    proof (cases "\<not> some_satisfies (\<lambda>a. attestation_conflicts (al_request_id l) a (ax_attestation_index s)) a \<and>
        \<not> some_satisfies (\<lambda>n. retention_conflicts (al_request_id l) n (ax_retention_index s)) n \<and>
        d_get (ax_lineage_candidates s) (al_request_id l) = None \<and> passes (persistence_record_guards ?u)")
      case True
      then have "record_ai_explanation_lineage r a n s =
          (Inr \<lparr>ay_decision = Lineage_Accepted, ay_record = Some ?u, ay_lineage = Some l,
             ay_audit_event = Some (xr_audit_event r)\<rparr>, file_lineage ?u l a n s)"
        using Some by (simp add: d mk_persistence_record_def checks_passes)
      moreover have "filed_lineage r a n s (file_lineage ?u l a n s)"
        unfolding filed_lineage_def
        using True Some Inr by (intro exI[of _ l] exI[of _ rc] exI[of _ ?u]) (simp add: some_satisfies_not)
      ultimately show ?thesis using lineage_from_result(5)[OF Inr] by simp
    next
      case False
      then show ?thesis
      proof (cases "passes (persistence_record_guards ?u)")
        case p: False
        then obtain e where "mk_persistence_record ?u = Inl e"
          using checks_fails[OF p, of ?u] by (auto simp: mk_persistence_record_def)
        then show ?thesis using Some
          by (simp add: d lineage_answer_def known_lineage_def Let_def split: option.splits)
      qed (use False Some in \<open>auto simp: d lineage_answer_def known_lineage_def Let_def split: option.splits\<close>)
    qed
  qed (simp add: d lineage_answer_def)
qed (simp add: record_ai_explanation_lineage_def)

lemma lineage_after_filing [simp]:
  "candidate_lineage (file_lineage u l a n s) c =
     (if c = al_candidate_id l then candidate_lineage s c @ [l] else candidate_lineage s c)"
  by (simp add: candidate_lineage_def file_lineage_def)

lemma filing_parts [simp]:
  "ax_repository (file_lineage u l a n s) = put_record (al_candidate_id l) u (ax_repository s)"
  "ax_lineage_candidates (file_lineage u l a n s) =
     d_put (al_request_id l) (al_candidate_id l) (ax_lineage_candidates s)"
  "ax_attestation_index (file_lineage u l a n s) =
     (case a of None \<Rightarrow> ax_attestation_index s
      | Some x \<Rightarrow> attestation_record (al_request_id l) x (ax_attestation_index s))"
  "ax_retention_index (file_lineage u l a n s) =
     (case n of None \<Rightarrow> ax_retention_index s
      | Some x \<Rightarrow> retention_record (al_request_id l) x (ax_retention_index s))"
  by (simp_all add: file_lineage_def)

section \<open>The invariant\<close>

definition all_attestations :: "ai_repository \<Rightarrow> (string \<times> attestation_receipt) set" where
  "all_attestations s =
     {(al_request_id l, x) | c l x. l \<in> set (candidate_lineage s c) \<and> al_attestation_receipt l = Some x}"

definition all_retentions :: "ai_repository \<Rightarrow> (string \<times> retention_receipt) set" where
  "all_retentions s =
     {(al_request_id l, x) | c l x. l \<in> set (candidate_lineage s c) \<and> al_provider_retention_receipt l = Some x}"

definition ai_lineage_ok :: "ai_repository \<Rightarrow> bool" where
  \<comment> \<open>one verified lineage per request, filed under its candidate\<close>
  "ai_lineage_ok s \<longleftrightarrow>
     (\<forall>q c. d_get (ax_lineage_candidates s) q = Some c \<longleftrightarrow>
        (\<exists>l \<in> set (candidate_lineage s c). al_request_id l = q)) \<and>
     (\<forall>c. distinct (map al_request_id (candidate_lineage s c))) \<and>
     (\<forall>c. \<forall>l \<in> set (candidate_lineage s c). al_candidate_id l = c \<and>
        al_lineage_hash l = lineage_hash_payload (lineage_payload_from_record l))"

definition ai_ok :: "ai_repository \<Rightarrow> bool" where
  "ai_ok s \<longleftrightarrow>
     repository_ok (ax_repository s) \<and>
     (\<forall>c. candidate_lineage s c \<noteq> [] \<longrightarrow> d_get (rp_candidate_records (ax_repository s)) c \<noteq> None) \<and>
     ai_lineage_ok s \<and> attestation_replay.agrees (all_attestations s) (ax_attestation_index s) \<and>
     retention_replay.agrees (all_retentions s) (ax_retention_index s)"

lemma filed_entry:
  "x \<in> set (candidate_lineage (file_lineage u l a n s) c) \<longleftrightarrow>
     x \<in> set (candidate_lineage s c) \<or> (c = al_candidate_id l \<and> x = l)"
  by (cases "c = al_candidate_id l") auto

lemma filing_entries:
  "all_attestations (file_lineage u l a n s) = all_attestations s \<union>
     (case al_attestation_receipt l of None \<Rightarrow> {} | Some x \<Rightarrow> {(al_request_id l, x)})"
  "all_retentions (file_lineage u l a n s) = all_retentions s \<union>
     (case al_provider_retention_receipt l of None \<Rightarrow> {} | Some x \<Rightarrow> {(al_request_id l, x)})"
  unfolding all_attestations_def all_retentions_def filed_entry by (auto split: option.splits)

lemma filing_lineage_ok:
  assumes "ai_lineage_ok s" "d_get (ax_lineage_candidates s) (al_request_id l) = None"
    and "al_lineage_hash l = lineage_hash_payload (lineage_payload_from_record l)"
  shows "ai_lineage_ok (file_lineage u l a n s)"
proof -
  have by_request: "d_get (ax_lineage_candidates s) q = Some c \<longleftrightarrow>
      (\<exists>x \<in> set (candidate_lineage s c). al_request_id x = q)" for q c
    using assms(1) unfolding ai_lineage_ok_def by blast
  have new: "al_request_id x \<noteq> al_request_id l" if "x \<in> set (candidate_lineage s c)" for x c
    using assms(2) that by_request[of "al_request_id l" c] by auto
  have "d_get (ax_lineage_candidates (file_lineage u l a n s)) q = Some c \<longleftrightarrow>
      (\<exists>x \<in> set (candidate_lineage (file_lineage u l a n s) c). al_request_id x = q)" for q c
    using new[of _ c] by_request[of q c] unfolding filed_entry filing_parts
    by (cases "q = al_request_id l") auto
  moreover have "distinct (map al_request_id (candidate_lineage (file_lineage u l a n s) c))" for c
  proof -
    have "al_request_id l \<notin> al_request_id ` set (candidate_lineage s c)"
      using new[of _ c] by force
    moreover have "distinct (map al_request_id (candidate_lineage s c))"
      using assms(1) unfolding ai_lineage_ok_def by blast
    ultimately show ?thesis by (cases "c = al_candidate_id l") auto
  qed
  moreover have "al_candidate_id x = c \<and> al_lineage_hash x = lineage_hash_payload (lineage_payload_from_record x)"
    if "x \<in> set (candidate_lineage (file_lineage u l a n s) c)" for x c
    using assms(1,3) that unfolding filed_entry ai_lineage_ok_def by blast
  ultimately show ?thesis unfolding ai_lineage_ok_def by blast
qed

lemma audit_appended_ok:
  assumes "record_ok c r"
  shows "record_ok c (r\<lparr>pn_audit_events := pn_audit_events r @ [e]\<rparr>)"
    and "record_grows r (r\<lparr>pn_audit_events := pn_audit_events r @ [e]\<rparr>)"
    and "conversion_ids (r\<lparr>pn_audit_events := pn_audit_events r @ [e]\<rparr>) = conversion_ids r"
proof -
  let ?u = "r\<lparr>pn_audit_events := pn_audit_events r @ [e]\<rparr>"
  have "intent_backed ?u i = intent_backed r i" "outcome_identities_for_intent ?u j = outcome_identities_for_intent r j"
    "versions_current ?u = versions_current r" for i j
    by (simp_all add: intent_backed_def outcome_identities_for_intent_def versions_current_def)
  then show "record_ok c ?u" using assms by (simp add: record_ok_def persistence_record_guards_def)
  show "record_grows r ?u" by (simp add: record_grows_def)
  show "conversion_ids ?u = conversion_ids r" by (simp add: conversion_ids_def intent_ids_def)
qed

lemma filed_ok:
  assumes "filed_lineage r a n s s'" "ai_ok s"
  shows "ai_ok s'" and "prefix (candidate_lineage s c) (candidate_lineage s' c)"
    and "repository_grows (ax_repository s) (ax_repository s')"
proof -
  obtain l rc u where f: "ai_explanation_lineage_record_from_result r a n = Inr l"
      "d_get (rp_candidate_records (ax_repository s)) (al_candidate_id l) = Some rc"
      "\<forall>x. a = Some x \<longrightarrow> \<not> attestation_conflicts (al_request_id l) x (ax_attestation_index s)"
      "\<forall>x. n = Some x \<longrightarrow> \<not> retention_conflicts (al_request_id l) x (ax_retention_index s)"
      "d_get (ax_lineage_candidates s) (al_request_id l) = None"
      "u = rc\<lparr>pn_audit_events := pn_audit_events rc @ [xr_audit_event r]\<rparr>"
      "s' = file_lineage u l a n s"
    using assms(1) unfolding filed_lineage_def by (elim exE conjE)
  note l = lineage_from_result[OF f(1)]
  have ok: "repository_ok (ax_repository s)" using assms(2) by (simp add: ai_ok_def)
  have u: "record_ok (al_candidate_id l) u" "record_grows rc u" "conversion_ids u = conversion_ids rc"
    using audit_appended_ok[OF ok_record[OF ok f(2)]] f(6) by simp_all
  have base: "repository_ok (ax_repository s') \<and> repository_grows (ax_repository s) (ax_repository s')"
    using put_record_ok[OF ok f(2) u] f(7) by simp
  then show "repository_grows (ax_repository s) (ax_repository s')" ..
  show "prefix (candidate_lineage s c) (candidate_lineage s' c)" by (simp add: f(7))
  have "attestation_replay.agrees (all_attestations s') (ax_attestation_index s')"
    using assms(2) attestation_replay.agrees_record[of "all_attestations s" "ax_attestation_index s"] f(3)
    by (auto simp: ai_ok_def f(7) filing_entries l(2) split: option.splits)
  moreover have "retention_replay.agrees (all_retentions s') (ax_retention_index s')"
    using assms(2) retention_replay.agrees_record[of "all_retentions s" "ax_retention_index s"] f(4)
    by (auto simp: ai_ok_def f(7) filing_entries l(3) split: option.splits)
  moreover have "ai_lineage_ok s'"
    using filing_lineage_ok[of s l u a n] assms(2) f(5) l(6) by (simp add: ai_ok_def f(7))
  moreover have "\<forall>c. candidate_lineage s' c \<noteq> [] \<longrightarrow> d_get (rp_candidate_records (ax_repository s')) c \<noteq> None"
    using assms(2) by (simp add: ai_ok_def f(7) put_record_def)
  ultimately show "ai_ok s'" using base by (simp add: ai_ok_def)
qed

section \<open>Runs\<close>

inductive ai_step :: "ai_repository \<Rightarrow> ai_repository \<Rightarrow> bool" where
  repository_mutation: "repository_step (ax_repository s) t \<Longrightarrow> ai_step s (s\<lparr>ax_repository := t\<rparr>)"
| lineage: "ai_step s (snd (record_ai_explanation_lineage r a n s))"
| lineage_request: "ai_step s (snd (record_ai_explanation_lineage_request r key payload a n s))"

definition empty_ai_repository :: ai_repository where
  "empty_ai_repository = \<lparr>ax_repository = empty_repository, ax_lineage_records = [],
     ax_lineage_candidates = [], ax_attestation_index = empty_attestation_index,
     ax_retention_index = empty_retention_index\<rparr>"

definition ai_grows :: "ai_repository \<Rightarrow> ai_repository \<Rightarrow> bool" where
  "ai_grows s t \<longleftrightarrow> repository_grows (ax_repository s) (ax_repository t) \<and>
     (\<forall>c. prefix (candidate_lineage s c) (candidate_lineage t c))"

lemma ai_grows_refl: "ai_grows s s"
  by (simp add: ai_grows_def)

lemma ai_grows_trans: "ai_grows s t \<Longrightarrow> ai_grows t u \<Longrightarrow> ai_grows s u"
  unfolding ai_grows_def using repository_grows_trans prefix_order.order_trans by blast

lemma empty_ai_repository_ok: "ai_ok empty_ai_repository"
proof -
  have "candidate_lineage empty_ai_repository c = []" for c
    by (simp add: candidate_lineage_def empty_ai_repository_def)
  then show ?thesis
    using attestation_replay.agrees_empty retention_replay.agrees_empty
    by (simp add: ai_ok_def ai_lineage_ok_def all_attestations_def all_retentions_def empty_repository_ok
        empty_ai_repository_def)
qed

text \<open>A change of the repository alone leaves the lineage as it was.\<close>

lemma lineage_of_other_repository [simp]:
  "candidate_lineage (s\<lparr>ax_repository := t\<rparr>) = candidate_lineage s"
  by (simp add: candidate_lineage_def fun_eq_iff)

lemma other_repository_ok:
  assumes "ai_ok s" "repository_ok t" "repository_grows (ax_repository s) t"
  shows "ai_ok (s\<lparr>ax_repository := t\<rparr>) \<and> ai_grows s (s\<lparr>ax_repository := t\<rparr>)"
proof -
  have "d_get (rp_candidate_records t) c \<noteq> None" if "candidate_lineage s c \<noteq> []" for c
  proof -
    from that assms(1) obtain r where "d_get (rp_candidate_records (ax_repository s)) c = Some r"
      by (auto simp: ai_ok_def)
    with assms(3) show ?thesis unfolding repository_grows_def by fastforce
  qed
  moreover have "all_attestations (s\<lparr>ax_repository := t\<rparr>) = all_attestations s"
    "all_retentions (s\<lparr>ax_repository := t\<rparr>) = all_retentions s"
    by (simp_all add: all_attestations_def all_retentions_def)
  moreover have "ai_lineage_ok (s\<lparr>ax_repository := t\<rparr>) = ai_lineage_ok s"
    by (simp add: ai_lineage_ok_def)
  ultimately show ?thesis using assms by (simp add: ai_ok_def ai_grows_def)
qed

lemma lineage_recorded_ok:
  assumes "ai_ok s"
  shows "ai_ok (snd (record_ai_explanation_lineage r a n s)) \<and>
    ai_grows s (snd (record_ai_explanation_lineage r a n s))"
  using record_lineage_cases[of r a n s]
proof
  assume "filed_lineage r a n s (snd (record_ai_explanation_lineage r a n s)) \<and>
    (\<exists>x l. fst (record_ai_explanation_lineage r a n s) = Inr x \<and> ay_decision x = Lineage_Accepted \<and>
       ay_lineage x = Some l \<and> al_candidate_id l = xe_candidate_id (xq_redacted_evidence (xr_request r)))"
  then have f: "filed_lineage r a n s (snd (record_ai_explanation_lineage r a n s))" by blast
  show ?thesis unfolding ai_grows_def using filed_ok[OF f assms] by blast
qed (use assms ai_grows_refl in auto)

lemma write_when:
  "snd (act_bind f (\<lambda>x. act_bind (act_modify (\<lambda>s. if P x then h x s else s)) (\<lambda>_. act_return x)) s) =
     (case fst (f s) of Inl _ \<Rightarrow> snd (f s) | Inr x \<Rightarrow> if P x then h x (snd (f s)) else snd (f s))"
  by (cases "f s"; cases "fst (f s)") (simp_all add: act_bind_def act_modify_def act_return_def)

text \<open>A request that is accepted files the lineage, then its key under the candidate of the
  lineage.\<close>

lemma lineage_request_cases:
  shows "snd (record_ai_explanation_lineage_request r key payload a n s) = s \<or>
    (\<exists>k ir c rc sc. d_get (rp_candidate_records (ax_repository s)) c = Some rc \<and>
       cd_access_scope (pn_candidate rc) = Some sc \<and> ir_key ir = key \<and>
       tenant_scoped_idempotency_identity (as_tenant_id sc) key = Inr k \<and>
       d_get (rp_idempotency_records (ax_repository s)) k = None \<and>
       filed_lineage r a n s (snd (record_ai_explanation_lineage r a n s)) \<and>
       snd (record_ai_explanation_lineage_request r key payload a n s) =
         (snd (record_ai_explanation_lineage r a n s))\<lparr>ax_repository :=
           put_idempotency k ir c (ax_repository (snd (record_ai_explanation_lineage r a n s)))\<rparr>)"
    (is "?s' = s \<or> _")
proof -
  let ?c = "xe_candidate_id (xq_redacted_evidence (xr_request r))"
  let ?t = "snd (record_ai_explanation_lineage r a n s)"
  show ?thesis
  proof (cases "d_get (rp_candidate_records (ax_repository s)) ?c")
    case (Some rc)
    show ?thesis
    proof (cases "cd_access_scope (pn_candidate rc)")
      case sc: (Some sc)
      show ?thesis
      proof (cases "passes (require_text key ''idempotency_key'')")
        case key: True
        show ?thesis
        proof (cases "tenant_scoped_idempotency_identity (as_tenant_id sc) key")
          case k: (Inr k)
          show ?thesis
          proof (cases "d_get (rp_idempotency_records (ax_repository s)) k")
            case None
            let ?ir = "\<lparr>ir_key = key, ir_payload_hash = payload_fingerprint payload\<rparr>"
            have st: "?s' = snd (act_bind (record_ai_explanation_lineage r a n) (\<lambda>x.
               act_bind (act_modify (\<lambda>s. if ay_decision x = Lineage_Accepted
                 then s\<lparr>ax_repository := put_idempotency k ?ir
                    (case ay_lineage x of Some l \<Rightarrow> al_candidate_id l | None \<Rightarrow> ?c) (ax_repository s)\<rparr>
                 else s)) (\<lambda>_. act_return x)) s)"
              using Some sc key k None
              by (simp add: record_ai_explanation_lineage_request_def record_tenant_id_def
                  record_ai_explanation_lineage_request_with_idempotency_def evaluate_idempotency_def)
            show ?thesis
              using record_lineage_cases[of r a n s]
            proof (elim disjE conjE)
              assume t: "?t = s" "\<forall>x. fst (record_ai_explanation_lineage r a n s) = Inr x \<longrightarrow>
                ay_decision x \<noteq> Lineage_Accepted"
              have "?s' = s" unfolding st write_when
                using t by (cases "fst (record_ai_explanation_lineage r a n s)") simp_all
              then show ?thesis ..
            next
              assume f: "filed_lineage r a n s ?t"
                "\<exists>x l. fst (record_ai_explanation_lineage r a n s) = Inr x \<and> ay_decision x = Lineage_Accepted \<and>
                  ay_lineage x = Some l \<and> al_candidate_id l = ?c"
              then obtain x l where x: "fst (record_ai_explanation_lineage r a n s) = Inr x"
                  "ay_decision x = Lineage_Accepted" "ay_lineage x = Some l" "al_candidate_id l = ?c"
                by (elim exE conjE)
              have "?s' = ?t\<lparr>ax_repository := put_idempotency k ?ir ?c (ax_repository ?t)\<rparr>" unfolding st write_when
                using x by simp
              then show ?thesis
                using Some sc k None f(1)
                by (intro disjI2 exI[of _ k] exI[of _ ?ir] exI[of _ ?c] exI[of _ rc] exI[of _ sc]) simp
            qed
          next
            case (Some v)
            then have "?s' = s"
              using \<open>d_get _ ?c = Some rc\<close> sc key k
              by (simp add: record_ai_explanation_lineage_request_def record_tenant_id_def
                  record_ai_explanation_lineage_request_with_idempotency_def evaluate_idempotency_def Let_def)
            then show ?thesis ..
          qed
        next
          case (Inl e)
          then have "?s' = s" using Some sc key
            by (simp add: record_ai_explanation_lineage_request_def record_tenant_id_def
              record_ai_explanation_lineage_request_with_idempotency_def)
          then show ?thesis ..
        qed
      next
        case False
        then have "?s' = s" using \<open>d_get _ ?c = Some rc\<close> sc
          by (simp add: record_ai_explanation_lineage_request_def record_tenant_id_def
              record_ai_explanation_lineage_request_with_idempotency_def act_guard_state)
        then show ?thesis ..
      qed
    next
      case None
      then have "?s' = s" using Some
        by (simp add: record_ai_explanation_lineage_request_def record_tenant_id_def
              record_ai_explanation_lineage_request_with_idempotency_def)
      then show ?thesis ..
    qed
  qed (simp add: record_ai_explanation_lineage_request_def)
qed

lemma lineage_requested_ok:
  assumes "ai_ok s"
  shows "ai_ok (snd (record_ai_explanation_lineage_request r key payload a n s)) \<and>
    ai_grows s (snd (record_ai_explanation_lineage_request r key payload a n s))"
  using lineage_request_cases[of r key payload a n s]
proof (elim disjE exE conjE)
  fix k ir c rc sc
  let ?t = "snd (record_ai_explanation_lineage r a n s)"
  assume h: "d_get (rp_candidate_records (ax_repository s)) c = Some rc" "cd_access_scope (pn_candidate rc) = Some sc"
    "ir_key ir = key" "tenant_scoped_idempotency_identity (as_tenant_id sc) key = Inr k"
    "d_get (rp_idempotency_records (ax_repository s)) k = None"
    and f: "filed_lineage r a n s ?t"
    and e: "snd (record_ai_explanation_lineage_request r key payload a n s) =
      ?t\<lparr>ax_repository := put_idempotency k ir c (ax_repository ?t)\<rparr>"
  have t: "ai_ok ?t" "repository_grows (ax_repository s) (ax_repository ?t)" "ai_grows s ?t"
    using filed_ok[OF f assms] lineage_recorded_ok[OF assms] by blast+
  obtain rt where rt: "d_get (rp_candidate_records (ax_repository ?t)) c = Some rt" "record_grows rc rt"
    using t(2) h(1) unfolding repository_grows_def by blast
  have sct: "cd_access_scope (pn_candidate rt) = Some sc" using rt(2) h(2) by (simp add: record_grows_def)
  have new: "d_get (rp_idempotency_records (ax_repository ?t)) k = None"
  proof -
    from f obtain l u where "?t = file_lineage u l a n s" unfolding filed_lineage_def by (elim exE conjE)
    then have "ax_repository ?t = put_record (al_candidate_id l) u (ax_repository s)" by simp
    then have "rp_idempotency_records (ax_repository ?t) = rp_idempotency_records (ax_repository s)"
      by (simp add: put_record_def)
    with h(5) show ?thesis by simp
  qed
  have ok: "repository_ok (ax_repository ?t)" using t(1) by (simp add: ai_ok_def)
  have "mutation_effect k ir c rt (ax_repository ?t) (put_idempotency k ir c (ax_repository ?t))"
    by (simp add: mutation_effect_def)
  from mutation_effect_ok[OF this ok rt(1) sct _ new] h(3,4)
  have "repository_ok (put_idempotency k ir c (ax_repository ?t)) \<and>
      repository_grows (ax_repository ?t) (put_idempotency k ir c (ax_repository ?t))" by simp
  then show ?thesis
    using other_repository_ok[OF t(1)] ai_grows_trans[OF t(3)] unfolding e by blast
qed (use assms ai_grows_refl in simp)

lemma ai_step_ok:
  assumes "ai_step s t" "ai_ok s"
  shows "ai_ok t \<and> ai_grows s t"
  using assms(1)
proof cases
  case (repository_mutation u)
  have "repository_ok u \<and> repository_grows (ax_repository s) u"
    using repository_step_ok[OF repository_mutation(2)] assms(2) by (simp add: ai_ok_def)
  then show ?thesis using other_repository_ok[OF assms(2)] repository_mutation(1) by simp
qed (use lineage_recorded_ok[OF assms(2)] lineage_requested_ok[OF assms(2)] in simp_all)

lemma ai_run_ok:
  assumes "ai_step\<^sup>*\<^sup>* s t" "ai_ok s"
  shows "ai_ok t \<and> ai_grows s t"
  using assms(1)
proof (induction rule: rtranclp_induct)
  case (step t u)
  then show ?case using ai_step_ok[of t u] ai_grows_trans by blast
qed (use assms(2) ai_grows_refl in simp)

lemma reached_ai_ok: "ai_step\<^sup>*\<^sup>* empty_ai_repository s \<Longrightarrow> ai_ok s"
  using ai_run_ok[OF _ empty_ai_repository_ok] by blast

section \<open>The entries of a snapshot\<close>

lemma set_map_filter_eq: "set (List.map_filter f xs) = {y. \<exists>x \<in> set xs. f x = Some y}"
  by (induction xs) (auto simp: map_filter_simps split: option.splits)

lemma set_tagged:
  "set (List.map_filter (\<lambda>l. map_option (Pair (q l)) (f l)) ls) = {(q l, x) | l x. l \<in> set ls \<and> f l = Some x}"
  unfolding set_map_filter_eq by auto

lemma set_entries:
  assumes "ai_ok s"
  shows "set (attestation_entries s) = all_attestations s" and "set (retention_entries s) = all_retentions s"
proof -
  have l: "l \<in> set (concat (map (candidate_lineage s) (d_keys (rp_candidate_records (ax_repository s))))) \<longleftrightarrow>
      (\<exists>c. l \<in> set (candidate_lineage s c))" for l
  proof -
    have "c \<in> set (d_keys (rp_candidate_records (ax_repository s)))" if "l \<in> set (candidate_lineage s c)" for c
      using that assms by (force simp: ai_ok_def map_of_eq_None_iff)
    then show ?thesis by auto
  qed
  show "set (attestation_entries s) = all_attestations s" "set (retention_entries s) = all_retentions s"
    unfolding attestation_entries_def retention_entries_def all_attestations_def all_retentions_def set_tagged l
    by (intro Collect_cong; metis)+
qed

end
