(* ===== verification/AI_Properties.thy ===== *)
theory AI_Properties
imports AI_Laws Repository_Properties
begin

text \<open>
  What holds of the AI workflow: which labels an action may have, how an output is decided, that
  every output for a request is decided, and that the lineage and its replay indexes keep each
  request and each receipt to one record.
\<close>

section \<open>Action labels\<close>

text \<open>C18: the label policy is an allow list. A proposed action passes exactly when its label is ASCII
  text of at most 160 characters which normalises to one of ten phrases for advisor review and
  for missing evidence; the other action types never pass. The label shown is always the canonical
  one, whatever was submitted.\<close>

theorem action_labels_are_an_allow_list:
  "(ac_allowed (evaluate_ai_action_policy ty label) \<longleftrightarrow>
     length label \<le> MAX_ACTION_LABEL_LENGTH \<and> is_ascii label \<and>
     normalize_action_label label \<in> set (permitted_phrases ty)) \<and>
   ac_canonical_label (evaluate_ai_action_policy ty label) = or_else (CANONICAL_LABELS ty) BLOCKED_LABEL \<and>
   (ac_reason (evaluate_ai_action_policy ty label) = Action_Allowed \<longleftrightarrow>
     ac_allowed (evaluate_ai_action_policy ty label))"
  using action_allowed_cases action_decision_label action_decision_reason by blast

section \<open>How an output is decided\<close>

definition permitted_action :: "ai_action \<Rightarrow> bool" where
  "permitted_action a \<longleftrightarrow> ac_allowed (evaluate_ai_action_policy (xa_action_type a) (xa_action_label a))"

definition canonical_action :: "ai_action \<Rightarrow> ai_action" where
  "canonical_action a = a\<lparr>xa_action_label := or_else (CANONICAL_LABELS (xa_action_type a)) BLOCKED_LABEL\<rparr>"

definition grounded_claim :: "ai_request \<Rightarrow> ai_claim \<Rightarrow> bool" where
  "grounded_claim q c \<longleftrightarrow> set (cl_source_product_ids c) \<subseteq> source_product_ids (xq_redacted_evidence q)"

definition well_formed_output :: "ai_output \<Rightarrow> bool" where
  "well_formed_output x \<longleftrightarrow> passes (ai_output_guards x) \<and> list_all (\<lambda>c. passes (ai_claim_guards c)) (xo_claims x) \<and>
     list_all (\<lambda>a. passes (ai_action_guards a)) (xo_proposed_actions x)"

lemma sanitized_actions_canonical: "sanitized_actions x = map canonical_action (xo_proposed_actions x)"
  unfolding sanitized_actions_def action_decisions_def
  by (simp add: zip_map2 zip_same_conv_map action_decision_label canonical_action_def)

lemma sanitized_output:
  "sanitized_output_of x = Inr s \<Longrightarrow> s = x\<lparr>xo_proposed_actions := map canonical_action (xo_proposed_actions x)\<rparr>"
proof -
  assume "sanitized_output_of x = Inr s"
  then obtain as where as: "map_res (\<lambda>a. checks (ai_action_guards a) a) (sanitized_actions x) = Inr as"
      "s = x\<lparr>xo_proposed_actions := as\<rparr>"
    by (auto simp: sanitized_output_of_def mk_ai_output_def res_simps)
  have "as = sanitized_actions x"
    using as(1) by (auto simp: map_res_Inr list_all2_conv_all_nth intro: nth_equalityI)
  with as(2) show ?thesis by (simp add: sanitized_actions_canonical)
qed

lemma blocked_result:
  assumes "blocked_ai_result q x p v rc why y = Inr r"
  shows "xr_posture r = p \<and> xr_request r = q \<and> blocked_ai_explanation rc = Inr (xr_explanation_text r) \<and>
    xr_output r = Some (x\<lparr>xo_explanation_text := xr_explanation_text r\<rparr>) \<and> xr_fallback_reason r = None"
  using assms by (auto simp: blocked_ai_result_def mk_ai_output_def mk_ai_result_def res_simps)

lemma accepted_result:
  assumes "accepted_ai_workflow_result q x y = Inr r"
  shows "xr_posture r = Ready_For_Advisor_Review \<and> xr_request r = q \<and>
    render_grounded_claim_narrative (xo_claims x) = Inr (xr_explanation_text r) \<and>
    xr_output r = Some (x\<lparr>xo_explanation_text := xr_explanation_text r\<rparr>) \<and> xr_fallback_reason r = None"
  using assms by (auto simp: accepted_ai_workflow_result_def mk_ai_output_def mk_ai_result_def res_simps)

lemma forbidden_blocks: "ac_reason (evaluate_ai_action_policy ty label) = Forbidden_Action_Type \<Longrightarrow>
    \<not> ac_allowed (evaluate_ai_action_policy ty label)"
  by (simp add: action_decision_reason)

lemma action_blocker_cases:
  assumes "action_policy_blocker_result q s (action_decisions x) y = Inr b"
  shows "(b = None \<and> list_all permitted_action (xo_proposed_actions x)) \<or>
    (\<exists>r v rc why. b = Some r \<and> \<not> list_all permitted_action (xo_proposed_actions x) \<and>
       blocked_ai_result q s Blocked_Forbidden_Action v rc why y = Inr r)"
proof (cases "list_ex (\<lambda>d. ac_reason d = Forbidden_Action_Type) (action_decisions x)")
  case True
  then have "\<not> list_all permitted_action (xo_proposed_actions x)"
    using forbidden_blocks by (auto simp: list_ex_iff list_all_iff action_decisions_def permitted_action_def)
  then show ?thesis
    using assms True by (auto simp: action_policy_blocker_result_def res_simps)
next
  case False
  have "List.find (\<lambda>d. \<not> ac_allowed d) (action_decisions x) = None \<longleftrightarrow>
      list_all permitted_action (xo_proposed_actions x)"
    by (auto simp: find_None_iff list_all_iff action_decisions_def permitted_action_def)
  then show ?thesis
    using assms False by (cases "List.find (\<lambda>d. \<not> ac_allowed d) (action_decisions x)")
      (auto simp: action_policy_blocker_result_def res_simps)
qed

lemma unsupported_none: "unsupported_claims q x = [] \<longleftrightarrow> list_all (grounded_claim q) (xo_claims x)"
  by (simp add: unsupported_claims_def filter_empty_conv list_all_iff grounded_claim_def)

definition fixed_texts :: "string set" where
  "fixed_texts = {t. \<exists>rc. blocked_ai_explanation rc = Inr t}"

lemma fixed_text: "blocked_ai_explanation rc = Inr t \<Longrightarrow> t \<in> fixed_texts"
  by (auto simp: fixed_texts_def)

lemma evaluated_cases:
  assumes "evaluate_ai_workflow_output q x = Inr r"
  shows "xr_request r = q \<and> xr_fallback_reason r = None \<and>
    xr_output r = Some (x\<lparr>xo_proposed_actions := map canonical_action (xo_proposed_actions x),
      xo_explanation_text := xr_explanation_text r\<rparr>) \<and>
    (if \<not> list_all permitted_action (xo_proposed_actions x)
     then xr_posture r = Blocked_Forbidden_Action \<and> xr_explanation_text r \<in> fixed_texts
     else if \<not> list_all (grounded_claim q) (xo_claims x)
     then xr_posture r = Blocked_Unsupported_Claim \<and> xr_explanation_text r \<in> fixed_texts
     else xr_posture r = Ready_For_Advisor_Review \<and>
       render_grounded_claim_narrative (xo_claims x) = Inr (xr_explanation_text r))"
proof -
  obtain y s b where e: "sanitized_output_of x = Inr s"
      "action_policy_blocker_result q s (action_decisions x) y = Inr b"
      "(case b of Some r \<Rightarrow> Inr r | None \<Rightarrow> if unsupported_claims q s \<noteq> []
         then unsupported_claim_blocker_result q s y else accepted_ai_workflow_result q s y) = Inr r"
    using assms unfolding evaluate_ai_workflow_output_def bind_res_Inr by blast
  note s = sanitized_output[OF e(1)]
  have claims: "xo_claims s = xo_claims x" by (simp add: s)
  from action_blocker_cases[OF e(2)] show ?thesis
  proof (elim disjE exE conjE)
    fix u v rc why
    assume b: "b = Some u" and p: "\<not> list_all permitted_action (xo_proposed_actions x)"
      and u: "blocked_ai_result q s Blocked_Forbidden_Action v rc why y = Inr u"
    from e(3) b have "u = r" by simp
    note r = blocked_result[OF u, unfolded this]
    have "xr_explanation_text r \<in> fixed_texts" using r fixed_text by blast
    then show ?thesis using r p by (simp add: s)
  next
    assume b: "b = None" and p: "list_all permitted_action (xo_proposed_actions x)"
    show ?thesis
    proof (cases "unsupported_claims q s = []")
      case True
      then have "accepted_ai_workflow_result q s y = Inr r" using e(3) b by simp
      note r = accepted_result[OF this]
      have "list_all (grounded_claim q) (xo_claims x)" using True by (simp add: unsupported_none claims)
      then show ?thesis using r p by (simp add: s)
    next
      case False
      then have "blocked_ai_result q s Blocked_Unsupported_Claim Failed_Unsupported_Claim
          R_AI_Unsupported_Claim_Blocked Action_Allowed y = Inr r"
        using e(3) b by (simp add: unsupported_claim_blocker_result_def)
      note r = blocked_result[OF this]
      have "xr_explanation_text r \<in> fixed_texts" using r fixed_text by blast
      moreover have "\<not> list_all (grounded_claim q) (xo_claims x)" using False by (simp add: unsupported_none claims)
      ultimately show ?thesis using r p by (simp add: s)
    qed
  qed
qed

text \<open>Everything the evaluation builds passes its constructor, so an output for the request is
  always decided.\<close>

lemma narrative_total:
  assumes "well_formed_output x"
  obtains t where "render_grounded_claim_narrative (xo_claims x) = Inr t" "\<not> blank t"
proof -
  have sentence: "\<exists>u. claim_sentence (cl_claim_text c) = Inr u \<and> \<not> blank u" if "c \<in> set (xo_claims x)" for c
  proof -
    have b: "\<not> blank (cl_claim_text c)"
      using assms that by (simp add: well_formed_output_def list_all_iff ai_claim_guards_def)
    then have n: "py_strip (cl_claim_text c) \<noteq> []" by (simp add: blank_def)
    have nb: "\<not> blank (py_strip (cl_claim_text c))" using n by (simp add: blank_def py_strip_strip)
    then show ?thesis using n not_blank_append[OF nb, of "''.''"]
      by (simp add: claim_sentence_def Let_def checks_passes)
  qed
  obtain f where f: "claim_sentence (cl_claim_text c) = Inr (f c) \<and> \<not> blank (f c)"
    if "c \<in> set (xo_claims x)" for c :: ai_claim
    using bchoice[of "set (xo_claims x)" "\<lambda>c u. claim_sentence (cl_claim_text c) = Inr u \<and> \<not> blank u"] sentence
    by blast
  have "xo_claims x \<noteq> []" "distinct (map cl_claim_id (xo_claims x))"
    using assms by (simp_all add: well_formed_output_def ai_output_guards_def)
  then have "render_grounded_claim_narrative (xo_claims x) = Inr (join '' '' (map f (xo_claims x)))"
    using map_res_total[of "xo_claims x" "\<lambda>c. claim_sentence (cl_claim_text c)" f] f
    by (simp add: render_grounded_claim_narrative_def checks_passes)
  moreover have "\<not> blank (join '' '' (map f (xo_claims x)))"
  proof -
    obtain c cs where c: "xo_claims x = c # cs" using \<open>xo_claims x \<noteq> []\<close> by (meson neq_Nil_conv)
    then have "\<not> blank (f c)" using f by simp
    then show ?thesis using not_blank_append[of "f c"] c by (cases cs) simp_all
  qed
  ultimately show ?thesis using that by blast
qed

lemma audit_total:
  assumes "\<not> blank (xq_actor_subject q)" "aware t" "\<not> blank out"
  shows "is_ok (ai_audit_event q p v out t why y)"
  unfolding ai_audit_event_def
  by (subst mk_audit_event_ok) (use assms in \<open>simp_all add: blank_iff py_space_def FORBIDDEN_ATTRIBUTE_KEYS_def\<close>)

lemma canonical_label_shown: "passes (ai_action_guards (canonical_action a))"
  by (cases "xa_action_type a") (simp_all add: ai_action_guards_def canonical_action_def BLOCKED_LABEL_def blank_iff py_space_def)

lemma sanitized_total:
  assumes "well_formed_output x"
  shows "sanitized_output_of x = Inr (x\<lparr>xo_proposed_actions := map canonical_action (xo_proposed_actions x)\<rparr>)"
proof -
  have "map_res (\<lambda>a. checks (ai_action_guards a) a) (sanitized_actions x) = Inr (map (\<lambda>a. a) (sanitized_actions x))"
    by (rule map_res_total) (auto simp: sanitized_actions_canonical canonical_label_shown checks_passes)
  then show ?thesis
    using assms by (simp add: sanitized_output_of_def mk_ai_output_def checks_passes sanitized_actions_canonical
        well_formed_output_def ai_output_guards_def)
qed

lemma blocked_total:
  assumes "well_formed_output x" "\<not> blank (xq_actor_subject q)" "p \<noteq> Fallback_Used"
    and "rc \<in> {R_AI_Unsupported_Claim_Blocked, R_AI_Forbidden_Action_Blocked, R_AI_Action_Content_Blocked}"
  shows "is_ok (blocked_ai_result q (x\<lparr>xo_proposed_actions := map canonical_action (xo_proposed_actions x)\<rparr>) p v rc why y)"
proof -
  have "aware (xo_verifier_ran_at_utc x)" using assms(1) by (simp add: well_formed_output_def ai_output_guards_def)
  moreover have "\<not> blank ''blocked''" by (simp add: blank_iff py_space_def)
  ultimately obtain a where a: "ai_audit_event q p v ''blocked'' (xo_verifier_ran_at_utc x) (Some why) y = Inr a"
    using audit_total[OF assms(2), of "xo_verifier_ran_at_utc x" "''blocked''" p v "Some why" y]
    by (auto simp: is_ok_iff)
  obtain t where "blocked_ai_explanation rc = Inr t" "\<not> blank t"
    using assms(4) by (auto simp: blocked_ai_explanation_def blank_iff py_space_def)
  then show ?thesis
    using assms(1,3) a
    by (simp add: blocked_ai_result_def mk_ai_output_def mk_ai_result_def checks_passes well_formed_output_def
        ai_output_guards_def ai_result_guards_def)
qed

lemma accepted_total:
  assumes "well_formed_output x" "\<not> blank (xq_actor_subject q)"
  shows "is_ok (accepted_ai_workflow_result q (x\<lparr>xo_proposed_actions := map canonical_action (xo_proposed_actions x)\<rparr>) y)"
proof -
  have aware: "aware (xo_verifier_ran_at_utc x)" using assms(1) by (simp add: well_formed_output_def ai_output_guards_def)
  have "\<not> blank ''accepted''" by (simp add: blank_iff py_space_def)
  then have audit: "\<exists>a. ai_audit_event q Ready_For_Advisor_Review Verifier_Passed ''accepted''
      (xo_verifier_ran_at_utc x) (Some Action_Allowed) z = Inr a" for z
    using audit_total[OF assms(2) aware, of "''accepted''" Ready_For_Advisor_Review Verifier_Passed "Some Action_Allowed" z]
    by (auto simp: is_ok_iff)
  obtain t where t: "render_grounded_claim_narrative (xo_claims x) = Inr t" "\<not> blank t"
    using narrative_total[OF assms(1)] by blast
  let ?g = "x\<lparr>xo_proposed_actions := map canonical_action (xo_proposed_actions x), xo_explanation_text := t\<rparr>"
  have g: "mk_ai_output ?g = Inr ?g"
    using assms(1) t(2) by (simp add: mk_ai_output_def checks_passes well_formed_output_def ai_output_guards_def)
  obtain z where z: "workflow_output_integrity q ?g (Some (oy_digest y)) = Inr z"
    using build_integrity_total by (simp add: workflow_output_integrity_def)
  obtain a where a: "ai_audit_event q Ready_For_Advisor_Review Verifier_Passed ''accepted''
      (xo_verifier_ran_at_utc x) (Some Action_Allowed) z = Inr a" using audit by blast
  show ?thesis
    using t a by (simp add: accepted_ai_workflow_result_def g z mk_ai_result_def checks_passes ai_result_guards_def)
qed

lemma evaluation_total:
  assumes "well_formed_output x" "\<not> blank (xq_actor_subject q)"
  shows "is_ok (evaluate_ai_workflow_output q x) \<longleftrightarrow> passes (ensure_output_matches_request q x)"
proof (cases "passes (ensure_output_matches_request q x)")
  case True
  let ?s = "x\<lparr>xo_proposed_actions := map canonical_action (xo_proposed_actions x)\<rparr>"
  obtain y where y: "workflow_output_integrity q x None = Inr y"
    using build_integrity_total by (simp add: workflow_output_integrity_def)
  have blocked: "\<exists>r. blocked_ai_result q ?s p v rc why y = Inr r"
    if "p \<noteq> Fallback_Used"
      "rc \<in> {R_AI_Unsupported_Claim_Blocked, R_AI_Forbidden_Action_Blocked, R_AI_Action_Content_Blocked}" for p v rc why
    using blocked_total[OF assms that] by (simp add: is_ok_iff)
  have "\<exists>b. action_policy_blocker_result q ?s (action_decisions x) y = Inr b"
  proof (cases "list_ex (\<lambda>d. ac_reason d = Forbidden_Action_Type) (action_decisions x)")
    case True
    obtain r where "blocked_ai_result q ?s Blocked_Forbidden_Action Failed_Forbidden_Action
        R_AI_Forbidden_Action_Blocked Forbidden_Action_Type y = Inr r" using blocked by blast
    then show ?thesis using True by (simp add: action_policy_blocker_result_def)
  next
    case False
    show ?thesis
    proof (cases "List.find (\<lambda>d. \<not> ac_allowed d) (action_decisions x)")
      case (Some d)
      obtain r where "blocked_ai_result q ?s Blocked_Forbidden_Action Failed_Action_Content
          R_AI_Action_Content_Blocked (ac_reason d) y = Inr r" using blocked by blast
      then show ?thesis using False Some by (simp add: action_policy_blocker_result_def)
    qed (use False in \<open>simp add: action_policy_blocker_result_def\<close>)
  qed
  then obtain b where b: "action_policy_blocker_result q ?s (action_decisions x) y = Inr b" by blast
  have e: "evaluate_ai_workflow_output q x = (case b of Some r \<Rightarrow> Inr r | None \<Rightarrow>
      if unsupported_claims q ?s \<noteq> [] then unsupported_claim_blocker_result q ?s y
      else accepted_ai_workflow_result q ?s y)"
    using True by (simp add: evaluate_ai_workflow_output_def y sanitized_total[OF assms(1)] b)
  have "is_ok (unsupported_claim_blocker_result q ?s y)"
    unfolding unsupported_claim_blocker_result_def by (rule blocked_total[OF assms]) simp_all
  then show ?thesis
    using True accepted_total[OF assms, of y] unfolding e by (cases b) simp_all
next
  case False
  then show ?thesis
    using checks_fails[OF False, of "()"] by (auto simp: evaluate_ai_workflow_output_def)
qed

text \<open>C17: what an advisor is shown. The verdict on an output depends only on its labels and on
  the source products its claims name: it is ready for the advisor exactly when every proposed
  action is permitted and every claim is grounded in the evidence, and a forbidden action is
  reported before an ungrounded claim. The text of a ready result is written from the grounded
  claims, the text of a blocked one is fixed by the program; in no case the text the workflow
  supplied is shown, and every action of the stored output carries its canonical label.\<close>

theorem workflow_output_is_verified:
  assumes "evaluate_ai_workflow_output q x = Inr r"
  shows "xr_posture r =
      (if \<not> list_all permitted_action (xo_proposed_actions x) then Blocked_Forbidden_Action
       else if \<not> list_all (grounded_claim q) (xo_claims x) then Blocked_Unsupported_Claim
       else Ready_For_Advisor_Review) \<and>
    (if xr_posture r = Ready_For_Advisor_Review
     then render_grounded_claim_narrative (xo_claims x) = Inr (xr_explanation_text r)
     else xr_explanation_text r \<in> fixed_texts) \<and>
    (\<exists>y. xr_output r = Some y \<and> xo_explanation_text y = xr_explanation_text r \<and>
       xo_proposed_actions y = map canonical_action (xo_proposed_actions x) \<and> xo_claims y = xo_claims x) \<and>
    \<not> fallback_used r \<and> \<not> grants_downstream_authority r"
  using evaluated_cases[OF assms] by (simp add: fallback_used_def grants_downstream_authority_def)

definition sample_pack :: workflow_pack where
  "sample_pack = \<lparr>wk_workflow_pack_id = ''lotus-ai:idea-explanation:v1'', wk_workflow_pack_version = ''v1'',
     wk_purpose = Advisor_Rationale_Draft, wk_evaluation_ref = ''lotus-ai:governed-verifier:v1''\<rparr>"

definition sample_ai_request :: ai_request where
  "sample_ai_request =
     \<lparr>xq_request_id = ''request-1'', xq_actor_subject = ''advisor-1'', xq_workflow_pack = sample_pack,
      xq_redacted_evidence = redacted_evidence_fields sample_candidate, xq_approved_metadata = [],
      xq_requested_at_utc = utc 0, xq_reason_codes = [R_AI_Redaction_Applied]\<rparr>"

definition sample_ai_output :: ai_output where
  "sample_ai_output =
     \<lparr>xo_output_id = ''output-1'', xo_request_id = ''request-1'',
      xo_workflow_pack_id = ''lotus-ai:idea-explanation:v1'', xo_workflow_pack_version = ''v1'',
      xo_explanation_text = ''Buy now'',
      xo_claims = [\<lparr>cl_claim_id = ''claim-1'', cl_claim_text = ''Cash is high'',
        cl_source_product_ids = [''HoldingsAsOf'']\<rparr>],
      xo_proposed_actions = [\<lparr>xa_action_type = Action_Advisor_Review, xa_action_label = ''Review  evidence!''\<rparr>],
      xo_verifier_ran_at_utc = utc 1\<rparr>"

lemma sample_output_facts:
  "well_formed_output sample_ai_output" "\<not> blank (xq_actor_subject sample_ai_request)"
  "passes (ensure_output_matches_request sample_ai_request sample_ai_output)"
  by (simp_all add: well_formed_output_def ai_output_guards_def ai_claim_guards_def ai_action_guards_def
      sample_ai_output_def sample_ai_request_def sample_pack_def ensure_output_matches_request_def blank_iff py_space_def)

lemma sample_action_permitted: "list_all permitted_action (xo_proposed_actions sample_ai_output)"
proof -
  have "length ''Review  evidence!'' \<le> MAX_ACTION_LABEL_LENGTH \<and> is_ascii ''Review  evidence!'' \<and>
      normalize_action_label ''Review  evidence!'' \<in> set (permitted_phrases Action_Advisor_Review)"
    by code_simp
  then show ?thesis by (simp add: sample_ai_output_def permitted_action_def action_allowed_cases)
qed

lemma sample_claim_grounded: "list_all (grounded_claim sample_ai_request) (xo_claims sample_ai_output)"
  by (simp add: sample_ai_output_def sample_ai_request_def grounded_claim_def source_product_ids_def
      redacted_evidence_fields_def redacted_source_of_def sample_candidate_def sample_packet_def sample_source_def Let_def)

lemma sample_evaluated: "\<exists>r. evaluate_ai_workflow_output sample_ai_request sample_ai_output = Inr r"
  using evaluation_total[OF sample_output_facts(1,2)] sample_output_facts(3) by (simp add: is_ok_iff)

theorem workflow_output_is_verified_witness:
  "\<exists>r. evaluate_ai_workflow_output sample_ai_request sample_ai_output = Inr r \<and>
     xr_posture r = Ready_For_Advisor_Review \<and>
     render_grounded_claim_narrative (xo_claims sample_ai_output) = Inr (xr_explanation_text r)"
proof -
  obtain r where r: "evaluate_ai_workflow_output sample_ai_request sample_ai_output = Inr r"
    using sample_evaluated by blast
  from workflow_output_is_verified[OF r] r sample_action_permitted sample_claim_grounded show ?thesis by simp
qed

text \<open>C19: an output is decided for every request it belongs to: the evaluation of a well-formed output
  returns a result exactly when the output names the request and its workflow pack; none of the
  objects it builds on the way is ever rejected.\<close>

theorem matching_outputs_are_decided:
  assumes "well_formed_output x" "\<not> blank (xq_actor_subject q)"
  shows "is_ok (evaluate_ai_workflow_output q x) \<longleftrightarrow>
    xo_request_id x = xq_request_id q \<and>
    xo_workflow_pack_id x = wk_workflow_pack_id (xq_workflow_pack q) \<and>
    xo_workflow_pack_version x = wk_workflow_pack_version (xq_workflow_pack q)"
  using evaluation_total[OF assms] by (simp add: ensure_output_matches_request_def)

theorem matching_outputs_are_decided_witness:
  "is_ok (evaluate_ai_workflow_output sample_ai_request sample_ai_output)"
  using matching_outputs_are_decided[OF sample_output_facts(1,2)]
  by (simp add: sample_ai_output_def sample_ai_request_def sample_pack_def)

section \<open>The lineage of a repository\<close>

lemma stored_lineage:
  assumes "ai_ok s" "l \<in> set (candidate_lineage s c)"
  shows "al_candidate_id l = c" "d_get (ax_lineage_candidates s) (al_request_id l) = Some c"
    and "verify_ai_explanation_lineage_record_integrity l = Inr ()"
    and "ai_explanation_lineage_by_request_id (candidate_lineage s c) (al_request_id l) = Some l"
proof -
  have ok: "ai_lineage_ok s" using assms(1) by (simp add: ai_ok_def)
  show "al_candidate_id l = c" using ok assms(2) unfolding ai_lineage_ok_def by blast
  show "d_get (ax_lineage_candidates s) (al_request_id l) = Some c"
    using ok assms(2) unfolding ai_lineage_ok_def by blast
  have "al_lineage_hash l = lineage_hash_payload (lineage_payload_from_record l)"
    using ok assms(2) unfolding ai_lineage_ok_def by blast
  then show "verify_ai_explanation_lineage_record_integrity l = Inr ()"
    by (simp add: verify_ai_explanation_lineage_record_integrity_def checks_passes)
  have d: "distinct (map al_request_id (candidate_lineage s c))" using ok unfolding ai_lineage_ok_def by blast
  obtain m where m: "List.find (\<lambda>x. al_request_id x = al_request_id l) (candidate_lineage s c) = Some m"
    using assms(2) by (cases "List.find (\<lambda>x. al_request_id x = al_request_id l) (candidate_lineage s c)")
      (auto simp: find_None_iff)
  then have "m \<in> set (candidate_lineage s c) \<and> al_request_id m = al_request_id l" by (rule find_Some_iff')
  then have "m = l" using d assms(2) by (auto simp: distinct_map dest: inj_onD)
  with m show "ai_explanation_lineage_by_request_id (candidate_lineage s c) (al_request_id l) = Some l"
    by (simp add: ai_explanation_lineage_by_request_id_def)
qed

lemma same_request_same_lineage:
  assumes "ai_ok s" "l \<in> set (candidate_lineage s c)" "m \<in> set (candidate_lineage s d)"
    and "al_request_id l = al_request_id m"
  shows "l = m"
proof -
  have "d_get (ax_lineage_candidates s) (al_request_id l) = Some c"
    "d_get (ax_lineage_candidates s) (al_request_id m) = Some d"
    using stored_lineage(2) assms(1-3) by blast+
  then have "c = d" using assms(4) by simp
  with stored_lineage(4)[OF assms(1,2)] stored_lineage(4)[OF assms(1,3)] assms(4) show ?thesis
    by (metis option.inject)
qed

definition shared_identity :: "ai_lineage \<Rightarrow> ai_lineage \<Rightarrow> bool" where
  \<comment> \<open>the two records name the same request, run, nonce, confirmation or provider reference\<close>
  "shared_identity l m \<longleftrightarrow> al_request_id l = al_request_id m \<or>
     (\<exists>x y. al_attestation_receipt l = Some x \<and> al_attestation_receipt m = Some y \<and>
        attestation_identities x \<inter> attestation_identities y \<noteq> {}) \<or>
     (\<exists>x y. al_provider_retention_receipt l = Some x \<and> al_provider_retention_receipt m = Some y \<and>
        retention_identities x \<inter> retention_identities y \<noteq> {})"

lemma shared_identity_same:
  assumes "ai_ok s" "l \<in> set (candidate_lineage s c)" "m \<in> set (candidate_lineage s d)" "shared_identity l m"
  shows "l = m"
proof -
  have agrees: "attestation_replay.agrees (all_attestations s) (ax_attestation_index s)"
    "retention_replay.agrees (all_retentions s) (ax_retention_index s)"
    using assms(1) by (simp_all add: ai_ok_def)
  have "al_request_id l = al_request_id m"
    using assms(4) unfolding shared_identity_def
  proof (elim disjE exE conjE)
    fix x y assume h: "al_attestation_receipt l = Some x" "al_attestation_receipt m = Some y"
      "attestation_identities x \<inter> attestation_identities y \<noteq> {}"
    then obtain k where k: "k \<in> attestation_identities x" "k \<in> attestation_identities y" by blast
    have "(al_request_id l, x) \<in> all_attestations s" "(al_request_id m, y) \<in> all_attestations s"
      using assms(2,3) h(1,2) unfolding all_attestations_def by blast+
    then show ?thesis using attestation_replay.one_request[OF agrees(1)] k by blast
  next
    fix x y assume h: "al_provider_retention_receipt l = Some x" "al_provider_retention_receipt m = Some y"
      "retention_identities x \<inter> retention_identities y \<noteq> {}"
    then obtain k where k: "k \<in> retention_identities x" "k \<in> retention_identities y" by blast
    have "(al_request_id l, x) \<in> all_retentions s" "(al_request_id m, y) \<in> all_retentions s"
      using assms(2,3) h(1,2) unfolding all_retentions_def by blast+
    then show ?thesis using retention_replay.one_request[OF agrees(2)] k by blast
  qed
  then show ?thesis using same_request_same_lineage assms(1-3) by blast
qed

text \<open>Recording a lineage that is stored already.\<close>

lemma stored_receipts_agree:
  assumes "ai_ok t" "l \<in> set (candidate_lineage t c)"
  shows "al_attestation_receipt l = Some x \<Longrightarrow> \<not> attestation_conflicts (al_request_id l) x (ax_attestation_index t)"
    and "al_provider_retention_receipt l = Some y \<Longrightarrow> \<not> retention_conflicts (al_request_id l) y (ax_retention_index t)"
proof -
  have agrees: "attestation_replay.agrees (all_attestations t) (ax_attestation_index t)"
    "retention_replay.agrees (all_retentions t) (ax_retention_index t)"
    using assms(1) by (simp_all add: ai_ok_def)
  show "\<not> attestation_conflicts (al_request_id l) x (ax_attestation_index t)" if "al_attestation_receipt l = Some x"
    using attestation_replay.own_receipt[OF agrees(1)] assms(2) that unfolding all_attestations_def by blast
  show "\<not> retention_conflicts (al_request_id l) y (ax_retention_index t)" if "al_provider_retention_receipt l = Some y"
    using retention_replay.own_receipt[OF agrees(2)] assms(2) that unfolding all_retentions_def by blast
qed

lemma stored_lineage_replays:
  assumes "ai_ok t" "l \<in> set (candidate_lineage t c)" "ai_explanation_lineage_record_from_result r a n = Inr l"
  shows "\<exists>y. record_ai_explanation_lineage r a n t = (Inr y, t) \<and> ay_decision y = Lineage_Replayed \<and>
    ay_lineage y = Some l"
proof -
  note parts = lineage_from_result[OF assms(3)] stored_lineage[OF assms(1,2)]
  have "candidate_lineage t c \<noteq> []" using assms(2) by auto
  then obtain rc where rc: "d_get (rp_candidate_records (ax_repository t)) c = Some rc"
    using assms(1) by (auto simp: ai_ok_def)
  have "\<not> some_satisfies (\<lambda>x. attestation_conflicts (al_request_id l) x (ax_attestation_index t)) a"
    "\<not> some_satisfies (\<lambda>x. retention_conflicts (al_request_id l) x (ax_retention_index t)) n"
    using stored_receipts_agree[OF assms(1,2)] parts(2,3) by (simp_all add: some_satisfies_not)
  then show ?thesis
    using assms(3) rc parts(7-10)
    by (simp add: record_ai_explanation_lineage_def known_lineage_def lineage_answer_def)
qed

lemma accepted_lineage_stored:
  assumes "ai_ok s" "record_ai_explanation_lineage r a n s = (Inr y, s')" "ay_decision y = Lineage_Accepted"
  shows "\<exists>l. ay_lineage y = Some l \<and> ai_explanation_lineage_record_from_result r a n = Inr l \<and>
    l \<in> set (candidate_lineage s' (al_candidate_id l))"
proof -
  have "filed_lineage r a n s s'" using record_lineage_cases[of r a n s] assms(2,3) by auto
  then obtain l u where l: "ai_explanation_lineage_record_from_result r a n = Inr l" "s' = file_lineage u l a n s"
    unfolding filed_lineage_def by (elim exE conjE)
  have "ay_lineage y = Some l"
    using assms(2,3) l(1)
    by (auto simp: record_ai_explanation_lineage_def lineage_answer_def known_lineage_def Let_def act_bind_Inr
        split: option.splits if_splits)
  with l show ?thesis by simp
qed

section \<open>A concrete lineage\<close>

definition sample_digest :: string where
  "sample_digest = replicate 64 (CHR ''0'')"

definition sample_attestation :: attestation_receipt where
  "sample_attestation =
     \<lparr>at_run_id = ''run-1'', at_consumer_request_id = ''request-1'', at_replay_nonce = sample_digest,
      at_key_id = ''key-1'', at_rotation_epoch = 1, at_provider_id = ''provider'', at_provider_mode = ''live'',
      at_model_id = ''model'', at_model_version = ''1'', at_model_risk_approval_ref = ''approval-1'',
      at_evaluator_id = ''evaluator'', at_evaluator_policy_version = ''v1'',
      at_input_evidence_sha256 = sample_digest, at_output_content_sha256 = sample_digest,
      at_issued_at_utc = utc 0, at_expires_at_utc = utc 3, at_verified_at_utc = utc 1\<rparr>"

definition sample_ai_result :: ai_result where
  "sample_ai_result =
     \<lparr>xr_request = sample_ai_request\<lparr>xq_redacted_evidence := (redacted_evidence_fields sample_candidate)
        \<lparr>xe_evidence_content_hash := sample_digest, xe_source_revision_vector_digest := sample_digest\<rparr>\<rparr>,
      xr_posture = Ready_For_Advisor_Review, xr_verifier_outcome = Verifier_Passed,
      xr_explanation_text = ''Cash is high.'', xr_reason_codes = [R_AI_Verifier_Passed],
      xr_audit_event = \<lparr>au_event_type = ''idea.ai_explanation.evaluated'', au_actor_subject = ''advisor-1'',
        au_outcome = ''accepted'', au_occurred_at_utc = utc 1, au_attributes = []\<rparr>,
      xr_output_integrity = \<lparr>oy_version = AI_OUTPUT_INTEGRITY_VERSION, oy_digest = ''sha256:'' @ sample_digest\<rparr>,
      xr_provenance_posture = Lotus_AI_Attestation_Verified, xr_output = Some sample_ai_output,
      xr_fallback_reason = None\<rparr>"

lemma sample_digest_text: "\<not> list_all py_space sample_digest"
  by (simp add: sample_digest_def list_all_iff py_space_def)

lemma sample_receipt_valid: "passes (attestation_receipt_guards sample_attestation)"
  by (simp add: attestation_receipt_guards_def sample_attestation_def require_sha256_hex_def is_sha256_hex_def
      blank_iff py_space_def sample_digest_def) code_simp

lemma sample_result_lineage:
  "\<exists>l. ai_explanation_lineage_record_from_result sample_ai_result (Some sample_attestation) None = Inr l"
proof -
  have q: "xq_request_id (xr_request sample_ai_result) = ''request-1''"
    "xe_candidate_id (xq_redacted_evidence (xr_request sample_ai_result)) = ''idea-1''"
    "xe_evidence_packet_id (xq_redacted_evidence (xr_request sample_ai_result)) = ''packet-1''"
    "xe_evidence_content_hash (xq_redacted_evidence (xr_request sample_ai_result)) = sample_digest"
    "xe_source_revision_vector_digest (xq_redacted_evidence (xr_request sample_ai_result)) = sample_digest"
    "xe_source_cut_posture (xq_redacted_evidence (xr_request sample_ai_result)) = Cut_Coherent"
    "xq_actor_subject (xr_request sample_ai_result) = ''advisor-1''"
    "xq_workflow_pack (xr_request sample_ai_result) = sample_pack"
    "xq_requested_at_utc (xr_request sample_ai_result) = utc 0"
    using sample_cut_posture
    by (simp_all add: sample_ai_result_def sample_ai_request_def redacted_evidence_fields_def Let_def
        sample_candidate_def sample_packet_def)
  have y: "xr_output_integrity sample_ai_result =
      \<lparr>oy_version = AI_OUTPUT_INTEGRITY_VERSION, oy_digest = ''sha256:'' @ sample_digest\<rparr>"
    "xr_output sample_ai_result = Some sample_ai_output" "xr_posture sample_ai_result = Ready_For_Advisor_Review"
    "xr_verifier_outcome sample_ai_result = Verifier_Passed" "xr_fallback_reason sample_ai_result = None"
    "xr_reason_codes sample_ai_result = [R_AI_Verifier_Passed]"
    "xr_provenance_posture sample_ai_result = Lotus_AI_Attestation_Verified"
    "at_consumer_request_id sample_attestation = ''request-1''"
    by (simp_all add: sample_ai_result_def sample_attestation_def)
  have i: "passes (output_integrity_guards
      \<lparr>oy_version = AI_OUTPUT_INTEGRITY_VERSION, oy_digest = ''sha256:'' @ sample_digest\<rparr>)"
    by (simp add: output_integrity_guards_def AI_OUTPUT_INTEGRITY_VERSION_def sample_digest_text blank_iff py_space_def
        sample_digest_def list_all_iff)
  have "is_ok (ai_lineage_of_result sample_ai_result (utc 1) h (Some sample_attestation) None)"
    if "\<not> list_all py_space h" for h
    unfolding ai_lineage_of_result_def Let_def is_ok_checks ai_lineage_guards_def q y
    using that sample_digest_text i
    by (simp add: sample_pack_def provenance_values_def cut_values_def AI_OUTPUT_INTEGRITY_VERSION_def
        AI_ACTION_POLICY_VERSION_def blank_iff py_space_def)
  moreover have "\<not> list_all py_space (lineage_hash_payload p)" for p
    by (simp add: lineage_hash_payload_def py_space_def)
  moreover have "ai_lineage_evaluated_at_utc sample_ai_result = utc 1"
    by (simp add: ai_lineage_evaluated_at_utc_def y sample_ai_output_def)
  ultimately show ?thesis
    by (simp add: ai_explanation_lineage_record_from_result_def validate_ai_lineage_receipts_def q y opt_guards_def
        is_ok_iff Let_def)
qed

definition sample_ai_start :: ai_repository where
  "sample_ai_start = empty_ai_repository\<lparr>ax_repository := sample_persisted\<rparr>"

definition sample_ai_repository :: ai_repository where
  "sample_ai_repository =
     snd (record_ai_explanation_lineage sample_ai_result (Some sample_attestation) None sample_ai_start)"

lemma sample_ai_start_reached: "ai_step\<^sup>*\<^sup>* empty_ai_repository sample_ai_start"
proof (rule r_into_rtranclp)
  have "ax_repository empty_ai_repository = empty_repository" by (simp add: empty_ai_repository_def)
  then have "repository_step (ax_repository empty_ai_repository) sample_persisted"
    using repository_step.persist[OF sample_candidate_well_formed] by (simp add: sample_persisted_def)
  then show "ai_step empty_ai_repository sample_ai_start"
    unfolding sample_ai_start_def by (rule ai_step.repository_mutation)
qed

lemma sample_ai_reached: "ai_step\<^sup>*\<^sup>* empty_ai_repository sample_ai_repository"
  unfolding sample_ai_repository_def
  by (rule rtranclp.rtrancl_into_rtrancl[OF sample_ai_start_reached]) (rule ai_step.lineage)

lemma sample_ai_recorded:
  "\<exists>y l. record_ai_explanation_lineage sample_ai_result (Some sample_attestation) None sample_ai_start =
     (Inr y, sample_ai_repository) \<and> ay_decision y = Lineage_Accepted \<and> ay_lineage y = Some l \<and>
     candidate_lineage sample_ai_repository ''idea-1'' = [l] \<and> al_attestation_receipt l = Some sample_attestation"
proof -
  obtain l where l: "ai_explanation_lineage_record_from_result sample_ai_result (Some sample_attestation) None = Inr l"
    using sample_result_lineage by blast
  obtain rc where rc: "d_get (rp_candidate_records sample_persisted) ''idea-1'' = Some rc"
    using sample_persisted_record by blast
  note parts = lineage_from_result[OF l]
  have c: "al_candidate_id l = ''idea-1''"
    using parts(5) by (simp add: sample_ai_result_def sample_ai_request_def redacted_evidence_fields_def Let_def
        sample_candidate_def)
  let ?u = "rc\<lparr>pn_audit_events := pn_audit_events rc @ [xr_audit_event sample_ai_result]\<rparr>"
  have "repository_ok sample_persisted" using reached_ok sample_persisted_reached by blast
  from audit_appended_ok(1)[OF ok_record[OF this rc]] have u: "passes (persistence_record_guards ?u)"
    by (simp add: record_ok_def)
  have idx: "ax_attestation_index sample_ai_start = empty_attestation_index" "ax_lineage_candidates sample_ai_start = []"
    "ax_repository sample_ai_start = sample_persisted" "candidate_lineage sample_ai_start d = []" for d
    by (simp_all add: sample_ai_start_def empty_ai_repository_def candidate_lineage_def)
  have "\<not> attestation_conflicts (al_request_id l) sample_attestation empty_attestation_index"
    unfolding attestation_replay.conflicts_iff by (simp add: attestation_replay.lookup_empty)
  then have "record_ai_explanation_lineage sample_ai_result (Some sample_attestation) None sample_ai_start =
      (Inr \<lparr>ay_decision = Lineage_Accepted, ay_record = Some ?u, ay_lineage = Some l,
         ay_audit_event = Some (xr_audit_event sample_ai_result)\<rparr>,
       file_lineage ?u l (Some sample_attestation) None sample_ai_start)"
    using rc u c l by (simp add: record_ai_explanation_lineage_def idx mk_persistence_record_def checks_passes)
  then show ?thesis
    using parts(2) c idx(4)
    by (intro exI[of _ "\<lparr>ay_decision = Lineage_Accepted, ay_record = Some ?u, ay_lineage = Some l,
         ay_audit_event = Some (xr_audit_event sample_ai_result)\<rparr>"] exI[of _ l]) (simp add: sample_ai_repository_def)
qed

section \<open>What every run keeps\<close>

text \<open>The lineage of a candidate is an append-only log of verified records: whatever the repository
  does later, the records stored for a candidate stay where they are, each verifies against its own
  hash, and each is the one record under its request, filed in the request index under its
  candidate.\<close>

theorem lineage_is_append_only:
  assumes "ai_step\<^sup>*\<^sup>* empty_ai_repository s" "ai_step\<^sup>*\<^sup>* s t" "l \<in> set (candidate_lineage s c)"
  shows "prefix (candidate_lineage s c) (candidate_lineage t c) \<and>
    verify_ai_explanation_lineage_record_integrity l = Inr () \<and>
    d_get (ax_lineage_candidates t) (al_request_id l) = Some c \<and>
    ai_explanation_lineage_by_request_id (candidate_lineage t c) (al_request_id l) = Some l"
proof -
  have "ai_ok t \<and> ai_grows s t" using ai_run_ok[OF assms(2) reached_ai_ok[OF assms(1)]] .
  then have g: "ai_ok t" "prefix (candidate_lineage s c) (candidate_lineage t c)"
    unfolding ai_grows_def by blast+
  then have "l \<in> set (candidate_lineage t c)" using assms(3) set_mono_prefix by blast
  from stored_lineage[OF g(1) this] g(2) show ?thesis by blast
qed

theorem lineage_is_append_only_witness:
  "\<exists>l. candidate_lineage sample_ai_repository ''idea-1'' = [l] \<and>
     verify_ai_explanation_lineage_record_integrity l = Inr ()"
proof -
  obtain l where l: "candidate_lineage sample_ai_repository ''idea-1'' = [l]" using sample_ai_recorded by blast
  then have "l \<in> set (candidate_lineage sample_ai_repository ''idea-1'')" by simp
  from lineage_is_append_only[OF sample_ai_reached rtranclp.rtrancl_refl this] l show ?thesis by blast
qed

text \<open>C20: a receipt serves one request. Two lineage records of any candidates that share a request, or an
  identity of their receipts (the run or the nonce of an attestation, the confirmation, the provider
  reference or the nonce of a retention proof), are the same record: an attested run or a provider
  confirmation is never counted twice.\<close>

theorem receipts_serve_one_request:
  assumes "ai_step\<^sup>*\<^sup>* empty_ai_repository s"
    and "l \<in> set (candidate_lineage s c)" "m \<in> set (candidate_lineage s d)" "shared_identity l m"
  shows "l = m \<and> c = d"
proof -
  note ok = reached_ai_ok[OF assms(1)]
  have "l = m" using shared_identity_same[OF ok assms(2-4)] .
  with stored_lineage(1)[OF ok assms(2)] stored_lineage(1)[OF ok assms(3)] show ?thesis by simp
qed

theorem receipts_serve_one_request_witness:
  "\<exists>l. candidate_lineage sample_ai_repository ''idea-1'' = [l] \<and>
     al_attestation_receipt l = Some sample_attestation \<and>
     (\<forall>c m. m \<in> set (candidate_lineage sample_ai_repository c) \<longrightarrow> shared_identity l m \<longrightarrow> m = l \<and> c = ''idea-1'')"
proof -
  obtain l where l: "candidate_lineage sample_ai_repository ''idea-1'' = [l]"
      "al_attestation_receipt l = Some sample_attestation" using sample_ai_recorded by blast
  then have "l \<in> set (candidate_lineage sample_ai_repository ''idea-1'')" by simp
  from receipts_serve_one_request[OF sample_ai_reached this] l show ?thesis by blast
qed

text \<open>C21: recording is idempotent: once a result and its receipts have been recorded, recording them
  again at any later moment changes nothing and answers with the stored lineage.\<close>

theorem recorded_lineage_replays:
  assumes "ai_step\<^sup>*\<^sup>* empty_ai_repository s"
    and "record_ai_explanation_lineage r a n s = (Inr y, s')" "ay_decision y = Lineage_Accepted"
    and "ai_step\<^sup>*\<^sup>* s' t"
  shows "\<exists>z. record_ai_explanation_lineage r a n t = (Inr z, t) \<and> ay_decision z = Lineage_Replayed \<and>
    ay_lineage z = ay_lineage y \<and> ay_lineage z \<noteq> None"
proof -
  note ok = reached_ai_ok[OF assms(1)]
  obtain l where l: "ay_lineage y = Some l" "ai_explanation_lineage_record_from_result r a n = Inr l"
      "l \<in> set (candidate_lineage s' (al_candidate_id l))"
    using accepted_lineage_stored[OF ok assms(2,3)] by blast
  have "ai_ok s'" using lineage_recorded_ok[OF ok, of r a n] assms(2) by simp
  from ai_run_ok[OF assms(4) this] have t: "ai_ok t" "ai_grows s' t" by blast+
  then have "l \<in> set (candidate_lineage t (al_candidate_id l))"
    using l(3) set_mono_prefix unfolding ai_grows_def by blast
  from stored_lineage_replays[OF t(1) this l(2)] l(1) show ?thesis by auto
qed

theorem recorded_lineage_replays_witness:
  "\<exists>z. record_ai_explanation_lineage sample_ai_result (Some sample_attestation) None sample_ai_repository =
     (Inr z, sample_ai_repository) \<and> ay_decision z = Lineage_Replayed"
proof -
  obtain y where "record_ai_explanation_lineage sample_ai_result (Some sample_attestation) None sample_ai_start =
     (Inr y, sample_ai_repository)" "ay_decision y = Lineage_Accepted" using sample_ai_recorded by blast
  from recorded_lineage_replays[OF sample_ai_start_reached this rtranclp.rtrancl_refl] show ?thesis by blast
qed

text \<open>C22: the replay indexes survive a restart. Rebuilding them from the lineage of the stored candidates
  never fails in a state the repository reaches, and the rebuilt indexes answer every lookup as the
  ones that were dropped, in whatever order the records were filed.\<close>

theorem replay_indexes_are_restored:
  assumes "ai_step\<^sup>*\<^sup>* empty_ai_repository s"
  shows "\<exists>t :: ai_repository.
    restore_ai_indexes (s\<lparr>ax_attestation_index := empty_attestation_index,
      ax_retention_index := empty_retention_index\<rparr>) = Inr t \<and>
    attestation_lookup (ax_attestation_index t) = attestation_lookup (ax_attestation_index s) \<and>
    retention_lookup (ax_retention_index t) = retention_lookup (ax_retention_index s) \<and>
    t = s\<lparr>ax_attestation_index := ax_attestation_index t, ax_retention_index := ax_retention_index t\<rparr>"
proof -
  note ok = reached_ai_ok[OF assms]
  have agrees: "attestation_replay.agrees (set (attestation_entries s)) (ax_attestation_index s)"
    "retention_replay.agrees (set (retention_entries s)) (ax_retention_index s)"
    using ok by (simp_all add: set_entries[OF ok] ai_ok_def)
  obtain i where i: "attestation_restore (attestation_entries s) empty_attestation_index = Inr i"
      "attestation_lookup i = attestation_lookup (ax_attestation_index s)"
    using attestation_replay.restored[OF agrees(1)] by blast
  obtain j where j: "retention_restore (retention_entries s) empty_retention_index = Inr j"
      "retention_lookup j = retention_lookup (ax_retention_index s)"
    using retention_replay.restored[OF agrees(2)] by blast
  have e: "attestation_entries (s\<lparr>ax_attestation_index := x, ax_retention_index := y\<rparr>) = attestation_entries s"
    "retention_entries (s\<lparr>ax_attestation_index := x, ax_retention_index := y\<rparr>) = retention_entries s" for x y
    by (simp_all add: attestation_entries_def retention_entries_def candidate_lineage_def[abs_def])
  show ?thesis
    using i j by (intro exI[of _ "s\<lparr>ax_attestation_index := i, ax_retention_index := j\<rparr>"])
      (simp add: restore_ai_indexes_def e)
qed

theorem replay_indexes_are_restored_witness:
  "\<exists>t. restore_ai_indexes (sample_ai_repository\<lparr>ax_attestation_index := empty_attestation_index,
      ax_retention_index := empty_retention_index\<rparr>) = Inr t"
  using replay_indexes_are_restored[OF sample_ai_reached] by blast

end
