(* ===== verification/Ranking.thy ===== *)
theory Ranking
imports Review_Governance Dec
begin

text \<open>
  Ranking evaluation (\<open>ranking_evaluation.py\<close>): how good and how stable the order of presented
  queues was. A judgment grades a ranked opportunity; a snapshot is evaluated at cutoffs by
  precision and NDCG when every rank down to the cutoff was presented and judged; snapshots
  are averaged per cutoff, and successive snapshots of one cohort compared by displacement.
\<close>

section \<open>Vocabulary and facts\<close>

definition RANKING_EVALUATION_POLICY_VERSION :: string where
  "RANKING_EVALUATION_POLICY_VERSION = ''idea-ranking-evaluation-v1''"

definition APPROVED_RANKING_CUTOFFS :: "int list" where
  "APPROVED_RANKING_CUTOFFS = [1, 3, 5, 10]"

definition MINIMUM_READY_SNAPSHOT_COUNT :: int where
  "MINIMUM_READY_SNAPSHOT_COUNT = 30"

datatype relevance_grade = Grade_Not_Useful | Grade_Useful | Grade_Approved | Grade_Downstream_Accepted

fun grade_value :: "relevance_grade \<Rightarrow> nat" where
  "grade_value Grade_Not_Useful = 0"
| "grade_value Grade_Useful = 1"
| "grade_value Grade_Approved = 2"
| "grade_value Grade_Downstream_Accepted = 3"

datatype cutoff_status = Cutoff_Ready | Incomplete_Presentation | Incomplete_Judgments

datatype metric_support = Metric_Unavailable | Metric_Insufficient_Support | Metric_Ready

datatype judgment_source = Judged_By_Review | Judged_By_Feedback | Judged_By_Outcome

record ranked_judgment =
  jg_rank :: int
  jg_relevance_grade :: "relevance_grade option"

definition ranked_judgment_guards :: "ranked_judgment \<Rightarrow> guards" where
  "ranked_judgment_guards j = [(jg_rank j \<le> 0, ValueError ''rank must be a positive integer'')]"

record relevance_fact =
  jf_occurred_at_utc :: py_datetime
  jf_source :: judgment_source
  jf_relevance_grade :: relevance_grade

definition relevance_fact_guards :: "relevance_fact \<Rightarrow> guards" where
  "relevance_fact_guards f = require_aware (jf_occurred_at_utc f) ''occurred_at_utc''"

definition validate_visible_opportunity_count :: "int \<Rightarrow> guards" where
  "validate_visible_opportunity_count v =
     [(\<not> (1 \<le> v \<and> v \<le> MAX_PRESENTED_CANDIDATE_COUNT),
       ValueError (''visible_opportunity_count must be between 1 and '' @ int_str MAX_PRESENTED_CANDIDATE_COUNT))]"

record presentation_fact =
  jp_queue_snapshot_digest :: string
  jp_tenant_id :: string
  jp_presented_at_utc :: py_datetime
  jp_visible_opportunity_count :: int
  jp_queue_policy_version :: string
  jp_ranking_policy_version :: string
  jp_surface :: string
  jp_producer :: string
  jp_economic_identity_id :: string
  jp_judgment :: ranked_judgment

definition presentation_fact_guards :: "presentation_fact \<Rightarrow> guards" where
  "presentation_fact_guards f =
     require_text (jp_queue_snapshot_digest f) ''queue_snapshot_digest'' @
     require_text (jp_tenant_id f) ''tenant_id'' @
     require_text (jp_queue_policy_version f) ''queue_policy_version'' @
     require_text (jp_ranking_policy_version f) ''ranking_policy_version'' @
     require_text (jp_surface f) ''surface'' @ require_text (jp_producer f) ''producer'' @
     require_text (jp_economic_identity_id f) ''economic_identity_id'' @
     require_aware (jp_presented_at_utc f) ''presented_at_utc'' @
     validate_visible_opportunity_count (jp_visible_opportunity_count f)"

record cutoff_evaluation =
  ju_cutoff :: int
  ju_evaluated_depth :: int
  ju_status :: cutoff_status
  ju_observed_opportunity_count :: int
  ju_judged_opportunity_count :: int
  ju_unjudged_opportunity_count :: int
  ju_judgment_coverage :: decimal
  ju_precision_at_k :: "decimal option"
  ju_ndcg_at_k :: "decimal option"

record snapshot_evaluation =
  js_policy_version :: string
  js_visible_opportunity_count :: int
  js_cutoff_evaluations :: "cutoff_evaluation list"

record queue_evaluation =
  jq_queue_snapshot_digest :: string
  jq_tenant_id :: string
  jq_presented_at_utc :: py_datetime
  jq_queue_policy_version :: string
  jq_ranking_policy_version :: string
  jq_surface :: string
  jq_producer :: string
  jq_ranked_economic_identity_ids :: "string list"
  jq_evaluation :: snapshot_evaluation

record cutoff_aggregate =
  ja_cutoff :: int
  ja_snapshot_count :: int
  ja_ready_snapshot_count :: int
  ja_incomplete_presentation_snapshot_count :: int
  ja_incomplete_judgment_snapshot_count :: int
  ja_judged_opportunity_count :: int
  ja_evaluated_opportunity_count :: int
  ja_judgment_coverage :: "decimal option"
  ja_support_status :: metric_support
  ja_mean_precision_at_k :: "decimal option"
  ja_mean_ndcg_at_k :: "decimal option"

record stability_aggregate =
  jt_comparable_snapshot_pair_count :: int
  jt_mean_normalized_stability :: "decimal option"

section \<open>Grades\<close>

fun review_relevance_grade :: "review_action \<Rightarrow> relevance_grade option" where
  "review_relevance_grade Approve_For_Conversion = Some Grade_Approved"
| "review_relevance_grade Reject = Some Grade_Not_Useful"
| "review_relevance_grade Suppress = Some Grade_Not_Useful"
| "review_relevance_grade _ = None"

definition feedback_relevance_grade :: "feedback_outcome \<Rightarrow> relevance_grade" where
  "feedback_relevance_grade x = (if x = Useful then Grade_Useful else Grade_Not_Useful)"

definition downstream_relevance_grade :: "outcome_status \<Rightarrow> relevance_grade option" where
  "downstream_relevance_grade s =
     (if s \<in> {Outcome_Accepted, Outcome_Completed} then Some Grade_Downstream_Accepted else None)"

definition eligible_fact ::
    "py_datetime \<Rightarrow> py_datetime \<Rightarrow> py_datetime option \<Rightarrow> relevance_fact \<Rightarrow> bool" where
  "eligible_fact presented_at_utc evaluated_at_utc valid_until_utc f \<longleftrightarrow>
     dt_le presented_at_utc (jf_occurred_at_utc f) \<and> dt_le (jf_occurred_at_utc f) evaluated_at_utc \<and>
     (case valid_until_utc of None \<Rightarrow> True | Some u \<Rightarrow> dt_less (jf_occurred_at_utc f) u)"

definition derive_ranking_relevance ::
    "relevance_fact list \<Rightarrow> py_datetime \<Rightarrow> py_datetime \<Rightarrow> py_datetime option \<Rightarrow>
     relevance_grade option res" where
  "derive_ranking_relevance facts presented_at_utc evaluated_at_utc valid_until_utc =
    (let eligible = filter (eligible_fact presented_at_utc evaluated_at_utc valid_until_utc) facts in
     if list_ex (\<lambda>f. jf_source f = Judged_By_Outcome \<and> jf_relevance_grade f = Grade_Downstream_Accepted) eligible
     then Inr (Some Grade_Downstream_Accepted)
     else let human = filter (\<lambda>f. jf_source f \<noteq> Judged_By_Outcome) eligible in
       if human = [] then Inr None
       else let latest_at = Max (set (map (\<lambda>f. inst (jf_occurred_at_utc f)) human));
                latest_grades = remdups (map jf_relevance_grade
                  (filter (\<lambda>f. inst (jf_occurred_at_utc f) = latest_at) human))
         in case latest_grades of
              [g] \<Rightarrow> Inr (Some g)
            | _ \<Rightarrow> Inl (ValueError
                ''ranking relevance contains conflicting human judgments at the same instant''))"

section \<open>Metrics\<close>

text \<open>\<open>quantize(Decimal("0.000001"), ROUND_HALF_UP)\<close>; the rates need far fewer than 28 digits.\<close>

definition quantize_rate :: "decimal \<Rightarrow> decimal" where
  "quantize_rate x =
    (if 0 \<le> x then of_int \<lfloor>x * 1000000 + 1 / 2\<rfloor> / 1000000
     else - (of_int \<lfloor>- x * 1000000 + 1 / 2\<rfloor> / 1000000))"

definition ranking_ratio :: "int \<Rightarrow> int \<Rightarrow> decimal" where
  "ranking_ratio numerator denominator = quantize_rate (dec_div (of_int numerator) (of_int denominator))"

text \<open>The local context of \<open>_discounted_cumulative_gain\<close> has 40 digits. \<open>Decimal.ln\<close> is
  correctly rounded, and ranks are at most ten, so it is a table.\<close>

definition ctx40 :: "rat \<Rightarrow> decimal" where
  "ctx40 x =
    (if x = 0 then 0
     else let e = exp10 \<bar>x\<bar> in of_int (round_half_even (x * pow10 (39 - e))) * pow10 (e - 39))"

definition LN_TABLE :: "(nat \<times> int) list" where
  "LN_TABLE =
    [(2, 6931471805599453094172321214581765680755), (3, 10986122886681096913952452369225257046470),
     (4, 13862943611198906188344642429163531361510), (5, 16094379124341003746007593332261876395260),
     (6, 17917594692280550008124773583807022727230), (7, 19459101490553133051053527434431797296370),
     (8, 20794415416798359282516963643745297042270), (9, 21972245773362193827904904738450514092950),
     (10, 23025850929940456840179914546843642076010), (11, 23978952727983705440619435779651292998220)]"

definition decimal_ln :: "nat \<Rightarrow> decimal" where
  "decimal_ln n = (case map_of LN_TABLE n of None \<Rightarrow> 0 | Some m \<Rightarrow> of_int m / 10 ^ 40)"

definition gain_term :: "nat \<times> relevance_grade \<Rightarrow> decimal" where
  "gain_term = (\<lambda>(rank, grade).
     ctx40 ((2 ^ grade_value grade - 1) / ctx40 (decimal_ln (rank + 1) / decimal_ln 2)))"

definition discounted_cumulative_gain :: "relevance_grade list \<Rightarrow> decimal" where
  "discounted_cumulative_gain relevance =
     foldl (\<lambda>s t. ctx40 (s + t)) 0 (map gain_term (enumerate 1 relevance))"

definition sorted_grades :: "relevance_grade list \<Rightarrow> relevance_grade list" where
  \<comment> \<open>\<open>sorted(relevance, reverse=True)\<close>\<close>
  "sorted_grades relevance = sort_key (\<lambda>g. - int (grade_value g)) relevance"

definition precision_at_k :: "relevance_grade list \<Rightarrow> decimal" where
  "precision_at_k relevance =
     ranking_ratio (int (length (filter (\<lambda>g. grade_value Grade_Useful \<le> grade_value g) relevance)))
       (int (length relevance))"

definition ndcg_at_k :: "relevance_grade list \<Rightarrow> decimal" where
  "ndcg_at_k relevance =
    (let actual = discounted_cumulative_gain relevance;
         ideal = discounted_cumulative_gain (sorted_grades relevance)
     in if ideal = 0 then 0 else quantize_rate (dec_div actual ideal))"

section \<open>One snapshot\<close>

definition tuple_repr :: "int list \<Rightarrow> string" where
  "tuple_repr vs = ''('' @ join '', '' (map int_str vs) @ (if length vs = 1 then '','' else '''') @ '')''"

definition validate_cutoffs :: "int list \<Rightarrow> guards" where
  "validate_cutoffs cutoffs =
    (let unsupported = filter (\<lambda>c. c \<notin> set APPROVED_RANKING_CUTOFFS) cutoffs in
     [(cutoffs = [], ValueError ''cutoffs is required''),
      (list_ex (\<lambda>c. c \<le> 0) cutoffs, ValueError ''cutoffs must contain positive integers''),
      (sorted_list_of_set (set cutoffs) \<noteq> cutoffs, ValueError ''cutoffs must be unique and sorted''),
      (unsupported \<noteq> [], ValueError (''unsupported ranking cutoffs: '' @ tuple_repr unsupported))])"

fun validate_judgments ::
    "int \<Rightarrow> (int, ranked_judgment) dict \<Rightarrow> ranked_judgment list \<Rightarrow> (int, ranked_judgment) dict res" where
  "validate_judgments visible by_rank [] = Inr by_rank"
| "validate_judgments visible by_rank (j # js) =
     bind_res (checks
       [(visible < jg_rank j, ValueError ''judgment rank exceeds visible_opportunity_count''),
        (d_get by_rank (jg_rank j) \<noteq> None, ValueError ''judgment ranks must be unique'')] ())
       (\<lambda>_. validate_judgments visible (d_put (jg_rank j) j by_rank) js)"

definition cutoff_of ::
    "int \<Rightarrow> int \<Rightarrow> int \<Rightarrow> int \<Rightarrow> cutoff_status \<Rightarrow> decimal option \<Rightarrow> decimal option \<Rightarrow> cutoff_evaluation" where
  \<comment> \<open>\<open>_CutoffPopulation\<close> and \<open>_cutoff_evaluation\<close>\<close>
  "cutoff_of cutoff depth observed judged status precision ndcg =
     \<lparr>ju_cutoff = cutoff, ju_evaluated_depth = depth, ju_status = status,
      ju_observed_opportunity_count = observed, ju_judged_opportunity_count = judged,
      ju_unjudged_opportunity_count = depth - judged,
      ju_judgment_coverage = ranking_ratio judged depth, ju_precision_at_k = precision,
      ju_ndcg_at_k = ndcg\<rparr>"

definition evaluate_cutoff :: "(int, ranked_judgment) dict \<Rightarrow> int \<Rightarrow> int \<Rightarrow> cutoff_evaluation" where
  "evaluate_cutoff by_rank visible cutoff =
    (let depth = min cutoff visible;
         observed = List.map_filter (d_get by_rank) [1..depth];
         relevance = List.map_filter jg_relevance_grade observed;
         mk = cutoff_of cutoff depth (int (length observed)) (int (length relevance))
     in if int (length observed) \<noteq> depth then mk Incomplete_Presentation None None
        else if int (length relevance) \<noteq> depth then mk Incomplete_Judgments None None
        else mk Cutoff_Ready (Some (precision_at_k relevance)) (Some (ndcg_at_k relevance)))"

definition evaluate_ranking_snapshot ::
    "ranked_judgment list \<Rightarrow> int \<Rightarrow> int list \<Rightarrow> snapshot_evaluation res" where
  "evaluate_ranking_snapshot judgments visible cutoffs =
     bind_res (checks (validate_visible_opportunity_count visible @ validate_cutoffs cutoffs) ()) (\<lambda>_.
     bind_res (validate_judgments visible [] judgments) (\<lambda>by_rank.
     Inr \<lparr>js_policy_version = RANKING_EVALUATION_POLICY_VERSION,
          js_visible_opportunity_count = visible,
          js_cutoff_evaluations = map (evaluate_cutoff by_rank visible) cutoffs\<rparr>))"

section \<open>The presentations\<close>

definition group_into :: "'k \<Rightarrow> 'v \<Rightarrow> ('k, 'v list) dict \<Rightarrow> ('k, 'v list) dict" where
  \<comment> \<open>\<open>d.setdefault(k, []).append(v)\<close>\<close>
  "group_into k v d = d_put k (or_else (d_get d k) [] @ [v]) d"

definition same_presentation :: "presentation_fact \<Rightarrow> presentation_fact \<Rightarrow> bool" where
  "same_presentation f g \<longleftrightarrow>
     jp_tenant_id f = jp_tenant_id g \<and> dt_eq (jp_presented_at_utc f) (jp_presented_at_utc g) \<and>
     jp_visible_opportunity_count f = jp_visible_opportunity_count g \<and>
     jp_queue_policy_version f = jp_queue_policy_version g \<and>
     jp_ranking_policy_version f = jp_ranking_policy_version g \<and>
     jp_surface f = jp_surface g \<and> jp_producer f = jp_producer g"

definition validate_snapshot_consistency :: "presentation_fact list \<Rightarrow> presentation_fact \<Rightarrow> guards" where
  "validate_snapshot_consistency facts authority =
     [(\<not> list_all (\<lambda>f. same_presentation f authority) (tl facts),
       ValueError ''queue snapshot presentation facts are internally inconsistent''),
      (\<not> distinct (map jp_economic_identity_id facts),
       ValueError ''queue snapshot economic identities must be unique'')]"

definition evaluate_presentation_group ::
    "int list \<Rightarrow> string \<times> presentation_fact list \<Rightarrow> queue_evaluation res" where
  "evaluate_presentation_group cutoffs = (\<lambda>(digest, facts).
    (let authority = hd facts in
     bind_res (checks (validate_snapshot_consistency facts authority) ()) (\<lambda>_.
     bind_res (evaluate_ranking_snapshot (map jp_judgment facts) (jp_visible_opportunity_count authority) cutoffs)
       (\<lambda>e. Inr
         \<lparr>jq_queue_snapshot_digest = digest, jq_tenant_id = jp_tenant_id authority,
          jq_presented_at_utc = jp_presented_at_utc authority,
          jq_queue_policy_version = jp_queue_policy_version authority,
          jq_ranking_policy_version = jp_ranking_policy_version authority,
          jq_surface = jp_surface authority, jq_producer = jp_producer authority,
          jq_ranked_economic_identity_ids =
            map jp_economic_identity_id (sort_key (\<lambda>f. jg_rank (jp_judgment f)) facts),
          jq_evaluation = e\<rparr>))))"

definition evaluate_ranking_presentations ::
    "presentation_fact list \<Rightarrow> int list \<Rightarrow> queue_evaluation list res" where
  "evaluate_ranking_presentations facts cutoffs =
    (let grouped = fold (\<lambda>f. group_into (jp_queue_snapshot_digest f) f) facts [] in
     map_res (evaluate_presentation_group cutoffs) (sort_key fst grouped))"

section \<open>Averages\<close>

definition mean_ready_metric :: "decimal option list \<Rightarrow> decimal option res" where
  "mean_ready_metric vs =
    (if vs = [] then Inr None
     else bind_res (checks [(list_ex (\<lambda>v. v = None) vs,
            ValueError ''ready ranking evaluations must carry quality values'')] ()) (\<lambda>_.
       Inr (Some (quantize_rate (dec_div (dec_sum (List.map_filter id vs)) (of_nat (length vs)))))))"

definition aggregate_cutoff :: "int \<Rightarrow> queue_evaluation list \<Rightarrow> int \<Rightarrow> cutoff_aggregate res" where
  "aggregate_cutoff minimum evaluations cutoff =
    (let es = filter (\<lambda>u. ju_cutoff u = cutoff)
           (concat (map (\<lambda>q. js_cutoff_evaluations (jq_evaluation q)) evaluations));
         ready = filter (\<lambda>u. ju_status u = Cutoff_Ready) es;
         ready_count = int (length ready);
         evaluated_count = sum_list (map ju_evaluated_depth es);
         judged_count = sum_list (map ju_judged_opportunity_count es)
     in bind_res (mean_ready_metric (map ju_precision_at_k ready)) (\<lambda>p.
        bind_res (mean_ready_metric (map ju_ndcg_at_k ready)) (\<lambda>n.
        Inr \<lparr>ja_cutoff = cutoff, ja_snapshot_count = int (length es), ja_ready_snapshot_count = ready_count,
             ja_incomplete_presentation_snapshot_count =
               int (length (filter (\<lambda>u. ju_status u = Incomplete_Presentation) es)),
             ja_incomplete_judgment_snapshot_count =
               int (length (filter (\<lambda>u. ju_status u = Incomplete_Judgments) es)),
             ja_judged_opportunity_count = judged_count, ja_evaluated_opportunity_count = evaluated_count,
             ja_judgment_coverage =
               (if evaluated_count \<noteq> 0 then Some (ranking_ratio judged_count evaluated_count) else None),
             ja_support_status =
               (if ready_count = 0 then Metric_Unavailable
                else if ready_count < minimum then Metric_Insufficient_Support else Metric_Ready),
             ja_mean_precision_at_k = p, ja_mean_ndcg_at_k = n\<rparr>)))"

definition aggregate_ranking_evaluations ::
    "queue_evaluation list \<Rightarrow> int \<Rightarrow> cutoff_aggregate list res" where
  "aggregate_ranking_evaluations evaluations minimum =
     bind_res (checks [(minimum \<le> 0,
        ValueError ''minimum_ready_snapshot_count must be a positive integer'')] ()) (\<lambda>_.
     map_res (aggregate_cutoff minimum evaluations)
       (sorted_list_of_set (set (concat (map (\<lambda>q. map ju_cutoff (js_cutoff_evaluations (jq_evaluation q)))
          evaluations)))))"

section \<open>Stability\<close>

definition deepest :: "cutoff_evaluation list \<Rightarrow> cutoff_evaluation" where
  \<comment> \<open>\<open>max(..., key=evaluated_depth)\<close>: the first of the deepest\<close>
  "deepest us = foldl (\<lambda>b u. if ju_evaluated_depth b < ju_evaluated_depth u then u else b) (hd us) (tl us)"

definition top_cohort :: "queue_evaluation \<Rightarrow> string list" where
  "top_cohort q = take (nat (ju_evaluated_depth (deepest (js_cutoff_evaluations (jq_evaluation q)))))
     (jq_ranked_economic_identity_ids q)"

definition comparable :: "queue_evaluation \<Rightarrow> bool" where
  "comparable q \<longleftrightarrow> js_cutoff_evaluations (jq_evaluation q) \<noteq> [] \<and>
     ju_status (deepest (js_cutoff_evaluations (jq_evaluation q))) \<noteq> Incomplete_Presentation"

definition cohort_key :: "queue_evaluation \<Rightarrow> string set \<times> string \<times> int" where
  "cohort_key q = (set (top_cohort q), jq_ranking_policy_version q,
     ju_evaluated_depth (deepest (js_cutoff_evaluations (jq_evaluation q))))"

definition stability_guards :: "queue_evaluation list \<Rightarrow> guards" where
  "stability_guards qs = concat (map (\<lambda>q.
     [(\<not> distinct (top_cohort q),
       ValueError ''ranking stability requires unique economic identities per snapshot'')]) qs)"

definition rank_displacement :: "string list \<Rightarrow> string list \<Rightarrow> int" where
  "rank_displacement before after =
    (let before_rank = map_of (rev (zip before [1..int (length before)])) in
     sum_list (map (\<lambda>(identity, rank). \<bar>the (before_rank identity) - rank\<bar>)
       (zip after [1..int (length after)])))"

definition normalized_rank_stability :: "string list \<Rightarrow> string list \<Rightarrow> decimal res" where
  "normalized_rank_stability before after =
     bind_res (checks [(length before \<noteq> length after \<or> set before \<noteq> set after,
        ValueError ''ranking stability requires equivalent economic cohorts'')] ()) (\<lambda>_.
     if length before \<le> 1 then Inr 1
     else let maximum = (int (length before) * int (length before)) div 2 in
       Inr (quantize_rate (dec_sub 1 (dec_div (of_int (rank_displacement before after)) (of_int maximum)))))"

definition adjacent :: "'a list \<Rightarrow> ('a \<times> 'a) list" where
  "adjacent xs = zip xs (tl xs)"

definition cohort_pairs :: "queue_evaluation list \<Rightarrow> (queue_evaluation \<times> queue_evaluation) list" where
  "cohort_pairs qs =
     concat (map (\<lambda>g. adjacent (sort_key (\<lambda>q. (inst (jq_presented_at_utc q), jq_queue_snapshot_digest q)) g))
       (d_values (fold (\<lambda>q. group_into (cohort_key q) q) qs [])))"

definition evaluate_ranking_stability :: "queue_evaluation list \<Rightarrow> stability_aggregate res" where
  "evaluate_ranking_stability evaluations =
    (let qs = filter comparable evaluations in
     bind_res (checks (stability_guards qs) ()) (\<lambda>_.
     bind_res (map_res (\<lambda>(before, after). normalized_rank_stability
         (jq_ranked_economic_identity_ids before) (jq_ranked_economic_identity_ids after)) (cohort_pairs qs)) (\<lambda>values.
     Inr \<lparr>jt_comparable_snapshot_pair_count = int (length values),
          jt_mean_normalized_stability =
            (if values = [] then None
             else Some (quantize_rate (dec_div (dec_sum values) (of_nat (length values)))))\<rparr>)))"

end
