(* ===== verification/Ranking_Laws.thy ===== *)
theory Ranking_Laws
imports Ranking
begin

text \<open>
  Laws of the ranking metrics: rates stay between 0 and 1, displacement is bounded by half the
  square of the length, and sorting by grade maximises the discounted gain up to the rounding
  of the 40-digit context.
\<close>

section \<open>Rates\<close>

lemma quantize_rate_mono: "0 \<le> x \<Longrightarrow> x \<le> y \<Longrightarrow> quantize_rate x \<le> quantize_rate y"
  by (simp add: quantize_rate_def divide_right_mono floor_mono)

lemma quantize_rate_0 [simp]: "quantize_rate 0 = 0"
proof -
  have "\<lfloor>1 / 2 :: rat\<rfloor> = 0" by (rule floor_unique) simp_all
  then show ?thesis by (simp add: quantize_rate_def)
qed

lemma quantize_rate_1 [simp]: "quantize_rate 1 = 1"
proof -
  have "\<lfloor>1 * 1000000 + 1 / 2 :: rat\<rfloor> = 1000000" by (rule floor_unique) simp_all
  then show ?thesis by (simp add: quantize_rate_def)
qed

lemma quantize_rate_unit: "0 \<le> x \<Longrightarrow> x \<le> 1 \<Longrightarrow> 0 \<le> quantize_rate x \<and> quantize_rate x \<le> 1"
  using quantize_rate_mono[of 0 x] quantize_rate_mono[of x 1] by simp

lemma ctx28_1 [simp]: "ctx28 1 = 1"
  using ctx28_of_int[of 1] by simp

lemma ctx28_unit: "0 \<le> x \<Longrightarrow> x \<le> 1 \<Longrightarrow> 0 \<le> ctx28 x \<and> ctx28 x \<le> 1"
  using ctx28_mono[of 0 x] ctx28_mono[of x 1] by simp

lemma ratio_unit:
  assumes "0 \<le> n" "n \<le> d" "0 < d"
  shows "0 \<le> ranking_ratio n d \<and> ranking_ratio n d \<le> 1"
proof -
  have "0 \<le> (of_int n / of_int d :: rat) \<and> (of_int n / of_int d :: rat) \<le> 1"
    using assms by simp
  then show ?thesis unfolding ranking_ratio_def dec_div_def using ctx28_unit quantize_rate_unit by blast
qed

lemma ratio_full: "0 < d \<Longrightarrow> ranking_ratio d d = 1"
  by (simp add: ranking_ratio_def dec_div_def)

section \<open>Displacement\<close>

definition spread :: "nat \<Rightarrow> int" where
  "spread n = (\<Sum>i \<in> {1..int n}. \<bar>2 * i - (int n + 1)\<bar>)"

lemma spread_square: "spread n = int n * int n div 2"
proof (induction n rule: induct_nat_012)
  case (ge2 n)
  have "{1..int (Suc (Suc n))} = insert 1 (insert (int n + 2) ((\<lambda>i. i + 1) ` {1..int n}))"
    by (auto simp: image_iff)
  moreover have "sum (\<lambda>i. \<bar>2 * i - (int (Suc (Suc n)) + 1)\<bar>) ((\<lambda>i. i + 1) ` {1..int n}) = spread n"
    unfolding spread_def by (subst sum.reindex) (auto simp: inj_on_def intro!: sum.cong)
  moreover have "1 \<notin> insert (int n + 2) ((\<lambda>i. i + 1) ` {1..int n})" "int n + 2 \<notin> (\<lambda>i. i + 1) ` {1..int n}"
    by auto
  ultimately have "spread (Suc (Suc n)) = 2 * (int n + 1) + spread n"
    unfolding spread_def[of "Suc (Suc n)"] by simp
  moreover have "int (Suc (Suc n)) * int (Suc (Suc n)) = int n * int n + 2 * (2 * (int n + 1))"
    by (simp add: algebra_simps)
  ultimately show ?case using ge2(1) by simp
qed (simp_all add: spread_def)

definition rank_in :: "string list \<Rightarrow> string \<Rightarrow> int" where
  "rank_in before x = the (map_of (rev (zip before [1..int (length before)])) x)"

lemma zip_upto: "zip xs [k..k + int (length xs) - 1] = map (\<lambda>(i, x). (x, k + int i)) (enumerate 0 xs)"
proof (induction xs arbitrary: k)
  case (Cons x xs)
  have "[k..k + int (length (x # xs)) - 1] = k # [k + 1..(k + 1) + int (length xs) - 1]"
    by (subst upto.simps) simp
  then show ?case
    using Cons[of "k + 1"] by (simp add: enumerate_Suc_eq[of 0 xs, simplified] prod.case_distrib split_def comp_def)
qed simp

lemma zip_ranks: "zip xs [1..int (length xs)] = map (\<lambda>(i, x). (x, 1 + int i)) (enumerate 0 xs)"
  using zip_upto[of xs 1] by simp

lemma rank_bij:
  assumes "distinct xs"
  shows "bij_betw (rank_in xs) (set xs) {1..int (length xs)}" and "i < length xs \<Longrightarrow> rank_in xs (xs ! i) = 1 + int i"
proof -
  have keys: "map fst (zip xs [1..int (length xs)]) = xs" by simp
  have nth: "rank_in xs (xs ! i) = 1 + int i" if "i < length xs" for i
  proof -
    have "(xs ! i, 1 + int i) \<in> set (zip xs [1..int (length xs)])"
      using that by (auto simp: set_zip nth_upto intro!: exI[of _ i])
    moreover have "distinct (map fst (rev (zip xs [1..int (length xs)])))"
      using assms by (simp flip: rev_map)
    ultimately show ?thesis by (simp add: rank_in_def)
  qed
  then show "i < length xs \<Longrightarrow> rank_in xs (xs ! i) = 1 + int i" by blast
  have inj: "inj_on (rank_in xs) (set xs)"
  proof (rule inj_onI)
    fix x y assume xy: "x \<in> set xs" "y \<in> set xs" "rank_in xs x = rank_in xs y"
    then obtain i j where "i < length xs" "x = xs ! i" "j < length xs" "y = xs ! j"
      by (auto simp: in_set_conv_nth)
    with nth[of i] nth[of j] xy(3) show "x = y" by simp
  qed
  moreover have "rank_in xs ` set xs = {1..int (length xs)}"
  proof
    show "rank_in xs ` set xs \<subseteq> {1..int (length xs)}" using nth by (auto simp: in_set_conv_nth)
    show "{1..int (length xs)} \<subseteq> rank_in xs ` set xs"
    proof
      fix k assume k: "k \<in> {1..int (length xs)}"
      then have "nat (k - 1) < length xs" by auto
      with nth[OF this] k show "k \<in> rank_in xs ` set xs" by (force intro!: image_eqI[of _ _ "xs ! nat (k - 1)"])
    qed
  qed
  ultimately show "bij_betw (rank_in xs) (set xs) {1..int (length xs)}" by (simp add: bij_betw_def)
qed

lemma displacement_sum:
  assumes "distinct after"
  shows "rank_displacement before after = (\<Sum>x \<in> set after. \<bar>rank_in before x - rank_in after x\<bar>)"
proof -
  have "rank_displacement before after =
      sum_list (map (\<lambda>(i, x). \<bar>rank_in before x - (1 + int i)\<bar>) (enumerate 0 after))"
    unfolding rank_displacement_def Let_def zip_ranks[of after] rank_in_def
    by (simp add: comp_def split_def)
  also have "\<dots> = sum_list (map (\<lambda>x. \<bar>rank_in before x - rank_in after x\<bar>) after)"
  proof -
    have "map (\<lambda>(i, x). \<bar>rank_in before x - (1 + int i)\<bar>) (enumerate 0 after) =
        map (\<lambda>x. \<bar>rank_in before x - rank_in after x\<bar>) after"
      by (rule nth_equalityI) (simp_all add: nth_enumerate_eq rank_bij(2)[OF assms])
    then show ?thesis by simp
  qed
  also have "\<dots> = (\<Sum>x \<in> set after. \<bar>rank_in before x - rank_in after x\<bar>)"
    using assms by (simp add: sum_list_distinct_conv_sum_set)
  finally show ?thesis .
qed

lemma displacement_bounds:
  assumes "distinct before" "distinct after" "set before = set after"
  shows "0 \<le> rank_displacement before after"
    and "rank_displacement before after \<le> int (length before) * int (length before) div 2"
proof -
  let ?n = "length before" and ?S = "set after"
  have len: "length after = ?n" using assms by (metis distinct_card)
  show "0 \<le> rank_displacement before after"
    unfolding displacement_sum[OF assms(2)] by (simp add: sum_nonneg)
  have total: "(\<Sum>x \<in> ?S. \<bar>2 * rank_in ys x - (int ?n + 1)\<bar>) = spread ?n"
    if "distinct ys" "set ys = ?S" "length ys = ?n" for ys
    using sum.reindex_bij_betw[OF rank_bij(1)[OF that(1)], of "\<lambda>k. \<bar>2 * k - (int ?n + 1)\<bar>"] that(2,3)
    by (simp add: spread_def)
  have "2 * rank_displacement before after = (\<Sum>x \<in> ?S. 2 * \<bar>rank_in before x - rank_in after x\<bar>)"
    unfolding displacement_sum[OF assms(2)] by (simp add: sum_distrib_left)
  also have "\<dots> \<le> (\<Sum>x \<in> ?S. \<bar>2 * rank_in before x - (int ?n + 1)\<bar> + \<bar>2 * rank_in after x - (int ?n + 1)\<bar>)"
  proof (rule sum_mono)
    fix x
    have "\<bar>(2 * rank_in before x - (int ?n + 1)) - (2 * rank_in after x - (int ?n + 1))\<bar> \<le>
        \<bar>2 * rank_in before x - (int ?n + 1)\<bar> + \<bar>2 * rank_in after x - (int ?n + 1)\<bar>"
      by (rule abs_triangle_ineq4)
    moreover have "(2 * rank_in before x - (int ?n + 1)) - (2 * rank_in after x - (int ?n + 1)) =
        2 * (rank_in before x - rank_in after x)" by simp
    ultimately show "2 * \<bar>rank_in before x - rank_in after x\<bar> \<le>
        \<bar>2 * rank_in before x - (int ?n + 1)\<bar> + \<bar>2 * rank_in after x - (int ?n + 1)\<bar>"
      by (simp only: abs_mult abs_numeral)
  qed
  also have "\<dots> = 2 * spread ?n"
    using total[OF assms(1,3)] total[OF assms(2) _ len] by (simp add: sum.distrib)
  finally show "rank_displacement before after \<le> int ?n * int ?n div 2" by (simp add: spread_square)
qed

lemma displacement_same: "distinct xs \<Longrightarrow> rank_displacement xs xs = 0"
  by (simp add: displacement_sum)

lemma stability_unit:
  assumes "distinct before" "distinct after" "set before = set after"
  shows "\<exists>v. normalized_rank_stability before after = Inr v \<and> 0 \<le> v \<and> v \<le> 1"
proof (cases "length before \<le> 1")
  case True
  have "length before = length after" using assms by (metis distinct_card)
  with True assms(3) show ?thesis by (simp add: normalized_rank_stability_def checks_passes)
next
  case False
  let ?n = "int (length before)" and ?d = "rank_displacement before after"
  have len: "length before = length after" using assms by (metis distinct_card)
  have "2 * 2 \<le> ?n * ?n" using False by (intro mult_mono) simp_all
  then have m: "0 < ?n * ?n div 2" by linarith
  note b = displacement_bounds[OF assms]
  have "0 \<le> (of_int ?d / of_int (?n * ?n div 2) :: rat) \<and> (of_int ?d / of_int (?n * ?n div 2) :: rat) \<le> 1"
    using b m by (simp add: divide_le_eq)
  then have "0 \<le> dec_div (of_int ?d) (of_int (?n * ?n div 2)) \<and> dec_div (of_int ?d) (of_int (?n * ?n div 2)) \<le> 1"
    unfolding dec_div_def using ctx28_unit by blast
  then have "0 \<le> dec_sub 1 (dec_div (of_int ?d) (of_int (?n * ?n div 2))) \<and>
      dec_sub 1 (dec_div (of_int ?d) (of_int (?n * ?n div 2))) \<le> 1"
    unfolding dec_sub_def using ctx28_unit[of "1 - dec_div (of_int ?d) (of_int (?n * ?n div 2))"] by simp
  then show ?thesis
    using quantize_rate_unit False assms(3) len by (simp add: normalized_rank_stability_def checks_passes Let_def)
qed

lemma stability_same: "distinct xs \<Longrightarrow> normalized_rank_stability xs xs = Inr 1"
  by (simp add: normalized_rank_stability_def checks_passes Let_def displacement_same dec_div_def dec_sub_def)

section \<open>The discounted gain\<close>

lemma round_half_even_near: "\<bar>of_int (round_half_even q) - q\<bar> \<le> 1 / 2"
proof -
  define f where "f = \<lfloor>q\<rfloor>"
  have "of_int f \<le> q" "q < of_int f + 1" unfolding f_def by linarith+
  then show ?thesis
    unfolding round_half_even_def Let_def f_def[symmetric] abs_le_iff by (simp split: if_splits)
qed

definition unit40 :: rat where
  "unit40 = 1 / 10 ^ 39"

lemma ctx40_near:
  assumes "0 \<le> x"
  shows "(1 - unit40) * x \<le> ctx40 x" and "ctx40 x \<le> (1 + unit40) * x"
proof -
  have "\<bar>ctx40 x - x\<bar> \<le> unit40 * x"
  proof (cases "x = 0")
    case False
    with assms have x: "0 < x" by simp
    let ?e = "exp10 x" and ?r = "round_half_even (x * pow10 (39 - exp10 x))"
    have one: "pow10 (39 - ?e) * pow10 (?e - 39) = 1" by (simp flip: pow10_add)
    have "ctx40 x - x = (of_int ?r - x * pow10 (39 - ?e)) * pow10 (?e - 39)"
      using x one by (simp add: ctx40_def Let_def left_diff_distrib mult.assoc)
    then have "\<bar>ctx40 x - x\<bar> = \<bar>of_int ?r - x * pow10 (39 - ?e)\<bar> * pow10 (?e - 39)"
      by (simp add: abs_mult)
    also have "\<dots> \<le> 1 * pow10 (?e - 39)"
      using round_half_even_near[of "x * pow10 (39 - ?e)"] by (intro mult_right_mono) simp_all
    also have "\<dots> = unit40 * pow10 ?e"
    proof -
      have "pow10 (?e - 39) = pow10 ?e * pow10 (- 39)" by (simp flip: pow10_add)
      then show ?thesis by (simp add: unit40_def pow10_def)
    qed
    also have "\<dots> \<le> unit40 * x"
      using exp10_bounds[OF x] by (intro mult_left_mono) (simp_all add: unit40_def)
    finally show ?thesis .
  qed (simp add: ctx40_def)
  then show "(1 - unit40) * x \<le> ctx40 x" "ctx40 x \<le> (1 + unit40) * x"
    by (simp_all add: algebra_simps abs_le_iff)
qed

lemma unit40_small: "0 < unit40" "unit40 < 1"
  by (simp_all add: unit40_def)

lemma ctx40_nonneg: "0 \<le> x \<Longrightarrow> 0 \<le> ctx40 x"
proof -
  assume x: "0 \<le> x"
  have "0 \<le> (1 - unit40) * x" using x unit40_small by simp
  then show ?thesis using ctx40_near(1)[OF x] by (rule order_trans)
qed

lemma rounded_sum:
  assumes "\<forall>t \<in> set ts. 0 \<le> t" "0 \<le> a" "(1 - unit40) ^ k * a \<le> s" "s \<le> (1 + unit40) ^ k * a"
  shows "(1 - unit40) ^ (k + length ts) * (a + sum_list ts) \<le> foldl (\<lambda>s t. ctx40 (s + t)) s ts \<and>
    foldl (\<lambda>s t. ctx40 (s + t)) s ts \<le> (1 + unit40) ^ (k + length ts) * (a + sum_list ts)"
  using assms
proof (induction ts arbitrary: a k s)
  case (Cons t ts)
  have u: "0 \<le> 1 - unit40" "1 - unit40 \<le> 1" "1 \<le> 1 + unit40" using unit40_small by simp_all
  have t: "0 \<le> t" using Cons.prems(1) by simp
  have s: "0 \<le> s" using Cons.prems(2,3) u(1) by (meson mult_nonneg_nonneg order_trans zero_le_power)
  have lo: "(1 - unit40) ^ Suc k * (a + t) \<le> ctx40 (s + t)"
  proof -
    have "(1 - unit40) ^ k * t \<le> 1 * t" using u t by (intro mult_right_mono power_le_one) simp_all
    then have "(1 - unit40) ^ k * (a + t) \<le> s + t" using Cons.prems(3) by (simp add: algebra_simps)
    then have "(1 - unit40) * ((1 - unit40) ^ k * (a + t)) \<le> (1 - unit40) * (s + t)"
      using u(1) by (rule mult_left_mono)
    also have "\<dots> \<le> ctx40 (s + t)" by (rule ctx40_near(1)[OF add_nonneg_nonneg[OF s t]])
    finally show ?thesis by (simp add: mult.assoc)
  qed
  have hi: "ctx40 (s + t) \<le> (1 + unit40) ^ Suc k * (a + t)"
  proof -
    have "1 * t \<le> (1 + unit40) ^ k * t" using u t by (intro mult_right_mono one_le_power) simp_all
    then have "s + t \<le> (1 + unit40) ^ k * (a + t)" using Cons.prems(4) by (simp add: algebra_simps)
    then have "(1 + unit40) * (s + t) \<le> (1 + unit40) * ((1 + unit40) ^ k * (a + t))"
      using u(3) by (intro mult_left_mono) simp_all
    moreover have "ctx40 (s + t) \<le> (1 + unit40) * (s + t)" by (rule ctx40_near(2)[OF add_nonneg_nonneg[OF s t]])
    ultimately show ?thesis by (simp add: mult.assoc)
  qed
  show ?case
    using Cons.IH[of "a + t" "Suc k" "ctx40 (s + t)", OF _ _ lo hi] Cons.prems(1,2) t
    by (simp add: add.assoc)
qed simp

definition rank_discount :: "nat \<Rightarrow> rat" where
  "rank_discount r = ctx40 (decimal_ln (r + 1) / decimal_ln 2)"

lemma ln_grows:
  assumes "1 \<le> r" "r \<le> 9"
  shows "(1 + unit40) * decimal_ln (r + 1) \<le> (1 - unit40) * decimal_ln (r + 2)"
proof -
  have "r \<in> {1, 2, 3, 4, 5, 6, 7, 8, 9}" using assms by auto
  then show ?thesis
    by (elim insertE emptyE) (simp_all add: decimal_ln_def LN_TABLE_def unit40_def)
qed

lemma ln_pos: "1 \<le> r \<Longrightarrow> r \<le> 10 \<Longrightarrow> 0 < decimal_ln (r + 1)"
proof -
  assume "1 \<le> r" "r \<le> 10"
  then have "r = 1 \<or> r = 2 \<or> r = 3 \<or> r = 4 \<or> r = 5 \<or> r = 6 \<or> r = 7 \<or> r = 8 \<or> r = 9 \<or> r = 10"
    by presburger
  then show ?thesis by (elim disjE) (simp_all add: decimal_ln_def LN_TABLE_def)
qed

lemma ln2_pos: "0 < decimal_ln 2"
  by (simp add: decimal_ln_def LN_TABLE_def)

lemma discount_pos:
  assumes "1 \<le> r" "r \<le> 10"
  shows "0 < rank_discount r"
proof -
  have "0 < decimal_ln (r + 1) / decimal_ln 2" using ln_pos[OF assms] ln2_pos by simp
  then have "0 < (1 - unit40) * (decimal_ln (r + 1) / decimal_ln 2)"
    using unit40_small by (intro mult_pos_pos) simp_all
  then show ?thesis unfolding rank_discount_def
    using ctx40_near(1)[of "decimal_ln (r + 1) / decimal_ln 2"] \<open>0 < decimal_ln (r + 1) / decimal_ln 2\<close>
    by linarith
qed

lemma discount_grows:
  assumes "1 \<le> r" "r \<le> 9"
  shows "rank_discount r \<le> rank_discount (r + 1)"
proof -
  have p: "0 < decimal_ln 2" "0 < decimal_ln (r + 1)" "0 < decimal_ln (r + 2)"
    using ln2_pos ln_pos[of r] ln_pos[of "r + 1"] assms by simp_all
  have "rank_discount r \<le> (1 + unit40) * (decimal_ln (r + 1) / decimal_ln 2)"
    unfolding rank_discount_def using p by (intro ctx40_near(2)) simp
  also have "\<dots> = (1 + unit40) * decimal_ln (r + 1) / decimal_ln 2" by simp
  also have "\<dots> \<le> (1 - unit40) * decimal_ln (r + 2) / decimal_ln 2"
    using ln_grows[OF assms] p by (intro divide_right_mono) simp_all
  also have "\<dots> = (1 - unit40) * (decimal_ln (r + 2) / decimal_ln 2)" by simp
  also have "\<dots> \<le> rank_discount (r + 1)"
    unfolding rank_discount_def using p ctx40_near(1)[of "decimal_ln (r + 2) / decimal_ln 2"] by simp
  finally show ?thesis .
qed

section \<open>Sorting maximises the gain\<close>

definition grade_gain :: "relevance_grade \<Rightarrow> rat" where
  "grade_gain g = 2 ^ grade_value g - 1"

fun exact_gain :: "nat \<Rightarrow> relevance_grade list \<Rightarrow> rat" where
  "exact_gain r [] = 0"
| "exact_gain r (g # gs) = grade_gain g / rank_discount r + exact_gain (r + 1) gs"

lemma grade_gain_nonneg: "0 \<le> grade_gain g"
  by (cases g) (simp_all add: grade_gain_def)

lemma grade_gain_mono: "grade_value g \<le> grade_value h \<Longrightarrow> grade_gain g \<le> grade_gain h"
  by (simp add: grade_gain_def)

lemma exact_gain_nonneg:
  assumes "1 \<le> r" "r + length gs \<le> 11"
  shows "0 \<le> exact_gain r gs"
  using assms
proof (induction gs arbitrary: r)
  case (Cons g gs)
  then have "0 < rank_discount r" using discount_pos by simp
  then have "0 \<le> grade_gain g / rank_discount r" using grade_gain_nonneg by simp
  moreover have "0 \<le> exact_gain (r + 1) gs" using Cons by simp
  ultimately show ?case by simp
qed simp

abbreviation by_grade :: "relevance_grade \<Rightarrow> int" where
  "by_grade g \<equiv> - int (grade_value g)"

lemma insort_gain:
  assumes "1 \<le> r" "r + length gs \<le> 10"
  shows "exact_gain r (g # gs) \<le> exact_gain r (insort_key by_grade g gs)"
  using assms
proof (induction gs arbitrary: r)
  case (Cons h gs)
  show ?case
  proof (cases "by_grade g \<le> by_grade h")
    case False
    then have gh: "grade_gain g \<le> grade_gain h" by (intro grade_gain_mono) simp
    have d: "0 < rank_discount r" "rank_discount r \<le> rank_discount (r + 1)"
      using discount_pos discount_grows Cons.prems by simp_all
    then have w: "1 / rank_discount (r + 1) \<le> 1 / rank_discount r" by (simp add: frac_le)
    have "(grade_gain h - grade_gain g) * (1 / rank_discount (r + 1)) \<le>
        (grade_gain h - grade_gain g) * (1 / rank_discount r)"
      using gh w by (intro mult_left_mono) simp_all
    then have "grade_gain g / rank_discount r + grade_gain h / rank_discount (r + 1) \<le>
        grade_gain h / rank_discount r + grade_gain g / rank_discount (r + 1)"
      by (simp add: diff_divide_distrib)
    moreover have "exact_gain (r + 1) (g # gs) \<le> exact_gain (r + 1) (insort_key by_grade g gs)"
      using Cons.IH[of "r + 1"] Cons.prems by simp
    ultimately show ?thesis using False by simp
  qed simp
qed simp

lemma sorted_gain:
  assumes "1 \<le> r" "r + length gs \<le> 11"
  shows "exact_gain r gs \<le> exact_gain r (sorted_grades gs)"
  using assms
proof (induction gs arbitrary: r)
  case (Cons g gs)
  have "exact_gain r (g # gs) \<le> exact_gain r (g # sorted_grades gs)"
    using Cons.IH[of "r + 1"] Cons.prems by simp
  also have "\<dots> \<le> exact_gain r (insort_key by_grade g (sorted_grades gs))"
    using insort_gain[of r "sorted_grades gs" g] Cons.prems by (simp add: sorted_grades_def)
  finally show ?case by (simp add: sorted_grades_def)
qed (simp add: sorted_grades_def)

text \<open>The computed gain differs from the exact one by at most eleven roundings.\<close>

lemma rounded_terms:
  assumes "1 \<le> r" "r + length gs \<le> 11"
  shows "(\<forall>t \<in> set (map gain_term (enumerate r gs)). 0 \<le> t) \<and>
    (1 - unit40) * exact_gain r gs \<le> sum_list (map gain_term (enumerate r gs)) \<and>
    sum_list (map gain_term (enumerate r gs)) \<le> (1 + unit40) * exact_gain r gs"
  using assms
proof (induction gs arbitrary: r)
  case (Cons g gs)
  let ?x = "grade_gain g / rank_discount r"
  have d: "0 < rank_discount r" using discount_pos Cons.prems by simp
  then have x: "0 \<le> ?x" using grade_gain_nonneg by simp
  have t: "gain_term (r, g) = ctx40 ?x" by (simp add: gain_term_def grade_gain_def rank_discount_def)
  show ?case
    using Cons.IH[of "r + 1"] Cons.prems ctx40_near[OF x] ctx40_nonneg[OF x]
    by (simp add: t distrib_left)
qed simp

lemma gain_near:
  assumes "length gs \<le> 10"
  shows "(1 - unit40) ^ 11 * exact_gain 1 gs \<le> discounted_cumulative_gain gs"
    and "discounted_cumulative_gain gs \<le> (1 + unit40) ^ 11 * exact_gain 1 gs"
proof -
  let ?ts = "map gain_term (enumerate 1 gs)" and ?n = "length gs" and ?E = "exact_gain 1 gs"
  have r: "\<forall>t \<in> set ?ts. 0 \<le> t" "(1 - unit40) * ?E \<le> sum_list ?ts" "sum_list ?ts \<le> (1 + unit40) * ?E"
  proof -
    have "1 + length gs \<le> 11" using assms by simp
    from rounded_terms[OF order_refl this] show "\<forall>t \<in> set ?ts. 0 \<le> t" "(1 - unit40) * ?E \<le> sum_list ?ts"
      "sum_list ?ts \<le> (1 + unit40) * ?E" by blast+
  qed
  have E: "0 \<le> ?E" using exact_gain_nonneg[of 1 gs] assms by simp
  have s: "(1 - unit40) ^ ?n * sum_list ?ts \<le> discounted_cumulative_gain gs"
    "discounted_cumulative_gain gs \<le> (1 + unit40) ^ ?n * sum_list ?ts"
    using rounded_sum[OF r(1), of 0 0 0] by (simp_all add: discounted_cumulative_gain_def)
  have u: "0 \<le> 1 - unit40" "1 - unit40 \<le> 1" "1 \<le> 1 + unit40" using unit40_small by simp_all
  have "(1 - unit40) ^ 11 * ?E \<le> (1 - unit40) ^ Suc ?n * ?E"
    using u E assms by (intro mult_right_mono power_decreasing) simp_all
  also have "\<dots> = (1 - unit40) ^ ?n * ((1 - unit40) * ?E)" by simp
  also have "\<dots> \<le> (1 - unit40) ^ ?n * sum_list ?ts" using r(2) u by (intro mult_left_mono) simp_all
  finally show "(1 - unit40) ^ 11 * ?E \<le> discounted_cumulative_gain gs" using s(1) by simp
  have "(1 + unit40) ^ ?n * sum_list ?ts \<le> (1 + unit40) ^ ?n * ((1 + unit40) * ?E)"
    using r(3) u by (intro mult_left_mono) simp_all
  also have "\<dots> = (1 + unit40) ^ Suc ?n * ?E" by simp
  also have "\<dots> \<le> (1 + unit40) ^ 11 * ?E" using u E assms by (intro mult_right_mono power_increasing) simp_all
  finally show "discounted_cumulative_gain gs \<le> (1 + unit40) ^ 11 * ?E" using s(2) by simp
qed

lemma roundings_small: "(1 + unit40) ^ 11 \<le> (1 + 1 / 10 ^ 7) * (1 - unit40) ^ 11"
proof -
  have u: "unit40 \<le> 1 / 10 ^ 9" "0 \<le> 1 + unit40" by (simp_all add: unit40_def)
  have "(1 + unit40) ^ 11 \<le> (1 + 1 / 10 ^ 9) ^ 11" using u by (intro power_mono) simp_all
  also have "\<dots> \<le> (1 + 1 / 10 ^ 7) * (1 - 1 / 10 ^ 9) ^ 11" by (simp add: power_divide)
  also have "\<dots> \<le> (1 + 1 / 10 ^ 7) * (1 - unit40) ^ 11"
    using u by (intro mult_left_mono power_mono) simp_all
  finally show ?thesis .
qed

lemma ndcg_unit:
  assumes "length gs \<le> 10"
  shows "0 \<le> ndcg_at_k gs \<and> ndcg_at_k gs \<le> 1"
proof -
  let ?a = "discounted_cumulative_gain gs" and ?i = "discounted_cumulative_gain (sorted_grades gs)"
  let ?A = "exact_gain 1 gs" and ?I = "exact_gain 1 (sorted_grades gs)"
  have len: "length (sorted_grades gs) \<le> 10" using assms by (simp add: sorted_grades_def)
  have AI: "0 \<le> ?A" "?A \<le> ?I" using exact_gain_nonneg[of 1 gs] sorted_gain[of 1 gs] assms by simp_all
  have u: "0 \<le> (1 - unit40) ^ 11" "0 \<le> (1 + unit40) ^ 11" using unit40_small by simp_all
  have a: "0 \<le> ?a" using gain_near(1)[OF assms] AI(1) u(1) by (meson mult_nonneg_nonneg order_trans)
  have i: "0 \<le> ?i" using gain_near(1)[OF len] AI u(1) by (meson mult_nonneg_nonneg order_trans)
  show ?thesis
  proof (cases "?i = 0")
    case False
    with i have pos: "0 < ?i" by simp
    have "?a \<le> (1 + unit40) ^ 11 * ?A" by (rule gain_near(2)[OF assms])
    also have "\<dots> \<le> (1 + unit40) ^ 11 * ?I" using AI u by (intro mult_left_mono)
    also have "\<dots> \<le> (1 + 1 / 10 ^ 7) * (1 - unit40) ^ 11 * ?I"
      using roundings_small AI by (intro mult_right_mono) simp_all
    also have "\<dots> = (1 + 1 / 10 ^ 7) * ((1 - unit40) ^ 11 * ?I)" by simp
    also have "\<dots> \<le> (1 + 1 / 10 ^ 7) * ?i" using gain_near(1)[OF len] by (intro mult_left_mono) simp_all
    finally have q: "?a / ?i \<le> of_int 10000001 / 10 ^ 7" using pos by (simp add: divide_le_eq)
    have "ctx28 (of_int 10000001 / 10 ^ 7) = of_int 10000001 / 10 ^ 7"
      by (rule ctx28_exact[of _ 7 10000001]) (simp_all add: pow10_def)
    then have "dec_div ?a ?i \<le> of_int 10000001 / 10 ^ 7"
      using ctx28_mono[OF _ q] a pos unfolding dec_div_def by simp
    moreover have "0 \<le> dec_div ?a ?i" unfolding dec_div_def using a pos by (intro ctx28_nonneg) simp
    moreover have "quantize_rate (of_int 10000001 / 10 ^ 7) = 1"
    proof -
      have "\<lfloor>of_int 10000001 / 10 ^ 7 * 1000000 + 1 / 2 :: rat\<rfloor> = 1000000" by (rule floor_unique) simp_all
      then show ?thesis by (simp add: quantize_rate_def)
    qed
    ultimately have "0 \<le> quantize_rate (dec_div ?a ?i) \<and> quantize_rate (dec_div ?a ?i) \<le> 1"
      using quantize_rate_mono[of 0 "dec_div ?a ?i"] quantize_rate_mono[of "dec_div ?a ?i" "of_int 10000001 / 10 ^ 7"]
      by simp
    then show ?thesis using False by (simp add: ndcg_at_k_def Let_def)
  qed (simp add: ndcg_at_k_def)
qed

section \<open>Reversal\<close>

lemma rank_reversed:
  assumes "distinct xs" "x \<in> set xs"
  shows "rank_in (rev xs) x = int (length xs) + 1 - rank_in xs x"
proof -
  obtain i where i: "i < length xs" "x = xs ! i" using assms(2) by (auto simp: in_set_conv_nth)
  define j where "j = length xs - 1 - i"
  have j: "j < length (rev xs)" "rev xs ! j = x" "int j = int (length xs) - 1 - int i"
    using i by (simp_all add: j_def rev_nth)
  from rank_bij(2)[of "rev xs" j] rank_bij(2)[OF assms(1) i(1)] j i(2) assms(1) show ?thesis by simp
qed

lemma displacement_reversed:
  assumes "distinct xs"
  shows "rank_displacement xs (rev xs) = int (length xs) * int (length xs) div 2"
proof -
  have "rank_displacement xs (rev xs) = (\<Sum>x \<in> set xs. \<bar>2 * rank_in xs x - (int (length xs) + 1)\<bar>)"
    unfolding displacement_sum[of "rev xs" xs, simplified, OF assms]
    by (rule sum.cong) (simp_all add: rank_reversed[OF assms] algebra_simps)
  also have "\<dots> = spread (length xs)"
    using sum.reindex_bij_betw[OF rank_bij(1)[OF assms], of "\<lambda>k. \<bar>2 * k - (int (length xs) + 1)\<bar>"]
    by (simp add: spread_def)
  finally show ?thesis by (simp add: spread_square)
qed

lemma stability_reversed:
  assumes "distinct xs" "1 < length xs"
  shows "normalized_rank_stability xs (rev xs) = Inr 0"
proof -
  have "2 * 2 \<le> int (length xs) * int (length xs)" using assms(2) by (intro mult_mono) simp_all
  then have "0 < int (length xs) * int (length xs) div 2" by linarith
  then show ?thesis
    using assms(2) by (simp add: normalized_rank_stability_def checks_passes Let_def
        displacement_reversed[OF assms(1)] dec_div_def dec_sub_def)
qed

section \<open>One snapshot\<close>

lemma judgment_step:
  assumes "validate_judgments visible d (j # js) = Inr d'"
  shows "jg_rank j \<le> visible" "d_get d (jg_rank j) = None"
    "validate_judgments visible (d_put (jg_rank j) j d) js = Inr d'"
  using assms by (simp_all add: bind_checks_Inr)

lemma judgments_fresh:
  assumes "validate_judgments visible d js = Inr d'" "i \<in> set js"
  shows "jg_rank i \<le> visible \<and> d_get d (jg_rank i) = None"
  using assms
proof (induction js arbitrary: d)
  case (Cons j js)
  note step = judgment_step[OF Cons.prems(1)]
  show ?case
  proof (cases "i = j")
    case False
    with Cons.prems(2) have "i \<in> set js" by simp
    with Cons.IH[OF step(3)] show ?thesis by (simp split: if_splits)
  qed (use step in simp)
qed simp

lemma judgments_distinct:
  assumes "validate_judgments visible d js = Inr d'"
  shows "distinct (map jg_rank js)"
  using assms
proof (induction js arbitrary: d)
  case (Cons j js)
  note step = judgment_step[OF Cons.prems]
  have "jg_rank i \<noteq> jg_rank j" if "i \<in> set js" for i
    using judgments_fresh[OF step(3) that] by (simp split: if_splits)
  then have "jg_rank j \<notin> jg_rank ` set js" by (metis imageE)
  then show ?case using Cons.IH[OF step(3)] by simp
qed simp

lemma judgments_found:
  assumes "validate_judgments visible d js = Inr d'"
  shows "d_get d' k = (case List.find (\<lambda>j. jg_rank j = k) js of Some j \<Rightarrow> Some j | None \<Rightarrow> d_get d k)"
  using assms
proof (induction js arbitrary: d)
  case (Cons j js)
  note step = judgment_step[OF Cons.prems]
  show ?case
  proof (cases "jg_rank j = k")
    case True
    have "List.find (\<lambda>i. jg_rank i = k) js = None"
      unfolding find_None_iff using judgments_fresh[OF step(3)] True by (force split: if_splits)
    with Cons.IH[OF step(3)] True show ?thesis by simp
  next
    case False
    with Cons.IH[OF step(3)] show ?thesis by (simp split: option.splits)
  qed
qed simp

definition ranked :: "ranked_judgment list \<Rightarrow> int \<Rightarrow> bool" where
  "ranked js k \<longleftrightarrow> (\<exists>j \<in> set js. jg_rank j = k)"

definition judged :: "ranked_judgment list \<Rightarrow> int \<Rightarrow> bool" where
  "judged js k \<longleftrightarrow> (\<exists>j \<in> set js. jg_rank j = k \<and> jg_relevance_grade j \<noteq> None)"

lemma map_filter_full:
  "length (List.map_filter f xs) = length xs \<longleftrightarrow> list_all (\<lambda>x. f x \<noteq> None) xs"
  "length (List.map_filter f xs) \<le> length xs"
proof -
  show le: "length (List.map_filter f xs) \<le> length xs" for xs
    by (induction xs) (auto simp: map_filter_simps split: option.splits)
  show "length (List.map_filter f xs) = length xs \<longleftrightarrow> list_all (\<lambda>x. f x \<noteq> None) xs"
  proof (induction xs)
    case (Cons x xs)
    then show ?case using le[of xs] by (auto simp: map_filter_simps split: option.splits)
  qed (simp add: map_filter_simps)
qed

lemma grades_of_ranked:
  assumes "\<And>k. d_get d k = List.find (\<lambda>j. jg_rank j = k) js" "distinct (map jg_rank js)"
    and "list_all (\<lambda>k. d_get d k \<noteq> None) ks"
  shows "length (List.map_filter jg_relevance_grade (List.map_filter (d_get d) ks)) = length ks \<longleftrightarrow>
    list_all (judged js) ks"
  using assms(3)
proof (induction ks)
  case (Cons k ks)
  obtain j where j: "d_get d k = Some j" using Cons.prems by auto
  then have f: "List.find (\<lambda>j. jg_rank j = k) js = Some j" using assms(1) by simp
  have "judged js k \<longleftrightarrow> jg_relevance_grade j \<noteq> None"
  proof -
    have in_js: "j \<in> set js \<and> jg_rank j = k" using f by (rule find_Some_iff')
    have "i = j" if "i \<in> set js" "jg_rank i = k" for i
      using inj_onD[of jg_rank "set js" i j] in_js that assms(2) by (simp add: distinct_map)
    with in_js show ?thesis unfolding judged_def by blast
  qed
  moreover have "length (List.map_filter jg_relevance_grade (List.map_filter (d_get d) ks)) \<le> length ks"
    by (rule order_trans[OF map_filter_full(2) map_filter_full(2)])
  moreover have "list_all (\<lambda>k. d_get d k \<noteq> None) ks" using Cons.prems by simp
  note Cons.IH[OF this]
  ultimately show ?case using j by (cases "jg_relevance_grade j") (simp_all add: map_filter_simps)
qed (simp add: map_filter_simps)

definition cutoff_decided :: "ranked_judgment list \<Rightarrow> int \<Rightarrow> cutoff_evaluation \<Rightarrow> bool" where
  \<comment> \<open>what an evaluation at a cutoff says about the judgments\<close>
  "cutoff_decided js visible u \<longleftrightarrow>
    (let depth = min (ju_cutoff u) visible in
     ju_evaluated_depth u = depth \<and> 0 \<le> ju_judgment_coverage u \<and> ju_judgment_coverage u \<le> 1 \<and>
     ju_status u =
       (if \<not> list_all (ranked js) [1..depth] then Incomplete_Presentation
        else if \<not> list_all (judged js) [1..depth] then Incomplete_Judgments else Cutoff_Ready) \<and>
     (if ju_status u = Cutoff_Ready
      then ju_judgment_coverage u = 1 \<and>
        (\<exists>p n. ju_precision_at_k u = Some p \<and> ju_ndcg_at_k u = Some n \<and> 0 \<le> p \<and> p \<le> 1 \<and> 0 \<le> n \<and> n \<le> 1)
      else ju_precision_at_k u = None \<and> ju_ndcg_at_k u = None))"

lemma precision_unit:
  assumes "gs \<noteq> []"
  shows "0 \<le> precision_at_k gs \<and> precision_at_k gs \<le> 1"
proof -
  let ?k = "length (filter (\<lambda>g. grade_value Grade_Useful \<le> grade_value g) gs)"
  have "?k \<le> length gs" by (rule length_filter_le)
  then show ?thesis unfolding precision_at_k_def using assms by (intro ratio_unit) simp_all
qed

lemma evaluated_cutoff:
  assumes d: "\<And>k. d_get d k = List.find (\<lambda>j. jg_rank j = k) js" and js: "distinct (map jg_rank js)"
    and c: "1 \<le> cutoff" "cutoff \<le> 10" "1 \<le> visible"
  shows "cutoff_decided js visible (evaluate_cutoff d visible cutoff)"
proof -
  let ?n = "min cutoff visible"
  let ?ks = "[1..?n]"
  let ?o = "List.map_filter (d_get d) ?ks"
  let ?r = "List.map_filter jg_relevance_grade ?o"
  have n: "1 \<le> ?n" "?n \<le> 10" "int (length ?ks) = ?n" using c by simp_all
  have len: "length ?o \<le> length ?ks" "length ?r \<le> length ?o" using map_filter_full(2) by blast+
  have o: "int (length ?o) = ?n \<longleftrightarrow> list_all (ranked js) ?ks"
  proof -
    have "d_get d k \<noteq> None \<longleftrightarrow> ranked js k" for k
      unfolding d ranked_def by (auto simp: find_None_iff)
    then have "list_all (\<lambda>k. d_get d k \<noteq> None) ?ks \<longleftrightarrow> list_all (ranked js) ?ks"
      unfolding list_all_iff by blast
    moreover have "int (length ?o) = ?n \<longleftrightarrow> length ?o = length ?ks" using n(3) by linarith
    ultimately show ?thesis using map_filter_full(1)[of "d_get d" ?ks] by blast
  qed
  have r: "int (length ?r) = ?n \<longleftrightarrow> list_all (judged js) ?ks" if "int (length ?o) = ?n"
  proof -
    have "length ?o = length ?ks" using that n(3) by linarith
    then have "list_all (\<lambda>k. d_get d k \<noteq> None) ?ks" using map_filter_full(1)[of "d_get d" ?ks] by blast
    from grades_of_ranked[OF d js this]
    have "length ?r = length ?ks \<longleftrightarrow> list_all (judged js) ?ks" .
    moreover have "int (length ?r) = ?n \<longleftrightarrow> length ?r = length ?ks" using n(3) by linarith
    ultimately show ?thesis by blast
  qed
  have cov: "0 \<le> ranking_ratio (int (length ?r)) ?n" "ranking_ratio (int (length ?r)) ?n \<le> 1"
  proof -
    have "0 \<le> int (length ?r)" "int (length ?r) \<le> ?n" "0 < ?n" using len n by linarith+
    from ratio_unit[OF this] show "0 \<le> ranking_ratio (int (length ?r)) ?n" "ranking_ratio (int (length ?r)) ?n \<le> 1"
      by blast+
  qed
  have jr: "\<not> list_all (judged js) ?ks" if "\<not> list_all (ranked js) ?ks"
    using that by (auto simp: list_all_iff ranked_def judged_def)
  consider "int (length ?o) \<noteq> ?n" | "int (length ?o) = ?n" "int (length ?r) \<noteq> ?n"
    | "int (length ?o) = ?n" "int (length ?r) = ?n" by blast
  then show ?thesis
  proof cases
    case 3
    have "?r \<noteq> []" using 3 n by fastforce
    then have "0 \<le> precision_at_k ?r \<and> precision_at_k ?r \<le> 1" by (rule precision_unit)
    moreover have "0 \<le> ndcg_at_k ?r \<and> ndcg_at_k ?r \<le> 1" using ndcg_unit[of ?r] 3(2) n(2) by linarith
    moreover have "ranking_ratio (int (length ?r)) ?n = 1" using ratio_full[of ?n] 3(2) n(1) by simp
    ultimately show ?thesis
      using 3 o r by (simp add: cutoff_decided_def evaluate_cutoff_def cutoff_of_def Let_def)
  qed (use o r cov in \<open>simp_all add: cutoff_decided_def evaluate_cutoff_def cutoff_of_def Let_def\<close>)
qed

lemma judgments_accepted:
  assumes "distinct (map jg_rank js)" "list_all (\<lambda>j. jg_rank j \<le> visible \<and> d_get d (jg_rank j) = None) js"
  shows "\<exists>d'. validate_judgments visible d js = Inr d'"
  using assms
proof (induction js arbitrary: d)
  case (Cons j js)
  have "jg_rank i \<noteq> jg_rank j" if "i \<in> set js" for i
    using Cons.prems(1) that by (metis distinct.simps(2) image_eqI list.simps(9) list.set_map)
  then have "list_all (\<lambda>i. jg_rank i \<le> visible \<and> d_get (d_put (jg_rank j) j d) (jg_rank i) = None) js"
    using Cons.prems(2) by (simp add: list_all_iff)
  moreover have "distinct (map jg_rank js)" using Cons.prems(1) by simp
  ultimately obtain d' where "validate_judgments visible (d_put (jg_rank j) j d) js = Inr d'"
    using Cons.IH by blast
  with Cons.prems(2) show ?case by (simp add: bind_checks_Inr)
qed simp

section \<open>Groups\<close>

lemma group_get:
  "d_get (fold (\<lambda>x. group_into (f x) x) xs d) k =
    (if filter (\<lambda>x. f x = k) xs = [] then d_get d k
     else Some (or_else (d_get d k) [] @ filter (\<lambda>x. f x = k) xs))"
  by (induction xs arbitrary: d) (simp_all add: group_into_def)

lemma group_distinct:
  "distinct (d_keys d) \<Longrightarrow> distinct (d_keys (fold (\<lambda>x. group_into (f x) x) xs d))"
  by (induction xs arbitrary: d) (simp_all add: group_into_def)

lemma group_member:
  assumes "(k, g) \<in> set (fold (\<lambda>x. group_into (f x) x) xs [])"
  shows "g = filter (\<lambda>x. f x = k) xs \<and> g \<noteq> []"
proof -
  have "distinct (d_keys (fold (\<lambda>x. group_into (f x) x) xs []))" by (rule group_distinct) simp
  from map_of_is_SomeI[OF this assms] group_get[of f xs "[]" k]
  show ?thesis by (simp split: if_splits)
qed

lemma adjacent_sub: "(x, y) \<in> set (adjacent xs) \<Longrightarrow> x \<in> set xs \<and> y \<in> set xs"
  unfolding adjacent_def by (cases xs) (auto dest: set_zip_leftD set_zip_rightD)

lemma cohort_pair:
  assumes "(a, b) \<in> set (cohort_pairs qs)"
  shows "a \<in> set qs \<and> b \<in> set qs \<and> cohort_key a = cohort_key b"
proof -
  obtain k g where g: "(k, g) \<in> set (fold (\<lambda>q. group_into (cohort_key q) q) qs [])"
      "(a, b) \<in> set (adjacent (sort_key (\<lambda>q. (inst (jq_presented_at_utc q), jq_queue_snapshot_digest q)) g))"
    using assms unfolding cohort_pairs_def by auto
  from group_member[OF g(1)] adjacent_sub[OF g(2)] show ?thesis by auto
qed

end
