(* ===== verification/Ranking_Properties.thy ===== *)
theory Ranking_Properties
imports Ranking_Laws
begin

text \<open>
  What the ranking evaluation promises: which snapshots are evaluated and what a cutoff then
  says, which facts decide the relevance of an opportunity, the range of the rank stability,
  and when a stability report of many snapshots exists.
\<close>

section \<open>Snapshots\<close>

definition valid_snapshot :: "ranked_judgment list \<Rightarrow> int \<Rightarrow> int list \<Rightarrow> bool" where
  "valid_snapshot js visible cutoffs \<longleftrightarrow>
     1 \<le> visible \<and> visible \<le> 100 \<and> cutoffs \<noteq> [] \<and> set cutoffs \<subseteq> {1, 3, 5, 10} \<and>
     sorted cutoffs \<and> distinct cutoffs \<and>
     distinct (map jg_rank js) \<and> list_all (\<lambda>j. jg_rank j \<le> visible) js"

lemma cutoff_guards:
  "passes (validate_visible_opportunity_count visible @ validate_cutoffs cutoffs) \<longleftrightarrow>
     1 \<le> visible \<and> visible \<le> 100 \<and> cutoffs \<noteq> [] \<and> set cutoffs \<subseteq> {1, 3, 5, 10} \<and>
     sorted cutoffs \<and> distinct cutoffs"
proof -
  have s: "sorted_list_of_set (set cutoffs) = cutoffs \<longleftrightarrow> sorted cutoffs \<and> distinct cutoffs"
    by (metis distinct_sorted_list_of_set sorted_list_of_set.idem_if_sorted_distinct sorted_list_of_set.sorted_sorted_key_list_of_set)
  have u: "filter (\<lambda>c. c \<notin> set APPROVED_RANKING_CUTOFFS) cutoffs = [] \<longleftrightarrow> set cutoffs \<subseteq> {1, 3, 5, 10}"
    by (auto simp: filter_empty_conv APPROVED_RANKING_CUTOFFS_def)
  have p: "set cutoffs \<subseteq> {1, 3, 5, 10} \<Longrightarrow> \<not> list_ex (\<lambda>c. c \<le> 0) cutoffs"
    by (auto simp: list_ex_iff)
  show ?thesis
    using p by (auto simp: validate_visible_opportunity_count_def validate_cutoffs_def
        MAX_PRESENTED_CANDIDATE_COUNT_def Let_def s u)
qed

lemma snapshot_evaluated:
  assumes "evaluate_ranking_snapshot js visible cutoffs = Inr e"
  shows "valid_snapshot js visible cutoffs \<and>
    js_visible_opportunity_count e = visible \<and> map ju_cutoff (js_cutoff_evaluations e) = cutoffs \<and>
    list_all (cutoff_decided js visible) (js_cutoff_evaluations e) \<and>
    (\<exists>d. js_cutoff_evaluations e = map (evaluate_cutoff d visible) cutoffs)"
proof -
  from assms obtain d where d: "passes (validate_visible_opportunity_count visible @ validate_cutoffs cutoffs)"
      "validate_judgments visible [] js = Inr d"
      "e = \<lparr>js_policy_version = RANKING_EVALUATION_POLICY_VERSION, js_visible_opportunity_count = visible,
            js_cutoff_evaluations = map (evaluate_cutoff d visible) cutoffs\<rparr>"
    by (auto simp: evaluate_ranking_snapshot_def bind_checks_Inr bind_res_Inr)
  have js: "distinct (map jg_rank js)" "list_all (\<lambda>j. jg_rank j \<le> visible) js"
    using judgments_distinct[OF d(2)] judgments_fresh[OF d(2)] by (simp_all add: list_all_iff)
  have find: "d_get d k = List.find (\<lambda>j. jg_rank j = k) js" for k
    using judgments_found[OF d(2), of k] by (simp split: option.splits)
  note g = d(1)[unfolded cutoff_guards]
  have each: "cutoff_decided js visible (evaluate_cutoff d visible c)" if "c \<in> set cutoffs" for c
    using evaluated_cutoff[OF find js(1), of c visible] that g by auto
  have "map ju_cutoff (map (evaluate_cutoff d visible) cutoffs) = cutoffs"
    by (simp add: comp_def evaluate_cutoff_def cutoff_of_def Let_def map_idI)
  moreover have "\<exists>d'. js_cutoff_evaluations e = map (evaluate_cutoff d' visible) cutoffs" using d(3) by auto
  ultimately show ?thesis using each g js by (simp add: d(3) valid_snapshot_def list_all_iff)
qed

text \<open>A ranking snapshot is evaluated exactly when its visible count, cutoffs and judgment
  ranks are valid; then every requested cutoff is decided in order: it is incomplete when a
  rank down to its depth was not presented or not judged, and otherwise ready with full
  coverage and with precision and NDCG between 0 and 1, rounding included.\<close>

theorem ranking_snapshot_is_decided:
  "case evaluate_ranking_snapshot js visible cutoffs of
     Inl e \<Rightarrow> \<not> valid_snapshot js visible cutoffs
   | Inr e \<Rightarrow> valid_snapshot js visible cutoffs \<and>
       js_visible_opportunity_count e = visible \<and> map ju_cutoff (js_cutoff_evaluations e) = cutoffs \<and>
       list_all (cutoff_decided js visible) (js_cutoff_evaluations e)"
proof (cases "evaluate_ranking_snapshot js visible cutoffs")
  case (Inl e)
  have "\<exists>x. evaluate_ranking_snapshot js visible cutoffs = Inr x" if "valid_snapshot js visible cutoffs"
  proof -
    have "list_all (\<lambda>j. jg_rank j \<le> visible \<and> d_get [] (jg_rank j) = None) js"
      using that by (simp add: valid_snapshot_def)
    then show ?thesis
      using judgments_accepted[of js visible "[]"] that cutoff_guards[of visible cutoffs]
      by (auto simp: valid_snapshot_def evaluate_ranking_snapshot_def bind_checks_Inr checks_passes bind_res_def)
  qed
  with Inl show ?thesis by auto
next
  case (Inr e)
  from snapshot_evaluated[OF this] Inr show ?thesis by simp
qed

section \<open>Relevance\<close>

definition accepted_fact :: "relevance_fact \<Rightarrow> bool" where
  "accepted_fact f \<longleftrightarrow> jf_source f = Judged_By_Outcome \<and> jf_relevance_grade f = Grade_Downstream_Accepted"

definition last_human :: "(relevance_fact \<Rightarrow> bool) \<Rightarrow> relevance_fact list \<Rightarrow> relevance_fact \<Rightarrow> bool" where
  \<comment> \<open>an eligible human judgment that no later one follows\<close>
  "last_human ok facts f \<longleftrightarrow> f \<in> set facts \<and> ok f \<and> jf_source f \<noteq> Judged_By_Outcome \<and>
     (\<forall>h \<in> set facts. ok h \<and> jf_source h \<noteq> Judged_By_Outcome \<longrightarrow>
        inst (jf_occurred_at_utc h) \<le> inst (jf_occurred_at_utc f))"

definition last_grades :: "(relevance_fact \<Rightarrow> bool) \<Rightarrow> relevance_fact list \<Rightarrow> relevance_grade set" where
  "last_grades ok facts = jf_relevance_grade ` {f. last_human ok facts f}"

lemma remdups_one: "(\<exists>g. remdups xs = [g] \<and> P g) \<longleftrightarrow> (\<exists>g. set xs = {g} \<and> P g)"
proof -
  have "remdups xs = [g] \<longleftrightarrow> set xs = {g}" for g
  proof
    assume "remdups xs = [g]"
    then have "set (remdups xs) = {g}" by simp
    then show "set xs = {g}" by simp
  next
    assume x: "set xs = {g}"
    then have "length (remdups xs) = Suc 0" by (simp add: length_remdups_card_conv)
    then obtain h where h: "remdups xs = [h]" by (auto simp: length_Suc_conv)
    have "set xs = {h}" using arg_cong[OF h, of set] by simp
    with x h show "remdups xs = [g]" by simp
  qed
  then show ?thesis by blast
qed

lemma last_humans:
  assumes "human = filter (\<lambda>f. jf_source f \<noteq> Judged_By_Outcome) (filter ok facts)" "human \<noteq> []"
  shows "set (filter (\<lambda>f. inst (jf_occurred_at_utc f) = Max (set (map (\<lambda>f. inst (jf_occurred_at_utc f)) human))) human)
    = {f. last_human ok facts f}" and "{f. last_human ok facts f} \<noteq> {}"
proof -
  let ?t = "\<lambda>f. inst (jf_occurred_at_utc f)"
  have fin: "finite (?t ` set human)" "?t ` set human \<noteq> {}" using assms(2) by simp_all
  have "?t f = Max (?t ` set human) \<longleftrightarrow> (\<forall>h \<in> set human. ?t h \<le> ?t f)" if "f \<in> set human" for f
    using Max_eq_iff[OF fin, of "?t f"] that by (metis (no_types, lifting) image_iff)
  then show l: "set (filter (\<lambda>f. ?t f = Max (set (map ?t human))) human) = {f. last_human ok facts f}"
    unfolding last_human_def assms(1) by auto
  obtain f where "f \<in> set human" "?t f = Max (?t ` set human)" using Max_in[OF fin] by (metis imageE)
  then show "{f. last_human ok facts f} \<noteq> {}" unfolding l[symmetric] by auto
qed

lemma no_humans:
  assumes "filter (\<lambda>f. jf_source f \<noteq> Judged_By_Outcome) (filter ok facts) = []"
  shows "last_grades ok facts = {}"
  using assms unfolding last_grades_def last_human_def filter_empty_conv by auto

text \<open>An eligible accepted outcome makes an opportunity downstream accepted whatever people
  judged; otherwise the human judgments at the latest eligible instant decide, in whatever
  order the facts came: none leaves it unjudged, a common grade is the relevance, and grades
  that differ are an error.\<close>

theorem ranking_relevance_is_the_last_word:
  "derive_ranking_relevance facts p e v = Inr r \<longleftrightarrow>
    (if \<exists>f \<in> set facts. eligible_fact p e v f \<and> accepted_fact f then r = Some Grade_Downstream_Accepted
     else (last_grades (eligible_fact p e v) facts = {} \<and> r = None) \<or>
       (\<exists>g. last_grades (eligible_fact p e v) facts = {g} \<and> r = Some g))"
proof -
  define ok where "ok = eligible_fact p e v"
  define human where "human = filter (\<lambda>f. jf_source f \<noteq> Judged_By_Outcome) (filter ok facts)"
  define late where "late = filter (\<lambda>f. inst (jf_occurred_at_utc f) =
    Max (set (map (\<lambda>f. inst (jf_occurred_at_utc f)) human))) human"
  have acc: "list_ex (\<lambda>f. jf_source f = Judged_By_Outcome \<and> jf_relevance_grade f = Grade_Downstream_Accepted)
      (filter ok facts) \<longleftrightarrow> (\<exists>f \<in> set facts. ok f \<and> accepted_fact f)"
    unfolding list_ex_iff accepted_fact_def by auto
  have d: "derive_ranking_relevance facts p e v =
     (if \<exists>f \<in> set facts. ok f \<and> accepted_fact f then Inr (Some Grade_Downstream_Accepted)
      else if human = [] then Inr None
      else case remdups (map jf_relevance_grade late) of [g] \<Rightarrow> Inr (Some g)
        | _ \<Rightarrow> Inl (ValueError ''ranking relevance contains conflicting human judgments at the same instant''))"
    by (simp only: derive_ranking_relevance_def Let_def late_def human_def acc ok_def[symmetric])
  show ?thesis
  proof (cases "human = []")
    case True
    then show ?thesis unfolding d ok_def[symmetric] using no_humans[of ok facts] by (auto simp: human_def)
  next
    case False
    have "set late = {f. last_human ok facts f}" "{f. last_human ok facts f} \<noteq> {}"
      unfolding late_def using last_humans[OF human_def False] by blast+
    then have g: "set (map jf_relevance_grade late) = last_grades ok facts" "last_grades ok facts \<noteq> {}"
      by (simp_all add: last_grades_def)
    have "(case remdups (map jf_relevance_grade late) of [g] \<Rightarrow> Inr (Some g)
        | _ \<Rightarrow> Inl (ValueError ''ranking relevance contains conflicting human judgments at the same instant'')) = Inr r
      \<longleftrightarrow> (\<exists>g. remdups (map jf_relevance_grade late) = [g] \<and> r = Some g)"
      by (auto split: list.splits)
    with g remdups_one[of "map jf_relevance_grade late" "\<lambda>g. r = Some g"] False
    show ?thesis unfolding d ok_def[symmetric] by auto
  qed
qed

section \<open>Stability\<close>

text \<open>Comparing two orders of the same distinct opportunities always gives a stability
  between 0 and 1, rounding included: 1 for the same order and 0 for the reversed one.\<close>

theorem rank_stability_range:
  assumes "distinct before" "distinct after" "set before = set after" "1 < length before"
  shows "(\<exists>v. normalized_rank_stability before after = Inr v \<and> 0 \<le> v \<and> v \<le> 1) \<and>
    normalized_rank_stability before before = Inr 1 \<and>
    normalized_rank_stability before (rev before) = Inr 0"
  using stability_unit[OF assms(1,2,3)] stability_same[OF assms(1)] stability_reversed[OF assms(1,4)] by blast

theorem rank_stability_range_witness:
  "(\<exists>v. normalized_rank_stability [''a'', ''b'', ''c''] [''b'', ''a'', ''c''] = Inr v \<and> 0 \<le> v \<and> v \<le> 1) \<and>
   normalized_rank_stability [''a'', ''b'', ''c''] [''a'', ''b'', ''c''] = Inr 1 \<and>
   normalized_rank_stability [''a'', ''b'', ''c''] (rev [''a'', ''b'', ''c'']) = Inr 0"
  by (rule rank_stability_range) auto

lemma cohorts_differ:
  assumes "set before \<noteq> set after"
  shows "normalized_rank_stability before after =
    Inl (ValueError ''ranking stability requires equivalent economic cohorts'')"
  unfolding normalized_rank_stability_def using assms by (simp add: checks.simps)

lemma stability_guards_pass: "passes (stability_guards qs) \<longleftrightarrow> list_all (\<lambda>q. distinct (top_cohort q)) qs"
  by (induction qs) (simp_all add: stability_guards_def)

text \<open>Two comparable snapshots of one top cohort break the stability report when an
  opportunity below the cutoff came or went: they are grouped by their top identities but
  their whole lists are compared, which raises.\<close>

theorem changed_tail_breaks_stability:
  assumes "comparable q" "comparable r" "cohort_key q = cohort_key r"
    and "distinct (top_cohort q)" "distinct (top_cohort r)"
    and "set (jq_ranked_economic_identity_ids q) \<noteq> set (jq_ranked_economic_identity_ids r)"
  shows "evaluate_ranking_stability [q, r] =
    Inl (ValueError ''ranking stability requires equivalent economic cohorts'')"
proof -
  let ?k = "\<lambda>q. (inst (jq_presented_at_utc q), jq_queue_snapshot_digest q)"
  let ?e = "ValueError ''ranking stability requires equivalent economic cohorts''"
  have n: "normalized_rank_stability (jq_ranked_economic_identity_ids a) (jq_ranked_economic_identity_ids b) = Inl ?e"
    if "{a, b} = {q, r}" for a b
    using assms(6) that by (intro cohorts_differ) (auto simp: doubleton_eq_iff)
  have "cohort_pairs [q, r] = (if ?k r < ?k q then [(r, q)] else [(q, r)])"
    using assms(3) by (auto simp: cohort_pairs_def group_into_def adjacent_def)
  then have "map_res (\<lambda>(before, after). normalized_rank_stability (jq_ranked_economic_identity_ids before)
      (jq_ranked_economic_identity_ids after)) (cohort_pairs [q, r]) = Inl ?e"
    using n[of q r] n[of r q] by (simp add: insert_commute bind_res_def)
  moreover have "passes (stability_guards [q, r])" using assms(4,5) by (simp add: stability_guards_def)
  ultimately show ?thesis
    using assms(1,2) by (simp add: evaluate_ranking_stability_def checks_passes bind_res_def)
qed

definition sample_presentation :: "string \<Rightarrow> int \<Rightarrow> int \<Rightarrow> string \<Rightarrow> presentation_fact" where
  "sample_presentation digest hour rank identity =
    \<lparr>jp_queue_snapshot_digest = digest, jp_tenant_id = ''t'', jp_presented_at_utc = utc (hour * 3600000000),
     jp_visible_opportunity_count = 2, jp_queue_policy_version = ''q1'', jp_ranking_policy_version = ''r1'',
     jp_surface = ''s'', jp_producer = ''p'', jp_economic_identity_id = identity,
     jp_judgment = \<lparr>jg_rank = rank, jg_relevance_grade = None\<rparr>\<rparr>"

definition sample_presentations :: "presentation_fact list" where
  "sample_presentations =
    [sample_presentation ''d1'' 1 1 ''a'', sample_presentation ''d1'' 1 2 ''b'',
     sample_presentation ''d2'' 2 1 ''a'', sample_presentation ''d2'' 2 2 ''c'']"

definition sample_queue :: "string \<Rightarrow> int \<Rightarrow> string list \<Rightarrow> queue_evaluation" where
  "sample_queue digest hour identities =
    \<lparr>jq_queue_snapshot_digest = digest, jq_tenant_id = ''t'', jq_presented_at_utc = utc (hour * 3600000000),
     jq_queue_policy_version = ''q1'', jq_ranking_policy_version = ''r1'', jq_surface = ''s'', jq_producer = ''p'',
     jq_ranked_economic_identity_ids = identities,
     jq_evaluation = \<lparr>js_policy_version = RANKING_EVALUATION_POLICY_VERSION, js_visible_opportunity_count = 2,
       js_cutoff_evaluations = [cutoff_of 1 1 1 0 Incomplete_Judgments None None]\<rparr>\<rparr>"

lemma sample_queue_simps [simp]:
  "jq_ranked_economic_identity_ids (sample_queue d h ids) = ids"
  "comparable (sample_queue d h ids)"
  "top_cohort (sample_queue d h ids) = take 1 ids"
  "inst (jq_presented_at_utc (sample_queue d h ids)) = h * 3600000000"
  "cohort_key (sample_queue d h ids) = (set (take 1 ids), ''r1'', 1)"
  by (simp_all add: sample_queue_def comparable_def cohort_key_def top_cohort_def deepest_def cutoff_of_def)

lemma sample_presentations_evaluated:
  "evaluate_ranking_presentations sample_presentations [1] =
    Inr [sample_queue ''d1'' 1 [''a'', ''b''], sample_queue ''d2'' 2 [''a'', ''c'']]"
proof -
  have cut: "passes (validate_visible_opportunity_count 2)" "passes (validate_cutoffs [1])"
    using cutoff_guards[of 2 "[1]"] by simp_all
  have one: "evaluate_ranking_snapshot [\<lparr>jg_rank = 1, jg_relevance_grade = None\<rparr>, \<lparr>jg_rank = 2, jg_relevance_grade = None\<rparr>] 2 [1]
      = Inr \<lparr>js_policy_version = RANKING_EVALUATION_POLICY_VERSION, js_visible_opportunity_count = 2,
          js_cutoff_evaluations = [cutoff_of 1 1 1 0 Incomplete_Judgments None None]\<rparr>"
    using cut by (simp add: evaluate_ranking_snapshot_def evaluate_cutoff_def map_filter_simps checks_passes Let_def)
  have group: "evaluate_presentation_group [1] (d, [sample_presentation d h 1 x, sample_presentation d h 2 y])
      = Inr (sample_queue d h [x, y])" if "x \<noteq> y" for d h x y
    unfolding evaluate_presentation_group_def sample_queue_def using that one
    by (simp add: sample_presentation_def validate_snapshot_consistency_def same_presentation_def checks_passes Let_def)
  have "fold (\<lambda>f. group_into (jp_queue_snapshot_digest f) f) sample_presentations [] =
    [(''d1'', [sample_presentation ''d1'' 1 1 ''a'', sample_presentation ''d1'' 1 2 ''b'']),
     (''d2'', [sample_presentation ''d2'' 2 1 ''a'', sample_presentation ''d2'' 2 2 ''c''])]"
    by (simp add: sample_presentations_def sample_presentation_def group_into_def)
  then show ?thesis by (simp add: evaluate_ranking_presentations_def group)
qed

theorem changed_tail_breaks_stability_witness:
  "\<exists>q r. evaluate_ranking_presentations sample_presentations [1] = Inr [q, r] \<and>
    evaluate_ranking_stability [q, r] =
      Inl (ValueError ''ranking stability requires equivalent economic cohorts'')"
proof (intro exI conjI)
  show "evaluate_ranking_presentations sample_presentations [1] =
      Inr [sample_queue ''d1'' 1 [''a'', ''b''], sample_queue ''d2'' 2 [''a'', ''c'']]"
    by (rule sample_presentations_evaluated)
  have "''b'' \<in> {''a'', ''b''}" "''b'' \<notin> {''a'', ''c''}" by simp_all
  then have ne: "{''a'', ''b''} \<noteq> {''a'', ''c''}" by metis
  show "evaluate_ranking_stability [sample_queue ''d1'' 1 [''a'', ''b''], sample_queue ''d2'' 2 [''a'', ''c'']] =
      Inl (ValueError ''ranking stability requires equivalent economic cohorts'')"
    by (rule changed_tail_breaks_stability) (use ne in simp_all)
qed

text \<open>The stability report exists when no snapshot ranks more than its evaluated depth and
  no identity is ranked twice: successive snapshots of a cohort are then always comparable.\<close>

theorem shallow_queues_have_stability:
  assumes "list_all (\<lambda>q. distinct (jq_ranked_economic_identity_ids q) \<and> top_cohort q = jq_ranked_economic_identity_ids q) qs"
  shows "\<exists>t. evaluate_ranking_stability qs = Inr t \<and>
    jt_comparable_snapshot_pair_count t = int (length (cohort_pairs (filter comparable qs)))"
proof -
  let ?qs = "filter comparable qs"
  let ?f = "\<lambda>(before, after). normalized_rank_stability (jq_ranked_economic_identity_ids before)
      (jq_ranked_economic_identity_ids after)"
  have ok: "distinct (jq_ranked_economic_identity_ids q)" "top_cohort q = jq_ranked_economic_identity_ids q"
    if "q \<in> set ?qs" for q using assms that by (auto simp: list_all_iff)
  have "\<exists>v. ?f x = Inr v" if x: "x \<in> set (cohort_pairs ?qs)" for x
  proof -
    obtain a b where ab: "x = (a, b)" by (cases x)
    note p = cohort_pair[OF x[unfolded ab]]
    then have "a \<in> set ?qs" "b \<in> set ?qs" "set (top_cohort a) = set (top_cohort b)"
      by (simp_all add: cohort_key_def)
    with stability_unit[of "top_cohort a" "top_cohort b"] ok show ?thesis unfolding ab by auto
  qed
  then obtain vs where vs: "map_res ?f (cohort_pairs ?qs) = Inr vs" using map_res_exists[of "cohort_pairs ?qs" ?f] by blast
  moreover have "length vs = length (cohort_pairs ?qs)"
    using vs[unfolded map_res_Inr] by (simp add: list_all2_lengthD)
  moreover have "passes (stability_guards ?qs)"
    using ok unfolding stability_guards_pass list_all_iff by metis
  ultimately show ?thesis by (simp add: evaluate_ranking_stability_def)
qed

theorem shallow_queues_have_stability_witness:
  "\<exists>t. evaluate_ranking_stability [sample_queue ''d1'' 1 [''a''], sample_queue ''d2'' 2 [''a'']] = Inr t \<and>
    jt_comparable_snapshot_pair_count t = 1"
proof -
  have "list_all (\<lambda>q. distinct (jq_ranked_economic_identity_ids q) \<and> top_cohort q = jq_ranked_economic_identity_ids q)
      [sample_queue ''d1'' 1 [''a''], sample_queue ''d2'' 2 [''a'']]"
    by simp
  from shallow_queues_have_stability[OF this]
  show ?thesis
    by (simp add: cohort_pairs_def group_into_def adjacent_def if_distrib[of length])
qed

section \<open>Averages\<close>

text \<open>What every cutoff of an evaluated presentation satisfies, without its judgments.\<close>

definition in_unit :: "decimal option \<Rightarrow> bool" where
  "in_unit v \<longleftrightarrow> (case v of None \<Rightarrow> False | Some x \<Rightarrow> 0 \<le> x \<and> x \<le> 1)"

definition sound_cutoff :: "cutoff_evaluation \<Rightarrow> bool" where
  "sound_cutoff u \<longleftrightarrow> 1 \<le> ju_evaluated_depth u \<and> 0 \<le> ju_judged_opportunity_count u \<and>
     ju_judged_opportunity_count u \<le> ju_evaluated_depth u \<and>
     (ju_status u = Cutoff_Ready \<longrightarrow> in_unit (ju_precision_at_k u) \<and> in_unit (ju_ndcg_at_k u))"

lemma in_unit_iff: "in_unit v \<longleftrightarrow> (\<exists>x. v = Some x \<and> 0 \<le> x \<and> x \<le> 1)"
  by (cases v) (simp_all add: in_unit_def)

lemma cutoff_counts:
  assumes "1 \<le> cutoff" "1 \<le> visible"
  shows "1 \<le> ju_evaluated_depth (evaluate_cutoff d visible cutoff) \<and>
    0 \<le> ju_judged_opportunity_count (evaluate_cutoff d visible cutoff) \<and>
    ju_judged_opportunity_count (evaluate_cutoff d visible cutoff) \<le> ju_evaluated_depth (evaluate_cutoff d visible cutoff)"
proof -
  let ?ks = "[1..min cutoff visible]"
  have n: "int (length ?ks) = min cutoff visible" using assms by simp
  have "length (List.map_filter jg_relevance_grade (List.map_filter (d_get d) ?ks)) \<le> length ?ks"
    by (rule order_trans[OF map_filter_full(2) map_filter_full(2)])
  then have "int (length (List.map_filter jg_relevance_grade (List.map_filter (d_get d) ?ks))) \<le> min cutoff visible"
    using n by linarith
  with assms show ?thesis by (simp add: evaluate_cutoff_def cutoff_of_def Let_def)
qed

lemma snapshot_sound:
  assumes "evaluate_ranking_snapshot js visible cutoffs = Inr e"
  shows "list_all sound_cutoff (js_cutoff_evaluations e)"
proof -
  note s = snapshot_evaluated[OF assms]
  then obtain d where d: "js_cutoff_evaluations e = map (evaluate_cutoff d visible) cutoffs" by blast
  have "sound_cutoff (evaluate_cutoff d visible c)" if c: "c \<in> set cutoffs" for c
  proof -
    have v: "1 \<le> visible" "1 \<le> c" using s c by (auto simp: valid_snapshot_def)
    have "cutoff_decided js visible (evaluate_cutoff d visible c)" using s c by (simp add: d list_all_iff)
    then have "ju_status (evaluate_cutoff d visible c) = Cutoff_Ready \<longrightarrow>
        in_unit (ju_precision_at_k (evaluate_cutoff d visible c)) \<and> in_unit (ju_ndcg_at_k (evaluate_cutoff d visible c))"
      unfolding cutoff_decided_def Let_def in_unit_iff by (elim conjE) (auto split: if_splits)
    with cutoff_counts[OF v(2,1), of d] show ?thesis unfolding sound_cutoff_def by blast
  qed
  then show ?thesis by (simp add: d list_all_iff)
qed

abbreviation cutoffs_of :: "queue_evaluation \<Rightarrow> cutoff_evaluation list" where
  "cutoffs_of q \<equiv> js_cutoff_evaluations (jq_evaluation q)"

lemma list_all2_source: "list_all2 P xs ys \<Longrightarrow> y \<in> set ys \<Longrightarrow> \<exists>x \<in> set xs. P x y"
  by (induction rule: list_all2_induct) auto

lemma presentations_sound:
  assumes "evaluate_ranking_presentations facts cutoffs = Inr qs" "q \<in> set qs"
  shows "map ju_cutoff (cutoffs_of q) = cutoffs \<and> list_all sound_cutoff (cutoffs_of q) \<and>
    sorted cutoffs \<and> distinct cutoffs"
proof -
  have "list_all2 (\<lambda>g q. evaluate_presentation_group cutoffs g = Inr q)
      (sort_key fst (fold (\<lambda>f. group_into (jp_queue_snapshot_digest f) f) facts [])) qs"
    using assms(1) unfolding evaluate_ranking_presentations_def Let_def map_res_Inr .
  from list_all2_source[OF this assms(2)] obtain x where x: "evaluate_presentation_group cutoffs x = Inr q"
    by (elim bexE)
  obtain digest fs where "x = (digest, fs)" by (cases x)
  with x have g: "evaluate_presentation_group cutoffs (digest, fs) = Inr q" by simp
  then obtain e where e: "evaluate_ranking_snapshot (map jp_judgment fs) (jp_visible_opportunity_count (hd fs)) cutoffs = Inr e"
      "jq_evaluation q = e"
    unfolding evaluate_presentation_group_def Let_def by (auto simp: bind_checks_Inr bind_res_Inr)
  from snapshot_evaluated[OF e(1)] snapshot_sound[OF e(1)] show ?thesis by (simp add: e(2) valid_snapshot_def)
qed

lemma one_per_snapshot:
  assumes "\<And>q. q \<in> set qs \<Longrightarrow> map ju_cutoff (cutoffs_of q) = cutoffs" "distinct cutoffs" "c \<in> set cutoffs"
  shows "length (filter (\<lambda>u. ju_cutoff u = c) (concat (map cutoffs_of qs))) = length qs"
  using assms(1)
proof (induction qs)
  case (Cons q qs)
  have "length (filter (\<lambda>u. ju_cutoff u = c) (cutoffs_of q)) = length (filter (\<lambda>x. x = c) (map ju_cutoff (cutoffs_of q)))"
    by (simp add: length_filter_map comp_def)
  also have "\<dots> = length (filter (\<lambda>x. x = c) cutoffs)" using Cons.prems[of q] by simp
  also have "\<dots> = 1" using assms(2,3) distinct_length_filter[of cutoffs "\<lambda>x. x = c"]
    by (simp add: Int_def conj_commute cong: conj_cong)
  finally show ?case using Cons by simp
qed simp

lemma sum_unit:
  assumes "list_all (\<lambda>v. 0 \<le> v \<and> v \<le> 1) vs" "0 \<le> s" "s \<le> of_int n" "0 \<le> n" "n + int (length vs) < 10 ^ 28"
  shows "0 \<le> foldl dec_add s vs \<and> foldl dec_add s vs \<le> of_int (n + int (length vs))"
  using assms
proof (induction vs arbitrary: s n)
  case (Cons v vs)
  have sv: "0 \<le> s + v" "s + v \<le> of_int (n + 1)" using Cons.prems by simp_all
  have "dec_add s v \<le> of_int (n + 1)"
    unfolding dec_add_def using ctx28_mono[OF sv] ctx28_of_int[of "n + 1"] Cons.prems by simp
  moreover have "0 \<le> dec_add s v" unfolding dec_add_def using sv(1) by (rule ctx28_nonneg)
  ultimately show ?case using Cons.IH[of "dec_add s v" "n + 1"] Cons.prems by (simp add: algebra_simps)
qed simp

lemma mean_unit:
  assumes "list_all in_unit vs" "int (length vs) < 10 ^ 28"
  shows "\<exists>m. mean_ready_metric vs = Inr m \<and> (m = None \<longleftrightarrow> vs = []) \<and> (vs \<noteq> [] \<longrightarrow> in_unit m)"
proof (cases "vs = []")
  case False
  let ?xs = "List.map_filter id vs"
  have some: "list_all (\<lambda>v. v \<noteq> None) vs" using assms(1) by (auto simp: list_all_iff in_unit_iff)
  have len: "length ?xs = length vs" using map_filter_full(1)[of id vs] some by simp
  have "list_all (\<lambda>v. 0 \<le> v \<and> v \<le> 1) ?xs"
    using assms(1) by (fastforce simp: list_all_iff in_unit_iff map_filter_def)
  from sum_unit[OF this, of 0 0] assms(2) len
  have s: "0 \<le> dec_sum ?xs" "dec_sum ?xs \<le> of_nat (length vs)" by (simp_all add: dec_sum_def)
  have n: "0 < (of_nat (length vs) :: rat)" using False by simp
  have "0 \<le> dec_sum ?xs / of_nat (length vs)" "dec_sum ?xs / of_nat (length vs) \<le> 1"
    using s n by (simp_all add: divide_le_eq)
  then have "0 \<le> dec_div (dec_sum ?xs) (of_nat (length vs)) \<and> dec_div (dec_sum ?xs) (of_nat (length vs)) \<le> 1"
    unfolding dec_div_def by (rule ctx28_unit)
  then have "in_unit (Some (quantize_rate (dec_div (dec_sum ?xs) (of_nat (length vs)))))"
    unfolding in_unit_def using quantize_rate_unit by simp
  moreover have "mean_ready_metric vs = Inr (Some (quantize_rate (dec_div (dec_sum ?xs) (of_nat (length vs)))))"
  proof -
    have "passes [(list_ex (\<lambda>v. v = None) vs, ValueError ''ready ranking evaluations must carry quality values'')]"
      using some by (auto simp: list_ex_iff list_all_iff)
    from bind_checks_pass[OF this] False show ?thesis by (simp add: mean_ready_metric_def)
  qed
  ultimately show ?thesis using False by blast
qed (simp add: mean_ready_metric_def in_unit_def)

definition aggregate_sound :: "nat \<Rightarrow> int \<Rightarrow> cutoff_aggregate \<Rightarrow> bool" where
  "aggregate_sound n minimum a \<longleftrightarrow>
     ja_snapshot_count a = int n \<and>
     ja_ready_snapshot_count a + ja_incomplete_presentation_snapshot_count a +
       ja_incomplete_judgment_snapshot_count a = int n \<and>
     0 \<le> ja_judged_opportunity_count a \<and> ja_judged_opportunity_count a \<le> ja_evaluated_opportunity_count a \<and>
     in_unit (ja_judgment_coverage a) \<and>
     (ja_support_status a = Metric_Ready \<longleftrightarrow> minimum \<le> ja_ready_snapshot_count a) \<and>
     (if ja_ready_snapshot_count a = 0
      then ja_support_status a = Metric_Unavailable \<and> ja_mean_precision_at_k a = None \<and> ja_mean_ndcg_at_k a = None
      else in_unit (ja_mean_precision_at_k a) \<and> in_unit (ja_mean_ndcg_at_k a))"

lemma status_partition:
  "length (filter (\<lambda>u. ju_status u = Cutoff_Ready) us) + length (filter (\<lambda>u. ju_status u = Incomplete_Presentation) us) +
   length (filter (\<lambda>u. ju_status u = Incomplete_Judgments) us) = length us"
proof (induction us)
  case (Cons u us)
  then show ?case by (cases "ju_status u") simp_all
qed simp

lemma cutoff_sums:
  assumes "list_all sound_cutoff us"
  shows "0 \<le> sum_list (map ju_judged_opportunity_count us)"
    "sum_list (map ju_judged_opportunity_count us) \<le> sum_list (map ju_evaluated_depth us)"
    "int (length us) \<le> sum_list (map ju_evaluated_depth us)"
  using assms by (induction us) (auto simp: sound_cutoff_def)

lemma aggregated_cutoff:
  assumes "0 < minimum" "list_all sound_cutoff us" "us \<noteq> []" "int (length us) < 10 ^ 28"
    and "filter (\<lambda>u. ju_cutoff u = c) (concat (map cutoffs_of qs)) = us"
  shows "\<exists>a. aggregate_cutoff minimum qs c = Inr a \<and> ja_cutoff a = c \<and> aggregate_sound (length us) minimum a"
proof -
  let ?ready = "filter (\<lambda>u. ju_status u = Cutoff_Ready) us"
  have unit: "list_all in_unit (map ju_precision_at_k ?ready)" "list_all in_unit (map ju_ndcg_at_k ?ready)"
    using assms(2) by (simp_all add: list_all_iff sound_cutoff_def)
  have few: "int (length ?ready) < 10 ^ 28" using assms(4) length_filter_le[of _ us] by (meson le_less_trans of_nat_mono)
  obtain p where p: "mean_ready_metric (map ju_precision_at_k ?ready) = Inr p" "p = None \<longleftrightarrow> ?ready = []"
      "?ready \<noteq> [] \<longrightarrow> in_unit p" using mean_unit[OF unit(1)] few by auto
  obtain n where n: "mean_ready_metric (map ju_ndcg_at_k ?ready) = Inr n" "n = None \<longleftrightarrow> ?ready = []"
      "?ready \<noteq> [] \<longrightarrow> in_unit n" using mean_unit[OF unit(2)] few by auto
  note sums = cutoff_sums[OF assms(2)]
  have pos: "0 < sum_list (map ju_evaluated_depth us)" using sums(3) assms(3) by (cases us) simp_all
  have cov: "in_unit (Some (ranking_ratio (sum_list (map ju_judged_opportunity_count us)) (sum_list (map ju_evaluated_depth us))))"
    unfolding in_unit_iff using ratio_unit[OF sums(1,2) pos] by simp
  define a where "a = \<lparr>ja_cutoff = c, ja_snapshot_count = int (length us), ja_ready_snapshot_count = int (length ?ready),
     ja_incomplete_presentation_snapshot_count = int (length (filter (\<lambda>u. ju_status u = Incomplete_Presentation) us)),
     ja_incomplete_judgment_snapshot_count = int (length (filter (\<lambda>u. ju_status u = Incomplete_Judgments) us)),
     ja_judged_opportunity_count = sum_list (map ju_judged_opportunity_count us),
     ja_evaluated_opportunity_count = sum_list (map ju_evaluated_depth us),
     ja_judgment_coverage =
       (if sum_list (map ju_evaluated_depth us) \<noteq> 0
        then Some (ranking_ratio (sum_list (map ju_judged_opportunity_count us)) (sum_list (map ju_evaluated_depth us)))
        else None),
     ja_support_status =
       (if int (length ?ready) = 0 then Metric_Unavailable
        else if int (length ?ready) < minimum then Metric_Insufficient_Support else Metric_Ready),
     ja_mean_precision_at_k = p, ja_mean_ndcg_at_k = n\<rparr>"
  have "aggregate_cutoff minimum qs c = Inr a"
    unfolding aggregate_cutoff_def Let_def assms(5) p(1) n(1) bind_res_simps a_def ..
  moreover have "aggregate_sound (length us) minimum a"
  proof (cases "?ready = []")
    case True
    with sums pos cov p n status_partition[of us] assms(1) show ?thesis
      by (simp add: a_def aggregate_sound_def)
  next
    case False
    with sums pos cov p n status_partition[of us] assms(1) show ?thesis
      by (simp add: a_def aggregate_sound_def)
  qed
  ultimately show ?thesis by (intro exI[of _ a]) (simp add: a_def)
qed

lemma map_res_pointwise:
  assumes "\<And>x. x \<in> set xs \<Longrightarrow> \<exists>y. f x = Inr y \<and> g y = x \<and> P y"
  shows "\<exists>ys. map_res f xs = Inr ys \<and> map g ys = xs \<and> list_all P ys"
  using assms
proof (induction xs)
  case (Cons x xs)
  obtain y where "f x = Inr y" "g y = x" "P y" using Cons.prems[of x] by auto
  moreover obtain ys where "map_res f xs = Inr ys" "map g ys = xs" "list_all P ys" using Cons by auto
  ultimately show ?case by simp
qed simp

text \<open>The evaluations of any presentations can be averaged: there is one aggregate per
  requested cutoff, in order; it counts every snapshot once as ready or incomplete, is ready
  exactly from the required number of ready snapshots on, and its coverage and, once a
  snapshot is ready, its means lie between 0 and 1, rounding included.\<close>

theorem ranking_aggregates_are_sound:
  assumes "evaluate_ranking_presentations facts cutoffs = Inr qs"
    and "qs \<noteq> []" "int (length qs) < 10 ^ 28" "0 < minimum"
  shows "\<exists>as. aggregate_ranking_evaluations qs minimum = Inr as \<and> map ja_cutoff as = cutoffs \<and>
    list_all (aggregate_sound (length qs) minimum) as"
proof -
  note q = presentations_sound[OF assms(1)]
  have order: "sorted cutoffs" "distinct cutoffs" using q[of "hd qs"] assms(2) by simp_all
  have "set (concat (map (\<lambda>q. map ju_cutoff (cutoffs_of q)) qs)) = set cutoffs"
    using q assms(2) by (cases qs) auto
  then have cs: "sorted_list_of_set (set (concat (map (\<lambda>q. map ju_cutoff (cutoffs_of q)) qs))) = cutoffs"
    using order by (simp add: sorted_list_of_set.idem_if_sorted_distinct)
  have "\<exists>a. aggregate_cutoff minimum qs c = Inr a \<and> ja_cutoff a = c \<and> aggregate_sound (length qs) minimum a"
    if c: "c \<in> set cutoffs" for c
  proof -
    define us where "us = filter (\<lambda>u. ju_cutoff u = c) (concat (map cutoffs_of qs))"
    have len: "length us = length qs" unfolding us_def using q order(2) c by (intro one_per_snapshot) simp_all
    have "list_all sound_cutoff us" unfolding us_def using q by (auto simp: list_all_iff)
    moreover have "us \<noteq> []" "int (length us) < 10 ^ 28" using assms(2,3) by (simp_all add: len flip: length_greater_0_conv)
    ultimately show ?thesis using aggregated_cutoff[OF assms(4) _ _ _ us_def[symmetric]] unfolding len by blast
  qed
  from map_res_pointwise[OF this] cs assms(4) show ?thesis
    unfolding aggregate_ranking_evaluations_def by (simp add: checks_passes)
qed

theorem ranking_aggregates_are_sound_witness:
  "\<exists>qs as. evaluate_ranking_presentations sample_presentations [1] = Inr qs \<and>
    aggregate_ranking_evaluations qs 30 = Inr as \<and> map ja_cutoff as = [1] \<and> list_all (aggregate_sound 2 30) as"
  using ranking_aggregates_are_sound[OF sample_presentations_evaluated, of 30] sample_presentations_evaluated
  by (auto simp: numeral_2_eq_2)

end
