(* ===== verification/Spec2Isabelle.thy ===== *)
theory Spec2Isabelle
imports Candidate_Properties Outbox_Properties Review_Properties Conversion_Properties Lifecycle_Properties
  Repository_Properties Signal_Properties Realization_Properties AI_Properties
  Ranking_Properties
begin

text \<open>
  A model of the domain core of Lotus Idea, the service that turns source evidence of the
  Lotus platform into opportunities for advisers ("idea candidates") and governs what happens
  to them. Everything under \<open>src/app/domain\<close> that decides whether a candidate may be shown,
  reviewed, approved, converted, handed to a downstream owner, delivered as an event, held or
  purged is translated into definitions; the theorems say what these decisions guarantee.

  \<^bold>\<open>The program.\<close> A signal evaluation produces a candidate with an evidence packet, the list
  of source references it rests on. The candidate has a lifecycle status and a review posture.
  Reviewers act on it through review commands; an approval issues an authority grant for exactly
  the evidence that was seen. A conversion intent uses the grant and moves the candidate to a
  converted status; submissions carry the intent to the owner (Advise, Manage or Report) under
  a lease, and the owner's outcomes are recorded as a versioned stream. When a source changes,
  the candidate is reconciled: evidence or material version move on and earlier grants no longer
  apply. Every accepted mutation appends an outbox event, which workers lease, publish, retry
  and finally dead-letter; operators may recover dead letters a bounded number of times. The
  review queue ranks the reviewable candidates of an audience. Retention control holds, erases
  and purges a candidate's data. The in-memory repository ties these together: it answers a
  repeated idempotency key without doing the work again, stores candidates with their histories
  and appends the events.

  \<^bold>\<open>The theories.\<close> All paths are below \<open>src/app/domain\<close>.
  \<^item> \<open>Prelude\<close>: exceptions as values (\<open>res\<close>), validators as ordered lists of guards, Python text
    and dictionaries, effects (\<open>act\<close>: what was written before an exception stays written).
    \<open>Dec\<close>, \<open>Py_Time\<close>, \<open>Json\<close>, \<open>Sha256\<close>: the parts of Python's \<open>decimal\<close>, \<open>datetime\<close>, \<open>json\<close>
    and \<open>hashlib\<close> the code calls. \<open>Interfaces\<close>: the contracts shared by several components, as
    locales, interpreted on the model's operations.
  \<^item> \<open>Sources\<close>: \<open>source_revision.py\<close>, \<open>evidence_hashing.py\<close>, \<open>evidence_digest.py\<close>. Revision claims,
    the source cut posture, revision-vector and evidence digests.
  \<^item> \<open>Candidate_State\<close>, \<open>Ideas\<close>: \<open>candidate_state.py\<close>, \<open>ideas.py\<close>, \<open>feedback_taxonomy.py\<close>,
    \<open>access_scope.py\<close>. Statuses, postures, the compatibility and transition tables, the records
    of the candidate with their \<open>__post_init__\<close>, \<open>transition_candidate\<close>.
  \<^item> \<open>Control\<close>: \<open>control_time.py\<close>, \<open>audit.py\<close>, \<open>diagnostic_context.py\<close>, \<open>idempotency.py\<close>.
  \<^item> \<open>Scoring\<close>: \<open>scoring.py\<close>. \<open>Identity\<close>: \<open>opportunity_identity.py\<close>, \<open>candidate_reconciliation.py\<close>.
  \<^item> \<open>Review_Authority\<close>: \<open>review_authority.py\<close>, \<open>presentation_receipts.py\<close>. \<open>Review_Governance\<close>:
    \<open>review_governance.py\<close>. \<open>Review_Queue\<close>: \<open>review_queue/policy.py\<close> and the token checks of
    \<open>snapshot.py\<close>.
  \<^item> \<open>Conversion_Policy\<close>: \<open>conversion_outcome_policy.py\<close>. \<open>Conversion_Governance\<close>:
    \<open>conversion_governance.py\<close>. \<open>Downstream\<close>: \<open>downstream_submission.py\<close> and
    \<open>persistence_downstream_submission.py\<close>. \<open>Report_Evidence\<close>: \<open>report_evidence.py\<close>.
  \<^item> \<open>Outbox_Events\<close>, \<open>Outbox_Delivery\<close>, \<open>Outbox_Recovery\<close>: \<open>outbox/events.py\<close>,
    \<open>outbox/delivery.py\<close>, \<open>outbox/recovery.py\<close>.
  \<^item> \<open>Signal_Models\<close>, \<open>Signal_Interface\<close>, \<open>Signal_Scores\<close>: \<open>signal_evaluation_models.py\<close>,
    \<open>signal_evaluation_common.py\<close>, \<open>source_temporal.py\<close>; what every evaluator promises, as the locale
    \<open>signal_evaluator\<close>. The evaluators: \<open>Signal_Thresholds\<close> (\<open>signal_evaluation.py\<close>: high cash,
    concentration, underperformance, mandate health), \<open>Signal_Exposure\<close>
    (\<open>high_volatility_evaluation.py\<close>, \<open>drawdown_review_evaluation.py\<close>,
    \<open>opportunity_family_compatibility.py\<close>), \<open>Signal_Cashflow\<close> (\<open>low_income_signal.py\<close>,
    \<open>bond_maturity_signal.py\<close>), \<open>Signal_Reviews\<close> (\<open>mandate_restriction_signal.py\<close> and the three
    \<open>missing_*_signal.py\<close>). Every one of the twelve interprets the locale.
  \<^item> \<open>Data_Lifecycle\<close>: \<open>data_lifecycle\<close> with its authority and archive receipts and the schedule.
  \<^item> \<open>Repository\<close>: \<open>persistence.py\<close>, \<open>persistence_models.py\<close>, \<open>persistence_review_workflow.py\<close>,
    \<open>persistence_conversion_outcomes.py\<close>, \<open>persistence_lookups.py\<close>,
    \<open>persistence_presentation_receipts.py\<close>, \<open>outbox/persistence.py\<close>.
  \<^item> \<open>Realization\<close>, \<open>Realization_Laws\<close>: \<open>advise_realization.py\<close>, \<open>manage_realization.py\<close>, their
    repository mixins and \<open>advise_evidence_identity.py\<close>: what the owners report about the work
    that came of a conversion. Both stores interpret the locale \<open>history_store\<close>.
  \<^item> \<open>AI_Action_Policy\<close>: \<open>ai_action_policy.py\<close> with the part of \<open>re\<close> it uses,
    \<open>ai_metadata_policy.py\<close>. \<open>AI_Governance\<close>: \<open>ai_governance.py\<close>, \<open>ai_output_integrity.py\<close>,
    \<open>ai_execution_provenance.py\<close>, \<open>ai_explanation/grounding.py\<close>. \<open>AI_Lineage\<close>:
    \<open>ai_lineage_persistence.py\<close>, the receipts of \<open>lotus_ai_run_attestation.py\<close> and
    \<open>ai_provider_retention.py\<close> and their replay indexes. \<open>AI_Repository\<close>, \<open>AI_Laws\<close>:
    \<open>persistence_ai_lineage.py\<close>, \<open>ai_lineage_idempotency.py\<close>; both replay indexes interpret the
    locale \<open>replay_index\<close>.
  \<^item> \<open>Ranking\<close>, \<open>Ranking_Laws\<close>: \<open>ranking_evaluation.py\<close>. How good and how stable the order of the
    presented queues was.
  \<^item> \<open>Samples\<close> holds concrete values; the \<open>_Properties\<close> theories state the properties of each
    group of components and apply each of them to concrete values; this theory states those
    that span components.

  \<^bold>\<open>How the code is represented.\<close> A dataclass is a record and its \<open>__post_init__\<close> a list of
  guards, run again wherever the code builds the object or calls \<open>replace\<close>. An enumeration is a
  datatype with a \<open>_value\<close> function where its text matters. A raise is the left of a sum, with
  the arguments of the exception. A dictionary is an association list in insertion order. An
  operation on shared dictionaries is an \<open>act\<close>: state in, result and state out. The clock is
  an argument. Sorting is the stable \<open>sort_key\<close>. Decimals are exact rationals quantised as the
  code does, with their exponent where their text enters a digest (\<open>dec_value\<close>). Digests are computed (JSON text, UTF-8, SHA-256), so that statements about them
  need no assumption; where a result depends on digests being different, the theorem speaks
  about the digests (the ids of recoveries, 128 bits of a hash, must not collide for the
  recovery limit to hold). A timestamp keeps its wall time and offset, and is compared as an instant.

  \<^bold>\<open>What the theorems show.\<close> Detection: an evaluator answers with a candidate exactly when the
  condition of its family holds on usable sources, never raises on a well-posed request, and a
  detected candidate is accepted by the repository; a later detection of the same opportunity
  reconciles with what transitions and reviews
  have made of it. Candidates: every run of transitions ends and stays valid, a
  conversion is preceded by review and approval. Review: an accepted action implements an
  abstract contract; only an approval issues a grant, for the evidence reviewed, and a
  reconciliation supersedes it. Conversion: intents need an active grant of the named review on
  the current evidence; outcome histories are exactly the well-formed streams; realisation stops
  when the candidate moves on. Submissions and outbox events: leases make completion exclusive,
  nothing regresses under any interleaving of the operations, retries back off within bounds,
  accepted recoveries of an event stay within the limit however often it is dead-lettered again.
  The queue lists exactly the permitted candidates, the higher score first.
  The owners' histories are exactly the paths of their workflows, only grow and belong to the
  receipt of a settled submission. An AI text reaches an adviser only when its actions are on
  the allow list and its claims are grounded in the evidence; its lineage is an append-only log
  in which a receipt serves one request, and its replay indexes survive a restart.
  The ranking metrics and their averages lie between 0 and 1 whatever the rounding, a relevance is
  the last word on an opportunity, and stability is 1 for the same and 0 for the reversed order.
  Holds protect data, purges follow erasure and retention. Repository: keys are applied once,
  histories stay well-formed, records keep their tenant. The composition theorems follow one
  candidate from its detection and review to the realisation of its conversion.

  \<^bold>\<open>Bounds.\<close> A run of candidate transitions has at most ten steps, since the transition graph
  has no longer path. The retry delay lies between 60 and 900 seconds. A dead letter is
  recovered at most as often as the caller's limit. Queue and review batches have the code's
  limits. No definition uses fuel: every loop of the modelled code runs over a finite
  collection. Runs of the repository are those in which no conversion intent carries the id of an
  intent filed for another candidate; the code would file it for the new candidate without a check.

  \<^bold>\<open>Limits of the model.\<close> Characters of strings are code points below 256. Timestamps are
  integers of microseconds without the range of \<open>datetime\<close>. Dynamic type checks
  (\<open>isinstance\<close>) are replaced by the types of the model. Python's dictionaries and lists are
  shared by reference, but every modelled value object is frozen, so no aliasing is lost.

  \<^bold>\<open>Not modelled.\<close> The operational posture records, the signed
  envelopes of lifecycle authority and of AI receipts (their signatures are checked outside the domain), the
  digest of the serialised review queue, PostgreSQL, HTTP clients, FastAPI routes and scripts.
\<close>

section \<open>From a review to the owner\<close>

text \<open>C7: an approval is enough to convert: a candidate approved by a review can be converted,
  under the grant of that review, by every valid command that names the review and the
  approved evidence and arrives in time, and the intent may be realised at once.\<close>

theorem approved_candidate_converts:
  assumes "apply_review_action c w t receipt policy = Inr r" "well_formed_candidate c"
    and "rw_action w = Approve_For_Conversion" "rw_review_channel w \<noteq> Legacy_Unverified"
    and "passes (intent_command_guards v)"
    and "iw_expected_review_id v = rw_review_id w" "iw_expected_candidate_evidence v = evidence_identity_of c"
    and "passes (require_observed_time_within_policy (iw_requested_at_utc v) u CONVERSION_INTENT_TIME_POLICY)"
    and "inst t \<le> inst u"
    and "\<forall>x. ep_applicability_expires_at_utc (cd_evidence_packet c) = Some x \<longrightarrow> inst u < inst x"
  shows "\<exists>g i. ra_authority_grant r = Some g \<and>
    request_conversion_intent (ra_candidate r) v u g = Inr i \<and>
    validate_conversion_intent_for_realization (ia_candidate i) (ia_conversion_intent i) u = Inr ()"
  by (rule approval_converts[OF assms])

theorem approved_candidate_converts_witness:
  "\<exists>r g i. apply_review_action sample_candidate (sample_review Approve_For_Conversion) (utc 200) None sample_policy = Inr r \<and>
     ra_authority_grant r = Some g \<and> request_conversion_intent (ra_candidate r) sample_intent (utc 400) g = Inr i"
proof -
  obtain r where r: "apply_review_action sample_candidate (sample_review Approve_For_Conversion) (utc 200) None
      sample_policy = Inr r" using sample_review_accepted[of Approve_For_Conversion] by blast
  have w: "rw_action (sample_review Approve_For_Conversion) = Approve_For_Conversion"
    "rw_review_channel (sample_review Approve_For_Conversion) \<noteq> Legacy_Unverified"
    "iw_expected_review_id sample_intent = rw_review_id (sample_review Approve_For_Conversion)"
    "iw_expected_candidate_evidence sample_intent = evidence_identity_of sample_candidate"
    by (simp_all add: sample_review_def sample_intent_def)
  from approved_candidate_converts[OF r sample_candidate_well_formed w(1,2) sample_intent_guards w(3,4)
      sample_intent_time[of 400]] sample_no_expiry r
  show ?thesis by fastforce
qed

end
